(* ===== verification/GoPrelude.thy ===== *)
theory GoPrelude
  imports Main "HOL-Library.Word"
begin

text \<open>
  Shared vocabulary of the development: the outcome of a Go call, Go errors, pointers as
  options, explicit state passing, and the collections of rewrite rules the component
  theories add to.

  A Go function that returns \<open>(T, error)\<close> is a function into \<open>'a res\<close>: \<open>Ok\<close> is a nil
  error, \<open>Err\<close> a non-nil one, and \<open>Panic\<close> a run-time panic (an index out of range, a nil
  dereference, a write to a nil map, an explicit \<open>panic\<close>). A Go function that talks to the
  outside (Azure, the Kubernetes API server, the clock) takes and returns a world.
\<close>

named_theorems go_defs \<open>unfolding rules for small translated functions\<close>
named_theorems go_laws \<open>laws of the Go standard library models\<close>

subsection \<open>Errors\<close>

text \<open>
  \<open>ErrorString\<close> is \<open>errors.New\<close> or \<open>fmt.Errorf\<close> without \<open>%w\<close>; \<open>Sentinel n\<close> is the package-level
  error variable \<open>n\<close>, which callers compare by identity; \<open>Wrapped m e\<close> is
  \<open>fmt.Errorf("m%w", e)\<close>, which keeps \<open>e\<close> reachable for \<open>errors.As\<close>; \<open>ResponseError c\<close> is
  \<open>azcore.ResponseError\<close> with its \<open>ErrorCode\<close>; \<open>MachineNotFound\<close>, \<open>InsufficientCapacity\<close>
  and \<open>NodeDrain\<close> are karpenter's error types of these names, which embed an error and do not unwrap it;
  \<open>StatusError r\<close> is an error of the Kubernetes API with its reason.
\<close>

datatype goerr =
    ErrorString string
  | Sentinel string
  | ResponseError string
  | MachineNotFound goerr
  | InsufficientCapacity goerr
  | NodeDrain goerr
  | StatusError string
  | Wrapped string goerr

datatype (plugins del: size) 'a res =
    Ok 'a
  | Err goerr
  | Panic string

text \<open>\<open>errors.As\<close> with target \<open>*azcore.ResponseError\<close>: the first one in the chain.\<close>

fun IsResponseError :: "goerr \<Rightarrow> string option" where
  "IsResponseError (ErrorString m) = None"
| "IsResponseError (Sentinel n) = None"
| "IsResponseError (ResponseError c) = Some c"
| "IsResponseError (MachineNotFound e) = None"
| "IsResponseError (InsufficientCapacity e) = None"
| "IsResponseError (NodeDrain e) = None"
| "IsResponseError (StatusError r) = None"
| "IsResponseError (Wrapped m e) = IsResponseError e"

fun IsMachineNotFoundError :: "goerr \<Rightarrow> bool" where
  "IsMachineNotFoundError (ErrorString m) = False"
| "IsMachineNotFoundError (Sentinel n) = False"
| "IsMachineNotFoundError (ResponseError c) = False"
| "IsMachineNotFoundError (MachineNotFound e) = True"
| "IsMachineNotFoundError (InsufficientCapacity e) = False"
| "IsMachineNotFoundError (NodeDrain e) = False"
| "IsMachineNotFoundError (StatusError r) = False"
| "IsMachineNotFoundError (Wrapped m e) = IsMachineNotFoundError e"

fun is_Ok :: "'a res \<Rightarrow> bool" where
  "is_Ok (Ok x) = True"
| "is_Ok (Err e) = False"
| "is_Ok (Panic m) = False"

fun is_Panic :: "'a res \<Rightarrow> bool" where
  "is_Panic (Ok x) = False"
| "is_Panic (Err e) = False"
| "is_Panic (Panic m) = True"

text \<open>\<open>fmt.Errorf("m%w", err)\<close> on the error path, a panic passing through.\<close>

fun wrap_err :: "string \<Rightarrow> 'a res \<Rightarrow> 'a res" where
  "wrap_err m (Ok x) = Ok x"
| "wrap_err m (Err e) = Err (Wrapped m e)"
| "wrap_err m (Panic p) = Panic p"

type_synonym ('w, 'a) act = "'w \<Rightarrow> 'a res \<times> 'w"

text \<open>Sequencing: the Go \<open>if err != nil { return err }\<close> between two calls.\<close>

definition res_bind :: "'a res \<Rightarrow> ('a \<Rightarrow> 'b res) \<Rightarrow> 'b res" where
  "res_bind r f = (case r of Ok x \<Rightarrow> f x | Err e \<Rightarrow> Err e | Panic m \<Rightarrow> Panic m)"

definition act_bind :: "('w, 'a) act \<Rightarrow> ('a \<Rightarrow> ('w, 'b) act) \<Rightarrow> ('w, 'b) act" where
  "act_bind m f w =
     (case m w of
        (Ok x, w') \<Rightarrow> f x w'
      | (Err e, w') \<Rightarrow> (Err e, w')
      | (Panic p, w') \<Rightarrow> (Panic p, w'))"

definition act_return :: "'a res \<Rightarrow> ('w, 'a) act" where
  "act_return r w = (r, w)"

lemma res_bind_simps [simp]:
  "res_bind (Ok x) f = f x"
  "res_bind (Err e) f = Err e"
  "res_bind (Panic m) f = Panic m"
  by (simp_all add: res_bind_def)

lemma act_return_simp [simp]: "act_return r w = (r, w)"
  by (simp add: act_return_def)

lemma act_bind_Ok [simp]: "m w = (Ok x, w') \<Longrightarrow> act_bind m f w = f x w'"
  by (simp add: act_bind_def)

lemma act_bind_Err [simp]: "m w = (Err e, w') \<Longrightarrow> act_bind m f w = (Err e, w')"
  by (simp add: act_bind_def)

lemma act_bind_Panic [simp]: "m w = (Panic p, w') \<Longrightarrow> act_bind m f w = (Panic p, w')"
  by (simp add: act_bind_def)

lemma act_bind_assoc:
  "act_bind (act_bind m f) g = act_bind m (\<lambda>x. act_bind (f x) g)"
  by (rule ext) (simp add: act_bind_def split: prod.splits res.splits)

lemma act_bind_eq_Ok:
  assumes "act_bind m f w = (Ok y, w2)"
  obtains x w1 where "m w = (Ok x, w1)" "f x w1 = (Ok y, w2)"
  using assms by (auto simp: act_bind_def split: prod.splits res.splits)

lemma res_bind_eq_Ok_iff:
  "res_bind r f = Ok y \<longleftrightarrow> (\<exists>x. r = Ok x \<and> f x = Ok y)"
  by (cases r) auto

lemma res_bind_assoc: "res_bind (res_bind r f) g = res_bind r (\<lambda>x. res_bind (f x) g)"
  by (cases r) simp_all

lemma res_bind_map: "res_bind (map_res f r) g = res_bind r (\<lambda>x. g (f x))"
  by (cases r) simp_all

lemma res_bind_Ok: "res_bind r (\<lambda>x. Ok (f x)) = map_res f r"
  by (cases r) simp_all

lemma wrap_err_eq_Ok [simp]: "wrap_err m r = Ok x \<longleftrightarrow> r = Ok x"
  by (cases r) auto

lemma wrap_err_eq_Panic [simp]: "wrap_err m r = Panic p \<longleftrightarrow> r = Panic p"
  by (cases r) auto

lemma wrap_err_eq_Err:
  "wrap_err m r = Err e \<longleftrightarrow> (\<exists>e'. r = Err e' \<and> e = Wrapped m e')"
  by (cases r) auto

lemma map_res_eq_Ok [simp]: "map_res f r = Ok y \<longleftrightarrow> (\<exists>x. r = Ok x \<and> y = f x)"
  by (cases r) auto

subsection \<open>Pointers\<close>

text \<open>A nil pointer is \<open>None\<close>. \<open>lo.FromPtr\<close> reads the zero value through a nil pointer.\<close>

definition FromPtr :: "'a \<Rightarrow> 'a option \<Rightarrow> 'a" where
  "FromPtr zero p = (case p of None \<Rightarrow> zero | Some x \<Rightarrow> x)"

lemma FromPtr_simps [simp]:
  "FromPtr z None = z"
  "FromPtr z (Some x) = x"
  by (simp_all add: FromPtr_def)

text \<open>A dereference \<open>*p\<close> of a nil pointer panics.\<close>

definition Deref :: "'a option \<Rightarrow> 'a res" where
  "Deref p = (case p of None \<Rightarrow> Panic ''nil pointer dereference'' | Some x \<Rightarrow> Ok x)"

lemma Deref_simps [simp]:
  "Deref None = Panic ''nil pointer dereference''"
  "Deref (Some x) = Ok x"
  by (simp_all add: Deref_def)

subsection \<open>Maps\<close>

text \<open>\<open>lo.Assign(m1, m2)\<close>: the entries of \<open>m2\<close> win.\<close>

definition Assign2 :: "('k \<rightharpoonup> 'v) \<Rightarrow> ('k \<rightharpoonup> 'v) \<Rightarrow> ('k \<rightharpoonup> 'v)" where
  "Assign2 m1 m2 = m1 ++ m2"

text \<open>\<open>lo.MapValues\<close>.\<close>

definition MapValues :: "('k \<rightharpoonup> 'v) \<Rightarrow> ('v \<Rightarrow> 'r) \<Rightarrow> ('k \<rightharpoonup> 'r)" where
  "MapValues m f = (\<lambda>k. map_option f (m k))"

lemma Assign2_apply:
  "Assign2 m1 m2 k = (case m2 k of None \<Rightarrow> m1 k | Some v \<Rightarrow> Some v)"
  by (simp add: Assign2_def map_add_def)

lemma Assign2_idem [simp]: "Assign2 m m = m"
  by (rule ext) (simp add: Assign2_apply split: option.splits)

lemma dom_MapValues [simp]: "dom (MapValues m f) = dom m"
  by (auto simp: MapValues_def)

subsection \<open>Lists\<close>

lemma append_Cons_eq_iff:
  "c \<notin> set a \<Longrightarrow> c \<notin> set a' \<Longrightarrow> a @ c # b = a' @ c # b' \<longleftrightarrow> a = a' \<and> b = b'"
proof (induction a arbitrary: a')
  case Nil
  then show ?case by (cases a') auto
next
  case (Cons x a)
  then show ?case by (cases a') auto
qed

subsection \<open>Machine integers\<close>

text \<open>Go's conversions \<open>int32(x)\<close> and \<open>int64(x)\<close> of a wider integer keep the low bits.\<close>

definition int32_of :: "int \<Rightarrow> int" where
  "int32_of x = sint (word_of_int x :: 32 word)"

definition int64_of :: "int \<Rightarrow> int" where
  "int64_of x = sint (word_of_int x :: 64 word)"

lemma int32_of_bounds: "- (2 ^ 31) \<le> int32_of x \<and> int32_of x < 2 ^ 31"
  using sint_range_size [of "word_of_int x :: 32 word"]
  by (simp add: int32_of_def word_size)

lemma int32_of_signed_take: "int32_of x = signed_take_bit 31 x"
  by (simp add: int32_of_def signed_of_int)

lemma int64_of_signed_take: "int64_of x = signed_take_bit 63 x"
  by (simp add: int64_of_def signed_of_int)

lemma int32_of_id:
  assumes "- (2 ^ 31) \<le> x" "x < 2 ^ 31"
  shows "int32_of x = x"
  using assms by (simp add: int32_of_signed_take signed_take_bit_int_eq_self)

lemma int64_of_id:
  assumes "- (2 ^ 63) \<le> x" "x < 2 ^ 63"
  shows "int64_of x = x"
  using assms by (simp add: int64_of_signed_take signed_take_bit_int_eq_self)

lemma int32_of_multiple: "int32_of (k * 2 ^ 32) = 0"
proof -
  have "(2 ^ 32 :: 32 word) = 0" by simp
  then have "(word_of_int (k * 2 ^ 32) :: 32 word) = 0"
    by (simp only: of_int_mult of_int_power of_int_numeral mult_zero_right)
  then show ?thesis by (simp add: int32_of_def)
qed

end
