(* ===== verification/GoStrings.thy ===== *)
theory GoStrings
  imports GoPrelude
begin

text \<open>
  The functions of Go's \<open>strings\<close>, \<open>strconv\<close> and \<open>fmt\<close> that the program calls, on byte
  strings (\<open>string\<close> is a list of 8-bit characters, as a Go string is a sequence of bytes).
  Case folding and white space are those of ASCII text, which Azure names, label keys and
  SKU names are made of.
\<close>

subsection \<open>Prefixes, suffixes, substrings\<close>

definition HasPrefix :: "string \<Rightarrow> string \<Rightarrow> bool" where
  "HasPrefix s p \<longleftrightarrow> take (length p) s = p"

definition HasSuffix :: "string \<Rightarrow> string \<Rightarrow> bool" where
  "HasSuffix s p \<longleftrightarrow> length p \<le> length s \<and> drop (length s - length p) s = p"

definition TrimSuffix :: "string \<Rightarrow> string \<Rightarrow> string" where
  "TrimSuffix s p = (if HasSuffix s p then take (length s - length p) s else s)"

text \<open>\<open>strings.Index\<close>, with \<open>None\<close> for \<open>-1\<close>.\<close>

fun Index :: "string \<Rightarrow> string \<Rightarrow> nat option" where
  "Index [] sub = (if sub = [] then Some 0 else None)"
| "Index (c # cs) sub =
     (if HasPrefix (c # cs) sub then Some 0 else map_option Suc (Index cs sub))"

definition Contains :: "string \<Rightarrow> string \<Rightarrow> bool" where
  "Contains s sub \<longleftrightarrow> Index s sub \<noteq> None"

lemma HasPrefix_append [simp]: "HasPrefix (p @ s) p"
  by (simp add: HasPrefix_def)

lemma HasPrefix_iff: "HasPrefix s p \<longleftrightarrow> (\<exists>t. s = p @ t)"
  by (metis HasPrefix_append HasPrefix_def append_take_drop_id)

lemma HasSuffix_append [simp]: "HasSuffix (s @ p) p"
  by (simp add: HasSuffix_def)

lemma HasSuffix_iff: "HasSuffix s p \<longleftrightarrow> (\<exists>t. s = t @ p)"
  by (metis HasSuffix_append HasSuffix_def append_take_drop_id)

lemma TrimSuffix_append [simp]: "TrimSuffix (s @ p) p = s"
  by (simp add: TrimSuffix_def)

lemma TrimSuffix_id: "\<not> HasSuffix s p \<Longrightarrow> TrimSuffix s p = s"
  by (simp add: TrimSuffix_def)

lemma Index_Some:
  "Index s sub = Some i \<Longrightarrow> i + length sub \<le> length s \<and> take (length sub) (drop i s) = sub"
proof (induction s arbitrary: i)
  case Nil
  then show ?case by (auto split: if_splits)
next
  case (Cons c cs)
  show ?case
  proof (cases "HasPrefix (c # cs) sub")
    case True
    then obtain t where t: "c # cs = sub @ t" by (auto simp: HasPrefix_iff)
    then have "length (c # cs) = length sub + length t" by (metis length_append)
    moreover have "i = 0" using True Cons.prems by simp
    ultimately show ?thesis using True by (simp add: HasPrefix_def)
  next
    case False
    with Cons.prems obtain j where "Index cs sub = Some j" "i = Suc j" by auto
    with Cons.IH show ?thesis by fastforce
  qed
qed

lemma Index_Some_less:
  "Index s sep = Some m \<Longrightarrow> sep \<noteq> [] \<Longrightarrow> length s - (m + length sep) < length s"
  using Index_Some [of s sep m] by (cases sep) auto

lemma Index_None: "Index s sub = None \<Longrightarrow> s \<noteq> a @ sub @ b"
proof (induction s arbitrary: a)
  case Nil
  then show ?case by (auto split: if_splits)
next
  case (Cons c cs)
  have np: "\<not> HasPrefix (c # cs) sub" and none: "Index cs sub = None"
    using Cons.prems by (auto split: if_splits)
  show ?case
  proof (cases a)
    case Nil
    with np show ?thesis by (auto simp: HasPrefix_iff)
  next
    case (Cons d a')
    with Cons.IH [OF none, of a'] show ?thesis by auto
  qed
qed

lemma Contains_iff: "Contains s sub \<longleftrightarrow> (\<exists>a b. s = a @ sub @ b)"
proof
  assume "Contains s sub"
  then obtain i where i: "Index s sub = Some i" by (auto simp: Contains_def)
  have "s = take i s @ take (length sub) (drop i s) @ drop (i + length sub) s"
    by (metis append_take_drop_id drop_drop add.commute)
  with Index_Some [OF i] show "\<exists>a b. s = a @ sub @ b" by metis
next
  assume "\<exists>a b. s = a @ sub @ b"
  then show "Contains s sub" using Index_None by (metis Contains_def)
qed

text \<open>A one-character separator is found at its first occurrence.\<close>

lemma Index_single: "Index s [c] = (if c \<in> set s then Some (length (takeWhile (\<lambda>x. x \<noteq> c) s)) else None)"
  by (induction s) (auto simp: HasPrefix_def)

subsection \<open>Splitting and joining\<close>

text \<open>
  \<open>strings.Split\<close> and \<open>strings.SplitAfter\<close>: cut at every non-overlapping occurrence of the
  separator from the left; an empty separator splits into single characters.
\<close>

function Split :: "string \<Rightarrow> string \<Rightarrow> string list" where
  "Split s sep =
     (if sep = [] then map (\<lambda>c. [c]) s
      else case Index s sep of
             None \<Rightarrow> [s]
           | Some m \<Rightarrow> take m s # Split (drop (m + length sep) s) sep)"
  by pat_completeness auto
termination
  by (relation "measure (\<lambda>(s, sep). length s)") (auto intro: Index_Some_less)

function SplitAfter :: "string \<Rightarrow> string \<Rightarrow> string list" where
  "SplitAfter s sep =
     (if sep = [] then map (\<lambda>c. [c]) s
      else case Index s sep of
             None \<Rightarrow> [s]
           | Some m \<Rightarrow> take (m + length sep) s # SplitAfter (drop (m + length sep) s) sep)"
  by pat_completeness auto
termination
  by (relation "measure (\<lambda>(s, sep). length s)") (auto intro: Index_Some_less)

declare Split.simps [simp del] SplitAfter.simps [simp del]

fun Join :: "string list \<Rightarrow> string \<Rightarrow> string" where
  "Join [] sep = []"
| "Join [x] sep = x"
| "Join (x # y # zs) sep = x @ sep @ Join (y # zs) sep"

lemma Split_not_empty: "sep \<noteq> [] \<Longrightarrow> Split s sep \<noteq> []"
  by (subst Split.simps) (simp split: option.splits)

lemma Split_no_sep: "c \<notin> set s \<Longrightarrow> Split s [c] = [s]"
  by (subst Split.simps) (simp add: Index_single)

lemma Split_Cons: "c \<notin> set a \<Longrightarrow> Split (a @ c # b) [c] = a # Split b [c]"
proof -
  assume c: "c \<notin> set a"
  then have "takeWhile (\<lambda>x. x \<noteq> c) (a @ c # b) = a" by (induction a) auto
  then have "Index (a @ c # b) [c] = Some (length a)" by (simp add: Index_single)
  then show ?thesis by (subst Split.simps) simp
qed

lemma Join_Cons: "xs \<noteq> [] \<Longrightarrow> Join (x # xs) sep = x @ sep @ Join xs sep"
  by (cases xs) auto

lemma Join_Split: "sep \<noteq> [] \<Longrightarrow> Join (Split s sep) sep = s"
proof (induction s sep rule: Split.induct)
  case (1 s sep)
  show ?case
  proof (cases "Index s sep")
    case None
    with "1.prems" show ?thesis by (subst Split.simps) simp
  next
    case (Some m)
    have "s = take m s @ take (length sep) (drop m s) @ drop (m + length sep) s"
      by (metis append_take_drop_id drop_drop add.commute)
    then have "s = take m s @ sep @ drop (m + length sep) s"
      using Index_Some [OF Some] by simp
    moreover have "Join (Split (drop (m + length sep) s) sep) sep = drop (m + length sep) s"
      using "1.IH" [OF "1.prems" Some] "1.prems" by blast
    ultimately show ?thesis
      using Some "1.prems"
      by (subst Split.simps) (simp add: Join_Cons Split_not_empty)
  qed
qed

lemma SplitAfter_not_empty: "sep \<noteq> [] \<Longrightarrow> SplitAfter s sep \<noteq> []"
  by (subst SplitAfter.simps) (simp split: option.splits)

lemma hd_SplitAfter:
  assumes "sep \<noteq> []"
  shows "hd (SplitAfter s sep) =
    (case Index s sep of None \<Rightarrow> s | Some m \<Rightarrow> take (m + length sep) s)"
  using assms by (subst SplitAfter.simps) (simp split: option.splits)

lemma Index_skip:
  "c \<notin> set a \<Longrightarrow> Index (a @ s) (c # p) = map_option (\<lambda>m. length a + m) (Index s (c # p))"
  by (induction a) (cases "Index s (c # p)"; auto simp: HasPrefix_def)+

lemma Index_miss: "\<not> HasPrefix s p \<Longrightarrow> Index (c # s) (c # p) = map_option Suc (Index s (c # p))"
  by (simp add: HasPrefix_def)

lemma Index_hit: "Index (p @ s) p = Some 0"
  using HasPrefix_append [of p s] by (cases "p @ s") auto

subsection \<open>Case and white space\<close>

definition to_lower_char :: "char \<Rightarrow> char" where
  "to_lower_char c =
     (let n = (of_char c :: nat) in if 65 \<le> n \<and> n \<le> 90 then char_of (n + 32) else c)"

definition ToLower :: "string \<Rightarrow> string" where
  "ToLower s = map to_lower_char s"

definition EqualFold :: "string \<Rightarrow> string \<Rightarrow> bool" where
  "EqualFold a b \<longleftrightarrow> ToLower a = ToLower b"

definition is_space :: "char \<Rightarrow> bool" where
  "is_space c \<longleftrightarrow> (of_char c :: nat) \<in> {9, 10, 11, 12, 13, 32}"

definition TrimLeftFunc :: "string \<Rightarrow> (char \<Rightarrow> bool) \<Rightarrow> string" where
  "TrimLeftFunc s p = dropWhile p s"

definition TrimFunc :: "string \<Rightarrow> (char \<Rightarrow> bool) \<Rightarrow> string" where
  "TrimFunc s p = rev (dropWhile p (rev (dropWhile p s)))"

definition TrimSpace :: "string \<Rightarrow> string" where
  "TrimSpace s = TrimFunc s is_space"

definition Trim :: "string \<Rightarrow> string \<Rightarrow> string" where
  "Trim s cutset = TrimFunc s (\<lambda>c. c \<in> set cutset)"

lemma to_lower_char_idem [simp]: "to_lower_char (to_lower_char c) = to_lower_char c"
proof (cases "65 \<le> (of_char c :: nat) \<and> (of_char c :: nat) \<le> 90")
  case True
  then have "(of_char (char_of (of_char c + 32 :: nat)) :: nat) = of_char c + 32"
    by (simp add: of_char_of)
  with True show ?thesis by (simp add: to_lower_char_def Let_def)
next
  case False
  then show ?thesis by (auto simp: to_lower_char_def Let_def)
qed

lemma ToLower_idem [simp]: "ToLower (ToLower s) = ToLower s"
  by (simp add: ToLower_def comp_def)

lemma ToLower_append [simp]: "ToLower (a @ b) = ToLower a @ ToLower b"
  by (simp add: ToLower_def)

lemma to_lower_char_eq_iff:
  assumes "(of_char d :: nat) < 65 \<or> 123 \<le> (of_char d :: nat)"
  shows "to_lower_char c = d \<longleftrightarrow> c = d"
proof (cases "65 \<le> (of_char c :: nat) \<and> (of_char c :: nat) \<le> 90")
  case True
  then have "(of_char (to_lower_char c) :: nat) = of_char c + 32"
    by (simp add: to_lower_char_def of_char_of)
  with True assms show ?thesis by auto
next
  case False
  then show ?thesis by (auto simp: to_lower_char_def Let_def)
qed

lemma ToLower_keeps_absent:
  assumes "(of_char d :: nat) < 65 \<or> 123 \<le> (of_char d :: nat)"
  shows "d \<in> set (ToLower s) \<longleftrightarrow> d \<in> set s"
proof -
  have "(d = to_lower_char c) = (d = c)" for c
    using to_lower_char_eq_iff [OF assms, of c] by (auto simp: eq_commute)
  then show ?thesis by (induction s) (simp_all add: ToLower_def)
qed

lemma TrimFunc_idem: "TrimFunc (TrimFunc s p) p = TrimFunc s p"
proof -
  define t where "t = dropWhile p s"
  define m where "m = length t - length (takeWhile p (rev t))"
  have u: "rev (dropWhile p (rev t)) = take m t"
    by (simp add: m_def dropWhile_eq_drop rev_drop)
  have "t = [] \<or> \<not> p (hd t)"
    using hd_dropWhile [of p s] by (auto simp: t_def)
  then have "take m t = [] \<or> \<not> p (hd (take m t))"
    by (cases t; cases m) simp_all
  then have "dropWhile p (take m t) = take m t"
    by (simp only: dropWhile_eq_self_iff)
  moreover have "TrimFunc s p = take m t" by (simp add: TrimFunc_def u flip: t_def)
  moreover have "rev (dropWhile p (rev (take m t))) = take m t"
    unfolding u [symmetric] by simp
  ultimately show ?thesis by (simp add: TrimFunc_def)
qed

lemma TrimSpace_idem [simp]: "TrimSpace (TrimSpace s) = TrimSpace s"
  by (simp add: TrimSpace_def TrimFunc_idem)

subsection \<open>Numbers\<close>

definition digit_char :: "nat \<Rightarrow> char" where
  "digit_char d = char_of (48 + d)"

definition digit_value :: "char \<Rightarrow> nat option" where
  "digit_value c = (let n = (of_char c :: nat) in if 48 \<le> n \<and> n \<le> 57 then Some (n - 48) else None)"

text \<open>\<open>fmt.Sprintf("%d", n)\<close> and \<open>fmt.Sprint(n)\<close>.\<close>

fun show_nat :: "nat \<Rightarrow> string" where
  "show_nat n = (if n < 10 then [digit_char n] else show_nat (n div 10) @ [digit_char (n mod 10)])"

declare show_nat.simps [simp del]

definition show_int :: "int \<Rightarrow> string" where
  "show_int i = (if i < 0 then CHR ''-'' # show_nat (nat (- i)) else show_nat (nat i))"

fun digits_value :: "nat \<Rightarrow> string \<Rightarrow> nat option" where
  "digits_value acc [] = Some acc"
| "digits_value acc (c # cs) =
     (case digit_value c of None \<Rightarrow> None | Some d \<Rightarrow> digits_value (10 * acc + d) cs)"

definition parse_nat :: "string \<Rightarrow> nat option" where
  "parse_nat s = (if s = [] then None else digits_value 0 s)"

text \<open>\<open>%q\<close> of a string: the Go literal that denotes it, on ASCII text.\<close>

definition hex_digit :: "nat \<Rightarrow> char" where
  "hex_digit d = (if d < 10 then char_of (48 + d) else char_of (87 + d))"

definition quote_char :: "char \<Rightarrow> string" where
  "quote_char c =
     (let n = (of_char c :: nat) in
      if n = 34 \<or> n = 92 then [CHR 0x5C, c]
      else if n = 7 then [CHR 0x5C, CHR ''a'']
      else if n = 8 then [CHR 0x5C, CHR ''b'']
      else if n = 12 then [CHR 0x5C, CHR ''f'']
      else if n = 10 then [CHR 0x5C, CHR ''n'']
      else if n = 13 then [CHR 0x5C, CHR ''r'']
      else if n = 9 then [CHR 0x5C, CHR ''t'']
      else if n = 11 then [CHR 0x5C, CHR ''v'']
      else if n < 32 \<or> n = 127 then [CHR 0x5C, CHR ''x'', hex_digit (n div 16), hex_digit (n mod 16)]
      else [c])"

definition quote :: "string \<Rightarrow> string" where
  "quote s = CHR 0x22 # concat (map quote_char s) @ [CHR 0x22]"

text \<open>
  \<open>strconv.ParseInt(s, 10, 64)\<close> and \<open>strconv.Atoi(s)\<close> on a 64-bit platform: an optional
  sign, at least one digit, nothing else; a value outside 64 bits is an error.
\<close>

definition ParseInt64 :: "string \<Rightarrow> int option" where
  "ParseInt64 s =
     (let neg = (case s of [] \<Rightarrow> False | c # _ \<Rightarrow> c = CHR ''-'');
          body = (case s of [] \<Rightarrow> [] | c # cs \<Rightarrow> if c = CHR ''-'' \<or> c = CHR ''+'' then cs else s)
      in case parse_nat body of
           None \<Rightarrow> None
         | Some n \<Rightarrow>
             (let v = (if neg then - int n else int n)
              in if - (2 ^ 63) \<le> v \<and> v < 2 ^ 63 then Some v else None))"

text \<open>
  The value \<open>strconv.Atoi\<close> returns beside its error: 0 on a syntax error, the nearest 64-bit
  integer on a range error.
\<close>

definition Atoi_value :: "string \<Rightarrow> int" where
  "Atoi_value s =
     (let neg = (case s of [] \<Rightarrow> False | c # _ \<Rightarrow> c = CHR ''-'');
          body = (case s of [] \<Rightarrow> [] | c # cs \<Rightarrow> if c = CHR ''-'' \<or> c = CHR ''+'' then cs else s)
      in case parse_nat body of
           None \<Rightarrow> 0
         | Some n \<Rightarrow> max (- (2 ^ 63)) (min (2 ^ 63 - 1) (if neg then - int n else int n)))"

lemma Atoi_value_ParseInt64: "ParseInt64 s = Some v \<Longrightarrow> Atoi_value s = v"
  by (auto simp: ParseInt64_def Atoi_value_def Let_def split: option.splits if_splits)

text \<open>\<open>strconv.ParseBool\<close>.\<close>

definition ParseBool :: "string \<Rightarrow> bool option" where
  "ParseBool s =
     (if s \<in> {''1'', ''t'', ''T'', ''TRUE'', ''true'', ''True''} then Some True
      else if s \<in> {''0'', ''f'', ''F'', ''FALSE'', ''false'', ''False''} then Some False
      else None)"

lemma digit_value_digit_char [simp]: "d < 10 \<Longrightarrow> digit_value (digit_char d) = Some d"
  by (simp add: digit_value_def digit_char_def of_char_of)

lemma digits_value_append:
  "digits_value acc (s @ t) =
     (case digits_value acc s of None \<Rightarrow> None | Some a \<Rightarrow> digits_value a t)"
  by (induction s arbitrary: acc) (auto split: option.splits)

lemma show_nat_not_empty [simp]: "show_nat n \<noteq> []"
  by (subst show_nat.simps) simp

lemma digits_value_show_nat: "digits_value 0 (show_nat n) = Some n"
proof (induction n rule: show_nat.induct)
  case (1 n)
  show ?case
  proof (cases "n < 10")
    case True
    then show ?thesis by (subst show_nat.simps) simp
  next
    case False
    with "1.IH" show ?thesis
      by (subst show_nat.simps) (simp add: digits_value_append)
  qed
qed

lemma parse_nat_show_nat [simp]: "parse_nat (show_nat n) = Some n"
  by (simp add: parse_nat_def digits_value_show_nat)

lemma digit_char_neq: "d < 10 \<Longrightarrow> digit_char d \<noteq> CHR ''-'' \<and> digit_char d \<noteq> CHR ''+''"
  using digit_value_digit_char [of d] by (auto simp: digit_value_def)

lemma show_nat_digits: "c \<in> set (show_nat n) \<Longrightarrow> \<exists>d < 10. c = digit_char d"
proof (induction n rule: show_nat.induct)
  case (1 n)
  show ?case
  proof (cases "n < 10")
    case True
    with "1.prems" show ?thesis by (subst (asm) show_nat.simps) auto
  next
    case False
    with "1" show ?thesis by (subst (asm) (2) show_nat.simps) (auto intro: exI [of _ "n mod 10"])
  qed
qed

lemma ParseInt64_show_int:
  assumes "- (2 ^ 63) \<le> i" "i < 2 ^ 63"
  shows "ParseInt64 (show_int i) = Some i"
proof (cases "i < 0")
  case True
  with assms show ?thesis by (simp add: ParseInt64_def show_int_def)
next
  case False
  obtain c cs where s: "show_nat (nat i) = c # cs"
    using show_nat_not_empty [of "nat i"] by (cases "show_nat (nat i)") auto
  then have "c \<noteq> CHR ''-'' \<and> c \<noteq> CHR ''+''"
    using show_nat_digits [of c "nat i"] digit_char_neq by fastforce
  moreover have "parse_nat (c # cs) = Some (nat i)"
    using parse_nat_show_nat [of "nat i"] s by simp
  ultimately show ?thesis
    using False assms s by (simp add: ParseInt64_def show_int_def)
qed

end
