(* ===== verification/GoRegexp.thy ===== *)
theory GoRegexp
  imports GoStrings
begin

text \<open>
  The fragment of Go's \<open>regexp\<close> that the program and the SKU library use: literals,
  character classes, greedy repetition of a class, options, alternatives, capturing groups
  and the end anchor, with the leftmost-first preference of \<open>FindStringSubmatch\<close>.

  \<open>rx_match r s\<close> lists, most preferred first, every way \<open>r\<close> matches a prefix of \<open>s\<close>: the
  captures and the unread rest. The list's elements are the declarative meaning of \<open>r\<close>,
  its head is the match that \<open>FindStringSubmatch\<close> reports.
\<close>

datatype rx =
    Lit string
  | Cls "char \<Rightarrow> bool"
  | StarC "char \<Rightarrow> bool"
  | PlusC "char \<Rightarrow> bool"
  | Seq rx rx
  | Alt rx rx
  | Opt rx
  | Grp nat rx
  | EndText

type_synonym captures = "(nat \<times> string) list"

text \<open>The rests after a greedy repetition of a class, the longest repetition first.\<close>

fun star_rests :: "(char \<Rightarrow> bool) \<Rightarrow> string \<Rightarrow> string list" where
  "star_rests p [] = [[]]"
| "star_rests p (c # cs) = (if p c then star_rests p cs @ [c # cs] else [c # cs])"

fun rx_match :: "rx \<Rightarrow> string \<Rightarrow> (captures \<times> string) list" where
  "rx_match (Lit l) s = (if HasPrefix s l then [([], drop (length l) s)] else [])"
| "rx_match (Cls p) s = (case s of [] \<Rightarrow> [] | c # cs \<Rightarrow> if p c then [([], cs)] else [])"
| "rx_match (StarC p) s = map (\<lambda>t. ([], t)) (star_rests p s)"
| "rx_match (PlusC p) s =
     (case s of [] \<Rightarrow> [] | c # cs \<Rightarrow> if p c then map (\<lambda>t. ([], t)) (star_rests p cs) else [])"
| "rx_match (Seq a b) s =
     concat (map (\<lambda>(c1, s1). map (\<lambda>(c2, s2). (c1 @ c2, s2)) (rx_match b s1)) (rx_match a s))"
| "rx_match (Alt a b) s = rx_match a s @ rx_match b s"
| "rx_match (Opt a) s = rx_match a s @ [([], s)]"
| "rx_match (Grp n a) s =
     map (\<lambda>(c, t). ((n, take (length s - length t) s) # c, t)) (rx_match a s)"
| "rx_match EndText s = (if s = [] then [([], [])] else [])"

text \<open>An unanchored search: the leftmost start, and there the most preferred match.\<close>

fun rx_find :: "rx \<Rightarrow> string \<Rightarrow> captures option" where
  "rx_find r [] = (case rx_match r [] of [] \<Rightarrow> None | (c, t) # _ \<Rightarrow> Some c)"
| "rx_find r (x # xs) =
     (case rx_match r (x # xs) of [] \<Rightarrow> rx_find r xs | (c, t) # _ \<Rightarrow> Some c)"

text \<open>A search for a pattern that starts with \<open>^\<close>.\<close>

definition rx_find_anchored :: "rx \<Rightarrow> string \<Rightarrow> captures option" where
  "rx_find_anchored r s = (case rx_match r s of [] \<Rightarrow> None | (c, t) # _ \<Rightarrow> Some c)"

text \<open>\<open>matches[i]\<close>: a group that took no part in the match reads as the empty string.\<close>

definition submatch :: "captures \<Rightarrow> nat \<Rightarrow> string" where
  "submatch c n = FromPtr [] (map_of c n)"

text \<open>\<open>.\<close> matches any character but a newline.\<close>

definition dot :: "char \<Rightarrow> bool" where
  "dot c \<longleftrightarrow> c \<noteq> CHR 0x0A"

subsection \<open>The declarative reading\<close>

lemma set_star_rests:
  "t \<in> set (star_rests p s) \<longleftrightarrow> (\<exists>u. s = u @ t \<and> (\<forall>c \<in> set u. p c))"
proof (induction s)
  case Nil
  then show ?case by auto
next
  case (Cons c cs)
  show ?case
  proof (cases "p c")
    case True
    have "t \<in> set (star_rests p (c # cs)) \<longleftrightarrow>
        t = c # cs \<or> (\<exists>u. cs = u @ t \<and> (\<forall>x \<in> set u. p x))"
      using Cons.IH True by auto
    also have "\<dots> \<longleftrightarrow> (\<exists>u. c # cs = u @ t \<and> (\<forall>x \<in> set u. p x))"
      using True by (auto simp: Cons_eq_append_conv)
    finally show ?thesis .
  next
    case False
    then show ?thesis by (auto simp: Cons_eq_append_conv)
  qed
qed

lemma mem_match_Lit [simp]:
  "(c, t) \<in> set (rx_match (Lit l) s) \<longleftrightarrow> c = [] \<and> s = l @ t"
  by (auto simp: HasPrefix_iff)

lemma mem_match_Cls [simp]:
  "(c, t) \<in> set (rx_match (Cls p) s) \<longleftrightarrow> c = [] \<and> (\<exists>x. p x \<and> s = x # t)"
  by (auto split: list.splits)

lemma mem_match_StarC [simp]:
  "(c, t) \<in> set (rx_match (StarC p) s) \<longleftrightarrow> c = [] \<and> (\<exists>u. s = u @ t \<and> (\<forall>x \<in> set u. p x))"
  by (auto simp: set_star_rests)

lemma mem_match_Seq [simp]:
  "(c, t) \<in> set (rx_match (Seq a b) s) \<longleftrightarrow>
     (\<exists>c1 s1 c2. (c1, s1) \<in> set (rx_match a s) \<and> (c2, t) \<in> set (rx_match b s1) \<and> c = c1 @ c2)"
  by fastforce

lemma mem_match_GrpStar [simp]:
  "(c, t) \<in> set (rx_match (Grp n (StarC p)) s) \<longleftrightarrow>
     (\<exists>u. s = u @ t \<and> (\<forall>x \<in> set u. p x) \<and> c = [(n, u)])"
  by (force simp: set_star_rests)

text \<open>Syntax-directed rules for a sequence, to build a match and to take one apart.\<close>

lemma match_intros:
  "(c, t) \<in> set (rx_match b s1) \<Longrightarrow> (c, t) \<in> set (rx_match (Seq (Lit l) b) (l @ s1))"
  "\<lbrakk>\<forall>x \<in> set u. p x; (c, t) \<in> set (rx_match b s1)\<rbrakk>
     \<Longrightarrow> (c, t) \<in> set (rx_match (Seq (StarC p) b) (u @ s1))"
  "\<lbrakk>p x; (c, t) \<in> set (rx_match b s1)\<rbrakk> \<Longrightarrow> (c, t) \<in> set (rx_match (Seq (Cls p) b) ([x] @ s1))"
  "\<lbrakk>\<forall>x \<in> set u. p x; (c, t) \<in> set (rx_match b s1)\<rbrakk>
     \<Longrightarrow> ((n, u) # c, t) \<in> set (rx_match (Seq (Grp n (StarC p)) b) (u @ s1))"
  "\<forall>x \<in> set u. p x \<Longrightarrow> ([], t) \<in> set (rx_match (StarC p) (u @ t))"
  unfolding mem_match_Seq mem_match_Lit mem_match_StarC mem_match_Cls mem_match_GrpStar
  by fastforce+

lemma match_Seq_LitE:
  assumes "(c, t) \<in> set (rx_match (Seq (Lit l) b) s)"
  obtains s1 where "s = l @ s1" "(c, t) \<in> set (rx_match b s1)"
  using assms unfolding mem_match_Seq mem_match_Lit by auto

lemma match_Seq_StarCE:
  assumes "(c, t) \<in> set (rx_match (Seq (StarC p) b) s)"
  obtains u s1 where "s = u @ s1" "\<forall>x \<in> set u. p x" "(c, t) \<in> set (rx_match b s1)"
  using assms unfolding mem_match_Seq mem_match_StarC by auto

lemma match_Seq_ClsE:
  assumes "(c, t) \<in> set (rx_match (Seq (Cls p) b) s)"
  obtains x s1 where "s = [x] @ s1" "p x" "(c, t) \<in> set (rx_match b s1)"
  using assms unfolding mem_match_Seq mem_match_Cls by auto

lemma match_Seq_GrpStarE:
  assumes "(c, t) \<in> set (rx_match (Seq (Grp n (StarC p)) b) s)"
  obtains u s1 c2 where "s = u @ s1" "\<forall>x \<in> set u. p x" "(c2, t) \<in> set (rx_match b s1)"
    "c = (n, u) # c2"
  using assms unfolding mem_match_Seq mem_match_GrpStar by auto

lemma match_StarCE:
  assumes "(c, t) \<in> set (rx_match (StarC p) s)"
  obtains u where "s = u @ t" "\<forall>x \<in> set u. p x" "c = []"
  using assms unfolding mem_match_StarC by auto

lemmas match_elims =
  match_Seq_LitE match_Seq_StarCE match_Seq_ClsE match_Seq_GrpStarE match_StarCE

declare rx_match.simps [simp del]

text \<open>A search succeeds exactly when some suffix has a match, and then reports one of them.\<close>

lemma rx_find_sound:
  "rx_find r s = Some c \<Longrightarrow> \<exists>pre s' t. s = pre @ s' \<and> (c, t) \<in> set (rx_match r s')"
proof (induction r s rule: rx_find.induct)
  case (1 r)
  then show ?case by (auto split: list.splits prod.splits intro: exI [of _ "[]"])
next
  case (2 r x xs)
  show ?case
  proof (cases "rx_match r (x # xs)")
    case Nil
    with 2 obtain pre s' t where "xs = pre @ s'" "(c, t) \<in> set (rx_match r s')" by auto
    then have "x # xs = (x # pre) @ s'" "(c, t) \<in> set (rx_match r s')" by auto
    then show ?thesis by blast
  next
    case (Cons m ms)
    with "2.prems" have "(c, snd m) \<in> set (rx_match r (x # xs))" by (cases m) auto
    then show ?thesis by (metis append_Nil)
  qed
qed

lemma rx_find_complete:
  "(c, t) \<in> set (rx_match r s') \<Longrightarrow> \<exists>c'. rx_find r (pre @ s') = Some c'"
proof (induction pre)
  case Nil
  then show ?case
    by (cases s') (auto split: list.splits)
next
  case (Cons x pre)
  then show ?case by (auto split: list.splits)
qed

lemma rx_find_None_iff:
  "rx_find r s = None \<longleftrightarrow> (\<forall>pre s'. s = pre @ s' \<longrightarrow> rx_match r s' = [])"
proof
  assume none: "rx_find r s = None"
  show "\<forall>pre s'. s = pre @ s' \<longrightarrow> rx_match r s' = []"
  proof (intro allI impI)
    fix pre s' assume "s = pre @ s'"
    with none rx_find_complete show "rx_match r s' = []"
      by (metis list.set_intros(1) neq_Nil_conv option.distinct(1) surj_pair)
  qed
next
  assume none: "\<forall>pre s'. s = pre @ s' \<longrightarrow> rx_match r s' = []"
  then show "rx_find r s = None"
    using rx_find_sound [of r s] by (cases "rx_find r s") fastforce+
qed

lemma rx_find_unique:
  assumes "(c, t) \<in> set (rx_match r s)"
    and "\<And>pre s' c' t'. s = pre @ s' \<Longrightarrow> (c', t') \<in> set (rx_match r s') \<Longrightarrow> c' = c"
  shows "rx_find r s = Some c"
proof -
  obtain c' where c': "rx_find r s = Some c'"
    using rx_find_complete [OF assms(1), of "[]"] by auto
  with assms(2) rx_find_sound [OF c'] show ?thesis by metis
qed

lemma rx_find_start:
  assumes mem: "(c, t) \<in> set (rx_match r s)"
    and all: "\<And>c' t'. (c', t') \<in> set (rx_match r s) \<Longrightarrow> c' = c"
  shows "rx_find r s = Some c"
proof -
  obtain c' t' ms where m: "rx_match r s = (c', t') # ms"
    using mem by (cases "rx_match r s") auto
  then have "c' = c" using all [of c' t'] by simp
  with m show ?thesis by (cases s) auto
qed

subsection \<open>The preferred match\<close>

text \<open>
  When the first choice of every part leads to a match of the rest, no backtracking happens
  and the preferred match is composed of the preferred matches of the parts.
\<close>

definition first :: "rx \<Rightarrow> string \<Rightarrow> captures \<Rightarrow> string \<Rightarrow> bool" where
  "first r s c t \<longleftrightarrow> (\<exists>ms. rx_match r s = (c, t) # ms)"

definition stops :: "(char \<Rightarrow> bool) \<Rightarrow> string \<Rightarrow> bool" where
  "stops p s \<longleftrightarrow> (case s of [] \<Rightarrow> True | c # _ \<Rightarrow> \<not> p c)"

lemma stops_simps [simp]: "stops p []" "stops p (c # s) \<longleftrightarrow> \<not> p c"
  by (simp_all add: stops_def)

lemma star_rests_first:
  "\<forall>c \<in> set u. p c \<Longrightarrow> stops p s \<Longrightarrow> \<exists>ms. star_rests p (u @ s) = s # ms"
proof (induction u)
  case Nil
  then show ?case by (cases s) auto
next
  case (Cons x u)
  then show ?case by auto
qed

lemma first_Seq:
  "first a s c1 s1 \<Longrightarrow> first b s1 c2 t \<Longrightarrow> first (Seq a b) s (c1 @ c2) t"
  by (auto simp: first_def rx_match.simps)

lemma first_Seq_nil: "first a s [] s1 \<Longrightarrow> first b s1 c t \<Longrightarrow> first (Seq a b) s c t"
  using first_Seq [of a s "[]"] by simp

lemma first_Seq_one: "first a s [x] s1 \<Longrightarrow> first b s1 c t \<Longrightarrow> first (Seq a b) s (x # c) t"
  using first_Seq [of a s "[x]"] by simp

lemma first_Lit: "first (Lit l) (l @ s) [] s"
  by (simp add: first_def rx_match.simps)

lemma first_Cls: "p c \<Longrightarrow> first (Cls p) (c # s) [] s"
  by (simp add: first_def rx_match.simps)

lemma first_PlusC:
  assumes "u \<noteq> []" "\<forall>c \<in> set u. p c" "stops p s"
  shows "first (PlusC p) (u @ s) [] s"
proof -
  obtain x v where u: "u = x # v" using assms(1) by (cases u) auto
  then obtain ms where "star_rests p (v @ s) = s # ms" using star_rests_first [of v p s] assms(2,3) by auto
  then show ?thesis using u assms(2) by (simp add: first_def rx_match.simps)
qed

lemma first_Alt: "first a s c t \<Longrightarrow> first (Alt a b) s c t"
  by (auto simp: first_def rx_match.simps)

lemma first_Opt: "first a s c t \<Longrightarrow> first (Opt a) s c t"
  by (auto simp: first_def rx_match.simps)

lemma first_Opt_skip: "rx_match a s = [] \<Longrightarrow> first (Opt a) s [] s"
  by (auto simp: first_def rx_match.simps)

lemma first_Grp: "first a (u @ t) c t \<Longrightarrow> first (Grp n a) (u @ t) ((n, u) # c) t"
  by (auto simp: first_def rx_match.simps)

lemma first_EndText: "first EndText [] [] []"
  by (simp add: first_def rx_match.simps)

lemma no_match:
  "\<not> HasPrefix s l \<Longrightarrow> rx_match (Lit l) s = []"
  "stops p s \<Longrightarrow> rx_match (Cls p) s = []"
  "stops p s \<Longrightarrow> rx_match (PlusC p) s = []"
  "rx_match a s = [] \<Longrightarrow> rx_match (Seq a b) s = []"
  "rx_match a s = [] \<Longrightarrow> rx_match (Grp n a) s = []"
  "rx_match a s = [] \<Longrightarrow> rx_match b s = [] \<Longrightarrow> rx_match (Alt a b) s = []"
  by (auto simp: rx_match.simps stops_def split: list.splits)

lemma rx_find_anchored_first: "first r s c t \<Longrightarrow> rx_find_anchored r s = Some c"
  by (auto simp: first_def rx_find_anchored_def)

end
