(* ===== verification/ProviderIDs.thy ===== *)
theory ProviderIDs
  imports GoRegexp
begin

text \<open>
  Identifiers of agent pools: \<open>pkg/utils/utils.go\<close> (\<open>ParseAgentPoolNameFromID\<close>,
  \<open>ParseSubIDFromID\<close>) and \<open>getVMSSNodeProviderID\<close> of \<open>pkg/providers/instance/instance.go\<close>,
  which builds the identifier that the first one reads back.
\<close>

subsection \<open>Definitions\<close>

text \<open>
  The pattern of \<open>ParseAgentPoolNameFromID\<close>. The dot of \<open>Microsoft.Compute\<close> is not escaped in
  the source, so it is a wildcard here too; group 1 is \<open>VMSSName\<close>.
\<close>

definition agentPoolRegexp :: rx where
  "agentPoolRegexp =
     Seq (Lit ''azure:///subscriptions/'')
    (Seq (StarC dot)
    (Seq (Lit ''/resourceGroups/'')
    (Seq (StarC dot)
    (Seq (Lit ''/providers/Microsoft'')
    (Seq (Cls dot)
    (Seq (Lit ''Compute/virtualMachineScaleSets/'')
    (Seq (Grp 1 (StarC dot))
    (Seq (Lit ''/virtualMachines/'')
         (StarC dot)))))))))"

definition ParseAgentPoolNameFromID :: "string \<Rightarrow> string res" where
  "ParseAgentPoolNameFromID pid =
     (case rx_find agentPoolRegexp pid of
        None \<Rightarrow> Err (ErrorString (''id does not match the regxp for ParseAgentPoolNameFromID '' @ pid))
      | Some matches \<Rightarrow>
          (let nodeName = submatch matches 1;
               agentPoolName = Split nodeName ''-''
           in if length agentPoolName = 0
              then Err (ErrorString (''cannot parse agentpool name for ParseAgentPoolNameFromID '' @ pid))
              else if 1 < length agentPoolName then Ok (agentPoolName ! 1)
              else Panic ''index out of range [1] with length 1''))"

definition subIDRegexp :: rx where
  "subIDRegexp =
     Seq (Lit ''/subscriptions/'')
    (Seq (Grp 1 (StarC dot))
    (Seq (Lit ''/resourcegroups/'')
    (Seq (StarC dot)
    (Seq (Lit ''/providers/'')
         (StarC dot)))))"

definition ParseSubIDFromID :: "string \<Rightarrow> string option res" where
  "ParseSubIDFromID pid =
     (case rx_find subIDRegexp pid of
        None \<Rightarrow> Err (ErrorString (''id does not match the regxp for ParseSubIDFromID '' @ pid))
      | Some matches \<Rightarrow> Ok (Some (submatch matches 1)))"

text \<open>
  \<open>(p *Provider) getVMSSNodeProviderID\<close>, with the provider's \<open>nodeResourceGroup\<close> as its first
  argument; the virtual machine is always number 0.
\<close>

definition getVMSSNodeProviderID :: "string \<Rightarrow> string \<Rightarrow> string \<Rightarrow> string" where
  "getVMSSNodeProviderID nodeResourceGroup subscriptionID scaleSetName =
     ''/subscriptions/'' @ subscriptionID @ ''/resourceGroups/'' @ ToLower nodeResourceGroup
     @ ''/providers/Microsoft.Compute/virtualMachineScaleSets/'' @ scaleSetName
     @ ''/virtualMachines/0''"

subsection \<open>Reading a provider identifier\<close>

text \<open>A path segment: no slash and no newline.\<close>

definition segment :: "string \<Rightarrow> bool" where
  "segment s \<longleftrightarrow> CHR ''/'' \<notin> set s \<and> CHR 0x0A \<notin> set s"

lemma segment_dot: "segment s \<Longrightarrow> c \<in> set s \<Longrightarrow> dot c"
  by (auto simp: segment_def dot_def)

lemma segment_ToLower [simp]: "segment (ToLower s) = segment s"
  by (simp add: segment_def ToLower_keeps_absent)

text \<open>Cutting a string at its slashes; a slash-free piece in front stays whole.\<close>

fun slash_cut :: "string \<Rightarrow> string list" where
  "slash_cut [] = [[]]"
| "slash_cut (c # s) = (if c = CHR ''/'' then [] # slash_cut s else (c # hd (slash_cut s)) # tl (slash_cut s))"

lemma cut_not_empty [simp]: "slash_cut s \<noteq> []"
  by (cases s) auto

lemma cut_append: "CHR ''/'' \<notin> set a \<Longrightarrow> slash_cut (a @ s) = (a @ hd (slash_cut s)) # tl (slash_cut s)"
  by (induction a) auto

lemma cut_free: "CHR ''/'' \<notin> set a \<Longrightarrow> slash_cut a = [a]"
  using cut_append [of a "[]"] by simp

lemma count_slash_free: "CHR ''/'' \<notin> set s \<Longrightarrow> count_list s (CHR ''/'') = 0"
  by (simp add: count_list_0_iff)

text \<open>
  The literals of the pattern as constants, so that proofs treat them as blocks; of each, the
  proofs use only where its slashes are.
\<close>

definition "L_sub = ''azure:///subscriptions/''"
definition "L_rg = ''/resourceGroups/''"
definition "L_prov = ''/providers/Microsoft''"
definition "L_vmss = ''Compute/virtualMachineScaleSets/''"
definition "L_vm = ''/virtualMachines/''"

lemmas L_defs = L_sub_def L_rg_def L_prov_def L_vmss_def L_vm_def

definition vmssID :: "string \<Rightarrow> string \<Rightarrow> string \<Rightarrow> string \<Rightarrow> string" where
  "vmssID sub rg vmss k =
     L_sub @ sub @ L_rg @ rg @ L_prov @ ''.'' @ L_vmss @ vmss @ L_vm @ k"

lemma vmssID_getVMSSNodeProviderID:
  "''azure://'' @ getVMSSNodeProviderID rg sub vmss = vmssID sub (ToLower rg) vmss ''0''"
  by (simp add: vmssID_def getVMSSNodeProviderID_def L_defs)

lemma count_L:
  "count_list L_sub (CHR ''/'') = 4" "count_list L_rg (CHR ''/'') = 2"
  "count_list L_prov (CHR ''/'') = 2" "count_list L_vmss (CHR ''/'') = 2"
  "count_list L_vm (CHR ''/'') = 2"
  by (simp_all add: L_defs)

lemma cut_seg: "CHR ''/'' \<notin> set a \<Longrightarrow> slash_cut (a @ CHR ''/'' # s) = a # slash_cut s"
  by (simp add: cut_append)

lemma cut_join: "slash_cut (a @ CHR ''/'' # s) = slash_cut a @ slash_cut s"
  by (induction a) (auto simp: hd_append)

lemma cut_single: "slash_cut a = [x] \<Longrightarrow> a = x"
  by (induction a arbitrary: x) (auto split: if_splits simp: tl_Nil)

lemma cut_slash: "slash_cut (CHR ''/'' # s) = [] # slash_cut s"
  by simp

declare slash_cut.simps(2) [simp del]

lemma cut_L:
  "slash_cut (L_sub @ s) = ''azure:'' # [] # [] # ''subscriptions'' # slash_cut s"
  "slash_cut (L_rg @ s) = [] # ''resourceGroups'' # slash_cut s"
  "slash_cut (L_prov @ s) = [] # ''providers'' # (''Microsoft'' @ hd (slash_cut s)) # tl (slash_cut s)"
  "slash_cut (L_vmss @ s) = ''Compute'' # ''virtualMachineScaleSets'' # slash_cut s"
  "slash_cut (L_vm @ s) = [] # ''virtualMachines'' # slash_cut s"
proof -
  note free = cut_seg [of "''azure:''"] cut_seg [of "''subscriptions''"] cut_seg [of "''resourceGroups''"]
    cut_seg [of "''providers''"] cut_append [of "''Microsoft''"] cut_seg [of "''Compute''"]
    cut_seg [of "''virtualMachineScaleSets''"] cut_seg [of "''virtualMachines''"]
  have "L_sub @ s = ''azure:'' @ CHR ''/'' # CHR ''/'' # CHR ''/'' # (''subscriptions'' @ CHR ''/'' # s)"
    "L_rg @ s = CHR ''/'' # (''resourceGroups'' @ CHR ''/'' # s)"
    "L_prov @ s = CHR ''/'' # (''providers'' @ CHR ''/'' # (''Microsoft'' @ s))"
    "L_vmss @ s = ''Compute'' @ CHR ''/'' # (''virtualMachineScaleSets'' @ CHR ''/'' # s)"
    "L_vm @ s = CHR ''/'' # (''virtualMachines'' @ CHR ''/'' # s)"
    by (simp_all add: L_defs)
  then show "slash_cut (L_sub @ s) = ''azure:'' # [] # [] # ''subscriptions'' # slash_cut s"
    "slash_cut (L_rg @ s) = [] # ''resourceGroups'' # slash_cut s"
    "slash_cut (L_prov @ s) = [] # ''providers'' # (''Microsoft'' @ hd (slash_cut s)) # tl (slash_cut s)"
    "slash_cut (L_vmss @ s) = ''Compute'' # ''virtualMachineScaleSets'' # slash_cut s"
    "slash_cut (L_vm @ s) = [] # ''virtualMachines'' # slash_cut s"
    using free by (simp_all only: cut_slash list.set insert_iff empty_iff char.inject simp_thms HOL.simp_thms)
qed

lemma agentPoolRegexp_elim:
  assumes "(c, t) \<in> set (rx_match agentPoolRegexp s)"
  obtains a b x v u where "s = L_sub @ a @ L_rg @ b @ L_prov @ [x] @ L_vmss @ v @ L_vm @ u @ t"
    "c = [(1, v)]"
  using assms unfolding agentPoolRegexp_def L_defs [symmetric]
  by (elim match_elims) (rule that, simp_all)

text \<open>
  With slash-free parts, an identifier of the expected shape is matched in one way only: the
  slashes of the pattern's literals use up the slashes of the text.
\<close>

lemma agentPoolRegexp_unique:
  assumes seg: "segment sub" "segment rg" "segment vmss" "segment k"
    and eq: "vmssID sub rg vmss k = pre @ s'"
    and m: "(c, t) \<in> set (rx_match agentPoolRegexp s')"
  shows "c = [(1, vmss)]"
proof -
  obtain a b x v u where
    s': "s' = L_sub @ a @ L_rg @ b @ L_prov @ [x] @ L_vmss @ v @ L_vm @ u @ t" and c: "c = [(1, v)]"
    using m by (rule agentPoolRegexp_elim)
  have free: "CHR ''/'' \<notin> set sub" "CHR ''/'' \<notin> set rg" "CHR ''/'' \<notin> set vmss" "CHR ''/'' \<notin> set k"
    using seg by (auto simp: segment_def)
  have "count_list pre (CHR ''/'') + count_list a (CHR ''/'') + count_list b (CHR ''/'')
      + count_list [x] (CHR ''/'') + count_list v (CHR ''/'') + count_list u (CHR ''/'')
      + count_list t (CHR ''/'') = 0"
    using arg_cong [OF eq, of "\<lambda>s. count_list s (CHR ''/'')"] free
    by (simp add: s' vmssID_def count_list_append count_slash_free count_L split: if_splits)
  then have pfree: "CHR ''/'' \<notin> set pre" "CHR ''/'' \<notin> set a" "CHR ''/'' \<notin> set b" "x \<noteq> CHR ''/''"
      "CHR ''/'' \<notin> set v" "CHR ''/'' \<notin> set u" "CHR ''/'' \<notin> set t"
    by (auto simp: count_list_0_iff split: if_splits)
  have "vmss = v"
    using arg_cong [OF eq, of slash_cut] free pfree
    by (simp add: s' vmssID_def cut_append cut_free cut_L slash_cut.simps(2))
  with c show ?thesis by simp
qed

lemma find_agentPoolRegexp:
  assumes "segment sub" "segment rg" "segment vmss" "segment k"
  shows "rx_find agentPoolRegexp (vmssID sub rg vmss k) = Some [(1, vmss)]"
proof (rule rx_find_unique [where t = "[]"])
  show "([(1, vmss)], []) \<in> set (rx_match agentPoolRegexp (vmssID sub rg vmss k))"
    unfolding agentPoolRegexp_def vmssID_def L_defs [symmetric]
    using assms segment_dot dot_def by (intro match_intros) auto
next
  fix pre s' c' t'
  assume "vmssID sub rg vmss k = pre @ s'" "(c', t') \<in> set (rx_match agentPoolRegexp s')"
  then show "c' = [(1, vmss)]" by (rule agentPoolRegexp_unique [OF assms])
qed

text \<open>The value read from an identifier, by the shape of its scale set name.\<close>

lemma Parse_vmssID:
  assumes "segment sub" "segment rg" "segment vmss" "segment k"
  shows "ParseAgentPoolNameFromID (vmssID sub rg vmss k) =
     (if CHR ''-'' \<in> set vmss then Ok (Split vmss ''-'' ! 1)
      else Panic ''index out of range [1] with length 1'')"
proof (cases "CHR ''-'' \<in> set vmss")
  case True
  then obtain p q where "vmss = p @ CHR ''-'' # q" "CHR ''-'' \<notin> set p"
    by (metis split_list_first)
  then have "1 < length (Split vmss ''-'')"
    using Split_not_empty [of "''-''" q] by (simp add: Split_Cons)
  with True find_agentPoolRegexp [OF assms] show ?thesis
    by (auto simp: ParseAgentPoolNameFromID_def submatch_def Let_def)
next
  case False
  with find_agentPoolRegexp [OF assms] show ?thesis
    by (simp add: ParseAgentPoolNameFromID_def submatch_def Split_no_sep)
qed

lemma Parse_aks_vmssID:
  assumes "segment sub" "segment rg" "segment pool" "segment rest" "segment k"
    and "CHR ''-'' \<notin> set pool"
  shows "ParseAgentPoolNameFromID (vmssID sub rg (''aks-'' @ pool @ ''-'' @ rest) k) = Ok pool"
proof -
  have "segment (''aks-'' @ pool @ ''-'' @ rest)"
    using assms by (simp add: segment_def)
  moreover have "Split (''aks-'' @ pool @ ''-'' @ rest) ''-'' ! 1 = pool"
    using Split_Cons [of "CHR ''-''" "''aks''" "pool @ ''-'' @ rest"]
      Split_Cons [OF assms(6), of rest] by simp
  ultimately show ?thesis
    using Parse_vmssID [of sub rg _ k] assms by simp
qed

subsection \<open>Reading the subscription\<close>

text \<open>
  Whatever the scale set part holds, a matching identifier yields the text between
  \<open>/subscriptions/\<close> and some later \<open>/resourcegroups/\<close>.
\<close>

definition "M_sub = ''/subscriptions/''"
definition "M_rg = ''/resourcegroups/''"
definition "M_prov = ''/providers/''"

lemmas M_defs = M_sub_def M_rg_def M_prov_def

lemma subIDRegexp_elim:
  assumes "(c, t) \<in> set (rx_match subIDRegexp s)"
  obtains a b u where
    "s = M_sub @ a @ M_rg @ (b @ M_prov @ u @ t)"
    "c = [(1, a)]"
  using assms unfolding subIDRegexp_def M_defs [symmetric]
  by (elim match_elims) (rule that, simp_all)

text \<open>
  \<open>tail_ok\<close>: the text after \<open>/providers/\<close> has no path segment \<open>resourcegroups\<close> and no newline.
\<close>

definition tail_ok :: "string \<Rightarrow> bool" where
  "tail_ok tail \<longleftrightarrow> ''resourcegroups'' \<notin> set (slash_cut tail) \<and> CHR 0x0A \<notin> set tail"

lemma slash_cut_M_rg: "slash_cut (a @ M_rg @ s) = slash_cut a @ ''resourcegroups'' # slash_cut s"
proof -
  have "a @ M_rg @ s = a @ CHR ''/'' # (''resourcegroups'' @ CHR ''/'' # s)" by (simp add: M_defs)
  then show ?thesis
    using cut_join [of a "''resourcegroups'' @ CHR ''/'' # s"] cut_seg [of "''resourcegroups''" s]
    by (simp only:) simp
qed

lemma slash_cut_M_prov: "slash_cut (a @ M_prov @ s) = slash_cut a @ ''providers'' # slash_cut s"
proof -
  have "a @ M_prov @ s = a @ CHR ''/'' # (''providers'' @ CHR ''/'' # s)" by (simp add: M_defs)
  then show ?thesis
    using cut_join [of a "''providers'' @ CHR ''/'' # s"] cut_seg [of "''providers''" s]
    by (simp only:) simp
qed

lemma subID_unique:
  assumes "segment sub" "segment rg" "rg \<noteq> ''resourcegroups''" "tail_ok tail"
    and eq: "sub @ M_rg @ rg @ M_prov @ tail = a @ M_rg @ r"
  shows "a = sub"
proof -
  have pieces: "sub # ''resourcegroups'' # rg # ''providers'' # slash_cut tail
      = slash_cut a @ ''resourcegroups'' # slash_cut r"
    using arg_cong [OF eq, of slash_cut] assms(1,2)
    by (simp only: slash_cut_M_rg slash_cut_M_prov) (simp add: cut_free segment_def)
  have "''resourcegroups'' \<notin> set (rg # ''providers'' # slash_cut tail)"
    using assms(3,4) by (simp add: tail_ok_def)
  then have "tl (tl (slash_cut a @ ''resourcegroups'' # slash_cut r)) \<noteq> xs @ ''resourcegroups'' # ys"
    for xs ys using pieces by (metis list.sel(3) in_set_conv_decomp)
  then have "tl (slash_cut a) = []"
    using pieces by (cases "slash_cut a"; cases "tl (slash_cut a)") (auto)
  then obtain x where "slash_cut a = [x]"
    by (metis cut_not_empty list.collapse)
  with pieces show ?thesis using cut_single by auto
qed

lemma Parse_subID:
  assumes "segment sub" "segment rg" "rg \<noteq> ''resourcegroups''" "tail_ok tail"
  shows "ParseSubIDFromID (M_sub @ sub @ M_rg @ rg @ M_prov @ tail) = Ok (Some sub)"
proof -
  let ?s = "M_sub @ sub @ M_rg @ rg @ M_prov @ tail"
  have mem: "([(1, sub)], []) \<in> set (rx_match subIDRegexp ?s)"
    unfolding subIDRegexp_def M_defs [symmetric]
    using assms match_intros(5) [of tail dot "[]"] segment_dot dot_def
    by (intro match_intros(1-4)) (auto simp: tail_ok_def)
  have "c = [(1, sub)]" if m: "(c, t) \<in> set (rx_match subIDRegexp ?s)" for c t
  proof -
    obtain a b u where d: "?s = M_sub @ a @ M_rg @ (b @ M_prov @ u @ t)" and c: "c = [(1, a)]"
      using m by (rule subIDRegexp_elim)
    from d have "sub @ M_rg @ rg @ M_prov @ tail = a @ M_rg @ (b @ M_prov @ u @ t)" by simp
    then have "a = sub" by (rule subID_unique [OF assms])
    with c show ?thesis by simp
  qed
  with mem have "rx_find subIDRegexp ?s = Some [(1, sub)]" by (rule rx_find_start)
  then show ?thesis by (simp add: ParseSubIDFromID_def submatch_def)
qed

subsection \<open>Properties\<close>

text \<open>
  The provider identifier built for the scale set of an agent pool names that pool: reading
  it back gives the pool's name, for every subscription, resource group and scale set suffix
  without slashes and newlines, and every pool name without a dash.
\<close>

theorem provider_id_round_trip:
  assumes "segment sub" "segment nodeResourceGroup" "segment pool" "segment rest"
    and "CHR ''-'' \<notin> set pool"
  shows "ParseAgentPoolNameFromID
    (''azure://'' @ getVMSSNodeProviderID nodeResourceGroup sub (''aks-'' @ pool @ ''-'' @ rest)) = Ok pool"
  unfolding vmssID_getVMSSNodeProviderID
  by (rule Parse_aks_vmssID) (use assms in \<open>simp_all add: segment_def ToLower_keeps_absent\<close>)

theorem provider_id_round_trip_witness:
  "ParseAgentPoolNameFromID
    (''azure://'' @ getVMSSNodeProviderID ''MC_rg'' ''s-1'' (''aks-'' @ ''gpu'' @ ''-'' @ ''12-vmss'')) = Ok ''gpu''"
  by (rule provider_id_round_trip) (simp_all add: segment_def)

text \<open>
  The guard of \<open>ParseAgentPoolNameFromID\<close> against a scale set name with too few parts does
  not protect the index it is meant for: a well-formed identifier whose scale set name has no
  dash makes the function panic.
\<close>

theorem dashless_scale_set_panics:
  assumes "segment sub" "segment nodeResourceGroup" "segment vmss" "CHR ''-'' \<notin> set vmss"
  shows "is_Panic (ParseAgentPoolNameFromID (''azure://'' @ getVMSSNodeProviderID nodeResourceGroup sub vmss))"
  using Parse_vmssID [of sub "ToLower nodeResourceGroup" vmss "''0''"] assms
  unfolding vmssID_getVMSSNodeProviderID by (simp add: segment_def ToLower_keeps_absent)

theorem dashless_scale_set_panics_witness:
  "is_Panic (ParseAgentPoolNameFromID (''azure://'' @ getVMSSNodeProviderID ''rg'' ''s'' ''pool1''))"
  by (rule dashless_scale_set_panics) (simp_all add: segment_def)

text \<open>
  The subscription of an agent pool is the path segment after \<open>/subscriptions/\<close>, whatever
  the rest of the identifier holds, as long as no other segment is called \<open>resourcegroups\<close>.
\<close>

theorem subscription_of_pool_id:
  assumes "segment sub" "segment rg" "rg \<noteq> ''resourcegroups''" "tail_ok tail"
  shows "ParseSubIDFromID (''/subscriptions/'' @ sub @ ''/resourcegroups/'' @ rg @ ''/providers/'' @ tail)
    = Ok (Some sub)"
  using Parse_subID [OF assms] by (simp only: M_defs)

theorem subscription_of_pool_id_witness:
  "ParseSubIDFromID (''/subscriptions/'' @ ''s-1'' @ ''/resourcegroups/'' @ ''rg'' @ ''/providers/'' @ ''p/gpu'')
    = Ok (Some ''s-1'')"
  by (rule subscription_of_pool_id) (simp_all add: segment_def tail_ok_def slash_cut.simps(2))

end
