(* ===== verification/Scheduling.thy ===== *)
theory Scheduling
  imports GoStrings
begin

text \<open>
  Node selector requirements: karpenter-core's \<open>scheduling.Requirement\<close> and
  \<open>scheduling.Requirements\<close> (vendored), which the instance provider uses to read the VM size
  off a machine and the instance type provider uses to describe a SKU. A \<open>sets.String\<close> is a
  set of strings; the order in which \<open>UnsortedList\<close> walks it is a parameter wherever the code
  depends on it.
\<close>

subsection \<open>Definitions\<close>

datatype NodeSelectorOperator = OpIn | OpNotIn | OpExists | OpDoesNotExist | OpGt | OpLt

record NodeSelectorRequirement =
  nsr_Key :: string
  nsr_Operator :: NodeSelectorOperator
  nsr_Values :: "string list"

record Requirement =
  Key :: string
  complement :: bool
  "values" :: "string set"
  greaterThan :: "int option"
  lessThan :: "int option"

definition NormalizedLabels :: "string \<rightharpoonup> string" where
  "NormalizedLabels = map_of
     [(''failure-domain.beta.kubernetes.io/zone'', ''topology.kubernetes.io/zone''),
      (''beta.kubernetes.io/arch'', ''kubernetes.io/arch''),
      (''beta.kubernetes.io/os'', ''kubernetes.io/os''),
      (''beta.kubernetes.io/instance-type'', ''node.kubernetes.io/instance-type''),
      (''failure-domain.beta.kubernetes.io/region'', ''topology.kubernetes.io/region'')]"

definition normalizeKey :: "string \<Rightarrow> string" where
  "normalizeKey key = (case NormalizedLabels key of Some n \<Rightarrow> n | None \<Rightarrow> key)"

text \<open>
  \<open>NewRequirement\<close>. \<open>Gt\<close> and \<open>Lt\<close> read \<open>values[0]\<close>, which panics on an empty list; the other
  operators never do. \<open>requirement_of\<close> is the constructor past that index.
\<close>

definition requirement_of :: "string \<Rightarrow> NodeSelectorOperator \<Rightarrow> string list \<Rightarrow> Requirement" where
  "requirement_of key op vs =
     \<lparr>Key = normalizeKey key,
      complement = (op \<noteq> OpIn \<and> op \<noteq> OpDoesNotExist),
      values = (if op = OpIn \<or> op = OpNotIn then set vs else {}),
      greaterThan = (if op = OpGt then Some (Atoi_value (hd vs)) else None),
      lessThan = (if op = OpLt then Some (Atoi_value (hd vs)) else None)\<rparr>"

definition NewRequirement :: "string \<Rightarrow> NodeSelectorOperator \<Rightarrow> string list \<Rightarrow> Requirement res" where
  "NewRequirement key op vs =
     (if (op = OpGt \<or> op = OpLt) \<and> vs = [] then Panic ''index out of range [0] with length 0''
      else Ok (requirement_of key op vs))"

definition withinIntPtrs :: "string \<Rightarrow> int option \<Rightarrow> int option \<Rightarrow> bool" where
  "withinIntPtrs valueAsString gt lt =
     (if gt = None \<and> lt = None then True
      else (case ParseInt64 valueAsString of
              None \<Rightarrow> False
            | Some v \<Rightarrow>
                (case gt of Some g \<Rightarrow> g < v | None \<Rightarrow> True) \<and>
                (case lt of Some l \<Rightarrow> v < l | None \<Rightarrow> True)))"

definition minIntPtr :: "int option \<Rightarrow> int option \<Rightarrow> int option" where
  "minIntPtr a b = (case a of None \<Rightarrow> b | Some x \<Rightarrow> (case b of None \<Rightarrow> a | Some y \<Rightarrow> if x < y then a else b))"

definition maxIntPtr :: "int option \<Rightarrow> int option \<Rightarrow> int option" where
  "maxIntPtr a b = (case a of None \<Rightarrow> b | Some x \<Rightarrow> (case b of None \<Rightarrow> a | Some y \<Rightarrow> if y < x then a else b))"

definition Intersection :: "Requirement \<Rightarrow> Requirement \<Rightarrow> Requirement" where
  "Intersection r q =
     (let compl = complement r \<and> complement q;
          gt = maxIntPtr (greaterThan r) (greaterThan q);
          lt = minIntPtr (lessThan r) (lessThan q)
      in if (case (gt, lt) of (Some g, Some l) \<Rightarrow> l \<le> g | _ \<Rightarrow> False)
         then requirement_of (Key r) OpDoesNotExist []
         else
           (let vs = (if complement r \<and> complement q then values r \<union> values q
                      else if complement r then values q - values r
                      else if complement q then values r - values q
                      else values r \<inter> values q);
                vs' = Set.filter (\<lambda>v. withinIntPtrs v gt lt) vs
            in \<lparr>Key = Key r, complement = compl, values = vs',
                greaterThan = (if compl then gt else None),
                lessThan = (if compl then lt else None)\<rparr>))"

definition Has :: "Requirement \<Rightarrow> string \<Rightarrow> bool" where
  "Has r v =
     (if complement r then v \<notin> values r \<and> withinIntPtrs v (greaterThan r) (lessThan r)
      else v \<in> values r \<and> withinIntPtrs v (greaterThan r) (lessThan r))"

definition Values :: "(string set \<Rightarrow> string list) \<Rightarrow> Requirement \<Rightarrow> string list" where
  "Values ulist r = ulist (values r)"

definition Insert :: "Requirement \<Rightarrow> string list \<Rightarrow> Requirement" where
  "Insert r items = r\<lparr>values := values r \<union> set items\<rparr>"

definition Len :: "Requirement \<Rightarrow> int" where
  "Len r = (if complement r then (2 ^ 63 - 1) - int (card (values r)) else int (card (values r)))"

definition Operator :: "Requirement \<Rightarrow> NodeSelectorOperator" where
  "Operator r =
     (if complement r then (if Len r < 2 ^ 63 - 1 then OpNotIn else OpExists)
      else if 0 < Len r then OpIn else OpDoesNotExist)"

type_synonym Requirements = "string \<rightharpoonup> Requirement"

definition Requirements_Add1 :: "Requirements \<Rightarrow> Requirement \<Rightarrow> Requirements" where
  "Requirements_Add1 rs r =
     (let r' = (case rs (Key r) of Some existing \<Rightarrow> Intersection r existing | None \<Rightarrow> r)
      in rs(Key r' \<mapsto> r'))"

fun Requirements_Add :: "Requirements \<Rightarrow> Requirement list \<Rightarrow> Requirements" where
  "Requirements_Add rs [] = rs"
| "Requirements_Add rs (r # reqs) = Requirements_Add (Requirements_Add1 rs r) reqs"

definition NewRequirements :: "Requirement list \<Rightarrow> Requirements" where
  "NewRequirements reqs = Requirements_Add Map.empty reqs"

fun addNodeSelectorRequirements :: "Requirements \<Rightarrow> NodeSelectorRequirement list \<Rightarrow> Requirements res" where
  "addNodeSelectorRequirements rs [] = Ok rs"
| "addNodeSelectorRequirements rs (q # qs) =
     res_bind (NewRequirement (nsr_Key q) (nsr_Operator q) (nsr_Values q))
       (\<lambda>r. addNodeSelectorRequirements (Requirements_Add1 rs r) qs)"

definition NewNodeSelectorRequirements :: "NodeSelectorRequirement list \<Rightarrow> Requirements res" where
  "NewNodeSelectorRequirements qs = addNodeSelectorRequirements (NewRequirements []) qs"

definition Requirements_Has :: "Requirements \<Rightarrow> string \<Rightarrow> bool" where
  "Requirements_Has rs key = (rs key \<noteq> None)"

definition Requirements_Get :: "Requirements \<Rightarrow> string \<Rightarrow> Requirement" where
  "Requirements_Get rs key =
     (case rs key of None \<Rightarrow> requirement_of key OpExists [] | Some r \<Rightarrow> r)"

subsection \<open>A requirement denotes the set of values it admits\<close>

locale meet_denotation =
  fixes meet :: "'r \<Rightarrow> 'r \<Rightarrow> 'r" and holds :: "'r \<Rightarrow> 'v \<Rightarrow> bool"
  assumes holds_meet: "holds (meet a b) v \<longleftrightarrow> holds a v \<and> holds b v"
begin

lemma holds_foldr: "holds (foldr meet rs r) v \<longleftrightarrow> (\<forall>x \<in> set rs. holds x v) \<and> holds r v"
  by (induction rs) (auto simp: holds_meet)

lemma holds_fold: "holds (fold meet rs r) v \<longleftrightarrow> (\<forall>x \<in> set rs. holds x v) \<and> holds r v"
  by (induction rs arbitrary: r) (auto simp: holds_meet)

lemma holds_commute: "holds (meet a b) = holds (meet b a)"
  by (rule ext) (auto simp: holds_meet)

lemma holds_assoc: "holds (meet (meet a b) c) = holds (meet a (meet b c))"
  by (rule ext) (simp add: holds_meet)

end

lemma withinIntPtrs_meet:
  "withinIntPtrs v (maxIntPtr g1 g2) (minIntPtr l1 l2) \<longleftrightarrow> withinIntPtrs v g1 l1 \<and> withinIntPtrs v g2 l2"
  by (auto simp: withinIntPtrs_def maxIntPtr_def minIntPtr_def split: option.splits)

lemma withinIntPtrs_empty: "l \<le> g \<Longrightarrow> \<not> withinIntPtrs v (Some g) (Some l)"
  by (auto simp: withinIntPtrs_def split: option.splits)

lemma Has_requirement_of:
  "Has (requirement_of k op vs) v =
     (case op of
        OpIn \<Rightarrow> v \<in> set vs
      | OpNotIn \<Rightarrow> v \<notin> set vs
      | OpExists \<Rightarrow> True
      | OpDoesNotExist \<Rightarrow> False
      | OpGt \<Rightarrow> (case ParseInt64 v of None \<Rightarrow> False | Some n \<Rightarrow> Atoi_value (hd vs) < n)
      | OpLt \<Rightarrow> (case ParseInt64 v of None \<Rightarrow> False | Some n \<Rightarrow> n < Atoi_value (hd vs)))"
  by (cases op) (auto simp: Has_def requirement_of_def withinIntPtrs_def split: option.splits)

lemma Has_Intersection: "Has (Intersection r q) v \<longleftrightarrow> Has r v \<and> Has q v"
proof -
  define gt where "gt = maxIntPtr (greaterThan r) (greaterThan q)"
  define lt where "lt = minIntPtr (lessThan r) (lessThan q)"
  note w = withinIntPtrs_meet [of v "greaterThan r" "greaterThan q" "lessThan r" "lessThan q",
      folded gt_def lt_def]
  show ?thesis
  proof (cases "\<exists>g l. gt = Some g \<and> lt = Some l \<and> l \<le> g")
    case True
    then have "\<not> withinIntPtrs v gt lt" using withinIntPtrs_empty by auto
    moreover have "Intersection r q = requirement_of (Key r) OpDoesNotExist []"
      using True by (auto simp: Intersection_def Let_def gt_def [symmetric] lt_def [symmetric])
    ultimately show ?thesis using w by (auto simp: Has_requirement_of) (auto simp: Has_def split: if_splits)
  next
    case False
    then have "\<not> (case (gt, lt) of (Some g, Some l) \<Rightarrow> l \<le> g | _ \<Rightarrow> False)"
      by (auto split: option.splits)
    then show ?thesis
      using w
      by (auto simp: Intersection_def Has_def Let_def gt_def [symmetric] lt_def [symmetric]
          withinIntPtrs_def [of v None None])
  qed
qed

interpretation req: meet_denotation Intersection Has
  by unfold_locales (rule Has_Intersection)

lemma Key_requirement_of [simp]: "Key (requirement_of k op vs) = normalizeKey k"
  by (simp add: requirement_of_def)

lemma normalizeKey_NormalizedLabels: "NormalizedLabels k = Some n \<Longrightarrow> normalizeKey n = n"
  by (auto simp: NormalizedLabels_def normalizeKey_def split: if_splits)

lemma normalizeKey_idem [simp]: "normalizeKey (normalizeKey k) = normalizeKey k"
  by (cases "NormalizedLabels k") (auto simp: normalizeKey_def [of k] normalizeKey_NormalizedLabels)

lemma Key_Intersection [simp]: "normalizeKey (Key r) = Key r \<Longrightarrow> Key (Intersection r q) = Key r"
  by (auto simp: Intersection_def Let_def split: option.splits)

subsection \<open>A requirement set is the conjunction of its parts\<close>

text \<open>Every requirement is stored under its own, normalised key.\<close>

definition keyed :: "Requirements \<Rightarrow> bool" where
  "keyed rs \<longleftrightarrow> (\<forall>k r. rs k = Some r \<longrightarrow> Key r = k \<and> normalizeKey k = k)"

lemma keyed_empty [simp]: "keyed Map.empty"
  by (simp add: keyed_def)

lemma keyed_Add1: "keyed rs \<Longrightarrow> normalizeKey (Key r) = Key r \<Longrightarrow> keyed (Requirements_Add1 rs r)"
  by (auto simp: keyed_def Requirements_Add1_def Let_def split: option.splits)

lemma Get_Add1:
  assumes "normalizeKey (Key r) = Key r"
  shows "Has (Requirements_Get (Requirements_Add1 rs r) k) v \<longleftrightarrow>
     (Key r = k \<longrightarrow> Has r v) \<and> Has (Requirements_Get rs k) v"
  using assms
  by (auto simp: Requirements_Add1_def Requirements_Get_def Has_Intersection Has_requirement_of Let_def
      split: option.splits)

lemma Get_Add:
  assumes "\<forall>r \<in> set reqs. normalizeKey (Key r) = Key r"
  shows "Has (Requirements_Get (Requirements_Add rs reqs) k) v \<longleftrightarrow>
     (\<forall>r \<in> set reqs. Key r = k \<longrightarrow> Has r v) \<and> Has (Requirements_Get rs k) v"
  using assms by (induction reqs arbitrary: rs) (auto simp: Get_Add1)

lemma keyed_Add:
  "keyed rs \<Longrightarrow> \<forall>r \<in> set reqs. normalizeKey (Key r) = Key r \<Longrightarrow> keyed (Requirements_Add rs reqs)"
  by (induction reqs arbitrary: rs) (auto simp: keyed_Add1)

definition well_formed_nsr :: "NodeSelectorRequirement \<Rightarrow> bool" where
  "well_formed_nsr q \<longleftrightarrow> \<not> ((nsr_Operator q = OpGt \<or> nsr_Operator q = OpLt) \<and> nsr_Values q = [])"

lemma addNodeSelectorRequirements_Add:
  assumes "\<forall>q \<in> set qs. well_formed_nsr q"
  shows "addNodeSelectorRequirements rs qs =
     Ok (Requirements_Add rs (map (\<lambda>q. requirement_of (nsr_Key q) (nsr_Operator q) (nsr_Values q)) qs))"
  using assms
  by (induction qs arbitrary: rs) (auto simp: NewRequirement_def well_formed_nsr_def)

lemma addNodeSelectorRequirements_panic:
  assumes "\<exists>q \<in> set qs. \<not> well_formed_nsr q"
  shows "is_Panic (addNodeSelectorRequirements rs qs)"
  using assms
  by (induction qs arbitrary: rs) (auto simp: NewRequirement_def well_formed_nsr_def)

text \<open>The values an operator admits, as the Kubernetes API describes node selectors.\<close>

definition admits :: "NodeSelectorRequirement \<Rightarrow> string \<Rightarrow> bool" where
  "admits q v =
     (case nsr_Operator q of
        OpIn \<Rightarrow> v \<in> set (nsr_Values q)
      | OpNotIn \<Rightarrow> v \<notin> set (nsr_Values q)
      | OpExists \<Rightarrow> True
      | OpDoesNotExist \<Rightarrow> False
      | OpGt \<Rightarrow> (\<exists>n. ParseInt64 v = Some n \<and> Atoi_value (hd (nsr_Values q)) < n)
      | OpLt \<Rightarrow> (\<exists>n. ParseInt64 v = Some n \<and> n < Atoi_value (hd (nsr_Values q))))"

lemma Has_admits:
  "Has (requirement_of (nsr_Key q) (nsr_Operator q) (nsr_Values q)) v = admits q v"
  by (auto simp: Has_requirement_of admits_def split: NodeSelectorOperator.splits option.splits)

lemma NewNodeSelectorRequirements_Get:
  assumes "NewNodeSelectorRequirements qs = Ok rs"
  shows "Has (Requirements_Get rs k) v \<longleftrightarrow>
     (\<forall>q \<in> set qs. normalizeKey (nsr_Key q) = k \<longrightarrow> admits q v)"
proof -
  have wf: "\<forall>q \<in> set qs. well_formed_nsr q"
  proof (rule ccontr)
    assume "\<not> (\<forall>q \<in> set qs. well_formed_nsr q)"
    then have "is_Panic (addNodeSelectorRequirements (NewRequirements []) qs)"
      by (intro addNodeSelectorRequirements_panic) auto
    then show False using assms by (simp add: NewNodeSelectorRequirements_def)
  qed
  have empty: "Has (Requirements_Get (NewRequirements []) k) v"
    by (simp add: NewRequirements_def Requirements_Get_def Has_requirement_of)
  from wf assms have
    "rs = Requirements_Add (NewRequirements [])
       (map (\<lambda>q. requirement_of (nsr_Key q) (nsr_Operator q) (nsr_Values q)) qs)"
    by (simp add: NewNodeSelectorRequirements_def addNodeSelectorRequirements_Add)
  then show ?thesis using empty by (simp add: Get_Add Has_admits)
qed

lemma keyed_NewNodeSelectorRequirements:
  "NewNodeSelectorRequirements qs = Ok rs \<Longrightarrow> keyed rs"
proof -
  have "addNodeSelectorRequirements rs0 qs = Ok rs \<Longrightarrow> keyed rs0 \<Longrightarrow> keyed rs" for rs0
    by (induction qs arbitrary: rs0) (auto simp: NewRequirement_def keyed_Add1 split: if_splits)
  then show "NewNodeSelectorRequirements qs = Ok rs \<Longrightarrow> keyed rs"
    by (simp add: NewNodeSelectorRequirements_def NewRequirements_def)
qed

subsection \<open>Len, Operator and the concrete values\<close>

lemma Operator_requirement_of:
  assumes "op \<in> {OpIn, OpNotIn}" "vs \<noteq> []"
  shows "Operator (requirement_of k op vs) = op"
  using assms by (auto simp: Operator_def requirement_of_def Len_def card_gt_0_iff)

lemma Len_one:
  assumes "finite (values r)" "card (values r) < 2 ^ 62" "Len r = 1"
  shows "\<exists>v. \<not> complement r \<and> values r = {v}"
  using assms by (auto simp: Len_def card_1_singleton_iff split: if_splits)

subsection \<open>Properties\<close>

text \<open>
  C18. The requirement kept for a label key admits a value exactly when every node selector
  requirement on that key (under its normalised name) admits it, whatever the order they were
  added in.
\<close>

theorem requirements_are_conjunctions:
  assumes "NewNodeSelectorRequirements qs = Ok rs"
  shows "Has (Requirements_Get rs k) v =
     (\<forall>q \<in> set qs. normalizeKey (nsr_Key q) = k \<longrightarrow> admits q v)"
  using assms by (rule NewNodeSelectorRequirements_Get)

theorem requirements_are_conjunctions_witness:
  "\<exists>rs. NewNodeSelectorRequirements
       [\<lparr>nsr_Key = ''size'', nsr_Operator = OpIn, nsr_Values = [''3'', ''8'']\<rparr>,
        \<lparr>nsr_Key = ''size'', nsr_Operator = OpGt, nsr_Values = [''5'']\<rparr>] = Ok rs \<and>
     \<not> Has (Requirements_Get rs ''size'') ''3''"
proof -
  let ?qs = "[\<lparr>nsr_Key = ''size'', nsr_Operator = OpIn, nsr_Values = [''3'', ''8'']\<rparr>,
        \<lparr>nsr_Key = ''size'', nsr_Operator = OpGt, nsr_Values = [''5'']\<rparr>]"
  obtain rs where rs: "NewNodeSelectorRequirements ?qs = Ok rs"
    by (simp add: NewNodeSelectorRequirements_def NewRequirement_def)
  have "normalizeKey ''size'' = ''size''" by (simp add: normalizeKey_def NormalizedLabels_def)
  moreover have "ParseInt64 ''3'' = Some 3" "Atoi_value ''5'' = 5" by code_simp+
  ultimately have "\<not> Has (Requirements_Get rs ''size'') ''3''"
    by (simp add: requirements_are_conjunctions [OF rs] admits_def)
  with rs show ?thesis by blast
qed

end
