(* ===== verification/KubeTypes.thy ===== *)
theory KubeTypes
  imports Scheduling
begin

text \<open>
  The API objects the providers read and write, restricted to the fields the program touches:
  karpenter's \<open>Machine\<close>, Kubernetes' \<open>Node\<close>, and AKS' \<open>AgentPool\<close>. Pointers are options, maps are
  partial functions.
\<close>

subsection \<open>Quantities\<close>

text \<open>
  \<open>resource.Quantity\<close> as a number of nano units, the finest precision a quantity has.
  \<open>Value\<close> and \<open>MilliValue\<close> round away from zero.
\<close>

type_synonym Quantity = int

definition div_away :: "int \<Rightarrow> int \<Rightarrow> int" where
  "div_away a b = (if 0 \<le> a then (a + b - 1) div b else - ((- a + b - 1) div b))"

definition Quantity_Value :: "Quantity \<Rightarrow> int" where
  "Quantity_Value q = int64_of (div_away q (10 ^ 9))"

definition whole :: "int \<Rightarrow> Quantity" where
  "whole n = n * 10 ^ 9"

lemma div_away_exact: "0 < b \<Longrightarrow> div_away (n * b) b = n"
proof -
  assume b: "0 < b"
  have "(m * b + b - 1) div b = m" for m
  proof -
    have "m * b + b - 1 = (b - 1) + m * b" by simp
    then show ?thesis using b by (simp only: div_mult_self1 [OF less_imp_neq [OF b, symmetric]]) simp
  qed
  from this [of n] this [of "- n"] show ?thesis by (simp add: div_away_def)
qed

lemma Value_whole: "- (2 ^ 63) \<le> n \<Longrightarrow> n < 2 ^ 63 \<Longrightarrow> Quantity_Value (whole n) = n"
  using div_away_exact [of "10 ^ 9" n] by (simp add: Quantity_Value_def whole_def int64_of_id)

type_synonym ResourceList = "string \<rightharpoonup> Quantity"

text \<open>\<open>(rl *ResourceList) Storage()\<close>: the zero quantity when the resource is absent.\<close>

definition Storage :: "ResourceList \<Rightarrow> Quantity" where
  "Storage rl = (case rl ''storage'' of Some q \<Rightarrow> q | None \<Rightarrow> 0)"

subsection \<open>Machines and nodes\<close>

record Taint =
  taint_Key :: string
  taint_Value :: string
  taint_Effect :: string

record Machine =
  m_Name :: string
  m_Labels :: "string \<rightharpoonup> string"
  m_Annotations :: "string \<rightharpoonup> string"
  m_Requirements :: "NodeSelectorRequirement list"
  m_Taints :: "Taint list"
  m_Requests :: "ResourceList option"
  m_ProviderID :: string

definition empty_Machine :: Machine where
  "empty_Machine =
     \<lparr>m_Name = '''', m_Labels = Map.empty, m_Annotations = Map.empty, m_Requirements = [],
      m_Taints = [], m_Requests = None, m_ProviderID = ''''\<rparr>"

record NodeCondition =
  cond_Type :: string
  cond_Status :: string

record Node =
  n_Name :: string
  n_Labels :: "string \<rightharpoonup> string"
  n_Conditions :: "NodeCondition list"

fun find_condition :: "NodeCondition list \<Rightarrow> string \<Rightarrow> NodeCondition" where
  "find_condition [] ty = \<lparr>cond_Type = '''', cond_Status = ''''\<rparr>"
| "find_condition (c # cs) ty = (if cond_Type c = ty then c else find_condition cs ty)"

definition GetCondition :: "Node \<Rightarrow> string \<Rightarrow> NodeCondition" where
  "GetCondition n ty = find_condition (n_Conditions n) ty"

definition NodeIsReady :: "Node \<Rightarrow> bool" where
  "NodeIsReady n \<longleftrightarrow> cond_Status (GetCondition n ''Ready'') = ''True''"

subsection \<open>Agent pools\<close>

record AgentPoolProperties =
  NodeLabels :: "string \<rightharpoonup> string option"
  NodeTaints :: "string option list"
  PoolType :: "string option"
  VMSize :: "string option"
  OSType :: "string option"
  Count :: "int option"
  ScaleSetPriority :: "string option"
  OSDiskSizeGB :: "int option"
  VnetSubnetID :: "string option"
  Tags :: "string \<rightharpoonup> string option"
  ProvisioningState :: "string option"

record AgentPool =
  ap_ID :: "string option"
  ap_Name :: "string option"
  ap_Properties :: "AgentPoolProperties option"

end
