(* ===== verification/AgentPools.thy ===== *)
theory AgentPools
  imports KubeTypes
begin

text \<open>
  The Azure agent pool client as the program sees it (\<open>AgentPoolsAPI\<close> of
  \<open>pkg/providers/instance/azure_client.go\<close>) and the four helpers of \<open>armutils.go\<close>. The service
  behind the client is a parameter: every field is a function over a world \<open>'w\<close>. A poller is
  the action its \<open>PollUntilDone\<close> performs. A pager is the SDK's \<open>runtime.Pager\<close> (vendored) over
  the service's page fetcher.
\<close>

subsection \<open>Definitions\<close>

record ListPage =
  pg_Value :: "AgentPool option list"
  pg_NextLink :: "string option"

record 'w AgentPoolsAPI =
  BeginCreateOrUpdate :: "string \<Rightarrow> string \<Rightarrow> string \<Rightarrow> AgentPool \<Rightarrow> ('w, ('w, AgentPool) act) act"
  GetPool :: "string \<Rightarrow> string \<Rightarrow> string \<Rightarrow> ('w, AgentPool) act"
  BeginDelete :: "string \<Rightarrow> string \<Rightarrow> string \<Rightarrow> ('w, ('w, unit) act) act"
  Fetcher :: "string \<Rightarrow> string \<Rightarrow> ListPage option \<Rightarrow> ('w, ListPage) act"

definition handlerMore :: "ListPage \<Rightarrow> bool" where
  "handlerMore page = (case pg_NextLink page of None \<Rightarrow> False | Some l \<Rightarrow> 0 < length l)"

record Pager =
  current :: "ListPage option"
  firstPage :: bool

definition NewPager :: Pager where
  "NewPager = \<lparr>current = None, firstPage = True\<rparr>"

definition More :: "Pager \<Rightarrow> bool" where
  "More p = (case current p of Some page \<Rightarrow> handlerMore page | None \<Rightarrow> True)"

definition NextPage :: "(ListPage option \<Rightarrow> ('w, ListPage) act) \<Rightarrow> Pager \<Rightarrow> ('w, ListPage \<times> Pager) act" where
  "NextPage fetch p w =
     (let go = (\<lambda>p. case fetch (current p) w of
                      (Ok resp, w') \<Rightarrow> (Ok (resp, p\<lparr>current := Some resp\<rparr>), w')
                    | (Err e, w') \<Rightarrow> (Err e, w')
                    | (Panic m, w') \<Rightarrow> (Panic m, w'))
      in case current p of
           Some page \<Rightarrow>
             if firstPage p then (Ok (page, p\<lparr>firstPage := False\<rparr>), w)
             else if \<not> handlerMore page then (Err (ErrorString ''no more pages''), w)
             else go p
         | None \<Rightarrow> go (p\<lparr>firstPage := False\<rparr>))"

definition createAgentPool ::
  "'w AgentPoolsAPI \<Rightarrow> string \<Rightarrow> string \<Rightarrow> string \<Rightarrow> AgentPool \<Rightarrow> ('w, AgentPool) act" where
  "createAgentPool client rg apName clusterName ap =
     act_bind (BeginCreateOrUpdate client rg clusterName apName ap) (\<lambda>pollUntilDone. pollUntilDone)"

definition deleteAgentPool ::
  "'w AgentPoolsAPI \<Rightarrow> string \<Rightarrow> string \<Rightarrow> string \<Rightarrow> ('w, unit) act" where
  "deleteAgentPool client rg apName clusterName w =
     (case BeginDelete client rg clusterName apName w of
        (Err e, w1) \<Rightarrow>
          if IsResponseError e = Some ''NotFound'' then (Ok (), w1) else (Err e, w1)
      | (Panic m, w1) \<Rightarrow> (Panic m, w1)
      | (Ok pollUntilDone, w1) \<Rightarrow>
          (case pollUntilDone w1 of
             (Err e, w2) \<Rightarrow>
               if IsResponseError e = Some ''NotFound'' then (Ok (), w2) else (Err e, w2)
           | (r, w2) \<Rightarrow> (r, w2)))"

definition getAgentPool ::
  "'w AgentPoolsAPI \<Rightarrow> string \<Rightarrow> string \<Rightarrow> string \<Rightarrow> ('w, AgentPool) act" where
  "getAgentPool client rg apName clusterName = GetPool client rg clusterName apName"

text \<open>
  The loop of \<open>listAgentPools\<close> ends only when the service stops sending next links; a service
  that never does makes it run forever, which is the value \<open>None\<close>.
\<close>

partial_function (option) listLoop ::
  "(ListPage option \<Rightarrow> ('w, ListPage) act) \<Rightarrow> Pager \<Rightarrow> AgentPool option list \<Rightarrow> 'w
     \<Rightarrow> (AgentPool option list res \<times> 'w) option" where
  "listLoop fetch p apList w =
     (if More p
      then (case NextPage fetch p w of
              (Ok (page, p'), w') \<Rightarrow> listLoop fetch p' (apList @ pg_Value page) w'
            | (Err e, w') \<Rightarrow> Some (Err e, w')
            | (Panic m, w') \<Rightarrow> Some (Panic m, w'))
      else Some (Ok apList, w))"

declare listLoop.simps [code]

definition listAgentPools ::
  "'w AgentPoolsAPI \<Rightarrow> string \<Rightarrow> string \<Rightarrow> 'w \<Rightarrow> (AgentPool option list res \<times> 'w) option" where
  "listAgentPools client rg clusterName w =
     listLoop (Fetcher client rg clusterName) NewPager [] w"

subsection \<open>Listing walks the pages to the end\<close>

text \<open>
  \<open>serves fetch cur w pages w'\<close>: asked after page \<open>cur\<close> in world \<open>w\<close>, the service hands out
  exactly \<open>pages\<close>, the last of them without a next link, and ends in world \<open>w'\<close>.
\<close>

inductive serves ::
  "(ListPage option \<Rightarrow> ('w, ListPage) act) \<Rightarrow> ListPage option \<Rightarrow> 'w \<Rightarrow> ListPage list \<Rightarrow> 'w \<Rightarrow> bool"
  for fetch where
  serves_last:
    "fetch cur w = (Ok page, w') \<Longrightarrow> \<not> handlerMore page \<Longrightarrow> serves fetch cur w [page] w'"
| serves_more:
    "fetch cur w = (Ok page, w1) \<Longrightarrow> handlerMore page \<Longrightarrow> serves fetch (Some page) w1 pages w2 \<Longrightarrow>
     serves fetch cur w (page # pages) w2"

text \<open>
  \<open>breaks\<close>: the service hands out some pages and then answers with an error.
\<close>

inductive breaks ::
  "(ListPage option \<Rightarrow> ('w, ListPage) act) \<Rightarrow> ListPage option \<Rightarrow> 'w \<Rightarrow> goerr \<Rightarrow> 'w \<Rightarrow> bool"
  for fetch where
  breaks_now: "fetch cur w = (Err e, w') \<Longrightarrow> breaks fetch cur w e w'"
| breaks_later:
    "fetch cur w = (Ok page, w1) \<Longrightarrow> handlerMore page \<Longrightarrow> breaks fetch (Some page) w1 e w2 \<Longrightarrow>
     breaks fetch cur w e w2"

text \<open>The pager between two pages: nothing fetched yet, or a page with a next link.\<close>

definition pager_at :: "ListPage option \<Rightarrow> Pager \<Rightarrow> bool" where
  "pager_at cur p \<longleftrightarrow> current p = cur \<and>
     (case cur of None \<Rightarrow> True | Some page \<Rightarrow> handlerMore page \<and> \<not> firstPage p)"

lemma pager_at_More: "pager_at cur p \<Longrightarrow> More p"
  by (auto simp: pager_at_def More_def split: option.splits)

lemma pager_at_NextPage:
  assumes "pager_at cur p"
  shows "NextPage fetch p w =
    (case fetch cur w of
       (Ok resp, w') \<Rightarrow> (Ok (resp, p\<lparr>firstPage := False, current := Some resp\<rparr>), w')
     | (Err e, w') \<Rightarrow> (Err e, w')
     | (Panic m, w') \<Rightarrow> (Panic m, w'))"
  using assms
  by (cases p) (auto simp: NextPage_def pager_at_def Let_def split: option.splits res.splits prod.splits)

lemma listLoop_serves:
  assumes "serves fetch cur w pages w'" "pager_at cur p"
  shows "listLoop fetch p acc w = Some (Ok (acc @ concat (map pg_Value pages)), w')"
  using assms
proof (induction arbitrary: p acc)
  case (serves_last cur w page w')
  then show ?case
    using pager_at_More [of cur p]
    by (subst listLoop.simps) (simp add: pager_at_NextPage listLoop.simps More_def)
next
  case (serves_more cur w page w1 pages w2)
  have "pager_at (Some page) (p\<lparr>firstPage := False, current := Some page\<rparr>)"
    using serves_more.hyps by (simp add: pager_at_def)
  from serves_more.IH [OF this] serves_more.hyps serves_more.prems show ?case
    by (subst listLoop.simps) (simp add: pager_at_More pager_at_NextPage)
qed

lemma listLoop_breaks:
  assumes "breaks fetch cur w e w'" "pager_at cur p"
  shows "listLoop fetch p acc w = Some (Err e, w')"
  using assms
proof (induction arbitrary: p acc)
  case (breaks_now cur w e w')
  then show ?case
    by (subst listLoop.simps) (simp add: pager_at_More pager_at_NextPage)
next
  case (breaks_later cur w page w1 e w2)
  have "pager_at (Some page) (p\<lparr>firstPage := False, current := Some page\<rparr>)"
    using breaks_later.hyps by (simp add: pager_at_def)
  from breaks_later.IH [OF this] breaks_later.hyps breaks_later.prems show ?case
    by (subst listLoop.simps) (simp add: pager_at_More pager_at_NextPage)
qed

lemma pager_at_New [simp]: "pager_at None NewPager"
  by (simp add: pager_at_def NewPager_def)

lemma listAgentPools_serves:
  "serves (Fetcher client rg cluster) None w pages w' \<Longrightarrow>
   listAgentPools client rg cluster w = Some (Ok (concat (map pg_Value pages)), w')"
  by (simp add: listAgentPools_def listLoop_serves)

lemma listAgentPools_breaks:
  "breaks (Fetcher client rg cluster) None w e w' \<Longrightarrow>
   listAgentPools client rg cluster w = Some (Err e, w')"
  by (simp add: listAgentPools_def listLoop_breaks)

subsection \<open>Deleting\<close>

lemma deleteAgentPool_begin_not_found:
  "BeginDelete client rg cluster n w = (Err e, w1) \<Longrightarrow> IsResponseError e = Some ''NotFound'' \<Longrightarrow>
   deleteAgentPool client rg n cluster w = (Ok (), w1)"
  by (simp add: deleteAgentPool_def)

lemma deleteAgentPool_poll:
  "BeginDelete client rg cluster n w = (Ok poll, w1) \<Longrightarrow>
   deleteAgentPool client rg n cluster w =
     (case poll w1 of
        (Err e, w2) \<Rightarrow> (if IsResponseError e = Some ''NotFound'' then Ok () else Err e, w2)
      | (r, w2) \<Rightarrow> (r, w2))"
  by (simp add: deleteAgentPool_def split: prod.splits res.splits)

end
