(* ===== verification/Retry.thy ===== *)
theory Retry
  imports GoPrelude Complex_Main
begin

text \<open>
  The retry loop the instance provider runs its calls under: \<open>retry.OnError\<close> of client-go over
  \<open>wait.ExponentialBackoff\<close> of apimachinery (both vendored). Sleeping and the random source of
  the jitter are fields of a clock over the world; products of a duration with a factor are
  exact rationals truncated toward zero (the factors the provider uses, 1 and 5, are exact in
  a float64, and the result is only ever slept on).
\<close>

subsection \<open>Definitions\<close>

record 'w clock =
  Float64 :: "'w \<Rightarrow> rat \<times> 'w"
  Sleep :: "int \<Rightarrow> 'w \<Rightarrow> 'w"

record Backoff =
  Duration :: int
  Factor :: rat
  JitterF :: rat
  Steps :: int
  Cap :: int

definition trunc :: "rat \<Rightarrow> int" where
  "trunc q = (if 0 \<le> q then \<lfloor>q\<rfloor> else \<lceil>q\<rceil>)"

definition Jitter :: "'w clock \<Rightarrow> int \<Rightarrow> rat \<Rightarrow> 'w \<Rightarrow> int \<times> 'w" where
  "Jitter c duration maxFactor w =
     (let maxFactor = (if maxFactor \<le> 0 then 1 else maxFactor);
          (r, w') = Float64 c w
      in (duration + trunc (r * maxFactor * of_int duration), w'))"

text \<open>\<open>(b *Backoff) Step\<close> returns the time to sleep and the updated backoff.\<close>

definition Step :: "'w clock \<Rightarrow> Backoff \<Rightarrow> 'w \<Rightarrow> (int \<times> Backoff) \<times> 'w" where
  "Step c b w =
     (if Steps b < 1
      then (if 0 < JitterF b
            then (let (d, w') = Jitter c (Duration b) (JitterF b) w in ((d, b), w'))
            else ((Duration b, b), w))
      else
        (let b1 = b\<lparr>Steps := Steps b - 1\<rparr>;
             duration = Duration b1;
             b2 = (if Factor b1 \<noteq> 0
                   then (let b' = b1\<lparr>Duration := trunc (of_int (Duration b1) * Factor b1)\<rparr>
                         in if 0 < Cap b' \<and> Cap b' < Duration b'
                            then b'\<lparr>Duration := Cap b', Steps := 0\<rparr>
                            else b')
                   else b1)
         in if 0 < JitterF b2
            then (let (d, w') = Jitter c duration (JitterF b2) w in ((d, b2), w'))
            else ((duration, b2), w)))"

abbreviation ErrWaitTimeout :: goerr where
  "ErrWaitTimeout \<equiv> Sentinel ''timed out waiting for the condition''"

lemma Step_decreases:
  assumes "Step c b w = ((d, b'), w')" "0 < Steps b"
  shows "0 \<le> Steps b' \<and> Steps b' < Steps b"
  using assms by (auto simp: Step_def Let_def split: if_splits prod.splits)

function ExponentialBackoff :: "'s clock \<Rightarrow> Backoff \<Rightarrow> ('s, bool) act \<Rightarrow> ('s, unit) act" where
  "ExponentialBackoff c backoff condition s =
     (if 0 < Steps backoff
      then (case condition s of
              (Err e, s') \<Rightarrow> (Err e, s')
            | (Panic p, s') \<Rightarrow> (Panic p, s')
            | (Ok ok, s') \<Rightarrow>
                (if ok then (Ok (), s')
                 else if Steps backoff = 1 then (Err ErrWaitTimeout, s')
                 else (case Step c backoff s' of
                         ((d, backoff'), s'') \<Rightarrow>
                           ExponentialBackoff c backoff' condition (Sleep c d s''))))
      else (Err ErrWaitTimeout, s))"
  by pat_completeness auto
termination
  by (relation "measure (\<lambda>(c, b, cond, s). nat (Steps b))")
    (auto dest!: Step_decreases [OF sym])

declare ExponentialBackoff.simps [simp del]

text \<open>The world paired with a captured variable of the closure.\<close>

definition lift_clock :: "'w clock \<Rightarrow> ('w \<times> 'v) clock" where
  "lift_clock c =
     \<lparr>Float64 = (\<lambda>(w, v). let (r, w') = Float64 c w in (r, (w', v))),
      Sleep = (\<lambda>d (w, v). (Sleep c d w, v))\<rparr>"

text \<open>The condition \<open>OnError\<close> passes on; \<open>lastErr\<close> is its captured variable.\<close>

definition onErrorCondition ::
  "(goerr \<Rightarrow> bool) \<Rightarrow> ('w, unit) act \<Rightarrow> ('w \<times> goerr option, bool) act" where
  "onErrorCondition retriable fn =
     (\<lambda>(w, lastErr).
        case fn w of
          (Ok _, w') \<Rightarrow> (Ok True, (w', lastErr))
        | (Err e, w') \<Rightarrow>
            if retriable e then (Ok False, (w', Some e)) else (Err e, (w', lastErr))
        | (Panic p, w') \<Rightarrow> (Panic p, (w', lastErr)))"

definition OnError :: "'w clock \<Rightarrow> Backoff \<Rightarrow> (goerr \<Rightarrow> bool) \<Rightarrow> ('w, unit) act \<Rightarrow> ('w, unit) act" where
  "OnError c backoff retriable fn w =
     (case ExponentialBackoff (lift_clock c) backoff (onErrorCondition retriable fn) (w, None) of
        (r, (w', lastErr)) \<Rightarrow>
          (if r = Err ErrWaitTimeout
           then (case lastErr of None \<Rightarrow> Ok () | Some e \<Rightarrow> Err e)
           else r, w'))"

definition DefaultRetry :: Backoff where
  "DefaultRetry = \<lparr>Duration = 10000000, Factor = 1, JitterF = 1/10, Steps = 5, Cap = 0\<rparr>"

definition DefaultBackoff :: Backoff where
  "DefaultBackoff = \<lparr>Duration = 10000000, Factor = 5, JitterF = 1/10, Steps = 4, Cap = 0\<rparr>"

subsection \<open>Retrying as bounded iteration\<close>

text \<open>
  The reference: up to \<open>n\<close> attempts; a retriable error is followed by a pause and another
  attempt while attempts are left, every other outcome ends the loop. The pause function may
  depend on the attempt.
\<close>

fun attempts :: "(nat \<Rightarrow> 'w \<Rightarrow> 'w) \<Rightarrow> (goerr \<Rightarrow> bool) \<Rightarrow> ('w, unit) act \<Rightarrow> nat \<Rightarrow> nat \<Rightarrow> ('w, unit) act" where
  "attempts pause retriable fn i 0 w = fn w"
| "attempts pause retriable fn i (Suc n) w =
     (case fn w of
        (Err e, w') \<Rightarrow>
          if retriable e then attempts pause retriable fn (Suc i) n (pause i w') else (Err e, w')
      | (r, w') \<Rightarrow> (r, w'))"

text \<open>The backoff after \<open>i\<close> steps, when no cap is set, and the pause it causes.\<close>

definition uncapped :: "Backoff \<Rightarrow> nat \<Rightarrow> Backoff" where
  "uncapped b i = b\<lparr>Steps := Steps b - int i,
     Duration := ((\<lambda>d. if Factor b \<noteq> 0 then trunc (of_int d * Factor b) else d) ^^ i) (Duration b)\<rparr>"

definition pause_of :: "'w clock \<Rightarrow> Backoff \<Rightarrow> nat \<Rightarrow> 'w \<Rightarrow> 'w" where
  "pause_of c b i w = (case Step c (uncapped b i) w of ((d, _), w') \<Rightarrow> Sleep c d w')"

lemma uncapped_0 [simp]: "uncapped b 0 = b"
  by (simp add: uncapped_def)

lemma snd_Step_uncapped:
  assumes "Cap b = 0" "int i < Steps b" "Step c (uncapped b i) w = ((d, b'), w')"
  shows "b' = uncapped b (Suc i)"
  using assms by (auto simp: Step_def uncapped_def Let_def split: prod.splits if_splits)

lemma Jitter_lift:
  "Jitter (lift_clock c) d m (w, v) = (case Jitter c d m w of (d', w') \<Rightarrow> (d', (w', v)))"
  by (simp add: Jitter_def lift_clock_def Let_def split: prod.splits)

lemma Step_lift:
  "Step (lift_clock c) b (w, v) = (case Step c b w of (db, w') \<Rightarrow> (db, (w', v)))"
  by (simp add: Step_def Jitter_lift Let_def split: prod.splits)

lemma Sleep_lift [simp]: "Sleep (lift_clock c) d (w, v) = (Sleep c d w, v)"
  by (simp add: lift_clock_def)

lemma Steps_uncapped: "Steps (uncapped b i) = Steps b - int i"
  by (simp add: uncapped_def)

text \<open>The outcome of the loop body's error bookkeeping, as \<open>OnError\<close> reads it at the end.\<close>

definition settle :: "unit res \<times> 'w \<times> goerr option \<Rightarrow> unit res \<times> 'w" where
  "settle x = (case x of (r, (w, lastErr)) \<Rightarrow>
     (if r = Err ErrWaitTimeout then (case lastErr of None \<Rightarrow> Ok () | Some e \<Rightarrow> Err e) else r, w))"

lemma OnError_settle:
  "OnError c b retriable fn w =
     settle (ExponentialBackoff (lift_clock c) b (onErrorCondition retriable fn) (w, None))"
  by (simp add: OnError_def settle_def split: prod.splits)

text \<open>
  No call of \<open>fn\<close> ends the loop with the loop's own sentinel: it is retriable or never
  answered.
\<close>

definition no_sentinel :: "(goerr \<Rightarrow> bool) \<Rightarrow> ('w, unit) act \<Rightarrow> bool" where
  "no_sentinel retriable fn \<longleftrightarrow>
     retriable ErrWaitTimeout \<or> (\<forall>w. fst (fn w) \<noteq> Err ErrWaitTimeout)"

lemma no_sentinel_always [simp]: "no_sentinel (\<lambda>_. True) fn"
  by (simp add: no_sentinel_def)

lemma ExponentialBackoff_attempts:
  assumes "Cap b = 0" "no_sentinel retriable fn" "Steps b = int (Suc (i + n))"
  shows "settle (ExponentialBackoff (lift_clock c) (uncapped b i) (onErrorCondition retriable fn) (w, le))
    = attempts (pause_of c b) retriable fn i n w"
  using assms(3)
proof (induction n arbitrary: i w le)
  case 0
  have "retriable ErrWaitTimeout \<or> fst (fn w) \<noteq> Err ErrWaitTimeout"
    using assms(2) by (auto simp: no_sentinel_def)
  then show ?case
    using 0
    by (subst ExponentialBackoff.simps)
      (auto simp: Steps_uncapped onErrorCondition_def settle_def split: prod.splits res.splits)
next
  case (Suc n)
  have ns: "retriable ErrWaitTimeout \<or> fst (fn w) \<noteq> Err ErrWaitTimeout"
    using assms(2) by (auto simp: no_sentinel_def)
  obtain r w1 where f: "fn w = (r, w1)" by (cases "fn w")
  show ?case
  proof (cases "\<exists>e. r = Err e \<and> retriable e")
    case True
    then obtain e where r: "r = Err e" "retriable e" by blast
    obtain d b' w2 where st: "Step c (uncapped b i) w1 = ((d, b'), w2)"
      by (cases "Step c (uncapped b i) w1") auto
    have b': "b' = uncapped b (Suc i)"
      using snd_Step_uncapped [OF assms(1) _ st] Suc.prems by simp
    have IH: "settle (ExponentialBackoff (lift_clock c) (uncapped b (Suc i)) (onErrorCondition retriable fn) (w', le'))
        = attempts (pause_of c b) retriable fn (Suc i) n w'" for w' le'
      by (rule Suc.IH) (use Suc.prems in simp)
    show ?thesis
      using Suc.prems f r st b' IH
      by (subst ExponentialBackoff.simps)
        (simp add: Steps_uncapped onErrorCondition_def Step_lift pause_of_def)
  next
    case False
    then show ?thesis
      using Suc.prems f ns
      by (subst ExponentialBackoff.simps)
        (auto simp: Steps_uncapped onErrorCondition_def settle_def split: res.splits)
  qed
qed

lemma OnError_attempts:
  assumes "Cap b = 0" "no_sentinel retriable fn" "Steps b = int (Suc n)"
  shows "OnError c b retriable fn w = attempts (pause_of c b) retriable fn 0 n w"
  using ExponentialBackoff_attempts [of b retriable fn 0 n c w None] assms
  by (simp add: OnError_settle)

text \<open>A loop that never retries calls \<open>fn\<close> once.\<close>

lemma attempts_never: "attempts pause (\<lambda>_. False) fn i n w = fn w"
  by (cases n) (auto split: prod.splits res.splits)

lemma OnError_never:
  assumes "Cap b = 0" "no_sentinel (\<lambda>_. False) fn" "0 < Steps b"
  shows "OnError c b (\<lambda>_. False) fn w = fn w"
  using OnError_attempts [of b "\<lambda>_. False" fn "nat (Steps b) - 1" c] assms by (simp add: attempts_never)

lemma attempts_Ok_first: "fn w = (Ok u, w') \<Longrightarrow> attempts pause retriable fn i n w = (Ok u, w')"
  by (cases n) simp_all

lemma attempts_Panic_first: "fn w = (Panic p, w') \<Longrightarrow> attempts pause retriable fn i n w = (Panic p, w')"
  by (cases n) simp_all

text \<open>What holds of the world before every attempt and of every outcome of \<open>fn\<close> holds at the end.\<close>

lemma attempts_invariant:
  assumes "I w" "\<And>w. I w \<Longrightarrow> Q (fst (fn w)) (snd (fn w))"
    and "\<And>w e j. I w \<Longrightarrow> fst (fn w) = Err e \<Longrightarrow> I (pause j (snd (fn w)))"
  shows "Q (fst (attempts pause retriable fn i n w)) (snd (attempts pause retriable fn i n w))"
  using assms(1)
proof (induction n arbitrary: i w)
  case 0
  with assms(2) show ?case by simp
next
  case (Suc n)
  show ?case
  proof (cases "fn w")
    case (Pair r w1)
    with Suc.IH [of "pause i w1" "Suc i"] assms(2,3) [OF Suc.prems] show ?thesis
      by (cases r) auto
  qed
qed

subsection \<open>Counting the calls\<close>

text \<open>\<open>fn\<close> instrumented with a call counter.\<close>

definition counted :: "('w, unit) act \<Rightarrow> ('w \<times> nat, unit) act" where
  "counted fn = (\<lambda>(w, k). case fn w of (r, w') \<Rightarrow> (r, (w', Suc k)))"

lemma attempts_counted:
  assumes "attempts (\<lambda>j (w, k). (pause j w, k)) retriable (counted fn) i n (w, k) = (r, (w', k'))"
  shows "k < k' \<and> k' \<le> k + Suc n \<and> (\<forall>e. r = Err e \<and> retriable e \<longrightarrow> k' = k + Suc n)
    \<and> attempts pause retriable fn i n w = (r, w')"
  using assms
proof (induction n arbitrary: i w k)
  case 0
  then show ?case by (auto simp: counted_def split: prod.splits)
next
  case (Suc n)
  obtain r1 w1 where f: "fn w = (r1, w1)" by (cases "fn w")
  show ?case
  proof (cases "\<exists>e. r1 = Err e \<and> retriable e")
    case True
    with Suc.prems f Suc.IH [of "Suc i" "pause i w1" "Suc k"] show ?thesis
      by (auto simp: counted_def)
  next
    case False
    with Suc.prems f show ?thesis
      by (auto simp: counted_def split: res.splits if_splits)
  qed
qed

lemma no_sentinel_counted: "no_sentinel retriable fn \<Longrightarrow> no_sentinel retriable (counted fn)"
  by (simp add: no_sentinel_def counted_def split: prod.splits) (metis fst_conv)

lemma pause_of_lift: "pause_of (lift_clock c) b = (\<lambda>j (w, k). (pause_of c b j w, k))"
  by (rule ext)+ (auto simp: pause_of_def Step_lift split: prod.splits)

lemma OnError_counted:
  assumes "Cap b = 0" "no_sentinel retriable fn" "0 < Steps b"
    and "OnError (lift_clock c) b retriable (counted fn) (w, 0) = (r, (w', k))"
  shows "0 < k \<and> int k \<le> Steps b \<and> (\<forall>e. r = Err e \<and> retriable e \<longrightarrow> int k = Steps b)
    \<and> OnError c b retriable fn w = (r, w')"
proof -
  have n: "Steps b = int (Suc (nat (Steps b) - 1))" using assms(3) by simp
  have "attempts (\<lambda>j (w, k). (pause_of c b j w, k)) retriable (counted fn) 0 (nat (Steps b) - 1) (w, 0) = (r, (w', k))"
    using assms(4) OnError_attempts [OF assms(1) no_sentinel_counted [OF assms(2)] n, of "lift_clock c"]
    by (simp add: pause_of_lift)
  from attempts_counted [OF this] show ?thesis
    using OnError_attempts [OF assms(1,2) n, of c w] n by auto
qed

subsection \<open>Properties\<close>

text \<open>
  C17. \<open>retry.OnError\<close> with an uncapped backoff (\<open>Cap = 0\<close>, as all backoffs of the program) of at least one step, for a
  function that does not itself return the timeout error of the wait package, calls the function at least once
  and at most \<open>Steps\<close> times; if it gives up on a retriable error, it has called it exactly \<open>Steps\<close> times. A backoff
  with a cap gives up as soon as the cap is reached, which may be earlier.
\<close>

theorem OnError_call_count:
  assumes "Cap b = 0" "no_sentinel retriable fn" "0 < Steps b"
    and "OnError (lift_clock c) b retriable (counted fn) (w, 0) = (r, (w', k))"
  shows "0 < k \<and> int k \<le> Steps b \<and> (\<forall>e. r = Err e \<and> retriable e \<longrightarrow> int k = Steps b)
    \<and> OnError c b retriable fn w = (r, w')"
  using assms by (rule OnError_counted)

theorem OnError_call_count_witness:
  "\<exists>r w' k. OnError (lift_clock \<lparr>Float64 = (\<lambda>w. (0, w)), Sleep = (\<lambda>d w. w)\<rparr>) DefaultRetry (\<lambda>_. True)
       (counted (\<lambda>w. (Err (ErrorString w), w))) (''down'', 0) = (r, (w', k)) \<and> 0 < k \<and> int k \<le> 5"
proof -
  let ?c = "\<lparr>Float64 = (\<lambda>w. (0, w)), Sleep = (\<lambda>d w. w)\<rparr> :: string clock"
  let ?fn = "\<lambda>w. (Err (ErrorString w), w) :: unit res \<times> string"
  obtain r w' k where run: "OnError (lift_clock ?c) DefaultRetry (\<lambda>_. True) (counted ?fn) (''down'', 0) = (r, (w', k))"
    by (cases "OnError (lift_clock ?c) DefaultRetry (\<lambda>_. True) (counted ?fn) (''down'', 0)") auto
  from OnError_call_count [OF _ _ _ run] have "0 < k \<and> int k \<le> 5"
    by (simp add: DefaultRetry_def)
  with run show ?thesis by blast
qed

end
