(* ===== verification/Instance.thy ===== *)
theory Instance
  imports ProviderIDs AgentPools Retry
begin

text \<open>
  The instance provider (\<open>pkg/providers/instance/instance.go\<close>): it turns a machine into an AKS
  agent pool with one node, waits for the node, and reads pools back as instances.
  \<open>runtime\<close> gathers what the Go runtime decides: the clock, the random source, and the order
  in which a set is walked. Variables that a retried closure captures are paired with the
  world while the closure runs.
\<close>

subsection \<open>Definitions\<close>

record 'w "runtime" =
  rt_clock :: "'w clock"
  rt_UnsortedList :: "string set \<Rightarrow> string list"

record 'w Provider =
  agentPoolsClient :: "'w AgentPoolsAPI"
  kubeList :: "(string \<times> string) list \<Rightarrow> ('w, Node list) act"
  resourceGroup :: string
  nodeResourceGroup :: string
  clusterName :: string

record Instance =
  i_Name :: "string option"
  i_State :: "string option"
  i_ID :: "string option"
  i_ImageID :: "string option"
  i_Type :: "string option"
  i_CapacityType :: "string option"
  i_SubnetID :: "string option"
  i_Tags :: "string \<rightharpoonup> string option"
  i_Labels :: "string \<rightharpoonup> string"

definition LabelMachineType :: string where
  "LabelMachineType = ''kaito.sh/machine-type''"

definition ProvisionerNameLabelKey :: string where
  "ProvisionerNameLabelKey = ''karpenter.sh/provisioner-name''"

definition InstanceTypeLabel :: string where
  "InstanceTypeLabel = ''node.kubernetes.io/instance-type''"

definition NewProvider ::
  "'w AgentPoolsAPI \<Rightarrow> ((string \<times> string) list \<Rightarrow> ('w, Node list) act) \<Rightarrow> string \<Rightarrow> string \<Rightarrow> string
     \<Rightarrow> 'w Provider" where
  "NewProvider azClient kubeClient rg nodeRG cluster =
     \<lparr>agentPoolsClient = azClient, kubeList = kubeClient, resourceGroup = rg,
      nodeResourceGroup = nodeRG, clusterName = cluster\<rparr>"

definition taintString :: "Taint \<Rightarrow> string" where
  "taintString t = taint_Key t @ ''='' @ taint_Value t @ '':'' @ taint_Effect t"

definition newAgentPoolObject :: "string \<Rightarrow> Machine \<Rightarrow> AgentPool" where
  "newAgentPoolObject vmSize machine =
     (let taintsStr = map (\<lambda>t. Some (taintString t)) (m_Taints machine);
          labels = [ProvisionerNameLabelKey \<mapsto> Some ''default''] ++ MapValues (m_Labels machine) Some;
          labels' = (if Contains vmSize ''Standard_N''
                     then Assign2 labels [LabelMachineType \<mapsto> Some ''gpu'']
                     else Assign2 labels [LabelMachineType \<mapsto> Some ''cpu'']);
          storage = (case m_Requests machine of None \<Rightarrow> 0 | Some rl \<Rightarrow> Storage rl)
      in \<lparr>ap_ID = None, ap_Name = None,
          ap_Properties = Some
            \<lparr>NodeLabels = labels', NodeTaints = taintsStr,
             PoolType = Some ''VirtualMachineScaleSets'', VMSize = Some vmSize,
             OSType = Some ''Linux'', Count = Some 1, ScaleSetPriority = None,
             OSDiskSizeGB = Some (int32_of (Quantity_Value storage)),
             VnetSubnetID = None, Tags = Map.empty, ProvisioningState = None\<rparr>\<rparr>)"

text \<open>\<open>getNodeByName\<close>: the captured variable is \<open>nodeList\<close>.\<close>

definition listNodes ::
  "'w Provider \<Rightarrow> (string \<times> string) list \<Rightarrow> ('w \<times> Node list, unit) act" where
  "listNodes p labelSelector =
     (\<lambda>(w, nodeList).
        case kubeList p labelSelector w of
          (Ok items, w') \<Rightarrow> (Ok (), (w', items))
        | (Err e, w') \<Rightarrow> (Err e, (w', nodeList))
        | (Panic m, w') \<Rightarrow> (Panic m, (w', nodeList)))"

definition getNodeByName :: "'w runtime \<Rightarrow> 'w Provider \<Rightarrow> string \<Rightarrow> ('w, Node option) act" where
  "getNodeByName rt p apName w =
     (let labelSelector = [(''agentpool'', apName), (''kubernetes.azure.com/agentpool'', apName)]
      in case OnError (lift_clock (rt_clock rt)) DefaultRetry (\<lambda>_. True) (listNodes p labelSelector) (w, []) of
           (Ok _, (w', nodeList)) \<Rightarrow>
             (Ok (case nodeList of [] \<Rightarrow> None | n # _ \<Rightarrow> Some n), w')
         | (Err e, (w', _)) \<Rightarrow> (Err e, w')
         | (Panic m, (w', _)) \<Rightarrow> (Panic m, w'))"

text \<open>
  The instance built from a pool and its ready node; reading a field of nil properties panics.
\<close>

definition poolInstance :: "'w Provider \<Rightarrow> string \<Rightarrow> AgentPool \<Rightarrow> Node \<Rightarrow> Instance res" where
  "poolInstance p subID apObj node =
     (let tokens = SplitAfter (n_Name node) ''-vmss''
      in map_res (\<lambda>props.
           \<lparr>i_Name = ap_Name apObj,
            i_State = ProvisioningState props,
            i_ID = Some (''azure://'' @ getVMSSNodeProviderID (nodeResourceGroup p) subID (hd tokens)),
            i_ImageID = None,
            i_Type = VMSize props,
            i_CapacityType = None,
            i_SubnetID = VnetSubnetID props,
            i_Tags = Tags props,
            i_Labels = MapValues (NodeLabels props) (FromPtr '''')\<rparr>)
         (Deref (ap_Properties apObj)))"

definition fromAgentPoolToInstance ::
  "'w runtime \<Rightarrow> 'w Provider \<Rightarrow> AgentPool option \<Rightarrow> ('w, Instance option) act" where
  "fromAgentPoolToInstance rt p apPtr w =
     (case apPtr of
        None \<Rightarrow> (Panic ''nil pointer dereference'', w)
      | Some apObj \<Rightarrow>
          (case ParseSubIDFromID (FromPtr '''' (ap_ID apObj)) of
             Err e \<Rightarrow> (Err e, w)
           | Panic m \<Rightarrow> (Panic m, w)
           | Ok subID \<Rightarrow>
               act_bind (getNodeByName rt p (FromPtr '''' (ap_Name apObj)))
                 (\<lambda>nodeOpt.
                    case nodeOpt of
                      None \<Rightarrow> act_return (Ok None)
                    | Some node \<Rightarrow>
                        if \<not> NodeIsReady node then act_return (Ok None)
                        else act_return (map_res Some (poolInstance p (FromPtr '''' subID) apObj node)))
                 w))"

fun collectInstances ::
  "'w runtime \<Rightarrow> 'w Provider \<Rightarrow> AgentPool option list \<Rightarrow> Instance list \<Rightarrow> ('w, Instance list) act" where
  "collectInstances rt p [] instances w = (Ok instances, w)"
| "collectInstances rt p (ap # aps) instances w =
     (case fromAgentPoolToInstance rt p ap w of
        (Err e, w') \<Rightarrow> (Err e, w')
      | (Panic m, w') \<Rightarrow> (Panic m, w')
      | (Ok inst, w') \<Rightarrow>
          collectInstances rt p aps (case inst of Some i \<Rightarrow> instances @ [i] | None \<Rightarrow> instances) w')"

definition fromAPListToInstances ::
  "'w runtime \<Rightarrow> 'w Provider \<Rightarrow> AgentPool option list \<Rightarrow> ('w, Instance list) act" where
  "fromAPListToInstances rt p apList w =
     (if length apList = 0 then (Err (ErrorString ''no agentpools found''), w)
      else collectInstances rt p apList [] w)"

text \<open>
  The VM size: the first of the values the machine's requirements hold for the instance type
  label.
\<close>

definition chooseVMSize :: "'w runtime \<Rightarrow> Machine \<Rightarrow> string res" where
  "chooseVMSize rt machine =
     res_bind (NewNodeSelectorRequirements (m_Requirements machine))
       (\<lambda>reqs.
          let instanceTypes = Values (rt_UnsortedList rt) (Requirements_Get reqs InstanceTypeLabel)
          in if length instanceTypes = 0
             then Err (ErrorString ''machine spec has no requirement for instance type'')
             else Ok (instanceTypes ! 0))"

text \<open>
  The closure \<open>Create\<close> runs under \<open>retry.OnError\<close>, with \<open>ap\<close> as its captured variable. Logging
  the new pool dereferences its identifier.
\<close>

definition createAttempt ::
  "'w runtime \<Rightarrow> 'w Provider \<Rightarrow> Machine \<Rightarrow> ('w \<times> AgentPool option, unit) act" where
  "createAttempt rt p machine =
     (\<lambda>(w, ap).
        let apName = m_Name machine
        in case chooseVMSize rt machine of
             Err e \<Rightarrow> (Err e, (w, ap))
           | Panic m \<Rightarrow> (Panic m, (w, ap))
           | Ok vmSize \<Rightarrow>
               (let apObj = newAgentPoolObject vmSize machine
                in case createAgentPool (agentPoolsClient p) (resourceGroup p) apName (clusterName p) apObj w of
                     (Err e, w') \<Rightarrow>
                       (Err (Wrapped (''agentPool.BeginCreateOrUpdate for '' @ quote apName @ '' failed: '') e), (w', None))
                   | (Panic m, w') \<Rightarrow> (Panic m, (w', ap))
                   | (Ok a, w') \<Rightarrow>
                       (case ap_ID a of
                          None \<Rightarrow> (Panic ''nil pointer dereference'', (w', Some a))
                        | Some _ \<Rightarrow> (Ok (), (w', Some a)))))"

text \<open>The closure of the wait, with \<open>instance\<close> as its captured variable.\<close>

definition waitAttempt ::
  "'w runtime \<Rightarrow> 'w Provider \<Rightarrow> AgentPool option \<Rightarrow> ('w \<times> Instance option, unit) act" where
  "waitAttempt rt p ap =
     (\<lambda>(w, inst).
        case fromAgentPoolToInstance rt p ap w of
          (Err e, w') \<Rightarrow> (Err e, (w', None))
        | (Panic m, w') \<Rightarrow> (Panic m, (w', inst))
        | (Ok None, w') \<Rightarrow> (Err (ErrorString ''fail to find the node object''), (w', None))
        | (Ok (Some i), w') \<Rightarrow> (Ok (), (w', Some i)))"

definition waitBackoff :: Backoff where
  "waitBackoff = \<lparr>Duration = 1000000000, Factor = 1, JitterF = 1/10, Steps = 15, Cap = 0\<rparr>"

definition Create :: "'w runtime \<Rightarrow> 'w Provider \<Rightarrow> Machine \<Rightarrow> ('w, Instance option) act" where
  "Create rt p machine w =
     (let apName = m_Name machine
      in if 11 < length apName
         then (Err (ErrorString (''the length agentpool name should be less than 11, got ''
                 @ show_nat (length apName) @ '' ('' @ apName @ '')'')), w)
         else
           (case OnError (lift_clock (rt_clock rt)) DefaultBackoff (\<lambda>_. False) (createAttempt rt p machine) (w, None) of
              (Err e, (w1, _)) \<Rightarrow> (Err e, w1)
            | (Panic m, (w1, _)) \<Rightarrow> (Panic m, w1)
            | (Ok _, (w1, ap)) \<Rightarrow>
                (case fromAgentPoolToInstance rt p ap w1 of
                   (Ok None, w2) \<Rightarrow>
                     (case OnError (lift_clock (rt_clock rt)) waitBackoff (\<lambda>_. True) (waitAttempt rt p ap) (w2, None) of
                        (Err e, (w3, _)) \<Rightarrow> (Err e, w3)
                      | (Panic m, (w3, _)) \<Rightarrow> (Panic m, w3)
                      | (Ok _, (w3, inst)) \<Rightarrow> (Ok inst, w3))
                 | (r, w2) \<Rightarrow> (r, w2))))"

definition Get :: "'w runtime \<Rightarrow> 'w Provider \<Rightarrow> string \<Rightarrow> ('w, Instance option) act" where
  "Get rt p pid w =
     (case ParseAgentPoolNameFromID pid of
        Err e \<Rightarrow> (Err (Wrapped ''getting agentpool name, '' e), w)
      | Panic m \<Rightarrow> (Panic m, w)
      | Ok apName \<Rightarrow>
          (case getAgentPool (agentPoolsClient p) (resourceGroup p) apName (clusterName p) w of
             (Err e, w') \<Rightarrow> (Err (Wrapped (''agentPool.Get for '' @ apName @ '' failed: '') e), w')
           | (Panic m, w') \<Rightarrow> (Panic m, w')
           | (Ok apObj, w') \<Rightarrow> fromAgentPoolToInstance rt p (Some apObj) w'))"

definition Provider_List ::
  "'w runtime \<Rightarrow> 'w Provider \<Rightarrow> 'w \<Rightarrow> (Instance list res \<times> 'w) option" where
  "Provider_List rt p w =
     (case listAgentPools (agentPoolsClient p) (resourceGroup p) (clusterName p) w of
        None \<Rightarrow> None
      | Some (Err e, w') \<Rightarrow> Some (Err (Wrapped ''agentPool.NewListPager failed: '' e), w')
      | Some (Panic m, w') \<Rightarrow> Some (Panic m, w')
      | Some (Ok apList, w') \<Rightarrow> Some (fromAPListToInstances rt p apList w'))"

definition Delete :: "'w Provider \<Rightarrow> string \<Rightarrow> ('w, unit) act" where
  "Delete p pid w =
     (case ParseAgentPoolNameFromID pid of
        Err e \<Rightarrow> (Err (Wrapped ''getting agentpool name, '' e), w)
      | Panic m \<Rightarrow> (Panic m, w)
      | Ok apName \<Rightarrow>
          (case deleteAgentPool (agentPoolsClient p) (resourceGroup p) apName (clusterName p) w of
             (Err e, w') \<Rightarrow> (Err (Wrapped (''agentPool.Delete for '' @ quote apName @ '' failed: '') e), w')
           | (r, w') \<Rightarrow> (r, w')))"

subsection \<open>Reading the node of a pool\<close>

definition nodeSelector :: "string \<Rightarrow> (string \<times> string) list" where
  "nodeSelector apName = [(''agentpool'', apName), (''kubernetes.azure.com/agentpool'', apName)]"

lemma Steps_DefaultRetry: "Cap DefaultRetry = 0" "Steps DefaultRetry = int (Suc 4)"
  by (simp_all add: DefaultRetry_def)

lemma getNodeByName_attempts:
  "getNodeByName rt p apName w =
     (case attempts (pause_of (lift_clock (rt_clock rt)) DefaultRetry) (\<lambda>_. True)
             (listNodes p (nodeSelector apName)) 0 4 (w, []) of
        (Ok _, (w', nodeList)) \<Rightarrow> (Ok (case nodeList of [] \<Rightarrow> None | n # _ \<Rightarrow> Some n), w')
      | (Err e, (w', _)) \<Rightarrow> (Err e, w')
      | (Panic m, (w', _)) \<Rightarrow> (Panic m, w'))"
  using OnError_attempts [OF Steps_DefaultRetry(1) no_sentinel_always Steps_DefaultRetry(2),
      of "lift_clock (rt_clock rt)" "listNodes p (nodeSelector apName)" "(w, [])"]
  by (simp add: getNodeByName_def nodeSelector_def)

lemma getNodeByName_Ok:
  assumes "kubeList p (nodeSelector apName) w = (Ok items, w')"
  shows "getNodeByName rt p apName w =
     (Ok (case items of [] \<Rightarrow> None | n # _ \<Rightarrow> Some n), w')"
proof -
  have "listNodes p (nodeSelector apName) (w, []) = (Ok (), (w', items))"
    using assms by (simp add: listNodes_def)
  then show ?thesis by (simp add: getNodeByName_attempts attempts_Ok_first)
qed

text \<open>A node that \<open>getNodeByName\<close> returns is the first one some list call returned.\<close>

lemma getNodeByName_Some:
  assumes "getNodeByName rt p apName w = (Ok (Some n), w')"
  shows "\<exists>w0 items w1. kubeList p (nodeSelector apName) w0 = (Ok (n # items), w1)"
proof -
  let ?fn = "listNodes p (nodeSelector apName)"
  let ?Q = "\<lambda>r (s :: 'a \<times> Node list). r = Ok () \<longrightarrow>
    (\<exists>w0 w1. kubeList p (nodeSelector apName) w0 = (Ok (snd s), w1))"
  have Q: "?Q (fst (?fn s)) (snd (?fn s))" for s
    by (auto simp: listNodes_def split: prod.splits res.splits)
  have "?Q (fst (attempts pause (\<lambda>_. True) ?fn 0 4 (w, [])))
           (snd (attempts pause (\<lambda>_. True) ?fn 0 4 (w, [])))" for pause
    by (rule attempts_invariant [where I = "\<lambda>_. True" and Q = ?Q, OF TrueI Q TrueI])
  from this [of "pause_of (lift_clock (rt_clock rt)) DefaultRetry"] assms show ?thesis
    by (auto simp: getNodeByName_attempts split: prod.splits res.splits list.splits)
qed

subsection \<open>From a pool to an instance\<close>

lemma fromAgentPoolToInstance_Ok:
  assumes "ParseSubIDFromID (FromPtr '''' (ap_ID ap)) = Ok sub"
    and "kubeList p (nodeSelector (FromPtr '''' (ap_Name ap))) w = (Ok items, w')"
  shows "fromAgentPoolToInstance rt p (Some ap) w =
    ((case items of
        [] \<Rightarrow> Ok None
      | n # _ \<Rightarrow> if NodeIsReady n then map_res Some (poolInstance p (FromPtr '''' sub) ap n) else Ok None), w')"
  using assms getNodeByName_Ok [OF assms(2), of rt]
  by (auto simp: fromAgentPoolToInstance_def act_bind_def split: list.splits)

lemma fromAgentPoolToInstance_SomeE:
  assumes "fromAgentPoolToInstance rt p apPtr w = (Ok (Some i), w')"
  obtains ap sub n w0 items w1 where "apPtr = Some ap"
    "ParseSubIDFromID (FromPtr '''' (ap_ID ap)) = Ok sub"
    "kubeList p (nodeSelector (FromPtr '''' (ap_Name ap))) w0 = (Ok (n # items), w1)"
    "NodeIsReady n" "poolInstance p (FromPtr '''' sub) ap n = Ok i"
proof -
  from assms obtain ap sub n where *: "apPtr = Some ap"
    "ParseSubIDFromID (FromPtr '''' (ap_ID ap)) = Ok sub"
    "getNodeByName rt p (FromPtr '''' (ap_Name ap)) w = (Ok (Some n), w')"
    "NodeIsReady n" "poolInstance p (FromPtr '''' sub) ap n = Ok i"
    by (auto simp: fromAgentPoolToInstance_def act_bind_def
        split: option.splits res.splits prod.splits if_splits)
  from getNodeByName_Some [OF *(3)] obtain w0 items w1 where
    "kubeList p (nodeSelector (FromPtr '''' (ap_Name ap))) w0 = (Ok (n # items), w1)" by blast
  with * show thesis by (intro that)
qed

text \<open>The scale set name is cut out of the node name.\<close>

lemma not_vmss_prefix: "\<not> HasPrefix s ''vmss'' \<Longrightarrow> \<not> HasPrefix (s @ CHR ''-'' # t) ''vmss''"
  by (cases s; cases "tl s"; cases "tl (tl s)"; cases "tl (tl (tl s))") (auto simp: HasPrefix_def)

lemma hd_SplitAfter_node:
  assumes "CHR ''-'' \<notin> set pool" "CHR ''-'' \<notin> set rest" "\<not> HasPrefix pool ''vmss''" "\<not> HasPrefix rest ''vmss''"
  shows "hd (SplitAfter (''aks-'' @ pool @ ''-'' @ rest @ ''-vmss'' @ k) ''-vmss'')
    = ''aks-'' @ pool @ ''-'' @ rest @ ''-vmss''"
proof -
  let ?v = "CHR ''-'' # ''vmss''"
  have 1: "Index (rest @ ?v @ k) ?v = Some (length rest)"
    using Index_skip [OF assms(2), of "?v @ k" "''vmss''"] Index_hit [of ?v k] by simp
  have 2: "Index (pool @ CHR ''-'' # (rest @ ?v @ k)) ?v = Some (length pool + Suc (length rest))"
    using Index_skip [OF assms(1), of "CHR ''-'' # (rest @ ?v @ k)" "''vmss''"]
      Index_miss [OF not_vmss_prefix [OF assms(4), of "''vmss'' @ k"], of "CHR ''-''"] 1 by simp
  have 3: "Index (''aks'' @ CHR ''-'' # (pool @ CHR ''-'' # (rest @ ?v @ k))) ?v
      = Some (3 + Suc (length pool + Suc (length rest)))"
    using Index_skip [of "CHR ''-''" "''aks''" "CHR ''-'' # (pool @ CHR ''-'' # (rest @ ?v @ k))" "''vmss''"]
      Index_miss [OF not_vmss_prefix [OF assms(3), of "rest @ ?v @ k"], of "CHR ''-''"] 2 by simp
  let ?X = "''aks-'' @ pool @ ''-'' @ rest @ ?v"
  have X: "''aks'' @ CHR ''-'' # (pool @ CHR ''-'' # (rest @ ?v @ k)) = ?X @ k"
    and len: "length ?X = 3 + Suc (length pool + Suc (length rest)) + length ?v" by simp_all
  have "hd (SplitAfter (?X @ k) ?v) = take (length ?X) (?X @ k)"
    using 3 unfolding X len by (subst hd_SplitAfter) (simp_all only: list.distinct option.case not_False_eq_True)
  moreover have "take (length x) (x @ k) = x" for x by simp
  ultimately have "hd (SplitAfter (?X @ k) ?v) = ?X" by (simp only:)
  then show ?thesis by (simp only: append_assoc)
qed

lemma poolInstance_OkE:
  assumes "poolInstance p sub ap n = Ok i"
  obtains props where "ap_Properties ap = Some props" "i_Name i = ap_Name ap" "i_Type i = VMSize props"
    "i_Tags i = Tags props" "i_State i = ProvisioningState props"
    "i_CapacityType i = None" "i_Labels i = MapValues (NodeLabels props) (FromPtr '''')"
    "i_ID i = Some (''azure://'' @ getVMSSNodeProviderID (nodeResourceGroup p) sub
        (hd (SplitAfter (n_Name n) ''-vmss'')))"
  using assms by (cases "ap_Properties ap") (auto simp: poolInstance_def)

text \<open>
  The name AKS gives to the node of a pool: \<open>aks-<pool>-<hash>-vmss<index>\<close>.
\<close>

definition aksNodeName :: "string \<Rightarrow> string \<Rightarrow> bool" where
  "aksNodeName pool name \<longleftrightarrow>
     (\<exists>rest k. name = ''aks-'' @ pool @ ''-'' @ rest @ ''-vmss'' @ k \<and> segment rest \<and>
        CHR ''-'' \<notin> set rest \<and> \<not> HasPrefix rest ''vmss'')"

text \<open>A pool name that the provider can read back from an identifier.\<close>

definition readableName :: "string \<Rightarrow> bool" where
  "readableName pool \<longleftrightarrow> segment pool \<and> CHR ''-'' \<notin> set pool \<and> \<not> HasPrefix pool ''vmss''"

lemma Parse_poolInstance:
  assumes "poolInstance p sub ap n = Ok i" "ap_Name ap = Some pool" "readableName pool"
    and "aksNodeName pool (n_Name n)" "segment sub" "segment (nodeResourceGroup p)"
  shows "\<exists>pid. i_ID i = Some pid \<and> ParseAgentPoolNameFromID pid = Ok pool"
proof -
  obtain rest k where n: "n_Name n = ''aks-'' @ pool @ ''-'' @ rest @ ''-vmss'' @ k"
    and rest: "segment rest" "CHR ''-'' \<notin> set rest" "\<not> HasPrefix rest ''vmss''"
    using assms(4) by (auto simp: aksNodeName_def)
  have pool: "segment pool" "CHR ''-'' \<notin> set pool" "\<not> HasPrefix pool ''vmss''"
    using assms(3) by (auto simp: readableName_def)
  have seg: "segment (rest @ ''-vmss'')" "segment ''0''"
    using rest(1) by (auto simp: segment_def)
  have pid: "i_ID i = Some (''azure://'' @ getVMSSNodeProviderID (nodeResourceGroup p) sub
      (''aks-'' @ pool @ ''-'' @ (rest @ ''-vmss'')))"
    using poolInstance_OkE [OF assms(1)] hd_SplitAfter_node [OF pool(2) rest(2) pool(3) rest(3), of k]
    unfolding n by metis
  show ?thesis
    unfolding pid vmssID_getVMSSNodeProviderID
    using Parse_aks_vmssID [OF assms(5) _ pool(1) seg pool(2)] assms(6) by simp
qed

subsection \<open>Choosing the VM size\<close>

text \<open>\<open>UnsortedList\<close> walks every element of a finite set exactly once, in some order.\<close>

definition walks_sets :: "'w runtime \<Rightarrow> bool" where
  "walks_sets rt \<longleftrightarrow>
     (\<forall>A. finite A \<longrightarrow> set (rt_UnsortedList rt A) = A \<and> distinct (rt_UnsortedList rt A))"

lemma addNodeSelectorRequirements_no_Err:
  "addNodeSelectorRequirements rs qs \<noteq> Err e"
  by (induction qs arbitrary: rs) (auto simp: NewRequirement_def)

lemma chooseVMSize_Err:
  "chooseVMSize rt machine = Err e \<Longrightarrow>
   e = ErrorString ''machine spec has no requirement for instance type''"
  by (cases "NewNodeSelectorRequirements (m_Requirements machine)")
    (auto simp: chooseVMSize_def NewNodeSelectorRequirements_def addNodeSelectorRequirements_no_Err Let_def
      split: if_splits)

lemma chooseVMSize_OkE:
  assumes "chooseVMSize rt machine = Ok v"
  obtains rs where "NewNodeSelectorRequirements (m_Requirements machine) = Ok rs"
    "rt_UnsortedList rt (values (Requirements_Get rs InstanceTypeLabel)) \<noteq> []"
    "v = hd (rt_UnsortedList rt (values (Requirements_Get rs InstanceTypeLabel)))"
  using assms
  by (auto simp: chooseVMSize_def Let_def Values_def res_bind_eq_Ok_iff hd_conv_nth split: if_splits)

text \<open>
  A requirement built from node selectors holds finitely many values; a concrete one (not a
  complement) has no bounds, so it admits exactly its values.
\<close>

definition concrete_ok :: "Requirement \<Rightarrow> bool" where
  "concrete_ok r \<longleftrightarrow> finite (values r) \<and> (\<not> complement r \<longrightarrow> greaterThan r = None \<and> lessThan r = None)"

lemma concrete_ok_requirement_of [simp]: "concrete_ok (requirement_of k op vs)"
  by (cases op) (auto simp: concrete_ok_def requirement_of_def)

lemma concrete_ok_Intersection: "concrete_ok r \<Longrightarrow> concrete_ok q \<Longrightarrow> concrete_ok (Intersection r q)"
  by (auto simp: concrete_ok_def Intersection_def requirement_of_def Let_def split: option.splits)

lemma complement_Intersection:
  "complement (Intersection r q) \<Longrightarrow> complement r \<and> complement q"
  by (auto simp: Intersection_def requirement_of_def Let_def split: option.splits if_splits)

definition reqs_ok :: "Requirements \<Rightarrow> bool" where
  "reqs_ok rs \<longleftrightarrow> (\<forall>k r. rs k = Some r \<longrightarrow> concrete_ok r)"

lemma reqs_ok_Add1:
  assumes "reqs_ok rs" "concrete_ok r"
  shows "reqs_ok (Requirements_Add1 rs r)"
  using assms concrete_ok_Intersection [of r]
  by (cases "rs (Key r)") (simp_all add: reqs_ok_def Requirements_Add1_def Let_def)

lemma reqs_ok_add:
  "addNodeSelectorRequirements rs qs = Ok rs' \<Longrightarrow> reqs_ok rs \<Longrightarrow> reqs_ok rs'"
proof (induction qs arbitrary: rs)
  case (Cons q qs)
  let ?r = "requirement_of (nsr_Key q) (nsr_Operator q) (nsr_Values q)"
  have "addNodeSelectorRequirements (Requirements_Add1 rs ?r) qs = Ok rs'"
    using Cons.prems(1) by (simp add: NewRequirement_def split: if_splits)
  then show ?case using reqs_ok_Add1 [OF Cons.prems(2), of ?r] by (intro Cons.IH) simp_all
qed simp

lemma concrete_ok_Get:
  "NewNodeSelectorRequirements qs = Ok rs \<Longrightarrow> concrete_ok (Requirements_Get rs k)"
  using reqs_ok_add [of "NewRequirements []" qs rs]
  by (auto simp: NewNodeSelectorRequirements_def NewRequirements_def reqs_ok_def Requirements_Get_def
      split: option.splits)

text \<open>One \<open>In\<close> (or \<open>DoesNotExist\<close>) among the requirements of a key makes the key concrete.\<close>

definition concrete_at :: "Requirements \<Rightarrow> string \<Rightarrow> bool" where
  "concrete_at rs k \<longleftrightarrow> (\<exists>r. rs k = Some r \<and> \<not> complement r)"

lemma concrete_at_Add1:
  assumes "normalizeKey (Key r) = Key r"
    and "concrete_at rs k \<or> Key r = k \<and> \<not> complement r"
  shows "concrete_at (Requirements_Add1 rs r) k"
proof (cases "rs (Key r)")
  case None
  with assms show ?thesis by (auto simp: concrete_at_def Requirements_Add1_def)
next
  case (Some x)
  then have "Requirements_Add1 rs r = rs(Key r \<mapsto> Intersection r x)"
    using assms(1) by (simp add: Requirements_Add1_def)
  then show ?thesis
    using assms(2) Some complement_Intersection [of r x] by (auto simp: concrete_at_def)
qed

lemma concrete_at_add:
  assumes "addNodeSelectorRequirements rs qs = Ok rs'"
    and "concrete_at rs k \<or> (\<exists>q \<in> set qs. normalizeKey (nsr_Key q) = k \<and> nsr_Operator q = OpIn)"
  shows "concrete_at rs' k"
  using assms
proof (induction qs arbitrary: rs)
  case (Cons q qs)
  let ?r = "requirement_of (nsr_Key q) (nsr_Operator q) (nsr_Values q)"
  have add: "addNodeSelectorRequirements (Requirements_Add1 rs ?r) qs = Ok rs'"
    using Cons.prems(1) by (auto simp: NewRequirement_def split: if_splits)
  have "\<not> complement ?r" if "nsr_Operator q = OpIn" using that by (simp add: requirement_of_def)
  then show ?case
    using Cons.IH [OF add] Cons.prems(2) concrete_at_Add1 [of ?r rs k] by auto
qed simp

lemma chooseVMSize_admitted:
  assumes "walks_sets rt" "chooseVMSize rt machine = Ok v"
    and "\<exists>q \<in> set (m_Requirements machine).
      normalizeKey (nsr_Key q) = InstanceTypeLabel \<and> nsr_Operator q = OpIn"
    and "q \<in> set (m_Requirements machine)" "normalizeKey (nsr_Key q) = InstanceTypeLabel"
  shows "admits q v"
proof -
  obtain rs where rs: "NewNodeSelectorRequirements (m_Requirements machine) = Ok rs"
    and v: "rt_UnsortedList rt (values (Requirements_Get rs InstanceTypeLabel)) \<noteq> []"
      "v = hd (rt_UnsortedList rt (values (Requirements_Get rs InstanceTypeLabel)))"
    using assms(2) by (rule chooseVMSize_OkE)
  let ?r = "Requirements_Get rs InstanceTypeLabel"
  have "concrete_at rs InstanceTypeLabel"
    using concrete_at_add [of "NewRequirements []" _ rs] rs assms(3)
    by (auto simp: NewNodeSelectorRequirements_def)
  then have conc: "\<not> complement ?r"
    by (auto simp: concrete_at_def Requirements_Get_def)
  have ok: "concrete_ok ?r" using rs by (rule concrete_ok_Get)
  have "v \<in> values ?r"
    using v assms(1) ok unfolding walks_sets_def concrete_ok_def by (metis hd_in_set)
  then have "Has ?r v" using conc ok by (simp add: Has_def concrete_ok_def withinIntPtrs_def)
  then show ?thesis using NewNodeSelectorRequirements_Get [OF rs] assms(4,5) by auto
qed

subsection \<open>Create as one call and a bounded wait\<close>

text \<open>
  The reference: ask once for the pool, then ask for its node, and, while there is none, ask
  again up to \<open>n + 1\<close> times with a pause between two questions.
\<close>

definition createPool :: "'w runtime \<Rightarrow> 'w Provider \<Rightarrow> Machine \<Rightarrow> ('w, AgentPool) act" where
  "createPool rt p machine w =
     (case chooseVMSize rt machine of
        Err e \<Rightarrow> (Err e, w)
      | Panic m \<Rightarrow> (Panic m, w)
      | Ok vmSize \<Rightarrow>
          (case createAgentPool (agentPoolsClient p) (resourceGroup p) (m_Name machine) (clusterName p)
                  (newAgentPoolObject vmSize machine) w of
             (Err e, w') \<Rightarrow>
               (Err (Wrapped (''agentPool.BeginCreateOrUpdate for '' @ quote (m_Name machine) @ '' failed: '') e), w')
           | (Panic m, w') \<Rightarrow> (Panic m, w')
           | (Ok a, w') \<Rightarrow> (if ap_ID a = None then Panic ''nil pointer dereference'' else Ok a, w')))"

fun pollInstance ::
  "(nat \<Rightarrow> 'w \<Rightarrow> 'w) \<Rightarrow> ('w, Instance option) act \<Rightarrow> nat \<Rightarrow> nat \<Rightarrow> ('w, Instance option) act" where
  "pollInstance pause query i 0 w =
     (case query w of
        (Ok None, w') \<Rightarrow> (Err (ErrorString ''fail to find the node object''), w')
      | (r, w') \<Rightarrow> (r, w'))"
| "pollInstance pause query i (Suc n) w =
     (case query w of
        (Ok (Some x), w') \<Rightarrow> (Ok (Some x), w')
      | (Panic m, w') \<Rightarrow> (Panic m, w')
      | (r, w') \<Rightarrow> pollInstance pause query (Suc i) n (pause i w'))"

definition createSpec :: "'w runtime \<Rightarrow> 'w Provider \<Rightarrow> Machine \<Rightarrow> ('w, Instance option) act" where
  "createSpec rt p machine =
     act_bind (createPool rt p machine)
       (\<lambda>ap. act_bind (fromAgentPoolToInstance rt p (Some ap))
          (\<lambda>inst. case inst of
             Some i \<Rightarrow> act_return (Ok (Some i))
           | None \<Rightarrow> pollInstance (pause_of (rt_clock rt) waitBackoff)
                       (fromAgentPoolToInstance rt p (Some ap)) 0 14))"

text \<open>A closure's outcome with its captured variable read on success.\<close>

definition captured :: "unit res \<times> ('w \<times> 'v) \<Rightarrow> 'v res \<times> 'w" where
  "captured x = (case x of
     (Ok _, (w, v)) \<Rightarrow> (Ok v, w) | (Err e, (w, _)) \<Rightarrow> (Err e, w) | (Panic m, (w, _)) \<Rightarrow> (Panic m, w))"

lemma captured_createAttempt:
  "captured (createAttempt rt p machine (w, ap)) =
     (case createPool rt p machine w of (r, w') \<Rightarrow> (map_res Some r, w'))"
  by (simp add: captured_def createAttempt_def createPool_def Let_def
      split: res.splits prod.splits option.splits)

lemma createPool_no_sentinel: "fst (createPool rt p machine w) \<noteq> Err ErrWaitTimeout"
  using chooseVMSize_Err [of rt machine]
  by (auto simp: createPool_def split: res.splits prod.splits)

lemma createAttempt_no_sentinel: "no_sentinel (\<lambda>_. False) (createAttempt rt p machine)"
proof -
  have "fst (createAttempt rt p machine (w, ap)) \<noteq> Err ErrWaitTimeout" for w ap
    using captured_createAttempt [of rt p machine w ap] createPool_no_sentinel [of rt p machine w]
    by (cases "fst (createPool rt p machine w)")
      (auto simp: captured_def split: res.splits prod.splits option.splits)
  then show ?thesis by (auto simp: no_sentinel_def)
qed

lemma Backoff_constants:
  "Cap DefaultBackoff = 0" "0 < Steps DefaultBackoff"
  "Cap waitBackoff = 0" "Steps waitBackoff = int (Suc 14)"
  by (simp_all add: DefaultBackoff_def waitBackoff_def)

lemma captured_waitAttempt:
  "captured (attempts (\<lambda>j (w, v). (pause j w, v)) (\<lambda>_. True) (waitAttempt rt p ap) i n (w, inst)) =
     pollInstance pause (fromAgentPoolToInstance rt p ap) i n w"
proof (induction n arbitrary: i w inst)
  case 0
  show ?case by (simp add: captured_def waitAttempt_def split: prod.splits res.splits option.splits)
next
  case (Suc n)
  obtain r w1 where q: "fromAgentPoolToInstance rt p ap w = (r, w1)"
    by (cases "fromAgentPoolToInstance rt p ap w")
  then have wa: "waitAttempt rt p ap (w, inst) =
      (case r of Ok (Some i) \<Rightarrow> (Ok (), (w1, Some i)) | Err e \<Rightarrow> (Err e, (w1, None))
       | Panic m \<Rightarrow> (Panic m, (w1, inst))
       | Ok None \<Rightarrow> (Err (ErrorString ''fail to find the node object''), (w1, None)))"
    by (simp add: waitAttempt_def)
  show ?case
    using Suc [of "Suc i" "pause i w1" None] q wa
    by (simp add: captured_def split: res.splits option.splits)
qed

lemma Create_captured:
  "Create rt p machine w =
     (if 11 < length (m_Name machine)
      then (Err (ErrorString (''the length agentpool name should be less than 11, got ''
              @ show_nat (length (m_Name machine)) @ '' ('' @ m_Name machine @ '')'')), w)
      else act_bind
        (\<lambda>w. captured (OnError (lift_clock (rt_clock rt)) DefaultBackoff (\<lambda>_. False) (createAttempt rt p machine) (w, None)))
        (\<lambda>ap. act_bind (fromAgentPoolToInstance rt p ap)
          (\<lambda>inst. case inst of
             Some i \<Rightarrow> act_return (Ok (Some i))
           | None \<Rightarrow> (\<lambda>w. captured (OnError (lift_clock (rt_clock rt)) waitBackoff (\<lambda>_. True) (waitAttempt rt p ap) (w, None))))) w)"
proof (cases "11 < length (m_Name machine)")
  case True
  then show ?thesis by (simp only: Create_def Let_def if_True)
next
  case False
  then show ?thesis
    by (simp only: Create_def Let_def if_False)
      (simp add: captured_def act_bind_def split: prod.splits res.splits option.splits)
qed

lemma captured_OnError_wait:
  "captured (OnError (lift_clock c) waitBackoff (\<lambda>_. True) (waitAttempt rt p ap) (w, None)) =
     pollInstance (pause_of c waitBackoff) (fromAgentPoolToInstance rt p ap) 0 14 w"
  using OnError_attempts [OF Backoff_constants(3) no_sentinel_always Backoff_constants(4),
      of "lift_clock c" "waitAttempt rt p ap" "(w, None)"]
  by (simp only: pause_of_lift captured_waitAttempt)

lemma Create_spec:
  assumes "length (m_Name machine) \<le> 11"
  shows "Create rt p machine = createSpec rt p machine"
proof (rule ext)
  fix w
  show "Create rt p machine w = createSpec rt p machine w"
    using assms
    by (simp add: Create_captured createSpec_def OnError_never [OF Backoff_constants(1) createAttempt_no_sentinel Backoff_constants(2)]
        captured_createAttempt captured_OnError_wait act_bind_def split: prod.splits res.splits option.splits)
qed

lemma pollInstance_Some: "pollInstance pause query i n w = (Ok x, w') \<Longrightarrow> x \<noteq> None"
  by (induction n arbitrary: i w) (auto split: prod.splits res.splits option.splits)

lemma Create_Some:
  assumes "Create rt p machine w = (Ok inst, w')"
  shows "inst \<noteq> None"
proof -
  have "length (m_Name machine) \<le> 11" using assms by (auto simp: Create_def Let_def split: if_splits)
  with assms have "createSpec rt p machine w = (Ok inst, w')" by (simp add: Create_spec)
  then show ?thesis
    unfolding createSpec_def
    by (elim act_bind_eq_Ok) (auto split: option.splits dest: pollInstance_Some)
qed

subsection \<open>The wait outlasts a node that comes up in time\<close>

text \<open>
  \<open>now\<close> reads the time of a world in nanoseconds: the random source draws from the non-negative
  numbers and takes no time back, and a sleep lasts at least as long as asked.
\<close>

definition clock_ok :: "'w clock \<Rightarrow> ('w \<Rightarrow> int) \<Rightarrow> bool" where
  "clock_ok c now \<longleftrightarrow>
     (\<forall>w. 0 \<le> fst (Float64 c w) \<and> now w \<le> now (snd (Float64 c w))) \<and>
     (\<forall>w d. 0 \<le> d \<longrightarrow> now w + d \<le> now (Sleep c d w))"

text \<open>
  The API server answers node lists without panicking and, from time \<open>T\<close> on, with a ready
  node first.
\<close>

definition node_ready_from :: "'w Provider \<Rightarrow> string \<Rightarrow> ('w \<Rightarrow> int) \<Rightarrow> int \<Rightarrow> bool" where
  "node_ready_from p pool now T \<longleftrightarrow>
     (\<forall>w. let (r, w') = kubeList p (nodeSelector pool) w in
        now w \<le> now w' \<and> \<not> is_Panic r \<and>
        (T \<le> now w \<longrightarrow> (\<exists>n items. r = Ok (n # items) \<and> NodeIsReady n)))"

lemma node_ready_fromD:
  assumes "node_ready_from p pool now T" "kubeList p (nodeSelector pool) w = (r, w')"
  shows "now w \<le> now w'" "\<not> is_Panic r"
    "T \<le> now w \<Longrightarrow> \<exists>n items. r = Ok (n # items) \<and> NodeIsReady n"
  using assms by (simp_all add: node_ready_from_def split: prod.splits)

lemma Jitter_lower:
  assumes "clock_ok c now" "0 \<le> d" "Jitter c d m w = (d', w')"
  shows "d \<le> d' \<and> now w \<le> now w'"
proof -
  obtain r w1 where r: "Float64 c w = (r, w1)" by (cases "Float64 c w")
  have "0 \<le> r" "now w \<le> now w1"
    using assms(1) r unfolding clock_ok_def by (metis fst_conv, metis snd_conv)
  then have "0 \<le> r * (if m \<le> 0 then 1 else m) * of_int d" using assms(2) by simp
  then have "0 \<le> trunc (r * (if m \<le> 0 then 1 else m) * of_int d)" by (simp add: trunc_def)
  with assms(3) r \<open>now w \<le> now w1\<close> show ?thesis by (auto simp: Jitter_def Let_def)
qed

lemma uncapped_factor_1: "Factor b = 1 \<Longrightarrow> Duration (uncapped b i) = Duration b"
  by (induction i) (simp_all add: uncapped_def trunc_def)

lemma pause_of_lower:
  assumes "clock_ok c now" "Factor b = 1" "0 \<le> Duration b" "Cap b = 0" "0 < JitterF b"
  shows "now w + Duration b \<le> now (pause_of c b i w)"
proof -
  obtain d b' w' where s: "Step c (uncapped b i) w = ((d, b'), w')"
    by (cases "Step c (uncapped b i) w") auto
  have j: "JitterF (uncapped b i) = JitterF b" by (simp add: uncapped_def)
  have "Jitter c (Duration b) (JitterF b) w = (d, w')"
    using s assms(2,4,5) uncapped_factor_1 [OF assms(2), of i] j
    by (auto simp: Step_def Let_def split: if_splits prod.splits)
  from Jitter_lower [OF assms(1,3) this] have "Duration b \<le> d" "now w \<le> now w'" by auto
  moreover have "now w' + d \<le> now (Sleep c d w')"
    using assms(1,3) \<open>Duration b \<le> d\<close> by (auto simp: clock_ok_def)
  ultimately show ?thesis using s by (simp add: pause_of_def)
qed

lemma pause_of_wait:
  assumes "clock_ok c now"
  shows "now w + 1000000000 \<le> now (pause_of c waitBackoff i w)"
    and "now w \<le> now (pause_of c DefaultRetry i w)"
  using pause_of_lower [OF assms, of waitBackoff w i] pause_of_lower [OF assms, of DefaultRetry w i]
  by (simp_all add: waitBackoff_def DefaultRetry_def)

lemma getNodeByName_monotone:
  assumes c: "clock_ok (rt_clock rt) now" and k: "node_ready_from p pool now T"
  shows "now w \<le> now (snd (getNodeByName rt p pool w)) \<and> \<not> is_Panic (fst (getNodeByName rt p pool w))"
proof -
  let ?pause = "pause_of (lift_clock (rt_clock rt)) DefaultRetry"
  let ?fn = "listNodes p (nodeSelector pool)"
  let ?Q = "\<lambda>r (s :: 'a \<times> Node list). now w \<le> now (fst s) \<and> \<not> is_Panic r"
  have step: "now (fst s) \<le> now (fst (snd (?fn s))) \<and> \<not> is_Panic (fst (?fn s))" for s
  proof -
    obtain w0 l r w1 where s: "s = (w0, l)" "kubeList p (nodeSelector pool) w0 = (r, w1)"
      by (cases s; cases "kubeList p (nodeSelector pool) (fst s)") simp
    show ?thesis using node_ready_fromD(1,2) [OF k s(2)] s
      by (cases r) (simp_all add: listNodes_def)
  qed
  have "?Q (fst (attempts ?pause (\<lambda>_. True) ?fn 0 4 (w, []))) (snd (attempts ?pause (\<lambda>_. True) ?fn 0 4 (w, [])))"
  proof (rule attempts_invariant [where I = "\<lambda>s. now w \<le> now (fst s)" and Q = ?Q])
    show "now w \<le> now (fst (w, []))" by simp
    show "now w \<le> now (fst (snd (?fn s))) \<and> \<not> is_Panic (fst (?fn s))" if "now w \<le> now (fst s)" for s
      using step [of s] that by linarith
    show "now w \<le> now (fst (?pause j (snd (?fn s))))" if "now w \<le> now (fst s)" for s e j
      using step [of s] that pause_of_wait(2) [OF c, of "fst (snd (?fn s))" j]
      by (cases "snd (?fn s)") (simp add: pause_of_lift)
  qed
  then show ?thesis by (auto simp: getNodeByName_attempts split: prod.splits res.splits)
qed

lemma fromAgentPoolToInstance_monotone:
  assumes "clock_ok (rt_clock rt) now" "node_ready_from p (FromPtr '''' (ap_Name ap)) now T"
    and "ParseSubIDFromID (FromPtr '''' (ap_ID ap)) = Ok sub" "ap_Properties ap \<noteq> None"
  shows "now w \<le> now (snd (fromAgentPoolToInstance rt p (Some ap) w)) \<and>
    \<not> is_Panic (fst (fromAgentPoolToInstance rt p (Some ap) w))"
  using getNodeByName_monotone [OF assms(1,2), of w] assms(3,4)
  by (auto simp: fromAgentPoolToInstance_def act_bind_def poolInstance_def
      split: prod.splits res.splits option.splits)

lemma fromAgentPoolToInstance_ready:
  assumes "node_ready_from p (FromPtr '''' (ap_Name ap)) now T" "T \<le> now w"
    and "ParseSubIDFromID (FromPtr '''' (ap_ID ap)) = Ok sub" "ap_Properties ap \<noteq> None"
  shows "\<exists>i w'. fromAgentPoolToInstance rt p (Some ap) w = (Ok (Some i), w')"
proof -
  obtain r w' where k: "kubeList p (nodeSelector (FromPtr '''' (ap_Name ap))) w = (r, w')"
    by (cases "kubeList p (nodeSelector (FromPtr '''' (ap_Name ap))) w")
  with node_ready_fromD(3) [OF assms(1) k assms(2)] obtain n items where
    "kubeList p (nodeSelector (FromPtr '''' (ap_Name ap))) w = (Ok (n # items), w')" "NodeIsReady n"
    by blast
  with fromAgentPoolToInstance_Ok [OF assms(3), of p w "n # items" w' rt] assms(4) show ?thesis
    by (auto simp: poolInstance_def)
qed

lemma pollInstance_ready:
  assumes mono: "\<And>w. now w \<le> now (snd (query w)) \<and> \<not> is_Panic (fst (query w))"
    and pause: "\<And>j w. now w + d \<le> now (pause j w)"
    and ready: "\<And>w. T \<le> now w \<Longrightarrow> \<exists>i w'. query w = (Ok (Some i), w')"
    and "T \<le> now w + int n * d"
  shows "\<exists>i w'. pollInstance pause query k n w = (Ok (Some i), w')"
  using assms(4)
proof (induction n arbitrary: k w)
  case 0
  then show ?case using ready [of w] by auto
next
  case (Suc n)
  obtain r w1 where q: "query w = (r, w1)" by (cases "query w")
  have "now w + d \<le> now (pause k w1)" using mono [of w] pause [of w1 k] q by simp
  then have "T \<le> now (pause k w1) + int n * d" using Suc.prems by (simp add: algebra_simps)
  from Suc.IH [OF this, of "Suc k"] mono [of w] q show ?case
    by (cases r) (auto split: option.splits)
qed

lemma Create_live:
  assumes name: "length (m_Name machine) \<le> 11"
    and pool: "createPool rt p machine w = (Ok ap, w1)"
    and c: "clock_ok (rt_clock rt) now"
    and k: "node_ready_from p (FromPtr '''' (ap_Name ap)) now T" "T \<le> now w1 + 14 * 1000000000"
    and first: "is_Ok (fst (kubeList p (nodeSelector (FromPtr '''' (ap_Name ap))) w1))"
    and ap: "ParseSubIDFromID (FromPtr '''' (ap_ID ap)) = Ok sub" "ap_Properties ap \<noteq> None"
  shows "\<exists>i w'. Create rt p machine w = (Ok (Some i), w')"
proof -
  let ?q = "fromAgentPoolToInstance rt p (Some ap)"
  note mono = fromAgentPoolToInstance_monotone [OF c k(1) ap]
  obtain r w2 where q: "?q w1 = (r, w2)" by (cases "?q w1")
  have "T \<le> now w2 + int 14 * 1000000000" using k(2) mono [of w1] q by simp
  then have poll: "\<exists>i w'. pollInstance (pause_of (rt_clock rt) waitBackoff) ?q 0 14 w2 = (Ok (Some i), w')"
    by (intro pollInstance_ready [where now = now, OF mono pause_of_wait(1) [OF c]])
      (rule fromAgentPoolToInstance_ready [OF k(1) _ ap])
  obtain items w3 where "kubeList p (nodeSelector (FromPtr '''' (ap_Name ap))) w1 = (Ok items, w3)"
    using first by (cases "kubeList p (nodeSelector (FromPtr '''' (ap_Name ap))) w1"; cases "fst (kubeList p (nodeSelector (FromPtr '''' (ap_Name ap))) w1)") auto
  from fromAgentPoolToInstance_Ok [OF ap(1) this, of rt] ap(2) q
  have "r = Ok None \<or> (\<exists>i. r = Ok (Some i))"
    by (auto simp: poolInstance_def split: list.splits if_splits)
  with pool q poll show ?thesis
    by (auto simp: Create_spec [OF name] createSpec_def)
qed

end
