(* ===== verification/CloudProvider.thy ===== *)
theory CloudProvider
  imports Instance
begin

text \<open>
  The cloud provider (\<open>pkg/cloudprovider/\<close>): karpenter's \<open>CloudProvider\<close> interface on top of the
  instance provider. \<open>instanceToMachine\<close> writes into the instance's own label map, so it returns
  the instance with the labels it left there.
\<close>

subsection \<open>Definitions\<close>

definition LabelCapacityType :: string where
  "LabelCapacityType = ''karpenter.sh/capacity-type''"

definition MachineManagedByAnnotationKey :: string where
  "MachineManagedByAnnotationKey = ''karpenter.sh/managed-by''"

definition MachineLinkedAnnotationKey :: string where
  "MachineLinkedAnnotationKey = ''karpenter.sh/linked''"

text \<open>\<open>if v, ok := tags[k]; ok { m[k] = *v }\<close>\<close>

definition copyTag :: "(string \<rightharpoonup> string option) \<Rightarrow> string \<Rightarrow> (string \<rightharpoonup> string) \<Rightarrow> (string \<rightharpoonup> string) res" where
  "copyTag tags k m =
     (case tags k of
        None \<Rightarrow> Ok m
      | Some v \<Rightarrow> map_res (\<lambda>s. m(k \<mapsto> s)) (Deref v))"

definition instanceToMachine :: "Instance \<Rightarrow> (Machine \<times> Instance) res" where
  "instanceToMachine inst =
     (let labels = (case i_CapacityType inst of
                      Some ct \<Rightarrow> (i_Labels inst)(LabelCapacityType \<mapsto> ct)
                    | None \<Rightarrow> i_Labels inst)
      in res_bind (copyTag (i_Tags inst) ProvisionerNameLabelKey labels)
        (\<lambda>labels'. res_bind (copyTag (i_Tags inst) MachineManagedByAnnotationKey Map.empty)
          (\<lambda>annotations.
             let machine = empty_Machine
                   \<lparr>m_Name := FromPtr '''' (i_Name inst), m_Labels := labels', m_Annotations := annotations\<rparr>;
                 machine' = (case i_ID inst of
                   Some pid \<Rightarrow> machine\<lparr>m_ProviderID := pid,
                                 m_Annotations := annotations(MachineLinkedAnnotationKey \<mapsto> pid)\<rparr>
                 | None \<Rightarrow> machine)
             in Ok (machine', inst\<lparr>i_Labels := labels'\<rparr>))))"

text \<open>A nil instance would be dereferenced.\<close>

definition instancePtrToMachine :: "Instance option \<Rightarrow> (Machine \<times> Instance) res" where
  "instancePtrToMachine ptr = res_bind (Deref ptr) instanceToMachine"

definition CloudProvider_Create :: "'w runtime \<Rightarrow> 'w Provider \<Rightarrow> Machine \<Rightarrow> ('w, Machine) act" where
  "CloudProvider_Create rt p machine w =
     (case Create rt p machine w of
        (Err e, w') \<Rightarrow> (Err (Wrapped ''creating instance, '' e), w')
      | (Panic m, w') \<Rightarrow> (Panic m, w')
      | (Ok inst, w') \<Rightarrow>
          (map_res (\<lambda>(m, inst'). m\<lparr>m_Labels := Assign2 (m_Labels m) (i_Labels inst')\<rparr>)
             (instancePtrToMachine inst), w'))"

fun machinesOf :: "Instance list \<Rightarrow> Machine list \<Rightarrow> Machine list res" where
  "machinesOf [] machines = Ok machines"
| "machinesOf (i # is) machines =
     res_bind (instanceToMachine i) (\<lambda>(m, _). machinesOf is (machines @ [m]))"

definition CloudProvider_List ::
  "'w runtime \<Rightarrow> 'w Provider \<Rightarrow> 'w \<Rightarrow> (Machine list res \<times> 'w) option" where
  "CloudProvider_List rt p w =
     (case Provider_List rt p w of
        None \<Rightarrow> None
      | Some (r, w') \<Rightarrow> Some (res_bind r (\<lambda>is. machinesOf is []), w'))"

definition CloudProvider_Get :: "'w runtime \<Rightarrow> 'w Provider \<Rightarrow> string \<Rightarrow> ('w, Machine) act" where
  "CloudProvider_Get rt p providerID w =
     (case Get rt p providerID w of
        (Err e, w') \<Rightarrow> (Err (Wrapped ''getting instance , '' e), w')
      | (Panic m, w') \<Rightarrow> (Panic m, w')
      | (Ok None, w') \<Rightarrow> (Err (ErrorString ''cannot find a ready instance , %!w(<nil>)''), w')
      | (Ok (Some inst), w') \<Rightarrow> (map_res fst (instanceToMachine inst), w'))"

definition CloudProvider_Delete :: "'w Provider \<Rightarrow> Machine \<Rightarrow> ('w, unit) act" where
  "CloudProvider_Delete p machine = Delete p (m_ProviderID machine)"

definition IsMachineDrifted :: "Machine \<Rightarrow> bool res" where
  "IsMachineDrifted machine = Ok False"

definition GetInstanceTypes :: "'p \<Rightarrow> 'it list res" where
  "GetInstanceTypes provisioner = Ok []"

definition Name :: string where
  "Name = ''azure''"

subsection \<open>Machines made from instances\<close>

lemma copyTag_Ok:
  "copyTag tags k m = Ok m' \<longleftrightarrow>
     (tags k = None \<and> m' = m \<or> (\<exists>v. tags k = Some (Some v) \<and> m' = m(k \<mapsto> v)))"
  by (auto simp: copyTag_def Deref_def split: option.splits)

lemma instanceToMachine_Ok:
  assumes "instanceToMachine inst = Ok (m, inst')"
  shows "m_Name m = FromPtr '''' (i_Name inst)" "m_Labels m = i_Labels inst'"
    "m_ProviderID m = FromPtr '''' (i_ID inst)"
    "i_ID inst = Some pid \<Longrightarrow> m_Annotations m MachineLinkedAnnotationKey = Some pid"
  using assms
  by (cases "i_ID inst"; cases "i_CapacityType inst";
      auto simp: instanceToMachine_def res_bind_eq_Ok_iff Let_def empty_Machine_def)+

lemma CloudProvider_Create_OkE:
  assumes "CloudProvider_Create rt p machine w = (Ok m, w')"
  obtains i m0 i' where "Create rt p machine w = (Ok (Some i), w')" "instanceToMachine i = Ok (m0, i')" "m = m0"
proof -
  from assms obtain ptr m0 i' where c: "Create rt p machine w = (Ok ptr, w')"
    "instancePtrToMachine ptr = Ok (m0, i')" "m = m0\<lparr>m_Labels := Assign2 (m_Labels m0) (i_Labels i')\<rparr>"
    by (auto simp: CloudProvider_Create_def split: prod.splits res.splits)
  from Create_Some [OF c(1)] obtain i where "ptr = Some i" by auto
  with c have i: "instanceToMachine i = Ok (m0, i')" by (simp add: instancePtrToMachine_def)
  have "m = m0" using c(3) instanceToMachine_Ok(2) [OF i] by simp
  with c(1) i \<open>ptr = Some i\<close> show thesis by (intro that) auto
qed

text \<open>The instance a successful \<open>Create\<close> returns was read off the pool it created.\<close>

lemma pollInstance_query:
  "pollInstance pause query i n w = (Ok x, w') \<Longrightarrow> \<exists>w0. query w0 = (Ok x, w')"
  by (induction n arbitrary: i w) (auto split: prod.splits res.splits option.splits)

lemma Create_OkE:
  assumes "Create rt p machine w = (Ok (Some i), w')"
  obtains ap w1 w2 where "length (m_Name machine) \<le> 11" "createPool rt p machine w = (Ok ap, w1)"
    "fromAgentPoolToInstance rt p (Some ap) w2 = (Ok (Some i), w')"
proof -
  have len: "length (m_Name machine) \<le> 11"
    using assms by (auto simp: Create_def Let_def split: if_splits)
  with assms have "createSpec rt p machine w = (Ok (Some i), w')" by (simp add: Create_spec)
  then obtain ap w1 where "createPool rt p machine w = (Ok ap, w1)"
    "\<exists>w2. fromAgentPoolToInstance rt p (Some ap) w2 = (Ok (Some i), w')"
    unfolding createSpec_def
    by (elim act_bind_eq_Ok) (auto split: option.splits dest: pollInstance_query)
  with len that show thesis by blast
qed

lemma createPool_OkE:
  assumes "createPool rt p machine w = (Ok ap, w1)"
  obtains vmSize where "chooseVMSize rt machine = Ok vmSize"
    "createAgentPool (agentPoolsClient p) (resourceGroup p) (m_Name machine) (clusterName p)
       (newAgentPoolObject vmSize machine) w = (Ok ap, w1)" "ap_ID ap \<noteq> None"
  using assms by (auto simp: createPool_def split: res.splits prod.splits if_splits)

subsection \<open>Identifiers close the loop\<close>

text \<open>
  What AKS documents of the pools it returns: the name asked for, and an identifier that
  starts with the subscription. The part after \<open>/providers/\<close> has no path segment
  \<open>resourcegroups\<close>.
\<close>

definition aksPool :: "AgentPool \<Rightarrow> string \<Rightarrow> string \<Rightarrow> bool" where
  "aksPool ap sub n \<longleftrightarrow> ap_Name ap = Some n \<and> segment sub \<and>
     (\<exists>rg tail. ap_ID ap = Some (''/subscriptions/'' @ sub @ ''/resourcegroups/'' @ rg @ ''/providers/'' @ tail)
        \<and> segment rg \<and> rg \<noteq> ''resourcegroups'' \<and> tail_ok tail)"

lemma aksPool_sub: "aksPool ap sub n \<Longrightarrow> ParseSubIDFromID (FromPtr '''' (ap_ID ap)) = Ok (Some sub)"
  using Parse_subID [of sub] by (auto simp: aksPool_def M_defs)

definition aksCreates :: "'w Provider \<Rightarrow> string \<Rightarrow> bool" where
  "aksCreates p n \<longleftrightarrow>
     (\<forall>obj w a w'. createAgentPool (agentPoolsClient p) (resourceGroup p) n (clusterName p) obj w = (Ok a, w')
        \<longrightarrow> (\<exists>sub. aksPool a sub n))"

text \<open>Every node the API server lists for a pool carries a name of the form AKS gives.\<close>

definition aksNodes :: "'w Provider \<Rightarrow> string \<Rightarrow> bool" where
  "aksNodes p n \<longleftrightarrow> (\<forall>w items w'. kubeList p (nodeSelector n) w = (Ok items, w') \<longrightarrow>
     (\<forall>node \<in> set items. aksNodeName n (n_Name node)))"

lemma fromAgentPoolToInstance_names:
  assumes "fromAgentPoolToInstance rt p (Some ap) w = (Ok (Some i), w')"
    and "aksPool ap sub n" "aksNodes p n" "readableName n" "segment (nodeResourceGroup p)"
  shows "i_Name i = Some n \<and> (\<exists>pid. i_ID i = Some pid \<and> ParseAgentPoolNameFromID pid = Ok n)"
  using assms(1)
proof (rule fromAgentPoolToInstance_SomeE)
  fix ap' sub' node w0 items w1
  assume ap': "Some ap = Some ap'" "ParseSubIDFromID (FromPtr '''' (ap_ID ap')) = Ok sub'"
    "kubeList p (nodeSelector (FromPtr '''' (ap_Name ap'))) w0 = (Ok (node # items), w1)"
    "NodeIsReady node" and i: "poolInstance p (FromPtr '''' sub') ap' node = Ok i"
  have name: "ap_Name ap' = Some n" "segment sub" using assms(2) ap'(1) by (auto simp: aksPool_def)
  have sub': "sub' = Some sub" using aksPool_sub [OF assms(2)] ap'(1,2) by simp
  have "aksNodeName n (n_Name node)"
    using assms(3) ap'(3) name unfolding aksNodes_def by fastforce
  then have "\<exists>pid. i_ID i = Some pid \<and> ParseAgentPoolNameFromID pid = Ok n"
    using Parse_poolInstance [OF i name(1) assms(4)] assms(5) sub' name(2) by simp
  with poolInstance_OkE [OF i] name(1) show ?thesis by metis
qed

lemma Delete_parsed:
  assumes "ParseAgentPoolNameFromID pid = Ok n"
  shows "Delete p pid w =
    (case deleteAgentPool (agentPoolsClient p) (resourceGroup p) n (clusterName p) w of
       (r, w') \<Rightarrow> (wrap_err (''agentPool.Delete for '' @ quote n @ '' failed: '') r, w'))"
  using assms by (simp add: Delete_def split: prod.splits res.splits)

lemma Get_parsed:
  assumes "ParseAgentPoolNameFromID pid = Ok n"
  shows "Get rt p pid w =
    (case getAgentPool (agentPoolsClient p) (resourceGroup p) n (clusterName p) w of
       (Ok ap, w') \<Rightarrow> fromAgentPoolToInstance rt p (Some ap) w'
     | (Err e, w') \<Rightarrow> (Err (Wrapped (''agentPool.Get for '' @ n @ '' failed: '') e), w')
     | (Panic m, w') \<Rightarrow> (Panic m, w'))"
  using assms by (simp add: Get_def split: prod.splits res.splits)

end
