(* ===== verification/Gpu.thy ===== *)
theory Gpu
  imports GoStrings
begin

text \<open>
  GPU SKU tables and small utilities of \<open>pkg/utils/\<close> (\<open>gpu.go\<close>, \<open>utils.go\<close>). A Go map literal
  of booleans is an association list; reading a missing key yields \<open>false\<close>.
\<close>

subsection \<open>Definitions\<close>

definition NvidiaEnabledSKUs :: "(string \<times> bool) list" where
  "NvidiaEnabledSKUs = [
     (''standard_nc6'', True),
     (''standard_nc12'', True),
     (''standard_nc24'', True),
     (''standard_nc24r'', True),
     (''standard_nv6'', True),
     (''standard_nv12'', True),
     (''standard_nv12s_v3'', True),
     (''standard_nv24'', True),
     (''standard_nv24s_v3'', True),
     (''standard_nv24r'', True),
     (''standard_nv48s_v3'', True),
     (''standard_nd6s'', True),
     (''standard_nd12s'', True),
     (''standard_nd24s'', True),
     (''standard_nd24rs'', True),
     (''standard_nc6s_v2'', True),
     (''standard_nc12s_v2'', True),
     (''standard_nc24s_v2'', True),
     (''standard_nc24rs_v2'', True),
     (''standard_nc6s_v3'', True),
     (''standard_nc12s_v3'', True),
     (''standard_nc24s_v3'', True),
     (''standard_nc24rs_v3'', True),
     (''standard_nd40s_v3'', True),
     (''standard_nd40rs_v2'', True),
     (''standard_nc4as_t4_v3'', True),
     (''standard_nc8as_t4_v3'', True),
     (''standard_nc16as_t4_v3'', True),
     (''standard_nc64as_t4_v3'', True),
     (''standard_nd96asr_v4'', True),
     (''standard_nd112asr_a100_v4'', True),
     (''standard_nd120asr_a100_v4'', True),
     (''standard_nd96amsr_a100_v4'', True),
     (''standard_nd112amsr_a100_v4'', True),
     (''standard_nd120amsr_a100_v4'', True),
     (''standard_nc24ads_a100_v4'', True),
     (''standard_nc48ads_a100_v4'', True),
     (''standard_nc96ads_a100_v4'', True),
     (''standard_ncads_a100_v4'', True),
     (''standard_nc8ads_a10_v4'', True),
     (''standard_nc16ads_a10_v4'', True),
     (''standard_nc32ads_a10_v4'', True),
     (''standard_nv6ads_a10_v5'', True),
     (''standard_nv12ads_a10_v5'', True),
     (''standard_nv18ads_a10_v5'', True),
     (''standard_nv36ads_a10_v5'', True),
     (''standard_nv36adms_a10_v5'', True),
     (''standard_nv72ads_a10_v5'', True),
     (''standard_nd96ams_v4'', True),
     (''standard_nd96ams_a100_v4'', True)]"

definition MarinerNvidiaEnabledSKUs :: "(string \<times> bool) list" where
  "MarinerNvidiaEnabledSKUs = [
     (''standard_nc6s_v3'', True),
     (''standard_nc12s_v3'', True),
     (''standard_nc24s_v3'', True),
     (''standard_nc24rs_v3'', True),
     (''standard_nd40s_v3'', True),
     (''standard_nd40rs_v2'', True),
     (''standard_nc4as_t4_v3'', True),
     (''standard_nc8as_t4_v3'', True),
     (''standard_nc16as_t4_v3'', True),
     (''standard_nc64as_t4_v3'', True)]"

definition IsNvidiaEnabledSKU :: "string \<Rightarrow> bool" where
  "IsNvidiaEnabledSKU vmSize =
     (let vmSize = ToLower vmSize;
          vmSize = TrimSuffix vmSize ''_promo''
      in case map_of NvidiaEnabledSKUs vmSize of Some b \<Rightarrow> b | None \<Rightarrow> False)"

text \<open>\<open>WithDefaultBool\<close>, with the environment as a map.\<close>

definition WithDefaultBool :: "(string \<rightharpoonup> string) \<Rightarrow> string \<Rightarrow> bool \<Rightarrow> bool" where
  "WithDefaultBool env key def =
     (case env key of
        None \<Rightarrow> def
      | Some val \<Rightarrow> (case ParseBool val of None \<Rightarrow> def | Some b \<Rightarrow> b))"

subsection \<open>Lookup in the SKU tables\<close>

text \<open>The table lists lower-case names, all of them enabled, none with the promo suffix.\<close>

definition skuTable_ok :: "(string \<times> bool) list \<Rightarrow> bool" where
  "skuTable_ok t \<longleftrightarrow>
     list_all (\<lambda>(k, b). b \<and> ToLower k = k \<and> \<not> HasSuffix k ''_promo'') t"

lemma NvidiaEnabledSKUs_ok: "skuTable_ok NvidiaEnabledSKUs"
  by code_simp

lemma TrimSuffix_eq: "\<not> HasSuffix k p \<Longrightarrow> TrimSuffix s p = k \<longleftrightarrow> s = k \<or> s = k @ p"
  by (auto simp: TrimSuffix_def HasSuffix_iff)

lemma lookup_all_True:
  "\<forall>e \<in> set t. snd e \<Longrightarrow>
   (case map_of t x of Some b \<Rightarrow> b | None \<Rightarrow> False) \<longleftrightarrow> x \<in> fst ` set t"
  by (induction t) auto

lemma IsNvidiaEnabledSKU_iff:
  "IsNvidiaEnabledSKU v \<longleftrightarrow>
     (\<exists>k \<in> fst ` set NvidiaEnabledSKUs. ToLower v = k \<or> ToLower v = k @ ''_promo'')"
proof -
  have all: "\<forall>e \<in> set NvidiaEnabledSKUs. snd e \<and> \<not> HasSuffix (fst e) ''_promo''"
    using NvidiaEnabledSKUs_ok by (auto simp: skuTable_ok_def list_all_iff)
  have "IsNvidiaEnabledSKU v \<longleftrightarrow> TrimSuffix (ToLower v) ''_promo'' \<in> fst ` set NvidiaEnabledSKUs"
    unfolding IsNvidiaEnabledSKU_def Let_def by (rule lookup_all_True) (use all in blast)
  also have "\<dots> \<longleftrightarrow> (\<exists>e \<in> set NvidiaEnabledSKUs. TrimSuffix (ToLower v) ''_promo'' = fst e)"
    by (simp only: image_iff)
  also have "\<dots> \<longleftrightarrow> (\<exists>e \<in> set NvidiaEnabledSKUs. ToLower v = fst e \<or> ToLower v = fst e @ ''_promo'')"
    using all TrimSuffix_eq [of _ "''_promo''" "ToLower v"] by (intro bex_cong refl) blast
  finally show ?thesis by (simp only: bex_simps)
qed

lemma ToLower_promo: "ToLower ''_promo'' = ''_promo''"
  by code_simp

subsection \<open>Properties\<close>

text \<open>
  A VM size has Nvidia support exactly when, ignoring case and one optional \<open>_Promo\<close>
  suffix, it is in the table.
\<close>

theorem nvidia_support_ignores_case_and_promo:
  "IsNvidiaEnabledSKU v =
     (\<exists>k \<in> fst ` set NvidiaEnabledSKUs. EqualFold v k \<or> EqualFold v (k @ ''_promo''))"
proof -
  have "\<forall>k \<in> fst ` set NvidiaEnabledSKUs. ToLower k = k"
    using NvidiaEnabledSKUs_ok by (auto simp: skuTable_ok_def list_all_iff)
  then show ?thesis
    unfolding IsNvidiaEnabledSKU_iff EqualFold_def
    by (intro bex_cong refl) (simp only: ToLower_append ToLower_promo)
qed

end
