(* ===== verification/Lifecycle.thy ===== *)
theory Lifecycle
  imports CloudProvider Gpu "HOL-Library.AList" "HOL-Library.List_Lexorder" "HOL-Library.Char_ord"
begin

text \<open>
  Properties of the machine lifecycle across the cloud provider, the instance provider, the
  retry loop and the identifiers. The witnesses run the definitions against \<open>demo\<close>, a small
  in-memory agent pool service with one resource group and cluster.
\<close>

subsection \<open>A concrete service\<close>

record demoWorld =
  dw_pools :: "(string \<times> AgentPool) list"
  dw_now :: int

definition demoNamed :: "string \<Rightarrow> AgentPool \<Rightarrow> AgentPool" where
  "demoNamed n ap = ap\<lparr>ap_Name := Some n,
     ap_ID := Some (''/subscriptions/s1/resourcegroups/rg/providers/p/'' @ n)\<rparr>"

definition demoAPI :: "demoWorld AgentPoolsAPI" where
  "demoAPI =
     \<lparr>BeginCreateOrUpdate = (\<lambda>rg cl n ap w.
        (Ok (\<lambda>w. (Ok (demoNamed n ap), w\<lparr>dw_pools := AList.update n (demoNamed n ap) (dw_pools w)\<rparr>)), w)),
      GetPool = (\<lambda>rg cl n w. (case map_of (dw_pools w) n of Some ap \<Rightarrow> Ok ap | None \<Rightarrow> Err (ResponseError ''NotFound''), w)),
      BeginDelete = (\<lambda>rg cl n w.
        case map_of (dw_pools w) n of
          None \<Rightarrow> (Err (ResponseError ''NotFound''), w)
        | Some _ \<Rightarrow> (Ok (\<lambda>w. (Ok (), w\<lparr>dw_pools := AList.delete n (dw_pools w)\<rparr>)), w)),
      Fetcher = (\<lambda>rg cl page w. (Ok \<lparr>pg_Value = map (map_of (dw_pools w)) (remdups (map fst (dw_pools w))), pg_NextLink = None\<rparr>, w))\<rparr>"

definition demoNode :: "string \<Rightarrow> Node" where
  "demoNode n = \<lparr>n_Name = ''aks-'' @ n @ ''-1234-vmss000000'', n_Labels = Map.empty,
     n_Conditions = [\<lparr>cond_Type = ''Ready'', cond_Status = ''True''\<rparr>]\<rparr>"

text \<open>The demo node of every pool comes up at second 5.\<close>

definition demoList :: "(string \<times> string) list \<Rightarrow> (demoWorld, Node list) act" where
  "demoList sel w = (Ok (if 5000000000 \<le> dw_now w then map (demoNode \<circ> snd) (take 1 sel) else []), w)"

definition demoProvider :: "demoWorld Provider" where
  "demoProvider = NewProvider demoAPI demoList ''rg'' ''mc'' ''c''"

definition demoRuntime :: "demoWorld runtime" where
  "demoRuntime = \<lparr>rt_clock = \<lparr>Float64 = (\<lambda>w. (0, w)), Sleep = (\<lambda>d w. w\<lparr>dw_now := dw_now w + d\<rparr>)\<rparr>,
     rt_UnsortedList = sorted_list_of_set\<rparr>"

definition demoMachine :: "string \<Rightarrow> Machine" where
  "demoMachine n = empty_Machine\<lparr>m_Name := n, m_Requirements :=
     [\<lparr>nsr_Key = InstanceTypeLabel, nsr_Operator = OpIn, nsr_Values = [''Standard_NC12s_v3'']\<rparr>]\<rparr>"

definition demo0 :: demoWorld where
  "demo0 = \<lparr>dw_pools = [], dw_now = 0\<rparr>"

lemma demo_fields [simp]:
  "agentPoolsClient demoProvider = demoAPI" "kubeList demoProvider = demoList"
  "resourceGroup demoProvider = ''rg''" "nodeResourceGroup demoProvider = ''mc''"
  "clusterName demoProvider = ''c''"
  by (simp_all add: demoProvider_def NewProvider_def)

lemma demo_create:
  "createAgentPool demoAPI rg n cl obj w =
     (Ok (demoNamed n obj), w\<lparr>dw_pools := AList.update n (demoNamed n obj) (dw_pools w)\<rparr>)"
  by (simp add: createAgentPool_def demoAPI_def act_bind_def)

lemma demo_aksPool: "aksPool (demoNamed ''gpu'' obj) ''s1'' ''gpu''"
proof -
  have "tail_ok ''p/gpu''" by (simp add: tail_ok_def slash_cut.simps(2))
  then show ?thesis
    unfolding aksPool_def
    by (intro conjI exI [of _ "''rg''"] exI [of _ "''p/gpu''"]) (simp_all add: demoNamed_def segment_def)
qed

lemma demo_aksNodes: "aksNodes demoProvider n"
proof -
  have "aksNodeName n (''aks-'' @ n @ ''-1234-vmss000000'')"
    unfolding aksNodeName_def
    by (intro exI [of _ "''1234''"] exI [of _ "''000000''"]) (simp add: segment_def HasPrefix_def)
  then show ?thesis
    by (auto simp: aksNodes_def demoList_def demoNode_def nodeSelector_def split: if_splits)
qed

lemma demo_readable: "readableName ''gpu''" "segment ''mc''"
  by (simp_all add: readableName_def segment_def HasPrefix_def)

lemma demo_clock: "clock_ok (rt_clock demoRuntime) dw_now"
  by (simp add: clock_ok_def demoRuntime_def)

lemma demo_ready: "node_ready_from demoProvider n dw_now 5000000000"
  by (auto simp: node_ready_from_def demoList_def nodeSelector_def demoNode_def NodeIsReady_def GetCondition_def)

lemma demo_choose: "chooseVMSize demoRuntime (demoMachine n) = Ok ''Standard_NC12s_v3''"
  by (simp add: chooseVMSize_def demoMachine_def NewNodeSelectorRequirements_def NewRequirements_def
      NewRequirement_def Requirements_Add1_def requirement_of_def Requirements_Get_def Values_def
      normalizeKey_def NormalizedLabels_def InstanceTypeLabel_def demoRuntime_def)

lemma demo_createPool:
  "createPool demoRuntime demoProvider (demoMachine n) w =
     (let ap = demoNamed n (newAgentPoolObject ''Standard_NC12s_v3'' (demoMachine n))
      in (Ok ap, w\<lparr>dw_pools := AList.update n ap (dw_pools w)\<rparr>))"
  by (simp add: createPool_def demo_choose demo_create Let_def) (simp add: demoMachine_def demoNamed_def)

lemma demo_pool_props: "ap_Properties (demoNamed n (newAgentPoolObject v m)) \<noteq> None"
  by (simp add: demoNamed_def newAgentPoolObject_def Let_def)

lemma demo_Create: "\<exists>i w'. Create demoRuntime demoProvider (demoMachine ''gpu'') demo0 = (Ok (Some i), w')"
proof (rule Create_live [OF _ _ demo_clock demo_ready])
  let ?ap = "demoNamed ''gpu'' (newAgentPoolObject ''Standard_NC12s_v3'' (demoMachine ''gpu''))"
  show "length (m_Name (demoMachine ''gpu'')) \<le> 11" by (simp add: demoMachine_def)
  show "createPool demoRuntime demoProvider (demoMachine ''gpu'') demo0 =
      (Ok ?ap, demo0\<lparr>dw_pools := AList.update ''gpu'' ?ap (dw_pools demo0)\<rparr>)"
    by (simp only: demo_createPool Let_def)
  show "5000000000 \<le> dw_now (demo0\<lparr>dw_pools := AList.update ''gpu'' ?ap (dw_pools demo0)\<rparr>) + 14 * 1000000000"
    by (simp add: demo0_def)
  show "ParseSubIDFromID (FromPtr '''' (ap_ID ?ap)) = Ok (Some ''s1'')"
    by (rule aksPool_sub [OF demo_aksPool])
  show "ap_Properties ?ap \<noteq> None" by (rule demo_pool_props)
qed (simp add: demoList_def)

lemma demo_CloudProvider_Create:
  "\<exists>m w'. CloudProvider_Create demoRuntime demoProvider (demoMachine ''gpu'') demo0 = (Ok m, w')"
proof -
  obtain i w' where c: "Create demoRuntime demoProvider (demoMachine ''gpu'') demo0 = (Ok (Some i), w')"
    using demo_Create by blast
  then obtain ap w1 w2 where cp: "createPool demoRuntime demoProvider (demoMachine ''gpu'') demo0 = (Ok ap, w1)"
    and q: "fromAgentPoolToInstance demoRuntime demoProvider (Some ap) w2 = (Ok (Some i), w')"
    by (rule Create_OkE)
  from cp have ap: "ap = demoNamed ''gpu'' (newAgentPoolObject ''Standard_NC12s_v3'' (demoMachine ''gpu''))"
    by (simp add: demo_createPool Let_def)
  from q obtain sub n where "poolInstance demoProvider (FromPtr '''' sub) ap n = Ok i"
    by (auto elim: fromAgentPoolToInstance_SomeE)
  then obtain props where "ap_Properties ap = Some props" "i_Tags i = Tags props"
    "i_CapacityType i = None" by (rule poolInstance_OkE)
  then have "i_Tags i = Map.empty" "i_CapacityType i = None"
    using ap by (auto simp: newAgentPoolObject_def Let_def demoNamed_def)
  then have "\<exists>m i'. instanceToMachine i = Ok (m, i')"
    by (simp add: instanceToMachine_def copyTag_def Let_def)
  with c show ?thesis by (auto simp: CloudProvider_Create_def instancePtrToMachine_def)
qed

subsection \<open>Properties\<close>

text \<open>
  C1. A machine the cloud provider has created can be deleted through the provider identifier
  it was given: deleting it deletes the agent pool created for it, and reading it reads that
  pool. The name of the machine must be readable, without a dash or a slash and not starting with \<open>vmss\<close>
  (\<open>vmss_prefixed_pool_misread\<close> shows what happens to a pool \<open>vmss1\<close>), and the nodes named as AKS names them.
\<close>

theorem create_delete_same_pool:
  assumes created: "CloudProvider_Create rt p machine w = (Ok m, w')"
    and azure: "aksCreates p (m_Name machine)"
    and "aksNodes p (m_Name machine)" "readableName (m_Name machine)" "segment (nodeResourceGroup p)"
  shows "m_Name m = m_Name machine \<and>
    CloudProvider_Delete p m w2 =
      (case deleteAgentPool (agentPoolsClient p) (resourceGroup p) (m_Name machine) (clusterName p) w2 of
         (r, w3) \<Rightarrow> (wrap_err (''agentPool.Delete for '' @ quote (m_Name machine) @ '' failed: '') r, w3)) \<and>
    Get rt p (m_ProviderID m) w2 =
      (case getAgentPool (agentPoolsClient p) (resourceGroup p) (m_Name machine) (clusterName p) w2 of
         (Ok ap, w3) \<Rightarrow> fromAgentPoolToInstance rt p (Some ap) w3
       | (Err e, w3) \<Rightarrow> (Err (Wrapped (''agentPool.Get for '' @ m_Name machine @ '' failed: '') e), w3)
       | (Panic msg, w3) \<Rightarrow> (Panic msg, w3))"
proof -
  from created obtain i i' where i: "Create rt p machine w = (Ok (Some i), w')" "instanceToMachine i = Ok (m, i')"
    by (rule CloudProvider_Create_OkE) blast
  from i(1) obtain ap w1 w2 where ap: "createPool rt p machine w = (Ok ap, w1)"
    "fromAgentPoolToInstance rt p (Some ap) w2 = (Ok (Some i), w')" by (rule Create_OkE)
  from ap(1) obtain sub where "aksPool ap sub (m_Name machine)"
    by (rule createPool_OkE) (use azure in \<open>unfold aksCreates_def, blast\<close>)
  from fromAgentPoolToInstance_names [OF ap(2) this assms(3-5)] obtain pid where
    "i_Name i = Some (m_Name machine)" "i_ID i = Some pid" and parse: "ParseAgentPoolNameFromID pid = Ok (m_Name machine)"
    by blast
  then have m: "m_Name m = m_Name machine" "m_ProviderID m = pid"
    using instanceToMachine_Ok(1,3) [OF i(2)] by simp_all
  then show ?thesis
    unfolding CloudProvider_Delete_def by (simp only: Delete_parsed [OF parse] Get_parsed [OF parse] simp_thms)
qed

theorem create_delete_same_pool_witness:
  "\<exists>m w'. CloudProvider_Create demoRuntime demoProvider (demoMachine ''gpu'') demo0 = (Ok m, w') \<and>
     m_Name m = ''gpu'' \<and> fst (CloudProvider_Delete demoProvider m w') = Ok ()"
proof -
  obtain m w' where c: "CloudProvider_Create demoRuntime demoProvider (demoMachine ''gpu'') demo0 = (Ok m, w')"
    using demo_CloudProvider_Create by blast
  have n: "m_Name (demoMachine ''gpu'') = ''gpu''" by (simp add: demoMachine_def)
  have azure: "aksCreates demoProvider ''gpu''"
    using demo_aksPool by (auto simp: aksCreates_def demo_create)
  have "segment (nodeResourceGroup demoProvider)" using demo_readable by simp
  note res = create_delete_same_pool [OF c, unfolded n, OF azure demo_aksNodes demo_readable(1) this]
  have "fst (CloudProvider_Delete demoProvider m w') = Ok ()"
    using res [where ?w2.0 = w'] by (auto simp: deleteAgentPool_def demoAPI_def split: option.splits)
  with res c show ?thesis by blast
qed

text \<open>
  C5. \<open>Create\<close>, with its two retry loops and the variables their closures capture, is: refuse a
  name longer than 11 characters without calling Azure; otherwise ask Azure for the pool exactly
  once, ask for the node, and, while there is none, ask again up to 15 times with a pause after
  each failed attempt but the last.
\<close>

theorem Create_refines_createSpec:
  "Create rt p machine =
     (if 11 < length (m_Name machine)
      then act_return (Err (ErrorString (''the length agentpool name should be less than 11, got ''
              @ show_nat (length (m_Name machine)) @ '' ('' @ m_Name machine @ '')'')))
      else createSpec rt p machine)"
proof (cases "11 < length (m_Name machine)")
  case True
  then show ?thesis by (intro ext) (simp only: Create_def Let_def if_True act_return_simp)
next
  case False
  then show ?thesis using Create_spec [of machine rt p] by simp
qed

text \<open>
  C6. \<open>Create\<close> returns the instance of a node that becomes ready within 14 seconds of the pool's
  creation, whatever the jitter, provided the first node list call after the creation succeeds
  and the API server does not make the process panic.
\<close>

theorem Create_returns_ready_node:
  assumes "length (m_Name machine) \<le> 11"
    and "createPool rt p machine w = (Ok ap, w1)"
    and "clock_ok (rt_clock rt) now"
    and "node_ready_from p (FromPtr '''' (ap_Name ap)) now T" "T \<le> now w1 + 14 * 1000000000"
    and "is_Ok (fst (kubeList p (nodeSelector (FromPtr '''' (ap_Name ap))) w1))"
    and "ParseSubIDFromID (FromPtr '''' (ap_ID ap)) = Ok sub" "ap_Properties ap \<noteq> None"
  shows "\<exists>i w'. Create rt p machine w = (Ok (Some i), w')"
  using assms by (rule Create_live)

theorem Create_returns_ready_node_witness:
  "\<exists>i w'. Create demoRuntime demoProvider (demoMachine ''gpu'') demo0 = (Ok (Some i), w')"
proof (rule Create_returns_ready_node [OF _ _ demo_clock demo_ready])
  let ?ap = "demoNamed ''gpu'' (newAgentPoolObject ''Standard_NC12s_v3'' (demoMachine ''gpu''))"
  show "length (m_Name (demoMachine ''gpu'')) \<le> 11" by (simp add: demoMachine_def)
  show "createPool demoRuntime demoProvider (demoMachine ''gpu'') demo0 =
      (Ok ?ap, demo0\<lparr>dw_pools := AList.update ''gpu'' ?ap (dw_pools demo0)\<rparr>)"
    by (simp only: demo_createPool Let_def)
  show "5000000000 \<le> dw_now (demo0\<lparr>dw_pools := AList.update ''gpu'' ?ap (dw_pools demo0)\<rparr>) + 14 * 1000000000"
    by (simp add: demo0_def)
  show "ParseSubIDFromID (FromPtr '''' (ap_ID ?ap)) = Ok (Some ''s1'')"
    by (rule aksPool_sub [OF demo_aksPool])
  show "ap_Properties ?ap \<noteq> None" by (rule demo_pool_props)
qed (simp add: demoList_def)

text \<open>
  C7. A successful \<open>Create\<close> of the instance provider never returns a nil instance, so
  \<open>CloudProvider.Create\<close> never dereferences one; and merging the instance's labels into the
  machine's adds nothing, since the two maps are one.
\<close>

theorem CloudProvider_Create_no_nil_instance:
  "fst (Create rt p machine w) \<noteq> Ok None \<and>
   CloudProvider_Create rt p machine w =
     (case Create rt p machine w of
        (Ok ptr, w') \<Rightarrow> (map_res fst (instanceToMachine (the ptr)), w')
      | (Err e, w') \<Rightarrow> (Err (Wrapped ''creating instance, '' e), w')
      | (Panic m, w') \<Rightarrow> (Panic m, w'))"
proof (cases "Create rt p machine w")
  case (Pair r w1)
  show ?thesis
  proof (cases r)
    case (Ok ptr)
    then have "ptr \<noteq> None" using Create_Some [of rt p machine w ptr w1] Pair by simp
    then obtain i where i: "ptr = Some i" by auto
    have "map_res (\<lambda>(m, inst'). m\<lparr>m_Labels := Assign2 (m_Labels m) (i_Labels inst')\<rparr>) (instanceToMachine i)
        = map_res fst (instanceToMachine i)"
      by (cases "instanceToMachine i") (auto simp: instanceToMachine_Ok(2))
    with Pair Ok i show ?thesis
      by (simp add: CloudProvider_Create_def instancePtrToMachine_def)
  qed (use Pair in \<open>simp_all add: CloudProvider_Create_def\<close>)
qed

text \<open>
  C8. When a machine names its VM sizes with an \<open>In\<close> requirement, the size sent to Azure is
  admitted by every instance type requirement of the machine, whatever order the runtime walks
  the set in.
\<close>

theorem chosen_size_is_admitted:
  assumes "walks_sets rt" "chooseVMSize rt machine = Ok v"
    and "\<exists>q \<in> set (m_Requirements machine).
      normalizeKey (nsr_Key q) = InstanceTypeLabel \<and> nsr_Operator q = OpIn"
    and "q \<in> set (m_Requirements machine)" "normalizeKey (nsr_Key q) = InstanceTypeLabel"
  shows "admits q v"
  using assms by (rule chooseVMSize_admitted)

lemma demo_walks: "walks_sets demoRuntime"
  by (simp add: walks_sets_def demoRuntime_def)

theorem chosen_size_is_admitted_witness:
  "admits \<lparr>nsr_Key = InstanceTypeLabel, nsr_Operator = OpIn, nsr_Values = [''Standard_NC12s_v3'']\<rparr> ''Standard_NC12s_v3''"
  by (rule chosen_size_is_admitted [OF demo_walks demo_choose [of "''gpu''"]])
    (simp_all add: demoMachine_def normalizeKey_def NormalizedLabels_def InstanceTypeLabel_def)

text \<open>
  C9. A machine whose only instance type requirement excludes one size with \<open>NotIn\<close> is created
  with exactly the excluded size.
\<close>

theorem NotIn_chooses_excluded_size:
  assumes "walks_sets rt" "m_Requirements machine = [q]" "nsr_Key q = InstanceTypeLabel"
    and "nsr_Operator q = OpNotIn" "nsr_Values q = [v]"
  shows "chooseVMSize rt machine = Ok v \<and> \<not> admits q v"
proof -
  have "set (rt_UnsortedList rt {v}) = {v}" "distinct (rt_UnsortedList rt {v})"
    using assms(1) by (simp_all add: walks_sets_def)
  then have l: "rt_UnsortedList rt {v} = [v]"
    by (cases "rt_UnsortedList rt {v}"; cases "tl (rt_UnsortedList rt {v})") auto
  have n: "normalizeKey InstanceTypeLabel = InstanceTypeLabel"
    by (simp add: normalizeKey_def NormalizedLabels_def InstanceTypeLabel_def)
  have "NewNodeSelectorRequirements [q] = Ok [InstanceTypeLabel \<mapsto> requirement_of InstanceTypeLabel OpNotIn [v]]"
    using assms(3-5) n
    by (simp add: NewNodeSelectorRequirements_def NewRequirements_def NewRequirement_def Requirements_Add1_def)
  then have "chooseVMSize rt machine = Ok v"
    using assms(2) l
    by (simp add: chooseVMSize_def Requirements_Get_def Values_def requirement_of_def)
  with assms(4,5) show ?thesis by (simp add: admits_def)
qed

theorem NotIn_chooses_excluded_size_witness:
  "chooseVMSize demoRuntime (empty_Machine\<lparr>m_Requirements :=
     [\<lparr>nsr_Key = InstanceTypeLabel, nsr_Operator = OpNotIn, nsr_Values = [''Standard_A1'']\<rparr>]\<rparr>) = Ok ''Standard_A1''"
  by (rule NotIn_chooses_excluded_size [where q =
      "\<lparr>nsr_Key = InstanceTypeLabel, nsr_Operator = OpNotIn, nsr_Values = [''Standard_A1'']\<rparr>", OF demo_walks, THEN conjunct1]) simp_all

text \<open>
  C10. \<open>Delete\<close> is idempotent from the caller's side: an Azure "NotFound", at the start of the
  deletion or while waiting for it, wrapped or not, counts as success; every other error is
  reported with the pool's name.
\<close>

theorem Delete_outcome:
  assumes "ParseAgentPoolNameFromID pid = Ok n"
  shows "fst (Delete p pid w) =
    (let settle = (\<lambda>e. if IsResponseError e = Some ''NotFound'' then Ok ()
                       else Err (Wrapped (''agentPool.Delete for '' @ quote n @ '' failed: '') e))
     in case BeginDelete (agentPoolsClient p) (resourceGroup p) (clusterName p) n w of
          (Err e, _) \<Rightarrow> settle e
        | (Panic m, _) \<Rightarrow> Panic m
        | (Ok poll, w1) \<Rightarrow>
            (case poll w1 of (Err e, _) \<Rightarrow> settle e | (Panic m, _) \<Rightarrow> Panic m | (Ok _, _) \<Rightarrow> Ok ()))"
proof -
  have "fst (Delete p pid w) = wrap_err (''agentPool.Delete for '' @ quote n @ '' failed: '')
      (fst (deleteAgentPool (agentPoolsClient p) (resourceGroup p) n (clusterName p) w))"
    using Delete_parsed [OF assms, of p w] by (simp split: prod.splits)
  then show ?thesis
    by (simp only: deleteAgentPool_def Let_def) (auto split: prod.splits res.splits)
qed

lemma demo_pid: "ParseAgentPoolNameFromID (vmssID ''s'' ''rg'' (''aks-'' @ ''gpu'' @ ''-'' @ ''1-vmss'') ''0'') = Ok ''gpu''"
  by (rule Parse_aks_vmssID) (simp_all add: segment_def)

theorem Delete_outcome_witness:
  "fst (Delete demoProvider (vmssID ''s'' ''rg'' (''aks-'' @ ''gpu'' @ ''-'' @ ''1-vmss'') ''0'') demo0) = Ok ()"
  by (simp only: Delete_outcome [OF demo_pid]) (simp add: demoAPI_def demo0_def)

text \<open>
  C11. \<open>List\<close> walks every page the service has, in order, and returns exactly the instances of
  the pools whose first node is ready; a pool without such a node is left out, and a cluster
  without pools is an error.
\<close>

theorem List_returns_ready_pools:
  assumes "serves (Fetcher (agentPoolsClient p) (resourceGroup p) (clusterName p)) None w pages w'"
    and "concat (map pg_Value pages) = map Some aps"
    and "\<And>n. kubeList p (nodeSelector n) w' = (Ok (nodes n), w')"
    and "\<And>ap. ap \<in> set aps \<Longrightarrow> ParseSubIDFromID (FromPtr '''' (ap_ID ap)) = Ok (Some (sub ap)) \<and> ap_Properties ap \<noteq> None"
  shows "Provider_List rt p w = Some
    (if aps = [] then Err (ErrorString ''no agentpools found'')
     else Ok (concat (map (\<lambda>ap. case nodes (FromPtr '''' (ap_Name ap)) of
                [] \<Rightarrow> []
              | node # _ \<Rightarrow> if NodeIsReady node then (case poolInstance p (sub ap) ap node of Ok i \<Rightarrow> [i] | _ \<Rightarrow> []) else [])
            aps)), w')"
proof -
  let ?f = "\<lambda>ap. case nodes (FromPtr '''' (ap_Name ap)) of [] \<Rightarrow> []
     | node # _ \<Rightarrow> if NodeIsReady node then (case poolInstance p (sub ap) ap node of Ok i \<Rightarrow> [i] | _ \<Rightarrow> []) else []"
  have "collectInstances rt p (map Some aps) acc w' = (Ok (acc @ concat (map ?f aps)), w')" for acc
    using assms(4)
  proof (induction aps arbitrary: acc)
    case (Cons ap aps)
    obtain props where props: "ap_Properties ap = Some props" using Cons.prems by auto
    have "fromAgentPoolToInstance rt p (Some ap) w' =
      ((case nodes (FromPtr '''' (ap_Name ap)) of [] \<Rightarrow> Ok None
        | n # _ \<Rightarrow> if NodeIsReady n then map_res Some (poolInstance p (sub ap) ap n) else Ok None), w')"
      using fromAgentPoolToInstance_Ok [OF _ assms(3), of ap "Some (sub ap)" rt] Cons.prems [of ap]
      by (simp split: list.splits)
    with Cons props show ?case
      by (cases "nodes (FromPtr '''' (ap_Name ap))") (auto simp: poolInstance_def)
  qed simp
  from this [of "[]"] show ?thesis
    using listAgentPools_serves [OF assms(1)] assms(2)
    by (simp add: Provider_List_def fromAPListToInstances_def)
qed

definition demoPool :: AgentPool where
  "demoPool = demoNamed ''gpu'' (newAgentPoolObject ''Standard_NC12s_v3'' (demoMachine ''gpu''))"

theorem List_returns_ready_pools_witness:
  "Provider_List demoRuntime demoProvider \<lparr>dw_pools = [(''gpu'', demoPool)], dw_now = 0\<rparr>
     = Some (Ok [], \<lparr>dw_pools = [(''gpu'', demoPool)], dw_now = 0\<rparr>)"
  (is "Provider_List _ _ ?w = _")
proof -
  have s: "serves (Fetcher (agentPoolsClient demoProvider) (resourceGroup demoProvider) (clusterName demoProvider))
      None ?w [\<lparr>pg_Value = [Some demoPool], pg_NextLink = None\<rparr>] ?w"
    by (rule serves_last) (simp_all add: demoAPI_def handlerMore_def)
  have "ParseSubIDFromID (FromPtr '''' (ap_ID demoPool)) = Ok (Some ''s1'') \<and> ap_Properties demoPool \<noteq> None"
    using aksPool_sub [OF demo_aksPool] demo_pool_props by (auto simp: demoPool_def)
  then show ?thesis
    using List_returns_ready_pools [OF s, of "[demoPool]" "\<lambda>_. []" "\<lambda>_. ''s1''" demoRuntime]
    by (simp add: demoList_def)
qed

text \<open>
  The agent pool asked for: one Linux node of the chosen size; the machine's labels, with
  the provisioner name defaulted and the machine type label always overwritten ("gpu" exactly
  when the size name contains "Standard_N"); one taint string per taint of the machine, in
  order.
\<close>

theorem newAgentPoolObject_fields:
  "\<exists>props. ap_Properties (newAgentPoolObject v machine) = Some props \<and>
     VMSize props = Some v \<and> Count props = Some 1 \<and> OSType props = Some ''Linux'' \<and>
     NodeTaints props = map (Some \<circ> taintString) (m_Taints machine) \<and>
     NodeLabels props k =
       (if k = LabelMachineType
        then Some (Some (if \<exists>a b. v = a @ ''Standard_N'' @ b then ''gpu'' else ''cpu''))
        else case m_Labels machine k of
               Some l \<Rightarrow> Some (Some l)
             | None \<Rightarrow> if k = ProvisionerNameLabelKey then Some (Some ''default'') else None)"
  by (auto simp: newAgentPoolObject_def Let_def Contains_iff Assign2_apply MapValues_def map_add_def
      split: option.splits)

text \<open>
  C16. The OS disk size is the storage request in bytes cut to 32 bits (two's complement), where
  the field counts gigabytes: the 120Gi of the examples becomes 0.
\<close>

theorem OSDiskSizeGB_truncates:
  assumes "m_Requests machine = Some rl" "rl ''storage'' = Some (whole bytes)"
    and "0 \<le> bytes" "bytes < 2 ^ 63"
  shows "map_option OSDiskSizeGB (ap_Properties (newAgentPoolObject v machine))
    = Some (Some ((bytes + 2 ^ 31) mod 2 ^ 32 - 2 ^ 31))"
proof -
  have "int32_of bytes = (bytes + 2 ^ 31) mod 2 ^ 32 - 2 ^ 31"
    by (simp add: int32_of_signed_take signed_take_bit_eq_take_bit_shift take_bit_eq_mod)
  then show ?thesis
    using assms by (simp add: newAgentPoolObject_def Let_def Storage_def Value_whole)
qed

theorem OSDiskSizeGB_truncates_witness:
  "map_option OSDiskSizeGB (ap_Properties (newAgentPoolObject ''Standard_NC12s_v3''
      (empty_Machine\<lparr>m_Requests := Some [''storage'' \<mapsto> whole (120 * 2 ^ 30)]\<rparr>))) = Some (Some 0)"
  using OSDiskSizeGB_truncates [of "empty_Machine\<lparr>m_Requests := Some [''storage'' \<mapsto> whole (120 * 2 ^ 30)]\<rparr>"
      "[''storage'' \<mapsto> whole (120 * 2 ^ 30)]" "120 * 2 ^ 30" "''Standard_NC12s_v3''"]
  by simp

text \<open>
  A pool whose name starts with "vmss" is cut in the middle of its name: the identifier
  of its node is read back as the pool "vmss", so deleting or reading the machine addresses
  another pool.
\<close>

theorem vmss_prefixed_pool_misread:
  assumes "poolInstance p sub ap n = Ok i" "n_Name n = ''aks-vmss'' @ rest"
    and "segment sub" "segment (nodeResourceGroup p)"
  shows "\<exists>pid. i_ID i = Some pid \<and> ParseAgentPoolNameFromID pid = Ok ''vmss''"
proof -
  have "Index (''aks'' @ (CHR ''-'' # ''vmss'') @ rest) (CHR ''-'' # ''vmss'') = Some 3"
    using Index_skip [of "CHR ''-''" "''aks''" "(CHR ''-'' # ''vmss'') @ rest" "''vmss''"]
      Index_hit [of "CHR ''-'' # ''vmss''" rest] by simp
  then have "hd (SplitAfter (n_Name n) ''-vmss'') = ''aks-vmss''"
    using assms(2) by (simp add: hd_SplitAfter)
  moreover obtain props where "i_ID i = Some (''azure://'' @ getVMSSNodeProviderID (nodeResourceGroup p) sub
        (hd (SplitAfter (n_Name n) ''-vmss'')))"
    using assms(1) by (rule poolInstance_OkE)
  moreover have "ParseAgentPoolNameFromID (vmssID sub (ToLower (nodeResourceGroup p)) ''aks-vmss'' ''0'') = Ok ''vmss''"
  proof -
    have "Split ''aks-vmss'' ''-'' ! 1 = ''vmss''"
      using Split_Cons [of "CHR ''-''" "''aks''" "''vmss''"] Split_no_sep [of "CHR ''-''" "''vmss''"] by simp
    then show ?thesis
      using Parse_vmssID [of sub "ToLower (nodeResourceGroup p)" "''aks-vmss''" "''0''"] assms(3,4)
      by (simp add: segment_def ToLower_keeps_absent)
  qed
  ultimately show ?thesis by (metis vmssID_getVMSSNodeProviderID)
qed

theorem vmss_prefixed_pool_misread_witness:
  "\<exists>i pid. poolInstance demoProvider ''s1'' demoPool (demoNode ''vmss1'') = Ok i \<and>
     i_ID i = Some pid \<and> ParseAgentPoolNameFromID pid = Ok ''vmss''"
proof -
  obtain props where "ap_Properties demoPool = Some props"
    unfolding demoPool_def using demo_pool_props by blast
  then have "\<exists>i. poolInstance demoProvider ''s1'' demoPool (demoNode ''vmss1'') = Ok i"
    by (simp only: poolInstance_def Let_def Deref_simps res.map) blast
  then obtain i where i: "poolInstance demoProvider ''s1'' demoPool (demoNode ''vmss1'') = Ok i" by blast
  have n: "n_Name (demoNode ''vmss1'') = ''aks-vmss'' @ ''1-1234-vmss000000''"
    by (simp add: demoNode_def)
  have "segment ''s1''" "segment (nodeResourceGroup demoProvider)" by (simp_all add: segment_def)
  from vmss_prefixed_pool_misread [OF i n this] i show ?thesis by blast
qed

end
