(* ===== verification/Cluster.thy ===== *)
theory Cluster
  imports Lifecycle
begin

text \<open>
  The cluster as the cloud provider leaves it. The abstract state is the map from names to agent
  pools; its transitions say what each call of the \<open>CloudProvider\<close> interface may do to it. The
  operations of \<open>pkg/cloudprovider\<close>, with their retries, polling and parsing, are proved to refine
  these transitions over every service that keeps agent pools as Azure documents it.
\<close>

type_synonym cluster = "string \<rightharpoonup> AgentPool"

subsection \<open>What the service promises\<close>

text \<open>
  \<open>pools\<close> reads the agent pools of the cluster off the world. A creation awaited to its end stores
  the pool it returns under the name asked for, with the VM size asked for (\<open>PUT\<close> returns the
  resource); a creation that fails may leave a pool of that name behind, and touches no other.
\<close>

definition aksPuts :: "'w Provider \<Rightarrow> ('w \<Rightarrow> cluster) \<Rightarrow> bool" where
  "aksPuts p pools \<longleftrightarrow>
     (\<forall>n obj w r w'. act_bind (BeginCreateOrUpdate (agentPoolsClient p) (resourceGroup p) (clusterName p) n obj) (\<lambda>poll. poll) w = (r, w') \<longrightarrow>
        (case r of
           Ok ap \<Rightarrow> pools w' = (pools w)(n \<mapsto> ap) \<and> ap_Name ap = Some n \<and>
             map_option VMSize (ap_Properties ap) = map_option VMSize (ap_Properties obj)
         | _ \<Rightarrow> pools w' = pools w \<or> (\<exists>ap. ap_Name ap = Some n \<and> pools w' = (pools w)(n \<mapsto> ap))))"

text \<open>
  A deletion awaited to its end has removed the pool; an answer \<open>NotFound\<close> is only given for a pool
  that is not there; any other failure leaves the pool as it was or removed. The service's errors are
  not karpenter's.
\<close>

definition aksRemoves :: "'w Provider \<Rightarrow> ('w \<Rightarrow> cluster) \<Rightarrow> bool" where
  "aksRemoves p pools \<longleftrightarrow>
     (\<forall>n w r w'. act_bind (BeginDelete (agentPoolsClient p) (resourceGroup p) (clusterName p) n) (\<lambda>poll. poll) w = (r, w') \<longrightarrow>
        (case r of
           Ok _ \<Rightarrow> pools w' = (pools w)(n := None)
         | Err e \<Rightarrow> (pools w' = pools w \<or> pools w' = (pools w)(n := None)) \<and>
             (IsResponseError e = Some ''NotFound'' \<longrightarrow> pools w' n = None) \<and> \<not> IsMachineNotFoundError e
         | Panic _ \<Rightarrow> pools w' = pools w \<or> pools w' = (pools w)(n := None)))"

text \<open>
  Reading and listing change nothing and show only pools that are there; again the errors are the
  service's own.
\<close>

definition aksReads :: "'w Provider \<Rightarrow> ('w \<Rightarrow> cluster) \<Rightarrow> bool" where
  "aksReads p pools \<longleftrightarrow>
     (\<forall>n w r w'. GetPool (agentPoolsClient p) (resourceGroup p) (clusterName p) n w = (r, w') \<longrightarrow>
        pools w' = pools w \<and> (case r of
           Ok ap \<Rightarrow> pools w n = Some ap
         | Err e \<Rightarrow> \<not> IsMachineNotFoundError e
         | Panic _ \<Rightarrow> True)) \<and>
     (\<forall>cur w r w'. Fetcher (agentPoolsClient p) (resourceGroup p) (clusterName p) cur w = (r, w') \<longrightarrow>
        pools w' = pools w \<and> (case r of Ok page \<Rightarrow> set (pg_Value page) \<subseteq> Some ` ran (pools w) | _ \<Rightarrow> True))"

text \<open>
  Listing nodes in Kubernetes, which fails with errors of its own, drawing jitter and sleeping do not
  change agent pools.
\<close>

definition poolsStill :: "'w runtime \<Rightarrow> 'w Provider \<Rightarrow> ('w \<Rightarrow> cluster) \<Rightarrow> bool" where
  "poolsStill rt p pools \<longleftrightarrow>
     (\<forall>sel w. pools (snd (kubeList p sel w)) = pools w) \<and>
     (\<forall>sel w e w'. kubeList p sel w = (Err e, w') \<longrightarrow> \<not> IsMachineNotFoundError e) \<and>
     (\<forall>w. pools (snd (Float64 (rt_clock rt) w)) = pools w) \<and> (\<forall>d w. pools (Sleep (rt_clock rt) d w) = pools w)"

definition aksService :: "'w runtime \<Rightarrow> 'w Provider \<Rightarrow> ('w \<Rightarrow> cluster) \<Rightarrow> bool" where
  "aksService rt p pools \<longleftrightarrow> aksPuts p pools \<and> aksRemoves p pools \<and> aksReads p pools \<and> poolsStill rt p pools"

subsection \<open>Waiting for a node\<close>

lemma Step_still:
  assumes "poolsStill rt p pools"
  shows "pools (snd (Step (rt_clock rt) b w)) = pools w"
  using assms by (simp add: poolsStill_def Step_def Jitter_def Let_def split: prod.splits)
    (metis snd_conv)

lemma pause_still:
  assumes "poolsStill rt p pools"
  shows "pools (pause_of (rt_clock rt) b i w) = pools w"
    and "pools (fst (pause_of (lift_clock (rt_clock rt)) b i (w, v))) = pools w"
proof -
  obtain d b' w' where s: "Step (rt_clock rt) (uncapped b i) w = ((d, b'), w')" by (metis surj_pair)
  then have "pools w' = pools w" using Step_still [OF assms, of "uncapped b i" w] by simp
  then show "pools (pause_of (rt_clock rt) b i w) = pools w"
    and "pools (fst (pause_of (lift_clock (rt_clock rt)) b i (w, v))) = pools w"
    using assms s by (simp_all add: pause_of_def Step_lift poolsStill_def)
qed

lemma getNodeByName_still:
  assumes still: "poolsStill rt p pools"
  shows "pools (snd (getNodeByName rt p n w)) = pools w"
proof -
  let ?fn = "listNodes p (nodeSelector n)" and ?pause = "pause_of (lift_clock (rt_clock rt)) DefaultRetry"
  let ?I = "\<lambda>s :: 'a \<times> Node list. pools (fst s) = pools w"
  have list: "?I (snd (?fn s))" if "?I s" for s
  proof -
    have "pools (snd (kubeList p (nodeSelector n) (fst s))) = pools w" using still that by (simp add: poolsStill_def)
    then show ?thesis by (cases s) (auto simp: listNodes_def split: prod.splits res.splits)
  qed
  have "?I (snd (attempts ?pause (\<lambda>_. True) ?fn 0 4 (w, [])))"
  proof (rule attempts_invariant [where I = ?I and Q = "\<lambda>_. ?I"])
    show "?I (?pause j (snd (?fn s)))" if "?I s" "fst (?fn s) = Err e" for s e j
      using pause_still(2) [OF still, of DefaultRetry j "fst (snd (?fn s))" "snd (snd (?fn s))"] list [OF that(1)] by simp
  qed (simp_all add: list)
  then show ?thesis by (auto simp: getNodeByName_attempts split: prod.splits res.splits)
qed

lemma fromAgentPoolToInstance_still:
  assumes "poolsStill rt p pools"
  shows "pools (snd (fromAgentPoolToInstance rt p ap w)) = pools w"
proof (cases ap)
  case (Some a)
  show ?thesis
  proof (cases "getNodeByName rt p (FromPtr '''' (ap_Name a)) w")
    case (Pair r w1)
    then have "pools w1 = pools w" using getNodeByName_still [OF assms, of "FromPtr '''' (ap_Name a)" w] by simp
    then show ?thesis
      using Pair Some by (simp add: fromAgentPoolToInstance_def act_bind_def split: res.splits option.splits)
  qed
qed (simp add: fromAgentPoolToInstance_def)

lemma pollInstance_still:
  assumes "poolsStill rt p pools"
  shows "pools (snd (pollInstance (pause_of (rt_clock rt) b) (fromAgentPoolToInstance rt p ap) i n w)) = pools w"
proof (induction n arbitrary: i w)
  case 0
  show ?case
    using fromAgentPoolToInstance_still [OF assms, of ap w]
    by (auto split: prod.splits res.splits option.splits)
next
  case (Suc n)
  obtain r w1 where r: "fromAgentPoolToInstance rt p ap w = (r, w1)" by (metis surj_pair)
  then have "pools w1 = pools w" using fromAgentPoolToInstance_still [OF assms, of ap w] by simp
  then show ?case using Suc.IH pause_still(1) [OF assms] by (simp add: r split: res.splits option.splits)
qed

subsection \<open>The abstract cluster\<close>

text \<open>The calls of karpenter's interface with what they returned.\<close>

datatype call =
    CallCreate Machine "Machine res"
  | CallDelete Machine "unit res"
  | CallGet string "Machine res"
  | CallList "Machine list res"

text \<open>
  What each call may do to the cluster. A successful creation stores one pool of the chosen size under
  the machine's name; a failed one may leave such a pool behind. A successful deletion removes
  the pool its identifier names, a failed one may have. The other calls change nothing and
  return machines of pools that are there.
\<close>

inductive cluster_step :: "(Machine \<Rightarrow> string res) \<Rightarrow> cluster \<Rightarrow> call \<Rightarrow> cluster \<Rightarrow> bool" for pick where
  created: "length (m_Name machine) \<le> 11 \<Longrightarrow> ap_Name ap = Some (m_Name machine) \<Longrightarrow> pick machine = Ok v \<Longrightarrow>
     map_option VMSize (ap_Properties ap) = Some (Some v) \<Longrightarrow> m_Name m = m_Name machine \<Longrightarrow>
     cluster_step pick c (CallCreate machine (Ok m)) (c(m_Name machine \<mapsto> ap))"
| left_behind: "length (m_Name machine) \<le> 11 \<Longrightarrow> ap_Name ap = Some (m_Name machine) \<Longrightarrow> \<not> is_Ok r \<Longrightarrow>
     cluster_step pick c (CallCreate machine r) (c(m_Name machine \<mapsto> ap))"
| not_created: "\<not> is_Ok r \<Longrightarrow> cluster_step pick c (CallCreate machine r) c"
| deleted: "ParseAgentPoolNameFromID (m_ProviderID machine) = Ok n \<Longrightarrow>
     cluster_step pick c (CallDelete machine (Ok ())) (c(n := None))"
| half_deleted: "ParseAgentPoolNameFromID (m_ProviderID machine) = Ok n \<Longrightarrow> \<not> is_Ok r \<Longrightarrow>
     cluster_step pick c (CallDelete machine r) (c(n := None))"
| not_deleted: "\<not> is_Ok r \<Longrightarrow> cluster_step pick c (CallDelete machine r) c"
| got: "ParseAgentPoolNameFromID pid = Ok n \<Longrightarrow> c n = Some ap \<Longrightarrow> m_Name m = FromPtr '''' (ap_Name ap) \<Longrightarrow>
     cluster_step pick c (CallGet pid (Ok m)) c"
| not_got: "\<not> is_Ok r \<Longrightarrow> cluster_step pick c (CallGet pid r) c"
| listed: "\<forall>m \<in> set ms. \<exists>ap \<in> ran c. m_Name m = FromPtr '''' (ap_Name ap) \<Longrightarrow> cluster_step pick c (CallList (Ok ms)) c"
| not_listed: "\<not> is_Ok r \<Longrightarrow> cluster_step pick c (CallList r) c"

inductive_cases DeleteE: "cluster_step pick c (CallDelete machine r) c'"

inductive cluster_run :: "(Machine \<Rightarrow> string res) \<Rightarrow> cluster \<Rightarrow> call list \<Rightarrow> cluster \<Rightarrow> bool" for pick where
  idle: "cluster_run pick c [] c"
| call: "cluster_step pick c x c1 \<Longrightarrow> cluster_run pick c1 xs c' \<Longrightarrow> cluster_run pick c (x # xs) c'"

subsection \<open>The cloud provider at work\<close>

inductive cloud_step :: "'w runtime \<Rightarrow> 'w Provider \<Rightarrow> 'w \<Rightarrow> call \<Rightarrow> 'w \<Rightarrow> bool" for rt p where
  do_create: "CloudProvider_Create rt p machine w = (r, w') \<Longrightarrow> cloud_step rt p w (CallCreate machine r) w'"
| do_delete: "CloudProvider_Delete p machine w = (r, w') \<Longrightarrow> cloud_step rt p w (CallDelete machine r) w'"
| do_get: "CloudProvider_Get rt p pid w = (r, w') \<Longrightarrow> cloud_step rt p w (CallGet pid r) w'"
| do_list: "CloudProvider_List rt p w = Some (r, w') \<Longrightarrow> cloud_step rt p w (CallList r) w'"

inductive cloud_run :: "'w runtime \<Rightarrow> 'w Provider \<Rightarrow> 'w \<Rightarrow> call list \<Rightarrow> 'w \<Rightarrow> bool" for rt p where
  idle: "cloud_run rt p w [] w"
| call: "cloud_step rt p w x w1 \<Longrightarrow> cloud_run rt p w1 xs w' \<Longrightarrow> cloud_run rt p w (x # xs) w'"


subsection \<open>Each call refines its transition\<close>

lemma createPool_pools:
  assumes "aksPuts p pools" "createPool rt p machine w = (r, w1)"
  shows "case r of
      Ok ap \<Rightarrow> pools w1 = (pools w)(m_Name machine \<mapsto> ap) \<and> ap_Name ap = Some (m_Name machine) \<and>
        (\<exists>v. chooseVMSize rt machine = Ok v \<and> map_option VMSize (ap_Properties ap) = Some (Some v))
    | _ \<Rightarrow> pools w1 = pools w \<or> (\<exists>ap. ap_Name ap = Some (m_Name machine) \<and> pools w1 = (pools w)(m_Name machine \<mapsto> ap))"
proof (cases "chooseVMSize rt machine")
  case (Ok v)
  obtain r' w' where c: "createAgentPool (agentPoolsClient p) (resourceGroup p) (m_Name machine) (clusterName p) (newAgentPoolObject v machine) w = (r', w')"
    by (metis surj_pair)
  have "map_option VMSize (ap_Properties (newAgentPoolObject v machine)) = Some (Some v)"
    by (simp add: newAgentPoolObject_def Let_def)
  with assms(1) [unfolded aksPuts_def, rule_format, OF c [unfolded createAgentPool_def]] show ?thesis
    using assms(2) Ok c by (auto simp: createPool_def split: res.splits if_splits)
qed (use assms(2) in \<open>auto simp: createPool_def\<close>)

lemma createSpec_pools:
  assumes "aksService rt p pools" "createSpec rt p machine w = (r, w')"
  shows "case r of
      Ok _ \<Rightarrow> \<exists>ap v. pools w' = (pools w)(m_Name machine \<mapsto> ap) \<and> ap_Name ap = Some (m_Name machine) \<and>
        chooseVMSize rt machine = Ok v \<and> map_option VMSize (ap_Properties ap) = Some (Some v)
    | _ \<Rightarrow> pools w' = pools w \<or> (\<exists>ap. ap_Name ap = Some (m_Name machine) \<and> pools w' = (pools w)(m_Name machine \<mapsto> ap))"
proof -
  have puts: "aksPuts p pools" and still: "poolsStill rt p pools" using assms(1) by (simp_all add: aksService_def)
  obtain r1 w1 where c: "createPool rt p machine w = (r1, w1)" by (metis surj_pair)
  note pools1 = createPool_pools [OF puts c]
  show ?thesis
  proof (cases r1)
    case (Ok ap)
    obtain r2 w2 where q: "fromAgentPoolToInstance rt p (Some ap) w1 = (r2, w2)" by (metis surj_pair)
    have "pools w2 = pools w1" using fromAgentPoolToInstance_still [OF still, of "Some ap" w1] q by simp
    then have "pools w' = pools w1"
      using assms(2) c Ok q pollInstance_still [OF still, of waitBackoff "Some ap" 0 14 w2]
      by (auto simp: createSpec_def act_bind_def split: res.splits option.splits)
    then show ?thesis using pools1 Ok by (auto split: res.splits)
  qed (use assms(2) c pools1 in \<open>auto simp: createSpec_def act_bind_def\<close>)
qed

lemma instance_of_pool:
  assumes "fromAgentPoolToInstance rt p (Some ap) w = (Ok (Some i), w')"
  shows "i_Name i = ap_Name ap"
  using assms by (elim fromAgentPoolToInstance_SomeE) (auto elim: poolInstance_OkE)

lemma create_refines:
  assumes "aksService rt p pools" "CloudProvider_Create rt p machine w = (r, w')"
  shows "cluster_step (chooseVMSize rt) (pools w) (CallCreate machine r) (pools w')"
proof (cases "11 < length (m_Name machine)")
  case True
  then show ?thesis using assms(2) by (auto simp: CloudProvider_Create_def Create_def Let_def intro!: not_created)
next
  case False
  obtain r1 w1 where c: "Create rt p machine w = (r1, w1)" by (metis surj_pair)
  then have w1: "w1 = w'" using assms(2) by (auto simp: CloudProvider_Create_def split: res.splits)
  have len: "length (m_Name machine) \<le> 11" using False by simp
  then have "createSpec rt p machine w = (r1, w')" using c Create_spec [OF len, of rt p] w1 by simp
  note pools' = createSpec_pools [OF assms(1) this]
  show ?thesis
  proof (cases "is_Ok r")
    case True
    then obtain m where Ok: "r = Ok m" by (cases r) auto
    obtain i i' where i: "Create rt p machine w = (Ok (Some i), w')" "instanceToMachine i = Ok (m, i')"
      using assms(2) Ok by (metis CloudProvider_Create_OkE)
    obtain ap0 w0 w2 where ap0: "createPool rt p machine w = (Ok ap0, w0)" "fromAgentPoolToInstance rt p (Some ap0) w2 = (Ok (Some i), w')"
      using Create_OkE [OF i(1)] by metis
    have "aksPuts p pools" using assms(1) by (simp add: aksService_def)
    from createPool_pools [OF this ap0(1)] have "m_Name m = m_Name machine"
      using instance_of_pool [OF ap0(2)] instanceToMachine_Ok(1) [OF i(2)] by simp
    moreover obtain ap v where "pools w' = (pools w)(m_Name machine \<mapsto> ap)" "ap_Name ap = Some (m_Name machine)"
      "chooseVMSize rt machine = Ok v" "map_option VMSize (ap_Properties ap) = Some (Some v)" using pools' i(1) c by auto
    ultimately show ?thesis using created [OF len, of ap "chooseVMSize rt" v m "pools w"] Ok by simp
  next
    case False
    have "pools w' = pools w \<or> (\<exists>ap. ap_Name ap = Some (m_Name machine) \<and> pools w' = (pools w)(m_Name machine \<mapsto> ap))"
      using pools' by (auto split: res.splits)
    then show ?thesis using left_behind [OF len _ False] not_created [OF False] by metis
  qed
qed

lemma deleteAgentPool_settles:
  "deleteAgentPool client rg n cl w =
     (case act_bind (BeginDelete client rg cl n) (\<lambda>poll. poll) w of
        (Err e, w') \<Rightarrow> (if IsResponseError e = Some ''NotFound'' then Ok () else Err e, w')
      | (r, w') \<Rightarrow> (r, w'))"
  by (auto simp: deleteAgentPool_def act_bind_def split: prod.splits res.splits)

lemma delete_refines:
  assumes "aksService rt p pools" "CloudProvider_Delete p machine w = (r, w')"
  shows "cluster_step pick (pools w) (CallDelete machine r) (pools w')"
proof (cases "ParseAgentPoolNameFromID (m_ProviderID machine)")
  case (Ok n)
  obtain r1 w1 where b: "act_bind (BeginDelete (agentPoolsClient p) (resourceGroup p) (clusterName p) n) (\<lambda>poll. poll) w = (r1, w1)"
    by (metis surj_pair)
  have "aksRemoves p pools" using assms(1) by (simp add: aksService_def)
  note pools1 = this [unfolded aksRemoves_def, rule_format, OF b]
  have r: "w' = w1" "r = wrap_err (''agentPool.Delete for '' @ quote n @ '' failed: '')
      (case r1 of Err e \<Rightarrow> if IsResponseError e = Some ''NotFound'' then Ok () else Err e | _ \<Rightarrow> r1)"
    using assms(2) Delete_parsed [OF Ok, of p w] b
    by (auto simp: CloudProvider_Delete_def deleteAgentPool_settles split: res.splits)
  show ?thesis
  proof (cases "is_Ok r")
    case True
    then have "pools w' = (pools w)(n := None)"
      using pools1 r by (auto split: res.splits if_splits)
    moreover have "r = Ok ()" using True by (cases r) auto
    ultimately show ?thesis using deleted [OF Ok, of pick "pools w"] by simp
  next
    case False
    then have "pools w' = pools w \<or> pools w' = (pools w)(n := None)" using pools1 r(1) by (auto split: res.splits)
    then show ?thesis using half_deleted [OF Ok False, of pick "pools w"] not_deleted [OF False, of pick "pools w" machine] by metis
  qed
qed (use assms(2) in \<open>auto simp: CloudProvider_Delete_def Delete_def intro!: not_deleted\<close>)

lemma get_refines:
  assumes "aksService rt p pools" "CloudProvider_Get rt p pid w = (r, w')"
  shows "cluster_step pick (pools w) (CallGet pid r) (pools w')"
proof (cases "ParseAgentPoolNameFromID pid")
  case (Ok n)
  have reads: "aksReads p pools" and still: "poolsStill rt p pools" using assms(1) by (simp_all add: aksService_def)
  obtain r1 w1 where g: "GetPool (agentPoolsClient p) (resourceGroup p) (clusterName p) n w = (r1, w1)" by (metis surj_pair)
  then have w1: "pools w1 = pools w" "\<And>ap. r1 = Ok ap \<Longrightarrow> pools w n = Some ap" using reads by (fastforce simp: aksReads_def)+
  have w': "pools w' = pools w"
    using assms(2) fromAgentPoolToInstance_still [OF still, of _ w1] w1(1) g
    by (auto simp: CloudProvider_Get_def Get_parsed [OF Ok] getAgentPool_def split: res.splits option.splits prod.splits) (metis snd_conv)+
  show ?thesis
  proof (cases r)
    case (Ok m)
    then obtain ap i i' where "r1 = Ok ap" "fromAgentPoolToInstance rt p (Some ap) w1 = (Ok (Some i), w')" "instanceToMachine i = Ok (m, i')"
      using assms(2) g
      by (auto simp: CloudProvider_Get_def Get_parsed [OF \<open>ParseAgentPoolNameFromID pid = Ok n\<close>] getAgentPool_def split: res.splits option.splits prod.splits)
    then show ?thesis
      using w' w1(2) [of ap] instance_of_pool [of rt p ap w1 i w'] instanceToMachine_Ok(1) [of i m i'] Ok
      by (auto intro: got [OF \<open>ParseAgentPoolNameFromID pid = Ok n\<close>])
  qed (use w' in \<open>auto intro: not_got\<close>)
qed (use assms(2) in \<open>auto simp: CloudProvider_Get_def Get_def intro!: not_got\<close>)

text \<open>A pager that has not yet shown its first page holds none.\<close>

lemma NextPage_fetches:
  assumes "NextPage fetch pg w = (r, w')" "firstPage pg \<longrightarrow> current pg = None"
  shows "(\<exists>e. r = Err e \<and> w' = w) \<or>
    (\<exists>r0. fetch (current pg) w = (r0, w') \<and> (\<forall>page pg'. r = Ok (page, pg') \<longrightarrow> r0 = Ok page \<and> \<not> firstPage pg'))"
  using assms by (auto simp: NextPage_def Let_def split: option.splits if_splits prod.splits res.splits)

lemma listLoop_pools:
  assumes "aksReads p pools" "listLoop (Fetcher (agentPoolsClient p) (resourceGroup p) (clusterName p)) pg acc w = Some (r, w')"
    and "firstPage pg \<longrightarrow> current pg = None"
  shows "pools w' = pools w \<and> (\<forall>l. r = Ok l \<longrightarrow> set l \<subseteq> set acc \<union> Some ` ran (pools w))"
proof -
  let ?fetch = "Fetcher (agentPoolsClient p) (resourceGroup p) (clusterName p)"
  let ?Q = "\<lambda>acc w y. pools (snd y) = pools w \<and> (\<forall>l. fst y = Ok l \<longrightarrow> set l \<subseteq> set acc \<union> Some ` ran (pools w))"
  let ?P = "\<lambda>fetch pg acc w y. fetch = ?fetch \<longrightarrow> (firstPage pg \<longrightarrow> current pg = None) \<longrightarrow> ?Q acc w y"
  have "?P ?fetch pg acc w (r, w')"
    using assms(2)
  proof (rule listLoop.raw_induct [where P = ?P, rotated])
    fix f fetch pg acc w y
    assume IH: "\<And>fetch pg acc w y. f fetch pg acc w = Some y \<Longrightarrow> ?P fetch pg acc w y"
      and run: "(if More pg then case NextPage fetch pg w of (Ok (page, p'), w') \<Rightarrow> f fetch p' (acc @ pg_Value page) w'
           | (Err e, w') \<Rightarrow> Some (Err e, w') | (Panic m, w') \<Rightarrow> Some (Panic m, w') else Some (Ok acc, w)) = Some y"
    show "?P fetch pg acc w y"
    proof (intro impI)
      assume f: "fetch = ?fetch" and fresh: "firstPage pg \<longrightarrow> current pg = None"
      obtain r1 w1 where n: "NextPage fetch pg w = (r1, w1)" by (metis surj_pair)
      have page: "pools w1 = pools w \<and> (\<forall>page pg'. r1 = Ok (page, pg') \<longrightarrow> set (pg_Value page) \<subseteq> Some ` ran (pools w) \<and> \<not> firstPage pg')"
        using NextPage_fetches [OF n fresh] assms(1) f by (fastforce simp: aksReads_def split: res.splits)
      show "?Q acc w y"
      proof (cases "More pg")
        case True
        show ?thesis
        proof (cases r1)
          case (Ok x)
          obtain pv pg' where "x = (pv, pg')" by (cases x)
          then have "f fetch pg' (acc @ pg_Value pv) w1 = Some y" "set (pg_Value pv) \<subseteq> Some ` ran (pools w)" "\<not> firstPage pg'"
            using run True n Ok page by auto
          then show ?thesis using IH [of fetch pg' "acc @ pg_Value pv" w1 y] f page by (auto simp: subset_eq)
        qed (use run True n page in auto)
      qed (use run in auto)
    qed
  qed
  then show ?thesis using assms(3) by simp
qed

lemma collectInstances_pools:
  assumes "poolsStill rt p pools" "collectInstances rt p aps acc w = (r, w')"
  shows "pools w' = pools w \<and> (\<forall>l. r = Ok l \<longrightarrow> (\<forall>i \<in> set l. i \<in> set acc \<or>
    (\<exists>ap w0 w1. Some ap \<in> set aps \<and> fromAgentPoolToInstance rt p (Some ap) w0 = (Ok (Some i), w1))))"
  using assms(2)
proof (induction aps arbitrary: acc w)
  case (Cons ap aps)
  obtain r1 w1 where f: "fromAgentPoolToInstance rt p ap w = (r1, w1)" by (metis surj_pair)
  then have w1: "pools w1 = pools w" using fromAgentPoolToInstance_still [OF assms(1), of ap w] by simp
  show ?case
  proof (cases r1)
    case (Ok inst)
    have name: "\<exists>a. ap = Some a" if "inst = Some i" for i
      using f Ok that by (cases ap) (simp_all add: fromAgentPoolToInstance_def)
    have "collectInstances rt p aps (case inst of Some i \<Rightarrow> acc @ [i] | None \<Rightarrow> acc) w1 = (r, w')" using Cons.prems f Ok by simp
    from Cons.IH [OF this] show ?thesis using w1 name f Ok by (cases inst) (auto, metis+)
  qed (use Cons.prems f w1 in auto)
qed auto

lemma machinesOf_instances:
  assumes "machinesOf is acc = Ok ms" "m \<in> set ms"
  shows "m \<in> set acc \<or> (\<exists>i \<in> set is. \<exists>i'. instanceToMachine i = Ok (m, i'))"
  using assms
proof (induction "is" arbitrary: acc)
  case (Cons i "is")
  then obtain m0 i' where m0: "instanceToMachine i = Ok (m0, i')" "machinesOf is (acc @ [m0]) = Ok ms"
    by (auto simp: res_bind_eq_Ok_iff)
  from Cons.IH [OF m0(2) Cons.prems(2)] show ?case using m0(1) by auto
qed simp

text \<open>A listed machine is made from an instance that was read off a pool of the cluster.\<close>

lemma List_machines:
  assumes "aksService rt p pools" "CloudProvider_List rt p w = Some (r, w')"
  shows "pools w' = pools w \<and> (\<forall>ms. r = Ok ms \<longrightarrow> (\<forall>m \<in> set ms. \<exists>ap \<in> ran (pools w). \<exists>i i' w0 w1.
    fromAgentPoolToInstance rt p (Some ap) w0 = (Ok (Some i), w1) \<and> instanceToMachine i = Ok (m, i')))"
proof -
  have reads: "aksReads p pools" and still: "poolsStill rt p pools" using assms(1) by (simp_all add: aksService_def)
  obtain r1 w1 where l: "listAgentPools (agentPoolsClient p) (resourceGroup p) (clusterName p) w = Some (r1, w1)"
    using assms(2) by (auto simp: CloudProvider_List_def Provider_List_def split: option.splits)
  then have w1: "pools w1 = pools w" "\<And>aps. r1 = Ok aps \<Longrightarrow> set aps \<subseteq> Some ` ran (pools w)"
    using listLoop_pools [OF reads l [unfolded listAgentPools_def]] by (auto simp: NewPager_def)
  show ?thesis
  proof (cases r1)
    case (Ok aps)
    obtain r2 where c: "fromAPListToInstances rt p aps w1 = (r2, w')" "r = res_bind r2 (\<lambda>is. machinesOf is [])"
      using assms(2) l Ok by (auto simp: CloudProvider_List_def Provider_List_def split: prod.splits)
    then have w': "pools w' = pools w" and from_pool: "\<And>is i. r2 = Ok is \<Longrightarrow> i \<in> set is \<Longrightarrow>
        \<exists>ap w0 w1. Some ap \<in> set aps \<and> fromAgentPoolToInstance rt p (Some ap) w0 = (Ok (Some i), w1)"
      using collectInstances_pools [OF still, of aps "[]" w1 r2 w'] w1(1) by (auto simp: fromAPListToInstances_def split: if_splits)
    have "\<exists>ap \<in> ran (pools w). \<exists>i i' w0 w1. fromAgentPoolToInstance rt p (Some ap) w0 = (Ok (Some i), w1) \<and> instanceToMachine i = Ok (m, i')"
      if "r = Ok ms" "m \<in> set ms" for ms m
    proof -
      note m = that(2)
      have "res_bind r2 (\<lambda>is. machinesOf is []) = Ok ms" using c(2) that(1) by simp
      then obtain "is" where "is": "r2 = Ok is" "machinesOf is [] = Ok ms" unfolding res_bind_eq_Ok_iff by blast
      then obtain i i' where i: "i \<in> set is" "instanceToMachine i = Ok (m, i')" using machinesOf_instances [OF _ m] by force
      from from_pool [OF "is"(1) i(1)] i(2) w1(2) [OF Ok] show ?thesis by blast
    qed
    then show ?thesis using w' by blast
  qed (use assms(2) l w1 in \<open>auto simp: CloudProvider_List_def Provider_List_def\<close>)
qed

lemma list_refines:
  assumes "aksService rt p pools" "CloudProvider_List rt p w = Some (r, w')"
  shows "cluster_step pick (pools w) (CallList r) (pools w')"
proof (cases r)
  case (Ok ms)
  have "\<exists>ap \<in> ran (pools w). m_Name m = FromPtr '''' (ap_Name ap)" if "m \<in> set ms" for m
  proof -
    from List_machines [OF assms, THEN conjunct2, rule_format, OF Ok that]
    obtain ap i i' w0 w1 where "ap \<in> ran (pools w)" and i: "fromAgentPoolToInstance rt p (Some ap) w0 = (Ok (Some i), w1)"
      "instanceToMachine i = Ok (m, i')" by blast
    then show ?thesis using instance_of_pool [OF i(1)] instanceToMachine_Ok(1) [OF i(2)] by auto
  qed
  then show ?thesis using listed [of ms "pools w" pick] List_machines [OF assms] Ok by simp
qed (use List_machines [OF assms] not_listed in \<open>metis is_Ok.simps(2,3)\<close>)+

lemma cloud_step_refines:
  assumes "aksService rt p pools" "cloud_step rt p w x w'"
  shows "cluster_step (chooseVMSize rt) (pools w) x (pools w')"
  using assms(2)
  by cases (auto intro: create_refines [OF assms(1)] delete_refines [OF assms(1)] get_refines [OF assms(1)] list_refines [OF assms(1)])

lemma cloud_run_refines:
  assumes "aksService rt p pools" "cloud_run rt p w calls w'"
  shows "cluster_run (chooseVMSize rt) (pools w) calls (pools w')"
  using assms(2) by induction (auto intro: cluster_run.intros cloud_step_refines [OF assms(1)])

subsection \<open>Runs of the abstract cluster\<close>

fun touches :: "call \<Rightarrow> string \<Rightarrow> bool" where
  "touches (CallCreate machine r) n \<longleftrightarrow> m_Name machine = n"
| "touches (CallDelete machine r) n \<longleftrightarrow> ParseAgentPoolNameFromID (m_ProviderID machine) = Ok n"
| "touches (CallGet pid r) n \<longleftrightarrow> False"
| "touches (CallList r) n \<longleftrightarrow> False"

lemma cluster_step_frame: "cluster_step pick c x c' \<Longrightarrow> \<not> touches x n \<Longrightarrow> c' n = c n"
  by (induction rule: cluster_step.induct) auto

lemma cluster_run_frame: "cluster_run pick c xs c' \<Longrightarrow> \<forall>x \<in> set xs. \<not> touches x n \<Longrightarrow> c' n = c n"
  by (induction rule: cluster_run.induct) (auto dest: cluster_step_frame)

lemma cluster_step_new:
  "cluster_step pick c x c' \<Longrightarrow> c' n = Some ap \<Longrightarrow> c n \<noteq> Some ap \<Longrightarrow>
    length n \<le> 11 \<and> ap_Name ap = Some n \<and> (\<exists>machine r. x = CallCreate machine r \<and> m_Name machine = n)"
  by (induction rule: cluster_step.induct) (auto split: if_splits)

lemma cluster_run_new:
  "cluster_run pick c xs c' \<Longrightarrow> c' n = Some ap \<Longrightarrow> c n \<noteq> Some ap \<Longrightarrow>
    length n \<le> 11 \<and> ap_Name ap = Some n \<and> (\<exists>machine r. CallCreate machine r \<in> set xs \<and> m_Name machine = n)"
proof (induction rule: cluster_run.induct)
  case (call c x c1 xs c')
  then show ?case using cluster_step_new [OF call.hyps(1), of n ap] by (cases "c1 n = Some ap") auto
qed simp

subsection \<open>The demo service\<close>

definition demoPools :: "demoWorld \<Rightarrow> cluster" where
  "demoPools w = map_of (dw_pools w)"

lemma demo_aksService: "aksService demoRuntime demoProvider demoPools"
proof -
  have "aksPuts demoProvider demoPools"
    by (auto simp: aksPuts_def demoAPI_def act_bind_def demoPools_def update_conv' demoNamed_def)
  moreover have "aksRemoves demoProvider demoPools"
    by (auto simp: aksRemoves_def demoAPI_def act_bind_def demoPools_def delete_conv' split: option.splits)
  moreover have "map_of l ` fst ` set l \<subseteq> Some ` ran (map_of l)" for l :: "(string \<times> AgentPool) list"
    by (force simp: ran_def image_iff dest: weak_map_of_SomeI)
  then have "aksReads demoProvider demoPools"
    by (simp add: aksReads_def demoAPI_def demoPools_def split: option.splits)
  moreover have "poolsStill demoRuntime demoProvider demoPools"
    by (simp add: poolsStill_def demoRuntime_def demoList_def demoPools_def)
  ultimately show ?thesis by (simp add: aksService_def)
qed

definition demoPid :: string where
  "demoPid = vmssID ''s'' ''rg'' (''aks-'' @ ''gpu'' @ ''-'' @ ''1-vmss'') ''0''"

lemma demo_parse: "ParseAgentPoolNameFromID demoPid = Ok ''gpu''"
  unfolding demoPid_def by (rule demo_pid)

lemma demo_Delete:
  assumes "ParseAgentPoolNameFromID (m_ProviderID machine) = Ok n"
  shows "\<exists>w'. CloudProvider_Delete demoProvider machine w = (Ok (), w')"
  by (simp add: CloudProvider_Delete_def Delete_parsed [OF assms] deleteAgentPool_settles
      demoAPI_def act_bind_def split: option.splits)

text \<open>Creating a machine, then deleting its pool.\<close>

lemma demo_run:
  "\<exists>m w'. cloud_run demoRuntime demoProvider demo0
     [CallCreate (demoMachine ''gpu'') (Ok m), CallDelete (empty_Machine\<lparr>m_ProviderID := demoPid\<rparr>) (Ok ())] w'"
proof -
  obtain m w1 where "CloudProvider_Create demoRuntime demoProvider (demoMachine ''gpu'') demo0 = (Ok m, w1)"
    using demo_CloudProvider_Create by blast
  moreover obtain w' where "CloudProvider_Delete demoProvider (empty_Machine\<lparr>m_ProviderID := demoPid\<rparr>) w1 = (Ok (), w')"
    using demo_Delete [of "empty_Machine\<lparr>m_ProviderID := demoPid\<rparr>"] demo_parse by auto
  ultimately show ?thesis by (blast intro: cloud_run.intros cloud_step.intros)
qed

text \<open>Listing the demo pool once its node is up.\<close>

definition demoUp :: demoWorld where
  "demoUp = \<lparr>dw_pools = [(''gpu'', demoPool)], dw_now = 6000000000\<rparr>"

lemma demo_List:
  "\<exists>m. CloudProvider_List demoRuntime demoProvider demoUp = Some (Ok [m], demoUp) \<and>
     ParseAgentPoolNameFromID (m_ProviderID m) = Ok ''gpu''"
proof -
  have l: "listAgentPools demoAPI ''rg'' ''c'' demoUp = Some (Ok [Some demoPool], demoUp)"
    by (rule listAgentPools_serves [of demoAPI "''rg''" "''c''" demoUp "[\<lparr>pg_Value = [Some demoPool], pg_NextLink = None\<rparr>]", simplified])
      (rule serves_last, simp_all add: demoAPI_def demoUp_def handlerMore_def)
  have sub: "ParseSubIDFromID (FromPtr '''' (ap_ID demoPool)) = Ok (Some ''s1'')"
    using aksPool_sub [OF demo_aksPool] by (simp add: demoPool_def)
  have n: "ap_Name demoPool = Some ''gpu''" by (simp add: demoPool_def demoNamed_def)
  have nodes: "kubeList demoProvider (nodeSelector (FromPtr '''' (ap_Name demoPool))) demoUp = (Ok [demoNode ''gpu''], demoUp)"
    by (simp add: demoList_def demoUp_def nodeSelector_def n)
  have ready: "NodeIsReady (demoNode ''gpu'')" by (simp add: demoNode_def NodeIsReady_def GetCondition_def)
  have "\<exists>props. ap_Properties demoPool = Some props \<and> Tags props = Map.empty"
    by (simp add: demoPool_def demoNamed_def newAgentPoolObject_def Let_def)
  then obtain i where i: "poolInstance demoProvider ''s1'' demoPool (demoNode ''gpu'') = Ok i" "i_Tags i = Map.empty"
    by (auto simp: poolInstance_def Let_def)
  then have f: "fromAgentPoolToInstance demoRuntime demoProvider (Some demoPool) demoUp = (Ok (Some i), demoUp)"
    using fromAgentPoolToInstance_Ok [OF sub nodes, of demoRuntime] ready by simp
  obtain m i' where m: "instanceToMachine i = Ok (m, i')" using i(2) by (simp add: instanceToMachine_def copyTag_def Let_def)
  have "segment (nodeResourceGroup demoProvider)" using demo_readable by simp
  from fromAgentPoolToInstance_names [OF f [unfolded demoPool_def] demo_aksPool demo_aksNodes demo_readable(1) this]
  have "ParseAgentPoolNameFromID (m_ProviderID m) = Ok ''gpu''" using instanceToMachine_Ok(3) [OF m] by auto
  then show ?thesis using l f m by (simp add: CloudProvider_List_def Provider_List_def fromAPListToInstances_def)
qed

subsection \<open>Properties\<close>

text \<open>C2.
  The cloud provider refines the abstract cluster. Over a service that keeps agent pools as Azure
  documents it, every sequence of \<open>Create\<close>, \<open>Delete\<close>, \<open>Get\<close> and \<open>List\<close> calls, with all their retries,
  polls and failures, is a run of the abstract cluster: a successful creation stores exactly one pool,
  named like the machine and of the size chosen for it, a successful deletion removes exactly
  the pool its identifier names, \<open>Get\<close> and \<open>List\<close> change nothing and show only pools that are there.
\<close>

theorem cloud_provider_refines_cluster:
  assumes "aksService rt p pools" "cloud_run rt p w calls w'"
  shows "cluster_run (chooseVMSize rt) (pools w) calls (pools w')"
  using assms by (rule cloud_run_refines)

theorem cloud_provider_refines_cluster_witness:
  "\<exists>m c. cluster_run (chooseVMSize demoRuntime) Map.empty
     [CallCreate (demoMachine ''gpu'') (Ok m), CallDelete (empty_Machine\<lparr>m_ProviderID := demoPid\<rparr>) (Ok ())] c"
proof -
  have "demoPools demo0 = Map.empty" by (simp add: demoPools_def demo0_def)
  then show ?thesis using demo_run cloud_provider_refines_cluster [OF demo_aksService] by metis
qed

text \<open>C13.
  Pools are traceable to calls. In every run of the cloud provider a pool changes only if some call
  created a machine of its name or deleted an identifier that names it, and every pool that was
  not there before has the name of a machine some call created, at most eleven characters long.
\<close>

theorem pools_traceable:
  assumes "aksService rt p pools" "cloud_run rt p w calls w'"
  shows "(pools w' n = pools w n \<or> (\<exists>x \<in> set calls. touches x n)) \<and>
    (\<forall>ap. pools w' n = Some ap \<longrightarrow> pools w n = Some ap \<or>
       length n \<le> 11 \<and> ap_Name ap = Some n \<and> (\<exists>machine r. CallCreate machine r \<in> set calls \<and> m_Name machine = n))"
  using cluster_run_frame [OF cloud_run_refines [OF assms], of n] cluster_run_new [OF cloud_run_refines [OF assms], of n] by blast

theorem pools_traceable_witness:
  "\<exists>m w'. cloud_run demoRuntime demoProvider demo0
       [CallCreate (demoMachine ''gpu'') (Ok m), CallDelete (empty_Machine\<lparr>m_ProviderID := demoPid\<rparr>) (Ok ())] w' \<and>
     demoPools w' ''other'' = None \<and> (\<forall>ap. demoPools w' ''gpu'' = Some ap \<longrightarrow> ap_Name ap = Some ''gpu'')"
proof -
  obtain m w' where r: "cloud_run demoRuntime demoProvider demo0
     [CallCreate (demoMachine ''gpu'') (Ok m), CallDelete (empty_Machine\<lparr>m_ProviderID := demoPid\<rparr>) (Ok ())] w'"
    using demo_run by blast
  have "demoPools demo0 = Map.empty" by (simp add: demoPools_def demo0_def)
  then have "demoPools w' ''other'' = None \<and> (\<forall>ap. demoPools w' ''gpu'' = Some ap \<longrightarrow> ap_Name ap = Some ''gpu'')"
    using pools_traceable [OF demo_aksService r, of "''other''"] pools_traceable [OF demo_aksService r, of "''gpu''"] demo_parse
    by (auto simp: demoMachine_def)
  then show ?thesis using r by blast
qed

text \<open>C12.
  What is listed can be deleted. If the pools of the cluster have readable names (no dash, no slash, not
  starting with \<open>vmss\<close>) and the nodes are named as AKS names them, then deleting a machine that \<open>List\<close> returned removes exactly the pool with
  the machine's name, which was in the cluster when it was listed.
\<close>

theorem listed_machine_deletes_its_pool:
  assumes "aksService rt p pools" "CloudProvider_List rt p w = Some (Ok ms, w1)" "m \<in> set ms"
    and named: "\<forall>n ap. pools w n = Some ap \<longrightarrow> (\<exists>sub. aksPool ap sub n) \<and> readableName n"
    and nodes: "\<forall>n. aksNodes p n" "segment (nodeResourceGroup p)"
    and "CloudProvider_Delete p m w2 = (Ok (), w3)"
  shows "m_Name m \<in> dom (pools w) \<and> pools w3 = (pools w2)(m_Name m := None)"
proof -
  from List_machines [OF assms(1,2), THEN conjunct2, rule_format, OF refl assms(3)]
  obtain ap i i' w0 w4 where ap: "ap \<in> ran (pools w)" and i: "fromAgentPoolToInstance rt p (Some ap) w0 = (Ok (Some i), w4)"
    "instanceToMachine i = Ok (m, i')" by blast
  obtain n sub where n: "pools w n = Some ap" "aksPool ap sub n" "readableName n" using ap named by (fastforce simp: ran_def)
  from fromAgentPoolToInstance_names [OF i(1) n(2) spec [OF nodes(1)] n(3) nodes(2)]
  obtain pid where pid: "i_Name i = Some n" "i_ID i = Some pid" "ParseAgentPoolNameFromID pid = Ok n" by blast
  then have m: "m_Name m = n" "m_ProviderID m = pid" using instanceToMachine_Ok(1,3) [OF i(2)] by simp_all
  from delete_refines [OF assms(1) assms(7), of "chooseVMSize rt"] show ?thesis
    using pid(3) n(1) by (elim DeleteE) (auto simp: m)
qed

theorem listed_machine_deletes_its_pool_witness:
  "\<exists>m w'. CloudProvider_List demoRuntime demoProvider demoUp = Some (Ok [m], demoUp) \<and>
     CloudProvider_Delete demoProvider m demoUp = (Ok (), w') \<and> demoPools w' = Map.empty"
proof -
  obtain m where l: "CloudProvider_List demoRuntime demoProvider demoUp = Some (Ok [m], demoUp)"
    and "ParseAgentPoolNameFromID (m_ProviderID m) = Ok ''gpu''" using demo_List by blast
  then obtain w' where d: "CloudProvider_Delete demoProvider m demoUp = (Ok (), w')" using demo_Delete by blast
  have named: "\<forall>n ap. demoPools demoUp n = Some ap \<longrightarrow> (\<exists>sub. aksPool ap sub n) \<and> readableName n"
    using demo_aksPool demo_readable(1) by (auto simp: demoPools_def demoUp_def demoPool_def)
  have "segment (nodeResourceGroup demoProvider)" using demo_readable by simp
  then have "m_Name m \<in> dom (demoPools demoUp) \<and> demoPools w' = (demoPools demoUp)(m_Name m := None)"
    using listed_machine_deletes_its_pool [OF demo_aksService l _ named _ _ d] demo_aksNodes by simp
  then have "demoPools w' = Map.empty" by (auto simp: demoPools_def demoUp_def split: if_splits)
  then show ?thesis using l d by blast
qed

end
