(* ===== verification/Labels.thy ===== *)
theory Labels
  imports Scheduling
begin

text \<open>
  The labels of \<open>pkg/apis/v1alpha1/register.go\<close>: the domain, the names derived from it, the
  feature letters of a VM size that have a label, and the names added to karpenter's sets of
  restricted domains and well-known labels when the package is initialised.
\<close>

definition LabelDomain :: string where
  "LabelDomain = ''karpenter.k8s.azure''"

definition PrioritySpot :: string where
  "PrioritySpot = ''Spot''"

definition PriorityRegular :: string where
  "PriorityRegular = ''Regular''"

definition AzureToKubeArchitectures :: "string \<rightharpoonup> string" where
  "AzureToKubeArchitectures = [''x64'' \<mapsto> ''amd64'', ''Arm64'' \<mapsto> ''arm64'']"

definition RestrictedLabelDomains :: "string list" where
  "RestrictedLabelDomains = [LabelDomain]"

definition ManufacturerNvidia :: string where
  "ManufacturerNvidia = ''nvidia''"

definition AlternativeLabelTopologyZone :: string where
  "AlternativeLabelTopologyZone = LabelDomain @ ''/zone''"

definition LabelSKUTier :: string where
  "LabelSKUTier = LabelDomain @ ''/sku-tier''"

definition LabelSKUName :: string where
  "LabelSKUName = LabelDomain @ ''/sku-name''"

definition LabelSKUSize :: string where
  "LabelSKUSize = LabelDomain @ ''/sku-size''"

definition LabelSKUSeries :: string where
  "LabelSKUSeries = LabelDomain @ ''/sku-series''"

definition LabelSKUFamily :: string where
  "LabelSKUFamily = LabelDomain @ ''/sku-family''"

definition LabelSKUSubfamily :: string where
  "LabelSKUSubfamily = LabelDomain @ ''/sku-subfamily''"

definition LabelSKUCPU :: string where
  "LabelSKUCPU = LabelDomain @ ''/sku-cpu''"

definition LabelSKUCPUConstrained :: string where
  "LabelSKUCPUConstrained = LabelDomain @ ''/sku-cpu-constrained''"

definition LabelSKUAccelerator :: string where
  "LabelSKUAccelerator = LabelDomain @ ''/sku-accelerator''"

definition LabelSKUVersion :: string where
  "LabelSKUVersion = LabelDomain @ ''/sku-version''"

definition LabelSKUCpuTypeAmd :: string where
  "LabelSKUCpuTypeAmd = LabelDomain @ ''/sku-cpu-type-amd''"

definition LabelSKUStorageBlockPerformance :: string where
  "LabelSKUStorageBlockPerformance = LabelDomain @ ''/sku-storage-block-performance''"

definition LabelSKUConfidential :: string where
  "LabelSKUConfidential = LabelDomain @ ''/sku-confidential''"

definition LabelSKUStorageDiskful :: string where
  "LabelSKUStorageDiskful = LabelDomain @ ''/sku-storage-diskful''"

definition LabelSKUIsolatedSize :: string where
  "LabelSKUIsolatedSize = LabelDomain @ ''/sku-isolated-size''"

definition LabelSKUMemoryLow :: string where
  "LabelSKUMemoryLow = LabelDomain @ ''/sku-memory-low''"

definition LabelSKUMemoryIntensive :: string where
  "LabelSKUMemoryIntensive = LabelDomain @ ''/sku-memory-intensive''"

definition LabelSKUMemoryTiny :: string where
  "LabelSKUMemoryTiny = LabelDomain @ ''/sku-memory-tiny''"

definition LabelSKUStoragePremiumCapable :: string where
  "LabelSKUStoragePremiumCapable = LabelDomain @ ''/sku-storage-premium-capable''"

definition LabelSKUMemory :: string where
  "LabelSKUMemory = LabelDomain @ ''/sku-memory''"

definition LabelSKUHyperVGeneration :: string where
  "LabelSKUHyperVGeneration = LabelDomain @ ''/sku-hyperv-generation''"

definition LabelSKUAcceleratedNetworking :: string where
  "LabelSKUAcceleratedNetworking = LabelDomain @ ''/sku-networking-accelerated''"

definition LabelSKUEncryptionAtHostSupported :: string where
  "LabelSKUEncryptionAtHostSupported = LabelDomain @ ''/sku-encryptionathost-capable''"

definition LabelSKUEphemeralOSDiskSupported :: string where
  "LabelSKUEphemeralOSDiskSupported = LabelDomain @ ''/sku-storage-os-ephemeral-capable''"

definition LabelSKUCachedDiskSize :: string where
  "LabelSKUCachedDiskSize = LabelDomain @ ''/sku-storage-cache-maxsize''"

definition LabelSKUMaxResourceVolume :: string where
  "LabelSKUMaxResourceVolume = LabelDomain @ ''/sku-storage-temp-maxsize''"

definition LabelSKUGPUName :: string where
  "LabelSKUGPUName = LabelDomain @ ''/sku-gpu-name''"

definition LabelSKUGPUManufacturer :: string where
  "LabelSKUGPUManufacturer = LabelDomain @ ''/sku-gpu-manufacturer''"

definition LabelSKUGPUCount :: string where
  "LabelSKUGPUCount = LabelDomain @ ''/sku-gpu-count''"

definition SkuFeatureToLabel :: "(char \<times> string) list" where
  "SkuFeatureToLabel = [
     (CHR ''a'', LabelSKUCpuTypeAmd),
     (CHR ''b'', LabelSKUStorageBlockPerformance),
     (CHR ''c'', LabelSKUConfidential),
     (CHR ''d'', LabelSKUStorageDiskful),
     (CHR ''i'', LabelSKUIsolatedSize),
     (CHR ''l'', LabelSKUMemoryLow),
     (CHR ''m'', LabelSKUMemoryIntensive),
     (CHR ''t'', LabelSKUMemoryTiny),
     (CHR ''s'', LabelSKUStoragePremiumCapable)]"

definition addedWellKnownLabels :: "string list" where
  "addedWellKnownLabels = [
          LabelSKUTier, LabelSKUName, LabelSKUSize, LabelSKUSeries, LabelSKUFamily,
     LabelSKUSubfamily, LabelSKUCPU, LabelSKUCPUConstrained, LabelSKUAccelerator, LabelSKUVersion,
     LabelSKUCpuTypeAmd, LabelSKUStorageBlockPerformance, LabelSKUConfidential,
     LabelSKUStorageDiskful, LabelSKUIsolatedSize, LabelSKUMemoryLow, LabelSKUMemoryIntensive,
     LabelSKUMemoryTiny, LabelSKUStoragePremiumCapable, LabelSKUMemory, LabelSKUHyperVGeneration,
     LabelSKUAcceleratedNetworking, LabelSKUEncryptionAtHostSupported,
     LabelSKUEphemeralOSDiskSupported, LabelSKUCachedDiskSize, LabelSKUMaxResourceVolume,
     LabelSKUGPUName, LabelSKUGPUManufacturer, LabelSKUGPUCount]"

text \<open>The package's \<open>init\<close>, on karpenter's two sets.\<close>

definition init_labels :: "string set \<times> string set \<Rightarrow> string set \<times> string set" where
  "init_labels sets = (fst sets \<union> set RestrictedLabelDomains, snd sets \<union> set addedWellKnownLabels)"

lemmas label_defs = LabelDomain_def
  AlternativeLabelTopologyZone_def LabelSKUTier_def LabelSKUName_def LabelSKUSize_def LabelSKUSeries_def LabelSKUFamily_def
  LabelSKUSubfamily_def LabelSKUCPU_def LabelSKUCPUConstrained_def LabelSKUAccelerator_def LabelSKUVersion_def LabelSKUCpuTypeAmd_def
  LabelSKUStorageBlockPerformance_def LabelSKUConfidential_def LabelSKUStorageDiskful_def LabelSKUIsolatedSize_def LabelSKUMemoryLow_def LabelSKUMemoryIntensive_def
  LabelSKUMemoryTiny_def LabelSKUStoragePremiumCapable_def LabelSKUMemory_def LabelSKUHyperVGeneration_def LabelSKUAcceleratedNetworking_def LabelSKUEncryptionAtHostSupported_def
  LabelSKUEphemeralOSDiskSupported_def LabelSKUCachedDiskSize_def LabelSKUMaxResourceVolume_def LabelSKUGPUName_def LabelSKUGPUManufacturer_def LabelSKUGPUCount_def

end
