(* ===== verification/GoFloat.thy ===== *)
theory GoFloat
  imports GoStrings Complex_Main "HOL-Library.Log_Nat"
begin

text \<open>
  Go's \<open>float64\<close> as the rationals it represents: rounding to nearest with ties to even at 53
  significant bits. The exponent range is not bounded (the program's numbers, cores, gigabytes
  and percentages, are far from overflow and from subnormals), and infinities and NaN do not
  occur. \<open>strconv.ParseFloat\<close> is modelled for decimal notation with an optional exponent.
\<close>

subsection \<open>Definitions\<close>

definition pow2 :: "int \<Rightarrow> rat" where
  "pow2 e = (if 0 \<le> e then 2 ^ nat e else 1 / 2 ^ nat (- e))"

text \<open>The exponent \<open>e\<close> with \<open>2^e \<le> q < 2^(e+1)\<close>, for positive \<open>q\<close>.\<close>

definition floor_log2 :: "rat \<Rightarrow> int" where
  "floor_log2 q =
     (let (n, d) = quotient_of q; e = bitlen n - bitlen d
      in if pow2 e \<le> q then e else e - 1)"

definition round_even :: "rat \<Rightarrow> int" where
  "round_even q =
     (let f = \<lfloor>q\<rfloor>; r = q - of_int f
      in if r < 1 / 2 then f else if 1 / 2 < r then f + 1 else if even f then f else f + 1)"

definition float64 :: "rat \<Rightarrow> rat" where
  "float64 q =
     (if q = 0 then 0
      else (let u = pow2 (floor_log2 \<bar>q\<bar> - 52) in of_int (round_even (q / u)) * u))"

definition is_digit :: "char \<Rightarrow> bool" where
  "is_digit c = (digit_value c \<noteq> None)"

text \<open>Digits, an optional fraction, and what follows.\<close>

definition scan_number :: "string \<Rightarrow> string \<times> string \<times> string" where
  "scan_number s =
     (let num = takeWhile is_digit s; r = dropWhile is_digit s
      in case r of
           c # r' \<Rightarrow> if c = CHR ''.'' then (num, takeWhile is_digit r', dropWhile is_digit r') else (num, [], r)
         | [] \<Rightarrow> (num, [], r))"

definition decimal_value :: "string \<Rightarrow> string \<Rightarrow> rat" where
  "decimal_value num denom =
     of_nat (the (digits_value 0 (num @ denom))) / 10 ^ length denom"

definition pow10 :: "int \<Rightarrow> rat" where
  "pow10 e = (if 0 \<le> e then 10 ^ nat e else 1 / 10 ^ nat (- e))"

definition parse_decimal :: "string \<Rightarrow> rat option" where
  "parse_decimal s =
     (let neg = (case s of c # _ \<Rightarrow> c = CHR ''-'' | [] \<Rightarrow> False);
          body = (case s of c # cs \<Rightarrow> if c = CHR ''-'' \<or> c = CHR ''+'' then cs else s | [] \<Rightarrow> []);
          (num, denom, rest) = scan_number body;
          v = decimal_value num denom;
          sv = (if neg then - v else v)
      in if num @ denom = [] then None
         else (case rest of
                 [] \<Rightarrow> Some sv
               | c # ex \<Rightarrow>
                   if c = CHR ''e'' \<or> c = CHR ''E''
                   then map_option (\<lambda>k. sv * pow10 k) (ParseInt64 ex) else None))"

definition ParseFloat :: "string \<Rightarrow> rat option" where
  "ParseFloat s = map_option float64 (parse_decimal s)"

text \<open>\<open>fmt.Sprintf("%f", x)\<close>: six decimals, rounded from the exact value.\<close>

definition pad6 :: "nat \<Rightarrow> string" where
  "pad6 n = map (\<lambda>i. digit_char ((n div 10 ^ (5 - i)) mod 10)) [0, 1, 2, 3, 4, 5]"

definition format_f6 :: "rat \<Rightarrow> string" where
  "format_f6 q =
     (let n = nat (round_even (\<bar>q\<bar> * 10 ^ 6))
      in (if q < 0 then ''-'' else '''') @ show_nat (n div 10 ^ 6) @ ''.'' @ pad6 (n mod 10 ^ 6))"

subsection \<open>Powers of two and rounding\<close>

lemma pow2_pos [simp]: "0 < pow2 e"
  by (simp add: pow2_def)

lemma pow2_nonneg [simp]: "0 \<le> pow2 e"
  by (simp add: pow2_def)

lemma pow2_neq_0 [simp]: "pow2 e \<noteq> 0"
  by (simp add: pow2_def)

lemma pow2_abs [simp]: "\<bar>pow2 e\<bar> = pow2 e"
  by simp

lemma pow2_powr: "(of_rat (pow2 e) :: real) = 2 powr of_int e"
  by (auto simp: pow2_def of_rat_power of_rat_divide powr_realpow [symmetric] powr_minus_divide of_nat_nat)

lemma pow2_add: "pow2 (a + b) = pow2 a * pow2 b"
proof -
  have "(of_rat (pow2 (a + b)) :: real) = of_rat (pow2 a * pow2 b)"
    by (simp add: pow2_powr of_rat_mult powr_add)
  then show ?thesis by (simp only: of_rat_eq_iff)
qed

lemma pow2_le_iff: "pow2 a \<le> pow2 b \<longleftrightarrow> a \<le> b"
proof -
  have "pow2 a \<le> pow2 b \<longleftrightarrow> (of_rat (pow2 a) :: real) \<le> of_rat (pow2 b)" by (simp only: of_rat_less_eq)
  then show ?thesis by (simp add: pow2_powr)
qed

lemma pow2_less_iff: "pow2 a < pow2 b \<longleftrightarrow> a < b"
  using pow2_le_iff [of b a] by (simp add: not_le [symmetric])

lemma pow2_0 [simp]: "pow2 0 = 1"
  by (simp add: pow2_def)

lemma pow2_nat: "pow2 (int n) = 2 ^ n"
  by (simp add: pow2_def)

lemma round_even_int [simp]: "round_even (of_int n) = n"
  by (simp add: round_even_def)

lemma round_even_error: "\<bar>of_int (round_even q) - q\<bar> \<le> 1 / 2"
proof -
  have "of_int \<lfloor>q\<rfloor> \<le> q" "q < of_int \<lfloor>q\<rfloor> + 1" using floor_correct [of q] by simp_all
  then show ?thesis by (auto simp: round_even_def Let_def abs_le_iff)
qed

lemma bitlen_pos_bounds:
  assumes "0 < (x :: int)"
  shows "pow2 (bitlen x - 1) \<le> of_int x" "of_int x < pow2 (bitlen x)"
proof -
  have b: "2 ^ nat (bitlen x - 1) \<le> x \<and> x < 2 ^ nat (bitlen x)" using assms by (rule bitlen_bounds)
  have "0 \<le> bitlen x - 1" using assms by (simp add: bitlen_alt_def)
  then have e: "pow2 (bitlen x - 1) = 2 ^ nat (bitlen x - 1)" "pow2 (bitlen x) = 2 ^ nat (bitlen x)"
    by (simp_all add: pow2_def)
  have "(of_int (2 ^ nat (bitlen x - 1)) :: rat) \<le> of_int x" using b by (simp only: of_int_le_iff)
  then show "pow2 (bitlen x - 1) \<le> of_int x" by (simp add: e)
  have "(of_int x :: rat) < of_int (2 ^ nat (bitlen x))" using b by (simp only: of_int_less_iff)
  then show "of_int x < pow2 (bitlen x)" by (simp add: e)
qed

lemma floor_log2_bounds:
  assumes "0 < q"
  shows "pow2 (floor_log2 q) \<le> q" "q < pow2 (floor_log2 q + 1)"
proof -
  obtain n d where nd: "quotient_of q = (n, d)" by (cases "quotient_of q")
  have q: "q = of_int n / of_int d" "0 < d"
    using quotient_of_div [OF nd] quotient_of_denom_pos [OF nd] by simp_all
  have n: "0 < n" using assms q by (auto simp: zero_less_divide_iff)
  define e where "e = bitlen n - bitlen d"
  note bn = bitlen_pos_bounds [OF n] and bd = bitlen_pos_bounds [OF q(2)]
  have d0: "(0 :: rat) < of_int d" using q(2) by simp
  have "pow2 (e - 1) * of_int d \<le> pow2 (e - 1) * pow2 (bitlen d)"
    using bd(2) by (intro mult_left_mono) simp_all
  also have "\<dots> = pow2 (bitlen n - 1)" by (simp add: pow2_add [symmetric] e_def)
  also have "\<dots> \<le> of_int n" by (rule bn(1))
  finally have lo: "pow2 (e - 1) \<le> q" using d0 q(1) by (simp add: pos_le_divide_eq)
  have "of_int n < pow2 (bitlen n)" by (rule bn(2))
  also have "\<dots> = pow2 (e + 1) * pow2 (bitlen d - 1)" by (simp add: pow2_add [symmetric] e_def)
  also have "\<dots> \<le> pow2 (e + 1) * of_int d" using bd(1) by (intro mult_left_mono) simp_all
  finally have hi: "q < pow2 (e + 1)" using d0 q(1) by (simp add: pos_divide_less_eq)
  have "floor_log2 q = (if pow2 e \<le> q then e else e - 1)"
    by (simp add: floor_log2_def nd e_def)
  then show "pow2 (floor_log2 q) \<le> q" "q < pow2 (floor_log2 q + 1)"
    using lo hi by (auto split: if_splits)
qed

subsection \<open>Error and exactness of rounding\<close>

lemma float64_error: "\<bar>float64 q - q\<bar> \<le> \<bar>q\<bar> * pow2 (- 53)"
proof (cases "q = 0")
  case False
  define e where "e = floor_log2 \<bar>q\<bar>"
  define u where "u = pow2 (e - 52)"
  have u: "0 < u" by (simp add: u_def)
  have "float64 q - q = (of_int (round_even (q / u)) - q / u) * u"
    using False u by (simp add: float64_def Let_def e_def [symmetric] u_def [symmetric] left_diff_distrib)
  then have "\<bar>float64 q - q\<bar> = \<bar>of_int (round_even (q / u)) - q / u\<bar> * u"
    using u by (simp add: abs_mult)
  also have "\<dots> \<le> 1 / 2 * u" using round_even_error u by (intro mult_right_mono) simp_all
  also have "1 / 2 * u = pow2 e * pow2 (- 53)"
  proof -
    have "(1 / 2 :: rat) = pow2 (- 1)" by (simp add: pow2_def)
    then have "1 / 2 * u = pow2 (- 1 + (e - 52))" by (simp only: u_def pow2_add)
    then show ?thesis by (simp add: pow2_add [symmetric])
  qed
  also have "\<dots> \<le> \<bar>q\<bar> * pow2 (- 53)"
    using floor_log2_bounds(1) [of "\<bar>q\<bar>"] False by (intro mult_right_mono) (simp_all add: e_def)
  finally show ?thesis .
qed (simp add: float64_def)

lemma float64_exact:
  assumes "q = of_int m * pow2 k" "\<bar>m\<bar> \<le> 2 ^ 53"
  shows "float64 q = q"
proof (cases "q = 0")
  case False
  define e where "e = floor_log2 \<bar>q\<bar>"
  have "pow2 e \<le> \<bar>q\<bar>" using floor_log2_bounds(1) [of "\<bar>q\<bar>"] False by (simp add: e_def)
  also have "\<bar>q\<bar> = of_int \<bar>m\<bar> * pow2 k" using assms(1) by (simp add: abs_mult)
  also have "\<dots> \<le> of_int (2 ^ 53) * pow2 k"
    using assms(2) by (intro mult_right_mono) (simp_all only: of_int_le_iff, simp_all)
  also have "of_int (2 ^ 53) * pow2 k = pow2 (53 + k)" by (simp add: pow2_add pow2_nat [of 53, simplified])
  finally have ek: "e \<le> 53 + k" by (simp add: pow2_le_iff)
  have div: "q / pow2 (e - 52) = of_int m * pow2 (k - e + 52)"
  proof -
    have "pow2 k = pow2 (k - e + 52) * pow2 (e - 52)" by (simp add: pow2_add [symmetric])
    then show ?thesis using assms(1) pow2_pos [of "e - 52"] by (simp add: field_simps)
  qed
  have "\<exists>j. q / pow2 (e - 52) = of_int j"
  proof (cases "0 \<le> k - e + 52")
    case True
    then have "of_int m * pow2 (k - e + 52) = of_int (m * 2 ^ nat (k - e + 52))"
      by (simp add: pow2_def)
    with div show ?thesis by metis
  next
    case False
    with ek have k: "e = 53 + k" by linarith
    have "pow2 (53 + k) \<le> of_int \<bar>m\<bar> * pow2 k"
      using \<open>pow2 e \<le> \<bar>q\<bar>\<close> \<open>\<bar>q\<bar> = of_int \<bar>m\<bar> * pow2 k\<close> k by simp
    then have "(2 ^ 53 :: rat) * pow2 k \<le> of_int \<bar>m\<bar> * pow2 k"
      by (simp add: pow2_add pow2_nat [of 53, simplified])
    then have "(of_int (2 ^ 53) :: rat) \<le> of_int \<bar>m\<bar>" using pow2_pos [of k] by simp
    then have "\<bar>m\<bar> = 2 ^ 53" using assms(2) by (simp only: of_int_le_iff)
    then have "m = 2 ^ 53 \<or> m = - (2 ^ 53)" by linarith
    then have "m = 2 * (m div 2)" by (elim disjE) simp_all
    then have "of_int m = (2 :: rat) * of_int (m div 2)" by (metis of_int_mult of_int_numeral)
    moreover have "pow2 (k - e + 52) = 1 / 2" by (simp add: k pow2_def)
    ultimately have "q / pow2 (e - 52) = of_int (m div 2)" using div by simp
    then show ?thesis ..
  qed
  then obtain j where j: "q / pow2 (e - 52) = of_int j" ..
  then have "float64 q = of_int j * pow2 (e - 52)"
    using False by (simp only: float64_def Let_def e_def [symmetric] if_False j round_even_int)
  also have "\<dots> = q" using j pow2_neq_0 [of "e - 52"] by (metis nonzero_eq_divide_eq)
  finally show ?thesis .
qed (simp add: float64_def)

lemma float64_idem [simp]: "float64 (float64 q) = float64 q"
proof (cases "q = 0")
  case False
  define e where "e = floor_log2 \<bar>q\<bar>"
  define x where "x = q / pow2 (e - 52)"
  have "\<bar>q\<bar> < pow2 (e + 1)" using floor_log2_bounds(2) [of "\<bar>q\<bar>"] False by (simp add: e_def)
  also have "\<dots> = pow2 53 * pow2 (e - 52)" by (simp add: pow2_add [symmetric] add.commute)
  finally have "\<bar>x\<bar> < 2 ^ 53"
    by (simp add: x_def pos_divide_less_eq pow2_nat [of 53, simplified])
  then have "\<bar>of_int (round_even x) :: rat\<bar> < of_int (2 ^ 53 + 1)" 
    using round_even_error [of x] abs_triangle_ineq [of "of_int (round_even x) - x" x] by simp
  then have "\<bar>round_even x\<bar> < 2 ^ 53 + 1" by (metis of_int_abs of_int_less_iff)
  then have "\<bar>round_even x\<bar> \<le> 2 ^ 53" by simp
  moreover have "float64 q = of_int (round_even x) * pow2 (e - 52)"
    using False by (simp add: float64_def Let_def x_def e_def)
  ultimately show ?thesis by (rule float64_exact [rotated])
qed (simp add: float64_def)

lemma float64_of_int: "\<bar>n\<bar> \<le> 2 ^ 53 \<Longrightarrow> float64 (of_int n) = of_int n"
  using float64_exact [of "of_int n" n 0] by simp

subsection \<open>Decimals of at most six places survive\<close>

lemma round_even_near:
  assumes "\<bar>q - of_int n\<bar> < 1 / 2"
  shows "round_even q = n"
proof -
  have "\<bar>of_int (round_even q) - of_int n :: rat\<bar> \<le> \<bar>of_int (round_even q) - q\<bar> + \<bar>q - of_int n\<bar>" by linarith
  also have "\<dots> < 1" using round_even_error [of q] assms by linarith
  finally have "\<bar>of_int (round_even q - n) :: rat\<bar> < 1" by simp
  then have "\<bar>round_even q - n\<bar> < 1" by linarith
  then show ?thesis by simp
qed

lemma float64_nonneg: "0 \<le> q \<Longrightarrow> 0 \<le> float64 q"
proof -
  assume q: "0 \<le> q"
  have "pow2 (- 53) \<le> 1" by (simp add: pow2_def)
  then have "q * pow2 (- 53) \<le> q" using q by (simp add: mult_left_le)
  then show ?thesis using float64_error [of q] q by linarith
qed

lemma round_float64_micro:
  assumes "N < 2 ^ 52"
  shows "round_even (\<bar>float64 (of_nat N / 10 ^ 6)\<bar> * 10 ^ 6) = int N"
proof (rule round_even_near)
  let ?q = "of_nat N / 10 ^ 6 :: rat"
  have "\<bar>\<bar>float64 ?q\<bar> * 10 ^ 6 - of_int (int N)\<bar> = \<bar>(float64 ?q - ?q) * 10 ^ 6\<bar>"
    using float64_nonneg [of ?q] by (simp add: left_diff_distrib)
  also have "\<dots> = \<bar>float64 ?q - ?q\<bar> * 10 ^ 6" by (simp only: abs_mult) simp
  also have "\<dots> \<le> \<bar>?q\<bar> * pow2 (- 53) * 10 ^ 6"
    by (rule mult_right_mono [OF float64_error]) simp
  also have "\<dots> = of_nat N / 2 ^ 53" by (simp add: pow2_def)
  also have "\<dots> < 1 / 2"
  proof -
    have "(of_nat N :: rat) < of_nat (2 ^ 52)" using assms by (simp only: of_nat_less_iff)
    then show ?thesis by simp
  qed
  finally show "\<bar>\<bar>float64 ?q\<bar> * 10 ^ 6 - of_int (int N)\<bar> < 1 / 2" .
qed

lemma format_f6_micro:
  assumes "N < 2 ^ 52"
  shows "format_f6 (float64 (of_nat N / 10 ^ 6)) = show_nat (N div 10 ^ 6) @ ''.'' @ pad6 (N mod 10 ^ 6)"
  using round_float64_micro [OF assms] float64_nonneg [of "of_nat N / 10 ^ 6"]
  by (simp add: format_f6_def)

subsection \<open>Quarters survive rounding\<close>

text \<open>Below \<open>2^50\<close> every multiple of a quarter is a \<open>float64\<close>, so rounding never crosses one.\<close>

lemma round_even_mono_int:
  "of_int n \<le> q \<Longrightarrow> n \<le> round_even q" "q \<le> of_int n \<Longrightarrow> round_even q \<le> n"
proof -
  have f: "of_int \<lfloor>q\<rfloor> \<le> q" "q < of_int \<lfloor>q\<rfloor> + 1" using floor_correct [of q] by simp_all
  show "n \<le> round_even q" if "of_int n \<le> q"
  proof -
    have "n \<le> \<lfloor>q\<rfloor>" using that by (simp add: le_floor_iff)
    then show ?thesis by (auto simp: round_even_def Let_def)
  qed
  show "round_even q \<le> n" if "q \<le> of_int n"
  proof (cases "q = of_int n")
    case True
    then show ?thesis by simp
  next
    case False
    with that have "\<lfloor>q\<rfloor> < n" by (simp add: floor_less_iff)
    then show ?thesis by (auto simp: round_even_def Let_def)
  qed
qed

lemma float64_quarters:
  assumes "0 < q" "q < 2 ^ 50"
  shows "of_int i / 4 \<le> q \<Longrightarrow> of_int i / 4 \<le> float64 q" "q \<le> of_int i / 4 \<Longrightarrow> float64 q \<le> of_int i / 4"
proof -
  define e where "e = floor_log2 q"
  have "pow2 e < pow2 50" using floor_log2_bounds(1) [OF assms(1)] assms(2) by (simp add: e_def pow2_def)
  then have e: "e < 50" by (simp add: pow2_less_iff)
  define k where "k = nat (50 - e)"
  define u where "u = pow2 (e - 52)"
  have u: "0 < u" by (simp add: u_def)
  have "pow2 (int k) * u = pow2 (- 2)" using e by (simp add: u_def k_def pow2_add [symmetric])
  then have qu: "of_int i / 4 = of_int (i * 2 ^ k) * u" for i by (simp add: pow2_nat pow2_def)
  have fl: "float64 q = of_int (round_even (q / u)) * u" using assms by (simp add: float64_def e_def u_def Let_def)
  show "of_int i / 4 \<le> float64 q" if "of_int i / 4 \<le> q"
  proof -
    have "of_int (i * 2 ^ k) \<le> q / u" using that u unfolding qu by (simp add: pos_le_divide_eq)
    then have "i * 2 ^ k \<le> round_even (q / u)" by (rule round_even_mono_int(1))
    then have "(of_int (i * 2 ^ k) :: rat) \<le> of_int (round_even (q / u))" by (simp only: of_int_le_iff)
    then show ?thesis unfolding qu fl using u by (intro mult_right_mono) simp_all
  qed
  show "float64 q \<le> of_int i / 4" if "q \<le> of_int i / 4"
  proof -
    have "q / u \<le> of_int (i * 2 ^ k)" using that u unfolding qu by (simp add: pos_divide_le_eq)
    then have "round_even (q / u) \<le> i * 2 ^ k" by (rule round_even_mono_int(2))
    then have "(of_int (round_even (q / u)) :: rat) \<le> of_int (i * 2 ^ k)" by (simp only: of_int_le_iff)
    then show ?thesis unfolding qu fl using u by (intro mult_right_mono) simp_all
  qed
qed

end
