(* ===== verification/Skewer.thy ===== *)
theory Skewer
  imports GoRegexp GoFloat
begin

text \<open>
  Azure's compute SKUs as the instance type provider reads them: the vendored \<open>skewer\<close> package
  (\<open>vendor/github.com/Azure/skewer/\<close>) and the iterator of the compute SDK it drains. A capability
  is a name and a value, both optional; numeric capabilities are parsed on every read and read
  as -1 next to their error. The accelerator, features and version of a size are parsed out of
  its name.
\<close>

subsection \<open>SKUs and their capabilities\<close>

record ResourceSkuCapabilities =
  cap_Name :: "string option"
  cap_Value :: "string option"

record SKU =
  sku_ResourceType :: "string option"
  sku_Name :: "string option"
  sku_Size :: "string option"
  sku_Locations :: "string list option"
  sku_Capabilities :: "ResourceSkuCapabilities list option"

datatype capErr =
    ErrCapabilityNotFound string
  | ErrCapabilityValueNil string
  | ErrCapabilityValueParse string string

text \<open>
  The loop over the capabilities: the first one with the name decides. A result is a value
  together with an error, as in the source.
\<close>

fun find_capability :: "string \<Rightarrow> ResourceSkuCapabilities list \<Rightarrow> string option option" where
  "find_capability name [] = None"
| "find_capability name (c # cs) =
     (if cap_Name c = Some name then Some (cap_Value c) else find_capability name cs)"

definition GetCapabilityIntegerQuantity :: "SKU \<Rightarrow> string \<Rightarrow> int \<times> capErr option" where
  "GetCapabilityIntegerQuantity s name =
     (case sku_Capabilities s of
        None \<Rightarrow> (-1, Some (ErrCapabilityNotFound name))
      | Some cs \<Rightarrow>
          (case find_capability name cs of
             None \<Rightarrow> (-1, Some (ErrCapabilityNotFound name))
           | Some None \<Rightarrow> (-1, Some (ErrCapabilityValueNil name))
           | Some (Some v) \<Rightarrow>
               (case ParseInt64 v of
                  None \<Rightarrow> (-1, Some (ErrCapabilityValueParse name v))
                | Some n \<Rightarrow> (n, None))))"

definition GetCapabilityFloatQuantity :: "SKU \<Rightarrow> string \<Rightarrow> rat \<times> capErr option" where
  "GetCapabilityFloatQuantity s name =
     (case sku_Capabilities s of
        None \<Rightarrow> (-1, Some (ErrCapabilityNotFound name))
      | Some cs \<Rightarrow>
          (case find_capability name cs of
             None \<Rightarrow> (-1, Some (ErrCapabilityNotFound name))
           | Some None \<Rightarrow> (-1, Some (ErrCapabilityValueNil name))
           | Some (Some v) \<Rightarrow>
               (case ParseFloat v of
                  None \<Rightarrow> (-1, Some (ErrCapabilityValueParse name v))
                | Some x \<Rightarrow> (x, None))))"

definition GetCapabilityString :: "SKU \<Rightarrow> string \<Rightarrow> string \<times> capErr option" where
  "GetCapabilityString s name =
     (case sku_Capabilities s of
        None \<Rightarrow> ('''', Some (ErrCapabilityNotFound name))
      | Some cs \<Rightarrow>
          (case find_capability name cs of
             None \<Rightarrow> ('''', Some (ErrCapabilityNotFound name))
           | Some None \<Rightarrow> ('''', Some (ErrCapabilityValueNil name))
           | Some (Some v) \<Rightarrow> (v, None)))"

fun find_capability_fold :: "string \<Rightarrow> ResourceSkuCapabilities list \<Rightarrow> string option option" where
  "find_capability_fold name [] = None"
| "find_capability_fold name (c # cs) =
     (if (case cap_Name c of None \<Rightarrow> False | Some n \<Rightarrow> EqualFold n name) then Some (cap_Value c)
      else find_capability_fold name cs)"

definition HasCapability :: "SKU \<Rightarrow> string \<Rightarrow> bool" where
  "HasCapability s name =
     (case sku_Capabilities s of
        None \<Rightarrow> False
      | Some cs \<Rightarrow>
          (case find_capability_fold name cs of
             None \<Rightarrow> False
           | Some None \<Rightarrow> False
           | Some (Some v) \<Rightarrow> EqualFold v ''True''))"

definition normalizeLocation :: "string \<Rightarrow> string" where
  "normalizeLocation input = ToLower (filter (\<lambda>c. \<not> is_space c) input)"

definition locationEquals :: "string \<Rightarrow> string \<Rightarrow> bool" where
  "locationEquals a b = (normalizeLocation a = normalizeLocation b)"

definition HasCapabilityWithSeparator :: "SKU \<Rightarrow> string \<Rightarrow> string \<Rightarrow> bool" where
  "HasCapabilityWithSeparator s name value =
     (case sku_Capabilities s of
        None \<Rightarrow> False
      | Some cs \<Rightarrow>
          (case find_capability_fold name cs of
             None \<Rightarrow> False
           | Some None \<Rightarrow> False
           | Some (Some v) \<Rightarrow> Contains (normalizeLocation v) (normalizeLocation value)))"

definition VCPU :: "SKU \<Rightarrow> int \<times> capErr option" where
  "VCPU s = GetCapabilityIntegerQuantity s ''vCPUs''"

definition GPU :: "SKU \<Rightarrow> int \<times> capErr option" where
  "GPU s = GetCapabilityIntegerQuantity s ''GPUs''"

definition Memory :: "SKU \<Rightarrow> rat \<times> capErr option" where
  "Memory s = GetCapabilityFloatQuantity s ''MemoryGB''"

definition MaxCachedDiskBytes :: "SKU \<Rightarrow> int \<times> capErr option" where
  "MaxCachedDiskBytes s = GetCapabilityIntegerQuantity s ''CachedDiskBytes''"

definition MaxResourceVolumeMB :: "SKU \<Rightarrow> int \<times> capErr option" where
  "MaxResourceVolumeMB s = GetCapabilityIntegerQuantity s ''MaxResourceVolumeMB''"

definition IsEncryptionAtHostSupported :: "SKU \<Rightarrow> bool" where
  "IsEncryptionAtHostSupported s = HasCapability s ''EncryptionAtHostSupported''"

definition IsEphemeralOSDiskSupported :: "SKU \<Rightarrow> bool" where
  "IsEphemeralOSDiskSupported s = HasCapability s ''EphemeralOSDiskSupported''"

definition IsAcceleratedNetworkingSupported :: "SKU \<Rightarrow> bool" where
  "IsAcceleratedNetworkingSupported s = HasCapability s ''AcceleratedNetworkingEnabled''"

definition IsPremiumIO :: "SKU \<Rightarrow> bool" where
  "IsPremiumIO s = HasCapability s ''PremiumIO''"

definition IsHyperVGen1Supported :: "SKU \<Rightarrow> bool" where
  "IsHyperVGen1Supported s = HasCapabilityWithSeparator s ''HyperVGenerations'' ''V1''"

definition IsHyperVGen2Supported :: "SKU \<Rightarrow> bool" where
  "IsHyperVGen2Supported s = HasCapabilityWithSeparator s ''HyperVGenerations'' ''V2''"

definition GetCPUArchitectureType :: "SKU \<Rightarrow> string \<times> capErr option" where
  "GetCPUArchitectureType s = GetCapabilityString s ''CpuArchitectureType''"

definition IsResourceType :: "SKU \<Rightarrow> string \<Rightarrow> bool" where
  "IsResourceType s t = (case sku_ResourceType s of None \<Rightarrow> False | Some r \<Rightarrow> EqualFold r t)"

definition GetResourceType :: "SKU \<Rightarrow> string" where
  "GetResourceType s = FromPtr '''' (sku_ResourceType s)"

definition GetName :: "SKU \<Rightarrow> string" where
  "GetName s = FromPtr '''' (sku_Name s)"

definition GetSize :: "SKU \<Rightarrow> string" where
  "GetSize s = FromPtr '''' (sku_Size s)"

definition HasLocation :: "SKU \<Rightarrow> string \<Rightarrow> bool" where
  "HasLocation s location =
     (case sku_Locations s of None \<Rightarrow> False | Some ls \<Rightarrow> list_ex (\<lambda>c. locationEquals c location) ls)"

subsection \<open>VM sizes\<close>

record VMSizeType =
  Family :: string
  Subfamily :: "string option"
  Cpus :: string
  CpusConstrained :: "string option"
  AdditiveFeatures :: string
  AcceleratorType :: "string option"
  ConfidentialChildCapability :: bool
  Version :: string
  PromoVersion :: bool
  Series :: string

definition upper :: "char \<Rightarrow> bool" where
  "upper c = (let n = (of_char c :: nat) in 65 \<le> n \<and> n \<le> 90)"

definition feature_char :: "char \<Rightarrow> bool" where
  "feature_char c = (c \<in> set ''abcdilmtspPr'')"

definition version_letter :: "char \<Rightarrow> bool" where
  "version_letter c = (c \<in> set ''vV'')"

definition version_digit :: "char \<Rightarrow> bool" where
  "version_digit c = (c \<in> set ''123456789'')"

text \<open>
  The pattern
  \<open>^([A-Z])([A-Z]?)([0-9]+)-?((?:[0-9]+)?)((?:[abcdilmtspPr]+|C+|NP)?)_?(?:([A-Z][0-9]+)_?)?(_cc_)?((?:[vV][1-9])?)?(_Promo)?$\<close>,
  in four parts.
\<close>

definition rx_cpus :: "rx \<Rightarrow> rx" where
  "rx_cpus k =
     Seq (Grp 1 (Cls upper)) (Seq (Grp 2 (Opt (Cls upper))) (Seq (Grp 3 (PlusC is_digit))
       (Seq (Opt (Lit ''-'')) (Seq (Grp 4 (Opt (PlusC is_digit))) k))))"

definition rx_features :: "rx \<Rightarrow> rx" where
  "rx_features k =
     Seq (Grp 5 (Opt (Alt (PlusC feature_char) (Alt (PlusC (\<lambda>c. c = CHR ''C'')) (Lit ''NP''))))) (Seq (Opt (Lit ''_'')) k)"

definition rx_accelerator :: "rx \<Rightarrow> rx" where
  "rx_accelerator k = Seq (Opt (Seq (Grp 6 (Seq (Cls upper) (PlusC is_digit))) (Opt (Lit ''_'')))) k"

definition rx_version :: rx where
  "rx_version =
     Seq (Opt (Grp 7 (Lit ''_cc_'')))
       (Seq (Opt (Grp 8 (Opt (Seq (Cls version_letter) (Cls version_digit)))))
         (Seq (Opt (Grp 9 (Lit ''_Promo''))) EndText))"

definition skuSizeScheme :: rx where
  "skuSizeScheme = rx_cpus (rx_features (rx_accelerator rx_version))"

definition unParsableVMSizes :: "string \<rightharpoonup> VMSizeType" where
  "unParsableVMSizes =
     [''M416s_8_v2'' \<mapsto>
        \<lparr>Family = ''M'', Subfamily = None, Cpus = ''416'', CpusConstrained = None, AdditiveFeatures = ''s'',
         AcceleratorType = None, ConfidentialChildCapability = False, Version = ''v2'', PromoVersion = False,
         Series = ''Ms_v2''\<rparr>]"

definition parseVMSize :: "string \<Rightarrow> captures res" where
  "parseVMSize vmSizeName =
     (case rx_find_anchored skuSizeScheme vmSizeName of
        None \<Rightarrow> Err (ErrorString (''could not parse VM size '' @ vmSizeName))
      | Some c \<Rightarrow> Ok c)"

definition optional :: "string \<Rightarrow> string option" where
  "optional s = (if 0 < length s then Some s else None)"

definition series :: "string \<Rightarrow> string option \<Rightarrow> string \<Rightarrow> string \<Rightarrow> string" where
  "series family sub features version =
     family @ FromPtr '''' sub @ features @ (if 0 < length version then ''_'' @ version else '''')"

definition getVMSize :: "string \<Rightarrow> VMSizeType res" where
  "getVMSize vmSizeName =
     (case parseVMSize vmSizeName of
        Err e \<Rightarrow>
          (case unParsableVMSizes vmSizeName of
             Some v \<Rightarrow> Ok v
           | None \<Rightarrow> Err e)
      | Panic m \<Rightarrow> Panic m
      | Ok c \<Rightarrow>
          if 0 < length (submatch c 4) \<and> ParseInt64 (submatch c 4) = None
          then Err (Wrapped ''converting constrained CPUs, '' (ErrorString (''parsing '' @ submatch c 4)))
          else Ok
            \<lparr>Family = submatch c 1, Subfamily = optional (submatch c 2), Cpus = submatch c 3,
             CpusConstrained = optional (submatch c 4), AdditiveFeatures = submatch c 5,
             AcceleratorType = optional (submatch c 6),
             ConfidentialChildCapability = (submatch c 7 = ''_cc_''), Version = submatch c 8,
             PromoVersion = (submatch c 9 = ''_Promo''),
             Series = series (submatch c 1) (optional (submatch c 2)) (submatch c 5) (submatch c 8)\<rparr>)"

definition GetVMSize :: "SKU \<Rightarrow> VMSizeType res" where
  "GetVMSize s = getVMSize (GetSize s)"

subsection \<open>Listing\<close>

text \<open>
  A page of the SDK's listing and the iterator over pages. \<open>fn\<close> fetches the page after a page;
  pages without values are skipped while they have a next link. A service whose links never
  end keeps both loops running, which is the value \<open>None\<close>.
\<close>

record ResourceSkusResult =
  rsr_Value :: "SKU list option"
  rsr_NextLink :: "string option"

definition IsEmpty :: "ResourceSkusResult \<Rightarrow> bool" where
  "IsEmpty r = (case rsr_Value r of None \<Rightarrow> True | Some vs \<Rightarrow> length vs = 0)"

definition hasNextLink :: "ResourceSkusResult \<Rightarrow> bool" where
  "hasNextLink r = (case rsr_NextLink r of None \<Rightarrow> False | Some l \<Rightarrow> length l \<noteq> 0)"

definition page_Values :: "ResourceSkusResult \<Rightarrow> SKU list" where
  "page_Values r = (if IsEmpty r then [] else the (rsr_Value r))"

partial_function (option) page_NextWithContext ::
  "(ResourceSkusResult \<Rightarrow> ('w, ResourceSkusResult) act) \<Rightarrow> ResourceSkusResult \<Rightarrow> 'w \<Rightarrow> (ResourceSkusResult res \<times> 'w) option" where
  "page_NextWithContext fn r w =
     (case fn r w of
        (Err e, w') \<Rightarrow> Some (Err e, w')
      | (Panic m, w') \<Rightarrow> Some (Panic m, w')
      | (Ok next, w') \<Rightarrow>
          if \<not> hasNextLink next \<or> \<not> IsEmpty next then Some (Ok next, w')
          else page_NextWithContext fn next w')"

record ResourceSkusResultIterator =
  it_i :: nat
  it_page :: ResourceSkusResult

definition NotDone :: "ResourceSkusResultIterator \<Rightarrow> bool" where
  "NotDone it \<longleftrightarrow> \<not> IsEmpty (it_page it) \<and> it_i it < length (page_Values (it_page it))"

definition iter_NextWithContext ::
  "(ResourceSkusResult \<Rightarrow> ('w, ResourceSkusResult) act) \<Rightarrow> ResourceSkusResultIterator \<Rightarrow> 'w
     \<Rightarrow> (ResourceSkusResultIterator res \<times> 'w) option" where
  "iter_NextWithContext fn it w =
     (if it_i it + 1 < length (page_Values (it_page it)) then Some (Ok (it\<lparr>it_i := it_i it + 1\<rparr>), w)
      else map_option (\<lambda>(r, w'). (map_res (\<lambda>p. \<lparr>it_i = 0, it_page = p\<rparr>) r, w'))
             (page_NextWithContext fn (it_page it) w))"

partial_function (option) iterateLoop ::
  "(ResourceSkusResult \<Rightarrow> ('w, ResourceSkusResult) act) \<Rightarrow> ResourceSkusResultIterator \<Rightarrow> SKU list \<Rightarrow> 'w
     \<Rightarrow> (SKU list res \<times> 'w) option" where
  "iterateLoop fn it skus w =
     (if NotDone it
      then (case iter_NextWithContext fn it w of
              None \<Rightarrow> None
            | Some (Ok it', w') \<Rightarrow> iterateLoop fn it' (skus @ [page_Values (it_page it) ! it_i it]) w'
            | Some (Err e, w') \<Rightarrow> Some (Err (Wrapped ''could not iterate resource skus: '' e), w')
            | Some (Panic m, w') \<Rightarrow> Some (Panic m, w'))
      else Some (Ok skus, w))"

text \<open>
  \<open>ResourceClient\<close>: \<open>ListComplete(filter, includeExtendedLocations)\<close> gives the first page, which
  the iterator starts on, and the function that fetches the pages after it.
\<close>

type_synonym 'w ResourceClient =
  "(string \<Rightarrow> string \<Rightarrow> ('w, ResourceSkusResultIterator) act) \<times> (ResourceSkusResult \<Rightarrow> ('w, ResourceSkusResult) act)"

definition iterate :: "'w ResourceClient \<Rightarrow> string \<Rightarrow> string \<Rightarrow> 'w \<Rightarrow> (SKU list res \<times> 'w) option" where
  "iterate client filt includeExtendedLocations w =
     (case fst client filt includeExtendedLocations w of
        (Err e, w') \<Rightarrow> Some (Err (Wrapped ''could not list resource skus: '' e), w')
      | (Panic m, w') \<Rightarrow> Some (Panic m, w')
      | (Ok it, w') \<Rightarrow> iterateLoop (snd client) it [] w')"

record 'w skewerConfig =
  cfg_location :: string
  cfg_includeExtendedLocations :: string
  cfg_filter :: string
  cfg_client :: "'w ResourceClient option"

type_synonym 'w Option = "'w skewerConfig \<Rightarrow> 'w skewerConfig res"

definition WithLocation :: "string \<Rightarrow> 'w Option" where
  "WithLocation loc c = Ok (c\<lparr>cfg_location := loc, cfg_filter := ''location eq '' @ [CHR 0x27] @ loc @ [CHR 0x27]\<rparr>)"

definition WithResourceClient :: "'w ResourceClient \<Rightarrow> 'w Option" where
  "WithResourceClient cl c =
     (if cfg_client c \<noteq> None
      then Err (ErrorString ''only provide one client option when instantiating a cache'')
      else Ok (c\<lparr>cfg_client := Some cl\<rparr>))"

fun apply_options :: "'w Option list \<Rightarrow> 'w skewerConfig \<Rightarrow> 'w skewerConfig res" where
  "apply_options [] c = Ok c"
| "apply_options (opt # opts) c = res_bind (opt c) (apply_options opts)"

definition NewCache :: "'w Option list \<Rightarrow> 'w \<Rightarrow> (SKU list res \<times> 'w) option" where
  "NewCache opts w =
     (case apply_options opts \<lparr>cfg_location = '''', cfg_includeExtendedLocations = '''', cfg_filter = '''', cfg_client = None\<rparr> of
        Err e \<Rightarrow> Some (Err e, w)
      | Panic m \<Rightarrow> Some (Panic m, w)
      | Ok config \<Rightarrow>
          (case cfg_client config of
             None \<Rightarrow> Some (Err (ErrorString ''cache requires a client provided by functional options to refresh''), w)
           | Some cl \<Rightarrow> iterate cl (cfg_filter config) (cfg_includeExtendedLocations config) w))"

definition ResourceTypeFilter :: "string \<Rightarrow> SKU \<Rightarrow> bool" where
  "ResourceTypeFilter resourceType s = IsResourceType s resourceType"

definition All_conditions :: "SKU \<Rightarrow> (SKU \<Rightarrow> bool) list \<Rightarrow> bool" where
  "All_conditions sku conditions = list_all (\<lambda>c. c sku) conditions"

definition Filter_skus :: "SKU list \<Rightarrow> (SKU \<Rightarrow> bool) list \<Rightarrow> SKU list" where
  "Filter_skus skus filterFn = filter (\<lambda>s. All_conditions s filterFn) skus"

subsection \<open>Reading a size back\<close>

text \<open>
  The naming convention: family, sub-family, vCPUs, constrained vCPUs, features, accelerator,
  version and promotion. \<open>size_name\<close> writes a size down, \<open>size_ok\<close> says which parts may occur.
\<close>

definition version_part :: "VMSizeType \<Rightarrow> string" where
  "version_part v = Version v @ (if PromoVersion v then ''_Promo'' else '''')"

definition suffix_part :: "VMSizeType \<Rightarrow> string" where
  "suffix_part v =
     (case AcceleratorType v of
        None \<Rightarrow> (if Version v = '''' then '''' else ''_'' @ version_part v)
      | Some a \<Rightarrow> ''_'' @ a @ (if Version v = '''' then '''' else ''_'' @ version_part v))"

definition constrained_part :: "string option \<Rightarrow> string" where
  "constrained_part con = (case con of None \<Rightarrow> '''' | Some m \<Rightarrow> ''-'' @ m)"

definition size_name :: "VMSizeType \<Rightarrow> string" where
  "size_name v =
     Family v @ FromPtr '''' (Subfamily v) @ Cpus v @
     constrained_part (CpusConstrained v) @ AdditiveFeatures v @ suffix_part v"

definition digits :: "string \<Rightarrow> bool" where
  "digits s \<longleftrightarrow> s \<noteq> [] \<and> (\<forall>c \<in> set s. is_digit c)"

definition accelerator_ok :: "string \<Rightarrow> bool" where
  "accelerator_ok a \<longleftrightarrow> a \<noteq> [] \<and> upper (hd a) \<and> digits (tl a)"

definition size_ok :: "VMSizeType \<Rightarrow> bool" where
  "size_ok v \<longleftrightarrow>
     (\<exists>c. Family v = [c] \<and> upper c) \<and>
     (case Subfamily v of None \<Rightarrow> True | Some s \<Rightarrow> \<exists>c. s = [c] \<and> upper c) \<and>
     digits (Cpus v) \<and>
     (case CpusConstrained v of None \<Rightarrow> True | Some c \<Rightarrow> digits c \<and> length c \<le> 18) \<and>
     (\<forall>c \<in> set (AdditiveFeatures v). feature_char c) \<and>
     (case AcceleratorType v of None \<Rightarrow> True | Some a \<Rightarrow> accelerator_ok a) \<and>
     \<not> ConfidentialChildCapability v \<and>
     (if Version v = '''' then \<not> PromoVersion v
      else \<exists>d. Version v = [CHR ''v'', d] \<and> version_digit d) \<and>
     Series v = series (Family v) (Subfamily v) (AdditiveFeatures v) (Version v)"

definition version_captures :: "VMSizeType \<Rightarrow> captures" where
  "version_captures v = (8, Version v) # (if PromoVersion v then [(9, ''_Promo'')] else [])"

definition accelerator_captures :: "VMSizeType \<Rightarrow> captures" where
  "accelerator_captures v = (case AcceleratorType v of None \<Rightarrow> [] | Some a \<Rightarrow> [(6, a)])"

lemma first_version_number:
  assumes "version_digit d"
  shows "first (Opt (Grp 8 (Opt (Seq (Cls version_letter) (Cls version_digit))))) ([CHR ''v'', d] @ s) [(8, [CHR ''v'', d])] s"
proof (intro first_Opt first_Grp)
  show "first (Seq (Cls version_letter) (Cls version_digit)) ([CHR ''v'', d] @ s) [] s"
    using assms by (auto simp: version_letter_def intro!: first_Seq_nil [OF first_Cls] first_Cls)
qed

lemma first_version:
  assumes "size_ok v"
  shows "first rx_version (version_part v) (version_captures v) []"
proof (cases "Version v = []")
  case True
  then have "version_part v = []" "version_captures v = [(8, [])]"
    using assms by (simp_all add: version_part_def version_captures_def size_ok_def)
  then show ?thesis by (simp add: rx_version_def first_def rx_match.simps HasPrefix_def)
next
  case False
  with assms obtain d where v: "Version v = [CHR ''v'', d]" "version_digit d"
    by (auto simp: size_ok_def)
  have cc: "first (Opt (Grp 7 (Lit ''_cc_''))) (version_part v) [] (version_part v)"
    using v(1) by (intro first_Opt_skip no_match) (simp add: version_part_def HasPrefix_def)
  have promo: "first (Seq (Opt (Grp 9 (Lit ''_Promo''))) EndText) (''_Promo'' @ []) [(9, ''_Promo'')] []"
    by (intro first_Seq_one [OF _ first_EndText] first_Opt first_Grp) (rule first_Lit)
  have plain: "first (Seq (Opt (Grp 9 (Lit ''_Promo''))) EndText) [] [] []"
    by (intro first_Seq_nil [OF _ first_EndText] first_Opt_skip no_match) (simp add: HasPrefix_def)
  note tail = first_Seq_one [OF first_version_number [OF v(2)], folded v(1)]
  show ?thesis
    unfolding rx_version_def
    using tail [OF promo] tail [OF plain]
    by (intro first_Seq_nil [OF cc])
      (cases "PromoVersion v"; simp add: version_part_def version_captures_def)
qed

lemma upper_feature_digit:
  "upper c \<Longrightarrow> \<not> is_digit c" "is_digit c \<Longrightarrow> \<not> upper c" "is_digit c \<Longrightarrow> \<not> feature_char c" "feature_char c \<Longrightarrow> \<not> is_digit c"
  "\<not> upper (CHR ''_'')" "\<not> upper (CHR ''v'')" "\<not> is_digit (CHR ''_'')" "\<not> is_digit (CHR ''-'')" "\<not> feature_char (CHR ''_'')"
  "feature_char c \<Longrightarrow> c \<noteq> CHR ''-''"
  by (auto simp: upper_def is_digit_def digit_value_def feature_char_def Let_def split: if_splits)

lemma version_cases:
  assumes "size_ok v"
  obtains "Version v = []" "version_part v = []" | d where "version_part v = [CHR ''v'', d] @ (if PromoVersion v then ''_Promo'' else [])"
  using assms by (cases "Version v = []") (auto simp: size_ok_def version_part_def)

lemma stops_version_part: "size_ok v \<Longrightarrow> stops upper (version_part v)"
  by (erule version_cases) (simp_all add: upper_feature_digit)

lemma first_accelerator_none:
  "stops upper s \<Longrightarrow> first k s c t \<Longrightarrow> first (rx_accelerator k) s c t"
  unfolding rx_accelerator_def by (rule first_Seq_nil [OF first_Opt_skip]) (auto intro: no_match)

lemma first_underscore: "first (Opt (Lit ''_'')) (''_'' @ s) [] s"
  by (rule first_Opt, rule first_Lit)

lemma first_underscore_none: "stops (\<lambda>c. c = CHR ''_'') s \<Longrightarrow> first (Opt (Lit ''_'')) s [] s"
  by (rule first_Opt_skip) (cases s; simp add: rx_match.simps HasPrefix_def)

lemma first_accelerator_some:
  assumes a: "accelerator_ok a" and s: "first (Opt (Lit ''_'')) s [] s'" "stops is_digit s" and k: "first k s' c t"
  shows "first (rx_accelerator k) (a @ s) ((6, a) # c) t"
proof -
  obtain x ds where x: "a = x # ds" "upper x" "ds \<noteq> []" "\<forall>c \<in> set ds. is_digit c"
    using a by (cases a) (auto simp: accelerator_ok_def digits_def)
  have "first (Seq (Cls upper) (PlusC is_digit)) (a @ s) [] s"
    using x s(2) by (auto intro!: first_Seq_nil [OF first_Cls] first_PlusC)
  then have "first (Opt (Seq (Grp 6 (Seq (Cls upper) (PlusC is_digit))) (Opt (Lit ''_'')))) (a @ s) [(6, a)] s'"
    by (intro first_Opt first_Seq_one [OF first_Grp] s(1))
  then show ?thesis unfolding rx_accelerator_def by (rule first_Seq_one [OF _ k])
qed

lemma first_suffix:
  assumes "size_ok v"
  shows "\<exists>s. first (Opt (Lit ''_'')) (suffix_part v) [] s \<and>
             first (rx_accelerator rx_version) s (accelerator_captures v @ version_captures v) []"
proof (cases "AcceleratorType v")
  case None
  have "suffix_part v = [] \<and> version_part v = [] \<or> suffix_part v = ''_'' @ version_part v"
    using None assms by (auto simp: suffix_part_def version_part_def size_ok_def)
  then have "first (Opt (Lit ''_'')) (suffix_part v) [] (version_part v)"
    using first_underscore first_underscore_none [of "[]"] by auto
  moreover have "first (rx_accelerator rx_version) (version_part v) (version_captures v) []"
    by (rule first_accelerator_none [OF stops_version_part [OF assms] first_version [OF assms]])
  ultimately show ?thesis using None by (auto simp: accelerator_captures_def)
next
  case (Some a)
  let ?s = "if Version v = [] then [] else ''_'' @ version_part v"
  have a: "accelerator_ok a" using Some assms by (simp add: size_ok_def)
  have "suffix_part v = ''_'' @ a @ ?s" using Some by (simp add: suffix_part_def)
  moreover have "first (Opt (Lit ''_'')) ?s [] (version_part v)"
    using first_underscore first_underscore_none [of "[]"] assms by (auto simp: version_part_def size_ok_def)
  then have "first (rx_accelerator rx_version) (a @ ?s) ((6, a) # version_captures v) []"
    using first_version [OF assms] by (intro first_accelerator_some [OF a]) (auto simp: upper_feature_digit)
  ultimately show ?thesis
    using first_underscore [of "a @ ?s"] Some by (auto simp: accelerator_captures_def)
qed

lemma first_features:
  assumes "\<forall>c \<in> set f. feature_char c" "s = [] \<or> hd s = CHR ''_''"
    and "first (Opt (Lit ''_'')) s [] s'" "first k s' c t"
  shows "first (rx_features k) (f @ s) ((5, f) # c) t"
proof -
  have s: "stops feature_char s" "stops (\<lambda>c. c = CHR ''C'') s" "\<not> HasPrefix s ''NP''"
    using assms(2) by (cases s; auto simp: upper_feature_digit HasPrefix_def)+
  have "first (Opt (Alt (PlusC feature_char) (Alt (PlusC (\<lambda>c. c = CHR ''C'')) (Lit ''NP'')))) (f @ s) [] s"
  proof (cases "f = []")
    case True
    with s show ?thesis by (auto intro!: first_Opt_skip no_match)
  next
    case False
    with s(1) assms(1) show ?thesis by (intro first_Opt first_Alt first_PlusC)
  qed
  then show ?thesis
    unfolding rx_features_def by (intro first_Seq_one [OF first_Grp] first_Seq_nil [OF assms(3) assms(4)])
qed

lemma first_constrained:
  assumes con: "case con of None \<Rightarrow> True | Some m \<Rightarrow> digits m"
    and s: "stops is_digit s" "stops (\<lambda>c. c = CHR ''-'') s"
  shows "first (Opt (Lit ''-'')) (constrained_part con @ s) [] (FromPtr '''' con @ s)"
    "first (Opt (PlusC is_digit)) (FromPtr '''' con @ s) [] s" "stops is_digit (constrained_part con @ s)"
proof -
  have "\<not> HasPrefix s ''-''" using s(2) by (cases s) (auto simp: HasPrefix_def)
  then show "first (Opt (Lit ''-'')) (constrained_part con @ s) [] (FromPtr '''' con @ s)"
    using first_Opt [OF first_Lit [of "''-''"]]
    by (cases con) (auto simp: constrained_part_def intro!: first_Opt_skip no_match)
  show "first (Opt (PlusC is_digit)) (FromPtr '''' con @ s) [] s"
    using con s(1) by (cases con) (auto simp: digits_def intro: first_Opt_skip no_match first_Opt first_PlusC)
  show "stops is_digit (constrained_part con @ s)"
    using s(1) by (cases con) (auto simp: constrained_part_def upper_feature_digit)
qed

lemma first_subfamily:
  assumes "case sub of None \<Rightarrow> True | Some u \<Rightarrow> \<exists>y. u = [y] \<and> upper y" "stops upper s"
  shows "first (Opt (Cls upper)) (FromPtr '''' sub @ s) [] s"
  using assms by (cases sub) (auto intro!: first_Opt_skip no_match intro: first_Opt [OF first_Cls])

lemma first_cpus:
  assumes f: "upper x" and sub: "case sub of None \<Rightarrow> True | Some u \<Rightarrow> \<exists>y. u = [y] \<and> upper y"
    and n: "digits n" and con: "case con of None \<Rightarrow> True | Some m \<Rightarrow> digits m"
    and s: "stops is_digit s" "stops (\<lambda>c. c = CHR ''-'') s" and k: "first k s c t"
  shows "first (rx_cpus k) ([x] @ FromPtr '''' sub @ n @ constrained_part con @ s)
    ((1, [x]) # (2, FromPtr '''' sub) # (3, n) # (4, FromPtr '''' con) # c) t"
proof -
  note con' = first_constrained [OF con s]
  let ?r3 = "constrained_part con @ s" let ?r2 = "n @ ?r3" let ?r1 = "FromPtr '''' sub @ ?r2"
  have "stops upper ?r2" using n upper_feature_digit(2) by (cases n) (auto simp: digits_def)
  then have g2: "first (Grp 2 (Opt (Cls upper))) ?r1 [(2, FromPtr '''' sub)] ?r2"
    by (intro first_Grp first_subfamily [OF sub])
  have g1: "first (Grp 1 (Cls upper)) ([x] @ ?r1) [(1, [x])] ?r1"
    using f by (intro first_Grp) (simp add: first_Cls)
  have g3: "first (Grp 3 (PlusC is_digit)) ?r2 [(3, n)] ?r3"
    using n con'(3) by (intro first_Grp first_PlusC) (auto simp: digits_def)
  show ?thesis
    unfolding rx_cpus_def
    by (rule first_Seq_one [OF g1 first_Seq_one [OF g2 first_Seq_one [OF g3
        first_Seq_nil [OF con'(1) first_Seq_one [OF first_Grp [OF con'(2)] k]]]]])
qed

definition size_captures :: "VMSizeType \<Rightarrow> captures" where
  "size_captures v =
     (1, Family v) # (2, FromPtr '''' (Subfamily v)) # (3, Cpus v) # (4, FromPtr '''' (CpusConstrained v)) #
     (5, AdditiveFeatures v) # accelerator_captures v @ version_captures v"

lemma stops_features:
  assumes "\<forall>c \<in> set f. feature_char c" "s = [] \<or> hd s = CHR ''_''"
  shows "stops is_digit (f @ s)" "stops (\<lambda>c. c = CHR ''-'') (f @ s)"
proof -
  have "stops is_digit s" "stops (\<lambda>c. c = CHR ''-'') s" using assms(2) by (cases s; simp add: upper_feature_digit(7))+
  then show "stops is_digit (f @ s)" "stops (\<lambda>c. c = CHR ''-'') (f @ s)"
    using assms(1) upper_feature_digit(4,10) [of "hd f"] by (cases f; simp)+
qed

lemma first_size:
  assumes v: "size_ok v"
  shows "first skuSizeScheme (size_name v) (size_captures v) []"
proof -
  obtain x where x: "Family v = [x]" "upper x" using v by (auto simp: size_ok_def)
  obtain s where s: "first (Opt (Lit ''_'')) (suffix_part v) [] s"
    "first (rx_accelerator rx_version) s (accelerator_captures v @ version_captures v) []"
    using first_suffix [OF v] by auto
  have hd: "suffix_part v = [] \<or> hd (suffix_part v) = CHR ''_''"
    by (simp add: suffix_part_def split: option.splits)
  have f: "\<forall>c \<in> set (AdditiveFeatures v). feature_char c" using v by (simp add: size_ok_def)
  have st: "stops is_digit (AdditiveFeatures v @ suffix_part v)" "stops (\<lambda>c. c = CHR ''-'') (AdditiveFeatures v @ suffix_part v)"
    using stops_features [OF f hd] by simp_all
  show ?thesis
    unfolding skuSizeScheme_def size_name_def size_captures_def x(1)
    by (rule first_cpus [OF x(2) _ _ _ st first_features [OF f hd s]])
      (use v in \<open>simp_all add: size_ok_def split: option.splits\<close>)
qed

lemma parse_nat_digits: "digits s \<Longrightarrow> \<exists>n. parse_nat s = Some n \<and> n < 10 ^ length s"
proof -
  have "\<forall>c \<in> set s. is_digit c \<Longrightarrow> \<exists>n. digits_value acc s = Some n \<and> n < (acc + 1) * 10 ^ length s" for acc s
  proof (induction s arbitrary: acc)
    case (Cons c s)
    then obtain d where d: "digit_value c = Some d" "d < 10"
      by (auto simp: is_digit_def digit_value_def Let_def split: if_splits)
    obtain n where n: "digits_value (10 * acc + d) s = Some n" "n < (10 * acc + d + 1) * 10 ^ length s"
      using Cons by auto
    have "(10 * acc + d + 1) * 10 ^ length s \<le> (10 * acc + 10) * 10 ^ length s" using d(2) by (intro mult_right_mono) simp_all
    also have "\<dots> = (acc + 1) * 10 ^ length (c # s)" by (simp add: algebra_simps)
    finally show ?case using n d(1) by auto
  qed simp
  from this [of s 0] show "digits s \<Longrightarrow> ?thesis" by (auto simp: digits_def parse_nat_def)
qed

lemma ParseInt64_digits:
  assumes "digits s" "length s \<le> 18"
  shows "ParseInt64 s \<noteq> None"
proof -
  obtain n where n: "parse_nat s = Some n" "n < 10 ^ length s" using parse_nat_digits [OF assms(1)] by auto
  have "(10 :: nat) ^ length s \<le> 10 ^ 18" using assms(2) by (intro power_increasing) simp_all
  then have "int n < 2 ^ 63" using n(2) by simp
  moreover obtain c cs where "s = c # cs" "is_digit c" using assms(1) by (cases s) (auto simp: digits_def)
  moreover have "c \<noteq> CHR ''-''" "c \<noteq> CHR ''+''"
    using \<open>is_digit c\<close> by (auto simp: is_digit_def digit_value_def)
  ultimately show ?thesis using n(1) by (simp add: ParseInt64_def)
qed

lemma submatch_size:
  "submatch (size_captures v) 1 = Family v"
  "submatch (size_captures v) 2 = FromPtr '''' (Subfamily v)"
  "submatch (size_captures v) 3 = Cpus v"
  "submatch (size_captures v) 4 = FromPtr '''' (CpusConstrained v)"
  "submatch (size_captures v) 5 = AdditiveFeatures v"
  "submatch (size_captures v) 6 = FromPtr '''' (AcceleratorType v)"
  "submatch (size_captures v) 7 = ''''"
  "submatch (size_captures v) 8 = Version v"
  "submatch (size_captures v) 9 = (if PromoVersion v then ''_Promo'' else '''')"
  by (auto simp: submatch_def size_captures_def accelerator_captures_def version_captures_def split: option.splits)

lemma getVMSize_size_name:
  assumes "size_ok v"
  shows "getVMSize (size_name v) = Ok v"
proof -
  have p: "parseVMSize (size_name v) = Ok (size_captures v)"
    by (simp add: parseVMSize_def rx_find_anchored_first [OF first_size [OF assms]])
  have opt: "optional (FromPtr '''' (Subfamily v)) = Subfamily v" "optional (FromPtr '''' (CpusConstrained v)) = CpusConstrained v"
    "optional (FromPtr '''' (AcceleratorType v)) = AcceleratorType v"
    using assms by (auto simp: size_ok_def optional_def digits_def accelerator_ok_def split: option.splits)
  have "\<not> (0 < length (FromPtr '''' (CpusConstrained v)) \<and> ParseInt64 (FromPtr '''' (CpusConstrained v)) = None)"
    using assms ParseInt64_digits by (auto simp: size_ok_def split: option.splits)
  then have "getVMSize (size_name v) =
      Ok \<lparr>Family = Family v, Subfamily = Subfamily v, Cpus = Cpus v, CpusConstrained = CpusConstrained v,
        AdditiveFeatures = AdditiveFeatures v, AcceleratorType = AcceleratorType v, ConfidentialChildCapability = False,
        Version = Version v, PromoVersion = PromoVersion v,
        Series = series (Family v) (Subfamily v) (AdditiveFeatures v) (Version v)\<rparr>"
    unfolding getVMSize_def p res.case submatch_size opt by simp
  also have "\<dots> = Ok v" using assms by (simp add: size_ok_def)
  finally show ?thesis .
qed

text \<open>
  C30. A VM size named after Azure's convention is taken apart into exactly its parts, and its
  series is family, sub-family, features and version: every size with an upper-case family, an
  optional sub-family letter, vCPUs, optionally constrained vCPUs, features, an accelerator and
  a version (with or without promotion) is read back from its name.
\<close>

theorem getVMSize_round_trip:
  assumes "size_ok v"
  shows "getVMSize (size_name v) = Ok v"
  using assms by (rule getVMSize_size_name)

definition a100_size :: VMSizeType where
  "a100_size =
     \<lparr>Family = ''N'', Subfamily = Some ''C'', Cpus = ''24'', CpusConstrained = None, AdditiveFeatures = ''ads'',
      AcceleratorType = Some ''A100'', ConfidentialChildCapability = False, Version = ''v4'', PromoVersion = False,
      Series = ''NCads_v4''\<rparr>"

lemma a100_size_ok: "size_ok a100_size"
  by (simp add: size_ok_def a100_size_def digits_def accelerator_ok_def series_def upper_def is_digit_def digit_value_def
      feature_char_def version_digit_def)

lemma a100_size_name: "size_name a100_size = ''NC24ads_A100_v4''"
  by (simp add: size_name_def constrained_part_def a100_size_def suffix_part_def version_part_def)

theorem getVMSize_round_trip_witness:
  "size_ok a100_size \<and> getVMSize ''NC24ads_A100_v4'' = Ok a100_size"
  using getVMSize_round_trip [OF a100_size_ok] a100_size_ok by (simp add: a100_size_name)

subsection \<open>Listing every page\<close>

text \<open>
  \<open>page_chain fn p w ps w'\<close>: starting behind page \<open>p\<close>, the service hands out the pages \<open>ps\<close> and then
  an empty page without a next link.
\<close>

inductive page_chain ::
  "(ResourceSkusResult \<Rightarrow> ('w, ResourceSkusResult) act) \<Rightarrow> ResourceSkusResult \<Rightarrow> 'w \<Rightarrow> ResourceSkusResult list \<Rightarrow> 'w \<Rightarrow> bool"
  for fn where
  chain_end: "fn p w = (Ok q, w') \<Longrightarrow> IsEmpty q \<Longrightarrow> \<not> hasNextLink q \<Longrightarrow> page_chain fn p w [] w'"
| chain_page: "fn p w = (Ok q, w1) \<Longrightarrow> hasNextLink q \<or> \<not> IsEmpty q \<Longrightarrow> page_chain fn q w1 ps w'
    \<Longrightarrow> page_chain fn p w (q # ps) w'"

lemma page_Values_empty [simp]: "IsEmpty p \<Longrightarrow> page_Values p = []"
  by (simp add: page_Values_def)

lemma page_Values_nonempty: "\<not> IsEmpty p \<Longrightarrow> page_Values p \<noteq> []"
  by (auto simp: page_Values_def IsEmpty_def split: option.splits)

text \<open>The next page that has values, or the end.\<close>

lemma next_page:
  assumes "page_chain fn p w ps w'"
  shows "(\<exists>q. page_NextWithContext fn p w = Some (Ok q, w') \<and> IsEmpty q \<and> concat (map page_Values ps) = []) \<or>
    (\<exists>q w1 qs. page_NextWithContext fn p w = Some (Ok q, w1) \<and> \<not> IsEmpty q \<and> page_chain fn q w1 qs w' \<and>
       length qs < length ps \<and> concat (map page_Values ps) = page_Values q @ concat (map page_Values qs))"
  using assms
proof induction
  case (chain_end p w q w')
  then show ?case by (subst page_NextWithContext.simps) simp
next
  case (chain_page p w q w1 ps w')
  show ?case
  proof (cases "IsEmpty q")
    case True
    then have "page_NextWithContext fn p w = page_NextWithContext fn q w1"
      using chain_page by (subst page_NextWithContext.simps) simp
    then show ?thesis using chain_page.IH True by (fastforce simp: less_SucI)
  next
    case False
    then have "page_NextWithContext fn p w = Some (Ok q, w1)"
      using chain_page by (subst page_NextWithContext.simps) simp
    then show ?thesis using False chain_page by auto
  qed
qed

lemma walk_page:
  assumes "i < length (page_Values p)" "\<not> IsEmpty p"
  shows "iterateLoop fn \<lparr>it_i = i, it_page = p\<rparr> acc w =
    iterateLoop fn \<lparr>it_i = length (page_Values p) - 1, it_page = p\<rparr>
      (acc @ take (length (page_Values p) - 1 - i) (drop i (page_Values p))) w"
  using assms(1)
proof (induction "length (page_Values p) - 1 - i" arbitrary: i acc)
  case 0
  then have "i = length (page_Values p) - 1" by simp
  then show ?case by simp
next
  case (Suc n)
  then have i: "i + 1 < length (page_Values p)" by simp
  then have "iterateLoop fn \<lparr>it_i = i, it_page = p\<rparr> acc w =
      iterateLoop fn \<lparr>it_i = i + 1, it_page = p\<rparr> (acc @ [page_Values p ! i]) w"
    using assms(2) by (subst iterateLoop.simps) (simp add: NotDone_def iter_NextWithContext_def)
  also have "\<dots> = iterateLoop fn \<lparr>it_i = length (page_Values p) - 1, it_page = p\<rparr>
      ((acc @ [page_Values p ! i]) @ take (length (page_Values p) - 1 - (i + 1)) (drop (i + 1) (page_Values p))) w"
    using Suc.hyps(2) i by (intro Suc.hyps(1)) simp_all
  also have "(acc @ [page_Values p ! i]) @ take (length (page_Values p) - 1 - (i + 1)) (drop (i + 1) (page_Values p)) =
      acc @ take (length (page_Values p) - 1 - i) (drop i (page_Values p))"
  proof -
    have "length (page_Values p) - 1 - i = Suc (length (page_Values p) - 1 - (i + 1))" using i by simp
    moreover have "drop i (page_Values p) = page_Values p ! i # drop (i + 1) (page_Values p)"
      using Cons_nth_drop_Suc [of i "page_Values p"] i by simp
    ultimately show ?thesis by simp
  qed
  finally show ?case .
qed

lemma iterateLoop_page:
  assumes "\<not> IsEmpty p" "page_NextWithContext fn p w = Some (Ok q, w1)"
  shows "iterateLoop fn \<lparr>it_i = 0, it_page = p\<rparr> acc w = iterateLoop fn \<lparr>it_i = 0, it_page = q\<rparr> (acc @ page_Values p) w1"
proof -
  let ?vs = "page_Values p"
  have vs: "?vs \<noteq> []" using assms(1) by (rule page_Values_nonempty)
  then have "iterateLoop fn \<lparr>it_i = 0, it_page = p\<rparr> acc w =
      iterateLoop fn \<lparr>it_i = length ?vs - 1, it_page = p\<rparr> (acc @ take (length ?vs - 1) ?vs) w"
    using walk_page [of 0 p fn acc w] assms(1) by simp
  also have "\<dots> = iterateLoop fn \<lparr>it_i = 0, it_page = q\<rparr> ((acc @ take (length ?vs - 1) ?vs) @ [?vs ! (length ?vs - 1)]) w1"
    using vs assms by (subst iterateLoop.simps) (simp add: NotDone_def iter_NextWithContext_def)
  also have "(acc @ take (length ?vs - 1) ?vs) @ [?vs ! (length ?vs - 1)] = acc @ ?vs"
    using append_butlast_last_id [OF vs] by (simp add: butlast_conv_take last_conv_nth [OF vs])
  finally show ?thesis .
qed

lemma iterateLoop_chain:
  assumes "page_chain fn p w ps w'" "\<not> IsEmpty p"
  shows "iterateLoop fn \<lparr>it_i = 0, it_page = p\<rparr> acc w = Some (Ok (acc @ concat (map page_Values (p # ps))), w')"
  using assms
proof (induction "length ps" arbitrary: p w ps acc rule: less_induct)
  case less
  from next_page [OF less.prems(1)] show ?case
  proof (elim disjE exE conjE)
    fix q assume q: "page_NextWithContext fn p w = Some (Ok q, w')" "IsEmpty q" "concat (map page_Values ps) = []"
    have "iterateLoop fn \<lparr>it_i = 0, it_page = q\<rparr> (acc @ page_Values p) w' = Some (Ok (acc @ page_Values p), w')"
      using q(2) by (subst iterateLoop.simps) (simp add: NotDone_def)
    then show ?thesis using iterateLoop_page [OF less.prems(2) q(1)] q(3) by (simp del: concat_eq_Nil_conv)
  next
    fix q w1 qs
    assume q: "page_NextWithContext fn p w = Some (Ok q, w1)" "\<not> IsEmpty q" "page_chain fn q w1 qs w'"
      "length qs < length ps" "concat (map page_Values ps) = page_Values q @ concat (map page_Values qs)"
    show ?thesis
      using iterateLoop_page [OF less.prems(2) q(1)] less.hyps [OF q(4,3,2)] q(5) by simp
  qed
qed

lemma iterate_chain:
  assumes "fst client filt ext w = (Ok \<lparr>it_i = 0, it_page = p\<rparr>, w1)" "\<not> IsEmpty p" "page_chain (snd client) p w1 ps w2"
  shows "iterate client filt ext w = Some (Ok (concat (map page_Values (p # ps))), w2)"
  using assms iterateLoop_chain [OF assms(3,2), of "[]"] by (simp add: iterate_def)

text \<open>The options of the instance type provider: a location and its own client.\<close>

lemma NewCache_location:
  "NewCache [WithLocation r, WithResourceClient cl] w = iterate cl (''location eq '' @ [CHR 0x27] @ r @ [CHR 0x27]) '''' w"
  by (simp add: NewCache_def WithLocation_def WithResourceClient_def)

end
