(* ===== verification/Quantities.thy ===== *)
theory Quantities
  imports KubeTypes GoFloat
begin

text \<open>
  Resource quantities and lists: parsing and reading of \<open>resource.Quantity\<close> (apimachinery) and
  the list operations of karpenter-core's \<open>resources\<close> package, both vendored. A quantity is its
  number of nano units (\<open>KubeTypes\<close>); how it would be printed back is not kept.
\<close>

subsection \<open>Definitions\<close>

text \<open>\<open>quantitySuffixer.interpret\<close>: the multiplier and whether the suffix is binary.\<close>

definition interpret_suffix :: "string \<Rightarrow> (rat \<times> bool) option" where
  "interpret_suffix s =
     (case map_of
        [('''', (1, False)), (''n'', (1 / 10 ^ 9, False)), (''u'', (1 / 10 ^ 6, False)), (''m'', (1 / 10 ^ 3, False)),
         (''k'', (10 ^ 3, False)), (''M'', (10 ^ 6, False)), (''G'', (10 ^ 9, False)), (''T'', (10 ^ 12, False)),
         (''P'', (10 ^ 15, False)), (''E'', (10 ^ 18, False)),
         (''Ki'', (2 ^ 10, True)), (''Mi'', (2 ^ 20, True)), (''Gi'', (2 ^ 30, True)), (''Ti'', (2 ^ 40, True)),
         (''Pi'', (2 ^ 50, True)), (''Ei'', (2 ^ 60, True))] s of
        Some x \<Rightarrow> Some x
      | None \<Rightarrow>
          (case s of
             c # ex \<Rightarrow>
               if (c = CHR ''E'' \<or> c = CHR ''e'') \<and> ex \<noteq> []
               then map_option (\<lambda>k. (pow10 (int32_of k), False)) (ParseInt64 ex) else None
           | [] \<Rightarrow> None))"

definition ceiling_away :: "rat \<Rightarrow> int" where
  "ceiling_away q = (if 0 \<le> q then \<lceil>q\<rceil> else - \<lceil>- q\<rceil>)"

text \<open>
  \<open>ParseQuantity\<close>: a sign, a number whose digits may be missing, a suffix; rounded away from
  zero to a whole number of nano units, and capped when the suffix is binary.
\<close>

definition ParseQuantity :: "string \<Rightarrow> Quantity option" where
  "ParseQuantity str =
     (if str = [] then None
      else
        (let neg = (hd str = CHR ''-'');
             body = (if hd str = CHR ''-'' \<or> hd str = CHR ''+'' then tl str else str);
             (num, denom, suf) = scan_number body
         in case interpret_suffix suf of
              None \<Rightarrow> None
            | Some (mult, binary) \<Rightarrow>
                (let amount = decimal_value num denom * mult;
                     capped = (if binary then min amount (2 ^ 63 - 1) else amount);
                     nano = ceiling_away (capped * 10 ^ 9)
                 in Some (if neg then - nano else nano))))"

definition MustParse :: "string \<Rightarrow> Quantity res" where
  "MustParse str =
     (case ParseQuantity str of
        Some q \<Rightarrow> Ok q
      | None \<Rightarrow> Panic (''cannot parse '' @ str))"

definition MilliValue :: "Quantity \<Rightarrow> int" where
  "MilliValue q = int64_of (div_away q (10 ^ 6))"

text \<open>\<open>ScaledValue(resource.Mega)\<close>.\<close>

definition MegaValue :: "Quantity \<Rightarrow> int" where
  "MegaValue q = int64_of (div_away q (10 ^ 15))"

definition NewMilliQuantity :: "int \<Rightarrow> Quantity" where
  "NewMilliQuantity v = v * 10 ^ 6"

text \<open>\<open>resources.Merge\<close> sums, \<open>Subtract\<close> keeps the keys of its left side, \<open>MaxResources\<close> takes the larger.\<close>

definition Merge2 :: "ResourceList \<Rightarrow> ResourceList \<Rightarrow> ResourceList" where
  "Merge2 a b = (\<lambda>k. case b k of None \<Rightarrow> a k | Some q \<Rightarrow> Some ((case a k of None \<Rightarrow> 0 | Some p \<Rightarrow> p) + q))"

definition Merge :: "ResourceList list \<Rightarrow> ResourceList" where
  "Merge rs = foldl Merge2 Map.empty rs"

definition Subtract :: "ResourceList \<Rightarrow> ResourceList \<Rightarrow> ResourceList" where
  "Subtract lhs rhs = (\<lambda>k. map_option (\<lambda>v. case rhs k of Some r \<Rightarrow> v - r | None \<Rightarrow> v) (lhs k))"

definition Max2 :: "ResourceList \<Rightarrow> ResourceList \<Rightarrow> ResourceList" where
  "Max2 a b = (\<lambda>k. case b k of
     None \<Rightarrow> a k
   | Some q \<Rightarrow> (case a k of None \<Rightarrow> Some q | Some p \<Rightarrow> if p < q then Some q else Some p))"

definition MaxResources :: "ResourceList list \<Rightarrow> ResourceList" where
  "MaxResources rs = foldl Max2 Map.empty rs"

subsection \<open>Reading numbers back\<close>

lemma is_digit_digit_char [simp]: "d < 10 \<Longrightarrow> is_digit (digit_char d)"
  by (simp add: is_digit_def)

lemma show_nat_is_digit: "c \<in> set (show_nat n) \<Longrightarrow> is_digit c"
  using show_nat_digits [of c n] by auto

lemma pad6_is_digit: "c \<in> set (pad6 n) \<Longrightarrow> is_digit c"
  by (auto simp: pad6_def)

lemma horner6:
  "(k :: nat) = 10 * k1 + r0 \<Longrightarrow> k1 = 10 * k2 + r1 \<Longrightarrow> k2 = 10 * k3 + r2 \<Longrightarrow> k3 = 10 * k4 + r3 \<Longrightarrow>
   k4 = 10 * k5 + r4 \<Longrightarrow>
   10 * (10 * (10 * (10 * (10 * (10 * acc + k5) + r4) + r3) + r2) + r1) + r0 = acc * 1000000 + k"
  by simp

lemma digits_value_pad6:
  assumes "k < 10 ^ 6"
  shows "digits_value acc (pad6 k) = Some (acc * 10 ^ 6 + k)"
proof -
  have "digits_value acc (pad6 k) =
      Some (10 * (10 * (10 * (10 * (10 * (10 * acc + k div 100000 mod 10) + k div 10000 mod 10)
        + k div 1000 mod 10) + k div 100 mod 10) + k div 10 mod 10) + k mod 10)"
    by (simp add: pad6_def)
  also have "10 * (10 * (10 * (10 * (10 * (10 * acc + k div 100000 mod 10) + k div 10000 mod 10)
        + k div 1000 mod 10) + k div 100 mod 10) + k div 10 mod 10) + k mod 10 = acc * 10 ^ 6 + k"
  proof -
    have d: "k div 10 = 10 * (k div 100) + k div 10 mod 10" "k div 100 = 10 * (k div 1000) + k div 100 mod 10"
      "k div 1000 = 10 * (k div 10000) + k div 1000 mod 10"
      "k div 10000 = 10 * (k div 100000) + k div 10000 mod 10" "k = 10 * (k div 10) + k mod 10"
    proof -
      have e: "k div 100 = k div 10 div 10" "k div 1000 = k div 100 div 10"
        "k div 10000 = k div 1000 div 10" "k div 100000 = k div 10000 div 10"
        by (simp_all flip: div_mult2_eq)
      show "k div 10 = 10 * (k div 100) + k div 10 mod 10" "k div 100 = 10 * (k div 1000) + k div 100 mod 10"
        "k div 1000 = 10 * (k div 10000) + k div 1000 mod 10"
        "k div 10000 = 10 * (k div 100000) + k div 10000 mod 10" "k = 10 * (k div 10) + k mod 10"
        by (simp_all only: e mult_div_mod_eq)
    qed
    have "k div 100000 < 10" using assms by (simp add: div_less_iff_less_mult)
    then have m: "k div 100000 mod 10 = k div 100000" by simp
    have p: "(10 :: nat) ^ 6 = 1000000" by simp
    show ?thesis unfolding p m by (rule horner6 [OF d(5) d(1-4)])
  qed
  finally show ?thesis .
qed

lemma scan_digits:
  assumes "\<forall>c \<in> set ds. is_digit c" "case rest of [] \<Rightarrow> True | c # _ \<Rightarrow> \<not> is_digit c \<and> c \<noteq> CHR ''.''"
  shows "scan_number (ds @ rest) = (ds, [], rest)"
proof -
  have ds: "dropWhile is_digit ds = []" "takeWhile is_digit ds = ds"
    using assms(1) by (simp_all add: takeWhile_eq_all_conv)
  show ?thesis
    using assms by (cases rest) (simp_all add: scan_number_def Let_def takeWhile_append dropWhile_append ds)
qed

lemma scan_decimal:
  assumes "\<forall>c \<in> set ds. is_digit c" "\<forall>c \<in> set fs. is_digit c"
    and "case rest of [] \<Rightarrow> True | c # _ \<Rightarrow> \<not> is_digit c"
  shows "scan_number (ds @ CHR ''.'' # fs @ rest) = (ds, fs, rest)"
proof -
  have "\<not> is_digit (CHR ''.'')" by (simp add: is_digit_def digit_value_def)
  moreover have ds: "dropWhile is_digit fs = []" "takeWhile is_digit fs = fs" "takeWhile is_digit ds = ds"
    "dropWhile is_digit ds = []"
    using assms(1,2) by (simp_all add: takeWhile_eq_all_conv)
  ultimately show ?thesis
    using assms by (cases rest) (simp_all add: scan_number_def Let_def takeWhile_append dropWhile_append ds)
qed

lemma not_sign_digit: "is_digit c \<Longrightarrow> c \<noteq> CHR ''-'' \<and> c \<noteq> CHR ''+''"
  by (auto simp: is_digit_def digit_value_def)

lemma ParseQuantity_unsigned:
  assumes "s \<noteq> []" "is_digit (hd s)" "scan_number s = (num, denom, suf)" "interpret_suffix suf = Some (mult, binary)"
  shows "ParseQuantity s = Some (ceiling_away
    ((if binary then min (decimal_value num denom * mult) (2 ^ 63 - 1) else decimal_value num denom * mult) * 10 ^ 9))"
  using assms not_sign_digit [of "hd s"] by (simp add: ParseQuantity_def Let_def)

lemma ceiling_away_int [simp]: "ceiling_away (of_int n) = n"
proof -
  have "\<lceil>- (of_int n) :: rat\<rceil> = - n" by (metis ceiling_of_int of_int_minus)
  then show ?thesis by (simp add: ceiling_away_def)
qed

lemma decimal_value_show_nat: "decimal_value (show_nat n) [] = of_nat n"
  by (simp add: decimal_value_def digits_value_show_nat)

lemma hd_show_nat_digit: "is_digit (hd (show_nat n))"
  using show_nat_is_digit [of "hd (show_nat n)" n] by simp

lemma ParseQuantity_show_nat: "ParseQuantity (show_nat n) = Some (whole (int n))"
proof -
  have "scan_number (show_nat n @ []) = (show_nat n, [], [])"
    by (rule scan_digits) (auto dest: show_nat_is_digit)
  moreover have "interpret_suffix [] = Some (1, False)" by (simp add: interpret_suffix_def)
  ultimately have "ParseQuantity (show_nat n) = Some (ceiling_away (of_nat n * 10 ^ 9))"
    using ParseQuantity_unsigned [of "show_nat n" "show_nat n" "[]" "[]" 1 False] hd_show_nat_digit [of n]
    by (simp add: decimal_value_show_nat)
  moreover have "(of_nat n * 10 ^ 9 :: rat) = of_int (whole (int n))" by (simp add: whole_def)
  ultimately show ?thesis by (simp only: ceiling_away_int)
qed

lemma ParseQuantity_show_int: "ParseQuantity (show_int i) = Some (whole i)"
proof (cases "i < 0")
  case True
  let ?n = "nat (- i)"
  have "scan_number (show_nat ?n @ []) = (show_nat ?n, [], [])"
    by (rule scan_digits) (auto dest: show_nat_is_digit)
  moreover have "interpret_suffix [] = Some (1, False)" by (simp add: interpret_suffix_def)
  moreover have "(of_nat ?n * 10 ^ 9 :: rat) = of_int (whole (int ?n))" by (simp add: whole_def)
  ultimately show ?thesis
    using True by (simp add: ParseQuantity_def show_int_def decimal_value_show_nat Let_def)
      (simp add: whole_def)
next
  case False
  then show ?thesis using ParseQuantity_show_nat [of "nat i"] by (simp add: show_int_def)
qed

lemma ParseQuantity_binary:
  assumes "interpret_suffix (c # suf) = Some (2 ^ k, True)" "\<not> is_digit c" "c \<noteq> CHR ''.''" "n * 2 ^ k < 2 ^ 63"
  shows "ParseQuantity (show_nat n @ c # suf) = Some (whole (int n * 2 ^ k))"
proof -
  have "scan_number (show_nat n @ c # suf) = (show_nat n, [], c # suf)"
    using assms(2,3) by (intro scan_digits) (auto dest: show_nat_is_digit)
  moreover have "is_digit (hd (show_nat n @ c # suf))" using hd_show_nat_digit [of n] by simp
  ultimately have "ParseQuantity (show_nat n @ c # suf) =
      Some (ceiling_away (min (of_nat n * 2 ^ k) (2 ^ 63 - 1) * 10 ^ 9))"
    using ParseQuantity_unsigned [of "show_nat n @ c # suf" "show_nat n" "[]" "c # suf" "2 ^ k" True] assms(1)
    by (simp add: decimal_value_show_nat)
  moreover have "min (of_nat n * 2 ^ k) (2 ^ 63 - 1) = (of_nat n * 2 ^ k :: rat)"
  proof -
    have "n * 2 ^ k \<le> 2 ^ 63 - 1" using assms(4) by linarith
    then have "(of_nat (n * 2 ^ k) :: rat) \<le> of_nat (2 ^ 63 - 1)" by (simp only: of_nat_le_iff)
    then show ?thesis by simp
  qed
  moreover have "(of_nat n * 2 ^ k * 10 ^ 9 :: rat) = of_int (whole (int n * 2 ^ k))" by (simp add: whole_def)
  ultimately show ?thesis by (simp only: ceiling_away_int)
qed

lemma ParseQuantity_Mi: "n < 2 ^ 40 \<Longrightarrow> ParseQuantity (show_nat n @ ''Mi'') = Some (whole (int n * 2 ^ 20))"
  by (rule ParseQuantity_binary) (simp_all add: interpret_suffix_def is_digit_def digit_value_def)

lemma ParseQuantity_G:
  assumes "k < 10 ^ 6"
  shows "ParseQuantity (show_nat n @ ''.'' @ pad6 k @ ''G'') = Some (whole ((int n * 10 ^ 6 + int k) * 1000))"
proof -
  have "\<not> is_digit (CHR ''G'')" by (simp add: is_digit_def digit_value_def)
  then have "scan_number (show_nat n @ CHR ''.'' # pad6 k @ ''G'') = (show_nat n, pad6 k, ''G'')"
    by (intro scan_decimal) (auto dest: show_nat_is_digit pad6_is_digit)
  moreover have "interpret_suffix ''G'' = Some (10 ^ 9, False)" by (simp add: interpret_suffix_def)
  moreover have "is_digit (hd (show_nat n @ CHR ''.'' # pad6 k @ ''G''))" using hd_show_nat_digit [of n] by simp
  moreover have "decimal_value (show_nat n) (pad6 k) = of_nat (n * 10 ^ 6 + k) / 10 ^ 6"
  proof -
    have "digits_value 0 (show_nat n @ pad6 k) = Some (n * 10 ^ 6 + k)"
      using digits_value_pad6 [OF assms, of n] by (simp add: digits_value_append digits_value_show_nat)
    moreover have "length (pad6 k) = 6" by (simp add: pad6_def)
    ultimately show ?thesis by (simp add: decimal_value_def)
  qed
  ultimately have "ParseQuantity (show_nat n @ CHR ''.'' # pad6 k @ ''G'') =
      Some (ceiling_away (of_nat (n * 10 ^ 6 + k) / 10 ^ 6 * 10 ^ 9 * 10 ^ 9))"
    using ParseQuantity_unsigned [of "show_nat n @ CHR ''.'' # pad6 k @ ''G''" "show_nat n" "pad6 k" "''G''" "10 ^ 9" False]
    by (simp only: if_False append_is_Nil_conv list.distinct simp_thms)
  moreover have "(of_nat (n * 10 ^ 6 + k) / 10 ^ 6 * 10 ^ 9 * 10 ^ 9 :: rat) = of_int (whole ((int n * 10 ^ 6 + int k) * 1000))"
    by (simp add: whole_def algebra_simps)
  ultimately show ?thesis by (simp only: ceiling_away_int append_Cons append_Nil)
qed

end
