(* ===== verification/Cache.thy ===== *)
theory Cache
  imports GoStrings
begin

text \<open>
  Offerings that recently failed for lack of capacity (\<open>pkg/cache/\<close>), over the expiring cache
  they are kept in (\<open>go-cache\<close>, vendored). Times are nanoseconds since the epoch and passed
  explicitly, so that reads, writes and the janitor's sweeps interleave in any order.
\<close>

subsection \<open>The expiring cache\<close>

record 'v Item =
  Object :: 'v
  Expiration :: int

record 'v cache =
  defaultExpiration :: int
  items :: "string \<rightharpoonup> 'v Item"

definition Expired :: "int \<Rightarrow> 'v Item \<Rightarrow> bool" where
  "Expired now item = (if Expiration item = 0 then False else Expiration item < now)"

definition newCache :: "int \<Rightarrow> (string \<rightharpoonup> 'v Item) \<Rightarrow> 'v cache" where
  "newCache de m = \<lparr>defaultExpiration = (if de = 0 then -1 else de), items = m\<rparr>"

definition New :: "int \<Rightarrow> 'v cache" where
  "New de = newCache de Map.empty"

definition Set :: "int \<Rightarrow> 'v cache \<Rightarrow> string \<Rightarrow> 'v \<Rightarrow> int \<Rightarrow> 'v cache" where
  "Set now c k x d =
     (let d = (if d = 0 then defaultExpiration c else d);
          e = (if 0 < d then now + d else 0)
      in c\<lparr>items := (items c)(k \<mapsto> \<lparr>Object = x, Expiration = e\<rparr>)\<rparr>)"

definition SetDefault :: "int \<Rightarrow> 'v cache \<Rightarrow> string \<Rightarrow> 'v \<Rightarrow> 'v cache" where
  "SetDefault now c k x = Set now c k x 0"

definition cache_Get :: "int \<Rightarrow> 'v cache \<Rightarrow> string \<Rightarrow> 'v option" where
  "cache_Get now c k =
     (case items c k of
        None \<Rightarrow> None
      | Some item \<Rightarrow>
          if 0 < Expiration item \<and> Expiration item < now then None else Some (Object item))"

definition DeleteExpired :: "int \<Rightarrow> 'v cache \<Rightarrow> 'v cache" where
  "DeleteExpired now c =
     c\<lparr>items := (\<lambda>k. case items c k of
         None \<Rightarrow> None
       | Some v \<Rightarrow> if 0 < Expiration v \<and> Expiration v < now then None else Some v)\<rparr>"

definition cache_Flush :: "'v cache \<Rightarrow> 'v cache" where
  "cache_Flush c = c\<lparr>items := Map.empty\<rparr>"

subsection \<open>Unavailable offerings\<close>

abbreviation minute :: int where
  "minute \<equiv> 60 * 1000000000"

definition KubernetesVersionTTL :: int where
  "KubernetesVersionTTL = 15 * minute"

definition UnavailableOfferingsTTL :: int where
  "UnavailableOfferingsTTL = 3 * minute"

definition DefaultCleanupInterval :: int where
  "DefaultCleanupInterval = 10 * minute"

record UnavailableOfferings =
  uo_cache :: "unit cache"

definition NewUnavailableOfferingsWithCache :: "unit cache \<Rightarrow> UnavailableOfferings" where
  "NewUnavailableOfferingsWithCache c = \<lparr>uo_cache = c\<rparr>"

definition NewUnavailableOfferings :: UnavailableOfferings where
  "NewUnavailableOfferings = \<lparr>uo_cache = New UnavailableOfferingsTTL\<rparr>"

definition key :: "string \<Rightarrow> string \<Rightarrow> string \<Rightarrow> string" where
  "key instanceType zone capacityType = capacityType @ '':'' @ instanceType @ '':'' @ zone"

definition IsUnavailable :: "int \<Rightarrow> UnavailableOfferings \<Rightarrow> string \<Rightarrow> string \<Rightarrow> string \<Rightarrow> bool" where
  "IsUnavailable now u instanceType zone capacityType =
     (cache_Get now (uo_cache u) (key instanceType zone capacityType) \<noteq> None)"

definition MarkUnavailable ::
  "int \<Rightarrow> UnavailableOfferings \<Rightarrow> string \<Rightarrow> string \<Rightarrow> string \<Rightarrow> UnavailableOfferings" where
  "MarkUnavailable now u instanceType zone capacityType =
     u\<lparr>uo_cache := SetDefault now (uo_cache u) (key instanceType zone capacityType) ()\<rparr>"

definition Flush :: "UnavailableOfferings \<Rightarrow> UnavailableOfferings" where
  "Flush u = u\<lparr>uo_cache := cache_Flush (uo_cache u)\<rparr>"

subsection \<open>A store whose entries live for a fixed time\<close>

text \<open>
  The contract the offerings rely on: an entry written at time \<open>t\<close> is read back until \<open>t + ttl\<close>
  and not after, sweeping never changes what later reads see, and keys do not interfere.
  \<open>ok\<close> is the provider's invariant.
\<close>

locale ttl_store =
  fixes put :: "int \<Rightarrow> 's \<Rightarrow> 'k \<Rightarrow> 's" and live :: "int \<Rightarrow> 's \<Rightarrow> 'k \<Rightarrow> bool"
    and sweep :: "int \<Rightarrow> 's \<Rightarrow> 's" and clear :: "'s \<Rightarrow> 's" and ok :: "'s \<Rightarrow> bool" and ttl :: int
  assumes ok_put: "ok s \<Longrightarrow> 0 \<le> t \<Longrightarrow> ok (put t s k)"
    and ok_sweep: "ok s \<Longrightarrow> ok (sweep t s)"
    and ok_clear: "ok s \<Longrightarrow> ok (clear s)"
    and live_put: "ok s \<Longrightarrow> 0 \<le> t \<Longrightarrow> live now (put t s k) k' \<longleftrightarrow> (if k' = k then now \<le> t + ttl else live now s k')"
    and live_sweep: "ok s \<Longrightarrow> t \<le> now \<Longrightarrow> live now (sweep t s) k \<longleftrightarrow> live now s k"
    and live_clear: "ok s \<Longrightarrow> \<not> live now (clear s) k"
begin

lemma put_again_extends:
  "ok s \<Longrightarrow> 0 \<le> t1 \<Longrightarrow> 0 \<le> t2 \<Longrightarrow> live now (put t2 (put t1 s k) k) k \<longleftrightarrow> now \<le> t2 + ttl"
  by (simp add: live_put ok_put)

lemma put_commute:
  assumes "ok s" "0 \<le> t1" "0 \<le> t2" "k1 \<noteq> k2"
  shows "live now (put t1 (put t2 s k2) k1) k \<longleftrightarrow> live now (put t2 (put t1 s k1) k2) k"
  using assms by (simp add: live_put ok_put)

end

definition cache_ok :: "int \<Rightarrow> 'v cache \<Rightarrow> bool" where
  "cache_ok ttl c \<longleftrightarrow> defaultExpiration c = ttl \<and> 0 < ttl \<and> (\<forall>k v. items c k = Some v \<longrightarrow> 0 < Expiration v)"

lemma cache_ok_Set: "cache_ok ttl c \<Longrightarrow> 0 \<le> t \<Longrightarrow> cache_ok ttl (SetDefault t c k x)"
  by (auto simp: cache_ok_def SetDefault_def Set_def Let_def)

lemma cache_Get_Set:
  "cache_ok ttl c \<Longrightarrow> 0 \<le> t \<Longrightarrow>
   cache_Get now (SetDefault t c k x) k' = (if k' = k then (if now \<le> t + ttl then Some x else None) else cache_Get now c k')"
  by (auto simp: cache_ok_def cache_Get_def SetDefault_def Set_def Let_def)

lemma cache_Get_DeleteExpired: "t \<le> now \<Longrightarrow> cache_Get now (DeleteExpired t c) k = cache_Get now c k"
  by (auto simp: cache_Get_def DeleteExpired_def split: option.splits)

interpretation offerings_store: ttl_store
  "\<lambda>t c k. SetDefault t c k ()" "\<lambda>now c k. cache_Get now c k \<noteq> None" DeleteExpired cache_Flush
  "cache_ok UnavailableOfferingsTTL" UnavailableOfferingsTTL
proof unfold_locales
  fix s :: "unit cache" and t now :: int and k k' :: string
  let ?ok = "cache_ok UnavailableOfferingsTTL"
  show "?ok (SetDefault t s k ())" if "?ok s" "0 \<le> t" using that by (rule cache_ok_Set)
  show "?ok (DeleteExpired t s)" if "?ok s"
    using that by (auto simp: cache_ok_def DeleteExpired_def split: option.splits if_splits)
  show "?ok (cache_Flush s)" if "?ok s" using that by (simp add: cache_ok_def cache_Flush_def)
  show "(cache_Get now (SetDefault t s k ()) k' \<noteq> None) =
      (if k' = k then now \<le> t + UnavailableOfferingsTTL else cache_Get now s k' \<noteq> None)" if "?ok s" "0 \<le> t"
    using that by (simp add: cache_Get_Set)
  show "(cache_Get now (DeleteExpired t s) k \<noteq> None) = (cache_Get now s k \<noteq> None)" if "?ok s" "t \<le> now"
    using that by (simp add: cache_Get_DeleteExpired)
  show "\<not> cache_Get now (cache_Flush s) k \<noteq> None" if "?ok s"
    by (simp add: cache_Get_def cache_Flush_def)
qed

subsection \<open>Any interleaving of marks, sweeps and flushes\<close>

datatype uo_event =
    MarkE string string string
  | SweepE
  | FlushE

fun apply_event :: "UnavailableOfferings \<Rightarrow> int \<times> uo_event \<Rightarrow> UnavailableOfferings" where
  "apply_event u (t, MarkE it z ct) = MarkUnavailable t u it z ct"
| "apply_event u (t, SweepE) = u\<lparr>uo_cache := DeleteExpired t (uo_cache u)\<rparr>"
| "apply_event u (t, FlushE) = Flush u"

definition run_events :: "(int \<times> uo_event) list \<Rightarrow> UnavailableOfferings" where
  "run_events es = foldl apply_event NewUnavailableOfferings es"

text \<open>The time of the last mark of an offering since the last flush.\<close>

fun last_mark :: "string \<times> string \<times> string \<Rightarrow> (int \<times> uo_event) list \<Rightarrow> int option" where
  "last_mark off [] = None"
| "last_mark off ((t, MarkE it z ct) # es) =
     (if (it, z, ct) = off then Some t else last_mark off es)"
| "last_mark off ((t, SweepE) # es) = last_mark off es"
| "last_mark off ((t, FlushE) # es) = None"

text \<open>Names without a colon, as Azure's are.\<close>

fun colon_free :: "uo_event \<Rightarrow> bool" where
  "colon_free (MarkE it z ct) = (CHR '':'' \<notin> set it \<and> CHR '':'' \<notin> set ct)"
| "colon_free SweepE = True"
| "colon_free FlushE = True"

lemma key_inject:
  assumes "CHR '':'' \<notin> set it" "CHR '':'' \<notin> set ct" "CHR '':'' \<notin> set it'" "CHR '':'' \<notin> set ct'"
  shows "key it z ct = key it' z' ct' \<longleftrightarrow> it = it' \<and> z = z' \<and> ct = ct'"
  using assms append_Cons_eq_iff [of "CHR '':''" ct ct' "it @ CHR '':'' # z" "it' @ CHR '':'' # z'"]
    append_Cons_eq_iff [of "CHR '':''" it it' z z']
  by (auto simp: key_def)

lemma run_events_snoc [simp]: "run_events (es @ [e]) = apply_event (run_events es) e"
  by (simp add: run_events_def)

definition offerings_ok :: "UnavailableOfferings \<Rightarrow> bool" where
  "offerings_ok u \<longleftrightarrow> cache_ok UnavailableOfferingsTTL (uo_cache u)"

lemma offerings_ok_run:
  "\<forall>(t, e) \<in> set es. 0 \<le> t \<Longrightarrow> offerings_ok (run_events es)"
proof (induction es rule: rev_induct)
  case Nil
  show ?case
    by (simp add: run_events_def offerings_ok_def NewUnavailableOfferings_def New_def newCache_def
        cache_ok_def UnavailableOfferingsTTL_def)
next
  case (snoc e es)
  obtain t ev where e: "e = (t, ev)" by (cases e)
  from snoc e have "offerings_ok (run_events es)" "0 \<le> t" by auto
  then show ?case
    using offerings_store.ok_put offerings_store.ok_sweep offerings_store.ok_clear
    by (cases ev) (simp_all add: e offerings_ok_def MarkUnavailable_def Flush_def)
qed

lemma IsUnavailable_run:
  assumes "CHR '':'' \<notin> set it" "CHR '':'' \<notin> set ct"
    and "\<forall>(t, e) \<in> set es. 0 \<le> t \<and> t \<le> now \<and> colon_free e"
  shows "IsUnavailable now (run_events es) it z ct \<longleftrightarrow>
    (\<exists>t. last_mark (it, z, ct) (rev es) = Some t \<and> now \<le> t + UnavailableOfferingsTTL)"
  using assms(3)
proof (induction es rule: rev_induct)
  case Nil
  show ?case
    by (simp add: run_events_def IsUnavailable_def NewUnavailableOfferings_def New_def newCache_def cache_Get_def)
next
  case (snoc e es)
  obtain t ev where e: "e = (t, ev)" by (cases e)
  have t: "0 \<le> t" "t \<le> now" "colon_free ev" using snoc.prems e by auto
  have ok: "cache_ok UnavailableOfferingsTTL (uo_cache (run_events es))"
    using offerings_ok_run [of es] snoc.prems by (auto simp: offerings_ok_def)
  show ?case
  proof (cases ev)
    case (MarkE it' z' ct')
    have "key it z ct = key it' z' ct' \<longleftrightarrow> it = it' \<and> z = z' \<and> ct = ct'"
      using assms(1,2) t(3) MarkE by (intro key_inject) auto
    then show ?thesis
      using snoc t e MarkE offerings_store.live_put [OF ok t(1), of now "key it' z' ct'" "key it z ct"]
      by (auto simp: IsUnavailable_def MarkUnavailable_def)
  next
    case SweepE
    then show ?thesis
      using snoc t e offerings_store.live_sweep [OF ok t(2), of "key it z ct"]
      by (simp add: IsUnavailable_def)
  next
    case FlushE
    then show ?thesis
      using e offerings_store.live_clear [OF ok, of now "key it z ct"]
      by (simp add: IsUnavailable_def Flush_def)
  qed
qed

subsection \<open>Properties\<close>

text \<open>
  C22. Under every interleaving of marks, janitor sweeps and flushes, an offering is unavailable
  exactly while it has been marked since the last flush and the last such mark is at most three minutes
  old: marking again extends the time, a sweep never brings an offering back early, a flush brings back all,
  and offerings do not interfere. Names of types and capacity types have no colon, which separates the
  parts of a cache key.
\<close>

theorem unavailable_iff_recently_marked:
  assumes "CHR '':'' \<notin> set it" "CHR '':'' \<notin> set ct"
    and "\<forall>(t, e) \<in> set es. 0 \<le> t \<and> t \<le> now \<and> colon_free e"
  shows "IsUnavailable now (run_events es) it z ct =
    (\<exists>t. last_mark (it, z, ct) (rev es) = Some t \<and> now \<le> t + UnavailableOfferingsTTL)"
  using assms by (rule IsUnavailable_run)

theorem unavailable_iff_recently_marked_witness:
  "IsUnavailable 200000000000 (run_events [(0, MarkE ''D2'' ''z1'' ''spot''), (60000000000, MarkE ''D2'' ''z1'' ''spot''), (190000000000, SweepE)]) ''D2'' ''z1'' ''spot''"
  by (subst unavailable_iff_recently_marked) (simp_all add: UnavailableOfferingsTTL_def)

end
