(* ===== verification/Pricing.thy ===== *)
theory Pricing
  imports Cache GoFloat "HOL-Library.AList"
begin

text \<open>
  The pricing provider (\<open>pkg/providers/pricing/pricing.go\<close>) and its HTTP client
  (\<open>pkg/providers/pricing/client/\<close>). A price is the rational value of a \<open>float64\<close>, a price map an
  association list with distinct keys. The HTTP transport and the JSON parser are parameters; the
  parser gives the numbers as written and \<open>decodePage\<close> stores them in the \<open>float64\<close> fields. A client
  that is never done with its pages does not return, which is \<open>None\<close>.
\<close>

subsection \<open>The retail price client\<close>

record Filter =
  Field :: string
  FilterOperator :: string
  FilterValue :: string

definition Equals :: string where
  "Equals = ''eq''"

definition Filter_String :: "Filter \<Rightarrow> string" where
  "Filter_String f = Field f @ '' '' @ FilterOperator f @ '' '' @ [CHR 0x27] @ FilterValue f @ [CHR 0x27]"

record PriceItem =
  RetailPrice :: rat
  MeterName :: string
  ProductName :: string
  SkuName :: string
  ArmSkuName :: string

record ProductsPricePage =
  Items :: "PriceItem list"
  NextPageLink :: string

type_synonym prices = "(string \<times> rat) list"
type_synonym pageHandler = "ProductsPricePage \<Rightarrow> prices \<Rightarrow> prices"

text \<open>
  \<open>PricingAPI.GetProductsPricePages\<close>: the handler closes over the price map it fills, which is
  threaded through the call.
\<close>

type_synonym 'w PricingAPI =
  "Filter list \<Rightarrow> pageHandler \<Rightarrow> prices \<Rightarrow> 'w \<Rightarrow> ((unit res \<times> prices) \<times> 'w) option"

record HTTPResponse =
  StatusCode :: int
  Body :: "string res"

definition unreserved :: "char \<Rightarrow> bool" where
  "unreserved c =
     (let n = (of_char c :: nat) in
      48 \<le> n \<and> n \<le> 57 \<or> 65 \<le> n \<and> n \<le> 90 \<or> 97 \<le> n \<and> n \<le> 122 \<or> n = 45 \<or> n = 95 \<or> n = 46 \<or> n = 126)"

definition hex_upper :: "nat \<Rightarrow> char" where
  "hex_upper d = (if d < 10 then char_of (48 + d) else char_of (55 + d))"

definition escape_char :: "char \<Rightarrow> string" where
  "escape_char c =
     (if unreserved c then [c]
      else if c = CHR '' '' then ''+''
      else [CHR ''%'', hex_upper (of_char c div 16), hex_upper (of_char c mod 16)])"

definition QueryEscape :: "string \<Rightarrow> string" where
  "QueryEscape s = concat (map escape_char s)"

definition apiVersion :: string where
  "apiVersion = ''2021-10-01-preview''"

definition pricingURL :: string where
  "pricingURL = ''https://prices.azure.com/api/retail/prices?api-version='' @ apiVersion"

definition firstURL :: "Filter list \<Rightarrow> string" where
  "firstURL filters =
     (if 0 < length filters
      then pricingURL @ ''&$filter='' @ QueryEscape (Join (map Filter_String filters) '' and '')
      else pricingURL)"

text \<open>
  \<open>json.Unmarshal\<close> into a \<open>ProductsPricePage\<close>: \<open>unmarshal\<close> parses the text, with the decimal number of
  each item, and the struct field \<open>RetailPrice float64\<close> takes the nearest \<open>float64\<close> of it.
\<close>

definition decodeItem :: "PriceItem \<Rightarrow> PriceItem" where
  "decodeItem i = i\<lparr>RetailPrice := float64 (RetailPrice i)\<rparr>"

definition decodePage :: "(string \<Rightarrow> ProductsPricePage res) \<Rightarrow> string \<Rightarrow> ProductsPricePage res" where
  "decodePage unmarshal body =
     map_res (\<lambda>page. page\<lparr>Items := map decodeItem (Items page)\<rparr>) (unmarshal body)"

partial_function (option) pagesLoop ::
  "(string \<Rightarrow> ('w, HTTPResponse) act) \<Rightarrow> (string \<Rightarrow> ProductsPricePage res) \<Rightarrow> pageHandler
     \<Rightarrow> string \<Rightarrow> prices \<Rightarrow> 'w \<Rightarrow> ((unit res \<times> prices) \<times> 'w) option" where
  "pagesLoop httpGet unmarshal pageHandler nextURL ps w =
     (if nextURL = [] then Some ((Ok (), ps), w)
      else (case httpGet nextURL w of
              (Err e, w') \<Rightarrow> Some ((Err e, ps), w')
            | (Panic m, w') \<Rightarrow> Some ((Panic m, ps), w')
            | (Ok response, w') \<Rightarrow>
                (if StatusCode response \<noteq> 200
                 then Some ((Err (ErrorString (''got a non-200 status code: '' @ show_int (StatusCode response))), ps), w')
                 else (case res_bind (Body response) (decodePage unmarshal) of
                         Err e \<Rightarrow> Some ((Err e, ps), w')
                       | Panic m \<Rightarrow> Some ((Panic m, ps), w')
                       | Ok page \<Rightarrow>
                           pagesLoop httpGet unmarshal pageHandler (NextPageLink page) (pageHandler page ps) w'))))"

declare pagesLoop.simps [code]

definition GetProductsPricePages ::
  "(string \<Rightarrow> ('w, HTTPResponse) act) \<Rightarrow> (string \<Rightarrow> ProductsPricePage res) \<Rightarrow> 'w PricingAPI" where
  "GetProductsPricePages httpGet unmarshal filters pageHandler ps w =
     pagesLoop httpGet unmarshal pageHandler (firstURL filters) ps w"

subsection \<open>The provider\<close>

record ChangeMonitor =
  lastSeen :: "int cache"

definition NewChangeMonitor :: ChangeMonitor where
  "NewChangeMonitor = \<lparr>lastSeen = New (24 * 60 * minute)\<rparr>"

definition HasChanged :: "('v \<Rightarrow> int) \<Rightarrow> int \<Rightarrow> ChangeMonitor \<Rightarrow> string \<Rightarrow> 'v \<Rightarrow> bool \<times> ChangeMonitor" where
  "HasChanged hash now c k v =
     (let hv = hash v in
      if cache_Get now (lastSeen c) k \<noteq> Some hv
      then (True, c\<lparr>lastSeen := SetDefault now (lastSeen c) k hv\<rparr>)
      else (False, c))"

record PricingProvider =
  region :: string
  cm :: ChangeMonitor
  onDemandUpdateTime :: int
  onDemandPrices :: prices

record PricingErr =
  pe_error :: goerr
  lastUpdateTime :: int

text \<open>The static price lists and the time they were generated at.\<close>

type_synonym staticPrices = "(string \<rightharpoonup> prices) \<times> int"

definition staticPricing :: "staticPrices \<Rightarrow> string \<Rightarrow> prices" where
  "staticPricing st reg =
     (case fst st reg of
        Some ps \<Rightarrow> ps
      | None \<Rightarrow> (case fst st ''eastus'' of Some ps \<Rightarrow> ps | None \<Rightarrow> []))"

definition NewPricingProvider :: "staticPrices \<Rightarrow> string \<Rightarrow> PricingProvider" where
  "NewPricingProvider st reg =
     \<lparr>region = reg, cm = NewChangeMonitor, onDemandUpdateTime = snd st,
      onDemandPrices = staticPricing st reg\<rparr>"

definition InstanceTypes :: "PricingProvider \<Rightarrow> string list" where
  "InstanceTypes p = map fst (onDemandPrices p)"

definition OnDemandLastUpdated :: "PricingProvider \<Rightarrow> int" where
  "OnDemandLastUpdated p = onDemandUpdateTime p"

definition OnDemandPrice :: "PricingProvider \<Rightarrow> string \<Rightarrow> rat \<times> bool" where
  "OnDemandPrice p instanceType =
     (case map_of (onDemandPrices p) instanceType of
        None \<Rightarrow> (0, False)
      | Some price \<Rightarrow> (price, True))"

fun onDemandItems :: "PriceItem list \<Rightarrow> prices \<Rightarrow> prices" where
  "onDemandItems [] ps = ps"
| "onDemandItems (pItem # is) ps =
     (if HasSuffix (ProductName pItem) '' Windows'' then onDemandItems is ps
      else if HasSuffix (MeterName pItem) '' Low Priority'' then onDemandItems is ps
      else if HasSuffix (SkuName pItem) '' Spot'' then onDemandItems is ps
      else onDemandItems is (AList.update (ArmSkuName pItem) (RetailPrice pItem) ps))"

definition onDemandPage :: pageHandler where
  "onDemandPage page ps = onDemandItems (Items page) ps"

definition onDemandFilters :: "string \<Rightarrow> Filter list" where
  "onDemandFilters reg =
     [\<lparr>Field = ''priceType'', FilterOperator = Equals, FilterValue = ''Consumption''\<rparr>,
      \<lparr>Field = ''currencyCode'', FilterOperator = Equals, FilterValue = ''USD''\<rparr>,
      \<lparr>Field = ''serviceFamily'', FilterOperator = Equals, FilterValue = ''Compute''\<rparr>,
      \<lparr>Field = ''serviceName'', FilterOperator = Equals, FilterValue = ''Virtual Machines''\<rparr>,
      \<lparr>Field = ''armRegionName'', FilterOperator = Equals, FilterValue = reg\<rparr>]"

definition fetchOnDemandPricing :: "'w PricingAPI \<Rightarrow> PricingProvider \<Rightarrow> 'w \<Rightarrow> (prices res \<times> 'w) option" where
  "fetchOnDemandPricing pricing p w =
     map_option (\<lambda>((r, ps), w'). (res_bind r (\<lambda>_. Ok ps), w'))
       (pricing (onDemandFilters (region p)) onDemandPage [] w)"

text \<open>
  \<open>UpdateOnDemandPricing\<close> returns a nil pointer on success. \<open>clk\<close> is \<open>time.Now()\<close>, \<open>hash\<close> the
  structural hash of the change monitor, which only decides whether to log. A panic of the
  client ends the process.
\<close>

definition UpdateOnDemandPricing ::
  "'w PricingAPI \<Rightarrow> ('w \<Rightarrow> int) \<Rightarrow> (prices \<Rightarrow> int) \<Rightarrow> PricingProvider \<Rightarrow> 'w
     \<Rightarrow> ((PricingErr option \<times> PricingProvider) res \<times> 'w) option" where
  "UpdateOnDemandPricing pricing clk hash p w =
     (case fetchOnDemandPricing pricing p w of
        None \<Rightarrow> None
      | Some (Panic m, w') \<Rightarrow> Some (Panic m, w')
      | Some (Err e, w') \<Rightarrow>
          Some (Ok (Some \<lparr>pe_error = e, lastUpdateTime = onDemandUpdateTime p\<rparr>, p), w')
      | Some (Ok prices, w') \<Rightarrow>
          (if length prices = 0
           then Some (Ok (Some \<lparr>pe_error = ErrorString ''no on-demand pricing found'',
                               lastUpdateTime = onDemandUpdateTime p\<rparr>, p), w')
           else
             (let p1 = p\<lparr>onDemandPrices := prices, onDemandUpdateTime := clk w'\<rparr>;
                  (_, cm') = HasChanged hash (clk w') (cm p1) ''on-demand-prices'' prices
              in Some (Ok (None, p1\<lparr>cm := cm'\<rparr>), w'))))"

text \<open>\<open>updatePricing\<close> logs the error.\<close>

definition updatePricing ::
  "'w PricingAPI \<Rightarrow> ('w \<Rightarrow> int) \<Rightarrow> (prices \<Rightarrow> int) \<Rightarrow> PricingProvider \<Rightarrow> 'w \<Rightarrow> (PricingProvider res \<times> 'w) option" where
  "updatePricing pricing clk hash p w =
     map_option (\<lambda>(r, w'). (map_res snd r, w')) (UpdateOnDemandPricing pricing clk hash p w)"

definition Reset :: "staticPrices \<Rightarrow> PricingProvider \<Rightarrow> PricingProvider" where
  "Reset st p = p\<lparr>onDemandPrices := staticPricing st (region p), onDemandUpdateTime := snd st\<rparr>"

definition LivenessProbe :: "PricingProvider \<Rightarrow> unit res" where
  "LivenessProbe p = Ok ()"

definition pricingUpdatePeriod :: int where
  "pricingUpdatePeriod = 12 * 60 * minute"

text \<open>
  The goroutine of \<open>NewProvider\<close> as a transition system. It updates once at startup, waits to
  be elected, updates again if that took longer than the period, and then updates every
  period; a cancelled context ends it. \<open>Reset\<close> may come from another goroutine at any time, and
  time passes.
\<close>

datatype phase = Starting | Waiting int | Periodic | Exited

record 'w pricingSystem =
  ps_phase :: phase
  ps_provider :: PricingProvider
  ps_world :: 'w

inductive pricing_step ::
  "'w PricingAPI \<Rightarrow> ('w \<Rightarrow> int) \<Rightarrow> (prices \<Rightarrow> int) \<Rightarrow> staticPrices \<Rightarrow> 'w pricingSystem \<Rightarrow> 'w pricingSystem \<Rightarrow> bool"
  for api clk hash st where
  startup:
    "updatePricing api clk hash p w = Some (Ok p', w') \<Longrightarrow>
     pricing_step api clk hash st \<lparr>ps_phase = Starting, ps_provider = p, ps_world = w\<rparr>
       \<lparr>ps_phase = Waiting (clk w'), ps_provider = p', ps_world = w'\<rparr>"
| elected_soon:
    "clk w - s \<le> pricingUpdatePeriod \<Longrightarrow>
     pricing_step api clk hash st \<lparr>ps_phase = Waiting s, ps_provider = p, ps_world = w\<rparr>
       \<lparr>ps_phase = Periodic, ps_provider = p, ps_world = w\<rparr>"
| elected_late:
    "pricingUpdatePeriod < clk w - s \<Longrightarrow> updatePricing api clk hash p w = Some (Ok p', w') \<Longrightarrow>
     pricing_step api clk hash st \<lparr>ps_phase = Waiting s, ps_provider = p, ps_world = w\<rparr>
       \<lparr>ps_phase = Periodic, ps_provider = p', ps_world = w'\<rparr>"
| period_over:
    "updatePricing api clk hash p w = Some (Ok p', w') \<Longrightarrow>
     pricing_step api clk hash st \<lparr>ps_phase = Periodic, ps_provider = p, ps_world = w\<rparr>
       \<lparr>ps_phase = Periodic, ps_provider = p', ps_world = w'\<rparr>"
| cancelled:
    "ph = Periodic \<or> ph = Waiting s \<Longrightarrow>
     pricing_step api clk hash st \<lparr>ps_phase = ph, ps_provider = p, ps_world = w\<rparr>
       \<lparr>ps_phase = Exited, ps_provider = p, ps_world = w\<rparr>"
| reset_called:
    "pricing_step api clk hash st \<lparr>ps_phase = ph, ps_provider = p, ps_world = w\<rparr>
       \<lparr>ps_phase = ph, ps_provider = Reset st p, ps_world = w\<rparr>"
| time_passes:
    "clk w \<le> clk w' \<Longrightarrow>
     pricing_step api clk hash st \<lparr>ps_phase = ph, ps_provider = p, ps_world = w\<rparr>
       \<lparr>ps_phase = ph, ps_provider = p, ps_world = w'\<rparr>"

definition pricing_start :: "staticPrices \<Rightarrow> string \<Rightarrow> 'w \<Rightarrow> 'w pricingSystem" where
  "pricing_start st reg w =
     \<lparr>ps_phase = Starting, ps_provider = NewPricingProvider st reg, ps_world = w\<rparr>"

subsection \<open>What a page contributes\<close>

text \<open>An item that counts as an on-demand Linux price.\<close>

definition onDemandItem :: "PriceItem \<Rightarrow> bool" where
  "onDemandItem i \<longleftrightarrow> \<not> HasSuffix (ProductName i) '' Windows'' \<and> \<not> HasSuffix (MeterName i) '' Low Priority''
     \<and> \<not> HasSuffix (SkuName i) '' Spot''"

text \<open>The last such item for a SKU.\<close>

definition lastPrice :: "PriceItem list \<Rightarrow> string \<Rightarrow> rat option" where
  "lastPrice is k = map_option RetailPrice (find (\<lambda>i. onDemandItem i \<and> ArmSkuName i = k) (rev is))"

lemma find_append: "find P (xs @ ys) = (case find P xs of None \<Rightarrow> find P ys | Some x \<Rightarrow> Some x)"
  by (induction xs) auto

lemma lastPrice_Cons:
  "lastPrice (i # is) k =
     (case lastPrice is k of
        None \<Rightarrow> if onDemandItem i \<and> ArmSkuName i = k then Some (RetailPrice i) else None
      | Some x \<Rightarrow> Some x)"
  by (simp add: lastPrice_def find_append split: option.splits)

lemma onDemandItems_Cons:
  "onDemandItems (i # is) ps =
     onDemandItems is (if onDemandItem i then AList.update (ArmSkuName i) (RetailPrice i) ps else ps)"
  by (simp add: onDemandItem_def)

lemma map_of_onDemandItems:
  "map_of (onDemandItems is ps) k = (case lastPrice is k of None \<Rightarrow> map_of ps k | Some x \<Rightarrow> Some x)"
proof (induction "is" arbitrary: ps)
  case Nil
  show ?case by (simp add: lastPrice_def)
next
  case (Cons i "is")
  show ?case
    unfolding onDemandItems_Cons Cons
    by (auto simp: lastPrice_Cons update_conv' split: option.splits)
qed

lemma onDemandItems_append: "onDemandItems (xs @ ys) ps = onDemandItems ys (onDemandItems xs ps)"
  by (induction xs arbitrary: ps) simp_all

lemma fold_onDemandPage:
  "fold onDemandPage pages ps = onDemandItems (concat (map Items pages)) ps"
  by (induction pages arbitrary: ps) (simp_all add: onDemandPage_def onDemandItems_append)

lemma distinct_onDemandItems:
  "distinct (map fst ps) \<Longrightarrow> distinct (map fst (onDemandItems is ps))"
  by (induction "is" arbitrary: ps) (simp_all add: distinct_update)

text \<open>
  What a provider of a region always has: prices, and one of them per SKU. Where its prices came
  from is a property of the run, stated by \<open>price_source\<close> below.
\<close>

definition pricing_ok :: "string \<Rightarrow> PricingProvider \<Rightarrow> bool" where
  "pricing_ok reg p \<longleftrightarrow> region p = reg \<and> onDemandPrices p \<noteq> [] \<and> distinct (map fst (onDemandPrices p))"

text \<open>
  Where the prices of a state \<open>s\<close> of a run from \<open>s0\<close> came from: the static list, with the time it was
  generated, or all the pages the service served to one fetch, a step \<open>s1\<close> to \<open>s2\<close> of that run, with the time of
  that fetch.
\<close>

definition price_source ::
  "'w PricingAPI \<Rightarrow> (Filter list \<Rightarrow> 'w \<Rightarrow> ProductsPricePage list \<Rightarrow> 'w \<Rightarrow> bool) \<Rightarrow> ('w \<Rightarrow> int) \<Rightarrow> (prices \<Rightarrow> int)
     \<Rightarrow> staticPrices \<Rightarrow> string \<Rightarrow> 'w pricingSystem \<Rightarrow> 'w pricingSystem \<Rightarrow> bool" where
  "price_source api serves clk hash st reg s0 s \<longleftrightarrow>
     onDemandPrices (ps_provider s) = staticPricing st reg \<and> onDemandUpdateTime (ps_provider s) = snd st \<or>
     (\<exists>s1 s2 pages. (pricing_step api clk hash st)\<^sup>*\<^sup>* s0 s1 \<and> pricing_step api clk hash st s1 s2 \<and>
        (pricing_step api clk hash st)\<^sup>*\<^sup>* s2 s \<and>
        serves (onDemandFilters reg) (ps_world s1) pages (ps_world s2) \<and>
        onDemandPrices (ps_provider s) = onDemandItems (concat (map Items pages)) [] \<and>
        onDemandUpdateTime (ps_provider s) = clk (ps_world s2))"

subsection \<open>The contract of a pricing client\<close>

text \<open>
  A client hands pages to the handler one after the other and does nothing else to what the
  handler fills; it may stop with an error in between.
\<close>

locale pricing_api =
  fixes api :: "'w PricingAPI"
  assumes folds: "api filters h ps w = Some ((r, ps'), w') \<Longrightarrow> \<exists>pages. ps' = fold h pages ps"
begin

lemma fetch_Ok:
  assumes "fetchOnDemandPricing api p w = Some (Ok ps, w')"
  shows "\<exists>items. ps = onDemandItems items []"
proof -
  from assms obtain r where "api (onDemandFilters (region p)) onDemandPage [] w = Some ((r, ps), w')"
    by (auto simp: fetchOnDemandPricing_def res_bind_eq_Ok_iff)
  from folds [OF this] show ?thesis by (auto simp: fold_onDemandPage)
qed

lemma update_cases:
  assumes "UpdateOnDemandPricing api clk hash p w = Some (Ok (e, p'), w')"
  obtains (failed) err where "e = Some err" "p' = p" "lastUpdateTime err = onDemandUpdateTime p"
  | (updated) items where "e = None" "onDemandPrices p' = onDemandItems items []" "onDemandPrices p' \<noteq> []"
      "onDemandUpdateTime p' = clk w'" "region p' = region p"
proof -
  from assms obtain r where f: "fetchOnDemandPricing api p w = Some (r, w')"
    by (auto simp: UpdateOnDemandPricing_def Let_def split: option.splits res.splits if_splits prod.splits)
  show thesis
  proof (cases r)
    case (Ok ps)
    then obtain items where "ps = onDemandItems items []" using fetch_Ok f by blast
    then show ?thesis
      using assms f Ok by (auto simp: UpdateOnDemandPricing_def Let_def intro: that split: if_splits prod.splits)
  qed (use assms f in \<open>auto simp: UpdateOnDemandPricing_def intro: that\<close>)
qed

lemma pricing_ok_update:
  assumes "updatePricing api clk hash p w = Some (Ok p', w')" "pricing_ok reg p"
  shows "pricing_ok reg p'"
proof -
  from assms(1) obtain e where "UpdateOnDemandPricing api clk hash p w = Some (Ok (e, p'), w')"
    by (auto simp: updatePricing_def)
  then show ?thesis
  proof (cases rule: update_cases)
    case (updated items)
    then show ?thesis using assms(2) distinct_onDemandItems [of "[]" items] by (auto simp: pricing_ok_def)
  qed (use assms(2) in simp)
qed

lemma pricing_ok_step:
  assumes "pricing_step api clk hash st s s'"
    and "staticPricing st reg \<noteq> []" "distinct (map fst (staticPricing st reg))"
    and "pricing_ok reg (ps_provider s)"
  shows "pricing_ok reg (ps_provider s')"
  using assms
proof (cases rule: pricing_step.cases)
  case (reset_called ph p w)
  then show ?thesis using assms(2-4) by (auto simp: pricing_ok_def Reset_def)
qed (use assms(4) pricing_ok_update in auto)

lemma pricing_ok_reachable:
  assumes "(pricing_step api clk hash st)\<^sup>*\<^sup>* (pricing_start st reg w) s"
    and "staticPricing st reg \<noteq> []" "distinct (map fst (staticPricing st reg))"
  shows "pricing_ok reg (ps_provider s)"
  using assms(1)
proof (induction rule: rtranclp_induct)
  case base
  show ?case using assms(2,3) by (simp add: pricing_start_def NewPricingProvider_def pricing_ok_def)
next
  case (step y z)
  from pricing_ok_step [OF step(2) assms(2,3) step(3)] show ?case .
qed

end

text \<open>
  A client that in addition returns without an error only when it has handed over all the pages
  the service had for the query: \<open>serves filters w pages w'\<close> says that these are the pages.
\<close>

locale pricing_pages = pricing_api api for api :: "'w PricingAPI" +
  fixes serves :: "Filter list \<Rightarrow> 'w \<Rightarrow> ProductsPricePage list \<Rightarrow> 'w \<Rightarrow> bool"
  assumes all_pages: "api filters h ps w = Some ((Ok (), ps'), w') \<Longrightarrow> \<exists>pages. serves filters w pages w' \<and> ps' = fold h pages ps"
begin

lemma fetched_pages:
  assumes "fetchOnDemandPricing api p w = Some (Ok ps, w')"
  shows "\<exists>pages. serves (onDemandFilters (region p)) w pages w' \<and> ps = onDemandItems (concat (map Items pages)) []"
proof -
  from assms have "api (onDemandFilters (region p)) onDemandPage [] w = Some ((Ok (), ps), w')"
    by (auto simp: fetchOnDemandPricing_def res_bind_eq_Ok_iff)
  from all_pages [OF this] show ?thesis by (simp add: fold_onDemandPage)
qed

lemma update_source:
  assumes "updatePricing api clk hash p w = Some (Ok p', w')"
  shows "p' = p \<or> (\<exists>pages. serves (onDemandFilters (region p)) w pages w' \<and>
    onDemandPrices p' = onDemandItems (concat (map Items pages)) [] \<and> onDemandUpdateTime p' = clk w')"
proof -
  from assms obtain e where u: "UpdateOnDemandPricing api clk hash p w = Some (Ok (e, p'), w')"
    by (auto simp: updatePricing_def)
  then obtain r where f: "fetchOnDemandPricing api p w = Some (r, w')"
    by (auto simp: UpdateOnDemandPricing_def Let_def split: option.splits res.splits if_splits prod.splits)
  show ?thesis
  proof (cases r)
    case (Ok ps)
    with f fetched_pages obtain pages
      where "serves (onDemandFilters (region p)) w pages w'" "ps = onDemandItems (concat (map Items pages)) []" by blast
    then show ?thesis using u f Ok by (auto simp: UpdateOnDemandPricing_def Let_def split: if_splits prod.splits)
  qed (use u f in \<open>auto simp: UpdateOnDemandPricing_def\<close>)
qed

text \<open>A step leaves prices and update time alone, goes back to the static list, or stores a fetch.\<close>

lemma step_source:
  assumes "pricing_step api clk hash st s s'"
  shows "region (ps_provider s') = region (ps_provider s) \<and>
    (onDemandPrices (ps_provider s') = onDemandPrices (ps_provider s) \<and>
       onDemandUpdateTime (ps_provider s') = onDemandUpdateTime (ps_provider s) \<or>
     onDemandPrices (ps_provider s') = staticPricing st (region (ps_provider s)) \<and>
       onDemandUpdateTime (ps_provider s') = snd st \<or>
     (\<exists>pages. serves (onDemandFilters (region (ps_provider s))) (ps_world s) pages (ps_world s') \<and>
       onDemandPrices (ps_provider s') = onDemandItems (concat (map Items pages)) [] \<and>
       onDemandUpdateTime (ps_provider s') = clk (ps_world s')))"
proof -
  have reg: "updatePricing api clk hash p w = Some (Ok p', w') \<Longrightarrow> region p' = region p" for p w p' w'
    by (auto simp: updatePricing_def elim: update_cases)
  show ?thesis
    using assms
  proof (cases rule: pricing_step.cases)
    case (startup p w p' w')
    then show ?thesis using update_source [OF startup(3)] reg [OF startup(3)] by auto
  next
    case (elected_late w t p p' w')
    then show ?thesis using update_source [OF elected_late(4)] reg [OF elected_late(4)] by auto
  next
    case (period_over p w p' w')
    then show ?thesis using update_source [OF period_over(3)] reg [OF period_over(3)] by auto
  qed (simp_all add: Reset_def)
qed

lemma price_source_reachable:
  assumes "(pricing_step api clk hash st)\<^sup>*\<^sup>* (pricing_start st reg w) s"
  shows "region (ps_provider s) = reg \<and>
    price_source api serves clk hash st reg (pricing_start st reg w) s"
  using assms
proof (induction rule: rtranclp_induct)
  case base
  show ?case by (simp add: pricing_start_def NewPricingProvider_def price_source_def)
next
  case (step y z)
  have yz: "(pricing_step api clk hash st)\<^sup>*\<^sup>* y z" using step(2) by (rule r_into_rtranclp)
  consider (kept) "onDemandPrices (ps_provider z) = onDemandPrices (ps_provider y)"
      "onDemandUpdateTime (ps_provider z) = onDemandUpdateTime (ps_provider y)"
    | (static) "onDemandPrices (ps_provider z) = staticPricing st reg" "onDemandUpdateTime (ps_provider z) = snd st"
    | (fetched) pages where "serves (onDemandFilters reg) (ps_world y) pages (ps_world z)"
      "onDemandPrices (ps_provider z) = onDemandItems (concat (map Items pages)) []"
      "onDemandUpdateTime (ps_provider z) = clk (ps_world z)"
    using step_source [OF step(2)] step.IH by auto
  then have "price_source api serves clk hash st reg (pricing_start st reg w) z"
  proof cases
    case kept
    then show ?thesis using step.IH rtranclp_trans [OF _ yz] unfolding price_source_def by metis
  next
    case static
    then show ?thesis by (simp add: price_source_def)
  next
    case fetched
    then show ?thesis using step(1,2) unfolding price_source_def by blast
  qed
  then show ?case using step_source [OF step(2)] step.IH by simp
qed

end

subsection \<open>The HTTP client keeps the contract\<close>

lemma pagesLoop_folds:
  assumes "pagesLoop httpGet unmarshal h url ps w = Some y"
  shows "\<exists>pages. snd (fst y) = fold h pages ps"
proof (rule pagesLoop.raw_induct
    [where P = "\<lambda>httpGet unmarshal h url ps w y. \<exists>pages. snd (fst y) = fold h pages ps", OF _ assms])
  fix loop :: "(string \<Rightarrow> ('a, HTTPResponse) act) \<Rightarrow> (string \<Rightarrow> ProductsPricePage res) \<Rightarrow> pageHandler
     \<Rightarrow> string \<Rightarrow> prices \<Rightarrow> 'a \<Rightarrow> ((unit res \<times> prices) \<times> 'a) option"
  fix httpGet :: "string \<Rightarrow> ('a, HTTPResponse) act" and unmarshal h url ps w y
  assume IH: "\<And>httpGet unmarshal h url ps w y. loop httpGet unmarshal h url ps w = Some y \<Longrightarrow>
      \<exists>pages. snd (fst y) = fold h pages ps"
    and body: "(if url = [] then Some ((Ok (), ps), w)
      else (case httpGet url w of
              (Err e, w') \<Rightarrow> Some ((Err e, ps), w')
            | (Panic m, w') \<Rightarrow> Some ((Panic m, ps), w')
            | (Ok response, w') \<Rightarrow>
                (if StatusCode response \<noteq> 200
                 then Some ((Err (ErrorString (''got a non-200 status code: '' @ show_int (StatusCode response))), ps), w')
                 else (case res_bind (Body response) (decodePage unmarshal) of
                         Err e \<Rightarrow> Some ((Err e, ps), w')
                       | Panic m \<Rightarrow> Some ((Panic m, ps), w')
                       | Ok page \<Rightarrow> loop httpGet unmarshal h (NextPageLink page) (h page ps) w')))) = Some y"
  have fin: "snd (fst y) = ps \<Longrightarrow> \<exists>pages. snd (fst y) = fold h pages ps"
    by (rule exI [of _ "[]"]) simp
  show "\<exists>pages. snd (fst y) = fold h pages ps"
  proof (cases "\<exists>page w'. loop httpGet unmarshal h (NextPageLink page) (h page ps) w' = Some y")
    case True
    then obtain page w' pages where "snd (fst y) = fold h pages (h page ps)" using IH by blast
    then show ?thesis by (intro exI [of _ "page # pages"]) simp
  next
    case False
    then show ?thesis
      using body by (intro fin) (auto split: if_splits prod.splits res.splits)
  qed
qed

text \<open>
  \<open>http_serves\<close>: starting at a URL the server answers with a chain of decodable pages that ends
  in an empty link.
\<close>

inductive http_serves ::
  "(string \<Rightarrow> ('w, HTTPResponse) act) \<Rightarrow> (string \<Rightarrow> ProductsPricePage res) \<Rightarrow> string \<Rightarrow> 'w
     \<Rightarrow> ProductsPricePage list \<Rightarrow> 'w \<Rightarrow> bool" for httpGet unmarshal where
  no_link: "http_serves httpGet unmarshal [] w [] w"
| next_link:
    "url \<noteq> [] \<Longrightarrow> httpGet url w = (Ok resp, w1) \<Longrightarrow> StatusCode resp = 200 \<Longrightarrow>
     res_bind (Body resp) (decodePage unmarshal) = Ok page \<Longrightarrow>
     http_serves httpGet unmarshal (NextPageLink page) w1 pages w2 \<Longrightarrow>
     http_serves httpGet unmarshal url w (page # pages) w2"

text \<open>The loop ends without an error only at the end of such a chain, with every page handled.\<close>

lemma pagesLoop_Ok:
  assumes "pagesLoop httpGet unmarshal h url ps w = Some y"
  shows "\<forall>ps' w'. y = ((Ok (), ps'), w') \<longrightarrow> (\<exists>pages. http_serves httpGet unmarshal url w pages w' \<and> ps' = fold h pages ps)"
proof (rule pagesLoop.raw_induct
    [where P = "\<lambda>httpGet unmarshal h url ps w y. \<forall>ps' w'. y = ((Ok (), ps'), w') \<longrightarrow>
        (\<exists>pages. http_serves httpGet unmarshal url w pages w' \<and> ps' = fold h pages ps)", OF _ assms])
  fix loop :: "(string \<Rightarrow> ('a, HTTPResponse) act) \<Rightarrow> (string \<Rightarrow> ProductsPricePage res) \<Rightarrow> pageHandler
     \<Rightarrow> string \<Rightarrow> prices \<Rightarrow> 'a \<Rightarrow> ((unit res \<times> prices) \<times> 'a) option"
  fix httpGet :: "string \<Rightarrow> ('a, HTTPResponse) act" and unmarshal h url ps w y
  assume IH: "\<And>httpGet unmarshal h url ps w y. loop httpGet unmarshal h url ps w = Some y \<Longrightarrow>
      \<forall>ps' w'. y = ((Ok (), ps'), w') \<longrightarrow> (\<exists>pages. http_serves httpGet unmarshal url w pages w' \<and> ps' = fold h pages ps)"
    and body: "(if url = [] then Some ((Ok (), ps), w)
      else (case httpGet url w of
              (Err e, w') \<Rightarrow> Some ((Err e, ps), w')
            | (Panic m, w') \<Rightarrow> Some ((Panic m, ps), w')
            | (Ok response, w') \<Rightarrow>
                (if StatusCode response \<noteq> 200
                 then Some ((Err (ErrorString (''got a non-200 status code: '' @ show_int (StatusCode response))), ps), w')
                 else (case res_bind (Body response) (decodePage unmarshal) of
                         Err e \<Rightarrow> Some ((Err e, ps), w')
                       | Panic m \<Rightarrow> Some ((Panic m, ps), w')
                       | Ok page \<Rightarrow> loop httpGet unmarshal h (NextPageLink page) (h page ps) w')))) = Some y"
  show "\<forall>ps' w'. y = ((Ok (), ps'), w') \<longrightarrow> (\<exists>pages. http_serves httpGet unmarshal url w pages w' \<and> ps' = fold h pages ps)"
  proof (intro allI impI)
    fix ps' w'
    assume y: "y = ((Ok (), ps'), w')"
    show "\<exists>pages. http_serves httpGet unmarshal url w pages w' \<and> ps' = fold h pages ps"
    proof (cases "url = []")
      case True
      then show ?thesis using body y by (auto intro!: exI [of _ "[]"] no_link)
    next
      case False
      with body y obtain resp w1 page where one: "httpGet url w = (Ok resp, w1)" "StatusCode resp = 200"
          "res_bind (Body resp) (decodePage unmarshal) = Ok page"
        and rest: "loop httpGet unmarshal h (NextPageLink page) (h page ps) w1 = Some y"
        by (auto split: if_splits prod.splits res.splits)
      from IH [OF rest] y obtain pages
        where "http_serves httpGet unmarshal (NextPageLink page) w1 pages w'" "ps' = fold h pages (h page ps)" by blast
      then show ?thesis using next_link [where httpGet = httpGet, OF False one] by (intro exI [of _ "page # pages"]) simp
    qed
  qed
qed

interpretation http_client: pricing_pages "GetProductsPricePages httpGet unmarshal"
    "\<lambda>filters. http_serves httpGet unmarshal (firstURL filters)" for httpGet unmarshal
proof unfold_locales
  fix filters h ps w r ps' w'
  assume "GetProductsPricePages httpGet unmarshal filters h ps w = Some ((r, ps'), w')"
  from pagesLoop_folds [OF this [unfolded GetProductsPricePages_def]] show "\<exists>pages. ps' = fold h pages ps" by simp
next
  fix filters h ps w ps' w'
  assume "GetProductsPricePages httpGet unmarshal filters h ps w = Some ((Ok (), ps'), w')"
  from pagesLoop_Ok [OF this [unfolded GetProductsPricePages_def]]
  show "\<exists>pages. http_serves httpGet unmarshal (firstURL filters) w pages w' \<and> ps' = fold h pages ps" by simp
qed

lemma pagesLoop_serves:
  "http_serves httpGet unmarshal url w pages w' \<Longrightarrow>
   pagesLoop httpGet unmarshal h url ps w = Some ((Ok (), fold h pages ps), w')"
proof (induction arbitrary: ps rule: http_serves.induct)
  case (no_link w)
  show ?case by (subst pagesLoop.simps) simp
next
  case (next_link url w resp w1 page pages w2)
  then show ?case by (subst pagesLoop.simps) simp
qed

lemma fetch_serves:
  assumes "http_serves httpGet unmarshal (firstURL (onDemandFilters (region p))) w pages w'"
  shows "fetchOnDemandPricing (GetProductsPricePages httpGet unmarshal) p w =
    Some (Ok (onDemandItems (concat (map Items pages)) []), w')"
  using pagesLoop_serves [OF assms, of onDemandPage "[]"]
  by (simp add: fetchOnDemandPricing_def GetProductsPricePages_def fold_onDemandPage)

lemma lastPrice_None_iff: "onDemandItems is [] = [] \<longleftrightarrow> (\<forall>k. lastPrice is k = None)"
proof -
  have "onDemandItems is [] = [] \<longleftrightarrow> (\<forall>k. map_of (onDemandItems is []) k = None)"
    by (cases "onDemandItems is []") (auto simp: map_of_eq_None_iff split: if_splits)
  then show ?thesis by (simp add: map_of_onDemandItems split: option.splits)
qed

subsection \<open>Query escaping\<close>

text \<open>A decoder for escaped text, the inverse the server applies.\<close>

definition unhex :: "char \<Rightarrow> nat" where
  "unhex c = (let n = of_char c in if n \<le> 57 then n - 48 else n - 55)"

fun QueryUnescape :: "string \<Rightarrow> string" where
  "QueryUnescape [] = []"
| "QueryUnescape (c # s) =
     (if c = CHR ''%''
      then (case s of a # b # s' \<Rightarrow> char_of (16 * unhex a + unhex b) # QueryUnescape s' | _ \<Rightarrow> [])
      else if c = CHR ''+'' then CHR '' '' # QueryUnescape s
      else c # QueryUnescape s)"

lemma unhex_hex_upper: "d < 16 \<Longrightarrow> unhex (hex_upper d) = d"
  by (auto simp: unhex_def hex_upper_def Let_def of_char_of)

lemma unreserved_not_special: "unreserved c \<Longrightarrow> c \<noteq> CHR ''%'' \<and> c \<noteq> CHR ''+''"
  by (auto simp: unreserved_def Let_def)

lemma QueryUnescape_escape_char: "QueryUnescape (escape_char c @ s) = c # QueryUnescape s"
proof -
  have "(of_char c :: nat) < 256" by (rule nat_of_char_less_256)
  then have "(of_char c :: nat) div 16 < 16" by (simp add: div_less_iff_less_mult)
  then have "unhex (hex_upper (of_char c div 16)) = of_char c div 16"
    "unhex (hex_upper (of_char c mod 16)) = of_char c mod 16"
    by (simp_all add: unhex_hex_upper)
  moreover have "16 * (of_char c div 16) + of_char c mod 16 = (of_char c :: nat)" by simp
  ultimately show ?thesis
    using unreserved_not_special [of c] by (auto simp: escape_char_def)
qed

lemma QueryUnescape_QueryEscape: "QueryUnescape (QueryEscape s) = s"
  by (induction s) (simp_all add: QueryEscape_def QueryUnescape_escape_char)

lemma updatePricing_fetched:
  assumes "fetchOnDemandPricing api p w = Some (Ok ps, w')" "ps \<noteq> []"
  obtains p' where "updatePricing api clk hash p w = Some (Ok p', w')" "onDemandPrices p' = ps"
proof (cases "HasChanged hash (clk w') (cm p) ''on-demand-prices'' ps")
  case (Pair b c)
  then have "updatePricing api clk hash p w = Some (Ok (p\<lparr>onDemandPrices := ps, onDemandUpdateTime := clk w', cm := c\<rparr>), w')"
    using assms by (simp add: updatePricing_def UpdateOnDemandPricing_def)
  then show thesis by (rule that) simp
qed

subsection \<open>A sample page\<close>

definition samplePage :: ProductsPricePage where
  "samplePage = \<lparr>Items =
     [\<lparr>RetailPrice = 2, MeterName = ''D2'', ProductName = ''D Series'', SkuName = ''D2'', ArmSkuName = ''Standard_D2''\<rparr>,
      \<lparr>RetailPrice = 3, MeterName = ''D2'', ProductName = ''D Series Windows'', SkuName = ''D2'', ArmSkuName = ''Standard_D2''\<rparr>,
      \<lparr>RetailPrice = 1, MeterName = ''D2'', ProductName = ''D Series'', SkuName = ''D2 Spot'', ArmSkuName = ''Standard_D2''\<rparr>],
     NextPageLink = ''''\<rparr>"

lemma samplePage_price: "lastPrice (concat (map Items [samplePage])) ''Standard_D2'' = Some 2"
  by (simp add: samplePage_def lastPrice_def onDemandItem_def HasSuffix_def)

definition sampleGet :: "string \<Rightarrow> (unit, HTTPResponse) act" where
  "sampleGet url w = (Ok \<lparr>StatusCode = 200, Body = Ok ''b''\<rparr>, w)"

lemma samplePage_items: "onDemandItems (concat (map Items [samplePage])) [] = [(''Standard_D2'', 2)]"
  by (simp add: samplePage_def HasSuffix_def)

lemma samplePage_decoded: "decodePage (\<lambda>b. Ok samplePage) body = Ok samplePage"
  using float64_of_int [of 1] float64_of_int [of 2] float64_of_int [of 3]
  by (simp add: decodePage_def decodeItem_def samplePage_def)

lemma sample_serves:
  "http_serves sampleGet (\<lambda>b. Ok samplePage) (firstURL (onDemandFilters reg)) w [samplePage] w"
proof (rule next_link [where resp = "\<lparr>StatusCode = 200, Body = Ok ''b''\<rparr>" and ?w1.0 = w])
  show "http_serves sampleGet (\<lambda>b. Ok samplePage) (NextPageLink samplePage) w [] w" by (simp add: samplePage_def no_link)
qed (simp_all add: firstURL_def pricingURL_def sampleGet_def samplePage_decoded)

subsection \<open>Properties\<close>

text \<open>
  C19. Over every run of the provider's goroutine, in which updates succeed or fail, elections
  come early or late, and resets interleave, the price list is never empty and has one price per
  SKU. It is the static list of the region, dated with that list's time, or the on-demand items of
  all the pages, up to the one without a link, that the price server served to one fetch of this run,
  dated with the time of that fetch; nothing partial and nothing else is ever stored.
\<close>

theorem prices_never_lost:
  assumes "(pricing_step (GetProductsPricePages httpGet unmarshal) clk hash st)\<^sup>*\<^sup>* (pricing_start st reg w) s"
    and "staticPricing st reg \<noteq> []" "distinct (map fst (staticPricing st reg))"
  shows "pricing_ok reg (ps_provider s) \<and>
    price_source (GetProductsPricePages httpGet unmarshal) (\<lambda>filters. http_serves httpGet unmarshal (firstURL filters))
      clk hash st reg (pricing_start st reg w) s"
  using http_client.pricing_ok_reachable [OF assms] http_client.price_source_reachable [OF assms(1)] by blast

theorem prices_never_lost_witness:
  "\<exists>s. (pricing_step (GetProductsPricePages sampleGet (\<lambda>b. Ok samplePage)) (\<lambda>_. 7) (\<lambda>_. 0) ([''eastus'' \<mapsto> [(''Standard_D2'', 5)]], 0))\<^sup>*\<^sup>*
       (pricing_start ([''eastus'' \<mapsto> [(''Standard_D2'', 5)]], 0) ''mars'' ()) s \<and>
     onDemandPrices (ps_provider s) = [(''Standard_D2'', 2)] \<and> pricing_ok ''mars'' (ps_provider s) \<and>
     price_source (GetProductsPricePages sampleGet (\<lambda>b. Ok samplePage))
       (\<lambda>filters. http_serves sampleGet (\<lambda>b. Ok samplePage) (firstURL filters)) (\<lambda>_. 7) (\<lambda>_. 0)
       ([''eastus'' \<mapsto> [(''Standard_D2'', 5)]], 0) ''mars'' (pricing_start ([''eastus'' \<mapsto> [(''Standard_D2'', 5)]], 0) ''mars'' ()) s"
proof -
  let ?st = "([''eastus'' \<mapsto> [(''Standard_D2'', 5)]], 0) :: staticPrices"
  let ?api = "GetProductsPricePages sampleGet (\<lambda>b. Ok samplePage)"
  have "fetchOnDemandPricing ?api (NewPricingProvider ?st ''mars'') () = Some (Ok [(''Standard_D2'', 2)], ())"
    unfolding fetch_serves [OF sample_serves] samplePage_items by simp
  then obtain p' where p': "updatePricing ?api (\<lambda>_. 7) (\<lambda>_. 0) (NewPricingProvider ?st ''mars'') () = Some (Ok p', ())"
      "onDemandPrices p' = [(''Standard_D2'', 2)]"
    by (rule updatePricing_fetched) simp
  define s where "s = \<lparr>ps_phase = Waiting 7, ps_provider = p', ps_world = ()\<rparr>"
  have "pricing_step ?api (\<lambda>_. 7) (\<lambda>_. 0) ?st (pricing_start ?st ''mars'' ()) s"
    unfolding pricing_start_def s_def by (rule startup [where clk = "\<lambda>_. 7", OF p'(1)])
  then have run: "(pricing_step ?api (\<lambda>_. 7) (\<lambda>_. 0) ?st)\<^sup>*\<^sup>* (pricing_start ?st ''mars'' ()) s" by (rule r_into_rtranclp)
  from prices_never_lost [OF run] run p'(2) show ?thesis
    by (intro exI [of _ s]) (simp add: staticPricing_def s_def)
qed

text \<open>
  C28. When the price server answers the region's query with a chain of pages, an update stores
  for each SKU the price of the last on-demand Linux item on those pages (no Windows product,
  no low priority meter, no spot SKU) and nothing for other SKUs.
\<close>

theorem update_stores_last_on_demand_price:
  assumes "http_serves httpGet unmarshal (firstURL (onDemandFilters (region p))) w pages w'"
    and "lastPrice (concat (map Items pages)) sku0 \<noteq> None"
  shows "\<exists>p'. UpdateOnDemandPricing (GetProductsPricePages httpGet unmarshal) clk hash p w = Some (Ok (None, p'), w') \<and>
    onDemandUpdateTime p' = clk w' \<and>
    OnDemandPrice p' sku =
      (case lastPrice (concat (map Items pages)) sku of None \<Rightarrow> (0, False) | Some x \<Rightarrow> (x, True))"
proof -
  let ?ps = "onDemandItems (concat (map Items pages)) []"
  have "?ps \<noteq> []" using assms(2) by (auto simp: lastPrice_None_iff)
  then have "\<exists>p'. UpdateOnDemandPricing (GetProductsPricePages httpGet unmarshal) clk hash p w = Some (Ok (None, p'), w')
      \<and> onDemandUpdateTime p' = clk w' \<and> onDemandPrices p' = ?ps"
    using fetch_serves [OF assms(1)] by (auto simp: UpdateOnDemandPricing_def Let_def split: prod.splits)
  moreover have "map_of ?ps sku = lastPrice (concat (map Items pages)) sku"
    by (simp add: map_of_onDemandItems split: option.splits)
  ultimately show ?thesis unfolding OnDemandPrice_def by metis
qed

theorem update_stores_last_on_demand_price_witness:
  "\<exists>p'. UpdateOnDemandPricing (GetProductsPricePages sampleGet (\<lambda>b. Ok samplePage))
       (\<lambda>_. 7) (\<lambda>_. 0) (NewPricingProvider (Map.empty, 0) ''eastus'') () = Some (Ok (None, p'), ()) \<and>
     OnDemandPrice p' ''Standard_D2'' = (2, True)"
  using update_stores_last_on_demand_price [OF sample_serves, of "''Standard_D2''" "\<lambda>_. 7" "\<lambda>_. 0"
      "NewPricingProvider (Map.empty, 0) ''eastus''" "()" "''Standard_D2''"]
  unfolding samplePage_price by auto

text \<open>
  A failed update leaves prices and update time as they were and reports the time of the
  data still in use.
\<close>

theorem failed_update_keeps_prices:
  assumes "UpdateOnDemandPricing (GetProductsPricePages httpGet unmarshal) clk hash p w = Some (Ok (Some err, p'), w')"
  shows "p' = p \<and> lastUpdateTime err = OnDemandLastUpdated p"
  using assms by (cases rule: http_client.update_cases) (simp_all add: OnDemandLastUpdated_def)

theorem failed_update_keeps_prices_witness:
  "\<exists>err p'. UpdateOnDemandPricing (GetProductsPricePages (\<lambda>url w. (Err (ErrorString ''down''), w)) (\<lambda>b. Ok samplePage))
       (\<lambda>_. 7) (\<lambda>_. 0) (NewPricingProvider (Map.empty, 5) ''eastus'') () = Some (Ok (Some err, p'), ()) \<and>
     lastUpdateTime err = 5"
proof -
  let ?p = "NewPricingProvider (Map.empty, 5) ''eastus''"
  let ?api = "GetProductsPricePages (\<lambda>url w. (Err (ErrorString ''down''), w)) (\<lambda>b. Ok samplePage) :: unit PricingAPI"
  have "fetchOnDemandPricing ?api ?p () = Some (Err (ErrorString ''down''), ())"
    by (simp add: fetchOnDemandPricing_def GetProductsPricePages_def firstURL_def pricingURL_def pagesLoop.simps)
  then have "\<exists>err. UpdateOnDemandPricing ?api (\<lambda>_. 7) (\<lambda>_. 0) ?p () = Some (Ok (Some err, ?p), ())"
    by (simp add: UpdateOnDemandPricing_def)
  then obtain err where run: "UpdateOnDemandPricing ?api (\<lambda>_. 7) (\<lambda>_. 0) ?p () = Some (Ok (Some err, ?p), ())" ..
  with failed_update_keeps_prices [OF run] show ?thesis
    by (auto simp: OnDemandLastUpdated_def NewPricingProvider_def)
qed

text \<open>
  The filter of a price query survives URL escaping: decoding the escaped text gives the
  text back, so quotes, blanks and ampersands in a filter value cannot change the query.
\<close>

theorem query_escape_round_trip: "QueryUnescape (QueryEscape s) = s"
  by (rule QueryUnescape_QueryEscape)

end
