(* ===== verification/InstanceTypes.thy ===== *)
theory InstanceTypes
  imports Labels Skewer Quantities Gpu Cache Pricing "HOL-Library.Multiset"
begin

text \<open>
  Instance types (\<open>pkg/providers/instancetype/\<close>): from the SKUs of a region to what karpenter
  schedules with, the labels a node of that type will have, its capacity, the overhead of the
  kubelet and the system, and its offering. The provider keeps the SKUs of its region in an
  expiring cache.
\<close>

subsection \<open>Kubelet settings, offerings, instance types\<close>

record KubeletConfiguration =
  MaxPods :: "int option"
  PodsPerCore :: "int option"
  SystemReserved :: "ResourceList option"
  KubeReserved :: "ResourceList option"
  EvictionHard :: "(string \<rightharpoonup> string) option"
  EvictionSoft :: "(string \<rightharpoonup> string) option"

record Offering =
  CapacityType :: string
  Zone :: string
  Price :: rat
  Available :: bool

record InstanceTypeOverhead =
  ov_KubeReserved :: ResourceList
  ov_SystemReserved :: ResourceList
  ov_EvictionThreshold :: ResourceList

record InstanceType =
  it_Name :: string
  it_Requirements :: Requirements
  it_Offerings :: "Offering list"
  it_Capacity :: ResourceList
  it_Overhead :: InstanceTypeOverhead

definition Overhead_Total :: "InstanceTypeOverhead \<Rightarrow> ResourceList" where
  "Overhead_Total i = Merge [ov_KubeReserved i, ov_SystemReserved i, ov_EvictionThreshold i]"

definition Allocatable :: "InstanceType \<Rightarrow> ResourceList" where
  "Allocatable i = Subtract (it_Capacity i) (Overhead_Total (it_Overhead i))"

definition Offerings_Available :: "Offering list \<Rightarrow> Offering list" where
  "Offerings_Available ofs = filter Available ofs"

subsection \<open>Capacity\<close>

text \<open>\<open>resources.Quantity(fmt.Sprint(n))\<close> and its like: a text that is parsed again.\<close>

definition gpuNvidiaCount :: "SKU \<Rightarrow> Quantity res" where
  "gpuNvidiaCount sku =
     (let (count, err) = GPU sku
      in MustParse (show_int (if err \<noteq> None \<or> \<not> IsNvidiaEnabledSKU (GetName sku) then 0 else count)))"

definition cpu :: "SKU \<Rightarrow> Quantity res" where
  "cpu sku = MustParse (show_int (fst (VCPU sku)))"

definition memory :: "SKU \<Rightarrow> Quantity res" where
  "memory sku = MustParse (format_f6 (fst (Memory sku)) @ ''G'')"

definition getEphemeralStorage :: "SKU \<Rightarrow> Quantity" where
  "getEphemeralStorage sku = whole (20 * 10 ^ 9)"

definition pods :: "SKU \<Rightarrow> KubeletConfiguration option \<Rightarrow> Quantity res" where
  "pods sku kc =
     (let count = (case kc of
                     Some k \<Rightarrow> (case MaxPods k of Some n \<Rightarrow> n | None \<Rightarrow> 110)
                   | None \<Rightarrow> 110)
      in case kc of
           Some k \<Rightarrow>
             if 0 < FromPtr 0 (PodsPerCore k)
             then res_bind (cpu sku) (\<lambda>c.
               MustParse (show_int (min (int64_of (FromPtr 0 (PodsPerCore k) * Quantity_Value c)) count)))
             else MustParse (show_int count)
         | None \<Rightarrow> MustParse (show_int count))"

definition computeCapacity :: "SKU \<Rightarrow> KubeletConfiguration option \<Rightarrow> ResourceList res" where
  "computeCapacity sku kc =
     res_bind (cpu sku) (\<lambda>c. res_bind (memory sku) (\<lambda>m. res_bind (pods sku kc) (\<lambda>p.
     res_bind (gpuNvidiaCount sku) (\<lambda>g.
       Ok [''cpu'' \<mapsto> c, ''memory'' \<mapsto> m, ''ephemeral-storage'' \<mapsto> getEphemeralStorage sku, ''pods'' \<mapsto> p,
           ''nvidia.com/gpu'' \<mapsto> g]))))"

subsection \<open>Overhead\<close>

definition systemReservedResources :: "KubeletConfiguration option \<Rightarrow> ResourceList res" where
  "systemReservedResources kc =
     res_bind (MustParse ''100m'') (\<lambda>c. res_bind (MustParse ''100Mi'') (\<lambda>m. res_bind (MustParse ''1Gi'') (\<lambda>e.
       let rs = [''cpu'' \<mapsto> c, ''memory'' \<mapsto> m, ''ephemeral-storage'' \<mapsto> e]
       in case kc of
            None \<Rightarrow> Ok rs
          | Some k \<Rightarrow> (case SystemReserved k of None \<Rightarrow> Ok rs | Some sr \<Rightarrow> Ok (Assign2 rs sr)))))"

text \<open>The table of CPU ranges in milli-cores: start, end, share reserved of the range.\<close>

definition cpuRanges :: "(int \<times> int \<times> rat) list" where
  "cpuRanges =
     [(0, 1000, float64 (6 / 100)), (1000, 2000, float64 (1 / 100)), (2000, 4000, float64 (5 / 1000)),
      (4000, 2 ^ 31, float64 (25 / 10000))]"

definition trunc :: "rat \<Rightarrow> int" where
  "trunc q = (if 0 \<le> q then \<lfloor>q\<rfloor> else \<lceil>q\<rceil>)"

fun reserveCpu :: "int \<Rightarrow> (int \<times> int \<times> rat) list \<Rightarrow> ResourceList \<Rightarrow> ResourceList" where
  "reserveCpu milli [] rs = rs"
| "reserveCpu milli ((start, end', percentage) # ranges) rs =
     (if start \<le> milli
      then (let r = (if milli < end' then float64 (of_int (milli - start)) else float64 (of_int (end' - start)));
                cpuOverhead = (case rs ''cpu'' of Some q \<Rightarrow> q | None \<Rightarrow> 0)
            in reserveCpu milli ranges
                 (rs(''cpu'' \<mapsto> cpuOverhead + NewMilliQuantity (trunc (float64 (r * percentage))))))
      else reserveCpu milli ranges rs)"

definition kubeReservedResources :: "Quantity \<Rightarrow> Quantity \<Rightarrow> KubeletConfiguration option \<Rightarrow> ResourceList res" where
  "kubeReservedResources cpus podq kc =
     res_bind (MustParse (show_int (int64_of (11 * Quantity_Value podq + 255)) @ ''Mi'')) (\<lambda>m.
     res_bind (MustParse ''1Gi'') (\<lambda>e.
       let rs = reserveCpu (MilliValue cpus) cpuRanges [''memory'' \<mapsto> m, ''ephemeral-storage'' \<mapsto> e]
       in case kc of
            None \<Rightarrow> Ok rs
          | Some k \<Rightarrow> (case KubeReserved k of None \<Rightarrow> Ok rs | Some kr \<Rightarrow> Ok (Assign2 rs kr))))"

definition memoryAvailable :: string where
  "memoryAvailable = ''memory.available''"

definition mustParsePercentage :: "string \<Rightarrow> rat res" where
  "mustParsePercentage v =
     (case ParseFloat (Trim v ''%'') of
        None \<Rightarrow> Panic (''expected percentage value to be a float but got '' @ v)
      | Some p \<Rightarrow> Ok (if p = 100 then 0 else p))"

text \<open>
  \<open>fmt.Sprint\<close> of a \<open>float64\<close> that is a whole number: the shortest digits that read back to it,
  filled with zeros, and from \<open>10^21\<close> on with an exponent.
\<close>

definition shortest_at :: "int \<Rightarrow> nat \<Rightarrow> int" where
  "shortest_at n k = round_even (of_int n / 10 ^ k) * 10 ^ k"

fun shortest_from :: "int \<Rightarrow> nat \<Rightarrow> int" where
  "shortest_from n 0 = n"
| "shortest_from n (Suc k) =
     (if float64 (of_int (shortest_at n (Suc k))) = of_int n then shortest_at n (Suc k) else shortest_from n k)"

definition Sprint_float :: "int \<Rightarrow> string" where
  "Sprint_float n =
     (if \<bar>n\<bar> < 2 ^ 53 then show_int n
      else
        (let m = shortest_from n (length (show_int \<bar>n\<bar>)); ds = show_int \<bar>m\<bar>; sign = (if n < 0 then ''-'' else '''')
         in if \<bar>m\<bar> < 10 ^ 21 then sign @ ds
            else
              (let frac = rev (dropWhile (\<lambda>c. c = CHR ''0'') (rev (tl ds)))
               in sign @ [hd ds] @ (if frac = [] then [] else ''.'' @ frac) @ ''e+'' @ show_nat (length ds - 1))))"

definition evictionValue :: "Quantity \<Rightarrow> string \<Rightarrow> Quantity res" where
  "evictionValue mem v =
     (if HasSuffix v ''%''
      then res_bind (mustParsePercentage v) (\<lambda>p.
        MustParse (Sprint_float \<lceil>float64 (float64 (float64 (of_int (Quantity_Value mem)) / 100) * p)\<rceil>))
      else MustParse v)"

fun evictionOverride :: "Quantity \<Rightarrow> (string \<rightharpoonup> string) list \<Rightarrow> ResourceList \<Rightarrow> ResourceList res" where
  "evictionOverride mem [] override = Ok override"
| "evictionOverride mem (m # ms) override =
     (case m memoryAvailable of
        Some v \<Rightarrow>
          res_bind (evictionValue mem v) (\<lambda>q.
            evictionOverride mem ms (MaxResources [override, [''memory'' \<mapsto> q]]))
      | None \<Rightarrow> evictionOverride mem ms (MaxResources [override, Map.empty]))"

definition evictionSignals :: "KubeletConfiguration \<Rightarrow> (string \<rightharpoonup> string) list" where
  "evictionSignals kc =
     (case EvictionHard kc of None \<Rightarrow> [] | Some m \<Rightarrow> [m]) @ (case EvictionSoft kc of None \<Rightarrow> [] | Some m \<Rightarrow> [m])"

definition evictionThreshold :: "Quantity \<Rightarrow> KubeletConfiguration option \<Rightarrow> ResourceList res" where
  "evictionThreshold mem kc =
     res_bind (MustParse ''100Mi'') (\<lambda>d.
       let overhead = [''memory'' \<mapsto> d]
       in case kc of
            None \<Rightarrow> Ok overhead
          | Some k \<Rightarrow>
              res_bind (evictionOverride mem (evictionSignals k) Map.empty) (\<lambda>override.
                Ok (Assign2 overhead override)))"

subsection \<open>Requirements\<close>

definition getArchitecture :: "SKU \<Rightarrow> string" where
  "getArchitecture sku =
     (let architecture = fst (GetCPUArchitectureType sku)
      in case AzureToKubeArchitectures architecture of Some value \<Rightarrow> value | None \<Rightarrow> architecture)"

text \<open>\<open>requirements[key].Insert(v)\<close>: a key without a requirement is a nil dereference.\<close>

definition insertValue :: "Requirements \<Rightarrow> string \<times> string \<Rightarrow> Requirements res" where
  "insertValue rs kv =
     (case rs (fst kv) of
        None \<Rightarrow> Panic ''nil pointer dereference''
      | Some r \<Rightarrow> Ok (rs(fst kv \<mapsto> Insert r [snd kv])))"

fun insertValues :: "(string \<times> string) list \<Rightarrow> Requirements \<Rightarrow> Requirements res" where
  "insertValues [] rs = Ok rs"
| "insertValues (kv # kvs) rs = res_bind (insertValue rs kv) (insertValues kvs)"

text \<open>The requirements a size starts with: those with values, and those that start out empty.\<close>

definition valuedLabels :: "SKU \<Rightarrow> Offering list \<Rightarrow> string \<Rightarrow> Quantity \<Rightarrow> Quantity \<Rightarrow> Quantity \<Rightarrow> (string \<times> string list) list" where
  "valuedLabels sku offerings reg c m g =
     [(''node.kubernetes.io/instance-type'', [GetName sku]),
      (''kubernetes.io/arch'', [getArchitecture sku]),
      (''kubernetes.io/os'', [''linux'']),
      (''topology.kubernetes.io/region'', [reg]),
      (''karpenter.sh/capacity-type'', map CapacityType (Offerings_Available offerings)),
      (LabelSKUCPU, [show_int (Quantity_Value c)]),
      (LabelSKUMemory, [show_int (MegaValue m)]),
      (LabelSKUGPUCount, [show_int (Quantity_Value g)])]"

definition emptyLabels :: "string list" where
  "emptyLabels =
     [LabelSKUGPUManufacturer, LabelSKUGPUName, LabelSKUTier,
      LabelSKUName, LabelSKUSize, LabelSKUSeries,
      LabelSKUFamily, LabelSKUSubfamily, LabelSKUCPUConstrained, LabelSKUAccelerator, LabelSKUVersion,
      LabelSKUStoragePremiumCapable, LabelSKUEncryptionAtHostSupported, LabelSKUEphemeralOSDiskSupported,
      LabelSKUAcceleratedNetworking, LabelSKUHyperVGeneration, LabelSKUCachedDiskSize, LabelSKUMaxResourceVolume]"

definition baseRequirements :: "SKU \<Rightarrow> Offering list \<Rightarrow> string \<Rightarrow> Quantity \<Rightarrow> Quantity \<Rightarrow> Quantity \<Rightarrow> Requirements" where
  "baseRequirements sku offerings reg c m g =
     NewRequirements
       (map (\<lambda>(k, vs). requirement_of k OpIn vs) (valuedLabels sku offerings reg c m g) @
        map (\<lambda>k. requirement_of k OpDoesNotExist []) emptyLabels)"

definition option_label :: "string \<Rightarrow> string option \<Rightarrow> (string \<times> string) list" where
  "option_label k v = (case v of None \<Rightarrow> [] | Some x \<Rightarrow> [(k, x)])"

definition bool_label :: "string \<Rightarrow> bool \<Rightarrow> string \<Rightarrow> (string \<times> string) list" where
  "bool_label k b v = (if b then [(k, v)] else [])"

definition sizeValues :: "VMSizeType \<Rightarrow> (string \<times> string) list" where
  "sizeValues vmsize =
     [(LabelSKUSeries, Series vmsize), (LabelSKUFamily, Family vmsize)] @
     option_label LabelSKUSubfamily (Subfamily vmsize) @
     option_label LabelSKUCPUConstrained (CpusConstrained vmsize)"

definition featureValues :: "VMSizeType \<Rightarrow> (string \<times> string) list" where
  "featureValues vmsize =
     concat (map (\<lambda>f. case map_of SkuFeatureToLabel f of Some l \<Rightarrow> [(l, ''true'')] | None \<Rightarrow> [])
       (AdditiveFeatures vmsize))"

definition number_label :: "string \<Rightarrow> int \<times> capErr option \<Rightarrow> (string \<times> string) list" where
  "number_label k v = (case v of (n, None) \<Rightarrow> [(k, show_int n)] | (n, Some e) \<Rightarrow> [])"

definition capabilityValues :: "SKU \<Rightarrow> VMSizeType \<Rightarrow> (string \<times> string) list" where
  "capabilityValues sku vmsize =
     bool_label LabelSKUStoragePremiumCapable (IsPremiumIO sku) ''true'' @
     bool_label LabelSKUEncryptionAtHostSupported (IsEncryptionAtHostSupported sku) ''true'' @
     bool_label LabelSKUEphemeralOSDiskSupported (IsEphemeralOSDiskSupported sku \<and> Series vmsize \<noteq> ''Dlds_v5'') ''true'' @
     bool_label LabelSKUAcceleratedNetworking (IsAcceleratedNetworkingSupported sku) ''true'' @
     bool_label LabelSKUHyperVGeneration (IsHyperVGen1Supported sku) ''V1'' @
     bool_label LabelSKUHyperVGeneration (IsHyperVGen2Supported sku) ''V2'' @
     (if IsNvidiaEnabledSKU (GetName sku)
      then (LabelSKUGPUManufacturer, ManufacturerNvidia) # option_label LabelSKUGPUName (AcceleratorType vmsize)
      else []) @
     number_label LabelSKUCachedDiskSize (MaxCachedDiskBytes sku) @
     number_label LabelSKUMaxResourceVolume (MaxResourceVolumeMB sku) @
     option_label LabelSKUAccelerator (AcceleratorType vmsize) @
     [(LabelSKUVersion, Version vmsize)]"

definition featureRequirements :: "Requirement list" where
  "featureRequirements = map (\<lambda>(f, l). requirement_of l OpDoesNotExist []) SkuFeatureToLabel"

definition computeRequirements :: "SKU \<Rightarrow> Offering list \<Rightarrow> string \<Rightarrow> Requirements res" where
  "computeRequirements sku offerings reg =
     res_bind (cpu sku) (\<lambda>c. res_bind (memory sku) (\<lambda>m. res_bind (gpuNvidiaCount sku) (\<lambda>g.
     res_bind (insertValue (baseRequirements sku offerings reg c m g) (LabelSKUName, GetName sku)) (\<lambda>rs.
     res_bind (Deref (sku_Size sku)) (\<lambda>size.
     res_bind (insertValue rs (LabelSKUSize, size)) (\<lambda>rs.
       (case GetVMSize sku of
          Err e \<Rightarrow> Ok rs
        | Panic p \<Rightarrow> Panic p
        | Ok vmsize \<Rightarrow>
            res_bind (insertValues (sizeValues vmsize) rs) (\<lambda>rs.
            res_bind (insertValues (featureValues vmsize) (Requirements_Add rs featureRequirements)) (\<lambda>rs.
              insertValues (capabilityValues sku vmsize) rs)))))))))"

subsection \<open>Instance types\<close>

definition NewInstanceType :: "SKU \<Rightarrow> KubeletConfiguration option \<Rightarrow> string \<Rightarrow> Offering list \<Rightarrow> InstanceType res" where
  "NewInstanceType sku kc reg offerings =
     res_bind (computeRequirements sku offerings reg) (\<lambda>rs.
     res_bind (computeCapacity sku kc) (\<lambda>cap.
     res_bind (cpu sku) (\<lambda>c. res_bind (pods sku kc) (\<lambda>p.
     res_bind (kubeReservedResources c p kc) (\<lambda>kr.
     res_bind (systemReservedResources kc) (\<lambda>sr.
     res_bind (memory sku) (\<lambda>m. res_bind (evictionThreshold m kc) (\<lambda>ev.
       Ok \<lparr>it_Name = GetName sku, it_Requirements = rs, it_Offerings = offerings, it_Capacity = cap,
           it_Overhead = \<lparr>ov_KubeReserved = kr, ov_SystemReserved = sr, ov_EvictionThreshold = ev\<rparr>\<rparr>))))))))"

text \<open>\<open>utils.GetAllSingleValuedRequirementLabels\<close>; \<open>ulist\<close> lists a set in some order.\<close>

definition GetAllSingleValuedRequirementLabels ::
  "(string set \<Rightarrow> string list) \<Rightarrow> InstanceType option \<Rightarrow> (string \<rightharpoonup> string)" where
  "GetAllSingleValuedRequirementLabels ulist instanceType =
     (case instanceType of
        None \<Rightarrow> Map.empty
      | Some i \<Rightarrow>
          (\<lambda>k. case it_Requirements i k of
                 None \<Rightarrow> None
               | Some req \<Rightarrow> if Len req = 1 then Some (Values ulist req ! 0) else None))"

subsection \<open>The provider\<close>

text \<open>A Go map is an association list; the order a loop visits it in is chosen by the runtime.\<close>

record ITProvider =
  itp_region :: string
  itp_pricing :: PricingProvider
  itp_unavailable :: UnavailableOfferings
  itp_cache :: "(string \<times> SKU) list cache"

definition InstanceTypesCacheKey :: string where
  "InstanceTypesCacheKey = ''types''"

definition InstanceTypesCacheTTL :: int where
  "InstanceTypesCacheTTL = 23 * 60 * minute"

definition NewITProvider ::
  "string \<Rightarrow> (string \<times> SKU) list cache \<Rightarrow> PricingProvider \<Rightarrow> UnavailableOfferings \<Rightarrow> ITProvider" where
  "NewITProvider reg c pr uo = \<lparr>itp_region = reg, itp_pricing = pr, itp_unavailable = uo, itp_cache = c\<rparr>"

definition ITProvider_filter :: "SKU \<Rightarrow> bool" where
  "ITProvider_filter sku = True"

fun collect_skus :: "SKU list \<Rightarrow> (string \<times> SKU) list \<Rightarrow> (string \<times> SKU) list" where
  "collect_skus [] m = m"
| "collect_skus (s # ss) m =
     collect_skus ss (if ITProvider_filter s then AList.update (GetName s) s m else m)"

definition getInstanceTypes ::
  "'w ResourceClient \<Rightarrow> int \<Rightarrow> ITProvider \<Rightarrow> 'w \<Rightarrow> ((string \<times> SKU) list res \<times> ITProvider \<times> 'w) option" where
  "getInstanceTypes cl now p w =
     (case cache_Get now (itp_cache p) InstanceTypesCacheKey of
        Some cached \<Rightarrow> Some (Ok cached, p, w)
      | None \<Rightarrow>
          (case NewCache [WithLocation (itp_region p), WithResourceClient cl] w of
             None \<Rightarrow> None
           | Some (Err e, w') \<Rightarrow> Some (Err (Wrapped ''fetching SKUs using skewer, '' e), p, w')
           | Some (Panic m, w') \<Rightarrow> Some (Panic m, p, w')
           | Some (Ok data, w') \<Rightarrow>
               (let types = collect_skus (Filter_skus data [ResourceTypeFilter ''virtualMachines'']) []
                in Some (Ok types, p\<lparr>itp_cache := SetDefault now (itp_cache p) InstanceTypesCacheKey types\<rparr>, w'))))"

definition createOfferings :: "int \<Rightarrow> ITProvider \<Rightarrow> SKU \<Rightarrow> Offering list res" where
  "createOfferings now p sku =
     res_bind (Deref (sku_Name sku)) (\<lambda>name.
       let (onDemandPrice, ok) = OnDemandPrice (itp_pricing p) name
       in Ok (if \<not> IsUnavailable now (itp_unavailable p) name (itp_region p) PriorityRegular
              then [\<lparr>CapacityType = PriorityRegular, Zone = '''', Price = onDemandPrice, Available = ok\<rparr>]
              else []))"

fun buildTypes :: "int \<Rightarrow> ITProvider \<Rightarrow> KubeletConfiguration option \<Rightarrow> SKU list \<Rightarrow> InstanceType list res" where
  "buildTypes now p kc [] = Ok []"
| "buildTypes now p kc (sku # skus) =
     res_bind (createOfferings now p sku) (\<lambda>ofs.
     res_bind (NewInstanceType sku kc (itp_region p) ofs) (\<lambda>t.
     res_bind (buildTypes now p kc skus) (\<lambda>ts.
       Ok (if length (it_Offerings t) = 0 then ts else t # ts))))"

definition ITProvider_List ::
  "'w ResourceClient \<Rightarrow> ((string \<times> SKU) list \<Rightarrow> (string \<times> SKU) list) \<Rightarrow> int \<Rightarrow> ITProvider \<Rightarrow> KubeletConfiguration option \<Rightarrow> 'w
     \<Rightarrow> (InstanceType list res \<times> ITProvider \<times> 'w) option" where
  "ITProvider_List cl visit now p kc w =
     map_option (\<lambda>(r, p', w').
         (res_bind r (\<lambda>skus. buildTypes now p' kc (map snd (visit skus))), p', w'))
       (getInstanceTypes cl now p w)"

definition ITProvider_LivenessProbe :: "ITProvider \<Rightarrow> unit res" where
  "ITProvider_LivenessProbe p = Pricing.LivenessProbe (itp_pricing p)"

end
