(* ===== verification/Overhead.thy ===== *)
theory Overhead
  imports InstanceTypes
begin

text \<open>
  Capacity and overhead of an instance type: what the floating-point and text detours of
  \<open>pkg/providers/instancetype/instancetype.go\<close> compute.
\<close>

subsection \<open>Capacity\<close>

lemma MustParse_show_int [simp]: "MustParse (show_int i) = Ok (whole i)"
  by (simp add: MustParse_def ParseQuantity_show_int)

lemma cpu_eq: "cpu sku = Ok (whole (fst (VCPU sku)))"
  by (simp add: cpu_def)

lemma gpuNvidiaCount_eq:
  "gpuNvidiaCount sku =
     Ok (whole (if snd (GPU sku) = None \<and> IsNvidiaEnabledSKU (GetName sku) then fst (GPU sku) else 0))"
  by (simp add: gpuNvidiaCount_def split: prod.splits)

lemma int_capability_bounds:
  assumes "GetCapabilityIntegerQuantity s name = (n, e)"
  shows "- (2 ^ 63) \<le> n \<and> n < 2 ^ 63"
  using assms
  by (auto simp: GetCapabilityIntegerQuantity_def ParseInt64_def Let_def split: option.splits if_splits)

lemma VCPU_bounds: "- (2 ^ 63) \<le> fst (VCPU sku)" "fst (VCPU sku) < 2 ^ 63"
  using int_capability_bounds [of sku "''vCPUs''" "fst (VCPU sku)" "snd (VCPU sku)"] by (simp_all add: VCPU_def)

lemma Value_VCPU [simp]: "Quantity_Value (whole (fst (VCPU sku))) = fst (VCPU sku)"
  by (rule Value_whole [OF VCPU_bounds])

definition podCount :: "SKU \<Rightarrow> KubeletConfiguration option \<Rightarrow> int" where
  "podCount sku kc =
     (let limit = FromPtr 110 (Option.bind kc MaxPods); perCore = FromPtr 0 (Option.bind kc PodsPerCore)
      in if 0 < perCore then min (int64_of (perCore * fst (VCPU sku))) limit else limit)"

lemma pods_eq: "pods sku kc = Ok (whole (podCount sku kc))"
  by (cases kc; cases "Option.bind kc MaxPods")
    (simp_all add: pods_def podCount_def cpu_eq FromPtr_def Let_def)

lemma memory_eq:
  assumes "Memory sku = (float64 (of_nat N / 10 ^ 6), None)" "N < 2 ^ 52"
  shows "memory sku = Ok (whole (int N * 1000))"
proof -
  have "int (N div 10 ^ 6 * 10 ^ 6 + N mod 10 ^ 6) = int N" by (simp only: div_mult_mod_eq)
  then have n: "int (N div 10 ^ 6) * 10 ^ 6 + int (N mod 10 ^ 6) = int N"
    by (simp only: of_nat_add of_nat_mult of_nat_power of_nat_numeral)
  have "N mod 10 ^ 6 < 10 ^ 6" by simp
  then have "ParseQuantity (show_nat (N div 10 ^ 6) @ ''.'' @ pad6 (N mod 10 ^ 6) @ ''G'') = Some (whole (int N * 1000))"
    unfolding n [symmetric] by (rule ParseQuantity_G)
  then show ?thesis
    unfolding memory_def MustParse_def assms(1) fst_conv format_f6_micro [OF assms(2)] append_assoc by (simp only: option.case)
qed

lemma Memory_text:
  assumes "sku_Capabilities sku = Some cs" "find_capability ''MemoryGB'' cs = Some (Some t)"
    and "parse_decimal t = Some (of_nat N / 10 ^ 6)"
  shows "Memory sku = (float64 (of_nat N / 10 ^ 6), None)"
  using assms by (simp add: Memory_def GetCapabilityFloatQuantity_def ParseFloat_def)

text \<open>
  C24. The capacity of an instance type is what the SKU says. The vCPUs are the SKU's, the GPUs
  are counted only for sizes on the Nvidia list, the pod limit is the kubelet's (110 if it sets
  none, and never more than its pods per core), and memory is exact: a \<open>MemoryGB\<close> text of at most
  six decimals passes through \<open>float64\<close> and \<open>%f\<close> without losing a byte.
\<close>

theorem capacity_of_sku:
  assumes "sku_Capabilities sku = Some cs" "find_capability ''MemoryGB'' cs = Some (Some t)"
    and "parse_decimal t = Some (of_nat N / 10 ^ 6)" "N < 2 ^ 52"
  shows "computeCapacity sku kc =
    Ok [''cpu'' \<mapsto> whole (fst (VCPU sku)), ''memory'' \<mapsto> whole (int N * 1000),
        ''ephemeral-storage'' \<mapsto> whole (20 * 10 ^ 9), ''pods'' \<mapsto> whole (podCount sku kc),
        ''nvidia.com/gpu'' \<mapsto>
          whole (if snd (GPU sku) = None \<and> IsNvidiaEnabledSKU (GetName sku) then fst (GPU sku) else 0)]"
  by (simp add: computeCapacity_def cpu_eq memory_eq [OF Memory_text [OF assms(1-3)] assms(4)] pods_eq
      gpuNvidiaCount_eq getEphemeralStorage_def)

subsection \<open>CPU reserved for the kubelet\<close>

definition reservedMilli :: "int \<Rightarrow> int" where
  "reservedMilli n =
     60 * min n 1 + 10 * min (max (n - 1) 0) 1 + 5 * min (max (n - 2) 0) 2 + 5 * max (n - 4) 0 div 2"

lemma reserved_shares:
  "trunc (float64 (1000 * float64 (6 / 100))) = 60" "trunc (float64 (1000 * float64 (1 / 100))) = 10"
  "trunc (float64 (1000 * float64 (5 / 1000))) = 5" "trunc (float64 (2000 * float64 (5 / 1000))) = 10"
  by code_simp+

lemma float64_quarter_percent: "float64 (25 / 10000) = 5764607523034235 / 2305843009213693952"
  by code_simp

lemma float64_0 [simp]: "float64 0 = 0"
  by (simp add: float64_def)

lemma trunc_0 [simp]: "trunc 0 = 0"
  by (simp add: trunc_def)

lemma reserved_tail:
  assumes "0 \<le> k" "1000 * k < 2 ^ 31"
  shows "trunc (float64 (float64 (of_int (1000 * k)) * float64 (25 / 10000))) = 5 * k div 2"
proof (cases "k = 0")
  case False
  define q where "q = of_int (1000 * k) * (5764607523034235 / 2305843009213693952 :: rat)"
  have k: "0 < (of_int k :: rat)" using assms False by simp
  have kb: "(of_int k :: rat) < 2 ^ 31 / 1000"
  proof -
    have "(of_int (1000 * k) :: rat) < of_int (2 ^ 31)" using assms(2) by (simp only: of_int_less_iff)
    then show ?thesis by simp
  qed
  have q: "0 < q" "q < 2 ^ 50" "of_int (10 * k) / 4 \<le> q" "q \<le> of_int (10 * k + 1) / 4"
    using k kb by (simp_all add: q_def)
  note b = float64_quarters(1) [OF q(1,2,3)] float64_quarters(2) [OF q(1,2,4)]
  have "\<lfloor>float64 q\<rfloor> = 5 * k div 2"
  proof -
    have fl: "of_int (5 * k div 2) \<le> (of_int (10 * k) / 4 :: rat)" "(of_int (10 * k + 1) / 4 :: rat) < of_int (5 * k div 2) + 1"
      by (cases "even k"; force elim: evenE oddE simp: field_simps)+
    show ?thesis using fl b by (simp add: floor_eq_iff)
  qed
  moreover have "0 \<le> float64 q" using q(1) by (intro float64_nonneg) simp
  moreover have "float64 (of_int (1000 * k)) = of_int (1000 * k)"
    using assms by (intro float64_of_int) simp
  ultimately show ?thesis unfolding trunc_def float64_quarter_percent by (simp only: q_def [symmetric] if_True)
qed (simp add: float64_def trunc_def)

lemma float64_small_int: "float64 (of_int n) = of_int n" if "\<bar>n\<bar> < 2 ^ 31"
  using that by (intro float64_of_int) simp

lemma reserveCpu_whole:
  assumes n: "0 \<le> n" "1000 * n < 2 ^ 31" and rs: "rs ''cpu'' = None"
  shows "reserveCpu (1000 * n) cpuRanges rs = rs(''cpu'' \<mapsto> NewMilliQuantity (reservedMilli n))"
proof -
  have f: "float64 1000 = 1000" "float64 2000 = 2000"
    using float64_small_int [of 1000] float64_small_int [of 2000] by simp_all
  have "n = 0 \<or> n = 1 \<or> n = 2 \<or> n = 3 \<or> n = 4 + (n - 4) \<and> 0 \<le> n - 4" using n(1) by linarith
  then consider "n = 0" | "n = 1" | "n = 2" | "n = 3" | k where "n = 4 + k" "0 \<le> k" by blast
  then show ?thesis
  proof cases
    case 5
    then have k: "1000 * k < 2 ^ 31" "0 \<le> 1000 * k" "125 * k < 268434956" using n(2) by simp_all
    have "of_int (1000 * n - 4000) = (of_int (1000 * k) :: rat)" using 5 by simp
    then have "trunc (float64 (float64 (of_int (1000 * n - 4000)) * float64 (25 / 10000))) = 5 * k div 2"
      using reserved_tail [OF 5(2) k(1)] by simp
    then show ?thesis
      using 5 k rs reserved_shares f
      by (simp add: cpuRanges_def reservedMilli_def NewMilliQuantity_def del: of_int_diff of_int_mult)
  qed (use rs reserved_shares f in \<open>simp_all add: cpuRanges_def reservedMilli_def NewMilliQuantity_def\<close>)
qed

lemma MustParse_Mi: "0 \<le> n \<Longrightarrow> n < 2 ^ 40 \<Longrightarrow> MustParse (show_int n @ ''Mi'') = Ok (whole (n * 2 ^ 20))"
  using ParseQuantity_Mi [of "nat n"] by (simp add: MustParse_def show_int_def nat_less_iff)

lemma MustParse_defaults:
  "MustParse ''1Gi'' = Ok (whole (2 ^ 30))" "MustParse ''100Mi'' = Ok (whole (100 * 2 ^ 20))" "MustParse ''100m'' = Ok (100 * 10 ^ 6)"
  by code_simp+

lemma MilliValue_whole: "\<bar>n\<bar> < 2 ^ 40 \<Longrightarrow> MilliValue (whole n) = 1000 * n"
proof -
  assume n: "\<bar>n\<bar> < 2 ^ 40"
  have "whole n = (1000 * n) * 10 ^ 6" by (simp add: whole_def)
  then have "div_away (whole n) (10 ^ 6) = 1000 * n" using div_away_exact [of "10 ^ 6" "1000 * n"] by simp
  then show ?thesis using n by (simp add: MilliValue_def int64_of_id)
qed

text \<open>
  C25. What the kubelet reserves: 255 MiB and 11 MiB per pod, 1 GiB of storage, and of the CPU
  6% of the first core, 1% of the second, 0.5% of the next two and 0.25% of the others, in whole
  milli-cores rounded down, although the shares are computed in floating point; the settings of
  the machine's kubelet override each resource.
\<close>

theorem kube_reserved_formula:
  assumes "0 \<le> n" "1000 * n < 2 ^ 31" "0 \<le> p" "p < 2 ^ 31"
  shows "kubeReservedResources (whole n) (whole p) kc =
    Ok (Assign2 [''memory'' \<mapsto> whole ((11 * p + 255) * 2 ^ 20), ''ephemeral-storage'' \<mapsto> whole (2 ^ 30),
                 ''cpu'' \<mapsto> NewMilliQuantity (reservedMilli n)]
         (FromPtr Map.empty (Option.bind kc KubeReserved)))"
proof -
  have p: "Quantity_Value (whole p) = p" using assms(3,4) by (intro Value_whole) simp_all
  have i: "int64_of (11 * p + 255) = 11 * p + 255" using assms(3,4) by (intro int64_of_id) simp_all
  have m: "MustParse (show_int (int64_of (11 * Quantity_Value (whole p) + 255)) @ ''Mi'') = Ok (whole ((11 * p + 255) * 2 ^ 20))"
    unfolding p i using assms(3,4) by (intro MustParse_Mi) simp_all
  have c: "MilliValue (whole n) = 1000 * n" using assms(1,2) by (intro MilliValue_whole) simp
  show ?thesis
    unfolding kubeReservedResources_def m c MustParse_defaults
    using reserveCpu_whole [OF assms(1,2), of "[''memory'' \<mapsto> whole ((11 * p + 255) * 2 ^ 20), ''ephemeral-storage'' \<mapsto> whole (2 ^ 30)]"]
    by (auto simp: Assign2_def Let_def split: option.splits)
qed

theorem kube_reserved_formula_witness:
  "map_res (\<lambda>r. (r ''cpu'', r ''memory'')) (kubeReservedResources (whole 24) (whole 110) None) =
     Ok (Some (NewMilliQuantity 130), Some (whole (1465 * 2 ^ 20)))"
  using kube_reserved_formula [of 24 110 None] by (simp add: Assign2_def reservedMilli_def)

subsection \<open>Eviction thresholds\<close>

lemma Sprint_float_small: "\<bar>n\<bar> < 2 ^ 53 \<Longrightarrow> MustParse (Sprint_float n) = Ok (whole n)"
  by (simp only: Sprint_float_def if_True MustParse_show_int)

text \<open>
  The share \<open>M / 100 * pct\<close> is computed with four roundings: of the memory, its hundredth, the percentage
  and the product. Below \<open>2^50\<close> bytes they add up to at most half a byte, and there is none at all for a quarter
  percentage of a memory that is a multiple of 100 bytes.
\<close>

lemma share_error:
  assumes "0 \<le> M" "M < 2 ^ 53" "0 \<le> pct" "of_int M * pct / 100 < 2 ^ 50"
  shows "\<bar>float64 (float64 (float64 (of_int M) / 100) * float64 pct) - of_int M * pct / 100\<bar> \<le> 1 / 2"
proof -
  define e where "e = pow2 (- 53)"
  define A where "A = (of_int M / 100 :: rat)"
  define S where "S = A * pct"
  have e: "0 < e" "e = 1 / 2 ^ 53" by (simp_all add: e_def pow2_def)
  have A: "0 \<le> A" using assms(1) by (simp add: A_def)
  have m: "float64 (of_int M) = of_int M" using assms(1,2) by (intro float64_of_int) simp
  define a b where "a = float64 A" and "b = float64 pct"
  have a: "A * (1 - e) \<le> a" "a \<le> A * (1 + e)" using float64_error [of A] A by (simp_all add: a_def e_def abs_le_iff algebra_simps)
  have b: "pct * (1 - e) \<le> b" "b \<le> pct * (1 + e)" using float64_error [of pct] assms(3) by (simp_all add: b_def e_def abs_le_iff algebra_simps)
  have pos: "0 \<le> a" "0 \<le> b" "0 \<le> S" "0 \<le> 1 - e" "0 \<le> 1 + e" using A assms(3) e by (simp_all add: a_def b_def S_def float64_nonneg)
  have "A * (1 - e) * (pct * (1 - e)) \<le> a * b" "a * b \<le> A * (1 + e) * (pct * (1 + e))"
    using pos A assms(3) e(1) by (intro mult_mono a b mult_nonneg_nonneg; simp)+
  then have ab: "S * ((1 - e) * (1 - e)) \<le> a * b" "a * b \<le> S * ((1 + e) * (1 + e))" by (simp_all only: S_def mult_ac)
  have x: "a * b * (1 - e) \<le> float64 (a * b)" "float64 (a * b) \<le> a * b * (1 + e)"
    using float64_error [of "a * b"] pos by (simp_all add: e_def abs_le_iff algebra_simps)
  have lo: "S * ((1 - e) * (1 - e) * (1 - e)) \<le> float64 (a * b)"
    using order_trans [OF mult_right_mono [OF ab(1) pos(4)] x(1)] by (simp only: mult.assoc)
  have hi: "float64 (a * b) \<le> S * ((1 + e) * (1 + e) * (1 + e))"
    using order_trans [OF x(2) mult_right_mono [OF ab(2) pos(5)]] by (simp only: mult.assoc)
  have "S * (1 - 4 * e) \<le> S * ((1 - e) * (1 - e) * (1 - e))" "S * ((1 + e) * (1 + e) * (1 + e)) \<le> S * (1 + 4 * e)"
    using pos(3) by (intro mult_left_mono; simp add: e(2))+
  moreover have "S < 2 ^ 50" using assms(4) by (simp add: S_def A_def)
  then have "S * (4 * e) \<le> 1 / 2" by (simp add: e(2))
  moreover have "S * (1 - 4 * e) = S - S * (4 * e)" "S * (1 + 4 * e) = S + S * (4 * e)" by (simp_all only: right_diff_distrib distrib_left mult_1_right)
  ultimately have "float64 (a * b) - S \<le> 1 / 2" "- (float64 (a * b) - S) \<le> 1 / 2" using lo hi by linarith+
  then have "\<bar>float64 (a * b) - S\<bar> \<le> 1 / 2" by (rule abs_leI)
  then show ?thesis by (simp add: m a_def b_def S_def A_def)
qed

lemma float64_quarter: "4 * q = of_int i \<Longrightarrow> 0 \<le> q \<Longrightarrow> q < 2 ^ 50 \<Longrightarrow> float64 q = q"
proof -
  assume q: "4 * q = of_int i" "0 \<le> q" "q < 2 ^ 50"
  then have "(of_int \<bar>i\<bar> :: rat) < of_int (2 ^ 52)" by (simp flip: q(1))
  then have "\<bar>i\<bar> < 2 ^ 52" by (simp only: of_int_less_iff)
  then have "\<bar>i\<bar> \<le> 2 ^ 53" by simp
  moreover have "q = of_int i * pow2 (- 2)" using q(1) by (simp add: pow2_def flip: q(1))
  ultimately show ?thesis by (intro float64_exact)
qed

lemma share_exact:
  assumes "0 \<le> k" "100 * k < 2 ^ 53" "0 \<le> pct" "of_int k * pct < 2 ^ 50" "4 * pct = of_int i"
  shows "float64 (float64 (float64 (of_int (100 * k)) / 100) * float64 pct) = of_int k * pct"
proof (cases "k = 0")
  case False
  have m: "float64 (of_int (100 * k)) = of_int (100 * k)" "float64 (of_int k) = of_int k"
    using assms(1,2) by (intro float64_of_int; simp)+
  have "1 * pct \<le> of_int k * pct" using assms(1,3) False by (intro mult_right_mono) simp_all
  then have p: "float64 pct = pct" using assms(3-5) by (intro float64_quarter [of pct i]) simp_all
  have "4 * (of_int k * pct) = of_int (k * i)" using assms(5) by (simp add: mult_ac)
  from float64_quarter [OF this] have "float64 (of_int k * pct) = of_int k * pct" using assms(1,3,4) by simp
  then show ?thesis using m p by simp
qed (simp add: float64_def)

text \<open>
  What a setting asks for of a memory of \<open>M\<close> bytes: an absolute amount itself; a percentage the share of the
  memory, rounded up to whole bytes, to within a byte and a half of the true share in any case, exactly for a
  quarter percentage of a multiple of 100 bytes, and nothing for 100%. \<open>settingOk\<close> holds of the settings that can be
  parsed and, for percentages, are not negative and ask for less than \<open>2^50\<close> bytes.
\<close>

definition settingAmount :: "int \<Rightarrow> string \<Rightarrow> Quantity \<Rightarrow> bool" where
  "settingAmount M v q \<longleftrightarrow>
     (if HasSuffix v ''%''
      then (case parse_decimal (Trim v ''%'') of
              None \<Rightarrow> False
            | Some pct \<Rightarrow>
                if float64 pct = 100 then q = whole 0
                else (\<exists>n. q = whole n \<and> - 1 / 2 \<le> of_int n - of_int M * pct / 100 \<and> of_int n - of_int M * pct / 100 < 3 / 2 \<and>
                        (100 dvd M \<and> 4 * pct \<in> \<int> \<longrightarrow> n = \<lceil>of_int M * pct / 100\<rceil>)))
      else MustParse v = Ok q)"

definition settingOk :: "int \<Rightarrow> string \<Rightarrow> bool" where
  "settingOk M v \<longleftrightarrow>
     (if HasSuffix v ''%''
      then (case parse_decimal (Trim v ''%'') of None \<Rightarrow> False | Some pct \<Rightarrow> 0 \<le> pct \<and> of_int M * pct / 100 < 2 ^ 50)
      else is_Ok (MustParse v))"

lemma evictionValue_setting:
  assumes "0 \<le> M" "M < 2 ^ 53" "settingOk M v"
  shows "\<exists>q. evictionValue (whole M) v = Ok q \<and> settingAmount M v q"
proof (cases "HasSuffix v ''%''")
  case False
  then show ?thesis using assms(3) by (cases "MustParse v") (auto simp: settingOk_def settingAmount_def evictionValue_def)
next
  case True
  then obtain pct where pct: "parse_decimal (Trim v ''%'') = Some pct" "0 \<le> pct" "of_int M * pct / 100 < 2 ^ 50"
    using assms(3) by (auto simp: settingOk_def split: option.splits)
  have v: "Quantity_Value (whole M) = M" using assms(1,2) by (intro Value_whole) simp_all
  show ?thesis
  proof (cases "float64 pct = 100")
    case off: True
    have "evictionValue (whole M) v = Ok (whole 0)"
      using True off pct(1) Sprint_float_small [of 0] by (simp add: evictionValue_def mustParsePercentage_def ParseFloat_def float64_def)
    then show ?thesis using True off pct(1) by (simp add: settingAmount_def)
  next
    case on: False
    define x where "x = float64 (float64 (float64 (of_int M) / 100) * float64 pct)"
    define n where "n = \<lceil>x\<rceil>"
    have err: "\<bar>x - of_int M * pct / 100\<bar> \<le> 1 / 2" unfolding x_def by (rule share_error [OF assms(1,2) pct(2,3)])
    have n: "x \<le> of_int n" "of_int n < x + 1" by (simp_all add: n_def ceiling_correct) (use ceiling_correct [of x] in linarith)
    have "0 \<le> of_int M * pct / 100" using assms(1) pct(2) by simp
    moreover have "(2 :: rat) ^ 50 + 2 < 9007199254740992" by simp
    ultimately have "(of_int n :: rat) < 9007199254740992" "- 9007199254740992 < (of_int n :: rat)"
      using n abs_le_D1 [OF err] abs_le_D2 [OF err] pct(3) by linarith+
    then have "\<bar>n\<bar> < 2 ^ 53" by simp
    from Sprint_float_small [OF this] have "evictionValue (whole M) v = Ok (whole n)"
      using True on pct(1) by (simp add: evictionValue_def mustParsePercentage_def ParseFloat_def v n_def x_def)
    moreover have "n = \<lceil>of_int M * pct / 100\<rceil>" if d: "100 dvd M" "4 * pct \<in> \<int>"
    proof -
      from d obtain k i where k: "M = 100 * k" and i: "4 * pct = of_int i" by (auto elim!: dvdE Ints_cases)
      then show ?thesis
        using share_exact [of k pct i] assms(1,2) pct(2,3) by (simp add: n_def x_def)
    qed
    moreover have "- 1 / 2 \<le> of_int n - of_int M * pct / 100" "of_int n - of_int M * pct / 100 < 3 / 2"
      using n abs_le_D1 [OF err] abs_le_D2 [OF err] by linarith+
    ultimately show ?thesis using True on pct(1) by (auto simp: settingAmount_def)
  qed
qed

text \<open>The setting of \<open>memory.available\<close> in one of the two maps.\<close>

definition signalValue :: "(string \<rightharpoonup> string) option \<Rightarrow> string option" where
  "signalValue s = Option.bind s (\<lambda>m. m memoryAvailable)"

lemma Max2_empty [simp]: "MaxResources [m, Map.empty] = m" "MaxResources [Map.empty, m] = m"
  by (rule ext; simp add: MaxResources_def Max2_def split: option.splits)+

lemma MaxResources_one: "MaxResources [[k \<mapsto> a], [k \<mapsto> b]] = [k \<mapsto> max a b]"
  by (rule ext) (auto simp: MaxResources_def Max2_def max_def)

lemma evictionThreshold_signals:
  "evictionThreshold mem (Some kc) =
     (case (signalValue (EvictionHard kc), signalValue (EvictionSoft kc)) of
        (None, None) \<Rightarrow> Ok [''memory'' \<mapsto> whole (100 * 2 ^ 20)]
      | (Some h, None) \<Rightarrow> map_res (\<lambda>q. [''memory'' \<mapsto> q]) (evictionValue mem h)
      | (None, Some s) \<Rightarrow> map_res (\<lambda>q. [''memory'' \<mapsto> q]) (evictionValue mem s)
      | (Some h, Some s) \<Rightarrow>
          res_bind (evictionValue mem h) (\<lambda>q. map_res (\<lambda>r. [''memory'' \<mapsto> max q r]) (evictionValue mem s)))"
proof -
  have a: "Assign2 [''memory'' \<mapsto> d] [''memory'' \<mapsto> q] = [''memory'' \<mapsto> q]" "Assign2 m Map.empty = m" for d q :: int and m :: ResourceList
    by (simp_all add: Assign2_def)
  show ?thesis
    by (cases "EvictionHard kc"; cases "EvictionSoft kc")
      (simp_all add: evictionThreshold_def MustParse_defaults evictionSignals_def signalValue_def a MaxResources_one Let_def res_bind_def
        split: option.splits res.splits)
qed

definition hardSetting :: "KubeletConfiguration option \<Rightarrow> string option" where
  "hardSetting kc = Option.bind kc (\<lambda>k. signalValue (EvictionHard k))"

definition softSetting :: "KubeletConfiguration option \<Rightarrow> string option" where
  "softSetting kc = Option.bind kc (\<lambda>k. signalValue (EvictionSoft k))"

text \<open>
  C26. Eviction thresholds. The setting of \<open>memory.available\<close> replaces the default of 100 MiB, whether it is
  hard, soft or both, and the larger one wins. An absolute amount is taken as it is; a percentage, whole or
  fractional, is that share of the node's memory, rounded up to a byte. It is computed in floating
  point, yet exact for every quarter percentage when the memory is a multiple of 100 bytes (the memory of an instance
  type is a multiple of 1000), and within a byte and a half of the share otherwise. 100% switches the threshold off. The
  settings have to be parsable and the share smaller than \<open>2^50\<close> bytes.
\<close>

theorem eviction_percentage_exact:
  assumes "0 \<le> M" "M < 2 ^ 53"
    and "pred_option (settingOk M) (hardSetting kc)" "pred_option (settingOk M) (softSetting kc)"
  shows "\<exists>hard soft. rel_option (settingAmount M) (hardSetting kc) hard \<and> rel_option (settingAmount M) (softSetting kc) soft \<and>
    evictionThreshold (whole M) kc =
      Ok [''memory'' \<mapsto>
        (case (hard, soft) of
           (None, None) \<Rightarrow> whole (100 * 2 ^ 20)
         | (Some h, None) \<Rightarrow> h
         | (None, Some s) \<Rightarrow> s
         | (Some h, Some s) \<Rightarrow> max h s)]"
proof -
  have "\<exists>q. rel_option (settingAmount M) s q \<and> (\<forall>v. s = Some v \<longrightarrow> (\<exists>a. q = Some a \<and> evictionValue (whole M) v = Ok a))"
    if "pred_option (settingOk M) s" for s
    using evictionValue_setting [OF assms(1,2)] that by (cases s) fastforce+
  note amount = this
  obtain h where h: "rel_option (settingAmount M) (hardSetting kc) h"
      "\<forall>v. hardSetting kc = Some v \<longrightarrow> (\<exists>a. h = Some a \<and> evictionValue (whole M) v = Ok a)"
    using amount [OF assms(3)] by (elim exE conjE)
  obtain s where s: "rel_option (settingAmount M) (softSetting kc) s"
      "\<forall>v. softSetting kc = Some v \<longrightarrow> (\<exists>a. s = Some a \<and> evictionValue (whole M) v = Ok a)"
    using amount [OF assms(4)] by (elim exE conjE)
  note hs = h(1) s(1) h(2) s(2)
  show ?thesis
  proof (cases kc)
    case None
    then show ?thesis using hs(1,2) by (auto simp: hardSetting_def softSetting_def evictionThreshold_def MustParse_defaults)
  next
    case (Some k)
    then have v: "signalValue (EvictionHard k) = hardSetting kc" "signalValue (EvictionSoft k) = softSetting kc"
      by (simp_all add: hardSetting_def softSetting_def)
    show ?thesis
      unfolding Some evictionThreshold_signals v [unfolded Some] using hs [unfolded Some]
      by (intro exI [of _ h] exI [of _ s]) (auto split: option.splits)
  qed
qed

subsection \<open>A size with an A100\<close>

definition a100_sku :: SKU where
  "a100_sku =
     \<lparr>sku_ResourceType = Some ''virtualMachines'', sku_Name = Some ''Standard_NC24ads_A100_v4'',
      sku_Size = Some ''NC24ads_A100_v4'', sku_Locations = Some [''eastus''],
      sku_Capabilities = Some
        [\<lparr>cap_Name = Some ''vCPUs'', cap_Value = Some ''24''\<rparr>, \<lparr>cap_Name = Some ''GPUs'', cap_Value = Some ''1''\<rparr>,
         \<lparr>cap_Name = Some ''MemoryGB'', cap_Value = Some ''220.5''\<rparr>]\<rparr>"

lemma a100_readings:
  "VCPU a100_sku = (24, None)" "GPU a100_sku = (1, None)" "parse_decimal ''220.5'' = Some (of_nat 220500000 / 10 ^ 6)"
proof -
  show "VCPU a100_sku = (24, None)" "GPU a100_sku = (1, None)" by code_simp+
  show "parse_decimal ''220.5'' = Some (of_nat 220500000 / 10 ^ 6)"
    by (simp add: parse_decimal_def scan_number_def is_digit_def digit_value_def decimal_value_def Let_def)
qed

lemma a100_nvidia: "IsNvidiaEnabledSKU (GetName a100_sku)"
proof -
  have "ToLower (GetName a100_sku) = ''standard_nc24ads_a100_v4''" by code_simp
  moreover have "''standard_nc24ads_a100_v4'' \<in> fst ` set NvidiaEnabledSKUs"
    by (rule image_eqI [where x = "(''standard_nc24ads_a100_v4'', True)"]) (simp_all only: NvidiaEnabledSKUs_def fst_conv, simp)
  ultimately show ?thesis unfolding IsNvidiaEnabledSKU_iff by blast
qed

theorem capacity_of_sku_witness:
  "map_res (\<lambda>c. (c ''cpu'', c ''memory'', c ''pods'', c ''nvidia.com/gpu'')) (computeCapacity a100_sku None) =
     Ok (Some (whole 24), Some (whole 220500000000), Some (whole 110), Some (whole 1))"
proof -
  let ?cs = "[\<lparr>cap_Name = Some ''vCPUs'', cap_Value = Some ''24''\<rparr>, \<lparr>cap_Name = Some ''GPUs'', cap_Value = Some ''1''\<rparr>,
         \<lparr>cap_Name = Some ''MemoryGB'', cap_Value = Some ''220.5''\<rparr>]"
  have "sku_Capabilities a100_sku = Some ?cs" "find_capability ''MemoryGB'' ?cs = Some (Some ''220.5'')"
    by (simp_all add: a100_sku_def)
  from capacity_of_sku [OF this a100_readings(3), of None]
  show ?thesis by (simp add: a100_readings(1,2) a100_nvidia podCount_def)
qed

definition tight_kubelet :: KubeletConfiguration where
  "tight_kubelet =
     \<lparr>MaxPods = None, PodsPerCore = None, SystemReserved = None, KubeReserved = None,
      EvictionHard = Some [memoryAvailable \<mapsto> ''7.5%''], EvictionSoft = Some [memoryAvailable \<mapsto> ''100Mi'']\<rparr>"

lemma tight_settings:
  "parse_decimal (Trim ''7.5%'' ''%'') = Some (15 / 2)" "HasSuffix ''7.5%'' ''%''" "\<not> HasSuffix ''100Mi'' ''%''"
  by (simp_all add: Trim_def TrimFunc_def parse_decimal_def scan_number_def is_digit_def digit_value_def decimal_value_def HasSuffix_def Let_def)

lemma tight_amount: "settingAmount 220500000000 ''7.5%'' q \<longleftrightarrow> q = whole 16537500000"
proof -
  have "float64 (15 / 2) = 15 / 2" using float64_quarter [of "15 / 2" 30] by simp
  moreover have "4 * (15 / 2 :: rat) \<in> \<int>" using Ints_of_int [of 30] by simp
  moreover have "\<lceil>16537500000 :: rat\<rceil> = 16537500000" using ceiling_of_int [of 16537500000, where ?'a = rat] by simp
  ultimately show ?thesis by (auto simp: settingAmount_def tight_settings)
qed

text \<open>With both settings the larger wins, and a hard setting alone counts.\<close>

theorem eviction_percentage_exact_witness:
  "evictionThreshold (whole 220500000000) (Some tight_kubelet) = Ok [''memory'' \<mapsto> whole 16537500000] \<and>
   evictionThreshold (whole 220500000000) (Some (tight_kubelet\<lparr>EvictionSoft := None\<rparr>)) = Ok [''memory'' \<mapsto> whole 16537500000]"
proof -
  let ?hard = "tight_kubelet\<lparr>EvictionSoft := None\<rparr>"
  have h: "hardSetting (Some tight_kubelet) = Some ''7.5%''" "softSetting (Some tight_kubelet) = Some ''100Mi''"
    "hardSetting (Some ?hard) = Some ''7.5%''" "softSetting (Some ?hard) = None"
    by (simp_all add: hardSetting_def softSetting_def signalValue_def tight_kubelet_def)
  have ok: "settingOk 220500000000 ''7.5%''" "settingOk 220500000000 ''100Mi''"
    using MustParse_defaults(2) by (simp_all add: settingOk_def tight_settings)
  have s: "settingAmount 220500000000 ''100Mi'' q \<longleftrightarrow> q = whole (100 * 2 ^ 20)" for q
    using MustParse_defaults(2) by (auto simp: settingAmount_def tight_settings)
  have "evictionThreshold (whole 220500000000) (Some tight_kubelet) = Ok [''memory'' \<mapsto> whole 16537500000]"
    using eviction_percentage_exact [of 220500000000 "Some tight_kubelet"] ok
    by (auto simp: h option_rel_Some1 tight_amount s whole_def)
  moreover have "evictionThreshold (whole 220500000000) (Some ?hard) = Ok [''memory'' \<mapsto> whole 16537500000]"
    using eviction_percentage_exact [of 220500000000 "Some ?hard"] ok
    by (auto simp: h option_rel_Some1 tight_amount)
  ultimately show ?thesis ..
qed

end
