(* ===== verification/TypeLabels.thy ===== *)
theory TypeLabels
  imports Overhead
begin

text \<open>
  The labels an instance type promises (\<open>computeRequirements\<close>). Every requirement the function
  builds lists its values, so its result is a map from labels to sets of values, and the
  insertions of the source are unions.
\<close>

subsection \<open>Labels\<close>

text \<open>A requirement that lists its values, and the requirements that give a label its values.\<close>

definition inReq :: "string \<Rightarrow> string set \<Rightarrow> Requirement" where
  "inReq k vs = \<lparr>Key = k, complement = False, values = vs, greaterThan = None, lessThan = None\<rparr>"

definition labelled :: "(string \<rightharpoonup> string set) \<Rightarrow> Requirements" where
  "labelled m = (\<lambda>k. map_option (inReq k) (m k))"

lemma requirement_of_inReq:
  assumes "normalizeKey k = k"
  shows "requirement_of k OpIn vs = inReq k (set vs)" "requirement_of k OpDoesNotExist [] = inReq k {}"
  using assms by (simp_all add: requirement_of_def inReq_def)

lemma Intersection_inReq: "Intersection (inReq k vs) (inReq k' ws) = inReq k (vs \<inter> ws)"
  by (auto simp: Intersection_def inReq_def maxIntPtr_def minIntPtr_def withinIntPtrs_def)

lemma Add1_labelled:
  "Requirements_Add1 (labelled m) (inReq k vs) =
     labelled (m(k \<mapsto> (case m k of None \<Rightarrow> vs | Some ws \<Rightarrow> vs \<inter> ws)))"
proof -
  have "Key (inReq k ws) = k" for ws by (simp add: inReq_def)
  then show ?thesis
    by (cases "m k") (auto simp: Requirements_Add1_def labelled_def Intersection_inReq Let_def)
qed

lemma Add_labelled_new:
  assumes "distinct (map fst kvs)" "dom m \<inter> set (map fst kvs) = {}"
  shows "Requirements_Add (labelled m) (map (\<lambda>(k, vs). inReq k vs) kvs) = labelled (m ++ map_of kvs)"
  using assms
proof (induction kvs arbitrary: m)
  case (Cons kv kvs)
  obtain k vs where kv: "kv = (k, vs)" by (cases kv)
  have k: "m k = None" "k \<notin> set (map fst kvs)" using Cons.prems kv by auto
  have "Requirements_Add (labelled (m(k \<mapsto> vs))) (map (\<lambda>(k, vs). inReq k vs) kvs) = labelled (m(k \<mapsto> vs) ++ map_of kvs)"
    using Cons.prems kv k by (intro Cons.IH) (auto simp: dom_def image_iff split: if_splits)
  also have "m(k \<mapsto> vs) ++ map_of kvs = m ++ map_of (kv # kvs)"
  proof (rule ext)
    fix x
    have "map_of kvs k = None" using k(2) by (simp add: map_of_eq_None_iff)
    then show "(m(k \<mapsto> vs) ++ map_of kvs) x = (m ++ map_of (kv # kvs)) x"
      using kv by (cases "x = k") (simp_all add: map_add_def split: option.splits)
  qed
  finally have "Requirements_Add (labelled (m(k \<mapsto> vs))) (map (\<lambda>(k, vs). inReq k vs) kvs) = labelled (m ++ map_of (kv # kvs))" .
  moreover have "Requirements_Add1 (labelled m) (inReq k vs) = labelled (m(k \<mapsto> vs))" using k(1) by (simp add: Add1_labelled)
  ultimately show ?case by (simp only: kv list.map prod.case Requirements_Add.simps)
qed simp

lemma Add_labelled_empty:
  "Requirements_Add (labelled m) (map (\<lambda>l. inReq l {}) ls) = labelled (\<lambda>k. if k \<in> set ls then Some {} else m k)"
proof (induction ls arbitrary: m)
  case (Cons l ls)
  have "(case m l of None \<Rightarrow> {} | Some ws \<Rightarrow> {} \<inter> ws) = {}" by (simp split: option.splits)
  then show ?case using Cons [of "m(l \<mapsto> {})"] by (auto simp: Add1_labelled fun_upd_def intro!: arg_cong [where f = labelled])
qed simp

text \<open>The values a list of insertions adds to a label.\<close>

definition added :: "(string \<times> string) list \<Rightarrow> (string \<rightharpoonup> string set) \<Rightarrow> (string \<rightharpoonup> string set)" where
  "added kvs m = (\<lambda>k. map_option (\<lambda>vs. vs \<union> {v. (k, v) \<in> set kvs}) (m k))"

lemma dom_added [simp]: "dom (added kvs m) = dom m"
  by (auto simp: added_def)

lemma insertValue_labelled:
  "fst kv \<in> dom m \<Longrightarrow> insertValue (labelled m) kv = Ok (labelled (added [kv] m))"
proof -
  assume "fst kv \<in> dom m"
  then obtain vs where vs: "m (fst kv) = Some vs" by auto
  have "Insert (inReq k vs) [v] = inReq k (vs \<union> {v})" for k v by (simp add: Insert_def inReq_def)
  moreover have "(labelled m)(fst kv \<mapsto> inReq (fst kv) (vs \<union> {snd kv})) = labelled (added [kv] m)"
    using vs by (cases kv) (auto simp: labelled_def added_def fun_eq_iff option.map_comp intro!: option.map_cong0)
  ultimately show ?thesis using vs by (simp add: insertValue_def labelled_def)
qed

lemma insertValues_labelled:
  "set (map fst kvs) \<subseteq> dom m \<Longrightarrow> insertValues kvs (labelled m) = Ok (labelled (added kvs m))"
proof (induction kvs arbitrary: m)
  case Nil
  have "added [] m = m" by (auto simp: added_def option.map_ident)
  then show ?case by simp
next
  case (Cons kv kvs)
  have "added kvs (added [kv] m) = added (kv # kvs) m"
    by (cases kv) (auto simp: added_def fun_eq_iff option.map_comp intro!: option.map_cong0)
  then show ?case using Cons by (simp add: insertValue_labelled)
qed

definition valuedKeys :: "string list" where
  "valuedKeys =
     [''node.kubernetes.io/instance-type'', ''kubernetes.io/arch'', ''kubernetes.io/os'',
      ''topology.kubernetes.io/region'', ''karpenter.sh/capacity-type'', LabelSKUCPU, LabelSKUMemory, LabelSKUGPUCount]"

lemma labels_distinct: "distinct (valuedKeys @ emptyLabels)"
  by code_simp

lemma labels_normal: "list_all (\<lambda>k. normalizeKey k = k) (valuedKeys @ emptyLabels @ map snd SkuFeatureToLabel)"
  by code_simp

lemma valuedLabels_keys: "map fst (valuedLabels sku offs reg c m g) = valuedKeys"
  by (simp add: valuedLabels_def valuedKeys_def)

definition baseValues :: "SKU \<Rightarrow> Offering list \<Rightarrow> string \<Rightarrow> Quantity \<Rightarrow> Quantity \<Rightarrow> Quantity \<Rightarrow> (string \<rightharpoonup> string set)" where
  "baseValues sku offs reg c m g =
     map_of (map (\<lambda>(k, vs). (k, set vs)) (valuedLabels sku offs reg c m g) @ map (\<lambda>k. (k, {})) emptyLabels)"

lemma baseRequirements_labelled: "baseRequirements sku offs reg c m g = labelled (baseValues sku offs reg c m g)"
proof -
  let ?v = "map (\<lambda>(k, vs). (k, set vs)) (valuedLabels sku offs reg c m g)" and ?e = "map (\<lambda>k. (k, {})) emptyLabels"
  have keys: "map fst ?v = valuedKeys" "map fst ?e = emptyLabels"
    unfolding valuedLabels_keys [symmetric, of sku offs reg c m g] by (simp_all add: case_prod_beta comp_def)
  have n: "normalizeKey k = k" if "k \<in> set valuedKeys \<union> set emptyLabels" for k
    using labels_normal that by (auto simp: list_all_iff)
  have "map (\<lambda>(k, vs). requirement_of k OpIn vs) (valuedLabels sku offs reg c m g) = map (\<lambda>(k, vs). inReq k vs) ?v"
  proof -
    have "fst kv \<in> set valuedKeys" if "kv \<in> set (valuedLabels sku offs reg c m g)" for kv
      using that unfolding valuedLabels_keys [symmetric, of sku offs reg c m g] by simp
    then show ?thesis using n by (auto simp: requirement_of_inReq)
  qed
  moreover have "map (\<lambda>k. requirement_of k OpDoesNotExist []) emptyLabels = map (\<lambda>(k, vs). inReq k vs) ?e"
    using n by (auto simp: requirement_of_inReq)
  moreover have "Map.empty = labelled Map.empty" by (simp add: labelled_def)
  moreover have "distinct (map fst (?v @ ?e))" unfolding map_append keys by (rule labels_distinct)
  ultimately show ?thesis
    using Add_labelled_new [of "?v @ ?e" Map.empty]
    by (simp only: baseRequirements_def NewRequirements_def map_append [symmetric] baseValues_def empty_map_add dom_empty inf_bot_left)
qed

lemma featureRequirements_eq: "featureRequirements = map (\<lambda>l. inReq l {}) (map snd SkuFeatureToLabel)"
proof -
  have "normalizeKey (snd fl) = snd fl" if "fl \<in> set SkuFeatureToLabel" for fl
    using labels_normal that by (auto simp: list_all_iff)
  then show ?thesis by (auto simp: featureRequirements_def requirement_of_inReq)
qed

text \<open>The values of every label, in the order in which they are put there.\<close>

definition labelValues :: "SKU \<Rightarrow> Offering list \<Rightarrow> string \<Rightarrow> Quantity \<Rightarrow> Quantity \<Rightarrow> Quantity \<Rightarrow> string \<Rightarrow> (string \<rightharpoonup> string set)" where
  "labelValues sku offs reg c m g sz =
     (let named = added [(LabelSKUName, GetName sku), (LabelSKUSize, sz)] (baseValues sku offs reg c m g)
      in case GetVMSize sku of
           Ok vmsize \<Rightarrow>
             added (capabilityValues sku vmsize)
               (added (featureValues vmsize)
                 (\<lambda>k. if k \<in> snd ` set SkuFeatureToLabel then Some {} else added (sizeValues vmsize) named k))
         | _ \<Rightarrow> named)"

lemma dom_baseValues: "dom (baseValues sku offs reg c m g) = set valuedKeys \<union> set emptyLabels"
proof -
  have "dom (baseValues sku offs reg c m g) = set (map fst (valuedLabels sku offs reg c m g)) \<union> set emptyLabels"
    by (force simp: baseValues_def dom_map_of_conv_image_fst image_Un image_image)
  then show ?thesis by (simp only: valuedLabels_keys)
qed

lemma keys_known:
  "set (map fst (sizeValues vm)) \<subseteq> set emptyLabels" "set (map fst (featureValues vm)) \<subseteq> snd ` set SkuFeatureToLabel"
  "set (map fst (capabilityValues sku vm)) \<subseteq> set emptyLabels"
proof -
  show "set (map fst (sizeValues vm)) \<subseteq> set emptyLabels"
    by (auto simp: sizeValues_def option_label_def emptyLabels_def split: option.splits)
  show "set (map fst (featureValues vm)) \<subseteq> snd ` set SkuFeatureToLabel"
  proof
    fix k assume "k \<in> set (map fst (featureValues vm))"
    then obtain f where "map_of SkuFeatureToLabel f = Some k"
      by (auto simp: featureValues_def split: option.splits)
    then show "k \<in> snd ` set SkuFeatureToLabel" using map_of_SomeD by force
  qed
  show "set (map fst (capabilityValues sku vm)) \<subseteq> set emptyLabels"
    by (auto simp: capabilityValues_def bool_label_def option_label_def number_label_def emptyLabels_def split: option.splits prod.splits if_splits)
qed

lemma getVMSize_no_panic: "GetVMSize sku \<noteq> Panic p"
  by (auto simp: GetVMSize_def getVMSize_def parseVMSize_def split: option.splits)

lemma computeRequirements_labelled:
  assumes "cpu sku = Ok c" "memory sku = Ok m" "gpuNvidiaCount sku = Ok g" "sku_Size sku = Some sz"
  shows "computeRequirements sku offs reg = Ok (labelled (labelValues sku offs reg c m g sz))"
proof -
  let ?b = "baseValues sku offs reg c m g"
  let ?named = "added [(LabelSKUName, GetName sku), (LabelSKUSize, sz)] ?b"
  have d: "LabelSKUName \<in> dom ?b" "LabelSKUSize \<in> dom ?b" by (simp_all add: dom_baseValues emptyLabels_def)
  have "added [(LabelSKUSize, sz)] (added [(LabelSKUName, GetName sku)] ?b) = ?named"
    by (auto simp: added_def fun_eq_iff option.map_comp intro!: option.map_cong0)
  then have named: "insertValue (labelled ?b) (LabelSKUName, GetName sku) = Ok (labelled (added [(LabelSKUName, GetName sku)] ?b))"
    "insertValue (labelled (added [(LabelSKUName, GetName sku)] ?b)) (LabelSKUSize, sz) = Ok (labelled ?named)"
    using d by (simp_all add: insertValue_labelled)
  show ?thesis
  proof (cases "GetVMSize sku")
    case (Ok vm)
    let ?s = "added (sizeValues vm) ?named"
    let ?f = "\<lambda>k. if k \<in> snd ` set SkuFeatureToLabel then Some {} else ?s k"
    have df: "dom ?f = snd ` set SkuFeatureToLabel \<union> (set valuedKeys \<union> set emptyLabels)"
      unfolding dom_baseValues [of sku offs reg c m g, symmetric] by (auto simp: dom_def added_def)
    have "insertValues (featureValues vm) (labelled ?f) = Ok (labelled (added (featureValues vm) ?f))"
      by (rule insertValues_labelled) (use keys_known(2) [of vm] in \<open>simp only: df; blast\<close>)
    moreover have "insertValues (capabilityValues sku vm) (labelled (added (featureValues vm) ?f)) =
        Ok (labelled (added (capabilityValues sku vm) (added (featureValues vm) ?f)))"
      by (rule insertValues_labelled) (use keys_known(3) [of sku vm] in \<open>simp only: df dom_added; blast\<close>)
    moreover have "insertValues (sizeValues vm) (labelled ?named) = Ok (labelled ?s)"
      using keys_known(1) by (intro insertValues_labelled) (auto simp: dom_baseValues)
    moreover have "Requirements_Add (labelled ?s) featureRequirements = labelled ?f"
      unfolding featureRequirements_eq Add_labelled_empty by (simp only: set_map)
    ultimately show ?thesis
      using Ok assms named by (simp add: computeRequirements_def baseRequirements_labelled labelValues_def Let_def)
  next
    case (Err e)
    then show ?thesis
      using assms named by (simp add: computeRequirements_def baseRequirements_labelled labelValues_def Let_def)
  next
    case (Panic p)
    then show ?thesis using getVMSize_no_panic by simp
  qed
qed

lemma ParseQuantity_negG:
  assumes "k < 10 ^ 6"
  shows "\<exists>q. ParseQuantity (''-'' @ show_nat n @ ''.'' @ pad6 k @ ''G'') = Some q"
proof -
  have "\<not> is_digit (CHR ''G'')" by (simp add: is_digit_def digit_value_def)
  then have s: "scan_number (show_nat n @ CHR ''.'' # pad6 k @ ''G'') = (show_nat n, pad6 k, ''G'')"
    by (intro scan_decimal) (auto dest: show_nat_is_digit pad6_is_digit)
  have "interpret_suffix ''G'' = Some (10 ^ 9, False)" by (simp add: interpret_suffix_def)
  then show ?thesis using s by (simp add: ParseQuantity_def Let_def)
qed

lemma memory_total: "\<exists>m. memory sku = Ok m"
proof -
  let ?q = "fst (Memory sku)"
  define n where "n = nat (round_even (\<bar>?q\<bar> * 10 ^ 6))"
  have k: "n mod 10 ^ 6 < 10 ^ 6" by simp
  have "\<exists>x. ParseQuantity (format_f6 ?q @ ''G'') = Some x"
    using ParseQuantity_G [OF k, of "n div 10 ^ 6"] ParseQuantity_negG [OF k, of "n div 10 ^ 6"]
    unfolding format_f6_def Let_def n_def [symmetric] by (cases "?q < 0") (simp_all only: if_True if_False append_assoc append_Nil, blast+)
  then show ?thesis by (auto simp: memory_def MustParse_def)
qed

definition allLabels :: "string list" where
  "allLabels = valuedKeys @ emptyLabels @
     [LabelSKUCpuTypeAmd, LabelSKUStorageBlockPerformance, LabelSKUConfidential, LabelSKUStorageDiskful, LabelSKUIsolatedSize,
      LabelSKUMemoryLow, LabelSKUMemoryIntensive, LabelSKUMemoryTiny]"

lemma all_labels_distinct: "distinct allLabels" "distinct (rev allLabels)"
proof -
  show "distinct allLabels" by code_simp
  then show "distinct (rev allLabels)" by simp
qed

lemmas label_neqs = all_labels_distinct [unfolded allLabels_def valuedKeys_def emptyLabels_def, simplified]

text \<open>The values a list of insertions has for one label.\<close>

definition vals_at :: "string \<Rightarrow> (string \<times> string) list \<Rightarrow> string set" where
  "vals_at k kvs = {v. (k, v) \<in> set kvs}"

lemma added_at: "added kvs m k = map_option (\<lambda>vs. vs \<union> vals_at k kvs) (m k)"
  by (simp add: added_def vals_at_def)

lemma vals_at_simps [simp]:
  "vals_at k [] = {}"
  "vals_at k ((k', v) # kvs) = (if k = k' then {v} else {}) \<union> vals_at k kvs"
  "vals_at k (xs @ ys) = vals_at k xs \<union> vals_at k ys"
  "vals_at k (bool_label l b v) = (if k = l \<and> b then {v} else {})"
  "vals_at k (option_label l o') = (if k = l then set_option o' else {})"
  "vals_at k (number_label l (n, e)) = (if k = l \<and> e = None then {show_int n} else {})"
  "vals_at k (if b then xs else ys) = (if b then vals_at k xs else vals_at k ys)"
  by (auto simp: vals_at_def bool_label_def option_label_def number_label_def split: option.splits)

lemma vals_at_number: "k \<noteq> l \<Longrightarrow> vals_at k (number_label l v) = {}"
  by (cases v) simp

lemma vals_at_features:
  "vals_at k (featureValues vm) =
     (if \<exists>f \<in> set (AdditiveFeatures vm). map_of SkuFeatureToLabel f = Some k then {''true''} else {})"
  by (auto simp: vals_at_def featureValues_def split: option.splits; metis)

lemma vals_at_no_feature:
  "k \<notin> snd ` set SkuFeatureToLabel \<Longrightarrow> vals_at k (featureValues vm) = {}"
  using map_of_SomeD [of SkuFeatureToLabel] by (force simp: vals_at_features)

definition baseValue :: "SKU \<Rightarrow> Offering list \<Rightarrow> string \<Rightarrow> Quantity \<Rightarrow> Quantity \<Rightarrow> Quantity \<Rightarrow> string \<Rightarrow> string set" where
  "baseValue sku offs reg c m g k = FromPtr {} (map_option set (map_of (valuedLabels sku offs reg c m g) k))"

lemma baseValues_at:
  assumes "k \<in> set valuedKeys \<union> set emptyLabels"
  shows "baseValues sku offs reg c m g k = Some (baseValue sku offs reg c m g k)"
proof (cases "k \<in> set valuedKeys")
  case True
  then have "map_of (valuedLabels sku offs reg c m g) k \<noteq> None"
    unfolding valuedLabels_keys [of sku offs reg c m g, symmetric] by (auto simp: map_of_eq_None_iff)
  then show ?thesis by (auto simp: baseValues_def baseValue_def map_of_map map_add_def split: option.splits)
next
  case False
  then have "map_of (valuedLabels sku offs reg c m g) k = None"
    unfolding valuedLabels_keys [of sku offs reg c m g, symmetric] by (auto simp: map_of_eq_None_iff)
  moreover have "map_of (map (\<lambda>k. (k, {})) emptyLabels) k = Some {}"
    using False assms by (simp add: map_of_map_restrict)
  ultimately show ?thesis by (auto simp: baseValues_def baseValue_def map_of_map map_add_def)
qed

lemma labelValues_at:
  assumes "GetVMSize sku = Ok vm" "k \<in> set valuedKeys \<union> set emptyLabels" "k \<notin> snd ` set SkuFeatureToLabel"
  shows "labelValues sku offs reg c m g sz k =
    Some (baseValue sku offs reg c m g k \<union> vals_at k [(LabelSKUName, GetName sku), (LabelSKUSize, sz)] \<union>
      vals_at k (sizeValues vm) \<union> vals_at k (capabilityValues sku vm))"
  using assms
  by (simp add: labelValues_def added_at baseValues_at vals_at_no_feature Un_assoc del: vals_at_simps)

lemmas at_label = labelValues_at baseValue_def valuedLabels_def valuedKeys_def emptyLabels_def SkuFeatureToLabel_def
  sizeValues_def capabilityValues_def vals_at_number

lemma size_labels:
  assumes "GetVMSize sku = Ok vm"
  shows "labelValues sku offs reg c m g sz LabelSKUFamily = Some {Family vm}"
    "labelValues sku offs reg c m g sz LabelSKUSeries = Some {Series vm}"
    "labelValues sku offs reg c m g sz LabelSKUAccelerator = Some (set_option (AcceleratorType vm))"
  using assms by (simp_all add: at_label label_neqs)

lemma gpu_labels:
  assumes "GetVMSize sku = Ok vm"
  shows "labelValues sku offs reg c m g sz LabelSKUGPUManufacturer =
      Some (if IsNvidiaEnabledSKU (GetName sku) then {ManufacturerNvidia} else {})"
    "labelValues sku offs reg c m g sz LabelSKUGPUName =
      Some (if IsNvidiaEnabledSKU (GetName sku) then set_option (AcceleratorType vm) else {})"
    "labelValues sku offs reg c m g sz LabelSKUGPUCount = Some {show_int (Quantity_Value g)}"
    "labelValues sku offs reg c m g sz ''node.kubernetes.io/instance-type'' = Some {GetName sku}"
  using assms by (simp_all add: at_label label_neqs)

lemma feature_label_fresh:
  "l \<in> snd ` set SkuFeatureToLabel \<Longrightarrow> l \<noteq> LabelSKUStoragePremiumCapable \<Longrightarrow> l \<notin> set valuedKeys \<union> set emptyLabels"
  by (auto simp: SkuFeatureToLabel_def valuedKeys_def emptyLabels_def label_neqs)

lemma vals_at_absent: "k \<notin> set (map fst kvs) \<Longrightarrow> vals_at k kvs = {}"
  by (force simp: vals_at_def)

lemma feature_label:
  assumes "GetVMSize sku = Ok vm" "map_of SkuFeatureToLabel f = Some l" "l \<noteq> LabelSKUStoragePremiumCapable"
  shows "labelValues sku offs reg c m g sz l = Some (if f \<in> set (AdditiveFeatures vm) then {''true''} else {})"
proof -
  have l: "l \<in> snd ` set SkuFeatureToLabel" using map_of_SomeD [OF assms(2)] by force
  have n: "vals_at l (capabilityValues sku vm) = {}"
    using feature_label_fresh [OF l assms(3)] keys_known(3) [of sku vm] by (intro vals_at_absent) blast
  have u: "map_of SkuFeatureToLabel f' = Some l \<longleftrightarrow> f' = f" for f'
  proof
    assume "map_of SkuFeatureToLabel f' = Some l"
    then show "f' = f" using assms(2) by (auto simp: SkuFeatureToLabel_def label_neqs split: if_splits)
  qed (use assms(2) in simp)
  then show ?thesis using assms(1) l n by (simp add: labelValues_def added_at vals_at_features)
qed

text \<open>
  C23. The labels of an instance type. For a SKU whose size name parses, computing the
  requirements succeeds and promises exactly: the SKU's name as the instance type; the family,
  series and accelerator read from the size; the number of Nvidia GPUs; manufacturer and model
  only for sizes on the Nvidia list; and a feature label exactly for the features in the name.
\<close>

theorem instance_type_labels:
  assumes "sku_Size sku = Some sz" "GetVMSize sku = Ok vm"
  shows "\<exists>rs. computeRequirements sku offs reg = Ok rs \<and>
    rs ''node.kubernetes.io/instance-type'' = Some (inReq ''node.kubernetes.io/instance-type'' {GetName sku}) \<and>
    rs LabelSKUFamily = Some (inReq LabelSKUFamily {Family vm}) \<and>
    rs LabelSKUSeries = Some (inReq LabelSKUSeries {Series vm}) \<and>
    rs LabelSKUAccelerator = Some (inReq LabelSKUAccelerator (set_option (AcceleratorType vm))) \<and>
    rs LabelSKUGPUCount = Some (inReq LabelSKUGPUCount
      {show_int (if snd (GPU sku) = None \<and> IsNvidiaEnabledSKU (GetName sku) then fst (GPU sku) else 0)}) \<and>
    rs LabelSKUGPUManufacturer = Some (inReq LabelSKUGPUManufacturer
      (if IsNvidiaEnabledSKU (GetName sku) then {ManufacturerNvidia} else {})) \<and>
    rs LabelSKUGPUName = Some (inReq LabelSKUGPUName
      (if IsNvidiaEnabledSKU (GetName sku) then set_option (AcceleratorType vm) else {})) \<and>
    (\<forall>f l. map_of SkuFeatureToLabel f = Some l \<longrightarrow> l \<noteq> LabelSKUStoragePremiumCapable \<longrightarrow>
       rs l = Some (inReq l (if f \<in> set (AdditiveFeatures vm) then {''true''} else {})))"
proof -
  obtain m where m: "memory sku = Ok m" using memory_total by blast
  let ?g = "if snd (GPU sku) = None \<and> IsNvidiaEnabledSKU (GetName sku) then fst (GPU sku) else 0"
  have g: "Quantity_Value (whole ?g) = ?g"
    using int_capability_bounds [of sku "''GPUs''" "fst (GPU sku)" "snd (GPU sku)"]
    by (intro Value_whole) (auto simp: GPU_def)
  note rs = computeRequirements_labelled [OF cpu_eq m gpuNvidiaCount_eq assms(1), of offs reg]
  show ?thesis
    by (rule exI, rule conjI [OF rs])
      (simp add: labelled_def size_labels [OF assms(2)] gpu_labels [OF assms(2)] feature_label [OF assms(2)] g del: if_split)
qed

text \<open>
  C35. A size name that does not parse costs the instance type its feature labels: the
  requirements are still produced, but eight labels that the package registers as well known
  are not defined at all, although karpenter asks for every well-known label to be defined.
\<close>

theorem unparsable_size_lacks_well_known_labels:
  assumes "sku_Size sku = Some sz" "GetVMSize sku = Err e"
  shows "\<exists>rs. computeRequirements sku offs reg = Ok rs \<and>
    (\<forall>l \<in> snd ` set SkuFeatureToLabel - {LabelSKUStoragePremiumCapable}. l \<in> set addedWellKnownLabels \<and> rs l = None)"
proof -
  obtain m where m: "memory sku = Ok m" using memory_total by blast
  note rs = computeRequirements_labelled [OF cpu_eq m gpuNvidiaCount_eq assms(1), of offs reg]
  have "labelValues sku offs reg c m g sz l = None" if "l \<in> snd ` set SkuFeatureToLabel - {LabelSKUStoragePremiumCapable}" for c g l
  proof -
    have "l \<notin> set valuedKeys \<union> set emptyLabels" using that feature_label_fresh by blast
    then have "baseValues sku offs reg c m g l = None" using dom_baseValues [of sku offs reg c m g] by auto
    then show ?thesis using assms(2) by (simp add: labelValues_def added_at)
  qed
  moreover have "l \<in> set addedWellKnownLabels" if "l \<in> snd ` set SkuFeatureToLabel" for l
    using that by (auto simp: SkuFeatureToLabel_def addedWellKnownLabels_def)
  ultimately show ?thesis unfolding rs by (auto simp: labelled_def)
qed

theorem instance_type_labels_witness:
  "\<exists>rs. computeRequirements a100_sku [] ''eastus'' = Ok rs \<and>
     rs LabelSKUGPUName = Some (inReq LabelSKUGPUName {''A100''}) \<and>
     rs LabelSKUGPUCount = Some (inReq LabelSKUGPUCount {''1''}) \<and>
     rs LabelSKUCpuTypeAmd = Some (inReq LabelSKUCpuTypeAmd {''true''}) \<and>
     rs LabelSKUConfidential = Some (inReq LabelSKUConfidential {})"
proof -
  have sz: "sku_Size a100_sku = Some ''NC24ads_A100_v4''" by (simp add: a100_sku_def)
  have "getVMSize (size_name a100_size) = Ok a100_size" by (rule getVMSize_size_name [OF a100_size_ok])
  then have vm: "GetVMSize a100_sku = Ok a100_size"
    using sz by (simp add: GetVMSize_def GetSize_def a100_size_name)
  have acc: "AcceleratorType a100_size = Some ''A100''" "AdditiveFeatures a100_size = ''ads''" by (simp_all add: a100_size_def)
  have fl: "map_of SkuFeatureToLabel (CHR ''a'') = Some LabelSKUCpuTypeAmd" "map_of SkuFeatureToLabel (CHR ''c'') = Some LabelSKUConfidential"
    by (simp_all add: SkuFeatureToLabel_def)
  have ne: "LabelSKUCpuTypeAmd \<noteq> LabelSKUStoragePremiumCapable" "LabelSKUConfidential \<noteq> LabelSKUStoragePremiumCapable"
    by (simp_all add: label_neqs)
  have one: "show_int 1 = ''1''" by code_simp
  from instance_type_labels [OF sz vm, of "[]" "''eastus''"] obtain rs where
    rs: "computeRequirements a100_sku [] ''eastus'' = Ok rs" and
    gc: "rs LabelSKUGPUCount = Some (inReq LabelSKUGPUCount
      {show_int (if snd (GPU a100_sku) = None \<and> IsNvidiaEnabledSKU (GetName a100_sku) then fst (GPU a100_sku) else 0)})" and
    gn: "rs LabelSKUGPUName = Some (inReq LabelSKUGPUName
      (if IsNvidiaEnabledSKU (GetName a100_sku) then set_option (AcceleratorType a100_size) else {}))" and
    ft: "\<And>f l. map_of SkuFeatureToLabel f = Some l \<Longrightarrow> l \<noteq> LabelSKUStoragePremiumCapable \<Longrightarrow>
       rs l = Some (inReq l (if f \<in> set (AdditiveFeatures a100_size) then {''true''} else {}))"
    by blast
  show ?thesis
    using rs gc gn ft [OF fl(1) ne(1)] ft [OF fl(2) ne(2)] by (simp add: a100_nvidia a100_readings acc one)
qed

definition odd_sku :: SKU where
  "odd_sku = a100_sku\<lparr>sku_Size := Some ''Custom''\<rparr>"

theorem unparsable_size_lacks_well_known_labels_witness:
  "\<exists>rs. computeRequirements odd_sku [] ''eastus'' = Ok rs \<and> rs LabelSKUConfidential = None"
proof -
  have sz: "sku_Size odd_sku = Some ''Custom''" by (simp add: odd_sku_def)
  have "\<not> is_digit (CHR ''u'')" by (simp add: is_digit_def digit_value_def)
  then have "rx_find_anchored skuSizeScheme ''Custom'' = None"
    by (simp add: rx_find_anchored_def skuSizeScheme_def rx_cpus_def rx_match.simps upper_def)
  then have vm: "GetVMSize odd_sku = Err (ErrorString (''could not parse VM size '' @ ''Custom''))"
    using sz by (simp add: GetVMSize_def GetSize_def getVMSize_def parseVMSize_def unParsableVMSizes_def)
  have "LabelSKUConfidential \<in> snd ` set SkuFeatureToLabel" by (simp add: SkuFeatureToLabel_def)
  then have "LabelSKUConfidential \<in> snd ` set SkuFeatureToLabel - {LabelSKUStoragePremiumCapable}"
    by (simp add: label_neqs)
  with unparsable_size_lacks_well_known_labels [OF sz vm, of "[]" "''eastus''"] show ?thesis by blast
qed

end
