(* ===== verification/Compatibility.thy ===== *)
theory Compatibility
  imports TypeLabels
begin

text \<open>
  What karpenter-core's fake cloud provider needs of the vendored scheduling and cloud provider
  packages: whether requirements can be met (\<open>Requirements.Compatible\<close>), the offerings that
  requirements select and the cheapest of them; and \<open>sort.Slice\<close>, of which the code relies on
  no more than its documentation says.
\<close>

subsection \<open>Compatible requirements\<close>

text \<open>The labels karpenter starts with; the \<open>init\<close> functions of the API packages add theirs.\<close>

definition coreWellKnownLabels :: "string set" where
  "coreWellKnownLabels =
     {''karpenter.sh/provisioner-name'', ''topology.kubernetes.io/zone'', ''topology.kubernetes.io/region'',
      ''node.kubernetes.io/instance-type'', ''kubernetes.io/arch'', ''kubernetes.io/os'', ''karpenter.sh/capacity-type''}"

definition excludes :: "Requirement \<Rightarrow> bool" where
  "excludes r \<longleftrightarrow> Operator r = OpNotIn \<or> Operator r = OpDoesNotExist"

text \<open>
  \<open>Intersects\<close> and \<open>Compatible\<close> collect one error per offending key, in the order in which Go
  visits a set; the code here asks only whether there is none, which is what these say.
\<close>

definition Intersects :: "Requirements \<Rightarrow> Requirements \<Rightarrow> bool" where
  "Intersects r requirements \<longleftrightarrow>
     (\<forall>key \<in> dom r \<inter> dom requirements.
        let existing = Requirements_Get r key; incoming = Requirements_Get requirements key
        in Len (Intersection existing incoming) = 0 \<longrightarrow> excludes incoming \<and> excludes existing)"

definition Compatible :: "string set \<Rightarrow> Requirements \<Rightarrow> Requirements \<Rightarrow> bool" where
  "Compatible wellKnown r requirements \<longleftrightarrow>
     (\<forall>key \<in> dom requirements - wellKnown. Requirements_Has r key \<or> excludes (Requirements_Get requirements key)) \<and>
     Intersects r requirements"

subsection \<open>Offerings\<close>

definition Offerings_Requirements :: "Requirements \<Rightarrow> Offering list \<Rightarrow> Offering list" where
  "Offerings_Requirements reqs ofs =
     filter (\<lambda>o'. (\<not> Requirements_Has reqs ''topology.kubernetes.io/zone'' \<or> Has (Requirements_Get reqs ''topology.kubernetes.io/zone'') (Zone o')) \<and>
                  (\<not> Requirements_Has reqs ''karpenter.sh/capacity-type'' \<or> Has (Requirements_Get reqs ''karpenter.sh/capacity-type'') (CapacityType o'))) ofs"

text \<open>\<open>lo.MinBy\<close>: the first of the least ones, the zero value when there is none.\<close>

fun MinBy :: "('a \<Rightarrow> 'a \<Rightarrow> bool) \<Rightarrow> 'a \<Rightarrow> 'a list \<Rightarrow> 'a" where
  "MinBy lt zero [] = zero"
| "MinBy lt zero (x # xs) = foldl (\<lambda>m item. if lt item m then item else m) x xs"

definition zeroOffering :: Offering where
  "zeroOffering = \<lparr>CapacityType = [], Zone = [], Price = 0, Available = False\<rparr>"

definition Offerings_Cheapest :: "Offering list \<Rightarrow> Offering" where
  "Offerings_Cheapest ofs = MinBy (\<lambda>a b. Price a < Price b) zeroOffering ofs"

subsection \<open>\<open>sort.Slice\<close>\<close>

text \<open>
  \<open>sort.Slice\<close> sorts by a strict order and may permute equal elements. On at most twelve elements
  it is this insertion sort: each element moves left past the greater ones.
\<close>

fun insertLeft :: "('a \<Rightarrow> 'a \<Rightarrow> bool) \<Rightarrow> 'a \<Rightarrow> 'a list \<Rightarrow> 'a list" where
  "insertLeft lt x [] = [x]"
| "insertLeft lt x (y # ys) = (if lt x y then y # insertLeft lt x ys else x # y # ys)"

definition insertionSort :: "('a \<Rightarrow> 'a \<Rightarrow> bool) \<Rightarrow> 'a list \<Rightarrow> 'a list" where
  "insertionSort lt xs = rev (foldl (\<lambda>sorted_rev x. insertLeft lt x sorted_rev) [] xs)"

locale slice_sort =
  fixes sortSlice :: "('a \<Rightarrow> 'a \<Rightarrow> bool) \<Rightarrow> 'a list \<Rightarrow> 'a list"
  assumes permutes: "mset (sortSlice lt xs) = mset xs"
    and sorts: "sorted (map (cost :: 'a \<Rightarrow> rat) (sortSlice (\<lambda>a b. cost a < cost b) xs))"
begin

lemma set_sortSlice [simp]: "set (sortSlice lt xs) = set xs"
  by (metis permutes set_mset_mset)

lemma sortSlice_empty [simp]: "sortSlice lt xs = [] \<longleftrightarrow> xs = []"
  by (metis set_sortSlice set_empty)

lemma first_is_least:
  fixes cost :: "'a \<Rightarrow> rat"
  assumes "xs \<noteq> []"
  shows "sortSlice (\<lambda>a b. cost a < cost b) xs ! 0 \<in> set xs \<and> (\<forall>y \<in> set xs. cost (sortSlice (\<lambda>a b. cost a < cost b) xs ! 0) \<le> cost y)"
proof (cases "sortSlice (\<lambda>a b. cost a < cost b) xs")
  case (Cons z zs)
  then have "set xs = insert z (set zs)" using set_sortSlice [of "\<lambda>a b. cost a < cost b" xs] by simp
  then show ?thesis using Cons sorts [of cost xs] by auto
qed (use assms in auto)

end

lemma mset_insertLeft [simp]: "mset (insertLeft lt x xs) = add_mset x (mset xs)"
  by (induction xs) auto

lemma sorted_insertLeft:
  fixes cost :: "'a \<Rightarrow> rat"
  assumes "sorted_wrt (\<lambda>a b. cost b \<le> cost a) xs"
  shows "sorted_wrt (\<lambda>a b. cost b \<le> cost a) (insertLeft (\<lambda>a b. cost a < cost b) x xs)"
  using assms
proof (induction xs)
  case (Cons y ys)
  moreover have "set (insertLeft (\<lambda>a b. cost a < cost b) x ys) = insert x (set ys)"
    by (metis mset_insertLeft set_mset_add_mset_insert set_mset_mset)
  ultimately show ?case by auto
qed simp

lemma insertionSort_loop:
  fixes cost :: "'a \<Rightarrow> rat"
  shows "mset (foldl (\<lambda>s x. insertLeft lt x s) ys xs) = mset ys + mset xs"
    and "sorted_wrt (\<lambda>a b. cost b \<le> cost a) ys \<Longrightarrow>
      sorted_wrt (\<lambda>a b. cost b \<le> cost a) (foldl (\<lambda>s x. insertLeft (\<lambda>a b. cost a < cost b) x s) ys xs)"
  by (induction xs arbitrary: ys) (auto simp: sorted_insertLeft)

interpretation insertion: slice_sort insertionSort
proof
  show "mset (insertionSort lt xs) = mset xs" for lt :: "'a \<Rightarrow> 'a \<Rightarrow> bool" and xs
    by (simp add: insertionSort_def insertionSort_loop)
  show "sorted (map cost (insertionSort (\<lambda>a b. cost a < cost b) xs))" for cost :: "'a \<Rightarrow> rat" and xs
    using insertionSort_loop(2) [of cost "[]" xs] by (simp add: insertionSort_def sorted_map sorted_wrt_rev)
qed

subsection \<open>What these compute\<close>

lemma MinBy_least:
  fixes cost :: "'a \<Rightarrow> rat"
  assumes "xs \<noteq> []"
  shows "MinBy (\<lambda>a b. cost a < cost b) z xs \<in> set xs \<and> (\<forall>y \<in> set xs. cost (MinBy (\<lambda>a b. cost a < cost b) z xs) \<le> cost y)"
proof -
  have "foldl (\<lambda>m i. if cost i < cost m then i else m) x ys \<in> insert x (set ys) \<and>
     (\<forall>y \<in> insert x (set ys). cost (foldl (\<lambda>m i. if cost i < cost m then i else m) x ys) \<le> cost y)" for x ys
    by (induction ys arbitrary: x) fastforce+
  then show ?thesis using assms by (cases xs) auto
qed

lemma Cheapest_least: "ofs \<noteq> [] \<Longrightarrow> Offerings_Cheapest ofs \<in> set ofs \<and> (\<forall>o' \<in> set ofs. Price (Offerings_Cheapest ofs) \<le> Price o')"
  unfolding Offerings_Cheapest_def by (rule MinBy_least)

lemma Len_inReq: "finite vs \<Longrightarrow> Len (inReq k vs) = 0 \<longleftrightarrow> vs = {}"
  by (simp add: Len_def inReq_def)

lemma Operator_inReq: "finite vs \<Longrightarrow> Operator (inReq k vs) = (if vs = {} then OpDoesNotExist else OpIn)"
  by (auto simp: Operator_def Len_def inReq_def card_gt_0_iff)

text \<open>Meeting a requirement with one value leaves that value or nothing.\<close>

lemma Intersection_single: "Len (Intersection r (inReq k {v})) = 0 \<longleftrightarrow> \<not> Has r v"
proof -
  let ?i = "Intersection r (inReq k {v})"
  have plain: "\<not> complement ?i" "greaterThan ?i = None" "lessThan ?i = None" "values ?i \<subseteq> {v}"
    by (auto simp: Intersection_def Let_def inReq_def requirement_of_def split: option.splits)
  then have "Has ?i v \<longleftrightarrow> v \<in> values ?i" by (simp add: Has_def withinIntPtrs_def)
  moreover have "Has ?i v \<longleftrightarrow> Has r v" by (simp add: Has_Intersection) (simp add: Has_def inReq_def withinIntPtrs_def)
  moreover have "Len ?i = 0 \<longleftrightarrow> v \<notin> values ?i"
    using plain finite_subset [OF plain(4)] by (auto simp: Len_def)
  ultimately show ?thesis by simp
qed

text \<open>
  Requirements are compatible with one value for each of some well-known labels exactly when
  they admit these values where they mention the labels.
\<close>

lemma Compatible_single_values:
  assumes "dom m \<subseteq> wk" "\<And>k vs. m k = Some vs \<Longrightarrow> \<exists>v. vs = {v}"
  shows "Compatible wk r (labelled m) \<longleftrightarrow> (\<forall>k v. m k = Some {v} \<longrightarrow> \<not> Requirements_Has r k \<or> Has (Requirements_Get r k) v)"
proof -
  have dom: "dom (labelled m) = dom m" by (auto simp: labelled_def)
  have get: "Requirements_Get (labelled m) k = inReq k vs" if "m k = Some vs" for k vs
    using that by (simp add: Requirements_Get_def labelled_def)
  have key: "(Len (Intersection (Requirements_Get r k) (inReq k {v})) = 0 \<longrightarrow> excludes (inReq k {v}) \<and> excludes (Requirements_Get r k))
      \<longleftrightarrow> Has (Requirements_Get r k) v" for k v
    by (simp add: Intersection_single excludes_def Operator_inReq)
  show ?thesis
  proof
    assume c: "Compatible wk r (labelled m)"
    show "\<forall>k v. m k = Some {v} \<longrightarrow> \<not> Requirements_Has r k \<or> Has (Requirements_Get r k) v"
    proof (intro allI impI)
      fix k v assume k: "m k = Some {v}"
      show "\<not> Requirements_Has r k \<or> Has (Requirements_Get r k) v"
      proof (cases "r k")
        case (Some x)
        then have "k \<in> dom r \<inter> dom (labelled m)" using k dom by auto
        moreover have "Intersects r (labelled m)" using c by (simp add: Compatible_def)
        ultimately show ?thesis using key [of k v] bspec [of "dom r \<inter> dom (labelled m)" _ k]
          unfolding Intersects_def Let_def get [OF k, symmetric] by blast
      qed (simp add: Requirements_Has_def)
    qed
  next
    assume h: "\<forall>k v. m k = Some {v} \<longrightarrow> \<not> Requirements_Has r k \<or> Has (Requirements_Get r k) v"
    have "Intersects r (labelled m)"
      unfolding Intersects_def Let_def
    proof (intro ballI)
      fix k assume "k \<in> dom r \<inter> dom (labelled m)"
      then obtain v where v: "m k = Some {v}" "r k \<noteq> None" using assms(2) dom by blast
      then have "Has (Requirements_Get r k) v" using h [rule_format, OF v(1)] by (simp add: Requirements_Has_def)
      then show "Len (Intersection (Requirements_Get r k) (Requirements_Get (labelled m) k)) = 0 \<longrightarrow>
          excludes (Requirements_Get (labelled m) k) \<and> excludes (Requirements_Get r k)"
        using key [of k v] get [OF v(1)] by simp
    qed
    moreover have "dom (labelled m) - wk = {}" using assms(1) dom by auto
    ultimately show "Compatible wk r (labelled m)" by (auto simp: Compatible_def)
  qed
qed

end
