(* ===== verification/FakeTypes.thy ===== *)
theory FakeTypes
  imports Compatibility Overhead "HOL-Library.Char_ord" "HOL-Library.List_Lexorder"
begin

text \<open>
  The instance types the tests schedule with (\<open>pkg/fake/instanceType.go\<close>): a type built from
  options with defaults for what they leave out, and the two families of types.
\<close>

subsection \<open>Definitions\<close>

definition LabelInstanceSize :: string where "LabelInstanceSize = ''size''"
definition ExoticInstanceLabelKey :: string where "ExoticInstanceLabelKey = ''special''"
definition IntegerInstanceLabelKey :: string where "IntegerInstanceLabelKey = ''integer''"
definition ResourceGPUVendorA :: string where "ResourceGPUVendorA = ''fake.com/vendor-a''"
definition ResourceGPUVendorB :: string where "ResourceGPUVendorB = ''fake.com/vendor-b''"

text \<open>The package's \<open>init\<close>, on karpenter's well-known labels.\<close>

definition init_fake :: "string set \<Rightarrow> string set" where
  "init_fake wellKnown = wellKnown \<union> {LabelInstanceSize, ExoticInstanceLabelKey, IntegerInstanceLabelKey}"

record InstanceTypeOptions =
  opt_Name :: string
  opt_Offerings :: "Offering list"
  opt_Architecture :: string
  opt_OperatingSystems :: "string set"
  opt_Resources :: "ResourceList option"

text \<open>
  \<open>priceFromResources\<close> ranges over a map, in the order \<open>ks\<close> of its keys; \<open>approx\<close> is
  \<open>AsApproximateFloat64\<close> of a quantity, which depends on how the quantity is represented.
\<close>

definition addPrice :: "(Quantity \<Rightarrow> rat) \<Rightarrow> ResourceList \<Rightarrow> rat \<Rightarrow> string \<Rightarrow> rat" where
  "addPrice approx rs price k =
     (case rs k of
        None \<Rightarrow> price
      | Some v \<Rightarrow>
          if k = ''cpu'' then float64 (price + float64 (float64 (1 / 10) * approx v))
          else if k = ''memory'' then float64 (price + float64 (float64 (float64 (1 / 10) * approx v) / 10 ^ 9))
          else if k = ResourceGPUVendorA \<or> k = ResourceGPUVendorB then float64 (price + 1)
          else price)"

definition priceFromResources :: "(Quantity \<Rightarrow> rat) \<Rightarrow> string list \<Rightarrow> ResourceList \<Rightarrow> rat" where
  "priceFromResources approx ks rs = foldl (addPrice approx rs) 0 ks"

definition defaultResource :: "string \<Rightarrow> string \<Rightarrow> ResourceList \<Rightarrow> ResourceList res" where
  "defaultResource k q rs =
     (if (case rs k of None \<Rightarrow> True | Some r \<Rightarrow> r = 0)
      then res_bind (MustParse q) (\<lambda>r. Ok (rs(k \<mapsto> r))) else Ok rs)"

text \<open>
  \<open>NewInstanceType\<close>. \<open>walk i rs\<close> is the order in which the \<open>i\<close>-th call of \<open>priceFromResources\<close>
  visits \<open>rs\<close>.
\<close>

definition defaultOfferings :: "(nat \<Rightarrow> rat) \<Rightarrow> Offering list" where
  "defaultOfferings price =
     [\<lparr>CapacityType = ''spot'', Zone = ''test-zone-1'', Price = price 0, Available = True\<rparr>,
      \<lparr>CapacityType = ''spot'', Zone = ''test-zone-2'', Price = price 1, Available = True\<rparr>,
      \<lparr>CapacityType = ''on-demand'', Zone = ''test-zone-1'', Price = price 2, Available = True\<rparr>,
      \<lparr>CapacityType = ''on-demand'', Zone = ''test-zone-2'', Price = price 3, Available = True\<rparr>,
      \<lparr>CapacityType = ''on-demand'', Zone = ''test-zone-3'', Price = price 4, Available = True\<rparr>]"

definition fakeRequirements :: "string \<Rightarrow> string \<Rightarrow> string set \<Rightarrow> Offering list \<Rightarrow> Quantity \<Rightarrow> Requirements" where
  "fakeRequirements name arch oss offs cpus =
     NewRequirements
       [requirement_of ''node.kubernetes.io/instance-type'' OpIn [name],
        requirement_of ''kubernetes.io/arch'' OpIn [arch],
        requirement_of ''kubernetes.io/os'' OpIn (sorted_list_of_set oss),
        requirement_of ''topology.kubernetes.io/zone'' OpIn (map Zone (Offerings_Available offs)),
        requirement_of ''karpenter.sh/capacity-type'' OpIn (map CapacityType (Offerings_Available offs)),
        requirement_of LabelInstanceSize OpDoesNotExist [],
        requirement_of ExoticInstanceLabelKey OpDoesNotExist [],
        requirement_of IntegerInstanceLabelKey OpIn [show_int (Quantity_Value cpus)]]"

text \<open>\<open>requirements.Get(key).Insert(v)\<close>; without the key it would fill a requirement nobody holds.\<close>

definition insertAt :: "string \<Rightarrow> string \<Rightarrow> Requirements \<Rightarrow> Requirements" where
  "insertAt k v rs = (case rs k of None \<Rightarrow> rs | Some r \<Rightarrow> rs(k \<mapsto> Insert r [v]))"

definition resource_of :: "ResourceList \<Rightarrow> string \<Rightarrow> Quantity" where
  "resource_of rs k = (case rs k of None \<Rightarrow> 0 | Some q \<Rightarrow> q)"

definition Fake_NewInstanceType ::
  "(Quantity \<Rightarrow> rat) \<Rightarrow> (nat \<Rightarrow> ResourceList \<Rightarrow> string list) \<Rightarrow> InstanceTypeOptions \<Rightarrow> InstanceType res" where
  "Fake_NewInstanceType approx walk options =
     res_bind (defaultResource ''cpu'' ''4'' (case opt_Resources options of None \<Rightarrow> Map.empty | Some rs \<Rightarrow> rs)) (\<lambda>rs1.
     res_bind (defaultResource ''memory'' ''4Gi'' rs1) (\<lambda>rs2.
     res_bind (defaultResource ''pods'' ''5'' rs2) (\<lambda>rs.
       let offs = (if length (opt_Offerings options) = 0
                   then defaultOfferings (\<lambda>i. priceFromResources approx (walk i rs) rs) else opt_Offerings options);
           arch = (if length (opt_Architecture options) = 0 then ''amd64'' else opt_Architecture options);
           oss = (if card (opt_OperatingSystems options) = 0 then {''linux'', ''windows'', ''darwin''}
                  else opt_OperatingSystems options);
           requirements = fakeRequirements (opt_Name options) arch oss offs (resource_of rs ''cpu'')
       in res_bind (MustParse ''4'') (\<lambda>cpu4. res_bind (MustParse ''8Gi'') (\<lambda>mem8.
          let requirements' =
                (if cpu4 < resource_of rs ''cpu'' \<and> mem8 < resource_of rs ''memory''
                 then insertAt ExoticInstanceLabelKey ''optional'' (insertAt LabelInstanceSize ''large'' requirements)
                 else insertAt LabelInstanceSize ''small'' requirements)
          in res_bind (MustParse ''100m'') (\<lambda>cpuReserved. res_bind (MustParse ''10Mi'') (\<lambda>memReserved.
             Ok \<lparr>it_Name = opt_Name options, it_Requirements = requirements', it_Offerings = offs, it_Capacity = rs,
                 it_Overhead = \<lparr>ov_KubeReserved = [''cpu'' \<mapsto> cpuReserved, ''memory'' \<mapsto> memReserved],
                                ov_SystemReserved = Map.empty, ov_EvictionThreshold = Map.empty\<rparr>\<rparr>)))))))"

text \<open>\<open>InstanceTypesAssorted\<close>: one type for each combination, with one offering.\<close>

definition assortedName :: "int \<Rightarrow> int \<Rightarrow> string \<Rightarrow> string set \<Rightarrow> string \<Rightarrow> string \<Rightarrow> string" where
  "assortedName c m arch oss zone ct =
     show_int c @ ''-cpu-'' @ show_int m @ ''-mem-'' @ arch @ ''-'' @ Join (sorted_list_of_set oss) '','' @ ''-'' @ zone @ ''-'' @ ct"

definition assortedType ::
  "(Quantity \<Rightarrow> rat) \<Rightarrow> (string \<Rightarrow> nat \<Rightarrow> ResourceList \<Rightarrow> string list) \<Rightarrow>
   int \<Rightarrow> int \<Rightarrow> string \<Rightarrow> string \<Rightarrow> string set \<Rightarrow> string \<Rightarrow> InstanceType res" where
  "assortedType approx walk c m zone ct oss arch =
     res_bind (MustParse (show_int c)) (\<lambda>cq. res_bind (MustParse (show_int m @ ''Gi'')) (\<lambda>mq.
       let name = assortedName c m arch oss zone ct;
           rs = [''cpu'' \<mapsto> cq, ''memory'' \<mapsto> mq];
           price = priceFromResources approx (walk name 0 rs) rs
       in Fake_NewInstanceType approx (walk name)
            \<lparr>opt_Name = name,
             opt_Offerings = [\<lparr>CapacityType = ct, Zone = zone, Price = price, Available = True\<rparr>],
             opt_Architecture = arch, opt_OperatingSystems = oss, opt_Resources = Some rs\<rparr>))"

definition combinations :: "(int \<times> int \<times> string \<times> string \<times> string set \<times> string) list" where
  "combinations =
     [(c, m, zone, ct, oss, arch).
        c \<leftarrow> [1, 2, 4, 8, 16, 32, 64], m \<leftarrow> [1, 2, 4, 8, 16, 32, 64, 128],
        zone \<leftarrow> [''test-zone-1'', ''test-zone-2'', ''test-zone-3''], ct \<leftarrow> [''spot'', ''on-demand''],
        oss \<leftarrow> [{''linux''}, {''windows''}], arch \<leftarrow> [''amd64'', ''arm64'']]"

fun appendTypes :: "('a \<Rightarrow> InstanceType res) \<Rightarrow> 'a list \<Rightarrow> InstanceType list \<Rightarrow> InstanceType list res" where
  "appendTypes f [] acc = Ok acc"
| "appendTypes f (x # xs) acc = res_bind (f x) (\<lambda>t. appendTypes f xs (acc @ [t]))"

definition InstanceTypesAssorted ::
  "(Quantity \<Rightarrow> rat) \<Rightarrow> (string \<Rightarrow> nat \<Rightarrow> ResourceList \<Rightarrow> string list) \<Rightarrow> InstanceType list res" where
  "InstanceTypesAssorted approx walk =
     appendTypes (\<lambda>(c, m, zone, ct, oss, arch). assortedType approx walk c m zone ct oss arch) combinations []"

definition numberedType ::
  "(Quantity \<Rightarrow> rat) \<Rightarrow> (string \<Rightarrow> nat \<Rightarrow> ResourceList \<Rightarrow> string list) \<Rightarrow> nat \<Rightarrow> InstanceType res" where
  "numberedType approx walk i =
     res_bind (MustParse (show_int (int i + 1))) (\<lambda>cq.
     res_bind (MustParse (show_int ((int i + 1) * 2) @ ''Gi'')) (\<lambda>mq.
     res_bind (MustParse (show_int ((int i + 1) * 10))) (\<lambda>pq.
       let name = ''fake-it-'' @ show_int (int i)
       in Fake_NewInstanceType approx (walk name)
            \<lparr>opt_Name = name, opt_Offerings = [], opt_Architecture = [], opt_OperatingSystems = {},
             opt_Resources = Some [''cpu'' \<mapsto> cq, ''memory'' \<mapsto> mq, ''pods'' \<mapsto> pq]\<rparr>)))"

definition Fake_InstanceTypes ::
  "(Quantity \<Rightarrow> rat) \<Rightarrow> (string \<Rightarrow> nat \<Rightarrow> ResourceList \<Rightarrow> string list) \<Rightarrow> int \<Rightarrow> InstanceType list res" where
  "Fake_InstanceTypes approx walk n = appendTypes (numberedType approx walk) [0..<nat n] []"

lemmas fake_key_defs = LabelInstanceSize_def ExoticInstanceLabelKey_def IntegerInstanceLabelKey_def
  ResourceGPUVendorA_def ResourceGPUVendorB_def

subsection \<open>A type has what its options ask for\<close>

lemma MustParse_fake:
  "MustParse ''4'' = Ok (whole 4)" "MustParse ''4Gi'' = Ok (whole (2 ^ 32))" "MustParse ''5'' = Ok (whole 5)"
  "MustParse ''8Gi'' = Ok (whole (2 ^ 33))" "MustParse ''10Mi'' = Ok (whole (10 * 2 ^ 20))"
  by code_simp+

text \<open>The resources with their defaults, and the values of the labels.\<close>

definition orDefault :: "string \<Rightarrow> Quantity \<Rightarrow> ResourceList \<Rightarrow> ResourceList" where
  "orDefault k q rs = (if resource_of rs k = 0 then rs(k \<mapsto> q) else rs)"

definition filled :: "ResourceList \<Rightarrow> ResourceList" where
  "filled rs = orDefault ''pods'' (whole 5) (orDefault ''memory'' (whole (2 ^ 32)) (orDefault ''cpu'' (whole 4) rs))"

lemma defaultResource_eq: "MustParse q = Ok v \<Longrightarrow> defaultResource k q rs = Ok (orDefault k v rs)"
  by (auto simp: defaultResource_def orDefault_def resource_of_def split: option.splits)

lemma resource_of_orDefault:
  "resource_of (orDefault k q rs) k' = (if k' = k \<and> resource_of rs k = 0 then q else resource_of rs k')"
  by (simp add: orDefault_def resource_of_def)

lemma resource_of_filled:
  "resource_of (filled rs) k =
     (if resource_of rs k = 0
      then if k = ''cpu'' then whole 4 else if k = ''memory'' then whole (2 ^ 32) else if k = ''pods'' then whole 5 else 0
      else resource_of rs k)"
  by (auto simp: filled_def resource_of_orDefault)

lemma filled_keeps: "resource_of rs k \<noteq> 0 \<or> k \<notin> {''cpu'', ''memory'', ''pods''} \<Longrightarrow> filled rs k = rs k"
proof -
  have "orDefault j q xs k = xs k" if "resource_of xs k \<noteq> 0 \<or> k \<noteq> j" for j q xs
    using that by (auto simp: orDefault_def)
  moreover assume "resource_of rs k \<noteq> 0 \<or> k \<notin> {''cpu'', ''memory'', ''pods''}"
  ultimately show ?thesis by (auto simp: filled_def resource_of_orDefault)
qed

definition isLarge :: "ResourceList \<Rightarrow> bool" where
  "isLarge rs \<longleftrightarrow> whole 4 < resource_of rs ''cpu'' \<and> whole (2 ^ 33) < resource_of rs ''memory''"

definition fakeLabels :: "string \<Rightarrow> string \<Rightarrow> string set \<Rightarrow> Offering list \<Rightarrow> ResourceList \<Rightarrow> (string \<times> string set) list" where
  "fakeLabels name arch oss offs rs =
     [(''node.kubernetes.io/instance-type'', {name}), (''kubernetes.io/arch'', {arch}), (''kubernetes.io/os'', oss),
      (''topology.kubernetes.io/zone'', Zone ` set (Offerings_Available offs)),
      (''karpenter.sh/capacity-type'', CapacityType ` set (Offerings_Available offs)),
      (LabelInstanceSize, {if isLarge rs then ''large'' else ''small''}),
      (ExoticInstanceLabelKey, if isLarge rs then {''optional''} else {}),
      (IntegerInstanceLabelKey, {show_int (Quantity_Value (resource_of rs ''cpu''))})]"

lemma NewRequirements_labelled:
  assumes "distinct (map fst kvs)"
  shows "NewRequirements (map (\<lambda>(k, vs). inReq k vs) kvs) = labelled (map_of kvs)"
proof -
  have "Map.empty = labelled Map.empty" by (simp add: labelled_def)
  then show ?thesis using Add_labelled_new [OF assms, of Map.empty] by (simp add: NewRequirements_def)
qed

lemma fake_keys_normal:
  "normalizeKey ''node.kubernetes.io/instance-type'' = ''node.kubernetes.io/instance-type''"
  "normalizeKey ''kubernetes.io/arch'' = ''kubernetes.io/arch''" "normalizeKey ''kubernetes.io/os'' = ''kubernetes.io/os''"
  "normalizeKey ''topology.kubernetes.io/zone'' = ''topology.kubernetes.io/zone''"
  "normalizeKey ''karpenter.sh/capacity-type'' = ''karpenter.sh/capacity-type''"
  "normalizeKey LabelInstanceSize = LabelInstanceSize" "normalizeKey ExoticInstanceLabelKey = ExoticInstanceLabelKey"
  "normalizeKey IntegerInstanceLabelKey = IntegerInstanceLabelKey"
  by (simp_all add: normalizeKey_def NormalizedLabels_def fake_key_defs)

lemma fakeRequirements_labelled:
  assumes "finite oss"
  shows "fakeRequirements name arch oss offs c = labelled (map_of
     [(''node.kubernetes.io/instance-type'', {name}), (''kubernetes.io/arch'', {arch}), (''kubernetes.io/os'', oss),
      (''topology.kubernetes.io/zone'', Zone ` set (Offerings_Available offs)),
      (''karpenter.sh/capacity-type'', CapacityType ` set (Offerings_Available offs)),
      (LabelInstanceSize, {}), (ExoticInstanceLabelKey, {}), (IntegerInstanceLabelKey, {show_int (Quantity_Value c)})])"
  (is "_ = labelled (map_of ?kvs)")
proof -
  have "fakeRequirements name arch oss offs c = NewRequirements (map (\<lambda>(k, vs). inReq k vs) ?kvs)"
    using assms by (simp add: fakeRequirements_def requirement_of_inReq fake_keys_normal)
  moreover have "distinct (map fst ?kvs)" by (simp add: fake_key_defs)
  ultimately show ?thesis by (simp only: NewRequirements_labelled)
qed

lemma insertAt_labelled: "m k = Some vs \<Longrightarrow> insertAt k v (labelled m) = labelled (m(k \<mapsto> insert v vs))"
  by (auto simp: insertAt_def labelled_def Insert_def inReq_def)

definition fakeType ::
  "(Quantity \<Rightarrow> rat) \<Rightarrow> (nat \<Rightarrow> ResourceList \<Rightarrow> string list) \<Rightarrow> InstanceTypeOptions \<Rightarrow> InstanceType" where
  "fakeType approx walk options =
     (let rs = filled (case opt_Resources options of None \<Rightarrow> Map.empty | Some rs \<Rightarrow> rs);
          offs = (if opt_Offerings options = [] then defaultOfferings (\<lambda>i. priceFromResources approx (walk i rs) rs)
                  else opt_Offerings options)
      in \<lparr>it_Name = opt_Name options,
          it_Requirements = labelled (map_of (fakeLabels (opt_Name options)
            (if opt_Architecture options = [] then ''amd64'' else opt_Architecture options)
            (if opt_OperatingSystems options = {} then {''linux'', ''windows'', ''darwin''} else opt_OperatingSystems options)
            offs rs)),
          it_Offerings = offs, it_Capacity = rs,
          it_Overhead = \<lparr>ov_KubeReserved = [''cpu'' \<mapsto> 100 * 10 ^ 6, ''memory'' \<mapsto> whole (10 * 2 ^ 20)],
                         ov_SystemReserved = Map.empty, ov_EvictionThreshold = Map.empty\<rparr>\<rparr>)"

lemma fakeLabels_insert:
  assumes "finite oss"
  shows "(if isLarge rs
      then insertAt ExoticInstanceLabelKey ''optional'' (insertAt LabelInstanceSize ''large'' (fakeRequirements name arch oss offs (resource_of rs ''cpu'')))
      else insertAt LabelInstanceSize ''small'' (fakeRequirements name arch oss offs (resource_of rs ''cpu''))) =
     labelled (map_of (fakeLabels name arch oss offs rs))"
  using assms by (auto simp: fakeRequirements_labelled insertAt_labelled fakeLabels_def fake_key_defs fun_upd_def
      intro!: arg_cong [where f = labelled])

lemma Fake_NewInstanceType_eq:
  assumes "finite (opt_OperatingSystems options)"
  shows "Fake_NewInstanceType approx walk options = Ok (fakeType approx walk options)"
proof -
  let ?oss = "if opt_OperatingSystems options = {} then {''linux'', ''windows'', ''darwin''} else opt_OperatingSystems options"
  have oss: "finite ?oss" using assms by simp
  have "(card (opt_OperatingSystems options) = 0) = (opt_OperatingSystems options = {})" using assms by simp
  then show ?thesis
    unfolding Fake_NewInstanceType_def fakeType_def
    by (simp only: defaultResource_eq MustParse_fake MustParse_defaults(3) res_bind_simps Let_def filled_def [symmetric]
        isLarge_def [symmetric] length_0_conv fakeLabels_insert [OF oss])
qed

subsection \<open>Prices do not depend on the order of the map\<close>

text \<open>
  Without GPUs a price has at most two summands, and rounding commutes with their order: the
  offerings of a type all have the same price. With a GPU there are three, and rounding may
  tell the orders apart.
\<close>

definition cpuPrice :: "(Quantity \<Rightarrow> rat) \<Rightarrow> Quantity \<Rightarrow> rat" where
  "cpuPrice approx q = float64 (float64 (1 / 10) * approx q)"

definition memPrice :: "(Quantity \<Rightarrow> rat) \<Rightarrow> Quantity \<Rightarrow> rat" where
  "memPrice approx q = float64 (float64 (float64 (1 / 10) * approx q) / 10 ^ 9)"

lemma addPrice_other: "k \<notin> {''cpu'', ''memory'', ResourceGPUVendorA, ResourceGPUVendorB} \<Longrightarrow> addPrice approx rs p k = p"
  by (simp add: addPrice_def split: option.splits)

lemma addPrice_fold_filter:
  "foldl (addPrice approx rs) p ks =
     foldl (addPrice approx rs) p (filter (\<lambda>k. k \<in> {''cpu'', ''memory'', ResourceGPUVendorA, ResourceGPUVendorB} \<and> rs k \<noteq> None) ks)"
proof (induction ks arbitrary: p)
  case (Cons k ks)
  have "addPrice approx rs p k = p" if "rs k = None" using that by (simp add: addPrice_def)
  then show ?case using Cons [of "addPrice approx rs p k"] Cons [of p] addPrice_other [of k approx rs p] by auto
qed simp

lemma two_elements:
  assumes "distinct xs" "set xs = {a, b}" "a \<noteq> b"
  shows "xs = [a, b] \<or> xs = [b, a]"
proof -
  have "length xs = 2" using assms distinct_card [OF assms(1)] by simp
  then obtain x y where "xs = [x, y]" by (auto simp: length_Suc_conv numeral_2_eq_2)
  then show ?thesis using assms by (auto simp: doubleton_eq_iff)
qed

lemma price_without_gpu:
  assumes "distinct ks" "set ks = dom rs" "rs ''cpu'' = Some c" "rs ''memory'' = Some m"
    and "rs ResourceGPUVendorA = None" "rs ResourceGPUVendorB = None"
  shows "priceFromResources approx ks rs = float64 (cpuPrice approx c + memPrice approx m)"
proof -
  let ?P = "\<lambda>k. k \<in> {''cpu'', ''memory'', ResourceGPUVendorA, ResourceGPUVendorB} \<and> rs k \<noteq> None"
  have "set (filter ?P ks) = {''cpu'', ''memory''}" using assms(2-6) by auto
  then have "filter ?P ks = [''cpu'', ''memory''] \<or> filter ?P ks = [''memory'', ''cpu'']"
    using assms(1) by (intro two_elements) simp_all
  moreover have "foldl (addPrice approx rs) 0 [''cpu'', ''memory''] = float64 (cpuPrice approx c + memPrice approx m)"
    "foldl (addPrice approx rs) 0 [''memory'', ''cpu''] = float64 (cpuPrice approx c + memPrice approx m)"
    using assms(3,4) by (simp_all add: addPrice_def cpuPrice_def memPrice_def add.commute)
  ultimately show ?thesis
    using addPrice_fold_filter [of approx rs 0 ks] by (auto simp: priceFromResources_def)
qed

subsection \<open>The families of types\<close>

lemma appendTypes_eq:
  assumes "\<And>x. x \<in> set xs \<Longrightarrow> f x = Ok (g x)"
  shows "appendTypes f xs acc = Ok (acc @ map g xs)"
  using assms by (induction xs arbitrary: acc) simp_all

lemma show_int_inject [simp]: "show_int i = show_int j \<longleftrightarrow> i = j"
proof
  assume "show_int i = show_int j"
  then have "Some (whole i) = Some (whole j)" by (metis ParseQuantity_show_int)
  then show "i = j" by (simp add: whole_def)
qed simp

lemma show_int_no_dash: "0 \<le> i \<Longrightarrow> CHR ''-'' \<notin> set (show_int i)"
  using show_nat_is_digit [of "CHR ''-''" "nat i"] by (auto simp: show_int_def is_digit_def digit_value_def)

lemma dash_split:
  assumes "CHR ''-'' \<notin> set x" "CHR ''-'' \<notin> set x'"
  shows "x @ CHR ''-'' # y = x' @ CHR ''-'' # y' \<longleftrightarrow> x = x' \<and> y = y'"
proof
  assume e: "x @ CHR ''-'' # y = x' @ CHR ''-'' # y'"
  have "takeWhile (\<lambda>c. c \<noteq> CHR ''-'') (x @ CHR ''-'' # y) = x" "takeWhile (\<lambda>c. c \<noteq> CHR ''-'') (x' @ CHR ''-'' # y') = x'"
    using assms by (simp_all add: takeWhile_append takeWhile_eq_all_conv)
  then have "x = x'" using e by simp
  then show "x = x' \<and> y = y'" using e by simp
qed simp

lemma ParseQuantity_Gi: "n < 2 ^ 32 \<Longrightarrow> ParseQuantity (show_nat n @ ''Gi'') = Some (whole (int n * 2 ^ 30))"
  by (rule ParseQuantity_binary) (simp_all add: interpret_suffix_def is_digit_def digit_value_def)

lemma MustParse_Gi: "0 \<le> n \<Longrightarrow> n < 2 ^ 32 \<Longrightarrow> MustParse (show_int n @ ''Gi'') = Ok (whole (n * 2 ^ 30))"
  using ParseQuantity_Gi [of "nat n"] by (simp add: MustParse_def show_int_def nat_less_iff)

text \<open>\<open>combinations\<close> is a product of lists, and its elements have different names.\<close>

lemma product_comprehension:
  "concat (map (\<lambda>a. concat (map (\<lambda>b. concat (map (\<lambda>c. concat (map (\<lambda>d. concat (map (\<lambda>e. map (\<lambda>f. (a, b, c, d, e, f)) fs) es)) ds)) cs)) bs)) as) =
   List.product as (List.product bs (List.product cs (List.product ds (List.product es fs))))"
  by (simp add: product_concat_map map_concat comp_def)

lemma combinations_product:
  "combinations = List.product [1, 2, 4, 8, 16, 32, 64] (List.product [1, 2, 4, 8, 16, 32, 64, 128]
     (List.product [''test-zone-1'', ''test-zone-2'', ''test-zone-3''] (List.product [''spot'', ''on-demand'']
     (List.product [{''linux''}, {''windows''}] [''amd64'', ''arm64'']))))"
  unfolding combinations_def by (rule product_comprehension)

definition named :: "int \<times> int \<times> string \<times> string \<times> string set \<times> string \<Rightarrow> string" where
  "named = (\<lambda>(c, m, zone, ct, oss, arch). assortedName c m arch oss zone ct)"

lemma combinations_facts: "length combinations = 1344" "distinct combinations"
  by (simp_all add: combinations_product distinct_product length_product del: product.simps)

lemma combinations_mem:
  "(c, m, z, t, os, a) \<in> set combinations \<longleftrightarrow>
     c \<in> set [1, 2, 4, 8, 16, 32, 64] \<and> m \<in> set [1, 2, 4, 8, 16, 32, 64, 128] \<and>
     z \<in> set [''test-zone-1'', ''test-zone-2'', ''test-zone-3''] \<and> t \<in> set [''spot'', ''on-demand''] \<and>
     os \<in> set [{''linux''}, {''windows''}] \<and> a \<in> set [''amd64'', ''arm64'']"
  by (simp only: combinations_product set_product mem_Times_iff fst_conv snd_conv)

lemma combinations_shape:
  assumes "(c, m, z, t, os, a) \<in> set combinations"
  shows "0 < c" "0 < m" "m < 2 ^ 32" "length z = 11" "CHR ''-'' \<notin> set a" "a \<noteq> []" "\<exists>name. os = {name} \<and> CHR ''-'' \<notin> set name"
proof -
  have c: "c \<in> set [1, 2, 4, 8, 16, 32, 64]" and m: "m \<in> set [1, 2, 4, 8, 16, 32, 64, 128]"
    and z: "z \<in> set [''test-zone-1'', ''test-zone-2'', ''test-zone-3'']"
    and os: "os \<in> set [{''linux''}, {''windows''}]" and a: "a \<in> set [''amd64'', ''arm64'']"
    using assms unfolding combinations_mem by blast+
  show "0 < c" using c by auto
  show "0 < m" "m < 2 ^ 32" using m by auto
  show "length z = 11" using z by auto
  show "CHR ''-'' \<notin> set a" "a \<noteq> []" using a by auto
  show "\<exists>name. os = {name} \<and> CHR ''-'' \<notin> set name" using os by auto
qed

lemma named_inj: "inj_on named (set combinations)"
proof (rule inj_onI)
  fix x y assume xy: "x \<in> set combinations" "y \<in> set combinations" "named x = named y"
  obtain c m z t os a where x: "x = (c, m, z, t, os, a)" by (cases x)
  obtain c' m' z' t' os' a' where y: "y = (c', m', z', t', os', a')" by (cases y)
  note sx = combinations_shape [OF xy(1) [unfolded x]] and sy = combinations_shape [OF xy(2) [unfolded y]]
  obtain o1 where o1: "os = {o1}" "CHR ''-'' \<notin> set o1" using sx(7) by auto
  obtain o2 where o2: "os' = {o2}" "CHR ''-'' \<notin> set o2" using sy(7) by auto
  show "x = y"
    using xy(3) sx(1-5) sy(1-5) o1 o2
    by (simp add: x y named_def assortedName_def show_int_no_dash dash_split)
qed

lemma assortedType_eq:
  assumes "(c, m, z, t, os, a) \<in> set combinations"
  shows "assortedType approx walk c m z t os a =
    (let name = assortedName c m a os z t; rs = [''cpu'' \<mapsto> whole c, ''memory'' \<mapsto> whole (m * 2 ^ 30)]
     in Ok (fakeType approx (walk name)
          \<lparr>opt_Name = name, opt_Offerings = [\<lparr>CapacityType = t, Zone = z, Price = priceFromResources approx (walk name 0 rs) rs, Available = True\<rparr>],
           opt_Architecture = a, opt_OperatingSystems = os, opt_Resources = Some rs\<rparr>))"
proof -
  have "finite os" "0 \<le> m" "m < 2 ^ 32" using combinations_shape [OF assms] by auto
  then show ?thesis by (simp add: assortedType_def MustParse_Gi Fake_NewInstanceType_eq Let_def)
qed

lemma resource_of_upd: "resource_of (rs(k \<mapsto> q)) k' = (if k' = k then q else resource_of rs k')"
  by (simp add: resource_of_def)

lemma filled_cpu_memory:
  assumes "c \<noteq> 0" "m \<noteq> 0"
  shows "filled [''cpu'' \<mapsto> c, ''memory'' \<mapsto> m] = [''cpu'' \<mapsto> c, ''memory'' \<mapsto> m, ''pods'' \<mapsto> whole 5]"
  using assms by (simp add: filled_def orDefault_def resource_of_upd) (simp add: resource_of_def)

text \<open>\<open>InstanceTypesAssorted\<close> returns 1344 types with pairwise different names: for every combination
  of cores, memory, zone, capacity type, operating system and architecture one type with these
  resources (and five pods) and these labels, and with one available offering in that zone and
  of that capacity type, at the price of its cores and memory.
\<close>

theorem assorted_types_cover_combinations:
  assumes "\<And>name rs. finite (dom rs) \<Longrightarrow> distinct (walk name 0 rs) \<and> set (walk name 0 rs) = dom rs"
  shows "\<exists>ts. InstanceTypesAssorted approx walk = Ok ts \<and> length ts = 1344 \<and> distinct (map it_Name ts) \<and>
    map (\<lambda>t. (it_Capacity t, it_Offerings t)) ts =
      map (\<lambda>(c, m, zone, ct, oss, arch).
        ([''cpu'' \<mapsto> whole c, ''memory'' \<mapsto> whole (m * 2 ^ 30), ''pods'' \<mapsto> whole 5],
         [\<lparr>CapacityType = ct, Zone = zone,
           Price = float64 (cpuPrice approx (whole c) + memPrice approx (whole (m * 2 ^ 30))), Available = True\<rparr>])) combinations \<and>
    map (\<lambda>t. map (it_Requirements t) [''topology.kubernetes.io/zone'', ''karpenter.sh/capacity-type'', ''kubernetes.io/os'', ''kubernetes.io/arch'']) ts =
      map (\<lambda>(c, m, zone, ct, oss, arch).
        [Some (inReq ''topology.kubernetes.io/zone'' {zone}), Some (inReq ''karpenter.sh/capacity-type'' {ct}),
         Some (inReq ''kubernetes.io/os'' oss), Some (inReq ''kubernetes.io/arch'' {arch})]) combinations"
proof -
  define ty where "ty = (\<lambda>(c, m, z, t, os, a). let name = assortedName c m a os z t; rs = [''cpu'' \<mapsto> whole c, ''memory'' \<mapsto> whole (m * 2 ^ 30)]
     in fakeType approx (walk name)
          \<lparr>opt_Name = name, opt_Offerings = [\<lparr>CapacityType = t, Zone = z, Price = priceFromResources approx (walk name 0 rs) rs, Available = True\<rparr>],
           opt_Architecture = a, opt_OperatingSystems = os, opt_Resources = Some rs\<rparr>)"
  have all: "InstanceTypesAssorted approx walk = Ok (map ty combinations)"
    unfolding InstanceTypesAssorted_def
    by (subst appendTypes_eq [where g = ty]) (auto simp: assortedType_eq ty_def Let_def)
  have name: "it_Name (ty x) = named x" for x
    by (cases x) (simp add: ty_def named_def fakeType_def Let_def)
  have price: "priceFromResources approx (walk name 0 rs) rs = float64 (cpuPrice approx (whole c) + memPrice approx (whole (m * 2 ^ 30)))"
    if "rs = [''cpu'' \<mapsto> whole c, ''memory'' \<mapsto> whole (m * 2 ^ 30)]" for name c m rs
    using assms that by (intro price_without_gpu) (simp_all add: fake_key_defs)
  have available: "Offerings_Available [\<lparr>CapacityType = t, Zone = z, Price = p, Available = True\<rparr>] =
      [\<lparr>CapacityType = t, Zone = z, Price = p, Available = True\<rparr>]" for t z p
    by (simp add: Offerings_Available_def)
  have "it_Capacity (ty (c, m, z, t, os, a)) = [''cpu'' \<mapsto> whole c, ''memory'' \<mapsto> whole (m * 2 ^ 30), ''pods'' \<mapsto> whole 5] \<and>
     it_Offerings (ty (c, m, z, t, os, a)) = [\<lparr>CapacityType = t, Zone = z,
       Price = float64 (cpuPrice approx (whole c) + memPrice approx (whole (m * 2 ^ 30))), Available = True\<rparr>] \<and>
     map (it_Requirements (ty (c, m, z, t, os, a))) [''topology.kubernetes.io/zone'', ''karpenter.sh/capacity-type'', ''kubernetes.io/os'', ''kubernetes.io/arch''] =
       [Some (inReq ''topology.kubernetes.io/zone'' {z}), Some (inReq ''karpenter.sh/capacity-type'' {t}),
         Some (inReq ''kubernetes.io/os'' os), Some (inReq ''kubernetes.io/arch'' {a})]"
    if "(c, m, z, t, os, a) \<in> set combinations" for c m z t os a
    using combinations_shape [OF that]
    by (auto simp: ty_def fakeType_def Let_def filled_cpu_memory whole_def price [unfolded whole_def] labelled_def fakeLabels_def available)
  note fields = this
  have "map it_Name (map ty combinations) = map named combinations" by (simp add: name)
  then have "distinct (map it_Name (map ty combinations))"
    using combinations_facts(2) named_inj by (simp only: distinct_map)
  then show ?thesis
    unfolding all using combinations_facts(1) fields
    by (intro exI [of _ "map ty combinations"] conjI) (auto simp only: list.map list.inject map_map comp_def res.inject length_map prod.case intro!: map_cong)
qed

definition someWalk :: "string \<Rightarrow> nat \<Rightarrow> ResourceList \<Rightarrow> string list" where
  "someWalk name i rs = sorted_list_of_set (dom rs)"

definition decimalApprox :: "Quantity \<Rightarrow> rat" where
  "decimalApprox q = float64 (of_int q / 10 ^ 9)"

theorem assorted_types_cover_combinations_witness:
  "\<exists>ts. InstanceTypesAssorted decimalApprox someWalk = Ok ts \<and> length ts = 1344 \<and> distinct (map it_Name ts)"
proof -
  have "distinct (someWalk name 0 rs) \<and> set (someWalk name 0 rs) = dom rs" if "finite (dom rs)" for name and rs :: ResourceList
    using that by (simp add: someWalk_def)
  from assorted_types_cover_combinations [of someWalk decimalApprox, OF this] show ?thesis by blast
qed

lemma numbered_types:
  assumes "n < 2 ^ 31"
  shows "\<exists>ts. Fake_InstanceTypes approx walk n = Ok ts \<and> length ts = nat n \<and> distinct (map it_Name ts) \<and>
    (\<forall>i < nat n. it_Capacity (ts ! i) =
       [''cpu'' \<mapsto> whole (int i + 1), ''memory'' \<mapsto> whole ((int i + 1) * 2 * 2 ^ 30), ''pods'' \<mapsto> whole ((int i + 1) * 10)])"
proof -
  define rs where "rs = (\<lambda>i::nat. [''cpu'' \<mapsto> whole (int i + 1), ''memory'' \<mapsto> whole ((int i + 1) * 2 * 2 ^ 30), ''pods'' \<mapsto> whole ((int i + 1) * 10)])"
  define ty where "ty = (\<lambda>i::nat. fakeType approx (walk (''fake-it-'' @ show_int (int i)))
     \<lparr>opt_Name = ''fake-it-'' @ show_int (int i), opt_Offerings = [], opt_Architecture = [], opt_OperatingSystems = {}, opt_Resources = Some (rs i)\<rparr>)"
  have "numberedType approx walk i = Ok (ty i)" if "i \<in> set [0..<nat n]" for i
  proof -
    have "(int i + 1) * 2 < 2 ^ 32" using that assms by auto
    then show ?thesis
      by (simp only: numberedType_def MustParse_show_int MustParse_Gi res_bind_simps Let_def)
        (simp add: MustParse_Gi Fake_NewInstanceType_eq ty_def rs_def)
  qed
  then have all: "Fake_InstanceTypes approx walk n = Ok (map ty [0..<nat n])"
    unfolding Fake_InstanceTypes_def by (subst appendTypes_eq [where g = ty]) auto
  have name: "it_Name (ty i) = ''fake-it-'' @ show_int (int i)" for i by (simp add: ty_def fakeType_def Let_def)
  have cap: "it_Capacity (ty i) = rs i" for i
  proof -
    have "whole (int i + 1) \<noteq> 0" "whole ((int i + 1) * 2 * 2 ^ 30) \<noteq> 0" "whole ((int i + 1) * 10) \<noteq> 0"
      by (simp_all add: whole_def)
    then have "filled (rs i) = rs i" by (simp add: filled_def orDefault_def resource_of_upd rs_def)
    then show ?thesis by (simp add: ty_def fakeType_def Let_def)
  qed
  have "map it_Name (map ty [0..<nat n]) = map (\<lambda>i. ''fake-it-'' @ show_int (int i)) [0..<nat n]" by (simp add: name)
  then have "distinct (map it_Name (map ty [0..<nat n]))" by (simp only: distinct_map) (simp add: inj_on_def)
  then show ?thesis unfolding all using cap by (intro exI [of _ "map ty [0..<nat n]"] conjI) (simp_all add: rs_def)
qed

end
