(* ===== verification/FakeCloud.thy ===== *)
theory FakeCloud
  imports FakeTypes
begin

text \<open>
  The fake cloud provider (\<open>pkg/fake/cloudprovider.go\<close>) that karpenter's controllers are tested
  against. \<open>Create\<close> has two parts, a locked one that counts the call and an unlocked one that
  chooses a type and stores the machine; both are definitions of their own, so that calls can
  interleave between them.
\<close>

subsection \<open>Definitions\<close>

text \<open>A machine with the resources of its status.\<close>

record FakeMachine = Machine +
  m_Capacity :: ResourceList
  m_Allocatable :: ResourceList

record FakeCloud =
  fc_InstanceTypes :: "InstanceType list option"
  CreateCalls :: "Machine list"
  CreatedMachines :: "string \<rightharpoonup> FakeMachine"
  DeleteCalls :: "Machine list"
  Drifted :: bool
  AllowedCreateCalls :: int

text \<open>
  What the outcome of a call depends on besides the state: \<open>sort.Slice\<close>, the order in which a
  set is listed, karpenter's well-known labels, and the two parameters of the fake types.
\<close>

record FakeEnv =
  env_sort :: "(InstanceType \<Rightarrow> InstanceType \<Rightarrow> bool) \<Rightarrow> InstanceType list \<Rightarrow> InstanceType list"
  env_ulist :: "string set \<Rightarrow> string list"
  env_wellKnown :: "string set"
  env_approx :: "Quantity \<Rightarrow> rat"
  env_walk :: "string \<Rightarrow> nat \<Rightarrow> ResourceList \<Rightarrow> string list"

definition NewCloudProvider :: FakeCloud where
  "NewCloudProvider =
     \<lparr>fc_InstanceTypes = None, CreateCalls = [], CreatedMachines = Map.empty, DeleteCalls = [], Drifted = False,
      AllowedCreateCalls = 2 ^ 63 - 1\<rparr>"

definition FakeCloud_Reset :: "FakeCloud \<Rightarrow> FakeCloud" where
  "FakeCloud_Reset c =
     c\<lparr>CreateCalls := [], CreatedMachines := Map.empty, DeleteCalls := [], AllowedCreateCalls := 2 ^ 63 - 1, Drifted := False\<rparr>"

definition bareOptions :: "string \<Rightarrow> ResourceList option \<Rightarrow> InstanceTypeOptions" where
  "bareOptions name rs =
     \<lparr>opt_Name = name, opt_Offerings = [], opt_Architecture = [], opt_OperatingSystems = {}, opt_Resources = rs\<rparr>"

definition Fake_GetInstanceTypes :: "FakeEnv \<Rightarrow> FakeCloud \<Rightarrow> InstanceType list res" where
  "Fake_GetInstanceTypes env c =
     (case fc_InstanceTypes c of
        Some ts \<Rightarrow> Ok ts
      | None \<Rightarrow>
          res_bind (MustParse ''2'') (\<lambda>two. res_bind (MustParse ''2Gi'') (\<lambda>twoGi.
          res_bind (MustParse ''16'') (\<lambda>sixteen. res_bind (MustParse ''128Gi'') (\<lambda>large.
          res_bind (MustParse ''1'') (\<lambda>one.
            appendTypes (\<lambda>opts. Fake_NewInstanceType (env_approx env) (env_walk env (opt_Name opts)) opts)
              [bareOptions ''default-instance-type'' None,
               bareOptions ''small-instance-type'' (Some [''cpu'' \<mapsto> two, ''memory'' \<mapsto> twoGi]),
               bareOptions ''gpu-vendor-instance-type'' (Some [ResourceGPUVendorA \<mapsto> two]),
               bareOptions ''gpu-vendor-b-instance-type'' (Some [ResourceGPUVendorB \<mapsto> two]),
               (bareOptions ''arm-instance-type'' (Some [''cpu'' \<mapsto> sixteen, ''memory'' \<mapsto> large]))
                 \<lparr>opt_Architecture := ''arm64'', opt_OperatingSystems := {''ios'', ''linux'', ''windows'', ''darwin''}\<rparr>,
               bareOptions ''single-pod-instance-type'' (Some [''pods'' \<mapsto> one])] []))))))"

definition createBegin :: "Machine \<Rightarrow> FakeCloud \<Rightarrow> unit res \<times> FakeCloud" where
  "createBegin machine c =
     (let c' = c\<lparr>CreateCalls := CreateCalls c @ [machine]\<rparr>
      in if AllowedCreateCalls c' < int (length (CreateCalls c'))
         then (Err (ErrorString ''erroring as number of AllowedCreateCalls has been exceeded''), c') else (Ok (), c'))"

definition offeringPrice :: "Requirements \<Rightarrow> InstanceType \<Rightarrow> rat" where
  "offeringPrice requirements t =
     Price (Offerings_Cheapest (Offerings_Requirements requirements (Offerings_Available (it_Offerings t))))"

text \<open>\<open>Values()[0]\<close> is read for the operator \<open>In\<close> only, which has a value.\<close>

definition typeLabels :: "(string set \<Rightarrow> string list) \<Rightarrow> Requirements \<Rightarrow> string \<rightharpoonup> string" where
  "typeLabels ulist rs =
     (\<lambda>k. case rs k of None \<Rightarrow> None | Some r \<Rightarrow> if Operator r = OpIn then Some (Values ulist r ! 0) else None)"

fun findOffering :: "string set \<Rightarrow> Requirements \<Rightarrow> Offering list \<Rightarrow> Offering option" where
  "findOffering wellKnown requirements [] = None"
| "findOffering wellKnown requirements (o' # ofs) =
     (if Compatible wellKnown requirements (NewRequirements
           [requirement_of ''topology.kubernetes.io/zone'' OpIn [Zone o'],
            requirement_of ''karpenter.sh/capacity-type'' OpIn [CapacityType o']])
      then Some o' else findOffering wellKnown requirements ofs)"

text \<open>\<open>functional.FilterMap\<close> with \<open>!resources.IsZero\<close>.\<close>

definition nonzero :: "ResourceList \<Rightarrow> ResourceList" where
  "nonzero rs = (\<lambda>k. case rs k of None \<Rightarrow> None | Some q \<Rightarrow> if q = 0 then None else Some q)"

definition fakeMachine :: "FakeEnv \<Rightarrow> string \<Rightarrow> Requirements \<Rightarrow> Machine \<Rightarrow> InstanceType \<Rightarrow> FakeMachine" where
  "fakeMachine env providerID requirements machine t =
     (let labels = typeLabels (env_ulist env) (it_Requirements t);
          labels' = (case findOffering (env_wellKnown env) requirements (Offerings_Available (it_Offerings t)) of
                       None \<Rightarrow> labels
                     | Some o' \<Rightarrow> labels(''topology.kubernetes.io/zone'' \<mapsto> Zone o', ''karpenter.sh/capacity-type'' \<mapsto> CapacityType o'))
      in \<lparr>m_Name = m_Name machine, m_Labels = Assign2 labels' (m_Labels machine), m_Annotations = m_Annotations machine,
          m_Requirements = m_Requirements machine, m_Taints = m_Taints machine, m_Requests = m_Requests machine,
          m_ProviderID = providerID, m_Capacity = nonzero (it_Capacity t), m_Allocatable = nonzero (Allocatable t)\<rparr>)"

definition candidates :: "Requirements \<Rightarrow> InstanceType list \<Rightarrow> InstanceType list" where
  "candidates requirements ts =
     filter (\<lambda>i. Has (Requirements_Get requirements ''node.kubernetes.io/instance-type'') (it_Name i)) ts"

definition createEnd :: "FakeEnv \<Rightarrow> string \<Rightarrow> Machine \<Rightarrow> FakeCloud \<Rightarrow> FakeMachine res \<times> FakeCloud" where
  "createEnd env providerID machine c =
     (case res_bind (NewNodeSelectorRequirements (m_Requirements machine)) (\<lambda>requirements.
           res_bind (Fake_GetInstanceTypes env c) (\<lambda>ts.
             let instanceTypes = env_sort env (\<lambda>i j. offeringPrice requirements i < offeringPrice requirements j)
                                   (candidates requirements ts)
             in if instanceTypes = [] then Panic ''index out of range [0] with length 0''
                else Ok (fakeMachine env providerID requirements machine (instanceTypes ! 0)))) of
        Ok created \<Rightarrow> (Ok created, c\<lparr>CreatedMachines := (CreatedMachines c)(m_ProviderID created \<mapsto> created)\<rparr>)
      | Err e \<Rightarrow> (Err e, c)
      | Panic msg \<Rightarrow> (Panic msg, c))"

definition Fake_Create :: "FakeEnv \<Rightarrow> string \<Rightarrow> Machine \<Rightarrow> FakeCloud \<Rightarrow> FakeMachine res \<times> FakeCloud" where
  "Fake_Create env providerID machine c =
     (case createBegin machine c of
        (Ok _, c') \<Rightarrow> createEnd env providerID machine c'
      | (Err e, c') \<Rightarrow> (Err e, c')
      | (Panic msg, c') \<Rightarrow> (Panic msg, c'))"

definition Fake_Get :: "FakeCloud \<Rightarrow> string \<Rightarrow> FakeMachine res" where
  "Fake_Get c i =
     (case CreatedMachines c i of
        Some machine \<Rightarrow> Ok machine
      | None \<Rightarrow> Err (MachineNotFound (ErrorString (''no machine exists with id '' @ [CHR 0x27] @ i @ [CHR 0x27]))))"

text \<open>\<open>List\<close>, with the order \<open>ids\<close> in which \<open>lo.Values\<close> visits the map.\<close>

definition Fake_List :: "string list \<Rightarrow> FakeCloud \<Rightarrow> FakeMachine list" where
  "Fake_List ids c = List.map_filter (CreatedMachines c) ids"

definition Fake_Delete :: "Machine \<Rightarrow> FakeCloud \<Rightarrow> unit res \<times> FakeCloud" where
  "Fake_Delete m c =
     (let c' = c\<lparr>DeleteCalls := DeleteCalls c @ [m]\<rparr>
      in case CreatedMachines c' (m_ProviderID m) of
           Some _ \<Rightarrow> (Ok (), c'\<lparr>CreatedMachines := (CreatedMachines c')(m_ProviderID m := None)\<rparr>)
         | None \<Rightarrow> (Err (MachineNotFound (ErrorString
             (''no machine exists with provider id '' @ [CHR 0x27] @ m_ProviderID m @ [CHR 0x27]))), c'))"

definition Fake_IsMachineDrifted :: "FakeCloud \<Rightarrow> Machine \<Rightarrow> bool res" where
  "Fake_IsMachineDrifted c m = Ok (Drifted c)"

definition Fake_Name :: string where
  "Fake_Name = ''fake''"

text \<open>
  Calls from several goroutines: the locked part of \<open>Create\<close>, its unlocked rest, and the other
  operations each run as one step, in any order; \<open>Reset\<close> only needs the lock, so it may come while calls of
  \<open>Create\<close> are past their locked part. A state holds the provider, these calls, and how many
  of them there were at the last \<open>Reset\<close>.
\<close>

type_synonym fakeState = "FakeCloud \<times> Machine list \<times> nat"

inductive fake_step :: "FakeEnv \<Rightarrow> fakeState \<Rightarrow> fakeState \<Rightarrow> bool" for env where
  started: "createBegin machine c = (Ok (), c') \<Longrightarrow> fake_step env (c, pending, k) (c', machine # pending, k)"
| refused: "createBegin machine c = (Err e, c') \<Longrightarrow> fake_step env (c, pending, k) (c', pending, k)"
| finished: "machine \<in> set pending \<Longrightarrow> createEnd env providerID machine c = (Ok created, c') \<Longrightarrow>
    fake_step env (c, pending, k) (c', remove1 machine pending, k)"
| deleted: "Fake_Delete m c = (r, c') \<Longrightarrow> fake_step env (c, pending, k) (c', pending, k)"
| wasReset: "fake_step env (c, pending, k) (FakeCloud_Reset c, pending, length pending)"

inductive fake_reachable :: "FakeEnv \<Rightarrow> FakeCloud \<Rightarrow> fakeState \<Rightarrow> bool" for env c\<^sub>0 where
  start: "fake_reachable env c\<^sub>0 (c\<^sub>0, [], 0)"
| step: "fake_reachable env c\<^sub>0 s \<Longrightarrow> fake_step env s s' \<Longrightarrow> fake_reachable env c\<^sub>0 s'"

subsection \<open>The offering a machine is labelled with\<close>

abbreviation selected :: "Requirements \<Rightarrow> InstanceType \<Rightarrow> Offering list" where
  "selected requirements t \<equiv> Offerings_Requirements requirements (Offerings_Available (it_Offerings t))"

lemma two_keys: "z \<noteq> c \<Longrightarrow> (\<forall>k v. [z \<mapsto> {a}, c \<mapsto> {b}] k = Some {v} \<longrightarrow> P k v) \<longleftrightarrow> P z a \<and> P c b"
  by (auto split: if_splits)

lemma findOffering_selected:
  assumes "coreWellKnownLabels \<subseteq> wk"
  shows "findOffering wk reqs ofs = (case Offerings_Requirements reqs ofs of [] \<Rightarrow> None | o' # _ \<Rightarrow> Some o')"
proof -
  let ?z = "''topology.kubernetes.io/zone''" and ?c = "''karpenter.sh/capacity-type''"
  have "Compatible wk reqs (NewRequirements [requirement_of ?z OpIn [Zone o'], requirement_of ?c OpIn [CapacityType o']]) \<longleftrightarrow>
      (\<not> Requirements_Has reqs ?z \<or> Has (Requirements_Get reqs ?z) (Zone o')) \<and>
      (\<not> Requirements_Has reqs ?c \<or> Has (Requirements_Get reqs ?c) (CapacityType o'))" for o'
  proof -
    let ?m = "[?z \<mapsto> {Zone o'}, ?c \<mapsto> {CapacityType o'}]"
    have "map_of [(?z, {Zone o'}), (?c, {CapacityType o'})] = ?m" by (rule ext) simp
    then have new: "NewRequirements [requirement_of ?z OpIn [Zone o'], requirement_of ?c OpIn [CapacityType o']] = labelled ?m"
      using NewRequirements_labelled [of "[(?z, {Zone o'}), (?c, {CapacityType o'})]"]
      by (simp add: requirement_of_inReq fake_keys_normal)
    have wk: "dom ?m \<subseteq> wk" using assms by (auto simp: coreWellKnownLabels_def)
    have "Compatible wk reqs (labelled ?m) \<longleftrightarrow> (\<forall>k v. ?m k = Some {v} \<longrightarrow> \<not> Requirements_Has reqs k \<or> Has (Requirements_Get reqs k) v)"
      by (rule Compatible_single_values [OF wk]) (auto split: if_splits)
    then show ?thesis unfolding new by (subst (asm) two_keys) simp_all
  qed
  note compat = this
  show ?thesis by (induction ofs) (simp_all add: Offerings_Requirements_def compat)
qed

subsection \<open>What a call of \<open>Create\<close> does\<close>

lemma fakeMachine_fields [simp]:
  "m_ProviderID (fakeMachine env i reqs machine t) = i" "m_Name (fakeMachine env i reqs machine t) = m_Name machine"
  "m_Capacity (fakeMachine env i reqs machine t) = nonzero (it_Capacity t)"
  by (simp_all add: fakeMachine_def Let_def)

lemma fakeMachine_zone:
  assumes "coreWellKnownLabels \<subseteq> env_wellKnown env" "selected reqs t = o' # os"
    "m_Labels machine ''topology.kubernetes.io/zone'' = None" "m_Labels machine ''karpenter.sh/capacity-type'' = None"
  shows "m_Labels (fakeMachine env i reqs machine t) ''topology.kubernetes.io/zone'' = Some (Zone o')"
    and "m_Labels (fakeMachine env i reqs machine t) ''karpenter.sh/capacity-type'' = Some (CapacityType o')"
  using assms by (simp_all add: fakeMachine_def findOffering_selected Assign2_apply)

lemma createEnd_least:
  assumes "slice_sort (env_sort env)" "NewNodeSelectorRequirements (m_Requirements machine) = Ok reqs"
    and "Fake_GetInstanceTypes env c = Ok ts" "candidates reqs ts \<noteq> []"
  shows "\<exists>t \<in> set (candidates reqs ts).
     (\<forall>u \<in> set (candidates reqs ts). offeringPrice reqs t \<le> offeringPrice reqs u) \<and>
     createEnd env i machine c =
       (Ok (fakeMachine env i reqs machine t), c\<lparr>CreatedMachines := (CreatedMachines c)(i \<mapsto> fakeMachine env i reqs machine t)\<rparr>)"
  using slice_sort.first_is_least [OF assms(1,4), of "offeringPrice reqs"] slice_sort.sortSlice_empty [OF assms(1)] assms(2-4)
  by (auto simp: createEnd_def)

lemma createBegin_room:
  "int (length (CreateCalls c)) < AllowedCreateCalls c \<Longrightarrow>
     createBegin machine c = (Ok (), c\<lparr>CreateCalls := CreateCalls c @ [machine]\<rparr>)"
  by (simp add: createBegin_def)

lemma Fake_GetInstanceTypes_calls [simp]: "Fake_GetInstanceTypes env (c\<lparr>CreateCalls := xs\<rparr>) = Fake_GetInstanceTypes env c"
  by (simp add: Fake_GetInstanceTypes_def)

lemma Fake_Create_least:
  assumes "slice_sort (env_sort env)" "int (length (CreateCalls c)) < AllowedCreateCalls c"
    and "NewNodeSelectorRequirements (m_Requirements machine) = Ok reqs"
    and "Fake_GetInstanceTypes env c = Ok ts" "candidates reqs ts \<noteq> []"
  shows "\<exists>t \<in> set (candidates reqs ts). (\<forall>u \<in> set (candidates reqs ts). offeringPrice reqs t \<le> offeringPrice reqs u) \<and>
     Fake_Create env i machine c =
       (Ok (fakeMachine env i reqs machine t), c\<lparr>CreateCalls := CreateCalls c @ [machine],
          CreatedMachines := (CreatedMachines c)(i \<mapsto> fakeMachine env i reqs machine t)\<rparr>)"
  using createEnd_least [OF assms(1,3) _ assms(5), of "c\<lparr>CreateCalls := CreateCalls c @ [machine]\<rparr>" i] assms(2,4)
  by (simp add: Fake_Create_def createBegin_room)

lemma offeringPrice_least:
  assumes "selected reqs t \<noteq> []"
  shows "\<exists>o' \<in> set (selected reqs t). offeringPrice reqs t = Price o' \<and> (\<forall>o'' \<in> set (selected reqs t). Price o' \<le> Price o'')"
  using Cheapest_least [OF assms] by (auto simp: offeringPrice_def)

lemma offeringPrice_none: "selected reqs t = [] \<Longrightarrow> offeringPrice reqs t = 0"
  by (simp add: offeringPrice_def Offerings_Cheapest_def zeroOffering_def)

subsection \<open>A concrete provider\<close>

definition fakeEnv :: FakeEnv where
  "fakeEnv = \<lparr>env_sort = insertionSort, env_ulist = sorted_list_of_set, env_wellKnown = init_fake coreWellKnownLabels,
     env_approx = decimalApprox, env_walk = someWalk\<rparr>"

definition sampleType :: "string \<Rightarrow> string \<Rightarrow> rat \<Rightarrow> InstanceType" where
  "sampleType name zone price =
     \<lparr>it_Name = name, it_Requirements = Map.empty,
      it_Offerings = [\<lparr>CapacityType = ''spot'', Zone = zone, Price = price, Available = True\<rparr>], it_Capacity = Map.empty,
      it_Overhead = \<lparr>ov_KubeReserved = Map.empty, ov_SystemReserved = Map.empty, ov_EvictionThreshold = Map.empty\<rparr>\<rparr>"

definition sampleMachine :: Machine where
  "sampleMachine = empty_Machine\<lparr>m_Name := ''m'',
     m_Requirements := [\<lparr>nsr_Key = ''topology.kubernetes.io/zone'', nsr_Operator = OpIn, nsr_Values = [''test-zone-1'']\<rparr>]\<rparr>"

definition sampleReqs :: Requirements where
  "sampleReqs = labelled [''topology.kubernetes.io/zone'' \<mapsto> {''test-zone-1''}]"

definition sampleCloud :: "InstanceType list \<Rightarrow> FakeCloud" where
  "sampleCloud ts = NewCloudProvider\<lparr>AllowedCreateCalls := 1, fc_InstanceTypes := Some ts\<rparr>"

lemma fakeEnv_ok: "slice_sort (env_sort fakeEnv)" "coreWellKnownLabels \<subseteq> env_wellKnown fakeEnv"
  using insertion.slice_sort_axioms by (auto simp: fakeEnv_def init_fake_def)

lemma sampleReqs_eq: "NewNodeSelectorRequirements (m_Requirements sampleMachine) = Ok sampleReqs"
proof -
  have "Map.empty = labelled Map.empty" by (simp add: labelled_def)
  then show ?thesis
    by (simp add: sampleMachine_def sampleReqs_def NewNodeSelectorRequirements_def NewRequirement_def NewRequirements_def
        requirement_of_inReq fake_keys_normal Add1_labelled)
qed

lemma sampleReqs_selected:
  "selected sampleReqs (sampleType name zone price) = (if zone = ''test-zone-1'' then it_Offerings (sampleType name zone price) else [])"
  by (simp add: sampleReqs_def labelled_def sampleType_def Offerings_Requirements_def Offerings_Available_def Requirements_Has_def
      Requirements_Get_def Has_def inReq_def withinIntPtrs_def)

lemma sampleReqs_candidates: "candidates sampleReqs ts = ts"
  by (simp add: candidates_def sampleReqs_def labelled_def Requirements_Get_def Has_requirement_of)

lemma sampleCloud_facts:
  "int (length (CreateCalls (sampleCloud ts))) < AllowedCreateCalls (sampleCloud ts)" "Fake_GetInstanceTypes env (sampleCloud ts) = Ok ts"
  by (simp_all add: sampleCloud_def NewCloudProvider_def Fake_GetInstanceTypes_def)

text \<open>C38.
  When every candidate type has an available offering that the machine's requirements admit,
  \<open>Create\<close> chooses a candidate whose cheapest admitted offering costs no more than any admitted
  offering of any candidate, labels the machine with the zone and the capacity type of the
  chosen type's first admitted offering, and stores it: \<open>Get\<close> returns that machine, \<open>Delete\<close>
  succeeds on it once, and afterwards neither \<open>Get\<close> nor \<open>Delete\<close> finds it.
\<close>

theorem fake_create_cheapest_then_delete:
  assumes "slice_sort (env_sort env)" "coreWellKnownLabels \<subseteq> env_wellKnown env"
    and room: "int (length (CreateCalls c)) < AllowedCreateCalls c"
    and reqs: "NewNodeSelectorRequirements (m_Requirements machine) = Ok reqs" and types: "Fake_GetInstanceTypes env c = Ok ts"
    and some: "candidates reqs ts \<noteq> []" and offered: "\<forall>t \<in> set (candidates reqs ts). selected reqs t \<noteq> []"
    and unlabelled: "m_Labels machine ''topology.kubernetes.io/zone'' = None" "m_Labels machine ''karpenter.sh/capacity-type'' = None"
  shows "\<exists>m t c'. Fake_Create env i machine c = (Ok m, c') \<and> t \<in> set (candidates reqs ts) \<and>
    (\<exists>o' \<in> set (selected reqs t). \<forall>u \<in> set (candidates reqs ts). \<forall>o'' \<in> set (selected reqs u). Price o' \<le> Price o'') \<and>
    m_Name m = m_Name machine \<and> m_Capacity m = nonzero (it_Capacity t) \<and>
    m_Labels m ''topology.kubernetes.io/zone'' = Some (Zone (hd (selected reqs t))) \<and>
    m_Labels m ''karpenter.sh/capacity-type'' = Some (CapacityType (hd (selected reqs t))) \<and>
    CreateCalls c' = CreateCalls c @ [machine] \<and> Fake_Get c' i = Ok m \<and>
    (case Fake_Delete (Machine.truncate m) c' of (r, c'') \<Rightarrow>
       r = Ok () \<and> CreatedMachines c'' = (CreatedMachines c)(i := None) \<and>
       (\<exists>e. Fake_Get c'' i = Err e \<and> IsMachineNotFoundError e) \<and>
       (\<exists>e. fst (Fake_Delete (Machine.truncate m) c'') = Err e \<and> IsMachineNotFoundError e))"
proof -
  obtain t where t: "t \<in> set (candidates reqs ts)"
    "\<forall>u \<in> set (candidates reqs ts). offeringPrice reqs t \<le> offeringPrice reqs u"
    "Fake_Create env i machine c = (Ok (fakeMachine env i reqs machine t), c\<lparr>CreateCalls := CreateCalls c @ [machine],
       CreatedMachines := (CreatedMachines c)(i \<mapsto> fakeMachine env i reqs machine t)\<rparr>)"
    using Fake_Create_least [OF assms(1) room reqs types some] by blast
  have sel: "selected reqs t \<noteq> []" using offered t(1) by blast
  then obtain o' where o': "o' \<in> set (selected reqs t)" "offeringPrice reqs t = Price o'" using offeringPrice_least by blast
  have "Price o' \<le> Price o''" if "u \<in> set (candidates reqs ts)" "o'' \<in> set (selected reqs u)" for u o''
  proof -
    have "selected reqs u \<noteq> []" using that(2) by auto
    then have "offeringPrice reqs u \<le> Price o''" using offeringPrice_least [of reqs u] that(2) by fastforce
    then show ?thesis using t(2) that(1) o'(2) by fastforce
  qed
  then have "\<exists>o' \<in> set (selected reqs t). \<forall>u \<in> set (candidates reqs ts). \<forall>o'' \<in> set (selected reqs u). Price o' \<le> Price o''"
    using o'(1) by blast
  moreover have "m_ProviderID (Machine.truncate (fakeMachine env i reqs machine t)) = i"
    by (simp add: Machine.truncate_def)
  moreover obtain o1 os where "selected reqs t = o1 # os" using sel by (cases "selected reqs t") auto
  ultimately show ?thesis
    using t(1,3) fakeMachine_zone [OF assms(2) _ unlabelled, of reqs t o1 os i]
    by (intro exI [of _ "fakeMachine env i reqs machine t"] exI [of _ t]
        exI [of _ "c\<lparr>CreateCalls := CreateCalls c @ [machine], CreatedMachines := (CreatedMachines c)(i \<mapsto> fakeMachine env i reqs machine t)\<rparr>"] conjI)
      (simp_all add: Fake_Get_def Fake_Delete_def Let_def)
qed

theorem fake_create_cheapest_then_delete_witness:
  "\<exists>m c'. Fake_Create fakeEnv ''fake:///1'' sampleMachine (sampleCloud [sampleType ''a'' ''test-zone-1'' 2, sampleType ''b'' ''test-zone-1'' 1]) = (Ok m, c') \<and>
     m_Labels m ''topology.kubernetes.io/zone'' = Some ''test-zone-1'' \<and> Fake_Get c' ''fake:///1'' = Ok m"
proof -
  let ?ts = "[sampleType ''a'' ''test-zone-1'' 2, sampleType ''b'' ''test-zone-1'' 1]"
  have ne: "candidates sampleReqs ?ts \<noteq> []" by (simp add: sampleReqs_candidates)
  have off: "\<forall>t \<in> set (candidates sampleReqs ?ts). selected sampleReqs t \<noteq> []"
    by (simp add: sampleReqs_candidates sampleReqs_selected) (simp add: sampleType_def)
  have lab: "m_Labels sampleMachine k = None" for k by (simp add: sampleMachine_def empty_Machine_def)
  have zone: "Zone (hd (selected sampleReqs t)) = ''test-zone-1''" if "t \<in> set (candidates sampleReqs ?ts)" for t
    using that by (auto simp: sampleReqs_candidates sampleReqs_selected) (simp_all add: sampleType_def)
  from fake_create_cheapest_then_delete
    [OF fakeEnv_ok sampleCloud_facts(1) sampleReqs_eq sampleCloud_facts(2) ne off lab lab, of "''fake:///1''"]
  obtain m t c' where "Fake_Create fakeEnv ''fake:///1'' sampleMachine (sampleCloud ?ts) = (Ok m, c')" "t \<in> set (candidates sampleReqs ?ts)"
    "m_Labels m ''topology.kubernetes.io/zone'' = Some (Zone (hd (selected sampleReqs t)))" "Fake_Get c' ''fake:///1'' = Ok m"
    by blast
  then show ?thesis using zone [of t] by (intro exI [of _ m] exI [of _ c']) (simp only: simp_thms)
qed

text \<open>A candidate type without an admitted offering wins over every type that can be had: \<open>Cheapest\<close>
  of no offering is the zero offering, with price zero. If some candidate has no admitted
  offering and the offered ones cost something, the machine is created from a type that has none.
\<close>

theorem fake_create_prefers_unoffered_type:
  assumes "slice_sort (env_sort env)" "int (length (CreateCalls c)) < AllowedCreateCalls c"
    and "NewNodeSelectorRequirements (m_Requirements machine) = Ok reqs" "Fake_GetInstanceTypes env c = Ok ts"
    and missing: "u \<in> set (candidates reqs ts)" "selected reqs u = []"
    and positive: "\<forall>t \<in> set (candidates reqs ts). \<forall>o' \<in> set (selected reqs t). 0 < Price o'"
  shows "\<exists>t c'. t \<in> set (candidates reqs ts) \<and> selected reqs t = [] \<and>
    Fake_Create env i machine c = (Ok (fakeMachine env i reqs machine t), c')"
proof -
  have "candidates reqs ts \<noteq> []" using missing(1) by auto
  then obtain t c' where t: "t \<in> set (candidates reqs ts)" "offeringPrice reqs t \<le> offeringPrice reqs u"
    "Fake_Create env i machine c = (Ok (fakeMachine env i reqs machine t), c')"
    using Fake_Create_least [OF assms(1-4), of i] missing(1) by blast
  have "selected reqs t = []"
  proof (rule ccontr)
    assume "selected reqs t \<noteq> []"
    then have "0 < offeringPrice reqs t" using offeringPrice_least [of reqs t] positive t(1) by fastforce
    then show False using t(2) offeringPrice_none [OF missing(2)] by simp
  qed
  then show ?thesis using t by blast
qed

theorem fake_create_prefers_unoffered_type_witness:
  "\<exists>c'. Fake_Create fakeEnv ''fake:///1'' sampleMachine (sampleCloud [sampleType ''a'' ''test-zone-1'' 1, sampleType ''b'' ''test-zone-2'' 9]) =
     (Ok (fakeMachine fakeEnv ''fake:///1'' sampleReqs sampleMachine (sampleType ''b'' ''test-zone-2'' 9)), c')"
proof -
  let ?a = "sampleType ''a'' ''test-zone-1'' 1" and ?b = "sampleType ''b'' ''test-zone-2'' 9"
  have sel: "selected sampleReqs ?b = []" "selected sampleReqs ?a = it_Offerings ?a" by (simp_all add: sampleReqs_selected)
  have b: "?b \<in> set (candidates sampleReqs [?a, ?b])" by (simp add: sampleReqs_candidates)
  have "\<forall>t \<in> set (candidates sampleReqs [?a, ?b]). \<forall>o' \<in> set (selected sampleReqs t). 0 < Price o'"
    by (simp add: sampleReqs_candidates sel) (simp add: sampleType_def)
  from fake_create_prefers_unoffered_type
    [OF fakeEnv_ok(1) sampleCloud_facts(1) sampleReqs_eq sampleCloud_facts(2) b sel(1) this, of "''fake:///1''"]
  obtain t c' where t: "t \<in> {?a, ?b}" "selected sampleReqs t = []"
    "Fake_Create fakeEnv ''fake:///1'' sampleMachine (sampleCloud [?a, ?b]) = (Ok (fakeMachine fakeEnv ''fake:///1'' sampleReqs sampleMachine t), c')"
    by (auto simp: sampleReqs_candidates)
  have "t \<noteq> ?a" using t(2) sel(2) by (auto simp: sampleType_def)
  then show ?thesis using t by auto
qed

subsection \<open>Interleaved calls\<close>

definition fake_inv :: "fakeState \<Rightarrow> bool" where
  "fake_inv s = (case s of (c, pending, k) \<Rightarrow>
     finite (dom (CreatedMachines c)) \<and>
     (\<forall>i m. CreatedMachines c i = Some m \<longrightarrow> m_ProviderID m = i) \<and>
     card (dom (CreatedMachines c)) + length pending \<le> length (CreateCalls c) + k \<and>
     int (card (dom (CreatedMachines c)) + length pending) \<le> max 0 (AllowedCreateCalls c) + int k)"

lemma createEnd_Ok_cases:
  assumes "createEnd env i machine c = (Ok m, c')"
  shows "m_ProviderID m = i \<and> c' = c\<lparr>CreatedMachines := (CreatedMachines c)(i \<mapsto> m)\<rparr>"
  using assms
  by (auto simp: createEnd_def Let_def res_bind_eq_Ok_iff split: res.splits if_splits)

lemma createBegin_cases:
  "createBegin machine c = (r, c') \<Longrightarrow>
     c' = c\<lparr>CreateCalls := CreateCalls c @ [machine]\<rparr> \<and> (r = Ok () \<longrightarrow> int (length (CreateCalls c) + 1) \<le> AllowedCreateCalls c)"
  by (auto simp: createBegin_def Let_def split: if_splits)

lemma card_dom_upd: "finite (dom m) \<Longrightarrow> finite (dom (m(i \<mapsto> x))) \<and> card (dom (m(i \<mapsto> x))) \<le> Suc (card (dom m))"
  by (simp add: card_insert_if)

lemma card_dom_delete: "finite (dom m) \<Longrightarrow> finite (dom (m(i := None))) \<and> card (dom (m(i := None))) \<le> card (dom m)"
  by (simp add: card_Diff1_le)

lemma fake_step_inv: "fake_step env s s' \<Longrightarrow> fake_inv s \<Longrightarrow> fake_inv s'"
proof (induction rule: fake_step.induct)
  case (started machine c c' pending k)
  then show ?case using createBegin_cases [OF started(1)] by (auto simp: fake_inv_def)
next
  case (refused machine c e c' pending k)
  then show ?case using createBegin_cases [OF refused(1)] by (auto simp: fake_inv_def)
next
  case (finished machine pending i c created c' k)
  have c': "c' = c\<lparr>CreatedMachines := (CreatedMachines c)(i \<mapsto> created)\<rparr>" "m_ProviderID created = i"
    using createEnd_Ok_cases [OF finished(2)] by simp_all
  have "length (remove1 machine pending) + 1 = length pending"
    using finished(1) length_pos_if_in_set [OF finished(1)] by (simp add: length_remove1)
  then show ?case
    using finished(3) c' card_dom_upd [of "CreatedMachines c" i created]
    by (auto simp: fake_inv_def simp del: dom_fun_upd)
next
  case (deleted m c r c' pending k)
  have "c' = c\<lparr>DeleteCalls := DeleteCalls c @ [m]\<rparr> \<or>
    c' = c\<lparr>DeleteCalls := DeleteCalls c @ [m], CreatedMachines := (CreatedMachines c)(m_ProviderID m := None)\<rparr>"
    using deleted(1) by (auto simp: Fake_Delete_def Let_def split: option.splits)
  then show ?case
    using deleted(2) card_dom_delete [of "CreatedMachines c" "m_ProviderID m"]
    by (auto simp: fake_inv_def simp del: dom_fun_upd split: if_splits)
next
  case (wasReset c pending k)
  then show ?case by (simp add: fake_inv_def FakeCloud_Reset_def)
qed

text \<open>
  One creation under way at a \<open>Reset\<close> stores its machine in the provider that was reset: the
  provider then holds a machine although no call is counted.
\<close>

lemma reset_keeps_late_machine:
  "\<exists>c. fake_reachable fakeEnv (sampleCloud [sampleType ''a'' ''test-zone-1'' 1]) (c, [], 1) \<and>
     CreateCalls c = [] \<and> (\<exists>m. Fake_Get c ''fake:///1'' = Ok m)"
proof -
  let ?c0 = "sampleCloud [sampleType ''a'' ''test-zone-1'' 1]"
  let ?c1 = "?c0\<lparr>CreateCalls := [sampleMachine]\<rparr>" and ?r = "FakeCloud_Reset (?c0\<lparr>CreateCalls := [sampleMachine]\<rparr>)"
  have b: "createBegin sampleMachine ?c0 = (Ok (), ?c1)"
    using createBegin_room [OF sampleCloud_facts(1)] by (simp add: sampleCloud_def NewCloudProvider_def)
  have g: "Fake_GetInstanceTypes fakeEnv ?r = Ok [sampleType ''a'' ''test-zone-1'' 1]"
    by (simp add: FakeCloud_Reset_def sampleCloud_def Fake_GetInstanceTypes_def)
  obtain m where e: "createEnd fakeEnv ''fake:///1'' sampleMachine ?r = (Ok m, ?r\<lparr>CreatedMachines := (CreatedMachines ?r)(''fake:///1'' \<mapsto> m)\<rparr>)"
    using createEnd_least [OF fakeEnv_ok(1) sampleReqs_eq g] by (auto simp: sampleReqs_candidates)
  let ?c2 = "?r\<lparr>CreatedMachines := (CreatedMachines ?r)(''fake:///1'' \<mapsto> m)\<rparr>"
  have "fake_reachable fakeEnv ?c0 (?r, [sampleMachine], length [sampleMachine])"
    by (blast intro: fake_reachable.intros fake_step.started [OF b] fake_step.wasReset)
  moreover have "fake_step fakeEnv (?r, [sampleMachine], 1) (?c2, remove1 sampleMachine [sampleMachine], 1)"
    by (rule fake_step.finished [OF _ e]) simp
  ultimately have "fake_reachable fakeEnv ?c0 (?c2, [], 1)" by (auto intro: fake_reachable.step)
  then show ?thesis by (intro exI [of _ ?c2]) (simp add: Fake_Get_def FakeCloud_Reset_def)
qed

text \<open>C39.
  However calls of \<open>Create\<close>, \<open>Delete\<close> and \<open>Reset\<close> interleave from a fresh provider with any
  number of allowed calls, every stored machine is stored under its provider ID, and the machines
  stored and under way are never more than the calls of \<open>Create\<close> counted, nor than those allowed, plus the \<open>k\<close> creations
  that were under way at the last \<open>Reset\<close> (none, when resets come between creations).
\<close>

theorem fake_machines_within_allowance:
  assumes "fake_reachable env (NewCloudProvider\<lparr>AllowedCreateCalls := n, fc_InstanceTypes := ts\<rparr>) (c, pending, k)"
  shows "finite (dom (CreatedMachines c)) \<and> (\<forall>i m. Fake_Get c i = Ok m \<longrightarrow> m_ProviderID m = i) \<and>
    card (dom (CreatedMachines c)) + length pending \<le> length (CreateCalls c) + k \<and>
    int (card (dom (CreatedMachines c)) + length pending) \<le> max 0 (AllowedCreateCalls c) + int k"
proof -
  have "fake_inv s" if "fake_reachable env (NewCloudProvider\<lparr>AllowedCreateCalls := n, fc_InstanceTypes := ts\<rparr>) s" for s
    using that
  proof (induction rule: fake_reachable.induct)
    case start
    show ?case by (simp add: fake_inv_def NewCloudProvider_def)
  next
    case (step s s')
    then show ?case using fake_step_inv by blast
  qed
  from this [OF assms] show ?thesis by (auto simp: fake_inv_def Fake_Get_def split: option.splits)
qed

theorem fake_machines_within_allowance_witness:
  "\<exists>c. fake_reachable fakeEnv (sampleCloud [sampleType ''a'' ''test-zone-1'' 1]) (c, [], 0) \<and> CreateCalls c = [sampleMachine] \<and>
     card (dom (CreatedMachines c)) \<le> 1 \<and> (\<exists>m. Fake_Get c ''fake:///1'' = Ok m \<and> m_ProviderID m = ''fake:///1'')"
proof -
  let ?c0 = "sampleCloud [sampleType ''a'' ''test-zone-1'' 1]" and ?c1 = "sampleCloud [sampleType ''a'' ''test-zone-1'' 1]\<lparr>CreateCalls := [sampleMachine]\<rparr>"
  have b: "createBegin sampleMachine ?c0 = (Ok (), ?c1)"
    using createBegin_room [OF sampleCloud_facts(1)] by (simp add: sampleCloud_def NewCloudProvider_def)
  have g: "Fake_GetInstanceTypes fakeEnv ?c1 = Ok [sampleType ''a'' ''test-zone-1'' 1]" by (simp add: sampleCloud_facts)
  obtain m where e: "createEnd fakeEnv ''fake:///1'' sampleMachine ?c1 = (Ok m, ?c1\<lparr>CreatedMachines := (CreatedMachines ?c1)(''fake:///1'' \<mapsto> m)\<rparr>)"
    using createEnd_least [OF fakeEnv_ok(1) sampleReqs_eq g] by (auto simp: sampleReqs_candidates)
  let ?c2 = "?c1\<lparr>CreatedMachines := (CreatedMachines ?c1)(''fake:///1'' \<mapsto> m)\<rparr>"
  have "fake_reachable fakeEnv ?c0 (?c1, [sampleMachine], 0)" by (blast intro: fake_reachable.intros fake_step.started [OF b])
  moreover have "fake_step fakeEnv (?c1, [sampleMachine], 0) (?c2, remove1 sampleMachine [sampleMachine], 0)"
    by (rule fake_step.finished [OF _ e]) simp
  ultimately have r: "fake_reachable fakeEnv ?c0 (?c2, [], 0)" by (auto intro: fake_reachable.step)
  from fake_machines_within_allowance [OF r [unfolded sampleCloud_def]] have
    "card (dom (CreatedMachines ?c2)) \<le> length (CreateCalls ?c2)" "\<forall>i m. Fake_Get ?c2 i = Ok m \<longrightarrow> m_ProviderID m = i"
    by (simp_all add: sampleCloud_def)
  with r show ?thesis by (intro exI [of _ ?c2]) (simp add: Fake_Get_def)
qed

end
