(* ===== verification/Controllers.thy ===== *)
theory Controllers
  imports Cluster FakeCloud Cache
begin

text \<open>
  The calls karpenter's controllers make to the cloud provider (vendored
  \<open>karpenter-core/pkg/controllers\<close>, as \<open>cmd/controller\<close> registers them): the launch of a machine, its
  termination, and the termination of a node. The provider and the Kubernetes client are interfaces,
  so that the same controllers run over the Azure provider and over the fake one.
\<close>

subsection \<open>Objects and interfaces\<close>

record Condition =
  c_Status :: string
  c_Reason :: string
  c_Message :: string

text \<open>The machine and the node as stored in Kubernetes, with the fields the controllers use.\<close>

record MachineCR = FakeMachine +
  m_UID :: string
  m_Finalizers :: "string list"
  m_Launched :: "Condition option"

record NodeCR = Node +
  n_Annotations :: "string \<rightharpoonup> string"
  n_Finalizers :: "string list"
  n_Taints :: "Taint list"
  n_ProviderID :: string
  n_Unschedulable :: bool
  n_Capacity :: ResourceList
  n_Allocatable :: ResourceList

text \<open>
  The Kubernetes client: lists by the indexed provider identifier, deletions, and merge patches from
  a stored object, which return the object as the server has it.
\<close>

record 'w KubeAPI =
  MachinesOf :: "string \<Rightarrow> ('w, MachineCR list) act"
  NodesOf :: "string \<Rightarrow> ('w, NodeCR list) act"
  DeleteMachine :: "MachineCR \<Rightarrow> ('w, unit) act"
  DeleteNode :: "NodeCR \<Rightarrow> ('w, unit) act"
  PatchMachine :: "MachineCR \<Rightarrow> MachineCR \<Rightarrow> ('w, MachineCR) act"
  PatchNode :: "NodeCR \<Rightarrow> NodeCR \<Rightarrow> ('w, NodeCR) act"

record 'w CloudAPI =
  cp_Create :: "Machine \<Rightarrow> ('w, FakeMachine) act"
  cp_Delete :: "Machine \<Rightarrow> ('w, unit) act"
  cp_Get :: "string \<Rightarrow> ('w, FakeMachine) act"

text \<open>
  What the controllers hold. \<open>Drain\<close> is the terminator's eviction of pods; \<open>labelReqs\<close> and \<open>reqLabels\<close> are
  \<open>NewLabelRequirements(labels).NodeSelectorRequirements()\<close> and
  \<open>NewNodeSelectorRequirements(requirements).Labels()\<close>, whose results depend on map order and a
  random choice; \<open>leafText\<close> is the text of an error of the Azure or Kubernetes client, and \<open>verbs\<close> is
  \<open>fmt.Sprintf\<close> of a text with \<open>%\<close> and no arguments.
\<close>

record 'w KarpenterController =
  kube :: "'w KubeAPI"
  cloud :: "'w CloudAPI"
  Drain :: "NodeCR \<Rightarrow> ('w, unit) act"
  labelReqs :: "(string \<rightharpoonup> string) \<Rightarrow> NodeSelectorRequirement list"
  reqLabels :: "NodeSelectorRequirement list \<Rightarrow> string \<rightharpoonup> string"
  leafText :: "goerr \<Rightarrow> string"
  verbs :: "string \<Rightarrow> string"

definition TerminationFinalizer :: string where
  "TerminationFinalizer = ''karpenter.sh/termination''"

definition LabelNodeExcludeBalancers :: string where
  "LabelNodeExcludeBalancers = ''node.kubernetes.io/exclude-from-external-load-balancers''"

subsection \<open>Errors\<close>

fun IsInsufficientCapacityError :: "goerr \<Rightarrow> bool" where
  "IsInsufficientCapacityError (InsufficientCapacity e) \<longleftrightarrow> True"
| "IsInsufficientCapacityError (Wrapped m e) \<longleftrightarrow> IsInsufficientCapacityError e"
| "IsInsufficientCapacityError _ \<longleftrightarrow> False"

fun IsNodeDrainError :: "goerr \<Rightarrow> bool" where
  "IsNodeDrainError (NodeDrain e) \<longleftrightarrow> True"
| "IsNodeDrainError (Wrapped m e) \<longleftrightarrow> IsNodeDrainError e"
| "IsNodeDrainError _ \<longleftrightarrow> False"

fun IsNotFound :: "goerr \<Rightarrow> bool" where
  "IsNotFound (StatusError r) \<longleftrightarrow> r = ''NotFound''"
| "IsNotFound (Wrapped m e) \<longleftrightarrow> IsNotFound e"
| "IsNotFound _ \<longleftrightarrow> False"

text \<open>\<open>client.IgnoreNotFound\<close> and \<open>cloudprovider.IgnoreMachineNotFoundError\<close> on the result of a call.\<close>

definition ignoring :: "(goerr \<Rightarrow> bool) \<Rightarrow> 'a \<Rightarrow> 'a res \<Rightarrow> 'a res" where
  "ignoring P x r = (case r of Err e \<Rightarrow> if P e then Ok x else Err e | _ \<Rightarrow> r)"

text \<open>\<open>err.Error()\<close>.\<close>

fun Error :: "(goerr \<Rightarrow> string) \<Rightarrow> goerr \<Rightarrow> string" where
  "Error leaf (ErrorString m) = m"
| "Error leaf (Sentinel n) = n"
| "Error leaf (MachineNotFound e) = ''machine not found, '' @ Error leaf e"
| "Error leaf (InsufficientCapacity e) = ''insufficient capacity, '' @ Error leaf e"
| "Error leaf (NodeDrain e) = Error leaf e"
| "Error leaf (Wrapped m e) = m @ Error leaf e"
| "Error leaf (ResponseError c) = leaf (ResponseError c)"
| "Error leaf (StatusError r) = leaf (StatusError r)"

subsection \<open>Finalizers and conditions\<close>

definition RemoveFinalizer :: "string list \<Rightarrow> string \<Rightarrow> string list" where
  "RemoveFinalizer f finalizer = filter (\<lambda>x. x \<noteq> finalizer) f"

definition truncateMessage :: "string \<Rightarrow> string" where
  "truncateMessage msg = (if length msg < 800 then msg else take 800 msg @ ''...'')"

text \<open>\<open>MarkFalse\<close> takes its message as a format.\<close>

definition MarkFalse :: "'w KarpenterController \<Rightarrow> MachineCR \<Rightarrow> string \<Rightarrow> string \<Rightarrow> MachineCR" where
  "MarkFalse ctl machine reason format =
     machine\<lparr>m_Launched := Some \<lparr>c_Status = ''False'', c_Reason = reason,
       c_Message = (if CHR ''%'' \<in> set format then verbs ctl format else format)\<rparr>\<rparr>"

definition MarkTrue :: "MachineCR \<Rightarrow> MachineCR" where
  "MarkTrue machine = machine\<lparr>m_Launched := Some \<lparr>c_Status = ''True'', c_Reason = '''', c_Message = ''''\<rparr>\<rparr>"

definition IsTrue :: "Condition option \<Rightarrow> bool" where
  "IsTrue c = (case c of None \<Rightarrow> False | Some c \<Rightarrow> c_Status c = ''True'')"

definition IsFalse :: "Condition option \<Rightarrow> bool" where
  "IsFalse c = (case c of None \<Rightarrow> False | Some c \<Rightarrow> c_Status c = ''False'')"

definition GetMessage :: "Condition option \<Rightarrow> string" where
  "GetMessage c = (case c of None \<Rightarrow> '''' | Some c \<Rightarrow> c_Message c)"

subsection \<open>Launching a machine\<close>

text \<open>
  The machine comes back with its condition; \<open>Ok (machine, None)\<close> is \<open>nil, nil\<close>, the machine having been
  deleted, and \<open>Inl\<close> an error after which the machine is still patched.
\<close>

definition linkMachine ::
  "'w KarpenterController \<Rightarrow> MachineCR \<Rightarrow> 'w \<Rightarrow> (FakeMachine option res \<times> MachineCR) \<times> 'w" where
  "linkMachine ctl machine w =
     (case cp_Get (cloud ctl) (FromPtr '''' (m_Annotations machine MachineLinkedAnnotationKey)) w of
        (Err e, w') \<Rightarrow>
          if \<not> IsMachineNotFoundError e
          then ((Err (Wrapped ''linking machine, '' e), MarkFalse ctl machine ''LinkFailed'' (truncateMessage (Error (leafText ctl) e))), w')
          else (case DeleteMachine (kube ctl) machine w' of
                  (r, w'') \<Rightarrow> ((ignoring IsNotFound None (map_res (\<lambda>_. None) r), machine), w''))
      | (Ok created, w') \<Rightarrow> ((Ok (Some created), machine), w')
      | (Panic m, w') \<Rightarrow> ((Panic m, machine), w'))"

definition launchMachine ::
  "'w KarpenterController \<Rightarrow> MachineCR \<Rightarrow> 'w \<Rightarrow> (FakeMachine option res \<times> MachineCR) \<times> 'w" where
  "launchMachine ctl machine w =
     (case cp_Create (cloud ctl) (Machine.truncate machine) w of
        (Err e, w') \<Rightarrow>
          if IsInsufficientCapacityError e
          then (case DeleteMachine (kube ctl) machine w' of
                  (r, w'') \<Rightarrow> ((ignoring IsNotFound None (map_res (\<lambda>_. None) r), machine), w''))
          else ((Err (Wrapped ''creating machine, '' e), MarkFalse ctl machine ''LaunchFailed'' (truncateMessage (Error (leafText ctl) e))), w')
      | (Ok created, w') \<Rightarrow> ((Ok (Some created), machine), w')
      | (Panic m, w') \<Rightarrow> ((Panic m, machine), w'))"

definition PopulateMachineDetails :: "'w KarpenterController \<Rightarrow> MachineCR \<Rightarrow> FakeMachine \<Rightarrow> MachineCR" where
  "PopulateMachineDetails ctl machine retrieved =
     machine\<lparr>m_Labels := Assign2 (Assign2 (m_Labels retrieved) (reqLabels ctl (m_Requirements machine))) (m_Labels machine),
       m_Annotations := Assign2 (m_Annotations machine) (m_Annotations retrieved),
       m_ProviderID := m_ProviderID retrieved,
       m_Allocatable := m_Allocatable retrieved,
       m_Capacity := m_Capacity retrieved\<rparr>"

text \<open>\<open>Launch.Reconcile\<close> at time \<open>now\<close>, with the cache of machines just created.\<close>

definition Launch_Reconcile ::
  "'w KarpenterController \<Rightarrow> int \<Rightarrow> FakeMachine cache \<Rightarrow> MachineCR \<Rightarrow> 'w \<Rightarrow> (unit res \<times> MachineCR \<times> FakeMachine cache) \<times> 'w" where
  "Launch_Reconcile ctl now cache machine w =
     (if IsTrue (m_Launched machine) then ((Ok (), machine, cache), w)
      else
        let ((r, machine'), w') =
              (case cache_Get now cache (m_UID machine) of
                 Some ret \<Rightarrow> ((Ok (Some ret), machine), w)
               | None \<Rightarrow> if m_Annotations machine MachineLinkedAnnotationKey \<noteq> None then linkMachine ctl machine w
                         else launchMachine ctl machine w)
        in case r of
             Ok (Some created) \<Rightarrow>
               ((Ok (), MarkTrue (PopulateMachineDetails ctl machine' created), SetDefault now cache (m_UID machine) created), w')
           | Ok None \<Rightarrow> ((Ok (), machine', cache), w')
           | Err e \<Rightarrow> ((Err e, machine', cache), w')
           | Panic m \<Rightarrow> ((Panic m, machine', cache), w'))"

subsection \<open>Terminating a machine\<close>

definition AllNodesForMachine :: "'w KarpenterController \<Rightarrow> MachineCR \<Rightarrow> ('w, NodeCR list) act" where
  "AllNodesForMachine ctl machine w =
     (let linked = FromPtr '''' (m_Annotations machine MachineLinkedAnnotationKey);
          providerID = (if m_ProviderID machine \<noteq> '''' then m_ProviderID machine else linked);
          msg = GetMessage (m_Launched machine)
      in if providerID = ''''
         then if IsFalse (m_Launched machine) \<and>
                (msg = ''all requested instance types were unavailable during launch'' \<or>
                 Contains msg ''is not allowed in your subscription in location'')
              then (Ok [], w)
              else (Err (ErrorString ''The machine has not been associated with any node yet''), w)
         else (case NodesOf (kube ctl) providerID w of (r, w') \<Rightarrow> (wrap_err ''listing nodes, '' r, w')))"

fun deleteNodes :: "'w KarpenterController \<Rightarrow> NodeCR list \<Rightarrow> ('w, unit) act" where
  "deleteNodes ctl [] w = (Ok (), w)"
| "deleteNodes ctl (node # nodes) w =
     (case DeleteNode (kube ctl) node w of
        (r, w') \<Rightarrow> (case ignoring IsNotFound () r of Ok _ \<Rightarrow> deleteNodes ctl nodes w' | r' \<Rightarrow> (r', w')))"

text \<open>
  \<open>Finalize\<close> of the machine controller, with its last two parts on their own: the deletion of the instance
  and the patch. It returns the machine as it leaves it.
\<close>

definition terminateInstance :: "'w KarpenterController \<Rightarrow> MachineCR \<Rightarrow> ('w, unit) act" where
  "terminateInstance ctl machine w =
     (if m_ProviderID machine \<noteq> '''' \<or> FromPtr '''' (m_Annotations machine MachineLinkedAnnotationKey) \<noteq> ''''
      then (case cp_Delete (cloud ctl) (Machine.truncate machine) w of
              (r, w') \<Rightarrow> (wrap_err ''terminating cloudprovider instance, '' (ignoring IsMachineNotFoundError () r), w'))
      else (Ok (), w))"

definition releaseMachine :: "'w KarpenterController \<Rightarrow> MachineCR \<Rightarrow> ('w, MachineCR) act" where
  "releaseMachine ctl stored w =
     (let machine = stored\<lparr>m_Finalizers := RemoveFinalizer (m_Finalizers stored) TerminationFinalizer\<rparr>
      in if stored \<noteq> machine
         then (case PatchMachine (kube ctl) machine stored w of
                 (r, w') \<Rightarrow> (ignoring IsNotFound machine (wrap_err ''removing machine termination finalizer, '' r), w'))
         else (Ok machine, w))"

definition Machine_Finalize :: "'w KarpenterController \<Rightarrow> MachineCR \<Rightarrow> ('w, MachineCR) act" where
  "Machine_Finalize ctl machine =
     (if TerminationFinalizer \<notin> set (m_Finalizers machine) then act_return (Ok machine)
      else act_bind (AllNodesForMachine ctl machine) (\<lambda>nodes. act_bind (deleteNodes ctl nodes) (\<lambda>_.
        if 0 < length nodes then act_return (Ok machine)
        else act_bind (terminateInstance ctl machine) (\<lambda>_. releaseMachine ctl machine))))"

subsection \<open>Terminating a node\<close>

fun deleteMachines :: "'w KarpenterController \<Rightarrow> MachineCR list \<Rightarrow> ('w, unit) act" where
  "deleteMachines ctl [] w = (Ok (), w)"
| "deleteMachines ctl (m # ms) w =
     (case DeleteMachine (kube ctl) m w of
        (Ok _, w') \<Rightarrow> deleteMachines ctl ms w'
      | (r, w') \<Rightarrow> (ignoring IsNotFound () r, w'))"

definition deleteAllMachines :: "'w KarpenterController \<Rightarrow> NodeCR \<Rightarrow> ('w, unit) act" where
  "deleteAllMachines ctl node = act_bind (MachinesOf (kube ctl) (n_ProviderID node)) (deleteMachines ctl)"

definition Cordon :: "'w KarpenterController \<Rightarrow> NodeCR \<Rightarrow> ('w, NodeCR) act" where
  "Cordon ctl stored =
     (let node = stored\<lparr>n_Unschedulable := True, n_Labels := Assign2 (n_Labels stored) [LabelNodeExcludeBalancers \<mapsto> ''karpenter'']\<rparr>
      in if node \<noteq> stored then PatchNode (kube ctl) node stored else act_return (Ok node))"

definition removeFinalizer :: "'w KarpenterController \<Rightarrow> NodeCR \<Rightarrow> ('w, NodeCR) act" where
  "removeFinalizer ctl stored =
     (let n = stored\<lparr>n_Finalizers := RemoveFinalizer (n_Finalizers stored) TerminationFinalizer\<rparr>
      in if stored \<noteq> n
         then (\<lambda>w. case PatchNode (kube ctl) n stored w of (r, w') \<Rightarrow> (ignoring IsNotFound n (wrap_err ''patching node, '' r), w'))
         else act_return (Ok n))"

definition NewFromNode :: "'w KarpenterController \<Rightarrow> NodeCR \<Rightarrow> Machine" where
  "NewFromNode ctl node =
     \<lparr>m_Name = n_Name node, m_Labels = n_Labels node, m_Annotations = n_Annotations node,
      m_Requirements = labelReqs ctl (n_Labels node), m_Taints = n_Taints node,
      m_Requests = Some (n_Allocatable node), m_ProviderID = n_ProviderID node\<rparr>"

text \<open>
  \<open>Finalize\<close> of the node controller: the node as it leaves it, and after how many nanoseconds it
  asks to be called again.
\<close>

definition Finalize :: "'w KarpenterController \<Rightarrow> NodeCR \<Rightarrow> ('w, NodeCR \<times> int option) act" where
  "Finalize ctl node =
     (if TerminationFinalizer \<notin> set (n_Finalizers node) then act_return (Ok (node, None))
      else act_bind (\<lambda>w. case deleteAllMachines ctl node w of (r, w') \<Rightarrow> (wrap_err ''deleting machines, '' r, w')) (\<lambda>_.
        act_bind (\<lambda>w. case Cordon ctl node w of (r, w') \<Rightarrow> (wrap_err ''cordoning node, '' r, w')) (\<lambda>node. \<lambda>w.
          case Drain ctl node w of
            (Err e, w1) \<Rightarrow>
              if \<not> IsNodeDrainError e then (Err (Wrapped ''draining node, '' e), w1)
              else (case cp_Get (cloud ctl) (n_ProviderID node) w1 of
                      (Err e, w2) \<Rightarrow>
                        if IsMachineNotFoundError e
                        then map_prod (map_res (\<lambda>n. (n, None))) id (removeFinalizer ctl node w2)
                        else (Err (Wrapped ''getting machine, '' e), w2)
                    | (Ok _, w2) \<Rightarrow> (Ok (node, Some 1000000000), w2)
                    | (Panic m, w2) \<Rightarrow> (Panic m, w2))
          | (Ok _, w1) \<Rightarrow>
              (case cp_Delete (cloud ctl) (NewFromNode ctl node) w1 of
                 (r, w2) \<Rightarrow>
                   (case ignoring IsMachineNotFoundError () r of
                      Ok _ \<Rightarrow> map_prod (map_res (\<lambda>n. (n, None))) id (removeFinalizer ctl node w2)
                    | Err e \<Rightarrow> (Err (Wrapped ''terminating cloudprovider instance, '' e), w2)
                    | Panic m \<Rightarrow> (Panic m, w2)))
          | (Panic m, w1) \<Rightarrow> (Panic m, w1))))"

subsection \<open>The two providers\<close>

text \<open>The Azure provider leaves the resources of the status empty.\<close>

definition bareStatus :: "Machine \<Rightarrow> FakeMachine" where
  "bareStatus m = Machine.extend m \<lparr>m_Capacity = Map.empty, m_Allocatable = Map.empty\<rparr>"

definition azureCloud :: "'w runtime \<Rightarrow> 'w Provider \<Rightarrow> 'w CloudAPI" where
  "azureCloud rt p =
     \<lparr>cp_Create = (\<lambda>m w. map_prod (map_res bareStatus) id (CloudProvider_Create rt p m w)),
      cp_Delete = CloudProvider_Delete p,
      cp_Get = (\<lambda>pid w. map_prod (map_res bareStatus) id (CloudProvider_Get rt p pid w))\<rparr>"

definition fakeCloud :: "FakeEnv \<Rightarrow> string \<Rightarrow> FakeCloud CloudAPI" where
  "fakeCloud env providerID =
     \<lparr>cp_Create = Fake_Create env providerID, cp_Delete = Fake_Delete, cp_Get = (\<lambda>pid c. (Fake_Get c pid, c))\<rparr>"

text \<open>How the termination of a node goes on once its pods were asked to leave.\<close>

lemma Finalize_drained:
  assumes "TerminationFinalizer \<in> set (n_Finalizers node)"
    and "deleteAllMachines ctl node w = (Ok (), w1)" "Cordon ctl node w1 = (Ok node1, w2)" "Drain ctl node1 w2 = (Ok (), w3)"
  shows "Finalize ctl node w =
    (case cp_Delete (cloud ctl) (NewFromNode ctl node1) w3 of
       (r, w4) \<Rightarrow>
         (case ignoring IsMachineNotFoundError () r of
            Ok _ \<Rightarrow> map_prod (map_res (\<lambda>n. (n, None))) id (removeFinalizer ctl node1 w4)
          | Err e \<Rightarrow> (Err (Wrapped ''terminating cloudprovider instance, '' e), w4)
          | Panic m \<Rightarrow> (Panic m, w4)))"
  using assms by (simp add: Finalize_def act_bind_def split_def)

lemma Finalize_undrained:
  assumes "TerminationFinalizer \<in> set (n_Finalizers node)"
    and "deleteAllMachines ctl node w = (Ok (), w1)" "Cordon ctl node w1 = (Ok node1, w2)" "Drain ctl node1 w2 = (Err e, w3)"
  shows "Finalize ctl node w =
    (if \<not> IsNodeDrainError e then (Err (Wrapped ''draining node, '' e), w3)
     else case cp_Get (cloud ctl) (n_ProviderID node1) w3 of
         (Err e, w4) \<Rightarrow>
           if IsMachineNotFoundError e then map_prod (map_res (\<lambda>n. (n, None))) id (removeFinalizer ctl node1 w4)
           else (Err (Wrapped ''getting machine, '' e), w4)
       | (Ok _, w4) \<Rightarrow> (Ok (node1, Some 1000000000), w4)
       | (Panic m, w4) \<Rightarrow> (Panic m, w4))"
  using assms by (simp add: Finalize_def act_bind_def split_def)

lemma Finalize_OkE:
  assumes "Finalize ctl node w = (Ok y, w')" "TerminationFinalizer \<in> set (n_Finalizers node)"
  obtains w1 node1 w2 r w3 where "deleteAllMachines ctl node w = (Ok (), w1)" "Cordon ctl node w1 = (Ok node1, w2)"
    "Drain ctl node1 w2 = (r, w3)" "\<not> is_Panic r"
proof -
  obtain r0 w1 where d: "deleteAllMachines ctl node w = (r0, w1)" by (metis surj_pair)
  then have r0: "r0 = Ok ()" using assms by (cases r0) (auto simp: Finalize_def act_bind_def)
  obtain r1 w2 where c: "Cordon ctl node w1 = (r1, w2)" by (metis surj_pair)
  then obtain node1 where node1: "r1 = Ok node1" using assms d r0 by (cases r1) (auto simp: Finalize_def act_bind_def)
  obtain r w3 where "Drain ctl node1 w2 = (r, w3)" by (metis surj_pair)
  moreover from this have "\<not> is_Panic r" using assms d r0 c node1 by (cases r) (auto simp: Finalize_def act_bind_def)
  ultimately show thesis using that d r0 c node1 by blast
qed

subsection \<open>What the controllers rely on\<close>

text \<open>
  The provider's promise behind \<open>IsMachineNotFoundError\<close>: reading a machine that is \<open>gone\<close> fails with that
  error. Under it a node whose pods cannot be evicted is still let go once its machine is gone, and a
  linked machine without an instance is deleted.
\<close>

locale reports_gone =
  fixes get :: "string \<Rightarrow> ('w, FakeMachine) act" and gone :: "'w \<Rightarrow> string \<Rightarrow> bool"
  assumes get_gone: "gone w pid \<Longrightarrow> \<exists>e w'. get pid w = (Err e, w') \<and> IsMachineNotFoundError e"
begin

lemma undrained_node_released:
  assumes "cp_Get (cloud ctl) = get" "TerminationFinalizer \<in> set (n_Finalizers node)"
    and "deleteAllMachines ctl node w = (Ok (), w1)" "Cordon ctl node w1 = (Ok node1, w2)"
    and "Drain ctl node1 w2 = (Err e, w3)" "IsNodeDrainError e" "gone w3 (n_ProviderID node1)"
  shows "\<exists>w4. Finalize ctl node w = map_prod (map_res (\<lambda>n. (n, None))) id (removeFinalizer ctl node1 w4)"
proof -
  obtain e' w4 where "get (n_ProviderID node1) w3 = (Err e', w4)" "IsMachineNotFoundError e'" using get_gone [OF assms(7)] by blast
  then have "Finalize ctl node w = map_prod (map_res (\<lambda>n. (n, None))) id (removeFinalizer ctl node1 w4)"
    using Finalize_undrained [OF assms(2-5)] assms(1,6) by simp
  then show ?thesis by blast
qed

lemma linked_machine_deleted:
  assumes "cp_Get (cloud ctl) = get" "m_Annotations machine MachineLinkedAnnotationKey = Some pid" "gone w pid"
  shows "\<exists>w'. linkMachine ctl machine w =
    (case DeleteMachine (kube ctl) machine w' of (r, w'') \<Rightarrow> ((ignoring IsNotFound None (map_res (\<lambda>_. None) r), machine), w''))"
  using get_gone [OF assms(3)] assms(1,2) by (auto simp: linkMachine_def)

end

interpretation fake_provider: reports_gone "\<lambda>pid c. (Fake_Get c pid, c)" "\<lambda>c pid. CreatedMachines c pid = None"
  by unfold_locales (simp add: Fake_Get_def)

text \<open>
  The clients of Kubernetes and the eviction of pods do not touch agent pools, and a node's provider
  identifier, which is immutable, survives a patch.
\<close>

definition kubeStill :: "'w KarpenterController \<Rightarrow> ('w \<Rightarrow> cluster) \<Rightarrow> bool" where
  "kubeStill ctl pools \<longleftrightarrow>
     (\<forall>pid w. pools (snd (MachinesOf (kube ctl) pid w)) = pools w) \<and>
     (\<forall>pid w. pools (snd (NodesOf (kube ctl) pid w)) = pools w) \<and>
     (\<forall>m w. pools (snd (DeleteMachine (kube ctl) m w)) = pools w) \<and>
     (\<forall>n w. pools (snd (DeleteNode (kube ctl) n w)) = pools w) \<and>
     (\<forall>m m' w. pools (snd (PatchMachine (kube ctl) m m' w)) = pools w) \<and>
     (\<forall>n n' w. pools (snd (PatchNode (kube ctl) n n' w)) = pools w) \<and>
     (\<forall>n w. pools (snd (Drain ctl n w)) = pools w) \<and>
     (\<forall>n n' n'' w w'. PatchNode (kube ctl) n n' w = (Ok n'', w') \<longrightarrow> n_ProviderID n'' = n_ProviderID n)"

lemma kubeStillD:
  assumes "kubeStill ctl pools"
  shows "MachinesOf (kube ctl) pid w = (r1, w') \<Longrightarrow> pools w' = pools w"
    and "NodesOf (kube ctl) pid w = (r2, w') \<Longrightarrow> pools w' = pools w"
    and "DeleteMachine (kube ctl) m w = (r3, w') \<Longrightarrow> pools w' = pools w"
    and "DeleteNode (kube ctl) n w = (r4, w') \<Longrightarrow> pools w' = pools w"
    and "PatchMachine (kube ctl) m m' w = (r5, w') \<Longrightarrow> pools w' = pools w"
    and "PatchNode (kube ctl) n n' w = (r6, w') \<Longrightarrow> pools w' = pools w"
    and "Drain ctl n w = (r7, w') \<Longrightarrow> pools w' = pools w"
    and "PatchNode (kube ctl) n n' w = (Ok n'', w') \<Longrightarrow> n_ProviderID n'' = n_ProviderID n"
  using assms unfolding kubeStill_def by (metis snd_conv)+

lemma deleteNodes_still:
  assumes "kubeStill ctl pools"
  shows "pools (snd (deleteNodes ctl nodes w)) = pools w"
  by (induction nodes arbitrary: w) (auto split: prod.splits res.splits dest: kubeStillD(4) [OF assms])

lemma deleteMachines_still:
  assumes "kubeStill ctl pools"
  shows "pools (snd (deleteMachines ctl ms w)) = pools w"
  by (induction ms arbitrary: w) (auto split: prod.splits res.splits dest: kubeStillD(3) [OF assms])

lemma deleteAllMachines_still:
  assumes "kubeStill ctl pools" "deleteAllMachines ctl node w = (r, w')"
  shows "pools w' = pools w"
  using assms(2) deleteMachines_still [OF assms(1)]
  by (auto simp: deleteAllMachines_def act_bind_def split: prod.splits res.splits dest!: kubeStillD(1) [OF assms(1)]) (metis snd_conv)

lemma Cordon_still:
  assumes "kubeStill ctl pools" "Cordon ctl node w = (Ok node1, w')"
  shows "pools w' = pools w" "n_ProviderID node1 = n_ProviderID node"
  using assms(2) by (auto simp: Cordon_def Let_def split: if_splits dest: kubeStillD(6,8) [OF assms(1)])

lemma removeFinalizer_still:
  assumes "kubeStill ctl pools" "removeFinalizer ctl node w = (r, w')"
  shows "pools w' = pools w"
  using assms(2) by (auto simp: removeFinalizer_def Let_def split: if_splits prod.splits dest: kubeStillD(6) [OF assms(1)])

subsection \<open>Deleting through the Azure provider\<close>

lemma azureCloud_simps [simp]:
  "cp_Create (azureCloud rt p) m w = map_prod (map_res bareStatus) id (CloudProvider_Create rt p m w)"
  "cp_Delete (azureCloud rt p) = CloudProvider_Delete p"
  "cp_Get (azureCloud rt p) pid w = map_prod (map_res bareStatus) id (CloudProvider_Get rt p pid w)"
  by (simp_all add: azureCloud_def)

lemma parse_error_plain: "ParseAgentPoolNameFromID pid = Err e \<Longrightarrow> \<not> IsMachineNotFoundError e"
  by (auto simp: ParseAgentPoolNameFromID_def Let_def split: if_splits option.splits)

lemma azure_delete_errors:
  assumes "aksService rt p pools" "CloudProvider_Delete p machine w = (Err e, w')"
  shows "\<not> IsMachineNotFoundError e"
proof (cases "ParseAgentPoolNameFromID (m_ProviderID machine)")
  case (Ok n)
  obtain r1 w1 where b: "act_bind (BeginDelete (agentPoolsClient p) (resourceGroup p) (clusterName p) n) (\<lambda>poll. poll) w = (r1, w1)"
    by (metis surj_pair)
  have "aksRemoves p pools" using assms(1) by (simp add: aksService_def)
  from this [unfolded aksRemoves_def, rule_format, OF b] show ?thesis
    using assms(2) Delete_parsed [OF Ok, of p w] b
    by (auto simp: CloudProvider_Delete_def deleteAgentPool_settles wrap_err_eq_Err split: res.splits if_splits)
qed (use assms(2) parse_error_plain in \<open>auto simp: CloudProvider_Delete_def Delete_def\<close>)

lemma azure_delete_gone:
  assumes "aksService rt p pools" "CloudProvider_Delete p machine w = (r, w')" "ignoring IsMachineNotFoundError () r = Ok ()"
  shows "\<exists>n. ParseAgentPoolNameFromID (m_ProviderID machine) = Ok n \<and> pools w' n = None"
proof -
  have "r = Ok ()"
    using assms(3) azure_delete_errors [OF assms(1), of machine w _ w'] assms(2)
    by (auto simp: ignoring_def split: res.splits if_splits)
  then show ?thesis using delete_refines [OF assms(1,2), of "chooseVMSize rt"] by (auto elim: DeleteE)
qed

lemma azure_get_gone:
  assumes "aksService rt p pools" "ParseAgentPoolNameFromID pid = Ok n" "pools w n = None"
  shows "case fst (CloudProvider_Get rt p pid w) of Ok _ \<Rightarrow> False | Err e \<Rightarrow> \<not> IsMachineNotFoundError e | Panic _ \<Rightarrow> True"
proof -
  have reads: "aksReads p pools" using assms(1) by (simp add: aksService_def)
  obtain r w1 where g: "GetPool (agentPoolsClient p) (resourceGroup p) (clusterName p) n w = (r, w1)" by (metis surj_pair)
  with reads assms(3) have "case r of Ok ap \<Rightarrow> False | Err e \<Rightarrow> \<not> IsMachineNotFoundError e | Panic _ \<Rightarrow> True"
    by (fastforce simp: aksReads_def split: res.splits)
  then show ?thesis using g by (simp add: CloudProvider_Get_def Get_parsed [OF assms(2)] getAgentPool_def split: res.splits)
qed

lemma ignoring_Ok: "ignoring P x r = Ok y \<longleftrightarrow> r = Ok y \<or> (\<exists>e. r = Err e \<and> P e \<and> y = x)"
  by (auto simp: ignoring_def split: res.splits)

text \<open>No error of the Azure provider's \<open>Get\<close> is karpenter's \<open>MachineNotFoundError\<close>.\<close>

lemma getNodeByName_errors:
  assumes still: "poolsStill rt p pools" and "getNodeByName rt p n w = (Err e, w')"
  shows "\<not> IsMachineNotFoundError e"
proof -
  let ?fn = "listNodes p (nodeSelector n)" and ?Q = "\<lambda>r :: unit res. \<forall>e. r = Err e \<longrightarrow> \<not> IsMachineNotFoundError e"
  have "?Q (fst (?fn s))" for s
    using still [unfolded poolsStill_def] by (cases s) (fastforce simp: listNodes_def split: prod.splits res.splits)
  then have "?Q (fst (attempts (pause_of (lift_clock (rt_clock rt)) DefaultRetry) (\<lambda>_. True) ?fn 0 4 (w, [])))"
    by (intro attempts_invariant [where I = "\<lambda>_. True" and Q = "\<lambda>r _. ?Q r"]) simp_all
  then show ?thesis using assms(2) by (auto simp: getNodeByName_attempts split: prod.splits res.splits)
qed

lemma fromAgentPoolToInstance_errors:
  assumes "poolsStill rt p pools" "fromAgentPoolToInstance rt p ap w = (Err e, w')"
  shows "\<not> IsMachineNotFoundError e"
  using assms(2) getNodeByName_errors [OF assms(1)]
  by (auto simp: fromAgentPoolToInstance_def act_bind_def ParseSubIDFromID_def poolInstance_def Let_def Deref_def
      split: option.splits res.splits prod.splits if_splits)

lemma instanceToMachine_no_Err: "instanceToMachine i \<noteq> Err e"
  by (auto simp: instanceToMachine_def copyTag_def Deref_def res_bind_def Let_def split: option.splits res.splits)

lemma azure_create_error:
  assumes "CloudProvider_Create rt p machine w = (Err e, w')"
  shows "\<exists>e0. e = Wrapped ''creating instance, '' e0"
proof -
  have "instancePtrToMachine inst \<noteq> Err e" for inst e using instanceToMachine_no_Err by (cases inst) (simp_all add: instancePtrToMachine_def)
  then have "map_res f (instancePtrToMachine inst) \<noteq> Err e" for f :: "Machine \<times> Instance \<Rightarrow> Machine" and inst
    by (cases "instancePtrToMachine inst") auto
  then show ?thesis using assms by (auto simp: CloudProvider_Create_def split: res.splits prod.splits)
qed

lemma azure_get_errors:
  assumes "aksService rt p pools" "CloudProvider_Get rt p pid w = (Err e, w')"
  shows "\<not> IsMachineNotFoundError e"
proof -
  have reads: "aksReads p pools" and still: "poolsStill rt p pools" using assms(1) by (simp_all add: aksService_def)
  have pool: "\<not> IsMachineNotFoundError e" if "GetPool (agentPoolsClient p) (resourceGroup p) (clusterName p) n w = (Err e, w1)" for n e w1
    using reads that by (fastforce simp: aksReads_def)
  have "\<not> IsMachineNotFoundError e'" if "Get rt p pid w = (Err e', w1)" for e' w1
    using that fromAgentPoolToInstance_errors [OF still] parse_error_plain pool
    by (auto simp: Get_def getAgentPool_def split: res.splits prod.splits)
  moreover have "map_res fst (instanceToMachine i) \<noteq> Err e" for i using instanceToMachine_no_Err [of i] by (cases "instanceToMachine i") auto
  ultimately show ?thesis using assms(2)
    by (auto simp: CloudProvider_Get_def split: res.splits option.splits prod.splits)
qed

text \<open>The fake provider keeps the promise the Azure provider does not.\<close>

lemma fake_releases_undrained_node:
  assumes "cloud ctl = fakeCloud env providerID" "TerminationFinalizer \<in> set (n_Finalizers node)"
    and "deleteAllMachines ctl node c = (Ok (), c1)" "Cordon ctl node c1 = (Ok node1, c2)"
    and "Drain ctl node1 c2 = (Err e, c3)" "IsNodeDrainError e" "CreatedMachines c3 (n_ProviderID node1) = None"
  shows "\<exists>c4. Finalize ctl node c = map_prod (map_res (\<lambda>n. (n, None))) id (removeFinalizer ctl node1 c4)"
  by (rule fake_provider.undrained_node_released [OF _ assms(2-7)]) (simp add: assms(1) fakeCloud_def)

subsection \<open>Controllers over the demo service\<close>

definition demoKube :: "demoWorld KubeAPI" where
  "demoKube =
     \<lparr>MachinesOf = (\<lambda>_ w. (Ok [], w)), NodesOf = (\<lambda>_ w. (Ok [], w)), DeleteMachine = (\<lambda>_ w. (Ok (), w)),
      DeleteNode = (\<lambda>_ w. (Ok (), w)), PatchMachine = (\<lambda>m _ w. (Ok m, w)), PatchNode = (\<lambda>n _ w. (Ok n, w))\<rparr>"

definition demoController :: "unit res \<Rightarrow> demoWorld KarpenterController" where
  "demoController drained =
     \<lparr>kube = demoKube, cloud = azureCloud demoRuntime demoProvider, Drain = (\<lambda>_ w. (drained, w)),
      labelReqs = (\<lambda>_. []), reqLabels = (\<lambda>_. Map.empty), leafText = (\<lambda>_. ''''), verbs = id\<rparr>"

definition demoNodeCR :: NodeCR where
  "demoNodeCR =
     \<lparr>n_Name = ''aks-gpu-1-vmss000000'', n_Labels = Map.empty, n_Conditions = [], n_Annotations = Map.empty,
      n_Finalizers = [TerminationFinalizer], n_Taints = [], n_ProviderID = demoPid, n_Unschedulable = False,
      n_Capacity = Map.empty, n_Allocatable = Map.empty\<rparr>"

definition demoMachineCR :: "string \<Rightarrow> string \<Rightarrow> MachineCR" where
  "demoMachineCR name pid =
     \<lparr>m_Name = name, m_Labels = Map.empty, m_Annotations = Map.empty, m_Requirements = [], m_Taints = [], m_Requests = None,
      m_ProviderID = pid, m_Capacity = Map.empty, m_Allocatable = Map.empty, m_UID = ''u1'',
      m_Finalizers = [TerminationFinalizer], m_Launched = None\<rparr>"

lemma demo_kubeStill: "kubeStill (demoController drained) demoPools"
  by (simp add: kubeStill_def demoController_def demoKube_def)

lemma demoController_simps [simp]:
  "cloud (demoController drained) = azureCloud demoRuntime demoProvider" "kube (demoController drained) = demoKube"
  "Drain (demoController drained) node w = (drained, w)" "leafText (demoController drained) e = ''''"
  by (simp_all add: demoController_def)

lemma demo_Finalize: "\<exists>n w'. Finalize (demoController (Ok ())) demoNodeCR w = (Ok (n, None), w')"
proof -
  let ?c = "demoController (Ok ())"
  obtain node1 where c: "Cordon ?c demoNodeCR w = (Ok node1, w)" "n_ProviderID node1 = demoPid"
    by (simp add: Cordon_def Let_def demoKube_def demoNodeCR_def)
  obtain w' where "CloudProvider_Delete demoProvider (NewFromNode ?c node1) w = (Ok (), w')"
    using demo_Delete [of "NewFromNode ?c node1" "''gpu''" w] demo_parse c(2) by (auto simp: NewFromNode_def)
  moreover have "\<exists>n. removeFinalizer ?c node1 w' = (Ok n, w')"
    by (simp add: removeFinalizer_def Let_def demoKube_def ignoring_def)
  then obtain n where "removeFinalizer ?c node1 w' = (Ok n, w')" by blast
  moreover have "deleteAllMachines ?c demoNodeCR w = (Ok (), w)" by (simp add: deleteAllMachines_def demoKube_def)
  ultimately show ?thesis
    using Finalize_drained [of demoNodeCR ?c w w node1 w w] c(1) by (auto simp: demoNodeCR_def ignoring_def map_prod_def split: prod.splits)
qed

lemma demo_Machine_Finalize:
  "\<exists>w'. Machine_Finalize (demoController (Ok ())) (demoMachineCR ''gpu'' demoPid) w
     = (Ok ((demoMachineCR ''gpu'' demoPid)\<lparr>m_Finalizers := []\<rparr>), w')"
proof -
  let ?c = "demoController (Ok ())" and ?m = "demoMachineCR ''gpu'' demoPid"
  have pid: "demoPid \<noteq> ''''" using demo_parse by (auto simp: demoPid_def vmssID_def)
  have "m_ProviderID (Machine.truncate ?m) = demoPid" by (simp add: demoMachineCR_def Machine.defs)
  then obtain w' where "CloudProvider_Delete demoProvider (Machine.truncate ?m) w = (Ok (), w')"
    using demo_Delete [of "Machine.truncate ?m" "''gpu''" w] demo_parse by auto
  then have "terminateInstance ?c ?m w = (Ok (), w')" using pid by (simp add: terminateInstance_def ignoring_def demoMachineCR_def)
  moreover have "AllNodesForMachine ?c ?m w = (Ok [], w)"
    using pid by (simp add: AllNodesForMachine_def Let_def demoMachineCR_def demoKube_def)
  moreover have "releaseMachine ?c ?m w' = (Ok (?m\<lparr>m_Finalizers := []\<rparr>), w')"
    by (simp add: releaseMachine_def Let_def demoKube_def ignoring_def demoMachineCR_def RemoveFinalizer_def)
  ultimately show ?thesis by (simp add: Machine_Finalize_def demoMachineCR_def)
qed

subsection \<open>Properties\<close>

text \<open>C3.
  A node is let go only when it is drained and its agent pool is gone. Over the Azure provider and a
  service that keeps agent pools as Azure documents it, when the termination of a node ends
  without asking to be called again, its machines were deleted, it was cordoned and then drained, and
  the pool its provider identifier names is no longer in the cluster.
\<close>

theorem released_node_left_no_pool:
  assumes service: "aksService rt p pools" and ctl: "cloud ctl = azureCloud rt p" "kubeStill ctl pools"
    and node: "TerminationFinalizer \<in> set (n_Finalizers node)" "Finalize ctl node w = (Ok (node', None), w')"
  shows "(\<exists>w1 node1 w2 w3. deleteAllMachines ctl node w = (Ok (), w1) \<and> Cordon ctl node w1 = (Ok node1, w2) \<and>
      Drain ctl node1 w2 = (Ok (), w3)) \<and>
    (\<exists>n. ParseAgentPoolNameFromID (n_ProviderID node) = Ok n \<and> pools w' n = None)"
proof -
  obtain w1 node1 w2 r w3 where run: "deleteAllMachines ctl node w = (Ok (), w1)" "Cordon ctl node w1 = (Ok node1, w2)"
    and drain: "Drain ctl node1 w2 = (r, w3)" "\<not> is_Panic r" using Finalize_OkE [OF node(2,1)] by blast
  note pid = Cordon_still(2) [OF ctl(2) run(2)]
  show ?thesis
  proof (cases r)
    case (Ok u)
    obtain r4 w4 where del: "CloudProvider_Delete p (NewFromNode ctl node1) w3 = (r4, w4)" by (metis surj_pair)
    have "Drain ctl node1 w2 = (Ok (), w3)" using drain(1) Ok by simp
    note fin = Finalize_drained [OF node(1) run this, unfolded node(2) ctl(1) azureCloud_simps del prod.case]
    then have ok: "ignoring IsMachineNotFoundError () r4 = Ok ()" by (auto split: res.splits)
    from azure_delete_gone [OF service del this] obtain n where "ParseAgentPoolNameFromID (n_ProviderID node) = Ok n" "pools w4 n = None"
      by (auto simp: NewFromNode_def pid)
    moreover have "pools w' = pools w4" using fin ok removeFinalizer_still [OF ctl(2), of node1 w4] by (auto simp: map_prod_def split: prod.splits)
    ultimately show ?thesis using run drain(1) Ok by auto
  next
    case (Err e)
    then show ?thesis
      using Finalize_undrained [OF node(1) run drain(1) [unfolded Err], unfolded node(2) ctl(1) azureCloud_simps]
        azure_get_errors [OF service, of "n_ProviderID node1" w3]
      by (cases "CloudProvider_Get rt p (n_ProviderID node1) w3"; cases "fst (CloudProvider_Get rt p (n_ProviderID node1) w3)")
        (auto split: if_splits)
  qed (use drain(2) in simp)
qed

theorem released_node_left_no_pool_witness:
  "\<exists>n w'. Finalize (demoController (Ok ())) demoNodeCR demoUp = (Ok (n, None), w') \<and> demoPools w' ''gpu'' = None"
proof -
  obtain n w' where f: "Finalize (demoController (Ok ())) demoNodeCR demoUp = (Ok (n, None), w')" using demo_Finalize by blast
  have "TerminationFinalizer \<in> set (n_Finalizers demoNodeCR)" by (simp add: demoNodeCR_def)
  from released_node_left_no_pool [OF demo_aksService _ demo_kubeStill this f] have "demoPools w' ''gpu'' = None"
    using demo_parse by (auto simp: demoNodeCR_def)
  then show ?thesis using f by blast
qed

text \<open>C14.
  A node whose pods cannot be evicted is not let go when its pool has gone. The controller means to let
  it go when \<open>Get\<close> reports \<open>MachineNotFoundError\<close>; the Azure provider never does, so every
  termination of such a node fails.
\<close>

theorem undrained_node_held_without_pool:
  assumes service: "aksService rt p pools" and ctl: "cloud ctl = azureCloud rt p" "kubeStill ctl pools"
    and node: "TerminationFinalizer \<in> set (n_Finalizers node)" "ParseAgentPoolNameFromID (n_ProviderID node) = Ok n" "pools w n = None"
    and stuck: "\<forall>node1 w1. \<exists>e w2. Drain ctl node1 w1 = (Err e, w2) \<and> IsNodeDrainError e"
  shows "\<not> is_Ok (fst (Finalize ctl node w))"
proof
  assume "is_Ok (fst (Finalize ctl node w))"
  then obtain y w' where fin: "Finalize ctl node w = (Ok y, w')" by (cases "Finalize ctl node w"; cases "fst (Finalize ctl node w)") auto
  obtain w1 node1 w2 where run: "deleteAllMachines ctl node w = (Ok (), w1)" "Cordon ctl node w1 = (Ok node1, w2)"
    using Finalize_OkE [OF fin node(1)] by metis
  obtain e w3 where drain: "Drain ctl node1 w2 = (Err e, w3)" "IsNodeDrainError e" using stuck by blast
  have "pools w3 n = None" "n_ProviderID node1 = n_ProviderID node"
    using node(3) deleteAllMachines_still [OF ctl(2) run(1)] Cordon_still [OF ctl(2) run(2)] kubeStillD(7) [OF ctl(2) drain(1)] by simp_all
  then have "case fst (CloudProvider_Get rt p (n_ProviderID node1) w3) of Ok _ \<Rightarrow> False | Err e \<Rightarrow> \<not> IsMachineNotFoundError e | Panic _ \<Rightarrow> True"
    using azure_get_gone [OF service, of "n_ProviderID node1" n w3] node(2) by simp
  moreover obtain r4 w4 where "CloudProvider_Get rt p (n_ProviderID node1) w3 = (r4, w4)" by (metis surj_pair)
  ultimately show False
    using Finalize_undrained [OF node(1) run drain(1), unfolded fin ctl(1) azureCloud_simps] drain(2) by (cases r4) auto
qed

theorem undrained_node_held_without_pool_witness:
  "\<not> is_Ok (fst (Finalize (demoController (Err (NodeDrain (ErrorString ''2 pods are waiting to be evicted'')))) demoNodeCR demo0))"
  by (rule undrained_node_held_without_pool [OF demo_aksService _ demo_kubeStill, of _ _ "''gpu''"])
    (use demo_parse in \<open>simp_all add: demoNodeCR_def demoPools_def demo0_def\<close>)

text \<open>C4.
  A machine is let go only when its agent pool is gone. When the termination of a machine over the Azure
  provider takes its finalizer off, either the machine was never associated with an instance, or its
  provider identifier names a pool that is no longer in the cluster. In particular a machine
  that carries only the annotation of a linked instance is never let go this way, but only by the
  garbage collector, which takes the finalizer off by force after ten minutes.
\<close>

theorem released_machine_left_no_pool:
  assumes service: "aksService rt p pools" and ctl: "cloud ctl = azureCloud rt p" "kubeStill ctl pools"
    and machine: "TerminationFinalizer \<in> set (m_Finalizers machine)" "Machine_Finalize ctl machine w = (Ok machine', w')"
      "TerminationFinalizer \<notin> set (m_Finalizers machine')"
  shows "m_ProviderID machine = '''' \<and> FromPtr '''' (m_Annotations machine MachineLinkedAnnotationKey) = '''' \<or>
    (\<exists>n. ParseAgentPoolNameFromID (m_ProviderID machine) = Ok n \<and> pools w' n = None)"
proof (cases "m_ProviderID machine = '''' \<and> FromPtr '''' (m_Annotations machine MachineLinkedAnnotationKey) = ''''")
  case False
  obtain nodes w1 w2 where run: "AllNodesForMachine ctl machine w = (Ok nodes, w1)" "deleteNodes ctl nodes w1 = (Ok (), w2)"
    using machine(1,2) by (auto simp: Machine_Finalize_def elim!: act_bind_eq_Ok)
  have none: "nodes = []" using machine run by (cases nodes) (auto simp: Machine_Finalize_def)
  obtain w3 where rest: "terminateInstance ctl machine w2 = (Ok (), w3)" "releaseMachine ctl machine w3 = (Ok machine', w')"
    using machine(1,2) run none by (auto simp: Machine_Finalize_def elim!: act_bind_eq_Ok)
  obtain r where r: "CloudProvider_Delete p (Machine.truncate machine) w2 = (r, w3)" "ignoring IsMachineNotFoundError () r = Ok ()"
    using rest(1) ctl(1) False by (auto simp: terminateInstance_def split: if_splits prod.splits)
  have "pools w' = pools w3"
    using rest(2) by (auto simp: releaseMachine_def Let_def split: if_splits prod.splits dest: kubeStillD(5) [OF ctl(2)])
  then show ?thesis using azure_delete_gone [OF service r] by (auto simp: Machine.defs)
qed simp

theorem released_machine_left_no_pool_witness:
  "\<exists>w'. Machine_Finalize (demoController (Ok ())) (demoMachineCR ''gpu'' demoPid) demoUp
     = (Ok ((demoMachineCR ''gpu'' demoPid)\<lparr>m_Finalizers := []\<rparr>), w') \<and> demoPools w' ''gpu'' = None"
proof -
  obtain w' where f: "Machine_Finalize (demoController (Ok ())) (demoMachineCR ''gpu'' demoPid) demoUp
     = (Ok ((demoMachineCR ''gpu'' demoPid)\<lparr>m_Finalizers := []\<rparr>), w')" using demo_Machine_Finalize by blast
  have "TerminationFinalizer \<in> set (m_Finalizers (demoMachineCR ''gpu'' demoPid))" by (simp add: demoMachineCR_def)
  from released_machine_left_no_pool [OF demo_aksService _ demo_kubeStill this f] have "demoPools w' ''gpu'' = None"
    using demo_parse by (auto simp: demoMachineCR_def demoPid_def vmssID_def)
  then show ?thesis using f by blast
qed

text \<open>C15.
  The termination of a machine whose launch failed does not succeed, if the text of the error has no percent sign and
  does not say that the size is not allowed in the subscription's location. The machine's condition then carries the
  provider's error, which the termination of machines compares with two texts that mark it as
  unrecoverable. The first is never the text of an error of the Azure provider's \<open>Create\<close>; unless the second occurs in it, every
  termination of the machine fails before it reaches the cloud, and the finalizer stays on until the
  garbage collector takes it off by force.
\<close>

theorem failed_launch_blocks_deletion:
  assumes "cloud ctl = azureCloud rt p" "\<not> IsTrue (m_Launched machine)" "cache_Get now cache (m_UID machine) = None"
    and bare: "m_Annotations machine MachineLinkedAnnotationKey = None" "m_ProviderID machine = ''''"
    and create: "CloudProvider_Create rt p (Machine.truncate machine) w = (Err e, w')" "\<not> IsInsufficientCapacityError e"
    and msg: "CHR ''%'' \<notin> set (truncateMessage (Error (leafText ctl) e))"
      "\<not> Contains (truncateMessage (Error (leafText ctl) e)) ''is not allowed in your subscription in location''"
    and "TerminationFinalizer \<in> set (m_Finalizers machine)"
  shows "\<exists>machine'. Launch_Reconcile ctl now cache machine w = ((Err (Wrapped ''creating machine, '' e), machine', cache), w') \<and>
    (\<forall>w1. Machine_Finalize ctl machine' w1 = (Err (ErrorString ''The machine has not been associated with any node yet''), w1))"
proof -
  let ?m = "MarkFalse ctl machine ''LaunchFailed'' (truncateMessage (Error (leafText ctl) e))"
  obtain e0 where "e = Wrapped ''creating instance, '' e0"
    using azure_create_error [OF create(1)] by blast
  then have "truncateMessage (Error (leafText ctl) e) \<noteq> ''all requested instance types were unavailable during launch''"
    by (auto simp: truncateMessage_def)
  then have "AllNodesForMachine ctl ?m w1 = (Err (ErrorString ''The machine has not been associated with any node yet''), w1)" for w1
    using bare msg by (simp add: AllNodesForMachine_def MarkFalse_def GetMessage_def Let_def)
  then have "Machine_Finalize ctl ?m w1 = (Err (ErrorString ''The machine has not been associated with any node yet''), w1)" for w1
    using assms(10) by (simp add: Machine_Finalize_def MarkFalse_def)
  moreover have "Launch_Reconcile ctl now cache machine w = ((Err (Wrapped ''creating machine, '' e), ?m, cache), w')"
    using assms(1-3) bare(1) create by (simp add: Launch_Reconcile_def launchMachine_def)
  ultimately show ?thesis by blast
qed

theorem failed_launch_blocks_deletion_witness:
  "\<exists>machine' e w'. Launch_Reconcile (demoController (Ok ())) 0 (New minute) (demoMachineCR ''machine-with-a-name'' '''') demo0
       = ((Err e, machine', New minute), w') \<and>
     Machine_Finalize (demoController (Ok ())) machine' w'
       = (Err (ErrorString ''The machine has not been associated with any node yet''), w')"
proof -
  let ?m = "demoMachineCR ''machine-with-a-name'' ''''" and ?c = "demoController (Ok ())"
  let ?e = "Wrapped ''creating instance, '' (ErrorString ''the length agentpool name should be less than 11, got 19 (machine-with-a-name)'')"
  have create: "CloudProvider_Create demoRuntime demoProvider (Machine.truncate ?m) demo0 = (Err ?e, demo0)"
    by (simp add: CloudProvider_Create_def Create_def demoMachineCR_def Machine.defs Let_def show_nat.simps digit_char_def)
      (simp add: char_of_def bit_iff_odd)
  let ?t = "''creating instance, the length agentpool name should be less than 11, got 19 (machine-with-a-name)''"
  have "truncateMessage (Error (leafText ?c) ?e) = ?t" by (simp add: truncateMessage_def)
  moreover have "CHR ''%'' \<notin> set ?t" by simp
  moreover have "\<not> Contains ?t ''is not allowed in your subscription in location''" by code_simp
  ultimately have "CHR ''%'' \<notin> set (truncateMessage (Error (leafText ?c) ?e))"
    and "\<not> Contains (truncateMessage (Error (leafText ?c) ?e)) ''is not allowed in your subscription in location''" by (simp_all only: not_False_eq_True)
  from failed_launch_blocks_deletion [OF _ _ _ _ _ create _ this, of 0 "New minute"] show ?thesis
    by (fastforce simp: demoMachineCR_def IsTrue_def New_def newCache_def cache_Get_def)
qed

end
