(* ===== verification/Monitor.thy ===== *)
theory Monitor
  imports Controllers
begin

text \<open>
  The monitor of the end-to-end tests (\<open>test/e2e/pkg/environment/common/monitor.go\<close>): it lists the nodes
  and pods of a cluster, remembers the nodes of its last reset and reports what changed since.
\<close>

subsection \<open>Definitions\<close>

record ContainerStatus =
  cs_Name :: string
  cs_RestartCount :: "32 word"

record Pod =
  p_Namespace :: string
  p_Name :: string
  p_Labels :: "string \<rightharpoonup> string"
  p_NodeName :: string
  p_Phase :: string
  p_ContainerStatuses :: "ContainerStatus list"

text \<open>
  The client: each \<open>List\<close> fills its list as far as it got and may return an error, which is logged.
  \<open>walk\<close> is the order in which a map is visited, \<open>RequestsForPods\<close> the sum of the pods' requests.
\<close>

record 'w monitorClient =
  listNodeItems :: "'w \<Rightarrow> Node list \<times> goerr option"
  listPodItems :: "'w \<Rightarrow> Pod list \<times> goerr option"
  RequestsForPods :: "Pod list \<Rightarrow> ResourceList"
  walk :: "string set \<Rightarrow> string list"

record 'w Monitor =
  kubeClient :: "'w monitorClient"
  nodesAtReset :: "string \<rightharpoonup> Node"

record monitorState =
  st_pods :: "Pod list"
  st_nodes :: "string \<rightharpoonup> Node"
  st_nodePods :: "string \<rightharpoonup> Pod list"
  st_nodeRequests :: "string \<rightharpoonup> ResourceList"

fun nodeMap :: "Node list \<Rightarrow> (string \<rightharpoonup> Node) \<Rightarrow> string \<rightharpoonup> Node" where
  "nodeMap [] m = m"
| "nodeMap (n # ns) m = nodeMap ns (m(n_Name n \<mapsto> n))"

fun podMap :: "Pod list \<Rightarrow> (string \<rightharpoonup> Pod list) \<Rightarrow> string \<rightharpoonup> Pod list" where
  "podMap [] m = m"
| "podMap (p # ps) m =
     podMap ps (if p_NodeName p = '''' then m else m(p_NodeName p \<mapsto> FromPtr [] (m (p_NodeName p)) @ [p]))"

fun requestMap :: "(Pod list \<Rightarrow> ResourceList) \<Rightarrow> (string \<rightharpoonup> Pod list) \<Rightarrow> Node list \<Rightarrow> (string \<rightharpoonup> ResourceList) \<Rightarrow> string \<rightharpoonup> ResourceList" where
  "requestMap requests nodePods [] m = m"
| "requestMap requests nodePods (n # ns) m =
     requestMap requests nodePods ns (m(n_Name n \<mapsto> requests (FromPtr [] (nodePods (n_Name n)))))"

definition poll :: "'w Monitor \<Rightarrow> 'w \<Rightarrow> monitorState" where
  "poll m w =
     (let nodes = fst (listNodeItems (kubeClient m) w);
          podList = fst (listPodItems (kubeClient m) w);
          nodePods = podMap podList Map.empty
      in \<lparr>st_pods = podList, st_nodes = nodeMap nodes Map.empty, st_nodePods = nodePods,
          st_nodeRequests = requestMap (RequestsForPods (kubeClient m)) nodePods nodes Map.empty\<rparr>)"

definition Monitor_Reset :: "'w Monitor \<Rightarrow> 'w \<Rightarrow> 'w Monitor" where
  "Monitor_Reset m w = m\<lparr>nodesAtReset := st_nodes (poll m w)\<rparr>"

definition NewMonitor :: "'w monitorClient \<Rightarrow> 'w \<Rightarrow> 'w Monitor" where
  "NewMonitor client w = Monitor_Reset \<lparr>kubeClient = client, nodesAtReset = Map.empty\<rparr> w"

definition mapValues :: "'w Monitor \<Rightarrow> (string \<rightharpoonup> Node) \<Rightarrow> Node list" where
  "mapValues m nodes = List.map_filter nodes (walk (kubeClient m) (dom nodes))"

definition NodesAtReset :: "'w Monitor \<Rightarrow> Node list" where
  "NodesAtReset m = mapValues m (nodesAtReset m)"

definition Nodes :: "'w Monitor \<Rightarrow> 'w \<Rightarrow> Node list" where
  "Nodes m w = mapValues m (st_nodes (poll m w))"

definition NodeCount :: "'w Monitor \<Rightarrow> 'w \<Rightarrow> int" where
  "NodeCount m w = int (card (dom (st_nodes (poll m w))))"

definition NodeCountAtReset :: "'w Monitor \<Rightarrow> int" where
  "NodeCountAtReset m = int (length (NodesAtReset m))"

definition CreatedNodeCount :: "'w Monitor \<Rightarrow> 'w \<Rightarrow> int" where
  "CreatedNodeCount m w = NodeCount m w - NodeCountAtReset m"

definition CreatedNodes :: "'w Monitor \<Rightarrow> 'w \<Rightarrow> Node list" where
  "CreatedNodes m w =
     (let resetNodeNames = set (map n_Name (NodesAtReset m))
      in filter (\<lambda>n. n_Name n \<notin> resetNodeNames) (Nodes m w))"

definition DeletedNodes :: "'w Monitor \<Rightarrow> 'w \<Rightarrow> Node list" where
  "DeletedNodes m w =
     (let currentNodeNames = set (map n_Name (Nodes m w))
      in filter (\<lambda>n. n_Name n \<notin> currentNodeNames) (NodesAtReset m))"

fun podsOf :: "string \<Rightarrow> ((string \<rightharpoonup> string) \<Rightarrow> bool) \<Rightarrow> Pod list \<Rightarrow> Pod list \<Rightarrow> Pod list" where
  "podsOf phase selector [] acc = acc"
| "podsOf phase selector (p # ps) acc =
     (if p_Phase p \<noteq> phase then podsOf phase selector ps acc
      else podsOf phase selector ps (if selector (p_Labels p) then acc @ [p] else acc))"

definition PendingPods :: "'w Monitor \<Rightarrow> ((string \<rightharpoonup> string) \<Rightarrow> bool) \<Rightarrow> 'w \<Rightarrow> Pod list" where
  "PendingPods m selector w = podsOf ''Pending'' selector (st_pods (poll m w)) []"

definition RunningPods :: "'w Monitor \<Rightarrow> ((string \<rightharpoonup> string) \<Rightarrow> bool) \<Rightarrow> 'w \<Rightarrow> Pod list" where
  "RunningPods m selector w = podsOf ''Running'' selector (st_pods (poll m w)) []"

definition PendingPodsCount :: "'w Monitor \<Rightarrow> ((string \<rightharpoonup> string) \<Rightarrow> bool) \<Rightarrow> 'w \<Rightarrow> int" where
  "PendingPodsCount m selector w = int (length (PendingPods m selector w))"

definition RunningPodsCount :: "'w Monitor \<Rightarrow> ((string \<rightharpoonup> string) \<Rightarrow> bool) \<Rightarrow> 'w \<Rightarrow> int" where
  "RunningPodsCount m selector w = int (length (RunningPods m selector w))"

fun containerRestarts :: "string \<Rightarrow> ContainerStatus list \<Rightarrow> (string \<rightharpoonup> int) \<Rightarrow> string \<rightharpoonup> int" where
  "containerRestarts pod [] m = m"
| "containerRestarts pod (cs # css) m = containerRestarts pod css (m(pod @ ''/'' @ cs_Name cs \<mapsto> sint (cs_RestartCount cs)))"

fun podRestarts :: "Pod list \<Rightarrow> (string \<rightharpoonup> int) \<Rightarrow> string \<rightharpoonup> int" where
  "podRestarts [] m = m"
| "podRestarts (p # ps) m =
     podRestarts ps (if p_Namespace p \<noteq> ''karpenter'' then m else containerRestarts (p_Name p) (p_ContainerStatuses p) m)"

definition RestartCount :: "'w Monitor \<Rightarrow> 'w \<Rightarrow> string \<rightharpoonup> int" where
  "RestartCount m w = podRestarts (st_pods (poll m w)) Map.empty"

subsection \<open>The maps of a poll\<close>

text \<open>Every entry is filed under its own name: an invariant of the polled and of the remembered map.\<close>

definition named :: "(string \<rightharpoonup> Node) \<Rightarrow> bool" where
  "named m \<longleftrightarrow> finite (dom m) \<and> (\<forall>k n. m k = Some n \<longrightarrow> n_Name n = k)"

lemma named_empty: "named Map.empty"
  by (simp add: named_def)

lemma named_upd: "named m \<Longrightarrow> named (m(n_Name n \<mapsto> n))"
  by (simp add: named_def)

lemma nodeMap_named: "named m \<Longrightarrow> named (nodeMap ns m)"
  by (induction ns arbitrary: m) (simp_all add: named_upd)

lemma poll_named: "named (st_nodes (poll m w))"
  by (simp add: poll_def Let_def nodeMap_named named_empty)

definition monitor_ok :: "'w Monitor \<Rightarrow> bool" where
  "monitor_ok m \<longleftrightarrow> named (nodesAtReset m) \<and>
     (\<forall>A. finite A \<longrightarrow> set (walk (kubeClient m) A) = A \<and> distinct (walk (kubeClient m) A))"

lemma Monitor_Reset_ok: "(\<forall>A. finite A \<longrightarrow> set (walk (kubeClient m) A) = A \<and> distinct (walk (kubeClient m) A)) \<Longrightarrow> monitor_ok (Monitor_Reset m w)"
  using poll_named [of m w] by (simp add: monitor_ok_def Monitor_Reset_def)

text \<open>The values of such a map are its nodes, one for each name.\<close>

lemma mapValues_names:
  assumes "monitor_ok m" "named nodes"
  shows "map n_Name (mapValues m nodes) = walk (kubeClient m) (dom nodes)"
    and "set (map n_Name (mapValues m nodes)) = dom nodes" "distinct (map n_Name (mapValues m nodes))"
proof -
  have w: "set (walk (kubeClient m) (dom nodes)) = dom nodes" "distinct (walk (kubeClient m) (dom nodes))"
    using assms by (auto simp: monitor_ok_def named_def)
  have "map n_Name (List.map_filter nodes ks) = ks" if "set ks \<subseteq> dom nodes" for ks
    using that assms(2) by (induction ks) (auto simp: named_def List.map_filter_def)
  then show eq: "map n_Name (mapValues m nodes) = walk (kubeClient m) (dom nodes)" using w(1) by (simp add: mapValues_def)
  show "set (map n_Name (mapValues m nodes)) = dom nodes" "distinct (map n_Name (mapValues m nodes))" using w eq by simp_all
qed

lemma length_filter_names:
  assumes "monitor_ok m" "named nodes"
  shows "length (filter (\<lambda>n. n_Name n \<notin> A) (mapValues m nodes)) = card (dom nodes - A)"
proof -
  have "length (filter (\<lambda>n. n_Name n \<notin> A) (mapValues m nodes)) = length (filter (\<lambda>k. k \<notin> A) (map n_Name (mapValues m nodes)))"
    by (simp add: filter_map o_def)
  also have "\<dots> = card (set (filter (\<lambda>k. k \<notin> A) (map n_Name (mapValues m nodes))))"
    using mapValues_names(3) [OF assms] distinct_card [of "filter (\<lambda>k. k \<notin> A) (map n_Name (mapValues m nodes))"] distinct_filter by metis
  also have "set (filter (\<lambda>k. k \<notin> A) (map n_Name (mapValues m nodes))) = dom nodes - A"
    using mapValues_names(2) [OF assms] by auto
  finally show ?thesis .
qed

text \<open>The pods of a phase, in the order of the list.\<close>

lemma podsOf_filter: "podsOf phase selector ps acc = acc @ filter (\<lambda>p. p_Phase p = phase \<and> selector (p_Labels p)) ps"
  by (induction ps arbitrary: acc) auto

lemma pods_by_phase:
  "PendingPods m selector w = filter (\<lambda>p. p_Phase p = ''Pending'' \<and> selector (p_Labels p)) (st_pods (poll m w))"
  "RunningPods m selector w = filter (\<lambda>p. p_Phase p = ''Running'' \<and> selector (p_Labels p)) (st_pods (poll m w))"
  by (simp_all add: PendingPods_def RunningPods_def podsOf_filter)

subsection \<open>Properties\<close>

text \<open>
  The monitor's count of created nodes is the net change: the nodes created since the reset less the nodes
  deleted since, both told apart by name. It is the number of created nodes exactly when none was
  deleted, and otherwise smaller, possibly negative.
\<close>

theorem created_count_is_net_change:
  assumes "monitor_ok m"
  shows "CreatedNodeCount m w = int (length (CreatedNodes m w)) - int (length (DeletedNodes m w)) \<and>
    length (CreatedNodes m w) = card (dom (st_nodes (poll m w)) - dom (nodesAtReset m)) \<and>
    length (DeletedNodes m w) = card (dom (nodesAtReset m) - dom (st_nodes (poll m w)))"
proof -
  let ?A = "dom (st_nodes (poll m w))" and ?B = "dom (nodesAtReset m)"
  have B: "named (nodesAtReset m)" using assms by (simp add: monitor_ok_def)
  note A = poll_named [of m w]
  have c: "length (CreatedNodes m w) = card (?A - ?B)"
    using length_filter_names [OF assms A] mapValues_names(2) [OF assms B] by (simp add: CreatedNodes_def Nodes_def NodesAtReset_def Let_def)
  have d: "length (DeletedNodes m w) = card (?B - ?A)"
    using length_filter_names [OF assms B] mapValues_names(2) [OF assms A] by (simp add: DeletedNodes_def Nodes_def NodesAtReset_def Let_def)
  have "length (NodesAtReset m) = card ?B" using length_filter_names [OF assms B, of "{}"] by (simp add: NodesAtReset_def)
  moreover have "int (card ?A) - int (card ?B) = int (card (?A - ?B)) - int (card (?B - ?A))"
    using A B card_Diff_subset_Int [of ?A ?B] card_Diff_subset_Int [of ?B ?A] card_mono [of ?A "?A \<inter> ?B"] card_mono [of ?B "?A \<inter> ?B"]
    by (simp add: named_def Int_commute of_nat_diff)
  ultimately show ?thesis
    using c d by (simp add: CreatedNodeCount_def NodeCount_def NodeCountAtReset_def)
qed

text \<open>A node is replaced by another: nothing counts as created.\<close>

definition demoClient :: "string list monitorClient" where
  "demoClient =
     \<lparr>listNodeItems = (\<lambda>names. (map demoNode names, None)), listPodItems = (\<lambda>_. ([], None)),
      RequestsForPods = (\<lambda>_. Map.empty), walk = sorted_list_of_set\<rparr>"

theorem created_count_is_net_change_witness:
  "CreatedNodeCount (NewMonitor demoClient [''a'']) [''b''] = 0 \<and> length (CreatedNodes (NewMonitor demoClient [''a'']) [''b'']) = 1"
proof -
  let ?m = "NewMonitor demoClient [''a'']"
  have "monitor_ok ?m" unfolding NewMonitor_def by (rule Monitor_Reset_ok) (simp add: demoClient_def)
  moreover have "dom (st_nodes (poll ?m [''b''])) = {n_Name (demoNode ''b'')}" "dom (nodesAtReset ?m) = {n_Name (demoNode ''a'')}"
    by (simp_all add: NewMonitor_def Monitor_Reset_def poll_def demoClient_def Let_def)
  ultimately show ?thesis using created_count_is_net_change [of ?m "[''b'']"] by (simp add: demoNode_def)
qed

end
