(* ===== verification/Auth.thy ===== *)
theory Auth
  imports Gpu
begin

text \<open>
  Configuration and credentials (\<open>pkg/auth/\<close>): the configuration read from the environment, its
  trimming and validation, the bearer authorizer and the client assertion credential with its
  token file, which is reread when the last read is more than five minutes old. Microsoft's
  authentication library, the key vault and the certificate functions are parameters.
\<close>

subsection \<open>Configuration\<close>

type_synonym environ = "string \<rightharpoonup> string"

definition Getenv :: "environ \<Rightarrow> string \<Rightarrow> string" where
  "Getenv env k = FromPtr '''' (env k)"

record Config =
  Location :: string
  TenantID :: string
  SubscriptionID :: string
  ResourceGroup :: string
  UserAssignedIdentityID :: string
  ClusterName :: string
  NodeResourceGroup :: string
  EnableDynamicSKUCache :: bool
  EnableDetailedCSEMessage :: bool
  EnableForceDelete :: bool
  EnableGetVmss :: bool
  GetVmssSizeRefreshPeriod :: int
  EnablePartialScaling :: bool

definition zeroConfig :: Config where
  "zeroConfig =
     \<lparr>Location = '''', TenantID = '''', SubscriptionID = '''', ResourceGroup = '''', UserAssignedIdentityID = '''',
      ClusterName = '''', NodeResourceGroup = '''', EnableDynamicSKUCache = False, EnableDetailedCSEMessage = False,
      EnableForceDelete = False, EnableGetVmss = False, GetVmssSizeRefreshPeriod = 0, EnablePartialScaling = False\<rparr>"

definition BaseVars :: "environ \<Rightarrow> Config \<Rightarrow> Config" where
  "BaseVars env cfg = cfg\<lparr>
     Location := Getenv env ''LOCATION'',
     ResourceGroup := Getenv env ''ARM_RESOURCE_GROUP'',
     TenantID := Getenv env ''AZURE_TENANT_ID'',
     UserAssignedIdentityID := Getenv env ''AZURE_CLIENT_ID'',
     ClusterName := Getenv env ''AZURE_CLUSTER_NAME'',
     NodeResourceGroup := Getenv env ''AZURE_NODE_RESOURCE_GROUP'',
     SubscriptionID := Getenv env ''ARM_SUBSCRIPTION_ID''\<rparr>"

definition Config_TrimSpace :: "Config \<Rightarrow> Config" where
  "Config_TrimSpace cfg = cfg\<lparr>
     TenantID := TrimSpace (TenantID cfg),
     SubscriptionID := TrimSpace (SubscriptionID cfg),
     ResourceGroup := TrimSpace (ResourceGroup cfg),
     ClusterName := TrimSpace (ClusterName cfg),
     NodeResourceGroup := TrimSpace (NodeResourceGroup cfg)\<rparr>"

definition validate :: "Config \<Rightarrow> unit res" where
  "validate cfg =
     (if SubscriptionID cfg = '''' then Err (ErrorString ''subscription ID not set'')
      else if TenantID cfg = '''' then Err (ErrorString ''tenant ID not set'')
      else if NodeResourceGroup cfg = '''' then Err (ErrorString ''node resource group is not set'')
      else Ok ())"

definition dynamicSKUCacheDefault :: bool where
  "dynamicSKUCacheDefault = False"

definition BuildAzureConfig :: "environ \<Rightarrow> Config res" where
  "BuildAzureConfig env =
     (let cfg = BaseVars env zeroConfig; dyn = Getenv env ''AZURE_ENABLE_DYNAMIC_SKU_CACHE''
      in res_bind
           (if dyn \<noteq> ''''
            then (case ParseBool dyn of
                    None \<Rightarrow> Err (Wrapped (''failed to parse AZURE_ENABLE_DYNAMIC_SKU_CACHE '' @ quote dyn @ '': '')
                               (ErrorString (''parsing '' @ quote dyn @ '': invalid syntax'')))
                  | Some b \<Rightarrow> Ok (cfg\<lparr>EnableDynamicSKUCache := b\<rparr>))
            else Ok (cfg\<lparr>EnableDynamicSKUCache := dynamicSKUCacheDefault\<rparr>))
           (\<lambda>cfg. let cfg = Config_TrimSpace cfg in res_bind (validate cfg) (\<lambda>_. Ok cfg)))"

record authResult =
  accessToken :: string
  expiresOn :: int
  grantedScopes :: "string list"
  declinedScopes :: "string list"

definition OAuthToken :: "authResult \<Rightarrow> string" where
  "OAuthToken ar = accessToken ar"

text \<open>\<open>autorest.WithBearerAuthorization\<close>, a library, is \<open>withBearer\<close>.\<close>

definition WithAuthorization :: "(string \<Rightarrow> 'decorator) \<Rightarrow> authResult \<Rightarrow> 'decorator" where
  "WithAuthorization withBearer ar = withBearer (accessToken ar)"

record ClientConfig =
  cc_CloudName :: string
  cc_Location :: string
  cc_SubscriptionID :: string
  cc_ResourceManagerEndpoint :: string
  cc_Authorizer :: authResult
  cc_UserAgent :: string

text \<open>The one field of \<open>azure.Environment\<close> that is read.\<close>

type_synonym ResourceManagerEndpoint = string

definition GetAzureClientConfig :: "Config \<Rightarrow> authResult \<Rightarrow> ResourceManagerEndpoint \<Rightarrow> ClientConfig" where
  "GetAzureClientConfig cfg authorizer endpoint =
     \<lparr>cc_CloudName = '''', cc_Location = Location cfg, cc_SubscriptionID = SubscriptionID cfg,
      cc_ResourceManagerEndpoint = endpoint, cc_Authorizer = authorizer, cc_UserAgent = ''''\<rparr>"

definition project_Version :: string where
  "project_Version = ''unspecified''"

definition GetUserAgentExtension :: string where
  "GetUserAgentExtension = ''gpu-provisioner-aks/v'' @ project_Version"

subsection \<open>Token files\<close>

record fsWorld =
  files :: "string \<rightharpoonup> string"
  fs_now :: int

definition ReadFile :: "string \<Rightarrow> (fsWorld, string) act" where
  "ReadFile path w =
     (case files w path of
        Some content \<Rightarrow> (Ok content, w)
      | None \<Rightarrow> (Err (ErrorString (''open '' @ path @ '': no such file or directory'')), w))"

definition readJWTFromFS :: "string \<Rightarrow> (fsWorld, string) act" where
  "readJWTFromFS tokenFilePath = ReadFile tokenFilePath"

record ClientAssertionCredential =
  assertion :: string
  "file" :: string
  lastRead :: int

text \<open>Go's zero time, 1 January of year 1, in nanoseconds since the epoch.\<close>

definition zeroTime :: int where
  "zeroTime = - 62135596800 * 1000000000"

definition tokenRefresh :: int where
  "tokenRefresh = 5 * 60 * 1000000000"

definition cred_readJWTFromFS ::
  "ClientAssertionCredential \<Rightarrow> fsWorld \<Rightarrow> string res \<times> ClientAssertionCredential \<times> fsWorld" where
  "cred_readJWTFromFS c w =
     (if lastRead c + tokenRefresh < fs_now w
      then (case ReadFile (file c) w of
              (Ok content, w') \<Rightarrow> (Ok content, c\<lparr>assertion := content, lastRead := fs_now w\<rparr>, w')
            | (Err e, w') \<Rightarrow> (Err e, c, w')
            | (Panic m, w') \<Rightarrow> (Panic m, c, w'))
      else (Ok (assertion c), c, w))"

subsection \<open>Authorizer and credential\<close>

text \<open>
  A credential of the authentication library: a callback that reads the token file, or a
  certificate with its key. \<open>msal\<close> bundles the library's calls and the key vault's.
\<close>

datatype msalCred = FromAssertionFile string | FromCert string string

record ('w, 'app) msal =
  confidential_New :: "string \<Rightarrow> string \<Rightarrow> msalCred \<Rightarrow> ('w, 'app) act"
  AcquireTokenByCredential :: "'app \<Rightarrow> string list \<Rightarrow> ('w, authResult) act"
  GetSecret :: "authResult \<Rightarrow> string \<Rightarrow> string \<Rightarrow> ('w, string option) act"
  X509KeyPair :: "string \<Rightarrow> string \<Rightarrow> string res"
  NewCredFromCert :: "string \<Rightarrow> string \<Rightarrow> msalCred res"
  pem_Decode :: "string \<Rightarrow> ((string \<times> string) \<times> string) option"

definition requiredEnv :: "environ \<Rightarrow> (string \<times> string) res" where
  "requiredEnv env =
     (let tokenFilePath = Getenv env ''AZURE_FEDERATED_TOKEN_FILE''; authority = Getenv env ''AZURE_AUTHORITY_HOST''
      in if tokenFilePath = '''' \<or> authority = ''''
         then Err (ErrorString (''required environment variables not set, AZURE_FEDERATED_TOKEN_FILE: '' @ tokenFilePath @
                    '', AZURE_AUTHORITY_HOST: '' @ authority))
         else Ok (tokenFilePath, authority))"

definition tokenURL :: "string \<Rightarrow> string \<Rightarrow> string" where
  "tokenURL authority tenant = authority @ tenant @ ''/oauth2/token''"

text \<open>A nil configuration is \<open>None\<close>; its first use is \<open>config.TenantID\<close>.\<close>

definition NewAuthorizer ::
  "('w, 'app) msal \<Rightarrow> environ \<Rightarrow> Config option \<Rightarrow> ResourceManagerEndpoint \<Rightarrow> ('w, authResult) act" where
  "NewAuthorizer ms env config endpoint =
     act_bind (act_return (requiredEnv env)) (\<lambda>(tokenFilePath, authority).
     act_bind (act_return (Deref config)) (\<lambda>cfg w.
       (case confidential_New ms (tokenURL authority (TenantID cfg)) (UserAssignedIdentityID cfg)
               (FromAssertionFile tokenFilePath) w of
          (Err e, w') \<Rightarrow> (Err (Wrapped ''failed to create confidential client app: '' e), w')
        | (Panic m, w') \<Rightarrow> (Panic m, w')
        | (Ok app, w') \<Rightarrow>
            (case AcquireTokenByCredential ms app [TrimSuffix endpoint ''/'' @ ''/.default''] w' of
               (Err e, w'') \<Rightarrow> (Err (Wrapped ''failed to acquire token: '' e), w'')
             | r \<Rightarrow> r))))"

text \<open>\<open>splitPEMBlock\<close>: blocks are decoded until none is left; other types are dropped.\<close>

partial_function (option) splitPEMBlock ::
  "(string \<Rightarrow> ((string \<times> string) \<times> string) option) \<Rightarrow> string \<Rightarrow> string \<Rightarrow> string \<Rightarrow> (string \<times> string) option" where
  "splitPEMBlock decode pemBlock certPEM keyPEM =
     (case decode pemBlock of
        None \<Rightarrow> Some (certPEM, keyPEM)
      | Some ((type, text), rest) \<Rightarrow>
          if type = ''CERTIFICATE'' then splitPEMBlock decode rest (certPEM @ text) keyPEM
          else if type = ''PRIVATE KEY'' then splitPEMBlock decode rest certPEM (keyPEM @ text)
          else splitPEMBlock decode rest certPEM keyPEM)"

definition getE2ETestingCert :: "('w, 'app) msal \<Rightarrow> environ \<Rightarrow> authResult \<Rightarrow> ('w, string option) act" where
  "getE2ETestingCert ms env authorizer w =
     (let version = Getenv env ''AKS_E2E_OVERLAY_RESOURCE_VERSION''
      in if version = '''' then (Err (ErrorString ''E2E overlay resource version is not set''), w)
         else GetSecret ms authorizer (''https://hcp'' @ version @ ''.vault.azure.net/'') ''e2e-arm-client-cert'' w)"

definition certCredential :: "('w, 'app) msal \<Rightarrow> string \<times> string \<Rightarrow> msalCred res" where
  "certCredential ms pems =
     (let (certPEM, keyPEM) = pems
      in if length certPEM = 0 then Err (ErrorString ''malformed cert pem format'')
         else res_bind (X509KeyPair ms certPEM keyPEM) (\<lambda>cert. NewCredFromCert ms cert keyPEM))"

definition e2eCredential :: "('w, 'app) msal \<Rightarrow> environ \<Rightarrow> authResult \<Rightarrow> 'w \<Rightarrow> (msalCred res \<times> 'w) option" where
  "e2eCredential ms env authorizer w =
     (case getE2ETestingCert ms env authorizer w of
        (Err e, w') \<Rightarrow> Some (Err e, w')
      | (Panic m, w') \<Rightarrow> Some (Panic m, w')
      | (Ok cert, w') \<Rightarrow>
          map_option (\<lambda>pems. (certCredential ms pems, w')) (splitPEMBlock (pem_Decode ms) (FromPtr '''' cert) [] []))"

definition NewCredential ::
  "('w, 'app) msal \<Rightarrow> environ \<Rightarrow> Config option \<Rightarrow> authResult \<Rightarrow> 'w
     \<Rightarrow> ((ClientAssertionCredential \<times> 'app) res \<times> 'w) option" where
  "NewCredential ms env config authorizer w =
     (case config of
        None \<Rightarrow> Some (Err (ErrorString ''failed to create credential, nil config provided''), w)
      | Some cfg \<Rightarrow>
          (case requiredEnv env of
             Err e \<Rightarrow> Some (Err e, w)
           | Panic m \<Rightarrow> Some (Panic m, w)
           | Ok (tokenFilePath, authority) \<Rightarrow>
               (let c = \<lparr>assertion = '''', file = tokenFilePath, lastRead = zeroTime\<rparr>
                in map_option (\<lambda>(r, w').
                     (case r of
                        Err e \<Rightarrow> (Err e, w')
                      | Panic m \<Rightarrow> (Panic m, w')
                      | Ok cred \<Rightarrow>
                          (case confidential_New ms (tokenURL authority (TenantID cfg)) (UserAssignedIdentityID cfg) cred w' of
                             (Err e, w'') \<Rightarrow> (Err (Wrapped ''failed to create confidential client app: '' e), w'')
                           | (Panic m, w'') \<Rightarrow> (Panic m, w'')
                           | (Ok app, w'') \<Rightarrow> (Ok (c, app), w''))))
                   (if WithDefaultBool env ''E2E_TEST_MODE'' False
                    then e2eCredential ms env authorizer w
                    else Some (Ok (FromAssertionFile tokenFilePath), w)))))"

definition GetToken :: "('w, 'app) msal \<Rightarrow> 'app \<Rightarrow> string list \<Rightarrow> ('w, string \<times> int) act" where
  "GetToken ms app scopes =
     act_bind (AcquireTokenByCredential ms app scopes) (\<lambda>token. act_return (Ok (accessToken token, expiresOn token)))"

subsection \<open>Configurations that pass\<close>

lemma TrimSpace_ends:
  "TrimSpace s \<noteq> [] \<Longrightarrow> \<not> is_space (hd (TrimSpace s)) \<and> \<not> is_space (last (TrimSpace s))"
proof -
  assume ne: "TrimSpace s \<noteq> []"
  let ?d = "dropWhile is_space s" let ?r = "dropWhile is_space (rev ?d)"
  have r: "?r \<noteq> []" using ne by (simp add: TrimSpace_def TrimFunc_def)
  then have "\<not> is_space (hd ?r)" by (rule hd_dropWhile)
  then have l: "\<not> is_space (last (TrimSpace s))" using r by (simp add: TrimSpace_def TrimFunc_def last_rev)
  obtain u where u: "rev ?d = u @ ?r" using takeWhile_dropWhile_id [of is_space "rev ?d"] by metis
  then have "?d = rev ?r @ rev u" by (metis rev_append rev_rev_ident)
  then have "hd ?d = hd (rev ?r)" using r by (metis hd_append2 rev_is_Nil_conv)
  moreover have "?d \<noteq> []" using r by (metis dropWhile.simps(1) rev.simps(1))
  ultimately have "\<not> is_space (hd (TrimSpace s))"
    using hd_dropWhile [of is_space s] by (simp add: TrimSpace_def TrimFunc_def)
  with l show ?thesis by simp
qed

lemma BuildAzureConfig_Ok_iff:
  "BuildAzureConfig env = Ok cfg \<longleftrightarrow>
     (let dyn = Getenv env ''AZURE_ENABLE_DYNAMIC_SKU_CACHE'' in
      (dyn = '''' \<or> ParseBool dyn \<noteq> None) \<and>
      cfg = Config_TrimSpace (BaseVars env (zeroConfig\<lparr>EnableDynamicSKUCache := dyn \<noteq> '''' \<and> the (ParseBool dyn)\<rparr>)) \<and>
      SubscriptionID cfg \<noteq> '''' \<and> TenantID cfg \<noteq> '''' \<and> NodeResourceGroup cfg \<noteq> '''')"
proof -
  have sw: "(BaseVars env c)\<lparr>EnableDynamicSKUCache := b\<rparr> = BaseVars env (c\<lparr>EnableDynamicSKUCache := b\<rparr>)" for c b
    by (simp add: BaseVars_def)
  have v: "res_bind (validate c) (\<lambda>_. Ok c) = Ok cfg \<longleftrightarrow>
      c = cfg \<and> SubscriptionID cfg \<noteq> '''' \<and> TenantID cfg \<noteq> '''' \<and> NodeResourceGroup cfg \<noteq> ''''" for c
    by (auto simp: validate_def)
  show ?thesis
    by (cases "ParseBool (Getenv env ''AZURE_ENABLE_DYNAMIC_SKU_CACHE'')")
      (auto simp: BuildAzureConfig_def Let_def sw v dynamicSKUCacheDefault_def)
qed

text \<open>
  C31. A configuration that \<open>BuildAzureConfig\<close> returns has a subscription, a tenant and a node
  resource group, none of them with blanks at its ends; the location and the client ID are
  passed on exactly as they are in the environment, blanks included, and may be empty.
\<close>

theorem built_config_invariant:
  assumes "BuildAzureConfig env = Ok cfg"
  shows "(\<forall>s \<in> {SubscriptionID cfg, TenantID cfg, NodeResourceGroup cfg}.
       s \<noteq> [] \<and> \<not> is_space (hd s) \<and> \<not> is_space (last s)) \<and>
    Location cfg = Getenv env ''LOCATION'' \<and> UserAssignedIdentityID cfg = Getenv env ''AZURE_CLIENT_ID''"
proof -
  define c where "c = BaseVars env (zeroConfig\<lparr>EnableDynamicSKUCache :=
      Getenv env ''AZURE_ENABLE_DYNAMIC_SKU_CACHE'' \<noteq> '''' \<and> the (ParseBool (Getenv env ''AZURE_ENABLE_DYNAMIC_SKU_CACHE''))\<rparr>)"
  have cfg: "cfg = Config_TrimSpace c" "SubscriptionID cfg \<noteq> ''''" "TenantID cfg \<noteq> ''''" "NodeResourceGroup cfg \<noteq> ''''"
    using assms unfolding BuildAzureConfig_Ok_iff Let_def c_def by blast+
  have t: "SubscriptionID cfg = TrimSpace (SubscriptionID c)" "TenantID cfg = TrimSpace (TenantID c)"
    "NodeResourceGroup cfg = TrimSpace (NodeResourceGroup c)" "Location cfg = Location c"
    "UserAssignedIdentityID cfg = UserAssignedIdentityID c"
    using cfg(1) by (simp_all add: Config_TrimSpace_def)
  have "Location c = Getenv env ''LOCATION''" "UserAssignedIdentityID c = Getenv env ''AZURE_CLIENT_ID''"
    by (simp_all add: c_def BaseVars_def)
  then show ?thesis
    using cfg(2-4) TrimSpace_ends [of "SubscriptionID c"] TrimSpace_ends [of "TenantID c"] TrimSpace_ends [of "NodeResourceGroup c"]
    unfolding t by simp
qed

definition sampleEnv :: environ where
  "sampleEnv = [''LOCATION'' \<mapsto> '' eastus'', ''ARM_SUBSCRIPTION_ID'' \<mapsto> '' s1 '', ''AZURE_TENANT_ID'' \<mapsto> ''t1'',
     ''AZURE_NODE_RESOURCE_GROUP'' \<mapsto> ''MC_rg'']"

theorem built_config_invariant_witness:
  "\<exists>cfg. BuildAzureConfig sampleEnv = Ok cfg \<and> SubscriptionID cfg = ''s1'' \<and> Location cfg = '' eastus''"
proof -
  obtain cfg where cfg: "BuildAzureConfig sampleEnv = Ok cfg" "SubscriptionID cfg = ''s1''"
    by (simp add: BuildAzureConfig_def BaseVars_def Getenv_def sampleEnv_def zeroConfig_def Config_TrimSpace_def validate_def
        TrimSpace_def TrimFunc_def is_space_def)
  have "Location cfg = Getenv sampleEnv ''LOCATION''" using built_config_invariant [OF cfg(1)] by blast
  then show ?thesis using cfg by (simp add: Getenv_def sampleEnv_def)
qed

subsection \<open>How old a token can be\<close>

text \<open>
  \<open>disk t\<close> is the content of the token file at time \<open>t\<close>. The credential is asked for its
  assertion at the times \<open>ts\<close>.
\<close>

fun askAt :: "(int \<Rightarrow> string option) \<Rightarrow> ClientAssertionCredential \<Rightarrow> int list \<Rightarrow> (int \<times> string res) list" where
  "askAt disk c [] = []"
| "askAt disk c (t # ts) =
     (case cred_readJWTFromFS c \<lparr>files = (\<lambda>f. if f = file c then disk t else None), fs_now = t\<rparr> of
        (r, c', w') \<Rightarrow> (t, r) # askAt disk c' ts)"

text \<open>One question: the remembered assertion while it is young, else the file.\<close>

lemma readJWT_young:
  "\<not> lastRead c + tokenRefresh < fs_now w \<Longrightarrow> cred_readJWTFromFS c w = (Ok (assertion c), c, w)"
  by (simp add: cred_readJWTFromFS_def)

lemma readJWT_old:
  assumes "lastRead c + tokenRefresh < fs_now w"
  shows "cred_readJWTFromFS c w =
    (case files w (file c) of
       None \<Rightarrow> (Err (ErrorString (''open '' @ file c @ '': no such file or directory'')), c, w)
     | Some content \<Rightarrow> (Ok content, c\<lparr>assertion := content, lastRead := fs_now w\<rparr>, w))"
  using assms by (simp add: cred_readJWTFromFS_def ReadFile_def split: option.splits)

lemma askAt_fresh:
  assumes "sorted (lastRead c # ts)" "lastRead c = zeroTime \<and> (\<forall>t \<in> set ts. zeroTime + tokenRefresh < t) \<or> disk (lastRead c) = Some (assertion c)"
    and "(t, Ok s) \<in> set (askAt disk c ts)"
  shows "\<exists>t0. t - tokenRefresh \<le> t0 \<and> t0 \<le> t \<and> disk t0 = Some s"
  using assms
proof (induction ts arbitrary: c)
  case (Cons u ts)
  let ?w = "\<lparr>files = (\<lambda>f. if f = file c then disk u else None), fs_now = u\<rparr>"
  have u: "lastRead c \<le> u" "sorted (u # ts)" using Cons.prems(1) by auto
  show ?case
  proof (cases "lastRead c + tokenRefresh < u")
    case False
    note r = readJWT_young [of c ?w, simplified, OF False]
    have d: "disk (lastRead c) = Some (assertion c)" using Cons.prems(2) False by auto
    show ?thesis
    proof (cases "(t, Ok s) = (u, Ok (assertion c))")
      case True
      then show ?thesis using d u False by (intro exI [of _ "lastRead c"]) auto
    next
      case neq: False
      then have "(t, Ok s) \<in> set (askAt disk c ts)" using Cons.prems(3) r by auto
      then show ?thesis using Cons.prems(1) d by (intro Cons.IH [of c]) auto
    qed
  next
    case True
    show ?thesis
    proof (cases "disk u")
      case None
      then have "(t, Ok s) \<in> set (askAt disk c ts)" using Cons.prems(3) readJWT_old [of c ?w] True by auto
      then show ?thesis using Cons.prems(1,2) by (intro Cons.IH [of c]) auto
    next
      case (Some content)
      let ?c = "c\<lparr>assertion := content, lastRead := u\<rparr>"
      have r: "cred_readJWTFromFS c ?w = (Ok content, ?c, ?w)" using readJWT_old [of c ?w] True Some by simp
      show ?thesis
      proof (cases "(t, Ok s) = (u, Ok content)")
        case eq: True
        then show ?thesis using Some by (intro exI [of _ u]) (auto simp: tokenRefresh_def)
      next
        case neq: False
        then have "(t, Ok s) \<in> set (askAt disk ?c ts)" using Cons.prems(3) r by auto
        then show ?thesis using u(2) Some by (intro Cons.IH [of ?c]) auto
      qed
    qed
  qed
qed simp

text \<open>
  C32. Freshness of the federated token. However often the credential is asked, and however the
  token file changes or disappears in between, every assertion it returns is the content the
  file had at some moment within the last five minutes.
\<close>

theorem assertion_at_most_five_minutes_old:
  assumes "sorted ts" "\<forall>t \<in> set ts. zeroTime + tokenRefresh < t"
    and "(t, Ok s) \<in> set (askAt disk \<lparr>assertion = '''', file = path, lastRead = zeroTime\<rparr> ts)"
  shows "\<exists>t0. t - 5 * 60 * 1000000000 \<le> t0 \<and> t0 \<le> t \<and> disk t0 = Some s"
proof -
  have "\<forall>t \<in> set ts. zeroTime \<le> t" using assms(2) by (force simp: tokenRefresh_def)
  then show ?thesis
    using assms askAt_fresh [of "\<lparr>assertion = '''', file = path, lastRead = zeroTime\<rparr>" ts disk t s]
    by (simp add: tokenRefresh_def)
qed

theorem assertion_at_most_five_minutes_old_witness:
  "\<exists>t0. 100000000000 - 5 * 60 * 1000000000 \<le> t0 \<and> t0 \<le> 100000000000 \<and>
     (\<lambda>t :: int. if t < 50 then Some ''old'' else Some ''new'') t0 = Some ''old''"
proof -
  let ?disk = "\<lambda>t :: int. if t < 50 then Some ''old'' else Some ''new''"
  let ?ts = "[0, 100000000000]"
  have "(100000000000, Ok ''old'') \<in> set (askAt ?disk \<lparr>assertion = '''', file = ''f'', lastRead = zeroTime\<rparr> ?ts)"
    by (simp add: cred_readJWTFromFS_def ReadFile_def zeroTime_def tokenRefresh_def)
  then show ?thesis
    by (intro assertion_at_most_five_minutes_old [of ?ts]) (simp_all add: zeroTime_def tokenRefresh_def)
qed

end
