(* ===== verification/TypeListing.thy ===== *)
theory TypeListing
  imports TypeLabels
begin

text \<open>
  The instance type provider as a whole (\<open>pkg/providers/instancetype/instancetypes.go\<close>): which
  types \<open>List\<close> returns for what the service lists, the prices and the recently failed offerings,
  and when it asks the service again.
\<close>

subsection \<open>Collecting SKUs\<close>

lemma keys_collect: "fst ` set (collect_skus ss m) = fst ` set m \<union> GetName ` set ss"
  by (induction ss arbitrary: m) (simp_all add: ITProvider_filter_def dom_update)

lemma distinct_collect: "distinct (map fst m) \<Longrightarrow> distinct (map fst (collect_skus ss m))"
  by (induction ss arbitrary: m) (simp_all add: ITProvider_filter_def distinct_update)

lemma lookup_collect:
  "map_of (collect_skus ss m) k =
     (case find (\<lambda>s. GetName s = k) (rev ss) of None \<Rightarrow> map_of m k | Some s \<Rightarrow> Some s)"
  by (induction ss arbitrary: m) (auto simp: ITProvider_filter_def update_conv' find_append split: option.splits)

lemma collect_named:
  assumes "(k, s) \<in> set (collect_skus ss [])"
  shows "s \<in> set ss" "GetName s = k"
proof -
  have "map_of (collect_skus ss []) k = Some s"
    using assms distinct_collect [of "[]" ss] by (intro map_of_is_SomeI) simp_all
  then have "find (\<lambda>s. GetName s = k) (rev ss) = Some s" by (auto simp: lookup_collect split: option.splits)
  then obtain i where i: "i < length (rev ss)" "s = rev ss ! i" "GetName s = k" unfolding find_Some_iff by blast
  then have "s \<in> set (rev ss)" by (simp only: nth_mem)
  then show "s \<in> set ss" "GetName s = k" using i(3) by simp_all
qed

subsection \<open>Building a type never fails for a SKU with a name and a size\<close>

lemma podCount_None [simp]: "podCount sku None = 110"
  by (simp add: podCount_def)

lemma kubeReserved_total: "\<exists>r. kubeReservedResources c (whole 110) None = Ok r"
proof -
  have "Quantity_Value (whole 110) = 110" by (intro Value_whole) simp_all
  moreover have "int64_of 1465 = 1465" by (intro int64_of_id) simp_all
  moreover have "MustParse (show_int 1465 @ ''Mi'') = Ok (whole (1465 * 2 ^ 20))" by (rule MustParse_Mi) simp_all
  ultimately show ?thesis by (simp add: kubeReservedResources_def MustParse_defaults Let_def)
qed

lemma NewInstanceType_total:
  assumes "sku_Size sku = Some sz"
  shows "\<exists>t. NewInstanceType sku None reg ofs = Ok t \<and> it_Name t = GetName sku \<and> it_Offerings t = ofs"
proof -
  obtain m where m: "memory sku = Ok m" using memory_total by blast
  obtain r where r: "kubeReservedResources (whole (fst (VCPU sku))) (whole 110) None = Ok r" using kubeReserved_total by blast
  note rs = computeRequirements_labelled [OF cpu_eq m gpuNvidiaCount_eq assms, of ofs reg]
  show ?thesis
    using m r rs
    by (simp add: NewInstanceType_def computeCapacity_def cpu_eq gpuNvidiaCount_eq pods_eq systemReservedResources_def
        evictionThreshold_def MustParse_defaults Let_def)
qed

definition offeringOf :: "int \<Rightarrow> ITProvider \<Rightarrow> string \<Rightarrow> Offering" where
  "offeringOf now p name =
     \<lparr>CapacityType = PriorityRegular, Zone = '''', Price = fst (OnDemandPrice (itp_pricing p) name),
      Available = snd (OnDemandPrice (itp_pricing p) name)\<rparr>"

abbreviation offered :: "int \<Rightarrow> ITProvider \<Rightarrow> string \<Rightarrow> bool" where
  "offered now p name \<equiv> \<not> IsUnavailable now (itp_unavailable p) name (itp_region p) PriorityRegular"

lemma createOfferings_eq:
  "sku_Name sku = Some name \<Longrightarrow>
   createOfferings now p sku = Ok (if offered now p name then [offeringOf now p name] else [])"
  by (simp add: createOfferings_def offeringOf_def split: prod.splits)

lemma buildTypes_total:
  assumes "\<forall>s \<in> set skus. sku_Name s \<noteq> None \<and> sku_Size s \<noteq> None"
  shows "\<exists>ts. buildTypes now p None skus = Ok ts \<and>
    map it_Name ts = filter (offered now p) (map GetName skus) \<and>
    (\<forall>t \<in> set ts. it_Offerings t = [offeringOf now p (it_Name t)])"
  using assms
proof (induction skus)
  case (Cons s skus)
  then obtain ts where ts: "buildTypes now p None skus = Ok ts" "map it_Name ts = filter (offered now p) (map GetName skus)"
    "\<forall>t \<in> set ts. it_Offerings t = [offeringOf now p (it_Name t)]" by auto
  obtain name sz where s: "sku_Name s = Some name" "sku_Size s = Some sz" using Cons.prems by auto
  let ?ofs = "if offered now p name then [offeringOf now p name] else []"
  obtain t where t: "NewInstanceType s None (itp_region p) ?ofs = Ok t" "it_Name t = GetName s" "it_Offerings t = ?ofs"
    using NewInstanceType_total [OF s(2)] by blast
  have "GetName s = name" using s(1) by (simp add: GetName_def)
  then show ?case
    using ts t createOfferings_eq [OF s(1), of now p] by (cases "offered now p name") simp_all
qed simp

subsection \<open>What is listed, and how often the service is asked\<close>

lemma getInstanceTypes_miss:
  assumes "cache_Get now (itp_cache p) InstanceTypesCacheKey = None"
    and "NewCache [WithLocation (itp_region p), WithResourceClient cl] w = Some (Ok data, w')"
  shows "getInstanceTypes cl now p w =
    (let types = collect_skus (Filter_skus data [ResourceTypeFilter ''virtualMachines'']) []
     in Some (Ok types, p\<lparr>itp_cache := SetDefault now (itp_cache p) InstanceTypesCacheKey types\<rparr>, w'))"
  using assms by (simp add: getInstanceTypes_def Let_def)

text \<open>However the map of collected SKUs is visited, each name comes up once, with a SKU of that name.\<close>

lemma visited_skus:
  assumes "\<And>m. mset (visit m) = mset m"
    and m_def: "m = collect_skus vms []"
  shows "set (map snd (visit m)) \<subseteq> set vms"
    and "map GetName (map snd (visit m)) = map fst (visit m)"
    and "set (map fst (visit m)) = GetName ` set vms"
    and "distinct (map fst (visit m))"
proof -
  have v: "set (visit m) = set m" using assms(1) [of m] by (metis set_mset_mset)
  show "set (map snd (visit m)) \<subseteq> set vms" using v collect_named(1) [of _ _ vms] by (auto simp: m_def)
  show "map GetName (map snd (visit m)) = map fst (visit m)" using collect_named(2) [of _ _ vms] v unfolding m_def by auto
  show "set (map fst (visit m)) = GetName ` set vms" using v by (simp add: m_def keys_collect)
  have "mset (map fst (visit m)) = mset (map fst m)" using assms(1) [of m] by simp
  then show "distinct (map fst (visit m))"
    using distinct_collect [of "[]" vms] mset_eq_imp_distinct_iff [of "map fst (visit m)" "map fst m"] by (simp add: m_def)
qed

text \<open>
  C20. Listing. When the service's pages end, \<open>List\<close> ends and returns one type for each name of a
  virtual machine SKU on any page, except names whose regular offering in the region is marked
  unavailable; the order the runtime visits the map in does not matter. Each type has one
  offering, at the known on-demand price, and available exactly if a price is known.
\<close>

theorem List_returns_available_types:
  assumes "cache_Get now (itp_cache p) InstanceTypesCacheKey = None"
    and "fst cl (''location eq '' @ [CHR 0x27] @ itp_region p @ [CHR 0x27]) '''' w = (Ok \<lparr>it_i = 0, it_page = page\<rparr>, w1)"
    and "\<not> IsEmpty page" "page_chain (snd cl) page w1 pages w2"
    and "\<forall>s \<in> set (concat (map page_Values (page # pages))). sku_Name s \<noteq> None \<and> sku_Size s \<noteq> None"
    and "\<And>m. mset (visit m) = mset m"
  shows "\<exists>ts p'. ITProvider_List cl visit now p None w = Some (Ok ts, p', w2) \<and> distinct (map it_Name ts) \<and>
    it_Name ` set ts =
      {GetName s | s. s \<in> set (concat (map page_Values (page # pages))) \<and> IsResourceType s ''virtualMachines'' \<and>
         \<not> IsUnavailable now (itp_unavailable p) (GetName s) (itp_region p) PriorityRegular} \<and>
    (\<forall>t \<in> set ts. it_Offerings t = [offeringOf now p (it_Name t)])"
proof -
  define vms where "vms = Filter_skus (concat (map page_Values (page # pages))) [ResourceTypeFilter ''virtualMachines'']"
  define m where "m = collect_skus vms []"
  let ?p = "p\<lparr>itp_cache := SetDefault now (itp_cache p) InstanceTypesCacheKey m\<rparr>"
  have vms: "set vms = {s \<in> set (concat (map page_Values (page # pages))). IsResourceType s ''virtualMachines''}"
    by (simp only: vms_def Filter_skus_def All_conditions_def ResourceTypeFilter_def list.pred_inject set_filter simp_thms)
  have data: "NewCache [WithLocation (itp_region p), WithResourceClient cl] w =
      Some (Ok (concat (map page_Values (page # pages))), w2)"
    unfolding NewCache_location by (rule iterate_chain [OF assms(2-4)])
  have get: "getInstanceTypes cl now p w = Some (Ok m, ?p, w2)"
    unfolding getInstanceTypes_miss [OF assms(1) data] Let_def vms_def [symmetric] m_def ..
  note visited = visited_skus [OF assms(6) m_def]
  have ok: "\<forall>s \<in> set (map snd (visit m)). sku_Name s \<noteq> None \<and> sku_Size s \<noteq> None"
    using visited(1) assms(5) unfolding vms by blast
  obtain ts where ts: "buildTypes now ?p None (map snd (visit m)) = Ok ts"
    "map it_Name ts = filter (offered now ?p) (map GetName (map snd (visit m)))"
    "\<forall>t \<in> set ts. it_Offerings t = [offeringOf now ?p (it_Name t)]"
    using buildTypes_total [OF ok] by blast
  have off: "offered now ?p = offered now p" "offeringOf now ?p = offeringOf now p" by (simp_all add: offeringOf_def fun_eq_iff)
  have "it_Name ` set ts = set (filter (offered now p) (map fst (visit m)))"
    using ts(2) by (simp only: set_map [symmetric] visited(2) off)
  then have "it_Name ` set ts = {n \<in> GetName ` set vms. offered now p n}" using visited(3) by auto
  moreover have "distinct (map it_Name ts)" using visited(4) by (simp only: ts(2) visited(2) distinct_filter)
  moreover have "ITProvider_List cl visit now p None w = Some (Ok ts, ?p, w2)"
    by (simp add: ITProvider_List_def get ts(1))
  moreover have "{n \<in> GetName ` {s \<in> D. P s}. Q n} = {GetName s | s. s \<in> D \<and> P s \<and> Q (GetName s)}" for D P Q
    by blast
  ultimately show ?thesis using ts(3) unfolding off vms by (simp only:) blast
qed

definition noMore :: ResourceSkusResult where
  "noMore = \<lparr>rsr_Value = None, rsr_NextLink = None\<rparr>"

definition onePage :: ResourceSkusResult where
  "onePage = \<lparr>rsr_Value = Some [a100_sku], rsr_NextLink = None\<rparr>"

definition onePageClient :: "unit ResourceClient" where
  "onePageClient = ((\<lambda>_ _ w. (Ok \<lparr>it_i = 0, it_page = onePage\<rparr>, w)), (\<lambda>_ w. (Ok noMore, w)))"

definition freshProvider :: ITProvider where
  "freshProvider =
     NewITProvider ''eastus'' (New InstanceTypesCacheTTL)
       (NewPricingProvider (Map.empty(''eastus'' \<mapsto> [(''Standard_NC24ads_A100_v4'', 3)]), 0) ''eastus'') NewUnavailableOfferings"

lemma onePage_facts:
  "cache_Get now (itp_cache freshProvider) InstanceTypesCacheKey = None" "\<not> IsEmpty onePage"
  "page_chain (snd onePageClient) onePage () [] ()" "page_Values onePage = [a100_sku]"
  by (auto simp: freshProvider_def NewITProvider_def New_def newCache_def cache_Get_def onePage_def noMore_def IsEmpty_def
      page_Values_def onePageClient_def hasNextLink_def intro!: chain_end)

theorem List_returns_available_types_witness:
  "\<exists>t p'. ITProvider_List onePageClient (\<lambda>m. m) 0 freshProvider None () = Some (Ok [t], p', ()) \<and>
     it_Name t = ''Standard_NC24ads_A100_v4'' \<and> map Price (it_Offerings t) = [3]"
proof -
  have reg: "itp_region freshProvider = ''eastus''" by (simp add: freshProvider_def NewITProvider_def)
  have ok: "\<forall>s \<in> set (concat (map page_Values [onePage])). sku_Name s \<noteq> None \<and> sku_Size s \<noteq> None"
    by (simp add: onePage_facts a100_sku_def)
  have vm: "IsResourceType a100_sku ''virtualMachines''" "GetName a100_sku = ''Standard_NC24ads_A100_v4''"
    by (simp_all add: IsResourceType_def a100_sku_def EqualFold_def GetName_def)
  have un: "\<not> IsUnavailable 0 (itp_unavailable freshProvider) n r c" for n r c
    by (simp add: freshProvider_def NewITProvider_def NewUnavailableOfferings_def IsUnavailable_def New_def newCache_def cache_Get_def)
  have price: "offeringOf 0 freshProvider ''Standard_NC24ads_A100_v4'' = \<lparr>CapacityType = PriorityRegular, Zone = '''', Price = 3, Available = True\<rparr>"
    by (simp add: offeringOf_def freshProvider_def NewITProvider_def NewPricingProvider_def staticPricing_def OnDemandPrice_def)
  have start: "fst onePageClient (''location eq '' @ [CHR 0x27] @ itp_region freshProvider @ [CHR 0x27]) '''' () = (Ok \<lparr>it_i = 0, it_page = onePage\<rparr>, ())"
    by (simp add: onePageClient_def)
  from List_returns_available_types [OF onePage_facts(1) start onePage_facts(2,3) ok, of "\<lambda>m. m" 0]
  obtain ts p' where ts: "ITProvider_List onePageClient (\<lambda>m. m) 0 freshProvider None () = Some (Ok ts, p', ())"
    "distinct (map it_Name ts)" and
    names: "it_Name ` set ts =
      {GetName s | s. s \<in> set (concat (map page_Values [onePage])) \<and> IsResourceType s ''virtualMachines'' \<and>
         \<not> IsUnavailable 0 (itp_unavailable freshProvider) (GetName s) (itp_region freshProvider) PriorityRegular}" and
    ofs: "\<forall>t \<in> set ts. it_Offerings t = [offeringOf 0 freshProvider (it_Name t)]"
    by blast
  have "it_Name ` set ts = {''Standard_NC24ads_A100_v4''}"
    unfolding names using vm un by (simp add: onePage_facts(4))
  note ts = ts this ofs
  have "length ts = 1" using ts(2,3) distinct_card [of "map it_Name ts"] by simp
  then obtain t where "ts = [t]" by (cases ts) auto
  with ts price show ?thesis by auto
qed

text \<open>
  What the SKU service answers when it is asked for the virtual machines of a region: all the pages
  of the location's query are read, and the virtual machine SKUs on them are collected by name.
\<close>

definition serviceAnswer :: "'w ResourceClient \<Rightarrow> string \<Rightarrow> 'w \<Rightarrow> ((string \<times> SKU) list res \<times> 'w) option" where
  "serviceAnswer cl reg w =
     map_option (\<lambda>(r, w'). (map_res (\<lambda>data. collect_skus (filter (\<lambda>s. IsResourceType s ''virtualMachines'') data) []) r, w'))
       (iterate cl (''location eq '' @ [CHR 0x27] @ reg @ [CHR 0x27]) '''' w)"

lemma getInstanceTypes_asks:
  assumes "cache_Get now (itp_cache p) InstanceTypesCacheKey = None"
  shows "getInstanceTypes cl now p w =
    (case serviceAnswer cl (itp_region p) w of
       None \<Rightarrow> None
     | Some (Ok skus, w') \<Rightarrow> Some (Ok skus, p\<lparr>itp_cache := SetDefault now (itp_cache p) InstanceTypesCacheKey skus\<rparr>, w')
     | Some (Err e, w') \<Rightarrow> Some (Err (Wrapped ''fetching SKUs using skewer, '' e), p, w')
     | Some (Panic m, w') \<Rightarrow> Some (Panic m, p, w'))"
proof -
  have "Filter_skus data [ResourceTypeFilter ''virtualMachines''] = filter (\<lambda>s. IsResourceType s ''virtualMachines'') data" for data
    by (simp add: Filter_skus_def All_conditions_def ResourceTypeFilter_def)
  then show ?thesis
    using assms by (simp add: getInstanceTypes_def serviceAnswer_def NewCache_location Let_def split: option.splits prod.splits res.splits)
qed

text \<open>
  C21. The SKUs are fetched once per 23 hours. A call at time \<open>t\<close> with nothing in the cache returns what the
  service answers. Every call until \<open>t + 23h\<close> returns the same SKUs without asking any service,
  sweeps of the cache included. A call after that asks the service again: it reads the pages for the
  location and returns and stores what is on them, and when the service fails it returns the error and stores
  nothing, so that the call after it asks again.
\<close>

theorem skus_fetched_once_per_ttl:
  assumes "cache_ok InstanceTypesCacheTTL (itp_cache p)" "0 \<le> t"
    and "cache_Get t (itp_cache p) InstanceTypesCacheKey = None" "getInstanceTypes cl t p w = Some (Ok skus, p', w')"
    and "t \<le> now"
  shows "serviceAnswer cl (itp_region p) w = Some (Ok skus, w') \<and>
    (if now \<le> t + InstanceTypesCacheTTL
     then getInstanceTypes cl' now p' v = Some (Ok skus, p', v) \<and>
          getInstanceTypes cl' now (p'\<lparr>itp_cache := DeleteExpired now (itp_cache p')\<rparr>) v =
            Some (Ok skus, p'\<lparr>itp_cache := DeleteExpired now (itp_cache p')\<rparr>, v)
     else getInstanceTypes cl' now p' v =
            (case serviceAnswer cl' (itp_region p) v of
               None \<Rightarrow> None
             | Some (Ok skus', v') \<Rightarrow>
                 Some (Ok skus', p'\<lparr>itp_cache := SetDefault now (itp_cache p') InstanceTypesCacheKey skus'\<rparr>, v')
             | Some (Err e, v') \<Rightarrow> Some (Err (Wrapped ''fetching SKUs using skewer, '' e), p', v')
             | Some (Panic m, v') \<Rightarrow> Some (Panic m, p', v')))"
proof -
  have first: "serviceAnswer cl (itp_region p) w = Some (Ok skus, w')"
    and p': "p' = p\<lparr>itp_cache := SetDefault t (itp_cache p) InstanceTypesCacheKey skus\<rparr>"
    using assms(4) unfolding getInstanceTypes_asks [OF assms(3)] by (auto split: option.splits res.splits prod.splits)
  have get: "cache_Get now (itp_cache p') InstanceTypesCacheKey = (if now \<le> t + InstanceTypesCacheTTL then Some skus else None)"
    using cache_Get_Set [OF assms(1,2)] by (simp add: p')
  show ?thesis
  proof (cases "now \<le> t + InstanceTypesCacheTTL")
    case True
    then show ?thesis using first get assms(5) by (simp add: getInstanceTypes_def cache_Get_DeleteExpired)
  next
    case False
    then have "cache_Get now (itp_cache p') InstanceTypesCacheKey = None" using get by simp
    from getInstanceTypes_asks [OF this, of cl' v] show ?thesis using first False by (simp add: p')
  qed
qed

lemma onePage_answer: "serviceAnswer onePageClient reg () = Some (Ok [(''Standard_NC24ads_A100_v4'', a100_sku)], ())"
proof -
  have "iterate onePageClient f '''' () = Some (Ok [a100_sku], ())" for f
    using iterate_chain [of onePageClient f "''''" "()" onePage "()" "[]" "()"] onePage_facts by (simp add: onePageClient_def)
  then show ?thesis by (simp add: serviceAnswer_def IsResourceType_def a100_sku_def EqualFold_def GetName_def ITProvider_filter_def)
qed

definition downClient :: "unit ResourceClient" where
  "downClient = ((\<lambda>_ _ w. (Err (ErrorString ''503''), w)), (\<lambda>_ w. (Err (ErrorString ''503''), w)))"

text \<open>One hour after a fetch a failing service is not noticed, a day after it is.\<close>

theorem skus_fetched_once_per_ttl_witness:
  "\<exists>p'. getInstanceTypes onePageClient 0 freshProvider () = Some (Ok [(''Standard_NC24ads_A100_v4'', a100_sku)], p', ()) \<and>
     getInstanceTypes downClient (3600 * 1000000000) p' () = Some (Ok [(''Standard_NC24ads_A100_v4'', a100_sku)], p', ()) \<and>
     (\<exists>e. getInstanceTypes downClient (24 * 3600 * 1000000000) p' () = Some (Err e, p', ()))"
proof -
  have ok: "cache_ok InstanceTypesCacheTTL (itp_cache freshProvider)"
    by (simp add: cache_ok_def freshProvider_def NewITProvider_def New_def newCache_def InstanceTypesCacheTTL_def)
  have down: "\<exists>e. serviceAnswer downClient reg () = Some (Err e, ())" for reg
    by (simp add: serviceAnswer_def iterate_def downClient_def)
  obtain p' where g: "getInstanceTypes onePageClient 0 freshProvider () = Some (Ok [(''Standard_NC24ads_A100_v4'', a100_sku)], p', ())"
    by (simp add: getInstanceTypes_asks [OF onePage_facts(1)] onePage_answer)
  note once = skus_fetched_once_per_ttl [OF ok order_refl onePage_facts(1) g]
  have "getInstanceTypes downClient (3600 * 1000000000) p' () = Some (Ok [(''Standard_NC24ads_A100_v4'', a100_sku)], p', ())"
    using once [of "3600 * 1000000000" downClient "()"] by (simp add: InstanceTypesCacheTTL_def)
  moreover have "\<exists>e. getInstanceTypes downClient (24 * 3600 * 1000000000) p' () = Some (Err e, p', ())"
    using once [of "24 * 3600 * 1000000000" downClient "()"] down [of "itp_region freshProvider"]
    by (auto simp: InstanceTypesCacheTTL_def)
  ultimately show ?thesis using g by blast
qed

end
