(* ===== verification/PriceTables.thy ===== *)
theory PriceTables
  imports GoPrelude
begin

text \<open>
  The form of the price lists shipped with the provider, \<open>pkg/providers/pricing/zz_generated.pricing.go\<close>.
  A table lists names and prices in millionths of a dollar, the precision the generator prints,
  in the order of the file. The lists themselves are in \<open>PriceLists1\<close> to \<open>PriceLists6\<close>, each proved
  ascending and without negative prices part by part.
\<close>

type_synonym priceTable = "(string \<times> int) list"

text \<open>Most names start with \<open>Standard_\<close>.\<close>

definition Standard :: "string \<Rightarrow> string" where
  "Standard n = ''Standard_'' @ n"

subsection \<open>Well-formed tables\<close>

text \<open>The order of \<open>sort.Strings\<close>, byte by byte.\<close>

fun str_less :: "string \<Rightarrow> string \<Rightarrow> bool" where
  "str_less xs [] = False"
| "str_less [] (y # ys) = True"
| "str_less (x # xs) (y # ys) = (if x = y then str_less xs ys else (of_char x :: nat) < of_char y)"

fun ascending :: "string list \<Rightarrow> bool" where
  "ascending (x # y # ys) = (str_less x y \<and> ascending (y # ys))"
| "ascending _ = True"

definition table_ok :: "priceTable \<Rightarrow> bool" where
  "table_ok t \<longleftrightarrow> ascending (map fst t) \<and> list_all (\<lambda>(n, p). 0 \<le> p) t \<and> t \<noteq> []"

lemma str_less_irrefl: "\<not> str_less x x"
  by (induction x) simp_all

lemma str_less_trans: "str_less x y \<Longrightarrow> str_less y z \<Longrightarrow> str_less x z"
proof (induction x y arbitrary: z rule: str_less.induct)
  case (3 x xs y ys)
  then show ?case by (cases z) (auto split: if_splits)
qed (auto elim: str_less.elims)

lemma ascending_Cons: "ascending (x # xs) \<longleftrightarrow> (xs = [] \<or> str_less x (hd xs)) \<and> ascending xs"
  by (cases xs) simp_all

lemma ascending_append:
  "ascending (xs @ ys) \<longleftrightarrow> ascending xs \<and> ascending ys \<and> (xs = [] \<or> ys = [] \<or> str_less (last xs) (hd ys))"
  by (induction xs) (auto simp: ascending_Cons)

lemma ascending_below: "ascending (x # xs) \<Longrightarrow> y \<in> set xs \<Longrightarrow> str_less x y"
proof (induction xs arbitrary: x)
  case (Cons z zs)
  then show ?case using str_less_trans [of x z y] by auto
qed simp

lemma ascending_distinct: "ascending xs \<Longrightarrow> distinct xs"
proof (induction xs)
  case (Cons x xs)
  then show ?case using ascending_below [OF Cons.prems, of x] str_less_irrefl [of x] by (auto simp: ascending_Cons)
qed simp

lemma table_ok_nonempty: "table_ok t \<Longrightarrow> t \<noteq> []"
  by (simp add: table_ok_def)

text \<open>Comparing literal names bit by bit, from the most significant bit of a character.\<close>

fun bits_less :: "bool list \<Rightarrow> bool list \<Rightarrow> bool" where
  "bits_less (x # xs) (y # ys) = (if x = y then bits_less xs ys else y)"
| "bits_less _ _ = False"

lemma horner_less:
  "length xs = length ys \<Longrightarrow> (horner_sum of_bool 2 (rev xs) :: nat) < horner_sum of_bool 2 (rev ys) \<longleftrightarrow> bits_less xs ys"
proof (induction xs ys rule: list_induct2)
  case (Cons x xs y ys)
  have "(horner_sum of_bool 2 (rev xs) :: nat) < 2 ^ length ys" "(horner_sum of_bool 2 (rev ys) :: nat) < 2 ^ length ys"
    using horner_sum_of_bool_2_less [of "rev xs"] horner_sum_of_bool_2_less [of "rev ys"] Cons.hyps by simp_all
  then show ?case using Cons by (auto simp: horner_sum_append)
qed simp

lemma str_less_Char:
  "str_less (Char a0 a1 a2 a3 a4 a5 a6 a7 # xs) (Char b0 b1 b2 b3 b4 b5 b6 b7 # ys) =
    (if a7 = b7 then if a6 = b6 then if a5 = b5 then if a4 = b4 then if a3 = b3 then if a2 = b2 then if a1 = b1 then if a0 = b0
     then str_less xs ys else b0 else b1 else b2 else b3 else b4 else b5 else b6 else b7)"
proof -
  have "((of_char (Char a0 a1 a2 a3 a4 a5 a6 a7) :: nat) < of_char (Char b0 b1 b2 b3 b4 b5 b6 b7)) =
      bits_less [a7, a6, a5, a4, a3, a2, a1, a0] [b7, b6, b5, b4, b3, b2, b1, b0]"
    using horner_less [of "[a7, a6, a5, a4, a3, a2, a1, a0]" "[b7, b6, b5, b4, b3, b2, b1, b0]"]
    by (simp only: of_char_Char rev.simps append.simps list.size)
  moreover have "(Char a0 a1 a2 a3 a4 a5 a6 a7 = Char b0 b1 b2 b3 b4 b5 b6 b7) \<longleftrightarrow>
      a7 = b7 \<and> a6 = b6 \<and> a5 = b5 \<and> a4 = b4 \<and> a3 = b3 \<and> a2 = b2 \<and> a1 = b1 \<and> a0 = b0" by (simp only: char.inject) blast
  moreover have "(if P \<and> Q then x else if P then y else z) = (if P then if Q then x else y else z)" for P Q x y z :: bool by simp
  moreover have "(if P then x else if P then y else z) = (if P then x else z)" for P x y z :: bool by simp
  ultimately show ?thesis by (simp only: str_less.simps bits_less.simps if_cancel)
qed

lemma str_less_Standard [simp]: "str_less (Standard a) (Standard b) = str_less a b"
  by (simp add: Standard_def)

lemma str_less_Standard_right [simp]: "str_less (x # xs) (Standard b) = str_less (x # xs) (''Standard_'' @ b)"
  by (simp add: Standard_def)

lemma str_less_Standard_left [simp]: "str_less (Standard a) (y # ys) = str_less (''Standard_'' @ a) (y # ys)"
  by (simp add: Standard_def)

text \<open>
  A part of a table: it starts with the name \<open>n\<close> and ascends towards \<open>m\<close>, the first name of the next
  part; the last part ascends to its end.
\<close>

definition part_ok :: "string \<Rightarrow> priceTable \<Rightarrow> string \<Rightarrow> bool" where
  "part_ok n t m \<longleftrightarrow> t \<noteq> [] \<and> fst (hd t) = n \<and> ascending (map fst t @ [m]) \<and> list_all (\<lambda>(n, p). 0 \<le> p) t"

definition last_ok :: "string \<Rightarrow> priceTable \<Rightarrow> bool" where
  "last_ok n t \<longleftrightarrow> t \<noteq> [] \<and> fst (hd t) = n \<and> ascending (map fst t) \<and> list_all (\<lambda>(n, p). 0 \<le> p) t"

text \<open>The rules that evaluate both on a literal table; a full simplifier run costs several times as much.\<close>

lemmas eval_part = part_ok_def last_ok_def list.map list.sel(1) list.distinct(2) fst_conv append.simps ascending.simps
  str_less_Standard str_less_Standard_right str_less_Standard_left str_less.simps(1,2) str_less_Char
  list.pred_inject case_prod_conv zero_le_numeral order_refl simp_thms if_True if_False

lemma part_join: "part_ok n xs m \<Longrightarrow> last_ok m ys \<Longrightarrow> last_ok n (xs @ ys)"
  by (auto simp: part_ok_def last_ok_def ascending_append hd_map)

lemma last_ok_table: "last_ok n t \<Longrightarrow> table_ok t"
  by (simp add: last_ok_def table_ok_def)

end
