(* ===== verification/PriceLists1.thy ===== *)
theory PriceLists1
  imports PriceTables
begin

text \<open>
  The first part of the shipped price lists, \<open>pkg/providers/pricing/zz_generated.pricing.go\<close>: the regions
  australiacentral to centralindia, in the order of the file, each in parts of at most 150 lines.
\<close>

subsection \<open>australiacentral\<close>

definition australiacentral_1 :: priceTable where
  "australiacentral_1 =
     [(''Basic_A0'', 24000), (''Basic_A1'', 32000), (''Basic_A2'', 98000), (''Basic_A3'', 232000), (''Basic_A4'', 464000),
      (''Dadsv5_Type1'', 8008000), (''Dasv4_Type1'', 6600000), (''Dasv4_Type2'', 6600000), (''Dasv5_Type1'', 6653000),
      (''Ddsv4_Type 1'', 4998000), (''Ddsv4_Type2'', 5936000), (''Ddsv5_Type1'', 7498000), (''Dsv3_Type3'', 6599000),
      (''Dsv3_Type4'', 8249000), (''Dsv4_Type1'', 5280000), (''Dsv4_Type2'', 6336000), (''Dsv5_Type1'', 6600000),
      (''Eadsv5_Type1'', 8395000), (''Easv4_Type1'', 7973000), (''Easv4_Type2'', 7973000), (''Easv5_Type1'', 7181000),
      (''Ebdsv5-Type1'', 7075000), (''Ebsv5-Type1'', 6266000), (''Edsv4_Type 1'', 6125000), (''Edsv5_Type1'', 9187000),
      (''Esv3_Type3'', 6434000), (''Esv4_Type1'', 5315000), (''Esv4_Type2'', 6976000), (''Esv5_Type1'', 7973000),
      (''Fsv2_Type2'', 4396000), (''Fsv2_Type4'', 5861000), (''Lasv3_Type1'', 8228000), (''Lsv3_Type1'', 9196000),
      (''Msmv2_Type1'', 158140000), (''Msv2_Type1'', 79080000), (Standard ''A0'', 29000), (Standard ''A1'', 71000),
      (Standard ''A1_v2'', 50000), (Standard ''A2'', 142000), (Standard ''A2_v2'', 106000), (Standard ''A2m_v2'', 149000),
      (Standard ''A3'', 284000), (Standard ''A4'', 568000), (Standard ''A4_v2'', 222000), (Standard ''A4m_v2'', 312000),
      (Standard ''A5'', 278000), (Standard ''A6'', 556000), (Standard ''A7'', 1112000), (Standard ''A8_v2'', 467000),
      (Standard ''A8m_v2'', 655000), (Standard ''B12ms'', 634000), (Standard ''B16als_v2'', 747000), (Standard ''B16as_v2'', 834000),
      (Standard ''B16ls_v2'', 748000), (Standard ''B16ms'', 845000), (Standard ''B16s_v2'', 918000), (Standard ''B1ls'', 6600),
      (Standard ''B1ms'', 26400), (Standard ''B1s'', 13200), (Standard ''B20ms'', 1056000), (Standard ''B2als_v2'', 47500),
      (Standard ''B2as_v2'', 104000), (Standard ''B2ats_v2'', 11900), (Standard ''B2ls_v2'', 62000), (Standard ''B2ms'', 106000),
      (Standard ''B2s_v2'', 106000), (Standard ''B2ts_v2'', 13200), (Standard ''B32als_v2'', 1346000), (Standard ''B32as_v2'', 1520000),
      (Standard ''B32ls_v2'', 1496000), (Standard ''B32s_v2'', 1690000), (Standard ''B4als_v2'', 187000), (Standard ''B4as_v2'', 190000),
      (Standard ''B4ls_v2'', 187000), (Standard ''B4ms'', 211000), (Standard ''B4s_v2'', 211000), (Standard ''B8als_v2'', 337000),
      (Standard ''B8as_v2'', 417000), (Standard ''B8ls_v2'', 411000), (Standard ''B8ms'', 422000), (Standard ''B8s_v2'', 459000),
      (Standard ''D11_v2'', 200000), (Standard ''D11_v2_Promo'', 249000), (Standard ''D12_v2'', 399000),
      (Standard ''D12_v2_Promo'', 498750), (Standard ''D13_v2'', 798000), (Standard ''D13_v2_Promo'', 997000),
      (Standard ''D14_v2_Promo'', 1995000), (Standard ''D15_v2'', 1995000), (Standard ''D15i_v2'', 1995000),
      (Standard ''D16_v3'', 1000000), (Standard ''D16_v4'', 960000), (Standard ''D16_v5'', 960000), (Standard ''D16a_v4'', 960000),
      (Standard ''D16ads_v5'', 1040000), (Standard ''D16as_v5'', 864000), (Standard ''D16d_v4'', 1136000), (Standard ''D16d_v5'', 1136000),
      (Standard ''D16ds_v4'', 1136000), (Standard ''D16ds_v5'', 1136000), (Standard ''D16lds_v5'', 1008000),
      (Standard ''D16ls_v5'', 888000), (Standard ''D16s_v3'', 1000000), (Standard ''D16s_v4'', 960000), (Standard ''D16s_v5'', 960000),
      (Standard ''D1_v2'', 84000), (Standard ''D2_v2'', 168000), (Standard ''D2_v2_Promo'', 210000), (Standard ''D2_v3'', 125000),
      (Standard ''D2_v5'', 120000), (Standard ''D2a_v4'', 120000), (Standard ''D2ads_v5'', 130000), (Standard ''D2as_v4'', 120000),
      (Standard ''D2as_v5'', 108000), (Standard ''D2d_v4'', 142000), (Standard ''D2d_v5'', 142000), (Standard ''D2ds_v4'', 142000),
      (Standard ''D2ds_v5'', 142000), (Standard ''D2lds_v5'', 126000), (Standard ''D2ls_v5'', 111000), (Standard ''D2s_v3'', 125000),
      (Standard ''D2s_v5'', 120000), (Standard ''D32-16s_v3'', 2000000), (Standard ''D32-8s_v3'', 2000000), (Standard ''D32_v3'', 2000000),
      (Standard ''D32_v4'', 1920000), (Standard ''D32_v5'', 1920000), (Standard ''D32a_v4'', 1920000), (Standard ''D32ads_v5'', 2080000),
      (Standard ''D32as_v4'', 1920000), (Standard ''D32as_v5'', 1728000), (Standard ''D32d_v4'', 2272000), (Standard ''D32d_v5'', 2272000),
      (Standard ''D32ds_v4'', 2272000), (Standard ''D32ds_v5'', 2272000), (Standard ''D32lds_v5'', 2016000),
      (Standard ''D32ls_v5'', 1776000)]"

definition australiacentral_2 :: priceTable where
  "australiacentral_2 =
     [(Standard ''D32s_v3'', 2000000), (Standard ''D32s_v4'', 1920000), (Standard ''D32s_v5'', 1920000), (Standard ''D3_v2'', 336000),
      (Standard ''D3_v2_Promo'', 420000), (Standard ''D48_v3'', 3000000), (Standard ''D48_v4'', 2880000), (Standard ''D48_v5'', 2880000),
      (Standard ''D48a_v4'', 2880000), (Standard ''D48ads_v5'', 3120000), (Standard ''D48as_v4'', 2880000),
      (Standard ''D48as_v5'', 2592000), (Standard ''D48d_v4'', 3408000), (Standard ''D48d_v5'', 3408000), (Standard ''D48ds_v4'', 3408000),
      (Standard ''D48ds_v5'', 3408000), (Standard ''D48lds_v5'', 3024000), (Standard ''D48ls_v5'', 2664000),
      (Standard ''D48s_v3'', 3000000), (Standard ''D48s_v4'', 2880000), (Standard ''D48s_v5'', 2880000), (Standard ''D4_v2'', 673000),
      (Standard ''D4_v2_Promo'', 841000), (Standard ''D4_v3'', 250000), (Standard ''D4_v4'', 240000), (Standard ''D4_v5'', 240000),
      (Standard ''D4a_v4'', 240000), (Standard ''D4ads_v5'', 260000), (Standard ''D4as_v4'', 240000), (Standard ''D4as_v5'', 216000),
      (Standard ''D4d_v4'', 284000), (Standard ''D4d_v5'', 284000), (Standard ''D4ds_v4'', 284000), (Standard ''D4ds_v5'', 284000),
      (Standard ''D4lds_v5'', 252000), (Standard ''D4ls_v5'', 222000), (Standard ''D4s_v3'', 250000), (Standard ''D4s_v4'', 240000),
      (Standard ''D4s_v5'', 240000), (Standard ''D5_v2'', 1345000), (Standard ''D5_v2_Promo'', 1681000),
      (Standard ''D64-16s_v3'', 4000000), (Standard ''D64_v3'', 4000000), (Standard ''D64_v4'', 3840000), (Standard ''D64_v5'', 3840000),
      (Standard ''D64a_v4'', 3840000), (Standard ''D64ads_v5'', 4160000), (Standard ''D64as_v4'', 3840000),
      (Standard ''D64as_v5'', 3456000), (Standard ''D64d_v4'', 4544000), (Standard ''D64d_v5'', 4544000), (Standard ''D64ds_v4'', 4544000),
      (Standard ''D64ds_v5'', 4544000), (Standard ''D64lds_v5'', 4032000), (Standard ''D64ls_v5'', 3552000),
      (Standard ''D64s_v3'', 4000000), (Standard ''D64s_v4'', 3840000), (Standard ''D64s_v5'', 3840000), (Standard ''D8_v3'', 500000),
      (Standard ''D8_v4'', 480000), (Standard ''D8_v5'', 480000), (Standard ''D8a_v4'', 480000), (Standard ''D8ads_v5'', 520000),
      (Standard ''D8as_v4'', 480000), (Standard ''D8as_v5'', 432000), (Standard ''D8d_v4'', 568000), (Standard ''D8d_v5'', 568000),
      (Standard ''D8ds_v4'', 568000), (Standard ''D8ds_v5'', 568000), (Standard ''D8lds_v5'', 504000), (Standard ''D8ls_v5'', 444000),
      (Standard ''D8s_v3'', 500000), (Standard ''D8s_v4'', 480000), (Standard ''D8s_v5'', 480000), (Standard ''D96_v5'', 5760000),
      (Standard ''D96a_v4'', 5760000), (Standard ''D96ads_v5'', 6240000), (Standard ''D96as_v4'', 5760000),
      (Standard ''D96as_v5'', 5184000), (Standard ''D96ds_v5'', 6816000), (Standard ''D96lds_v5'', 6048000),
      (Standard ''D96ls_v5'', 5328000), (Standard ''D96s_v5'', 5760000), (Standard ''DS11-1_v2'', 200000), (Standard ''DS11_v2'', 200000),
      (Standard ''DS11_v2_Promo'', 249000), (Standard ''DS12-1_v2'', 399000), (Standard ''DS12-2_v2'', 399000),
      (Standard ''DS12_v2'', 399000), (Standard ''DS12_v2_Promo'', 498750), (Standard ''DS13-2_v2'', 798000),
      (Standard ''DS13-4_v2'', 798000), (Standard ''DS13_v2'', 798000), (Standard ''DS13_v2_Promo'', 997000),
      (Standard ''DS14-4_v2'', 1596000), (Standard ''DS14-8_v2'', 1596000), (Standard ''DS14_v2'', 1596000),
      (Standard ''DS15_v2'', 1995000), (Standard ''DS15i_v2'', 1995000), (Standard ''DS1_v2'', 84000), (Standard ''DS2_v2'', 168000),
      (Standard ''DS2_v2_Promo'', 210000), (Standard ''DS3_v2_Promo'', 420000), (Standard ''DS4_v2'', 673000),
      (Standard ''DS4_v2_Promo'', 841000), (Standard ''DS5_v2'', 1345000), (Standard ''DS5_v2_Promo'', 1681000),
      (Standard ''E104i_v5'', 8637000), (Standard ''E104id_v5'', 9953000), (Standard ''E104ids_v5'', 9953000),
      (Standard ''E104is_v5'', 8637000), (Standard ''E112iads_v5'', 9794000), (Standard ''E112ias_v5'', 8378000),
      (Standard ''E112ibds_v5'', 12382000), (Standard ''E112ibs_v5'', 10965000), (Standard ''E16-4ads_v5'', 1272000),
      (Standard ''E16-4as_v4'', 1208000), (Standard ''E16-4as_v5'', 1088000), (Standard ''E16-4ds_v4'', 1392000),
      (Standard ''E16-4ds_v5'', 1392000), (Standard ''E16-4s_v3'', 1277000), (Standard ''E16-4s_v4'', 1208000),
      (Standard ''E16-4s_v5'', 1208000), (Standard ''E16-8ads_v5'', 1272000), (Standard ''E16-8as_v4'', 1208000),
      (Standard ''E16-8as_v5'', 1088000), (Standard ''E16-8ds_v4'', 1392000), (Standard ''E16-8ds_v5'', 1392000),
      (Standard ''E16-8s_v3'', 1277000), (Standard ''E16-8s_v4'', 1208000), (Standard ''E16-8s_v5'', 1208000),
      (Standard ''E16_v3'', 1277000), (Standard ''E16_v4'', 1208000), (Standard ''E16_v5'', 1208000), (Standard ''E16ads_v5'', 1272000),
      (Standard ''E16as_v4'', 1208000), (Standard ''E16bds_v5'', 1608000)]"

definition australiacentral_3 :: priceTable where
  "australiacentral_3 =
     [(Standard ''E16bs_v5'', 1424000), (Standard ''E16d_v4'', 1392000), (Standard ''E16d_v5'', 1392000), (Standard ''E16ds_v4'', 1392000),
      (Standard ''E16ds_v5'', 1392000), (Standard ''E16s_v4'', 1208000), (Standard ''E16s_v5'', 1208000), (Standard ''E20_v3'', 1509000),
      (Standard ''E20_v4'', 1510000), (Standard ''E20_v5'', 1510000), (Standard ''E20a_v4'', 1510000), (Standard ''E20ads_v5'', 1590000),
      (Standard ''E20as_v4'', 1510000), (Standard ''E20as_v5'', 1360000), (Standard ''E20d_v4'', 1740000), (Standard ''E20d_v5'', 1740000),
      (Standard ''E20ds_v4'', 1740000), (Standard ''E20ds_v5'', 1740000), (Standard ''E20s_v3'', 1509000), (Standard ''E20s_v4'', 1510000),
      (Standard ''E20s_v5'', 1510000), (Standard ''E2_v3'', 160000), (Standard ''E2_v4'', 151000), (Standard ''E2_v5'', 151000),
      (Standard ''E2a_v4'', 151000), (Standard ''E2ads_v5'', 159000), (Standard ''E2as_v4'', 151000), (Standard ''E2as_v5'', 136000),
      (Standard ''E2bds_v5'', 201000), (Standard ''E2bs_v5'', 178000), (Standard ''E2d_v4'', 174000), (Standard ''E2d_v5'', 174000),
      (Standard ''E2ds_v4'', 174000), (Standard ''E2ds_v5'', 174000), (Standard ''E2s_v3'', 160000), (Standard ''E2s_v4'', 151000),
      (Standard ''E32-16ads_v5'', 2544000), (Standard ''E32-16as_v5'', 2176000), (Standard ''E32-16ds_v4'', 2784000),
      (Standard ''E32-16ds_v5'', 2784000), (Standard ''E32-16s_v3'', 2554000), (Standard ''E32-16s_v4'', 2416000),
      (Standard ''E32-16s_v5'', 2416000), (Standard ''E32-8ads_v5'', 2544000), (Standard ''E32-8as_v4'', 2416000),
      (Standard ''E32-8as_v5'', 2176000), (Standard ''E32-8ds_v4'', 2784000), (Standard ''E32-8ds_v5'', 2784000),
      (Standard ''E32-8s_v3'', 2554000), (Standard ''E32-8s_v4'', 2416000), (Standard ''E32-8s_v5'', 2416000),
      (Standard ''E32_v3'', 2554000), (Standard ''E32_v5'', 2416000), (Standard ''E32a_v4'', 2416000), (Standard ''E32ads_v5'', 2544000),
      (Standard ''E32as_v4'', 2416000), (Standard ''E32as_v5'', 2176000), (Standard ''E32bds_v5'', 3216000),
      (Standard ''E32bs_v5'', 2848000), (Standard ''E32d_v4'', 2784000), (Standard ''E32d_v5'', 2784000), (Standard ''E32ds_v4'', 2784000),
      (Standard ''E32s_v3'', 2554000), (Standard ''E32s_v4'', 2416000), (Standard ''E32s_v5'', 2416000), (Standard ''E4-2ads_v5'', 318000),
      (Standard ''E4-2as_v4'', 302000), (Standard ''E4-2as_v5'', 272000), (Standard ''E4-2ds_v4'', 348000),
      (Standard ''E4-2ds_v5'', 348000), (Standard ''E4-2s_v3'', 319000), (Standard ''E4-2s_v4'', 302000), (Standard ''E4-2s_v5'', 302000),
      (Standard ''E48_v3'', 3623000), (Standard ''E48_v4'', 3624000), (Standard ''E48_v5'', 3624000), (Standard ''E48a_v4'', 3624000),
      (Standard ''E48ads_v5'', 3816000), (Standard ''E48as_v4'', 3624000), (Standard ''E48bds_v5'', 4824000),
      (Standard ''E48bs_v5'', 4272000), (Standard ''E48d_v4'', 4176000), (Standard ''E48d_v5'', 4176000), (Standard ''E48ds_v4'', 4176000),
      (Standard ''E48ds_v5'', 4176000), (Standard ''E48s_v3'', 3623000), (Standard ''E48s_v4'', 3624000), (Standard ''E48s_v5'', 3624000),
      (Standard ''E4_v3'', 319000), (Standard ''E4_v4'', 302000), (Standard ''E4_v5'', 302000), (Standard ''E4a_v4'', 302000),
      (Standard ''E4ads_v5'', 318000), (Standard ''E4as_v4'', 302000), (Standard ''E4as_v5'', 272000), (Standard ''E4bds_v5'', 402000),
      (Standard ''E4bs_v5'', 356000), (Standard ''E4d_v4'', 348000), (Standard ''E4d_v5'', 348000), (Standard ''E4ds_v4'', 348000),
      (Standard ''E4ds_v5'', 348000), (Standard ''E4s_v3'', 319000), (Standard ''E4s_v4'', 302000), (Standard ''E4s_v5'', 302000),
      (Standard ''E64-16ads_v5'', 5088000), (Standard ''E64-16as_v5'', 4352000), (Standard ''E64-16ds_v4'', 5568000),
      (Standard ''E64-16ds_v5'', 5568000), (Standard ''E64-16s_v3'', 4347000), (Standard ''E64-16s_v4'', 4832000),
      (Standard ''E64-16s_v5'', 4832000), (Standard ''E64-32ads_v5'', 5088000), (Standard ''E64-32as_v4'', 4832000),
      (Standard ''E64-32as_v5'', 4352000), (Standard ''E64-32ds_v4'', 5568000), (Standard ''E64-32ds_v5'', 5568000),
      (Standard ''E64-32s_v3'', 4347000), (Standard ''E64-32s_v4'', 4832000), (Standard ''E64-32s_v5'', 4832000),
      (Standard ''E64_v3'', 4347000), (Standard ''E64_v4'', 4832000), (Standard ''E64_v5'', 4832000), (Standard ''E64ads_v5'', 5088000),
      (Standard ''E64as_v4'', 4832000), (Standard ''E64bds_v5'', 6432000), (Standard ''E64bs_v5'', 5696000),
      (Standard ''E64d_v4'', 5568000), (Standard ''E64d_v5'', 5568000), (Standard ''E64ds_v4'', 5568000), (Standard ''E64ds_v5'', 5568000),
      (Standard ''E64s_v3'', 4347000), (Standard ''E64s_v4'', 4832000), (Standard ''E64s_v5'', 4832000), (Standard ''E8-2ads_v5'', 636000),
      (Standard ''E8-2as_v4'', 604000), (Standard ''E8-2as_v5'', 544000), (Standard ''E8-2ds_v4'', 696000)]"

definition australiacentral_4 :: priceTable where
  "australiacentral_4 =
     [(Standard ''E8-2ds_v5'', 696000), (Standard ''E8-2s_v3'', 638000), (Standard ''E8-2s_v4'', 604000), (Standard ''E8-2s_v5'', 604000),
      (Standard ''E8-4ads_v5'', 636000), (Standard ''E8-4as_v4'', 604000), (Standard ''E8-4as_v5'', 544000),
      (Standard ''E8-4ds_v4'', 696000), (Standard ''E8-4ds_v5'', 696000), (Standard ''E8-4s_v3'', 638000), (Standard ''E8-4s_v4'', 604000),
      (Standard ''E8-4s_v5'', 604000), (Standard ''E80ids_v4'', 6960000), (Standard ''E80is_v4'', 6040000), (Standard ''E8_v3'', 638000),
      (Standard ''E8_v4'', 604000), (Standard ''E8_v5'', 604000), (Standard ''E8a_v4'', 604000), (Standard ''E8ads_v5'', 636000),
      (Standard ''E8as_v4'', 604000), (Standard ''E8as_v5'', 544000), (Standard ''E8bds_v5'', 804000), (Standard ''E8bs_v5'', 712000),
      (Standard ''E8d_v4'', 696000), (Standard ''E8d_v5'', 696000), (Standard ''E8ds_v4'', 696000), (Standard ''E8ds_v5'', 696000),
      (Standard ''E8s_v3'', 638000), (Standard ''E8s_v4'', 604000), (Standard ''E8s_v5'', 604000), (Standard ''E96-24as_v4'', 7248000),
      (Standard ''E96-24as_v5'', 6528000), (Standard ''E96-24ds_v5'', 8352000), (Standard ''E96-24s_v5'', 7248000),
      (Standard ''E96-48ads_v5'', 7632000), (Standard ''E96-48as_v4'', 7248000), (Standard ''E96-48as_v5'', 6528000),
      (Standard ''E96-48ds_v5'', 8352000), (Standard ''E96-48s_v5'', 7248000), (Standard ''E96_v5'', 7248000),
      (Standard ''E96a_v4'', 7248000), (Standard ''E96ads_v5'', 7632000), (Standard ''E96as_v4'', 7248000),
      (Standard ''E96as_v5'', 6528000), (Standard ''E96bds_v5'', 9648000), (Standard ''E96bs_v5'', 8544000),
      (Standard ''E96ds_v5'', 8352000), (Standard ''E96iads_v5'', 8395000), (Standard ''E96ias_v4'', 7248000),
      (Standard ''E96ias_v5'', 7181000), (Standard ''E96s_v5'', 7248000), (Standard ''F1'', 65000), (Standard ''F16'', 1042000),
      (Standard ''F16s'', 1042000), (Standard ''F16s_v2'', 888000), (Standard ''F1s'', 65000), (Standard ''F2'', 130000),
      (Standard ''F2s'', 130000), (Standard ''F2s_v2'', 111000), (Standard ''F32s_v2'', 1776000), (Standard ''F4'', 260000),
      (Standard ''F48s_v2'', 2664000), (Standard ''F4s'', 260000), (Standard ''F4s_v2'', 222000), (Standard ''F64s_v2'', 3552000),
      (Standard ''F72s_v2'', 3996000), (Standard ''F8'', 521000), (Standard ''F8s'', 521000), (Standard ''F8s_v2'', 444000),
      (Standard ''L16as_v3'', 1496000), (Standard ''L16s_v3'', 1672000), (Standard ''L32as_v3'', 2992000), (Standard ''L32s_v3'', 3344000),
      (Standard ''L48as_v3'', 4488000), (Standard ''L48s_v3'', 5016000), (Standard ''L64as_v3'', 5984000), (Standard ''L64s_v3'', 6688000),
      (Standard ''L80as_v3'', 7480000), (Standard ''L80s_v3'', 8360000), (Standard ''L8as_v3'', 748000), (Standard ''L8s_v3'', 836000),
      (Standard ''M128'', 19340000), (Standard ''M128-32ms'', 38697600), (Standard ''M128-64ms'', 38697600),
      (Standard ''M128dms_v2'', 38700000), (Standard ''M128ds_v2'', 19340000), (Standard ''M128m'', 38697600),
      (Standard ''M128ms'', 38697600), (Standard ''M128ms_v2'', 38090000), (Standard ''M128s_v2'', 18730000),
      (Standard ''M16-4ms'', 4455900), (Standard ''M16-8ms'', 4455900), (Standard ''M16ms'', 4455900), (Standard ''M16s'', 3461000),
      (Standard ''M192idms_v2'', 46490000), (Standard ''M192ids_v2'', 23250000), (Standard ''M192ims_v2'', 45880000),
      (Standard ''M192is_v2'', 22640000), (Standard ''M208-104ms_v2'', 64699000), (Standard ''M208-104s_v2'', 32350000),
      (Standard ''M208-52ms_v2'', 64699000), (Standard ''M208-52s_v2'', 32350000), (Standard ''M208ms_v2'', 64699000),
      (Standard ''M208s_v2'', 32350000), (Standard ''M32-16ms'', 8911700), (Standard ''M32-8ms'', 8911700),
      (Standard ''M32dms_v2'', 8910000), (Standard ''M32ms'', 8911700), (Standard ''M32ms_v2'', 8760000), (Standard ''M32s'', 4835800),
      (Standard ''M32ts'', 3248000), (Standard ''M416-104ms_v2'', 143770000), (Standard ''M416-104s_v2'', 71891000),
      (Standard ''M416-208ms_v2'', 143770000), (Standard ''M416-208s_v2'', 71891000), (Standard ''M416is_v2'', 71891000),
      (Standard ''M416ms_v2'', 143770000), (Standard ''M416s_8_v2'', 95860000), (Standard ''M416s_v2'', 71891000),
      (Standard ''M64'', 9670000), (Standard ''M64-16ms'', 14989000), (Standard ''M64-32ms'', 14989000),
      (Standard ''M64dms_v2'', 14990000), (Standard ''M64ds_v2'', 9670000), (Standard ''M64ls'', 6498000),
      (Standard ''M64ms_v2'', 14690000), (Standard ''M64s'', 9670000), (Standard ''M64s_v2'', 9370000), (Standard ''M8-4ms'', 2227900),
      (Standard ''M8ms'', 2227900), (Standard ''NC16as_T4_v3'', 1565000), (Standard ''NC4as_T4_v3'', 684000),
      (Standard ''NC64as_T4_v3'', 5645000), (Standard ''NC8as_T4_v3'', 977000)]"

definition australiacentral :: priceTable where
  "australiacentral = australiacentral_1 @ australiacentral_2 @ australiacentral_3 @ australiacentral_4"

subsection \<open>australiacentral2\<close>

definition australiacentral2_1 :: priceTable where
  "australiacentral2_1 =
     [(''Basic_A0'', 24000), (''Basic_A1'', 32000), (''Basic_A2'', 98000), (''Basic_A3'', 232000), (''Basic_A4'', 464000),
      (''Dadsv5_Type1'', 8008000), (''Dasv4_Type1'', 6600000), (''Dasv4_Type2'', 6600000), (''Dasv5_Type1'', 6653000),
      (''Ddsv4_Type 1'', 4998000), (''Ddsv4_Type2'', 5936000), (''Ddsv5_Type1'', 7498000), (''Dsv3_Type3'', 6599000),
      (''Dsv3_Type4'', 8249000), (''Dsv4_Type1'', 5280000), (''Dsv4_Type2'', 6336000), (''Dsv5_Type1'', 6600000),
      (''Eadsv5_Type1'', 8395000), (''Easv4_Type1'', 7973000), (''Easv4_Type2'', 7973000), (''Easv5_Type1'', 7181000),
      (''Ebdsv5-Type1'', 7075000), (''Ebsv5-Type1'', 6266000), (''Edsv4_Type 1'', 6125000), (''Edsv4_Type2'', 9008000),
      (''Edsv5_Type1'', 9187000), (''Esv3_Type3'', 6434000), (''Esv3_Type4'', 8717000), (''Esv4_Type1'', 5315000),
      (''Esv4_Type2'', 6976000), (''Fsv2_Type2'', 4396000), (''Lasv3_Type1'', 8228000), (''Lsv3_Type1'', 9196000),
      (''Msmv2_Type1'', 158140000), (''Msv2_Type1'', 79080000), (Standard ''A0'', 29000), (Standard ''A1'', 71000),
      (Standard ''A1_v2'', 50000), (Standard ''A2'', 142000), (Standard ''A2_v2'', 106000), (Standard ''A2m_v2'', 149000),
      (Standard ''A3'', 284000), (Standard ''A4'', 568000), (Standard ''A4_v2'', 222000), (Standard ''A4m_v2'', 312000),
      (Standard ''A5'', 278000), (Standard ''A6'', 556000), (Standard ''A7'', 1112000), (Standard ''A8_v2'', 467000),
      (Standard ''A8m_v2'', 655000), (Standard ''B12ms'', 634000), (Standard ''B16als_v2'', 673000), (Standard ''B16as_v2'', 760000),
      (Standard ''B16ls_v2'', 822000), (Standard ''B16ms'', 845000), (Standard ''B16s_v2'', 918000), (Standard ''B1ls'', 6600),
      (Standard ''B1ms'', 26400), (Standard ''B1s'', 13200), (Standard ''B20ms'', 1056000), (Standard ''B2als_v2'', 47500),
      (Standard ''B2as_v2'', 95000), (Standard ''B2ats_v2'', 21100), (Standard ''B2ls_v2'', 62000), (Standard ''B2ms'', 106000),
      (Standard ''B2s'', 52800), (Standard ''B2s_v2'', 106000), (Standard ''B2ts_v2'', 22400), (Standard ''B32als_v2'', 1493000),
      (Standard ''B32as_v2'', 1520000), (Standard ''B32ls_v2'', 1496000), (Standard ''B32s_v2'', 1690000), (Standard ''B4als_v2'', 168000),
      (Standard ''B4as_v2'', 208000), (Standard ''B4ls_v2'', 206000), (Standard ''B4ms'', 211000), (Standard ''B4s_v2'', 230000),
      (Standard ''B8als_v2'', 337000), (Standard ''B8as_v2'', 417000), (Standard ''B8ls_v2'', 411000), (Standard ''B8ms'', 422000),
      (Standard ''B8s_v2'', 459000), (Standard ''D11_v2'', 200000), (Standard ''D11_v2_Promo'', 249000),
      (Standard ''D12_v2_Promo'', 498750), (Standard ''D13_v2'', 798000), (Standard ''D13_v2_Promo'', 997000),
      (Standard ''D14_v2'', 1596000), (Standard ''D14_v2_Promo'', 1995000), (Standard ''D15i_v2'', 1995000),
      (Standard ''D16_v3'', 1000000), (Standard ''D16_v4'', 960000), (Standard ''D16_v5'', 960000), (Standard ''D16a_v4'', 960000),
      (Standard ''D16ads_v5'', 1040000), (Standard ''D16as_v4'', 960000), (Standard ''D16as_v5'', 864000), (Standard ''D16d_v5'', 1136000),
      (Standard ''D16ds_v4'', 1136000), (Standard ''D16ds_v5'', 1136000), (Standard ''D16lds_v5'', 1008000),
      (Standard ''D16ls_v5'', 888000), (Standard ''D16s_v3'', 1000000), (Standard ''D16s_v4'', 960000), (Standard ''D16s_v5'', 960000),
      (Standard ''D1_v2'', 84000), (Standard ''D2_v2'', 168000), (Standard ''D2_v2_Promo'', 210000), (Standard ''D2_v3'', 125000),
      (Standard ''D2_v4'', 120000), (Standard ''D2_v5'', 120000), (Standard ''D2a_v4'', 120000), (Standard ''D2ads_v5'', 130000),
      (Standard ''D2as_v4'', 120000), (Standard ''D2as_v5'', 108000), (Standard ''D2d_v4'', 142000), (Standard ''D2d_v5'', 142000),
      (Standard ''D2ds_v4'', 142000), (Standard ''D2ds_v5'', 142000), (Standard ''D2lds_v5'', 126000), (Standard ''D2ls_v5'', 111000),
      (Standard ''D2s_v3'', 125000), (Standard ''D2s_v4'', 120000), (Standard ''D2s_v5'', 120000), (Standard ''D32-16s_v3'', 2000000),
      (Standard ''D32-8s_v3'', 2000000), (Standard ''D32_v3'', 2000000), (Standard ''D32_v4'', 1920000), (Standard ''D32_v5'', 1920000),
      (Standard ''D32a_v4'', 1920000), (Standard ''D32ads_v5'', 2080000), (Standard ''D32as_v4'', 1920000),
      (Standard ''D32as_v5'', 1728000), (Standard ''D32d_v4'', 2272000)]"

definition australiacentral2_2 :: priceTable where
  "australiacentral2_2 =
     [(Standard ''D32d_v5'', 2272000), (Standard ''D32ds_v4'', 2272000), (Standard ''D32lds_v5'', 2016000),
      (Standard ''D32ls_v5'', 1776000), (Standard ''D32s_v3'', 2000000), (Standard ''D32s_v4'', 1920000), (Standard ''D3_v2'', 336000),
      (Standard ''D3_v2_Promo'', 420000), (Standard ''D48_v3'', 3000000), (Standard ''D48_v4'', 2880000), (Standard ''D48_v5'', 2880000),
      (Standard ''D48a_v4'', 2880000), (Standard ''D48ads_v5'', 3120000), (Standard ''D48as_v4'', 2880000),
      (Standard ''D48as_v5'', 2592000), (Standard ''D48d_v4'', 3408000), (Standard ''D48d_v5'', 3408000), (Standard ''D48ds_v4'', 3408000),
      (Standard ''D48ds_v5'', 3408000), (Standard ''D48lds_v5'', 3024000), (Standard ''D48ls_v5'', 2664000),
      (Standard ''D48s_v3'', 3000000), (Standard ''D48s_v4'', 2880000), (Standard ''D48s_v5'', 2880000), (Standard ''D4_v2'', 673000),
      (Standard ''D4_v2_Promo'', 841000), (Standard ''D4_v3'', 250000), (Standard ''D4_v4'', 240000), (Standard ''D4_v5'', 240000),
      (Standard ''D4a_v4'', 240000), (Standard ''D4as_v4'', 240000), (Standard ''D4as_v5'', 216000), (Standard ''D4d_v4'', 284000),
      (Standard ''D4d_v5'', 284000), (Standard ''D4ds_v4'', 284000), (Standard ''D4ds_v5'', 284000), (Standard ''D4lds_v5'', 252000),
      (Standard ''D4ls_v5'', 222000), (Standard ''D4s_v3'', 250000), (Standard ''D4s_v4'', 240000), (Standard ''D4s_v5'', 240000),
      (Standard ''D5_v2'', 1345000), (Standard ''D5_v2_Promo'', 1681000), (Standard ''D64-16s_v3'', 4000000),
      (Standard ''D64_v3'', 4000000), (Standard ''D64_v4'', 3840000), (Standard ''D64_v5'', 3840000), (Standard ''D64a_v4'', 3840000),
      (Standard ''D64ads_v5'', 4160000), (Standard ''D64as_v4'', 3840000), (Standard ''D64as_v5'', 3456000),
      (Standard ''D64d_v4'', 4544000), (Standard ''D64d_v5'', 4544000), (Standard ''D64ds_v4'', 4544000), (Standard ''D64ds_v5'', 4544000),
      (Standard ''D64lds_v5'', 4032000), (Standard ''D64ls_v5'', 3552000), (Standard ''D64s_v3'', 4000000),
      (Standard ''D64s_v4'', 3840000), (Standard ''D64s_v5'', 3840000), (Standard ''D8_v3'', 500000), (Standard ''D8_v4'', 480000),
      (Standard ''D8_v5'', 480000), (Standard ''D8a_v4'', 480000), (Standard ''D8ads_v5'', 520000), (Standard ''D8as_v4'', 480000),
      (Standard ''D8as_v5'', 432000), (Standard ''D8d_v4'', 568000), (Standard ''D8d_v5'', 568000), (Standard ''D8ds_v4'', 568000),
      (Standard ''D8ds_v5'', 568000), (Standard ''D8lds_v5'', 504000), (Standard ''D8ls_v5'', 444000), (Standard ''D8s_v3'', 500000),
      (Standard ''D8s_v4'', 480000), (Standard ''D8s_v5'', 480000), (Standard ''D96_v5'', 5760000), (Standard ''D96a_v4'', 5760000),
      (Standard ''D96ads_v5'', 6240000), (Standard ''D96as_v4'', 5760000), (Standard ''D96as_v5'', 5184000),
      (Standard ''D96d_v5'', 6816000), (Standard ''D96ds_v5'', 6816000), (Standard ''D96lds_v5'', 6048000),
      (Standard ''D96ls_v5'', 5328000), (Standard ''D96s_v5'', 5760000), (Standard ''DS11-1_v2'', 200000), (Standard ''DS11_v2'', 200000),
      (Standard ''DS11_v2_Promo'', 249000), (Standard ''DS12-1_v2'', 399000), (Standard ''DS12-2_v2'', 399000),
      (Standard ''DS12_v2'', 399000), (Standard ''DS12_v2_Promo'', 498750), (Standard ''DS13-2_v2'', 798000),
      (Standard ''DS13-4_v2'', 798000), (Standard ''DS13_v2'', 798000), (Standard ''DS13_v2_Promo'', 997000),
      (Standard ''DS14-4_v2'', 1596000), (Standard ''DS14-8_v2'', 1596000), (Standard ''DS14_v2'', 1596000),
      (Standard ''DS14_v2_Promo'', 1995000), (Standard ''DS15_v2'', 1995000), (Standard ''DS15i_v2'', 1995000),
      (Standard ''DS1_v2'', 84000), (Standard ''DS2_v2'', 168000), (Standard ''DS2_v2_Promo'', 210000), (Standard ''DS3_v2'', 336000),
      (Standard ''DS3_v2_Promo'', 420000), (Standard ''DS4_v2'', 673000), (Standard ''DS4_v2_Promo'', 841000),
      (Standard ''DS5_v2'', 1345000), (Standard ''DS5_v2_Promo'', 1681000), (Standard ''E104i_v5'', 8637000),
      (Standard ''E104id_v5'', 9953000), (Standard ''E104ids_v5'', 9953000), (Standard ''E104is_v5'', 8637000),
      (Standard ''E112iads_v5'', 9794000), (Standard ''E112ias_v5'', 8378000), (Standard ''E112ibds_v5'', 12382000),
      (Standard ''E112ibs_v5'', 10965000), (Standard ''E16-4ads_v5'', 1272000), (Standard ''E16-4as_v4'', 1208000),
      (Standard ''E16-4ds_v4'', 1392000), (Standard ''E16-4ds_v5'', 1392000), (Standard ''E16-4s_v3'', 1277000),
      (Standard ''E16-4s_v4'', 1208000), (Standard ''E16-4s_v5'', 1208000), (Standard ''E16-8ads_v5'', 1272000),
      (Standard ''E16-8as_v5'', 1088000), (Standard ''E16-8ds_v4'', 1392000), (Standard ''E16-8ds_v5'', 1392000),
      (Standard ''E16-8s_v3'', 1277000), (Standard ''E16-8s_v4'', 1208000), (Standard ''E16-8s_v5'', 1208000)]"

definition australiacentral2_3 :: priceTable where
  "australiacentral2_3 =
     [(Standard ''E16_v3'', 1277000), (Standard ''E16_v4'', 1208000), (Standard ''E16_v5'', 1208000), (Standard ''E16a_v4'', 1208000),
      (Standard ''E16ads_v5'', 1272000), (Standard ''E16as_v4'', 1208000), (Standard ''E16bds_v5'', 1608000),
      (Standard ''E16bs_v5'', 1424000), (Standard ''E16d_v4'', 1392000), (Standard ''E16d_v5'', 1392000), (Standard ''E16ds_v4'', 1392000),
      (Standard ''E16ds_v5'', 1392000), (Standard ''E16s_v3'', 1277000), (Standard ''E16s_v4'', 1208000), (Standard ''E20_v3'', 1509000),
      (Standard ''E20_v4'', 1510000), (Standard ''E20_v5'', 1510000), (Standard ''E20a_v4'', 1510000), (Standard ''E20ads_v5'', 1590000),
      (Standard ''E20as_v5'', 1360000), (Standard ''E20d_v4'', 1740000), (Standard ''E20ds_v4'', 1740000),
      (Standard ''E20ds_v5'', 1740000), (Standard ''E20s_v3'', 1509000), (Standard ''E20s_v4'', 1510000), (Standard ''E20s_v5'', 1510000),
      (Standard ''E2_v3'', 160000), (Standard ''E2_v4'', 151000), (Standard ''E2_v5'', 151000), (Standard ''E2a_v4'', 151000),
      (Standard ''E2ads_v5'', 159000), (Standard ''E2as_v4'', 151000), (Standard ''E2as_v5'', 136000), (Standard ''E2bds_v5'', 201000),
      (Standard ''E2bs_v5'', 178000), (Standard ''E2d_v5'', 174000), (Standard ''E2ds_v4'', 174000), (Standard ''E2ds_v5'', 174000),
      (Standard ''E2s_v4'', 151000), (Standard ''E2s_v5'', 151000), (Standard ''E32-16ads_v5'', 2544000),
      (Standard ''E32-16as_v4'', 2416000), (Standard ''E32-16as_v5'', 2176000), (Standard ''E32-16ds_v4'', 2784000),
      (Standard ''E32-16ds_v5'', 2784000), (Standard ''E32-16s_v3'', 2554000), (Standard ''E32-16s_v4'', 2416000),
      (Standard ''E32-16s_v5'', 2416000), (Standard ''E32-8ads_v5'', 2544000), (Standard ''E32-8as_v4'', 2416000),
      (Standard ''E32-8as_v5'', 2176000), (Standard ''E32-8ds_v4'', 2784000), (Standard ''E32-8ds_v5'', 2784000),
      (Standard ''E32-8s_v3'', 2554000), (Standard ''E32-8s_v4'', 2416000), (Standard ''E32-8s_v5'', 2416000),
      (Standard ''E32_v3'', 2554000), (Standard ''E32_v4'', 2416000), (Standard ''E32_v5'', 2416000), (Standard ''E32a_v4'', 2416000),
      (Standard ''E32ads_v5'', 2544000), (Standard ''E32as_v4'', 2416000), (Standard ''E32bds_v5'', 3216000),
      (Standard ''E32bs_v5'', 2848000), (Standard ''E32d_v4'', 2784000), (Standard ''E32d_v5'', 2784000), (Standard ''E32ds_v4'', 2784000),
      (Standard ''E32ds_v5'', 2784000), (Standard ''E32s_v3'', 2554000), (Standard ''E32s_v4'', 2416000), (Standard ''E32s_v5'', 2416000),
      (Standard ''E4-2ads_v5'', 318000), (Standard ''E4-2as_v4'', 302000), (Standard ''E4-2as_v5'', 272000),
      (Standard ''E4-2ds_v4'', 348000), (Standard ''E4-2ds_v5'', 348000), (Standard ''E4-2s_v3'', 319000), (Standard ''E4-2s_v4'', 302000),
      (Standard ''E4-2s_v5'', 302000), (Standard ''E48_v3'', 3623000), (Standard ''E48_v4'', 3624000), (Standard ''E48_v5'', 3624000),
      (Standard ''E48a_v4'', 3624000), (Standard ''E48ads_v5'', 3816000), (Standard ''E48as_v5'', 3264000),
      (Standard ''E48bds_v5'', 4824000), (Standard ''E48bs_v5'', 4272000), (Standard ''E48d_v4'', 4176000),
      (Standard ''E48d_v5'', 4176000), (Standard ''E48ds_v4'', 4176000), (Standard ''E48ds_v5'', 4176000), (Standard ''E48s_v3'', 3623000),
      (Standard ''E48s_v4'', 3624000), (Standard ''E48s_v5'', 3624000), (Standard ''E4_v3'', 319000), (Standard ''E4_v4'', 302000),
      (Standard ''E4_v5'', 302000), (Standard ''E4a_v4'', 302000), (Standard ''E4ads_v5'', 318000), (Standard ''E4as_v4'', 302000),
      (Standard ''E4as_v5'', 272000), (Standard ''E4bds_v5'', 402000), (Standard ''E4bs_v5'', 356000), (Standard ''E4d_v4'', 348000),
      (Standard ''E4d_v5'', 348000), (Standard ''E4ds_v5'', 348000), (Standard ''E4s_v3'', 319000), (Standard ''E4s_v4'', 302000),
      (Standard ''E4s_v5'', 302000), (Standard ''E64-16ads_v5'', 5088000), (Standard ''E64-16as_v4'', 4832000),
      (Standard ''E64-16as_v5'', 4352000), (Standard ''E64-16ds_v4'', 5568000), (Standard ''E64-16ds_v5'', 5568000),
      (Standard ''E64-16s_v3'', 4347000), (Standard ''E64-16s_v4'', 4832000), (Standard ''E64-16s_v5'', 4832000),
      (Standard ''E64-32ads_v5'', 5088000), (Standard ''E64-32as_v4'', 4832000), (Standard ''E64-32as_v5'', 4352000),
      (Standard ''E64-32ds_v4'', 5568000), (Standard ''E64-32ds_v5'', 5568000), (Standard ''E64-32s_v3'', 4347000),
      (Standard ''E64-32s_v4'', 4832000), (Standard ''E64-32s_v5'', 4832000), (Standard ''E64_v3'', 4347000),
      (Standard ''E64_v4'', 4832000), (Standard ''E64_v5'', 4832000), (Standard ''E64a_v4'', 4832000), (Standard ''E64ads_v5'', 5088000),
      (Standard ''E64as_v4'', 4832000), (Standard ''E64as_v5'', 4352000), (Standard ''E64bds_v5'', 6432000),
      (Standard ''E64bs_v5'', 5696000)]"

definition australiacentral2_4 :: priceTable where
  "australiacentral2_4 =
     [(Standard ''E64d_v4'', 5568000), (Standard ''E64d_v5'', 5568000), (Standard ''E64ds_v4'', 5568000), (Standard ''E64ds_v5'', 5568000),
      (Standard ''E64s_v3'', 4347000), (Standard ''E64s_v4'', 4832000), (Standard ''E64s_v5'', 4832000), (Standard ''E8-2ads_v5'', 636000),
      (Standard ''E8-2as_v4'', 604000), (Standard ''E8-2as_v5'', 544000), (Standard ''E8-2ds_v4'', 696000),
      (Standard ''E8-2ds_v5'', 696000), (Standard ''E8-2s_v3'', 638000), (Standard ''E8-2s_v4'', 604000), (Standard ''E8-2s_v5'', 604000),
      (Standard ''E8-4ads_v5'', 636000), (Standard ''E8-4as_v4'', 604000), (Standard ''E8-4as_v5'', 544000),
      (Standard ''E8-4ds_v4'', 696000), (Standard ''E8-4ds_v5'', 696000), (Standard ''E8-4s_v3'', 638000), (Standard ''E8-4s_v4'', 604000),
      (Standard ''E8-4s_v5'', 604000), (Standard ''E80ids_v4'', 6960000), (Standard ''E80is_v4'', 6040000), (Standard ''E8_v3'', 638000),
      (Standard ''E8_v4'', 604000), (Standard ''E8_v5'', 604000), (Standard ''E8a_v4'', 604000), (Standard ''E8ads_v5'', 636000),
      (Standard ''E8as_v4'', 604000), (Standard ''E8as_v5'', 544000), (Standard ''E8bds_v5'', 804000), (Standard ''E8bs_v5'', 712000),
      (Standard ''E8d_v4'', 696000), (Standard ''E8d_v5'', 696000), (Standard ''E8ds_v4'', 696000), (Standard ''E8ds_v5'', 696000),
      (Standard ''E8s_v3'', 638000), (Standard ''E8s_v4'', 604000), (Standard ''E8s_v5'', 604000), (Standard ''E96-24ads_v5'', 7632000),
      (Standard ''E96-24as_v5'', 6528000), (Standard ''E96-24ds_v5'', 8352000), (Standard ''E96-48ads_v5'', 7632000),
      (Standard ''E96-48as_v4'', 7248000), (Standard ''E96-48as_v5'', 6528000), (Standard ''E96-48ds_v5'', 8352000),
      (Standard ''E96-48s_v5'', 7248000), (Standard ''E96_v5'', 7248000), (Standard ''E96a_v4'', 7248000),
      (Standard ''E96ads_v5'', 7632000), (Standard ''E96as_v4'', 7248000), (Standard ''E96as_v5'', 6528000),
      (Standard ''E96bds_v5'', 9648000), (Standard ''E96bs_v5'', 8544000), (Standard ''E96d_v5'', 8352000),
      (Standard ''E96ds_v5'', 8352000), (Standard ''E96ias_v4'', 7248000), (Standard ''E96ias_v5'', 7181000),
      (Standard ''E96s_v5'', 7248000), (Standard ''F1'', 65000), (Standard ''F16'', 1042000), (Standard ''F16s'', 1042000),
      (Standard ''F16s_v2'', 888000), (Standard ''F1s'', 65000), (Standard ''F2'', 130000), (Standard ''F2s'', 130000),
      (Standard ''F2s_v2'', 111000), (Standard ''F32s_v2'', 1776000), (Standard ''F4'', 260000), (Standard ''F48s_v2'', 2664000),
      (Standard ''F4s'', 260000), (Standard ''F4s_v2'', 222000), (Standard ''F64s_v2'', 3552000), (Standard ''F72s_v2'', 3996000),
      (Standard ''F8'', 521000), (Standard ''F8s'', 521000), (Standard ''F8s_v2'', 444000), (Standard ''L16as_v3'', 1496000),
      (Standard ''L16s_v3'', 1672000), (Standard ''L32as_v3'', 2992000), (Standard ''L32s_v3'', 3344000), (Standard ''L48as_v3'', 4488000),
      (Standard ''L48s_v3'', 5016000), (Standard ''L64as_v3'', 5984000), (Standard ''L64s_v3'', 6688000), (Standard ''L80as_v3'', 7480000),
      (Standard ''L80s_v3'', 8360000), (Standard ''L8as_v3'', 748000), (Standard ''L8s_v3'', 836000), (Standard ''M128'', 19340000),
      (Standard ''M128-32ms'', 38697600), (Standard ''M128-64ms'', 38697600), (Standard ''M128m'', 38697600),
      (Standard ''M128ms'', 38697600), (Standard ''M128s'', 19340000), (Standard ''M16-4ms'', 4455900), (Standard ''M16-8ms'', 4455900),
      (Standard ''M16ms'', 4455900), (Standard ''M16s'', 3461000), (Standard ''M208-104ms_v2'', 64699000),
      (Standard ''M208-104s_v2'', 32350000), (Standard ''M208-52ms_v2'', 64699000), (Standard ''M208-52s_v2'', 32350000),
      (Standard ''M208ms_v2'', 64699000), (Standard ''M208s_v2'', 32350000), (Standard ''M32-16ms'', 8911700),
      (Standard ''M32-8ms'', 8911700), (Standard ''M32ls'', 3447600), (Standard ''M32ms'', 8911700), (Standard ''M32s'', 4835800),
      (Standard ''M32ts'', 3248000), (Standard ''M416-104ms_v2'', 143770000), (Standard ''M416-104s_v2'', 71891000),
      (Standard ''M416-208ms_v2'', 143770000), (Standard ''M416-208s_v2'', 71891000), (Standard ''M416is_v2'', 71891000),
      (Standard ''M416ms_v2'', 143770000), (Standard ''M416s_8_v2'', 95860000), (Standard ''M416s_v2'', 71891000),
      (Standard ''M64'', 9670000), (Standard ''M64-16ms'', 14989000), (Standard ''M64-32ms'', 14989000), (Standard ''M64ls'', 6498000),
      (Standard ''M64m'', 14989000), (Standard ''M64ms'', 14989000), (Standard ''M64s'', 9670000), (Standard ''M8-2ms'', 2227900),
      (Standard ''M8-4ms'', 2227900), (Standard ''NC16as_T4_v3'', 1565000), (Standard ''NC4as_T4_v3'', 684000),
      (Standard ''NC64as_T4_v3'', 5645000), (Standard ''NC8as_T4_v3'', 977000)]"

definition australiacentral2 :: priceTable where
  "australiacentral2 = australiacentral2_1 @ australiacentral2_2 @ australiacentral2_3 @ australiacentral2_4"

subsection \<open>australiaeast\<close>

definition australiaeast_1 :: priceTable where
  "australiaeast_1 =
     [(''DCdsv3 Type1'', 7498000), (''Dasv4_Type2'', 6600000), (''Ddsv5_Type1'', 7498000), (''Dsv3_Type3'', 5280000),
      (''Dsv4_Type2'', 6336000), (''Eadsv5_Type1'', 8395000), (''Easv4_Type1'', 7973000), (''Easv4_Type2'', 7973000),
      (''Ebsv5-Type1'', 6266000), (''Esv3_Type3'', 5148000), (''Esv4_Type1'', 5315000), (''Fsv2 Type3'', 5128000),
      (''Fsv2_Type2'', 4396000), (''Lsv2_Type1'', 8228000), (''Lsv3_Type1'', 9196000), (''Msmv2_Type1'', 158140000),
      (''Msv2MedMem Type1'', 20606000), (Standard ''A1_v2'', 50000), (Standard ''A3'', 284000), (Standard ''B16als_v2'', 747000),
      (Standard ''B16as_v2'', 834000), (Standard ''B1ms'', 26400), (Standard ''B2ls_v2'', 62000), (Standard ''B2ps_v2'', 84800),
      (Standard ''B2pts_v2'', 19800), (Standard ''B2s'', 52800), (Standard ''B32s_v2'', 1690000), (Standard ''B4als_v2'', 168000),
      (Standard ''B4ls_v2'', 187000), (Standard ''B4ms'', 211000), (Standard ''B4pls_v2'', 169000), (Standard ''B8ls_v2'', 411000),
      (Standard ''B8pls_v2'', 300000), (Standard ''D1'', 93000), (Standard ''D15_v2'', 1995000), (Standard ''D16d_v4'', 1136000),
      (Standard ''D16d_v5'', 1136000), (Standard ''D16ds_v4'', 1136000), (Standard ''D16pds_v5'', 912000), (Standard ''D2_v2'', 168000),
      (Standard ''D2as_v4'', 120000), (Standard ''D2s_v3'', 125000), (Standard ''D2s_v5'', 120000), (Standard ''D3'', 372000),
      (Standard ''D32-16s_v3'', 2000000), (Standard ''D32_v4'', 1920000), (Standard ''D32ads_v5'', 2080000),
      (Standard ''D32s_v5'', 1920000), (Standard ''D48_v4'', 2880000), (Standard ''D48lds_v5'', 3024000), (Standard ''D48ls_v5'', 2664000),
      (Standard ''D48ps_v5'', 2304000), (Standard ''D48s_v4'', 2880000), (Standard ''D4_v2'', 673000), (Standard ''D4_v4'', 240000),
      (Standard ''D4ads_v5'', 260000), (Standard ''D5_v2'', 1345000), (Standard ''D5_v2_Promo'', 1345000), (Standard ''D64a_v4'', 3840000),
      (Standard ''D64ds_v4'', 4544000), (Standard ''D64plds_v5'', 3232000), (Standard ''D8_v4'', 480000), (Standard ''D8as_v4'', 480000),
      (Standard ''D8ds_v4'', 568000), (Standard ''D8lds_v5'', 504000), (Standard ''D8ps_v5'', 384000), (Standard ''D96ls_v5'', 5328000),
      (Standard ''DC24ds_v3'', 3408000), (Standard ''DC24s_v3'', 2880000), (Standard ''DC32ds_v3'', 4544000),
      (Standard ''DC48ds_v3'', 6816000), (Standard ''DC4s_v2'', 480000), (Standard ''DS1'', 93000), (Standard ''DS11_v2_Promo'', 200000),
      (Standard ''DS13'', 840000), (Standard ''DS13-4_v2'', 798000), (Standard ''DS13_v2_Promo'', 798000),
      (Standard ''DS14-4_v2'', 1596000), (Standard ''DS2'', 186000), (Standard ''DS4_v2'', 673000), (Standard ''DS5_v2'', 1345000),
      (Standard ''E104i_v5'', 8637000), (Standard ''E104ids_v5'', 9953000), (Standard ''E112iads_v5'', 9794000),
      (Standard ''E16-4ds_v4'', 1392000), (Standard ''E16-4ds_v5'', 1392000)]"

definition australiaeast_2 :: priceTable where
  "australiaeast_2 =
     [(Standard ''E16-4s_v5'', 1208000), (Standard ''E16_v3'', 1277000), (Standard ''E16ads_v5'', 1272000),
      (Standard ''E16d_v4'', 1392000), (Standard ''E16d_v5'', 1392000), (Standard ''E16s_v3'', 1277000), (Standard ''E16s_v4'', 1208000),
      (Standard ''E20_v5'', 1510000), (Standard ''E20ds_v4'', 1740000), (Standard ''E20ds_v5'', 1740000),
      (Standard ''E20pds_v5'', 1390000), (Standard ''E20ps_v5'', 1208000), (Standard ''E20s_v3'', 1509000),
      (Standard ''E20s_v4'', 1510000), (Standard ''E2_v3'', 160000), (Standard ''E2a_v4'', 151000), (Standard ''E2ads_v5'', 159000),
      (Standard ''E2as_v5'', 136000), (Standard ''E2d_v5'', 174000), (Standard ''E32-16as_v4'', 2416000),
      (Standard ''E32-16as_v5'', 2176000), (Standard ''E32-8as_v5'', 2176000), (Standard ''E32_v5'', 2416000),
      (Standard ''E32ds_v5'', 2784000), (Standard ''E4-2ds_v4'', 348000), (Standard ''E4-2s_v4'', 302000), (Standard ''E4-2s_v5'', 302000),
      (Standard ''E48_v4'', 3624000), (Standard ''E48a_v4'', 3624000), (Standard ''E48as_v4'', 3624000), (Standard ''E48s_v3'', 3623000),
      (Standard ''E4_v5'', 302000), (Standard ''E4ds_v4'', 348000), (Standard ''E4s_v5'', 302000), (Standard ''E64-16s_v5'', 4832000),
      (Standard ''E64a_v4'', 4832000), (Standard ''E64as_v4'', 4832000), (Standard ''E64bds_v5'', 6432000),
      (Standard ''E64s_v3'', 4347000), (Standard ''E8-4as_v4'', 604000), (Standard ''E8-4ds_v4'', 696000),
      (Standard ''E8-4ds_v5'', 696000), (Standard ''E8-4s_v3'', 638000), (Standard ''E8-4s_v5'', 604000), (Standard ''E8ads_v5'', 636000),
      (Standard ''E8as_v5'', 544000), (Standard ''E8bs_v5'', 712000), (Standard ''E8s_v3'', 638000), (Standard ''E96-24ads_v5'', 7632000),
      (Standard ''E96-48as_v4'', 7248000), (Standard ''E96-48ds_v5'', 8352000), (Standard ''E96bs_v5'', 8544000), (Standard ''F1'', 65000),
      (Standard ''F16s'', 1042000), (Standard ''F2'', 130000), (Standard ''F4'', 260000), (Standard ''F4s'', 260000),
      (Standard ''F72s_v2'', 3996000), (Standard ''FX12mds'', 1356000), (Standard ''FX24mds'', 2712000), (Standard ''G2'', 1276000),
      (Standard ''G5'', 10208000), (Standard ''GS5-8'', 10208000), (Standard ''HB120-64rs_v2'', 5220000), (Standard ''HC44rs'', 4594000),
      (Standard ''L32s_v3'', 3344000), (Standard ''L48as_v3'', 4488000), (Standard ''L4s'', 374000), (Standard ''M128-64ms'', 38697600),
      (Standard ''M128s_v2'', 18733000), (Standard ''M16s'', 3461000), (Standard ''M192is_v2'', 22636000),
      (Standard ''M416is_v2'', 71891000), (Standard ''M64'', 9670000), (Standard ''M64ms_v2'', 14688000), (Standard ''M64s'', 9670000),
      (Standard ''M8-2ms'', 2227900), (Standard ''NC12'', 3100000), (Standard ''NC24r'', 6842000), (Standard ''NC6'', 1550000),
      (Standard ''NC6s_v3'', 4234000), (Standard ''NC8as_T4_v3'', 978000), (Standard ''NV12ads_A10_v5'', 1317000),
      (Standard ''NV12s_v3'', 1590000), (Standard ''NV16as_v4'', 1351000), (Standard ''NV6ads_A10_v5'', 658000)]"

definition australiaeast :: priceTable where
  "australiaeast = australiaeast_1 @ australiaeast_2"

subsection \<open>australiasoutheast\<close>

definition australiasoutheast_1 :: priceTable where
  "australiasoutheast_1 =
     [(''Basic_A4'', 464000), (''Dadsv5_Type1'', 8248000), (''Dasv4_Type2'', 6589000), (''Dasv5_Type1'', 6887000),
      (''Ddsv5_Type1'', 7756000), (''Dsv3_Type3'', 5280000), (''Dsv4_Type1'', 5491000), (''Dsv4_Type2'', 6864000),
      (''Easv5_Type1'', 7756000), (''Ebdsv5-Type1'', 7642000), (''Ebsv5-Type1'', 6818000), (''Edsv4_Type 1'', 6589000),
      (''Edsv5_Type1'', 9884000), (''Esv3_Type4'', 6974000), (''Esv4_Type1'', 5766000), (''Fsv2 Type3'', 5642000),
      (''Fsv2_Type2'', 4376000), (''Lasv3_Type1'', 8923000), (''Lsv3_Type1'', 9981000), (''Mdsv2MedMem_Type1'', 19076000),
      (''Msmv2MedMem Type1'', 37565000), (''Msmv2_Type1'', 158140000), (''Msv2MedMem Type1'', 18474000), (Standard ''A1'', 71000),
      (Standard ''A1_v2'', 50000), (Standard ''A2'', 142000), (Standard ''A3'', 284000), (Standard ''A4_v2'', 222000),
      (Standard ''A5'', 278000), (Standard ''A8m_v2'', 786000), (Standard ''B16as_v2'', 782000), (Standard ''B16ms'', 845000),
      (Standard ''B16s_v2'', 865000), (Standard ''B1s'', 13200), (Standard ''B20ms'', 1057000), (Standard ''B2als_v2'', 48900),
      (Standard ''B2ls_v2'', 54100), (Standard ''B2ms'', 106000), (Standard ''B2s'', 52800), (Standard ''B2s_v2'', 108000),
      (Standard ''B2ts_v2'', 22700), (Standard ''B32als_v2'', 1385000), (Standard ''B32ls_v2'', 1532000), (Standard ''B32s_v2'', 1731000),
      (Standard ''B4als_v2'', 173000), (Standard ''B4ls_v2'', 192000), (Standard ''B4s_v2'', 235000), (Standard ''B8als_v2'', 346000),
      (Standard ''B8as_v2'', 428000), (Standard ''B8ms'', 423000), (Standard ''B8s_v2'', 469000), (Standard ''D1'', 93000),
      (Standard ''D11'', 210000), (Standard ''D11_v2'', 200000), (Standard ''D11_v2_Promo'', 200000), (Standard ''D12'', 420000),
      (Standard ''D12_v2_Promo'', 399000), (Standard ''D13'', 840000), (Standard ''D13_v2'', 798000), (Standard ''D13_v2_Promo'', 798000),
      (Standard ''D14'', 1680000), (Standard ''D14_v2'', 1596000), (Standard ''D14_v2_Promo'', 1596000), (Standard ''D15i_v2'', 1995000),
      (Standard ''D16_v4'', 998000), (Standard ''D16_v5'', 998000), (Standard ''D16ads_v5'', 1071000), (Standard ''D16as_v4'', 998000),
      (Standard ''D16as_v5'', 894000), (Standard ''D16d_v4'', 1085000), (Standard ''D16d_v5'', 1175000), (Standard ''D16ds_v4'', 1085000),
      (Standard ''D16ls_v5'', 884000), (Standard ''D16s_v3'', 1000000), (Standard ''D16s_v5'', 998000), (Standard ''D1_v2'', 77800),
      (Standard ''D2_v2_Promo'', 155760), (Standard ''D2_v4'', 125000), (Standard ''D2_v5'', 125000), (Standard ''D2a_v4'', 125000),
      (Standard ''D2as_v5'', 112000), (Standard ''D2ds_v4'', 136000), (Standard ''D2ds_v5'', 147000), (Standard ''D2lds_v5'', 125000),
      (Standard ''D2ls_v5'', 111000), (Standard ''D2s_v3'', 125000), (Standard ''D3'', 372000), (Standard ''D32-8s_v3'', 2000000),
      (Standard ''D32_v3'', 2000000), (Standard ''D32_v4'', 1997000), (Standard ''D32a_v4'', 1997000), (Standard ''D32ads_v5'', 2142000),
      (Standard ''D32as_v4'', 1997000), (Standard ''D32d_v4'', 2170000), (Standard ''D32d_v5'', 2350000), (Standard ''D32ds_v4'', 2170000),
      (Standard ''D32ds_v5'', 2350000), (Standard ''D32lds_v5'', 1997000), (Standard ''D32ls_v5'', 1768000),
      (Standard ''D3_v2_Promo'', 311000), (Standard ''D48_v5'', 2995000), (Standard ''D48ads_v5'', 3214000),
      (Standard ''D48as_v5'', 2683000), (Standard ''D48d_v5'', 3526000), (Standard ''D48lds_v5'', 2995000),
      (Standard ''D48ls_v5'', 2652000), (Standard ''D48s_v3'', 3000000), (Standard ''D48s_v4'', 2995000), (Standard ''D48s_v5'', 2995000),
      (Standard ''D4_v2'', 623000), (Standard ''D4_v2_Promo'', 623000), (Standard ''D4_v3'', 250000), (Standard ''D4_v4'', 250000),
      (Standard ''D4_v5'', 250000), (Standard ''D4ads_v5'', 268000), (Standard ''D4ahs_v4'', 250000)]"

definition australiasoutheast_2 :: priceTable where
  "australiasoutheast_2 =
     [(Standard ''D4d_v4'', 271000), (Standard ''D4ds_v5'', 294000), (Standard ''D4lds_v5'', 250000), (Standard ''D4ls_v5'', 221000),
      (Standard ''D5_v2'', 1246000), (Standard ''D5_v2_Promo'', 1246000), (Standard ''D64-32s_v3'', 4000000),
      (Standard ''D64_v3'', 4000000), (Standard ''D64_v5'', 3994000), (Standard ''D64a_v4'', 3994000), (Standard ''D64ads_v5'', 4285000),
      (Standard ''D64as_v5'', 3578000), (Standard ''D64d_v4'', 4339000), (Standard ''D64d_v5'', 4701000),
      (Standard ''D64lds_v5'', 3994000), (Standard ''D64ls_v5'', 3536000), (Standard ''D64s_v4'', 3994000), (Standard ''D8_v5'', 499000),
      (Standard ''D8a_v4'', 499000), (Standard ''D8as_v5'', 447000), (Standard ''D8d_v4'', 542000), (Standard ''D8d_v5'', 588000),
      (Standard ''D8s_v4'', 499000), (Standard ''D96_v5'', 5990000), (Standard ''D96a_v4'', 5990000), (Standard ''D96as_v5'', 5366000),
      (Standard ''DC1s_v2'', 125000), (Standard ''DC2s_v2'', 250000), (Standard ''DC4s_v2'', 499000), (Standard ''DC8_v2'', 998000),
      (Standard ''DS11-1_v2'', 200000), (Standard ''DS11_v2'', 200000), (Standard ''DS12'', 420000), (Standard ''DS12-1_v2'', 399000),
      (Standard ''DS13'', 840000), (Standard ''DS13-4_v2'', 798000), (Standard ''DS14'', 1680000), (Standard ''DS14-8_v2'', 1596000),
      (Standard ''DS14_v2_Promo'', 1596000), (Standard ''DS15i_v2'', 1995000), (Standard ''DS2_v2'', 155760),
      (Standard ''DS2_v2_Promo'', 155760), (Standard ''DS3'', 372000), (Standard ''DS3_v2'', 311000), (Standard ''DS3_v2_Promo'', 311000),
      (Standard ''DS4'', 744000), (Standard ''DS4_v2_Promo'', 623000), (Standard ''DS5_v2'', 1246000), (Standard ''E104i_v5'', 9369000),
      (Standard ''E104id_v5'', 10708000), (Standard ''E104ids_v5'', 10708000), (Standard ''E112iads_v5'', 10490000),
      (Standard ''E112ias_v5'', 9049000), (Standard ''E16-4ads_v5'', 1362000), (Standard ''E16-4ds_v4'', 1382000),
      (Standard ''E16-4ds_v5'', 1498000), (Standard ''E16-4s_v4'', 1310000), (Standard ''E16-4s_v5'', 1310000),
      (Standard ''E16-8ads_v5'', 1362000), (Standard ''E16-8as_v5'', 1175000), (Standard ''E16-8ds_v4'', 1382000),
      (Standard ''E16-8s_v3'', 1277000), (Standard ''E16-8s_v5'', 1310000), (Standard ''E16_v3'', 1277000), (Standard ''E16_v4'', 1310000),
      (Standard ''E16_v5'', 1310000), (Standard ''E16a_v4'', 1310000), (Standard ''E16as_v5'', 1175000), (Standard ''E16bds_v5'', 1737000),
      (Standard ''E16bs_v5'', 1550000), (Standard ''E16d_v4'', 1382000), (Standard ''E16d_v5'', 1498000), (Standard ''E16ds_v4'', 1382000),
      (Standard ''E16ds_v5'', 1498000), (Standard ''E16s_v3'', 1277000), (Standard ''E16s_v4'', 1310000), (Standard ''E20_v3'', 1509000),
      (Standard ''E20_v4'', 1638000), (Standard ''E20_v5'', 1638000), (Standard ''E20ads_v5'', 1703000), (Standard ''E20d_v4'', 1728000),
      (Standard ''E20d_v5'', 1872000), (Standard ''E20s_v3'', 1509000), (Standard ''E2_v3'', 160000), (Standard ''E2_v5'', 164000),
      (Standard ''E2as_v5'', 147000), (Standard ''E2bs_v5'', 194000), (Standard ''E2d_v5'', 187000), (Standard ''E2ds_v4'', 173000),
      (Standard ''E2ds_v5'', 187000), (Standard ''E2s_v3'', 160000), (Standard ''E2s_v4'', 164000), (Standard ''E2s_v5'', 164000),
      (Standard ''E32-16ads_v5'', 2725000), (Standard ''E32-16ds_v4'', 2765000), (Standard ''E32-16s_v4'', 2621000),
      (Standard ''E32-16s_v5'', 2621000), (Standard ''E32-8as_v4'', 2621000), (Standard ''E32-8as_v5'', 2350000),
      (Standard ''E32-8ds_v4'', 2765000), (Standard ''E32-8ds_v5'', 2995000), (Standard ''E32_v4'', 2621000),
      (Standard ''E32a_v4'', 2621000), (Standard ''E32ads_v5'', 2725000), (Standard ''E32as_v4'', 2621000),
      (Standard ''E32bds_v5'', 3474000), (Standard ''E32d_v4'', 2765000), (Standard ''E32ds_v4'', 2765000),
      (Standard ''E32s_v5'', 2621000), (Standard ''E4-2ads_v5'', 341000), (Standard ''E4-2ds_v4'', 346000),
      (Standard ''E4-2ds_v5'', 374000), (Standard ''E4-2s_v3'', 319000), (Standard ''E4-2s_v5'', 328000), (Standard ''E48_v3'', 3623000),
      (Standard ''E48_v4'', 3931000)]"

definition australiasoutheast_3 :: priceTable where
  "australiasoutheast_3 =
     [(Standard ''E48_v5'', 3931000), (Standard ''E48as_v5'', 3526000), (Standard ''E48bds_v5'', 5210000),
      (Standard ''E48ds_v4'', 4147000), (Standard ''E48ds_v5'', 4493000), (Standard ''E48s_v4'', 3931000), (Standard ''E48s_v5'', 3931000),
      (Standard ''E4_v3'', 319000), (Standard ''E4_v4'', 328000), (Standard ''E4a_v4'', 328000), (Standard ''E4ads_v5'', 341000),
      (Standard ''E4as_v4'', 328000), (Standard ''E4bds_v5'', 434000), (Standard ''E4d_v4'', 346000), (Standard ''E4d_v5'', 374000),
      (Standard ''E4ds_v4'', 346000), (Standard ''E4s_v3'', 319000), (Standard ''E4s_v5'', 328000), (Standard ''E64-16ads_v5'', 5450000),
      (Standard ''E64-16as_v4'', 5242000), (Standard ''E64-16s_v4'', 5242000), (Standard ''E64-16s_v5'', 5242000),
      (Standard ''E64-32ds_v4'', 5530000), (Standard ''E64-32s_v4'', 5242000), (Standard ''E64-32s_v5'', 5242000),
      (Standard ''E64_v3'', 4347000), (Standard ''E64_v5'', 5242000), (Standard ''E64a_v4'', 5242000), (Standard ''E64as_v4'', 5242000),
      (Standard ''E64as_v5'', 4701000), (Standard ''E64bds_v5'', 6947000), (Standard ''E64ds_v4'', 5530000),
      (Standard ''E64ds_v5'', 5990000), (Standard ''E64i_v3'', 4347000), (Standard ''E64s_v3'', 4347000), (Standard ''E64s_v4'', 5242000),
      (Standard ''E64s_v5'', 5242000), (Standard ''E8-2ads_v5'', 681000), (Standard ''E8-2ds_v5'', 749000),
      (Standard ''E8-2s_v3'', 638000), (Standard ''E8-2s_v4'', 655000), (Standard ''E8-4ads_v5'', 681000),
      (Standard ''E8-4as_v5'', 588000), (Standard ''E8-4ds_v4'', 691000), (Standard ''E8-4ds_v5'', 749000),
      (Standard ''E8-4s_v4'', 655000), (Standard ''E80ids_v4'', 6912000), (Standard ''E8_v5'', 655000), (Standard ''E8a_v4'', 655000),
      (Standard ''E8as_v4'', 655000), (Standard ''E8as_v5'', 588000), (Standard ''E8bds_v5'', 868000), (Standard ''E8d_v5'', 749000),
      (Standard ''E8ds_v4'', 691000), (Standard ''E8s_v3'', 638000), (Standard ''E8s_v4'', 655000), (Standard ''E8s_v5'', 655000),
      (Standard ''E96-24ads_v5'', 8174000), (Standard ''E96-24ds_v5'', 8986000), (Standard ''E96-24s_v5'', 7862000),
      (Standard ''E96-48as_v5'', 7051000), (Standard ''E96-48ds_v5'', 8986000), (Standard ''E96_v5'', 7862000),
      (Standard ''E96a_v4'', 7862000), (Standard ''E96d_v5'', 8986000), (Standard ''E96ds_v5'', 8986000),
      (Standard ''E96iads_v5'', 8992000), (Standard ''E96ias_v5'', 7756000), (Standard ''E96s_v5'', 7862000), (Standard ''F1'', 65000),
      (Standard ''F2'', 130000), (Standard ''F2s_v2'', 111000), (Standard ''F4'', 260000), (Standard ''F48s_v2'', 2672000),
      (Standard ''F4s_v2'', 223000), (Standard ''F64s_v2'', 3563000), (Standard ''F72s_v2'', 4009000), (Standard ''F8'', 521000),
      (Standard ''F8s'', 521000), (Standard ''F8s_v2'', 445000), (Standard ''L32as_v3'', 3245000), (Standard ''L32s_v3'', 3630000),
      (Standard ''L48as_v3'', 4867000), (Standard ''L80s_v3'', 9074000), (Standard ''L8as_v3'', 811000), (Standard ''L8s_v3'', 907000),
      (Standard ''M128-32ms'', 38698000), (Standard ''M128-64ms'', 38698000), (Standard ''M128dms_v2'', 34697000),
      (Standard ''M128m'', 38698000), (Standard ''M128s'', 19340000), (Standard ''M16ms'', 4455900), (Standard ''M16s'', 3461000),
      (Standard ''M192ids_v2'', 20842000), (Standard ''M192is_v2'', 20294000), (Standard ''M208-104ms_v2'', 64699000),
      (Standard ''M208-52ms_v2'', 64699000), (Standard ''M208ms_v2'', 64699000), (Standard ''M32-16ms'', 8911700),
      (Standard ''M32ms'', 8911700), (Standard ''M32ms_v2'', 7853000), (Standard ''M32ts'', 3248000),
      (Standard ''M416-104ms_v2'', 143770000), (Standard ''M416-104s_v2'', 71891000), (Standard ''M416-208ms_v2'', 143770000),
      (Standard ''M416is_v2'', 71891000), (Standard ''M416ms_v2'', 143770000), (Standard ''M64'', 9670000),
      (Standard ''M64-16ms'', 14989000), (Standard ''M64-32ms'', 14989000), (Standard ''M64dms_v2'', 13442000),
      (Standard ''M64ls'', 6498000), (Standard ''M64s_v2'', 8397000), (Standard ''M8-2ms'', 2227900), (Standard ''M8-4ms'', 2227900)]"

definition australiasoutheast :: priceTable where
  "australiasoutheast = australiasoutheast_1 @ australiasoutheast_2 @ australiasoutheast_3"

subsection \<open>brazilsouth\<close>

definition brazilsouth_1 :: priceTable where
  "brazilsouth_1 =
     [(''Basic_A0'', 22000), (''Basic_A1'', 41000), (''Basic_A2'', 112000), (''Basic_A3'', 232000), (''Basic_A4'', 464000),
      (''Dadsv5_Type1'', 10164000), (''Dasv4_Type1'', 8078000), (''Dasv4_Type2'', 8415000), (''Dasv5_Type1'', 8501000),
      (''Ddsv4_Type 1'', 6336000), (''Ddsv4_Type2'', 7524000), (''Ddsv5_Type1'', 9504000), (''Dsv3_Type3'', 6996000),
      (''Dsv3_Type4'', 8413000), (''Dsv4_Type1'', 6731000), (''Dsv4_Type2'', 8078000), (''Dsv5_Type1'', 8415000),
      (''Eadsv5_Type1'', 10982000), (''Easv4_Type1'', 10613000), (''Easv4_Type2'', 10613000), (''Easv5_Type1'', 9557000),
      (''Ebdsv5-Type1'', 9381000), (''Ebsv5-Type1'', 8430000), (''Edsv4_Type 1'', 8025000), (''Edsv4_Type2'', 9551000),
      (''Edsv5_Type1'', 12038000), (''Esv3_Type3'', 8010000), (''Esv3_Type4'', 10852000), (''Esv4_Type1'', 7075000),
      (''Esv4_Type2'', 9286000), (''Esv5_Type1'', 10613000), (''FXmds Type1'', 7339000), (''Fsv2 Type3'', 6052000),
      (''Fsv2_Type2'', 5188000), (''Fsv2_Type4'', 6917000), (''Lasv3_Type1'', 10956000), (''Lsv3_Type1'', 12232000),
      (''Mdsmv2MedMem _Type1'', 57250000), (''Mdsv2MedMem_Type1'', 28614000), (''Ms_Type1'', 28604000), (''Msm_Type1'', 57258000),
      (''Msmv2MedMem Type1'', 56347000), (''Msmv2_Type1'', 212680000), (''Msv2MedMem Type1'', 27712000), (''Msv2_Type1'', 106350000),
      (''NVsv3_Type1'', 8527000), (Standard ''A0'', 24000), (Standard ''A1'', 80000), (Standard ''A1_v2'', 61000),
      (Standard ''A2'', 160000), (Standard ''A2_v2'', 129000), (Standard ''A2m_v2'', 208000), (Standard ''A3'', 320000),
      (Standard ''A4'', 640000), (Standard ''A4_v2'', 270000), (Standard ''A4m_v2'', 437000), (Standard ''A5'', 291000),
      (Standard ''A6'', 582000), (Standard ''A7'', 1164000), (Standard ''A8_v2'', 567000), (Standard ''A8m_v2'', 917000),
      (Standard ''B12ms'', 806000), (Standard ''B16als_v2'', 857000), (Standard ''B16as_v2'', 968000), (Standard ''B16ls_v2'', 952000),
      (Standard ''B16ms'', 1075000), (Standard ''B16s_v2'', 1149000), (Standard ''B1ls'', 8400), (Standard ''B1ms'', 33600),
      (Standard ''B1s'', 16800), (Standard ''B20ms'', 1344000), (Standard ''B2als_v2'', 69700), (Standard ''B2as_v2'', 130000),
      (Standard ''B2ats_v2'', 15100), (Standard ''B2ls_v2'', 76400), (Standard ''B2ms'', 134000), (Standard ''B2s'', 67200),
      (Standard ''B2s_v2'', 134000), (Standard ''B2ts_v2'', 16800), (Standard ''B32als_v2'', 1714000), (Standard ''B32as_v2'', 1936000),
      (Standard ''B32ls_v2'', 2051000), (Standard ''B32s_v2'', 2298000), (Standard ''B4als_v2'', 214000), (Standard ''B4as_v2'', 242000),
      (Standard ''B4ls_v2'', 257000), (Standard ''B4ms'', 269000), (Standard ''B4s_v2'', 269000), (Standard ''B8als_v2'', 465000),
      (Standard ''B8as_v2'', 484000), (Standard ''B8ls_v2'', 513000), (Standard ''B8ms'', 538000), (Standard ''B8s_v2'', 574000),
      (Standard ''D1'', 95000), (Standard ''D11'', 235000), (Standard ''D11_v2'', 235000), (Standard ''D11_v2_Promo'', 235000),
      (Standard ''D12'', 470000), (Standard ''D12_v2'', 470000), (Standard ''D12_v2_Promo'', 470000), (Standard ''D13'', 939000),
      (Standard ''D13_v2'', 940000), (Standard ''D13_v2_Promo'', 940000), (Standard ''D14'', 1879000), (Standard ''D14_v2'', 1879000),
      (Standard ''D14_v2_Promo'', 1879000), (Standard ''D15_v2'', 2349000), (Standard ''D15i_v2'', 2349000),
      (Standard ''D16_v3'', 1272000), (Standard ''D16_v4'', 1224000), (Standard ''D16_v5'', 1224000), (Standard ''D16a_v4'', 1224000),
      (Standard ''D16ads_v5'', 1320000), (Standard ''D16as_v4'', 1224000), (Standard ''D16as_v5'', 1104000),
      (Standard ''D16as_v5_Promo'', 979000), (Standard ''D16d_v4'', 1440000), (Standard ''D16d_v5'', 1440000),
      (Standard ''D16ds_v4'', 1440000), (Standard ''D16ds_v5'', 1440000), (Standard ''D16lds_v5'', 1192000),
      (Standard ''D16ls_v5'', 1048000), (Standard ''D16s_v3'', 1272000), (Standard ''D16s_v4'', 1224000), (Standard ''D16s_v5'', 1224000),
      (Standard ''D1_v2'', 85600), (Standard ''D2'', 190000), (Standard ''D2_v2'', 171000)]"

definition brazilsouth_2 :: priceTable where
  "brazilsouth_2 =
     [(Standard ''D2_v2_Promo'', 171000), (Standard ''D2_v3'', 159000), (Standard ''D2_v4'', 153000), (Standard ''D2_v5'', 153000),
      (Standard ''D2a_v4'', 153000), (Standard ''D2ads_v5'', 165000), (Standard ''D2as_v4'', 153000), (Standard ''D2as_v5'', 138000),
      (Standard ''D2as_v5_Promo'', 122000), (Standard ''D2d_v4'', 180000), (Standard ''D2d_v5'', 180000), (Standard ''D2ds_v4'', 180000),
      (Standard ''D2ds_v5'', 180000), (Standard ''D2lds_v5'', 149000), (Standard ''D2ls_v5'', 131000), (Standard ''D2s_v3'', 159000),
      (Standard ''D2s_v4'', 153000), (Standard ''D2s_v5'', 153000), (Standard ''D3'', 380000), (Standard ''D32-16s_v3'', 2544000),
      (Standard ''D32-8s_v3'', 2544000), (Standard ''D32_v3'', 2544000), (Standard ''D32_v4'', 2448000), (Standard ''D32_v5'', 2448000),
      (Standard ''D32a_v4'', 2448000), (Standard ''D32ads_v5'', 2640000), (Standard ''D32as_v4'', 2448000),
      (Standard ''D32as_v5'', 2208000), (Standard ''D32as_v5_Promo'', 1958000), (Standard ''D32d_v4'', 2880000),
      (Standard ''D32d_v5'', 2880000), (Standard ''D32ds_v4'', 2880000), (Standard ''D32ds_v5'', 2880000),
      (Standard ''D32lds_v5'', 2384000), (Standard ''D32ls_v5'', 2096000), (Standard ''D32s_v3'', 2544000),
      (Standard ''D32s_v4'', 2448000), (Standard ''D32s_v5'', 2448000), (Standard ''D3_v2'', 343000), (Standard ''D3_v2_Promo'', 343000),
      (Standard ''D4'', 760000), (Standard ''D48_v3'', 3816000), (Standard ''D48_v4'', 3672000), (Standard ''D48_v5'', 3672000),
      (Standard ''D48a_v4'', 3672000), (Standard ''D48ads_v5'', 3960000), (Standard ''D48as_v4'', 3672000),
      (Standard ''D48as_v5'', 3312000), (Standard ''D48as_v5_Promo'', 2938000), (Standard ''D48d_v4'', 4320000),
      (Standard ''D48d_v5'', 4320000), (Standard ''D48ds_v4'', 4320000), (Standard ''D48ds_v5'', 4320000),
      (Standard ''D48lds_v5'', 3576000), (Standard ''D48ls_v5'', 3144000), (Standard ''D48s_v3'', 3816000),
      (Standard ''D48s_v4'', 3672000), (Standard ''D48s_v5'', 3672000), (Standard ''D4_v2'', 685000), (Standard ''D4_v2_Promo'', 685000),
      (Standard ''D4_v3'', 318000), (Standard ''D4_v4'', 306000), (Standard ''D4_v5'', 306000), (Standard ''D4a_v4'', 306000),
      (Standard ''D4ads_v5'', 330000), (Standard ''D4as_v4'', 306000), (Standard ''D4as_v5'', 276000),
      (Standard ''D4as_v5_Promo'', 245000), (Standard ''D4d_v4'', 360000), (Standard ''D4d_v5'', 360000), (Standard ''D4ds_v4'', 360000),
      (Standard ''D4ds_v5'', 360000), (Standard ''D4lds_v5'', 298000), (Standard ''D4ls_v5'', 262000), (Standard ''D4s_v3'', 318000),
      (Standard ''D4s_v4'', 306000), (Standard ''D4s_v5'', 306000), (Standard ''D5_v2'', 1370000), (Standard ''D5_v2_Promo'', 1370000),
      (Standard ''D64-16s_v3'', 5088000), (Standard ''D64-32s_v3'', 5088000), (Standard ''D64_v3'', 5088000),
      (Standard ''D64_v4'', 4896000), (Standard ''D64_v5'', 4896000), (Standard ''D64a_v4'', 4896000), (Standard ''D64ads_v5'', 5280000),
      (Standard ''D64as_v4'', 4896000), (Standard ''D64as_v5'', 4416000), (Standard ''D64as_v5_Promo'', 3917000),
      (Standard ''D64d_v4'', 5760000), (Standard ''D64d_v5'', 5760000), (Standard ''D64ds_v4'', 5760000), (Standard ''D64ds_v5'', 5760000),
      (Standard ''D64lds_v5'', 4768000), (Standard ''D64ls_v5'', 4192000), (Standard ''D64s_v3'', 5088000),
      (Standard ''D64s_v4'', 4896000), (Standard ''D64s_v5'', 4896000), (Standard ''D8_v3'', 636000), (Standard ''D8_v4'', 612000),
      (Standard ''D8_v5'', 612000), (Standard ''D8a_v4'', 612000), (Standard ''D8ads_v5'', 660000), (Standard ''D8as_v4'', 612000),
      (Standard ''D8as_v5'', 552000), (Standard ''D8as_v5_Promo'', 490000), (Standard ''D8d_v4'', 720000), (Standard ''D8d_v5'', 720000),
      (Standard ''D8ds_v4'', 720000), (Standard ''D8ds_v5'', 720000), (Standard ''D8lds_v5'', 596000), (Standard ''D8ls_v5'', 524000),
      (Standard ''D8s_v3'', 636000), (Standard ''D8s_v4'', 612000), (Standard ''D8s_v5'', 612000), (Standard ''D96_v5'', 7344000),
      (Standard ''D96a_v4'', 7344000), (Standard ''D96ads_v5'', 7920000), (Standard ''D96as_v4'', 7344000),
      (Standard ''D96as_v5'', 6624000), (Standard ''D96as_v5_Promo'', 5875000), (Standard ''D96d_v5'', 8640000),
      (Standard ''D96ds_v5'', 8640000), (Standard ''D96lds_v5'', 7152000), (Standard ''D96ls_v5'', 6288000),
      (Standard ''D96s_v5'', 7344000), (Standard ''DS1'', 95000), (Standard ''DS11'', 235000)]"

definition brazilsouth_3 :: priceTable where
  "brazilsouth_3 =
     [(Standard ''DS11-1_v2'', 235000), (Standard ''DS11_v2'', 235000), (Standard ''DS11_v2_Promo'', 235000), (Standard ''DS12'', 470000),
      (Standard ''DS12-1_v2'', 470000), (Standard ''DS12-2_v2'', 470000), (Standard ''DS12_v2'', 470000),
      (Standard ''DS12_v2_Promo'', 470000), (Standard ''DS13'', 939000), (Standard ''DS13-2_v2'', 940000),
      (Standard ''DS13-4_v2'', 940000), (Standard ''DS13_v2'', 940000), (Standard ''DS13_v2_Promo'', 940000), (Standard ''DS14'', 1879000),
      (Standard ''DS14-4_v2'', 1879000), (Standard ''DS14-8_v2'', 1879000), (Standard ''DS14_v2'', 1879000),
      (Standard ''DS14_v2_Promo'', 1879000), (Standard ''DS15_v2'', 2349000), (Standard ''DS15i_v2'', 2349000),
      (Standard ''DS1_v2'', 85600), (Standard ''DS2'', 190000), (Standard ''DS2_v2'', 171000), (Standard ''DS2_v2_Promo'', 171000),
      (Standard ''DS3'', 380000), (Standard ''DS3_v2'', 343000), (Standard ''DS3_v2_Promo'', 343000), (Standard ''DS4'', 760000),
      (Standard ''DS4_v2'', 685000), (Standard ''DS4_v2_Promo'', 685000), (Standard ''DS5_v2'', 1370000),
      (Standard ''DS5_v2_Promo'', 1370000), (Standard ''E104i_v5'', 11497000), (Standard ''E104id_v5'', 13042000),
      (Standard ''E104ids_v5'', 13042000), (Standard ''E104is_v5'', 11497000), (Standard ''E112iads_v5'', 12813000),
      (Standard ''E112ias_v5'', 11150000), (Standard ''E112ibds_v5'', 16416000), (Standard ''E112ibs_v5'', 14753000),
      (Standard ''E16-4ads_v5'', 1664000), (Standard ''E16-4as_v4'', 1608000), (Standard ''E16-4as_v5'', 1448000),
      (Standard ''E16-4ds_v4'', 1824000), (Standard ''E16-4ds_v5'', 1824000), (Standard ''E16-4s_v3'', 1879000),
      (Standard ''E16-4s_v4'', 1608000), (Standard ''E16-4s_v5'', 1608000), (Standard ''E16-8ads_v5'', 1664000),
      (Standard ''E16-8as_v4'', 1608000), (Standard ''E16-8as_v5'', 1448000), (Standard ''E16-8ds_v4'', 1824000),
      (Standard ''E16-8ds_v5'', 1824000), (Standard ''E16-8s_v3'', 1879000), (Standard ''E16-8s_v4'', 1608000),
      (Standard ''E16-8s_v5'', 1608000), (Standard ''E16_v3'', 1879000), (Standard ''E16_v4'', 1608000), (Standard ''E16_v5'', 1608000),
      (Standard ''E16a_v4'', 1608000), (Standard ''E16ads_v5'', 1664000), (Standard ''E16as_v4'', 1608000),
      (Standard ''E16as_v5'', 1448000), (Standard ''E16bds_v5'', 2132000), (Standard ''E16bs_v5'', 1916000),
      (Standard ''E16d_v4'', 1824000), (Standard ''E16d_v5'', 1824000), (Standard ''E16ds_v4'', 1824000), (Standard ''E16ds_v5'', 1824000),
      (Standard ''E16s_v3'', 1879000), (Standard ''E16s_v4'', 1608000), (Standard ''E16s_v5'', 1608000), (Standard ''E20_v3'', 2800000),
      (Standard ''E20_v4'', 2010000), (Standard ''E20_v5'', 2010000), (Standard ''E20a_v4'', 2010000), (Standard ''E20ads_v5'', 2080000),
      (Standard ''E20as_v4'', 2010000), (Standard ''E20as_v5'', 1810000), (Standard ''E20d_v4'', 2280000), (Standard ''E20d_v5'', 2280000),
      (Standard ''E20ds_v4'', 2280000), (Standard ''E20ds_v5'', 2280000), (Standard ''E20s_v3'', 2800000), (Standard ''E20s_v4'', 2010000),
      (Standard ''E20s_v5'', 2010000), (Standard ''E2_v3'', 235000), (Standard ''E2_v4'', 201000), (Standard ''E2_v5'', 201000),
      (Standard ''E2a_v4'', 201000), (Standard ''E2ads_v5'', 208000), (Standard ''E2as_v4'', 201000), (Standard ''E2as_v5'', 181000),
      (Standard ''E2bds_v5'', 267000), (Standard ''E2bs_v5'', 240000), (Standard ''E2d_v4'', 228000), (Standard ''E2d_v5'', 228000),
      (Standard ''E2ds_v4'', 228000), (Standard ''E2ds_v5'', 228000), (Standard ''E2s_v3'', 235000), (Standard ''E2s_v4'', 201000),
      (Standard ''E2s_v5'', 201000), (Standard ''E32-16ads_v5'', 3328000), (Standard ''E32-16as_v4'', 3216000),
      (Standard ''E32-16as_v5'', 2896000), (Standard ''E32-16ds_v4'', 3648000), (Standard ''E32-16ds_v5'', 3648000),
      (Standard ''E32-16s_v3'', 3758000), (Standard ''E32-16s_v4'', 3216000), (Standard ''E32-16s_v5'', 3216000),
      (Standard ''E32-8ads_v5'', 3328000), (Standard ''E32-8as_v4'', 3216000), (Standard ''E32-8as_v5'', 2896000),
      (Standard ''E32-8ds_v4'', 3648000), (Standard ''E32-8ds_v5'', 3648000), (Standard ''E32-8s_v3'', 3758000),
      (Standard ''E32-8s_v4'', 3216000), (Standard ''E32-8s_v5'', 3216000), (Standard ''E32_v3'', 3758000), (Standard ''E32_v4'', 3216000),
      (Standard ''E32_v5'', 3216000), (Standard ''E32a_v4'', 3216000), (Standard ''E32ads_v5'', 3328000), (Standard ''E32as_v4'', 3216000),
      (Standard ''E32as_v5'', 2896000), (Standard ''E32bds_v5'', 4264000), (Standard ''E32bs_v5'', 3832000),
      (Standard ''E32d_v4'', 3648000)]"

definition brazilsouth_4 :: priceTable where
  "brazilsouth_4 =
     [(Standard ''E32d_v5'', 3648000), (Standard ''E32ds_v4'', 3648000), (Standard ''E32ds_v5'', 3648000), (Standard ''E32s_v3'', 3758000),
      (Standard ''E32s_v4'', 3216000), (Standard ''E32s_v5'', 3216000), (Standard ''E4-2ads_v5'', 416000),
      (Standard ''E4-2as_v4'', 402000), (Standard ''E4-2as_v5'', 362000), (Standard ''E4-2ds_v4'', 456000),
      (Standard ''E4-2ds_v5'', 456000), (Standard ''E4-2s_v3'', 470000), (Standard ''E4-2s_v4'', 402000), (Standard ''E4-2s_v5'', 402000),
      (Standard ''E48_v3'', 5637000), (Standard ''E48_v4'', 4824000), (Standard ''E48_v5'', 4824000), (Standard ''E48a_v4'', 4824000),
      (Standard ''E48ads_v5'', 4992000), (Standard ''E48as_v4'', 4824000), (Standard ''E48as_v5'', 4344000),
      (Standard ''E48bds_v5'', 6396000), (Standard ''E48bs_v5'', 5748000), (Standard ''E48d_v4'', 5472000),
      (Standard ''E48d_v5'', 5472000), (Standard ''E48ds_v4'', 5472000), (Standard ''E48ds_v5'', 5472000), (Standard ''E48s_v3'', 5637000),
      (Standard ''E48s_v4'', 4824000), (Standard ''E48s_v5'', 4824000), (Standard ''E4_v3'', 470000), (Standard ''E4_v4'', 402000),
      (Standard ''E4_v5'', 402000), (Standard ''E4a_v4'', 402000), (Standard ''E4ads_v5'', 416000), (Standard ''E4as_v4'', 402000),
      (Standard ''E4as_v5'', 362000), (Standard ''E4bds_v5'', 533000), (Standard ''E4bs_v5'', 479000), (Standard ''E4d_v4'', 456000),
      (Standard ''E4d_v5'', 456000), (Standard ''E4ds_v4'', 456000), (Standard ''E4ds_v5'', 456000), (Standard ''E4s_v3'', 470000),
      (Standard ''E4s_v4'', 402000), (Standard ''E4s_v5'', 402000), (Standard ''E64-16ads_v5'', 6656000),
      (Standard ''E64-16as_v4'', 6432000), (Standard ''E64-16as_v5'', 5792000), (Standard ''E64-16ds_v4'', 7296000),
      (Standard ''E64-16ds_v5'', 7296000), (Standard ''E64-16s_v3'', 6764000), (Standard ''E64-16s_v4'', 6432000),
      (Standard ''E64-16s_v5'', 6432000), (Standard ''E64-32ads_v5'', 6656000), (Standard ''E64-32as_v4'', 6432000),
      (Standard ''E64-32as_v5'', 5792000), (Standard ''E64-32ds_v4'', 7296000), (Standard ''E64-32ds_v5'', 7296000),
      (Standard ''E64-32s_v3'', 6764000), (Standard ''E64-32s_v4'', 6432000), (Standard ''E64-32s_v5'', 6432000),
      (Standard ''E64_v3'', 6764000), (Standard ''E64_v4'', 6432000), (Standard ''E64_v5'', 6432000), (Standard ''E64a_v4'', 6432000),
      (Standard ''E64ads_v5'', 6656000), (Standard ''E64as_v4'', 6432000), (Standard ''E64as_v5'', 5792000),
      (Standard ''E64bds_v5'', 8528000), (Standard ''E64bs_v5'', 7664000), (Standard ''E64d_v4'', 7296000),
      (Standard ''E64d_v5'', 7296000), (Standard ''E64ds_v4'', 7296000), (Standard ''E64ds_v5'', 7296000), (Standard ''E64i_v3'', 6764000),
      (Standard ''E64is_v3'', 6764000), (Standard ''E64s_v3'', 6764000), (Standard ''E64s_v4'', 6432000), (Standard ''E64s_v5'', 6432000),
      (Standard ''E8-2ads_v5'', 832000), (Standard ''E8-2as_v4'', 804000), (Standard ''E8-2as_v5'', 724000),
      (Standard ''E8-2ds_v4'', 912000), (Standard ''E8-2ds_v5'', 912000), (Standard ''E8-2s_v3'', 940000), (Standard ''E8-2s_v4'', 804000),
      (Standard ''E8-2s_v5'', 804000), (Standard ''E8-4ads_v5'', 832000), (Standard ''E8-4as_v4'', 804000),
      (Standard ''E8-4as_v5'', 724000), (Standard ''E8-4ds_v4'', 912000), (Standard ''E8-4ds_v5'', 912000),
      (Standard ''E8-4s_v3'', 940000), (Standard ''E8-4s_v4'', 804000), (Standard ''E8-4s_v5'', 804000), (Standard ''E80ids_v4'', 9120000),
      (Standard ''E80is_v4'', 8040000), (Standard ''E8_v3'', 940000), (Standard ''E8_v4'', 804000), (Standard ''E8_v5'', 804000),
      (Standard ''E8a_v4'', 804000), (Standard ''E8ads_v5'', 832000), (Standard ''E8as_v4'', 804000), (Standard ''E8as_v5'', 724000),
      (Standard ''E8bds_v5'', 1066000), (Standard ''E8bs_v5'', 958000), (Standard ''E8d_v4'', 912000), (Standard ''E8d_v5'', 912000),
      (Standard ''E8ds_v4'', 912000), (Standard ''E8ds_v5'', 912000), (Standard ''E8s_v3'', 940000), (Standard ''E8s_v4'', 804000),
      (Standard ''E8s_v5'', 804000), (Standard ''E96-24ads_v5'', 9984000), (Standard ''E96-24as_v4'', 9648000),
      (Standard ''E96-24as_v5'', 8688000), (Standard ''E96-24ds_v5'', 10944000), (Standard ''E96-24s_v5'', 9648000),
      (Standard ''E96-48ads_v5'', 9984000), (Standard ''E96-48as_v4'', 9648000), (Standard ''E96-48as_v5'', 8688000),
      (Standard ''E96-48ds_v5'', 10944000), (Standard ''E96-48s_v5'', 9648000), (Standard ''E96_v5'', 9648000),
      (Standard ''E96a_v4'', 9648000), (Standard ''E96ads_v5'', 9984000), (Standard ''E96as_v4'', 9648000)]"

definition brazilsouth_5 :: priceTable where
  "brazilsouth_5 =
     [(Standard ''E96as_v5'', 8688000), (Standard ''E96bds_v5'', 12792000), (Standard ''E96bs_v5'', 11496000),
      (Standard ''E96d_v5'', 10944000), (Standard ''E96ds_v5'', 10944000), (Standard ''E96iads_v5'', 10982000),
      (Standard ''E96ias_v5'', 9557000), (Standard ''E96s_v5'', 9648000), (Standard ''F1'', 71800), (Standard ''F16'', 1148000),
      (Standard ''F16s'', 1148000), (Standard ''F16s_v2'', 1048000), (Standard ''F1s'', 71800), (Standard ''F2'', 144000),
      (Standard ''F2s'', 144000), (Standard ''F2s_v2'', 131000), (Standard ''F32s_v2'', 2096000), (Standard ''F4'', 287000),
      (Standard ''F48s_v2'', 3144000), (Standard ''F4s'', 287000), (Standard ''F4s_v2'', 262000), (Standard ''F64s_v2'', 4192000),
      (Standard ''F72s_v2'', 4716000), (Standard ''F8'', 574000), (Standard ''F8s'', 574000), (Standard ''F8s_v2'', 524000),
      (Standard ''FX12mds'', 1668000), (Standard ''FX24mds'', 3336000), (Standard ''FX36mds'', 5004000), (Standard ''FX48mds'', 6672000),
      (Standard ''FX4mds'', 556000), (Standard ''HB120-16rs_v2'', 7200000), (Standard ''HB120-32rs_v2'', 7200000),
      (Standard ''HB120-64rs_v2'', 7200000), (Standard ''HB120-96rs_v2'', 7200000), (Standard ''HB120rs_v2'', 7200000),
      (Standard ''HC44-16rs'', 6336000), (Standard ''HC44-32rs'', 6336000), (Standard ''HC44rs'', 6336000),
      (Standard ''L16as_v3'', 1992000), (Standard ''L16s_v3'', 2224000), (Standard ''L32as_v3'', 3984000), (Standard ''L32s_v3'', 4448000),
      (Standard ''L48as_v3'', 5976000), (Standard ''L48s_v3'', 6672000), (Standard ''L64as_v3'', 7968000), (Standard ''L64s_v3'', 8896000),
      (Standard ''L80as_v3'', 9960000), (Standard ''L80s_v3'', 11120000), (Standard ''L8as_v3'', 996000), (Standard ''L8s_v3'', 1112000),
      (Standard ''M128'', 26009000), (Standard ''M128-32ms'', 52042000), (Standard ''M128-64ms'', 52042000),
      (Standard ''M128dms_v2'', 52046000), (Standard ''M128ds_v2'', 26013000), (Standard ''M128m'', 52042000),
      (Standard ''M128ms'', 52042000), (Standard ''M128ms_v2'', 51225000), (Standard ''M128s'', 26009000),
      (Standard ''M128s_v2'', 25192000), (Standard ''M16-4ms'', 5992000), (Standard ''M16-8ms'', 5992000), (Standard ''M16ms'', 5992000),
      (Standard ''M16s'', 4655000), (Standard ''M192idms_v2'', 62524000), (Standard ''M192ids_v2'', 31262000),
      (Standard ''M192ims_v2'', 61704000), (Standard ''M192is_v2'', 30442000), (Standard ''M208-104ms_v2'', 87009000),
      (Standard ''M208-104s_v2'', 43504000), (Standard ''M208-52ms_v2'', 87009000), (Standard ''M208-52s_v2'', 43504000),
      (Standard ''M208ms_v2'', 87009000), (Standard ''M208s_v2'', 43504000), (Standard ''M32-16ms'', 11985000),
      (Standard ''M32-8ms'', 11985000), (Standard ''M32dms_v2'', 11985000), (Standard ''M32ls'', 4582435), (Standard ''M32ms'', 11985000),
      (Standard ''M32ms_v2'', 11780000), (Standard ''M32s'', 6503000), (Standard ''M32ts'', 4317665),
      (Standard ''M416-104ms_v2'', 193340000), (Standard ''M416-104s_v2'', 96681000), (Standard ''M416-208ms_v2'', 193340000),
      (Standard ''M416-208s_v2'', 96681000), (Standard ''M416is_v2'', 96681000), (Standard ''M416ms_v2'', 193340000),
      (Standard ''M416s_8_v2'', 105120000), (Standard ''M416s_v2'', 96681000), (Standard ''M64'', 13005000),
      (Standard ''M64-16ms'', 20158000), (Standard ''M64-32ms'', 20158000), (Standard ''M64dms_v2'', 20163000),
      (Standard ''M64ds_v2'', 13005000), (Standard ''M64ls'', 8636925), (Standard ''M64m'', 20158000), (Standard ''M64ms'', 20158000),
      (Standard ''M64ms_v2'', 19753000), (Standard ''M64s'', 13005000), (Standard ''M64s_v2'', 12594000), (Standard ''M8-2ms'', 2996000),
      (Standard ''M8-4ms'', 2996000), (Standard ''M8ms'', 2996000), (Standard ''NC12s_v3'', 12240000),
      (Standard ''NC16as_T4_v3'', 2046000), (Standard ''NC24rs_v3'', 26928000), (Standard ''NC24s_v3'', 24480000),
      (Standard ''NC4as_T4_v3'', 894000), (Standard ''NC64as_T4_v3'', 7383000), (Standard ''NC6s_v3'', 6120000),
      (Standard ''NC8as_T4_v3'', 1277000), (Standard ''ND96ams_A100_v4'', 65540000), (Standard ''ND96amsr_A100_v4'', 65540000),
      (Standard ''NV12ads_A10_v5'', 1816000), (Standard ''NV12s_v3'', 1938000), (Standard ''NV18ads_A10_v5'', 3200000),
      (Standard ''NV24s_v3'', 3876000), (Standard ''NV36adms_A10_v5'', 9040000), (Standard ''NV36ads_A10_v5'', 6400000),
      (Standard ''NV48s_v3'', 7752000), (Standard ''NV6ads_A10_v5'', 908000), (Standard ''NV72ads_A10_v5'', 13040000)]"

definition brazilsouth :: priceTable where
  "brazilsouth = brazilsouth_1 @ brazilsouth_2 @ brazilsouth_3 @ brazilsouth_4 @ brazilsouth_5"

subsection \<open>brazilsoutheast\<close>

definition brazilsoutheast_1 :: priceTable where
  "brazilsoutheast_1 =
     [(''Basic_A2'', 146000), (''Ddsv5_Type1'', 12355000), (''Ebdsv5-Type1'', 12195000), (''Edsv4_Type 1'', 10512000),
      (''Esv5_Type1'', 13797000), (''Fsv2_Type2'', 8992000), (''Lsv3_Type1'', 15902000), (''Mdsmv2MedMem _Type1'', 66058000),
      (''Msmv2MedMem Type1'', 65016000), (Standard ''A2m_v2'', 270000), (Standard ''A4_v2'', 351000), (Standard ''A8_v2'', 737000),
      (Standard ''A8m_v2'', 1192000), (Standard ''B16as_v2'', 1258000), (Standard ''B16ls_v2'', 1311000), (Standard ''B16s_v2'', 1398000),
      (Standard ''B2als_v2'', 87900), (Standard ''B2as_v2'', 167000), (Standard ''B2ls_v2'', 96600), (Standard ''B2s_v2'', 184000),
      (Standard ''B2ts_v2'', 21800), (Standard ''B32ls_v2'', 2623000), (Standard ''B4as_v2'', 315000), (Standard ''B8ls_v2'', 656000),
      (Standard ''D1'', 124000), (Standard ''D11'', 306000), (Standard ''D11_v2'', 306000), (Standard ''D12'', 611000),
      (Standard ''D12_v2'', 611000), (Standard ''D13'', 1221000), (Standard ''D16_v5'', 1591000), (Standard ''D16a_v4'', 1591000),
      (Standard ''D16as_v5'', 1435000), (Standard ''D16d_v4'', 1873000), (Standard ''D16lds_v5'', 1550000), (Standard ''D1_v2'', 111000),
      (Standard ''D2'', 247000), (Standard ''D2_v3'', 207000), (Standard ''D2_v5'', 199000), (Standard ''D2ads_v5'', 215000),
      (Standard ''D2as_v5'', 179000), (Standard ''D2ds_v5'', 234000), (Standard ''D2lds_v5'', 194000), (Standard ''D2s_v4'', 199000),
      (Standard ''D2s_v5'', 199000), (Standard ''D32_v5'', 3182000), (Standard ''D32s_v3'', 3307000), (Standard ''D32s_v5'', 3182000),
      (Standard ''D48_v4'', 4773000), (Standard ''D48ds_v5'', 5616000), (Standard ''D4_v3'', 413000), (Standard ''D4lds_v5'', 387000),
      (Standard ''D4s_v3'', 413000), (Standard ''D64-16s_v3'', 6614000), (Standard ''D64_v5'', 6365000), (Standard ''D64as_v5'', 5741000),
      (Standard ''D64d_v4'', 7491000), (Standard ''D64ds_v5'', 7488000), (Standard ''D64ls_v5'', 5450000), (Standard ''D64s_v3'', 6614000),
      (Standard ''D64s_v4'', 6364000), (Standard ''D64s_v5'', 6365000), (Standard ''D8_v4'', 796000), (Standard ''D8d_v4'', 936000),
      (Standard ''D8ds_v5'', 936000), (Standard ''D8lds_v5'', 775000), (Standard ''D8s_v3'', 827000), (Standard ''D96ads_v5'', 10296000),
      (Standard ''D96s_v5'', 9547000), (Standard ''DS11-1_v2'', 306000), (Standard ''DS12-1_v2'', 611000), (Standard ''DS12_v2'', 611000),
      (Standard ''DS13'', 1221000), (Standard ''DS13-2_v2'', 1222000), (Standard ''DS13-4_v2'', 1222000),
      (Standard ''DS14-4_v2'', 2443000), (Standard ''DS15_v2'', 3054000), (Standard ''DS3_v2'', 445000), (Standard ''DS5_v2'', 1780000),
      (Standard ''E112ias_v5'', 14494000), (Standard ''E112ibs_v5'', 19179000), (Standard ''E16-4s_v3'', 2444000),
      (Standard ''E16-8as_v5'', 1882000), (Standard ''E16-8s_v5'', 2090000), (Standard ''E16_v3'', 2444000),
      (Standard ''E16a_v4'', 2090000), (Standard ''E16ads_v5'', 2163000), (Standard ''E16as_v4'', 2090000),
      (Standard ''E16bds_v5'', 2772000), (Standard ''E16bs_v5'', 2491000), (Standard ''E16d_v4'', 2389000),
      (Standard ''E20_v5'', 2613000)]"

definition brazilsoutheast_2 :: priceTable where
  "brazilsoutheast_2 =
     [(Standard ''E20ads_v5'', 2704000), (Standard ''E20as_v4'', 2613000), (Standard ''E20ds_v4'', 2986000),
      (Standard ''E20s_v3'', 3640000), (Standard ''E2_v3'', 306000), (Standard ''E2_v4'', 261000), (Standard ''E2_v5'', 261000),
      (Standard ''E2as_v4'', 261000), (Standard ''E2ds_v4'', 299000), (Standard ''E32-16s_v5'', 4181000),
      (Standard ''E32-8as_v4'', 4181000), (Standard ''E32-8ds_v4'', 4778000), (Standard ''E32_v3'', 4888000),
      (Standard ''E32_v4'', 4181000), (Standard ''E32_v5'', 4181000), (Standard ''E32ads_v5'', 4326000), (Standard ''E32bds_v5'', 5543000),
      (Standard ''E32bs_v5'', 4982000), (Standard ''E32d_v5'', 4742000), (Standard ''E32ds_v4'', 4778000),
      (Standard ''E32ds_v5'', 4742000), (Standard ''E4-2as_v4'', 523000), (Standard ''E4-2as_v5'', 471000),
      (Standard ''E4-2ds_v4'', 597000), (Standard ''E4-2ds_v5'', 593000), (Standard ''E4-2s_v3'', 611000), (Standard ''E4-2s_v4'', 523000),
      (Standard ''E4-2s_v5'', 523000), (Standard ''E48_v5'', 6271000), (Standard ''E48as_v5'', 5647000), (Standard ''E48bds_v5'', 8315000),
      (Standard ''E48ds_v5'', 7114000), (Standard ''E4_v5'', 523000), (Standard ''E4as_v5'', 471000), (Standard ''E4d_v4'', 597000),
      (Standard ''E4ds_v5'', 593000), (Standard ''E4s_v4'', 523000), (Standard ''E64-16as_v4'', 8362000),
      (Standard ''E64-16s_v5'', 8362000), (Standard ''E64-32ads_v5'', 8653000), (Standard ''E64-32as_v5'', 7530000),
      (Standard ''E64-32s_v4'', 8362000), (Standard ''E64_v4'', 8362000), (Standard ''E64bs_v5'', 9963000),
      (Standard ''E64is_v3'', 8798000), (Standard ''E8-2ads_v5'', 1082000), (Standard ''E8-2s_v4'', 1045000),
      (Standard ''E8-4as_v4'', 1045000), (Standard ''E8-4s_v4'', 1045000), (Standard ''E8-4s_v5'', 1045000), (Standard ''E8_v3'', 1222000),
      (Standard ''E8_v4'', 1045000), (Standard ''E8ads_v5'', 1082000), (Standard ''E8as_v4'', 1045000), (Standard ''E8as_v5'', 941000),
      (Standard ''E8ds_v5'', 1186000), (Standard ''E96-24ds_v5'', 14227000), (Standard ''E96a_v4'', 12542000),
      (Standard ''E96ads_v5'', 12979000), (Standard ''E96as_v5'', 11294000), (Standard ''E96iads_v5'', 14277000),
      (Standard ''F16s_v2'', 1362000), (Standard ''F2s_v2'', 170000), (Standard ''F32s_v2'', 2725000), (Standard ''F4s_v2'', 341000),
      (Standard ''F8'', 747000), (Standard ''F8s'', 747000), (Standard ''FX24mds'', 4337000), (Standard ''L16s_v3'', 2891000),
      (Standard ''L32as_v3'', 5179000), (Standard ''L64as_v3'', 10358000), (Standard ''L80as_v3'', 12948000),
      (Standard ''L8as_v3'', 1295000), (Standard ''M128dms_v2'', 60053000), (Standard ''M128ds_v2'', 30015000),
      (Standard ''M128ms_v2'', 59106000), (Standard ''M16ms'', 6914000), (Standard ''M192is_v2'', 35125000),
      (Standard ''M208-104ms_v2'', 116010000), (Standard ''M208-104s_v2'', 58004000), (Standard ''M208ms_v2'', 116010000),
      (Standard ''M208s_v2'', 58004000), (Standard ''M32ts'', 5129765), (Standard ''M416-208ms_v2'', 257780000),
      (Standard ''M416-208s_v2'', 128910000), (Standard ''M416is_v2'', 128910000), (Standard ''M64-16ms'', 23259100),
      (Standard ''M64-32ms'', 23259100), (Standard ''M64ms_v2'', 22792000), (Standard ''M64s_v2'', 14532000),
      (Standard ''M8-2ms'', 3457000), (Standard ''PB12s'', 1660000)]"

definition brazilsoutheast :: priceTable where
  "brazilsoutheast = brazilsoutheast_1 @ brazilsoutheast_2"

subsection \<open>canadacentral\<close>

definition canadacentral_1 :: priceTable where
  "canadacentral_1 =
     [(''Basic_A0'', 20000), (''Basic_A1'', 26000), (''Basic_A2'', 87000), (''Basic_A3'', 194000), (''Basic_A4'', 387000),
      (''DCdsv3 Type1'', 6653000), (''DCsv2 Type 1'', 942000), (''DCsv3 Type1'', 5650000), (''Dadsv5_Type1'', 7084000),
      (''Dasv4_Type1'', 5885000), (''Dasv4_Type2'', 5885000), (''Dasv5_Type1'', 5914000), (''Ddsv4_Type 1'', 4435000),
      (''Ddsv4_Type2'', 5267000), (''Ddsv5_Type1'', 6653000), (''Dsv3_Type3'', 4884000), (''Dsv3_Type4'', 5886000),
      (''Dsv4_Type1'', 4708000), (''Dsv4_Type2'', 5650000), (''Dsv5_Type1'', 5885000), (''Eadsv5_Type1'', 7603000),
      (''Easv4_Type1'', 7286000), (''Easv4_Type2'', 7286000), (''Easv5_Type1'', 6547000), (''Ebdsv5-Type1'', 6494000),
      (''Ebsv5-Type1'', 5790000), (''Edsv4_Type 1'', 5561000), (''Edsv4_Type2'', 6604000), (''Edsv5_Type1'', 8342000),
      (''Esv3_Type3'', 4705000), (''Esv3_Type4'', 6375000), (''Esv4_Type1'', 4857000), (''Esv4_Type2'', 6376000),
      (''Esv5_Type1'', 7286000), (''FXmds Type1'', 5069000), (''Fsv2 Type3'', 4297000), (''Fsv2_Type2'', 3683000),
      (''Fsv2_Type4'', 4897000), (''Lsv3_Type1'', 8448000), (''Mdsmv2MedMem _Type1'', 32295000), (''Mdsv2MedMem_Type1'', 16141000),
      (''Ms_Type1'', 16136000), (''Msm_Type1'', 32300000), (''Msmv2MedMem Type1'', 31786000), (''Msmv2_Type1'', 130880000),
      (''Msv2MedMem Type1'', 15632000), (''Msv2_Type1'', 65446000), (''NVasv4_Type1'', 8612000), (Standard ''A0'', 22000),
      (Standard ''A1'', 56000), (Standard ''A1_v2'', 43000), (Standard ''A2'', 111000), (Standard ''A2_v2'', 91000),
      (Standard ''A2m_v2'', 129000), (Standard ''A3'', 222000), (Standard ''A4'', 446000), (Standard ''A4_v2'', 191000),
      (Standard ''A4m_v2'', 270000), (Standard ''A5'', 242000), (Standard ''A6'', 484000), (Standard ''A7'', 968000),
      (Standard ''A8_v2'', 400000), (Standard ''A8m_v2'', 568000), (Standard ''B12ms'', 556000), (Standard ''B16als_v2'', 666000),
      (Standard ''B16as_v2'', 742000), (Standard ''B16ls_v2'', 731000), (Standard ''B16ms'', 742000), (Standard ''B16pls_v2'', 595000),
      (Standard ''B16ps_v2'', 662000), (Standard ''B16s_v2'', 816000), (Standard ''B1ls'', 5800), (Standard ''B1ms'', 23000),
      (Standard ''B1s'', 11600), (Standard ''B20ms'', 927000), (Standard ''B2als_v2'', 51000), (Standard ''B2as_v2'', 83600),
      (Standard ''B2ats_v2'', 10500), (Standard ''B2ls_v2'', 46400), (Standard ''B2ms'', 92800), (Standard ''B2pls_v2'', 46000),
      (Standard ''B2ps_v2'', 82800), (Standard ''B2pts_v2'', 18400), (Standard ''B2s'', 46400), (Standard ''B2s_v2'', 102000),
      (Standard ''B2ts_v2'', 11600), (Standard ''B32als_v2'', 1332000), (Standard ''B32as_v2'', 1338000), (Standard ''B32ls_v2'', 1315000),
      (Standard ''B32s_v2'', 1485000), (Standard ''B4als_v2'', 148000), (Standard ''B4as_v2'', 186000), (Standard ''B4ls_v2'', 183000),
      (Standard ''B4ms'', 185000), (Standard ''B4pls_v2'', 149000), (Standard ''B4ps_v2'', 166000), (Standard ''B4s_v2'', 186000),
      (Standard ''B8als_v2'', 333000), (Standard ''B8as_v2'', 371000), (Standard ''B8ls_v2'', 366000), (Standard ''B8ms'', 371000),
      (Standard ''B8pls_v2'', 297000), (Standard ''B8ps_v2'', 331000), (Standard ''B8s_v2'', 408000), (Standard ''D1'', 74700),
      (Standard ''D11'', 193000), (Standard ''D11_v2'', 183000), (Standard ''D11_v2_Promo'', 199000), (Standard ''D12'', 387000),
      (Standard ''D12_v2'', 366000), (Standard ''D12_v2_Promo'', 399000), (Standard ''D13'', 773000), (Standard ''D13_v2'', 732000),
      (Standard ''D13_v2_Promo'', 798000), (Standard ''D14'', 1546000), (Standard ''D14_v2'', 1463000),
      (Standard ''D14_v2_Promo'', 1596000), (Standard ''D15_v2'', 1829000), (Standard ''D15i_v2'', 1829000), (Standard ''D16_v3'', 888000),
      (Standard ''D16_v4'', 856000), (Standard ''D16_v5'', 856000), (Standard ''D16a_v4'', 856000), (Standard ''D16ads_v5'', 920000),
      (Standard ''D16as_v4'', 856000), (Standard ''D16as_v5'', 768000), (Standard ''D16as_v5_Promo'', 685000),
      (Standard ''D16d_v4'', 1008000), (Standard ''D16d_v5'', 1008000), (Standard ''D16ds_v4'', 1008000), (Standard ''D16ds_v5'', 1008000),
      (Standard ''D16lds_v5'', 848000), (Standard ''D16ls_v5'', 744000), (Standard ''D16pds_v5'', 808000),
      (Standard ''D16plds_v5'', 678000), (Standard ''D16pls_v5'', 595000), (Standard ''D16ps_v5'', 685000), (Standard ''D16s_v3'', 888000),
      (Standard ''D16s_v4'', 856000), (Standard ''D16s_v5'', 856000), (Standard ''D1_v2'', 70000), (Standard ''D2'', 149000),
      (Standard ''D2_v2'', 140000), (Standard ''D2_v2_Promo'', 152000), (Standard ''D2_v3'', 111000)]"

definition canadacentral_2 :: priceTable where
  "canadacentral_2 =
     [(Standard ''D2_v4'', 107000), (Standard ''D2_v5'', 107000), (Standard ''D2a_v4'', 107000), (Standard ''D2ads_v5'', 115000),
      (Standard ''D2as_v4'', 107000), (Standard ''D2as_v5'', 96000), (Standard ''D2as_v5_Promo'', 85600), (Standard ''D2d_v4'', 126000),
      (Standard ''D2d_v5'', 126000), (Standard ''D2ds_v4'', 126000), (Standard ''D2ds_v5'', 126000), (Standard ''D2lds_v5'', 106000),
      (Standard ''D2ls_v5'', 93000), (Standard ''D2pds_v5'', 101000), (Standard ''D2plds_v5'', 84800), (Standard ''D2pls_v5'', 74400),
      (Standard ''D2ps_v5'', 85600), (Standard ''D2s_v3'', 111000), (Standard ''D2s_v4'', 107000), (Standard ''D2s_v5'', 107000),
      (Standard ''D3'', 299000), (Standard ''D32-16s_v3'', 1776000), (Standard ''D32-8s_v3'', 1776000), (Standard ''D32_v3'', 1776000),
      (Standard ''D32_v4'', 1712000), (Standard ''D32_v5'', 1712000), (Standard ''D32a_v4'', 1712000), (Standard ''D32ads_v5'', 1840000),
      (Standard ''D32as_v4'', 1712000), (Standard ''D32as_v5'', 1536000), (Standard ''D32as_v5_Promo'', 1370000),
      (Standard ''D32d_v4'', 2016000), (Standard ''D32d_v5'', 2016000), (Standard ''D32ds_v4'', 2016000), (Standard ''D32ds_v5'', 2016000),
      (Standard ''D32lds_v5'', 1696000), (Standard ''D32ls_v5'', 1488000), (Standard ''D32pds_v5'', 1616000),
      (Standard ''D32plds_v5'', 1357000), (Standard ''D32pls_v5'', 1190000), (Standard ''D32ps_v5'', 1370000),
      (Standard ''D32s_v3'', 1776000), (Standard ''D32s_v4'', 1712000), (Standard ''D32s_v5'', 1712000), (Standard ''D3_v2'', 280000),
      (Standard ''D3_v2_Promo'', 305000), (Standard ''D4'', 597000), (Standard ''D48_v3'', 2664000), (Standard ''D48_v4'', 2568000),
      (Standard ''D48_v5'', 2568000), (Standard ''D48a_v4'', 2568000), (Standard ''D48ads_v5'', 2760000), (Standard ''D48as_v4'', 2568000),
      (Standard ''D48as_v5'', 2304000), (Standard ''D48as_v5_Promo'', 2054000), (Standard ''D48d_v4'', 3024000),
      (Standard ''D48d_v5'', 3024000), (Standard ''D48ds_v4'', 3024000), (Standard ''D48ds_v5'', 3024000),
      (Standard ''D48lds_v5'', 2544000), (Standard ''D48ls_v5'', 2232000), (Standard ''D48pds_v5'', 2424000),
      (Standard ''D48plds_v5'', 2035000), (Standard ''D48pls_v5'', 1786000), (Standard ''D48ps_v5'', 2054000),
      (Standard ''D48s_v3'', 2664000), (Standard ''D48s_v4'', 2568000), (Standard ''D48s_v5'', 2568000), (Standard ''D4_v2'', 560000),
      (Standard ''D4_v2_Promo'', 610000), (Standard ''D4_v3'', 222000), (Standard ''D4_v4'', 214000), (Standard ''D4_v5'', 214000),
      (Standard ''D4a_v4'', 214000), (Standard ''D4ads_v5'', 230000), (Standard ''D4as_v4'', 214000), (Standard ''D4as_v5'', 192000),
      (Standard ''D4as_v5_Promo'', 171000), (Standard ''D4d_v4'', 252000), (Standard ''D4d_v5'', 252000), (Standard ''D4ds_v4'', 252000),
      (Standard ''D4ds_v5'', 252000), (Standard ''D4lds_v5'', 212000), (Standard ''D4ls_v5'', 186000), (Standard ''D4pds_v5'', 202000),
      (Standard ''D4plds_v5'', 170000), (Standard ''D4pls_v5'', 149000), (Standard ''D4ps_v5'', 171000), (Standard ''D4s_v3'', 222000),
      (Standard ''D4s_v4'', 214000), (Standard ''D4s_v5'', 214000), (Standard ''D5_v2'', 1120000), (Standard ''D5_v2_Promo'', 1220000),
      (Standard ''D64-16s_v3'', 3552000), (Standard ''D64-32s_v3'', 3552000), (Standard ''D64_v3'', 3552000),
      (Standard ''D64_v4'', 3424000), (Standard ''D64_v5'', 3424000), (Standard ''D64a_v4'', 3424000), (Standard ''D64ads_v5'', 3680000),
      (Standard ''D64as_v4'', 3424000), (Standard ''D64as_v5'', 3072000), (Standard ''D64as_v5_Promo'', 2739000),
      (Standard ''D64d_v4'', 4032000), (Standard ''D64d_v5'', 4032000), (Standard ''D64ds_v4'', 4032000), (Standard ''D64ds_v5'', 4032000),
      (Standard ''D64lds_v5'', 3392000), (Standard ''D64ls_v5'', 2976000), (Standard ''D64pds_v5'', 3232000),
      (Standard ''D64plds_v5'', 2714000), (Standard ''D64pls_v5'', 2381000), (Standard ''D64ps_v5'', 2739000),
      (Standard ''D64s_v3'', 3552000), (Standard ''D64s_v4'', 3424000), (Standard ''D64s_v5'', 3424000), (Standard ''D8_v3'', 444000),
      (Standard ''D8_v4'', 428000), (Standard ''D8_v5'', 428000), (Standard ''D8a_v4'', 428000), (Standard ''D8ads_v5'', 460000),
      (Standard ''D8as_v4'', 428000), (Standard ''D8as_v5'', 384000), (Standard ''D8as_v5_Promo'', 342000), (Standard ''D8d_v4'', 504000),
      (Standard ''D8d_v5'', 504000), (Standard ''D8ds_v4'', 504000), (Standard ''D8ds_v5'', 504000), (Standard ''D8lds_v5'', 424000),
      (Standard ''D8ls_v5'', 372000), (Standard ''D8pds_v5'', 404000), (Standard ''D8plds_v5'', 339000), (Standard ''D8pls_v5'', 298000),
      (Standard ''D8ps_v5'', 342000), (Standard ''D8s_v3'', 444000), (Standard ''D8s_v4'', 428000), (Standard ''D8s_v5'', 428000),
      (Standard ''D96_v5'', 5136000), (Standard ''D96a_v4'', 5136000), (Standard ''D96ads_v5'', 5520000), (Standard ''D96as_v4'', 5136000),
      (Standard ''D96as_v5'', 4608000), (Standard ''D96as_v5_Promo'', 4109000), (Standard ''D96d_v5'', 6048000),
      (Standard ''D96ds_v5'', 6048000)]"

definition canadacentral_3 :: priceTable where
  "canadacentral_3 =
     [(Standard ''D96lds_v5'', 5088000), (Standard ''D96ls_v5'', 4464000), (Standard ''D96s_v5'', 5136000),
      (Standard ''DC16ds_v3'', 2016000), (Standard ''DC16s_v3'', 1712000), (Standard ''DC1ds_v3'', 126000), (Standard ''DC1s_v2'', 107000),
      (Standard ''DC1s_v3'', 107000), (Standard ''DC24ds_v3'', 3024000), (Standard ''DC24s_v3'', 2568000), (Standard ''DC2ds_v3'', 252000),
      (Standard ''DC2s_v2'', 214000), (Standard ''DC2s_v3'', 214000), (Standard ''DC32ds_v3'', 4032000), (Standard ''DC32s_v3'', 3424000),
      (Standard ''DC48ds_v3'', 6048000), (Standard ''DC48s_v3'', 5136000), (Standard ''DC4ds_v3'', 504000), (Standard ''DC4s_v2'', 428000),
      (Standard ''DC4s_v3'', 428000), (Standard ''DC8_v2'', 856000), (Standard ''DC8ds_v3'', 1008000), (Standard ''DC8s_v3'', 856000),
      (Standard ''DS1'', 74700), (Standard ''DS11'', 193000), (Standard ''DS11-1_v2'', 183000), (Standard ''DS11_v2'', 183000),
      (Standard ''DS11_v2_Promo'', 199000), (Standard ''DS12'', 387000), (Standard ''DS12-1_v2'', 366000),
      (Standard ''DS12-2_v2'', 366000), (Standard ''DS12_v2'', 366000), (Standard ''DS12_v2_Promo'', 399000), (Standard ''DS13'', 773000),
      (Standard ''DS13-2_v2'', 732000), (Standard ''DS13-4_v2'', 732000), (Standard ''DS13_v2'', 732000),
      (Standard ''DS13_v2_Promo'', 798000), (Standard ''DS14'', 1546000), (Standard ''DS14-4_v2'', 1463000),
      (Standard ''DS14-8_v2'', 1463000), (Standard ''DS14_v2'', 1463000), (Standard ''DS14_v2_Promo'', 1596000),
      (Standard ''DS15_v2'', 1829000), (Standard ''DS15i_v2'', 1829000), (Standard ''DS1_v2'', 70000), (Standard ''DS2'', 149000),
      (Standard ''DS2_v2'', 140000), (Standard ''DS2_v2_Promo'', 152000), (Standard ''DS3'', 299000), (Standard ''DS3_v2'', 280000),
      (Standard ''DS3_v2_Promo'', 305000), (Standard ''DS4'', 597000), (Standard ''DS4_v2'', 560000), (Standard ''DS4_v2_Promo'', 610000),
      (Standard ''DS5_v2'', 1120000), (Standard ''DS5_v2_Promo'', 1220000), (Standard ''E104i_v5'', 7894000),
      (Standard ''E104id_v5'', 9038000), (Standard ''E104ids_v5'', 9038000), (Standard ''E104is_v5'', 7894000),
      (Standard ''E112iads_v5'', 8870000), (Standard ''E112ias_v5'', 7638000), (Standard ''E112ibds_v5'', 11365000),
      (Standard ''E112ibs_v5'', 10133000), (Standard ''E16-4ads_v5'', 1152000), (Standard ''E16-4as_v4'', 1104000),
      (Standard ''E16-4as_v5'', 992000), (Standard ''E16-4ds_v4'', 1264000), (Standard ''E16-4ds_v5'', 1264000),
      (Standard ''E16-4s_v3'', 1168000), (Standard ''E16-4s_v4'', 1104000), (Standard ''E16-4s_v5'', 1104000),
      (Standard ''E16-8ads_v5'', 1152000), (Standard ''E16-8as_v4'', 1104000), (Standard ''E16-8as_v5'', 992000),
      (Standard ''E16-8ds_v4'', 1264000), (Standard ''E16-8ds_v5'', 1264000), (Standard ''E16-8s_v3'', 1168000),
      (Standard ''E16-8s_v4'', 1104000), (Standard ''E16-8s_v5'', 1104000), (Standard ''E16_v3'', 1168000), (Standard ''E16_v4'', 1104000),
      (Standard ''E16_v5'', 1104000), (Standard ''E16a_v4'', 1104000), (Standard ''E16ads_v5'', 1152000), (Standard ''E16as_v4'', 1104000),
      (Standard ''E16as_v5'', 992000), (Standard ''E16bds_v5'', 1476000), (Standard ''E16bs_v5'', 1316000),
      (Standard ''E16d_v4'', 1264000), (Standard ''E16d_v5'', 1264000), (Standard ''E16ds_v4'', 1264000), (Standard ''E16ds_v5'', 1264000),
      (Standard ''E16pds_v5'', 1012000), (Standard ''E16ps_v5'', 883000), (Standard ''E16s_v3'', 1168000), (Standard ''E16s_v4'', 1104000),
      (Standard ''E16s_v5'', 1104000), (Standard ''E20_v3'', 1460000), (Standard ''E20_v4'', 1380000), (Standard ''E20_v5'', 1380000),
      (Standard ''E20a_v4'', 1380000), (Standard ''E20ads_v5'', 1440000), (Standard ''E20as_v4'', 1380000),
      (Standard ''E20as_v5'', 1240000), (Standard ''E20d_v4'', 1580000), (Standard ''E20d_v5'', 1580000), (Standard ''E20ds_v4'', 1580000),
      (Standard ''E20ds_v5'', 1580000), (Standard ''E20pds_v5'', 1265000), (Standard ''E20ps_v5'', 1104000),
      (Standard ''E20s_v3'', 1460000), (Standard ''E20s_v4'', 1380000), (Standard ''E20s_v5'', 1380000), (Standard ''E2_v3'', 146000),
      (Standard ''E2_v4'', 138000), (Standard ''E2_v5'', 138000), (Standard ''E2a_v4'', 138000), (Standard ''E2ads_v5'', 144000),
      (Standard ''E2as_v4'', 138000), (Standard ''E2as_v5'', 124000), (Standard ''E2bds_v5'', 185000), (Standard ''E2bs_v5'', 165000),
      (Standard ''E2d_v4'', 158000), (Standard ''E2d_v5'', 158000), (Standard ''E2ds_v4'', 158000), (Standard ''E2ds_v5'', 158000),
      (Standard ''E2pds_v5'', 127000), (Standard ''E2ps_v5'', 110000), (Standard ''E2s_v3'', 146000), (Standard ''E2s_v4'', 138000),
      (Standard ''E2s_v5'', 138000), (Standard ''E32-16ads_v5'', 2304000), (Standard ''E32-16as_v4'', 2208000),
      (Standard ''E32-16as_v5'', 1984000), (Standard ''E32-16ds_v4'', 2528000), (Standard ''E32-16ds_v5'', 2528000),
      (Standard ''E32-16s_v3'', 2336000), (Standard ''E32-16s_v4'', 2208000), (Standard ''E32-16s_v5'', 2208000),
      (Standard ''E32-8ads_v5'', 2304000), (Standard ''E32-8as_v4'', 2208000), (Standard ''E32-8as_v5'', 1984000),
      (Standard ''E32-8ds_v4'', 2528000)]"

definition canadacentral_4 :: priceTable where
  "canadacentral_4 =
     [(Standard ''E32-8ds_v5'', 2528000), (Standard ''E32-8s_v3'', 2336000), (Standard ''E32-8s_v4'', 2208000),
      (Standard ''E32-8s_v5'', 2208000), (Standard ''E32_v3'', 2336000), (Standard ''E32_v4'', 2208000), (Standard ''E32_v5'', 2208000),
      (Standard ''E32a_v4'', 2208000), (Standard ''E32ads_v5'', 2304000), (Standard ''E32as_v4'', 2208000),
      (Standard ''E32as_v5'', 1984000), (Standard ''E32bds_v5'', 2952000), (Standard ''E32bs_v5'', 2632000),
      (Standard ''E32d_v4'', 2528000), (Standard ''E32d_v5'', 2528000), (Standard ''E32ds_v4'', 2528000), (Standard ''E32ds_v5'', 2528000),
      (Standard ''E32pds_v5'', 2024000), (Standard ''E32ps_v5'', 1766000), (Standard ''E32s_v3'', 2336000),
      (Standard ''E32s_v4'', 2208000), (Standard ''E32s_v5'', 2208000), (Standard ''E4-2ads_v5'', 288000),
      (Standard ''E4-2as_v4'', 276000), (Standard ''E4-2as_v5'', 248000), (Standard ''E4-2ds_v4'', 316000),
      (Standard ''E4-2ds_v5'', 316000), (Standard ''E4-2s_v3'', 292000), (Standard ''E4-2s_v4'', 276000), (Standard ''E4-2s_v5'', 276000),
      (Standard ''E48_v3'', 3311000), (Standard ''E48_v4'', 3312000), (Standard ''E48_v5'', 3312000), (Standard ''E48a_v4'', 3312000),
      (Standard ''E48ads_v5'', 3456000), (Standard ''E48as_v4'', 3312000), (Standard ''E48as_v5'', 2976000),
      (Standard ''E48bds_v5'', 4428000), (Standard ''E48bs_v5'', 3948000), (Standard ''E48d_v4'', 3792000),
      (Standard ''E48d_v5'', 3792000), (Standard ''E48ds_v4'', 3792000), (Standard ''E48ds_v5'', 3792000), (Standard ''E48s_v3'', 3311000),
      (Standard ''E48s_v4'', 3312000), (Standard ''E48s_v5'', 3312000), (Standard ''E4_v3'', 292000), (Standard ''E4_v4'', 276000),
      (Standard ''E4_v5'', 276000), (Standard ''E4a_v4'', 276000), (Standard ''E4ads_v5'', 288000), (Standard ''E4as_v4'', 276000),
      (Standard ''E4as_v5'', 248000), (Standard ''E4bds_v5'', 369000), (Standard ''E4bs_v5'', 329000), (Standard ''E4d_v4'', 316000),
      (Standard ''E4d_v5'', 316000), (Standard ''E4ds_v4'', 316000), (Standard ''E4ds_v5'', 316000), (Standard ''E4pds_v5'', 253000),
      (Standard ''E4ps_v5'', 221000), (Standard ''E4s_v3'', 292000), (Standard ''E4s_v4'', 276000), (Standard ''E4s_v5'', 276000),
      (Standard ''E64-16ads_v5'', 4608000), (Standard ''E64-16as_v4'', 4416000), (Standard ''E64-16as_v5'', 3968000),
      (Standard ''E64-16ds_v4'', 5056000), (Standard ''E64-16ds_v5'', 5056000), (Standard ''E64-16s_v3'', 3974000),
      (Standard ''E64-16s_v4'', 4416000), (Standard ''E64-16s_v5'', 4416000), (Standard ''E64-32ads_v5'', 4608000),
      (Standard ''E64-32as_v4'', 4416000), (Standard ''E64-32as_v5'', 3968000), (Standard ''E64-32ds_v4'', 5056000),
      (Standard ''E64-32ds_v5'', 5056000), (Standard ''E64-32s_v3'', 3974000), (Standard ''E64-32s_v4'', 4416000),
      (Standard ''E64-32s_v5'', 4416000), (Standard ''E64_v3'', 3974000), (Standard ''E64_v4'', 4416000), (Standard ''E64_v5'', 4416000),
      (Standard ''E64a_v4'', 4416000), (Standard ''E64ads_v5'', 4608000), (Standard ''E64as_v4'', 4416000),
      (Standard ''E64as_v5'', 3968000), (Standard ''E64bds_v5'', 5904000), (Standard ''E64bs_v5'', 5264000),
      (Standard ''E64d_v4'', 5056000), (Standard ''E64d_v5'', 5056000), (Standard ''E64ds_v4'', 5056000), (Standard ''E64ds_v5'', 5056000),
      (Standard ''E64i_v3'', 3974000), (Standard ''E64is_v3'', 3974000), (Standard ''E64s_v3'', 3974000), (Standard ''E64s_v4'', 4416000),
      (Standard ''E64s_v5'', 4416000), (Standard ''E8-2ads_v5'', 576000), (Standard ''E8-2as_v4'', 552000),
      (Standard ''E8-2as_v5'', 496000), (Standard ''E8-2ds_v4'', 632000), (Standard ''E8-2ds_v5'', 632000),
      (Standard ''E8-2s_v3'', 584000), (Standard ''E8-2s_v4'', 552000), (Standard ''E8-2s_v5'', 552000), (Standard ''E8-4ads_v5'', 576000),
      (Standard ''E8-4as_v4'', 552000), (Standard ''E8-4as_v5'', 496000), (Standard ''E8-4ds_v4'', 632000),
      (Standard ''E8-4ds_v5'', 632000), (Standard ''E8-4s_v3'', 584000), (Standard ''E8-4s_v4'', 552000), (Standard ''E8-4s_v5'', 552000),
      (Standard ''E80ids_v4'', 6320000), (Standard ''E80is_v4'', 5520000), (Standard ''E8_v3'', 584000), (Standard ''E8_v4'', 552000),
      (Standard ''E8_v5'', 552000), (Standard ''E8a_v4'', 552000), (Standard ''E8ads_v5'', 576000), (Standard ''E8as_v4'', 552000),
      (Standard ''E8as_v5'', 496000), (Standard ''E8bds_v5'', 738000), (Standard ''E8bs_v5'', 658000), (Standard ''E8d_v4'', 632000),
      (Standard ''E8d_v5'', 632000), (Standard ''E8ds_v4'', 632000), (Standard ''E8ds_v5'', 632000), (Standard ''E8pds_v5'', 506000),
      (Standard ''E8ps_v5'', 442000), (Standard ''E8s_v3'', 584000), (Standard ''E8s_v4'', 552000), (Standard ''E8s_v5'', 552000),
      (Standard ''E96-24ads_v5'', 6912000), (Standard ''E96-24as_v4'', 6624000), (Standard ''E96-24as_v5'', 5952000),
      (Standard ''E96-24ds_v5'', 7584000), (Standard ''E96-24s_v5'', 6624000), (Standard ''E96-48ads_v5'', 6912000),
      (Standard ''E96-48as_v4'', 6624000), (Standard ''E96-48as_v5'', 5952000), (Standard ''E96-48ds_v5'', 7584000),
      (Standard ''E96-48s_v5'', 6624000), (Standard ''E96_v5'', 6624000)]"

definition canadacentral_5 :: priceTable where
  "canadacentral_5 =
     [(Standard ''E96a_v4'', 6624000), (Standard ''E96ads_v5'', 6912000), (Standard ''E96as_v4'', 6624000),
      (Standard ''E96as_v5'', 5952000), (Standard ''E96bds_v5'', 8856000), (Standard ''E96bs_v5'', 7896000),
      (Standard ''E96d_v5'', 7584000), (Standard ''E96ds_v5'', 7584000), (Standard ''E96iads_v5'', 7603000),
      (Standard ''E96ias_v4'', 6624000), (Standard ''E96ias_v5'', 6547000), (Standard ''E96s_v5'', 6624000), (Standard ''F1'', 51900),
      (Standard ''F16'', 830000), (Standard ''F16s'', 830000), (Standard ''F16s_v2'', 741000), (Standard ''F1s'', 51900),
      (Standard ''F2'', 104000), (Standard ''F2s'', 104000), (Standard ''F2s_v2'', 92700), (Standard ''F32s_v2'', 1482000),
      (Standard ''F4'', 207000), (Standard ''F48s_v2'', 2224000), (Standard ''F4s'', 207000), (Standard ''F4s_v2'', 185000),
      (Standard ''F64s_v2'', 2965000), (Standard ''F72s_v2'', 3335000), (Standard ''F8'', 415000), (Standard ''F8s'', 415000),
      (Standard ''F8s_v2'', 371000), (Standard ''FX12mds'', 1152000), (Standard ''FX24mds'', 2304000), (Standard ''FX36mds'', 3456000),
      (Standard ''FX48mds'', 4608000), (Standard ''FX4mds'', 384000), (Standard ''G1'', 484000), (Standard ''G2'', 968000),
      (Standard ''G3'', 1936000), (Standard ''G4'', 3872000), (Standard ''G5'', 7744000), (Standard ''GS1'', 484000),
      (Standard ''GS2'', 968000), (Standard ''GS3'', 1936000), (Standard ''GS4'', 3872000), (Standard ''GS4-4'', 3872000),
      (Standard ''GS4-8'', 3872000), (Standard ''GS5'', 7744000), (Standard ''GS5-16'', 7744000), (Standard ''GS5-8'', 7744000),
      (Standard ''HB120-16rs_v2'', 4320000), (Standard ''HB120-32rs_v2'', 4320000), (Standard ''HB120-64rs_v2'', 4320000),
      (Standard ''HB120-96rs_v2'', 4320000), (Standard ''HB120rs_v2'', 4320000), (Standard ''HC44-16rs'', 3802000),
      (Standard ''HC44-32rs'', 3802000), (Standard ''HC44rs'', 3802000), (Standard ''L112ias_v3'', 10595000),
      (Standard ''L16as_v3'', 1376000), (Standard ''L16s'', 1376000), (Standard ''L16s_v3'', 1536000), (Standard ''L32as_v3'', 2752000),
      (Standard ''L32s'', 2752000), (Standard ''L32s_v3'', 3072000), (Standard ''L48as_v3'', 4128000), (Standard ''L48s_v3'', 4608000),
      (Standard ''L4s'', 344000), (Standard ''L64as_v3'', 5504000), (Standard ''L64s_v3'', 6144000), (Standard ''L80as_v3'', 6880000),
      (Standard ''L80s_v3'', 7680000), (Standard ''L8as_v3'', 688000), (Standard ''L8s'', 688000), (Standard ''L8s_v3'', 768000),
      (Standard ''L96ias_v3'', 9082000), (Standard ''M128'', 14671800), (Standard ''M128-32ms'', 29356800),
      (Standard ''M128-64ms'', 29356800), (Standard ''M128dms_v2'', 29359000), (Standard ''M128ds_v2'', 14674000),
      (Standard ''M128m'', 29356800), (Standard ''M128ms'', 29356800), (Standard ''M128ms_v2'', 28896000), (Standard ''M128s'', 14671800),
      (Standard ''M128s_v2'', 14211000), (Standard ''M16-4ms'', 3380300), (Standard ''M16-8ms'', 3380300), (Standard ''M16ms'', 3380300),
      (Standard ''M16s'', 2625700), (Standard ''M192idms_v2'', 35270000), (Standard ''M192ids_v2'', 17635000),
      (Standard ''M192ims_v2'', 34807000), (Standard ''M192is_v2'', 17172000), (Standard ''M208-104ms_v2'', 53544000),
      (Standard ''M208-104s_v2'', 26771000), (Standard ''M208-52ms_v2'', 53544000), (Standard ''M208-52s_v2'', 26771000),
      (Standard ''M208ms_v2'', 53544000), (Standard ''M208s_v2'', 26771000), (Standard ''M32-16ms'', 6760600),
      (Standard ''M32-8ms'', 6760600), (Standard ''M32dms_v2'', 6761000), (Standard ''M32ls'', 3160300), (Standard ''M32ms'', 6760600),
      (Standard ''M32ms_v2'', 6645000), (Standard ''M32s'', 3668500), (Standard ''M32ts'', 2977700),
      (Standard ''M416-104ms_v2'', 118980000), (Standard ''M416-104s_v2'', 59496000), (Standard ''M416-208ms_v2'', 118980000),
      (Standard ''M416-208s_v2'', 59496000), (Standard ''M416is_v2'', 59496000), (Standard ''M416ms_v2'', 118980000),
      (Standard ''M416s_8_v2'', 79330000), (Standard ''M416s_v2'', 59496000), (Standard ''M64'', 7335900),
      (Standard ''M64-16ms'', 11370700), (Standard ''M64-32ms'', 11370700), (Standard ''M64dms_v2'', 11374000),
      (Standard ''M64ds_v2'', 7336000), (Standard ''M64ls'', 5956500), (Standard ''M64m'', 11370700), (Standard ''M64ms'', 11370700),
      (Standard ''M64ms_v2'', 11143000), (Standard ''M64s'', 7335900), (Standard ''M64s_v2'', 7104000), (Standard ''M8-2ms'', 1690150),
      (Standard ''M8-4ms'', 1690150), (Standard ''M8ms'', 1690150), (Standard ''NC12s_v3'', 6732000), (Standard ''NC24rs_v3'', 14810000),
      (Standard ''NC24s_v3'', 13464000), (Standard ''NC6s_v3'', 3366000), (Standard ''ND96ams_A100_v4'', 39324000),
      (Standard ''ND96amsr_A100_v4'', 39324000), (Standard ''NV12ads_A10_v5'', 1090000), (Standard ''NV16as_v4'', 1118000),
      (Standard ''NV18ads_A10_v5'', 1920000), (Standard ''NV32as_v4'', 2237000), (Standard ''NV36adms_A10_v5'', 5424000),
      (Standard ''NV36ads_A10_v5'', 3840000), (Standard ''NV4as_v4'', 280000), (Standard ''NV6ads_A10_v5'', 545000),
      (Standard ''NV72ads_A10_v5'', 7824000), (Standard ''NV8as_v4'', 559000)]"

definition canadacentral :: priceTable where
  "canadacentral = canadacentral_1 @ canadacentral_2 @ canadacentral_3 @ canadacentral_4 @ canadacentral_5"

subsection \<open>canadaeast\<close>

definition canadaeast_1 :: priceTable where
  "canadaeast_1 =
     [(''Basic_A0'', 20000), (''Basic_A1'', 26000), (''Basic_A2'', 87000), (''Basic_A3'', 194000), (''Basic_A4'', 387000),
      (''DCsv2 Type 1'', 942000), (''Dadsv5_Type1'', 7084000), (''Dasv4_Type1'', 5885000), (''Dasv4_Type2'', 5885000),
      (''Dasv5_Type1'', 5914000), (''Ddsv4_Type 1'', 4435000), (''Ddsv4_Type2'', 5267000), (''Ddsv5_Type1'', 6653000),
      (''Dsv3_Type3'', 4709000), (''Dsv3_Type4'', 5886000), (''Dsv4_Type1'', 4708000), (''Dsv4_Type2'', 5650000),
      (''Dsv5_Type1'', 5885000), (''Eadsv5_Type1'', 7603000), (''Easv4_Type1'', 7286000), (''Easv4_Type2'', 7286000),
      (''Easv5_Type1'', 6547000), (''Ebdsv5-Type1'', 6494000), (''Ebsv5-Type1'', 5790000), (''Edsv4_Type 1'', 5562000),
      (''Edsv4_Type2'', 7231000), (''Edsv5_Type1'', 8342000), (''Esv3_Type3'', 4705000), (''Esv3_Type4'', 6375000),
      (''Esv4_Type1'', 4857000), (''Esv4_Type2'', 6376000), (''Esv5_Type1'', 7286000), (''FXmds Type1'', 5069000),
      (''Fsv2 Type3'', 4297000), (''Fsv2_Type2'', 3683000), (''Fsv2_Type4'', 4897000), (''Lasv3_Type1'', 7568000),
      (''Lsv3_Type1'', 8448000), (''Mdsmv2MedMem _Type1'', 32295000), (''Mdsv2MedMem_Type1'', 16141000), (''Msmv2MedMem Type1'', 31786000),
      (''Msmv2_Type1'', 130880000), (''Msv2MedMem Type1'', 15632000), (''Msv2_Type1'', 65446000), (Standard ''A0'', 22000),
      (Standard ''A1'', 56000), (Standard ''A1_v2'', 43000), (Standard ''A2'', 111000), (Standard ''A2_v2'', 91000),
      (Standard ''A2m_v2'', 129000), (Standard ''A3'', 222000), (Standard ''A4'', 446000), (Standard ''A4_v2'', 191000),
      (Standard ''A4m_v2'', 270000), (Standard ''A5'', 242000), (Standard ''A6'', 484000), (Standard ''A7'', 968000),
      (Standard ''A8_v2'', 400000), (Standard ''A8m_v2'', 568000), (Standard ''B12ms'', 557000), (Standard ''B16als_v2'', 666000),
      (Standard ''B16as_v2'', 669000), (Standard ''B16ls_v2'', 731000), (Standard ''B16ms'', 742000), (Standard ''B16s_v2'', 816000),
      (Standard ''B1ls'', 5800), (Standard ''B1ms'', 23200), (Standard ''B1s'', 11600), (Standard ''B20ms'', 928000),
      (Standard ''B2als_v2'', 41800), (Standard ''B2as_v2'', 83600), (Standard ''B2ats_v2'', 19700), (Standard ''B2ls_v2'', 46400),
      (Standard ''B2ms'', 92800), (Standard ''B2s'', 46400), (Standard ''B2s_v2'', 92800), (Standard ''B2ts_v2'', 20800),
      (Standard ''B32als_v2'', 1184000), (Standard ''B32as_v2'', 1338000), (Standard ''B32ls_v2'', 1315000),
      (Standard ''B32s_v2'', 1485000), (Standard ''B4als_v2'', 148000), (Standard ''B4as_v2'', 167000), (Standard ''B4ls_v2'', 183000),
      (Standard ''B4ms'', 186000), (Standard ''B4s_v2'', 186000), (Standard ''B8als_v2'', 333000), (Standard ''B8as_v2'', 371000),
      (Standard ''B8ls_v2'', 366000), (Standard ''B8ms'', 371000), (Standard ''B8s_v2'', 408000), (Standard ''D11_v2'', 183000),
      (Standard ''D11_v2_Promo'', 183000), (Standard ''D12_v2'', 366000), (Standard ''D12_v2_Promo'', 366000),
      (Standard ''D13_v2'', 732000), (Standard ''D13_v2_Promo'', 732000), (Standard ''D14_v2'', 1463000),
      (Standard ''D14_v2_Promo'', 1463000), (Standard ''D15_v2'', 1829000), (Standard ''D15i_v2'', 1829000), (Standard ''D16_v3'', 888000),
      (Standard ''D16_v4'', 856000), (Standard ''D16_v5'', 856000), (Standard ''D16a_v4'', 856000), (Standard ''D16ads_v5'', 920000),
      (Standard ''D16as_v4'', 856000), (Standard ''D16as_v5'', 768000), (Standard ''D16as_v5_Promo'', 685000),
      (Standard ''D16d_v4'', 1008000), (Standard ''D16d_v5'', 1008000), (Standard ''D16ds_v4'', 1008000), (Standard ''D16ds_v5'', 1008000),
      (Standard ''D16lds_v5'', 848000), (Standard ''D16ls_v5'', 744000), (Standard ''D16s_v3'', 888000), (Standard ''D16s_v4'', 856000),
      (Standard ''D16s_v5'', 856000), (Standard ''D1_v2'', 70000), (Standard ''D2_v2'', 140000), (Standard ''D2_v2_Promo'', 140000),
      (Standard ''D2_v3'', 111000), (Standard ''D2_v4'', 107000), (Standard ''D2_v5'', 107000)]"

definition canadaeast_2 :: priceTable where
  "canadaeast_2 =
     [(Standard ''D2a_v4'', 107000), (Standard ''D2ads_v5'', 115000), (Standard ''D2as_v4'', 107000), (Standard ''D2as_v5'', 96000),
      (Standard ''D2as_v5_Promo'', 85600), (Standard ''D2d_v4'', 126000), (Standard ''D2d_v5'', 126000), (Standard ''D2ds_v4'', 126000),
      (Standard ''D2ds_v5'', 126000), (Standard ''D2lds_v5'', 106000), (Standard ''D2ls_v5'', 93000), (Standard ''D2s_v3'', 111000),
      (Standard ''D2s_v4'', 107000), (Standard ''D2s_v5'', 107000), (Standard ''D32-16s_v3'', 1776000), (Standard ''D32-8s_v3'', 1776000),
      (Standard ''D32_v3'', 1776000), (Standard ''D32_v4'', 1712000), (Standard ''D32_v5'', 1712000), (Standard ''D32a_v4'', 1712000),
      (Standard ''D32ads_v5'', 1840000), (Standard ''D32as_v4'', 1712000), (Standard ''D32as_v5'', 1536000),
      (Standard ''D32as_v5_Promo'', 1370000), (Standard ''D32d_v4'', 2016000), (Standard ''D32d_v5'', 2016000),
      (Standard ''D32ds_v4'', 2016000), (Standard ''D32ds_v5'', 2016000), (Standard ''D32lds_v5'', 1696000),
      (Standard ''D32ls_v5'', 1488000), (Standard ''D32s_v3'', 1776000), (Standard ''D32s_v4'', 1712000), (Standard ''D32s_v5'', 1712000),
      (Standard ''D3_v2'', 280000), (Standard ''D3_v2_Promo'', 280000), (Standard ''D48_v3'', 2664000), (Standard ''D48_v4'', 2568000),
      (Standard ''D48_v5'', 2568000), (Standard ''D48a_v4'', 2568000), (Standard ''D48ads_v5'', 2760000), (Standard ''D48as_v4'', 2568000),
      (Standard ''D48as_v5'', 2304000), (Standard ''D48as_v5_Promo'', 2054000), (Standard ''D48d_v4'', 3024000),
      (Standard ''D48d_v5'', 3024000), (Standard ''D48ds_v4'', 3024000), (Standard ''D48ds_v5'', 3024000),
      (Standard ''D48lds_v5'', 2544000), (Standard ''D48ls_v5'', 2232000), (Standard ''D48s_v3'', 2664000),
      (Standard ''D48s_v4'', 2568000), (Standard ''D48s_v5'', 2568000), (Standard ''D4_v2'', 560000), (Standard ''D4_v2_Promo'', 560000),
      (Standard ''D4_v3'', 222000), (Standard ''D4_v4'', 214000), (Standard ''D4_v5'', 214000), (Standard ''D4a_v4'', 214000),
      (Standard ''D4ads_v5'', 230000), (Standard ''D4as_v4'', 214000), (Standard ''D4as_v5'', 192000),
      (Standard ''D4as_v5_Promo'', 171000), (Standard ''D4d_v4'', 252000), (Standard ''D4d_v5'', 252000), (Standard ''D4ds_v4'', 252000),
      (Standard ''D4ds_v5'', 252000), (Standard ''D4lds_v5'', 212000), (Standard ''D4ls_v5'', 186000), (Standard ''D4s_v3'', 222000),
      (Standard ''D4s_v4'', 214000), (Standard ''D4s_v5'', 214000), (Standard ''D5_v2'', 1120000), (Standard ''D5_v2_Promo'', 1120000),
      (Standard ''D64-16s_v3'', 3552000), (Standard ''D64-32s_v3'', 3552000), (Standard ''D64_v3'', 3552000),
      (Standard ''D64_v4'', 3424000), (Standard ''D64_v5'', 3424000), (Standard ''D64a_v4'', 3424000), (Standard ''D64ads_v5'', 3680000),
      (Standard ''D64as_v4'', 3424000), (Standard ''D64as_v5'', 3072000), (Standard ''D64as_v5_Promo'', 2739000),
      (Standard ''D64d_v4'', 4032000), (Standard ''D64d_v5'', 4032000), (Standard ''D64ds_v4'', 4032000), (Standard ''D64ds_v5'', 4032000),
      (Standard ''D64lds_v5'', 3392000), (Standard ''D64ls_v5'', 2976000), (Standard ''D64s_v3'', 3552000),
      (Standard ''D64s_v4'', 3424000), (Standard ''D64s_v5'', 3424000), (Standard ''D8_v3'', 444000), (Standard ''D8_v4'', 428000),
      (Standard ''D8_v5'', 428000), (Standard ''D8a_v4'', 428000), (Standard ''D8ads_v5'', 460000), (Standard ''D8as_v4'', 428000),
      (Standard ''D8as_v5'', 384000), (Standard ''D8as_v5_Promo'', 342000), (Standard ''D8d_v4'', 504000), (Standard ''D8d_v5'', 504000),
      (Standard ''D8ds_v4'', 504000), (Standard ''D8ds_v5'', 504000), (Standard ''D8lds_v5'', 424000), (Standard ''D8ls_v5'', 372000),
      (Standard ''D8s_v3'', 444000), (Standard ''D8s_v4'', 428000), (Standard ''D8s_v5'', 428000), (Standard ''D96_v5'', 5136000),
      (Standard ''D96a_v4'', 5136000), (Standard ''D96ads_v5'', 5520000), (Standard ''D96as_v4'', 5136000),
      (Standard ''D96as_v5'', 4608000), (Standard ''D96as_v5_Promo'', 4109000), (Standard ''D96d_v5'', 6048000),
      (Standard ''D96ds_v5'', 6048000), (Standard ''D96lds_v5'', 5088000), (Standard ''D96ls_v5'', 4464000),
      (Standard ''D96s_v5'', 5136000), (Standard ''DC1s_v2'', 107000), (Standard ''DC2s_v2'', 214000), (Standard ''DC4s_v2'', 428000),
      (Standard ''DC8_v2'', 856000)]"

definition canadaeast_3 :: priceTable where
  "canadaeast_3 =
     [(Standard ''DS11-1_v2'', 183000), (Standard ''DS11_v2'', 183000), (Standard ''DS11_v2_Promo'', 183000),
      (Standard ''DS12-1_v2'', 366000), (Standard ''DS12-2_v2'', 366000), (Standard ''DS12_v2'', 366000),
      (Standard ''DS12_v2_Promo'', 366000), (Standard ''DS13-2_v2'', 732000), (Standard ''DS13-4_v2'', 732000),
      (Standard ''DS13_v2'', 732000), (Standard ''DS13_v2_Promo'', 732000), (Standard ''DS14-4_v2'', 1463000),
      (Standard ''DS14-8_v2'', 1463000), (Standard ''DS14_v2'', 1463000), (Standard ''DS14_v2_Promo'', 1463000),
      (Standard ''DS15_v2'', 1829000), (Standard ''DS15i_v2'', 1829000), (Standard ''DS1_v2'', 70000), (Standard ''DS2_v2'', 140000),
      (Standard ''DS2_v2_Promo'', 140000), (Standard ''DS3_v2'', 280000), (Standard ''DS3_v2_Promo'', 280000),
      (Standard ''DS4_v2'', 560000), (Standard ''DS4_v2_Promo'', 560000), (Standard ''DS5_v2'', 1120000),
      (Standard ''DS5_v2_Promo'', 1120000), (Standard ''E104i_v5'', 7894000), (Standard ''E104id_v5'', 9038000),
      (Standard ''E104ids_v5'', 9038000), (Standard ''E104is_v5'', 7894000), (Standard ''E112iads_v5'', 8870000),
      (Standard ''E112ias_v5'', 7638000), (Standard ''E112ibds_v5'', 11365000), (Standard ''E112ibs_v5'', 10133000),
      (Standard ''E16-4ads_v5'', 1152000), (Standard ''E16-4as_v4'', 1104000), (Standard ''E16-4as_v5'', 992000),
      (Standard ''E16-4ds_v4'', 1264000), (Standard ''E16-4ds_v5'', 1264000), (Standard ''E16-4s_v3'', 1168000),
      (Standard ''E16-4s_v4'', 1104000), (Standard ''E16-4s_v5'', 1104000), (Standard ''E16-8ads_v5'', 1152000),
      (Standard ''E16-8as_v4'', 1104000), (Standard ''E16-8as_v5'', 992000), (Standard ''E16-8ds_v4'', 1264000),
      (Standard ''E16-8ds_v5'', 1264000), (Standard ''E16-8s_v3'', 1168000), (Standard ''E16-8s_v4'', 1104000),
      (Standard ''E16-8s_v5'', 1104000), (Standard ''E16_v3'', 1168000), (Standard ''E16_v4'', 1104000), (Standard ''E16_v5'', 1104000),
      (Standard ''E16a_v4'', 1104000), (Standard ''E16ads_v5'', 1152000), (Standard ''E16as_v4'', 1104000),
      (Standard ''E16as_v5'', 992000), (Standard ''E16bds_v5'', 1476000), (Standard ''E16bs_v5'', 1316000),
      (Standard ''E16d_v4'', 1264000), (Standard ''E16d_v5'', 1264000), (Standard ''E16ds_v4'', 1264000), (Standard ''E16ds_v5'', 1264000),
      (Standard ''E16s_v3'', 1168000), (Standard ''E16s_v4'', 1104000), (Standard ''E16s_v5'', 1104000), (Standard ''E20_v3'', 1460000),
      (Standard ''E20_v4'', 1380000), (Standard ''E20_v5'', 1380000), (Standard ''E20a_v4'', 1380000), (Standard ''E20ads_v5'', 1440000),
      (Standard ''E20as_v4'', 1380000), (Standard ''E20as_v5'', 1240000), (Standard ''E20d_v4'', 1580000), (Standard ''E20d_v5'', 1580000),
      (Standard ''E20ds_v4'', 1580000), (Standard ''E20ds_v5'', 1580000), (Standard ''E20s_v3'', 1460000), (Standard ''E20s_v4'', 1380000),
      (Standard ''E20s_v5'', 1380000), (Standard ''E2_v3'', 146000), (Standard ''E2_v4'', 138000), (Standard ''E2_v5'', 138000),
      (Standard ''E2a_v4'', 138000), (Standard ''E2ads_v5'', 144000), (Standard ''E2as_v4'', 138000), (Standard ''E2as_v5'', 124000),
      (Standard ''E2bds_v5'', 185000), (Standard ''E2bs_v5'', 165000), (Standard ''E2d_v4'', 158000), (Standard ''E2d_v5'', 158000),
      (Standard ''E2ds_v4'', 158000), (Standard ''E2ds_v5'', 158000), (Standard ''E2s_v3'', 146000), (Standard ''E2s_v4'', 138000),
      (Standard ''E2s_v5'', 138000), (Standard ''E32-16ads_v5'', 2304000), (Standard ''E32-16as_v4'', 2208000),
      (Standard ''E32-16as_v5'', 1984000), (Standard ''E32-16ds_v4'', 2528000), (Standard ''E32-16ds_v5'', 2528000),
      (Standard ''E32-16s_v3'', 2336000), (Standard ''E32-16s_v4'', 2208000), (Standard ''E32-16s_v5'', 2208000),
      (Standard ''E32-8ads_v5'', 2304000), (Standard ''E32-8as_v4'', 2208000), (Standard ''E32-8as_v5'', 1984000),
      (Standard ''E32-8ds_v4'', 2528000), (Standard ''E32-8ds_v5'', 2528000), (Standard ''E32-8s_v3'', 2336000),
      (Standard ''E32-8s_v4'', 2208000), (Standard ''E32-8s_v5'', 2208000), (Standard ''E32_v3'', 2336000), (Standard ''E32_v4'', 2208000),
      (Standard ''E32_v5'', 2208000), (Standard ''E32a_v4'', 2208000), (Standard ''E32ads_v5'', 2304000), (Standard ''E32as_v4'', 2208000),
      (Standard ''E32as_v5'', 1984000), (Standard ''E32bds_v5'', 2952000), (Standard ''E32bs_v5'', 2632000),
      (Standard ''E32d_v4'', 2528000), (Standard ''E32d_v5'', 2528000), (Standard ''E32ds_v4'', 2528000)]"

definition canadaeast_4 :: priceTable where
  "canadaeast_4 =
     [(Standard ''E32ds_v5'', 2528000), (Standard ''E32s_v3'', 2336000), (Standard ''E32s_v4'', 2208000), (Standard ''E32s_v5'', 2208000),
      (Standard ''E4-2ads_v5'', 288000), (Standard ''E4-2as_v4'', 276000), (Standard ''E4-2as_v5'', 248000),
      (Standard ''E4-2ds_v4'', 316000), (Standard ''E4-2ds_v5'', 316000), (Standard ''E4-2s_v3'', 292000), (Standard ''E4-2s_v4'', 276000),
      (Standard ''E4-2s_v5'', 276000), (Standard ''E48_v3'', 3311000), (Standard ''E48_v4'', 3312000), (Standard ''E48_v5'', 3312000),
      (Standard ''E48a_v4'', 3312000), (Standard ''E48ads_v5'', 3456000), (Standard ''E48as_v4'', 3312000),
      (Standard ''E48as_v5'', 2976000), (Standard ''E48bds_v5'', 4428000), (Standard ''E48bs_v5'', 3948000),
      (Standard ''E48d_v4'', 3792000), (Standard ''E48d_v5'', 3792000), (Standard ''E48ds_v4'', 3792000), (Standard ''E48ds_v5'', 3792000),
      (Standard ''E48s_v3'', 3311000), (Standard ''E48s_v4'', 3312000), (Standard ''E48s_v5'', 3312000), (Standard ''E4_v3'', 292000),
      (Standard ''E4_v4'', 276000), (Standard ''E4_v5'', 276000), (Standard ''E4a_v4'', 276000), (Standard ''E4ads_v5'', 288000),
      (Standard ''E4as_v4'', 276000), (Standard ''E4as_v5'', 248000), (Standard ''E4bds_v5'', 369000), (Standard ''E4bs_v5'', 329000),
      (Standard ''E4d_v4'', 316000), (Standard ''E4d_v5'', 316000), (Standard ''E4ds_v4'', 316000), (Standard ''E4ds_v5'', 316000),
      (Standard ''E4s_v3'', 292000), (Standard ''E4s_v4'', 276000), (Standard ''E4s_v5'', 276000), (Standard ''E64-16ads_v5'', 4608000),
      (Standard ''E64-16as_v4'', 4416000), (Standard ''E64-16as_v5'', 3968000), (Standard ''E64-16ds_v4'', 5056000),
      (Standard ''E64-16ds_v5'', 5056000), (Standard ''E64-16s_v3'', 3974000), (Standard ''E64-16s_v4'', 4416000),
      (Standard ''E64-16s_v5'', 4416000), (Standard ''E64-32ads_v5'', 4608000), (Standard ''E64-32as_v4'', 4416000),
      (Standard ''E64-32as_v5'', 3968000), (Standard ''E64-32ds_v4'', 5056000), (Standard ''E64-32ds_v5'', 5056000),
      (Standard ''E64-32s_v3'', 3974000), (Standard ''E64-32s_v4'', 4416000), (Standard ''E64-32s_v5'', 4416000),
      (Standard ''E64_v3'', 3974000), (Standard ''E64_v4'', 4416000), (Standard ''E64_v5'', 4416000), (Standard ''E64a_v4'', 4416000),
      (Standard ''E64ads_v5'', 4608000), (Standard ''E64as_v4'', 4416000), (Standard ''E64as_v5'', 3968000),
      (Standard ''E64bds_v5'', 5904000), (Standard ''E64bs_v5'', 5264000), (Standard ''E64d_v4'', 5056000),
      (Standard ''E64d_v5'', 5056000), (Standard ''E64ds_v4'', 5056000), (Standard ''E64ds_v5'', 5056000), (Standard ''E64i_v3'', 3974000),
      (Standard ''E64is_v3'', 3974000), (Standard ''E64s_v3'', 3974000), (Standard ''E64s_v4'', 4416000), (Standard ''E64s_v5'', 4416000),
      (Standard ''E8-2ads_v5'', 576000), (Standard ''E8-2as_v4'', 552000), (Standard ''E8-2as_v5'', 496000),
      (Standard ''E8-2ds_v4'', 632000), (Standard ''E8-2ds_v5'', 632000), (Standard ''E8-2s_v3'', 584000), (Standard ''E8-2s_v4'', 552000),
      (Standard ''E8-2s_v5'', 552000), (Standard ''E8-4ads_v5'', 576000), (Standard ''E8-4as_v4'', 552000),
      (Standard ''E8-4as_v5'', 496000), (Standard ''E8-4ds_v4'', 632000), (Standard ''E8-4ds_v5'', 632000),
      (Standard ''E8-4s_v3'', 584000), (Standard ''E8-4s_v4'', 552000), (Standard ''E8-4s_v5'', 552000), (Standard ''E80ids_v4'', 6320000),
      (Standard ''E80is_v4'', 5520000), (Standard ''E8_v3'', 584000), (Standard ''E8_v4'', 552000), (Standard ''E8_v5'', 552000),
      (Standard ''E8a_v4'', 552000), (Standard ''E8ads_v5'', 576000), (Standard ''E8as_v4'', 552000), (Standard ''E8as_v5'', 496000),
      (Standard ''E8bds_v5'', 738000), (Standard ''E8bs_v5'', 658000), (Standard ''E8d_v4'', 632000), (Standard ''E8d_v5'', 632000),
      (Standard ''E8ds_v4'', 632000), (Standard ''E8ds_v5'', 632000), (Standard ''E8s_v3'', 584000), (Standard ''E8s_v4'', 552000),
      (Standard ''E8s_v5'', 552000), (Standard ''E96-24ads_v5'', 6912000), (Standard ''E96-24as_v4'', 6624000),
      (Standard ''E96-24as_v5'', 5952000), (Standard ''E96-24ds_v5'', 7584000), (Standard ''E96-24s_v5'', 6624000),
      (Standard ''E96-48ads_v5'', 6912000), (Standard ''E96-48as_v4'', 6624000), (Standard ''E96-48as_v5'', 5952000),
      (Standard ''E96-48ds_v5'', 7584000), (Standard ''E96-48s_v5'', 6624000), (Standard ''E96_v5'', 6624000),
      (Standard ''E96a_v4'', 6624000)]"

definition canadaeast_5 :: priceTable where
  "canadaeast_5 =
     [(Standard ''E96ads_v5'', 6912000), (Standard ''E96as_v4'', 6624000), (Standard ''E96as_v5'', 5952000),
      (Standard ''E96bds_v5'', 8856000), (Standard ''E96bs_v5'', 7896000), (Standard ''E96d_v5'', 7584000),
      (Standard ''E96ds_v5'', 7584000), (Standard ''E96iads_v5'', 7603000), (Standard ''E96ias_v4'', 6624000),
      (Standard ''E96ias_v5'', 6547000), (Standard ''E96s_v5'', 6624000), (Standard ''F1'', 54600), (Standard ''F16'', 874000),
      (Standard ''F16s'', 874000), (Standard ''F16s_v2'', 741000), (Standard ''F1s'', 54600), (Standard ''F2'', 109000),
      (Standard ''F2s'', 109000), (Standard ''F2s_v2'', 92700), (Standard ''F32s_v2'', 1482000), (Standard ''F4'', 218000),
      (Standard ''F48s_v2'', 2224000), (Standard ''F4s'', 218000), (Standard ''F4s_v2'', 185000), (Standard ''F64s_v2'', 2965000),
      (Standard ''F72s_v2'', 3335000), (Standard ''F8'', 437000), (Standard ''F8s'', 437000), (Standard ''F8s_v2'', 371000),
      (Standard ''FX12mds'', 1152000), (Standard ''FX24mds'', 2304000), (Standard ''FX36mds'', 3456000), (Standard ''FX48mds'', 4608000),
      (Standard ''FX4mds'', 384000), (Standard ''G1'', 484000), (Standard ''G2'', 968000), (Standard ''G3'', 1936000),
      (Standard ''G4'', 3872000), (Standard ''G5'', 7744000), (Standard ''GS1'', 484000), (Standard ''GS2'', 968000),
      (Standard ''GS3'', 1936000), (Standard ''GS4'', 3872000), (Standard ''GS4-4'', 3872000), (Standard ''GS4-8'', 3872000),
      (Standard ''GS5'', 7744000), (Standard ''GS5-16'', 7744000), (Standard ''GS5-8'', 7744000), (Standard ''L16as_v3'', 1376000),
      (Standard ''L16s'', 1376000), (Standard ''L16s_v3'', 1536000), (Standard ''L32as_v3'', 2752000), (Standard ''L32s'', 2752000),
      (Standard ''L32s_v3'', 3072000), (Standard ''L48as_v3'', 4128000), (Standard ''L48s_v3'', 4608000), (Standard ''L4s'', 344000),
      (Standard ''L64as_v3'', 5504000), (Standard ''L64s_v3'', 6144000), (Standard ''L80as_v3'', 6880000), (Standard ''L80s_v3'', 7680000),
      (Standard ''L8as_v3'', 688000), (Standard ''L8s'', 688000), (Standard ''L8s_v3'', 768000), (Standard ''M128'', 14671800),
      (Standard ''M128-32ms'', 29356800), (Standard ''M128-64ms'', 29356800), (Standard ''M128dms_v2'', 29359000),
      (Standard ''M128ds_v2'', 14674000), (Standard ''M128m'', 29356800), (Standard ''M128ms'', 29356800),
      (Standard ''M128ms_v2'', 28896000), (Standard ''M128s'', 14671800), (Standard ''M128s_v2'', 14211000),
      (Standard ''M16-4ms'', 3380300), (Standard ''M16-8ms'', 3380300), (Standard ''M16ms'', 3380300), (Standard ''M16s'', 2625700),
      (Standard ''M192idms_v2'', 35270000), (Standard ''M192ids_v2'', 17635000), (Standard ''M192ims_v2'', 34807000),
      (Standard ''M192is_v2'', 17172000), (Standard ''M208-104ms_v2'', 53544000), (Standard ''M208-104s_v2'', 26771000),
      (Standard ''M208-52ms_v2'', 53544000), (Standard ''M208-52s_v2'', 26771000), (Standard ''M208ms_v2'', 53544000),
      (Standard ''M208s_v2'', 26771000), (Standard ''M32-16ms'', 6760600), (Standard ''M32-8ms'', 6760600),
      (Standard ''M32dms_v2'', 6761000), (Standard ''M32ls'', 3160300), (Standard ''M32ms'', 6760600), (Standard ''M32ms_v2'', 6645000),
      (Standard ''M32s'', 3668500), (Standard ''M32ts'', 2977700), (Standard ''M416-104ms_v2'', 118980000),
      (Standard ''M416-104s_v2'', 59496000), (Standard ''M416-208ms_v2'', 118980000), (Standard ''M416-208s_v2'', 59496000),
      (Standard ''M416is_v2'', 59496000), (Standard ''M416ms_v2'', 118980000), (Standard ''M416s_8_v2'', 79330000),
      (Standard ''M416s_v2'', 59496000), (Standard ''M64'', 7335900), (Standard ''M64-16ms'', 11370700), (Standard ''M64-32ms'', 11370700),
      (Standard ''M64dms_v2'', 11374000), (Standard ''M64ds_v2'', 7336000), (Standard ''M64ls'', 5956500), (Standard ''M64m'', 11370700),
      (Standard ''M64ms'', 11370700), (Standard ''M64ms_v2'', 11143000), (Standard ''M64s'', 7335900), (Standard ''M64s_v2'', 7104000),
      (Standard ''M8-2ms'', 1690150), (Standard ''M8-4ms'', 1690150), (Standard ''M8ms'', 1690150),
      (Standard ''ND96ams_A100_v4'', 39324000), (Standard ''ND96amsr_A100_v4'', 39324000)]"

definition canadaeast :: priceTable where
  "canadaeast = canadaeast_1 @ canadaeast_2 @ canadaeast_3 @ canadaeast_4 @ canadaeast_5"

subsection \<open>centralindia\<close>

definition centralindia_1 :: priceTable where
  "centralindia_1 =
     [(''Basic_A0'', 18000), (''Basic_A1'', 30000), (''Basic_A2'', 96000), (''Basic_A3'', 232000), (''Basic_A4'', 464000),
      (''DCdsv3 Type1'', 6336000), (''DCsv3 Type1'', 5333000), (''Dadsv5_Type1'', 4133000), (''Dasv4_Type1'', 5333000),
      (''Dasv4_Type2'', 5333000), (''Dasv5_Type1'', 3422000), (''Ddsv4_Type 1'', 4294000), (''Ddsv4_Type2'', 5100000),
      (''Ddsv5_Type1'', 6442000), (''Dsv3_Type3'', 4445000), (''Dsv3_Type4'', 5556000), (''Dsv4_Type1'', 4444000),
      (''Dsv4_Type2'', 5333000), (''Dsv5_Type1'', 5555000), (''Eadsv5_Type1'', 4385000), (''Easv4_Type1'', 6864000),
      (''Easv4_Type2'', 6864000), (''Easv5_Type1'', 3775000), (''Ebdsv5-Type1'', 6195000), (''Ebsv5-Type1'', 5456000),
      (''Edsv4_Type 1'', 5315000), (''Edsv4_Type2'', 6312000), (''Edsv5_Type1'', 7973000), (''Esv3_Type3'', 4506000),
      (''Esv3_Type4'', 6105000), (''Esv4_Type1'', 4576000), (''Esv4_Type2'', 6006000), (''Esv5_Type1'', 6864000),
      (''FXmds Type1'', 5174000), (''Fsv2 Type3'', 3927000), (''Fsv2_Type2'', 3366000), (''Lsv2_Type1'', 7788000),
      (''Lsv3_Type1'', 8712000), (''Mdsmv2MedMem _Type1'', 30290000), (''Mdsv2MedMem_Type1'', 15139000), (''Ms_Type1'', 15134000),
      (''Msm_Type1'', 30294000), (''Msmv2MedMem Type1'', 29812000), (''Msmv2_Type1'', 112340000), (''Msv2MedMem Type1'', 14662000),
      (''Msv2_Type1'', 56174000), (''NVasv4_Type1'', 10047000), (''NVsv3_Type1'', 7022000), (Standard ''A0'', 20000),
      (Standard ''A1'', 66000), (Standard ''A1_v2'', 47000), (Standard ''A2'', 131000), (Standard ''A2_v2'', 98000),
      (Standard ''A2m_v2'', 158000), (Standard ''A3'', 262000), (Standard ''A4'', 524000), (Standard ''A4_v2'', 206000),
      (Standard ''A4m_v2'', 333000), (Standard ''A5'', 260000), (Standard ''A6'', 520000), (Standard ''A7'', 1040000),
      (Standard ''A8_v2'', 433000), (Standard ''A8m_v2'', 699000), (Standard ''B12ms'', 538000), (Standard ''B16als_v2'', 349000),
      (Standard ''B16as_v2'', 467000), (Standard ''B16ls_v2'', 708000), (Standard ''B16ms'', 717000), (Standard ''B16pls_v2'', 391000),
      (Standard ''B16ps_v2'', 432000), (Standard ''B16s_v2'', 790000), (Standard ''B1ls'', 5600), (Standard ''B1ms'', 22400),
      (Standard ''B1s'', 11200), (Standard ''B20ms'', 896000), (Standard ''B2als_v2'', 24600), (Standard ''B2as_v2'', 58400),
      (Standard ''B2ats_v2'', 6150), (Standard ''B2ls_v2'', 44800), (Standard ''B2ms'', 89600), (Standard ''B2pls_v2'', 22400),
      (Standard ''B2ps_v2'', 44800), (Standard ''B2pts_v2'', 5600), (Standard ''B2s'', 44800), (Standard ''B2s_v2'', 89600),
      (Standard ''B2ts_v2'', 11200), (Standard ''B32als_v2'', 844000), (Standard ''B32as_v2'', 934000), (Standard ''B32ls_v2'', 1417000),
      (Standard ''B32s_v2'', 1434000), (Standard ''B4als_v2'', 106000), (Standard ''B4as_v2'', 98400), (Standard ''B4ls_v2'', 177000),
      (Standard ''B4ms'', 179000), (Standard ''B4pls_v2'', 97700), (Standard ''B4ps_v2'', 108000), (Standard ''B4s_v2'', 198000),
      (Standard ''B8als_v2'', 211000), (Standard ''B8as_v2'', 234000), (Standard ''B8ls_v2'', 317000), (Standard ''B8ms'', 358000),
      (Standard ''B8pls_v2'', 159000), (Standard ''B8ps_v2'', 216000), (Standard ''B8s_v2'', 358000), (Standard ''D1'', 70500),
      (Standard ''D11'', 182000), (Standard ''D11_v2'', 189000), (Standard ''D11_v2_Promo'', 189000), (Standard ''D12'', 365000),
      (Standard ''D12_v2'', 379000), (Standard ''D12_v2_Promo'', 379000), (Standard ''D13'', 730000), (Standard ''D13_v2'', 758000),
      (Standard ''D13_v2_Promo'', 758000), (Standard ''D14'', 1460000), (Standard ''D14_v2'', 1516000),
      (Standard ''D14_v2_Promo'', 1516000), (Standard ''D15_v2'', 1895000), (Standard ''D15i_v2'', 1895000), (Standard ''D16_v3'', 840000),
      (Standard ''D16_v4'', 808000), (Standard ''D16_v5'', 808000), (Standard ''D16a_v4'', 493000), (Standard ''D16ads_v5'', 537000),
      (Standard ''D16as_v4'', 493000), (Standard ''D16as_v5'', 444000), (Standard ''D16as_v5_Promo'', 405000),
      (Standard ''D16d_v4'', 976000), (Standard ''D16d_v5'', 976000), (Standard ''D16ds_v4'', 976000), (Standard ''D16ds_v5'', 976000),
      (Standard ''D16lds_v5'', 792000), (Standard ''D16ls_v5'', 680000), (Standard ''D16pds_v5'', 483000),
      (Standard ''D16plds_v5'', 392000), (Standard ''D16pls_v5'', 341000), (Standard ''D16ps_v5'', 405000), (Standard ''D16s_v3'', 840000),
      (Standard ''D16s_v4'', 808000), (Standard ''D16s_v5'', 808000), (Standard ''D1_v2'', 84000), (Standard ''D2'', 141000),
      (Standard ''D2_v2'', 169000), (Standard ''D2_v2_Promo'', 169000), (Standard ''D2_v3'', 105000), (Standard ''D2_v4'', 101000),
      (Standard ''D2_v5'', 101000), (Standard ''D2a_v4'', 62200), (Standard ''D2ads_v5'', 67100)]"

definition centralindia_2 :: priceTable where
  "centralindia_2 =
     [(Standard ''D2as_v4'', 62200), (Standard ''D2as_v5'', 55600), (Standard ''D2as_v5_Promo'', 50600), (Standard ''D2d_v4'', 122000),
      (Standard ''D2d_v5'', 122000), (Standard ''D2ds_v4'', 122000), (Standard ''D2ds_v5'', 122000), (Standard ''D2lds_v5'', 99000),
      (Standard ''D2ls_v5'', 85000), (Standard ''D2pds_v5'', 60400), (Standard ''D2plds_v5'', 49000), (Standard ''D2pls_v5'', 42600),
      (Standard ''D2ps_v5'', 50600), (Standard ''D2s_v3'', 105000), (Standard ''D2s_v4'', 101000), (Standard ''D2s_v5'', 101000),
      (Standard ''D3'', 282000), (Standard ''D32-16s_v3'', 1680000), (Standard ''D32-8s_v3'', 1680000), (Standard ''D32_v3'', 1680000),
      (Standard ''D32_v4'', 1616000), (Standard ''D32_v5'', 1616000), (Standard ''D32a_v4'', 987000), (Standard ''D32ads_v5'', 1074000),
      (Standard ''D32as_v4'', 987000), (Standard ''D32as_v5'', 889000), (Standard ''D32as_v5_Promo'', 810000),
      (Standard ''D32d_v4'', 1952000), (Standard ''D32d_v5'', 1952000), (Standard ''D32ds_v4'', 1952000), (Standard ''D32ds_v5'', 1952000),
      (Standard ''D32lds_v5'', 1584000), (Standard ''D32ls_v5'', 1360000), (Standard ''D32pds_v5'', 966000),
      (Standard ''D32plds_v5'', 784000), (Standard ''D32pls_v5'', 682000), (Standard ''D32ps_v5'', 810000),
      (Standard ''D32s_v3'', 1680000), (Standard ''D32s_v4'', 1616000), (Standard ''D32s_v5'', 1616000), (Standard ''D3_v2'', 337000),
      (Standard ''D3_v2_Promo'', 337000), (Standard ''D4'', 564000), (Standard ''D48_v3'', 2520000), (Standard ''D48_v4'', 2424000),
      (Standard ''D48_v5'', 2424000), (Standard ''D48a_v4'', 1481000), (Standard ''D48ads_v5'', 1610000), (Standard ''D48as_v4'', 1481000),
      (Standard ''D48as_v5'', 1333000), (Standard ''D48as_v5_Promo'', 1214000), (Standard ''D48d_v4'', 2928000),
      (Standard ''D48d_v5'', 2928000), (Standard ''D48ds_v4'', 2928000), (Standard ''D48ds_v5'', 2928000),
      (Standard ''D48lds_v5'', 2376000), (Standard ''D48ls_v5'', 2040000), (Standard ''D48pds_v5'', 1450000),
      (Standard ''D48plds_v5'', 1176000), (Standard ''D48pls_v5'', 1022000), (Standard ''D48ps_v5'', 1214000),
      (Standard ''D48s_v3'', 2520000), (Standard ''D48s_v4'', 2424000), (Standard ''D48s_v5'', 2424000), (Standard ''D4_v2'', 675000),
      (Standard ''D4_v2_Promo'', 675000), (Standard ''D4_v3'', 210000), (Standard ''D4_v4'', 202000), (Standard ''D4_v5'', 202000),
      (Standard ''D4a_v4'', 123000), (Standard ''D4ads_v5'', 134000), (Standard ''D4as_v4'', 123000), (Standard ''D4as_v5'', 111000),
      (Standard ''D4as_v5_Promo'', 101000), (Standard ''D4d_v4'', 244000), (Standard ''D4d_v5'', 244000), (Standard ''D4ds_v4'', 244000),
      (Standard ''D4ds_v5'', 244000), (Standard ''D4lds_v5'', 198000), (Standard ''D4ls_v5'', 170000), (Standard ''D4pds_v5'', 121000),
      (Standard ''D4plds_v5'', 98000), (Standard ''D4pls_v5'', 85200), (Standard ''D4ps_v5'', 101000), (Standard ''D4s_v3'', 210000),
      (Standard ''D4s_v4'', 202000), (Standard ''D4s_v5'', 202000), (Standard ''D5_v2'', 1350000), (Standard ''D5_v2_Promo'', 1350000),
      (Standard ''D64-16s_v3'', 3360000), (Standard ''D64-32s_v3'', 3360000), (Standard ''D64_v3'', 3360000),
      (Standard ''D64_v4'', 3232000), (Standard ''D64_v5'', 3232000), (Standard ''D64a_v4'', 1975000), (Standard ''D64ads_v5'', 2147000),
      (Standard ''D64as_v4'', 1975000), (Standard ''D64as_v5'', 1778000), (Standard ''D64as_v5_Promo'', 1619000),
      (Standard ''D64d_v4'', 3904000), (Standard ''D64d_v5'', 3904000), (Standard ''D64ds_v4'', 3904000), (Standard ''D64ds_v5'', 3904000),
      (Standard ''D64lds_v5'', 3168000), (Standard ''D64ls_v5'', 2720000), (Standard ''D64pds_v5'', 1933000),
      (Standard ''D64plds_v5'', 1568000), (Standard ''D64pls_v5'', 1363000), (Standard ''D64ps_v5'', 1619000),
      (Standard ''D64s_v3'', 3360000), (Standard ''D64s_v4'', 3232000), (Standard ''D64s_v5'', 3232000), (Standard ''D8_v3'', 420000),
      (Standard ''D8_v4'', 404000), (Standard ''D8_v5'', 404000), (Standard ''D8a_v4'', 246000), (Standard ''D8ads_v5'', 268000),
      (Standard ''D8as_v4'', 246000), (Standard ''D8as_v5'', 222000), (Standard ''D8as_v5_Promo'', 202000), (Standard ''D8d_v4'', 488000),
      (Standard ''D8d_v5'', 488000), (Standard ''D8ds_v4'', 488000), (Standard ''D8ds_v5'', 488000), (Standard ''D8lds_v5'', 396000),
      (Standard ''D8ls_v5'', 340000), (Standard ''D8pds_v5'', 242000), (Standard ''D8plds_v5'', 196000), (Standard ''D8pls_v5'', 170000),
      (Standard ''D8ps_v5'', 202000), (Standard ''D8s_v3'', 420000), (Standard ''D8s_v4'', 404000), (Standard ''D8s_v5'', 404000),
      (Standard ''D96_v5'', 4848000), (Standard ''D96a_v4'', 2962000), (Standard ''D96ads_v5'', 3221000), (Standard ''D96as_v4'', 2962000),
      (Standard ''D96as_v5'', 2666000), (Standard ''D96as_v5_Promo'', 2429000), (Standard ''D96d_v5'', 5856000),
      (Standard ''D96ds_v5'', 5856000), (Standard ''D96lds_v5'', 4752000), (Standard ''D96ls_v5'', 4080000),
      (Standard ''D96s_v5'', 4848000), (Standard ''DC16ads_v5'', 537000), (Standard ''DC16as_v5'', 444000),
      (Standard ''DC16ds_v3'', 1920000), (Standard ''DC16s_v3'', 1616000), (Standard ''DC1ds_v3'', 120000)]"

definition centralindia_3 :: priceTable where
  "centralindia_3 =
     [(Standard ''DC1s_v3'', 101000), (Standard ''DC24ds_v3'', 2880000), (Standard ''DC24s_v3'', 2424000), (Standard ''DC2ads_v5'', 67100),
      (Standard ''DC2as_v5'', 55600), (Standard ''DC2ds_v3'', 240000), (Standard ''DC2s_v3'', 202000), (Standard ''DC32ads_v5'', 1074000),
      (Standard ''DC32as_v5'', 889000), (Standard ''DC32ds_v3'', 3840000), (Standard ''DC32s_v3'', 3232000),
      (Standard ''DC48ads_v5'', 1610000), (Standard ''DC48as_v5'', 1333000), (Standard ''DC48ds_v3'', 5760000),
      (Standard ''DC48s_v3'', 4848000), (Standard ''DC4ads_v5'', 134000), (Standard ''DC4as_v5'', 111000), (Standard ''DC4ds_v3'', 480000),
      (Standard ''DC4s_v3'', 404000), (Standard ''DC64ads_v5'', 2147000), (Standard ''DC64as_v5'', 1778000),
      (Standard ''DC8ads_v5'', 268000), (Standard ''DC8as_v5'', 222000), (Standard ''DC8ds_v3'', 960000), (Standard ''DC8s_v3'', 808000),
      (Standard ''DC96ads_v5'', 3221000), (Standard ''DC96as_v5'', 2666000), (Standard ''DS1'', 70500), (Standard ''DS11'', 182000),
      (Standard ''DS11-1_v2'', 189000), (Standard ''DS11_v2'', 189000), (Standard ''DS11_v2_Promo'', 189000), (Standard ''DS12'', 365000),
      (Standard ''DS12-1_v2'', 379000), (Standard ''DS12-2_v2'', 379000), (Standard ''DS12_v2'', 379000),
      (Standard ''DS12_v2_Promo'', 379000), (Standard ''DS13'', 730000), (Standard ''DS13-2_v2'', 758000),
      (Standard ''DS13-4_v2'', 758000), (Standard ''DS13_v2'', 758000), (Standard ''DS13_v2_Promo'', 758000), (Standard ''DS14'', 1460000),
      (Standard ''DS14-4_v2'', 1516000), (Standard ''DS14-8_v2'', 1516000), (Standard ''DS14_v2'', 1516000),
      (Standard ''DS14_v2_Promo'', 1516000), (Standard ''DS15_v2'', 1895000), (Standard ''DS15i_v2'', 1895000),
      (Standard ''DS1_v2'', 84000), (Standard ''DS2'', 141000), (Standard ''DS2_v2'', 169000), (Standard ''DS2_v2_Promo'', 169000),
      (Standard ''DS3'', 282000), (Standard ''DS3_v2'', 337000), (Standard ''DS3_v2_Promo'', 337000), (Standard ''DS4'', 564000),
      (Standard ''DS4_v2'', 675000), (Standard ''DS4_v2_Promo'', 675000), (Standard ''DS5_v2'', 1350000),
      (Standard ''DS5_v2_Promo'', 1350000), (Standard ''E104i_v5'', 7436000), (Standard ''E104id_v5'', 8637000),
      (Standard ''E104ids_v5'', 8637000), (Standard ''E104is_v5'', 7436000), (Standard ''E112iads_v5'', 5116000),
      (Standard ''E112ias_v5'', 4404000), (Standard ''E112ibds_v5'', 10842000), (Standard ''E112ibs_v5'', 9548000),
      (Standard ''E16-4ads_v5'', 664000), (Standard ''E16-4as_v4'', 1040000), (Standard ''E16-4as_v5'', 572000),
      (Standard ''E16-4ds_v4'', 1208000), (Standard ''E16-4ds_v5'', 1208000), (Standard ''E16-4s_v3'', 1096000),
      (Standard ''E16-4s_v4'', 1040000), (Standard ''E16-4s_v5'', 1040000), (Standard ''E16-8ads_v5'', 664000),
      (Standard ''E16-8as_v4'', 1040000), (Standard ''E16-8as_v5'', 572000), (Standard ''E16-8ds_v4'', 1208000),
      (Standard ''E16-8ds_v5'', 1208000), (Standard ''E16-8s_v3'', 1096000), (Standard ''E16-8s_v4'', 1040000),
      (Standard ''E16-8s_v5'', 1040000), (Standard ''E16_v3'', 1096000), (Standard ''E16_v4'', 1040000), (Standard ''E16_v5'', 1040000),
      (Standard ''E16a_v4'', 635000), (Standard ''E16ads_v5'', 664000), (Standard ''E16as_v4'', 635000), (Standard ''E16as_v5'', 572000),
      (Standard ''E16bds_v5'', 1408000), (Standard ''E16bs_v5'', 1240000), (Standard ''E16d_v4'', 1208000),
      (Standard ''E16d_v5'', 1208000), (Standard ''E16ds_v4'', 1208000), (Standard ''E16ds_v5'', 1208000),
      (Standard ''E16pds_v5'', 656000), (Standard ''E16ps_v5'', 520000), (Standard ''E16s_v3'', 1096000), (Standard ''E16s_v4'', 1040000),
      (Standard ''E16s_v5'', 1040000), (Standard ''E20_v3'', 1370000), (Standard ''E20_v4'', 1300000), (Standard ''E20_v5'', 1300000),
      (Standard ''E20a_v4'', 794000), (Standard ''E20ads_v5'', 830000), (Standard ''E20as_v4'', 794000), (Standard ''E20as_v5'', 715000),
      (Standard ''E20d_v4'', 1510000), (Standard ''E20d_v5'', 1510000), (Standard ''E20ds_v4'', 1510000), (Standard ''E20ds_v5'', 1510000),
      (Standard ''E20pds_v5'', 820000), (Standard ''E20ps_v5'', 650000), (Standard ''E20s_v3'', 1370000), (Standard ''E20s_v4'', 1300000),
      (Standard ''E20s_v5'', 1300000), (Standard ''E2_v3'', 137000), (Standard ''E2_v4'', 130000), (Standard ''E2_v5'', 130000),
      (Standard ''E2a_v4'', 80000), (Standard ''E2ads_v5'', 83000), (Standard ''E2as_v4'', 80000), (Standard ''E2as_v5'', 71500),
      (Standard ''E2bds_v5'', 176000), (Standard ''E2bs_v5'', 155000), (Standard ''E2d_v4'', 151000), (Standard ''E2d_v5'', 151000),
      (Standard ''E2ds_v4'', 151000), (Standard ''E2ds_v5'', 151000), (Standard ''E2pds_v5'', 82000), (Standard ''E2ps_v5'', 65000),
      (Standard ''E2s_v3'', 137000), (Standard ''E2s_v4'', 130000), (Standard ''E2s_v5'', 130000), (Standard ''E32-16ads_v5'', 1329000),
      (Standard ''E32-16as_v4'', 2080000), (Standard ''E32-16as_v5'', 1144000), (Standard ''E32-16ds_v4'', 2416000),
      (Standard ''E32-16ds_v5'', 2416000), (Standard ''E32-16s_v3'', 2192000), (Standard ''E32-16s_v4'', 2080000),
      (Standard ''E32-16s_v5'', 2080000), (Standard ''E32-8ads_v5'', 1329000), (Standard ''E32-8as_v4'', 2080000),
      (Standard ''E32-8as_v5'', 1144000), (Standard ''E32-8ds_v4'', 2416000)]"

definition centralindia_4 :: priceTable where
  "centralindia_4 =
     [(Standard ''E32-8ds_v5'', 2416000), (Standard ''E32-8s_v3'', 2192000), (Standard ''E32-8s_v4'', 2080000),
      (Standard ''E32-8s_v5'', 2080000), (Standard ''E32_v3'', 2192000), (Standard ''E32_v4'', 2080000), (Standard ''E32_v5'', 2080000),
      (Standard ''E32a_v4'', 1271000), (Standard ''E32ads_v5'', 1329000), (Standard ''E32as_v4'', 1271000),
      (Standard ''E32as_v5'', 1144000), (Standard ''E32bds_v5'', 2816000), (Standard ''E32bs_v5'', 2480000),
      (Standard ''E32d_v4'', 2416000), (Standard ''E32d_v5'', 2416000), (Standard ''E32ds_v4'', 2416000), (Standard ''E32ds_v5'', 2416000),
      (Standard ''E32pds_v5'', 1312000), (Standard ''E32ps_v5'', 1040000), (Standard ''E32s_v3'', 2192000),
      (Standard ''E32s_v4'', 2080000), (Standard ''E32s_v5'', 2080000), (Standard ''E4-2ads_v5'', 166000),
      (Standard ''E4-2as_v4'', 260000), (Standard ''E4-2as_v5'', 143000), (Standard ''E4-2ds_v4'', 302000),
      (Standard ''E4-2ds_v5'', 302000), (Standard ''E4-2s_v3'', 274000), (Standard ''E4-2s_v4'', 260000), (Standard ''E4-2s_v5'', 260000),
      (Standard ''E48_v3'', 3281000), (Standard ''E48_v4'', 3120000), (Standard ''E48_v5'', 3120000), (Standard ''E48a_v4'', 1906000),
      (Standard ''E48ads_v5'', 1993000), (Standard ''E48as_v4'', 1906000), (Standard ''E48as_v5'', 1716000),
      (Standard ''E48bds_v5'', 4224000), (Standard ''E48bs_v5'', 3720000), (Standard ''E48d_v4'', 3624000),
      (Standard ''E48d_v5'', 3624000), (Standard ''E48ds_v4'', 3624000), (Standard ''E48ds_v5'', 3624000), (Standard ''E48s_v3'', 3281000),
      (Standard ''E48s_v4'', 3120000), (Standard ''E48s_v5'', 3120000), (Standard ''E4_v3'', 274000), (Standard ''E4_v4'', 260000),
      (Standard ''E4_v5'', 260000), (Standard ''E4a_v4'', 158000), (Standard ''E4ads_v5'', 166000), (Standard ''E4as_v4'', 158000),
      (Standard ''E4as_v5'', 143000), (Standard ''E4bds_v5'', 352000), (Standard ''E4bs_v5'', 310000), (Standard ''E4d_v4'', 302000),
      (Standard ''E4d_v5'', 302000), (Standard ''E4ds_v4'', 302000), (Standard ''E4ds_v5'', 302000), (Standard ''E4pds_v5'', 164000),
      (Standard ''E4ps_v5'', 130000), (Standard ''E4s_v3'', 274000), (Standard ''E4s_v4'', 260000), (Standard ''E4s_v5'', 260000),
      (Standard ''E64-16ads_v5'', 2658000), (Standard ''E64-16as_v4'', 4160000), (Standard ''E64-16as_v5'', 2288000),
      (Standard ''E64-16ds_v4'', 4832000), (Standard ''E64-16ds_v5'', 4832000), (Standard ''E64-16s_v3'', 3937000),
      (Standard ''E64-16s_v4'', 4160000), (Standard ''E64-16s_v5'', 4160000), (Standard ''E64-32ads_v5'', 2658000),
      (Standard ''E64-32as_v4'', 4160000), (Standard ''E64-32as_v5'', 2288000), (Standard ''E64-32ds_v4'', 4832000),
      (Standard ''E64-32ds_v5'', 4832000), (Standard ''E64-32s_v3'', 3937000), (Standard ''E64-32s_v4'', 4160000),
      (Standard ''E64-32s_v5'', 4160000), (Standard ''E64_v3'', 3937000), (Standard ''E64_v4'', 4160000), (Standard ''E64_v5'', 4160000),
      (Standard ''E64a_v4'', 2542000), (Standard ''E64ads_v5'', 2658000), (Standard ''E64as_v4'', 2542000),
      (Standard ''E64as_v5'', 2288000), (Standard ''E64bds_v5'', 5632000), (Standard ''E64bs_v5'', 4960000),
      (Standard ''E64d_v4'', 4832000), (Standard ''E64d_v5'', 4832000), (Standard ''E64ds_v4'', 4832000), (Standard ''E64ds_v5'', 4832000),
      (Standard ''E64s_v3'', 3937000), (Standard ''E64s_v4'', 4160000), (Standard ''E64s_v5'', 4160000), (Standard ''E8-2ads_v5'', 332000),
      (Standard ''E8-2as_v4'', 520000), (Standard ''E8-2as_v5'', 286000), (Standard ''E8-2ds_v4'', 604000),
      (Standard ''E8-2ds_v5'', 604000), (Standard ''E8-2s_v3'', 548000), (Standard ''E8-2s_v4'', 520000), (Standard ''E8-2s_v5'', 520000),
      (Standard ''E8-4ads_v5'', 332000), (Standard ''E8-4as_v4'', 520000), (Standard ''E8-4as_v5'', 286000),
      (Standard ''E8-4ds_v4'', 604000), (Standard ''E8-4ds_v5'', 604000), (Standard ''E8-4s_v3'', 548000), (Standard ''E8-4s_v4'', 520000),
      (Standard ''E8-4s_v5'', 520000), (Standard ''E80ids_v4'', 6040000), (Standard ''E80is_v4'', 5200000), (Standard ''E8_v3'', 548000),
      (Standard ''E8_v4'', 520000), (Standard ''E8_v5'', 520000), (Standard ''E8a_v4'', 317000), (Standard ''E8ads_v5'', 332000),
      (Standard ''E8as_v4'', 317000), (Standard ''E8as_v5'', 286000), (Standard ''E8bds_v5'', 704000), (Standard ''E8bs_v5'', 620000),
      (Standard ''E8d_v4'', 604000), (Standard ''E8d_v5'', 604000), (Standard ''E8ds_v4'', 604000), (Standard ''E8ds_v5'', 604000),
      (Standard ''E8pds_v5'', 328000), (Standard ''E8ps_v5'', 260000), (Standard ''E8s_v3'', 548000), (Standard ''E8s_v4'', 520000),
      (Standard ''E8s_v5'', 520000), (Standard ''E96-24ads_v5'', 3986000), (Standard ''E96-24as_v4'', 6240000),
      (Standard ''E96-24as_v5'', 3432000), (Standard ''E96-24ds_v5'', 7248000), (Standard ''E96-24s_v5'', 6240000),
      (Standard ''E96-48ads_v5'', 3986000), (Standard ''E96-48as_v4'', 6240000), (Standard ''E96-48as_v5'', 3432000),
      (Standard ''E96-48ds_v5'', 7248000), (Standard ''E96-48s_v5'', 6240000), (Standard ''E96_v5'', 6240000),
      (Standard ''E96a_v4'', 3813000), (Standard ''E96ads_v5'', 3986000), (Standard ''E96as_v4'', 3813000),
      (Standard ''E96as_v5'', 3432000), (Standard ''E96bds_v5'', 8448000), (Standard ''E96bs_v5'', 7440000)]"

definition centralindia_5 :: priceTable where
  "centralindia_5 =
     [(Standard ''E96d_v5'', 7248000), (Standard ''E96ds_v5'', 7248000), (Standard ''E96iads_v5'', 4385000),
      (Standard ''E96ias_v5'', 3775000), (Standard ''E96s_v5'', 6240000), (Standard ''EC16ads_v5'', 664000),
      (Standard ''EC16as_v5'', 572000), (Standard ''EC20ads_v5'', 831000), (Standard ''EC20as_v5'', 715000),
      (Standard ''EC2ads_v5'', 83100), (Standard ''EC2as_v5'', 71500), (Standard ''EC32ads_v5'', 1329000),
      (Standard ''EC32as_v5'', 1144000), (Standard ''EC48ads_v5'', 1993000), (Standard ''EC48as_v5'', 1716000),
      (Standard ''EC4ads_v5'', 166000), (Standard ''EC4as_v5'', 143000), (Standard ''EC64ads_v5'', 2658000),
      (Standard ''EC64as_v5'', 2288000), (Standard ''EC8ads_v5'', 332000), (Standard ''EC8as_v5'', 286000),
      (Standard ''EC96ads_v5'', 3986000), (Standard ''EC96as_v5'', 3432000), (Standard ''EC96iads_v5'', 4385000),
      (Standard ''EC96ias_v5'', 3775000), (Standard ''F1'', 49000), (Standard ''F16'', 790000), (Standard ''F16s'', 790000),
      (Standard ''F16s_v2'', 680000), (Standard ''F1s'', 49000), (Standard ''F2'', 98800), (Standard ''F2s'', 98800),
      (Standard ''F2s_v2'', 85000), (Standard ''F32s_v2'', 1360000), (Standard ''F4'', 198000), (Standard ''F48s_v2'', 2040000),
      (Standard ''F4s'', 198000), (Standard ''F4s_v2'', 170000), (Standard ''F64s_v2'', 2720000), (Standard ''F72s_v2'', 3060000),
      (Standard ''F8'', 395000), (Standard ''F8s'', 395000), (Standard ''F8s_v2'', 340000), (Standard ''FX12mds'', 1176000),
      (Standard ''FX24mds'', 2352000), (Standard ''FX36mds'', 3528000), (Standard ''FX48mds'', 4704000), (Standard ''FX4mds'', 392000),
      (Standard ''H16'', 1995000), (Standard ''H16m'', 2674000), (Standard ''H16mr'', 2941000), (Standard ''H16r'', 2195000),
      (Standard ''H8'', 998000), (Standard ''H8m'', 1337000), (Standard ''HB120-16rs_v3'', 5040000), (Standard ''HB120-32rs_v3'', 5040000),
      (Standard ''HB120-64rs_v3'', 5040000), (Standard ''HB120-96rs_v3'', 5040000), (Standard ''HB120rs_v3'', 5040000),
      (Standard ''HC44-16rs'', 4435000), (Standard ''HC44-32rs'', 4435000), (Standard ''HC44rs'', 4435000),
      (Standard ''L16s_v2'', 1416000), (Standard ''L16s_v3'', 1584000), (Standard ''L32s_v2'', 2832000), (Standard ''L32s_v3'', 3168000),
      (Standard ''L48s_v2'', 4248000), (Standard ''L48s_v3'', 4752000), (Standard ''L64s_v2'', 5664000), (Standard ''L64s_v3'', 6336000),
      (Standard ''L80s_v2'', 7080000), (Standard ''L80s_v3'', 7920000), (Standard ''L88is_v2'', 7788000), (Standard ''L8s_v2'', 708000),
      (Standard ''L8s_v3'', 792000), (Standard ''L96s_v2'', 8496000), (Standard ''M128'', 13762000), (Standard ''M128-32ms'', 27536000),
      (Standard ''M128-64ms'', 27536000), (Standard ''M128dms_v2'', 27536000), (Standard ''M128ds_v2'', 13763000),
      (Standard ''M128m'', 27536000), (Standard ''M128ms'', 27536000), (Standard ''M128ms_v2'', 27102000), (Standard ''M128s'', 13762000),
      (Standard ''M128s_v2'', 13329000), (Standard ''M16-4ms'', 3171000), (Standard ''M16-8ms'', 3171000), (Standard ''M16ms'', 3171000),
      (Standard ''M16s'', 2463000), (Standard ''M192idms_v2'', 33080000), (Standard ''M192ids_v2'', 16540000),
      (Standard ''M192ims_v2'', 32646000), (Standard ''M192is_v2'', 16106000), (Standard ''M208ms_v2'', 45959000),
      (Standard ''M208s_v2'', 22979000), (Standard ''M32-16ms'', 6341000), (Standard ''M32-8ms'', 6341000),
      (Standard ''M32dms_v2'', 6341000), (Standard ''M32ls'', 2964074), (Standard ''M32ms'', 6341000), (Standard ''M32ms_v2'', 6232000),
      (Standard ''M32s'', 3441000), (Standard ''M32ts'', 2792812), (Standard ''M416is_v2'', 51067000), (Standard ''M416ms_v2'', 102120000),
      (Standard ''M416s_8_v2'', 92550000), (Standard ''M416s_v2'', 51067000), (Standard ''M64'', 6881000),
      (Standard ''M64-16ms'', 10666000), (Standard ''M64-32ms'', 10666000), (Standard ''M64dms_v2'', 10668000),
      (Standard ''M64ds_v2'', 6880000), (Standard ''M64ls'', 5586656), (Standard ''M64m'', 10666000), (Standard ''M64ms'', 10666000),
      (Standard ''M64ms_v2'', 10451000), (Standard ''M64s'', 6881000), (Standard ''M64s_v2'', 6663000), (Standard ''M8-2ms'', 1585000),
      (Standard ''M8-4ms'', 1585000), (Standard ''M8ms'', 1585000), (Standard ''NC12s_v3'', 8468000), (Standard ''NC16as_T4_v3'', 1324000),
      (Standard ''NC24ads_A100_v4'', 5142000), (Standard ''NC24rs_v3'', 18630000), (Standard ''NC24s_v3'', 16936000),
      (Standard ''NC48ads_A100_v4'', 10284000), (Standard ''NC4as_T4_v3'', 579000), (Standard ''NC64as_T4_v3'', 4787000),
      (Standard ''NC6s_v3'', 4234000), (Standard ''NC8as_T4_v3'', 827000), (Standard ''NC96ads_A100_v4'', 20569000),
      (Standard ''NV12'', 3436000), (Standard ''NV12ads_A10_v5'', 1271000), (Standard ''NV12s_v3'', 1596000),
      (Standard ''NV16as_v4'', 1305000), (Standard ''NV18ads_A10_v5'', 2240000), (Standard ''NV24'', 6872000),
      (Standard ''NV24s_v3'', 3192000), (Standard ''NV32as_v4'', 2610000), (Standard ''NV36adms_A10_v5'', 6328000),
      (Standard ''NV36ads_A10_v5'', 4480000), (Standard ''NV48s_v3'', 6384000), (Standard ''NV4as_v4'', 326000),
      (Standard ''NV6'', 1718000), (Standard ''NV6ads_A10_v5'', 636000), (Standard ''NV72ads_A10_v5'', 9128000),
      (Standard ''NV8as_v4'', 652000)]"

definition centralindia :: priceTable where
  "centralindia = centralindia_1 @ centralindia_2 @ centralindia_3 @ centralindia_4 @ centralindia_5"

subsection \<open>The lists are well formed\<close>

lemma australiacentral_1_ok: "part_ok (''Basic_A0'') australiacentral_1 (Standard ''D32s_v3'')"
  unfolding australiacentral_1_def by (simp only: eval_part)

lemma australiacentral_2_ok: "part_ok (Standard ''D32s_v3'') australiacentral_2 (Standard ''E16bs_v5'')"
  unfolding australiacentral_2_def by (simp only: eval_part)

lemma australiacentral_3_ok: "part_ok (Standard ''E16bs_v5'') australiacentral_3 (Standard ''E8-2ds_v5'')"
  unfolding australiacentral_3_def by (simp only: eval_part)

lemma australiacentral_4_ok: "last_ok (Standard ''E8-2ds_v5'') australiacentral_4"
  unfolding australiacentral_4_def by (simp only: eval_part)

lemma australiacentral_ok: "table_ok australiacentral"
  unfolding australiacentral_def by (rule last_ok_table [OF part_join [OF australiacentral_1_ok part_join [OF australiacentral_2_ok part_join [OF australiacentral_3_ok australiacentral_4_ok]]]])

lemma australiacentral2_1_ok: "part_ok (''Basic_A0'') australiacentral2_1 (Standard ''D32d_v5'')"
  unfolding australiacentral2_1_def by (simp only: eval_part)

lemma australiacentral2_2_ok: "part_ok (Standard ''D32d_v5'') australiacentral2_2 (Standard ''E16_v3'')"
  unfolding australiacentral2_2_def by (simp only: eval_part)

lemma australiacentral2_3_ok: "part_ok (Standard ''E16_v3'') australiacentral2_3 (Standard ''E64d_v4'')"
  unfolding australiacentral2_3_def by (simp only: eval_part)

lemma australiacentral2_4_ok: "last_ok (Standard ''E64d_v4'') australiacentral2_4"
  unfolding australiacentral2_4_def by (simp only: eval_part)

lemma australiacentral2_ok: "table_ok australiacentral2"
  unfolding australiacentral2_def by (rule last_ok_table [OF part_join [OF australiacentral2_1_ok part_join [OF australiacentral2_2_ok part_join [OF australiacentral2_3_ok australiacentral2_4_ok]]]])

lemma australiaeast_1_ok: "part_ok (''DCdsv3 Type1'') australiaeast_1 (Standard ''E16-4s_v5'')"
  unfolding australiaeast_1_def by (simp only: eval_part)

lemma australiaeast_2_ok: "last_ok (Standard ''E16-4s_v5'') australiaeast_2"
  unfolding australiaeast_2_def by (simp only: eval_part)

lemma australiaeast_ok: "table_ok australiaeast"
  unfolding australiaeast_def by (rule last_ok_table [OF part_join [OF australiaeast_1_ok australiaeast_2_ok]])

lemma australiasoutheast_1_ok: "part_ok (''Basic_A4'') australiasoutheast_1 (Standard ''D4d_v4'')"
  unfolding australiasoutheast_1_def by (simp only: eval_part)

lemma australiasoutheast_2_ok: "part_ok (Standard ''D4d_v4'') australiasoutheast_2 (Standard ''E48_v5'')"
  unfolding australiasoutheast_2_def by (simp only: eval_part)

lemma australiasoutheast_3_ok: "last_ok (Standard ''E48_v5'') australiasoutheast_3"
  unfolding australiasoutheast_3_def by (simp only: eval_part)

lemma australiasoutheast_ok: "table_ok australiasoutheast"
  unfolding australiasoutheast_def by (rule last_ok_table [OF part_join [OF australiasoutheast_1_ok part_join [OF australiasoutheast_2_ok australiasoutheast_3_ok]]])

lemma brazilsouth_1_ok: "part_ok (''Basic_A0'') brazilsouth_1 (Standard ''D2_v2_Promo'')"
  unfolding brazilsouth_1_def by (simp only: eval_part)

lemma brazilsouth_2_ok: "part_ok (Standard ''D2_v2_Promo'') brazilsouth_2 (Standard ''DS11-1_v2'')"
  unfolding brazilsouth_2_def by (simp only: eval_part)

lemma brazilsouth_3_ok: "part_ok (Standard ''DS11-1_v2'') brazilsouth_3 (Standard ''E32d_v5'')"
  unfolding brazilsouth_3_def by (simp only: eval_part)

lemma brazilsouth_4_ok: "part_ok (Standard ''E32d_v5'') brazilsouth_4 (Standard ''E96as_v5'')"
  unfolding brazilsouth_4_def by (simp only: eval_part)

lemma brazilsouth_5_ok: "last_ok (Standard ''E96as_v5'') brazilsouth_5"
  unfolding brazilsouth_5_def by (simp only: eval_part)

lemma brazilsouth_ok: "table_ok brazilsouth"
  unfolding brazilsouth_def by (rule last_ok_table [OF part_join [OF brazilsouth_1_ok part_join [OF brazilsouth_2_ok part_join [OF brazilsouth_3_ok part_join [OF brazilsouth_4_ok brazilsouth_5_ok]]]]])

lemma brazilsoutheast_1_ok: "part_ok (''Basic_A2'') brazilsoutheast_1 (Standard ''E20ads_v5'')"
  unfolding brazilsoutheast_1_def by (simp only: eval_part)

lemma brazilsoutheast_2_ok: "last_ok (Standard ''E20ads_v5'') brazilsoutheast_2"
  unfolding brazilsoutheast_2_def by (simp only: eval_part)

lemma brazilsoutheast_ok: "table_ok brazilsoutheast"
  unfolding brazilsoutheast_def by (rule last_ok_table [OF part_join [OF brazilsoutheast_1_ok brazilsoutheast_2_ok]])

lemma canadacentral_1_ok: "part_ok (''Basic_A0'') canadacentral_1 (Standard ''D2_v4'')"
  unfolding canadacentral_1_def by (simp only: eval_part)

lemma canadacentral_2_ok: "part_ok (Standard ''D2_v4'') canadacentral_2 (Standard ''D96lds_v5'')"
  unfolding canadacentral_2_def by (simp only: eval_part)

lemma canadacentral_3_ok: "part_ok (Standard ''D96lds_v5'') canadacentral_3 (Standard ''E32-8ds_v5'')"
  unfolding canadacentral_3_def by (simp only: eval_part)

lemma canadacentral_4_ok: "part_ok (Standard ''E32-8ds_v5'') canadacentral_4 (Standard ''E96a_v4'')"
  unfolding canadacentral_4_def by (simp only: eval_part)

lemma canadacentral_5_ok: "last_ok (Standard ''E96a_v4'') canadacentral_5"
  unfolding canadacentral_5_def by (simp only: eval_part)

lemma canadacentral_ok: "table_ok canadacentral"
  unfolding canadacentral_def by (rule last_ok_table [OF part_join [OF canadacentral_1_ok part_join [OF canadacentral_2_ok part_join [OF canadacentral_3_ok part_join [OF canadacentral_4_ok canadacentral_5_ok]]]]])

lemma canadaeast_1_ok: "part_ok (''Basic_A0'') canadaeast_1 (Standard ''D2a_v4'')"
  unfolding canadaeast_1_def by (simp only: eval_part)

lemma canadaeast_2_ok: "part_ok (Standard ''D2a_v4'') canadaeast_2 (Standard ''DS11-1_v2'')"
  unfolding canadaeast_2_def by (simp only: eval_part)

lemma canadaeast_3_ok: "part_ok (Standard ''DS11-1_v2'') canadaeast_3 (Standard ''E32ds_v5'')"
  unfolding canadaeast_3_def by (simp only: eval_part)

lemma canadaeast_4_ok: "part_ok (Standard ''E32ds_v5'') canadaeast_4 (Standard ''E96ads_v5'')"
  unfolding canadaeast_4_def by (simp only: eval_part)

lemma canadaeast_5_ok: "last_ok (Standard ''E96ads_v5'') canadaeast_5"
  unfolding canadaeast_5_def by (simp only: eval_part)

lemma canadaeast_ok: "table_ok canadaeast"
  unfolding canadaeast_def by (rule last_ok_table [OF part_join [OF canadaeast_1_ok part_join [OF canadaeast_2_ok part_join [OF canadaeast_3_ok part_join [OF canadaeast_4_ok canadaeast_5_ok]]]]])

lemma centralindia_1_ok: "part_ok (''Basic_A0'') centralindia_1 (Standard ''D2as_v4'')"
  unfolding centralindia_1_def by (simp only: eval_part)

lemma centralindia_2_ok: "part_ok (Standard ''D2as_v4'') centralindia_2 (Standard ''DC1s_v3'')"
  unfolding centralindia_2_def by (simp only: eval_part)

lemma centralindia_3_ok: "part_ok (Standard ''DC1s_v3'') centralindia_3 (Standard ''E32-8ds_v5'')"
  unfolding centralindia_3_def by (simp only: eval_part)

lemma centralindia_4_ok: "part_ok (Standard ''E32-8ds_v5'') centralindia_4 (Standard ''E96d_v5'')"
  unfolding centralindia_4_def by (simp only: eval_part)

lemma centralindia_5_ok: "last_ok (Standard ''E96d_v5'') centralindia_5"
  unfolding centralindia_5_def by (simp only: eval_part)

lemma centralindia_ok: "table_ok centralindia"
  unfolding centralindia_def by (rule last_ok_table [OF part_join [OF centralindia_1_ok part_join [OF centralindia_2_ok part_join [OF centralindia_3_ok part_join [OF centralindia_4_ok centralindia_5_ok]]]]])

end
