(* ===== verification/PriceLists2.thy ===== *)
theory PriceLists2
  imports PriceTables
begin

text \<open>
  The second part of the shipped price lists, \<open>pkg/providers/pricing/zz_generated.pricing.go\<close>: the regions
  centralus to germanywestcentral, in the order of the file, each in parts of at most 150 lines.
\<close>

subsection \<open>centralus\<close>

definition centralus_1 :: priceTable where
  "centralus_1 =
     [(''Basic_A0'', 18000), (''Basic_A1'', 25000), (''Basic_A2'', 85000), (''Basic_A3'', 188000), (''Basic_A4'', 376000),
      (''DCdsv3 Type1'', 6742000), (''DCsv3 Type1'', 5728000), (''Dadsv5_Type1'', 7170000), (''Dasv4_Type1'', 5728000),
      (''Dasv4_Type2'', 5728000), (''Dasv5_Type1'', 5986000), (''Ddsv4_Type 1'', 4495000), (''Ddsv4_Type2'', 5337000),
      (''Ddsv5_Type1'', 6742000), (''Dsv3_Type3'', 4774000), (''Dsv3_Type4'', 5968000), (''Dsv4_Type1'', 4773000),
      (''Dsv4_Type2'', 5966000), (''Dsv5_Type1'', 5966000), (''Eadsv5_Type1'', 7816000), (''Easv4_Type1'', 7518000),
      (''Easv4_Type2'', 7518000), (''Easv5_Type1'', 6742000), (''Ebdsv5-Type1'', 6643000), (''Ebsv5-Type1'', 5927000),
      (''Edsv4_Type 1'', 5728000), (''Edsv4_Type2'', 6802000), (''Edsv5_Type1'', 8592000), (''Esv3_Type3'', 4856000),
      (''Esv3_Type4'', 6579000), (''Esv4_Type1'', 5012000), (''Esv4_Type2'', 6578000), (''Esv5_Type1'', 7518000),
      (''Fsv2 Type3'', 5161000), (''Fsv2_Type2'', 3804000), (''Fsv2_Type4'', 5283000), (''Lasv3_Type1'', 7756000),
      (''Lsv2_Type1'', 8237000), (''Lsv3_Type1'', 8651000), (''Mdsmv2MedMem _Type1'', 33176000), (''Mdsv2MedMem_Type1'', 16582000),
      (''Ms_Type1'', 16576000), (''Msm_Type1'', 33180000), (''Msmv2MedMem Type1'', 32653000), (''Msmv2_Type1'', 123240000),
      (''Msv2MedMem Type1'', 16059000), (''Msv2_Type1'', 61628000), (Standard ''A0'', 20000), (Standard ''A1'', 60000),
      (Standard ''A1_v2'', 43000), (Standard ''A2'', 120000), (Standard ''A2_v2'', 91000), (Standard ''A2m_v2'', 129000),
      (Standard ''A3'', 240000), (Standard ''A4'', 480000), (Standard ''A4_v2'', 191000), (Standard ''A4m_v2'', 270000),
      (Standard ''A5'', 250000), (Standard ''A6'', 500000), (Standard ''A7'', 1000000), (Standard ''A8_v2'', 400000),
      (Standard ''A8m_v2'', 568000), (Standard ''B12ms'', 599000), (Standard ''B16als_v2'', 602000), (Standard ''B16as_v2'', 680000),
      (Standard ''B16ls_v2'', 666000), (Standard ''B16ms'', 799000), (Standard ''B16pls_v2'', 538000), (Standard ''B16ps_v2'', 681000),
      (Standard ''B16s_v2'', 826000), (Standard ''B1ls'', 6240), (Standard ''B1ms'', 25000), (Standard ''B1s'', 12500),
      (Standard ''B20ms'', 998000), (Standard ''B2als_v2'', 42500), (Standard ''B2as_v2'', 94200), (Standard ''B2ats_v2'', 19800),
      (Standard ''B2ls_v2'', 56200), (Standard ''B2ms'', 99800), (Standard ''B2pls_v2'', 47200), (Standard ''B2ps_v2'', 85100),
      (Standard ''B2pts_v2'', 18700), (Standard ''B2s'', 49900), (Standard ''B2s_v2'', 103000), (Standard ''B2ts_v2'', 11800),
      (Standard ''B32als_v2'', 1204000), (Standard ''B32as_v2'', 1360000), (Standard ''B32ls_v2'', 1332000),
      (Standard ''B32s_v2'', 1504000), (Standard ''B4als_v2'', 151000), (Standard ''B4as_v2'', 170000), (Standard ''B4ls_v2'', 185000),
      (Standard ''B4ms'', 200000), (Standard ''B4pls_v2'', 153000), (Standard ''B4ps_v2'', 152000), (Standard ''B4s_v2'', 188000),
      (Standard ''B8als_v2'', 301000), (Standard ''B8as_v2'', 377000), (Standard ''B8ls_v2'', 370000), (Standard ''B8ms'', 399000),
      (Standard ''B8pls_v2'', 269000), (Standard ''B8ps_v2'', 304000), (Standard ''B8s_v2'', 413000), (Standard ''D1'', 77000),
      (Standard ''D11'', 193000), (Standard ''D11_v2'', 185000), (Standard ''D11_v2_Promo'', 185000), (Standard ''D12'', 386000),
      (Standard ''D12_v2'', 371000), (Standard ''D12_v2_Promo'', 371000), (Standard ''D13'', 771000), (Standard ''D13_v2'', 741000),
      (Standard ''D13_v2_Promo'', 741000), (Standard ''D14'', 1542000), (Standard ''D14_v2'', 1482000),
      (Standard ''D14_v2_Promo'', 1482000), (Standard ''D15_v2'', 1853000), (Standard ''D15i_v2'', 1853000), (Standard ''D16_v3'', 880000),
      (Standard ''D16_v4'', 868000), (Standard ''D16_v5'', 868000), (Standard ''D16a_v4'', 868000), (Standard ''D16ads_v5'', 931000),
      (Standard ''D16as_v4'', 868000), (Standard ''D16as_v5'', 777000), (Standard ''D16d_v4'', 1022000), (Standard ''D16d_v5'', 1022000)]"

definition centralus_2 :: priceTable where
  "centralus_2 =
     [(Standard ''D16ds_v4'', 1022000), (Standard ''D16ds_v5'', 1022000), (Standard ''D16lds_v5'', 868000),
      (Standard ''D16ls_v5'', 768000), (Standard ''D16pds_v5'', 818000), (Standard ''D16plds_v5'', 694000),
      (Standard ''D16pls_v5'', 615000), (Standard ''D16ps_v5'', 696000), (Standard ''D16s_v3'', 880000), (Standard ''D16s_v4'', 868000),
      (Standard ''D16s_v5'', 868000), (Standard ''D1_v2'', 73000), (Standard ''D2'', 154000), (Standard ''D2_v2'', 146000),
      (Standard ''D2_v2_Promo'', 146000), (Standard ''D2_v3'', 110000), (Standard ''D2_v4'', 108000), (Standard ''D2_v5'', 108000),
      (Standard ''D2a_v4'', 108000), (Standard ''D2ads_v5'', 116000), (Standard ''D2as_v4'', 108000), (Standard ''D2as_v5'', 97200),
      (Standard ''D2d_v4'', 128000), (Standard ''D2d_v5'', 128000), (Standard ''D2ds_v4'', 128000), (Standard ''D2ds_v5'', 128000),
      (Standard ''D2lds_v5'', 108000), (Standard ''D2ls_v5'', 96100), (Standard ''D2pds_v5'', 102000), (Standard ''D2plds_v5'', 86800),
      (Standard ''D2pls_v5'', 76800), (Standard ''D2ps_v5'', 87000), (Standard ''D2s_v3'', 110000), (Standard ''D2s_v4'', 108000),
      (Standard ''D2s_v5'', 108000), (Standard ''D3'', 308000), (Standard ''D32-16s_v3'', 1760000), (Standard ''D32-8s_v3'', 1760000),
      (Standard ''D32_v3'', 1760000), (Standard ''D32_v4'', 1736000), (Standard ''D32_v5'', 1736000), (Standard ''D32a_v4'', 1736000),
      (Standard ''D32ads_v5'', 1862000), (Standard ''D32as_v4'', 1736000), (Standard ''D32as_v5'', 1555000),
      (Standard ''D32d_v4'', 2043000), (Standard ''D32d_v5'', 2043000), (Standard ''D32ds_v4'', 2043000), (Standard ''D32ds_v5'', 2043000),
      (Standard ''D32lds_v5'', 1736000), (Standard ''D32ls_v5'', 1537000), (Standard ''D32pds_v5'', 1635000),
      (Standard ''D32plds_v5'', 1389000), (Standard ''D32pls_v5'', 1229000), (Standard ''D32ps_v5'', 1392000),
      (Standard ''D32s_v3'', 1760000), (Standard ''D32s_v4'', 1736000), (Standard ''D32s_v5'', 1736000), (Standard ''D3_v2'', 293000),
      (Standard ''D3_v2_Promo'', 293000), (Standard ''D4'', 616000), (Standard ''D48_v3'', 2640000), (Standard ''D48_v4'', 2604000),
      (Standard ''D48_v5'', 2604000), (Standard ''D48a_v4'', 2604000), (Standard ''D48ads_v5'', 2793000), (Standard ''D48as_v4'', 2604000),
      (Standard ''D48as_v5'', 2332000), (Standard ''D48d_v4'', 3065000), (Standard ''D48d_v5'', 3065000), (Standard ''D48ds_v4'', 3065000),
      (Standard ''D48ds_v5'', 3065000), (Standard ''D48lds_v5'', 2604000), (Standard ''D48ls_v5'', 2305000),
      (Standard ''D48pds_v5'', 2453000), (Standard ''D48plds_v5'', 2083000), (Standard ''D48pls_v5'', 1844000),
      (Standard ''D48ps_v5'', 2088000), (Standard ''D48s_v3'', 2640000), (Standard ''D48s_v4'', 2604000), (Standard ''D48s_v5'', 2604000),
      (Standard ''D4_v2'', 585000), (Standard ''D4_v2_Promo'', 585000), (Standard ''D4_v3'', 220000), (Standard ''D4_v4'', 217000),
      (Standard ''D4_v5'', 217000), (Standard ''D4a_v4'', 217000), (Standard ''D4ads_v5'', 233000), (Standard ''D4as_v4'', 217000),
      (Standard ''D4as_v5'', 194000), (Standard ''D4d_v4'', 255000), (Standard ''D4d_v5'', 255000), (Standard ''D4ds_v4'', 255000),
      (Standard ''D4ds_v5'', 255000), (Standard ''D4lds_v5'', 217000), (Standard ''D4ls_v5'', 192000), (Standard ''D4pds_v5'', 204000),
      (Standard ''D4plds_v5'', 174000), (Standard ''D4pls_v5'', 154000), (Standard ''D4ps_v5'', 174000), (Standard ''D4s_v3'', 220000),
      (Standard ''D4s_v4'', 217000), (Standard ''D4s_v5'', 217000), (Standard ''D5_v2'', 1170000), (Standard ''D5_v2_Promo'', 1170000),
      (Standard ''D64-16s_v3'', 3520000), (Standard ''D64-32s_v3'', 3520000), (Standard ''D64_v3'', 3520000),
      (Standard ''D64_v4'', 3471000), (Standard ''D64_v5'', 3471000), (Standard ''D64a_v4'', 3471000), (Standard ''D64ads_v5'', 3724000),
      (Standard ''D64as_v4'', 3471000), (Standard ''D64as_v5'', 3110000), (Standard ''D64d_v4'', 4086000), (Standard ''D64d_v5'', 4086000),
      (Standard ''D64ds_v4'', 4086000), (Standard ''D64ds_v5'', 4086000), (Standard ''D64lds_v5'', 3471000),
      (Standard ''D64ls_v5'', 3074000), (Standard ''D64pds_v5'', 3270000), (Standard ''D64plds_v5'', 2777000),
      (Standard ''D64pls_v5'', 2459000), (Standard ''D64ps_v5'', 2784000), (Standard ''D64s_v3'', 3520000),
      (Standard ''D64s_v4'', 3471000), (Standard ''D64s_v5'', 3471000)]"

definition centralus_3 :: priceTable where
  "centralus_3 =
     [(Standard ''D8_v3'', 440000), (Standard ''D8_v4'', 434000), (Standard ''D8_v5'', 434000), (Standard ''D8a_v4'', 434000),
      (Standard ''D8ads_v5'', 466000), (Standard ''D8as_v4'', 434000), (Standard ''D8as_v5'', 389000), (Standard ''D8d_v4'', 511000),
      (Standard ''D8d_v5'', 511000), (Standard ''D8ds_v4'', 511000), (Standard ''D8ds_v5'', 511000), (Standard ''D8lds_v5'', 434000),
      (Standard ''D8ls_v5'', 384000), (Standard ''D8pds_v5'', 409000), (Standard ''D8plds_v5'', 347000), (Standard ''D8pls_v5'', 307000),
      (Standard ''D8ps_v5'', 348000), (Standard ''D8s_v3'', 440000), (Standard ''D8s_v4'', 434000), (Standard ''D8s_v5'', 434000),
      (Standard ''D96_v5'', 5207000), (Standard ''D96a_v4'', 5207000), (Standard ''D96ads_v5'', 5587000), (Standard ''D96as_v4'', 5207000),
      (Standard ''D96as_v5'', 4665000), (Standard ''D96d_v5'', 6129000), (Standard ''D96ds_v5'', 6129000),
      (Standard ''D96lds_v5'', 5207000), (Standard ''D96ls_v5'', 4610000), (Standard ''D96s_v5'', 5207000),
      (Standard ''DC16ads_v5'', 931000), (Standard ''DC16as_v5'', 777000), (Standard ''DC16ds_v3'', 2043000),
      (Standard ''DC16eds_v5'', 1022000), (Standard ''DC16es_v5'', 868000), (Standard ''DC16s_v3'', 1736000),
      (Standard ''DC1ds_v3'', 128000), (Standard ''DC1s_v3'', 108000), (Standard ''DC24ds_v3'', 3065000), (Standard ''DC24s_v3'', 2604000),
      (Standard ''DC2ads_v5'', 116000), (Standard ''DC2as_v5'', 97200), (Standard ''DC2ds_v3'', 255000), (Standard ''DC2eds_v5'', 128000),
      (Standard ''DC2es_v5'', 108000), (Standard ''DC2s'', 474000), (Standard ''DC2s_v3'', 217000), (Standard ''DC32ads_v5'', 1862000),
      (Standard ''DC32as_v5'', 1555000), (Standard ''DC32ds_v3'', 4086000), (Standard ''DC32eds_v5'', 2043000),
      (Standard ''DC32es_v5'', 1736000), (Standard ''DC32s_v3'', 3471000), (Standard ''DC48ads_v5'', 2793000),
      (Standard ''DC48as_v5'', 2332000), (Standard ''DC48ds_v3'', 6129000), (Standard ''DC48eds_v5'', 3065000),
      (Standard ''DC48es_v5'', 2604000), (Standard ''DC48s_v3'', 5207000), (Standard ''DC4ads_v5'', 233000),
      (Standard ''DC4as_v5'', 194000), (Standard ''DC4ds_v3'', 511000), (Standard ''DC4eds_v5'', 255000), (Standard ''DC4es_v5'', 217000),
      (Standard ''DC4s'', 949000), (Standard ''DC4s_v3'', 434000), (Standard ''DC64ads_v5'', 3724000), (Standard ''DC64as_v5'', 3110000),
      (Standard ''DC64eds_v5'', 4086000), (Standard ''DC64es_v5'', 3471000), (Standard ''DC8ads_v5'', 466000),
      (Standard ''DC8as_v5'', 389000), (Standard ''DC8ds_v3'', 1022000), (Standard ''DC8eds_v5'', 511000), (Standard ''DC8es_v5'', 434000),
      (Standard ''DC8s_v3'', 868000), (Standard ''DC96ads_v5'', 5587000), (Standard ''DC96as_v5'', 4665000),
      (Standard ''DC96eds_v5'', 6129000), (Standard ''DC96es_v5'', 5207000), (Standard ''DS1'', 77000), (Standard ''DS11'', 193000),
      (Standard ''DS11-1_v2'', 185000), (Standard ''DS11_v2'', 185000), (Standard ''DS11_v2_Promo'', 185000), (Standard ''DS12'', 386000),
      (Standard ''DS12-1_v2'', 371000), (Standard ''DS12-2_v2'', 371000), (Standard ''DS12_v2'', 371000),
      (Standard ''DS12_v2_Promo'', 371000), (Standard ''DS13'', 771000), (Standard ''DS13-2_v2'', 741000),
      (Standard ''DS13-4_v2'', 741000), (Standard ''DS13_v2'', 741000), (Standard ''DS13_v2_Promo'', 741000), (Standard ''DS14'', 1542000),
      (Standard ''DS14-4_v2'', 1482000), (Standard ''DS14-8_v2'', 1482000), (Standard ''DS14_v2'', 1482000),
      (Standard ''DS14_v2_Promo'', 1482000), (Standard ''DS15_v2'', 1853000), (Standard ''DS15i_v2'', 1853000),
      (Standard ''DS1_v2'', 73000), (Standard ''DS2'', 154000), (Standard ''DS2_v2'', 146000), (Standard ''DS2_v2_Promo'', 146000),
      (Standard ''DS3'', 308000), (Standard ''DS3_v2'', 293000), (Standard ''DS3_v2_Promo'', 293000), (Standard ''DS4'', 616000),
      (Standard ''DS4_v2'', 585000), (Standard ''DS4_v2_Promo'', 585000), (Standard ''DS5_v2'', 1170000),
      (Standard ''DS5_v2_Promo'', 1170000), (Standard ''E104i_v5'', 8144000), (Standard ''E104id_v5'', 9308000),
      (Standard ''E104ids_v5'', 9308000), (Standard ''E104is_v5'', 8144000), (Standard ''E112iads_v5'', 9119000),
      (Standard ''E112ias_v5'', 7866000), (Standard ''E112ibds_v5'', 11625000), (Standard ''E112ibs_v5'', 10372000),
      (Standard ''E16-4ads_v5'', 1184000), (Standard ''E16-4as_v4'', 1139000), (Standard ''E16-4as_v5'', 1022000),
      (Standard ''E16-4ds_v4'', 1302000), (Standard ''E16-4ds_v5'', 1302000)]"

definition centralus_4 :: priceTable where
  "centralus_4 =
     [(Standard ''E16-4s_v3'', 1167000), (Standard ''E16-4s_v4'', 1139000), (Standard ''E16-4s_v5'', 1139000),
      (Standard ''E16-8ads_v5'', 1184000), (Standard ''E16-8as_v4'', 1139000), (Standard ''E16-8as_v5'', 1022000),
      (Standard ''E16-8ds_v4'', 1302000), (Standard ''E16-8ds_v5'', 1302000), (Standard ''E16-8s_v3'', 1167000),
      (Standard ''E16-8s_v4'', 1139000), (Standard ''E16-8s_v5'', 1139000), (Standard ''E16_v3'', 1167000), (Standard ''E16_v4'', 1139000),
      (Standard ''E16_v5'', 1139000), (Standard ''E16a_v4'', 1139000), (Standard ''E16ads_v5'', 1184000), (Standard ''E16as_v4'', 1139000),
      (Standard ''E16as_v5'', 1022000), (Standard ''E16bds_v5'', 1510000), (Standard ''E16bs_v5'', 1347000),
      (Standard ''E16d_v4'', 1302000), (Standard ''E16d_v5'', 1302000), (Standard ''E16ds_v4'', 1302000), (Standard ''E16ds_v5'', 1302000),
      (Standard ''E16pds_v5'', 1041000), (Standard ''E16ps_v5'', 911000), (Standard ''E16s_v3'', 1167000), (Standard ''E16s_v4'', 1139000),
      (Standard ''E16s_v5'', 1139000), (Standard ''E20_v3'', 1460000), (Standard ''E20_v4'', 1424000), (Standard ''E20_v5'', 1424000),
      (Standard ''E20a_v4'', 1424000), (Standard ''E20ads_v5'', 1480000), (Standard ''E20as_v4'', 1424000),
      (Standard ''E20as_v5'', 1277000), (Standard ''E20d_v4'', 1627000), (Standard ''E20d_v5'', 1627000), (Standard ''E20ds_v4'', 1627000),
      (Standard ''E20ds_v5'', 1627000), (Standard ''E20pds_v5'', 1302000), (Standard ''E20ps_v5'', 1139000),
      (Standard ''E20s_v3'', 1460000), (Standard ''E20s_v4'', 1424000), (Standard ''E20s_v5'', 1424000), (Standard ''E2_v3'', 146000),
      (Standard ''E2_v4'', 142000), (Standard ''E2_v5'', 142000), (Standard ''E2a_v4'', 142000), (Standard ''E2ads_v5'', 148000),
      (Standard ''E2as_v4'', 142000), (Standard ''E2as_v5'', 128000), (Standard ''E2bds_v5'', 189000), (Standard ''E2bs_v5'', 168000),
      (Standard ''E2d_v4'', 163000), (Standard ''E2d_v5'', 163000), (Standard ''E2ds_v4'', 163000), (Standard ''E2ds_v5'', 163000),
      (Standard ''E2pds_v5'', 130000), (Standard ''E2ps_v5'', 114000), (Standard ''E2s_v3'', 146000), (Standard ''E2s_v4'', 142000),
      (Standard ''E2s_v5'', 142000), (Standard ''E32-16ads_v5'', 2368000), (Standard ''E32-16as_v4'', 2278000),
      (Standard ''E32-16as_v5'', 2043000), (Standard ''E32-16ds_v4'', 2604000), (Standard ''E32-16ds_v5'', 2604000),
      (Standard ''E32-16s_v3'', 2334000), (Standard ''E32-16s_v4'', 2278000), (Standard ''E32-16s_v5'', 2278000),
      (Standard ''E32-8ads_v5'', 2368000), (Standard ''E32-8as_v4'', 2278000), (Standard ''E32-8as_v5'', 2043000),
      (Standard ''E32-8ds_v4'', 2604000), (Standard ''E32-8ds_v5'', 2604000), (Standard ''E32-8s_v3'', 2334000),
      (Standard ''E32-8s_v4'', 2278000), (Standard ''E32-8s_v5'', 2278000), (Standard ''E32_v3'', 2334000), (Standard ''E32_v4'', 2278000),
      (Standard ''E32_v5'', 2278000), (Standard ''E32a_v4'', 2278000), (Standard ''E32ads_v5'', 2368000), (Standard ''E32as_v4'', 2278000),
      (Standard ''E32as_v5'', 2043000), (Standard ''E32bds_v5'', 3019000), (Standard ''E32bs_v5'', 2694000),
      (Standard ''E32d_v4'', 2604000), (Standard ''E32d_v5'', 2604000), (Standard ''E32ds_v4'', 2604000), (Standard ''E32ds_v5'', 2604000),
      (Standard ''E32pds_v5'', 2083000), (Standard ''E32ps_v5'', 1822000), (Standard ''E32s_v3'', 2334000),
      (Standard ''E32s_v4'', 2278000), (Standard ''E32s_v5'', 2278000), (Standard ''E4-2ads_v5'', 296000),
      (Standard ''E4-2as_v4'', 285000), (Standard ''E4-2as_v5'', 255000), (Standard ''E4-2ds_v4'', 325000),
      (Standard ''E4-2ds_v5'', 325000), (Standard ''E4-2s_v3'', 292000), (Standard ''E4-2s_v4'', 285000), (Standard ''E4-2s_v5'', 285000),
      (Standard ''E48_v3'', 3501000), (Standard ''E48_v4'', 3417000), (Standard ''E48_v5'', 3417000), (Standard ''E48a_v4'', 3417000),
      (Standard ''E48ads_v5'', 3553000), (Standard ''E48as_v4'', 3417000), (Standard ''E48as_v5'', 3065000),
      (Standard ''E48bds_v5'', 4529000), (Standard ''E48bs_v5'', 4041000), (Standard ''E48d_v4'', 3905000),
      (Standard ''E48d_v5'', 3905000), (Standard ''E48ds_v4'', 3905000), (Standard ''E48ds_v5'', 3905000), (Standard ''E48s_v3'', 3501000),
      (Standard ''E48s_v4'', 3417000), (Standard ''E48s_v5'', 3417000), (Standard ''E4_v3'', 292000), (Standard ''E4_v4'', 285000),
      (Standard ''E4_v5'', 285000), (Standard ''E4a_v4'', 285000), (Standard ''E4ads_v5'', 296000), (Standard ''E4as_v4'', 285000)]"

definition centralus_5 :: priceTable where
  "centralus_5 =
     [(Standard ''E4as_v5'', 255000), (Standard ''E4bds_v5'', 377000), (Standard ''E4bs_v5'', 337000), (Standard ''E4d_v4'', 325000),
      (Standard ''E4d_v5'', 325000), (Standard ''E4ds_v4'', 325000), (Standard ''E4ds_v5'', 325000), (Standard ''E4pds_v5'', 260000),
      (Standard ''E4ps_v5'', 228000), (Standard ''E4s_v3'', 292000), (Standard ''E4s_v4'', 285000), (Standard ''E4s_v5'', 285000),
      (Standard ''E64-16ads_v5'', 4737000), (Standard ''E64-16as_v4'', 4556000), (Standard ''E64-16as_v5'', 4086000),
      (Standard ''E64-16ds_v4'', 5207000), (Standard ''E64-16ds_v5'', 5207000), (Standard ''E64-16s_v3'', 4200000),
      (Standard ''E64-16s_v4'', 4556000), (Standard ''E64-16s_v5'', 4556000), (Standard ''E64-32ads_v5'', 4737000),
      (Standard ''E64-32as_v4'', 4556000), (Standard ''E64-32as_v5'', 4086000), (Standard ''E64-32ds_v4'', 5207000),
      (Standard ''E64-32ds_v5'', 5207000), (Standard ''E64-32s_v3'', 4200000), (Standard ''E64-32s_v4'', 4556000),
      (Standard ''E64-32s_v5'', 4556000), (Standard ''E64_v3'', 4200000), (Standard ''E64_v4'', 4556000), (Standard ''E64_v5'', 4556000),
      (Standard ''E64a_v4'', 4556000), (Standard ''E64ads_v5'', 4737000), (Standard ''E64as_v4'', 4556000),
      (Standard ''E64as_v5'', 4086000), (Standard ''E64bds_v5'', 6039000), (Standard ''E64bs_v5'', 5388000),
      (Standard ''E64d_v4'', 5207000), (Standard ''E64d_v5'', 5207000), (Standard ''E64ds_v4'', 5207000), (Standard ''E64ds_v5'', 5207000),
      (Standard ''E64i_v3'', 4199000), (Standard ''E64is_v3'', 4199000), (Standard ''E64s_v3'', 4200000), (Standard ''E64s_v4'', 4556000),
      (Standard ''E64s_v5'', 4556000), (Standard ''E8-2ads_v5'', 592000), (Standard ''E8-2as_v4'', 570000),
      (Standard ''E8-2as_v5'', 511000), (Standard ''E8-2ds_v4'', 651000), (Standard ''E8-2ds_v5'', 651000),
      (Standard ''E8-2s_v3'', 583000), (Standard ''E8-2s_v4'', 570000), (Standard ''E8-2s_v5'', 570000), (Standard ''E8-4ads_v5'', 592000),
      (Standard ''E8-4as_v4'', 570000), (Standard ''E8-4as_v5'', 511000), (Standard ''E8-4ds_v4'', 651000),
      (Standard ''E8-4ds_v5'', 651000), (Standard ''E8-4s_v3'', 583000), (Standard ''E8-4s_v4'', 570000), (Standard ''E8-4s_v5'', 570000),
      (Standard ''E80ids_v4'', 6509000), (Standard ''E80is_v4'', 5695000), (Standard ''E8_v3'', 583000), (Standard ''E8_v4'', 570000),
      (Standard ''E8_v5'', 570000), (Standard ''E8a_v4'', 570000), (Standard ''E8ads_v5'', 592000), (Standard ''E8as_v4'', 570000),
      (Standard ''E8as_v5'', 511000), (Standard ''E8bds_v5'', 755000), (Standard ''E8bs_v5'', 673000), (Standard ''E8d_v4'', 651000),
      (Standard ''E8d_v5'', 651000), (Standard ''E8ds_v4'', 651000), (Standard ''E8ds_v5'', 651000), (Standard ''E8pds_v5'', 521000),
      (Standard ''E8ps_v5'', 456000), (Standard ''E8s_v3'', 583000), (Standard ''E8s_v4'', 570000), (Standard ''E8s_v5'', 570000),
      (Standard ''E96-24ads_v5'', 7105000), (Standard ''E96-24as_v4'', 6834000), (Standard ''E96-24as_v5'', 6129000),
      (Standard ''E96-24ds_v5'', 7811000), (Standard ''E96-24s_v5'', 6834000), (Standard ''E96-48ads_v5'', 7105000),
      (Standard ''E96-48as_v4'', 6834000), (Standard ''E96-48as_v5'', 6129000), (Standard ''E96-48ds_v5'', 7811000),
      (Standard ''E96-48s_v5'', 6834000), (Standard ''E96_v5'', 6834000), (Standard ''E96a_v4'', 6834000),
      (Standard ''E96ads_v5'', 7105000), (Standard ''E96as_v4'', 6834000), (Standard ''E96as_v5'', 6129000),
      (Standard ''E96bds_v5'', 9058000), (Standard ''E96bs_v5'', 8082000), (Standard ''E96d_v5'', 7811000),
      (Standard ''E96ds_v5'', 7811000), (Standard ''E96iads_v5'', 7816000), (Standard ''E96ias_v5'', 6742000),
      (Standard ''E96s_v5'', 6834000), (Standard ''EC16ads_v5'', 1184000), (Standard ''EC16as_v5'', 1022000),
      (Standard ''EC16eds_v5'', 1302000), (Standard ''EC16es_v5'', 1139000), (Standard ''EC20ads_v5'', 1480000),
      (Standard ''EC20as_v5'', 1277000), (Standard ''EC2ads_v5'', 148000), (Standard ''EC2as_v5'', 128000),
      (Standard ''EC2eds_v5'', 163000), (Standard ''EC2es_v5'', 142000), (Standard ''EC32ads_v5'', 2368000),
      (Standard ''EC32as_v5'', 2043000), (Standard ''EC32eds_v5'', 2604000), (Standard ''EC32es_v5'', 2278000),
      (Standard ''EC48ads_v5'', 3553000), (Standard ''EC48as_v5'', 3065000), (Standard ''EC48eds_v5'', 3905000),
      (Standard ''EC48es_v5'', 3417000), (Standard ''EC4ads_v5'', 296000), (Standard ''EC4as_v5'', 255000),
      (Standard ''EC4eds_v5'', 325000), (Standard ''EC4es_v5'', 285000), (Standard ''EC64ads_v5'', 4737000)]"

definition centralus_6 :: priceTable where
  "centralus_6 =
     [(Standard ''EC64as_v5'', 4086000), (Standard ''EC64eds_v5'', 5207000), (Standard ''EC64es_v5'', 4556000),
      (Standard ''EC8ads_v5'', 592000), (Standard ''EC8as_v5'', 511000), (Standard ''EC8eds_v5'', 651000), (Standard ''EC8es_v5'', 570000),
      (Standard ''EC96ads_v5'', 7105000), (Standard ''EC96as_v5'', 6129000), (Standard ''EC96eds_v5'', 7811000),
      (Standard ''EC96es_v5'', 6834000), (Standard ''EC96iads_v5'', 7816000), (Standard ''EC96ias_v5'', 6742000), (Standard ''F1'', 54700),
      (Standard ''F16'', 875000), (Standard ''F16s'', 875000), (Standard ''F16s_v2'', 816000), (Standard ''F1s'', 54700),
      (Standard ''F2'', 109000), (Standard ''F2s'', 109000), (Standard ''F2s_v2'', 102000), (Standard ''F32s_v2'', 1632000),
      (Standard ''F4'', 219000), (Standard ''F48s_v2'', 2448000), (Standard ''F4s'', 219000), (Standard ''F4s_v2'', 204000),
      (Standard ''F64s_v2'', 3264000), (Standard ''F72s_v2'', 3672000), (Standard ''F8'', 438000), (Standard ''F8s'', 438000),
      (Standard ''F8s_v2'', 408000), (Standard ''HB120-16rs_v2'', 4428000), (Standard ''HB120-32rs_v2'', 4428000),
      (Standard ''HB120-64rs_v2'', 4428000), (Standard ''HB120-96rs_v2'', 4428000), (Standard ''HB120rs_v2'', 4428000),
      (Standard ''L16as_v3'', 1410000), (Standard ''L16s_v2'', 1555000), (Standard ''L16s_v3'', 1573000), (Standard ''L32as_v3'', 2820000),
      (Standard ''L32s_v2'', 3110000), (Standard ''L32s_v3'', 3146000), (Standard ''L48as_v3'', 4231000), (Standard ''L48s_v2'', 4665000),
      (Standard ''L48s_v3'', 4719000), (Standard ''L64as_v3'', 5641000), (Standard ''L64s_v2'', 6220000), (Standard ''L64s_v3'', 6292000),
      (Standard ''L80as_v3'', 7051000), (Standard ''L80s_v2'', 7774000), (Standard ''L80s_v3'', 7865000), (Standard ''L88is_v2'', 8552000),
      (Standard ''L8as_v3'', 705000), (Standard ''L8s_v2'', 777000), (Standard ''L8s_v3'', 786000), (Standard ''M128'', 15072000),
      (Standard ''M128-32ms'', 30157000), (Standard ''M128-64ms'', 30157000), (Standard ''M128dms_v2'', 30160000),
      (Standard ''M128ds_v2'', 15074000), (Standard ''M128m'', 30157000), (Standard ''M128ms'', 30157000),
      (Standard ''M128ms_v2'', 29684000), (Standard ''M128s'', 15072000), (Standard ''M128s_v2'', 14599000),
      (Standard ''M16-4ms'', 3472000), (Standard ''M16-8ms'', 3472000), (Standard ''M16ms'', 3472000), (Standard ''M16s'', 2697000),
      (Standard ''M192idms_v2'', 36232000), (Standard ''M192ids_v2'', 18116000), (Standard ''M192ims_v2'', 35757000),
      (Standard ''M192is_v2'', 17641000), (Standard ''M208-104ms_v2'', 50421000), (Standard ''M208-104s_v2'', 25210000),
      (Standard ''M208-52ms_v2'', 50421000), (Standard ''M208-52s_v2'', 25210000), (Standard ''M208ms_v2'', 50421000),
      (Standard ''M208s_v2'', 25210000), (Standard ''M32-16ms'', 6945000), (Standard ''M32-8ms'', 6945000),
      (Standard ''M32dms_v2'', 6945000), (Standard ''M32ls'', 3246000), (Standard ''M32ms'', 6945000), (Standard ''M32ms_v2'', 6826000),
      (Standard ''M32s'', 5395000), (Standard ''M32ts'', 3059000), (Standard ''M416-104ms_v2'', 112040000),
      (Standard ''M416-104s_v2'', 56025000), (Standard ''M416-208ms_v2'', 112040000), (Standard ''M416-208s_v2'', 56025000),
      (Standard ''M416is_v2'', 56025000), (Standard ''M416ms_v2'', 112040000), (Standard ''M416s_8_v2'', 74700000),
      (Standard ''M416s_v2'', 56025000), (Standard ''M64'', 7536000), (Standard ''M64-16ms'', 15079000), (Standard ''M64-32ms'', 15079000),
      (Standard ''M64dms_v2'', 11684000), (Standard ''M64ds_v2'', 7536000), (Standard ''M64ls'', 6493000), (Standard ''M64m'', 15079000),
      (Standard ''M64ms'', 15079000), (Standard ''M64ms_v2'', 11446000), (Standard ''M64s'', 7536000), (Standard ''M64s_v2'', 7298000),
      (Standard ''M8-2ms'', 1736000), (Standard ''M8-4ms'', 1736000), (Standard ''M8ms'', 1736000), (Standard ''NC12s_v3'', 6916000),
      (Standard ''NC16as_T4_v3'', 1360000), (Standard ''NC24rs_v3'', 15214000), (Standard ''NC24s_v3'', 13831000),
      (Standard ''NC4as_T4_v3'', 594000), (Standard ''NC64as_T4_v3'', 4907000), (Standard ''NC6s_v3'', 3458000),
      (Standard ''NC8as_T4_v3'', 849000), (Standard ''ND96amsr_A100_v4'', 37030000), (Standard ''NV12ads_A10_v5'', 1117000),
      (Standard ''NV18ads_A10_v5'', 1968000), (Standard ''NV36adms_A10_v5'', 5560000), (Standard ''NV36ads_A10_v5'', 3936000),
      (Standard ''NV6ads_A10_v5'', 558000), (Standard ''NV72ads_A10_v5'', 8020000)]"

definition centralus :: priceTable where
  "centralus = centralus_1 @ centralus_2 @ centralus_3 @ centralus_4 @ centralus_5 @ centralus_6"

subsection \<open>eastasia\<close>

definition eastasia_1 :: priceTable where
  "eastasia_1 =
     [(''Basic_A0'', 18000), (''Basic_A1'', 38000), (''Basic_A2'', 104000), (''Basic_A3'', 232000), (''Basic_A4'', 464000),
      (''Dadsv5_Type1'', 8747000), (''Dasv4_Type1'', 6970000), (''Dasv4_Type2'', 7260000), (''Dasv5_Type1'', 7330000),
      (''Ddsv4_Type 1'', 5456000), (''Ddsv4_Type2'', 6479000), (''Ddsv5_Type1'', 8184000), (''Dsv3_Type3'', 5796000),
      (''Dsv3_Type4'', 7245000), (''Dsv4_Type1'', 5808000), (''Dsv4_Type2'', 6970000), (''Dsv5_Type1'', 7260000),
      (''Eadsv5_Type1'', 9161000), (''Easv4_Type1'', 8818000), (''Easv4_Type2'', 8818000), (''Easv5_Type1'', 7946000),
      (''Ebdsv5-Type1'', 7814000), (''Ebsv5-Type1'', 7005000), (''Edsv4_Type 1'', 6160000), (''Edsv4_Type2'', 9321000),
      (''Edsv5_Type1'', 9240000), (''Esv3_Type3'', 5222000), (''Esv3_Type4'', 7075000), (''Esv4_Type1'', 5878000),
      (''Esv4_Type2'', 7715000), (''Esv5_Type1'', 8818000), (''Fsv2 Type3'', 4990000), (''Fsv2_Type2'', 4277000),
      (''Fsv2_Type4'', 5702000), (''Lasv3_Type1'', 9064000), (''Lsv3_Type1'', 10120000), (''Mdsmv2MedMem _Type1'', 46974000),
      (''Mdsv2MedMem_Type1'', 23478000), (''Msmv2MedMem Type1'', 46234000), (''Msmv2_Type1'', 169050000), (''Msv2MedMem Type1'', 22738000),
      (''Msv2_Type1'', 84534000), (Standard ''A0'', 20000), (Standard ''A1'', 60000), (Standard ''A1_v2'', 50000),
      (Standard ''A2'', 120000), (Standard ''A2_v2'', 106000), (Standard ''A2m_v2'', 178000), (Standard ''A3'', 240000),
      (Standard ''A4'', 480000), (Standard ''A4_v2'', 222000), (Standard ''A4m_v2'', 374000), (Standard ''A5'', 294000),
      (Standard ''A6'', 588000), (Standard ''A7'', 1176000), (Standard ''A8_v2'', 467000), (Standard ''A8m_v2'', 786000),
      (Standard ''B12ms'', 701000), (Standard ''B16als_v2'', 745000), (Standard ''B16as_v2'', 841000), (Standard ''B16ls_v2'', 901000),
      (Standard ''B16ms'', 934000), (Standard ''B16pls_v2'', 731000), (Standard ''B16ps_v2'', 816000), (Standard ''B16s_v2'', 1008000),
      (Standard ''B1ls'', 7300), (Standard ''B1ms'', 29200), (Standard ''B1s'', 14600), (Standard ''B20ms'', 1168000),
      (Standard ''B2als_v2'', 61800), (Standard ''B2as_v2'', 105000), (Standard ''B2ats_v2'', 22300), (Standard ''B2ls_v2'', 58400),
      (Standard ''B2ms'', 117000), (Standard ''B2pls_v2'', 46400), (Standard ''B2ps_v2'', 92800), (Standard ''B2pts_v2'', 20800),
      (Standard ''B2s'', 58400), (Standard ''B2s_v2'', 117000), (Standard ''B2ts_v2'', 14600), (Standard ''B32als_v2'', 1489000),
      (Standard ''B32as_v2'', 1829000), (Standard ''B32ls_v2'', 1655000), (Standard ''B32s_v2'', 2016000), (Standard ''B4als_v2'', 205000),
      (Standard ''B4as_v2'', 229000), (Standard ''B4ls_v2'', 207000), (Standard ''B4ms'', 234000), (Standard ''B4pls_v2'', 164000),
      (Standard ''B4ps_v2'', 204000), (Standard ''B4s_v2'', 252000), (Standard ''B8als_v2'', 372000), (Standard ''B8as_v2'', 457000),
      (Standard ''B8ls_v2'', 451000), (Standard ''B8ms'', 467000), (Standard ''B8pls_v2'', 329000), (Standard ''B8ps_v2'', 371000),
      (Standard ''B8s_v2'', 504000), (Standard ''D1'', 113000), (Standard ''D11'', 242000), (Standard ''D11_v2'', 229000),
      (Standard ''D11_v2_Promo'', 229000), (Standard ''D12'', 483000), (Standard ''D12_v2'', 459000), (Standard ''D12_v2_Promo'', 459000),
      (Standard ''D13'', 966000), (Standard ''D13_v2'', 918000), (Standard ''D13_v2_Promo'', 918000), (Standard ''D14'', 1932000),
      (Standard ''D14_v2'', 1835000), (Standard ''D14_v2_Promo'', 1835000), (Standard ''D15_v2'', 2294000),
      (Standard ''D15i_v2'', 2294000), (Standard ''D16_v3'', 1056000), (Standard ''D16_v4'', 1056000), (Standard ''D16_v5'', 1056000),
      (Standard ''D16a_v4'', 1056000), (Standard ''D16ads_v5'', 1136000), (Standard ''D16as_v4'', 1056000),
      (Standard ''D16as_v5'', 952000), (Standard ''D16as_v5_Promo'', 848000), (Standard ''D16d_v4'', 1240000),
      (Standard ''D16d_v5'', 1240000), (Standard ''D16ds_v4'', 1240000), (Standard ''D16ds_v5'', 1240000),
      (Standard ''D16lds_v5'', 984000), (Standard ''D16ls_v5'', 864000), (Standard ''D16pds_v5'', 996000),
      (Standard ''D16plds_v5'', 784000), (Standard ''D16pls_v5'', 688000), (Standard ''D16ps_v5'', 848000),
      (Standard ''D16s_v3'', 1056000), (Standard ''D16s_v4'', 1056000), (Standard ''D16s_v5'', 1056000), (Standard ''D1_v2'', 107000),
      (Standard ''D2'', 225000), (Standard ''D2_v2'', 214000), (Standard ''D2_v2_Promo'', 214000), (Standard ''D2_v3'', 132000),
      (Standard ''D2_v4'', 132000)]"

definition eastasia_2 :: priceTable where
  "eastasia_2 =
     [(Standard ''D2_v5'', 132000), (Standard ''D2a_v4'', 132000), (Standard ''D2ads_v5'', 142000), (Standard ''D2as_v4'', 132000),
      (Standard ''D2as_v5'', 119000), (Standard ''D2as_v5_Promo'', 106000), (Standard ''D2d_v4'', 155000), (Standard ''D2d_v5'', 155000),
      (Standard ''D2ds_v4'', 155000), (Standard ''D2ds_v5'', 155000), (Standard ''D2lds_v5'', 123000), (Standard ''D2ls_v5'', 108000),
      (Standard ''D2pds_v5'', 125000), (Standard ''D2plds_v5'', 98000), (Standard ''D2pls_v5'', 86000), (Standard ''D2ps_v5'', 106000),
      (Standard ''D2s_v3'', 132000), (Standard ''D2s_v4'', 132000), (Standard ''D2s_v5'', 132000), (Standard ''D3'', 451000),
      (Standard ''D32-16s_v3'', 2112000), (Standard ''D32-8s_v3'', 2112000), (Standard ''D32_v3'', 2112000),
      (Standard ''D32_v4'', 2112000), (Standard ''D32_v5'', 2112000), (Standard ''D32a_v4'', 2112000), (Standard ''D32ads_v5'', 2272000),
      (Standard ''D32as_v4'', 2112000), (Standard ''D32as_v5'', 1904000), (Standard ''D32as_v5_Promo'', 1696000),
      (Standard ''D32d_v4'', 2480000), (Standard ''D32d_v5'', 2480000), (Standard ''D32ds_v4'', 2480000), (Standard ''D32ds_v5'', 2480000),
      (Standard ''D32lds_v5'', 1968000), (Standard ''D32ls_v5'', 1728000), (Standard ''D32pds_v5'', 1992000),
      (Standard ''D32plds_v5'', 1568000), (Standard ''D32pls_v5'', 1376000), (Standard ''D32ps_v5'', 1696000),
      (Standard ''D32s_v3'', 2112000), (Standard ''D32s_v4'', 2112000), (Standard ''D32s_v5'', 2112000), (Standard ''D3_v2'', 428000),
      (Standard ''D3_v2_Promo'', 428000), (Standard ''D4'', 902000), (Standard ''D48_v3'', 3168000), (Standard ''D48_v4'', 3168000),
      (Standard ''D48_v5'', 3168000), (Standard ''D48a_v4'', 3168000), (Standard ''D48ads_v5'', 3408000), (Standard ''D48as_v4'', 3168000),
      (Standard ''D48as_v5'', 2856000), (Standard ''D48as_v5_Promo'', 2544000), (Standard ''D48d_v4'', 3720000),
      (Standard ''D48d_v5'', 3720000), (Standard ''D48ds_v4'', 3720000), (Standard ''D48ds_v5'', 3720000),
      (Standard ''D48lds_v5'', 2952000), (Standard ''D48ls_v5'', 2592000), (Standard ''D48pds_v5'', 2988000),
      (Standard ''D48plds_v5'', 2352000), (Standard ''D48pls_v5'', 2064000), (Standard ''D48ps_v5'', 2544000),
      (Standard ''D48s_v3'', 3168000), (Standard ''D48s_v4'', 3168000), (Standard ''D48s_v5'', 3168000), (Standard ''D4_v2'', 857000),
      (Standard ''D4_v2_Promo'', 857000), (Standard ''D4_v3'', 264000), (Standard ''D4_v4'', 264000), (Standard ''D4_v5'', 264000),
      (Standard ''D4a_v4'', 264000), (Standard ''D4ads_v5'', 284000), (Standard ''D4as_v4'', 264000), (Standard ''D4as_v5'', 238000),
      (Standard ''D4as_v5_Promo'', 212000), (Standard ''D4d_v4'', 310000), (Standard ''D4d_v5'', 310000), (Standard ''D4ds_v4'', 310000),
      (Standard ''D4ds_v5'', 310000), (Standard ''D4lds_v5'', 246000), (Standard ''D4ls_v5'', 216000), (Standard ''D4pds_v5'', 249000),
      (Standard ''D4plds_v5'', 196000), (Standard ''D4pls_v5'', 172000), (Standard ''D4ps_v5'', 212000), (Standard ''D4s_v3'', 264000),
      (Standard ''D4s_v4'', 264000), (Standard ''D4s_v5'', 264000), (Standard ''D5_v2'', 1714000), (Standard ''D5_v2_Promo'', 1714000),
      (Standard ''D64-16s_v3'', 4224000), (Standard ''D64-32s_v3'', 4224000), (Standard ''D64_v3'', 4224000),
      (Standard ''D64_v4'', 4224000), (Standard ''D64_v5'', 4224000), (Standard ''D64a_v4'', 4224000), (Standard ''D64ads_v5'', 4544000),
      (Standard ''D64as_v4'', 4224000), (Standard ''D64as_v5'', 3808000), (Standard ''D64as_v5_Promo'', 3392000),
      (Standard ''D64d_v4'', 4960000), (Standard ''D64d_v5'', 4960000), (Standard ''D64ds_v4'', 4960000), (Standard ''D64ds_v5'', 4960000),
      (Standard ''D64lds_v5'', 3936000), (Standard ''D64ls_v5'', 3456000), (Standard ''D64pds_v5'', 3984000),
      (Standard ''D64plds_v5'', 3136000), (Standard ''D64pls_v5'', 2752000), (Standard ''D64ps_v5'', 3392000),
      (Standard ''D64s_v3'', 4224000), (Standard ''D64s_v4'', 4224000), (Standard ''D64s_v5'', 4224000), (Standard ''D8_v3'', 528000),
      (Standard ''D8_v4'', 528000), (Standard ''D8_v5'', 528000), (Standard ''D8a_v4'', 528000), (Standard ''D8ads_v5'', 568000),
      (Standard ''D8as_v4'', 528000), (Standard ''D8as_v5'', 476000), (Standard ''D8as_v5_Promo'', 424000), (Standard ''D8d_v4'', 620000),
      (Standard ''D8d_v5'', 620000), (Standard ''D8ds_v4'', 620000), (Standard ''D8ds_v5'', 620000), (Standard ''D8lds_v5'', 492000),
      (Standard ''D8ls_v5'', 432000), (Standard ''D8pds_v5'', 498000), (Standard ''D8plds_v5'', 392000), (Standard ''D8pls_v5'', 344000),
      (Standard ''D8ps_v5'', 424000), (Standard ''D8s_v3'', 528000), (Standard ''D8s_v4'', 528000), (Standard ''D8s_v5'', 528000),
      (Standard ''D96_v5'', 6336000), (Standard ''D96a_v4'', 6336000), (Standard ''D96ads_v5'', 6816000),
      (Standard ''D96as_v4'', 6336000)]"

definition eastasia_3 :: priceTable where
  "eastasia_3 =
     [(Standard ''D96as_v5'', 5712000), (Standard ''D96as_v5_Promo'', 5088000), (Standard ''D96d_v5'', 7440000),
      (Standard ''D96ds_v5'', 7440000), (Standard ''D96lds_v5'', 5904000), (Standard ''D96ls_v5'', 5184000),
      (Standard ''D96s_v5'', 6336000), (Standard ''DC16ads_v5'', 1136000), (Standard ''DC16as_v5'', 952000),
      (Standard ''DC2ads_v5'', 142000), (Standard ''DC2as_v5'', 119000), (Standard ''DC32ads_v5'', 2272000),
      (Standard ''DC32as_v5'', 1904000), (Standard ''DC48ads_v5'', 3408000), (Standard ''DC48as_v5'', 2856000),
      (Standard ''DC4ads_v5'', 284000), (Standard ''DC4as_v5'', 238000), (Standard ''DC64ads_v5'', 4544000),
      (Standard ''DC64as_v5'', 3808000), (Standard ''DC8ads_v5'', 568000), (Standard ''DC8as_v5'', 476000),
      (Standard ''DC96ads_v5'', 6816000), (Standard ''DC96as_v5'', 5712000), (Standard ''DS1'', 113000), (Standard ''DS11'', 242000),
      (Standard ''DS11-1_v2'', 229000), (Standard ''DS11_v2'', 229000), (Standard ''DS11_v2_Promo'', 229000), (Standard ''DS12'', 483000),
      (Standard ''DS12-1_v2'', 459000), (Standard ''DS12-2_v2'', 459000), (Standard ''DS12_v2'', 459000),
      (Standard ''DS12_v2_Promo'', 459000), (Standard ''DS13'', 966000), (Standard ''DS13-2_v2'', 918000),
      (Standard ''DS13-4_v2'', 918000), (Standard ''DS13_v2'', 918000), (Standard ''DS13_v2_Promo'', 918000), (Standard ''DS14'', 1932000),
      (Standard ''DS14-4_v2'', 1835000), (Standard ''DS14-8_v2'', 1835000), (Standard ''DS14_v2'', 1835000),
      (Standard ''DS14_v2_Promo'', 1835000), (Standard ''DS15_v2'', 2294000), (Standard ''DS15i_v2'', 2294000),
      (Standard ''DS1_v2'', 107000), (Standard ''DS2'', 225000), (Standard ''DS2_v2'', 214000), (Standard ''DS2_v2_Promo'', 214000),
      (Standard ''DS3'', 451000), (Standard ''DS3_v2'', 428000), (Standard ''DS3_v2_Promo'', 428000), (Standard ''DS4'', 902000),
      (Standard ''DS4_v2'', 857000), (Standard ''DS4_v2_Promo'', 857000), (Standard ''DS5_v2'', 1714000),
      (Standard ''DS5_v2_Promo'', 1714000), (Standard ''E104i_v5'', 9552000), (Standard ''E104id_v5'', 10010000),
      (Standard ''E104ids_v5'', 10010000), (Standard ''E104is_v5'', 9552000), (Standard ''E112iads_v5'', 10688000),
      (Standard ''E112ias_v5'', 9271000), (Standard ''E112ibds_v5'', 13675000), (Standard ''E112ibs_v5'', 12258000),
      (Standard ''E16-4ads_v5'', 1388000), (Standard ''E16-4as_v4'', 1336000), (Standard ''E16-4as_v5'', 1204000),
      (Standard ''E16-4ds_v4'', 1400000), (Standard ''E16-4ds_v5'', 1400000), (Standard ''E16-4s_v3'', 1336000),
      (Standard ''E16-4s_v4'', 1336000), (Standard ''E16-4s_v5'', 1336000), (Standard ''E16-8ads_v5'', 1388000),
      (Standard ''E16-8as_v4'', 1336000), (Standard ''E16-8as_v5'', 1204000), (Standard ''E16-8ds_v4'', 1400000),
      (Standard ''E16-8ds_v5'', 1400000), (Standard ''E16-8s_v3'', 1336000), (Standard ''E16-8s_v4'', 1336000),
      (Standard ''E16-8s_v5'', 1336000), (Standard ''E16_v3'', 1336000), (Standard ''E16_v4'', 1336000), (Standard ''E16_v5'', 1336000),
      (Standard ''E16a_v4'', 1336000), (Standard ''E16ads_v5'', 1388000), (Standard ''E16as_v4'', 1336000),
      (Standard ''E16as_v5'', 1204000), (Standard ''E16bds_v5'', 1776000), (Standard ''E16bs_v5'', 1592000),
      (Standard ''E16d_v4'', 1400000), (Standard ''E16d_v5'', 1400000), (Standard ''E16ds_v4'', 1400000), (Standard ''E16ds_v5'', 1400000),
      (Standard ''E16pds_v5'', 1124000), (Standard ''E16ps_v5'', 1072000), (Standard ''E16s_v3'', 1336000),
      (Standard ''E16s_v4'', 1336000), (Standard ''E16s_v5'', 1336000), (Standard ''E20_v3'', 1670000), (Standard ''E20_v4'', 1670000),
      (Standard ''E20_v5'', 1670000), (Standard ''E20a_v4'', 1670000), (Standard ''E20ads_v5'', 1735000), (Standard ''E20as_v4'', 1670000),
      (Standard ''E20as_v5'', 1505000), (Standard ''E20d_v4'', 1750000), (Standard ''E20d_v5'', 1750000), (Standard ''E20ds_v4'', 1750000),
      (Standard ''E20ds_v5'', 1750000), (Standard ''E20pds_v5'', 1405000), (Standard ''E20ps_v5'', 1340000),
      (Standard ''E20s_v3'', 1670000), (Standard ''E20s_v4'', 1670000), (Standard ''E20s_v5'', 1670000), (Standard ''E2_v3'', 167000),
      (Standard ''E2_v4'', 167000), (Standard ''E2_v5'', 167000), (Standard ''E2a_v4'', 167000), (Standard ''E2ads_v5'', 174000),
      (Standard ''E2as_v4'', 167000), (Standard ''E2as_v5'', 150000), (Standard ''E2bds_v5'', 222000), (Standard ''E2bs_v5'', 199000),
      (Standard ''E2d_v4'', 175000), (Standard ''E2d_v5'', 175000), (Standard ''E2ds_v4'', 175000), (Standard ''E2ds_v5'', 175000),
      (Standard ''E2pds_v5'', 141000), (Standard ''E2ps_v5'', 134000), (Standard ''E2s_v3'', 167000), (Standard ''E2s_v4'', 167000),
      (Standard ''E2s_v5'', 167000), (Standard ''E32-16ads_v5'', 2776000), (Standard ''E32-16as_v4'', 2672000),
      (Standard ''E32-16as_v5'', 2408000), (Standard ''E32-16ds_v4'', 2800000), (Standard ''E32-16ds_v5'', 2800000),
      (Standard ''E32-16s_v3'', 2672000), (Standard ''E32-16s_v4'', 2672000)]"

definition eastasia_4 :: priceTable where
  "eastasia_4 =
     [(Standard ''E32-16s_v5'', 2672000), (Standard ''E32-8ads_v5'', 2776000), (Standard ''E32-8as_v4'', 2672000),
      (Standard ''E32-8as_v5'', 2408000), (Standard ''E32-8ds_v4'', 2800000), (Standard ''E32-8ds_v5'', 2800000),
      (Standard ''E32-8s_v3'', 2672000), (Standard ''E32-8s_v4'', 2672000), (Standard ''E32-8s_v5'', 2672000),
      (Standard ''E32_v3'', 2672000), (Standard ''E32_v4'', 2672000), (Standard ''E32_v5'', 2672000), (Standard ''E32a_v4'', 2672000),
      (Standard ''E32ads_v5'', 2776000), (Standard ''E32as_v4'', 2672000), (Standard ''E32as_v5'', 2408000),
      (Standard ''E32bds_v5'', 3552000), (Standard ''E32bs_v5'', 3184000), (Standard ''E32d_v4'', 2800000),
      (Standard ''E32d_v5'', 2800000), (Standard ''E32ds_v4'', 2800000), (Standard ''E32ds_v5'', 2800000),
      (Standard ''E32pds_v5'', 2248000), (Standard ''E32ps_v5'', 2144000), (Standard ''E32s_v3'', 2672000),
      (Standard ''E32s_v4'', 2672000), (Standard ''E32s_v5'', 2672000), (Standard ''E4-2ads_v5'', 347000),
      (Standard ''E4-2as_v4'', 334000), (Standard ''E4-2as_v5'', 301000), (Standard ''E4-2ds_v4'', 350000),
      (Standard ''E4-2ds_v5'', 350000), (Standard ''E4-2s_v3'', 334000), (Standard ''E4-2s_v4'', 334000), (Standard ''E4-2s_v5'', 334000),
      (Standard ''E48_v3'', 4008000), (Standard ''E48_v4'', 4008000), (Standard ''E48_v5'', 4008000), (Standard ''E48a_v4'', 4008000),
      (Standard ''E48ads_v5'', 4164000), (Standard ''E48as_v4'', 4008000), (Standard ''E48as_v5'', 3612000),
      (Standard ''E48bds_v5'', 5328000), (Standard ''E48bs_v5'', 4776000), (Standard ''E48d_v4'', 4200000),
      (Standard ''E48d_v5'', 4200000), (Standard ''E48ds_v4'', 4200000), (Standard ''E48ds_v5'', 4200000), (Standard ''E48s_v3'', 4008000),
      (Standard ''E48s_v4'', 4008000), (Standard ''E48s_v5'', 4008000), (Standard ''E4_v3'', 334000), (Standard ''E4_v4'', 334000),
      (Standard ''E4_v5'', 334000), (Standard ''E4a_v4'', 334000), (Standard ''E4ads_v5'', 347000), (Standard ''E4as_v4'', 334000),
      (Standard ''E4as_v5'', 301000), (Standard ''E4bds_v5'', 444000), (Standard ''E4bs_v5'', 398000), (Standard ''E4d_v4'', 350000),
      (Standard ''E4d_v5'', 350000), (Standard ''E4ds_v4'', 350000), (Standard ''E4ds_v5'', 350000), (Standard ''E4pds_v5'', 281000),
      (Standard ''E4ps_v5'', 268000), (Standard ''E4s_v3'', 334000), (Standard ''E4s_v4'', 334000), (Standard ''E4s_v5'', 334000),
      (Standard ''E64-16ads_v5'', 5552000), (Standard ''E64-16as_v4'', 5344000), (Standard ''E64-16as_v5'', 4816000),
      (Standard ''E64-16ds_v4'', 5600000), (Standard ''E64-16ds_v5'', 5600000), (Standard ''E64-16s_v3'', 4810000),
      (Standard ''E64-16s_v4'', 5344000), (Standard ''E64-16s_v5'', 5344000), (Standard ''E64-32ads_v5'', 5552000),
      (Standard ''E64-32as_v4'', 5344000), (Standard ''E64-32as_v5'', 4816000), (Standard ''E64-32ds_v4'', 5600000),
      (Standard ''E64-32ds_v5'', 5600000), (Standard ''E64-32s_v3'', 4810000), (Standard ''E64-32s_v4'', 5344000),
      (Standard ''E64-32s_v5'', 5344000), (Standard ''E64_v3'', 4810000), (Standard ''E64_v4'', 5344000), (Standard ''E64_v5'', 5344000),
      (Standard ''E64a_v4'', 5344000), (Standard ''E64ads_v5'', 5552000), (Standard ''E64as_v4'', 5344000),
      (Standard ''E64as_v5'', 4816000), (Standard ''E64bds_v5'', 7104000), (Standard ''E64bs_v5'', 6368000),
      (Standard ''E64d_v4'', 5600000), (Standard ''E64d_v5'', 5600000), (Standard ''E64ds_v4'', 5600000), (Standard ''E64ds_v5'', 5600000),
      (Standard ''E64i_v3'', 4810000), (Standard ''E64is_v3'', 4810000), (Standard ''E64s_v3'', 4810000), (Standard ''E64s_v4'', 5344000),
      (Standard ''E64s_v5'', 5344000), (Standard ''E8-2ads_v5'', 694000), (Standard ''E8-2as_v4'', 668000),
      (Standard ''E8-2as_v5'', 602000), (Standard ''E8-2ds_v4'', 700000), (Standard ''E8-2ds_v5'', 700000),
      (Standard ''E8-2s_v3'', 668000), (Standard ''E8-2s_v4'', 668000), (Standard ''E8-2s_v5'', 668000), (Standard ''E8-4ads_v5'', 694000),
      (Standard ''E8-4as_v4'', 668000), (Standard ''E8-4as_v5'', 602000), (Standard ''E8-4ds_v4'', 700000),
      (Standard ''E8-4ds_v5'', 700000), (Standard ''E8-4s_v3'', 668000), (Standard ''E8-4s_v4'', 668000), (Standard ''E8-4s_v5'', 668000),
      (Standard ''E80ids_v4'', 7000000), (Standard ''E80is_v4'', 6680000), (Standard ''E8_v3'', 668000), (Standard ''E8_v4'', 668000),
      (Standard ''E8_v5'', 668000), (Standard ''E8a_v4'', 668000), (Standard ''E8ads_v5'', 694000), (Standard ''E8as_v4'', 668000),
      (Standard ''E8as_v5'', 602000), (Standard ''E8bds_v5'', 888000), (Standard ''E8bs_v5'', 796000), (Standard ''E8d_v4'', 700000),
      (Standard ''E8d_v5'', 700000), (Standard ''E8ds_v4'', 700000), (Standard ''E8ds_v5'', 700000), (Standard ''E8pds_v5'', 562000),
      (Standard ''E8ps_v5'', 536000), (Standard ''E8s_v3'', 668000), (Standard ''E8s_v4'', 668000), (Standard ''E8s_v5'', 668000),
      (Standard ''E96-24ads_v5'', 8328000)]"

definition eastasia_5 :: priceTable where
  "eastasia_5 =
     [(Standard ''E96-24as_v4'', 8016000), (Standard ''E96-24as_v5'', 7224000), (Standard ''E96-24ds_v5'', 8400000),
      (Standard ''E96-24s_v5'', 8016000), (Standard ''E96-48ads_v5'', 8328000), (Standard ''E96-48as_v4'', 8016000),
      (Standard ''E96-48as_v5'', 7224000), (Standard ''E96-48ds_v5'', 8400000), (Standard ''E96-48s_v5'', 8016000),
      (Standard ''E96_v5'', 8016000), (Standard ''E96a_v4'', 8016000), (Standard ''E96ads_v5'', 8328000), (Standard ''E96as_v4'', 8016000),
      (Standard ''E96as_v5'', 7224000), (Standard ''E96bds_v5'', 10656000), (Standard ''E96bs_v5'', 9552000),
      (Standard ''E96d_v5'', 8400000), (Standard ''E96ds_v5'', 8400000), (Standard ''E96iads_v5'', 9161000),
      (Standard ''E96ias_v5'', 7946000), (Standard ''E96s_v5'', 8016000), (Standard ''EC16ads_v5'', 1388000),
      (Standard ''EC16as_v5'', 1204000), (Standard ''EC20ads_v5'', 1735000), (Standard ''EC20as_v5'', 1505000),
      (Standard ''EC2ads_v5'', 174000), (Standard ''EC2as_v5'', 151000), (Standard ''EC32ads_v5'', 2776000),
      (Standard ''EC32as_v5'', 2408000), (Standard ''EC48ads_v5'', 4164000), (Standard ''EC48as_v5'', 3612000),
      (Standard ''EC4ads_v5'', 347000), (Standard ''EC4as_v5'', 301000), (Standard ''EC64ads_v5'', 5552000),
      (Standard ''EC64as_v5'', 4816000), (Standard ''EC8ads_v5'', 694000), (Standard ''EC8as_v5'', 602000),
      (Standard ''EC96ads_v5'', 8328000), (Standard ''EC96as_v5'', 7224000), (Standard ''EC96iads_v5'', 9161000),
      (Standard ''EC96ias_v5'', 7946000), (Standard ''F1'', 72000), (Standard ''F16'', 1155000), (Standard ''F16s'', 1155000),
      (Standard ''F16s_v2'', 864000), (Standard ''F1s'', 72000), (Standard ''F2'', 144000), (Standard ''F2s'', 144000),
      (Standard ''F2s_v2'', 108000), (Standard ''F32s_v2'', 1728000), (Standard ''F4'', 289000), (Standard ''F48s_v2'', 2592000),
      (Standard ''F4s'', 289000), (Standard ''F4s_v2'', 216000), (Standard ''F64s_v2'', 3456000), (Standard ''F72s_v2'', 3888000),
      (Standard ''F8'', 578000), (Standard ''F8s'', 578000), (Standard ''F8s_v2'', 432000), (Standard ''L16as_v3'', 1648000),
      (Standard ''L16s_v3'', 1840000), (Standard ''L32as_v3'', 3296000), (Standard ''L32s_v3'', 3680000), (Standard ''L48as_v3'', 4944000),
      (Standard ''L48s_v3'', 5520000), (Standard ''L64as_v3'', 6592000), (Standard ''L64s_v3'', 7360000), (Standard ''L80as_v3'', 8240000),
      (Standard ''L80s_v3'', 9200000), (Standard ''L8as_v3'', 824000), (Standard ''L8s_v3'', 920000), (Standard ''M128'', 24177500),
      (Standard ''M128-32ms'', 48376250), (Standard ''M128-64ms'', 48376250), (Standard ''M128dms_v2'', 42704000),
      (Standard ''M128ds_v2'', 21344000), (Standard ''M128m'', 48376250), (Standard ''M128ms'', 48376250),
      (Standard ''M128ms_v2'', 42031000), (Standard ''M128s'', 24177500), (Standard ''M128s_v2'', 20671000),
      (Standard ''M16-4ms'', 5569875), (Standard ''M16-8ms'', 5569875), (Standard ''M16ms'', 5569875), (Standard ''M16s'', 4326500),
      (Standard ''M192idms_v2'', 51302000), (Standard ''M192ids_v2'', 25651000), (Standard ''M192ims_v2'', 50629000),
      (Standard ''M192is_v2'', 24978000), (Standard ''M208-104ms_v2'', 69161000), (Standard ''M208-104s_v2'', 34580000),
      (Standard ''M208-52ms_v2'', 69161000), (Standard ''M208-52s_v2'', 34580000), (Standard ''M208ms_v2'', 69161000),
      (Standard ''M208s_v2'', 34580000), (Standard ''M32-16ms'', 11139625), (Standard ''M32-8ms'', 11139625),
      (Standard ''M32dms_v2'', 9834000), (Standard ''M32ls'', 3806725), (Standard ''M32ms'', 11139625), (Standard ''M32ms_v2'', 9665000),
      (Standard ''M32s'', 6044750), (Standard ''M32ts'', 3586775), (Standard ''M416-104ms_v2'', 153680000),
      (Standard ''M416-104s_v2'', 76849000), (Standard ''M416-208ms_v2'', 153680000), (Standard ''M416-208s_v2'', 76849000),
      (Standard ''M416is_v2'', 76849000), (Standard ''M416ms_v2'', 153680000), (Standard ''M416s_8_v2'', 102470000),
      (Standard ''M416s_v2'', 76849000), (Standard ''M64'', 12088750), (Standard ''M64-16ms'', 18737500),
      (Standard ''M64-32ms'', 18737500), (Standard ''M64dms_v2'', 16544000), (Standard ''M64ds_v2'', 10670000),
      (Standard ''M64ls'', 7174875), (Standard ''M64m'', 18737500), (Standard ''M64ms'', 18737500), (Standard ''M64ms_v2'', 16207000),
      (Standard ''M64s'', 12088750), (Standard ''M64s_v2'', 10334000), (Standard ''M8-2ms'', 2784875), (Standard ''M8-4ms'', 2784875),
      (Standard ''M8ms'', 2784875), (Standard ''NC12s_v3'', 9486000), (Standard ''NC24rs_v3'', 20869000),
      (Standard ''NC24s_v3'', 18972000), (Standard ''NC6s_v3'', 4743000), (Standard ''ND40s_v2'', 29205000),
      (Standard ''NV12ads_A10_v5'', 1407000), (Standard ''NV18ads_A10_v5'', 2480000), (Standard ''NV36adms_A10_v5'', 7006000),
      (Standard ''NV36ads_A10_v5'', 4960000), (Standard ''NV6ads_A10_v5'', 704000), (Standard ''NV72ads_A10_v5'', 10106000)]"

definition eastasia :: priceTable where
  "eastasia = eastasia_1 @ eastasia_2 @ eastasia_3 @ eastasia_4 @ eastasia_5"

subsection \<open>eastus\<close>

definition eastus_1 :: priceTable where
  "eastus_1 =
     [(''Basic_A0'', 18000), (''Basic_A1'', 23000), (''Basic_A2'', 79000), (''Basic_A3'', 176000), (''Basic_A4'', 352000),
      (''DCadsv5 Type 1'', 6345000), (''DCasv5 Type 1'', 5298000), (''DCdsv3 Type1'', 5966000), (''DCsv2 Type 1'', 845000),
      (''DCsv3 Type1'', 5069000), (''Dadsv5_Type1'', 6345000), (''Dasv4_Type1'', 5069000), (''Dasv4_Type2'', 5280000),
      (''Dasv5_Type1'', 5298000), (''Ddsv4_Type 1'', 3978000), (''Ddsv4_Type2'', 4723000), (''Ddsv5_Type1'', 5966000),
      (''Dsv3_Type3'', 4225000), (''Dsv3_Type4'', 5281000), (''Dsv4_Type1'', 4224000), (''Dsv4_Type2'', 5069000),
      (''Dsv5_Type1'', 5280000), (''ECadsv5 Type 1'', 7608000), (''ECasv5 Type 1'', 6563000), (''Eadsv5_Type1'', 6917000),
      (''Easv4_Type1'', 6653000), (''Easv4_Type2'', 6653000), (''Easv5_Type1'', 5966000), (''Ebdsv5-Type1'', 5878000),
      (''Ebsv5-Type1'', 5245000), (''Edsv4_Type 1'', 5069000), (''Edsv4_Type2'', 6019000), (''Edsv5_Type1'', 7603000),
      (''Esv3_Type3'', 4297000), (''Esv3_Type4'', 5822000), (''Esv4_Type1'', 4435000), (''Esv4_Type2'', 5821000),
      (''Esv5_Type1'', 6653000), (''FXmds Type1'', 4910000), (''Fsv2 Type3'', 3927000), (''Fsv2_Type2'', 3366000),
      (''Fsv2_Type4'', 4468000), (''Lasv3_Type1'', 6864000), (''Lsv2_Type1'', 6864000), (''Lsv3_Type1'', 7656000),
      (''Mdsmv2MedMem _Type1'', 29359000), (''Mdsv2MedMem_Type1'', 14674000), (''Ms_Type1'', 14669000), (''Msm_Type1'', 29363000),
      (''Msmv2MedMem Type1'', 28896000), (''Msmv2_Type1'', 109060000), (''Msv2MedMem Type1'', 14211000), (''Msv2_Type1'', 54538000),
      (''NDamsrA100v4_Type1'', 36047000), (''NDasrA100v4_Type1'', 29917000), (''NVasv4_Type1'', 7176000), (''NVsv3_Type1'', 5016000),
      (Standard ''A0'', 20000), (Standard ''A1'', 60000), (Standard ''A1_v2'', 43000), (Standard ''A2'', 120000),
      (Standard ''A2_v2'', 91000), (Standard ''A2m_v2'', 119000), (Standard ''A3'', 240000), (Standard ''A4'', 480000),
      (Standard ''A4_v2'', 191000), (Standard ''A4m_v2'', 238000), (Standard ''A5'', 250000), (Standard ''A6'', 500000),
      (Standard ''A7'', 1000000), (Standard ''A8_v2'', 400000), (Standard ''A8m_v2'', 475000), (Standard ''B12ms'', 499000),
      (Standard ''B16als_v2'', 533000), (Standard ''B16as_v2'', 675000), (Standard ''B16ls_v2'', 663000), (Standard ''B16ms'', 666000),
      (Standard ''B16pls_v2'', 550000), (Standard ''B16ps_v2'', 611000), (Standard ''B16s_v2'', 739000), (Standard ''B1ls'', 5200),
      (Standard ''B1ms'', 20700), (Standard ''B1s'', 10400), (Standard ''B20ms'', 832000), (Standard ''B2als_v2'', 46800),
      (Standard ''B2as_v2'', 84400), (Standard ''B2ats_v2'', 9400), (Standard ''B2ls_v2'', 41600), (Standard ''B2ms'', 83200),
      (Standard ''B2pls_v2'', 42800), (Standard ''B2ps_v2'', 67200), (Standard ''B2pts_v2'', 8400), (Standard ''B2s'', 41600),
      (Standard ''B2s_v2'', 92400), (Standard ''B2ts_v2'', 19600), (Standard ''B32als_v2'', 1213000), (Standard ''B32as_v2'', 1203000),
      (Standard ''B32ls_v2'', 1326000), (Standard ''B32s_v2'', 1478000), (Standard ''B4als_v2'', 133000), (Standard ''B4as_v2'', 169000),
      (Standard ''B4ls_v2'', 166000), (Standard ''B4ms'', 166000), (Standard ''B4pls_v2'', 119000), (Standard ''B4ps_v2'', 153000),
      (Standard ''B4s_v2'', 166000), (Standard ''B8als_v2'', 303000), (Standard ''B8as_v2'', 338000), (Standard ''B8ls_v2'', 332000),
      (Standard ''B8ms'', 333000), (Standard ''B8pls_v2'', 238000), (Standard ''B8ps_v2'', 269000), (Standard ''B8s_v2'', 333000),
      (Standard ''D1'', 77000), (Standard ''D11'', 193000), (Standard ''D11_v2'', 185000), (Standard ''D11_v2_Promo'', 185000),
      (Standard ''D12'', 386000), (Standard ''D12_v2'', 371000), (Standard ''D12_v2_Promo'', 371000), (Standard ''D13'', 771000),
      (Standard ''D13_v2'', 741000), (Standard ''D13_v2_Promo'', 741000), (Standard ''D14'', 1542000), (Standard ''D14_v2'', 1482000),
      (Standard ''D14_v2_Promo'', 1482000), (Standard ''D15_v2'', 1853000), (Standard ''D15i_v2'', 1853000), (Standard ''D16_v3'', 768000),
      (Standard ''D16_v4'', 768000), (Standard ''D16_v5'', 768000), (Standard ''D16a_v4'', 768000), (Standard ''D16ads_v5'', 824000),
      (Standard ''D16as_v4'', 768000), (Standard ''D16as_v5'', 688000), (Standard ''D16d_v4'', 904000), (Standard ''D16d_v5'', 904000),
      (Standard ''D16ds_v4'', 904000), (Standard ''D16ds_v5'', 904000), (Standard ''D16lds_v5'', 768000)]"

definition eastus_2 :: priceTable where
  "eastus_2 =
     [(Standard ''D16ls_v5'', 680000), (Standard ''D16pds_v5'', 723000), (Standard ''D16plds_v5'', 614000),
      (Standard ''D16pls_v5'', 544000), (Standard ''D16ps_v5'', 616000), (Standard ''D16s_v3'', 768000), (Standard ''D16s_v4'', 768000),
      (Standard ''D16s_v5'', 768000), (Standard ''D1_v2'', 73000), (Standard ''D2'', 154000), (Standard ''D2_v2'', 146000),
      (Standard ''D2_v2_Promo'', 146000), (Standard ''D2_v3'', 96000), (Standard ''D2_v4'', 96000), (Standard ''D2_v5'', 96000),
      (Standard ''D2a_v4'', 96000), (Standard ''D2ads_v5'', 103000), (Standard ''D2as_v4'', 96000), (Standard ''D2as_v5'', 86000),
      (Standard ''D2d_v4'', 113000), (Standard ''D2d_v5'', 113000), (Standard ''D2ds_v4'', 113000), (Standard ''D2ds_v5'', 113000),
      (Standard ''D2lds_v5'', 96000), (Standard ''D2ls_v5'', 85000), (Standard ''D2pds_v5'', 90400), (Standard ''D2plds_v5'', 76800),
      (Standard ''D2pls_v5'', 68000), (Standard ''D2ps_v5'', 77000), (Standard ''D2s_v3'', 96000), (Standard ''D2s_v4'', 96000),
      (Standard ''D2s_v5'', 96000), (Standard ''D3'', 308000), (Standard ''D32-16s_v3'', 1536000), (Standard ''D32-8s_v3'', 1536000),
      (Standard ''D32_v3'', 1536000), (Standard ''D32_v4'', 1536000), (Standard ''D32_v5'', 1536000), (Standard ''D32a_v4'', 1536000),
      (Standard ''D32ads_v5'', 1648000), (Standard ''D32as_v4'', 1536000), (Standard ''D32as_v5'', 1376000),
      (Standard ''D32d_v4'', 1808000), (Standard ''D32d_v5'', 1808000), (Standard ''D32ds_v4'', 1808000), (Standard ''D32ds_v5'', 1808000),
      (Standard ''D32lds_v5'', 1536000), (Standard ''D32ls_v5'', 1360000), (Standard ''D32pds_v5'', 1446000),
      (Standard ''D32plds_v5'', 1229000), (Standard ''D32pls_v5'', 1088000), (Standard ''D32ps_v5'', 1232000),
      (Standard ''D32s_v3'', 1536000), (Standard ''D32s_v4'', 1536000), (Standard ''D32s_v5'', 1536000), (Standard ''D3_v2'', 293000),
      (Standard ''D3_v2_Promo'', 293000), (Standard ''D4'', 616000), (Standard ''D48_v3'', 2304000), (Standard ''D48_v4'', 2304000),
      (Standard ''D48_v5'', 2304000), (Standard ''D48a_v4'', 2304000), (Standard ''D48ads_v5'', 2472000), (Standard ''D48as_v4'', 2304000),
      (Standard ''D48as_v5'', 2064000), (Standard ''D48d_v4'', 2712000), (Standard ''D48d_v5'', 2712000), (Standard ''D48ds_v4'', 2712000),
      (Standard ''D48ds_v5'', 2712000), (Standard ''D48lds_v5'', 2304000), (Standard ''D48ls_v5'', 2040000),
      (Standard ''D48pds_v5'', 2170000), (Standard ''D48plds_v5'', 1843000), (Standard ''D48pls_v5'', 1632000),
      (Standard ''D48ps_v5'', 1848000), (Standard ''D48s_v3'', 2304000), (Standard ''D48s_v4'', 2304000), (Standard ''D48s_v5'', 2304000),
      (Standard ''D4_v2'', 585000), (Standard ''D4_v2_Promo'', 585000), (Standard ''D4_v3'', 192000), (Standard ''D4_v4'', 192000),
      (Standard ''D4_v5'', 192000), (Standard ''D4a_v4'', 192000), (Standard ''D4ads_v5'', 206000), (Standard ''D4as_v4'', 192000),
      (Standard ''D4as_v5'', 172000), (Standard ''D4d_v4'', 226000), (Standard ''D4d_v5'', 226000), (Standard ''D4ds_v4'', 226000),
      (Standard ''D4ds_v5'', 226000), (Standard ''D4lds_v5'', 192000), (Standard ''D4ls_v5'', 170000), (Standard ''D4pds_v5'', 181000),
      (Standard ''D4plds_v5'', 154000), (Standard ''D4pls_v5'', 136000), (Standard ''D4ps_v5'', 154000), (Standard ''D4s_v3'', 192000),
      (Standard ''D4s_v4'', 192000), (Standard ''D4s_v5'', 192000), (Standard ''D5_v2'', 1170000), (Standard ''D5_v2_Promo'', 1170000),
      (Standard ''D64-16s_v3'', 3072000), (Standard ''D64-32s_v3'', 3072000), (Standard ''D64_v3'', 3072000),
      (Standard ''D64_v4'', 3072000), (Standard ''D64_v5'', 3072000), (Standard ''D64a_v4'', 3072000), (Standard ''D64ads_v5'', 3296000),
      (Standard ''D64as_v4'', 3072000), (Standard ''D64as_v5'', 2752000), (Standard ''D64d_v4'', 3616000), (Standard ''D64d_v5'', 3616000),
      (Standard ''D64ds_v4'', 3616000), (Standard ''D64ds_v5'', 3616000), (Standard ''D64lds_v5'', 3072000),
      (Standard ''D64ls_v5'', 2720000), (Standard ''D64pds_v5'', 2893000), (Standard ''D64plds_v5'', 2458000),
      (Standard ''D64pls_v5'', 2176000), (Standard ''D64ps_v5'', 2464000), (Standard ''D64s_v3'', 3072000),
      (Standard ''D64s_v4'', 3072000), (Standard ''D64s_v5'', 3072000), (Standard ''D8_v3'', 384000), (Standard ''D8_v4'', 384000),
      (Standard ''D8_v5'', 384000), (Standard ''D8a_v4'', 384000), (Standard ''D8ads_v5'', 412000), (Standard ''D8as_v4'', 384000),
      (Standard ''D8as_v5'', 344000), (Standard ''D8d_v4'', 452000), (Standard ''D8d_v5'', 452000), (Standard ''D8ds_v4'', 452000),
      (Standard ''D8ds_v5'', 452000), (Standard ''D8lds_v5'', 384000), (Standard ''D8ls_v5'', 340000), (Standard ''D8pds_v5'', 362000),
      (Standard ''D8plds_v5'', 307000), (Standard ''D8pls_v5'', 272000)]"

definition eastus_3 :: priceTable where
  "eastus_3 =
     [(Standard ''D8ps_v5'', 308000), (Standard ''D8s_v3'', 384000), (Standard ''D8s_v4'', 384000), (Standard ''D8s_v5'', 384000),
      (Standard ''D96_v5'', 4608000), (Standard ''D96a_v4'', 4608000), (Standard ''D96ads_v5'', 4944000), (Standard ''D96as_v4'', 4608000),
      (Standard ''D96as_v5'', 4128000), (Standard ''D96d_v5'', 5424000), (Standard ''D96ds_v5'', 5424000),
      (Standard ''D96lds_v5'', 4608000), (Standard ''D96ls_v5'', 4080000), (Standard ''D96s_v5'', 4608000),
      (Standard ''DC16ads_cc_v5'', 824000), (Standard ''DC16ads_v5'', 824000), (Standard ''DC16as_cc_v5'', 688000),
      (Standard ''DC16as_v5'', 688000), (Standard ''DC16ds_v3'', 1808000), (Standard ''DC16s_v3'', 1536000),
      (Standard ''DC1ds_v3'', 113000), (Standard ''DC1s_v2'', 96000), (Standard ''DC1s_v3'', 96000), (Standard ''DC24ds_v3'', 2712000),
      (Standard ''DC24s_v3'', 2304000), (Standard ''DC2ads_v5'', 103000), (Standard ''DC2as_v5'', 86000), (Standard ''DC2ds_v3'', 226000),
      (Standard ''DC2s'', 198000), (Standard ''DC2s_v2'', 192000), (Standard ''DC2s_v3'', 192000), (Standard ''DC32ads_cc_v5'', 1648000),
      (Standard ''DC32ads_v5'', 1648000), (Standard ''DC32as_cc_v5'', 1376000), (Standard ''DC32as_v5'', 1376000),
      (Standard ''DC32ds_v3'', 3616000), (Standard ''DC32s_v3'', 3072000), (Standard ''DC48ads_cc_v5'', 2472000),
      (Standard ''DC48ads_v5'', 2472000), (Standard ''DC48as_cc_v5'', 2064000), (Standard ''DC48as_v5'', 2064000),
      (Standard ''DC48ds_v3'', 5424000), (Standard ''DC48s_v3'', 4608000), (Standard ''DC4ads_cc_v5'', 206000),
      (Standard ''DC4ads_v5'', 206000), (Standard ''DC4as_cc_v5'', 172000), (Standard ''DC4as_v5'', 172000),
      (Standard ''DC4ds_v3'', 452000), (Standard ''DC4s'', 395000), (Standard ''DC4s_v2'', 384000), (Standard ''DC4s_v3'', 384000),
      (Standard ''DC64ads_cc_v5'', 3296000), (Standard ''DC64ads_v5'', 3296000), (Standard ''DC64as_cc_v5'', 2752000),
      (Standard ''DC64as_v5'', 2752000), (Standard ''DC8_v2'', 768000), (Standard ''DC8ads_cc_v5'', 412000),
      (Standard ''DC8ads_v5'', 412000), (Standard ''DC8as_cc_v5'', 344000), (Standard ''DC8as_v5'', 344000),
      (Standard ''DC8ds_v3'', 904000), (Standard ''DC8s_v3'', 768000), (Standard ''DC96ads_cc_v5'', 4944000),
      (Standard ''DC96ads_v5'', 4944000), (Standard ''DC96as_cc_v5'', 4128000), (Standard ''DC96as_v5'', 4128000),
      (Standard ''DS1'', 77000), (Standard ''DS11'', 193000), (Standard ''DS11-1_v2'', 185000), (Standard ''DS11_v2'', 185000),
      (Standard ''DS11_v2_Promo'', 185000), (Standard ''DS12'', 386000), (Standard ''DS12-1_v2'', 371000),
      (Standard ''DS12-2_v2'', 371000), (Standard ''DS12_v2'', 371000), (Standard ''DS12_v2_Promo'', 371000), (Standard ''DS13'', 771000),
      (Standard ''DS13-2_v2'', 741000), (Standard ''DS13-4_v2'', 741000), (Standard ''DS13_v2'', 741000),
      (Standard ''DS13_v2_Promo'', 741000), (Standard ''DS14'', 1542000), (Standard ''DS14-4_v2'', 1482000),
      (Standard ''DS14-8_v2'', 1482000), (Standard ''DS14_v2'', 1482000), (Standard ''DS14_v2_Promo'', 1482000),
      (Standard ''DS15_v2'', 1853000), (Standard ''DS15i_v2'', 1853000), (Standard ''DS1_v2'', 73000), (Standard ''DS2'', 154000),
      (Standard ''DS2_v2'', 146000), (Standard ''DS2_v2_Promo'', 146000), (Standard ''DS3'', 308000), (Standard ''DS3_v2'', 293000),
      (Standard ''DS3_v2_Promo'', 293000), (Standard ''DS4'', 616000), (Standard ''DS4_v2'', 585000), (Standard ''DS4_v2_Promo'', 585000),
      (Standard ''DS5_v2'', 1170000), (Standard ''DS5_v2_Promo'', 1170000), (Standard ''E104i_v5'', 7207000),
      (Standard ''E104id_v5'', 8237000), (Standard ''E104ids_v5'', 8237000), (Standard ''E104is_v5'', 7207000),
      (Standard ''E112iads_v5'', 8070000), (Standard ''E112ias_v5'', 6961000), (Standard ''E112ibds_v5'', 10287000),
      (Standard ''E112ibs_v5'', 9178000), (Standard ''E16-4ads_v5'', 1048000), (Standard ''E16-4as_v4'', 1008000),
      (Standard ''E16-4as_v5'', 904000), (Standard ''E16-4ds_v4'', 1152000), (Standard ''E16-4ds_v5'', 1152000),
      (Standard ''E16-4s_v3'', 1008000), (Standard ''E16-4s_v4'', 1008000), (Standard ''E16-4s_v5'', 1008000),
      (Standard ''E16-8ads_v5'', 1048000), (Standard ''E16-8as_v4'', 1008000), (Standard ''E16-8as_v5'', 904000),
      (Standard ''E16-8ds_v4'', 1152000), (Standard ''E16-8ds_v5'', 1152000), (Standard ''E16-8s_v3'', 1008000),
      (Standard ''E16-8s_v4'', 1008000), (Standard ''E16-8s_v5'', 1008000), (Standard ''E16_v3'', 1008000), (Standard ''E16_v4'', 1008000),
      (Standard ''E16_v5'', 1008000), (Standard ''E16a_v4'', 1008000), (Standard ''E16ads_v5'', 1048000), (Standard ''E16as_v4'', 1008000),
      (Standard ''E16as_v5'', 904000), (Standard ''E16bds_v5'', 1336000), (Standard ''E16bs_v5'', 1192000),
      (Standard ''E16d_v4'', 1152000), (Standard ''E16d_v5'', 1152000), (Standard ''E16ds_v4'', 1152000), (Standard ''E16ds_v5'', 1152000),
      (Standard ''E16pds_v5'', 922000), (Standard ''E16ps_v5'', 806000), (Standard ''E16s_v3'', 1008000)]"

definition eastus_4 :: priceTable where
  "eastus_4 =
     [(Standard ''E16s_v4'', 1008000), (Standard ''E16s_v5'', 1008000), (Standard ''E20_v3'', 1260000), (Standard ''E20_v4'', 1260000),
      (Standard ''E20_v5'', 1260000), (Standard ''E20a_v4'', 1260000), (Standard ''E20ads_v5'', 1310000), (Standard ''E20as_v4'', 1260000),
      (Standard ''E20as_v5'', 1130000), (Standard ''E20d_v4'', 1440000), (Standard ''E20d_v5'', 1440000), (Standard ''E20ds_v4'', 1440000),
      (Standard ''E20ds_v5'', 1440000), (Standard ''E20pds_v5'', 1152000), (Standard ''E20ps_v5'', 1008000),
      (Standard ''E20s_v3'', 1260000), (Standard ''E20s_v4'', 1260000), (Standard ''E20s_v5'', 1260000), (Standard ''E2_v3'', 126000),
      (Standard ''E2_v4'', 126000), (Standard ''E2_v5'', 126000), (Standard ''E2a_v4'', 126000), (Standard ''E2ads_v5'', 131000),
      (Standard ''E2as_v4'', 126000), (Standard ''E2as_v5'', 113000), (Standard ''E2bds_v5'', 167000), (Standard ''E2bs_v5'', 149000),
      (Standard ''E2d_v4'', 144000), (Standard ''E2d_v5'', 144000), (Standard ''E2ds_v4'', 144000), (Standard ''E2ds_v5'', 144000),
      (Standard ''E2pds_v5'', 115000), (Standard ''E2ps_v5'', 101000), (Standard ''E2s_v3'', 126000), (Standard ''E2s_v4'', 126000),
      (Standard ''E2s_v5'', 126000), (Standard ''E32-16ads_v5'', 2096000), (Standard ''E32-16as_v4'', 2016000),
      (Standard ''E32-16as_v5'', 1808000), (Standard ''E32-16ds_v4'', 2304000), (Standard ''E32-16ds_v5'', 2304000),
      (Standard ''E32-16s_v3'', 2016000), (Standard ''E32-16s_v4'', 2016000), (Standard ''E32-16s_v5'', 2016000),
      (Standard ''E32-8ads_v5'', 2096000), (Standard ''E32-8as_v4'', 2016000), (Standard ''E32-8as_v5'', 1808000),
      (Standard ''E32-8ds_v4'', 2304000), (Standard ''E32-8ds_v5'', 2304000), (Standard ''E32-8s_v3'', 2016000),
      (Standard ''E32-8s_v4'', 2016000), (Standard ''E32-8s_v5'', 2016000), (Standard ''E32_v3'', 2016000), (Standard ''E32_v4'', 2016000),
      (Standard ''E32_v5'', 2016000), (Standard ''E32a_v4'', 2016000), (Standard ''E32ads_v5'', 2096000), (Standard ''E32as_v4'', 2016000),
      (Standard ''E32as_v5'', 1808000), (Standard ''E32bds_v5'', 2672000), (Standard ''E32bs_v5'', 2384000),
      (Standard ''E32d_v4'', 2304000), (Standard ''E32d_v5'', 2304000), (Standard ''E32ds_v4'', 2304000), (Standard ''E32ds_v5'', 2304000),
      (Standard ''E32pds_v5'', 1843000), (Standard ''E32ps_v5'', 1613000), (Standard ''E32s_v3'', 2016000),
      (Standard ''E32s_v4'', 2016000), (Standard ''E32s_v5'', 2016000), (Standard ''E4-2ads_v5'', 262000),
      (Standard ''E4-2as_v4'', 252000), (Standard ''E4-2as_v5'', 226000), (Standard ''E4-2ds_v4'', 288000),
      (Standard ''E4-2ds_v5'', 288000), (Standard ''E4-2s_v3'', 252000), (Standard ''E4-2s_v4'', 252000), (Standard ''E4-2s_v5'', 252000),
      (Standard ''E48_v3'', 3024000), (Standard ''E48_v4'', 3024000), (Standard ''E48_v5'', 3024000), (Standard ''E48a_v4'', 3024000),
      (Standard ''E48ads_v5'', 3144000), (Standard ''E48as_v4'', 3024000), (Standard ''E48as_v5'', 2712000),
      (Standard ''E48bds_v5'', 4008000), (Standard ''E48bs_v5'', 3576000), (Standard ''E48d_v4'', 3456000),
      (Standard ''E48d_v5'', 3456000), (Standard ''E48ds_v4'', 3456000), (Standard ''E48ds_v5'', 3456000), (Standard ''E48s_v3'', 3024000),
      (Standard ''E48s_v4'', 3024000), (Standard ''E48s_v5'', 3024000), (Standard ''E4_v3'', 252000), (Standard ''E4_v4'', 252000),
      (Standard ''E4_v5'', 252000), (Standard ''E4a_v4'', 252000), (Standard ''E4ads_v5'', 262000), (Standard ''E4as_v4'', 252000),
      (Standard ''E4as_v5'', 226000), (Standard ''E4bds_v5'', 334000), (Standard ''E4bs_v5'', 298000), (Standard ''E4d_v4'', 288000),
      (Standard ''E4d_v5'', 288000), (Standard ''E4ds_v4'', 288000), (Standard ''E4ds_v5'', 288000), (Standard ''E4pds_v5'', 230000),
      (Standard ''E4ps_v5'', 202000), (Standard ''E4s_v3'', 252000), (Standard ''E4s_v4'', 252000), (Standard ''E4s_v5'', 252000),
      (Standard ''E64-16ads_v5'', 4192000), (Standard ''E64-16as_v4'', 4032000), (Standard ''E64-16as_v5'', 3616000),
      (Standard ''E64-16ds_v4'', 4608000), (Standard ''E64-16ds_v5'', 4608000), (Standard ''E64-16s_v3'', 3629000),
      (Standard ''E64-16s_v4'', 4032000), (Standard ''E64-16s_v5'', 4032000), (Standard ''E64-32ads_v5'', 4192000),
      (Standard ''E64-32as_v4'', 4032000), (Standard ''E64-32as_v5'', 3616000), (Standard ''E64-32ds_v4'', 4608000),
      (Standard ''E64-32ds_v5'', 4608000), (Standard ''E64-32s_v3'', 3629000), (Standard ''E64-32s_v4'', 4032000),
      (Standard ''E64-32s_v5'', 4032000), (Standard ''E64_v3'', 3629000), (Standard ''E64_v4'', 4032000), (Standard ''E64_v5'', 4032000),
      (Standard ''E64a_v4'', 4032000), (Standard ''E64ads_v5'', 4192000), (Standard ''E64as_v4'', 4032000),
      (Standard ''E64as_v5'', 3616000), (Standard ''E64bds_v5'', 5344000), (Standard ''E64bs_v5'', 4768000),
      (Standard ''E64d_v4'', 4608000), (Standard ''E64d_v5'', 4608000), (Standard ''E64ds_v4'', 4608000)]"

definition eastus_5 :: priceTable where
  "eastus_5 =
     [(Standard ''E64ds_v5'', 4608000), (Standard ''E64i_v3'', 3629000), (Standard ''E64is_v3'', 3629000), (Standard ''E64s_v3'', 3629000),
      (Standard ''E64s_v4'', 4032000), (Standard ''E64s_v5'', 4032000), (Standard ''E8-2ads_v5'', 524000),
      (Standard ''E8-2as_v4'', 504000), (Standard ''E8-2as_v5'', 452000), (Standard ''E8-2ds_v4'', 576000),
      (Standard ''E8-2ds_v5'', 576000), (Standard ''E8-2s_v3'', 504000), (Standard ''E8-2s_v4'', 504000), (Standard ''E8-2s_v5'', 504000),
      (Standard ''E8-4ads_v5'', 524000), (Standard ''E8-4as_v4'', 504000), (Standard ''E8-4as_v5'', 452000),
      (Standard ''E8-4ds_v4'', 576000), (Standard ''E8-4ds_v5'', 576000), (Standard ''E8-4s_v3'', 504000), (Standard ''E8-4s_v4'', 504000),
      (Standard ''E8-4s_v5'', 504000), (Standard ''E80ids_v4'', 5760000), (Standard ''E80is_v4'', 5040000), (Standard ''E8_v3'', 504000),
      (Standard ''E8_v4'', 504000), (Standard ''E8_v5'', 504000), (Standard ''E8a_v4'', 504000), (Standard ''E8ads_v5'', 524000),
      (Standard ''E8as_v4'', 504000), (Standard ''E8as_v5'', 452000), (Standard ''E8bds_v5'', 668000), (Standard ''E8bs_v5'', 596000),
      (Standard ''E8d_v4'', 576000), (Standard ''E8d_v5'', 576000), (Standard ''E8ds_v4'', 576000), (Standard ''E8ds_v5'', 576000),
      (Standard ''E8pds_v5'', 461000), (Standard ''E8ps_v5'', 403000), (Standard ''E8s_v3'', 504000), (Standard ''E8s_v4'', 504000),
      (Standard ''E8s_v5'', 504000), (Standard ''E96-24ads_v5'', 6288000), (Standard ''E96-24as_v4'', 6048000),
      (Standard ''E96-24as_v5'', 5424000), (Standard ''E96-24ds_v5'', 6912000), (Standard ''E96-24s_v5'', 6048000),
      (Standard ''E96-48ads_v5'', 6288000), (Standard ''E96-48as_v4'', 6048000), (Standard ''E96-48as_v5'', 5424000),
      (Standard ''E96-48ds_v5'', 6912000), (Standard ''E96-48s_v5'', 6048000), (Standard ''E96_v5'', 6048000),
      (Standard ''E96a_v4'', 6048000), (Standard ''E96ads_v5'', 6288000), (Standard ''E96as_v4'', 6048000),
      (Standard ''E96as_v5'', 5424000), (Standard ''E96bds_v5'', 8016000), (Standard ''E96bs_v5'', 7152000),
      (Standard ''E96d_v5'', 6912000), (Standard ''E96ds_v5'', 6912000), (Standard ''E96iads_v5'', 6917000),
      (Standard ''E96ias_v5'', 5966000), (Standard ''E96s_v5'', 6048000), (Standard ''EC16ads_cc_v5'', 1048000),
      (Standard ''EC16ads_v5'', 1048000), (Standard ''EC16as_cc_v5'', 904000), (Standard ''EC16as_v5'', 904000),
      (Standard ''EC20ads_cc_v5'', 1310000), (Standard ''EC20ads_v5'', 1310000), (Standard ''EC20as_cc_v5'', 1130000),
      (Standard ''EC20as_v5'', 1130000), (Standard ''EC2ads_v5'', 131000), (Standard ''EC2as_v5'', 113000),
      (Standard ''EC32ads_cc_v5'', 2096000), (Standard ''EC32ads_v5'', 2096000), (Standard ''EC32as_cc_v5'', 1808000),
      (Standard ''EC32as_v5'', 1808000), (Standard ''EC48ads_cc_v5'', 3144000), (Standard ''EC48ads_v5'', 3144000),
      (Standard ''EC48as_cc_v5'', 2712000), (Standard ''EC48as_v5'', 2712000), (Standard ''EC4ads_cc_v5'', 262000),
      (Standard ''EC4ads_v5'', 262000), (Standard ''EC4as_cc_v5'', 226000), (Standard ''EC4as_v5'', 226000),
      (Standard ''EC64ads_cc_v5'', 4192000), (Standard ''EC64ads_v5'', 4192000), (Standard ''EC64as_cc_v5'', 3616000),
      (Standard ''EC64as_v5'', 3616000), (Standard ''EC8ads_cc_v5'', 524000), (Standard ''EC8ads_v5'', 524000),
      (Standard ''EC8as_cc_v5'', 452000), (Standard ''EC8as_v5'', 452000), (Standard ''EC96ads_cc_v5'', 6288000),
      (Standard ''EC96ads_v5'', 6288000), (Standard ''EC96as_cc_v5'', 5424000), (Standard ''EC96as_v5'', 5424000),
      (Standard ''EC96iads_v5'', 6917000), (Standard ''EC96ias_v5'', 5966000), (Standard ''F1'', 49700), (Standard ''F16'', 796000),
      (Standard ''F16s'', 796000), (Standard ''F16s_v2'', 677000), (Standard ''F1s'', 49700), (Standard ''F2'', 99000),
      (Standard ''F2s'', 99000), (Standard ''F2s_v2'', 84600), (Standard ''F32s_v2'', 1353000), (Standard ''F4'', 199000),
      (Standard ''F48s_v2'', 2030000), (Standard ''F4s'', 199000), (Standard ''F4s_v2'', 169000), (Standard ''F64s_v2'', 2706000),
      (Standard ''F72s_v2'', 3045000), (Standard ''F8'', 398000), (Standard ''F8s'', 398000), (Standard ''F8s_v2'', 338000),
      (Standard ''FX12mds'', 1116000), (Standard ''FX24mds'', 2232000), (Standard ''FX36mds'', 3348000), (Standard ''FX48mds'', 4464000),
      (Standard ''FX4mds'', 372000), (Standard ''H16'', 1807000), (Standard ''H16m'', 2422000), (Standard ''H16mr'', 2664000),
      (Standard ''H16r'', 1988000), (Standard ''H8'', 904000), (Standard ''H8m'', 1211000), (Standard ''HB120-16rs_v2'', 3600000),
      (Standard ''HB120-16rs_v3'', 3600000), (Standard ''HB120-32rs_v2'', 3600000), (Standard ''HB120-32rs_v3'', 3600000),
      (Standard ''HB120-64rs_v2'', 3600000), (Standard ''HB120-64rs_v3'', 3600000), (Standard ''HB120-96rs_v2'', 3600000),
      (Standard ''HB120-96rs_v3'', 3600000), (Standard ''HB120rs_v2'', 3600000), (Standard ''HB120rs_v3'', 3600000),
      (Standard ''HB176-144rs_v4'', 7200000)]"

definition eastus_6 :: priceTable where
  "eastus_6 =
     [(Standard ''HB176-24rs_v4'', 7200000), (Standard ''HB176-48rs_v4'', 7200000), (Standard ''HB176-96rs_v4'', 7200000),
      (Standard ''HB176rs_v4'', 7200000), (Standard ''HB60-15rs'', 2280000), (Standard ''HB60-30rs'', 2280000),
      (Standard ''HB60-45rs'', 2280000), (Standard ''HB60rs'', 2280000), (Standard ''HC44-16rs'', 3168000),
      (Standard ''HC44-32rs'', 3168000), (Standard ''HC44rs'', 3168000), (Standard ''HX176-144rs'', 8640000),
      (Standard ''HX176-24rs'', 8640000), (Standard ''HX176-48rs'', 8640000), (Standard ''HX176-96rs'', 8640000),
      (Standard ''HX176rs'', 8640000), (Standard ''L16as_v3'', 1248000), (Standard ''L16s_v2'', 1248000), (Standard ''L16s_v3'', 1392000),
      (Standard ''L32as_v3'', 2496000), (Standard ''L32s_v2'', 2496000), (Standard ''L32s_v3'', 2784000), (Standard ''L48as_v3'', 3744000),
      (Standard ''L48s_v2'', 3744000), (Standard ''L48s_v3'', 4176000), (Standard ''L64as_v3'', 4992000), (Standard ''L64s_v2'', 4992000),
      (Standard ''L64s_v3'', 5568000), (Standard ''L80as_v3'', 6240000), (Standard ''L80s_v2'', 6240000), (Standard ''L80s_v3'', 6960000),
      (Standard ''L88is_v2'', 6864000), (Standard ''L8as_v3'', 624000), (Standard ''L8s_v2'', 624000), (Standard ''L8s_v3'', 696000),
      (Standard ''M128'', 13338000), (Standard ''M128-32ms'', 26688000), (Standard ''M128-64ms'', 26688000),
      (Standard ''M128dms_v2'', 26690000), (Standard ''M128ds_v2'', 13340000), (Standard ''M128m'', 26688000),
      (Standard ''M128ms'', 26688000), (Standard ''M128ms_v2'', 26269000), (Standard ''M128s'', 13338000),
      (Standard ''M128s_v2'', 12919000), (Standard ''M16-4ms'', 3073000), (Standard ''M16-8ms'', 3073000), (Standard ''M16ms'', 3073000),
      (Standard ''M16s'', 2387000), (Standard ''M192idms_v2'', 32064000), (Standard ''M192ids_v2'', 16032000),
      (Standard ''M192ims_v2'', 31643000), (Standard ''M192is_v2'', 15611000), (Standard ''M208-104ms_v2'', 44620000),
      (Standard ''M208-104s_v2'', 22310000), (Standard ''M208-52ms_v2'', 44620000), (Standard ''M208-52s_v2'', 22310000),
      (Standard ''M208ms_v2'', 44620000), (Standard ''M208s_v2'', 22310000), (Standard ''M32-16ms'', 6146000),
      (Standard ''M32-8ms'', 6146000), (Standard ''M32dms_v2'', 6146000), (Standard ''M32ls'', 2873000), (Standard ''M32ms'', 6146000),
      (Standard ''M32ms_v2'', 6041000), (Standard ''M32s'', 3335000), (Standard ''M32ts'', 2707000),
      (Standard ''M416-104ms_v2'', 99150000), (Standard ''M416-104s_v2'', 49580000), (Standard ''M416-208ms_v2'', 99150000),
      (Standard ''M416-208s_v2'', 49580000), (Standard ''M416is_v2'', 49580000), (Standard ''M416ms_v2'', 99150000),
      (Standard ''M416s_8_v2'', 66110000), (Standard ''M416s_v2'', 49580000), (Standard ''M64'', 6669000),
      (Standard ''M64-16ms'', 10337000), (Standard ''M64-32ms'', 10337000), (Standard ''M64dms_v2'', 10340000),
      (Standard ''M64ds_v2'', 6669000), (Standard ''M64ls'', 5415000), (Standard ''M64m'', 10337000), (Standard ''M64ms'', 10337000),
      (Standard ''M64ms_v2'', 10130000), (Standard ''M64s'', 6669000), (Standard ''M64s_v2'', 6459000), (Standard ''M8-2ms'', 1536500),
      (Standard ''M8-4ms'', 1536500), (Standard ''M8ms'', 1536500), (Standard ''NC12'', 1800000), (Standard ''NC12s_v2'', 4140000),
      (Standard ''NC12s_v3'', 6120000), (Standard ''NC16as_T4_v3'', 1204000), (Standard ''NC24'', 3600000),
      (Standard ''NC24ads_A100_v4'', 3673000), (Standard ''NC24r'', 3960000), (Standard ''NC24rs_v2'', 9108000),
      (Standard ''NC24rs_v3'', 13460000), (Standard ''NC24s_v2'', 8280000), (Standard ''NC24s_v3'', 12240000),
      (Standard ''NC48ads_A100_v4'', 7346000), (Standard ''NC4as_T4_v3'', 526000), (Standard ''NC6'', 900000),
      (Standard ''NC64as_T4_v3'', 4352000), (Standard ''NC6s_v2'', 2070000), (Standard ''NC6s_v3'', 3060000),
      (Standard ''NC8as_T4_v3'', 752000), (Standard ''NC96ads_A100_v4'', 14692000), (Standard ''ND12s'', 4140000),
      (Standard ''ND24rs'', 9108000), (Standard ''ND24s'', 8280000), (Standard ''ND40rs_v2'', 22032000), (Standard ''ND40s_v2'', 12240000),
      (Standard ''ND6s'', 2070000), (Standard ''ND96ams_A100_v4'', 32770000), (Standard ''ND96amsr_A100_v4'', 32770000),
      (Standard ''ND96asr_A100_v4'', 27197000), (Standard ''ND96asr_v4'', 27197000), (Standard ''NP10s'', 1650000),
      (Standard ''NP20s'', 3300000), (Standard ''NP40s'', 6600000), (Standard ''NV12'', 2280000), (Standard ''NV12ads_A10_v5'', 908000),
      (Standard ''NV12s_v3'', 1140000), (Standard ''NV16as_v4'', 932000), (Standard ''NV18ads_A10_v5'', 1600000),
      (Standard ''NV24'', 4560000), (Standard ''NV24s_v3'', 2280000), (Standard ''NV32as_v4'', 1864000),
      (Standard ''NV36adms_A10_v5'', 4520000), (Standard ''NV36ads_A10_v5'', 3200000), (Standard ''NV48s_v3'', 4560000),
      (Standard ''NV4as_v4'', 233000), (Standard ''NV6'', 1140000), (Standard ''NV6ads_A10_v5'', 454000),
      (Standard ''NV72ads_A10_v5'', 6520000), (Standard ''NV8as_v4'', 466000), (Standard ''PB12s'', 1660000),
      (Standard ''PB24s'', 3320000), (Standard ''PB6s'', 830000)]"

definition eastus :: priceTable where
  "eastus = eastus_1 @ eastus_2 @ eastus_3 @ eastus_4 @ eastus_5 @ eastus_6"

subsection \<open>eastus2\<close>

definition eastus2_1 :: priceTable where
  "eastus2_1 =
     [(''Dasv4_Type2'', 5069000), (''Ddsv4_Type2'', 4723000), (''Dsv5_Type1'', 5280000), (''Easv4_Type2'', 6653000),
      (''Lasv3_Type1'', 6864000), (''Lsv2_Type1'', 6864000), (''Msmv2_Type1'', 109060000), (''NVsv3_Type1'', 5016000),
      (Standard ''A1'', 60000), (Standard ''A4'', 480000), (Standard ''B16ls_v2'', 589000), (Standard ''B16pls_v2'', 476000),
      (Standard ''B16s_v2'', 739000), (Standard ''B1s'', 10400), (Standard ''B20ms'', 832000), (Standard ''B2as_v2'', 84400),
      (Standard ''B2ls_v2'', 50800), (Standard ''B2pls_v2'', 42800), (Standard ''B2ts_v2'', 10400), (Standard ''B4as_v2'', 169000),
      (Standard ''B4ls_v2'', 147000), (Standard ''B4ms'', 166000), (Standard ''B4ps_v2'', 153000), (Standard ''B4s_v2'', 185000),
      (Standard ''B8als_v2'', 303000), (Standard ''B8ms'', 333000), (Standard ''D12'', 347000), (Standard ''D12_v2_Promo'', 299000),
      (Standard ''D14_v2_Promo'', 1196000), (Standard ''D16_v3'', 768000), (Standard ''D16as_v4'', 768000), (Standard ''D16d_v4'', 904000),
      (Standard ''D2_v2'', 114000), (Standard ''D2as_v4'', 96000), (Standard ''D2as_v5'', 86000), (Standard ''D2as_v5_Promo'', 77000),
      (Standard ''D2ds_v4'', 113000), (Standard ''D2ds_v5'', 113000), (Standard ''D2pds_v5'', 90400), (Standard ''D2pls_v5'', 68000),
      (Standard ''D2s_v4'', 96000), (Standard ''D32-8s_v3'', 1536000), (Standard ''D32as_v4'', 1536000),
      (Standard ''D32as_v5_Promo'', 1232000), (Standard ''D32ds_v4'', 1808000), (Standard ''D32ls_v5'', 1360000),
      (Standard ''D32pds_v5'', 1446000), (Standard ''D48_v4'', 2304000), (Standard ''D48_v5'', 2304000), (Standard ''D48as_v4'', 2304000),
      (Standard ''D48ds_v4'', 2712000), (Standard ''D4_v5'', 192000), (Standard ''D4ads_v5'', 206000), (Standard ''D4as_v4'', 192000),
      (Standard ''D4as_v5'', 172000), (Standard ''D4d_v5'', 226000), (Standard ''D4pds_v5'', 181000), (Standard ''D4ps_v5'', 154000),
      (Standard ''D4s_v3'', 192000), (Standard ''D64ads_v5'', 3296000), (Standard ''D64as_v4'', 3072000), (Standard ''D64ls_v5'', 2720000),
      (Standard ''D64pls_v5'', 2176000), (Standard ''D64s_v3'', 3072000), (Standard ''D64s_v5'', 3072000), (Standard ''D8_v3'', 384000),
      (Standard ''D8a_v4'', 384000), (Standard ''D8ads_v5'', 412000), (Standard ''D8ds_v5'', 452000), (Standard ''D8lds_v5'', 384000),
      (Standard ''D8ps_v5'', 308000), (Standard ''D8s_v5'', 384000), (Standard ''D96as_v4'', 4608000), (Standard ''D96s_v5'', 4608000),
      (Standard ''DC16as_v5'', 688000), (Standard ''DC2ads_v5'', 103000), (Standard ''DC2ds_v3'', 226000),
      (Standard ''DC48as_v5'', 2064000), (Standard ''DC48eds_v5'', 2712000), (Standard ''DC64eds_v5'', 3616000),
      (Standard ''DC8s_v3'', 768000), (Standard ''DC96ads_v5'', 4944000), (Standard ''DS11_v2'', 149000),
      (Standard ''DS12_v2_Promo'', 299000), (Standard ''DS13-2_v2'', 598000), (Standard ''DS13_v2_Promo'', 598000),
      (Standard ''DS14'', 1387000), (Standard ''DS14-4_v2'', 1196000), (Standard ''E104i_v5'', 7207000),
      (Standard ''E16-4ads_v5'', 1048000), (Standard ''E16-4ds_v4'', 1152000), (Standard ''E16-4ds_v5'', 1152000)]"

definition eastus2_2 :: priceTable where
  "eastus2_2 =
     [(Standard ''E16-8as_v4'', 1008000), (Standard ''E16_v3'', 1064000), (Standard ''E16_v5'', 1008000),
      (Standard ''E16bds_v5'', 1336000), (Standard ''E16d_v4'', 1152000), (Standard ''E16ds_v5'', 1152000), (Standard ''E20_v3'', 1460000),
      (Standard ''E20_v4'', 1260000), (Standard ''E20_v5'', 1260000), (Standard ''E20d_v4'', 1440000), (Standard ''E20ps_v5'', 1008000),
      (Standard ''E20s_v3'', 1460000), (Standard ''E20s_v5'', 1260000), (Standard ''E2_v3'', 133000), (Standard ''E2_v4'', 126000),
      (Standard ''E2d_v4'', 144000), (Standard ''E2s_v3'', 133000), (Standard ''E2s_v4'', 126000), (Standard ''E32-16as_v4'', 2016000),
      (Standard ''E32-16ds_v4'', 2304000), (Standard ''E32-16ds_v5'', 2304000), (Standard ''E32-8ads_v5'', 2096000),
      (Standard ''E32-8as_v4'', 2016000), (Standard ''E32-8ds_v5'', 2304000), (Standard ''E32-8s_v3'', 2128000),
      (Standard ''E32_v3'', 2128000), (Standard ''E32as_v5'', 1808000), (Standard ''E32bs_v5'', 2384000), (Standard ''E32d_v4'', 2304000),
      (Standard ''E32ds_v5'', 2304000), (Standard ''E32s_v4'', 2016000), (Standard ''E32s_v5'', 2016000), (Standard ''E48as_v5'', 2712000),
      (Standard ''E4ds_v4'', 288000), (Standard ''E4ps_v5'', 202000), (Standard ''E64-16as_v4'', 4032000),
      (Standard ''E64-16as_v5'', 3616000), (Standard ''E64-32ads_v5'', 4192000), (Standard ''E64-32ds_v4'', 4608000),
      (Standard ''E64-32ds_v5'', 4608000), (Standard ''E64ds_v5'', 4608000), (Standard ''E64s_v3'', 3629000),
      (Standard ''E8-2s_v3'', 532000), (Standard ''E8ads_v5'', 524000), (Standard ''E8bs_v5'', 596000), (Standard ''E8ds_v4'', 576000),
      (Standard ''E8ps_v5'', 403000), (Standard ''E8s_v4'', 504000), (Standard ''E96-24ds_v5'', 6912000),
      (Standard ''E96-48ds_v5'', 6912000), (Standard ''E96_v5'', 6048000), (Standard ''E96ads_v5'', 6288000),
      (Standard ''E96bds_v5'', 8016000), (Standard ''EC48ads_v5'', 3144000), (Standard ''EC4ads_v5'', 262000),
      (Standard ''EC8es_v5'', 504000), (Standard ''F1'', 49700), (Standard ''F4'', 199000), (Standard ''F8s'', 398000),
      (Standard ''FX36mds'', 3348000), (Standard ''FX4mds'', 372000), (Standard ''HB176-144rs_v4'', 7200000),
      (Standard ''L16as_v3'', 1248000), (Standard ''L16s_v3'', 1396000), (Standard ''L32s_v2'', 2496000), (Standard ''L48s_v3'', 4188000),
      (Standard ''L4s'', 343000), (Standard ''L8s_v2'', 624000), (Standard ''M128ds_v2'', 13340000), (Standard ''M12s_v3'', 0),
      (Standard ''M176ds_3_v3'', 0), (Standard ''M176s_3_v3'', 0), (Standard ''M208-104s_v2'', 22310000), (Standard ''M24s_v3'', 0),
      (Standard ''M32-8ms'', 6146000), (Standard ''M32ls'', 2873000), (Standard ''M416is_v2'', 49580000), (Standard ''M64'', 6669000),
      (Standard ''M64ls'', 5415000), (Standard ''M64m'', 10337000), (Standard ''M64ms'', 10337000), (Standard ''M64s_v2'', 6459000),
      (Standard ''M96s_1_v3'', 0), (Standard ''NC24r'', 3960000), (Standard ''NC48ads_A100_v4'', 7346000),
      (Standard ''NC4as_T4_v3'', 526000), (Standard ''NC6'', 900000), (Standard ''NC64as_T4_v3'', 4352000),
      (Standard ''NG8ads_V620_v1'', 1095000), (Standard ''NV16as_v4'', 932000), (Standard ''NV4as_v4'', 233000)]"

definition eastus2 :: priceTable where
  "eastus2 = eastus2_1 @ eastus2_2"

subsection \<open>francecentral\<close>

definition francecentral_1 :: priceTable where
  "francecentral_1 =
     [(''Basic_A2'', 101000), (''Basic_A4'', 449000), (''Dadsv5_Type1'', 7454000), (''Dasv4_Type2'', 6160000), (''Ddsv4_Type 1'', 4646000),
      (''Dsv3_Type4'', 6170000), (''Dsv4_Type2'', 5914000), (''Easv4_Type1'', 7814000), (''Easv5_Type1'', 7022000),
      (''Ebsv5-Type1'', 6213000), (''Edsv4_Type2'', 7064000), (''Edsv5_Type1'', 8923000), (''Esv3_Type3'', 5043000),
      (''Esv4_Type2'', 6838000), (''Esv5_Type1'', 7814000), (''Fsv2_Type2'', 4000000), (''Fsv2_Type4'', 5333000),
      (''Lsv3_Type1'', 8888000), (''Mdsmv2MedMem _Type1'', 36992000), (''Ms_Type1'', 18483000), (''NVsv3_Type1'', 6270000),
      (Standard ''A0'', 22000), (Standard ''A1'', 66000), (Standard ''A2'', 132000), (Standard ''A2_v2'', 106000),
      (Standard ''A2m_v2'', 178000), (Standard ''A3'', 264000), (Standard ''A5'', 297000), (Standard ''A6'', 594000),
      (Standard ''A7'', 1188000), (Standard ''A8m_v2'', 786000), (Standard ''B12ms'', 566000), (Standard ''B16als_v2'', 676000),
      (Standard ''B16as_v2'', 680000), (Standard ''B16ls_v2'', 742000), (Standard ''B16pls_v2'', 606000), (Standard ''B16ps_v2'', 602000),
      (Standard ''B16s_v2'', 755000), (Standard ''B1ls'', 5900), (Standard ''B1s'', 11800), (Standard ''B2als_v2'', 51700),
      (Standard ''B2as_v2'', 94200), (Standard ''B2ats_v2'', 10600), (Standard ''B2ls_v2'', 56400), (Standard ''B2ps_v2'', 84400),
      (Standard ''B2pts_v2'', 9400), (Standard ''B2s'', 47200), (Standard ''B2s_v2'', 104000), (Standard ''B2ts_v2'', 11800),
      (Standard ''B32as_v2'', 1360000), (Standard ''B32ls_v2'', 1337000), (Standard ''B32s_v2'', 1510000), (Standard ''B4als_v2'', 169000),
      (Standard ''B4as_v2'', 188000), (Standard ''B4ls_v2'', 167000), (Standard ''B4pls_v2'', 133000), (Standard ''B4ps_v2'', 169000),
      (Standard ''B4s_v2'', 207000), (Standard ''B8als_v2'', 338000), (Standard ''B8ms'', 378000), (Standard ''B8pls_v2'', 303000),
      (Standard ''B8s_v2'', 378000), (Standard ''D12_v2'', 469000), (Standard ''D14_v2'', 1874000), (Standard ''D15i_v2'', 2343000),
      (Standard ''D16_v3'', 896000), (Standard ''D16a_v4'', 896000), (Standard ''D16as_v4'', 896000), (Standard ''D16ls_v5'', 808000),
      (Standard ''D16pls_v5'', 648000), (Standard ''D16ps_v5'', 720000), (Standard ''D2_v2'', 175000), (Standard ''D2_v5'', 112000),
      (Standard ''D2ads_v5'', 121000), (Standard ''D2as_v4'', 112000), (Standard ''D2as_v5'', 101000), (Standard ''D2ds_v4'', 132000),
      (Standard ''D2ds_v5'', 132000), (Standard ''D2lds_v5'', 115000), (Standard ''D2ls_v5'', 101000), (Standard ''D2plds_v5'', 92500),
      (Standard ''D2ps_v5'', 90000), (Standard ''D2s_v3'', 112000), (Standard ''D32-16s_v3'', 1792000), (Standard ''D32_v3'', 1792000),
      (Standard ''D32_v5'', 1792000), (Standard ''D32a_v4'', 1792000), (Standard ''D32ads_v5'', 1936000), (Standard ''D32as_v4'', 1792000),
      (Standard ''D32as_v5'', 1616000), (Standard ''D32d_v4'', 2112000), (Standard ''D32ds_v4'', 2112000),
      (Standard ''D32ds_v5'', 2112000), (Standard ''D32pds_v5'', 1696000), (Standard ''D32pls_v5'', 1296000),
      (Standard ''D32ps_v5'', 1440000), (Standard ''D32s_v3'', 1792000), (Standard ''D32s_v4'', 1792000), (Standard ''D48_v3'', 2688000),
      (Standard ''D48_v4'', 2688000), (Standard ''D48_v5'', 2688000), (Standard ''D48a_v4'', 2688000), (Standard ''D48as_v5'', 2424000),
      (Standard ''D48d_v5'', 3168000), (Standard ''D48ds_v5'', 3168000), (Standard ''D48plds_v5'', 2220000),
      (Standard ''D48ps_v5'', 2160000), (Standard ''D48s_v3'', 2688000), (Standard ''D48s_v4'', 2688000), (Standard ''D4_v2'', 702000),
      (Standard ''D4_v3'', 224000), (Standard ''D4_v4'', 224000), (Standard ''D4_v5'', 224000), (Standard ''D4a_v4'', 224000),
      (Standard ''D4ads_v5'', 242000)]"

definition francecentral_2 :: priceTable where
  "francecentral_2 =
     [(Standard ''D4as_v4'', 224000), (Standard ''D4ds_v4'', 264000), (Standard ''D4ds_v5'', 264000), (Standard ''D4ls_v5'', 202000),
      (Standard ''D4ps_v5'', 180000), (Standard ''D5_v2'', 1404000), (Standard ''D64-32s_v3'', 3584000), (Standard ''D64_v4'', 3584000),
      (Standard ''D64_v5'', 3584000), (Standard ''D64a_v4'', 3584000), (Standard ''D64as_v4'', 3584000), (Standard ''D64d_v4'', 4224000),
      (Standard ''D64d_v5'', 4224000), (Standard ''D64lds_v5'', 3680000), (Standard ''D64plds_v5'', 2960000),
      (Standard ''D64pls_v5'', 2592000), (Standard ''D64ps_v5'', 2880000), (Standard ''D64s_v3'', 3584000),
      (Standard ''D64s_v4'', 3584000), (Standard ''D64s_v5'', 3584000), (Standard ''D8_v3'', 448000), (Standard ''D8ads_v5'', 484000),
      (Standard ''D8as_v4'', 448000), (Standard ''D8as_v5'', 404000), (Standard ''D8d_v4'', 528000), (Standard ''D8d_v5'', 528000),
      (Standard ''D8ds_v4'', 528000), (Standard ''D8lds_v5'', 460000), (Standard ''D8plds_v5'', 370000), (Standard ''D8pls_v5'', 324000),
      (Standard ''D8s_v4'', 448000), (Standard ''D8s_v5'', 448000), (Standard ''D96_v5'', 5376000), (Standard ''D96as_v4'', 5376000),
      (Standard ''D96ds_v5'', 6336000), (Standard ''DS11-1_v2'', 234000), (Standard ''DS12-1_v2'', 469000),
      (Standard ''DS12-2_v2'', 469000), (Standard ''DS13-4_v2'', 937000), (Standard ''DS13_v2'', 937000), (Standard ''DS14_v2'', 1874000),
      (Standard ''DS1_v2'', 87700), (Standard ''DS2_v2'', 175000), (Standard ''DS3_v2'', 351000), (Standard ''DS4_v2'', 702000),
      (Standard ''DS5_v2'', 1404000), (Standard ''E104id_v5'', 9667000), (Standard ''E104ids_v5'', 9667000),
      (Standard ''E104is_v5'', 8466000), (Standard ''E112ias_v5'', 8193000), (Standard ''E16-4as_v5'', 1064000),
      (Standard ''E16-4ds_v4'', 1352000), (Standard ''E16-4s_v4'', 1184000), (Standard ''E16-4s_v5'', 1184000),
      (Standard ''E16-8ads_v5'', 1224000), (Standard ''E16-8as_v4'', 1184000), (Standard ''E16-8ds_v4'', 1352000),
      (Standard ''E16-8s_v4'', 1184000), (Standard ''E16-8s_v5'', 1184000), (Standard ''E16a_v4'', 1184000),
      (Standard ''E16ads_v5'', 1224000), (Standard ''E16as_v5'', 1064000), (Standard ''E16bds_v5'', 1580000),
      (Standard ''E16bs_v5'', 1412000), (Standard ''E16d_v5'', 1352000), (Standard ''E16ds_v4'', 1352000),
      (Standard ''E16ds_v5'', 1352000), (Standard ''E16pds_v5'', 1080000), (Standard ''E16ps_v5'', 944000),
      (Standard ''E16s_v5'', 1184000), (Standard ''E20_v5'', 1480000), (Standard ''E20as_v5'', 1330000), (Standard ''E20d_v4'', 1690000),
      (Standard ''E20ds_v4'', 1690000), (Standard ''E20pds_v5'', 1350000), (Standard ''E20ps_v5'', 1180000),
      (Standard ''E20s_v5'', 1480000), (Standard ''E2_v3'', 156000), (Standard ''E2_v5'', 148000), (Standard ''E2a_v4'', 148000),
      (Standard ''E2as_v5'', 133000), (Standard ''E2d_v4'', 169000), (Standard ''E2d_v5'', 169000), (Standard ''E2ds_v5'', 169000),
      (Standard ''E2ps_v5'', 118000), (Standard ''E32-16ds_v5'', 2704000), (Standard ''E32-8ads_v5'', 2448000),
      (Standard ''E32-8as_v5'', 2128000), (Standard ''E32-8ds_v4'', 2704000), (Standard ''E32-8ds_v5'', 2704000),
      (Standard ''E32-8s_v3'', 2496000), (Standard ''E32-8s_v4'', 2368000), (Standard ''E32-8s_v5'', 2368000),
      (Standard ''E32a_v4'', 2368000), (Standard ''E32as_v4'', 2368000), (Standard ''E32as_v5'', 2128000),
      (Standard ''E32bds_v5'', 3160000), (Standard ''E32bs_v5'', 2824000), (Standard ''E32d_v5'', 2704000),
      (Standard ''E32ps_v5'', 1888000), (Standard ''E32s_v5'', 2368000), (Standard ''E4-2as_v4'', 296000),
      (Standard ''E4-2as_v5'', 266000), (Standard ''E4-2ds_v4'', 338000), (Standard ''E48_v3'', 3740000), (Standard ''E48_v5'', 3552000),
      (Standard ''E48a_v4'', 3552000), (Standard ''E48as_v4'', 3552000), (Standard ''E48as_v5'', 3192000),
      (Standard ''E48bds_v5'', 4740000), (Standard ''E48d_v4'', 4056000), (Standard ''E48d_v5'', 4056000),
      (Standard ''E48ds_v5'', 4056000), (Standard ''E48s_v3'', 3740000), (Standard ''E48s_v5'', 3552000)]"

definition francecentral_3 :: priceTable where
  "francecentral_3 =
     [(Standard ''E4_v5'', 296000), (Standard ''E4a_v4'', 296000), (Standard ''E4as_v4'', 296000), (Standard ''E4as_v5'', 266000),
      (Standard ''E4d_v4'', 338000), (Standard ''E4d_v5'', 338000), (Standard ''E4ds_v5'', 338000), (Standard ''E4pds_v5'', 270000),
      (Standard ''E4ps_v5'', 236000), (Standard ''E4s_v3'', 312000), (Standard ''E4s_v4'', 296000), (Standard ''E64-16ads_v5'', 4896000),
      (Standard ''E64-16as_v4'', 4736000), (Standard ''E64-16s_v3'', 4488000), (Standard ''E64-16s_v5'', 4736000),
      (Standard ''E64-32ads_v5'', 4896000), (Standard ''E64-32as_v5'', 4256000), (Standard ''E64-32ds_v4'', 5408000),
      (Standard ''E64-32s_v4'', 4736000), (Standard ''E64-32s_v5'', 4736000), (Standard ''E64_v5'', 4736000),
      (Standard ''E64a_v4'', 4736000), (Standard ''E64as_v5'', 4256000), (Standard ''E64ds_v4'', 5408000),
      (Standard ''E64ds_v5'', 5408000), (Standard ''E64i_v3'', 4488000), (Standard ''E64is_v3'', 4488000), (Standard ''E64s_v3'', 4488000),
      (Standard ''E64s_v4'', 4736000), (Standard ''E64s_v5'', 4736000), (Standard ''E8-2as_v4'', 592000), (Standard ''E8-2ds_v4'', 676000),
      (Standard ''E8-2s_v3'', 624000), (Standard ''E8-2s_v5'', 592000), (Standard ''E8-4ads_v5'', 612000),
      (Standard ''E8-4as_v5'', 532000), (Standard ''E80ids_v4'', 6760000), (Standard ''E80is_v4'', 5920000), (Standard ''E8_v3'', 624000),
      (Standard ''E8a_v4'', 592000), (Standard ''E8as_v4'', 592000), (Standard ''E8as_v5'', 532000), (Standard ''E8bs_v5'', 706000),
      (Standard ''E8ds_v5'', 676000), (Standard ''E8s_v4'', 592000), (Standard ''E8s_v5'', 592000), (Standard ''E96-24as_v4'', 7104000),
      (Standard ''E96-24s_v5'', 7104000), (Standard ''E96-48ads_v5'', 7344000), (Standard ''E96-48as_v4'', 7104000),
      (Standard ''E96-48as_v5'', 6384000), (Standard ''E96-48s_v5'', 7104000), (Standard ''E96_v5'', 7104000),
      (Standard ''E96a_v4'', 7104000), (Standard ''E96ads_v5'', 7344000), (Standard ''E96as_v5'', 6384000),
      (Standard ''E96ds_v5'', 8112000), (Standard ''E96ias_v4'', 7104000), (Standard ''E96ias_v5'', 7022000),
      (Standard ''E96s_v5'', 7104000), (Standard ''F16s'', 808000), (Standard ''F16s_v2'', 808000), (Standard ''F2'', 101000),
      (Standard ''F4'', 202000), (Standard ''F48s_v2'', 2424000), (Standard ''F4s'', 202000), (Standard ''F4s_v2'', 202000),
      (Standard ''F72s_v2'', 3636000), (Standard ''F8'', 404000), (Standard ''F8s'', 404000), (Standard ''F8s_v2'', 404000),
      (Standard ''L16as_v3'', 1448000), (Standard ''L16s_v2'', 1448000), (Standard ''L32as_v3'', 2896000), (Standard ''L32s_v2'', 2896000),
      (Standard ''L48as_v3'', 4344000), (Standard ''L64s_v2'', 5792000), (Standard ''L64s_v3'', 6464000), (Standard ''L80as_v3'', 7240000),
      (Standard ''L80s_v2'', 7240000), (Standard ''L8as_v3'', 724000), (Standard ''L8s_v2'', 724000), (Standard ''L96ias_v3'', 9557000),
      (Standard ''M128'', 16806000), (Standard ''M128-32ms'', 33627000), (Standard ''M128dms_v2'', 33629000),
      (Standard ''M128ms'', 33627000), (Standard ''M128ms_v2'', 33099000), (Standard ''M128s'', 16806000), (Standard ''M16-4ms'', 3872000),
      (Standard ''M16s'', 3008000), (Standard ''M192idms_v2'', 40400000), (Standard ''M192ids_v2'', 20200000),
      (Standard ''M32-8ms'', 7744000), (Standard ''M32ms'', 7744000), (Standard ''M32ms_v2'', 7611000), (Standard ''M32s'', 4202000),
      (Standard ''M32ts'', 3175000), (Standard ''M64dms_v2'', 13028000), (Standard ''M64ls'', 6351000), (Standard ''M64ms'', 13025000),
      (Standard ''M64ms_v2'', 12763000), (Standard ''M64s'', 8403000), (Standard ''M64s_v2'', 8138000), (Standard ''M8-4ms'', 1936000),
      (Standard ''M8ms'', 1936000), (Standard ''NC12s_v3'', 7160000), (Standard ''NC24ads_A100_v4'', 4591000),
      (Standard ''NC24rs_v3'', 15753000), (Standard ''NC24s_v3'', 14321000), (Standard ''NC6s_v3'', 3580000),
      (Standard ''NC96ads_A100_v4'', 18365000), (Standard ''ND96amsr_A100_v4'', 40962000), (Standard ''NV36ads_A10_v5'', 4000000),
      (Standard ''NV48s_v3'', 5700000)]"

definition francecentral :: priceTable where
  "francecentral = francecentral_1 @ francecentral_2 @ francecentral_3"

subsection \<open>francesouth\<close>

definition francesouth_1 :: priceTable where
  "francesouth_1 =
     [(''Basic_A0'', 26000), (''Basic_A1'', 33800), (''Basic_A2'', 131300), (''Basic_A3'', 291200), (''Basic_A4'', 583700),
      (''Dadsv5_Type1'', 9690000), (''Dasv4_Type1'', 8008000), (''Dasv4_Type2'', 8008000), (''Dasv5_Type1'', 8088000),
      (''Ddsv4_Type 1'', 6046000), (''Ddsv4_Type2'', 7180000), (''Ddsv5_Type1'', 9060000), (''Dsv3_Type3'', 6422000),
      (''Dsv3_Type4'', 8028000), (''Dsv4_Type1'', 6420000), (''Dsv4_Type2'', 8026000), (''Dsv5_Type1'', 8008000),
      (''Eadsv5_Type1'', 10502000), (''Easv4_Type1'', 10159000), (''Easv4_Type2'', 10159000), (''Easv5_Type1'', 9129000),
      (''Ebdsv5-Type1'', 9038000), (''Ebsv5-Type1'', 8077000), (''Edsv4_Type 1'', 7705000), (''Edsv4_Type2'', 9149000),
      (''Edsv5_Type1'', 11600000), (''Esv3_Type3'', 6531000), (''Esv3_Type4'', 8849000), (''Esv4_Type1'', 6742000),
      (''Esv4_Type2'', 8848000), (''Esv5_Type1'', 10159000), (''Fsv2 Type3'', 6538000), (''Fsv2_Type2'', 5116000),
      (''Fsv2_Type4'', 7106000), (''Lasv3_Type1'', 10353000), (''Lsv3_Type1'', 11554000), (Standard ''A0'', 28600),
      (Standard ''A1'', 85800), (Standard ''A1_v2'', 65000), (Standard ''A2'', 171600), (Standard ''A2_v2'', 137800),
      (Standard ''A2m_v2'', 231400), (Standard ''A3'', 343200), (Standard ''A4'', 686400), (Standard ''A4_v2'', 288600),
      (Standard ''A4m_v2'', 486200), (Standard ''A5'', 386100), (Standard ''A6'', 772200), (Standard ''A7'', 1544400),
      (Standard ''A8_v2'', 607100), (Standard ''A8m_v2'', 1021800), (Standard ''B12ms'', 811000), (Standard ''B16als_v2'', 783000),
      (Standard ''B16as_v2'', 958000), (Standard ''B16ls_v2'', 943000), (Standard ''B16ms'', 1082000), (Standard ''B16s_v2'', 1055000),
      (Standard ''B1ls'', 8450), (Standard ''B1ms'', 33800), (Standard ''B1s'', 16900), (Standard ''B20ms'', 1352000),
      (Standard ''B2als_v2'', 55300), (Standard ''B2as_v2'', 120000), (Standard ''B2ats_v2'', 13800), (Standard ''B2ls_v2'', 70600),
      (Standard ''B2ms'', 135000), (Standard ''B2s'', 67600), (Standard ''B2s_v2'', 123000), (Standard ''B2ts_v2'', 24500),
      (Standard ''B32als_v2'', 1713000), (Standard ''B32as_v2'', 1768000), (Standard ''B32ls_v2'', 1739000),
      (Standard ''B32s_v2'', 1964000), (Standard ''B4als_v2'', 196000), (Standard ''B4as_v2'', 239000), (Standard ''B4ls_v2'', 217000),
      (Standard ''B4ms'', 270000), (Standard ''B4s_v2'', 245000), (Standard ''B8als_v2'', 428000), (Standard ''B8as_v2'', 442000),
      (Standard ''B8ls_v2'', 472000), (Standard ''B8ms'', 541000), (Standard ''B8s_v2'', 528000), (Standard ''D11_v2'', 304000),
      (Standard ''D12_v2'', 608000), (Standard ''D13_v2'', 1217000), (Standard ''D14_v2'', 2434000), (Standard ''D15_v2'', 3042000),
      (Standard ''D15i_v2'', 3042000), (Standard ''D16_v3'', 1164800), (Standard ''D16_v4'', 1167000), (Standard ''D16_v5'', 1165000),
      (Standard ''D16a_v4'', 1165000), (Standard ''D16ads_v5'', 1258000), (Standard ''D16as_v4'', 1165000),
      (Standard ''D16as_v5'', 1050000), (Standard ''D16d_v4'', 1374000), (Standard ''D16d_v5'', 1373000), (Standard ''D16ds_v4'', 1374000),
      (Standard ''D16ds_v5'', 1373000), (Standard ''D16lds_v5'', 1196000), (Standard ''D16ls_v5'', 1050000),
      (Standard ''D16s_v3'', 1164800), (Standard ''D16s_v4'', 1167000), (Standard ''D16s_v5'', 1165000), (Standard ''D1_v2'', 114000),
      (Standard ''D2_v2'', 228000), (Standard ''D2_v3'', 145600), (Standard ''D2_v4'', 146000), (Standard ''D2_v5'', 146000),
      (Standard ''D2a_v4'', 146000), (Standard ''D2ads_v5'', 157000), (Standard ''D2as_v4'', 146000), (Standard ''D2as_v5'', 131000),
      (Standard ''D2d_v4'', 172000), (Standard ''D2d_v5'', 172000), (Standard ''D2ds_v4'', 172000), (Standard ''D2ds_v5'', 172000),
      (Standard ''D2lds_v5'', 150000), (Standard ''D2ls_v5'', 131000), (Standard ''D2s_v3'', 145600), (Standard ''D2s_v4'', 146000),
      (Standard ''D2s_v5'', 146000), (Standard ''D32-16s_v3'', 2329600), (Standard ''D32-8s_v3'', 2329600),
      (Standard ''D32_v3'', 2329600)]"

definition francesouth_2 :: priceTable where
  "francesouth_2 =
     [(Standard ''D32_v4'', 2335000), (Standard ''D32_v5'', 2330000), (Standard ''D32a_v4'', 2330000), (Standard ''D32ads_v5'', 2517000),
      (Standard ''D32as_v4'', 2330000), (Standard ''D32as_v5'', 2101000), (Standard ''D32d_v4'', 2748000), (Standard ''D32d_v5'', 2746000),
      (Standard ''D32ds_v4'', 2748000), (Standard ''D32ds_v5'', 2746000), (Standard ''D32lds_v5'', 2392000),
      (Standard ''D32ls_v5'', 2101000), (Standard ''D32s_v3'', 2329600), (Standard ''D32s_v4'', 2335000), (Standard ''D32s_v5'', 2330000),
      (Standard ''D3_v2'', 456000), (Standard ''D48_v3'', 3494000), (Standard ''D48_v4'', 3502000), (Standard ''D48_v5'', 3494000),
      (Standard ''D48a_v4'', 3494000), (Standard ''D48ads_v5'', 3775000), (Standard ''D48as_v4'', 3494000),
      (Standard ''D48as_v5'', 3151000), (Standard ''D48d_v4'', 4122000), (Standard ''D48d_v5'', 4118000), (Standard ''D48ds_v4'', 4122000),
      (Standard ''D48ds_v5'', 4118000), (Standard ''D48lds_v5'', 3588000), (Standard ''D48ls_v5'', 3151000),
      (Standard ''D48s_v3'', 3494000), (Standard ''D48s_v4'', 3502000), (Standard ''D48s_v5'', 3494000), (Standard ''D4_v2'', 912000),
      (Standard ''D4_v3'', 291000), (Standard ''D4_v4'', 292000), (Standard ''D4_v5'', 291000), (Standard ''D4a_v4'', 291000),
      (Standard ''D4ads_v5'', 315000), (Standard ''D4as_v4'', 291000), (Standard ''D4as_v5'', 263000), (Standard ''D4d_v4'', 344000),
      (Standard ''D4d_v5'', 343000), (Standard ''D4ds_v4'', 344000), (Standard ''D4ds_v5'', 343000), (Standard ''D4lds_v5'', 299000),
      (Standard ''D4ls_v5'', 263000), (Standard ''D4s_v3'', 291000), (Standard ''D4s_v4'', 292000), (Standard ''D4s_v5'', 291000),
      (Standard ''D5_v2'', 1824000), (Standard ''D64-16s_v3'', 4659000), (Standard ''D64-32s_v3'', 4659000),
      (Standard ''D64_v3'', 4659000), (Standard ''D64_v4'', 4669000), (Standard ''D64_v5'', 4659000), (Standard ''D64a_v4'', 4659000),
      (Standard ''D64ads_v5'', 5034000), (Standard ''D64as_v4'', 4659000), (Standard ''D64as_v5'', 4202000),
      (Standard ''D64d_v4'', 5496000), (Standard ''D64d_v5'', 5491000), (Standard ''D64ds_v4'', 5496000), (Standard ''D64ds_v5'', 5491000),
      (Standard ''D64lds_v5'', 4784000), (Standard ''D64ls_v5'', 4202000), (Standard ''D64s_v3'', 4659000),
      (Standard ''D64s_v4'', 4669000), (Standard ''D64s_v5'', 4659000), (Standard ''D8_v3'', 582000), (Standard ''D8_v4'', 584000),
      (Standard ''D8_v5'', 582000), (Standard ''D8a_v4'', 582000), (Standard ''D8ads_v5'', 629000), (Standard ''D8as_v4'', 582000),
      (Standard ''D8as_v5'', 525000), (Standard ''D8d_v4'', 687000), (Standard ''D8d_v5'', 686000), (Standard ''D8ds_v4'', 687000),
      (Standard ''D8ds_v5'', 686000), (Standard ''D8lds_v5'', 598000), (Standard ''D8ls_v5'', 525000), (Standard ''D8s_v3'', 582000),
      (Standard ''D8s_v4'', 584000), (Standard ''D8s_v5'', 582000), (Standard ''D96_v5'', 6989000), (Standard ''D96a_v4'', 6989000),
      (Standard ''D96ads_v5'', 7550000), (Standard ''D96as_v4'', 6989000), (Standard ''D96as_v5'', 6302000),
      (Standard ''D96d_v5'', 8237000), (Standard ''D96ds_v5'', 8237000), (Standard ''D96lds_v5'', 7176000),
      (Standard ''D96ls_v5'', 6302000), (Standard ''D96s_v5'', 6989000), (Standard ''DS11-1_v2'', 304000), (Standard ''DS11_v2'', 304000),
      (Standard ''DS12-1_v2'', 608000), (Standard ''DS12-2_v2'', 608000), (Standard ''DS12_v2'', 608000),
      (Standard ''DS13-2_v2'', 1217000), (Standard ''DS13-4_v2'', 1217000), (Standard ''DS13_v2'', 1217000),
      (Standard ''DS14-4_v2'', 2434000), (Standard ''DS14-8_v2'', 2434000), (Standard ''DS14_v2'', 2434000),
      (Standard ''DS15_v2'', 3042000), (Standard ''DS15i_v2'', 3042000), (Standard ''DS1_v2'', 114000), (Standard ''DS2_v2'', 228000),
      (Standard ''DS3_v2'', 456000), (Standard ''DS4_v2'', 912000), (Standard ''DS5_v2'', 1824000), (Standard ''E104i_v5'', 11005000),
      (Standard ''E104id_v5'', 12567000), (Standard ''E104ids_v5'', 12567000), (Standard ''E104is_v5'', 11005000),
      (Standard ''E112iads_v5'', 12252000), (Standard ''E112ias_v5'', 10651000), (Standard ''E112ibds_v5'', 15816000),
      (Standard ''E112ibs_v5'', 14134000), (Standard ''E16-4ads_v5'', 1591000), (Standard ''E16-4as_v4'', 1539000),
      (Standard ''E16-4as_v5'', 1383000), (Standard ''E16-4ds_v4'', 1751000), (Standard ''E16-4ds_v5'', 1758000),
      (Standard ''E16-4s_v3'', 1621000)]"

definition francesouth_3 :: priceTable where
  "francesouth_3 =
     [(Standard ''E16-4s_v4'', 1532000), (Standard ''E16-4s_v5'', 1539000), (Standard ''E16-8ads_v5'', 1591000),
      (Standard ''E16-8as_v4'', 1539000), (Standard ''E16-8as_v5'', 1383000), (Standard ''E16-8ds_v4'', 1751000),
      (Standard ''E16-8ds_v5'', 1758000), (Standard ''E16-8s_v3'', 1621000), (Standard ''E16-8s_v4'', 1532000),
      (Standard ''E16-8s_v5'', 1539000), (Standard ''E16_v3'', 1621000), (Standard ''E16_v4'', 1532000), (Standard ''E16_v5'', 1539000),
      (Standard ''E16a_v4'', 1539000), (Standard ''E16ads_v5'', 1591000), (Standard ''E16as_v4'', 1539000),
      (Standard ''E16as_v5'', 1383000), (Standard ''E16bds_v5'', 2054000), (Standard ''E16bs_v5'', 1836000),
      (Standard ''E16d_v4'', 1751000), (Standard ''E16d_v5'', 1758000), (Standard ''E16ds_v4'', 1751000), (Standard ''E16ds_v5'', 1758000),
      (Standard ''E16s_v3'', 1621000), (Standard ''E16s_v4'', 1532000), (Standard ''E16s_v5'', 1539000), (Standard ''E20_v3'', 2028000),
      (Standard ''E20_v4'', 1915000), (Standard ''E20_v5'', 1924000), (Standard ''E20a_v4'', 1924000), (Standard ''E20ads_v5'', 1989000),
      (Standard ''E20as_v4'', 1924000), (Standard ''E20as_v5'', 1729000), (Standard ''E20d_v4'', 2189000), (Standard ''E20d_v5'', 2197000),
      (Standard ''E20ds_v4'', 2189000), (Standard ''E20ds_v5'', 2197000), (Standard ''E20s_v3'', 2028000), (Standard ''E20s_v4'', 1915000),
      (Standard ''E20s_v5'', 1924000), (Standard ''E2_v3'', 202800), (Standard ''E2_v4'', 192000), (Standard ''E2_v5'', 192000),
      (Standard ''E2a_v4'', 192000), (Standard ''E2ads_v5'', 199000), (Standard ''E2as_v4'', 192000), (Standard ''E2as_v5'', 173000),
      (Standard ''E2bds_v5'', 257000), (Standard ''E2bs_v5'', 229000), (Standard ''E2d_v4'', 219000), (Standard ''E2d_v5'', 220000),
      (Standard ''E2ds_v4'', 219000), (Standard ''E2ds_v5'', 220000), (Standard ''E2s_v3'', 202800), (Standard ''E2s_v4'', 192000),
      (Standard ''E2s_v5'', 192000), (Standard ''E32-16ads_v5'', 3182000), (Standard ''E32-16as_v4'', 3078000),
      (Standard ''E32-16as_v5'', 2766000), (Standard ''E32-16ds_v4'', 3502000), (Standard ''E32-16ds_v5'', 3515000),
      (Standard ''E32-16s_v3'', 3244800), (Standard ''E32-16s_v4'', 3064000), (Standard ''E32-16s_v5'', 3078000),
      (Standard ''E32-8ads_v5'', 3182000), (Standard ''E32-8as_v4'', 3078000), (Standard ''E32-8as_v5'', 2766000),
      (Standard ''E32-8ds_v4'', 3502000), (Standard ''E32-8ds_v5'', 3515000), (Standard ''E32-8s_v3'', 3244800),
      (Standard ''E32-8s_v4'', 3064000), (Standard ''E32-8s_v5'', 3078000), (Standard ''E32_v3'', 3244800), (Standard ''E32_v4'', 3064000),
      (Standard ''E32_v5'', 3078000), (Standard ''E32a_v4'', 3078000), (Standard ''E32ads_v5'', 3182000), (Standard ''E32as_v4'', 3078000),
      (Standard ''E32as_v5'', 2766000), (Standard ''E32bds_v5'', 4108000), (Standard ''E32bs_v5'', 3671000),
      (Standard ''E32d_v4'', 3502000), (Standard ''E32d_v5'', 3515000), (Standard ''E32ds_v4'', 3502000), (Standard ''E32ds_v5'', 3515000),
      (Standard ''E32s_v3'', 3244800), (Standard ''E32s_v4'', 3064000), (Standard ''E32s_v5'', 3078000), (Standard ''E4-2ads_v5'', 398000),
      (Standard ''E4-2as_v4'', 385000), (Standard ''E4-2as_v5'', 346000), (Standard ''E4-2ds_v4'', 438000),
      (Standard ''E4-2ds_v5'', 439000), (Standard ''E4-2s_v3'', 405600), (Standard ''E4-2s_v4'', 383000), (Standard ''E4-2s_v5'', 385000),
      (Standard ''E48_v3'', 4863000), (Standard ''E48_v4'', 4596000), (Standard ''E48_v5'', 4618000), (Standard ''E48a_v4'', 4618000),
      (Standard ''E48ads_v5'', 4774000), (Standard ''E48as_v4'', 4618000), (Standard ''E48as_v5'', 4150000),
      (Standard ''E48bds_v5'', 6162000), (Standard ''E48bs_v5'', 5507000), (Standard ''E48d_v4'', 5253000),
      (Standard ''E48d_v5'', 5273000), (Standard ''E48ds_v4'', 5253000), (Standard ''E48ds_v5'', 5273000), (Standard ''E48s_v3'', 4863000),
      (Standard ''E48s_v4'', 4596000), (Standard ''E48s_v5'', 4618000), (Standard ''E4_v3'', 405600), (Standard ''E4_v4'', 383000),
      (Standard ''E4_v5'', 385000), (Standard ''E4a_v4'', 385000), (Standard ''E4ads_v5'', 398000), (Standard ''E4as_v4'', 385000),
      (Standard ''E4as_v5'', 346000), (Standard ''E4bds_v5'', 514000), (Standard ''E4bs_v5'', 459000), (Standard ''E4d_v4'', 438000),
      (Standard ''E4d_v5'', 439000), (Standard ''E4ds_v4'', 438000), (Standard ''E4ds_v5'', 439000), (Standard ''E4s_v3'', 405600)]"

definition francesouth_4 :: priceTable where
  "francesouth_4 =
     [(Standard ''E4s_v4'', 383000), (Standard ''E4s_v5'', 385000), (Standard ''E64-16ads_v5'', 6365000),
      (Standard ''E64-16as_v4'', 6157000), (Standard ''E64-16as_v5'', 5533000), (Standard ''E64-16ds_v4'', 7004000),
      (Standard ''E64-16ds_v5'', 7030000), (Standard ''E64-16s_v3'', 5835000), (Standard ''E64-16s_v4'', 6129000),
      (Standard ''E64-16s_v5'', 6157000), (Standard ''E64-32ads_v5'', 6365000), (Standard ''E64-32as_v4'', 6157000),
      (Standard ''E64-32as_v5'', 5533000), (Standard ''E64-32ds_v4'', 7004000), (Standard ''E64-32ds_v5'', 7030000),
      (Standard ''E64-32s_v3'', 5835000), (Standard ''E64-32s_v4'', 6129000), (Standard ''E64-32s_v5'', 6157000),
      (Standard ''E64_v3'', 5835000), (Standard ''E64_v4'', 6129000), (Standard ''E64_v5'', 6157000), (Standard ''E64a_v4'', 6157000),
      (Standard ''E64ads_v5'', 6365000), (Standard ''E64as_v4'', 6157000), (Standard ''E64as_v5'', 5533000),
      (Standard ''E64bds_v5'', 8216000), (Standard ''E64bs_v5'', 7342000), (Standard ''E64d_v4'', 7004000),
      (Standard ''E64d_v5'', 7030000), (Standard ''E64ds_v4'', 7004000), (Standard ''E64ds_v5'', 7030000), (Standard ''E64i_v3'', 5835000),
      (Standard ''E64is_v3'', 5835000), (Standard ''E64s_v3'', 5835000), (Standard ''E64s_v4'', 6129000), (Standard ''E64s_v5'', 6157000),
      (Standard ''E8-2ads_v5'', 796000), (Standard ''E8-2as_v4'', 770000), (Standard ''E8-2as_v5'', 692000),
      (Standard ''E8-2ds_v4'', 876000), (Standard ''E8-2ds_v5'', 879000), (Standard ''E8-2s_v3'', 810000), (Standard ''E8-2s_v4'', 766000),
      (Standard ''E8-2s_v5'', 770000), (Standard ''E8-4ads_v5'', 796000), (Standard ''E8-4as_v4'', 770000),
      (Standard ''E8-4as_v5'', 692000), (Standard ''E8-4ds_v4'', 876000), (Standard ''E8-4ds_v5'', 879000),
      (Standard ''E8-4s_v3'', 810000), (Standard ''E8-4s_v4'', 766000), (Standard ''E8-4s_v5'', 770000), (Standard ''E80ids_v4'', 8755000),
      (Standard ''E80is_v4'', 7661000), (Standard ''E8_v3'', 810000), (Standard ''E8_v4'', 766000), (Standard ''E8_v5'', 770000),
      (Standard ''E8a_v4'', 770000), (Standard ''E8ads_v5'', 796000), (Standard ''E8as_v4'', 770000), (Standard ''E8as_v5'', 692000),
      (Standard ''E8bds_v5'', 1027000), (Standard ''E8bs_v5'', 918000), (Standard ''E8d_v4'', 876000), (Standard ''E8d_v5'', 879000),
      (Standard ''E8ds_v4'', 876000), (Standard ''E8ds_v5'', 879000), (Standard ''E8s_v3'', 810000), (Standard ''E8s_v4'', 766000),
      (Standard ''E8s_v5'', 770000), (Standard ''E96-24ads_v5'', 9547000), (Standard ''E96-24as_v4'', 9235000),
      (Standard ''E96-24as_v5'', 8299000), (Standard ''E96-24ds_v5'', 10546000), (Standard ''E96-24s_v5'', 9235000),
      (Standard ''E96-48ads_v5'', 9547000), (Standard ''E96-48as_v4'', 9235000), (Standard ''E96-48as_v5'', 8299000),
      (Standard ''E96-48ds_v5'', 10546000), (Standard ''E96-48s_v5'', 9235000), (Standard ''E96_v5'', 9235000),
      (Standard ''E96a_v4'', 9235000), (Standard ''E96ads_v5'', 9547000), (Standard ''E96as_v4'', 9235000),
      (Standard ''E96as_v5'', 8299000), (Standard ''E96bds_v5'', 12324000), (Standard ''E96bs_v5'', 11014000),
      (Standard ''E96d_v5'', 10546000), (Standard ''E96ds_v5'', 10546000), (Standard ''E96iads_v5'', 10502000),
      (Standard ''E96ias_v4'', 9235000), (Standard ''E96ias_v5'', 9129000), (Standard ''E96s_v5'', 9235000), (Standard ''F1'', 65600),
      (Standard ''F16'', 1050000), (Standard ''F16s'', 1050000), (Standard ''F16s_v2'', 1047000), (Standard ''F1s'', 65600),
      (Standard ''F2'', 131000), (Standard ''F2s'', 131000), (Standard ''F2s_v2'', 131000), (Standard ''F32s_v2'', 2094000),
      (Standard ''F4'', 262000), (Standard ''F48s_v2'', 3142000), (Standard ''F4s'', 262000), (Standard ''F4s_v2'', 262000),
      (Standard ''F64s_v2'', 4189000), (Standard ''F72s_v2'', 4712000), (Standard ''F8'', 525000), (Standard ''F8s'', 525000),
      (Standard ''F8s_v2'', 524000), (Standard ''L16as_v3'', 1882000), (Standard ''L16s_v3'', 2101000), (Standard ''L32as_v3'', 3765000),
      (Standard ''L32s_v3'', 4202000), (Standard ''L48as_v3'', 5647000), (Standard ''L48s_v3'', 6302000), (Standard ''L64as_v3'', 7530000),
      (Standard ''L64s_v3'', 8403000), (Standard ''L80as_v3'', 9412000), (Standard ''L80s_v3'', 10504000), (Standard ''L8as_v3'', 941000),
      (Standard ''L8s_v3'', 1050000)]"

definition francesouth :: priceTable where
  "francesouth = francesouth_1 @ francesouth_2 @ francesouth_3 @ francesouth_4"

subsection \<open>germanynorth\<close>

definition germanynorth_1 :: priceTable where
  "germanynorth_1 =
     [(''Dasv4_Type1'', 8222000), (''Dasv4_Type2'', 8222000), (''Dasv5_Type1'', 8328000), (''Ddsv5_Type1'', 9335000),
      (''Dsv3_Type3'', 6549000), (''Dsv5_Type1'', 8223000), (''Eadsv5_Type1'', 10845000), (''Easv4_Type1'', 10433000),
      (''Ebdsv5-Type1'', 9106000), (''Ebsv5-Type1'', 8145000), (''Edsv5_Type1'', 11875000), (''Esv3_Type3'', 6660000),
      (''Esv5_Type1'', 10433000), (''Fsv2_Type2'', 4993000), (''Lasv3_Type1'', 10639000), (''Lsv3_Type1'', 11898000),
      (Standard ''A2m_v2'', 161000), (Standard ''A4_v2'', 213000), (Standard ''A8_v2'', 426000), (Standard ''B12ms'', 749000),
      (Standard ''B16als_v2'', 869000), (Standard ''B16as_v2'', 972000), (Standard ''B16ls_v2'', 958000), (Standard ''B16ms'', 998000),
      (Standard ''B16s_v2'', 1072000), (Standard ''B1ls'', 7800), (Standard ''B20ms'', 1248000), (Standard ''B2als_v2'', 56200),
      (Standard ''B2as_v2'', 122000), (Standard ''B2ats_v2'', 23200), (Standard ''B2ls_v2'', 71600), (Standard ''B2ms'', 125000),
      (Standard ''B2s'', 62400), (Standard ''B2s_v2'', 134000), (Standard ''B2ts_v2'', 24800), (Standard ''B32as_v2'', 1797000),
      (Standard ''B32ls_v2'', 1915000), (Standard ''B32s_v2'', 1997000), (Standard ''B4als_v2'', 199000), (Standard ''B4as_v2'', 243000),
      (Standard ''B4ls_v2'', 221000), (Standard ''B4ms'', 250000), (Standard ''B4s_v2'', 250000), (Standard ''B8als_v2'', 435000),
      (Standard ''B8as_v2'', 449000), (Standard ''B8ls_v2'', 479000), (Standard ''B8ms'', 499000), (Standard ''B8s_v2'', 536000),
      (Standard ''D12_v2'', 432000), (Standard ''D14_v2'', 1726000), (Standard ''D15_v2'', 2158000), (Standard ''D15i_v2'', 2158000),
      (Standard ''D16_v3'', 1196000), (Standard ''D16_v5'', 1196000), (Standard ''D16a_v4'', 1196000), (Standard ''D16ads_v5'', 1300000),
      (Standard ''D16as_v4'', 1196000), (Standard ''D16d_v5'', 1414000), (Standard ''D16ds_v4'', 1408000),
      (Standard ''D16ds_v5'', 1414000), (Standard ''D16lds_v5'', 1154000), (Standard ''D16ls_v5'', 1009000),
      (Standard ''D16s_v4'', 1196000), (Standard ''D1_v2'', 87100), (Standard ''D2_v3'', 150000), (Standard ''D2_v4'', 150000),
      (Standard ''D2_v5'', 150000), (Standard ''D2ads_v5'', 163000), (Standard ''D2as_v5'', 135000), (Standard ''D2d_v4'', 176000),
      (Standard ''D2d_v5'', 177000), (Standard ''D2ds_v4'', 176000), (Standard ''D2lds_v5'', 144000), (Standard ''D2ls_v5'', 126000),
      (Standard ''D2s_v3'', 150000), (Standard ''D2s_v4'', 150000), (Standard ''D2s_v5'', 150000), (Standard ''D32-16s_v3'', 2392000),
      (Standard ''D32-8s_v3'', 2392000), (Standard ''D32_v3'', 2392000), (Standard ''D32_v4'', 2392000), (Standard ''D32ads_v5'', 2600000),
      (Standard ''D32d_v4'', 2816000), (Standard ''D32ds_v5'', 2829000), (Standard ''D32lds_v5'', 2309000),
      (Standard ''D32ls_v5'', 2018000), (Standard ''D32s_v3'', 2392000), (Standard ''D32s_v4'', 2392000), (Standard ''D48_v4'', 3588000),
      (Standard ''D48_v5'', 3588000), (Standard ''D48ads_v5'', 3900000), (Standard ''D48as_v4'', 3588000), (Standard ''D48d_v4'', 4223000),
      (Standard ''D48ds_v5'', 4243000), (Standard ''D48ls_v5'', 3026000), (Standard ''D48s_v5'', 3588000), (Standard ''D4_v4'', 299000),
      (Standard ''D4_v5'', 299000), (Standard ''D4a_v4'', 299000), (Standard ''D4as_v4'', 299000), (Standard ''D4as_v5'', 270000),
      (Standard ''D4d_v4'', 352000), (Standard ''D4d_v5'', 354000), (Standard ''D4ds_v4'', 352000), (Standard ''D4ds_v5'', 354000),
      (Standard ''D4s_v3'', 299000), (Standard ''D4s_v4'', 299000), (Standard ''D4s_v5'', 299000), (Standard ''D64-16s_v3'', 4784000),
      (Standard ''D64-32s_v3'', 4784000), (Standard ''D64_v3'', 4784000), (Standard ''D64_v5'', 4784000),
      (Standard ''D64ads_v5'', 5200000), (Standard ''D64as_v4'', 4784000), (Standard ''D64as_v5'', 4326000),
      (Standard ''D64d_v4'', 5631000)]"

definition germanynorth_2 :: priceTable where
  "germanynorth_2 =
     [(Standard ''D64ds_v4'', 5631000), (Standard ''D64lds_v5'', 4618000), (Standard ''D64ls_v5'', 4035000),
      (Standard ''D64s_v4'', 4784000), (Standard ''D8_v3'', 598000), (Standard ''D8_v4'', 598000), (Standard ''D8_v5'', 598000),
      (Standard ''D8a_v4'', 598000), (Standard ''D8d_v4'', 704000), (Standard ''D8d_v5'', 707000), (Standard ''D8ds_v5'', 707000),
      (Standard ''D8s_v3'', 598000), (Standard ''D8s_v4'', 598000), (Standard ''D8s_v5'', 598000), (Standard ''D96_v5'', 7176000),
      (Standard ''D96a_v4'', 7176000), (Standard ''D96ads_v5'', 7800000), (Standard ''D96as_v5'', 6490000),
      (Standard ''D96d_v5'', 8486000), (Standard ''D96lds_v5'', 6926000), (Standard ''D96ls_v5'', 6053000),
      (Standard ''D96s_v5'', 7176000), (Standard ''DS11-1_v2'', 216000), (Standard ''DS11_v2'', 216000), (Standard ''DS12-1_v2'', 432000),
      (Standard ''DS12-2_v2'', 432000), (Standard ''DS12_v2'', 432000), (Standard ''DS13-2_v2'', 863000), (Standard ''DS13-4_v2'', 863000),
      (Standard ''DS13_v2'', 863000), (Standard ''DS14-8_v2'', 1726000), (Standard ''DS15_v2'', 2158000), (Standard ''DS15i_v2'', 2158000),
      (Standard ''DS2_v2'', 174000), (Standard ''DS4_v2'', 697000), (Standard ''DS5_v2'', 1394000), (Standard ''E104i_v5'', 11303000),
      (Standard ''E104ids_v5'', 12864000), (Standard ''E104is_v5'', 11303000), (Standard ''E112ias_v5'', 10971000),
      (Standard ''E112ibds_v5'', 15936000), (Standard ''E16-4as_v4'', 1581000), (Standard ''E16-4as_v5'', 1425000),
      (Standard ''E16-4ds_v4'', 1807000), (Standard ''E16-4ds_v5'', 1799000), (Standard ''E16-4s_v3'', 1581000),
      (Standard ''E16-4s_v5'', 1581000), (Standard ''E16-8as_v4'', 1581000), (Standard ''E16-8as_v5'', 1425000),
      (Standard ''E16-8ds_v4'', 1807000), (Standard ''E16-8ds_v5'', 1799000), (Standard ''E16-8s_v3'', 1581000),
      (Standard ''E16-8s_v4'', 1581000), (Standard ''E16_v3'', 1581000), (Standard ''E16_v4'', 1581000), (Standard ''E16a_v4'', 1581000),
      (Standard ''E16ads_v5'', 1643000), (Standard ''E16as_v4'', 1581000), (Standard ''E16d_v4'', 1807000),
      (Standard ''E16d_v5'', 1799000), (Standard ''E16ds_v4'', 1807000), (Standard ''E16ds_v5'', 1799000), (Standard ''E16s_v4'', 1581000),
      (Standard ''E20_v3'', 1976000), (Standard ''E20_v4'', 1976000), (Standard ''E20as_v4'', 1976000), (Standard ''E20as_v5'', 1781000),
      (Standard ''E20d_v4'', 2259000), (Standard ''E20d_v5'', 2249000), (Standard ''E20ds_v4'', 2259000), (Standard ''E20ds_v5'', 2249000),
      (Standard ''E20s_v3'', 1976000), (Standard ''E20s_v4'', 1976000), (Standard ''E2_v3'', 198000), (Standard ''E2_v5'', 198000),
      (Standard ''E2a_v4'', 198000), (Standard ''E2ads_v5'', 205000), (Standard ''E2as_v4'', 198000), (Standard ''E2as_v5'', 178000),
      (Standard ''E2bds_v5'', 259000), (Standard ''E2bs_v5'', 231000), (Standard ''E2d_v4'', 226000), (Standard ''E2d_v5'', 225000),
      (Standard ''E2ds_v4'', 226000), (Standard ''E2ds_v5'', 225000), (Standard ''E2s_v3'', 198000), (Standard ''E2s_v5'', 198000),
      (Standard ''E32-16ads_v5'', 3286000), (Standard ''E32-16as_v4'', 3162000), (Standard ''E32-16as_v5'', 2850000),
      (Standard ''E32-16ds_v4'', 3614000), (Standard ''E32-16ds_v5'', 3598000), (Standard ''E32-16s_v3'', 3162000),
      (Standard ''E32-16s_v5'', 3162000), (Standard ''E32-8ads_v5'', 3286000), (Standard ''E32-8as_v4'', 3162000),
      (Standard ''E32-8as_v5'', 2850000), (Standard ''E32-8ds_v4'', 3614000), (Standard ''E32-8ds_v5'', 3598000),
      (Standard ''E32-8s_v3'', 3162000), (Standard ''E32-8s_v4'', 3162000), (Standard ''E32_v3'', 3162000), (Standard ''E32_v4'', 3162000),
      (Standard ''E32_v5'', 3162000), (Standard ''E32a_v4'', 3162000), (Standard ''E32ads_v5'', 3286000), (Standard ''E32as_v4'', 3162000),
      (Standard ''E32as_v5'', 2850000), (Standard ''E32ds_v5'', 3598000), (Standard ''E32s_v4'', 3162000),
      (Standard ''E4-2ads_v5'', 411000), (Standard ''E4-2ds_v4'', 452000), (Standard ''E4-2ds_v5'', 450000),
      (Standard ''E4-2s_v4'', 395000), (Standard ''E4-2s_v5'', 395000), (Standard ''E48_v3'', 4743000)]"

definition germanynorth_3 :: priceTable where
  "germanynorth_3 =
     [(Standard ''E48_v5'', 4742000), (Standard ''E48as_v4'', 4742000), (Standard ''E48bds_v5'', 6209000),
      (Standard ''E48bs_v5'', 5554000), (Standard ''E48d_v5'', 5398000), (Standard ''E48ds_v4'', 5421000), (Standard ''E48s_v3'', 4743000),
      (Standard ''E48s_v4'', 4743000), (Standard ''E48s_v5'', 4742000), (Standard ''E4_v3'', 395000), (Standard ''E4a_v4'', 395000),
      (Standard ''E4ads_v5'', 411000), (Standard ''E4as_v4'', 395000), (Standard ''E4bds_v5'', 517000), (Standard ''E4bs_v5'', 463000),
      (Standard ''E4d_v5'', 450000), (Standard ''E4ds_v4'', 452000), (Standard ''E4ds_v5'', 450000), (Standard ''E4s_v3'', 395000),
      (Standard ''E4s_v5'', 395000), (Standard ''E64-16as_v5'', 5699000), (Standard ''E64-16ds_v4'', 7228000),
      (Standard ''E64-16s_v3'', 5691000), (Standard ''E64-16s_v4'', 6324000), (Standard ''E64-16s_v5'', 6323000),
      (Standard ''E64-32ads_v5'', 6573000), (Standard ''E64-32as_v4'', 6323000), (Standard ''E64-32as_v5'', 5699000),
      (Standard ''E64-32ds_v4'', 7228000), (Standard ''E64-32ds_v5'', 7197000), (Standard ''E64-32s_v3'', 5691000),
      (Standard ''E64-32s_v4'', 6324000), (Standard ''E64_v3'', 5691000), (Standard ''E64_v4'', 6324000), (Standard ''E64_v5'', 6323000),
      (Standard ''E64a_v4'', 6323000), (Standard ''E64as_v4'', 6323000), (Standard ''E64as_v5'', 5699000), (Standard ''E64d_v5'', 7197000),
      (Standard ''E64ds_v4'', 7228000), (Standard ''E64is_v3'', 5691000), (Standard ''E64s_v3'', 5691000), (Standard ''E64s_v4'', 6324000),
      (Standard ''E8-2ads_v5'', 822000), (Standard ''E8-2as_v4'', 790000), (Standard ''E8-2ds_v4'', 903000),
      (Standard ''E8-2ds_v5'', 900000), (Standard ''E8-2s_v4'', 791000), (Standard ''E8-4ads_v5'', 822000),
      (Standard ''E8-4as_v4'', 790000), (Standard ''E8-4as_v5'', 712000), (Standard ''E8-4ds_v4'', 903000),
      (Standard ''E8-4ds_v5'', 900000), (Standard ''E8-4s_v4'', 791000), (Standard ''E80ids_v4'', 9035000), (Standard ''E8_v3'', 790000),
      (Standard ''E8_v4'', 791000), (Standard ''E8ads_v5'', 822000), (Standard ''E8as_v4'', 790000), (Standard ''E8as_v5'', 712000),
      (Standard ''E8bs_v5'', 926000), (Standard ''E8d_v4'', 903000), (Standard ''E8d_v5'', 900000), (Standard ''E8ds_v4'', 903000),
      (Standard ''E8s_v4'', 791000), (Standard ''E8s_v5'', 790000), (Standard ''E96-24as_v5'', 8549000),
      (Standard ''E96-24ds_v5'', 10795000), (Standard ''E96-24s_v5'', 9485000), (Standard ''E96-48as_v4'', 9485000),
      (Standard ''E96-48ds_v5'', 10795000), (Standard ''E96-48s_v5'', 9485000), (Standard ''E96as_v4'', 9485000),
      (Standard ''E96bs_v5'', 11107000), (Standard ''E96d_v5'', 10795000), (Standard ''E96ds_v5'', 10795000),
      (Standard ''E96iads_v5'', 10845000), (Standard ''E96ias_v5'', 9404000), (Standard ''E96s_v5'', 9485000),
      (Standard ''F16s'', 1186000), (Standard ''F16s_v2'', 1009000), (Standard ''F1s'', 74100), (Standard ''F2'', 148000),
      (Standard ''F32s_v2'', 2018000), (Standard ''F48s_v2'', 3027000), (Standard ''F4s'', 296000), (Standard ''F4s_v2'', 252000),
      (Standard ''F64s_v2'', 4035000), (Standard ''F8s'', 593000), (Standard ''L16s_v3'', 2163000), (Standard ''L48as_v3'', 5803000),
      (Standard ''L48s_v3'', 6490000), (Standard ''L64as_v3'', 7738000), (Standard ''L80s_v3'', 10816000), (Standard ''L8as_v3'', 967000),
      (Standard ''M128'', 24276000), (Standard ''M128-32ms'', 48547000), (Standard ''M128-64ms'', 48547000),
      (Standard ''M128s'', 24276000), (Standard ''M16-8ms'', 5593000), (Standard ''M16ms'', 5593000), (Standard ''M32-8ms'', 11186000),
      (Standard ''M32ls'', 4482000), (Standard ''M32s'', 6070000), (Standard ''M32ts'', 4222000), (Standard ''M64'', 12138000),
      (Standard ''M64-32ms'', 18813000), (Standard ''M64m'', 18813000), (Standard ''M64ms'', 18813000), (Standard ''M64s'', 12138000),
      (Standard ''M8-2ms'', 2796000), (Standard ''M8ms'', 2796000), (Standard ''ND96ams_A100_v4'', 55381000),
      (Standard ''ND96amsr_A100_v4'', 55381000)]"

definition germanynorth :: priceTable where
  "germanynorth = germanynorth_1 @ germanynorth_2 @ germanynorth_3"

subsection \<open>germanywestcentral\<close>

definition germanywestcentral_1 :: priceTable where
  "germanywestcentral_1 =
     [(''Dadsv5_Type1'', 7700000), (''Dasv4_Type1'', 6325000), (''Dasv4_Type2'', 6325000), (''Dasv5_Type1'', 6406000),
      (''Ddsv4_Type 1'', 4787000), (''Ddsv4_Type2'', 5685000), (''Ddsv5_Type1'', 7181000), (''Dsv3_Type3'', 5086000),
      (''Dsv3_Type4'', 6357000), (''Dsv4_Type1'', 5060000), (''Dsv4_Type2'', 6072000), (''Dsv5_Type1'', 6325000),
      (''Eadsv5_Type1'', 8342000), (''Easv4_Type1'', 8026000), (''Easv4_Type2'', 8026000), (''Easv5_Type1'', 7234000),
      (''Ebdsv5-Type1'', 7005000), (''Ebsv5-Type1'', 6266000), (''Edsv4_Type 1'', 6090000), (''Edsv4_Type2'', 7231000),
      (''Edsv5_Type1'', 9134000), (''Esv3_Type3'', 5162000), (''Esv3_Type4'', 6994000), (''Esv4_Type1'', 5350000),
      (''Esv4_Type2'', 7022000), (''Esv5_Type1'', 8026000), (''Fsv2 Type3'', 4481000), (''Fsv2_Type2'', 3841000),
      (''Fsv2_Type4'', 5122000), (''Lsv2_Type1'', 8184000), (''Lsv3_Type1'', 9152000), (''Mdsmv2MedMem _Type1'', 41103000),
      (''Mdsv2MedMem_Type1'', 20544000), (''Ms_Type1'', 20536000), (''Msm_Type1'', 41108000), (''Msmv2MedMem Type1'', 40455000),
      (''Msmv2_Type1'', 130880000), (''Msv2MedMem Type1'', 19896000), (''Msv2_Type1'', 65446000), (Standard ''A1_v2'', 41000),
      (Standard ''A2_v2'', 87000), (Standard ''A2m_v2'', 124000), (Standard ''A4_v2'', 183000), (Standard ''A4m_v2'', 260000),
      (Standard ''A8_v2'', 383000), (Standard ''A8m_v2'', 546000), (Standard ''B12ms'', 576000), (Standard ''B16als_v2'', 612000),
      (Standard ''B16as_v2'', 691000), (Standard ''B16ls_v2'', 754000), (Standard ''B16ms'', 768000), (Standard ''B16pls_v2'', 544000),
      (Standard ''B16ps_v2'', 614000), (Standard ''B16s_v2'', 842000), (Standard ''B1ls'', 6000), (Standard ''B1ms'', 24000),
      (Standard ''B1s'', 12000), (Standard ''B20ms'', 960000), (Standard ''B2als_v2'', 43200), (Standard ''B2as_v2'', 95600),
      (Standard ''B2ats_v2'', 20000), (Standard ''B2ls_v2'', 48000), (Standard ''B2ms'', 96000), (Standard ''B2pls_v2'', 47600),
      (Standard ''B2ps_v2'', 86000), (Standard ''B2pts_v2'', 18800), (Standard ''B2s'', 48000), (Standard ''B2s_v2'', 96000),
      (Standard ''B2ts_v2'', 21200), (Standard ''B32als_v2'', 1371000), (Standard ''B32as_v2'', 1382000), (Standard ''B32ls_v2'', 1507000),
      (Standard ''B32s_v2'', 1536000), (Standard ''B4als_v2'', 171000), (Standard ''B4as_v2'', 191000), (Standard ''B4ls_v2'', 188000),
      (Standard ''B4ms'', 192000), (Standard ''B4pls_v2'', 136000), (Standard ''B4ps_v2'', 154000), (Standard ''B4s_v2'', 192000),
      (Standard ''B8als_v2'', 343000), (Standard ''B8as_v2'', 346000), (Standard ''B8ls_v2'', 377000), (Standard ''B8ms'', 384000),
      (Standard ''B8pls_v2'', 309000), (Standard ''B8ps_v2'', 307000), (Standard ''B8s_v2'', 384000), (Standard ''D11_v2'', 166000),
      (Standard ''D12_v2'', 332000), (Standard ''D13_v2'', 664000), (Standard ''D14_v2'', 1328000), (Standard ''D15_v2'', 1660000),
      (Standard ''D15i_v2'', 1660000), (Standard ''D16_v3'', 920000), (Standard ''D16_v4'', 920000), (Standard ''D16_v5'', 920000),
      (Standard ''D16ads_v5'', 1000000), (Standard ''D16as_v5'', 832000), (Standard ''D16d_v4'', 1088000), (Standard ''D16d_v5'', 1088000),
      (Standard ''D16ds_v4'', 1088000), (Standard ''D16ds_v5'', 1088000), (Standard ''D16lds_v5'', 888000),
      (Standard ''D16ls_v5'', 776000), (Standard ''D16pds_v5'', 872000), (Standard ''D16plds_v5'', 712000),
      (Standard ''D16pls_v5'', 621000), (Standard ''D16ps_v5'', 736000), (Standard ''D16s_v3'', 920000), (Standard ''D16s_v4'', 920000),
      (Standard ''D16s_v5'', 920000), (Standard ''D1_v2'', 67000), (Standard ''D2_v2'', 133000), (Standard ''D2_v3'', 115000),
      (Standard ''D2_v4'', 115000), (Standard ''D2_v5'', 115000), (Standard ''D2ads_v5'', 125000), (Standard ''D2as_v5'', 104000),
      (Standard ''D2d_v4'', 136000), (Standard ''D2d_v5'', 136000)]"

definition germanywestcentral_2 :: priceTable where
  "germanywestcentral_2 =
     [(Standard ''D2ds_v4'', 136000), (Standard ''D2ds_v5'', 136000), (Standard ''D2lds_v5'', 111000), (Standard ''D2ls_v5'', 97000),
      (Standard ''D2pds_v5'', 109000), (Standard ''D2plds_v5'', 89000), (Standard ''D2pls_v5'', 77600), (Standard ''D2ps_v5'', 92000),
      (Standard ''D2s_v3'', 115000), (Standard ''D2s_v4'', 115000), (Standard ''D2s_v5'', 115000), (Standard ''D32-16s_v3'', 1840000),
      (Standard ''D32-8s_v3'', 1840000), (Standard ''D32_v3'', 1840000), (Standard ''D32_v4'', 1840000), (Standard ''D32_v5'', 1840000),
      (Standard ''D32ads_v5'', 2000000), (Standard ''D32as_v5'', 1664000), (Standard ''D32d_v4'', 2176000),
      (Standard ''D32d_v5'', 2176000), (Standard ''D32ds_v4'', 2176000), (Standard ''D32ds_v5'', 2176000),
      (Standard ''D32lds_v5'', 1776000), (Standard ''D32ls_v5'', 1552000), (Standard ''D32pds_v5'', 1744000),
      (Standard ''D32plds_v5'', 1424000), (Standard ''D32pls_v5'', 1242000), (Standard ''D32ps_v5'', 1472000),
      (Standard ''D32s_v3'', 1840000), (Standard ''D32s_v4'', 1840000), (Standard ''D32s_v5'', 1840000), (Standard ''D3_v2'', 266000),
      (Standard ''D48_v3'', 2760000), (Standard ''D48_v4'', 2760000), (Standard ''D48_v5'', 2760000), (Standard ''D48ads_v5'', 3000000),
      (Standard ''D48as_v5'', 2496000), (Standard ''D48d_v4'', 3264000), (Standard ''D48d_v5'', 3264000), (Standard ''D48ds_v4'', 3264000),
      (Standard ''D48ds_v5'', 3264000), (Standard ''D48lds_v5'', 2664000), (Standard ''D48ls_v5'', 2328000),
      (Standard ''D48pds_v5'', 2616000), (Standard ''D48plds_v5'', 2136000), (Standard ''D48pls_v5'', 1862000),
      (Standard ''D48ps_v5'', 2208000), (Standard ''D48s_v3'', 2760000), (Standard ''D48s_v4'', 2760000), (Standard ''D48s_v5'', 2760000),
      (Standard ''D4_v2'', 532000), (Standard ''D4_v3'', 230000), (Standard ''D4_v4'', 230000), (Standard ''D4_v5'', 230000),
      (Standard ''D4ads_v5'', 250000), (Standard ''D4as_v5'', 208000), (Standard ''D4d_v4'', 272000), (Standard ''D4d_v5'', 272000),
      (Standard ''D4ds_v4'', 272000), (Standard ''D4ds_v5'', 272000), (Standard ''D4lds_v5'', 222000), (Standard ''D4ls_v5'', 194000),
      (Standard ''D4pds_v5'', 218000), (Standard ''D4plds_v5'', 178000), (Standard ''D4pls_v5'', 155000), (Standard ''D4ps_v5'', 184000),
      (Standard ''D4s_v3'', 230000), (Standard ''D4s_v4'', 230000), (Standard ''D4s_v5'', 230000), (Standard ''D5_v2'', 1064000),
      (Standard ''D64-16s_v3'', 3680000), (Standard ''D64-32s_v3'', 3680000), (Standard ''D64_v3'', 3680000),
      (Standard ''D64_v4'', 3680000), (Standard ''D64_v5'', 3680000), (Standard ''D64ads_v5'', 4000000), (Standard ''D64as_v5'', 3328000),
      (Standard ''D64d_v4'', 4352000), (Standard ''D64d_v5'', 4352000), (Standard ''D64ds_v4'', 4352000), (Standard ''D64ds_v5'', 4352000),
      (Standard ''D64lds_v5'', 3552000), (Standard ''D64ls_v5'', 3104000), (Standard ''D64pds_v5'', 3488000),
      (Standard ''D64plds_v5'', 2848000), (Standard ''D64pls_v5'', 2483000), (Standard ''D64ps_v5'', 2944000),
      (Standard ''D64s_v3'', 3680000), (Standard ''D64s_v4'', 3680000), (Standard ''D64s_v5'', 3680000), (Standard ''D8_v3'', 460000),
      (Standard ''D8_v4'', 460000), (Standard ''D8_v5'', 460000), (Standard ''D8ads_v5'', 500000), (Standard ''D8as_v5'', 416000),
      (Standard ''D8d_v4'', 544000), (Standard ''D8d_v5'', 544000), (Standard ''D8ds_v4'', 544000), (Standard ''D8ds_v5'', 544000),
      (Standard ''D8lds_v5'', 444000), (Standard ''D8ls_v5'', 388000), (Standard ''D8pds_v5'', 436000), (Standard ''D8plds_v5'', 356000),
      (Standard ''D8pls_v5'', 310000), (Standard ''D8ps_v5'', 368000), (Standard ''D8s_v3'', 460000), (Standard ''D8s_v4'', 460000),
      (Standard ''D8s_v5'', 460000), (Standard ''D96_v5'', 5520000), (Standard ''D96ads_v5'', 6000000), (Standard ''D96as_v5'', 4992000),
      (Standard ''D96d_v5'', 6528000), (Standard ''D96ds_v5'', 6528000), (Standard ''D96lds_v5'', 5328000),
      (Standard ''D96ls_v5'', 4656000), (Standard ''D96s_v5'', 5520000), (Standard ''DC16ads_v5'', 1000000),
      (Standard ''DC16as_v5'', 832000), (Standard ''DC2ads_v5'', 125000), (Standard ''DC2as_v5'', 104000)]"

definition germanywestcentral_3 :: priceTable where
  "germanywestcentral_3 =
     [(Standard ''DC32ads_v5'', 2000000), (Standard ''DC32as_v5'', 1664000), (Standard ''DC48ads_v5'', 3000000),
      (Standard ''DC48as_v5'', 2496000), (Standard ''DC4ads_v5'', 250000), (Standard ''DC4as_v5'', 208000),
      (Standard ''DC64ads_v5'', 4000000), (Standard ''DC64as_v5'', 3328000), (Standard ''DC8ads_v5'', 500000),
      (Standard ''DC8as_v5'', 416000), (Standard ''DC96ads_v5'', 6000000), (Standard ''DC96as_v5'', 4992000),
      (Standard ''DS11-1_v2'', 166000), (Standard ''DS11_v2'', 166000), (Standard ''DS12-1_v2'', 332000), (Standard ''DS12-2_v2'', 332000),
      (Standard ''DS12_v2'', 332000), (Standard ''DS13-2_v2'', 664000), (Standard ''DS13-4_v2'', 664000), (Standard ''DS13_v2'', 664000),
      (Standard ''DS14-4_v2'', 1328000), (Standard ''DS14-8_v2'', 1328000), (Standard ''DS14_v2'', 1328000),
      (Standard ''DS15_v2'', 1660000), (Standard ''DS15i_v2'', 1660000), (Standard ''DS1_v2'', 67000), (Standard ''DS2_v2'', 133000),
      (Standard ''DS3_v2'', 266000), (Standard ''DS4_v2'', 532000), (Standard ''DS5_v2'', 1064000), (Standard ''E104i_v5'', 8694000),
      (Standard ''E104id_v5'', 9896000), (Standard ''E104ids_v5'', 9896000), (Standard ''E104is_v5'', 8694000),
      (Standard ''E112iads_v5'', 9733000), (Standard ''E112ias_v5'', 8439000), (Standard ''E112ibds_v5'', 12258000),
      (Standard ''E112ibs_v5'', 10965000), (Standard ''E16-4ads_v5'', 1264000), (Standard ''E16-4as_v5'', 1096000),
      (Standard ''E16-4ds_v4'', 1384000), (Standard ''E16-4ds_v5'', 1384000), (Standard ''E16-4s_v3'', 1216000),
      (Standard ''E16-4s_v4'', 1216000), (Standard ''E16-4s_v5'', 1216000), (Standard ''E16-8ads_v5'', 1264000),
      (Standard ''E16-8as_v5'', 1096000), (Standard ''E16-8ds_v4'', 1384000), (Standard ''E16-8ds_v5'', 1384000),
      (Standard ''E16-8s_v3'', 1216000), (Standard ''E16-8s_v4'', 1216000), (Standard ''E16-8s_v5'', 1216000),
      (Standard ''E16_v3'', 1216000), (Standard ''E16_v4'', 1216000), (Standard ''E16_v5'', 1216000), (Standard ''E16ads_v5'', 1264000),
      (Standard ''E16as_v5'', 1096000), (Standard ''E16bds_v5'', 1592000), (Standard ''E16bs_v5'', 1424000),
      (Standard ''E16d_v4'', 1384000), (Standard ''E16d_v5'', 1384000), (Standard ''E16ds_v4'', 1384000), (Standard ''E16ds_v5'', 1384000),
      (Standard ''E16pds_v5'', 1104000), (Standard ''E16ps_v5'', 973000), (Standard ''E16s_v3'', 1216000), (Standard ''E16s_v4'', 1216000),
      (Standard ''E16s_v5'', 1216000), (Standard ''E20_v3'', 1520000), (Standard ''E20_v4'', 1520000), (Standard ''E20_v5'', 1520000),
      (Standard ''E20ads_v5'', 1580000), (Standard ''E20as_v5'', 1370000), (Standard ''E20d_v4'', 1730000),
      (Standard ''E20d_v5'', 1730000), (Standard ''E20ds_v4'', 1730000), (Standard ''E20ds_v5'', 1730000),
      (Standard ''E20pds_v5'', 1380000), (Standard ''E20ps_v5'', 1216000), (Standard ''E20s_v3'', 1520000),
      (Standard ''E20s_v4'', 1520000), (Standard ''E20s_v5'', 1520000), (Standard ''E2_v3'', 152000), (Standard ''E2_v4'', 152000),
      (Standard ''E2_v5'', 152000), (Standard ''E2ads_v5'', 158000), (Standard ''E2as_v5'', 137000), (Standard ''E2bds_v5'', 199000),
      (Standard ''E2bs_v5'', 178000), (Standard ''E2d_v4'', 173000), (Standard ''E2d_v5'', 173000), (Standard ''E2ds_v4'', 173000),
      (Standard ''E2ds_v5'', 173000), (Standard ''E2pds_v5'', 138000), (Standard ''E2ps_v5'', 122000), (Standard ''E2s_v3'', 152000),
      (Standard ''E2s_v4'', 152000), (Standard ''E2s_v5'', 152000), (Standard ''E32-16ads_v5'', 2528000),
      (Standard ''E32-16as_v5'', 2192000), (Standard ''E32-16ds_v4'', 2768000), (Standard ''E32-16ds_v5'', 2768000),
      (Standard ''E32-16s_v3'', 2432000), (Standard ''E32-16s_v4'', 2432000), (Standard ''E32-16s_v5'', 2432000),
      (Standard ''E32-8ads_v5'', 2528000), (Standard ''E32-8as_v5'', 2192000), (Standard ''E32-8ds_v4'', 2768000),
      (Standard ''E32-8ds_v5'', 2768000), (Standard ''E32-8s_v3'', 2432000), (Standard ''E32-8s_v4'', 2432000),
      (Standard ''E32-8s_v5'', 2432000), (Standard ''E32_v3'', 2432000), (Standard ''E32_v4'', 2432000), (Standard ''E32_v5'', 2432000),
      (Standard ''E32ads_v5'', 2528000), (Standard ''E32as_v5'', 2192000), (Standard ''E32bds_v5'', 3184000),
      (Standard ''E32bs_v5'', 2848000), (Standard ''E32d_v4'', 2768000)]"

definition germanywestcentral_4 :: priceTable where
  "germanywestcentral_4 =
     [(Standard ''E32d_v5'', 2768000), (Standard ''E32ds_v4'', 2768000), (Standard ''E32ds_v5'', 2768000),
      (Standard ''E32pds_v5'', 2208000), (Standard ''E32ps_v5'', 1946000), (Standard ''E32s_v3'', 2432000),
      (Standard ''E32s_v4'', 2432000), (Standard ''E32s_v5'', 2432000), (Standard ''E4-2ads_v5'', 316000),
      (Standard ''E4-2as_v5'', 274000), (Standard ''E4-2ds_v4'', 346000), (Standard ''E4-2ds_v5'', 346000),
      (Standard ''E4-2s_v3'', 304000), (Standard ''E4-2s_v4'', 304000), (Standard ''E4-2s_v5'', 304000), (Standard ''E48_v3'', 3648000),
      (Standard ''E48_v4'', 3648000), (Standard ''E48_v5'', 3648000), (Standard ''E48ads_v5'', 3792000), (Standard ''E48as_v5'', 3288000),
      (Standard ''E48bds_v5'', 4776000), (Standard ''E48bs_v5'', 4272000), (Standard ''E48d_v4'', 4152000),
      (Standard ''E48d_v5'', 4152000), (Standard ''E48ds_v4'', 4152000), (Standard ''E48ds_v5'', 4152000), (Standard ''E48s_v3'', 3648000),
      (Standard ''E48s_v4'', 3648000), (Standard ''E48s_v5'', 3648000), (Standard ''E4_v3'', 304000), (Standard ''E4_v4'', 304000),
      (Standard ''E4_v5'', 304000), (Standard ''E4ads_v5'', 316000), (Standard ''E4as_v5'', 274000), (Standard ''E4bds_v5'', 398000),
      (Standard ''E4bs_v5'', 356000), (Standard ''E4d_v4'', 346000), (Standard ''E4d_v5'', 346000), (Standard ''E4ds_v4'', 346000),
      (Standard ''E4ds_v5'', 346000), (Standard ''E4pds_v5'', 276000), (Standard ''E4ps_v5'', 243000), (Standard ''E4s_v3'', 304000),
      (Standard ''E4s_v4'', 304000), (Standard ''E4s_v5'', 304000), (Standard ''E64-16ads_v5'', 5056000),
      (Standard ''E64-16as_v5'', 4384000), (Standard ''E64-16ds_v4'', 5536000), (Standard ''E64-16ds_v5'', 5536000),
      (Standard ''E64-16s_v3'', 4378000), (Standard ''E64-16s_v4'', 4864000), (Standard ''E64-16s_v5'', 4864000),
      (Standard ''E64-32ads_v5'', 5056000), (Standard ''E64-32as_v5'', 4384000), (Standard ''E64-32ds_v4'', 5536000),
      (Standard ''E64-32ds_v5'', 5536000), (Standard ''E64-32s_v3'', 4378000), (Standard ''E64-32s_v4'', 4864000),
      (Standard ''E64-32s_v5'', 4864000), (Standard ''E64_v3'', 4378000), (Standard ''E64_v4'', 4864000), (Standard ''E64_v5'', 4864000),
      (Standard ''E64ads_v5'', 5056000), (Standard ''E64as_v5'', 4384000), (Standard ''E64bds_v5'', 6368000),
      (Standard ''E64bs_v5'', 5696000), (Standard ''E64d_v4'', 5536000), (Standard ''E64d_v5'', 5536000), (Standard ''E64ds_v4'', 5536000),
      (Standard ''E64ds_v5'', 5536000), (Standard ''E64i_v3'', 4378000), (Standard ''E64is_v3'', 4378000), (Standard ''E64s_v3'', 4378000),
      (Standard ''E64s_v4'', 4864000), (Standard ''E64s_v5'', 4864000), (Standard ''E8-2ads_v5'', 632000),
      (Standard ''E8-2as_v5'', 548000), (Standard ''E8-2ds_v4'', 692000), (Standard ''E8-2ds_v5'', 692000),
      (Standard ''E8-2s_v3'', 608000), (Standard ''E8-2s_v4'', 608000), (Standard ''E8-2s_v5'', 608000), (Standard ''E8-4ads_v5'', 632000),
      (Standard ''E8-4as_v5'', 548000), (Standard ''E8-4ds_v4'', 692000), (Standard ''E8-4ds_v5'', 692000),
      (Standard ''E8-4s_v3'', 608000), (Standard ''E8-4s_v4'', 608000), (Standard ''E8-4s_v5'', 608000), (Standard ''E80ids_v4'', 6920000),
      (Standard ''E80is_v4'', 6080000), (Standard ''E8_v3'', 608000), (Standard ''E8_v4'', 608000), (Standard ''E8_v5'', 608000),
      (Standard ''E8ads_v5'', 632000), (Standard ''E8as_v5'', 548000), (Standard ''E8bds_v5'', 796000), (Standard ''E8bs_v5'', 712000),
      (Standard ''E8d_v4'', 692000), (Standard ''E8d_v5'', 692000), (Standard ''E8ds_v4'', 692000), (Standard ''E8ds_v5'', 692000),
      (Standard ''E8pds_v5'', 552000), (Standard ''E8ps_v5'', 486000), (Standard ''E8s_v3'', 608000), (Standard ''E8s_v4'', 608000),
      (Standard ''E8s_v5'', 608000), (Standard ''E96-24ads_v5'', 7584000), (Standard ''E96-24as_v5'', 6576000),
      (Standard ''E96-24ds_v5'', 8304000), (Standard ''E96-24s_v5'', 7296000), (Standard ''E96-48ads_v5'', 7584000),
      (Standard ''E96-48as_v5'', 6576000), (Standard ''E96-48ds_v5'', 8304000), (Standard ''E96-48s_v5'', 7296000),
      (Standard ''E96_v5'', 7296000), (Standard ''E96ads_v5'', 7584000), (Standard ''E96as_v5'', 6576000),
      (Standard ''E96bds_v5'', 9552000), (Standard ''E96bs_v5'', 8544000)]"

definition germanywestcentral_5 :: priceTable where
  "germanywestcentral_5 =
     [(Standard ''E96d_v5'', 8304000), (Standard ''E96ds_v5'', 8304000), (Standard ''E96iads_v5'', 8342000),
      (Standard ''E96ias_v5'', 7234000), (Standard ''E96s_v5'', 7296000), (Standard ''EC16ads_v5'', 1264000),
      (Standard ''EC16as_v5'', 1096000), (Standard ''EC20ads_v5'', 1580000), (Standard ''EC20as_v5'', 1370000),
      (Standard ''EC2ads_v5'', 158000), (Standard ''EC2as_v5'', 137000), (Standard ''EC32ads_v5'', 2528000),
      (Standard ''EC32as_v5'', 2192000), (Standard ''EC48ads_v5'', 3792000), (Standard ''EC48as_v5'', 3288000),
      (Standard ''EC4ads_v5'', 316000), (Standard ''EC4as_v5'', 274000), (Standard ''EC64ads_v5'', 5056000),
      (Standard ''EC64as_v5'', 4384000), (Standard ''EC8ads_v5'', 632000), (Standard ''EC8as_v5'', 548000),
      (Standard ''EC96ads_v5'', 7584000), (Standard ''EC96as_v5'', 6576000), (Standard ''EC96iads_v5'', 8342000),
      (Standard ''EC96ias_v5'', 7234000), (Standard ''F1'', 57000), (Standard ''F16'', 909000), (Standard ''F16s'', 909000),
      (Standard ''F16s_v2'', 776000), (Standard ''F1s'', 57000), (Standard ''F2'', 114000), (Standard ''F2s'', 114000),
      (Standard ''F2s_v2'', 97000), (Standard ''F32s_v2'', 1552000), (Standard ''F4'', 227000), (Standard ''F48s_v2'', 2328000),
      (Standard ''F4s'', 227000), (Standard ''F4s_v2'', 194000), (Standard ''F64s_v2'', 3104000), (Standard ''F72s_v2'', 3492000),
      (Standard ''F8'', 454000), (Standard ''F8s'', 454000), (Standard ''F8s_v2'', 388000), (Standard ''L16s_v2'', 1488000),
      (Standard ''L16s_v3'', 1664000), (Standard ''L32s_v2'', 2976000), (Standard ''L32s_v3'', 3328000), (Standard ''L48s_v2'', 4464000),
      (Standard ''L48s_v3'', 4992000), (Standard ''L64s_v2'', 5952000), (Standard ''L64s_v3'', 6656000), (Standard ''L80s_v2'', 7440000),
      (Standard ''L80s_v3'', 8320000), (Standard ''L8s_v2'', 744000), (Standard ''L8s_v3'', 832000), (Standard ''M128'', 18674000),
      (Standard ''M128-32ms'', 37344000), (Standard ''M128-64ms'', 37344000), (Standard ''M128dms_v2'', 37366000),
      (Standard ''M128ds_v2'', 18676000), (Standard ''M128m'', 37344000), (Standard ''M128ms'', 37344000),
      (Standard ''M128ms_v2'', 36777000), (Standard ''M128s'', 18674000), (Standard ''M128s_v2'', 18087000),
      (Standard ''M16-4ms'', 4302000), (Standard ''M16-8ms'', 4302000), (Standard ''M16ms'', 4302000), (Standard ''M16s'', 3342000),
      (Standard ''M192idms_v2'', 44889000), (Standard ''M192ids_v2'', 22445000), (Standard ''M192ims_v2'', 44300000),
      (Standard ''M192is_v2'', 21856000), (Standard ''M208-104ms_v2'', 53544000), (Standard ''M208-104s_v2'', 26772000),
      (Standard ''M208-52ms_v2'', 53544000), (Standard ''M208-52s_v2'', 26772000), (Standard ''M208ms_v2'', 53544000),
      (Standard ''M208s_v2'', 26772000), (Standard ''M32-16ms'', 8604000), (Standard ''M32-8ms'', 8604000),
      (Standard ''M32dms_v2'', 8604000), (Standard ''M32ls'', 3448000), (Standard ''M32ms'', 8604000), (Standard ''M32ms_v2'', 8457000),
      (Standard ''M32s'', 4669000), (Standard ''M32ts'', 3248000), (Standard ''M416-104ms_v2'', 118980000),
      (Standard ''M416-104s_v2'', 59496000), (Standard ''M416-208ms_v2'', 118980000), (Standard ''M416-208s_v2'', 59496000),
      (Standard ''M416is_v2'', 59496000), (Standard ''M416ms_v2'', 118980000), (Standard ''M416s_8_v2'', 79750000),
      (Standard ''M416s_v2'', 59496000), (Standard ''M64'', 9337000), (Standard ''M64-16ms'', 14472000), (Standard ''M64-32ms'', 14472000),
      (Standard ''M64dms_v2'', 14476000), (Standard ''M64ds_v2'', 9337000), (Standard ''M64ls'', 6498000), (Standard ''M64m'', 14472000),
      (Standard ''M64ms'', 14472000), (Standard ''M64ms_v2'', 14181000), (Standard ''M64s'', 9337000), (Standard ''M64s_v2'', 9042000),
      (Standard ''M8-2ms'', 2151000), (Standard ''M8-4ms'', 2151000), (Standard ''M8ms'', 2151000), (Standard ''NC16as_T4_v3'', 1504000),
      (Standard ''NC4as_T4_v3'', 658000), (Standard ''NC64as_T4_v3'', 5428000), (Standard ''NC8as_T4_v3'', 939000),
      (Standard ''NV12ads_A10_v5'', 1180000), (Standard ''NV18ads_A10_v5'', 2080000), (Standard ''NV36adms_A10_v5'', 5876000),
      (Standard ''NV36ads_A10_v5'', 4160000), (Standard ''NV6ads_A10_v5'', 590000), (Standard ''NV72ads_A10_v5'', 8476000)]"

definition germanywestcentral :: priceTable where
  "germanywestcentral = germanywestcentral_1 @ germanywestcentral_2 @ germanywestcentral_3 @ germanywestcentral_4 @ germanywestcentral_5"

subsection \<open>The lists are well formed\<close>

lemma centralus_1_ok: "part_ok (''Basic_A0'') centralus_1 (Standard ''D16ds_v4'')"
  unfolding centralus_1_def by (simp only: eval_part)

lemma centralus_2_ok: "part_ok (Standard ''D16ds_v4'') centralus_2 (Standard ''D8_v3'')"
  unfolding centralus_2_def by (simp only: eval_part)

lemma centralus_3_ok: "part_ok (Standard ''D8_v3'') centralus_3 (Standard ''E16-4s_v3'')"
  unfolding centralus_3_def by (simp only: eval_part)

lemma centralus_4_ok: "part_ok (Standard ''E16-4s_v3'') centralus_4 (Standard ''E4as_v5'')"
  unfolding centralus_4_def by (simp only: eval_part)

lemma centralus_5_ok: "part_ok (Standard ''E4as_v5'') centralus_5 (Standard ''EC64as_v5'')"
  unfolding centralus_5_def by (simp only: eval_part)

lemma centralus_6_ok: "last_ok (Standard ''EC64as_v5'') centralus_6"
  unfolding centralus_6_def by (simp only: eval_part)

lemma centralus_ok: "table_ok centralus"
  unfolding centralus_def by (rule last_ok_table [OF part_join [OF centralus_1_ok part_join [OF centralus_2_ok part_join [OF centralus_3_ok part_join [OF centralus_4_ok part_join [OF centralus_5_ok centralus_6_ok]]]]]])

lemma eastasia_1_ok: "part_ok (''Basic_A0'') eastasia_1 (Standard ''D2_v5'')"
  unfolding eastasia_1_def by (simp only: eval_part)

lemma eastasia_2_ok: "part_ok (Standard ''D2_v5'') eastasia_2 (Standard ''D96as_v5'')"
  unfolding eastasia_2_def by (simp only: eval_part)

lemma eastasia_3_ok: "part_ok (Standard ''D96as_v5'') eastasia_3 (Standard ''E32-16s_v5'')"
  unfolding eastasia_3_def by (simp only: eval_part)

lemma eastasia_4_ok: "part_ok (Standard ''E32-16s_v5'') eastasia_4 (Standard ''E96-24as_v4'')"
  unfolding eastasia_4_def by (simp only: eval_part)

lemma eastasia_5_ok: "last_ok (Standard ''E96-24as_v4'') eastasia_5"
  unfolding eastasia_5_def by (simp only: eval_part)

lemma eastasia_ok: "table_ok eastasia"
  unfolding eastasia_def by (rule last_ok_table [OF part_join [OF eastasia_1_ok part_join [OF eastasia_2_ok part_join [OF eastasia_3_ok part_join [OF eastasia_4_ok eastasia_5_ok]]]]])

lemma eastus_1_ok: "part_ok (''Basic_A0'') eastus_1 (Standard ''D16ls_v5'')"
  unfolding eastus_1_def by (simp only: eval_part)

lemma eastus_2_ok: "part_ok (Standard ''D16ls_v5'') eastus_2 (Standard ''D8ps_v5'')"
  unfolding eastus_2_def by (simp only: eval_part)

lemma eastus_3_ok: "part_ok (Standard ''D8ps_v5'') eastus_3 (Standard ''E16s_v4'')"
  unfolding eastus_3_def by (simp only: eval_part)

lemma eastus_4_ok: "part_ok (Standard ''E16s_v4'') eastus_4 (Standard ''E64ds_v5'')"
  unfolding eastus_4_def by (simp only: eval_part)

lemma eastus_5_ok: "part_ok (Standard ''E64ds_v5'') eastus_5 (Standard ''HB176-24rs_v4'')"
  unfolding eastus_5_def by (simp only: eval_part)

lemma eastus_6_ok: "last_ok (Standard ''HB176-24rs_v4'') eastus_6"
  unfolding eastus_6_def by (simp only: eval_part)

lemma eastus_ok: "table_ok eastus"
  unfolding eastus_def by (rule last_ok_table [OF part_join [OF eastus_1_ok part_join [OF eastus_2_ok part_join [OF eastus_3_ok part_join [OF eastus_4_ok part_join [OF eastus_5_ok eastus_6_ok]]]]]])

lemma eastus2_1_ok: "part_ok (''Dasv4_Type2'') eastus2_1 (Standard ''E16-8as_v4'')"
  unfolding eastus2_1_def by (simp only: eval_part)

lemma eastus2_2_ok: "last_ok (Standard ''E16-8as_v4'') eastus2_2"
  unfolding eastus2_2_def by (simp only: eval_part)

lemma eastus2_ok: "table_ok eastus2"
  unfolding eastus2_def by (rule last_ok_table [OF part_join [OF eastus2_1_ok eastus2_2_ok]])

lemma francecentral_1_ok: "part_ok (''Basic_A2'') francecentral_1 (Standard ''D4as_v4'')"
  unfolding francecentral_1_def by (simp only: eval_part)

lemma francecentral_2_ok: "part_ok (Standard ''D4as_v4'') francecentral_2 (Standard ''E4_v5'')"
  unfolding francecentral_2_def by (simp only: eval_part)

lemma francecentral_3_ok: "last_ok (Standard ''E4_v5'') francecentral_3"
  unfolding francecentral_3_def by (simp only: eval_part)

lemma francecentral_ok: "table_ok francecentral"
  unfolding francecentral_def by (rule last_ok_table [OF part_join [OF francecentral_1_ok part_join [OF francecentral_2_ok francecentral_3_ok]]])

lemma francesouth_1_ok: "part_ok (''Basic_A0'') francesouth_1 (Standard ''D32_v4'')"
  unfolding francesouth_1_def by (simp only: eval_part)

lemma francesouth_2_ok: "part_ok (Standard ''D32_v4'') francesouth_2 (Standard ''E16-4s_v4'')"
  unfolding francesouth_2_def by (simp only: eval_part)

lemma francesouth_3_ok: "part_ok (Standard ''E16-4s_v4'') francesouth_3 (Standard ''E4s_v4'')"
  unfolding francesouth_3_def by (simp only: eval_part)

lemma francesouth_4_ok: "last_ok (Standard ''E4s_v4'') francesouth_4"
  unfolding francesouth_4_def by (simp only: eval_part)

lemma francesouth_ok: "table_ok francesouth"
  unfolding francesouth_def by (rule last_ok_table [OF part_join [OF francesouth_1_ok part_join [OF francesouth_2_ok part_join [OF francesouth_3_ok francesouth_4_ok]]]])

lemma germanynorth_1_ok: "part_ok (''Dasv4_Type1'') germanynorth_1 (Standard ''D64ds_v4'')"
  unfolding germanynorth_1_def by (simp only: eval_part)

lemma germanynorth_2_ok: "part_ok (Standard ''D64ds_v4'') germanynorth_2 (Standard ''E48_v5'')"
  unfolding germanynorth_2_def by (simp only: eval_part)

lemma germanynorth_3_ok: "last_ok (Standard ''E48_v5'') germanynorth_3"
  unfolding germanynorth_3_def by (simp only: eval_part)

lemma germanynorth_ok: "table_ok germanynorth"
  unfolding germanynorth_def by (rule last_ok_table [OF part_join [OF germanynorth_1_ok part_join [OF germanynorth_2_ok germanynorth_3_ok]]])

lemma germanywestcentral_1_ok: "part_ok (''Dadsv5_Type1'') germanywestcentral_1 (Standard ''D2ds_v4'')"
  unfolding germanywestcentral_1_def by (simp only: eval_part)

lemma germanywestcentral_2_ok: "part_ok (Standard ''D2ds_v4'') germanywestcentral_2 (Standard ''DC32ads_v5'')"
  unfolding germanywestcentral_2_def by (simp only: eval_part)

lemma germanywestcentral_3_ok: "part_ok (Standard ''DC32ads_v5'') germanywestcentral_3 (Standard ''E32d_v5'')"
  unfolding germanywestcentral_3_def by (simp only: eval_part)

lemma germanywestcentral_4_ok: "part_ok (Standard ''E32d_v5'') germanywestcentral_4 (Standard ''E96d_v5'')"
  unfolding germanywestcentral_4_def by (simp only: eval_part)

lemma germanywestcentral_5_ok: "last_ok (Standard ''E96d_v5'') germanywestcentral_5"
  unfolding germanywestcentral_5_def by (simp only: eval_part)

lemma germanywestcentral_ok: "table_ok germanywestcentral"
  unfolding germanywestcentral_def by (rule last_ok_table [OF part_join [OF germanywestcentral_1_ok part_join [OF germanywestcentral_2_ok part_join [OF germanywestcentral_3_ok part_join [OF germanywestcentral_4_ok germanywestcentral_5_ok]]]]])

end
