(* ===== verification/PriceLists3.thy ===== *)
theory PriceLists3
  imports PriceTables
begin

text \<open>
  The third part of the shipped price lists, \<open>pkg/providers/pricing/zz_generated.pricing.go\<close>: the regions
  japaneast to northeurope, in the order of the file, each in parts of at most 150 lines.
\<close>

subsection \<open>japaneast\<close>

definition japaneast_1 :: priceTable where
  "japaneast_1 =
     [(''Basic_A0'', 22000), (''Basic_A1'', 32000), (''Basic_A2'', 109000), (''Basic_A3'', 276000), (''Basic_A4'', 552000),
      (''DCdsv3 Type1'', 7709000), (''DCsv3 Type1'', 6547000), (''Dadsv5_Type1'', 8254000), (''Dasv4_Type1'', 6547000),
      (''Dasv4_Type2'', 6820000), (''Dasv5_Type1'', 6899000), (''Ddsv4_Type 1'', 5139000), (''Ddsv4_Type2'', 6103000),
      (''Ddsv5_Type1'', 7709000), (''Dsv3_Type3'', 5456000), (''Dsv3_Type4'', 6820000), (''Dsv4_Type1'', 5456000),
      (''Dsv4_Type2'', 6547000), (''Dsv5_Type1'', 6820000), (''Eadsv5_Type1'', 8395000), (''Easv4_Type1'', 8025000),
      (''Easv4_Type2'', 8026000), (''Easv5_Type1'', 7234000), (''Ebdsv5-Type1'', 7146000), (''Ebsv5-Type1'', 6371000),
      (''Edsv4_Type 1'', 6125000), (''Edsv4_Type2'', 7273000), (''Edsv5_Type1'', 9187000), (''Esv3_Type3'', 5182000),
      (''Esv3_Type4'', 7021000), (''Esv4_Type1'', 5350000), (''Esv4_Type2'', 7022000), (''Esv5_Type1'', 8026000),
      (''FXmds Type1'', 5993000), (''Fsv2 Type3'', 4943000), (''Fsv2_Type2'', 4237000), (''Fsv2_Type4'', 5650000),
      (''Lsv2_Type1'', 8052000), (''Lsv3_Type1'', 8998000), (''Mdsmv2MedMem _Type1'', 42571000), (''Mdsv2MedMem_Type1'', 21277000),
      (''Ms_Type1'', 21270000), (''Msm_Type1'', 42577000), (''Msmv2MedMem Type1'', 41899000), (''Msmv2_Type1'', 130880000),
      (''Msv2MedMem Type1'', 20606000), (''Msv2_Type1'', 65446000), (''NVasv4_Type1'', 10406000), (''NVsv3_Type1'', 6952000),
      (Standard ''A0'', 24000), (Standard ''A1'', 81000), (Standard ''A1_v2'', 54000), (Standard ''A2'', 162000),
      (Standard ''A2_v2'', 113000), (Standard ''A2m_v2'', 153000), (Standard ''A3'', 324000), (Standard ''A4'', 648000),
      (Standard ''A4_v2'', 238000), (Standard ''A4m_v2'', 322000), (Standard ''A5'', 281000), (Standard ''A6'', 562000),
      (Standard ''A7'', 1124000), (Standard ''A8_v2'', 500000), (Standard ''A8m_v2'', 677000), (Standard ''B12ms'', 653000),
      (Standard ''B16als_v2'', 768000), (Standard ''B16as_v2'', 858000), (Standard ''B16ls_v2'', 844000), (Standard ''B16ms'', 870000),
      (Standard ''B16pls_v2'', 686000), (Standard ''B16ps_v2'', 765000), (Standard ''B16s_v2'', 870000), (Standard ''B1ls'', 6800),
      (Standard ''B1ms'', 27200), (Standard ''B1s'', 13600), (Standard ''B20ms'', 1088000), (Standard ''B2als_v2'', 49000),
      (Standard ''B2as_v2'', 98000), (Standard ''B2ats_v2'', 12300), (Standard ''B2ls_v2'', 54400), (Standard ''B2ms'', 109000),
      (Standard ''B2pls_v2'', 52400), (Standard ''B2ps_v2'', 95600), (Standard ''B2pts_v2'', 20000), (Standard ''B2s'', 54400),
      (Standard ''B2s_v2'', 109000), (Standard ''B2ts_v2'', 22800), (Standard ''B32als_v2'', 1536000), (Standard ''B32as_v2'', 1715000),
      (Standard ''B32ls_v2'', 1689000), (Standard ''B32s_v2'', 1888000), (Standard ''B4als_v2'', 174000), (Standard ''B4as_v2'', 214000),
      (Standard ''B4ls_v2'', 211000), (Standard ''B4ms'', 218000), (Standard ''B4pls_v2'', 171000), (Standard ''B4ps_v2'', 191000),
      (Standard ''B4s_v2'', 236000), (Standard ''B8als_v2'', 384000), (Standard ''B8as_v2'', 429000), (Standard ''B8ls_v2'', 422000),
      (Standard ''B8ms'', 435000), (Standard ''B8pls_v2'', 343000), (Standard ''B8ps_v2'', 382000), (Standard ''B8s_v2'', 472000),
      (Standard ''D1'', 110000), (Standard ''D11'', 242000), (Standard ''D11_v2'', 229000), (Standard ''D11_v2_Promo'', 229000),
      (Standard ''D12'', 483000), (Standard ''D12_v2'', 459000), (Standard ''D12_v2_Promo'', 459000), (Standard ''D13'', 966000),
      (Standard ''D13_v2'', 918000), (Standard ''D13_v2_Promo'', 918000), (Standard ''D14'', 1932000), (Standard ''D14_v2'', 1835000),
      (Standard ''D14_v2_Promo'', 1835000), (Standard ''D15_v2'', 2294000), (Standard ''D15i_v2'', 2294000),
      (Standard ''D16_v3'', 1032000), (Standard ''D16_v4'', 992000), (Standard ''D16_v5'', 992000), (Standard ''D16a_v4'', 992000),
      (Standard ''D16ads_v5'', 1072000), (Standard ''D16as_v4'', 992000), (Standard ''D16as_v5'', 896000),
      (Standard ''D16as_v5_Promo'', 792000), (Standard ''D16d_v4'', 1168000), (Standard ''D16d_v5'', 1168000),
      (Standard ''D16ds_v4'', 1168000), (Standard ''D16ds_v5'', 1168000)]"

definition japaneast_2 :: priceTable where
  "japaneast_2 =
     [(Standard ''D16lds_v5'', 976000), (Standard ''D16ls_v5'', 856000), (Standard ''D16pds_v5'', 936000),
      (Standard ''D16plds_v5'', 784000), (Standard ''D16pls_v5'', 685000), (Standard ''D16ps_v5'', 792000),
      (Standard ''D16s_v3'', 1032000), (Standard ''D16s_v4'', 992000), (Standard ''D16s_v5'', 992000), (Standard ''D1_v2'', 102000),
      (Standard ''D2'', 221000), (Standard ''D2_v2'', 205000), (Standard ''D2_v2_Promo'', 205000), (Standard ''D2_v3'', 129000),
      (Standard ''D2_v4'', 124000), (Standard ''D2_v5'', 124000), (Standard ''D2a_v4'', 124000), (Standard ''D2ads_v5'', 134000),
      (Standard ''D2as_v4'', 124000), (Standard ''D2as_v5'', 112000), (Standard ''D2as_v5_Promo'', 99000), (Standard ''D2d_v4'', 146000),
      (Standard ''D2d_v5'', 146000), (Standard ''D2ds_v4'', 146000), (Standard ''D2ds_v5'', 146000), (Standard ''D2lds_v5'', 122000),
      (Standard ''D2ls_v5'', 107000), (Standard ''D2pds_v5'', 117000), (Standard ''D2plds_v5'', 98000), (Standard ''D2pls_v5'', 85600),
      (Standard ''D2ps_v5'', 99000), (Standard ''D2s_v3'', 129000), (Standard ''D2s_v4'', 124000), (Standard ''D2s_v5'', 124000),
      (Standard ''D3'', 442000), (Standard ''D32-16s_v3'', 2064000), (Standard ''D32-8s_v3'', 2064000), (Standard ''D32_v3'', 2064000),
      (Standard ''D32_v4'', 1984000), (Standard ''D32_v5'', 1984000), (Standard ''D32a_v4'', 1984000), (Standard ''D32ads_v5'', 2144000),
      (Standard ''D32as_v4'', 1984000), (Standard ''D32as_v5'', 1792000), (Standard ''D32as_v5_Promo'', 1584000),
      (Standard ''D32d_v4'', 2336000), (Standard ''D32d_v5'', 2336000), (Standard ''D32ds_v4'', 2336000), (Standard ''D32ds_v5'', 2336000),
      (Standard ''D32lds_v5'', 1952000), (Standard ''D32ls_v5'', 1712000), (Standard ''D32pds_v5'', 1872000),
      (Standard ''D32plds_v5'', 1568000), (Standard ''D32pls_v5'', 1370000), (Standard ''D32ps_v5'', 1584000),
      (Standard ''D32s_v3'', 2064000), (Standard ''D32s_v4'', 1984000), (Standard ''D32s_v5'', 1984000), (Standard ''D3_v2'', 409000),
      (Standard ''D3_v2_Promo'', 409000), (Standard ''D4'', 883000), (Standard ''D48_v3'', 3096000), (Standard ''D48_v4'', 2976000),
      (Standard ''D48_v5'', 2976000), (Standard ''D48a_v4'', 2976000), (Standard ''D48ads_v5'', 3216000), (Standard ''D48as_v4'', 2976000),
      (Standard ''D48as_v5'', 2688000), (Standard ''D48as_v5_Promo'', 2376000), (Standard ''D48d_v4'', 3504000),
      (Standard ''D48d_v5'', 3504000), (Standard ''D48ds_v4'', 3504000), (Standard ''D48ds_v5'', 3504000),
      (Standard ''D48lds_v5'', 2928000), (Standard ''D48ls_v5'', 2568000), (Standard ''D48pds_v5'', 2808000),
      (Standard ''D48plds_v5'', 2352000), (Standard ''D48pls_v5'', 2054000), (Standard ''D48ps_v5'', 2376000),
      (Standard ''D48s_v3'', 3096000), (Standard ''D48s_v4'', 2976000), (Standard ''D48s_v5'', 2976000), (Standard ''D4_v2'', 818000),
      (Standard ''D4_v2_Promo'', 818000), (Standard ''D4_v3'', 258000), (Standard ''D4_v4'', 248000), (Standard ''D4_v5'', 248000),
      (Standard ''D4a_v4'', 248000), (Standard ''D4ads_v5'', 268000), (Standard ''D4as_v4'', 248000), (Standard ''D4as_v5'', 224000),
      (Standard ''D4as_v5_Promo'', 198000), (Standard ''D4d_v4'', 292000), (Standard ''D4d_v5'', 292000), (Standard ''D4ds_v4'', 292000),
      (Standard ''D4ds_v5'', 292000), (Standard ''D4lds_v5'', 244000), (Standard ''D4ls_v5'', 214000), (Standard ''D4pds_v5'', 234000),
      (Standard ''D4plds_v5'', 196000), (Standard ''D4pls_v5'', 171000), (Standard ''D4ps_v5'', 198000), (Standard ''D4s_v3'', 258000),
      (Standard ''D4s_v4'', 248000), (Standard ''D4s_v5'', 248000), (Standard ''D5_v2'', 1636000), (Standard ''D5_v2_Promo'', 1636000),
      (Standard ''D64-16s_v3'', 4128000), (Standard ''D64-32s_v3'', 4128000), (Standard ''D64_v3'', 4128000),
      (Standard ''D64_v4'', 3968000), (Standard ''D64_v5'', 3968000), (Standard ''D64a_v4'', 3968000), (Standard ''D64ads_v5'', 4288000),
      (Standard ''D64as_v4'', 3968000), (Standard ''D64as_v5'', 3584000), (Standard ''D64as_v5_Promo'', 3168000),
      (Standard ''D64d_v4'', 4672000), (Standard ''D64d_v5'', 4672000), (Standard ''D64ds_v4'', 4672000), (Standard ''D64ds_v5'', 4672000),
      (Standard ''D64lds_v5'', 3904000), (Standard ''D64ls_v5'', 3424000), (Standard ''D64pds_v5'', 3744000),
      (Standard ''D64plds_v5'', 3136000), (Standard ''D64pls_v5'', 2739000), (Standard ''D64ps_v5'', 3168000),
      (Standard ''D64s_v3'', 4128000), (Standard ''D64s_v4'', 3968000), (Standard ''D64s_v5'', 3968000), (Standard ''D8_v3'', 516000),
      (Standard ''D8_v4'', 496000)]"

definition japaneast_3 :: priceTable where
  "japaneast_3 =
     [(Standard ''D8_v5'', 496000), (Standard ''D8a_v4'', 496000), (Standard ''D8ads_v5'', 536000), (Standard ''D8as_v4'', 496000),
      (Standard ''D8as_v5'', 448000), (Standard ''D8as_v5_Promo'', 396000), (Standard ''D8d_v4'', 584000), (Standard ''D8d_v5'', 584000),
      (Standard ''D8ds_v4'', 584000), (Standard ''D8ds_v5'', 584000), (Standard ''D8lds_v5'', 488000), (Standard ''D8ls_v5'', 428000),
      (Standard ''D8pds_v5'', 468000), (Standard ''D8plds_v5'', 392000), (Standard ''D8pls_v5'', 342000), (Standard ''D8ps_v5'', 396000),
      (Standard ''D8s_v3'', 516000), (Standard ''D8s_v4'', 496000), (Standard ''D8s_v5'', 496000), (Standard ''D96_v5'', 5952000),
      (Standard ''D96a_v4'', 5952000), (Standard ''D96ads_v5'', 6432000), (Standard ''D96as_v4'', 5952000),
      (Standard ''D96as_v5'', 5376000), (Standard ''D96as_v5_Promo'', 4752000), (Standard ''D96d_v5'', 7008000),
      (Standard ''D96ds_v5'', 7008000), (Standard ''D96lds_v5'', 5856000), (Standard ''D96ls_v5'', 5136000),
      (Standard ''D96s_v5'', 5952000), (Standard ''DC16ads_v5'', 1072000), (Standard ''DC16as_v5'', 896000),
      (Standard ''DC16ds_v3'', 2336000), (Standard ''DC16s_v3'', 1984000), (Standard ''DC1ds_v3'', 146000), (Standard ''DC1s_v3'', 124000),
      (Standard ''DC24ds_v3'', 3504000), (Standard ''DC24s_v3'', 2976000), (Standard ''DC2ads_v5'', 134000),
      (Standard ''DC2as_v5'', 112000), (Standard ''DC2ds_v3'', 292000), (Standard ''DC2s_v3'', 248000), (Standard ''DC32ads_v5'', 2144000),
      (Standard ''DC32as_v5'', 1792000), (Standard ''DC32ds_v3'', 4672000), (Standard ''DC32s_v3'', 3968000),
      (Standard ''DC48ads_v5'', 3216000), (Standard ''DC48as_v5'', 2688000), (Standard ''DC48ds_v3'', 7008000),
      (Standard ''DC48s_v3'', 5952000), (Standard ''DC4ads_v5'', 268000), (Standard ''DC4as_v5'', 224000), (Standard ''DC4ds_v3'', 584000),
      (Standard ''DC4s_v3'', 496000), (Standard ''DC64ads_v5'', 4288000), (Standard ''DC64as_v5'', 3584000),
      (Standard ''DC8ads_v5'', 536000), (Standard ''DC8as_v5'', 448000), (Standard ''DC8ds_v3'', 1168000), (Standard ''DC8s_v3'', 992000),
      (Standard ''DC96ads_v5'', 6432000), (Standard ''DC96as_v5'', 5376000), (Standard ''DS1'', 110000), (Standard ''DS11'', 242000),
      (Standard ''DS11-1_v2'', 229000), (Standard ''DS11_v2'', 229000), (Standard ''DS11_v2_Promo'', 229000), (Standard ''DS12'', 483000),
      (Standard ''DS12-1_v2'', 459000), (Standard ''DS12-2_v2'', 459000), (Standard ''DS12_v2'', 459000),
      (Standard ''DS12_v2_Promo'', 459000), (Standard ''DS13'', 966000), (Standard ''DS13-2_v2'', 918000),
      (Standard ''DS13-4_v2'', 918000), (Standard ''DS13_v2'', 918000), (Standard ''DS13_v2_Promo'', 918000), (Standard ''DS14'', 1932000),
      (Standard ''DS14-4_v2'', 1835000), (Standard ''DS14-8_v2'', 1835000), (Standard ''DS14_v2'', 1835000),
      (Standard ''DS14_v2_Promo'', 1835000), (Standard ''DS15_v2'', 2294000), (Standard ''DS15i_v2'', 2294000),
      (Standard ''DS1_v2'', 102000), (Standard ''DS2'', 221000), (Standard ''DS2_v2'', 205000), (Standard ''DS2_v2_Promo'', 205000),
      (Standard ''DS3'', 442000), (Standard ''DS3_v2'', 409000), (Standard ''DS3_v2_Promo'', 409000), (Standard ''DS4'', 883000),
      (Standard ''DS4_v2'', 818000), (Standard ''DS4_v2_Promo'', 818000), (Standard ''DS5_v2'', 1636000),
      (Standard ''DS5_v2_Promo'', 1636000), (Standard ''E104i_v5'', 8694000), (Standard ''E104id_v5'', 9953000),
      (Standard ''E104ids_v5'', 9953000), (Standard ''E104is_v5'', 8694000), (Standard ''E112iads_v5'', 9794000),
      (Standard ''E112ias_v5'', 8439000), (Standard ''E112ibds_v5'', 12505000), (Standard ''E112ibs_v5'', 11150000),
      (Standard ''E16-4ads_v5'', 1272000), (Standard ''E16-4as_v4'', 1216000), (Standard ''E16-4as_v5'', 1096000),
      (Standard ''E16-4ds_v4'', 1392000), (Standard ''E16-4ds_v5'', 1392000), (Standard ''E16-4s_v3'', 1280000),
      (Standard ''E16-4s_v4'', 1216000), (Standard ''E16-4s_v5'', 1216000), (Standard ''E16-8ads_v5'', 1272000),
      (Standard ''E16-8as_v4'', 1216000), (Standard ''E16-8as_v5'', 1096000), (Standard ''E16-8ds_v4'', 1392000),
      (Standard ''E16-8ds_v5'', 1392000), (Standard ''E16-8s_v3'', 1280000), (Standard ''E16-8s_v4'', 1216000),
      (Standard ''E16-8s_v5'', 1216000), (Standard ''E16_v3'', 1280000), (Standard ''E16_v4'', 1216000), (Standard ''E16_v5'', 1216000),
      (Standard ''E16a_v4'', 1216000), (Standard ''E16ads_v5'', 1272000), (Standard ''E16as_v4'', 1216000),
      (Standard ''E16as_v5'', 1096000), (Standard ''E16bds_v5'', 1624000), (Standard ''E16bs_v5'', 1448000),
      (Standard ''E16d_v4'', 1392000), (Standard ''E16d_v5'', 1392000), (Standard ''E16ds_v4'', 1392000)]"

definition japaneast_4 :: priceTable where
  "japaneast_4 =
     [(Standard ''E16ds_v5'', 1392000), (Standard ''E16pds_v5'', 1112000), (Standard ''E16ps_v5'', 973000),
      (Standard ''E16s_v3'', 1280000), (Standard ''E16s_v4'', 1216000), (Standard ''E16s_v5'', 1216000), (Standard ''E20_v3'', 1600000),
      (Standard ''E20_v4'', 1520000), (Standard ''E20_v5'', 1520000), (Standard ''E20a_v4'', 1520000), (Standard ''E20ads_v5'', 1590000),
      (Standard ''E20as_v4'', 1520000), (Standard ''E20as_v5'', 1370000), (Standard ''E20d_v4'', 1740000), (Standard ''E20d_v5'', 1740000),
      (Standard ''E20ds_v4'', 1740000), (Standard ''E20ds_v5'', 1740000), (Standard ''E20pds_v5'', 1390000),
      (Standard ''E20ps_v5'', 1216000), (Standard ''E20s_v3'', 1600000), (Standard ''E20s_v4'', 1520000), (Standard ''E20s_v5'', 1520000),
      (Standard ''E2_v3'', 160000), (Standard ''E2_v4'', 152000), (Standard ''E2_v5'', 152000), (Standard ''E2a_v4'', 152000),
      (Standard ''E2ads_v5'', 159000), (Standard ''E2as_v4'', 152000), (Standard ''E2as_v5'', 137000), (Standard ''E2bds_v5'', 203000),
      (Standard ''E2bs_v5'', 181000), (Standard ''E2d_v4'', 174000), (Standard ''E2d_v5'', 174000), (Standard ''E2ds_v4'', 174000),
      (Standard ''E2ds_v5'', 174000), (Standard ''E2pds_v5'', 139000), (Standard ''E2ps_v5'', 122000), (Standard ''E2s_v3'', 160000),
      (Standard ''E2s_v4'', 152000), (Standard ''E2s_v5'', 152000), (Standard ''E32-16ads_v5'', 2544000),
      (Standard ''E32-16as_v4'', 2432000), (Standard ''E32-16as_v5'', 2192000), (Standard ''E32-16ds_v4'', 2784000),
      (Standard ''E32-16ds_v5'', 2784000), (Standard ''E32-16s_v3'', 2560000), (Standard ''E32-16s_v4'', 2432000),
      (Standard ''E32-16s_v5'', 2432000), (Standard ''E32-8ads_v5'', 2544000), (Standard ''E32-8as_v4'', 2432000),
      (Standard ''E32-8as_v5'', 2192000), (Standard ''E32-8ds_v4'', 2784000), (Standard ''E32-8ds_v5'', 2784000),
      (Standard ''E32-8s_v3'', 2560000), (Standard ''E32-8s_v4'', 2432000), (Standard ''E32-8s_v5'', 2432000),
      (Standard ''E32_v3'', 2560000), (Standard ''E32_v4'', 2432000), (Standard ''E32_v5'', 2432000), (Standard ''E32a_v4'', 2432000),
      (Standard ''E32ads_v5'', 2544000), (Standard ''E32as_v4'', 2432000), (Standard ''E32as_v5'', 2192000),
      (Standard ''E32bds_v5'', 3248000), (Standard ''E32bs_v5'', 2896000), (Standard ''E32d_v4'', 2784000),
      (Standard ''E32d_v5'', 2784000), (Standard ''E32ds_v4'', 2784000), (Standard ''E32ds_v5'', 2784000),
      (Standard ''E32pds_v5'', 2224000), (Standard ''E32ps_v5'', 1946000), (Standard ''E32s_v3'', 2560000),
      (Standard ''E32s_v4'', 2432000), (Standard ''E32s_v5'', 2432000), (Standard ''E4-2ads_v5'', 318000),
      (Standard ''E4-2as_v4'', 304000), (Standard ''E4-2as_v5'', 274000), (Standard ''E4-2ds_v4'', 348000),
      (Standard ''E4-2ds_v5'', 348000), (Standard ''E4-2s_v3'', 320000), (Standard ''E4-2s_v4'', 304000), (Standard ''E4-2s_v5'', 304000),
      (Standard ''E48_v3'', 3647000), (Standard ''E48_v4'', 3648000), (Standard ''E48_v5'', 3648000), (Standard ''E48a_v4'', 3648000),
      (Standard ''E48ads_v5'', 3816000), (Standard ''E48as_v4'', 3648000), (Standard ''E48as_v5'', 3288000),
      (Standard ''E48bds_v5'', 4872000), (Standard ''E48bs_v5'', 4344000), (Standard ''E48d_v4'', 4176000),
      (Standard ''E48d_v5'', 4176000), (Standard ''E48ds_v4'', 4176000), (Standard ''E48ds_v5'', 4176000), (Standard ''E48s_v3'', 3647000),
      (Standard ''E48s_v4'', 3648000), (Standard ''E48s_v5'', 3648000), (Standard ''E4_v3'', 320000), (Standard ''E4_v4'', 304000),
      (Standard ''E4_v5'', 304000), (Standard ''E4a_v4'', 304000), (Standard ''E4ads_v5'', 318000), (Standard ''E4as_v4'', 304000),
      (Standard ''E4as_v5'', 274000), (Standard ''E4bds_v5'', 406000), (Standard ''E4bs_v5'', 362000), (Standard ''E4d_v4'', 348000),
      (Standard ''E4d_v5'', 348000), (Standard ''E4ds_v4'', 348000), (Standard ''E4ds_v5'', 348000), (Standard ''E4pds_v5'', 278000),
      (Standard ''E4ps_v5'', 243000), (Standard ''E4s_v3'', 320000), (Standard ''E4s_v4'', 304000), (Standard ''E4s_v5'', 304000),
      (Standard ''E64-16ads_v5'', 5088000), (Standard ''E64-16as_v4'', 4864000), (Standard ''E64-16as_v5'', 4384000),
      (Standard ''E64-16ds_v4'', 5568000), (Standard ''E64-16ds_v5'', 5568000), (Standard ''E64-16s_v3'', 4376000),
      (Standard ''E64-16s_v4'', 4864000), (Standard ''E64-16s_v5'', 4864000), (Standard ''E64-32ads_v5'', 5088000),
      (Standard ''E64-32as_v4'', 4864000), (Standard ''E64-32as_v5'', 4384000), (Standard ''E64-32ds_v4'', 5568000),
      (Standard ''E64-32ds_v5'', 5568000), (Standard ''E64-32s_v3'', 4376000), (Standard ''E64-32s_v4'', 4864000),
      (Standard ''E64-32s_v5'', 4864000)]"

definition japaneast_5 :: priceTable where
  "japaneast_5 =
     [(Standard ''E64_v3'', 4376000), (Standard ''E64_v4'', 4864000), (Standard ''E64_v5'', 4864000), (Standard ''E64a_v4'', 4864000),
      (Standard ''E64ads_v5'', 5088000), (Standard ''E64as_v4'', 4864000), (Standard ''E64as_v5'', 4384000),
      (Standard ''E64bds_v5'', 6496000), (Standard ''E64bs_v5'', 5792000), (Standard ''E64d_v4'', 5568000),
      (Standard ''E64d_v5'', 5568000), (Standard ''E64ds_v4'', 5568000), (Standard ''E64ds_v5'', 5568000), (Standard ''E64i_v3'', 4376000),
      (Standard ''E64is_v3'', 4376000), (Standard ''E64s_v3'', 4376000), (Standard ''E64s_v4'', 4864000), (Standard ''E64s_v5'', 4864000),
      (Standard ''E8-2ads_v5'', 636000), (Standard ''E8-2as_v4'', 608000), (Standard ''E8-2as_v5'', 548000),
      (Standard ''E8-2ds_v4'', 696000), (Standard ''E8-2ds_v5'', 696000), (Standard ''E8-2s_v3'', 640000), (Standard ''E8-2s_v4'', 608000),
      (Standard ''E8-2s_v5'', 608000), (Standard ''E8-4ads_v5'', 636000), (Standard ''E8-4as_v4'', 608000),
      (Standard ''E8-4as_v5'', 548000), (Standard ''E8-4ds_v4'', 696000), (Standard ''E8-4ds_v5'', 696000),
      (Standard ''E8-4s_v3'', 640000), (Standard ''E8-4s_v4'', 608000), (Standard ''E8-4s_v5'', 608000), (Standard ''E80ids_v4'', 6960000),
      (Standard ''E80is_v4'', 6080000), (Standard ''E8_v3'', 640000), (Standard ''E8_v4'', 608000), (Standard ''E8_v5'', 608000),
      (Standard ''E8a_v4'', 608000), (Standard ''E8ads_v5'', 636000), (Standard ''E8as_v4'', 608000), (Standard ''E8as_v5'', 548000),
      (Standard ''E8bds_v5'', 812000), (Standard ''E8bs_v5'', 724000), (Standard ''E8d_v4'', 696000), (Standard ''E8d_v5'', 696000),
      (Standard ''E8ds_v4'', 696000), (Standard ''E8ds_v5'', 696000), (Standard ''E8pds_v5'', 556000), (Standard ''E8ps_v5'', 486000),
      (Standard ''E8s_v3'', 640000), (Standard ''E8s_v4'', 608000), (Standard ''E8s_v5'', 608000), (Standard ''E96-24ads_v5'', 7632000),
      (Standard ''E96-24as_v4'', 7296000), (Standard ''E96-24as_v5'', 6576000), (Standard ''E96-24ds_v5'', 8352000),
      (Standard ''E96-24s_v5'', 7296000), (Standard ''E96-48ads_v5'', 7632000), (Standard ''E96-48as_v4'', 7296000),
      (Standard ''E96-48as_v5'', 6576000), (Standard ''E96-48ds_v5'', 8352000), (Standard ''E96-48s_v5'', 7296000),
      (Standard ''E96_v5'', 7296000), (Standard ''E96a_v4'', 7296000), (Standard ''E96ads_v5'', 7632000), (Standard ''E96as_v4'', 7296000),
      (Standard ''E96as_v5'', 6576000), (Standard ''E96bds_v5'', 9744000), (Standard ''E96bs_v5'', 8688000),
      (Standard ''E96d_v5'', 8352000), (Standard ''E96ds_v5'', 8352000), (Standard ''E96iads_v5'', 8395000),
      (Standard ''E96ias_v5'', 7234000), (Standard ''E96s_v5'', 7296000), (Standard ''EC16ads_v5'', 1272000),
      (Standard ''EC16as_v5'', 1096000), (Standard ''EC20ads_v5'', 1590000), (Standard ''EC20as_v5'', 1370000),
      (Standard ''EC2ads_v5'', 159000), (Standard ''EC2as_v5'', 137000), (Standard ''EC32ads_v5'', 2544000),
      (Standard ''EC32as_v5'', 2192000), (Standard ''EC48ads_v5'', 3816000), (Standard ''EC48as_v5'', 3288000),
      (Standard ''EC4ads_v5'', 318000), (Standard ''EC4as_v5'', 274000), (Standard ''EC64ads_v5'', 5088000),
      (Standard ''EC64as_v5'', 4384000), (Standard ''EC8ads_v5'', 636000), (Standard ''EC8as_v5'', 548000),
      (Standard ''EC96ads_v5'', 7632000), (Standard ''EC96as_v5'', 6576000), (Standard ''EC96iads_v5'', 8395000),
      (Standard ''EC96ias_v5'', 7234000), (Standard ''F1'', 63000), (Standard ''F16'', 1008000), (Standard ''F16s'', 1008000),
      (Standard ''F16s_v2'', 856000), (Standard ''F1s'', 63000), (Standard ''F2'', 126000), (Standard ''F2s'', 126000),
      (Standard ''F2s_v2'', 107000), (Standard ''F32s_v2'', 1712000), (Standard ''F4'', 252000), (Standard ''F48s_v2'', 2568000),
      (Standard ''F4s'', 252000), (Standard ''F4s_v2'', 214000), (Standard ''F64s_v2'', 3424000), (Standard ''F72s_v2'', 3852000),
      (Standard ''F8'', 504000), (Standard ''F8s'', 504000), (Standard ''F8s_v2'', 428000), (Standard ''FX12mds'', 1362000),
      (Standard ''FX24mds'', 2724000), (Standard ''FX36mds'', 4086000), (Standard ''FX48mds'', 5448000), (Standard ''FX4mds'', 454000),
      (Standard ''G1'', 576000), (Standard ''G2'', 1151000), (Standard ''G3'', 2302000), (Standard ''G4'', 4602000),
      (Standard ''G5'', 9205000), (Standard ''GS1'', 576000), (Standard ''GS2'', 1151000), (Standard ''GS3'', 2302000),
      (Standard ''GS4'', 4602000), (Standard ''GS4-4'', 4602000), (Standard ''GS4-8'', 4602000), (Standard ''GS5'', 9205000),
      (Standard ''GS5-16'', 9205000)]"

definition japaneast_6 :: priceTable where
  "japaneast_6 =
     [(Standard ''GS5-8'', 9205000), (Standard ''H16'', 2291000), (Standard ''H16m'', 3070000), (Standard ''H16mr'', 3377000),
      (Standard ''H16r'', 2520000), (Standard ''H8'', 1145000), (Standard ''H8m'', 1535000), (Standard ''HB120-16rs_v2'', 5220000),
      (Standard ''HB120-16rs_v3'', 5220000), (Standard ''HB120-32rs_v2'', 5220000), (Standard ''HB120-32rs_v3'', 5220000),
      (Standard ''HB120-64rs_v2'', 5220000), (Standard ''HB120-64rs_v3'', 5220000), (Standard ''HB120-96rs_v2'', 5220000),
      (Standard ''HB120-96rs_v3'', 5220000), (Standard ''HB120rs_v2'', 5220000), (Standard ''HB120rs_v3'', 5220000),
      (Standard ''HC44-16rs'', 4594000), (Standard ''HC44-32rs'', 4594000), (Standard ''HC44rs'', 4594000),
      (Standard ''L112ias_v3'', 11273000), (Standard ''L16as_v3'', 1464000), (Standard ''L16s'', 1464000), (Standard ''L16s_v2'', 1464000),
      (Standard ''L16s_v3'', 1636000), (Standard ''L32as_v3'', 2928000), (Standard ''L32s'', 2928000), (Standard ''L32s_v2'', 2928000),
      (Standard ''L32s_v3'', 3272000), (Standard ''L48as_v3'', 4392000), (Standard ''L48s_v2'', 4392000), (Standard ''L48s_v3'', 4908000),
      (Standard ''L4s'', 366000), (Standard ''L64as_v3'', 5856000), (Standard ''L64s_v2'', 5856000), (Standard ''L64s_v3'', 6544000),
      (Standard ''L80as_v3'', 7320000), (Standard ''L80s_v2'', 7320000), (Standard ''L80s_v3'', 8180000), (Standard ''L88is_v2'', 8052000),
      (Standard ''L8as_v3'', 732000), (Standard ''L8s'', 732000), (Standard ''L8s_v2'', 732000), (Standard ''L8s_v3'', 818000),
      (Standard ''L96ias_v3'', 9662000), (Standard ''M128'', 19340000), (Standard ''M128-32ms'', 38698000),
      (Standard ''M128-64ms'', 38698000), (Standard ''M128dms_v2'', 38701000), (Standard ''M128ds_v2'', 19343000),
      (Standard ''M128m'', 38698000), (Standard ''M128ms'', 38698000), (Standard ''M128ms_v2'', 38090000), (Standard ''M128s'', 19340000),
      (Standard ''M128s_v2'', 18733000), (Standard ''M16-4ms'', 4455900), (Standard ''M16-8ms'', 4455900), (Standard ''M16ms'', 4455900),
      (Standard ''M16s'', 3461000), (Standard ''M192idms_v2'', 46493000), (Standard ''M192ids_v2'', 23246000),
      (Standard ''M192ims_v2'', 45882000), (Standard ''M192is_v2'', 22636000), (Standard ''M208-104ms_v2'', 53544000),
      (Standard ''M208-104s_v2'', 26772000), (Standard ''M208-52ms_v2'', 53544000), (Standard ''M208-52s_v2'', 26772000),
      (Standard ''M208ms_v2'', 53544000), (Standard ''M208s_v2'', 26772000), (Standard ''M32-16ms'', 8911700),
      (Standard ''M32-8ms'', 8911700), (Standard ''M32dms_v2'', 8912000), (Standard ''M32ls'', 3447600), (Standard ''M32ms'', 8911700),
      (Standard ''M32ms_v2'', 8759000), (Standard ''M32s'', 4835800), (Standard ''M32ts'', 3248000),
      (Standard ''M416-104ms_v2'', 118980000), (Standard ''M416-104s_v2'', 59496000), (Standard ''M416-208ms_v2'', 118980000),
      (Standard ''M416-208s_v2'', 59496000), (Standard ''M416is_v2'', 59496000), (Standard ''M416ms_v2'', 118980000),
      (Standard ''M416s_8_v2'', 79750000), (Standard ''M416s_v2'', 59496000), (Standard ''M64'', 9670000),
      (Standard ''M64-16ms'', 14989000), (Standard ''M64-32ms'', 14989000), (Standard ''M64dms_v2'', 14993000),
      (Standard ''M64ds_v2'', 9670000), (Standard ''M64ls'', 6498000), (Standard ''M64m'', 14989000), (Standard ''M64ms'', 14989000),
      (Standard ''M64ms_v2'', 14688000), (Standard ''M64s'', 9670000), (Standard ''M64s_v2'', 9365000), (Standard ''M8-2ms'', 2227900),
      (Standard ''M8-4ms'', 2227900), (Standard ''M8ms'', 2227900), (Standard ''NC12s_v3'', 8388000), (Standard ''NC16as_T4_v3'', 1625000),
      (Standard ''NC24ads_A100_v4'', 5326000), (Standard ''NC24rs_v3'', 18454000), (Standard ''NC24s_v3'', 16776000),
      (Standard ''NC48ads_A100_v4'', 10652000), (Standard ''NC4as_T4_v3'', 710000), (Standard ''NC64as_T4_v3'', 5875000),
      (Standard ''NC6s_v3'', 4194000), (Standard ''NC8as_T4_v3'', 1015000), (Standard ''NC96ads_A100_v4'', 21303000),
      (Standard ''ND96ams_A100_v4'', 47517000), (Standard ''ND96amsr_A100_v4'', 47517000), (Standard ''NV12'', 3160000),
      (Standard ''NV12ads_A10_v5'', 1317000), (Standard ''NV12s_v3'', 1580000), (Standard ''NV16as_v4'', 1351000),
      (Standard ''NV18ads_A10_v5'', 2320000), (Standard ''NV24'', 6319000), (Standard ''NV24s_v3'', 3160000),
      (Standard ''NV32as_v4'', 2703000), (Standard ''NV36adms_A10_v5'', 6554000), (Standard ''NV36ads_A10_v5'', 4640000),
      (Standard ''NV48s_v3'', 6320000), (Standard ''NV4as_v4'', 338000), (Standard ''NV6'', 1580000), (Standard ''NV6ads_A10_v5'', 658000),
      (Standard ''NV72ads_A10_v5'', 9454000), (Standard ''NV8as_v4'', 676000)]"

definition japaneast :: priceTable where
  "japaneast = japaneast_1 @ japaneast_2 @ japaneast_3 @ japaneast_4 @ japaneast_5 @ japaneast_6"

subsection \<open>japanwest\<close>

definition japanwest_1 :: priceTable where
  "japanwest_1 =
     [(''Basic_A0'', 17100), (''Basic_A1'', 32000), (''Basic_A2'', 99000), (''Basic_A3'', 219600), (''Basic_A4'', 439200),
      (''DCdsv3 Type1'', 7709000), (''DCsv3 Type1'', 6547000), (''Dadsv5_Type1'', 8254000), (''Dasv4_Type1'', 6820000),
      (''Dasv4_Type2'', 6820000), (''Dasv5_Type1'', 6899000), (''Ddsv4_Type 1'', 5625000), (''Ddsv4_Type2'', 6680000),
      (''Ddsv5_Type1'', 7709000), (''Dsv3_Type3'', 5460000), (''Dsv3_Type4'', 6824000), (''Dsv4_Type1'', 5456000),
      (''Dsv4_Type2'', 6820000), (''Dsv5_Type1'', 6820000), (''Eadsv5_Type1'', 8395000), (''Easv4_Type1'', 8026000),
      (''Easv4_Type2'', 8026000), (''Easv5_Type1'', 7234000), (''Ebdsv5-Type1'', 7040000), (''Ebsv5-Type1'', 6266000),
      (''Edsv4_Type 1'', 6737000), (''Edsv4_Type2'', 8001000), (''Edsv5_Type1'', 9187000), (''Esv3_Type3'', 5192000),
      (''Esv3_Type4'', 7034000), (''Esv4_Type1'', 5351000), (''Esv4_Type2'', 7023000), (''Esv5_Type1'', 8026000),
      (''Fsv2 Type3'', 5465000), (''Fsv2_Type2'', 4277000), (''Fsv2_Type4'', 5940000), (''Lasv3_Type1'', 8052000),
      (''Lsv3_Type1'', 8998000), (''Mdsmv2MedMem _Type1'', 42571000), (''Mdsv2MedMem_Type1'', 21277000), (''Msmv2MedMem Type1'', 41899000),
      (''Msmv2_Type1'', 169050000), (''Msv2MedMem Type1'', 20606000), (''Msv2_Type1'', 84534000), (Standard ''A0'', 21000),
      (Standard ''A1'', 73000), (Standard ''A1_v2'', 54000), (Standard ''A2'', 146000), (Standard ''A2_v2'', 113000),
      (Standard ''A2m_v2'', 178000), (Standard ''A3'', 292000), (Standard ''A4'', 584000), (Standard ''A4_v2'', 238000),
      (Standard ''A4m_v2'', 374000), (Standard ''A5'', 258000), (Standard ''A6'', 516000), (Standard ''A7'', 1032000),
      (Standard ''A8_v2'', 500000), (Standard ''A8m_v2'', 786000), (Standard ''B12ms'', 719000), (Standard ''B16als_v2'', 694000),
      (Standard ''B16as_v2'', 858000), (Standard ''B16ls_v2'', 771000), (Standard ''B16ms'', 958000), (Standard ''B16s_v2'', 870000),
      (Standard ''B1ls'', 7490), (Standard ''B1ms'', 30000), (Standard ''B1s'', 15000), (Standard ''B20ms'', 1198000),
      (Standard ''B2als_v2'', 49000), (Standard ''B2as_v2'', 107000), (Standard ''B2ats_v2'', 12300), (Standard ''B2ls_v2'', 63600),
      (Standard ''B2ms'', 120000), (Standard ''B2s'', 59900), (Standard ''B2s_v2'', 109000), (Standard ''B2ts_v2'', 22800),
      (Standard ''B32als_v2'', 1388000), (Standard ''B32as_v2'', 1568000), (Standard ''B32ls_v2'', 1689000),
      (Standard ''B32s_v2'', 1741000), (Standard ''B4als_v2'', 192000), (Standard ''B4as_v2'', 214000), (Standard ''B4ls_v2'', 211000),
      (Standard ''B4ms'', 240000), (Standard ''B4s_v2'', 236000), (Standard ''B8als_v2'', 384000), (Standard ''B8as_v2'', 392000),
      (Standard ''B8ls_v2'', 422000), (Standard ''B8ms'', 479000), (Standard ''B8s_v2'', 472000), (Standard ''D1'', 96000),
      (Standard ''D11'', 210000), (Standard ''D11_v2'', 200000), (Standard ''D11_v2_Promo'', 200000), (Standard ''D12'', 420000),
      (Standard ''D12_v2'', 399000), (Standard ''D12_v2_Promo'', 399000), (Standard ''D13'', 840000), (Standard ''D13_v2'', 798000),
      (Standard ''D13_v2_Promo'', 798000), (Standard ''D14'', 1680000), (Standard ''D14_v2'', 1596000),
      (Standard ''D14_v2_Promo'', 1596000), (Standard ''D15_v2'', 1995000), (Standard ''D15i_v2'', 1995000),
      (Standard ''D16_v3'', 1032000), (Standard ''D16_v4'', 1091000), (Standard ''D16_v5'', 992000), (Standard ''D16a_v4'', 992000),
      (Standard ''D16ads_v5'', 1072000), (Standard ''D16as_v4'', 992000), (Standard ''D16as_v5'', 896000), (Standard ''D16d_v4'', 1284000),
      (Standard ''D16d_v5'', 1168000), (Standard ''D16ds_v4'', 1284000), (Standard ''D16ds_v5'', 1168000),
      (Standard ''D16lds_v5'', 976000), (Standard ''D16ls_v5'', 856000), (Standard ''D16s_v3'', 1032000), (Standard ''D16s_v4'', 1091000),
      (Standard ''D16s_v5'', 992000), (Standard ''D1_v2'', 91000)]"

definition japanwest_2 :: priceTable where
  "japanwest_2 =
     [(Standard ''D2'', 192000), (Standard ''D2_v2'', 182000), (Standard ''D2_v2_Promo'', 182000), (Standard ''D2_v3'', 129000),
      (Standard ''D2_v4'', 136000), (Standard ''D2_v5'', 124000), (Standard ''D2a_v4'', 124000), (Standard ''D2ads_v5'', 134000),
      (Standard ''D2as_v4'', 124000), (Standard ''D2as_v5'', 112000), (Standard ''D2d_v4'', 161000), (Standard ''D2d_v5'', 146000),
      (Standard ''D2ds_v4'', 161000), (Standard ''D2ds_v5'', 146000), (Standard ''D2lds_v5'', 122000), (Standard ''D2ls_v5'', 107000),
      (Standard ''D2s_v3'', 129000), (Standard ''D2s_v4'', 136000), (Standard ''D2s_v5'', 124000), (Standard ''D3'', 384000),
      (Standard ''D32-16s_v3'', 2064000), (Standard ''D32-8s_v3'', 2064000), (Standard ''D32_v3'', 2064000),
      (Standard ''D32_v4'', 2182000), (Standard ''D32_v5'', 1984000), (Standard ''D32a_v4'', 1984000), (Standard ''D32ads_v5'', 2144000),
      (Standard ''D32as_v4'', 1984000), (Standard ''D32as_v5'', 1792000), (Standard ''D32d_v4'', 2569000), (Standard ''D32d_v5'', 2336000),
      (Standard ''D32ds_v4'', 2569000), (Standard ''D32ds_v5'', 2336000), (Standard ''D32lds_v5'', 1952000),
      (Standard ''D32ls_v5'', 1712000), (Standard ''D32s_v3'', 2064000), (Standard ''D32s_v4'', 2182000), (Standard ''D32s_v5'', 1984000),
      (Standard ''D3_v2'', 365000), (Standard ''D3_v2_Promo'', 365000), (Standard ''D4'', 768000), (Standard ''D48_v3'', 3096000),
      (Standard ''D48_v4'', 3274000), (Standard ''D48_v5'', 2976000), (Standard ''D48a_v4'', 2976000), (Standard ''D48ads_v5'', 3216000),
      (Standard ''D48as_v4'', 2976000), (Standard ''D48as_v5'', 2688000), (Standard ''D48d_v4'', 3853000), (Standard ''D48d_v5'', 3504000),
      (Standard ''D48ds_v4'', 3853000), (Standard ''D48ds_v5'', 3504000), (Standard ''D48lds_v5'', 2928000),
      (Standard ''D48ls_v5'', 2568000), (Standard ''D48s_v3'', 3096000), (Standard ''D48s_v4'', 3274000), (Standard ''D48s_v5'', 2976000),
      (Standard ''D4_v2'', 729000), (Standard ''D4_v2_Promo'', 729000), (Standard ''D4_v3'', 258000), (Standard ''D4_v4'', 273000),
      (Standard ''D4_v5'', 248000), (Standard ''D4a_v4'', 248000), (Standard ''D4ads_v5'', 268000), (Standard ''D4as_v4'', 248000),
      (Standard ''D4as_v5'', 224000), (Standard ''D4d_v4'', 321000), (Standard ''D4d_v5'', 292000), (Standard ''D4ds_v4'', 321000),
      (Standard ''D4ds_v5'', 292000), (Standard ''D4lds_v5'', 244000), (Standard ''D4ls_v5'', 214000), (Standard ''D4s_v3'', 258000),
      (Standard ''D4s_v4'', 273000), (Standard ''D4s_v5'', 248000), (Standard ''D5_v2'', 1459000), (Standard ''D5_v2_Promo'', 1459000),
      (Standard ''D64-16s_v3'', 4128000), (Standard ''D64-32s_v3'', 4128000), (Standard ''D64_v3'', 4128000),
      (Standard ''D64_v4'', 4365000), (Standard ''D64_v5'', 3968000), (Standard ''D64a_v4'', 3968000), (Standard ''D64ads_v5'', 4288000),
      (Standard ''D64as_v4'', 3968000), (Standard ''D64as_v5'', 3584000), (Standard ''D64d_v4'', 5138000), (Standard ''D64d_v5'', 4672000),
      (Standard ''D64ds_v4'', 5138000), (Standard ''D64ds_v5'', 4672000), (Standard ''D64lds_v5'', 3904000),
      (Standard ''D64ls_v5'', 3424000), (Standard ''D64s_v3'', 4128000), (Standard ''D64s_v4'', 4365000), (Standard ''D64s_v5'', 3968000),
      (Standard ''D8_v3'', 516000), (Standard ''D8_v4'', 546000), (Standard ''D8_v5'', 496000), (Standard ''D8a_v4'', 496000),
      (Standard ''D8ads_v5'', 536000), (Standard ''D8as_v4'', 496000), (Standard ''D8as_v5'', 448000), (Standard ''D8d_v4'', 642000),
      (Standard ''D8d_v5'', 584000), (Standard ''D8ds_v4'', 642000), (Standard ''D8ds_v5'', 584000), (Standard ''D8lds_v5'', 488000),
      (Standard ''D8ls_v5'', 428000), (Standard ''D8s_v3'', 516000), (Standard ''D8s_v4'', 546000), (Standard ''D8s_v5'', 496000),
      (Standard ''D96_v5'', 5952000), (Standard ''D96a_v4'', 5952000), (Standard ''D96ads_v5'', 6432000), (Standard ''D96as_v4'', 5952000),
      (Standard ''D96as_v5'', 5376000), (Standard ''D96d_v5'', 7008000), (Standard ''D96ds_v5'', 7008000),
      (Standard ''D96lds_v5'', 5856000), (Standard ''D96ls_v5'', 5136000), (Standard ''D96s_v5'', 5952000),
      (Standard ''DC16ds_v3'', 2336000), (Standard ''DC16s_v3'', 1984000)]"

definition japanwest_3 :: priceTable where
  "japanwest_3 =
     [(Standard ''DC1ds_v3'', 146000), (Standard ''DC1s_v3'', 124000), (Standard ''DC24ds_v3'', 3504000), (Standard ''DC24s_v3'', 2976000),
      (Standard ''DC2ds_v3'', 292000), (Standard ''DC2s_v3'', 248000), (Standard ''DC32ds_v3'', 4672000), (Standard ''DC32s_v3'', 3968000),
      (Standard ''DC48ds_v3'', 7008000), (Standard ''DC48s_v3'', 5952000), (Standard ''DC4ds_v3'', 584000), (Standard ''DC4s_v3'', 496000),
      (Standard ''DC8ds_v3'', 1168000), (Standard ''DC8s_v3'', 992000), (Standard ''DS1'', 96000), (Standard ''DS11'', 210000),
      (Standard ''DS11-1_v2'', 200000), (Standard ''DS11_v2'', 200000), (Standard ''DS11_v2_Promo'', 200000), (Standard ''DS12'', 420000),
      (Standard ''DS12-1_v2'', 399000), (Standard ''DS12-2_v2'', 399000), (Standard ''DS12_v2'', 399000),
      (Standard ''DS12_v2_Promo'', 399000), (Standard ''DS13'', 840000), (Standard ''DS13-2_v2'', 798000),
      (Standard ''DS13-4_v2'', 798000), (Standard ''DS13_v2'', 798000), (Standard ''DS13_v2_Promo'', 798000), (Standard ''DS14'', 1680000),
      (Standard ''DS14-4_v2'', 1596000), (Standard ''DS14-8_v2'', 1596000), (Standard ''DS14_v2'', 1596000),
      (Standard ''DS14_v2_Promo'', 1596000), (Standard ''DS15_v2'', 1995000), (Standard ''DS15i_v2'', 1995000),
      (Standard ''DS1_v2'', 91000), (Standard ''DS2'', 192000), (Standard ''DS2_v2'', 182000), (Standard ''DS2_v2_Promo'', 182000),
      (Standard ''DS3'', 384000), (Standard ''DS3_v2'', 365000), (Standard ''DS3_v2_Promo'', 365000), (Standard ''DS4'', 768000),
      (Standard ''DS4_v2'', 729000), (Standard ''DS4_v2_Promo'', 729000), (Standard ''DS5_v2'', 1459000),
      (Standard ''DS5_v2_Promo'', 1459000), (Standard ''E104i_v5'', 8694000), (Standard ''E104id_v5'', 9953000),
      (Standard ''E104ids_v5'', 9953000), (Standard ''E104is_v5'', 8694000), (Standard ''E112iads_v5'', 9794000),
      (Standard ''E112ias_v5'', 8439000), (Standard ''E112ibds_v5'', 12320000), (Standard ''E112ibs_v5'', 10965000),
      (Standard ''E16-4ads_v5'', 1272000), (Standard ''E16-4as_v4'', 1216000), (Standard ''E16-4as_v5'', 1096000),
      (Standard ''E16-4ds_v4'', 1529000), (Standard ''E16-4ds_v5'', 1392000), (Standard ''E16-4s_v3'', 1280000),
      (Standard ''E16-4s_v4'', 1338000), (Standard ''E16-4s_v5'', 1216000), (Standard ''E16-8ads_v5'', 1272000),
      (Standard ''E16-8as_v4'', 1216000), (Standard ''E16-8as_v5'', 1096000), (Standard ''E16-8ds_v4'', 1529000),
      (Standard ''E16-8ds_v5'', 1392000), (Standard ''E16-8s_v3'', 1280000), (Standard ''E16-8s_v4'', 1338000),
      (Standard ''E16-8s_v5'', 1216000), (Standard ''E16_v3'', 1280000), (Standard ''E16_v4'', 1338000), (Standard ''E16_v5'', 1216000),
      (Standard ''E16a_v4'', 1216000), (Standard ''E16ads_v5'', 1272000), (Standard ''E16as_v4'', 1216000),
      (Standard ''E16as_v5'', 1096000), (Standard ''E16bds_v5'', 1600000), (Standard ''E16bs_v5'', 1424000),
      (Standard ''E16d_v4'', 1529000), (Standard ''E16d_v5'', 1392000), (Standard ''E16ds_v4'', 1529000), (Standard ''E16ds_v5'', 1392000),
      (Standard ''E16s_v3'', 1280000), (Standard ''E16s_v4'', 1338000), (Standard ''E16s_v5'', 1216000), (Standard ''E20_v3'', 1600000),
      (Standard ''E20_v4'', 1672000), (Standard ''E20_v5'', 1520000), (Standard ''E20a_v4'', 1520000), (Standard ''E20ads_v5'', 1590000),
      (Standard ''E20as_v4'', 1520000), (Standard ''E20as_v5'', 1370000), (Standard ''E20d_v4'', 1911000), (Standard ''E20d_v5'', 1740000),
      (Standard ''E20ds_v4'', 1911000), (Standard ''E20ds_v5'', 1740000), (Standard ''E20s_v3'', 1600000), (Standard ''E20s_v4'', 1672000),
      (Standard ''E20s_v5'', 1520000), (Standard ''E2_v3'', 160000), (Standard ''E2_v4'', 167000), (Standard ''E2_v5'', 152000),
      (Standard ''E2a_v4'', 152000), (Standard ''E2ads_v5'', 159000), (Standard ''E2as_v4'', 152000), (Standard ''E2as_v5'', 137000),
      (Standard ''E2bds_v5'', 200000), (Standard ''E2bs_v5'', 178000), (Standard ''E2d_v4'', 191000), (Standard ''E2d_v5'', 174000),
      (Standard ''E2ds_v4'', 191000), (Standard ''E2ds_v5'', 174000), (Standard ''E2s_v3'', 160000), (Standard ''E2s_v4'', 167000),
      (Standard ''E2s_v5'', 152000), (Standard ''E32-16ads_v5'', 2544000), (Standard ''E32-16as_v4'', 2432000),
      (Standard ''E32-16as_v5'', 2192000), (Standard ''E32-16ds_v4'', 3057000), (Standard ''E32-16ds_v5'', 2784000)]"

definition japanwest_4 :: priceTable where
  "japanwest_4 =
     [(Standard ''E32-16s_v3'', 2560000), (Standard ''E32-16s_v4'', 2675000), (Standard ''E32-16s_v5'', 2432000),
      (Standard ''E32-8ads_v5'', 2544000), (Standard ''E32-8as_v4'', 2432000), (Standard ''E32-8as_v5'', 2192000),
      (Standard ''E32-8ds_v4'', 3057000), (Standard ''E32-8ds_v5'', 2784000), (Standard ''E32-8s_v3'', 2560000),
      (Standard ''E32-8s_v4'', 2675000), (Standard ''E32-8s_v5'', 2432000), (Standard ''E32_v3'', 2560000), (Standard ''E32_v4'', 2675000),
      (Standard ''E32_v5'', 2432000), (Standard ''E32a_v4'', 2432000), (Standard ''E32ads_v5'', 2544000), (Standard ''E32as_v4'', 2432000),
      (Standard ''E32as_v5'', 2192000), (Standard ''E32bds_v5'', 3200000), (Standard ''E32bs_v5'', 2848000),
      (Standard ''E32d_v4'', 3057000), (Standard ''E32d_v5'', 2784000), (Standard ''E32ds_v4'', 3057000), (Standard ''E32ds_v5'', 2784000),
      (Standard ''E32s_v3'', 2560000), (Standard ''E32s_v4'', 2675000), (Standard ''E32s_v5'', 2432000), (Standard ''E4-2ads_v5'', 318000),
      (Standard ''E4-2as_v4'', 304000), (Standard ''E4-2as_v5'', 274000), (Standard ''E4-2ds_v4'', 382000),
      (Standard ''E4-2ds_v5'', 348000), (Standard ''E4-2s_v3'', 320000), (Standard ''E4-2s_v4'', 334000), (Standard ''E4-2s_v5'', 304000),
      (Standard ''E48_v3'', 3840000), (Standard ''E48_v4'', 4013000), (Standard ''E48_v5'', 3648000), (Standard ''E48a_v4'', 3648000),
      (Standard ''E48ads_v5'', 3816000), (Standard ''E48as_v4'', 3648000), (Standard ''E48as_v5'', 3288000),
      (Standard ''E48bds_v5'', 4800000), (Standard ''E48bs_v5'', 4272000), (Standard ''E48d_v4'', 4586000),
      (Standard ''E48d_v5'', 4176000), (Standard ''E48ds_v4'', 4586000), (Standard ''E48ds_v5'', 4176000), (Standard ''E48s_v3'', 3840000),
      (Standard ''E48s_v4'', 4013000), (Standard ''E48s_v5'', 3648000), (Standard ''E4_v3'', 320000), (Standard ''E4_v4'', 334000),
      (Standard ''E4_v5'', 304000), (Standard ''E4a_v4'', 304000), (Standard ''E4ads_v5'', 318000), (Standard ''E4as_v4'', 304000),
      (Standard ''E4as_v5'', 274000), (Standard ''E4bds_v5'', 400000), (Standard ''E4bs_v5'', 356000), (Standard ''E4d_v4'', 382000),
      (Standard ''E4d_v5'', 348000), (Standard ''E4ds_v4'', 382000), (Standard ''E4ds_v5'', 348000), (Standard ''E4s_v3'', 320000),
      (Standard ''E4s_v4'', 334000), (Standard ''E4s_v5'', 304000), (Standard ''E64-16ads_v5'', 5088000),
      (Standard ''E64-16as_v4'', 4864000), (Standard ''E64-16as_v5'', 4384000), (Standard ''E64-16ds_v4'', 6115000),
      (Standard ''E64-16ds_v5'', 5568000), (Standard ''E64-16s_v3'', 4609000), (Standard ''E64-16s_v4'', 5350000),
      (Standard ''E64-16s_v5'', 4864000), (Standard ''E64-32ads_v5'', 5088000), (Standard ''E64-32as_v4'', 4864000),
      (Standard ''E64-32as_v5'', 4384000), (Standard ''E64-32ds_v4'', 6115000), (Standard ''E64-32ds_v5'', 5568000),
      (Standard ''E64-32s_v3'', 4609000), (Standard ''E64-32s_v4'', 5350000), (Standard ''E64-32s_v5'', 4864000),
      (Standard ''E64_v3'', 4609000), (Standard ''E64_v4'', 5350000), (Standard ''E64_v5'', 4864000), (Standard ''E64a_v4'', 4864000),
      (Standard ''E64ads_v5'', 5088000), (Standard ''E64as_v4'', 4864000), (Standard ''E64as_v5'', 4384000),
      (Standard ''E64bds_v5'', 6400000), (Standard ''E64bs_v5'', 5696000), (Standard ''E64d_v4'', 6115000),
      (Standard ''E64d_v5'', 5568000), (Standard ''E64ds_v4'', 6115000), (Standard ''E64ds_v5'', 5568000), (Standard ''E64i_v3'', 4609000),
      (Standard ''E64is_v3'', 4609000), (Standard ''E64s_v3'', 4609000), (Standard ''E64s_v4'', 5350000), (Standard ''E64s_v5'', 4864000),
      (Standard ''E8-2ads_v5'', 636000), (Standard ''E8-2as_v4'', 608000), (Standard ''E8-2as_v5'', 548000),
      (Standard ''E8-2ds_v4'', 764000), (Standard ''E8-2ds_v5'', 696000), (Standard ''E8-2s_v3'', 640000), (Standard ''E8-2s_v4'', 669000),
      (Standard ''E8-2s_v5'', 608000), (Standard ''E8-4ads_v5'', 636000), (Standard ''E8-4as_v4'', 608000),
      (Standard ''E8-4as_v5'', 548000), (Standard ''E8-4ds_v4'', 764000), (Standard ''E8-4ds_v5'', 696000),
      (Standard ''E8-4s_v3'', 640000), (Standard ''E8-4s_v4'', 669000), (Standard ''E8-4s_v5'', 608000), (Standard ''E80ids_v4'', 7644000),
      (Standard ''E80is_v4'', 6688000), (Standard ''E8_v3'', 640000), (Standard ''E8_v4'', 669000), (Standard ''E8_v5'', 608000),
      (Standard ''E8a_v4'', 608000)]"

definition japanwest_5 :: priceTable where
  "japanwest_5 =
     [(Standard ''E8ads_v5'', 636000), (Standard ''E8as_v4'', 608000), (Standard ''E8as_v5'', 548000), (Standard ''E8bds_v5'', 800000),
      (Standard ''E8bs_v5'', 712000), (Standard ''E8d_v4'', 764000), (Standard ''E8d_v5'', 696000), (Standard ''E8ds_v4'', 764000),
      (Standard ''E8ds_v5'', 696000), (Standard ''E8s_v3'', 640000), (Standard ''E8s_v4'', 669000), (Standard ''E8s_v5'', 608000),
      (Standard ''E96-24ads_v5'', 7632000), (Standard ''E96-24as_v4'', 7296000), (Standard ''E96-24as_v5'', 6576000),
      (Standard ''E96-24ds_v5'', 8352000), (Standard ''E96-24s_v5'', 7296000), (Standard ''E96-48ads_v5'', 7632000),
      (Standard ''E96-48as_v4'', 7296000), (Standard ''E96-48as_v5'', 6576000), (Standard ''E96-48ds_v5'', 8352000),
      (Standard ''E96-48s_v5'', 7296000), (Standard ''E96_v5'', 7296000), (Standard ''E96a_v4'', 7296000),
      (Standard ''E96ads_v5'', 7632000), (Standard ''E96as_v4'', 7296000), (Standard ''E96as_v5'', 6576000),
      (Standard ''E96bds_v5'', 9600000), (Standard ''E96bs_v5'', 8544000), (Standard ''E96d_v5'', 8352000),
      (Standard ''E96ds_v5'', 8352000), (Standard ''E96iads_v5'', 8395000), (Standard ''E96ias_v4'', 7296000),
      (Standard ''E96ias_v5'', 7234000), (Standard ''E96s_v5'', 7296000), (Standard ''F1'', 63000), (Standard ''F16'', 1008000),
      (Standard ''F16s'', 1008000), (Standard ''F16s_v2'', 938000), (Standard ''F1s'', 63000), (Standard ''F2'', 126000),
      (Standard ''F2s'', 126000), (Standard ''F2s_v2'', 117000), (Standard ''F32s_v2'', 1877000), (Standard ''F4'', 252000),
      (Standard ''F48s_v2'', 2815000), (Standard ''F4s'', 252000), (Standard ''F4s_v2'', 235000), (Standard ''F64s_v2'', 3754000),
      (Standard ''F72s_v2'', 4223000), (Standard ''F8'', 504000), (Standard ''F8s'', 504000), (Standard ''F8s_v2'', 469000),
      (Standard ''L16as_v3'', 1464000), (Standard ''L16s_v3'', 1636000), (Standard ''L32as_v3'', 2928000), (Standard ''L32s_v3'', 3272000),
      (Standard ''L48as_v3'', 4392000), (Standard ''L48s_v3'', 4908000), (Standard ''L64as_v3'', 5856000), (Standard ''L64s_v3'', 6544000),
      (Standard ''L80as_v3'', 7320000), (Standard ''L80s_v3'', 8180000), (Standard ''L8as_v3'', 732000), (Standard ''L8s_v3'', 818000),
      (Standard ''M128'', 19340000), (Standard ''M128-32ms'', 38698000), (Standard ''M128-64ms'', 38698000),
      (Standard ''M128dms_v2'', 38701000), (Standard ''M128ds_v2'', 19343000), (Standard ''M128m'', 38698000),
      (Standard ''M128ms'', 38698000), (Standard ''M128ms_v2'', 38090000), (Standard ''M128s'', 19340000),
      (Standard ''M128s_v2'', 18733000), (Standard ''M16-4ms'', 4455900), (Standard ''M16-8ms'', 4455900), (Standard ''M16ms'', 4455900),
      (Standard ''M16s'', 3461000), (Standard ''M192idms_v2'', 46493000), (Standard ''M192ids_v2'', 23246000),
      (Standard ''M192ims_v2'', 45882000), (Standard ''M192is_v2'', 22636000), (Standard ''M208-104ms_v2'', 69161000),
      (Standard ''M208-104s_v2'', 34580000), (Standard ''M208-52ms_v2'', 69161000), (Standard ''M208-52s_v2'', 34580000),
      (Standard ''M208ms_v2'', 69161000), (Standard ''M208s_v2'', 34580000), (Standard ''M32-16ms'', 8911700),
      (Standard ''M32-8ms'', 8911700), (Standard ''M32dms_v2'', 8912000), (Standard ''M32ls'', 3447600), (Standard ''M32ms'', 8911700),
      (Standard ''M32ms_v2'', 8759000), (Standard ''M32s'', 4835800), (Standard ''M32ts'', 3248000),
      (Standard ''M416-104ms_v2'', 153680000), (Standard ''M416-104s_v2'', 76849000), (Standard ''M416-208ms_v2'', 153680000),
      (Standard ''M416-208s_v2'', 76849000), (Standard ''M416is_v2'', 76849000), (Standard ''M416ms_v2'', 153680000),
      (Standard ''M416s_8_v2'', 102470000), (Standard ''M416s_v2'', 76849000), (Standard ''M64'', 9670000),
      (Standard ''M64-16ms'', 14989000), (Standard ''M64-32ms'', 14989000), (Standard ''M64dms_v2'', 14993000),
      (Standard ''M64ds_v2'', 9670000), (Standard ''M64ls'', 6498000), (Standard ''M64m'', 14989000), (Standard ''M64ms'', 14989000),
      (Standard ''M64ms_v2'', 14688000), (Standard ''M64s'', 9670000), (Standard ''M64s_v2'', 9365000), (Standard ''M8-2ms'', 2227900),
      (Standard ''M8-4ms'', 2227900), (Standard ''M8ms'', 2227900), (Standard ''ND96ams_A100_v4'', 50794000),
      (Standard ''ND96amsr_A100_v4'', 50794000)]"

definition japanwest :: priceTable where
  "japanwest = japanwest_1 @ japanwest_2 @ japanwest_3 @ japanwest_4 @ japanwest_5"

subsection \<open>jioindiacentral\<close>

definition jioindiacentral_1 :: priceTable where
  "jioindiacentral_1 =
     [(''Dadsv5_Type1'', 4133000), (''Dasv4_Type1'', 5333000), (''Dasv4_Type2'', 5333000), (''Dasv5_Type1'', 3422000),
      (''Dsv3_Type3'', 4445000), (''Dsv5_Type1'', 5555000), (''Easv4_Type1'', 6864000), (''Easv4_Type2'', 6864000),
      (''Easv5_Type1'', 3775000), (''Ebdsv5-Type1'', 6195000), (''Ebsv5-Type1'', 5456000), (''Esv3_Type3'', 4506000),
      (''Esv3_Type4'', 6105000), (''Lasv3_Type1'', 7788000), (''Lsv3_Type1'', 8712000), (Standard ''A1_v2'', 47000),
      (Standard ''A2_v2'', 98000), (Standard ''A2m_v2'', 158000), (Standard ''A4_v2'', 206000), (Standard ''A4m_v2'', 333000),
      (Standard ''A8_v2'', 433000), (Standard ''A8m_v2'', 699000), (Standard ''B12ms'', 538000), (Standard ''B16als_v2'', 422000),
      (Standard ''B16as_v2'', 467000), (Standard ''B16ls_v2'', 635000), (Standard ''B16ms'', 717000), (Standard ''B16s_v2'', 790000),
      (Standard ''B1ls'', 5600), (Standard ''B1ms'', 22400), (Standard ''B1s'', 11200), (Standard ''B20ms'', 896000),
      (Standard ''B2als_v2'', 24600), (Standard ''B2as_v2'', 49200), (Standard ''B2ats_v2'', 6150), (Standard ''B2ls_v2'', 54000),
      (Standard ''B2ms'', 89600), (Standard ''B2s'', 44800), (Standard ''B2s_v2'', 89600), (Standard ''B2ts_v2'', 20400),
      (Standard ''B32als_v2'', 844000), (Standard ''B32as_v2'', 787000), (Standard ''B32ls_v2'', 1417000), (Standard ''B32s_v2'', 1581000),
      (Standard ''B4als_v2'', 87200), (Standard ''B4as_v2'', 98400), (Standard ''B4ls_v2'', 177000), (Standard ''B4ms'', 179000),
      (Standard ''B4s_v2'', 179000), (Standard ''B8als_v2'', 174000), (Standard ''B8as_v2'', 197000), (Standard ''B8ls_v2'', 354000),
      (Standard ''B8ms'', 358000), (Standard ''B8s_v2'', 358000), (Standard ''D11_v2'', 189000), (Standard ''D12_v2'', 379000),
      (Standard ''D13_v2'', 758000), (Standard ''D14_v2'', 1516000), (Standard ''D15_v2'', 1895000), (Standard ''D15i_v2'', 1895000),
      (Standard ''D16_v3'', 840000), (Standard ''D16a_v4'', 493000), (Standard ''D16ads_v5'', 537000), (Standard ''D16as_v4'', 493000),
      (Standard ''D16as_v5'', 444000), (Standard ''D16lds_v5'', 792000), (Standard ''D16ls_v5'', 680000), (Standard ''D16s_v3'', 840000),
      (Standard ''D1_v2'', 84000), (Standard ''D2_v2'', 169000), (Standard ''D2_v3'', 105000), (Standard ''D2a_v4'', 62200),
      (Standard ''D2ads_v5'', 67100), (Standard ''D2as_v4'', 62200), (Standard ''D2as_v5'', 55600), (Standard ''D2lds_v5'', 99000),
      (Standard ''D2ls_v5'', 85000), (Standard ''D2s_v3'', 105000), (Standard ''D32-16s_v3'', 1680000), (Standard ''D32-8s_v3'', 1680000),
      (Standard ''D32_v3'', 1680000), (Standard ''D32a_v4'', 987000), (Standard ''D32ads_v5'', 1074000), (Standard ''D32as_v4'', 987000),
      (Standard ''D32as_v5'', 889000), (Standard ''D32lds_v5'', 1584000), (Standard ''D32ls_v5'', 1360000),
      (Standard ''D32s_v3'', 1680000), (Standard ''D3_v2'', 337000), (Standard ''D48_v3'', 2520000), (Standard ''D48a_v4'', 1481000),
      (Standard ''D48ads_v5'', 1610000), (Standard ''D48as_v4'', 1481000), (Standard ''D48as_v5'', 1333000),
      (Standard ''D48lds_v5'', 2376000), (Standard ''D48ls_v5'', 2040000), (Standard ''D48s_v3'', 2520000), (Standard ''D4_v2'', 675000),
      (Standard ''D4_v3'', 210000), (Standard ''D4a_v4'', 123000), (Standard ''D4ads_v5'', 134000), (Standard ''D4as_v4'', 123000),
      (Standard ''D4as_v5'', 111000), (Standard ''D4lds_v5'', 198000), (Standard ''D4ls_v5'', 170000), (Standard ''D4s_v3'', 210000),
      (Standard ''D5_v2'', 1350000), (Standard ''D64-16s_v3'', 3360000), (Standard ''D64-32s_v3'', 3360000),
      (Standard ''D64_v3'', 3360000), (Standard ''D64a_v4'', 1975000), (Standard ''D64ads_v5'', 2147000), (Standard ''D64as_v4'', 1975000),
      (Standard ''D64as_v5'', 1778000), (Standard ''D64lds_v5'', 3168000), (Standard ''D64ls_v5'', 2720000),
      (Standard ''D64s_v3'', 3360000), (Standard ''D8_v3'', 420000), (Standard ''D8a_v4'', 246000), (Standard ''D8ads_v5'', 268000),
      (Standard ''D8as_v4'', 246000), (Standard ''D8as_v5'', 222000), (Standard ''D8lds_v5'', 396000), (Standard ''D8ls_v5'', 340000),
      (Standard ''D8s_v3'', 420000), (Standard ''D96a_v4'', 2962000), (Standard ''D96ads_v5'', 3221000), (Standard ''D96as_v4'', 2962000),
      (Standard ''D96as_v5'', 2666000), (Standard ''D96lds_v5'', 4752000), (Standard ''D96ls_v5'', 4080000),
      (Standard ''DS11-1_v2'', 189000), (Standard ''DS11_v2'', 189000), (Standard ''DS12-1_v2'', 379000), (Standard ''DS12-2_v2'', 379000),
      (Standard ''DS12_v2'', 379000), (Standard ''DS13-2_v2'', 758000), (Standard ''DS13-4_v2'', 758000), (Standard ''DS13_v2'', 758000),
      (Standard ''DS14-4_v2'', 1516000), (Standard ''DS14-8_v2'', 1516000), (Standard ''DS14_v2'', 1516000),
      (Standard ''DS15_v2'', 1895000), (Standard ''DS15i_v2'', 1895000)]"

definition jioindiacentral_2 :: priceTable where
  "jioindiacentral_2 =
     [(Standard ''DS1_v2'', 84000), (Standard ''DS2_v2'', 169000), (Standard ''DS3_v2'', 337000), (Standard ''DS4_v2'', 675000),
      (Standard ''DS5_v2'', 1350000), (Standard ''E112iads_v5'', 5116000), (Standard ''E112ias_v5'', 4404000),
      (Standard ''E112ibds_v5'', 10842000), (Standard ''E112ibs_v5'', 9548000), (Standard ''E16-4ads_v5'', 664000),
      (Standard ''E16-4as_v4'', 1040000), (Standard ''E16-4as_v5'', 572000), (Standard ''E16-4s_v3'', 1096000),
      (Standard ''E16-8ads_v5'', 664000), (Standard ''E16-8as_v4'', 1040000), (Standard ''E16-8as_v5'', 572000),
      (Standard ''E16-8s_v3'', 1096000), (Standard ''E16_v3'', 1096000), (Standard ''E16a_v4'', 635000), (Standard ''E16ads_v5'', 664000),
      (Standard ''E16as_v4'', 635000), (Standard ''E16as_v5'', 572000), (Standard ''E16bds_v5'', 1408000),
      (Standard ''E16bs_v5'', 1240000), (Standard ''E16s_v3'', 1096000), (Standard ''E20_v3'', 1370000), (Standard ''E20a_v4'', 794000),
      (Standard ''E20ads_v5'', 830000), (Standard ''E20as_v4'', 794000), (Standard ''E20as_v5'', 715000), (Standard ''E20s_v3'', 1370000),
      (Standard ''E2_v3'', 137000), (Standard ''E2a_v4'', 80000), (Standard ''E2ads_v5'', 83000), (Standard ''E2as_v4'', 80000),
      (Standard ''E2as_v5'', 71500), (Standard ''E2bds_v5'', 176000), (Standard ''E2bs_v5'', 155000), (Standard ''E2s_v3'', 137000),
      (Standard ''E32-16ads_v5'', 1329000), (Standard ''E32-16as_v4'', 2080000), (Standard ''E32-16as_v5'', 1144000),
      (Standard ''E32-16s_v3'', 2192000), (Standard ''E32-8ads_v5'', 1329000), (Standard ''E32-8as_v4'', 2080000),
      (Standard ''E32-8as_v5'', 1144000), (Standard ''E32-8s_v3'', 2192000), (Standard ''E32_v3'', 2192000),
      (Standard ''E32a_v4'', 1271000), (Standard ''E32ads_v5'', 1329000), (Standard ''E32as_v4'', 1271000),
      (Standard ''E32as_v5'', 1144000), (Standard ''E32bds_v5'', 2816000), (Standard ''E32bs_v5'', 2480000),
      (Standard ''E32s_v3'', 2192000), (Standard ''E4-2ads_v5'', 166000), (Standard ''E4-2as_v4'', 260000),
      (Standard ''E4-2as_v5'', 143000), (Standard ''E4-2s_v3'', 274000), (Standard ''E48_v3'', 3281000), (Standard ''E48a_v4'', 1906000),
      (Standard ''E48ads_v5'', 1993000), (Standard ''E48as_v4'', 1906000), (Standard ''E48as_v5'', 1716000),
      (Standard ''E48bds_v5'', 4224000), (Standard ''E48bs_v5'', 3720000), (Standard ''E48s_v3'', 3281000), (Standard ''E4_v3'', 274000),
      (Standard ''E4a_v4'', 158000), (Standard ''E4ads_v5'', 166000), (Standard ''E4as_v4'', 158000), (Standard ''E4as_v5'', 143000),
      (Standard ''E4bds_v5'', 352000), (Standard ''E4bs_v5'', 310000), (Standard ''E4s_v3'', 274000), (Standard ''E64-16ads_v5'', 2658000),
      (Standard ''E64-16as_v4'', 4160000), (Standard ''E64-16as_v5'', 2288000), (Standard ''E64-16s_v3'', 3937000),
      (Standard ''E64-32ads_v5'', 2658000), (Standard ''E64-32as_v4'', 4160000), (Standard ''E64-32as_v5'', 2288000),
      (Standard ''E64-32s_v3'', 3937000), (Standard ''E64_v3'', 3937000), (Standard ''E64a_v4'', 2542000),
      (Standard ''E64ads_v5'', 2658000), (Standard ''E64as_v4'', 2542000), (Standard ''E64as_v5'', 2288000),
      (Standard ''E64bds_v5'', 5632000), (Standard ''E64bs_v5'', 4960000), (Standard ''E64s_v3'', 3937000),
      (Standard ''E8-2ads_v5'', 332000), (Standard ''E8-2as_v4'', 520000), (Standard ''E8-2as_v5'', 286000),
      (Standard ''E8-2s_v3'', 548000), (Standard ''E8-4ads_v5'', 332000), (Standard ''E8-4as_v4'', 520000),
      (Standard ''E8-4as_v5'', 286000), (Standard ''E8-4s_v3'', 548000), (Standard ''E8_v3'', 548000), (Standard ''E8a_v4'', 317000),
      (Standard ''E8ads_v5'', 332000), (Standard ''E8as_v4'', 317000), (Standard ''E8as_v5'', 286000), (Standard ''E8bds_v5'', 704000),
      (Standard ''E8bs_v5'', 620000), (Standard ''E8s_v3'', 548000), (Standard ''E96-24ads_v5'', 3986000),
      (Standard ''E96-24as_v4'', 6240000), (Standard ''E96-24as_v5'', 3432000), (Standard ''E96-48ads_v5'', 3986000),
      (Standard ''E96-48as_v4'', 6240000), (Standard ''E96-48as_v5'', 3432000), (Standard ''E96a_v4'', 3813000),
      (Standard ''E96ads_v5'', 3986000), (Standard ''E96as_v4'', 3813000), (Standard ''E96as_v5'', 3432000),
      (Standard ''E96bds_v5'', 8448000), (Standard ''E96bs_v5'', 7440000), (Standard ''E96iads_v5'', 4385000),
      (Standard ''E96ias_v4'', 6240000), (Standard ''E96ias_v5'', 3775000), (Standard ''F1'', 49000), (Standard ''F16'', 790000),
      (Standard ''F16s'', 790000), (Standard ''F1s'', 49000), (Standard ''F2'', 98800), (Standard ''F2s'', 98800),
      (Standard ''F4'', 198000), (Standard ''F4s'', 198000), (Standard ''F8'', 395000), (Standard ''F8s'', 395000),
      (Standard ''L16as_v3'', 1416000), (Standard ''L16s_v3'', 1584000), (Standard ''L32as_v3'', 2832000), (Standard ''L32s_v3'', 3168000),
      (Standard ''L48as_v3'', 4248000), (Standard ''L48s_v3'', 4752000), (Standard ''L64as_v3'', 5664000), (Standard ''L64s_v3'', 6336000),
      (Standard ''L80as_v3'', 7080000), (Standard ''L80s_v3'', 7920000), (Standard ''L8as_v3'', 708000), (Standard ''L8s_v3'', 792000)]"

definition jioindiacentral :: priceTable where
  "jioindiacentral = jioindiacentral_1 @ jioindiacentral_2"

subsection \<open>jioindiawest\<close>

definition jioindiawest_1 :: priceTable where
  "jioindiawest_1 =
     [(''Dadsv5_Type1'', 4133000), (''Dasv4_Type1'', 5333000), (''Dasv4_Type2'', 5333000), (''Dasv5_Type1'', 3422000),
      (''Dsv3_Type3'', 4445000), (''Dsv5_Type1'', 5555000), (''Eadsv5_Type1'', 4385000), (''Easv4_Type1'', 6864000),
      (''Easv4_Type2'', 6864000), (''Easv5_Type1'', 3775000), (''Ebdsv5-Type1'', 6195000), (''Ebsv5-Type1'', 5456000),
      (''Esv3_Type3'', 4506000), (''Esv3_Type4'', 6105000), (''Fsv2 Type3'', 3927000), (''Fsv2_Type2'', 3366000),
      (''Fsv2_Type4'', 5142000), (''Lasv3_Type1'', 7788000), (''Lsv3_Type1'', 8712000), (Standard ''A1_v2'', 47000),
      (Standard ''A2_v2'', 98000), (Standard ''A2m_v2'', 158000), (Standard ''A4_v2'', 206000), (Standard ''A4m_v2'', 333000),
      (Standard ''A8_v2'', 433000), (Standard ''A8m_v2'', 699000), (Standard ''B12ms'', 538000), (Standard ''B16als_v2'', 349000),
      (Standard ''B16as_v2'', 394000), (Standard ''B16ls_v2'', 708000), (Standard ''B16ms'', 717000), (Standard ''B16s_v2'', 790000),
      (Standard ''B1ls'', 5600), (Standard ''B1ms'', 22400), (Standard ''B1s'', 11200), (Standard ''B20ms'', 896000),
      (Standard ''B2als_v2'', 24600), (Standard ''B2as_v2'', 58400), (Standard ''B2ats_v2'', 15400), (Standard ''B2ls_v2'', 54000),
      (Standard ''B2ms'', 89600), (Standard ''B2s'', 44800), (Standard ''B2s_v2'', 98800), (Standard ''B2ts_v2'', 20400),
      (Standard ''B32als_v2'', 844000), (Standard ''B32as_v2'', 787000), (Standard ''B32ls_v2'', 1269000), (Standard ''B32s_v2'', 1434000),
      (Standard ''B4als_v2'', 87200), (Standard ''B4as_v2'', 98400), (Standard ''B4ls_v2'', 159000), (Standard ''B4ms'', 179000),
      (Standard ''B4s_v2'', 198000), (Standard ''B8als_v2'', 174000), (Standard ''B8as_v2'', 197000), (Standard ''B8ls_v2'', 354000),
      (Standard ''B8ms'', 358000), (Standard ''B8s_v2'', 358000), (Standard ''D11_v2'', 189000), (Standard ''D12_v2'', 379000),
      (Standard ''D13_v2'', 758000), (Standard ''D14_v2'', 1516000), (Standard ''D14_v2_Promo'', 1516000), (Standard ''D15_v2'', 1895000),
      (Standard ''D15i_v2'', 1895000), (Standard ''D16_v3'', 840000), (Standard ''D16a_v4'', 493000), (Standard ''D16ads_v5'', 537000),
      (Standard ''D16as_v4'', 493000), (Standard ''D16as_v5'', 444000), (Standard ''D16lds_v5'', 792000), (Standard ''D16ls_v5'', 680000),
      (Standard ''D16s_v3'', 840000), (Standard ''D1_v2'', 84000), (Standard ''D2_v2'', 169000), (Standard ''D2_v3'', 105000),
      (Standard ''D2a_v4'', 62200), (Standard ''D2ads_v5'', 67100), (Standard ''D2as_v4'', 62200), (Standard ''D2as_v5'', 55600),
      (Standard ''D2lds_v5'', 99000), (Standard ''D2ls_v5'', 85000), (Standard ''D2s_v3'', 105000), (Standard ''D32-16s_v3'', 1680000),
      (Standard ''D32-8s_v3'', 1680000), (Standard ''D32_v3'', 1680000), (Standard ''D32a_v4'', 987000), (Standard ''D32ads_v5'', 1074000),
      (Standard ''D32as_v4'', 987000), (Standard ''D32as_v5'', 889000), (Standard ''D32lds_v5'', 1584000),
      (Standard ''D32ls_v5'', 1360000), (Standard ''D32s_v3'', 1680000), (Standard ''D3_v2'', 337000), (Standard ''D48_v3'', 2520000),
      (Standard ''D48a_v4'', 1481000), (Standard ''D48ads_v5'', 1610000), (Standard ''D48as_v4'', 1481000),
      (Standard ''D48as_v5'', 1333000), (Standard ''D48lds_v5'', 2376000), (Standard ''D48ls_v5'', 2040000),
      (Standard ''D48s_v3'', 2520000), (Standard ''D4_v2'', 675000), (Standard ''D4_v3'', 210000), (Standard ''D4a_v4'', 123000),
      (Standard ''D4ads_v5'', 134000), (Standard ''D4as_v4'', 123000), (Standard ''D4as_v5'', 111000), (Standard ''D4lds_v5'', 198000),
      (Standard ''D4ls_v5'', 170000)]"

definition jioindiawest_2 :: priceTable where
  "jioindiawest_2 =
     [(Standard ''D4s_v3'', 210000), (Standard ''D5_v2'', 1350000), (Standard ''D5_v2_Promo'', 1350000),
      (Standard ''D64-16s_v3'', 3360000), (Standard ''D64-32s_v3'', 3360000), (Standard ''D64_v3'', 3360000),
      (Standard ''D64a_v4'', 1975000), (Standard ''D64ads_v5'', 2147000), (Standard ''D64as_v4'', 1975000),
      (Standard ''D64as_v5'', 1778000), (Standard ''D64lds_v5'', 3168000), (Standard ''D64ls_v5'', 2720000),
      (Standard ''D64s_v3'', 3360000), (Standard ''D8_v3'', 420000), (Standard ''D8a_v4'', 246000), (Standard ''D8ads_v5'', 268000),
      (Standard ''D8as_v4'', 246000), (Standard ''D8as_v5'', 222000), (Standard ''D8lds_v5'', 396000), (Standard ''D8ls_v5'', 340000),
      (Standard ''D8s_v3'', 420000), (Standard ''D96a_v4'', 2962000), (Standard ''D96ads_v5'', 3221000), (Standard ''D96as_v4'', 2962000),
      (Standard ''D96as_v5'', 2666000), (Standard ''D96lds_v5'', 4752000), (Standard ''D96ls_v5'', 4080000),
      (Standard ''DS11-1_v2'', 189000), (Standard ''DS11_v2'', 189000), (Standard ''DS12-1_v2'', 379000), (Standard ''DS12-2_v2'', 379000),
      (Standard ''DS12_v2'', 379000), (Standard ''DS13-2_v2'', 758000), (Standard ''DS13-4_v2'', 758000), (Standard ''DS13_v2'', 758000),
      (Standard ''DS14-4_v2'', 1516000), (Standard ''DS14-8_v2'', 1516000), (Standard ''DS14_v2'', 1516000),
      (Standard ''DS14_v2_Promo'', 1516000), (Standard ''DS15_v2'', 1895000), (Standard ''DS15i_v2'', 1895000),
      (Standard ''DS1_v2'', 84000), (Standard ''DS2_v2'', 169000), (Standard ''DS3_v2'', 337000), (Standard ''DS4_v2'', 675000),
      (Standard ''DS5_v2'', 1350000), (Standard ''DS5_v2_Promo'', 1350000), (Standard ''E112iads_v5'', 5116000),
      (Standard ''E112ias_v5'', 4404000), (Standard ''E112ibds_v5'', 10842000), (Standard ''E112ibs_v5'', 9548000),
      (Standard ''E16-4ads_v5'', 664000), (Standard ''E16-4as_v4'', 1040000), (Standard ''E16-4as_v5'', 572000),
      (Standard ''E16-4s_v3'', 1096000), (Standard ''E16-8ads_v5'', 664000), (Standard ''E16-8as_v4'', 1040000),
      (Standard ''E16-8as_v5'', 572000), (Standard ''E16-8s_v3'', 1096000), (Standard ''E16_v3'', 1096000), (Standard ''E16a_v4'', 635000),
      (Standard ''E16ads_v5'', 664000), (Standard ''E16as_v4'', 635000), (Standard ''E16as_v5'', 572000),
      (Standard ''E16bds_v5'', 1408000), (Standard ''E16bs_v5'', 1240000), (Standard ''E16ds_v5'', 604000),
      (Standard ''E16s_v3'', 1096000), (Standard ''E16s_v5'', 520000), (Standard ''E20_v3'', 1370000), (Standard ''E20a_v4'', 794000),
      (Standard ''E20ads_v5'', 830000), (Standard ''E20as_v4'', 794000), (Standard ''E20as_v5'', 715000), (Standard ''E20ds_v5'', 755000),
      (Standard ''E20s_v3'', 1370000), (Standard ''E20s_v5'', 650000), (Standard ''E2_v3'', 137000), (Standard ''E2a_v4'', 80000),
      (Standard ''E2ads_v5'', 83000), (Standard ''E2as_v4'', 80000), (Standard ''E2as_v5'', 71500), (Standard ''E2bds_v5'', 176000),
      (Standard ''E2bs_v5'', 155000), (Standard ''E2ds_v5'', 75500), (Standard ''E2s_v3'', 137000), (Standard ''E2s_v5'', 65000),
      (Standard ''E32-16ads_v5'', 1329000), (Standard ''E32-16as_v4'', 2080000), (Standard ''E32-16as_v5'', 1144000),
      (Standard ''E32-16s_v3'', 2192000), (Standard ''E32-8ads_v5'', 1329000), (Standard ''E32-8as_v4'', 2080000),
      (Standard ''E32-8as_v5'', 1144000), (Standard ''E32-8s_v3'', 2192000), (Standard ''E32_v3'', 2192000),
      (Standard ''E32a_v4'', 1271000), (Standard ''E32ads_v5'', 1329000), (Standard ''E32as_v4'', 1271000),
      (Standard ''E32as_v5'', 1144000), (Standard ''E32bds_v5'', 2816000), (Standard ''E32bs_v5'', 2480000),
      (Standard ''E32ds_v5'', 1208000), (Standard ''E32s_v3'', 2192000), (Standard ''E32s_v5'', 1040000),
      (Standard ''E4-2ads_v5'', 166000), (Standard ''E4-2as_v4'', 260000), (Standard ''E4-2as_v5'', 143000),
      (Standard ''E4-2s_v3'', 274000), (Standard ''E48_v3'', 3281000)]"

definition jioindiawest_3 :: priceTable where
  "jioindiawest_3 =
     [(Standard ''E48a_v4'', 1906000), (Standard ''E48ads_v5'', 1993000), (Standard ''E48as_v4'', 1906000),
      (Standard ''E48as_v5'', 1716000), (Standard ''E48bds_v5'', 4224000), (Standard ''E48bs_v5'', 3720000),
      (Standard ''E48ds_v5'', 1812000), (Standard ''E48s_v3'', 3281000), (Standard ''E48s_v5'', 1560000), (Standard ''E4_v3'', 274000),
      (Standard ''E4a_v4'', 158000), (Standard ''E4ads_v5'', 166000), (Standard ''E4as_v4'', 158000), (Standard ''E4as_v5'', 143000),
      (Standard ''E4bds_v5'', 352000), (Standard ''E4bs_v5'', 310000), (Standard ''E4ds_v5'', 151000), (Standard ''E4s_v3'', 274000),
      (Standard ''E4s_v5'', 130000), (Standard ''E64-16ads_v5'', 2658000), (Standard ''E64-16as_v4'', 4160000),
      (Standard ''E64-16as_v5'', 2288000), (Standard ''E64-16s_v3'', 3937000), (Standard ''E64-32ads_v5'', 2658000),
      (Standard ''E64-32as_v4'', 4160000), (Standard ''E64-32as_v5'', 2288000), (Standard ''E64-32s_v3'', 3937000),
      (Standard ''E64_v3'', 3937000), (Standard ''E64a_v4'', 2542000), (Standard ''E64ads_v5'', 2658000), (Standard ''E64as_v4'', 2542000),
      (Standard ''E64as_v5'', 2288000), (Standard ''E64bds_v5'', 5632000), (Standard ''E64bs_v5'', 4960000),
      (Standard ''E64ds_v5'', 2416000), (Standard ''E64s_v3'', 3937000), (Standard ''E64s_v5'', 2080000),
      (Standard ''E8-2ads_v5'', 332000), (Standard ''E8-2as_v4'', 520000), (Standard ''E8-2as_v5'', 286000),
      (Standard ''E8-2s_v3'', 548000), (Standard ''E8-4ads_v5'', 332000), (Standard ''E8-4as_v4'', 520000),
      (Standard ''E8-4as_v5'', 286000), (Standard ''E8-4s_v3'', 548000), (Standard ''E8_v3'', 548000), (Standard ''E8a_v4'', 317000),
      (Standard ''E8ads_v5'', 332000), (Standard ''E8as_v4'', 317000), (Standard ''E8as_v5'', 286000), (Standard ''E8bds_v5'', 704000),
      (Standard ''E8bs_v5'', 620000), (Standard ''E8ds_v5'', 302000), (Standard ''E8s_v3'', 548000), (Standard ''E8s_v5'', 260000),
      (Standard ''E96-24ads_v5'', 3986000), (Standard ''E96-24as_v4'', 6240000), (Standard ''E96-24as_v5'', 3432000),
      (Standard ''E96-48ads_v5'', 3986000), (Standard ''E96-48as_v4'', 6240000), (Standard ''E96-48as_v5'', 3432000),
      (Standard ''E96a_v4'', 3813000), (Standard ''E96ads_v5'', 3986000), (Standard ''E96as_v4'', 3813000),
      (Standard ''E96as_v5'', 3432000), (Standard ''E96bds_v5'', 8448000), (Standard ''E96bs_v5'', 7440000),
      (Standard ''E96ds_v5'', 3624000), (Standard ''E96iads_v5'', 4385000), (Standard ''E96ias_v4'', 6240000),
      (Standard ''E96ias_v5'', 3775000), (Standard ''E96s_v5'', 3120000), (Standard ''F1'', 49000), (Standard ''F16'', 790000),
      (Standard ''F16s'', 790000), (Standard ''F16s_v2'', 680000), (Standard ''F1s'', 49000), (Standard ''F2'', 98800),
      (Standard ''F2s'', 98800), (Standard ''F2s_v2'', 85000), (Standard ''F32s_v2'', 1360000), (Standard ''F4'', 198000),
      (Standard ''F48s_v2'', 2040000), (Standard ''F4s'', 198000), (Standard ''F4s_v2'', 170000), (Standard ''F64s_v2'', 2720000),
      (Standard ''F72s_v2'', 3060000), (Standard ''F8'', 395000), (Standard ''F8s'', 395000), (Standard ''F8s_v2'', 340000),
      (Standard ''L16as_v3'', 1416000), (Standard ''L16s_v3'', 1584000), (Standard ''L32as_v3'', 2832000), (Standard ''L32s_v3'', 3168000),
      (Standard ''L48as_v3'', 4248000), (Standard ''L48s_v3'', 4752000), (Standard ''L64as_v3'', 5664000), (Standard ''L64s_v3'', 6336000),
      (Standard ''L80as_v3'', 7080000), (Standard ''L80s_v3'', 7920000), (Standard ''L8as_v3'', 708000), (Standard ''L8s_v3'', 792000),
      (Standard ''NC12s_v3'', 8468000), (Standard ''NC24ads_A100_v4'', 5142000), (Standard ''NC24rs_v3'', 18630000),
      (Standard ''NC24s_v3'', 16936000), (Standard ''NC48ads_A100_v4'', 10284000), (Standard ''NC6s_v3'', 4234000),
      (Standard ''NC96ads_A100_v4'', 20569000)]"

definition jioindiawest :: priceTable where
  "jioindiawest = jioindiawest_1 @ jioindiawest_2 @ jioindiawest_3"

subsection \<open>koreacentral\<close>

definition koreacentral_1 :: priceTable where
  "koreacentral_1 =
     [(''Basic_A4'', 449000), (''Dasv5_Type1'', 6530000), (''Easv5_Type1'', 7181000), (''Edsv4_Type 1'', 6090000),
      (''Esv3_Type3'', 5162000), (''Lsv3_Type1'', 8998000), (''Msv2_Type1'', 65446000), (Standard ''A0'', 20000),
      (Standard ''A5'', 172000), (Standard ''A8_v2'', 450000), (Standard ''B16als_v2'', 737000), (Standard ''B16as_v2'', 822000),
      (Standard ''B16ms'', 832000), (Standard ''B2ls_v2'', 52000), (Standard ''B2s_v2'', 113000), (Standard ''B32als_v2'', 1473000),
      (Standard ''B32ls_v2'', 1621000), (Standard ''B32s_v2'', 1664000), (Standard ''B4as_v2'', 206000), (Standard ''B8as_v2'', 411000),
      (Standard ''B8ls_v2'', 405000), (Standard ''B8ms'', 416000), (Standard ''B8s_v2'', 453000), (Standard ''D11_v2'', 200000),
      (Standard ''D12_v2'', 399000), (Standard ''D15_v2'', 1995000), (Standard ''D16_v5'', 944000), (Standard ''D16ads_v5'', 1016000),
      (Standard ''D16as_v5'', 848000), (Standard ''D16as_v5_Promo'', 752000), (Standard ''D16d_v4'', 1112000),
      (Standard ''D16lds_v5'', 880000), (Standard ''D16s_v4'', 944000), (Standard ''D16s_v5'', 944000), (Standard ''D2_v2_Promo'', 165000),
      (Standard ''D2a_v4'', 118000), (Standard ''D2ads_v5'', 127000), (Standard ''D2as_v5_Promo'', 94000), (Standard ''D2d_v4'', 139000),
      (Standard ''D2s_v5'', 118000), (Standard ''D32-8s_v3'', 1968000), (Standard ''D32ds_v5'', 2224000), (Standard ''D32s_v5'', 1888000),
      (Standard ''D48_v4'', 2832000), (Standard ''D48a_v4'', 2832000), (Standard ''D48ads_v5'', 3048000), (Standard ''D48as_v4'', 2832000),
      (Standard ''D48d_v5'', 3336000), (Standard ''D48ds_v5'', 3336000), (Standard ''D48lds_v5'', 2640000),
      (Standard ''D48s_v4'', 2832000), (Standard ''D48s_v5'', 2832000), (Standard ''D4_v2'', 660000), (Standard ''D4_v2_Promo'', 660000),
      (Standard ''D4_v4'', 236000), (Standard ''D4a_v4'', 236000), (Standard ''D4as_v5'', 212000), (Standard ''D4as_v5_Promo'', 188000),
      (Standard ''D4d_v4'', 278000), (Standard ''D4ds_v4'', 278000), (Standard ''D4s_v3'', 246000), (Standard ''D4s_v4'', 236000),
      (Standard ''D64-16s_v3'', 3936000), (Standard ''D64-32s_v3'', 3936000), (Standard ''D64a_v4'', 3776000),
      (Standard ''D64as_v5'', 3392000), (Standard ''D64as_v5_Promo'', 3008000), (Standard ''D64d_v5'', 4448000),
      (Standard ''D64s_v3'', 3936000), (Standard ''D8a_v4'', 472000), (Standard ''D8as_v4'', 472000), (Standard ''D8d_v5'', 556000),
      (Standard ''D8ds_v4'', 556000), (Standard ''D8lds_v5'', 440000), (Standard ''D96a_v4'', 5664000), (Standard ''DS12-2_v2'', 399000),
      (Standard ''DS13-4_v2'', 798000), (Standard ''DS2_v2'', 165000), (Standard ''DS2_v2_Promo'', 165000),
      (Standard ''E112iads_v5'', 9733000), (Standard ''E16-4as_v5'', 1088000), (Standard ''E16-4s_v4'', 1216000),
      (Standard ''E16-8as_v4'', 1216000), (Standard ''E16-8as_v5'', 1088000), (Standard ''E16as_v4'', 1216000),
      (Standard ''E16as_v5'', 1088000), (Standard ''E16d_v4'', 1384000), (Standard ''E20_v4'', 1520000), (Standard ''E20d_v5'', 1730000),
      (Standard ''E20ds_v5'', 1730000), (Standard ''E2as_v5'', 136000), (Standard ''E2ds_v4'', 173000), (Standard ''E2s_v3'', 160000)]"

definition koreacentral_2 :: priceTable where
  "koreacentral_2 =
     [(Standard ''E32-16ds_v5'', 2768000), (Standard ''E32-8ads_v5'', 2528000), (Standard ''E32-8as_v5'', 2176000),
      (Standard ''E32-8ds_v4'', 2768000), (Standard ''E32_v5'', 2432000), (Standard ''E32a_v4'', 2432000),
      (Standard ''E32bs_v5'', 2848000), (Standard ''E32d_v4'', 2768000), (Standard ''E32ds_v4'', 2768000),
      (Standard ''E32ds_v5'', 2768000), (Standard ''E32s_v3'', 2560000), (Standard ''E32s_v4'', 2432000), (Standard ''E32s_v5'', 2432000),
      (Standard ''E48_v5'', 3648000), (Standard ''E48a_v4'', 3648000), (Standard ''E48bds_v5'', 4776000), (Standard ''E48bs_v5'', 4272000),
      (Standard ''E4ads_v5'', 316000), (Standard ''E4as_v5'', 272000), (Standard ''E4bs_v5'', 356000), (Standard ''E4ds_v4'', 346000),
      (Standard ''E4s_v4'', 304000), (Standard ''E4s_v5'', 304000), (Standard ''E64-16ds_v4'', 5536000),
      (Standard ''E64-16s_v5'', 4864000), (Standard ''E64-32as_v4'', 4864000), (Standard ''E64-32as_v5'', 4352000),
      (Standard ''E64-32s_v3'', 4376000), (Standard ''E64ads_v5'', 5056000), (Standard ''E64as_v4'', 4864000),
      (Standard ''E64d_v5'', 5536000), (Standard ''E64ds_v5'', 5536000), (Standard ''E64i_v3'', 4376000), (Standard ''E64s_v4'', 4864000),
      (Standard ''E64s_v5'', 4864000), (Standard ''E8-2as_v5'', 544000), (Standard ''E8-2s_v5'', 608000), (Standard ''E8-4as_v5'', 544000),
      (Standard ''E8-4ds_v5'', 692000), (Standard ''E8-4s_v3'', 640000), (Standard ''E8-4s_v4'', 608000), (Standard ''E8-4s_v5'', 608000),
      (Standard ''E8_v3'', 640000), (Standard ''E8_v4'', 608000), (Standard ''E8as_v4'', 608000), (Standard ''E8bds_v5'', 796000),
      (Standard ''E8d_v5'', 692000), (Standard ''E8s_v4'', 608000), (Standard ''E8s_v5'', 608000), (Standard ''E96-24ads_v5'', 7584000),
      (Standard ''E96-24as_v4'', 7296000), (Standard ''E96-24s_v5'', 7296000), (Standard ''E96-48as_v4'', 7296000),
      (Standard ''E96-48ds_v5'', 8304000), (Standard ''E96bds_v5'', 9552000), (Standard ''E96ds_v5'', 8304000),
      (Standard ''E96s_v5'', 7296000), (Standard ''F16s'', 816000), (Standard ''F16s_v2'', 768000), (Standard ''F2s'', 102000),
      (Standard ''F8'', 408000), (Standard ''FX24mds'', 2700000), (Standard ''HB176-48rs_v4'', 9720000), (Standard ''HC44-32rs'', 4277000),
      (Standard ''HX176-96rs'', 11664000), (Standard ''L16as_v3'', 1464000), (Standard ''L32s_v3'', 3272000),
      (Standard ''L64s_v3'', 6544000), (Standard ''L80as_v3'', 7320000), (Standard ''L8as_v3'', 732000), (Standard ''M128ms'', 38698000),
      (Standard ''M208-104ms_v2'', 53544000), (Standard ''M208-104s_v2'', 26772000), (Standard ''M208-52ms_v2'', 53544000),
      (Standard ''M208ms_v2'', 53544000), (Standard ''M208s_v2'', 26772000), (Standard ''M32-16ms'', 8912000),
      (Standard ''M416-104s_v2'', 59496000), (Standard ''M416-208ms_v2'', 118980000), (Standard ''M416ms_v2'', 118980000),
      (Standard ''M416s_v2'', 59496000), (Standard ''M64-32ms'', 14989000), (Standard ''M64ls'', 6498000),
      (Standard ''M64ms_v2'', 14688000), (Standard ''M8-2ms'', 2228000), (Standard ''NC24rs_v3'', 18630000),
      (Standard ''NC4as_T4_v3'', 647000), (Standard ''NV16as_v4'', 1258000), (Standard ''NV32as_v4'', 2516000),
      (Standard ''NV4as_v4'', 315000), (Standard ''NV72ads_A10_v5'', 8802000), (Standard ''NV8as_v4'', 629000)]"

definition koreacentral :: priceTable where
  "koreacentral = koreacentral_1 @ koreacentral_2"

subsection \<open>koreasouth\<close>

definition koreasouth_1 :: priceTable where
  "koreasouth_1 =
     [(''Basic_A4'', 404000), (''Dasv4_Type2'', 5847000), (''Dasv5_Type1'', 6092000), (''Ddsv4_Type2'', 5449000),
      (''Ddsv5_Type1'', 6861000), (''Dsv3_Type3'', 4859000), (''Dsv4_Type1'', 4873000), (''Dsv4_Type2'', 6091000),
      (''Dsv5_Type1'', 6072000), (''Eadsv5_Type1'', 7954000), (''Easv4_Type2'', 7603000), (''Edsv5_Type1'', 8744000),
      (''Fsv2 Type3'', 4858000), (''Fsv2_Type2'', 3802000), (''Msmv2_Type1'', 136330000), (Standard ''A1'', 60000),
      (Standard ''A2'', 119000), (Standard ''A4'', 475000), (Standard ''A4m_v2'', 251000), (Standard ''A7'', 618000),
      (Standard ''B12ms'', 622000), (Standard ''B16as_v2'', 692000), (Standard ''B16ls_v2'', 678000), (Standard ''B16s_v2'', 765000),
      (Standard ''B1s'', 13000), (Standard ''B20ms'', 1037000), (Standard ''B2as_v2'', 86500), (Standard ''B2ats_v2'', 10800),
      (Standard ''B2ls_v2'', 47800), (Standard ''B2ms'', 104000), (Standard ''B2s_v2'', 105000), (Standard ''B32als_v2'', 1372000),
      (Standard ''B32as_v2'', 1384000), (Standard ''B32ls_v2'', 1356000), (Standard ''B32s_v2'', 1531000), (Standard ''B4ls_v2'', 170000),
      (Standard ''B4ms'', 207000), (Standard ''B8als_v2'', 343000), (Standard ''B8as_v2'', 383000), (Standard ''B8ls_v2'', 339000),
      (Standard ''B8s_v2'', 383000), (Standard ''D13_v2'', 718000), (Standard ''D16ads_v5'', 948000), (Standard ''D16d_v4'', 1043000),
      (Standard ''D16ds_v5'', 1040000), (Standard ''D2_v2_Promo'', 149000), (Standard ''D2a_v4'', 111000), (Standard ''D2as_v4'', 111000),
      (Standard ''D2s_v3'', 111000), (Standard ''D32-16s_v3'', 1772000), (Standard ''D32-8s_v3'', 1772000),
      (Standard ''D32d_v4'', 2086000), (Standard ''D32ds_v4'', 2086000), (Standard ''D32ls_v5'', 1564000), (Standard ''D32s_v5'', 1766000),
      (Standard ''D48ads_v5'', 2843000), (Standard ''D48as_v4'', 2658000), (Standard ''D48d_v4'', 3129000),
      (Standard ''D48ds_v5'', 3119000), (Standard ''D48lds_v5'', 2650000), (Standard ''D4_v2_Promo'', 594000),
      (Standard ''D4_v3'', 221000), (Standard ''D4_v4'', 221000), (Standard ''D4ads_v5'', 237000), (Standard ''D4as_v4'', 221000),
      (Standard ''D4s_v4'', 221000), (Standard ''D5_v2'', 1189000), (Standard ''D64-32s_v3'', 3544000), (Standard ''D64_v3'', 3544000),
      (Standard ''D64_v4'', 3544000), (Standard ''D64a_v4'', 3544000), (Standard ''D64as_v4'', 3544000), (Standard ''D64as_v5'', 3165000),
      (Standard ''D64d_v5'', 4158000), (Standard ''D64s_v5'', 3533000), (Standard ''D8a_v4'', 443000), (Standard ''D8d_v4'', 521000),
      (Standard ''D8s_v5'', 442000), (Standard ''D96as_v5'', 4747000), (Standard ''D96d_v5'', 6238000), (Standard ''D96s_v5'', 5299000),
      (Standard ''DS11_v2'', 179000), (Standard ''DS12-1_v2'', 359000), (Standard ''DS13-2_v2'', 718000),
      (Standard ''DS13_v2_Promo'', 718000), (Standard ''DS14-4_v2'', 1435000), (Standard ''DS14_v2'', 1435000),
      (Standard ''DS4_v2_Promo'', 594000), (Standard ''E104i_v5'', 8288000), (Standard ''E16-4ds_v4'', 1317000),
      (Standard ''E16-4s_v4'', 1152000), (Standard ''E16-8ds_v4'', 1317000), (Standard ''E16-8s_v4'', 1152000),
      (Standard ''E16-8s_v5'', 1159000), (Standard ''E16_v4'', 1152000), (Standard ''E16bds_v5'', 1536000), (Standard ''E20_v4'', 1440000),
      (Standard ''E20a_v4'', 1440000), (Standard ''E20as_v4'', 1440000)]"

definition koreasouth_2 :: priceTable where
  "koreasouth_2 =
     [(Standard ''E20d_v4'', 1646000), (Standard ''E20d_v5'', 1656000), (Standard ''E20ds_v5'', 1656000), (Standard ''E20s_v4'', 1440000),
      (Standard ''E2_v4'', 144000), (Standard ''E2_v5'', 145000), (Standard ''E2as_v5'', 130000), (Standard ''E2bs_v5'', 171000),
      (Standard ''E2ds_v4'', 165000), (Standard ''E32-16as_v5'', 2079000), (Standard ''E32-16ds_v5'', 2650000),
      (Standard ''E32-16s_v3'', 2304000), (Standard ''E32-8ads_v5'', 2410000), (Standard ''E32-8as_v5'', 2079000),
      (Standard ''E32-8ds_v4'', 2633000), (Standard ''E32-8s_v4'', 2304000), (Standard ''E32_v3'', 2304000),
      (Standard ''E32_v4'', 2304000), (Standard ''E32_v5'', 2318000), (Standard ''E32bds_v5'', 3073000), (Standard ''E32bs_v5'', 2742000),
      (Standard ''E32d_v5'', 2650000), (Standard ''E4-2as_v5'', 260000), (Standard ''E4-2ds_v4'', 329000), (Standard ''E4-2s_v4'', 288000),
      (Standard ''E48_v3'', 3234000), (Standard ''E48as_v4'', 3456000), (Standard ''E48as_v5'', 3119000),
      (Standard ''E48bds_v5'', 4609000), (Standard ''E48bs_v5'', 4112000), (Standard ''E48d_v4'', 3950000),
      (Standard ''E48s_v3'', 3234000), (Standard ''E4_v3'', 288000), (Standard ''E4a_v4'', 288000), (Standard ''E4as_v4'', 288000),
      (Standard ''E4as_v5'', 260000), (Standard ''E4d_v4'', 329000), (Standard ''E4ds_v4'', 329000), (Standard ''E4s_v3'', 288000),
      (Standard ''E4s_v4'', 288000), (Standard ''E64-16ads_v5'', 4821000), (Standard ''E64-16ds_v4'', 5266000),
      (Standard ''E64-32ds_v4'', 5266000), (Standard ''E64-32s_v4'', 4608000), (Standard ''E64_v3'', 3881000),
      (Standard ''E64_v5'', 4637000), (Standard ''E64as_v4'', 4608000), (Standard ''E64as_v5'', 4158000), (Standard ''E64d_v4'', 5266000),
      (Standard ''E64ds_v5'', 5299000), (Standard ''E64s_v3'', 3881000), (Standard ''E64s_v5'', 4637000),
      (Standard ''E8-2ads_v5'', 603000), (Standard ''E8-4s_v3'', 576000), (Standard ''E8-4s_v5'', 580000), (Standard ''E8as_v5'', 520000),
      (Standard ''E8d_v5'', 662000), (Standard ''E96-24ads_v5'', 7231000), (Standard ''E96-48as_v5'', 6238000),
      (Standard ''E96-48ds_v5'', 7949000), (Standard ''E96bs_v5'', 8225000), (Standard ''E96d_v5'', 7949000),
      (Standard ''E96ds_v5'', 7949000), (Standard ''E96s_v5'', 6955000), (Standard ''F16s'', 816000), (Standard ''F1s'', 51000),
      (Standard ''F2s'', 102000), (Standard ''F2s_v2'', 96100), (Standard ''F48s_v2'', 2305000), (Standard ''F4s'', 204000),
      (Standard ''F64s_v2'', 3074000), (Standard ''F72s_v2'', 3458000), (Standard ''L16as_v3'', 1435000), (Standard ''L32s_v3'', 3211000),
      (Standard ''L48as_v3'', 4306000), (Standard ''L64as_v3'', 5741000), (Standard ''L80as_v3'', 7176000),
      (Standard ''L80s_v3'', 8027000), (Standard ''L8s_v3'', 803000), (Standard ''M128'', 19340000), (Standard ''M128-32ms'', 38698000),
      (Standard ''M128-64ms'', 38698000), (Standard ''M128s'', 19340000), (Standard ''M16ms'', 4456000),
      (Standard ''M208-104ms_v2'', 55775000), (Standard ''M208-104s_v2'', 27888000), (Standard ''M208-52ms_v2'', 55775000),
      (Standard ''M32-8ms'', 8912000), (Standard ''M32ls'', 3448000), (Standard ''M32ms'', 8912000), (Standard ''M32ts'', 3248000),
      (Standard ''M416is_v2'', 61975000), (Standard ''M416ms_v2'', 123940000), (Standard ''M64'', 9670000),
      (Standard ''M64-32ms'', 14989000), (Standard ''M64ls'', 6498000), (Standard ''M64m'', 14989000), (Standard ''M8-4ms'', 2228000),
      (Standard ''NV36ads_A10_v5'', 4000000)]"

definition koreasouth :: priceTable where
  "koreasouth = koreasouth_1 @ koreasouth_2"

subsection \<open>northcentralus\<close>

definition northcentralus_1 :: priceTable where
  "northcentralus_1 =
     [(''Basic_A0'', 18000), (''Basic_A1'', 23000), (''Basic_A2'', 85000), (''Basic_A3'', 188000), (''Basic_A4'', 376000),
      (''DCsv2 Type 1'', 845000), (''Dadsv5_Type1'', 6345000), (''Dasv4_Type1'', 5069000), (''Dasv4_Type2'', 5280000),
      (''Dasv5_Type1'', 5298000), (''Ddsv4_Type 1'', 3978000), (''Ddsv4_Type2'', 4723000), (''Ddsv5_Type1'', 5966000),
      (''Dsv3_Type3'', 4225000), (''Dsv3_Type4'', 5281000), (''Dsv4_Type1'', 4224000), (''Dsv4_Type2'', 5069000),
      (''Dsv5_Type1'', 5280000), (''Eadsv5_Type1'', 6917000), (''Easv4_Type1'', 6653000), (''Easv4_Type2'', 6653000),
      (''Easv5_Type1'', 5966000), (''Ebdsv5-Type1'', 5878000), (''Ebsv5-Type1'', 5245000), (''Edsv4_Type 1'', 5069000),
      (''Edsv4_Type2'', 6019000), (''Edsv5_Type1'', 7603000), (''Esv3_Type3'', 4297000), (''Esv3_Type4'', 5822000),
      (''Esv4_Type1'', 4435000), (''Esv4_Type2'', 5821000), (''Esv5_Type1'', 6653000), (''Fsv2 Type3'', 3927000),
      (''Fsv2_Type2'', 3366000), (''Fsv2_Type4'', 4488000), (''Lsv3_Type1'', 7678000), (''Mdsmv2MedMem _Type1'', 29359000),
      (''Mdsv2MedMem_Type1'', 14674000), (''Ms_Type1'', 14669000), (''Msm_Type1'', 29363000), (''Msmv2MedMem Type1'', 28896000),
      (''Msmv2_Type1'', 109060000), (''Msv2MedMem Type1'', 14211000), (''Msv2_Type1'', 54538000), (''NVasv4_Type1'', 8612000),
      (Standard ''A0'', 20000), (Standard ''A1'', 60000), (Standard ''A1_v2'', 43000), (Standard ''A2'', 120000),
      (Standard ''A2_v2'', 91000), (Standard ''A2m_v2'', 129000), (Standard ''A3'', 240000), (Standard ''A4'', 480000),
      (Standard ''A4_v2'', 191000), (Standard ''A4m_v2'', 270000), (Standard ''A5'', 250000), (Standard ''A6'', 500000),
      (Standard ''A7'', 1000000), (Standard ''A8_v2'', 400000), (Standard ''A8m_v2'', 568000), (Standard ''B12ms'', 499000),
      (Standard ''B16als_v2'', 606000), (Standard ''B16as_v2'', 602000), (Standard ''B16ls_v2'', 589000), (Standard ''B16ms'', 666000),
      (Standard ''B16pls_v2'', 550000), (Standard ''B16ps_v2'', 611000), (Standard ''B16s_v2'', 666000), (Standard ''B1ls'', 5200),
      (Standard ''B1ms'', 20800), (Standard ''B1s'', 10400), (Standard ''B20ms'', 832000), (Standard ''B2als_v2'', 37600),
      (Standard ''B2as_v2'', 75200), (Standard ''B2ats_v2'', 18600), (Standard ''B2ls_v2'', 41600), (Standard ''B2ms'', 83200),
      (Standard ''B2pls_v2'', 33600), (Standard ''B2ps_v2'', 67200), (Standard ''B2pts_v2'', 8400), (Standard ''B2s'', 41600),
      (Standard ''B2s_v2'', 92400), (Standard ''B2ts_v2'', 19600), (Standard ''B32als_v2'', 1065000), (Standard ''B32as_v2'', 1350000),
      (Standard ''B32ls_v2'', 1179000), (Standard ''B32s_v2'', 1478000), (Standard ''B4als_v2'', 152000), (Standard ''B4as_v2'', 169000),
      (Standard ''B4ls_v2'', 166000), (Standard ''B4ms'', 166000), (Standard ''B4pls_v2'', 137000), (Standard ''B4ps_v2'', 134000),
      (Standard ''B4s_v2'', 166000), (Standard ''B8als_v2'', 303000), (Standard ''B8as_v2'', 301000), (Standard ''B8ls_v2'', 295000),
      (Standard ''B8ms'', 333000), (Standard ''B8pls_v2'', 238000), (Standard ''B8ps_v2'', 269000), (Standard ''B8s_v2'', 370000),
      (Standard ''D1'', 77000), (Standard ''D11'', 193000), (Standard ''D11_v2'', 185000), (Standard ''D11_v2_Promo'', 185000),
      (Standard ''D12'', 386000), (Standard ''D12_v2'', 370000), (Standard ''D12_v2_Promo'', 370000), (Standard ''D13'', 771000),
      (Standard ''D13_v2'', 741000), (Standard ''D13_v2_Promo'', 741000), (Standard ''D14'', 1542000), (Standard ''D14_v2'', 1482000),
      (Standard ''D14_v2_Promo'', 1482000), (Standard ''D15_v2'', 1852000), (Standard ''D15i_v2'', 1852000), (Standard ''D16_v3'', 800000),
      (Standard ''D16_v4'', 768000), (Standard ''D16_v5'', 768000), (Standard ''D16a_v4'', 768000), (Standard ''D16ads_v5'', 824000),
      (Standard ''D16as_v4'', 768000), (Standard ''D16as_v5'', 688000), (Standard ''D16d_v4'', 904000), (Standard ''D16d_v5'', 904000),
      (Standard ''D16ds_v4'', 904000), (Standard ''D16ds_v5'', 904000), (Standard ''D16lds_v5'', 768000), (Standard ''D16ls_v5'', 680000),
      (Standard ''D16pds_v5'', 723000), (Standard ''D16plds_v5'', 614000), (Standard ''D16pls_v5'', 544000),
      (Standard ''D16ps_v5'', 616000), (Standard ''D16s_v3'', 800000), (Standard ''D16s_v4'', 768000), (Standard ''D16s_v5'', 768000),
      (Standard ''D1_v2'', 73000)]"

definition northcentralus_2 :: priceTable where
  "northcentralus_2 =
     [(Standard ''D2'', 154000), (Standard ''D2_v2'', 146000), (Standard ''D2_v2_Promo'', 146000), (Standard ''D2_v3'', 100000),
      (Standard ''D2_v4'', 96000), (Standard ''D2_v5'', 96000), (Standard ''D2a_v4'', 96000), (Standard ''D2ads_v5'', 103000),
      (Standard ''D2as_v4'', 96000), (Standard ''D2as_v5'', 86000), (Standard ''D2d_v4'', 113000), (Standard ''D2d_v5'', 113000),
      (Standard ''D2ds_v4'', 113000), (Standard ''D2ds_v5'', 113000), (Standard ''D2lds_v5'', 96000), (Standard ''D2ls_v5'', 85000),
      (Standard ''D2pds_v5'', 90400), (Standard ''D2plds_v5'', 76800), (Standard ''D2pls_v5'', 68000), (Standard ''D2ps_v5'', 77000),
      (Standard ''D2s_v3'', 100000), (Standard ''D2s_v4'', 96000), (Standard ''D2s_v5'', 96000), (Standard ''D3'', 308000),
      (Standard ''D32-16s_v3'', 1600000), (Standard ''D32-8s_v3'', 1600000), (Standard ''D32_v3'', 1600000),
      (Standard ''D32_v4'', 1536000), (Standard ''D32_v5'', 1536000), (Standard ''D32a_v4'', 1536000), (Standard ''D32ads_v5'', 1648000),
      (Standard ''D32as_v4'', 1536000), (Standard ''D32as_v5'', 1376000), (Standard ''D32d_v4'', 1808000), (Standard ''D32d_v5'', 1808000),
      (Standard ''D32ds_v4'', 1808000), (Standard ''D32ds_v5'', 1808000), (Standard ''D32lds_v5'', 1536000),
      (Standard ''D32ls_v5'', 1360000), (Standard ''D32pds_v5'', 1446000), (Standard ''D32plds_v5'', 1229000),
      (Standard ''D32pls_v5'', 1088000), (Standard ''D32ps_v5'', 1232000), (Standard ''D32s_v3'', 1600000),
      (Standard ''D32s_v4'', 1536000), (Standard ''D32s_v5'', 1536000), (Standard ''D3_v2'', 293000), (Standard ''D3_v2_Promo'', 293000),
      (Standard ''D4'', 616000), (Standard ''D48_v3'', 2400000), (Standard ''D48_v4'', 2304000), (Standard ''D48_v5'', 2304000),
      (Standard ''D48a_v4'', 2304000), (Standard ''D48ads_v5'', 2472000), (Standard ''D48as_v4'', 2304000),
      (Standard ''D48as_v5'', 2064000), (Standard ''D48d_v4'', 2712000), (Standard ''D48d_v5'', 2712000), (Standard ''D48ds_v4'', 2712000),
      (Standard ''D48ds_v5'', 2712000), (Standard ''D48lds_v5'', 2304000), (Standard ''D48ls_v5'', 2040000),
      (Standard ''D48pds_v5'', 2170000), (Standard ''D48plds_v5'', 1843000), (Standard ''D48pls_v5'', 1632000),
      (Standard ''D48ps_v5'', 1848000), (Standard ''D48s_v3'', 2400000), (Standard ''D48s_v4'', 2304000), (Standard ''D48s_v5'', 2304000),
      (Standard ''D4_v2'', 585000), (Standard ''D4_v2_Promo'', 585000), (Standard ''D4_v3'', 200000), (Standard ''D4_v4'', 192000),
      (Standard ''D4_v5'', 192000), (Standard ''D4a_v4'', 192000), (Standard ''D4ads_v5'', 206000), (Standard ''D4as_v4'', 192000),
      (Standard ''D4as_v5'', 172000), (Standard ''D4d_v4'', 226000), (Standard ''D4d_v5'', 226000), (Standard ''D4ds_v4'', 226000),
      (Standard ''D4ds_v5'', 226000), (Standard ''D4lds_v5'', 192000), (Standard ''D4ls_v5'', 170000), (Standard ''D4pds_v5'', 181000),
      (Standard ''D4plds_v5'', 154000), (Standard ''D4pls_v5'', 136000), (Standard ''D4ps_v5'', 154000), (Standard ''D4s_v3'', 200000),
      (Standard ''D4s_v4'', 192000), (Standard ''D4s_v5'', 192000), (Standard ''D5_v2'', 1170000), (Standard ''D5_v2_Promo'', 1170000),
      (Standard ''D64-16s_v3'', 3200000), (Standard ''D64-32s_v3'', 3200000), (Standard ''D64_v3'', 3200000),
      (Standard ''D64_v4'', 3072000), (Standard ''D64_v5'', 3072000), (Standard ''D64a_v4'', 3072000), (Standard ''D64ads_v5'', 3296000),
      (Standard ''D64as_v4'', 3072000), (Standard ''D64as_v5'', 2752000), (Standard ''D64d_v4'', 3616000), (Standard ''D64d_v5'', 3616000),
      (Standard ''D64ds_v4'', 3616000), (Standard ''D64ds_v5'', 3616000), (Standard ''D64lds_v5'', 3072000),
      (Standard ''D64ls_v5'', 2720000), (Standard ''D64pds_v5'', 2893000), (Standard ''D64plds_v5'', 2458000),
      (Standard ''D64pls_v5'', 2176000), (Standard ''D64ps_v5'', 2464000), (Standard ''D64s_v3'', 3200000),
      (Standard ''D64s_v4'', 3072000), (Standard ''D64s_v5'', 3072000), (Standard ''D8_v3'', 400000), (Standard ''D8_v4'', 384000),
      (Standard ''D8_v5'', 384000), (Standard ''D8a_v4'', 384000), (Standard ''D8ads_v5'', 412000), (Standard ''D8as_v4'', 384000),
      (Standard ''D8as_v5'', 344000), (Standard ''D8d_v4'', 452000), (Standard ''D8d_v5'', 452000), (Standard ''D8ds_v4'', 452000),
      (Standard ''D8ds_v5'', 452000), (Standard ''D8lds_v5'', 384000), (Standard ''D8ls_v5'', 340000), (Standard ''D8pds_v5'', 362000),
      (Standard ''D8plds_v5'', 307000), (Standard ''D8pls_v5'', 272000), (Standard ''D8ps_v5'', 308000), (Standard ''D8s_v3'', 400000),
      (Standard ''D8s_v4'', 384000), (Standard ''D8s_v5'', 384000), (Standard ''D96_v5'', 4608000), (Standard ''D96a_v4'', 4608000)]"

definition northcentralus_3 :: priceTable where
  "northcentralus_3 =
     [(Standard ''D96ads_v5'', 4944000), (Standard ''D96as_v4'', 4608000), (Standard ''D96as_v5'', 4128000),
      (Standard ''D96d_v5'', 5424000), (Standard ''D96ds_v5'', 5424000), (Standard ''D96lds_v5'', 4608000),
      (Standard ''D96ls_v5'', 4080000), (Standard ''D96s_v5'', 4608000), (Standard ''DC1s_v2'', 96000), (Standard ''DC2s_v2'', 192000),
      (Standard ''DC4s_v2'', 384000), (Standard ''DC8_v2'', 768000), (Standard ''DS1'', 77000), (Standard ''DS11'', 193000),
      (Standard ''DS11-1_v2'', 185000), (Standard ''DS11_v2'', 185000), (Standard ''DS11_v2_Promo'', 185000), (Standard ''DS12'', 386000),
      (Standard ''DS12-1_v2'', 370000), (Standard ''DS12-2_v2'', 370000), (Standard ''DS12_v2'', 370000),
      (Standard ''DS12_v2_Promo'', 370000), (Standard ''DS13'', 771000), (Standard ''DS13-2_v2'', 741000),
      (Standard ''DS13-4_v2'', 741000), (Standard ''DS13_v2'', 741000), (Standard ''DS13_v2_Promo'', 741000), (Standard ''DS14'', 1542000),
      (Standard ''DS14-4_v2'', 1482000), (Standard ''DS14-8_v2'', 1482000), (Standard ''DS14_v2'', 1482000),
      (Standard ''DS14_v2_Promo'', 1482000), (Standard ''DS15_v2'', 1852000), (Standard ''DS15i_v2'', 1852000),
      (Standard ''DS1_v2'', 73000), (Standard ''DS2'', 154000), (Standard ''DS2_v2'', 146000), (Standard ''DS2_v2_Promo'', 146000),
      (Standard ''DS3'', 308000), (Standard ''DS3_v2'', 293000), (Standard ''DS3_v2_Promo'', 293000), (Standard ''DS4'', 616000),
      (Standard ''DS4_v2'', 585000), (Standard ''DS4_v2_Promo'', 585000), (Standard ''DS5_v2'', 1170000),
      (Standard ''DS5_v2_Promo'', 1170000), (Standard ''E104i_v5'', 7207000), (Standard ''E104id_v5'', 8237000),
      (Standard ''E104ids_v5'', 8237000), (Standard ''E104is_v5'', 7207000), (Standard ''E112iads_v5'', 8070000),
      (Standard ''E112ias_v5'', 6961000), (Standard ''E112ibds_v5'', 10287000), (Standard ''E112ibs_v5'', 9178000),
      (Standard ''E16-4ads_v5'', 1048000), (Standard ''E16-4as_v4'', 1008000), (Standard ''E16-4as_v5'', 904000),
      (Standard ''E16-4ds_v4'', 1152000), (Standard ''E16-4ds_v5'', 1152000), (Standard ''E16-4s_v3'', 1008000),
      (Standard ''E16-4s_v4'', 1008000), (Standard ''E16-4s_v5'', 1008000), (Standard ''E16-8ads_v5'', 1048000),
      (Standard ''E16-8as_v4'', 1008000), (Standard ''E16-8as_v5'', 904000), (Standard ''E16-8ds_v4'', 1152000),
      (Standard ''E16-8ds_v5'', 1152000), (Standard ''E16-8s_v3'', 1008000), (Standard ''E16-8s_v4'', 1008000),
      (Standard ''E16-8s_v5'', 1008000), (Standard ''E16_v3'', 1008000), (Standard ''E16_v4'', 1008000), (Standard ''E16_v5'', 1008000),
      (Standard ''E16a_v4'', 1008000), (Standard ''E16ads_v5'', 1048000), (Standard ''E16as_v4'', 1008000),
      (Standard ''E16as_v5'', 904000), (Standard ''E16bds_v5'', 1336000), (Standard ''E16bs_v5'', 1192000),
      (Standard ''E16d_v4'', 1152000), (Standard ''E16d_v5'', 1152000), (Standard ''E16ds_v4'', 1152000), (Standard ''E16ds_v5'', 1152000),
      (Standard ''E16pds_v5'', 922000), (Standard ''E16ps_v5'', 806000), (Standard ''E16s_v3'', 1008000), (Standard ''E16s_v4'', 1008000),
      (Standard ''E16s_v5'', 1008000), (Standard ''E20_v3'', 1260000), (Standard ''E20_v4'', 1260000), (Standard ''E20_v5'', 1260000),
      (Standard ''E20a_v4'', 1260000), (Standard ''E20ads_v5'', 1310000), (Standard ''E20as_v4'', 1260000),
      (Standard ''E20as_v5'', 1130000), (Standard ''E20d_v4'', 1440000), (Standard ''E20d_v5'', 1440000), (Standard ''E20ds_v4'', 1440000),
      (Standard ''E20ds_v5'', 1440000), (Standard ''E20pds_v5'', 1152000), (Standard ''E20ps_v5'', 1008000),
      (Standard ''E20s_v3'', 1260000), (Standard ''E20s_v4'', 1260000), (Standard ''E20s_v5'', 1260000), (Standard ''E2_v3'', 126000),
      (Standard ''E2_v4'', 126000), (Standard ''E2_v5'', 126000), (Standard ''E2a_v4'', 126000), (Standard ''E2ads_v5'', 131000),
      (Standard ''E2as_v4'', 126000), (Standard ''E2as_v5'', 113000), (Standard ''E2bds_v5'', 167000), (Standard ''E2bs_v5'', 149000),
      (Standard ''E2d_v4'', 144000), (Standard ''E2d_v5'', 144000), (Standard ''E2ds_v4'', 144000), (Standard ''E2ds_v5'', 144000),
      (Standard ''E2pds_v5'', 115000), (Standard ''E2ps_v5'', 101000), (Standard ''E2s_v3'', 126000), (Standard ''E2s_v4'', 126000),
      (Standard ''E2s_v5'', 126000), (Standard ''E32-16ads_v5'', 2096000), (Standard ''E32-16as_v4'', 2016000),
      (Standard ''E32-16as_v5'', 1808000), (Standard ''E32-16ds_v4'', 2304000), (Standard ''E32-16ds_v5'', 2304000),
      (Standard ''E32-16s_v3'', 2016000), (Standard ''E32-16s_v4'', 2016000), (Standard ''E32-16s_v5'', 2016000),
      (Standard ''E32-8ads_v5'', 2096000), (Standard ''E32-8as_v4'', 2016000), (Standard ''E32-8as_v5'', 1808000),
      (Standard ''E32-8ds_v4'', 2304000), (Standard ''E32-8ds_v5'', 2304000), (Standard ''E32-8s_v3'', 2016000),
      (Standard ''E32-8s_v4'', 2016000)]"

definition northcentralus_4 :: priceTable where
  "northcentralus_4 =
     [(Standard ''E32-8s_v5'', 2016000), (Standard ''E32_v3'', 2016000), (Standard ''E32_v4'', 2016000), (Standard ''E32_v5'', 2016000),
      (Standard ''E32a_v4'', 2016000), (Standard ''E32ads_v5'', 2096000), (Standard ''E32as_v4'', 2016000),
      (Standard ''E32as_v5'', 1808000), (Standard ''E32bds_v5'', 2672000), (Standard ''E32bs_v5'', 2384000),
      (Standard ''E32d_v4'', 2304000), (Standard ''E32d_v5'', 2304000), (Standard ''E32ds_v4'', 2304000), (Standard ''E32ds_v5'', 2304000),
      (Standard ''E32pds_v5'', 1843000), (Standard ''E32ps_v5'', 1613000), (Standard ''E32s_v3'', 2016000),
      (Standard ''E32s_v4'', 2016000), (Standard ''E32s_v5'', 2016000), (Standard ''E4-2ads_v5'', 262000),
      (Standard ''E4-2as_v4'', 252000), (Standard ''E4-2as_v5'', 226000), (Standard ''E4-2ds_v4'', 288000),
      (Standard ''E4-2ds_v5'', 288000), (Standard ''E4-2s_v3'', 252000), (Standard ''E4-2s_v4'', 252000), (Standard ''E4-2s_v5'', 252000),
      (Standard ''E48_v3'', 3024000), (Standard ''E48_v4'', 3024000), (Standard ''E48_v5'', 3024000), (Standard ''E48a_v4'', 3024000),
      (Standard ''E48ads_v5'', 3144000), (Standard ''E48as_v4'', 3024000), (Standard ''E48as_v5'', 2712000),
      (Standard ''E48bds_v5'', 4008000), (Standard ''E48bs_v5'', 3576000), (Standard ''E48d_v4'', 3456000),
      (Standard ''E48d_v5'', 3456000), (Standard ''E48ds_v4'', 3456000), (Standard ''E48ds_v5'', 3456000), (Standard ''E48s_v3'', 3024000),
      (Standard ''E48s_v4'', 3024000), (Standard ''E48s_v5'', 3024000), (Standard ''E4_v3'', 252000), (Standard ''E4_v4'', 252000),
      (Standard ''E4_v5'', 252000), (Standard ''E4a_v4'', 252000), (Standard ''E4ads_v5'', 262000), (Standard ''E4as_v4'', 252000),
      (Standard ''E4as_v5'', 226000), (Standard ''E4bds_v5'', 334000), (Standard ''E4bs_v5'', 298000), (Standard ''E4d_v4'', 288000),
      (Standard ''E4d_v5'', 288000), (Standard ''E4ds_v4'', 288000), (Standard ''E4ds_v5'', 288000), (Standard ''E4pds_v5'', 230000),
      (Standard ''E4ps_v5'', 202000), (Standard ''E4s_v3'', 252000), (Standard ''E4s_v4'', 252000), (Standard ''E4s_v5'', 252000),
      (Standard ''E64-16ads_v5'', 4192000), (Standard ''E64-16as_v4'', 4032000), (Standard ''E64-16as_v5'', 3616000),
      (Standard ''E64-16ds_v4'', 4608000), (Standard ''E64-16ds_v5'', 4608000), (Standard ''E64-16s_v3'', 3629000),
      (Standard ''E64-16s_v4'', 4032000), (Standard ''E64-16s_v5'', 4032000), (Standard ''E64-32ads_v5'', 4192000),
      (Standard ''E64-32as_v4'', 4032000), (Standard ''E64-32as_v5'', 3616000), (Standard ''E64-32ds_v4'', 4608000),
      (Standard ''E64-32ds_v5'', 4608000), (Standard ''E64-32s_v3'', 3629000), (Standard ''E64-32s_v4'', 4032000),
      (Standard ''E64-32s_v5'', 4032000), (Standard ''E64_v3'', 3629000), (Standard ''E64_v4'', 4032000), (Standard ''E64_v5'', 4032000),
      (Standard ''E64a_v4'', 4032000), (Standard ''E64ads_v5'', 4192000), (Standard ''E64as_v4'', 4032000),
      (Standard ''E64as_v5'', 3616000), (Standard ''E64bds_v5'', 5344000), (Standard ''E64bs_v5'', 4768000),
      (Standard ''E64d_v4'', 4608000), (Standard ''E64d_v5'', 4608000), (Standard ''E64ds_v4'', 4608000), (Standard ''E64ds_v5'', 4608000),
      (Standard ''E64i_v3'', 3629000), (Standard ''E64is_v3'', 3629000), (Standard ''E64s_v3'', 3629000), (Standard ''E64s_v4'', 4032000),
      (Standard ''E64s_v5'', 4032000), (Standard ''E8-2ads_v5'', 524000), (Standard ''E8-2as_v4'', 504000),
      (Standard ''E8-2as_v5'', 452000), (Standard ''E8-2ds_v4'', 576000), (Standard ''E8-2ds_v5'', 576000),
      (Standard ''E8-2s_v3'', 504000), (Standard ''E8-2s_v4'', 504000), (Standard ''E8-2s_v5'', 504000), (Standard ''E8-4ads_v5'', 524000),
      (Standard ''E8-4as_v4'', 504000), (Standard ''E8-4as_v5'', 452000), (Standard ''E8-4ds_v4'', 576000),
      (Standard ''E8-4ds_v5'', 576000), (Standard ''E8-4s_v3'', 504000), (Standard ''E8-4s_v4'', 504000), (Standard ''E8-4s_v5'', 504000),
      (Standard ''E80ids_v4'', 5760000), (Standard ''E80is_v4'', 5040000), (Standard ''E8_v3'', 504000), (Standard ''E8_v4'', 504000),
      (Standard ''E8_v5'', 504000), (Standard ''E8a_v4'', 504000), (Standard ''E8ads_v5'', 524000), (Standard ''E8as_v4'', 504000),
      (Standard ''E8as_v5'', 452000), (Standard ''E8bds_v5'', 668000), (Standard ''E8bs_v5'', 596000), (Standard ''E8d_v4'', 576000),
      (Standard ''E8d_v5'', 576000), (Standard ''E8ds_v4'', 576000), (Standard ''E8ds_v5'', 576000), (Standard ''E8pds_v5'', 461000),
      (Standard ''E8ps_v5'', 403000), (Standard ''E8s_v3'', 504000), (Standard ''E8s_v4'', 504000), (Standard ''E8s_v5'', 504000),
      (Standard ''E96-24ads_v5'', 6288000), (Standard ''E96-24as_v4'', 6048000), (Standard ''E96-24as_v5'', 5424000),
      (Standard ''E96-24ds_v5'', 6912000), (Standard ''E96-24s_v5'', 6048000), (Standard ''E96-48ads_v5'', 6288000)]"

definition northcentralus_5 :: priceTable where
  "northcentralus_5 =
     [(Standard ''E96-48as_v4'', 6048000), (Standard ''E96-48as_v5'', 5424000), (Standard ''E96-48ds_v5'', 6912000),
      (Standard ''E96-48s_v5'', 6048000), (Standard ''E96_v5'', 6048000), (Standard ''E96a_v4'', 6048000),
      (Standard ''E96ads_v5'', 6288000), (Standard ''E96as_v4'', 6048000), (Standard ''E96as_v5'', 5424000),
      (Standard ''E96bds_v5'', 8016000), (Standard ''E96bs_v5'', 7152000), (Standard ''E96d_v5'', 6912000),
      (Standard ''E96ds_v5'', 6912000), (Standard ''E96iads_v5'', 6917000), (Standard ''E96ias_v5'', 5966000),
      (Standard ''E96s_v5'', 6048000), (Standard ''F1'', 49700), (Standard ''F16'', 796000), (Standard ''F16s'', 796000),
      (Standard ''F16s_v2'', 680000), (Standard ''F1s'', 49700), (Standard ''F2'', 99000), (Standard ''F2s'', 99000),
      (Standard ''F2s_v2'', 85000), (Standard ''F32s_v2'', 1360000), (Standard ''F4'', 199000), (Standard ''F48s_v2'', 2040000),
      (Standard ''F4s'', 199000), (Standard ''F4s_v2'', 170000), (Standard ''F64s_v2'', 2720000), (Standard ''F72s_v2'', 3060000),
      (Standard ''F8'', 398000), (Standard ''F8s'', 398000), (Standard ''F8s_v2'', 340000), (Standard ''H16'', 1808000),
      (Standard ''H16m'', 2423000), (Standard ''H16mr'', 2665000), (Standard ''H16r'', 1989000), (Standard ''H8'', 904000),
      (Standard ''H8m'', 1211000), (Standard ''HB120-16rs_v2'', 4320000), (Standard ''HB120-32rs_v2'', 4320000),
      (Standard ''HB120-64rs_v2'', 4320000), (Standard ''HB120-96rs_v2'', 4320000), (Standard ''HB120rs_v2'', 4320000),
      (Standard ''L112ias_v3'', 9610000), (Standard ''L16as_v3'', 1248000), (Standard ''L16s_v3'', 1396000),
      (Standard ''L32as_v3'', 2496000), (Standard ''L32s_v3'', 2792000), (Standard ''L48as_v3'', 3744000), (Standard ''L48s_v3'', 4188000),
      (Standard ''L64as_v3'', 4992000), (Standard ''L64s_v3'', 5584000), (Standard ''L80as_v3'', 6240000), (Standard ''L80s_v3'', 6980000),
      (Standard ''L8as_v3'', 624000), (Standard ''L8s_v3'', 698000), (Standard ''L96ias_v3'', 8237000), (Standard ''M128'', 13338000),
      (Standard ''M128-32ms'', 26688000), (Standard ''M128-64ms'', 26688000), (Standard ''M128dms_v2'', 26690000),
      (Standard ''M128ds_v2'', 13340000), (Standard ''M128m'', 26688000), (Standard ''M128ms'', 26688000),
      (Standard ''M128ms_v2'', 26269000), (Standard ''M128s'', 13338000), (Standard ''M128s_v2'', 12919000),
      (Standard ''M16-4ms'', 3073000), (Standard ''M16-8ms'', 3073000), (Standard ''M16ms'', 3073000), (Standard ''M16s'', 2387000),
      (Standard ''M192idms_v2'', 32064000), (Standard ''M192ids_v2'', 16032000), (Standard ''M192ims_v2'', 31643000),
      (Standard ''M192is_v2'', 15611000), (Standard ''M208-104ms_v2'', 44620000), (Standard ''M208-104s_v2'', 22310000),
      (Standard ''M208-52ms_v2'', 44620000), (Standard ''M208-52s_v2'', 22310000), (Standard ''M208ms_v2'', 44620000),
      (Standard ''M208s_v2'', 22310000), (Standard ''M32-16ms'', 6146000), (Standard ''M32-8ms'', 6146000),
      (Standard ''M32dms_v2'', 6146000), (Standard ''M32ls'', 2873000), (Standard ''M32ms'', 6146000), (Standard ''M32ms_v2'', 6041000),
      (Standard ''M32s'', 3335000), (Standard ''M32ts'', 2707000), (Standard ''M416-104ms_v2'', 99150000),
      (Standard ''M416-104s_v2'', 49580000), (Standard ''M416-208ms_v2'', 99150000), (Standard ''M416-208s_v2'', 49580000),
      (Standard ''M416is_v2'', 49580000), (Standard ''M416ms_v2'', 99150000), (Standard ''M416s_8_v2'', 66110000),
      (Standard ''M416s_v2'', 49580000), (Standard ''M64'', 6669000), (Standard ''M64-16ms'', 10337000), (Standard ''M64-32ms'', 10337000),
      (Standard ''M64dms_v2'', 10340000), (Standard ''M64ds_v2'', 6669000), (Standard ''M64ls'', 5415000), (Standard ''M64m'', 10337000),
      (Standard ''M64ms'', 10337000), (Standard ''M64ms_v2'', 10130000), (Standard ''M64s'', 6669000), (Standard ''M64s_v2'', 6459000),
      (Standard ''M8-2ms'', 1536500), (Standard ''M8-4ms'', 1536500), (Standard ''M8ms'', 1536500), (Standard ''NC12'', 1800000),
      (Standard ''NC16as_T4_v3'', 1204000), (Standard ''NC24'', 3600000), (Standard ''NC24r'', 3960000),
      (Standard ''NC4as_T4_v3'', 526000), (Standard ''NC6'', 900000), (Standard ''NC64as_T4_v3'', 4352000),
      (Standard ''NC8as_T4_v3'', 752000), (Standard ''ND96ams_A100_v4'', 39324000), (Standard ''ND96amsr_A100_v4'', 39324000),
      (Standard ''NV12'', 2280000), (Standard ''NV12ads_A10_v5'', 1090000), (Standard ''NV16as_v4'', 1118000),
      (Standard ''NV18ads_A10_v5'', 1920000), (Standard ''NV24'', 4560000), (Standard ''NV32as_v4'', 2237000),
      (Standard ''NV36adms_A10_v5'', 5424000), (Standard ''NV36ads_A10_v5'', 3840000), (Standard ''NV4as_v4'', 280000),
      (Standard ''NV6'', 1140000), (Standard ''NV6ads_A10_v5'', 545000), (Standard ''NV72ads_A10_v5'', 7824000),
      (Standard ''NV8as_v4'', 559000)]"

definition northcentralus :: priceTable where
  "northcentralus = northcentralus_1 @ northcentralus_2 @ northcentralus_3 @ northcentralus_4 @ northcentralus_5"

subsection \<open>northeurope\<close>

definition northeurope_1 :: priceTable where
  "northeurope_1 =
     [(''Basic_A0'', 18000), (''Basic_A1'', 25000), (''Basic_A2'', 75000), (''Basic_A3'', 188000), (''Basic_A4'', 376000),
      (''DCadsv5 Type 1'', 7084000), (''DCasv5 Type 1'', 5914000), (''DCdsv3 Type1'', 6653000), (''DCsv2 Type 1'', 942000),
      (''DCsv3 Type1'', 5650000), (''Dadsv5_Type1'', 7084000), (''Dasv4_Type1'', 5650000), (''Dasv4_Type2'', 5885000),
      (''Dasv5_Type1'', 5914000), (''Ddsv4_Type 1'', 4435000), (''Ddsv4_Type2'', 5267000), (''Ddsv5_Type1'', 6653000),
      (''Dsv3_Type3'', 4709000), (''Dsv3_Type4'', 5886000), (''Dsv4_Type1'', 4708000), (''Dsv4_Type2'', 5650000),
      (''Dsv5_Type1'', 5885000), (''ECadsv5 Type 1'', 8480000), (''ECasv5 Type 1'', 7376000), (''Eadsv5_Type1'', 7709000),
      (''Easv4_Type1'', 7392000), (''Easv4_Type2'', 7445000), (''Easv5_Type1'', 6706000), (''Ebdsv5-Type1'', 6582000),
      (''Ebsv5-Type1'', 5914000), (''Edsv4_Type 1'', 5632000), (''Edsv4_Type2'', 6688000), (''Edsv5_Type1'', 8448000),
      (''Esv3_Type3'', 4774000), (''Esv3_Type4'', 6469000), (''Esv4_Type1'', 4963000), (''Esv4_Type2'', 6514000),
      (''Esv5_Type1'', 7445000), (''Fsv2 Type3'', 4435000), (''Fsv2_Type2'', 3802000), (''Fsv2_Type4'', 5069000),
      (''Lsv2_Type1'', 7568000), (''Lsv3_Type1'', 8448000), (''Mdsmv2MedMem _Type1'', 35231000), (''Mdsv2MedMem_Type1'', 17609000),
      (''Ms_Type1'', 17603000), (''Msm_Type1'', 35236000), (''Msmv2MedMem Type1'', 34675000), (''Msmv2_Type1'', 130880000),
      (''Msv2MedMem Type1'', 17053000), (''Msv2_Type1'', 65446000), (''NVasv4_Type1'', 8612000), (''NVsv3_Type1'', 5317000),
      (Standard ''A0'', 20000), (Standard ''A1'', 60000), (Standard ''A1_v2'', 41000), (Standard ''A2'', 120000),
      (Standard ''A2_v2'', 87000), (Standard ''A2m_v2'', 139000), (Standard ''A3'', 240000), (Standard ''A4'', 480000),
      (Standard ''A4_v2'', 183000), (Standard ''A4m_v2'', 291000), (Standard ''A5'', 248000), (Standard ''A6'', 496000),
      (Standard ''A7'', 992000), (Standard ''A8_v2'', 383000), (Standard ''A8m_v2'', 611000), (Standard ''B12ms'', 546000),
      (Standard ''B16als_v2'', 578000), (Standard ''B16as_v2'', 726000), (Standard ''B16ls_v2'', 646000), (Standard ''B16ms'', 728000),
      (Standard ''B16pls_v2'', 595000), (Standard ''B16ps_v2'', 589000), (Standard ''B16s_v2'', 730000), (Standard ''B1ls'', 5700),
      (Standard ''B1ms'', 22700), (Standard ''B1s'', 11300), (Standard ''B20ms'', 909000), (Standard ''B2als_v2'', 50000),
      (Standard ''B2as_v2'', 90800), (Standard ''B2ats_v2'', 19400), (Standard ''B2ls_v2'', 45600), (Standard ''B2ms'', 91000),
      (Standard ''B2pls_v2'', 46000), (Standard ''B2ps_v2'', 82800), (Standard ''B2pts_v2'', 9200), (Standard ''B2s'', 45000),
      (Standard ''B2s_v2'', 91200), (Standard ''B2ts_v2'', 20600), (Standard ''B32als_v2'', 1156000), (Standard ''B32as_v2'', 1453000),
      (Standard ''B32ls_v2'', 1292000), (Standard ''B32s_v2'', 1459000), (Standard ''B4als_v2'', 163000), (Standard ''B4as_v2'', 163000),
      (Standard ''B4ls_v2'', 180000), (Standard ''B4ms'', 182000), (Standard ''B4pls_v2'', 149000), (Standard ''B4ps_v2'', 147000),
      (Standard ''B4s_v2'', 201000), (Standard ''B8als_v2'', 326000), (Standard ''B8as_v2'', 326000), (Standard ''B8ls_v2'', 323000),
      (Standard ''B8ms'', 364000), (Standard ''B8pls_v2'', 261000), (Standard ''B8ps_v2'', 294000), (Standard ''B8s_v2'', 402000),
      (Standard ''D1'', 73000), (Standard ''D11'', 193000), (Standard ''D11_v2'', 185000), (Standard ''D11_v2_Promo'', 185000),
      (Standard ''D12'', 386000), (Standard ''D12_v2'', 371000), (Standard ''D12_v2_Promo'', 371000), (Standard ''D13'', 771000),
      (Standard ''D13_v2'', 741000), (Standard ''D13_v2_Promo'', 741000), (Standard ''D14'', 1542000), (Standard ''D14_v2'', 1482000),
      (Standard ''D14_v2_Promo'', 1482000), (Standard ''D15_v2'', 1853000), (Standard ''D15i_v2'', 1853000), (Standard ''D16_v3'', 856000),
      (Standard ''D16_v4'', 856000), (Standard ''D16_v5'', 856000), (Standard ''D16a_v4'', 856000), (Standard ''D16ads_v5'', 920000),
      (Standard ''D16as_v4'', 856000), (Standard ''D16as_v5'', 768000), (Standard ''D16d_v4'', 1008000), (Standard ''D16d_v5'', 1008000),
      (Standard ''D16ds_v4'', 1008000), (Standard ''D16ds_v5'', 1008000), (Standard ''D16lds_v5'', 872000),
      (Standard ''D16ls_v5'', 730000), (Standard ''D16pds_v5'', 806000)]"

definition northeurope_2 :: priceTable where
  "northeurope_2 =
     [(Standard ''D16plds_v5'', 698000), (Standard ''D16pls_v5'', 584000), (Standard ''D16ps_v5'', 688000), (Standard ''D16s_v3'', 856000),
      (Standard ''D16s_v4'', 856000), (Standard ''D16s_v5'', 856000), (Standard ''D1_v2'', 65800), (Standard ''D2'', 146000),
      (Standard ''D2_v2'', 132000), (Standard ''D2_v2_Promo'', 132000), (Standard ''D2_v3'', 107000), (Standard ''D2_v4'', 107000),
      (Standard ''D2_v5'', 107000), (Standard ''D2a_v4'', 107000), (Standard ''D2ads_v5'', 115000), (Standard ''D2as_v4'', 107000),
      (Standard ''D2as_v5'', 96000), (Standard ''D2d_v4'', 126000), (Standard ''D2d_v5'', 126000), (Standard ''D2ds_v4'', 126000),
      (Standard ''D2ds_v5'', 126000), (Standard ''D2lds_v5'', 109000), (Standard ''D2ls_v5'', 91200), (Standard ''D2pds_v5'', 101000),
      (Standard ''D2plds_v5'', 87200), (Standard ''D2pls_v5'', 73000), (Standard ''D2ps_v5'', 86000), (Standard ''D2s_v3'', 107000),
      (Standard ''D2s_v4'', 107000), (Standard ''D2s_v5'', 107000), (Standard ''D3'', 292000), (Standard ''D32-16s_v3'', 1712000),
      (Standard ''D32-8s_v3'', 1712000), (Standard ''D32_v3'', 1712000), (Standard ''D32_v4'', 1712000), (Standard ''D32_v5'', 1712000),
      (Standard ''D32a_v4'', 1712000), (Standard ''D32ads_v5'', 1840000), (Standard ''D32as_v4'', 1712000),
      (Standard ''D32as_v5'', 1536000), (Standard ''D32d_v4'', 2016000), (Standard ''D32d_v5'', 2016000), (Standard ''D32ds_v4'', 2016000),
      (Standard ''D32ds_v5'', 2016000), (Standard ''D32lds_v5'', 1744000), (Standard ''D32ls_v5'', 1459000),
      (Standard ''D32pds_v5'', 1613000), (Standard ''D32plds_v5'', 1395000), (Standard ''D32pls_v5'', 1167000),
      (Standard ''D32ps_v5'', 1376000), (Standard ''D32s_v3'', 1712000), (Standard ''D32s_v4'', 1712000), (Standard ''D32s_v5'', 1712000),
      (Standard ''D3_v2'', 263000), (Standard ''D3_v2_Promo'', 263000), (Standard ''D4'', 584000), (Standard ''D48_v3'', 2568000),
      (Standard ''D48_v4'', 2568000), (Standard ''D48_v5'', 2568000), (Standard ''D48a_v4'', 2568000), (Standard ''D48ads_v5'', 2760000),
      (Standard ''D48as_v4'', 2568000), (Standard ''D48as_v5'', 2304000), (Standard ''D48d_v4'', 3024000), (Standard ''D48d_v5'', 3024000),
      (Standard ''D48ds_v4'', 3024000), (Standard ''D48ds_v5'', 3024000), (Standard ''D48lds_v5'', 2616000),
      (Standard ''D48ls_v5'', 2189000), (Standard ''D48pds_v5'', 2419000), (Standard ''D48plds_v5'', 2093000),
      (Standard ''D48pls_v5'', 1751000), (Standard ''D48ps_v5'', 2064000), (Standard ''D48s_v3'', 2568000),
      (Standard ''D48s_v4'', 2568000), (Standard ''D48s_v5'', 2568000), (Standard ''D4_v2'', 527000), (Standard ''D4_v2_Promo'', 527000),
      (Standard ''D4_v3'', 214000), (Standard ''D4_v4'', 214000), (Standard ''D4_v5'', 214000), (Standard ''D4a_v4'', 214000),
      (Standard ''D4ads_v5'', 230000), (Standard ''D4as_v4'', 214000), (Standard ''D4as_v5'', 192000), (Standard ''D4d_v4'', 252000),
      (Standard ''D4d_v5'', 252000), (Standard ''D4ds_v4'', 252000), (Standard ''D4ds_v5'', 252000), (Standard ''D4lds_v5'', 218000),
      (Standard ''D4ls_v5'', 182000), (Standard ''D4pds_v5'', 202000), (Standard ''D4plds_v5'', 174000), (Standard ''D4pls_v5'', 146000),
      (Standard ''D4ps_v5'', 172000), (Standard ''D4s_v3'', 214000), (Standard ''D4s_v4'', 214000), (Standard ''D4s_v5'', 214000),
      (Standard ''D5_v2'', 1053000), (Standard ''D5_v2_Promo'', 1053000), (Standard ''D64-16s_v3'', 3424000),
      (Standard ''D64-32s_v3'', 3424000), (Standard ''D64_v3'', 3424000), (Standard ''D64_v4'', 3424000), (Standard ''D64_v5'', 3424000),
      (Standard ''D64a_v4'', 3424000), (Standard ''D64ads_v5'', 3680000), (Standard ''D64as_v4'', 3424000),
      (Standard ''D64as_v5'', 3072000), (Standard ''D64d_v4'', 4032000), (Standard ''D64d_v5'', 4032000), (Standard ''D64ds_v4'', 4032000),
      (Standard ''D64ds_v5'', 4032000), (Standard ''D64lds_v5'', 3488000), (Standard ''D64ls_v5'', 2918000),
      (Standard ''D64pds_v5'', 3226000), (Standard ''D64plds_v5'', 2790000), (Standard ''D64pls_v5'', 2334000),
      (Standard ''D64ps_v5'', 2752000), (Standard ''D64s_v3'', 3424000), (Standard ''D64s_v4'', 3424000), (Standard ''D64s_v5'', 3424000),
      (Standard ''D8_v3'', 428000), (Standard ''D8_v4'', 428000), (Standard ''D8_v5'', 428000), (Standard ''D8a_v4'', 428000),
      (Standard ''D8ads_v5'', 460000), (Standard ''D8as_v4'', 428000), (Standard ''D8as_v5'', 384000), (Standard ''D8d_v4'', 504000),
      (Standard ''D8d_v5'', 504000), (Standard ''D8ds_v4'', 504000), (Standard ''D8ds_v5'', 504000), (Standard ''D8lds_v5'', 436000),
      (Standard ''D8ls_v5'', 365000), (Standard ''D8pds_v5'', 403000), (Standard ''D8plds_v5'', 349000), (Standard ''D8pls_v5'', 292000)]"

definition northeurope_3 :: priceTable where
  "northeurope_3 =
     [(Standard ''D8ps_v5'', 344000), (Standard ''D8s_v3'', 428000), (Standard ''D8s_v4'', 428000), (Standard ''D8s_v5'', 428000),
      (Standard ''D96_v5'', 5136000), (Standard ''D96a_v4'', 5136000), (Standard ''D96ads_v5'', 5520000), (Standard ''D96as_v4'', 5136000),
      (Standard ''D96as_v5'', 4608000), (Standard ''D96d_v5'', 6048000), (Standard ''D96ds_v5'', 6048000),
      (Standard ''D96lds_v5'', 5232000), (Standard ''D96ls_v5'', 4378000), (Standard ''D96s_v5'', 5136000),
      (Standard ''DC16ads_cc_v5'', 920000), (Standard ''DC16ads_v5'', 920000), (Standard ''DC16as_cc_v5'', 768000),
      (Standard ''DC16as_v5'', 768000), (Standard ''DC16ds_v3'', 2016000), (Standard ''DC16eds_v5'', 1008000),
      (Standard ''DC16es_v5'', 856000), (Standard ''DC16s_v3'', 1712000), (Standard ''DC1ds_v3'', 126000), (Standard ''DC1s_v2'', 107000),
      (Standard ''DC1s_v3'', 107000), (Standard ''DC24ds_v3'', 3024000), (Standard ''DC24s_v3'', 2568000),
      (Standard ''DC2ads_v5'', 115000), (Standard ''DC2as_v5'', 96000), (Standard ''DC2ds_v3'', 252000), (Standard ''DC2eds_v5'', 126000),
      (Standard ''DC2es_v5'', 107000), (Standard ''DC2s_v2'', 214000), (Standard ''DC2s_v3'', 214000),
      (Standard ''DC32ads_cc_v5'', 1840000), (Standard ''DC32ads_v5'', 1840000), (Standard ''DC32as_cc_v5'', 1536000),
      (Standard ''DC32as_v5'', 1536000), (Standard ''DC32ds_v3'', 4032000), (Standard ''DC32eds_v5'', 2016000),
      (Standard ''DC32es_v5'', 1712000), (Standard ''DC32s_v3'', 3424000), (Standard ''DC48ads_cc_v5'', 2760000),
      (Standard ''DC48ads_v5'', 2760000), (Standard ''DC48as_cc_v5'', 2304000), (Standard ''DC48as_v5'', 2304000),
      (Standard ''DC48ds_v3'', 6048000), (Standard ''DC48eds_v5'', 3024000), (Standard ''DC48es_v5'', 2568000),
      (Standard ''DC48s_v3'', 5136000), (Standard ''DC4ads_cc_v5'', 230000), (Standard ''DC4ads_v5'', 230000),
      (Standard ''DC4as_cc_v5'', 192000), (Standard ''DC4as_v5'', 192000), (Standard ''DC4ds_v3'', 504000),
      (Standard ''DC4eds_v5'', 252000), (Standard ''DC4es_v5'', 214000), (Standard ''DC4s_v2'', 428000), (Standard ''DC4s_v3'', 428000),
      (Standard ''DC64ads_cc_v5'', 3680000), (Standard ''DC64ads_v5'', 3680000), (Standard ''DC64as_cc_v5'', 3072000),
      (Standard ''DC64as_v5'', 3072000), (Standard ''DC64eds_v5'', 4032000), (Standard ''DC64es_v5'', 3424000),
      (Standard ''DC8_v2'', 856000), (Standard ''DC8ads_cc_v5'', 460000), (Standard ''DC8ads_v5'', 460000),
      (Standard ''DC8as_cc_v5'', 384000), (Standard ''DC8as_v5'', 384000), (Standard ''DC8ds_v3'', 1008000),
      (Standard ''DC8eds_v5'', 504000), (Standard ''DC8es_v5'', 428000), (Standard ''DC8s_v3'', 856000),
      (Standard ''DC96ads_cc_v5'', 5520000), (Standard ''DC96ads_v5'', 5520000), (Standard ''DC96as_cc_v5'', 4608000),
      (Standard ''DC96as_v5'', 4608000), (Standard ''DC96eds_v5'', 6048000), (Standard ''DC96es_v5'', 5136000), (Standard ''DS1'', 73000),
      (Standard ''DS11'', 193000), (Standard ''DS11-1_v2'', 185000), (Standard ''DS11_v2'', 185000), (Standard ''DS11_v2_Promo'', 185000),
      (Standard ''DS12'', 386000), (Standard ''DS12-1_v2'', 371000), (Standard ''DS12-2_v2'', 371000), (Standard ''DS12_v2'', 371000),
      (Standard ''DS12_v2_Promo'', 371000), (Standard ''DS13'', 771000), (Standard ''DS13-2_v2'', 741000),
      (Standard ''DS13-4_v2'', 741000), (Standard ''DS13_v2'', 741000), (Standard ''DS13_v2_Promo'', 741000), (Standard ''DS14'', 1542000),
      (Standard ''DS14-4_v2'', 1482000), (Standard ''DS14-8_v2'', 1482000), (Standard ''DS14_v2'', 1482000),
      (Standard ''DS14_v2_Promo'', 1482000), (Standard ''DS15_v2'', 1853000), (Standard ''DS15i_v2'', 1853000),
      (Standard ''DS1_v2'', 65800), (Standard ''DS2'', 146000), (Standard ''DS2_v2'', 132000), (Standard ''DS2_v2_Promo'', 132000),
      (Standard ''DS3'', 292000), (Standard ''DS3_v2'', 263000), (Standard ''DS3_v2_Promo'', 263000), (Standard ''DS4'', 584000),
      (Standard ''DS4_v2'', 527000), (Standard ''DS4_v2_Promo'', 527000), (Standard ''DS5_v2'', 1053000),
      (Standard ''DS5_v2_Promo'', 1053000), (Standard ''E104i_v5'', 8065000), (Standard ''E104id_v5'', 9152000),
      (Standard ''E104ids_v5'', 9152000), (Standard ''E104is_v5'', 8065000), (Standard ''E112iads_v5'', 8994000),
      (Standard ''E112ias_v5'', 7823000), (Standard ''E112ibds_v5'', 11519000), (Standard ''E112ibs_v5'', 10349000),
      (Standard ''E16-4ads_v5'', 1168000), (Standard ''E16-4as_v4'', 1128000), (Standard ''E16-4as_v5'', 1016000),
      (Standard ''E16-4ds_v4'', 1280000), (Standard ''E16-4ds_v5'', 1280000), (Standard ''E16-4s_v3'', 1128000),
      (Standard ''E16-4s_v4'', 1128000), (Standard ''E16-4s_v5'', 1128000), (Standard ''E16-8ads_v5'', 1168000),
      (Standard ''E16-8as_v4'', 1128000), (Standard ''E16-8as_v5'', 1016000), (Standard ''E16-8ds_v4'', 1280000),
      (Standard ''E16-8ds_v5'', 1280000), (Standard ''E16-8s_v3'', 1128000), (Standard ''E16-8s_v4'', 1128000),
      (Standard ''E16-8s_v5'', 1128000)]"

definition northeurope_4 :: priceTable where
  "northeurope_4 =
     [(Standard ''E16_v3'', 1128000), (Standard ''E16_v4'', 1128000), (Standard ''E16_v5'', 1128000), (Standard ''E16a_v4'', 1128000),
      (Standard ''E16ads_v5'', 1168000), (Standard ''E16as_v4'', 1128000), (Standard ''E16as_v5'', 1016000),
      (Standard ''E16bds_v5'', 1496000), (Standard ''E16bs_v5'', 1344000), (Standard ''E16d_v4'', 1280000),
      (Standard ''E16d_v5'', 1280000), (Standard ''E16ds_v4'', 1280000), (Standard ''E16ds_v5'', 1280000),
      (Standard ''E16pds_v5'', 1024000), (Standard ''E16ps_v5'', 902000), (Standard ''E16s_v3'', 1128000), (Standard ''E16s_v4'', 1128000),
      (Standard ''E16s_v5'', 1128000), (Standard ''E20_v3'', 1410000), (Standard ''E20_v4'', 1410000), (Standard ''E20_v5'', 1410000),
      (Standard ''E20a_v4'', 1410000), (Standard ''E20ads_v5'', 1460000), (Standard ''E20as_v4'', 1410000),
      (Standard ''E20as_v5'', 1270000), (Standard ''E20d_v4'', 1600000), (Standard ''E20d_v5'', 1600000), (Standard ''E20ds_v4'', 1600000),
      (Standard ''E20ds_v5'', 1600000), (Standard ''E20pds_v5'', 1280000), (Standard ''E20ps_v5'', 1128000),
      (Standard ''E20s_v3'', 1410000), (Standard ''E20s_v4'', 1410000), (Standard ''E20s_v5'', 1410000), (Standard ''E2_v3'', 141000),
      (Standard ''E2_v4'', 141000), (Standard ''E2_v5'', 141000), (Standard ''E2a_v4'', 141000), (Standard ''E2ads_v5'', 146000),
      (Standard ''E2as_v4'', 141000), (Standard ''E2as_v5'', 127000), (Standard ''E2bds_v5'', 187000), (Standard ''E2bs_v5'', 168000),
      (Standard ''E2d_v4'', 160000), (Standard ''E2d_v5'', 160000), (Standard ''E2ds_v4'', 160000), (Standard ''E2ds_v5'', 160000),
      (Standard ''E2pds_v5'', 128000), (Standard ''E2ps_v5'', 113000), (Standard ''E2s_v3'', 141000), (Standard ''E2s_v4'', 141000),
      (Standard ''E2s_v5'', 141000), (Standard ''E32-16ads_v5'', 2336000), (Standard ''E32-16as_v4'', 2256000),
      (Standard ''E32-16as_v5'', 2032000), (Standard ''E32-16ds_v4'', 2560000), (Standard ''E32-16ds_v5'', 2560000),
      (Standard ''E32-16s_v3'', 2256000), (Standard ''E32-16s_v4'', 2256000), (Standard ''E32-16s_v5'', 2256000),
      (Standard ''E32-8ads_v5'', 2336000), (Standard ''E32-8as_v4'', 2256000), (Standard ''E32-8as_v5'', 2032000),
      (Standard ''E32-8ds_v4'', 2560000), (Standard ''E32-8ds_v5'', 2560000), (Standard ''E32-8s_v3'', 2256000),
      (Standard ''E32-8s_v4'', 2256000), (Standard ''E32-8s_v5'', 2256000), (Standard ''E32_v3'', 2256000), (Standard ''E32_v4'', 2256000),
      (Standard ''E32_v5'', 2256000), (Standard ''E32a_v4'', 2256000), (Standard ''E32ads_v5'', 2336000), (Standard ''E32as_v4'', 2256000),
      (Standard ''E32as_v5'', 2032000), (Standard ''E32bds_v5'', 2992000), (Standard ''E32bs_v5'', 2688000),
      (Standard ''E32d_v4'', 2560000), (Standard ''E32d_v5'', 2560000), (Standard ''E32ds_v4'', 2560000), (Standard ''E32ds_v5'', 2560000),
      (Standard ''E32pds_v5'', 2048000), (Standard ''E32ps_v5'', 1805000), (Standard ''E32s_v3'', 2256000),
      (Standard ''E32s_v4'', 2256000), (Standard ''E32s_v5'', 2256000), (Standard ''E4-2ads_v5'', 292000),
      (Standard ''E4-2as_v4'', 282000), (Standard ''E4-2as_v5'', 254000), (Standard ''E4-2ds_v4'', 320000),
      (Standard ''E4-2ds_v5'', 320000), (Standard ''E4-2s_v3'', 282000), (Standard ''E4-2s_v4'', 282000), (Standard ''E4-2s_v5'', 282000),
      (Standard ''E48_v3'', 3384000), (Standard ''E48_v4'', 3384000), (Standard ''E48_v5'', 3384000), (Standard ''E48a_v4'', 3384000),
      (Standard ''E48ads_v5'', 3504000), (Standard ''E48as_v4'', 3384000), (Standard ''E48as_v5'', 3048000),
      (Standard ''E48bds_v5'', 4488000), (Standard ''E48bs_v5'', 4032000), (Standard ''E48d_v4'', 3840000),
      (Standard ''E48d_v5'', 3840000), (Standard ''E48ds_v4'', 3840000), (Standard ''E48ds_v5'', 3840000), (Standard ''E48s_v3'', 3384000),
      (Standard ''E48s_v4'', 3384000), (Standard ''E48s_v5'', 3384000), (Standard ''E4_v3'', 282000), (Standard ''E4_v4'', 282000),
      (Standard ''E4_v5'', 282000), (Standard ''E4a_v4'', 282000), (Standard ''E4ads_v5'', 292000), (Standard ''E4as_v4'', 282000),
      (Standard ''E4as_v5'', 254000), (Standard ''E4bds_v5'', 374000), (Standard ''E4bs_v5'', 336000), (Standard ''E4d_v4'', 320000),
      (Standard ''E4d_v5'', 320000), (Standard ''E4ds_v4'', 320000), (Standard ''E4ds_v5'', 320000), (Standard ''E4pds_v5'', 256000),
      (Standard ''E4ps_v5'', 226000), (Standard ''E4s_v3'', 282000), (Standard ''E4s_v4'', 282000), (Standard ''E4s_v5'', 282000),
      (Standard ''E64-16ads_v5'', 4672000), (Standard ''E64-16as_v4'', 4512000), (Standard ''E64-16as_v5'', 4064000),
      (Standard ''E64-16ds_v4'', 5120000), (Standard ''E64-16ds_v5'', 5120000), (Standard ''E64-16s_v3'', 4061000),
      (Standard ''E64-16s_v4'', 4512000), (Standard ''E64-16s_v5'', 4512000), (Standard ''E64-32ads_v5'', 4672000),
      (Standard ''E64-32as_v4'', 4512000)]"

definition northeurope_5 :: priceTable where
  "northeurope_5 =
     [(Standard ''E64-32as_v5'', 4064000), (Standard ''E64-32ds_v4'', 5120000), (Standard ''E64-32ds_v5'', 5120000),
      (Standard ''E64-32s_v3'', 4061000), (Standard ''E64-32s_v4'', 4512000), (Standard ''E64-32s_v5'', 4512000),
      (Standard ''E64_v3'', 4061000), (Standard ''E64_v4'', 4512000), (Standard ''E64_v5'', 4512000), (Standard ''E64a_v4'', 4512000),
      (Standard ''E64ads_v5'', 4672000), (Standard ''E64as_v4'', 4512000), (Standard ''E64as_v5'', 4064000),
      (Standard ''E64bds_v5'', 5984000), (Standard ''E64bs_v5'', 5376000), (Standard ''E64d_v4'', 5120000),
      (Standard ''E64d_v5'', 5120000), (Standard ''E64ds_v4'', 5120000), (Standard ''E64ds_v5'', 5120000), (Standard ''E64i_v3'', 4061000),
      (Standard ''E64is_v3'', 4061000), (Standard ''E64s_v3'', 4061000), (Standard ''E64s_v4'', 4512000), (Standard ''E64s_v5'', 4512000),
      (Standard ''E8-2ads_v5'', 584000), (Standard ''E8-2as_v4'', 564000), (Standard ''E8-2as_v5'', 508000),
      (Standard ''E8-2ds_v4'', 640000), (Standard ''E8-2ds_v5'', 640000), (Standard ''E8-2s_v3'', 564000), (Standard ''E8-2s_v4'', 564000),
      (Standard ''E8-2s_v5'', 564000), (Standard ''E8-4ads_v5'', 584000), (Standard ''E8-4as_v4'', 564000),
      (Standard ''E8-4as_v5'', 508000), (Standard ''E8-4ds_v4'', 640000), (Standard ''E8-4ds_v5'', 640000),
      (Standard ''E8-4s_v3'', 564000), (Standard ''E8-4s_v4'', 564000), (Standard ''E8-4s_v5'', 564000), (Standard ''E80ids_v4'', 6400000),
      (Standard ''E80is_v4'', 5640000), (Standard ''E8_v3'', 564000), (Standard ''E8_v4'', 564000), (Standard ''E8_v5'', 564000),
      (Standard ''E8a_v4'', 564000), (Standard ''E8ads_v5'', 584000), (Standard ''E8as_v4'', 564000), (Standard ''E8as_v5'', 508000),
      (Standard ''E8bds_v5'', 748000), (Standard ''E8bs_v5'', 672000), (Standard ''E8d_v4'', 640000), (Standard ''E8d_v5'', 640000),
      (Standard ''E8ds_v4'', 640000), (Standard ''E8ds_v5'', 640000), (Standard ''E8pds_v5'', 512000), (Standard ''E8ps_v5'', 451000),
      (Standard ''E8s_v3'', 564000), (Standard ''E8s_v4'', 564000), (Standard ''E8s_v5'', 564000), (Standard ''E96-24ads_v5'', 7008000),
      (Standard ''E96-24as_v4'', 6768000), (Standard ''E96-24as_v5'', 6096000), (Standard ''E96-24ds_v5'', 7680000),
      (Standard ''E96-24s_v5'', 6768000), (Standard ''E96-48ads_v5'', 7008000), (Standard ''E96-48as_v4'', 6768000),
      (Standard ''E96-48as_v5'', 6096000), (Standard ''E96-48ds_v5'', 7680000), (Standard ''E96-48s_v5'', 6768000),
      (Standard ''E96_v5'', 6768000), (Standard ''E96a_v4'', 6768000), (Standard ''E96ads_v5'', 7008000), (Standard ''E96as_v4'', 6768000),
      (Standard ''E96as_v5'', 6096000), (Standard ''E96bds_v5'', 8976000), (Standard ''E96bs_v5'', 8064000),
      (Standard ''E96d_v5'', 7680000), (Standard ''E96ds_v5'', 7680000), (Standard ''E96iads_v5'', 7709000),
      (Standard ''E96ias_v5'', 6706000), (Standard ''E96s_v5'', 6768000), (Standard ''EC16ads_cc_v5'', 1168000),
      (Standard ''EC16ads_v5'', 1168000), (Standard ''EC16as_cc_v5'', 1016000), (Standard ''EC16as_v5'', 1016000),
      (Standard ''EC16eds_v5'', 1280000), (Standard ''EC16es_v5'', 1128000), (Standard ''EC20ads_cc_v5'', 1460000),
      (Standard ''EC20ads_v5'', 1460000), (Standard ''EC20as_cc_v5'', 1270000), (Standard ''EC20as_v5'', 1270000),
      (Standard ''EC2ads_v5'', 146000), (Standard ''EC2as_v5'', 127000), (Standard ''EC2eds_v5'', 160000), (Standard ''EC2es_v5'', 141000),
      (Standard ''EC32ads_cc_v5'', 2336000), (Standard ''EC32ads_v5'', 2336000), (Standard ''EC32as_cc_v5'', 2032000),
      (Standard ''EC32as_v5'', 2032000), (Standard ''EC32eds_v5'', 2560000), (Standard ''EC32es_v5'', 2256000),
      (Standard ''EC48ads_cc_v5'', 3504000), (Standard ''EC48ads_v5'', 3504000), (Standard ''EC48as_cc_v5'', 3048000),
      (Standard ''EC48as_v5'', 3048000), (Standard ''EC48eds_v5'', 3840000), (Standard ''EC48es_v5'', 3384000),
      (Standard ''EC4ads_cc_v5'', 292000), (Standard ''EC4ads_v5'', 292000), (Standard ''EC4as_cc_v5'', 254000),
      (Standard ''EC4as_v5'', 254000), (Standard ''EC4eds_v5'', 320000), (Standard ''EC4es_v5'', 282000),
      (Standard ''EC64ads_cc_v5'', 4672000), (Standard ''EC64ads_v5'', 4672000), (Standard ''EC64as_cc_v5'', 4064000),
      (Standard ''EC64as_v5'', 4064000), (Standard ''EC64eds_v5'', 5120000), (Standard ''EC64es_v5'', 4512000),
      (Standard ''EC8ads_cc_v5'', 584000), (Standard ''EC8ads_v5'', 584000), (Standard ''EC8as_cc_v5'', 508000),
      (Standard ''EC8as_v5'', 508000), (Standard ''EC8eds_v5'', 640000), (Standard ''EC8es_v5'', 564000),
      (Standard ''EC96ads_cc_v5'', 7008000), (Standard ''EC96ads_v5'', 7008000), (Standard ''EC96as_cc_v5'', 6096000),
      (Standard ''EC96as_v5'', 6096000), (Standard ''EC96eds_v5'', 7680000), (Standard ''EC96es_v5'', 6768000),
      (Standard ''EC96iads_v5'', 7709000), (Standard ''EC96ias_v5'', 6706000), (Standard ''F1'', 56600), (Standard ''F16'', 905000),
      (Standard ''F16s'', 905000), (Standard ''F16s_v2'', 768000)]"

definition northeurope_6 :: priceTable where
  "northeurope_6 =
     [(Standard ''F1s'', 56600), (Standard ''F2'', 113000), (Standard ''F2s'', 113000), (Standard ''F2s_v2'', 96000),
      (Standard ''F32s_v2'', 1536000), (Standard ''F4'', 226000), (Standard ''F48s_v2'', 2304000), (Standard ''F4s'', 226000),
      (Standard ''F4s_v2'', 192000), (Standard ''F64s_v2'', 3072000), (Standard ''F72s_v2'', 3456000), (Standard ''F8'', 452000),
      (Standard ''F8s'', 452000), (Standard ''F8s_v2'', 384000), (Standard ''FX12mds'', 1248000), (Standard ''FX24mds'', 2496000),
      (Standard ''FX36mds'', 3744000), (Standard ''FX48mds'', 4992000), (Standard ''FX4mds'', 416000), (Standard ''H16'', 1941000),
      (Standard ''H16m'', 2601000), (Standard ''H16mr'', 2861000), (Standard ''H16r'', 2136000), (Standard ''H8'', 971000),
      (Standard ''H8m'', 1301000), (Standard ''HC44-16rs'', 3802000), (Standard ''HC44-32rs'', 3802000), (Standard ''HC44rs'', 3802000),
      (Standard ''L112ias_v3'', 10595000), (Standard ''L16as_v3'', 1376000), (Standard ''L16s_v2'', 1376000),
      (Standard ''L16s_v3'', 1536000), (Standard ''L32as_v3'', 2752000), (Standard ''L32s_v2'', 2752000), (Standard ''L32s_v3'', 3072000),
      (Standard ''L48as_v3'', 4128000), (Standard ''L48s_v2'', 4128000), (Standard ''L48s_v3'', 4608000), (Standard ''L64as_v3'', 5504000),
      (Standard ''L64s_v2'', 5504000), (Standard ''L64s_v3'', 6144000), (Standard ''L80as_v3'', 6880000), (Standard ''L80s_v2'', 6880000),
      (Standard ''L80s_v3'', 7680000), (Standard ''L88is_v2'', 7568000), (Standard ''L8as_v3'', 688000), (Standard ''L8s_v2'', 688000),
      (Standard ''L8s_v3'', 768000), (Standard ''L96ias_v3'', 9082000), (Standard ''M128'', 16006000), (Standard ''M128-32ms'', 32025600),
      (Standard ''M128-64ms'', 32025600), (Standard ''M128dms_v2'', 32028000), (Standard ''M128ds_v2'', 16008000),
      (Standard ''M128m'', 32025600), (Standard ''M128ms'', 32025600), (Standard ''M128ms_v2'', 31523000), (Standard ''M128s'', 16006000),
      (Standard ''M128s_v2'', 15503000), (Standard ''M16-4ms'', 3687600), (Standard ''M16-8ms'', 3687600), (Standard ''M16ms'', 3687600),
      (Standard ''M16s'', 2864000), (Standard ''M192idms_v2'', 38477000), (Standard ''M192ids_v2'', 19238000),
      (Standard ''M192ims_v2'', 37972000), (Standard ''M192is_v2'', 18733000), (Standard ''M208-104ms_v2'', 49974000),
      (Standard ''M208-104s_v2'', 24987000), (Standard ''M208-52ms_v2'', 49974000), (Standard ''M208-52s_v2'', 24987000),
      (Standard ''M208ms_v2'', 49974000), (Standard ''M208s_v2'', 24987000), (Standard ''M32-16ms'', 7375200),
      (Standard ''M32-8ms'', 7375200), (Standard ''M32dms_v2'', 7375000), (Standard ''M32ls'', 3189000), (Standard ''M32ms'', 7375200),
      (Standard ''M32ms_v2'', 7249000), (Standard ''M32s'', 4002000), (Standard ''M32ts'', 3004770),
      (Standard ''M416-104ms_v2'', 111050000), (Standard ''M416-104s_v2'', 55530000), (Standard ''M416-208ms_v2'', 111050000),
      (Standard ''M416-208s_v2'', 55530000), (Standard ''M416is_v2'', 55530000), (Standard ''M416ms_v2'', 111050000),
      (Standard ''M416s_8_v2'', 73980000), (Standard ''M416s_v2'', 55530000), (Standard ''M64'', 8003000),
      (Standard ''M64-16ms'', 12405000), (Standard ''M64-32ms'', 12405000), (Standard ''M64dms_v2'', 12408000),
      (Standard ''M64ds_v2'', 8003000), (Standard ''M64ls'', 6010650), (Standard ''M64m'', 12405000), (Standard ''M64ms'', 12405000),
      (Standard ''M64ms_v2'', 12156000), (Standard ''M64s'', 8003000), (Standard ''M64s_v2'', 7750000), (Standard ''M8-2ms'', 1843800),
      (Standard ''M8-4ms'', 1843800), (Standard ''M8ms'', 1843800), (Standard ''NC12'', 1944000), (Standard ''NC12s_v3'', 6610000),
      (Standard ''NC16as_T4_v3'', 1342000), (Standard ''NC24'', 3888000), (Standard ''NC24ads_A100_v4'', 4408000),
      (Standard ''NC24r'', 4277000), (Standard ''NC24rs_v3'', 14541000), (Standard ''NC24s_v3'', 13219000),
      (Standard ''NC48ads_A100_v4'', 8815000), (Standard ''NC4as_T4_v3'', 587000), (Standard ''NC6'', 972000),
      (Standard ''NC64as_T4_v3'', 4853000), (Standard ''NC6s_v3'', 3305000), (Standard ''NC8as_T4_v3'', 838000),
      (Standard ''NC96ads_A100_v4'', 17630000), (Standard ''NV12'', 2420000), (Standard ''NV12ads_A10_v5'', 1090000),
      (Standard ''NV12s_v3'', 1210000), (Standard ''NV16as_v4'', 1118000), (Standard ''NV18ads_A10_v5'', 1920000),
      (Standard ''NV24'', 4840000), (Standard ''NV24s_v3'', 2420000), (Standard ''NV32as_v4'', 2237000),
      (Standard ''NV36adms_A10_v5'', 5424000), (Standard ''NV36ads_A10_v5'', 3840000), (Standard ''NV48s_v3'', 4838000),
      (Standard ''NV4as_v4'', 280000), (Standard ''NV6'', 1210000), (Standard ''NV6ads_A10_v5'', 545000),
      (Standard ''NV72ads_A10_v5'', 7824000), (Standard ''NV8as_v4'', 559000)]"

definition northeurope :: priceTable where
  "northeurope = northeurope_1 @ northeurope_2 @ northeurope_3 @ northeurope_4 @ northeurope_5 @ northeurope_6"

subsection \<open>The lists are well formed\<close>

lemma japaneast_1_ok: "part_ok (''Basic_A0'') japaneast_1 (Standard ''D16lds_v5'')"
  unfolding japaneast_1_def by (simp only: eval_part)

lemma japaneast_2_ok: "part_ok (Standard ''D16lds_v5'') japaneast_2 (Standard ''D8_v5'')"
  unfolding japaneast_2_def by (simp only: eval_part)

lemma japaneast_3_ok: "part_ok (Standard ''D8_v5'') japaneast_3 (Standard ''E16ds_v5'')"
  unfolding japaneast_3_def by (simp only: eval_part)

lemma japaneast_4_ok: "part_ok (Standard ''E16ds_v5'') japaneast_4 (Standard ''E64_v3'')"
  unfolding japaneast_4_def by (simp only: eval_part)

lemma japaneast_5_ok: "part_ok (Standard ''E64_v3'') japaneast_5 (Standard ''GS5-8'')"
  unfolding japaneast_5_def by (simp only: eval_part)

lemma japaneast_6_ok: "last_ok (Standard ''GS5-8'') japaneast_6"
  unfolding japaneast_6_def by (simp only: eval_part)

lemma japaneast_ok: "table_ok japaneast"
  unfolding japaneast_def by (rule last_ok_table [OF part_join [OF japaneast_1_ok part_join [OF japaneast_2_ok part_join [OF japaneast_3_ok part_join [OF japaneast_4_ok part_join [OF japaneast_5_ok japaneast_6_ok]]]]]])

lemma japanwest_1_ok: "part_ok (''Basic_A0'') japanwest_1 (Standard ''D2'')"
  unfolding japanwest_1_def by (simp only: eval_part)

lemma japanwest_2_ok: "part_ok (Standard ''D2'') japanwest_2 (Standard ''DC1ds_v3'')"
  unfolding japanwest_2_def by (simp only: eval_part)

lemma japanwest_3_ok: "part_ok (Standard ''DC1ds_v3'') japanwest_3 (Standard ''E32-16s_v3'')"
  unfolding japanwest_3_def by (simp only: eval_part)

lemma japanwest_4_ok: "part_ok (Standard ''E32-16s_v3'') japanwest_4 (Standard ''E8ads_v5'')"
  unfolding japanwest_4_def by (simp only: eval_part)

lemma japanwest_5_ok: "last_ok (Standard ''E8ads_v5'') japanwest_5"
  unfolding japanwest_5_def by (simp only: eval_part)

lemma japanwest_ok: "table_ok japanwest"
  unfolding japanwest_def by (rule last_ok_table [OF part_join [OF japanwest_1_ok part_join [OF japanwest_2_ok part_join [OF japanwest_3_ok part_join [OF japanwest_4_ok japanwest_5_ok]]]]])

lemma jioindiacentral_1_ok: "part_ok (''Dadsv5_Type1'') jioindiacentral_1 (Standard ''DS1_v2'')"
  unfolding jioindiacentral_1_def by (simp only: eval_part)

lemma jioindiacentral_2_ok: "last_ok (Standard ''DS1_v2'') jioindiacentral_2"
  unfolding jioindiacentral_2_def by (simp only: eval_part)

lemma jioindiacentral_ok: "table_ok jioindiacentral"
  unfolding jioindiacentral_def by (rule last_ok_table [OF part_join [OF jioindiacentral_1_ok jioindiacentral_2_ok]])

lemma jioindiawest_1_ok: "part_ok (''Dadsv5_Type1'') jioindiawest_1 (Standard ''D4s_v3'')"
  unfolding jioindiawest_1_def by (simp only: eval_part)

lemma jioindiawest_2_ok: "part_ok (Standard ''D4s_v3'') jioindiawest_2 (Standard ''E48a_v4'')"
  unfolding jioindiawest_2_def by (simp only: eval_part)

lemma jioindiawest_3_ok: "last_ok (Standard ''E48a_v4'') jioindiawest_3"
  unfolding jioindiawest_3_def by (simp only: eval_part)

lemma jioindiawest_ok: "table_ok jioindiawest"
  unfolding jioindiawest_def by (rule last_ok_table [OF part_join [OF jioindiawest_1_ok part_join [OF jioindiawest_2_ok jioindiawest_3_ok]]])

lemma koreacentral_1_ok: "part_ok (''Basic_A4'') koreacentral_1 (Standard ''E32-16ds_v5'')"
  unfolding koreacentral_1_def by (simp only: eval_part)

lemma koreacentral_2_ok: "last_ok (Standard ''E32-16ds_v5'') koreacentral_2"
  unfolding koreacentral_2_def by (simp only: eval_part)

lemma koreacentral_ok: "table_ok koreacentral"
  unfolding koreacentral_def by (rule last_ok_table [OF part_join [OF koreacentral_1_ok koreacentral_2_ok]])

lemma koreasouth_1_ok: "part_ok (''Basic_A4'') koreasouth_1 (Standard ''E20d_v4'')"
  unfolding koreasouth_1_def by (simp only: eval_part)

lemma koreasouth_2_ok: "last_ok (Standard ''E20d_v4'') koreasouth_2"
  unfolding koreasouth_2_def by (simp only: eval_part)

lemma koreasouth_ok: "table_ok koreasouth"
  unfolding koreasouth_def by (rule last_ok_table [OF part_join [OF koreasouth_1_ok koreasouth_2_ok]])

lemma northcentralus_1_ok: "part_ok (''Basic_A0'') northcentralus_1 (Standard ''D2'')"
  unfolding northcentralus_1_def by (simp only: eval_part)

lemma northcentralus_2_ok: "part_ok (Standard ''D2'') northcentralus_2 (Standard ''D96ads_v5'')"
  unfolding northcentralus_2_def by (simp only: eval_part)

lemma northcentralus_3_ok: "part_ok (Standard ''D96ads_v5'') northcentralus_3 (Standard ''E32-8s_v5'')"
  unfolding northcentralus_3_def by (simp only: eval_part)

lemma northcentralus_4_ok: "part_ok (Standard ''E32-8s_v5'') northcentralus_4 (Standard ''E96-48as_v4'')"
  unfolding northcentralus_4_def by (simp only: eval_part)

lemma northcentralus_5_ok: "last_ok (Standard ''E96-48as_v4'') northcentralus_5"
  unfolding northcentralus_5_def by (simp only: eval_part)

lemma northcentralus_ok: "table_ok northcentralus"
  unfolding northcentralus_def by (rule last_ok_table [OF part_join [OF northcentralus_1_ok part_join [OF northcentralus_2_ok part_join [OF northcentralus_3_ok part_join [OF northcentralus_4_ok northcentralus_5_ok]]]]])

lemma northeurope_1_ok: "part_ok (''Basic_A0'') northeurope_1 (Standard ''D16plds_v5'')"
  unfolding northeurope_1_def by (simp only: eval_part)

lemma northeurope_2_ok: "part_ok (Standard ''D16plds_v5'') northeurope_2 (Standard ''D8ps_v5'')"
  unfolding northeurope_2_def by (simp only: eval_part)

lemma northeurope_3_ok: "part_ok (Standard ''D8ps_v5'') northeurope_3 (Standard ''E16_v3'')"
  unfolding northeurope_3_def by (simp only: eval_part)

lemma northeurope_4_ok: "part_ok (Standard ''E16_v3'') northeurope_4 (Standard ''E64-32as_v5'')"
  unfolding northeurope_4_def by (simp only: eval_part)

lemma northeurope_5_ok: "part_ok (Standard ''E64-32as_v5'') northeurope_5 (Standard ''F1s'')"
  unfolding northeurope_5_def by (simp only: eval_part)

lemma northeurope_6_ok: "last_ok (Standard ''F1s'') northeurope_6"
  unfolding northeurope_6_def by (simp only: eval_part)

lemma northeurope_ok: "table_ok northeurope"
  unfolding northeurope_def by (rule last_ok_table [OF part_join [OF northeurope_1_ok part_join [OF northeurope_2_ok part_join [OF northeurope_3_ok part_join [OF northeurope_4_ok part_join [OF northeurope_5_ok northeurope_6_ok]]]]]])

end
