(* ===== verification/PriceLists4.thy ===== *)
theory PriceLists4
  imports PriceTables
begin

text \<open>
  The fourth part of the shipped price lists, \<open>pkg/providers/pricing/zz_generated.pricing.go\<close>: the regions
  norwayeast to southindia, in the order of the file, each in parts of at most 150 lines.
\<close>

subsection \<open>norwayeast\<close>

definition norwayeast_1 :: priceTable where
  "norwayeast_1 =
     [(''Dadsv5_Type1'', 9073000), (''Dasv4_Type1'', 7550000), (''Dasv4_Type2'', 7550000), (''Dasv5_Type1'', 7576000),
      (''Ddsv5_Type1'', 7899000), (''Dsv3_Type3'', 6042000), (''Dsv3_Type4'', 7552000), (''Dsv5_Type1'', 6958000),
      (''Eadsv5_Type1'', 9891000), (''Easv4_Type1'', 9514000), (''Easv4_Type2'', 9514000), (''Easv5_Type1'', 8532000),
      (''Ebdsv5-Type1'', 8406000), (''Ebsv5-Type1'', 7500000), (''Edsv5_Type1'', 10048000), (''Esv3_Type3'', 6145000),
      (''Esv3_Type4'', 8325000), (''Esv5_Type1'', 8828000), (''Fsv2 Type3'', 5398800), (''Fsv2_Type2'', 4225100),
      (''Fsv2_Type4'', 5867400), (''Lasv3_Type1'', 9816000), (''Lsv3_Type1'', 10980000), (''Mdsmv2MedMem _Type1'', 41983000),
      (''Mdsv2MedMem_Type1'', 20984000), (''Ms_Type1'', 20976000), (''Msm_Type1'', 41989000), (''Msmv2MedMem Type1'', 41321000),
      (''Msv2MedMem Type1'', 20322000), (''NVsv3_Type1'', 9718000), (Standard ''A1_v2'', 45100), (Standard ''A2_v2'', 95700),
      (Standard ''A2m_v2'', 136000), (Standard ''A4_v2'', 201000), (Standard ''A4m_v2'', 286000), (Standard ''A8_v2'', 421000),
      (Standard ''A8m_v2'', 601000), (Standard ''B12ms'', 634000), (Standard ''B16als_v2'', 747000), (Standard ''B16as_v2'', 834000),
      (Standard ''B16ls_v2'', 822000), (Standard ''B16ms'', 845000), (Standard ''B16s_v2'', 845000), (Standard ''B1ls'', 6600),
      (Standard ''B1ms'', 26400), (Standard ''B1s'', 13200), (Standard ''B20ms'', 1056000), (Standard ''B2als_v2'', 47500),
      (Standard ''B2as_v2'', 95000), (Standard ''B2ats_v2'', 21100), (Standard ''B2ls_v2'', 62000), (Standard ''B2ms'', 106000),
      (Standard ''B2s'', 52800), (Standard ''B2s_v2'', 106000), (Standard ''B2ts_v2'', 13200), (Standard ''B32als_v2'', 1494000),
      (Standard ''B32as_v2'', 1521000), (Standard ''B32ls_v2'', 1643000), (Standard ''B32s_v2'', 1837000), (Standard ''B4als_v2'', 187000),
      (Standard ''B4as_v2'', 208000), (Standard ''B4ls_v2'', 187000), (Standard ''B4ms'', 211000), (Standard ''B4s_v2'', 230000),
      (Standard ''B8als_v2'', 374000), (Standard ''B8as_v2'', 380000), (Standard ''B8ls_v2'', 411000), (Standard ''B8ms'', 422000),
      (Standard ''B8s_v2'', 459000), (Standard ''D11_v2'', 209000), (Standard ''D12_v2'', 417000), (Standard ''D13_v2'', 835000),
      (Standard ''D14_v2'', 1670000), (Standard ''D15_v2'', 2087000), (Standard ''D15i_v2'', 2087000), (Standard ''D16_v3'', 1056000),
      (Standard ''D16_v4'', 1012000), (Standard ''D16_v5'', 1012000), (Standard ''D16a_v4'', 1098000), (Standard ''D16ads_v5'', 1178000),
      (Standard ''D16as_v4'', 1098000), (Standard ''D16as_v5'', 984000), (Standard ''D16d_v4'', 1197000), (Standard ''D16d_v5'', 1197000),
      (Standard ''D16ds_v4'', 1197000), (Standard ''D16ds_v5'', 1197000), (Standard ''D16lds_v5'', 1098000),
      (Standard ''D16ls_v5'', 972000), (Standard ''D16s_v3'', 1056000), (Standard ''D16s_v4'', 1012000), (Standard ''D16s_v5'', 1012000),
      (Standard ''D1_v2'', 74700), (Standard ''D2_v2'', 150000), (Standard ''D2_v3'', 132000), (Standard ''D2_v4'', 126000),
      (Standard ''D2_v5'', 127000), (Standard ''D2a_v4'', 137000), (Standard ''D2ads_v5'', 147000), (Standard ''D2as_v4'', 137000),
      (Standard ''D2as_v5'', 123000), (Standard ''D2d_v4'', 150000), (Standard ''D2d_v5'', 150000), (Standard ''D2ds_v4'', 150000),
      (Standard ''D2ds_v5'', 150000), (Standard ''D2lds_v5'', 137000), (Standard ''D2ls_v5'', 122000), (Standard ''D2s_v3'', 132000),
      (Standard ''D2s_v4'', 126000), (Standard ''D2s_v5'', 127000), (Standard ''D32-16s_v3'', 2112000), (Standard ''D32-8s_v3'', 2112000),
      (Standard ''D32_v3'', 2112000), (Standard ''D32_v4'', 2024000), (Standard ''D32_v5'', 2024000), (Standard ''D32a_v4'', 2196000),
      (Standard ''D32ads_v5'', 2357000), (Standard ''D32as_v4'', 2196000), (Standard ''D32as_v5'', 1968000),
      (Standard ''D32d_v4'', 2394000), (Standard ''D32d_v5'', 2394000), (Standard ''D32ds_v4'', 2394000), (Standard ''D32ds_v5'', 2394000),
      (Standard ''D32lds_v5'', 2196000), (Standard ''D32ls_v5'', 1945000), (Standard ''D32s_v3'', 2112000),
      (Standard ''D32s_v4'', 2024000), (Standard ''D32s_v5'', 2024000), (Standard ''D3_v2'', 299000), (Standard ''D48_v3'', 3168000),
      (Standard ''D48_v4'', 3036000), (Standard ''D48_v5'', 3036000), (Standard ''D48a_v4'', 3295000), (Standard ''D48ads_v5'', 3535000)]"

definition norwayeast_2 :: priceTable where
  "norwayeast_2 =
     [(Standard ''D48as_v4'', 3295000), (Standard ''D48as_v5'', 2952000), (Standard ''D48d_v4'', 3590000), (Standard ''D48d_v5'', 3590000),
      (Standard ''D48ds_v4'', 3590000), (Standard ''D48ds_v5'', 3590000), (Standard ''D48lds_v5'', 3295000),
      (Standard ''D48ls_v5'', 2917000), (Standard ''D48s_v3'', 3168000), (Standard ''D48s_v4'', 3036000), (Standard ''D48s_v5'', 3036000),
      (Standard ''D4_v2'', 598000), (Standard ''D4_v3'', 264000), (Standard ''D4_v4'', 253000), (Standard ''D4_v5'', 253000),
      (Standard ''D4a_v4'', 275000), (Standard ''D4ads_v5'', 295000), (Standard ''D4as_v4'', 275000), (Standard ''D4as_v5'', 246000),
      (Standard ''D4d_v4'', 299000), (Standard ''D4d_v5'', 299000), (Standard ''D4ds_v4'', 299000), (Standard ''D4ds_v5'', 299000),
      (Standard ''D4lds_v5'', 275000), (Standard ''D4ls_v5'', 243000), (Standard ''D4s_v3'', 264000), (Standard ''D4s_v4'', 253000),
      (Standard ''D4s_v5'', 253000), (Standard ''D5_v2'', 1196000), (Standard ''D64-16s_v3'', 4224000), (Standard ''D64-32s_v3'', 4224000),
      (Standard ''D64_v3'', 4224000), (Standard ''D64_v4'', 4048000), (Standard ''D64_v5'', 4048000), (Standard ''D64a_v4'', 4393000),
      (Standard ''D64ads_v5'', 4713000), (Standard ''D64as_v4'', 4393000), (Standard ''D64as_v5'', 3935000),
      (Standard ''D64d_v4'', 4787000), (Standard ''D64d_v5'', 4787000), (Standard ''D64ds_v4'', 4787000), (Standard ''D64ds_v5'', 4787000),
      (Standard ''D64lds_v5'', 4393000), (Standard ''D64ls_v5'', 3890000), (Standard ''D64s_v3'', 4224000),
      (Standard ''D64s_v4'', 4048000), (Standard ''D64s_v5'', 4048000), (Standard ''D8_v3'', 528000), (Standard ''D8_v4'', 506000),
      (Standard ''D8_v5'', 506000), (Standard ''D8a_v4'', 549000), (Standard ''D8ads_v5'', 589000), (Standard ''D8as_v4'', 549000),
      (Standard ''D8as_v5'', 492000), (Standard ''D8d_v4'', 598000), (Standard ''D8d_v5'', 598000), (Standard ''D8ds_v4'', 598000),
      (Standard ''D8ds_v5'', 598000), (Standard ''D8lds_v5'', 549000), (Standard ''D8ls_v5'', 486000), (Standard ''D8s_v3'', 528000),
      (Standard ''D8s_v4'', 506000), (Standard ''D8s_v5'', 506000), (Standard ''D96_v5'', 6072000), (Standard ''D96a_v4'', 6589000),
      (Standard ''D96ads_v5'', 7070000), (Standard ''D96as_v4'', 6589000), (Standard ''D96as_v5'', 5903000),
      (Standard ''D96d_v5'', 7181000), (Standard ''D96ds_v5'', 7181000), (Standard ''D96lds_v5'', 6589000),
      (Standard ''D96ls_v5'', 5834000), (Standard ''D96s_v5'', 6072000), (Standard ''DS11-1_v2'', 209000), (Standard ''DS11_v2'', 209000),
      (Standard ''DS12-1_v2'', 417000), (Standard ''DS12-2_v2'', 417000), (Standard ''DS12_v2'', 417000), (Standard ''DS13-2_v2'', 835000),
      (Standard ''DS13-4_v2'', 835000), (Standard ''DS13_v2'', 835000), (Standard ''DS14-4_v2'', 1670000),
      (Standard ''DS14-8_v2'', 1670000), (Standard ''DS14_v2'', 1670000), (Standard ''DS15_v2'', 2087000),
      (Standard ''DS15i_v2'', 2087000), (Standard ''DS1_v2'', 74700), (Standard ''DS2_v2'', 150000), (Standard ''DS3_v2'', 299000),
      (Standard ''DS4_v2'', 598000), (Standard ''DS5_v2'', 1196000), (Standard ''E104i_v5'', 9564000), (Standard ''E104id_v5'', 10885000),
      (Standard ''E104ids_v5'', 10885000), (Standard ''E104is_v5'', 9564000), (Standard ''E112iads_v5'', 11540000),
      (Standard ''E112ias_v5'', 9954000), (Standard ''E112ibds_v5'', 14711000), (Standard ''E112ibs_v5'', 13125000),
      (Standard ''E16-4ads_v5'', 1499000), (Standard ''E16-4as_v4'', 1441000), (Standard ''E16-4as_v5'', 1293000),
      (Standard ''E16-4ds_v4'', 1522000), (Standard ''E16-4ds_v5'', 1522000), (Standard ''E16-4s_v3'', 1408000),
      (Standard ''E16-4s_v4'', 1338000), (Standard ''E16-4s_v5'', 1338000), (Standard ''E16-8ads_v5'', 1499000),
      (Standard ''E16-8as_v4'', 1441000), (Standard ''E16-8as_v5'', 1293000), (Standard ''E16-8ds_v4'', 1522000),
      (Standard ''E16-8ds_v5'', 1522000), (Standard ''E16-8s_v3'', 1408000), (Standard ''E16-8s_v4'', 1338000),
      (Standard ''E16-8s_v5'', 1338000), (Standard ''E16_v3'', 1408000), (Standard ''E16_v4'', 1338000), (Standard ''E16_v5'', 1338000),
      (Standard ''E16a_v4'', 1441000), (Standard ''E16ads_v5'', 1499000), (Standard ''E16as_v4'', 1441000),
      (Standard ''E16as_v5'', 1293000), (Standard ''E16bds_v5'', 1910000), (Standard ''E16bs_v5'', 1705000),
      (Standard ''E16d_v4'', 1522000), (Standard ''E16d_v5'', 1522000), (Standard ''E16ds_v4'', 1522000), (Standard ''E16ds_v5'', 1522000),
      (Standard ''E16s_v3'', 1408000), (Standard ''E16s_v4'', 1338000), (Standard ''E16s_v5'', 1338000), (Standard ''E20_v3'', 1760000),
      (Standard ''E20_v4'', 1672000)]"

definition norwayeast_3 :: priceTable where
  "norwayeast_3 =
     [(Standard ''E20_v5'', 1672000), (Standard ''E20a_v4'', 1802000), (Standard ''E20ads_v5'', 1873000), (Standard ''E20as_v4'', 1802000),
      (Standard ''E20as_v5'', 1616000), (Standard ''E20d_v4'', 1903000), (Standard ''E20d_v5'', 1903000), (Standard ''E20ds_v4'', 1903000),
      (Standard ''E20ds_v5'', 1903000), (Standard ''E20s_v3'', 1760000), (Standard ''E20s_v4'', 1672000), (Standard ''E20s_v5'', 1672000),
      (Standard ''E2_v3'', 176000), (Standard ''E2_v4'', 167000), (Standard ''E2_v5'', 167000), (Standard ''E2a_v4'', 180000),
      (Standard ''E2ads_v5'', 187000), (Standard ''E2as_v4'', 180000), (Standard ''E2as_v5'', 162000), (Standard ''E2bds_v5'', 239000),
      (Standard ''E2bs_v5'', 213000), (Standard ''E2d_v4'', 190000), (Standard ''E2d_v5'', 190000), (Standard ''E2ds_v4'', 190000),
      (Standard ''E2ds_v5'', 190000), (Standard ''E2s_v3'', 176000), (Standard ''E2s_v4'', 167000), (Standard ''E2s_v5'', 167000),
      (Standard ''E32-16ads_v5'', 2997000), (Standard ''E32-16as_v4'', 2883000), (Standard ''E32-16as_v5'', 2585000),
      (Standard ''E32-16ds_v4'', 3045000), (Standard ''E32-16ds_v5'', 3045000), (Standard ''E32-16s_v3'', 2816000),
      (Standard ''E32-16s_v4'', 2675000), (Standard ''E32-16s_v5'', 2675000), (Standard ''E32-8ads_v5'', 2997000),
      (Standard ''E32-8as_v4'', 2883000), (Standard ''E32-8as_v5'', 2585000), (Standard ''E32-8ds_v4'', 3045000),
      (Standard ''E32-8ds_v5'', 3045000), (Standard ''E32-8s_v3'', 2816000), (Standard ''E32-8s_v4'', 2675000),
      (Standard ''E32-8s_v5'', 2675000), (Standard ''E32_v3'', 2816000), (Standard ''E32_v4'', 2675000), (Standard ''E32_v5'', 2675000),
      (Standard ''E32a_v4'', 2883000), (Standard ''E32ads_v5'', 2997000), (Standard ''E32as_v4'', 2883000),
      (Standard ''E32as_v5'', 2585000), (Standard ''E32bds_v5'', 3821000), (Standard ''E32bs_v5'', 3409000),
      (Standard ''E32d_v4'', 3045000), (Standard ''E32d_v5'', 3045000), (Standard ''E32ds_v4'', 3045000), (Standard ''E32ds_v5'', 3045000),
      (Standard ''E32s_v3'', 2816000), (Standard ''E32s_v4'', 2675000), (Standard ''E32s_v5'', 2675000), (Standard ''E4-2ads_v5'', 375000),
      (Standard ''E4-2as_v4'', 360000), (Standard ''E4-2as_v5'', 323000), (Standard ''E4-2ds_v4'', 381000),
      (Standard ''E4-2ds_v5'', 381000), (Standard ''E4-2s_v3'', 352000), (Standard ''E4-2s_v4'', 334000), (Standard ''E4-2s_v5'', 334000),
      (Standard ''E48_v3'', 4012000), (Standard ''E48_v4'', 4013000), (Standard ''E48_v5'', 4013000), (Standard ''E48a_v4'', 4324000),
      (Standard ''E48ads_v5'', 4496000), (Standard ''E48as_v4'', 4324000), (Standard ''E48as_v5'', 3878000),
      (Standard ''E48bds_v5'', 5731000), (Standard ''E48bs_v5'', 5114000), (Standard ''E48d_v4'', 4567000),
      (Standard ''E48d_v5'', 4567000), (Standard ''E48ds_v4'', 4567000), (Standard ''E48ds_v5'', 4567000), (Standard ''E48s_v3'', 4012000),
      (Standard ''E48s_v4'', 4013000), (Standard ''E48s_v5'', 4013000), (Standard ''E4_v3'', 352000), (Standard ''E4_v4'', 334000),
      (Standard ''E4_v5'', 334000), (Standard ''E4a_v4'', 360000), (Standard ''E4ads_v5'', 375000), (Standard ''E4as_v4'', 360000),
      (Standard ''E4as_v5'', 323000), (Standard ''E4bds_v5'', 478000), (Standard ''E4bs_v5'', 426000), (Standard ''E4d_v4'', 381000),
      (Standard ''E4d_v5'', 381000), (Standard ''E4ds_v4'', 381000), (Standard ''E4ds_v5'', 381000), (Standard ''E4s_v3'', 352000),
      (Standard ''E4s_v4'', 334000), (Standard ''E4s_v5'', 334000), (Standard ''E64-16ads_v5'', 5995000),
      (Standard ''E64-16as_v4'', 5766000), (Standard ''E64-16as_v5'', 5171000), (Standard ''E64-16ds_v4'', 6090000),
      (Standard ''E64-16ds_v5'', 6090000), (Standard ''E64-16s_v3'', 4814000), (Standard ''E64-16s_v4'', 5350000),
      (Standard ''E64-16s_v5'', 5350000), (Standard ''E64-32ads_v5'', 5995000), (Standard ''E64-32as_v4'', 5766000),
      (Standard ''E64-32as_v5'', 5171000), (Standard ''E64-32ds_v4'', 6090000), (Standard ''E64-32ds_v5'', 6090000),
      (Standard ''E64-32s_v3'', 4814000), (Standard ''E64-32s_v4'', 5350000), (Standard ''E64-32s_v5'', 5350000),
      (Standard ''E64_v3'', 4814000), (Standard ''E64_v4'', 5350000), (Standard ''E64_v5'', 5350000), (Standard ''E64a_v4'', 5766000),
      (Standard ''E64ads_v5'', 5995000), (Standard ''E64as_v4'', 5766000), (Standard ''E64as_v5'', 5171000),
      (Standard ''E64bds_v5'', 7642000), (Standard ''E64bs_v5'', 6818000), (Standard ''E64d_v4'', 6090000),
      (Standard ''E64d_v5'', 6090000), (Standard ''E64ds_v4'', 6090000), (Standard ''E64ds_v5'', 6090000), (Standard ''E64i_v3'', 4814000),
      (Standard ''E64is_v3'', 4814000), (Standard ''E64s_v3'', 4814000), (Standard ''E64s_v4'', 5350000)]"

definition norwayeast_4 :: priceTable where
  "norwayeast_4 =
     [(Standard ''E64s_v5'', 5350000), (Standard ''E8-2ads_v5'', 749000), (Standard ''E8-2as_v4'', 721000),
      (Standard ''E8-2as_v5'', 646000), (Standard ''E8-2ds_v4'', 761000), (Standard ''E8-2ds_v5'', 761000),
      (Standard ''E8-2s_v3'', 704000), (Standard ''E8-2s_v4'', 669000), (Standard ''E8-2s_v5'', 669000), (Standard ''E8-4ads_v5'', 749000),
      (Standard ''E8-4as_v4'', 721000), (Standard ''E8-4as_v5'', 646000), (Standard ''E8-4ds_v4'', 761000),
      (Standard ''E8-4ds_v5'', 761000), (Standard ''E8-4s_v3'', 704000), (Standard ''E8-4s_v4'', 669000), (Standard ''E8-4s_v5'', 669000),
      (Standard ''E80ids_v4'', 7612000), (Standard ''E80is_v4'', 6688000), (Standard ''E8_v3'', 704000), (Standard ''E8_v4'', 669000),
      (Standard ''E8_v5'', 669000), (Standard ''E8a_v4'', 721000), (Standard ''E8ads_v5'', 749000), (Standard ''E8as_v4'', 721000),
      (Standard ''E8as_v5'', 646000), (Standard ''E8bds_v5'', 955000), (Standard ''E8bs_v5'', 852000), (Standard ''E8d_v4'', 761000),
      (Standard ''E8d_v5'', 761000), (Standard ''E8ds_v4'', 761000), (Standard ''E8ds_v5'', 761000), (Standard ''E8s_v3'', 704000),
      (Standard ''E8s_v4'', 669000), (Standard ''E8s_v5'', 669000), (Standard ''E96-24ads_v5'', 8992000),
      (Standard ''E96-24as_v4'', 8649000), (Standard ''E96-24as_v5'', 7756000), (Standard ''E96-24ds_v5'', 9134000),
      (Standard ''E96-24s_v5'', 8026000), (Standard ''E96-48ads_v5'', 8992000), (Standard ''E96-48as_v4'', 8649000),
      (Standard ''E96-48as_v5'', 7756000), (Standard ''E96-48ds_v5'', 9134000), (Standard ''E96-48s_v5'', 8026000),
      (Standard ''E96_v5'', 8026000), (Standard ''E96a_v4'', 8649000), (Standard ''E96ads_v5'', 8992000), (Standard ''E96as_v4'', 8649000),
      (Standard ''E96as_v5'', 7756000), (Standard ''E96bds_v5'', 11463000), (Standard ''E96bs_v5'', 10227000),
      (Standard ''E96d_v5'', 9134000), (Standard ''E96ds_v5'', 9134000), (Standard ''E96iads_v5'', 9891000),
      (Standard ''E96ias_v4'', 8649000), (Standard ''E96ias_v5'', 8532000), (Standard ''E96s_v5'', 8026000), (Standard ''F1'', 62500),
      (Standard ''F16'', 1000000), (Standard ''F16s'', 1000000), (Standard ''F16s_v2'', 854000), (Standard ''F1s'', 62500),
      (Standard ''F2'', 125000), (Standard ''F2s'', 125000), (Standard ''F2s_v2'', 107000), (Standard ''F32s_v2'', 1709000),
      (Standard ''F4'', 250000), (Standard ''F48s_v2'', 2563000), (Standard ''F4s'', 250000), (Standard ''F4s_v2'', 214000),
      (Standard ''F64s_v2'', 3418000), (Standard ''F72s_v2'', 3845000), (Standard ''F8'', 499000), (Standard ''F8s'', 499000),
      (Standard ''F8s_v2'', 427000), (Standard ''L16as_v3'', 1785000), (Standard ''L16s_v3'', 1996000), (Standard ''L32as_v3'', 3569000),
      (Standard ''L32s_v3'', 3993000), (Standard ''L48as_v3'', 5354000), (Standard ''L48s_v3'', 5989000), (Standard ''L64as_v3'', 7139000),
      (Standard ''L64s_v3'', 7985000), (Standard ''L80as_v3'', 8923000), (Standard ''L80s_v3'', 9981000), (Standard ''L8as_v3'', 892000),
      (Standard ''L8s_v3'', 998000), (Standard ''M128'', 19073000), (Standard ''M128-32ms'', 38164000), (Standard ''M128-64ms'', 38164000),
      (Standard ''M128dms_v2'', 38167000), (Standard ''M128ds_v2'', 19076000), (Standard ''M128m'', 38164000),
      (Standard ''M128ms'', 38164000), (Standard ''M128ms_v2'', 37565000), (Standard ''M128s'', 19073000),
      (Standard ''M128s_v2'', 18474000), (Standard ''M16-4ms'', 4394000), (Standard ''M16-8ms'', 4394000), (Standard ''M16ms'', 4394000),
      (Standard ''M16s'', 3413000), (Standard ''M192idms_v2'', 45851000), (Standard ''M192ids_v2'', 22925000),
      (Standard ''M192ims_v2'', 45249000), (Standard ''M192is_v2'', 22324000), (Standard ''M32-16ms'', 8789000),
      (Standard ''M32-8ms'', 8789000), (Standard ''M32dms_v2'', 8789000), (Standard ''M32ls'', 4108000), (Standard ''M32ms'', 8789000),
      (Standard ''M32ms_v2'', 8638000), (Standard ''M32s'', 6827000), (Standard ''M32ts'', 3871000), (Standard ''M64'', 9537000),
      (Standard ''M64-16ms'', 19082000), (Standard ''M64-32ms'', 19082000), (Standard ''M64dms_v2'', 14786000),
      (Standard ''M64ds_v2'', 9537000), (Standard ''M64ls'', 8217000), (Standard ''M64m'', 19082000), (Standard ''M64ms'', 19082000),
      (Standard ''M64ms_v2'', 14485000), (Standard ''M64s'', 9537000), (Standard ''M64s_v2'', 9236000), (Standard ''M8-2ms'', 2197000),
      (Standard ''M8-4ms'', 2197000), (Standard ''M8ms'', 2197000), (Standard ''ND96ams_A100_v4'', 46861000),
      (Standard ''ND96amsr_A100_v4'', 46861000), (Standard ''NV12s_v3'', 1568000), (Standard ''NV24s_v3'', 3135000),
      (Standard ''NV48s_v3'', 6270000)]"

definition norwayeast :: priceTable where
  "norwayeast = norwayeast_1 @ norwayeast_2 @ norwayeast_3 @ norwayeast_4"

subsection \<open>norwaywest\<close>

definition norwaywest_1 :: priceTable where
  "norwaywest_1 =
     [(''Dasv4_Type2'', 9816000), (''Ddsv4_Type 1'', 6846000), (''Ddsv5_Type1'', 10269000), (''Dsv3_Type3'', 7858000),
      (''Dsv3_Type4'', 9823000), (''Dsv5_Type1'', 9045000), (''Easv4_Type1'', 12368000), (''Easv4_Type2'', 12368000),
      (''Easv5_Type1'', 11092000), (''Ebdsv5-Type1'', 10928000), (''Edsv5_Type1'', 13062000), (''Esv3_Type3'', 7992000),
      (''Esv4_Type1'', 7651000), (''Esv5_Type1'', 11477000), (''Fsv2_Type2'', 8343000), (''Lasv3_Type1'', 12760000),
      (''Lsv3_Type1'', 14273000), (''Mdsmv2MedMem _Type1'', 54608000), (''Mdsv2MedMem_Type1'', 27294000),
      (''Msmv2MedMem Type1'', 53747000), (''Msv2MedMem Type1'', 26433000), (Standard ''A2_v2'', 124000), (Standard ''A2m_v2'', 177000),
      (Standard ''A4m_v2'', 372000), (Standard ''A8_v2'', 548000), (Standard ''A8m_v2'', 781000), (Standard ''B16als_v2'', 949000),
      (Standard ''B16as_v2'', 1062000), (Standard ''B16ls_v2'', 973000), (Standard ''B16ms'', 1098000), (Standard ''B16s_v2'', 1172000),
      (Standard ''B1ls'', 8580), (Standard ''B1ms'', 34300), (Standard ''B20ms'', 1373000), (Standard ''B2as_v2'', 133000),
      (Standard ''B2ats_v2'', 15400), (Standard ''B2ls_v2'', 68600), (Standard ''B2s_v2'', 146000), (Standard ''B32als_v2'', 1898000),
      (Standard ''B32as_v2'', 2124000), (Standard ''B32s_v2'', 2196000), (Standard ''B4als_v2'', 237000), (Standard ''B4as_v2'', 266000),
      (Standard ''B4ls_v2'', 262000), (Standard ''B4ms'', 275000), (Standard ''B4s_v2'', 275000), (Standard ''B8as_v2'', 494000),
      (Standard ''B8ls_v2'', 523000), (Standard ''B8ms'', 549000), (Standard ''B8s_v2'', 549000), (Standard ''D13_v2'', 1085000),
      (Standard ''D14_v2'', 2171000), (Standard ''D15_v2'', 2713000), (Standard ''D15i_v2'', 2713000), (Standard ''D16_v3'', 1373000),
      (Standard ''D16_v4'', 1316000), (Standard ''D16_v5'', 1316000), (Standard ''D16a_v4'', 1428000), (Standard ''D16as_v4'', 1428000),
      (Standard ''D16d_v4'', 1556000), (Standard ''D16d_v5'', 1556000), (Standard ''D16ds_v4'', 1556000), (Standard ''D16ds_v5'', 1556000),
      (Standard ''D16lds_v5'', 1428000), (Standard ''D16s_v3'', 1373000), (Standard ''D16s_v4'', 1316000), (Standard ''D16s_v5'', 1316000),
      (Standard ''D1_v2'', 97100), (Standard ''D2_v2'', 194000), (Standard ''D2_v3'', 172000), (Standard ''D2_v4'', 164000),
      (Standard ''D2a_v4'', 178000), (Standard ''D2as_v4'', 178000), (Standard ''D2as_v5'', 160000), (Standard ''D2d_v4'', 194000),
      (Standard ''D2d_v5'', 194000), (Standard ''D2ds_v4'', 194000), (Standard ''D2ds_v5'', 194000), (Standard ''D2lds_v5'', 178000),
      (Standard ''D2s_v3'', 172000), (Standard ''D32-16s_v3'', 2746000), (Standard ''D32-8s_v3'', 2746000), (Standard ''D32_v3'', 2746000),
      (Standard ''D32_v5'', 2631000), (Standard ''D32a_v4'', 2855000), (Standard ''D32ads_v5'', 3064000), (Standard ''D32as_v5'', 2558000),
      (Standard ''D32d_v4'', 3112000), (Standard ''D32ds_v5'', 3112000), (Standard ''D32ls_v5'', 2528000), (Standard ''D32s_v3'', 2746000),
      (Standard ''D32s_v5'', 2631000), (Standard ''D48_v3'', 4118000), (Standard ''D48_v4'', 3947000), (Standard ''D48_v5'', 3947000),
      (Standard ''D48a_v4'', 4283000), (Standard ''D48as_v5'', 3837000), (Standard ''D48d_v5'', 4668000), (Standard ''D48ds_v4'', 4668000),
      (Standard ''D48ls_v5'', 3792000), (Standard ''D48s_v3'', 4118000), (Standard ''D4_v2'', 778000), (Standard ''D4_v3'', 343000),
      (Standard ''D4_v4'', 329000), (Standard ''D4a_v4'', 357000), (Standard ''D4ads_v5'', 383000), (Standard ''D4as_v4'', 357000),
      (Standard ''D4as_v5'', 320000), (Standard ''D4d_v4'', 389000), (Standard ''D4ds_v4'', 389000), (Standard ''D4ds_v5'', 389000),
      (Standard ''D4lds_v5'', 357000), (Standard ''D4ls_v5'', 316000), (Standard ''D4s_v3'', 343000), (Standard ''D4s_v4'', 329000),
      (Standard ''D4s_v5'', 329000), (Standard ''D64-16s_v3'', 5491000), (Standard ''D64_v4'', 5262000), (Standard ''D64_v5'', 5262000),
      (Standard ''D64a_v4'', 5711000)]"

definition norwaywest_2 :: priceTable where
  "norwaywest_2 =
     [(Standard ''D64d_v5'', 6223000), (Standard ''D64ds_v4'', 6223000), (Standard ''D64s_v3'', 5491000), (Standard ''D64s_v5'', 5262000),
      (Standard ''D8a_v4'', 714000), (Standard ''D8ads_v5'', 766000), (Standard ''D8as_v4'', 714000), (Standard ''D8as_v5'', 639000),
      (Standard ''D8d_v4'', 778000), (Standard ''D8d_v5'', 778000), (Standard ''D8ds_v5'', 778000), (Standard ''D8ls_v5'', 632000),
      (Standard ''D8s_v3'', 686000), (Standard ''D8s_v4'', 658000), (Standard ''D8s_v5'', 658000), (Standard ''D96_v5'', 7894000),
      (Standard ''D96a_v4'', 8566000), (Standard ''D96ads_v5'', 9191000), (Standard ''D96as_v4'', 8566000),
      (Standard ''D96as_v5'', 7674000), (Standard ''D96d_v5'', 9335000), (Standard ''D96ds_v5'', 9335000),
      (Standard ''D96lds_v5'', 8566000), (Standard ''D96s_v5'', 7894000), (Standard ''DS11-1_v2'', 272000), (Standard ''DS11_v2'', 272000),
      (Standard ''DS12-1_v2'', 542000), (Standard ''DS13-2_v2'', 1085000), (Standard ''DS13-4_v2'', 1085000),
      (Standard ''DS14-4_v2'', 2171000), (Standard ''DS14-8_v2'', 2171000), (Standard ''DS14_v2'', 2171000),
      (Standard ''DS15_v2'', 2713000), (Standard ''DS15i_v2'', 2713000), (Standard ''DS1_v2'', 97100), (Standard ''DS3_v2'', 389000),
      (Standard ''DS5_v2'', 1554000), (Standard ''E104i_v5'', 12433000), (Standard ''E104ids_v5'', 14151000),
      (Standard ''E112iads_v5'', 15001000), (Standard ''E112ias_v5'', 12940000), (Standard ''E112ibs_v5'', 17063000),
      (Standard ''E16-4ds_v5'', 1979000), (Standard ''E16-4s_v4'', 1739000), (Standard ''E16-4s_v5'', 1739000),
      (Standard ''E16-8ads_v5'', 1948000), (Standard ''E16-8as_v4'', 1874000), (Standard ''E16-8as_v5'', 1681000),
      (Standard ''E16-8ds_v5'', 1979000), (Standard ''E16-8s_v3'', 1830000), (Standard ''E16-8s_v4'', 1739000),
      (Standard ''E16-8s_v5'', 1739000), (Standard ''E16_v3'', 1830000), (Standard ''E16_v5'', 1739000), (Standard ''E16a_v4'', 1874000),
      (Standard ''E16ads_v5'', 1948000), (Standard ''E16as_v4'', 1874000), (Standard ''E16as_v5'', 1681000),
      (Standard ''E16bs_v5'', 2216000), (Standard ''E16d_v4'', 1979000), (Standard ''E16d_v5'', 1979000), (Standard ''E16ds_v5'', 1979000),
      (Standard ''E16s_v3'', 1830000), (Standard ''E16s_v4'', 1739000), (Standard ''E20_v3'', 2288000), (Standard ''E20_v4'', 2174000),
      (Standard ''E20_v5'', 2174000), (Standard ''E20a_v4'', 2342000), (Standard ''E20ads_v5'', 2435000), (Standard ''E20as_v5'', 2101000),
      (Standard ''E20d_v4'', 2474000), (Standard ''E20d_v5'', 2474000), (Standard ''E20ds_v4'', 2474000), (Standard ''E20s_v3'', 2288000),
      (Standard ''E20s_v4'', 2174000), (Standard ''E2_v3'', 229000), (Standard ''E2_v4'', 217000), (Standard ''E2_v5'', 217000),
      (Standard ''E2as_v4'', 234000), (Standard ''E2bds_v5'', 310000), (Standard ''E2ds_v4'', 247000), (Standard ''E2s_v3'', 229000),
      (Standard ''E2s_v4'', 217000), (Standard ''E2s_v5'', 217000), (Standard ''E32-16ads_v5'', 3896000),
      (Standard ''E32-16as_v4'', 3748000), (Standard ''E32-16ds_v4'', 3958000), (Standard ''E32-8ads_v5'', 3896000),
      (Standard ''E32-8as_v4'', 3748000), (Standard ''E32-8as_v5'', 3361000), (Standard ''E32-8s_v4'', 3478000),
      (Standard ''E32-8s_v5'', 3478000), (Standard ''E32_v3'', 3661000), (Standard ''E32_v4'', 3478000), (Standard ''E32_v5'', 3478000),
      (Standard ''E32a_v4'', 3748000), (Standard ''E32ads_v5'', 3896000), (Standard ''E32as_v5'', 3361000),
      (Standard ''E32bs_v5'', 4432000), (Standard ''E32d_v4'', 3958000), (Standard ''E32d_v5'', 3958000), (Standard ''E32ds_v5'', 3958000),
      (Standard ''E32s_v3'', 3661000), (Standard ''E4-2ds_v4'', 495000), (Standard ''E4-2ds_v5'', 495000), (Standard ''E4-2s_v4'', 435000),
      (Standard ''E4-2s_v5'', 435000), (Standard ''E48_v3'', 5215000), (Standard ''E48_v4'', 5217000), (Standard ''E48a_v4'', 5622000),
      (Standard ''E48as_v5'', 5042000), (Standard ''E48bds_v5'', 7451000), (Standard ''E48bs_v5'', 6648000),
      (Standard ''E48d_v4'', 5937000), (Standard ''E48d_v5'', 5937000), (Standard ''E48ds_v4'', 5937000), (Standard ''E48ds_v5'', 5937000),
      (Standard ''E4_v4'', 435000), (Standard ''E4a_v4'', 468000), (Standard ''E4ads_v5'', 487000)]"

definition norwaywest_3 :: priceTable where
  "norwaywest_3 =
     [(Standard ''E4as_v4'', 468000), (Standard ''E4as_v5'', 420000), (Standard ''E4bds_v5'', 621000), (Standard ''E4bs_v5'', 554000),
      (Standard ''E4d_v5'', 495000), (Standard ''E4ds_v4'', 495000), (Standard ''E4s_v4'', 435000), (Standard ''E4s_v5'', 435000),
      (Standard ''E64-16as_v5'', 6722000), (Standard ''E64-16ds_v5'', 7916000), (Standard ''E64-16s_v3'', 6258000),
      (Standard ''E64-16s_v5'', 6956000), (Standard ''E64-32ads_v5'', 7793000), (Standard ''E64-32as_v5'', 6722000),
      (Standard ''E64-32ds_v5'', 7916000), (Standard ''E64-32s_v4'', 6956000), (Standard ''E64-32s_v5'', 6956000),
      (Standard ''E64_v4'', 6956000), (Standard ''E64a_v4'', 7495000), (Standard ''E64ads_v5'', 7793000), (Standard ''E64as_v4'', 7495000),
      (Standard ''E64as_v5'', 6722000), (Standard ''E64bs_v5'', 8864000), (Standard ''E64d_v4'', 7916000), (Standard ''E64d_v5'', 7916000),
      (Standard ''E64ds_v4'', 7916000), (Standard ''E64ds_v5'', 7916000), (Standard ''E64i_v3'', 6258000), (Standard ''E64s_v3'', 6258000),
      (Standard ''E64s_v4'', 6956000), (Standard ''E64s_v5'', 6956000), (Standard ''E8-2as_v4'', 937000), (Standard ''E8-2as_v5'', 840000),
      (Standard ''E8-2ds_v4'', 990000), (Standard ''E8-2s_v3'', 915000), (Standard ''E8-2s_v5'', 869000),
      (Standard ''E8-4ads_v5'', 974000), (Standard ''E8-4as_v4'', 937000), (Standard ''E8-4as_v5'', 840000),
      (Standard ''E8-4ds_v4'', 990000), (Standard ''E8-4s_v4'', 869000), (Standard ''E8-4s_v5'', 869000),
      (Standard ''E80ids_v4'', 9896000), (Standard ''E8_v3'', 915000), (Standard ''E8a_v4'', 937000), (Standard ''E8ads_v5'', 974000),
      (Standard ''E8as_v4'', 937000), (Standard ''E8as_v5'', 840000), (Standard ''E8bs_v5'', 1108000), (Standard ''E8d_v4'', 990000),
      (Standard ''E8d_v5'', 990000), (Standard ''E8ds_v4'', 990000), (Standard ''E8ds_v5'', 990000), (Standard ''E8s_v3'', 915000),
      (Standard ''E8s_v4'', 869000), (Standard ''E8s_v5'', 869000), (Standard ''E96-24as_v4'', 11243000),
      (Standard ''E96-48ads_v5'', 11689000), (Standard ''E96-48as_v5'', 10083000), (Standard ''E96-48s_v5'', 10433000),
      (Standard ''E96_v5'', 10433000), (Standard ''E96a_v4'', 11243000), (Standard ''E96as_v4'', 11243000),
      (Standard ''E96as_v5'', 10083000), (Standard ''E96bs_v5'', 13296000), (Standard ''E96ds_v5'', 11875000),
      (Standard ''E96iads_v5'', 12858000), (Standard ''E96ias_v4'', 11243000), (Standard ''E96ias_v5'', 11092000),
      (Standard ''E96s_v5'', 10433000), (Standard ''F1'', 81200), (Standard ''F16'', 1300000), (Standard ''F16s'', 1300000),
      (Standard ''F16s_v2'', 1264000), (Standard ''F1s'', 81200), (Standard ''F2'', 163000), (Standard ''F2s'', 163000),
      (Standard ''F4s_v2'', 316000), (Standard ''F64s_v2'', 5057000), (Standard ''F8'', 649000), (Standard ''F8s'', 649000),
      (Standard ''F8s_v2'', 632000), (Standard ''L16as_v3'', 2320000), (Standard ''L32as_v3'', 4640000), (Standard ''L32s_v3'', 5190000),
      (Standard ''L48s_v3'', 7786000), (Standard ''L64s_v3'', 10381000), (Standard ''L80s_v3'', 12976000), (Standard ''L8s_v3'', 1298000),
      (Standard ''M128'', 24809000), (Standard ''M128-64ms'', 49640000), (Standard ''M128dms_v2'', 49643000),
      (Standard ''M128ds_v2'', 24812000), (Standard ''M128ms'', 49640000), (Standard ''M128s'', 24809000),
      (Standard ''M128s_v2'', 24030000), (Standard ''M16-4ms'', 5716000), (Standard ''M16-8ms'', 5716000), (Standard ''M16ms'', 5716000),
      (Standard ''M16s'', 4440000), (Standard ''M192ids_v2'', 29819000), (Standard ''M192ims_v2'', 58856000),
      (Standard ''M192is_v2'', 29037000), (Standard ''M32-8ms'', 11432000), (Standard ''M32dms_v2'', 11432000),
      (Standard ''M32ls'', 5344000), (Standard ''M32ms_v2'', 11236000), (Standard ''M32s'', 6203100), (Standard ''M64'', 12404000),
      (Standard ''M64-32ms'', 19226820), (Standard ''M64ls'', 10071900), (Standard ''M64ms'', 19226820), (Standard ''M64s'', 12404000),
      (Standard ''M64s_v2'', 12013000), (Standard ''M8-2ms'', 2858000), (Standard ''M8ms'', 2858000), (Standard ''NV12s_v3'', 2038000),
      (Standard ''NV48s_v3'', 8151000)]"

definition norwaywest :: priceTable where
  "norwaywest = norwaywest_1 @ norwaywest_2 @ norwaywest_3"

subsection \<open>polandcentral\<close>

definition polandcentral_1 :: priceTable where
  "polandcentral_1 =
     [(''Basic_A0'', 23200), (''Basic_A1'', 29700), (''Basic_A2'', 102000), (''Basic_A3'', 227000), (''Basic_A4'', 454000),
      (''Dadsv5_Type1'', 8470000), (''Dasv4_Type1'', 6958000), (''Dasv4_Type2'', 6958000), (''Dasv5_Type1'', 7047000),
      (''Ddsv4_Type 1'', 5280000), (''Ddsv4_Type2'', 6249000), (''Ddsv5_Type1'', 7899000), (''Dsv3_Type1'', 6970000),
      (''Dsv3_Type2'', 6970000), (''Dsv3_Type3'', 6970000), (''Dsv3_Type4'', 6970000), (''Dsv4_Type1'', 5566000),
      (''Dsv4_Type2'', 6679000), (''Dsv5_Type1'', 6958000), (''Eadsv5_Type1'', 9176000), (''Easv4_Type1'', 8828000),
      (''Easv4_Type2'', 8828000), (''Easv5_Type1'', 7957000), (''Ebdsv5-Type1'', 7705000), (''Ebsv5-Type1'', 6892000),
      (''Edsv4_Type 1'', 6706000), (''Edsv4_Type2'', 7963000), (''Edsv5_Type1'', 10047000), (''Esv3_Type1'', 8131000),
      (''Esv3_Type2'', 8131000), (''Esv3_Type3'', 8131000), (''Esv3_Type4'', 8131000), (''Esv4_Type1'', 5887000),
      (''Esv4_Type2'', 7715000), (''Esv5_Type1'', 8829000), (''Fsv2 Type3'', 5636000), (''Fsv2_Type2'', 5636000),
      (''Fsv2_Type4'', 5636000), (''Lasv3_Type1'', 9002000), (Standard ''A0'', 21900), (Standard ''A1'', 66000),
      (Standard ''A1_v2'', 45100), (Standard ''A2'', 132000), (Standard ''A2_v2'', 94700), (Standard ''A2m_v2'', 124000),
      (Standard ''A3'', 264000), (Standard ''A4'', 528000), (Standard ''A4_v2'', 200000), (Standard ''A4m_v2'', 249000),
      (Standard ''A5'', 275000), (Standard ''A6'', 550000), (Standard ''A7'', 1100000), (Standard ''A8_v2'', 419000),
      (Standard ''A8m_v2'', 498000), (Standard ''B12ms'', 634000), (Standard ''B16ms'', 845000), (Standard ''B1ls'', 6600),
      (Standard ''B1ms'', 26400), (Standard ''B1s'', 13200), (Standard ''B20ms'', 1056000), (Standard ''B2ms'', 106000),
      (Standard ''B2s'', 52800), (Standard ''B4ms'', 211000), (Standard ''B8ms'', 422000), (Standard ''D11_v2'', 188000),
      (Standard ''D12_v2'', 380000), (Standard ''D13_v2'', 760000), (Standard ''D14_v2'', 1520000), (Standard ''D15_v2'', 1900000),
      (Standard ''D15i_v2'', 1900000), (Standard ''D16_v3'', 1056000), (Standard ''D16_v4'', 1012000), (Standard ''D16_v5'', 1012000),
      (Standard ''D16a_v4'', 1012000), (Standard ''D16ads_v5'', 1100000), (Standard ''D16as_v4'', 1012000),
      (Standard ''D16as_v5'', 915000), (Standard ''D16d_v4'', 1197000), (Standard ''D16d_v5'', 1197000), (Standard ''D16ds_v4'', 1197000),
      (Standard ''D16ds_v5'', 1197000), (Standard ''D16lds_v5'', 977000), (Standard ''D16ls_v5'', 854000), (Standard ''D16s_v3'', 1056000),
      (Standard ''D16s_v4'', 1012000), (Standard ''D16s_v5'', 1012000), (Standard ''D1_v2'', 74800), (Standard ''D2_v2'', 150000),
      (Standard ''D2_v3'', 132000), (Standard ''D2_v4'', 126000), (Standard ''D2_v5'', 127000), (Standard ''D2a_v4'', 126000),
      (Standard ''D2ads_v5'', 138000), (Standard ''D2as_v4'', 126000), (Standard ''D2as_v5'', 114000), (Standard ''D2d_v4'', 150000),
      (Standard ''D2d_v5'', 150000), (Standard ''D2ds_v4'', 150000), (Standard ''D2ds_v5'', 150000), (Standard ''D2lds_v5'', 122000),
      (Standard ''D2ls_v5'', 107000), (Standard ''D2s_v3'', 132000), (Standard ''D2s_v4'', 126000), (Standard ''D2s_v5'', 127000),
      (Standard ''D32-16s_v3'', 2112000), (Standard ''D32-8s_v3'', 2112000), (Standard ''D32_v3'', 2112000),
      (Standard ''D32_v4'', 2024000), (Standard ''D32_v5'', 2024000), (Standard ''D32a_v4'', 2024000), (Standard ''D32ads_v5'', 2200000),
      (Standard ''D32as_v4'', 2024000), (Standard ''D32as_v5'', 1830000), (Standard ''D32d_v4'', 2394000), (Standard ''D32d_v5'', 2394000),
      (Standard ''D32ds_v4'', 2394000), (Standard ''D32ds_v5'', 2394000), (Standard ''D32lds_v5'', 1954000),
      (Standard ''D32ls_v5'', 1707000), (Standard ''D32s_v3'', 2112000), (Standard ''D32s_v4'', 2024000)]"

definition polandcentral_2 :: priceTable where
  "polandcentral_2 =
     [(Standard ''D32s_v5'', 2024000), (Standard ''D3_v2'', 299000), (Standard ''D48_v3'', 3168000), (Standard ''D48_v4'', 3036000),
      (Standard ''D48_v5'', 3036000), (Standard ''D48a_v4'', 3036000), (Standard ''D48ads_v5'', 3300000), (Standard ''D48as_v4'', 3036000),
      (Standard ''D48as_v5'', 2746000), (Standard ''D48d_v4'', 3590000), (Standard ''D48d_v5'', 3590000), (Standard ''D48ds_v4'', 3590000),
      (Standard ''D48ds_v5'', 3590000), (Standard ''D48lds_v5'', 2930000), (Standard ''D48ls_v5'', 2561000),
      (Standard ''D48s_v3'', 3168000), (Standard ''D48s_v4'', 3036000), (Standard ''D48s_v5'', 3036000), (Standard ''D4_v2'', 598000),
      (Standard ''D4_v3'', 264000), (Standard ''D4_v4'', 253000), (Standard ''D4_v5'', 253000), (Standard ''D4a_v4'', 253000),
      (Standard ''D4ads_v5'', 275000), (Standard ''D4as_v4'', 253000), (Standard ''D4as_v5'', 229000), (Standard ''D4d_v4'', 299000),
      (Standard ''D4d_v5'', 299000), (Standard ''D4ds_v4'', 299000), (Standard ''D4ds_v5'', 299000), (Standard ''D4lds_v5'', 244000),
      (Standard ''D4ls_v5'', 213000), (Standard ''D4s_v3'', 264000), (Standard ''D4s_v4'', 253000), (Standard ''D4s_v5'', 253000),
      (Standard ''D5_v2'', 1197000), (Standard ''D64-16s_v3'', 4224000), (Standard ''D64-32s_v3'', 4224000),
      (Standard ''D64_v3'', 4224000), (Standard ''D64_v4'', 4048000), (Standard ''D64_v5'', 4048000), (Standard ''D64a_v4'', 4048000),
      (Standard ''D64ads_v5'', 4400000), (Standard ''D64as_v4'', 4048000), (Standard ''D64as_v5'', 3661000),
      (Standard ''D64d_v4'', 4787000), (Standard ''D64d_v5'', 4787000), (Standard ''D64ds_v4'', 4787000), (Standard ''D64ds_v5'', 4787000),
      (Standard ''D64lds_v5'', 3907000), (Standard ''D64ls_v5'', 3414000), (Standard ''D64s_v3'', 4224000),
      (Standard ''D64s_v4'', 4048000), (Standard ''D64s_v5'', 4048000), (Standard ''D8_v3'', 528000), (Standard ''D8_v4'', 506000),
      (Standard ''D8_v5'', 506000), (Standard ''D8a_v4'', 506000), (Standard ''D8ads_v5'', 550000), (Standard ''D8as_v4'', 506000),
      (Standard ''D8as_v5'', 458000), (Standard ''D8d_v4'', 598000), (Standard ''D8d_v5'', 598000), (Standard ''D8ds_v4'', 598000),
      (Standard ''D8ds_v5'', 598000), (Standard ''D8lds_v5'', 488000), (Standard ''D8ls_v5'', 427000), (Standard ''D8s_v3'', 528000),
      (Standard ''D8s_v4'', 506000), (Standard ''D8s_v5'', 506000), (Standard ''D96_v5'', 6072000), (Standard ''D96a_v4'', 6072000),
      (Standard ''D96ads_v5'', 6600000), (Standard ''D96as_v4'', 6072000), (Standard ''D96as_v5'', 5491000),
      (Standard ''D96d_v5'', 7181000), (Standard ''D96ds_v5'', 7181000), (Standard ''D96lds_v5'', 5861000),
      (Standard ''D96ls_v5'', 5122000), (Standard ''D96s_v5'', 6072000), (Standard ''DS11-1_v2'', 188000), (Standard ''DS11_v2'', 188000),
      (Standard ''DS12-1_v2'', 380000), (Standard ''DS12-2_v2'', 380000), (Standard ''DS12_v2'', 380000), (Standard ''DS13-2_v2'', 760000),
      (Standard ''DS13-4_v2'', 760000), (Standard ''DS13_v2'', 760000), (Standard ''DS14-4_v2'', 1520000),
      (Standard ''DS14-8_v2'', 1520000), (Standard ''DS14_v2'', 1520000), (Standard ''DS15_v2'', 1900000),
      (Standard ''DS15i_v2'', 1900000), (Standard ''DS1_v2'', 74800), (Standard ''DS2_v2'', 150000), (Standard ''DS3_v2'', 299000),
      (Standard ''DS4_v2'', 598000), (Standard ''DS5_v2'', 1197000), (Standard ''E104i_v5'', 9564000), (Standard ''E104id_v5'', 10885000),
      (Standard ''E104ids_v5'', 10885000), (Standard ''E104is_v5'', 9564000), (Standard ''E112iads_v5'', 10706000),
      (Standard ''E112ias_v5'', 9283000), (Standard ''E112ibds_v5'', 13484000), (Standard ''E112ibs_v5'', 12061000),
      (Standard ''E16-4ads_v5'', 1390000), (Standard ''E16-4as_v4'', 1338000), (Standard ''E16-4as_v5'', 1206000),
      (Standard ''E16-4ds_v4'', 1522000), (Standard ''E16-4ds_v5'', 1522000), (Standard ''E16-4s_v3'', 1408000),
      (Standard ''E16-4s_v4'', 1338000), (Standard ''E16-4s_v5'', 1338000), (Standard ''E16-8ads_v5'', 1390000),
      (Standard ''E16-8as_v4'', 1338000), (Standard ''E16-8as_v5'', 1206000), (Standard ''E16-8ds_v4'', 1522000),
      (Standard ''E16-8ds_v5'', 1522000), (Standard ''E16-8s_v3'', 1408000), (Standard ''E16-8s_v4'', 1338000)]"

definition polandcentral_3 :: priceTable where
  "polandcentral_3 =
     [(Standard ''E16-8s_v5'', 1338000), (Standard ''E16_v3'', 1408000), (Standard ''E16_v4'', 1338000), (Standard ''E16_v5'', 1338000),
      (Standard ''E16a_v4'', 1338000), (Standard ''E16ads_v5'', 1390000), (Standard ''E16as_v4'', 1338000),
      (Standard ''E16as_v5'', 1206000), (Standard ''E16bds_v5'', 1751000), (Standard ''E16bs_v5'', 1566000),
      (Standard ''E16d_v4'', 1522000), (Standard ''E16d_v5'', 1522000), (Standard ''E16ds_v4'', 1522000), (Standard ''E16ds_v5'', 1522000),
      (Standard ''E16s_v3'', 1408000), (Standard ''E16s_v4'', 1338000), (Standard ''E16s_v5'', 1338000), (Standard ''E20_v3'', 1760000),
      (Standard ''E20_v4'', 1672000), (Standard ''E20_v5'', 1672000), (Standard ''E20a_v4'', 1672000), (Standard ''E20ads_v5'', 1738000),
      (Standard ''E20as_v4'', 1672000), (Standard ''E20as_v5'', 1507000), (Standard ''E20d_v4'', 1903000), (Standard ''E20d_v5'', 1903000),
      (Standard ''E20ds_v4'', 1903000), (Standard ''E20ds_v5'', 1903000), (Standard ''E20s_v3'', 1760000), (Standard ''E20s_v4'', 1672000),
      (Standard ''E20s_v5'', 1672000), (Standard ''E2_v3'', 176000), (Standard ''E2_v4'', 167000), (Standard ''E2_v5'', 167000),
      (Standard ''E2a_v4'', 167000), (Standard ''E2ads_v5'', 174000), (Standard ''E2as_v4'', 167000), (Standard ''E2as_v5'', 151000),
      (Standard ''E2bds_v5'', 219000), (Standard ''E2bs_v5'', 196000), (Standard ''E2d_v4'', 190000), (Standard ''E2d_v5'', 190000),
      (Standard ''E2ds_v4'', 190000), (Standard ''E2ds_v5'', 190000), (Standard ''E2s_v3'', 176000), (Standard ''E2s_v4'', 167000),
      (Standard ''E2s_v5'', 167000), (Standard ''E32-16ads_v5'', 2781000), (Standard ''E32-16as_v4'', 2675000),
      (Standard ''E32-16as_v5'', 2411000), (Standard ''E32-16ds_v4'', 3045000), (Standard ''E32-16ds_v5'', 3045000),
      (Standard ''E32-16s_v3'', 2816000), (Standard ''E32-16s_v4'', 2675000), (Standard ''E32-16s_v5'', 2675000),
      (Standard ''E32-8ads_v5'', 2781000), (Standard ''E32-8as_v4'', 2675000), (Standard ''E32-8as_v5'', 2411000),
      (Standard ''E32-8ds_v4'', 3045000), (Standard ''E32-8ds_v5'', 3045000), (Standard ''E32-8s_v3'', 2816000),
      (Standard ''E32-8s_v4'', 2675000), (Standard ''E32-8s_v5'', 2675000), (Standard ''E32_v3'', 2816000), (Standard ''E32_v4'', 2675000),
      (Standard ''E32_v5'', 2675000), (Standard ''E32a_v4'', 2675000), (Standard ''E32ads_v5'', 2781000), (Standard ''E32as_v4'', 2675000),
      (Standard ''E32as_v5'', 2411000), (Standard ''E32bds_v5'', 3502000), (Standard ''E32bs_v5'', 3133000),
      (Standard ''E32d_v4'', 3045000), (Standard ''E32d_v5'', 3045000), (Standard ''E32ds_v4'', 3045000), (Standard ''E32ds_v5'', 3045000),
      (Standard ''E32s_v3'', 2816000), (Standard ''E32s_v4'', 2675000), (Standard ''E32s_v5'', 2675000), (Standard ''E4-2ads_v5'', 348000),
      (Standard ''E4-2as_v4'', 334000), (Standard ''E4-2as_v5'', 301000), (Standard ''E4-2ds_v4'', 381000),
      (Standard ''E4-2ds_v5'', 381000), (Standard ''E4-2s_v3'', 352000), (Standard ''E4-2s_v4'', 334000), (Standard ''E4-2s_v5'', 334000),
      (Standard ''E48_v3'', 4224000), (Standard ''E48_v4'', 4013000), (Standard ''E48_v5'', 4013000), (Standard ''E48a_v4'', 4013000),
      (Standard ''E48ads_v5'', 4171000), (Standard ''E48as_v4'', 4013000), (Standard ''E48as_v5'', 3617000),
      (Standard ''E48bds_v5'', 5254000), (Standard ''E48bs_v5'', 4699000), (Standard ''E48d_v4'', 4567000),
      (Standard ''E48d_v5'', 4567000), (Standard ''E48ds_v4'', 4567000), (Standard ''E48ds_v5'', 4567000), (Standard ''E48s_v3'', 4224000),
      (Standard ''E48s_v4'', 4013000), (Standard ''E48s_v5'', 4013000), (Standard ''E4_v3'', 352000), (Standard ''E4_v4'', 334000),
      (Standard ''E4_v5'', 334000), (Standard ''E4a_v4'', 334000), (Standard ''E4ads_v5'', 348000), (Standard ''E4as_v4'', 334000),
      (Standard ''E4as_v5'', 301000), (Standard ''E4bds_v5'', 438000), (Standard ''E4bs_v5'', 392000), (Standard ''E4d_v4'', 381000),
      (Standard ''E4d_v5'', 381000), (Standard ''E4ds_v4'', 381000), (Standard ''E4ds_v5'', 381000), (Standard ''E4s_v3'', 352000),
      (Standard ''E4s_v4'', 334000), (Standard ''E4s_v5'', 334000), (Standard ''E64-16ads_v5'', 5562000),
      (Standard ''E64-16as_v4'', 5350000)]"

definition polandcentral_4 :: priceTable where
  "polandcentral_4 =
     [(Standard ''E64-16as_v5'', 4822000), (Standard ''E64-16ds_v4'', 6090000), (Standard ''E64-16ds_v5'', 6090000),
      (Standard ''E64-16s_v3'', 5069000), (Standard ''E64-16s_v4'', 5350000), (Standard ''E64-16s_v5'', 5350000),
      (Standard ''E64-32ads_v5'', 5562000), (Standard ''E64-32as_v4'', 5350000), (Standard ''E64-32as_v5'', 4822000),
      (Standard ''E64-32ds_v4'', 6090000), (Standard ''E64-32ds_v5'', 6090000), (Standard ''E64-32s_v3'', 5069000),
      (Standard ''E64-32s_v4'', 5350000), (Standard ''E64-32s_v5'', 5350000), (Standard ''E64_v3'', 5069000),
      (Standard ''E64_v4'', 5350000), (Standard ''E64_v5'', 5350000), (Standard ''E64a_v4'', 5350000), (Standard ''E64ads_v5'', 5562000),
      (Standard ''E64as_v4'', 5350000), (Standard ''E64as_v5'', 4822000), (Standard ''E64bds_v5'', 7005000),
      (Standard ''E64bs_v5'', 6266000), (Standard ''E64d_v4'', 6090000), (Standard ''E64d_v5'', 6090000), (Standard ''E64ds_v4'', 6090000),
      (Standard ''E64ds_v5'', 6090000), (Standard ''E64i_v3'', 5069000), (Standard ''E64is_v3'', 5069000), (Standard ''E64s_v3'', 5069000),
      (Standard ''E64s_v4'', 5350000), (Standard ''E64s_v5'', 5350000), (Standard ''E8-2ads_v5'', 695000),
      (Standard ''E8-2as_v4'', 669000), (Standard ''E8-2as_v5'', 603000), (Standard ''E8-2ds_v4'', 761000),
      (Standard ''E8-2ds_v5'', 761000), (Standard ''E8-2s_v3'', 704000), (Standard ''E8-2s_v4'', 669000), (Standard ''E8-2s_v5'', 669000),
      (Standard ''E8-4ads_v5'', 695000), (Standard ''E8-4as_v4'', 669000), (Standard ''E8-4as_v5'', 603000),
      (Standard ''E8-4ds_v4'', 761000), (Standard ''E8-4ds_v5'', 761000), (Standard ''E8-4s_v3'', 704000), (Standard ''E8-4s_v4'', 669000),
      (Standard ''E8-4s_v5'', 669000), (Standard ''E80ids_v4'', 7612000), (Standard ''E80is_v4'', 6688000), (Standard ''E8_v3'', 704000),
      (Standard ''E8_v4'', 669000), (Standard ''E8_v5'', 669000), (Standard ''E8a_v4'', 669000), (Standard ''E8ads_v5'', 695000),
      (Standard ''E8as_v4'', 669000), (Standard ''E8as_v5'', 603000), (Standard ''E8bds_v5'', 876000), (Standard ''E8bs_v5'', 783000),
      (Standard ''E8d_v4'', 761000), (Standard ''E8d_v5'', 761000), (Standard ''E8ds_v4'', 761000), (Standard ''E8ds_v5'', 761000),
      (Standard ''E8s_v3'', 704000), (Standard ''E8s_v4'', 669000), (Standard ''E8s_v5'', 669000), (Standard ''E96-24ads_v5'', 8342000),
      (Standard ''E96-24as_v4'', 8026000), (Standard ''E96-24as_v5'', 7234000), (Standard ''E96-24ds_v5'', 9134000),
      (Standard ''E96-24s_v5'', 8026000), (Standard ''E96-48ads_v5'', 8342000), (Standard ''E96-48as_v4'', 8026000),
      (Standard ''E96-48as_v5'', 7234000), (Standard ''E96-48ds_v5'', 9134000), (Standard ''E96-48s_v5'', 8026000),
      (Standard ''E96_v5'', 8026000), (Standard ''E96a_v4'', 8026000), (Standard ''E96ads_v5'', 8342000), (Standard ''E96as_v4'', 8026000),
      (Standard ''E96as_v5'', 7234000), (Standard ''E96bds_v5'', 10507000), (Standard ''E96bs_v5'', 9398000),
      (Standard ''E96d_v5'', 9134000), (Standard ''E96ds_v5'', 9134000), (Standard ''E96iads_v5'', 9177000),
      (Standard ''E96ias_v4'', 8026000), (Standard ''E96ias_v5'', 7957000), (Standard ''E96s_v5'', 8026000), (Standard ''F1'', 62400),
      (Standard ''F16'', 999000), (Standard ''F16s'', 999000), (Standard ''F16s_v2'', 854000), (Standard ''F1s'', 62400),
      (Standard ''F2'', 125000), (Standard ''F2s'', 125000), (Standard ''F2s_v2'', 107000), (Standard ''F32s_v2'', 1707000),
      (Standard ''F4'', 250000), (Standard ''F48s_v2'', 2561000), (Standard ''F4s'', 250000), (Standard ''F4s_v2'', 213000),
      (Standard ''F64s_v2'', 3414000), (Standard ''F72s_v2'', 3841000), (Standard ''F8'', 499000), (Standard ''F8s'', 499000),
      (Standard ''F8s_v2'', 427000), (Standard ''L112ias_v3'', 12603000), (Standard ''L16as_v3'', 1637000),
      (Standard ''L32as_v3'', 3274000), (Standard ''L48as_v3'', 4910000), (Standard ''L64as_v3'', 6547000),
      (Standard ''L80as_v3'', 8184000), (Standard ''L8as_v3'', 818000), (Standard ''L96ias_v3'', 10803000),
      (Standard ''ND96ams_A100_v4'', 46861000), (Standard ''ND96amsr_A100_v4'', 46861000), (Standard ''SQLG7_AMD_IaaS'', 10701000),
      (Standard ''SQLG7_AMD_NVME'', 10701000)]"

definition polandcentral :: priceTable where
  "polandcentral = polandcentral_1 @ polandcentral_2 @ polandcentral_3 @ polandcentral_4"

subsection \<open>qatarcentral\<close>

definition qatarcentral_1 :: priceTable where
  "qatarcentral_1 =
     [(''Basic_A0'', 19800), (''Basic_A1'', 29700), (''Basic_A2'', 85800), (''Basic_A3'', 224000), (''Basic_A4'', 449000),
      (''Dadsv5_Type1'', 7817000), (''Dasv4_Type1'', 6474000), (''Dasv4_Type2'', 6474000), (''Dasv5_Type1'', 6530000),
      (''Ddsv4_Type 1'', 4136000), (''Ddsv4_Type2'', 5789000), (''Ddsv5_Type1'', 7318000), (''Dsv3_Type3'', 5170000),
      (''Dsv3_Type4'', 6460000), (''Dsv4_Type1'', 5170000), (''Dsv4_Type2'', 6217000), (''Dsv5_Type1'', 6474000),
      (''Eadsv5_Type1'', 8496000), (''Easv4_Type1'', 8189000), (''Easv4_Type2'', 8189000), (''Easv5_Type1'', 7392000),
      (''Ebdsv5-Type1'', 7251000), (''Ebsv5-Type1'', 6512000), (''Edsv4_Type 1'', 6195000), (''Edsv4_Type2'', 7942000),
      (''Edsv5_Type1'', 9293000), (''Esv3_Type3'', 6653000), (''Esv3_Type4'', 6986000), (''Esv4_Type1'', 5456000),
      (''Esv4_Type2'', 7161000), (''Esv5_Type1'', 8189000), (''Fsv2 Type3'', 4874000), (''Fsv2_Type2'', 4178000),
      (''Fsv2_Type4'', 5386000), (''Lasv3_Type1'', 8316000), (''Lsv3_Type1'', 9284000), (Standard ''A0'', 22000), (Standard ''A1'', 66000),
      (Standard ''A1_v2'', 43200), (Standard ''A2'', 132000), (Standard ''A2_v2'', 91200), (Standard ''A2m_v2'', 119000),
      (Standard ''A3'', 264000), (Standard ''A4'', 528000), (Standard ''A4_v2'', 191000), (Standard ''A4m_v2'', 250000),
      (Standard ''A5'', 297000), (Standard ''A6'', 594000), (Standard ''A7'', 1188000), (Standard ''A8_v2'', 400000),
      (Standard ''A8m_v2'', 524000), (Standard ''B12ms'', 602000), (Standard ''B16als_v2'', 713000), (Standard ''B16as_v2'', 796000),
      (Standard ''B16ls_v2'', 784000), (Standard ''B16ms'', 802000), (Standard ''B16s_v2'', 876000), (Standard ''B1ls'', 6300),
      (Standard ''B1ms'', 25100), (Standard ''B1s'', 12500), (Standard ''B20ms'', 1003000), (Standard ''B2als_v2'', 54300),
      (Standard ''B2as_v2'', 90300), (Standard ''B2ats_v2'', 11300), (Standard ''B2ls_v2'', 59400), (Standard ''B2ms'', 100000),
      (Standard ''B2s'', 50200), (Standard ''B2s_v2'', 110000), (Standard ''B2ts_v2'', 21700), (Standard ''B32als_v2'', 1279000),
      (Standard ''B32as_v2'', 1592000), (Standard ''B32ls_v2'', 1421000), (Standard ''B32s_v2'', 1605000), (Standard ''B4als_v2'', 178000),
      (Standard ''B4as_v2'', 181000), (Standard ''B4ls_v2'', 178000), (Standard ''B4ms'', 201000), (Standard ''B4s_v2'', 219000),
      (Standard ''B8als_v2'', 320000), (Standard ''B8as_v2'', 361000), (Standard ''B8ls_v2'', 392000), (Standard ''B8ms'', 401000),
      (Standard ''B8s_v2'', 401000), (Standard ''D11_v2'', 179000), (Standard ''D11_v2_Promo'', 179000), (Standard ''D12_v2'', 359000),
      (Standard ''D12_v2_Promo'', 359000), (Standard ''D13_v2'', 718000), (Standard ''D13_v2_Promo'', 718000),
      (Standard ''D14_v2'', 1435000), (Standard ''D14_v2_Promo'', 1435000), (Standard ''D15_v2'', 1794000),
      (Standard ''D15i_v2'', 1794000), (Standard ''D16_v3'', 942000), (Standard ''D16_v4'', 942000), (Standard ''D16_v5'', 942000),
      (Standard ''D16a_v4'', 942000), (Standard ''D16ads_v5'', 1015000), (Standard ''D16as_v4'', 942000), (Standard ''D16as_v5'', 848000),
      (Standard ''D16d_v4'', 1109000), (Standard ''D16d_v5'', 1109000), (Standard ''D16ds_v4'', 1109000), (Standard ''D16ds_v5'', 1109000),
      (Standard ''D16lds_v5'', 960000), (Standard ''D16ls_v5'', 845000), (Standard ''D16s_v3'', 942000), (Standard ''D16s_v4'', 942000),
      (Standard ''D16s_v5'', 942000), (Standard ''D1_v2'', 68700), (Standard ''D2_v2'', 137000), (Standard ''D2_v2_Promo'', 137000),
      (Standard ''D2_v3'', 118000), (Standard ''D2_v4'', 118000), (Standard ''D2_v5'', 118000), (Standard ''D2a_v4'', 118000),
      (Standard ''D2ads_v5'', 127000), (Standard ''D2as_v4'', 118000), (Standard ''D2as_v5'', 106000), (Standard ''D2d_v4'', 139000),
      (Standard ''D2d_v5'', 139000), (Standard ''D2ds_v4'', 139000), (Standard ''D2ds_v5'', 139000), (Standard ''D2lds_v5'', 120000),
      (Standard ''D2ls_v5'', 106000), (Standard ''D2s_v3'', 118000), (Standard ''D2s_v4'', 118000), (Standard ''D2s_v5'', 118000),
      (Standard ''D32-16s_v3'', 1883000), (Standard ''D32-8s_v3'', 1883000), (Standard ''D32_v3'', 1883000),
      (Standard ''D32_v4'', 1883000), (Standard ''D32_v5'', 1883000), (Standard ''D32a_v4'', 1883000), (Standard ''D32ads_v5'', 2030000),
      (Standard ''D32as_v4'', 1883000), (Standard ''D32as_v5'', 1696000), (Standard ''D32d_v4'', 2218000), (Standard ''D32d_v5'', 2218000),
      (Standard ''D32ds_v4'', 2218000), (Standard ''D32ds_v5'', 2218000), (Standard ''D32lds_v5'', 1920000),
      (Standard ''D32ls_v5'', 1690000), (Standard ''D32s_v3'', 1883000), (Standard ''D32s_v4'', 1883000), (Standard ''D32s_v5'', 1883000)]"

definition qatarcentral_2 :: priceTable where
  "qatarcentral_2 =
     [(Standard ''D3_v2'', 275000), (Standard ''D3_v2_Promo'', 275000), (Standard ''D48_v3'', 2825000), (Standard ''D48_v4'', 2825000),
      (Standard ''D48_v5'', 2825000), (Standard ''D48a_v4'', 2825000), (Standard ''D48ads_v5'', 3046000), (Standard ''D48as_v4'', 2825000),
      (Standard ''D48as_v5'', 2544000), (Standard ''D48d_v4'', 3326000), (Standard ''D48d_v5'', 3326000), (Standard ''D48ds_v4'', 3326000),
      (Standard ''D48ds_v5'', 3326000), (Standard ''D48lds_v5'', 2880000), (Standard ''D48ls_v5'', 2534000),
      (Standard ''D48s_v3'', 2825000), (Standard ''D48s_v4'', 2825000), (Standard ''D48s_v5'', 2825000), (Standard ''D4_v2'', 550000),
      (Standard ''D4_v2_Promo'', 550000), (Standard ''D4_v3'', 235000), (Standard ''D4_v4'', 235000), (Standard ''D4_v5'', 235000),
      (Standard ''D4a_v4'', 235000), (Standard ''D4ads_v5'', 254000), (Standard ''D4as_v4'', 235000), (Standard ''D4as_v5'', 212000),
      (Standard ''D4d_v4'', 277000), (Standard ''D4d_v5'', 277000), (Standard ''D4ds_v4'', 277000), (Standard ''D4ds_v5'', 277000),
      (Standard ''D4lds_v5'', 240000), (Standard ''D4ls_v5'', 211000), (Standard ''D4s_v3'', 235000), (Standard ''D4s_v4'', 235000),
      (Standard ''D4s_v5'', 235000), (Standard ''D5_v2'', 1099000), (Standard ''D5_v2_Promo'', 1099000),
      (Standard ''D64-16s_v3'', 3766000), (Standard ''D64-32s_v3'', 3766000), (Standard ''D64_v3'', 3766000),
      (Standard ''D64_v4'', 3766000), (Standard ''D64_v5'', 3766000), (Standard ''D64a_v4'', 3766000), (Standard ''D64ads_v5'', 4061000),
      (Standard ''D64as_v4'', 3766000), (Standard ''D64as_v5'', 3392000), (Standard ''D64d_v4'', 4435000), (Standard ''D64d_v5'', 4435000),
      (Standard ''D64ds_v4'', 4435000), (Standard ''D64ds_v5'', 4435000), (Standard ''D64lds_v5'', 3840000),
      (Standard ''D64ls_v5'', 3379000), (Standard ''D64s_v3'', 3766000), (Standard ''D64s_v4'', 3766000), (Standard ''D64s_v5'', 3766000),
      (Standard ''D8_v3'', 471000), (Standard ''D8_v4'', 471000), (Standard ''D8_v5'', 471000), (Standard ''D8a_v4'', 471000),
      (Standard ''D8ads_v5'', 508000), (Standard ''D8as_v4'', 471000), (Standard ''D8as_v5'', 424000), (Standard ''D8d_v4'', 554000),
      (Standard ''D8d_v5'', 554000), (Standard ''D8ds_v4'', 554000), (Standard ''D8ds_v5'', 554000), (Standard ''D8lds_v5'', 480000),
      (Standard ''D8ls_v5'', 422000), (Standard ''D8s_v3'', 471000), (Standard ''D8s_v4'', 471000), (Standard ''D8s_v5'', 471000),
      (Standard ''D96_v5'', 5650000), (Standard ''D96a_v4'', 5650000), (Standard ''D96ads_v5'', 6091000), (Standard ''D96as_v4'', 5650000),
      (Standard ''D96as_v5'', 5088000), (Standard ''D96d_v5'', 6653000), (Standard ''D96ds_v5'', 6653000),
      (Standard ''D96lds_v5'', 5760000), (Standard ''D96ls_v5'', 5069000), (Standard ''D96s_v5'', 5650000), (Standard ''DS1'', 80400),
      (Standard ''DS11'', 208000), (Standard ''DS11-1_v2'', 179000), (Standard ''DS11_v2'', 179000), (Standard ''DS11_v2_Promo'', 179000),
      (Standard ''DS12'', 416000), (Standard ''DS12-1_v2'', 359000), (Standard ''DS12-2_v2'', 359000), (Standard ''DS12_v2'', 359000),
      (Standard ''DS12_v2_Promo'', 359000), (Standard ''DS13'', 832000), (Standard ''DS13-2_v2'', 718000),
      (Standard ''DS13-4_v2'', 718000), (Standard ''DS13_v2'', 718000), (Standard ''DS13_v2_Promo'', 718000), (Standard ''DS14'', 1665000),
      (Standard ''DS14-4_v2'', 1435000), (Standard ''DS14-8_v2'', 1435000), (Standard ''DS14_v2'', 1435000),
      (Standard ''DS14_v2_Promo'', 1435000), (Standard ''DS15_v2'', 1794000), (Standard ''DS15i_v2'', 1794000),
      (Standard ''DS1_v2'', 68700), (Standard ''DS2'', 161000), (Standard ''DS2_v2'', 137000), (Standard ''DS2_v2_Promo'', 137000),
      (Standard ''DS3'', 322000), (Standard ''DS3_v2'', 275000), (Standard ''DS3_v2_Promo'', 275000), (Standard ''DS4'', 643000),
      (Standard ''DS4_v2'', 550000), (Standard ''DS4_v2_Promo'', 550000), (Standard ''DS5_v2'', 1099000),
      (Standard ''DS5_v2_Promo'', 1099000), (Standard ''E104i_v5'', 8872000), (Standard ''E104id_v5'', 10067000),
      (Standard ''E104ids_v5'', 10067000), (Standard ''E104is_v5'', 8872000), (Standard ''E112iads_v5'', 9911000),
      (Standard ''E112ias_v5'', 8624000), (Standard ''E112ibds_v5'', 12690000), (Standard ''E112ibs_v5'', 11396000),
      (Standard ''E16-4ads_v5'', 1287000), (Standard ''E16-4as_v4'', 1241000), (Standard ''E16-4as_v5'', 1120000),
      (Standard ''E16-4ds_v4'', 1408000), (Standard ''E16-4ds_v5'', 1408000), (Standard ''E16-4s_v3'', 1241000),
      (Standard ''E16-4s_v4'', 1241000), (Standard ''E16-4s_v5'', 1241000), (Standard ''E16-8ads_v5'', 1287000),
      (Standard ''E16-8as_v4'', 1241000), (Standard ''E16-8as_v5'', 1120000), (Standard ''E16-8ds_v4'', 1408000),
      (Standard ''E16-8ds_v5'', 1408000), (Standard ''E16-8s_v3'', 1241000), (Standard ''E16-8s_v4'', 1241000),
      (Standard ''E16-8s_v5'', 1241000), (Standard ''E16_v3'', 1241000), (Standard ''E16_v4'', 1241000), (Standard ''E16_v5'', 1241000),
      (Standard ''E16a_v4'', 1241000), (Standard ''E16ads_v5'', 1287000), (Standard ''E16as_v4'', 1241000)]"

definition qatarcentral_3 :: priceTable where
  "qatarcentral_3 =
     [(Standard ''E16as_v5'', 1120000), (Standard ''E16bds_v5'', 1648000), (Standard ''E16bs_v5'', 1480000),
      (Standard ''E16d_v4'', 1408000), (Standard ''E16d_v5'', 1408000), (Standard ''E16ds_v4'', 1408000), (Standard ''E16ds_v5'', 1408000),
      (Standard ''E16s_v3'', 1241000), (Standard ''E16s_v4'', 1241000), (Standard ''E16s_v5'', 1241000), (Standard ''E20_v3'', 1550000),
      (Standard ''E20_v4'', 1550000), (Standard ''E20_v5'', 1551000), (Standard ''E20a_v4'', 1551000), (Standard ''E20ads_v5'', 1609000),
      (Standard ''E20as_v4'', 1551000), (Standard ''E20as_v5'', 1400000), (Standard ''E20d_v4'', 1760000), (Standard ''E20d_v5'', 1760000),
      (Standard ''E20ds_v4'', 1760000), (Standard ''E20ds_v5'', 1760000), (Standard ''E20s_v3'', 1550000), (Standard ''E20s_v4'', 1550000),
      (Standard ''E20s_v5'', 1551000), (Standard ''E2_v3'', 155000), (Standard ''E2_v4'', 155000), (Standard ''E2_v5'', 155000),
      (Standard ''E2a_v4'', 155000), (Standard ''E2ads_v5'', 161000), (Standard ''E2as_v4'', 155000), (Standard ''E2as_v5'', 140000),
      (Standard ''E2bds_v5'', 206000), (Standard ''E2bs_v5'', 185000), (Standard ''E2d_v4'', 176000), (Standard ''E2d_v5'', 176000),
      (Standard ''E2ds_v4'', 176000), (Standard ''E2ds_v5'', 176000), (Standard ''E2s_v3'', 155000), (Standard ''E2s_v4'', 155000),
      (Standard ''E2s_v5'', 155000), (Standard ''E32-16ads_v5'', 2574000), (Standard ''E32-16as_v4'', 2482000),
      (Standard ''E32-16as_v5'', 2240000), (Standard ''E32-16ds_v4'', 2816000), (Standard ''E32-16ds_v5'', 2816000),
      (Standard ''E32-16s_v3'', 2482000), (Standard ''E32-16s_v4'', 2482000), (Standard ''E32-16s_v5'', 2482000),
      (Standard ''E32-8ads_v5'', 2574000), (Standard ''E32-8as_v4'', 2482000), (Standard ''E32-8as_v5'', 2240000),
      (Standard ''E32-8ds_v4'', 2816000), (Standard ''E32-8ds_v5'', 2816000), (Standard ''E32-8s_v3'', 2482000),
      (Standard ''E32-8s_v4'', 2482000), (Standard ''E32-8s_v5'', 2482000), (Standard ''E32_v3'', 2482000), (Standard ''E32_v4'', 2482000),
      (Standard ''E32_v5'', 2482000), (Standard ''E32a_v4'', 2482000), (Standard ''E32ads_v5'', 2574000), (Standard ''E32as_v4'', 2482000),
      (Standard ''E32as_v5'', 2240000), (Standard ''E32bds_v5'', 3296000), (Standard ''E32bs_v5'', 2960000),
      (Standard ''E32d_v4'', 2816000), (Standard ''E32d_v5'', 2816000), (Standard ''E32ds_v4'', 2816000), (Standard ''E32ds_v5'', 2816000),
      (Standard ''E32s_v3'', 2482000), (Standard ''E32s_v4'', 2482000), (Standard ''E32s_v5'', 2482000), (Standard ''E4-2ads_v5'', 322000),
      (Standard ''E4-2as_v4'', 310000), (Standard ''E4-2as_v5'', 280000), (Standard ''E4-2ds_v4'', 352000),
      (Standard ''E4-2ds_v5'', 352000), (Standard ''E4-2s_v3'', 310000), (Standard ''E4-2s_v4'', 310000), (Standard ''E4-2s_v5'', 310000),
      (Standard ''E48_v3'', 3722000), (Standard ''E48_v4'', 3722000), (Standard ''E48_v5'', 3722000), (Standard ''E48a_v4'', 3722000),
      (Standard ''E48ads_v5'', 3862000), (Standard ''E48as_v4'', 3722000), (Standard ''E48as_v5'', 3360000),
      (Standard ''E48bds_v5'', 4944000), (Standard ''E48bs_v5'', 4440000), (Standard ''E48d_v4'', 4224000),
      (Standard ''E48d_v5'', 4224000), (Standard ''E48ds_v4'', 4224000), (Standard ''E48ds_v5'', 4224000), (Standard ''E48s_v3'', 3722000),
      (Standard ''E48s_v4'', 3722000), (Standard ''E48s_v5'', 3722000), (Standard ''E4_v3'', 310000), (Standard ''E4_v4'', 310000),
      (Standard ''E4_v5'', 310000), (Standard ''E4a_v4'', 310000), (Standard ''E4ads_v5'', 322000), (Standard ''E4as_v4'', 310000),
      (Standard ''E4as_v5'', 280000), (Standard ''E4bds_v5'', 412000), (Standard ''E4bs_v5'', 370000), (Standard ''E4d_v4'', 352000),
      (Standard ''E4d_v5'', 352000), (Standard ''E4ds_v4'', 352000), (Standard ''E4ds_v5'', 352000), (Standard ''E4s_v3'', 310000),
      (Standard ''E4s_v4'', 310000), (Standard ''E4s_v5'', 310000), (Standard ''E64-16ads_v5'', 5149000),
      (Standard ''E64-16as_v4'', 4963000), (Standard ''E64-16as_v5'', 4480000), (Standard ''E64-16ds_v4'', 5632000),
      (Standard ''E64-16ds_v5'', 5632000), (Standard ''E64-16s_v3'', 4963000), (Standard ''E64-16s_v4'', 4963000),
      (Standard ''E64-16s_v5'', 4963000), (Standard ''E64-32ads_v5'', 5149000), (Standard ''E64-32as_v4'', 4963000),
      (Standard ''E64-32as_v5'', 4480000), (Standard ''E64-32ds_v4'', 5632000), (Standard ''E64-32ds_v5'', 5632000),
      (Standard ''E64-32s_v3'', 4963000), (Standard ''E64-32s_v4'', 4963000), (Standard ''E64-32s_v5'', 4963000),
      (Standard ''E64_v3'', 4963000), (Standard ''E64_v4'', 4963000), (Standard ''E64_v5'', 4963000), (Standard ''E64a_v4'', 4963000),
      (Standard ''E64ads_v5'', 5149000), (Standard ''E64as_v4'', 4963000), (Standard ''E64as_v5'', 4480000),
      (Standard ''E64bds_v5'', 6592000), (Standard ''E64bs_v5'', 5920000), (Standard ''E64d_v4'', 5632000),
      (Standard ''E64d_v5'', 5632000), (Standard ''E64ds_v4'', 5632000), (Standard ''E64ds_v5'', 5632000), (Standard ''E64i_v3'', 4963000),
      (Standard ''E64is_v3'', 4963000), (Standard ''E64is_v4_SPECIAL'', 4963000), (Standard ''E64s_v3'', 4963000),
      (Standard ''E64s_v4'', 4963000)]"

definition qatarcentral_4 :: priceTable where
  "qatarcentral_4 =
     [(Standard ''E64s_v5'', 4963000), (Standard ''E8-2ads_v5'', 644000), (Standard ''E8-2as_v4'', 620000),
      (Standard ''E8-2as_v5'', 560000), (Standard ''E8-2ds_v4'', 704000), (Standard ''E8-2ds_v5'', 704000),
      (Standard ''E8-2s_v3'', 620000), (Standard ''E8-2s_v4'', 620000), (Standard ''E8-2s_v5'', 620000), (Standard ''E8-4ads_v5'', 644000),
      (Standard ''E8-4as_v4'', 620000), (Standard ''E8-4as_v5'', 560000), (Standard ''E8-4ds_v4'', 704000),
      (Standard ''E8-4ds_v5'', 704000), (Standard ''E8-4s_v3'', 620000), (Standard ''E8-4s_v4'', 620000), (Standard ''E8-4s_v5'', 620000),
      (Standard ''E80ids_v4'', 7040000), (Standard ''E80is_v4'', 6200000), (Standard ''E8_v3'', 620000), (Standard ''E8_v4'', 620000),
      (Standard ''E8_v5'', 620000), (Standard ''E8a_v4'', 620000), (Standard ''E8ads_v5'', 644000), (Standard ''E8as_v4'', 620000),
      (Standard ''E8as_v5'', 560000), (Standard ''E8bds_v5'', 824000), (Standard ''E8bs_v5'', 740000), (Standard ''E8d_v4'', 704000),
      (Standard ''E8d_v5'', 704000), (Standard ''E8ds_v4'', 704000), (Standard ''E8ds_v5'', 704000), (Standard ''E8s_v3'', 620000),
      (Standard ''E8s_v4'', 620000), (Standard ''E8s_v5'', 620000), (Standard ''E96-24ads_v5'', 7723000),
      (Standard ''E96-24as_v4'', 7445000), (Standard ''E96-24as_v5'', 6720000), (Standard ''E96-24ds_v5'', 8448000),
      (Standard ''E96-24s_v5'', 7445000), (Standard ''E96-48ads_v5'', 7723000), (Standard ''E96-48as_v4'', 7445000),
      (Standard ''E96-48as_v5'', 6720000), (Standard ''E96-48ds_v5'', 8448000), (Standard ''E96-48s_v5'', 7445000),
      (Standard ''E96_v5'', 7445000), (Standard ''E96a_v4'', 7445000), (Standard ''E96ads_v5'', 7723000), (Standard ''E96as_v4'', 7445000),
      (Standard ''E96as_v5'', 6720000), (Standard ''E96bds_v5'', 9888000), (Standard ''E96bs_v5'', 8880000),
      (Standard ''E96d_v5'', 8448000), (Standard ''E96ds_v5'', 8448000), (Standard ''E96iads_v5'', 8496000),
      (Standard ''E96ias_v4'', 7445000), (Standard ''E96ias_v5'', 7392000), (Standard ''E96s_v5'', 7445000), (Standard ''F1'', 59700),
      (Standard ''F16'', 955000), (Standard ''F16s'', 955000), (Standard ''F16s_v2'', 845000), (Standard ''F1s'', 59700),
      (Standard ''F2'', 119000), (Standard ''F2s'', 119000), (Standard ''F2s_v2'', 106000), (Standard ''F32s_v2'', 1688000),
      (Standard ''F4'', 239000), (Standard ''F48s_v2'', 2534000), (Standard ''F4s'', 239000), (Standard ''F4s_v2'', 211000),
      (Standard ''F64s_v2'', 3376000), (Standard ''F72s_v2'', 3802000), (Standard ''F8'', 478000), (Standard ''F8s'', 478000),
      (Standard ''F8s_v2'', 422000), (Standard ''HB120-16rs_v2'', 5148000), (Standard ''HB120-32rs_v2'', 5148000),
      (Standard ''HB120-64rs_v2'', 5148000), (Standard ''HB120-96rs_v2'', 5148000), (Standard ''HB120rs_v2'', 5148000),
      (Standard ''L16as_v3'', 1512000), (Standard ''L16s_v3'', 1688000), (Standard ''L32as_v3'', 3024000), (Standard ''L32s_v3'', 3376000),
      (Standard ''L48as_v3'', 4536000), (Standard ''L48s_v3'', 5064000), (Standard ''L64as_v3'', 6048000), (Standard ''L64s_v3'', 6752000),
      (Standard ''L80as_v3'', 7560000), (Standard ''L80s_v3'', 8440000), (Standard ''L8as_v3'', 756000), (Standard ''L8s_v3'', 844000),
      (Standard ''M128'', 17610000), (Standard ''M128-32ms'', 35230000), (Standard ''M128-64ms'', 35230000),
      (Standard ''M128dms_v2'', 35230000), (Standard ''M128ds_v2'', 17610000), (Standard ''M128m'', 35230000),
      (Standard ''M128ms'', 35230000), (Standard ''M128ms_v2'', 34680000), (Standard ''M128s'', 17610000),
      (Standard ''M128s_v2'', 17050000), (Standard ''M16-4ms'', 4060000), (Standard ''M16-8ms'', 4060000), (Standard ''M16ms'', 4060000),
      (Standard ''M16s'', 3150000), (Standard ''M192idms_v2'', 42320000), (Standard ''M192ids_v2'', 21160000),
      (Standard ''M192ims_v2'', 41770000), (Standard ''M192is_v2'', 20610000), (Standard ''M32-16ms'', 8110000),
      (Standard ''M32-8ms'', 8110000), (Standard ''M32dms_v2'', 8110000), (Standard ''M32ls'', 3540000), (Standard ''M32ms'', 8110000),
      (Standard ''M32ms_v2'', 7970000), (Standard ''M32s'', 4400000), (Standard ''M32ts'', 3330000), (Standard ''M64'', 8800000),
      (Standard ''M64-16ms'', 13650000), (Standard ''M64-32ms'', 13650000), (Standard ''M64dms_v2'', 13650000),
      (Standard ''M64ds_v2'', 8800000), (Standard ''M64ls'', 6660000), (Standard ''M64m'', 13650000), (Standard ''M64ms'', 13650000),
      (Standard ''M64ms_v2'', 13370000), (Standard ''M64s'', 8800000), (Standard ''M64s_v2'', 8530000), (Standard ''M8-2ms'', 2030000),
      (Standard ''M8-4ms'', 2030000), (Standard ''M8ms'', 2030000), (Standard ''NC12s_v3'', 8411000), (Standard ''NC24rs_v3'', 18503000),
      (Standard ''NC24s_v3'', 16821000), (Standard ''NC6s_v3'', 4205000), (Standard ''NV12ads_A10_v5'', 1298000),
      (Standard ''NV18ads_A10_v5'', 2288000), (Standard ''NV36adms_A10_v5'', 6464000), (Standard ''NV36ads_A10_v5'', 4576000),
      (Standard ''NV6ads_A10_v5'', 649000), (Standard ''NV72ads_A10_v5'', 9324000)]"

definition qatarcentral :: priceTable where
  "qatarcentral = qatarcentral_1 @ qatarcentral_2 @ qatarcentral_3 @ qatarcentral_4"

subsection \<open>southafricanorth\<close>

definition southafricanorth_1 :: priceTable where
  "southafricanorth_1 =
     [(''Dadsv5_Type1'', 8470000), (''Dasv4_Type1'', 6985000), (''Dasv4_Type2'', 6985000), (''Dasv5_Type1'', 7053000),
      (''Ddsv4_Type 1'', 5280000), (''Ddsv4_Type2'', 6270000), (''Ddsv5_Type1'', 7920000), (''Dsv3_Type3'', 5662000),
      (''Dsv3_Type4'', 7077000), (''Dsv4_Type1'', 5588000), (''Dsv4_Type2'', 6706000), (''Dsv5_Type1'', 6985000),
      (''Eadsv5_Type1'', 9134000), (''Easv4_Type1'', 8870000), (''Easv4_Type2'', 8870000), (''Easv5_Type1'', 7973000),
      (''Ebdsv5-Type1'', 7814000), (''Ebsv5-Type1'', 7040000), (''Edsv4_Type 1'', 6688000), (''Edsv4_Type2'', 8067000),
      (''Edsv5_Type1'', 10032000), (''Esv3_Type3'', 5758000), (''Esv3_Type4'', 7801000), (''Esv4_Type1'', 5913000),
      (''Esv4_Type2'', 7762000), (''Esv5_Type1'', 8870000), (''Fsv2 Type3'', 5267000), (''Fsv2_Type2'', 4510000),
      (''Fsv2_Type4'', 6019000), (''Lasv3_Type1'', 9020000), (''Lsv3_Type1'', 10076000), (''Mdsmv2MedMem _Type1'', 39341000),
      (''Mdsv2MedMem_Type1'', 19663000), (''Ms_Type1'', 19656000), (''Msm_Type1'', 39347000), (''Msmv2MedMem Type1'', 38721000),
      (''Msmv2_Type1'', 109060000), (''Msv2MedMem Type1'', 19043000), (''Msv2_Type1'', 54538000), (''NVsv3_Type1'', 6420000),
      (Standard ''A1_v2'', 48200), (Standard ''A2_v2'', 102000), (Standard ''A2m_v2'', 133000), (Standard ''A4_v2'', 213000),
      (Standard ''A4m_v2'', 279000), (Standard ''A8_v2'', 446000), (Standard ''A8m_v2'', 586000), (Standard ''B12ms'', 651000),
      (Standard ''B16als_v2'', 765000), (Standard ''B16as_v2'', 855000), (Standard ''B16ls_v2'', 769000), (Standard ''B16ms'', 868000),
      (Standard ''B16s_v2'', 868000), (Standard ''B1ls'', 6800), (Standard ''B1ms'', 27100), (Standard ''B1s'', 13600),
      (Standard ''B20ms'', 1085000), (Standard ''B2als_v2'', 48800), (Standard ''B2as_v2'', 97700), (Standard ''B2ats_v2'', 21400),
      (Standard ''B2ls_v2'', 63500), (Standard ''B2ms'', 108000), (Standard ''B2s'', 54200), (Standard ''B2s_v2'', 109000),
      (Standard ''B2ts_v2'', 13600), (Standard ''B32als_v2'', 1531000), (Standard ''B32as_v2'', 1710000), (Standard ''B32ls_v2'', 1684000),
      (Standard ''B32s_v2'', 1736000), (Standard ''B4als_v2'', 191000), (Standard ''B4as_v2'', 195000), (Standard ''B4ls_v2'', 211000),
      (Standard ''B4ms'', 217000), (Standard ''B4s_v2'', 217000), (Standard ''B8als_v2'', 383000), (Standard ''B8as_v2'', 427000),
      (Standard ''B8ls_v2'', 421000), (Standard ''B8ms'', 434000), (Standard ''B8s_v2'', 471000), (Standard ''D1'', 89800),
      (Standard ''D11'', 232000), (Standard ''D11_v2'', 200000), (Standard ''D12'', 465000), (Standard ''D12_v2'', 401000),
      (Standard ''D13'', 930000), (Standard ''D13_v2'', 801000), (Standard ''D14'', 1859000), (Standard ''D14_v2'', 1603000),
      (Standard ''D15_v2'', 2003000), (Standard ''D15i_v2'', 2003000), (Standard ''D16_v3'', 1016000), (Standard ''D16_v4'', 1016000),
      (Standard ''D16_v5'', 1016000), (Standard ''D16a_v4'', 1016000), (Standard ''D16ads_v5'', 1100000), (Standard ''D16as_v4'', 1016000),
      (Standard ''D16as_v5'', 916000), (Standard ''D16as_v5_Promo'', 816000), (Standard ''D16d_v4'', 1200000),
      (Standard ''D16d_v5'', 1200000), (Standard ''D16ds_v4'', 1200000), (Standard ''D16ds_v5'', 1200000),
      (Standard ''D16lds_v5'', 1040000), (Standard ''D16ls_v5'', 912000), (Standard ''D16s_v3'', 1016000), (Standard ''D16s_v4'', 1016000),
      (Standard ''D16s_v5'', 1016000), (Standard ''D1_v2'', 76700), (Standard ''D2'', 180000), (Standard ''D2_v2'', 153000),
      (Standard ''D2_v3'', 127000), (Standard ''D2_v4'', 127000), (Standard ''D2_v5'', 127000), (Standard ''D2a_v4'', 127000),
      (Standard ''D2ads_v5'', 138000), (Standard ''D2as_v4'', 127000), (Standard ''D2as_v5'', 115000),
      (Standard ''D2as_v5_Promo'', 102000), (Standard ''D2d_v4'', 150000), (Standard ''D2d_v5'', 150000), (Standard ''D2ds_v4'', 150000),
      (Standard ''D2ds_v5'', 150000), (Standard ''D2lds_v5'', 130000), (Standard ''D2ls_v5'', 114000), (Standard ''D2s_v3'', 127000),
      (Standard ''D2s_v4'', 127000), (Standard ''D2s_v5'', 127000), (Standard ''D3'', 359000), (Standard ''D32-16s_v3'', 2032000),
      (Standard ''D32-8s_v3'', 2032000), (Standard ''D32_v3'', 2032000), (Standard ''D32_v4'', 2032000), (Standard ''D32_v5'', 2032000),
      (Standard ''D32a_v4'', 2032000), (Standard ''D32ads_v5'', 2200000), (Standard ''D32as_v4'', 2032000),
      (Standard ''D32as_v5'', 1832000), (Standard ''D32as_v5_Promo'', 1632000), (Standard ''D32d_v4'', 2400000),
      (Standard ''D32d_v5'', 2400000), (Standard ''D32ds_v4'', 2400000), (Standard ''D32ds_v5'', 2400000),
      (Standard ''D32lds_v5'', 2080000), (Standard ''D32ls_v5'', 1824000), (Standard ''D32s_v3'', 2032000),
      (Standard ''D32s_v4'', 2032000), (Standard ''D32s_v5'', 2032000), (Standard ''D3_v2'', 307000), (Standard ''D4'', 718000)]"

definition southafricanorth_2 :: priceTable where
  "southafricanorth_2 =
     [(Standard ''D48_v3'', 3048000), (Standard ''D48_v4'', 3048000), (Standard ''D48_v5'', 3048000), (Standard ''D48a_v4'', 3048000),
      (Standard ''D48ads_v5'', 3300000), (Standard ''D48as_v4'', 3048000), (Standard ''D48as_v5'', 2748000),
      (Standard ''D48as_v5_Promo'', 2448000), (Standard ''D48d_v4'', 3600000), (Standard ''D48d_v5'', 3600000),
      (Standard ''D48ds_v4'', 3600000), (Standard ''D48ds_v5'', 3600000), (Standard ''D48lds_v5'', 3120000),
      (Standard ''D48ls_v5'', 2736000), (Standard ''D48s_v3'', 3048000), (Standard ''D48s_v4'', 3048000), (Standard ''D48s_v5'', 3048000),
      (Standard ''D4_v2'', 614000), (Standard ''D4_v3'', 254000), (Standard ''D4_v4'', 254000), (Standard ''D4_v5'', 254000),
      (Standard ''D4a_v4'', 254000), (Standard ''D4ads_v5'', 275000), (Standard ''D4as_v4'', 254000), (Standard ''D4as_v5'', 229000),
      (Standard ''D4as_v5_Promo'', 204000), (Standard ''D4d_v4'', 300000), (Standard ''D4d_v5'', 300000), (Standard ''D4ds_v4'', 300000),
      (Standard ''D4ds_v5'', 300000), (Standard ''D4lds_v5'', 260000), (Standard ''D4ls_v5'', 228000), (Standard ''D4s_v3'', 254000),
      (Standard ''D4s_v4'', 254000), (Standard ''D4s_v5'', 254000), (Standard ''D5_v2'', 1227000), (Standard ''D64-16s_v3'', 4064000),
      (Standard ''D64-32s_v3'', 4064000), (Standard ''D64_v3'', 4064000), (Standard ''D64_v4'', 4064000), (Standard ''D64_v5'', 4064000),
      (Standard ''D64a_v4'', 4064000), (Standard ''D64ads_v5'', 4400000), (Standard ''D64as_v4'', 4064000),
      (Standard ''D64as_v5'', 3664000), (Standard ''D64as_v5_Promo'', 3264000), (Standard ''D64d_v4'', 4800000),
      (Standard ''D64d_v5'', 4800000), (Standard ''D64ds_v4'', 4800000), (Standard ''D64ds_v5'', 4800000),
      (Standard ''D64lds_v5'', 4160000), (Standard ''D64ls_v5'', 3648000), (Standard ''D64s_v3'', 4064000),
      (Standard ''D64s_v4'', 4064000), (Standard ''D64s_v5'', 4064000), (Standard ''D8_v3'', 508000), (Standard ''D8_v4'', 508000),
      (Standard ''D8_v5'', 508000), (Standard ''D8a_v4'', 508000), (Standard ''D8ads_v5'', 550000), (Standard ''D8as_v4'', 508000),
      (Standard ''D8as_v5'', 458000), (Standard ''D8as_v5_Promo'', 408000), (Standard ''D8d_v4'', 600000), (Standard ''D8d_v5'', 600000),
      (Standard ''D8ds_v4'', 600000), (Standard ''D8ds_v5'', 600000), (Standard ''D8lds_v5'', 520000), (Standard ''D8ls_v5'', 456000),
      (Standard ''D8s_v3'', 508000), (Standard ''D8s_v4'', 508000), (Standard ''D8s_v5'', 508000), (Standard ''D96_v5'', 6096000),
      (Standard ''D96a_v4'', 6096000), (Standard ''D96ads_v5'', 6600000), (Standard ''D96as_v4'', 6096000),
      (Standard ''D96as_v5'', 5496000), (Standard ''D96as_v5_Promo'', 4896000), (Standard ''D96d_v5'', 7200000),
      (Standard ''D96ds_v5'', 7200000), (Standard ''D96lds_v5'', 6240000), (Standard ''D96ls_v5'', 5472000),
      (Standard ''D96s_v5'', 6096000), (Standard ''DS1'', 89800), (Standard ''DS11'', 232000), (Standard ''DS11-1_v2'', 200000),
      (Standard ''DS11_v2'', 200000), (Standard ''DS11_v2_Promo'', 0), (Standard ''DS12'', 465000), (Standard ''DS12-1_v2'', 401000),
      (Standard ''DS12-2_v2'', 401000), (Standard ''DS12_v2'', 401000), (Standard ''DS12_v2_Promo'', 0), (Standard ''DS13'', 930000),
      (Standard ''DS13-2_v2'', 801000), (Standard ''DS13-4_v2'', 801000), (Standard ''DS13_v2'', 801000), (Standard ''DS13_v2_Promo'', 0),
      (Standard ''DS14'', 1859000), (Standard ''DS14-4_v2'', 1603000), (Standard ''DS14-8_v2'', 1603000), (Standard ''DS14_v2'', 1603000),
      (Standard ''DS14_v2_Promo'', 0), (Standard ''DS15_v2'', 2003000), (Standard ''DS15i_v2'', 2003000), (Standard ''DS1_v2'', 76700),
      (Standard ''DS2'', 180000), (Standard ''DS2_v2'', 153000), (Standard ''DS2_v2_Promo'', 0), (Standard ''DS3'', 359000),
      (Standard ''DS3_v2'', 307000), (Standard ''DS3_v2_Promo'', 0), (Standard ''DS4'', 718000), (Standard ''DS4_v2'', 614000),
      (Standard ''DS4_v2_Promo'', 0), (Standard ''DS5_v2'', 1227000), (Standard ''DS5_v2_Promo'', 0), (Standard ''E104i_v5'', 9610000),
      (Standard ''E104id_v5'', 10868000), (Standard ''E104ids_v5'', 10868000), (Standard ''E104is_v5'', 9610000),
      (Standard ''E112iads_v5'', 10657000), (Standard ''E112ias_v5'', 9302000), (Standard ''E112ibds_v5'', 13675000),
      (Standard ''E112ibs_v5'', 12320000), (Standard ''E16-4ads_v5'', 1384000), (Standard ''E16-4as_v4'', 1344000),
      (Standard ''E16-4as_v5'', 1208000), (Standard ''E16-4ds_v4'', 1520000), (Standard ''E16-4ds_v5'', 1520000),
      (Standard ''E16-4s_v3'', 1344000), (Standard ''E16-4s_v4'', 1344000), (Standard ''E16-4s_v5'', 1344000),
      (Standard ''E16-8ads_v5'', 1384000), (Standard ''E16-8as_v4'', 1344000), (Standard ''E16-8as_v5'', 1208000),
      (Standard ''E16-8ds_v4'', 1520000), (Standard ''E16-8ds_v5'', 1520000), (Standard ''E16-8s_v3'', 1344000),
      (Standard ''E16-8s_v4'', 1344000), (Standard ''E16-8s_v5'', 1344000), (Standard ''E16_v3'', 1344000), (Standard ''E16_v4'', 1344000),
      (Standard ''E16_v5'', 1344000), (Standard ''E16a_v4'', 1344000), (Standard ''E16ads_v5'', 1384000), (Standard ''E16as_v4'', 1344000),
      (Standard ''E16as_v5'', 1208000), (Standard ''E16bds_v5'', 1776000)]"

definition southafricanorth_3 :: priceTable where
  "southafricanorth_3 =
     [(Standard ''E16bs_v5'', 1600000), (Standard ''E16d_v4'', 1520000), (Standard ''E16d_v5'', 1520000), (Standard ''E16ds_v4'', 1520000),
      (Standard ''E16ds_v5'', 1520000), (Standard ''E16s_v3'', 1344000), (Standard ''E16s_v4'', 1344000), (Standard ''E16s_v5'', 1344000),
      (Standard ''E20_v3'', 1680000), (Standard ''E20_v4'', 1680000), (Standard ''E20_v5'', 1680000), (Standard ''E20a_v4'', 1680000),
      (Standard ''E20ads_v5'', 1730000), (Standard ''E20as_v4'', 1680000), (Standard ''E20as_v5'', 1510000),
      (Standard ''E20d_v4'', 1900000), (Standard ''E20d_v5'', 1900000), (Standard ''E20ds_v4'', 1900000), (Standard ''E20ds_v5'', 1900000),
      (Standard ''E20s_v3'', 1680000), (Standard ''E20s_v4'', 1680000), (Standard ''E20s_v5'', 1680000), (Standard ''E2_v3'', 168000),
      (Standard ''E2_v4'', 168000), (Standard ''E2_v5'', 168000), (Standard ''E2a_v4'', 168000), (Standard ''E2ads_v5'', 173000),
      (Standard ''E2as_v4'', 168000), (Standard ''E2as_v5'', 151000), (Standard ''E2bds_v5'', 222000), (Standard ''E2bs_v5'', 200000),
      (Standard ''E2d_v4'', 190000), (Standard ''E2d_v5'', 190000), (Standard ''E2ds_v4'', 190000), (Standard ''E2ds_v5'', 190000),
      (Standard ''E2s_v3'', 168000), (Standard ''E2s_v4'', 168000), (Standard ''E2s_v5'', 168000), (Standard ''E32-16ads_v5'', 2768000),
      (Standard ''E32-16as_v4'', 2688000), (Standard ''E32-16as_v5'', 2416000), (Standard ''E32-16ds_v4'', 3040000),
      (Standard ''E32-16ds_v5'', 3040000), (Standard ''E32-16s_v3'', 2688000), (Standard ''E32-16s_v4'', 2688000),
      (Standard ''E32-16s_v5'', 2688000), (Standard ''E32-8ads_v5'', 2768000), (Standard ''E32-8as_v4'', 2688000),
      (Standard ''E32-8as_v5'', 2416000), (Standard ''E32-8ds_v4'', 3040000), (Standard ''E32-8ds_v5'', 3040000),
      (Standard ''E32-8s_v3'', 2688000), (Standard ''E32-8s_v4'', 2688000), (Standard ''E32-8s_v5'', 2688000),
      (Standard ''E32_v3'', 2688000), (Standard ''E32_v4'', 2688000), (Standard ''E32_v5'', 2688000), (Standard ''E32a_v4'', 2688000),
      (Standard ''E32ads_v5'', 2768000), (Standard ''E32as_v4'', 2688000), (Standard ''E32as_v5'', 2416000),
      (Standard ''E32bds_v5'', 3552000), (Standard ''E32bs_v5'', 3200000), (Standard ''E32d_v4'', 3040000),
      (Standard ''E32d_v5'', 3040000), (Standard ''E32ds_v4'', 3040000), (Standard ''E32ds_v5'', 3040000), (Standard ''E32s_v3'', 2688000),
      (Standard ''E32s_v4'', 2688000), (Standard ''E32s_v5'', 2688000), (Standard ''E4-2ads_v5'', 346000),
      (Standard ''E4-2as_v4'', 336000), (Standard ''E4-2as_v5'', 302000), (Standard ''E4-2ds_v4'', 380000),
      (Standard ''E4-2ds_v5'', 380000), (Standard ''E4-2s_v3'', 336000), (Standard ''E4-2s_v4'', 336000), (Standard ''E4-2s_v5'', 336000),
      (Standard ''E48_v3'', 4032000), (Standard ''E48_v4'', 4032000), (Standard ''E48_v5'', 4032000), (Standard ''E48a_v4'', 4032000),
      (Standard ''E48ads_v5'', 4152000), (Standard ''E48as_v4'', 4032000), (Standard ''E48as_v5'', 3624000),
      (Standard ''E48bds_v5'', 5328000), (Standard ''E48bs_v5'', 4800000), (Standard ''E48d_v4'', 4560000),
      (Standard ''E48d_v5'', 4560000), (Standard ''E48ds_v4'', 4560000), (Standard ''E48ds_v5'', 4560000), (Standard ''E48s_v3'', 4032000),
      (Standard ''E48s_v4'', 4032000), (Standard ''E48s_v5'', 4032000), (Standard ''E4_v3'', 336000), (Standard ''E4_v4'', 336000),
      (Standard ''E4_v5'', 336000), (Standard ''E4a_v4'', 336000), (Standard ''E4ads_v5'', 346000), (Standard ''E4as_v4'', 336000),
      (Standard ''E4as_v5'', 302000), (Standard ''E4bds_v5'', 444000), (Standard ''E4bs_v5'', 400000), (Standard ''E4d_v4'', 380000),
      (Standard ''E4d_v5'', 380000), (Standard ''E4ds_v4'', 380000), (Standard ''E4ds_v5'', 380000), (Standard ''E4s_v3'', 336000),
      (Standard ''E4s_v4'', 336000), (Standard ''E4s_v5'', 336000), (Standard ''E64-16ads_v5'', 5536000),
      (Standard ''E64-16as_v4'', 5376000), (Standard ''E64-16as_v5'', 4832000), (Standard ''E64-16ds_v4'', 6080000),
      (Standard ''E64-16ds_v5'', 6080000), (Standard ''E64-16s_v3'', 4863000), (Standard ''E64-16s_v4'', 5376000),
      (Standard ''E64-16s_v5'', 5376000), (Standard ''E64-32ads_v5'', 5536000), (Standard ''E64-32as_v4'', 5376000),
      (Standard ''E64-32as_v5'', 4832000), (Standard ''E64-32ds_v4'', 6080000), (Standard ''E64-32ds_v5'', 6080000),
      (Standard ''E64-32s_v3'', 4863000), (Standard ''E64-32s_v4'', 5376000), (Standard ''E64-32s_v5'', 5376000),
      (Standard ''E64_v3'', 4863000), (Standard ''E64_v4'', 5376000), (Standard ''E64_v5'', 5376000), (Standard ''E64a_v4'', 5376000),
      (Standard ''E64ads_v5'', 5536000), (Standard ''E64as_v4'', 5376000), (Standard ''E64as_v5'', 4832000),
      (Standard ''E64bds_v5'', 7104000), (Standard ''E64bs_v5'', 6400000), (Standard ''E64d_v4'', 6080000),
      (Standard ''E64d_v5'', 6080000), (Standard ''E64ds_v4'', 6080000), (Standard ''E64ds_v5'', 6080000), (Standard ''E64i_v3'', 4863000),
      (Standard ''E64is_v3'', 4863000), (Standard ''E64s_v3'', 4863000), (Standard ''E64s_v4'', 5376000), (Standard ''E64s_v5'', 5376000),
      (Standard ''E8-2ads_v5'', 692000), (Standard ''E8-2as_v4'', 672000), (Standard ''E8-2as_v5'', 604000),
      (Standard ''E8-2ds_v4'', 760000), (Standard ''E8-2ds_v5'', 760000)]"

definition southafricanorth_4 :: priceTable where
  "southafricanorth_4 =
     [(Standard ''E8-2s_v3'', 672000), (Standard ''E8-2s_v4'', 672000), (Standard ''E8-2s_v5'', 672000), (Standard ''E8-4ads_v5'', 692000),
      (Standard ''E8-4as_v4'', 672000), (Standard ''E8-4as_v5'', 604000), (Standard ''E8-4ds_v4'', 760000),
      (Standard ''E8-4ds_v5'', 760000), (Standard ''E8-4s_v3'', 672000), (Standard ''E8-4s_v4'', 672000), (Standard ''E8-4s_v5'', 672000),
      (Standard ''E80ids_v4'', 7600000), (Standard ''E80is_v4'', 6720000), (Standard ''E8_v3'', 672000), (Standard ''E8_v4'', 672000),
      (Standard ''E8_v5'', 672000), (Standard ''E8a_v4'', 672000), (Standard ''E8ads_v5'', 692000), (Standard ''E8as_v4'', 672000),
      (Standard ''E8as_v5'', 604000), (Standard ''E8bds_v5'', 888000), (Standard ''E8bs_v5'', 800000), (Standard ''E8d_v4'', 760000),
      (Standard ''E8d_v5'', 760000), (Standard ''E8ds_v4'', 760000), (Standard ''E8ds_v5'', 760000), (Standard ''E8s_v3'', 672000),
      (Standard ''E8s_v4'', 672000), (Standard ''E8s_v5'', 672000), (Standard ''E96-24ads_v5'', 8304000),
      (Standard ''E96-24as_v4'', 8064000), (Standard ''E96-24as_v5'', 7248000), (Standard ''E96-24ds_v5'', 9120000),
      (Standard ''E96-24s_v5'', 8064000), (Standard ''E96-48ads_v5'', 8304000), (Standard ''E96-48as_v4'', 8064000),
      (Standard ''E96-48as_v5'', 7248000), (Standard ''E96-48ds_v5'', 9120000), (Standard ''E96-48s_v5'', 8064000),
      (Standard ''E96_v5'', 8064000), (Standard ''E96a_v4'', 8064000), (Standard ''E96ads_v5'', 8304000), (Standard ''E96as_v4'', 8064000),
      (Standard ''E96as_v5'', 7248000), (Standard ''E96bds_v5'', 10656000), (Standard ''E96bs_v5'', 9600000),
      (Standard ''E96d_v5'', 9120000), (Standard ''E96ds_v5'', 9120000), (Standard ''E96iads_v5'', 9134000),
      (Standard ''E96ias_v4'', 8064000), (Standard ''E96ias_v5'', 7973000), (Standard ''E96s_v5'', 8064000), (Standard ''F1'', 66700),
      (Standard ''F16'', 1066000), (Standard ''F16s'', 1066000), (Standard ''F16s_v2'', 911000), (Standard ''F1s'', 66700),
      (Standard ''F2'', 133000), (Standard ''F2s'', 133000), (Standard ''F2s_v2'', 114000), (Standard ''F32s_v2'', 1822000),
      (Standard ''F4'', 267000), (Standard ''F48s_v2'', 2734000), (Standard ''F4s'', 267000), (Standard ''F4s_v2'', 228000),
      (Standard ''F64s_v2'', 3645000), (Standard ''F72s_v2'', 4100000), (Standard ''F8'', 533000), (Standard ''F8s'', 533000),
      (Standard ''F8s_v2'', 456000), (Standard ''L16as_v3'', 1640000), (Standard ''L16s_v3'', 1832000), (Standard ''L32as_v3'', 3280000),
      (Standard ''L32s_v3'', 3664000), (Standard ''L48as_v3'', 4920000), (Standard ''L48s_v3'', 5496000), (Standard ''L64as_v3'', 6560000),
      (Standard ''L64s_v3'', 7328000), (Standard ''L80as_v3'', 8200000), (Standard ''L80s_v3'', 9160000), (Standard ''L8as_v3'', 820000),
      (Standard ''L8s_v3'', 916000), (Standard ''M128'', 17873000), (Standard ''M128-32ms'', 35762000), (Standard ''M128-64ms'', 35762000),
      (Standard ''M128dms_v2'', 35767000), (Standard ''M128ds_v2'', 17877000), (Standard ''M128m'', 35762000),
      (Standard ''M128ms'', 35762000), (Standard ''M128ms_v2'', 35203000), (Standard ''M128s'', 17873000),
      (Standard ''M128s_v2'', 17313000), (Standard ''M16-4ms'', 4118000), (Standard ''M16-8ms'', 4118000), (Standard ''M16ms'', 4118000),
      (Standard ''M16s'', 3199000), (Standard ''M192idms_v2'', 42969000), (Standard ''M192ids_v2'', 21484000),
      (Standard ''M192ims_v2'', 42405000), (Standard ''M192is_v2'', 20920000), (Standard ''M208-104ms_v2'', 59791000),
      (Standard ''M208-104s_v2'', 29895000), (Standard ''M208-52ms_v2'', 59791000), (Standard ''M208-52s_v2'', 29895000),
      (Standard ''M208ms_v2'', 59791000), (Standard ''M208s_v2'', 29895000), (Standard ''M32-16ms'', 8236000),
      (Standard ''M32-8ms'', 8236000), (Standard ''M32dms_v2'', 8236000), (Standard ''M32ls'', 3829709), (Standard ''M32ms'', 8236000),
      (Standard ''M32ms_v2'', 8095000), (Standard ''M32s'', 4469000), (Standard ''M32ts'', 3608431),
      (Standard ''M416-104ms_v2'', 132860000), (Standard ''M416-104s_v2'', 66437000), (Standard ''M416-208ms_v2'', 132860000),
      (Standard ''M416-208s_v2'', 66437000), (Standard ''M416is_v2'', 66437000), (Standard ''M416ms_v2'', 132860000),
      (Standard ''M416s_8_v2'', 96520000), (Standard ''M416s_v2'', 66437000), (Standard ''M64'', 8936000),
      (Standard ''M64-16ms'', 13852000), (Standard ''M64-32ms'', 13852000), (Standard ''M64dms_v2'', 13857000),
      (Standard ''M64ds_v2'', 8937000), (Standard ''M64ls'', 7218195), (Standard ''M64m'', 13852000), (Standard ''M64ms'', 13852000),
      (Standard ''M64ms_v2'', 13575000), (Standard ''M64s'', 8936000), (Standard ''M64s_v2'', 8655000), (Standard ''M8-2ms'', 2059000),
      (Standard ''M8-4ms'', 2059000), (Standard ''M8ms'', 2059000), (Standard ''ND96ams_A100_v4'', 47844000),
      (Standard ''ND96amsr_A100_v4'', 47844000), (Standard ''NV12ads_A10_v5'', 1326000), (Standard ''NV12s_v3'', 1460000),
      (Standard ''NV18ads_A10_v5'', 2336000), (Standard ''NV24s_v3'', 2921000), (Standard ''NV36adms_A10_v5'', 6599000),
      (Standard ''NV36ads_A10_v5'', 4672000), (Standard ''NV48s_v3'', 5841000), (Standard ''NV6ads_A10_v5'', 663000),
      (Standard ''NV72ads_A10_v5'', 9519000)]"

definition southafricanorth :: priceTable where
  "southafricanorth = southafricanorth_1 @ southafricanorth_2 @ southafricanorth_3 @ southafricanorth_4"

subsection \<open>southafricawest\<close>

definition southafricawest_1 :: priceTable where
  "southafricawest_1 =
     [(''Dadsv5_Type1'', 11011000), (''Dasv4_Type2'', 9080000), (''Ddsv5_Type1'', 10296000), (''Dsv3_Type3'', 7098000),
      (''Eadsv5_Type1'', 11875000), (''Easv4_Type1'', 11532000), (''Easv4_Type2'', 11532000), (''Easv5_Type1'', 10365000),
      (''Ebdsv5-Type1'', 10159000), (''Ebsv5-Type1'', 9152000), (''Edsv5_Type1'', 13042000), (''Esv5_Type1'', 11532000),
      (''Fsv2_Type2'', 5655000), (''Lasv3_Type1'', 11726000), (Standard ''A1_v2'', 60500), (Standard ''A2m_v2'', 166000),
      (Standard ''A4_v2'', 267000), (Standard ''A8m_v2'', 734000), (Standard ''B16als_v2'', 973000), (Standard ''B16as_v2'', 1016000),
      (Standard ''B16ls_v2'', 999000), (Standard ''B16ms'', 1085000), (Standard ''B16s_v2'', 1202000), (Standard ''B1ls'', 8500),
      (Standard ''B2als_v2'', 63500), (Standard ''B2ats_v2'', 15900), (Standard ''B2ls_v2'', 79700), (Standard ''B2ms'', 135625),
      (Standard ''B2s_v2'', 141000), (Standard ''B2ts_v2'', 26800), (Standard ''B32als_v2'', 1946000), (Standard ''B32as_v2'', 2031000),
      (Standard ''B32s_v2'', 2257000), (Standard ''B4als_v2'', 225000), (Standard ''B4as_v2'', 254000), (Standard ''B4ls_v2'', 250000),
      (Standard ''B4ms'', 271250), (Standard ''B8als_v2'', 487000), (Standard ''B8ls_v2'', 500000), (Standard ''B8ms'', 542375),
      (Standard ''B8s_v2'', 564000), (Standard ''D1'', 113000), (Standard ''D11'', 291000), (Standard ''D12'', 583000),
      (Standard ''D12_v2'', 502000), (Standard ''D13'', 1165000), (Standard ''D14'', 2331000), (Standard ''D14_v2'', 2009000),
      (Standard ''D15_v2'', 2512000), (Standard ''D15i_v2'', 2512000), (Standard ''D16a_v4'', 1321000), (Standard ''D16ads_v5'', 1430000),
      (Standard ''D16as_v5'', 1191000), (Standard ''D16d_v5'', 1560000), (Standard ''D16ds_v5'', 1560000),
      (Standard ''D16ls_v5'', 1186000), (Standard ''D16s_v3'', 1270000), (Standard ''D16s_v4'', 1344000), (Standard ''D16s_v5'', 1321000),
      (Standard ''D1_v2'', 96200), (Standard ''D2_v3'', 158750), (Standard ''D2_v4'', 168000), (Standard ''D2_v5'', 165000),
      (Standard ''D2a_v4'', 165000), (Standard ''D2as_v4'', 165000), (Standard ''D2as_v5'', 149000), (Standard ''D2d_v4'', 198000),
      (Standard ''D2ds_v4'', 198000), (Standard ''D2ds_v5'', 195000), (Standard ''D2lds_v5'', 169000), (Standard ''D2ls_v5'', 148000),
      (Standard ''D2s_v3'', 158750), (Standard ''D2s_v4'', 168000), (Standard ''D2s_v5'', 165000), (Standard ''D32-16s_v3'', 2540000),
      (Standard ''D32-8s_v3'', 2540000), (Standard ''D32_v4'', 2688000), (Standard ''D32a_v4'', 2642000),
      (Standard ''D32ads_v5'', 2860000), (Standard ''D32as_v4'', 2642000), (Standard ''D32as_v5'', 2382000),
      (Standard ''D32d_v5'', 3120000), (Standard ''D32ds_v4'', 3164000), (Standard ''D32ds_v5'', 3120000),
      (Standard ''D32lds_v5'', 2704000), (Standard ''D32s_v3'', 2540000), (Standard ''D32s_v4'', 2688000), (Standard ''D4'', 900000),
      (Standard ''D48_v3'', 3810000), (Standard ''D48_v4'', 4032000), (Standard ''D48ads_v5'', 4290000), (Standard ''D48d_v4'', 4746000),
      (Standard ''D48d_v5'', 4680000), (Standard ''D48ds_v4'', 4746000), (Standard ''D48ls_v5'', 3557000), (Standard ''D48s_v3'', 3810000),
      (Standard ''D48s_v5'', 3962000), (Standard ''D4_v2'', 769000), (Standard ''D4_v3'', 317500), (Standard ''D4_v4'', 336000),
      (Standard ''D4_v5'', 330000), (Standard ''D4a_v4'', 330000), (Standard ''D4ads_v5'', 358000), (Standard ''D4as_v4'', 330000),
      (Standard ''D4d_v5'', 390000), (Standard ''D4ds_v4'', 396000), (Standard ''D4lds_v5'', 338000), (Standard ''D4s_v4'', 336000),
      (Standard ''D4s_v5'', 330000), (Standard ''D5_v2'', 1539000), (Standard ''D64_v3'', 5080000), (Standard ''D64_v4'', 5376000),
      (Standard ''D64_v5'', 5283000), (Standard ''D64a_v4'', 5283000), (Standard ''D64ads_v5'', 5720000), (Standard ''D64as_v4'', 5283000),
      (Standard ''D64ds_v4'', 6328000), (Standard ''D64ds_v5'', 6240000), (Standard ''D64lds_v5'', 5408000),
      (Standard ''D64ls_v5'', 4742000), (Standard ''D64s_v4'', 5376000), (Standard ''D8_v3'', 635000), (Standard ''D8_v5'', 660000)]"

definition southafricawest_2 :: priceTable where
  "southafricawest_2 =
     [(Standard ''D8ads_v5'', 715000), (Standard ''D8as_v5'', 595000), (Standard ''D8d_v5'', 780000), (Standard ''D8ds_v4'', 791000),
      (Standard ''D8ls_v5'', 593000), (Standard ''D8s_v3'', 635000), (Standard ''D8s_v5'', 660000), (Standard ''D96a_v4'', 7925000),
      (Standard ''D96as_v5'', 7145000), (Standard ''D96d_v5'', 9360000), (Standard ''D96lds_v5'', 8112000), (Standard ''DS11'', 291000),
      (Standard ''DS11_v2'', 251000), (Standard ''DS11_v2_Promo'', 0), (Standard ''DS12-2_v2'', 502000), (Standard ''DS12_v2'', 502000),
      (Standard ''DS12_v2_Promo'', 0), (Standard ''DS13'', 1165000), (Standard ''DS13-2_v2'', 1005000), (Standard ''DS13-4_v2'', 1005000),
      (Standard ''DS13_v2'', 1005000), (Standard ''DS14'', 2331000), (Standard ''DS14-4_v2'', 2009000), (Standard ''DS14-8_v2'', 2009000),
      (Standard ''DS14_v2'', 2009000), (Standard ''DS15_v2'', 2512000), (Standard ''DS15i_v2'', 2512000), (Standard ''DS2_v2'', 192000),
      (Standard ''DS2_v2_Promo'', 0), (Standard ''DS3_v2'', 385000), (Standard ''DS3_v2_Promo'', 0), (Standard ''DS4'', 900000),
      (Standard ''DS4_v2_Promo'', 0), (Standard ''DS5_v2'', 1539000), (Standard ''DS5_v2_Promo'', 0), (Standard ''E104i_v5'', 12492000),
      (Standard ''E104id_v5'', 14128000), (Standard ''E104ids_v5'', 14128000), (Standard ''E104is_v5'', 12492000),
      (Standard ''E112iads_v5'', 13854000), (Standard ''E112ias_v5'', 12092000), (Standard ''E112ibds_v5'', 17778000),
      (Standard ''E112ibs_v5'', 16016000), (Standard ''E16-4ads_v5'', 1799000), (Standard ''E16-4as_v5'', 1570000),
      (Standard ''E16-4ds_v4'', 1935000), (Standard ''E16-4ds_v5'', 1976000), (Standard ''E16-4s_v3'', 1680000),
      (Standard ''E16-4s_v4'', 1693000), (Standard ''E16-4s_v5'', 1747000), (Standard ''E16-8ads_v5'', 1799000),
      (Standard ''E16-8as_v4'', 1747000), (Standard ''E16-8ds_v4'', 1935000), (Standard ''E16-8ds_v5'', 1976000),
      (Standard ''E16-8s_v3'', 1680000), (Standard ''E16-8s_v5'', 1747000), (Standard ''E16_v3'', 1680000), (Standard ''E16_v4'', 1693000),
      (Standard ''E16as_v5'', 1570000), (Standard ''E16bs_v5'', 2080000), (Standard ''E16d_v4'', 1935000),
      (Standard ''E16ds_v4'', 1935000), (Standard ''E16ds_v5'', 1976000), (Standard ''E16s_v4'', 1693000), (Standard ''E20_v3'', 2100000),
      (Standard ''E20_v4'', 2117000), (Standard ''E20_v5'', 2184000), (Standard ''E20a_v4'', 2184000), (Standard ''E20ads_v5'', 2249000),
      (Standard ''E20as_v4'', 2184000), (Standard ''E20as_v5'', 1963000), (Standard ''E20d_v4'', 2419000), (Standard ''E20d_v5'', 2470000),
      (Standard ''E20ds_v4'', 2419000), (Standard ''E20s_v3'', 2100000), (Standard ''E20s_v4'', 2117000), (Standard ''E2_v3'', 210000),
      (Standard ''E2_v4'', 212000), (Standard ''E2_v5'', 218000), (Standard ''E2a_v4'', 218000), (Standard ''E2as_v4'', 218000),
      (Standard ''E2bds_v5'', 289000), (Standard ''E2bs_v5'', 260000), (Standard ''E2d_v4'', 242000), (Standard ''E2d_v5'', 247000),
      (Standard ''E2ds_v4'', 242000), (Standard ''E2ds_v5'', 247000), (Standard ''E2s_v3'', 210000), (Standard ''E2s_v4'', 212000),
      (Standard ''E2s_v5'', 218000), (Standard ''E32-16as_v4'', 3494000), (Standard ''E32-16ds_v4'', 3871000),
      (Standard ''E32-16s_v3'', 3360000), (Standard ''E32-16s_v4'', 3387000), (Standard ''E32-16s_v5'', 3494000),
      (Standard ''E32-8ads_v5'', 3598000), (Standard ''E32-8as_v5'', 3141000), (Standard ''E32-8ds_v4'', 3871000),
      (Standard ''E32-8ds_v5'', 3952000), (Standard ''E32-8s_v3'', 3360000), (Standard ''E32-8s_v4'', 3387000),
      (Standard ''E32-8s_v5'', 3494000), (Standard ''E32_v3'', 3360000), (Standard ''E32_v4'', 3387000), (Standard ''E32_v5'', 3494000),
      (Standard ''E32a_v4'', 3494000), (Standard ''E32as_v4'', 3494000), (Standard ''E32bds_v5'', 4618000),
      (Standard ''E32d_v4'', 3871000), (Standard ''E32d_v5'', 3952000), (Standard ''E32ds_v4'', 3871000), (Standard ''E32ds_v5'', 3952000),
      (Standard ''E32s_v3'', 3360000), (Standard ''E32s_v4'', 3387000), (Standard ''E32s_v5'', 3494000), (Standard ''E4-2as_v4'', 437000),
      (Standard ''E4-2as_v5'', 393000), (Standard ''E4-2ds_v4'', 484000), (Standard ''E4-2ds_v5'', 494000),
      (Standard ''E4-2s_v3'', 420000), (Standard ''E4-2s_v4'', 423000), (Standard ''E4-2s_v5'', 437000), (Standard ''E48_v4'', 5080000)]"

definition southafricawest_3 :: priceTable where
  "southafricawest_3 =
     [(Standard ''E48_v5'', 5242000), (Standard ''E48a_v4'', 5242000), (Standard ''E48ads_v5'', 5398000), (Standard ''E48as_v4'', 5242000),
      (Standard ''E48as_v5'', 4711000), (Standard ''E48bs_v5'', 6240000), (Standard ''E48d_v4'', 5806000), (Standard ''E48d_v5'', 5928000),
      (Standard ''E48ds_v4'', 5806000), (Standard ''E48ds_v5'', 5928000), (Standard ''E48s_v4'', 5080000), (Standard ''E48s_v5'', 5242000),
      (Standard ''E4_v3'', 420000), (Standard ''E4ads_v5'', 450000), (Standard ''E4as_v4'', 437000), (Standard ''E4as_v5'', 393000),
      (Standard ''E4d_v4'', 484000), (Standard ''E4d_v5'', 494000), (Standard ''E4s_v3'', 420000), (Standard ''E4s_v5'', 437000),
      (Standard ''E64-16ads_v5'', 7197000), (Standard ''E64-16as_v4'', 6989000), (Standard ''E64-16as_v5'', 6282000),
      (Standard ''E64-16ds_v4'', 7741000), (Standard ''E64-16ds_v5'', 7904000), (Standard ''E64-16s_v3'', 6096000),
      (Standard ''E64-16s_v4'', 6774000), (Standard ''E64-16s_v5'', 6989000), (Standard ''E64-32as_v4'', 6989000),
      (Standard ''E64-32as_v5'', 6282000), (Standard ''E64-32ds_v5'', 7904000), (Standard ''E64-32s_v3'', 6096000),
      (Standard ''E64_v3'', 6096000), (Standard ''E64_v4'', 6774000), (Standard ''E64a_v4'', 6989000), (Standard ''E64ads_v5'', 7197000),
      (Standard ''E64as_v4'', 6989000), (Standard ''E64bds_v5'', 9235000), (Standard ''E64bs_v5'', 8320000),
      (Standard ''E64d_v4'', 7741000), (Standard ''E64i_v3'', 6096000), (Standard ''E8-2ads_v5'', 900000),
      (Standard ''E8-2as_v4'', 874000), (Standard ''E8-2as_v5'', 785000), (Standard ''E8-2ds_v4'', 968000),
      (Standard ''E8-2s_v3'', 840000), (Standard ''E8-2s_v4'', 847000), (Standard ''E8-2s_v5'', 874000), (Standard ''E8-4as_v4'', 874000),
      (Standard ''E8-4as_v5'', 785000), (Standard ''E8-4ds_v5'', 988000), (Standard ''E8-4s_v3'', 840000), (Standard ''E8-4s_v4'', 847000),
      (Standard ''E80ids_v4'', 9677000), (Standard ''E8_v3'', 840000), (Standard ''E8_v4'', 847000), (Standard ''E8_v5'', 874000),
      (Standard ''E8a_v4'', 874000), (Standard ''E8ads_v5'', 900000), (Standard ''E8as_v4'', 874000), (Standard ''E8as_v5'', 785000),
      (Standard ''E8bds_v5'', 1154000), (Standard ''E8bs_v5'', 1040000), (Standard ''E8d_v5'', 988000), (Standard ''E8s_v4'', 847000),
      (Standard ''E8s_v5'', 874000), (Standard ''E96-24ads_v5'', 10795000), (Standard ''E96-24as_v5'', 9422000),
      (Standard ''E96-24ds_v5'', 11856000), (Standard ''E96-24s_v5'', 10483000), (Standard ''E96-48as_v4'', 10483000),
      (Standard ''E96-48as_v5'', 9422000), (Standard ''E96a_v4'', 10483000), (Standard ''E96as_v4'', 10483000),
      (Standard ''E96as_v5'', 9422000), (Standard ''E96bds_v5'', 13853000), (Standard ''E96bs_v5'', 12480000),
      (Standard ''E96d_v5'', 11856000), (Standard ''E96ds_v5'', 11856000), (Standard ''E96iads_v5'', 11875000),
      (Standard ''E96ias_v4'', 10483000), (Standard ''E96s_v5'', 10483000), (Standard ''F16'', 1337000), (Standard ''F16s'', 1337000),
      (Standard ''F16s_v2'', 1140000), (Standard ''F2'', 167000), (Standard ''F2s'', 167000), (Standard ''F2s_v2'', 142500),
      (Standard ''F4'', 334000), (Standard ''F4s'', 334000), (Standard ''F4s_v2'', 285000), (Standard ''F72s_v2'', 5130000),
      (Standard ''F8s'', 669000), (Standard ''F8s_v2'', 570000), (Standard ''L16as_v3'', 2132000), (Standard ''L16s_v3'', 2382000),
      (Standard ''L32as_v3'', 4264000), (Standard ''L64as_v3'', 8528000), (Standard ''L80as_v3'', 10660000),
      (Standard ''L80s_v3'', 11908000), (Standard ''L8s_v3'', 1191000), (Standard ''M128'', 22408000), (Standard ''M128-64ms'', 44836000),
      (Standard ''M128ms'', 44836000), (Standard ''M16-4ms'', 5163000), (Standard ''M16-8ms'', 5163000), (Standard ''M16ms'', 5163000),
      (Standard ''M32-16ms'', 10325000), (Standard ''M32-8ms'', 10325000), (Standard ''M32ms'', 10325000), (Standard ''M32s'', 5603000),
      (Standard ''M32ts'', 4548000), (Standard ''M64'', 11204000), (Standard ''M64-16ms'', 17367000), (Standard ''M64-32ms'', 17367000),
      (Standard ''M64ls'', 9097000), (Standard ''M64ms'', 17367000), (Standard ''M64s'', 11204000), (Standard ''M8-2ms'', 2581000),
      (Standard ''M8-4ms'', 2581000), (Standard ''ND96ams_A100_v4'', 62197000), (Standard ''ND96amsr_A100_v4'', 62197000)]"

definition southafricawest :: priceTable where
  "southafricawest = southafricawest_1 @ southafricawest_2 @ southafricawest_3"

subsection \<open>southcentralus\<close>

definition southcentralus_1 :: priceTable where
  "southcentralus_1 =
     [(''Basic_A0'', 18000), (''Basic_A1'', 25000), (''Basic_A2'', 79000), (''Basic_A3'', 176000), (''Basic_A4'', 352000),
      (''DCdsv3 Type1'', 7160000), (''DCsv2 Type 1'', 1014000), (''DCsv3 Type1'', 6083000), (''Dadsv5_Type1'', 7614000),
      (''Dasv4_Type1'', 6083000), (''Dasv4_Type2'', 6083000), (''Dasv5_Type1'', 6357000), (''Ddsv4_Type 1'', 4773000),
      (''Ddsv4_Type2'', 5668000), (''Ddsv5_Type1'', 7160000), (''Dsv3_Type3'', 5069000), (''Dsv3_Type4'', 6336000),
      (''Dsv4_Type1'', 5069000), (''Dsv4_Type2'', 6336000), (''Dsv5_Type1'', 6336000), (''Eadsv5_Type1'', 8300000),
      (''Easv4_Type1'', 7983000), (''Easv4_Type2'', 7983000), (''Easv5_Type1'', 7160000), (''Ebdsv5-Type1'', 7054000),
      (''Ebsv5-Type1'', 6294000), (''Edsv4_Type 1'', 6083000), (''Edsv4_Type2'', 7223000), (''Edsv5_Type1'', 9124000),
      (''Esv3_Type3'', 4972000), (''Esv3_Type4'', 6736000), (''Esv4_Type1'', 5322000), (''Esv4_Type2'', 6985000),
      (''Esv5_Type1'', 7983000), (''FXmds Type1'', 5892000), (''Fsv2 Type3'', 5161000), (''Fsv2_Type2'', 4039000),
      (''Fsv2_Type4'', 5610000), (''Lsv2_Type1'', 8237000), (''Lsv3_Type1'', 9187000), (''Mdsmv2MedMem _Type1'', 35231000),
      (''Mdsv2MedMem_Type1'', 17609000), (''Ms_Type1'', 17603000), (''Msm_Type1'', 35236000), (''Msmv2MedMem Type1'', 34675000),
      (''Msmv2_Type1'', 130880000), (''Msv2MedMem Type1'', 17053000), (''Msv2_Type1'', 65446000), (''NDamsrA100v4_Type1'', 43256000),
      (''NDasrA100v4_Type1'', 35893000), (''NVasv4_Type1'', 8612000), (''NVsv3_Type1'', 6019000), (Standard ''A0'', 20000),
      (Standard ''A1'', 60000), (Standard ''A1_v2'', 43000), (Standard ''A2'', 120000), (Standard ''A2_v2'', 91000),
      (Standard ''A2m_v2'', 124000), (Standard ''A3'', 240000), (Standard ''A4'', 480000), (Standard ''A4_v2'', 191000),
      (Standard ''A4m_v2'', 248000), (Standard ''A5'', 220000), (Standard ''A6'', 440000), (Standard ''A7'', 880000),
      (Standard ''A8_v2'', 400000), (Standard ''A8m_v2'', 495000), (Standard ''B12ms'', 599000), (Standard ''B16als_v2'', 639000),
      (Standard ''B16as_v2'', 722000), (Standard ''B16ls_v2'', 781000), (Standard ''B16ms'', 799000), (Standard ''B16pls_v2'', 571000),
      (Standard ''B16ps_v2'', 645000), (Standard ''B16s_v2'', 872000), (Standard ''B1ls'', 6240), (Standard ''B1ms'', 25000),
      (Standard ''B1s'', 12500), (Standard ''B20ms'', 998000), (Standard ''B2als_v2'', 54300), (Standard ''B2as_v2'', 99400),
      (Standard ''B2ats_v2'', 11300), (Standard ''B2ls_v2'', 59100), (Standard ''B2ms'', 99800), (Standard ''B2pls_v2'', 49500),
      (Standard ''B2ps_v2'', 80600), (Standard ''B2pts_v2'', 10100), (Standard ''B2s'', 49900), (Standard ''B2s_v2'', 109000),
      (Standard ''B2ts_v2'', 21700), (Standard ''B32als_v2'', 1426000), (Standard ''B32as_v2'', 1444000), (Standard ''B32ls_v2'', 1415000),
      (Standard ''B32s_v2'', 1745000), (Standard ''B4als_v2'', 178000), (Standard ''B4as_v2'', 180000), (Standard ''B4ls_v2'', 195000),
      (Standard ''B4ms'', 200000), (Standard ''B4pls_v2'', 161000), (Standard ''B4ps_v2'', 180000), (Standard ''B4s_v2'', 218000),
      (Standard ''B8als_v2'', 320000), (Standard ''B8as_v2'', 361000), (Standard ''B8ls_v2'', 354000), (Standard ''B8ms'', 399000),
      (Standard ''B8pls_v2'', 322000), (Standard ''B8ps_v2'', 359000), (Standard ''B8s_v2'', 436000), (Standard ''D1'', 67000),
      (Standard ''D11'', 173000), (Standard ''D11_v2'', 166000), (Standard ''D11_v2_Promo'', 166000), (Standard ''D12'', 347000),
      (Standard ''D12_v2'', 332000), (Standard ''D12_v2_Promo'', 332000), (Standard ''D13'', 694000), (Standard ''D13_v2'', 665000),
      (Standard ''D13_v2_Promo'', 665000), (Standard ''D14'', 1387000), (Standard ''D14_v2'', 1330000),
      (Standard ''D14_v2_Promo'', 1330000), (Standard ''D15_v2'', 1662000), (Standard ''D15i_v2'', 1662000), (Standard ''D16_v3'', 880000),
      (Standard ''D16_v4'', 922000), (Standard ''D16_v5'', 922000), (Standard ''D16a_v4'', 922000), (Standard ''D16ads_v5'', 989000)]"

definition southcentralus_2 :: priceTable where
  "southcentralus_2 =
     [(Standard ''D16as_v4'', 922000), (Standard ''D16as_v5'', 826000), (Standard ''D16d_v4'', 1175000), (Standard ''D16d_v5'', 1085000),
      (Standard ''D16ds_v4'', 1175000), (Standard ''D16ds_v5'', 1085000), (Standard ''D16lds_v5'', 922000),
      (Standard ''D16ls_v5'', 816000), (Standard ''D16pds_v5'', 867000), (Standard ''D16plds_v5'', 737000),
      (Standard ''D16pls_v5'', 653000), (Standard ''D16ps_v5'', 739000), (Standard ''D16s_v3'', 880000), (Standard ''D16s_v4'', 922000),
      (Standard ''D16s_v5'', 922000), (Standard ''D1_v2'', 63600), (Standard ''D2'', 134000), (Standard ''D2_v2'', 127000),
      (Standard ''D2_v2_Promo'', 127000), (Standard ''D2_v3'', 110000), (Standard ''D2_v4'', 115000), (Standard ''D2_v5'', 115000),
      (Standard ''D2a_v4'', 115000), (Standard ''D2ads_v5'', 124000), (Standard ''D2as_v4'', 115000), (Standard ''D2as_v5'', 103000),
      (Standard ''D2d_v4'', 147000), (Standard ''D2d_v5'', 136000), (Standard ''D2ds_v4'', 147000), (Standard ''D2ds_v5'', 136000),
      (Standard ''D2lds_v5'', 115000), (Standard ''D2ls_v5'', 102000), (Standard ''D2pds_v5'', 108000), (Standard ''D2plds_v5'', 92200),
      (Standard ''D2pls_v5'', 81600), (Standard ''D2ps_v5'', 92400), (Standard ''D2s_v3'', 110000), (Standard ''D2s_v4'', 115000),
      (Standard ''D2s_v5'', 115000), (Standard ''D3'', 268000), (Standard ''D32-16s_v3'', 1760000), (Standard ''D32-8s_v3'', 1760000),
      (Standard ''D32_v3'', 1760000), (Standard ''D32_v4'', 1843000), (Standard ''D32_v5'', 1843000), (Standard ''D32a_v4'', 1843000),
      (Standard ''D32ads_v5'', 1978000), (Standard ''D32as_v4'', 1843000), (Standard ''D32as_v5'', 1651000),
      (Standard ''D32d_v4'', 2350000), (Standard ''D32d_v5'', 2170000), (Standard ''D32ds_v4'', 2350000), (Standard ''D32ds_v5'', 2170000),
      (Standard ''D32lds_v5'', 1843000), (Standard ''D32ls_v5'', 1632000), (Standard ''D32pds_v5'', 1734000),
      (Standard ''D32plds_v5'', 1475000), (Standard ''D32pls_v5'', 1306000), (Standard ''D32ps_v5'', 1478000),
      (Standard ''D32s_v3'', 1760000), (Standard ''D32s_v4'', 1843000), (Standard ''D32s_v5'', 1843000), (Standard ''D3_v2'', 254000),
      (Standard ''D3_v2_Promo'', 254000), (Standard ''D4'', 536000), (Standard ''D48_v3'', 2640000), (Standard ''D48_v4'', 2765000),
      (Standard ''D48_v5'', 2765000), (Standard ''D48a_v4'', 2765000), (Standard ''D48ads_v5'', 2966000), (Standard ''D48as_v4'', 2765000),
      (Standard ''D48as_v5'', 2477000), (Standard ''D48d_v4'', 3526000), (Standard ''D48d_v5'', 3254000), (Standard ''D48ds_v4'', 3526000),
      (Standard ''D48ds_v5'', 3254000), (Standard ''D48lds_v5'', 2765000), (Standard ''D48ls_v5'', 2448000),
      (Standard ''D48pds_v5'', 2602000), (Standard ''D48plds_v5'', 2212000), (Standard ''D48pls_v5'', 1958000),
      (Standard ''D48ps_v5'', 2218000), (Standard ''D48s_v3'', 2640000), (Standard ''D48s_v4'', 2765000), (Standard ''D48s_v5'', 2765000),
      (Standard ''D4_v2'', 509000), (Standard ''D4_v2_Promo'', 509000), (Standard ''D4_v3'', 220000), (Standard ''D4_v4'', 230000),
      (Standard ''D4_v5'', 230000), (Standard ''D4a_v4'', 230000), (Standard ''D4ads_v5'', 247000), (Standard ''D4as_v4'', 230000),
      (Standard ''D4as_v5'', 206000), (Standard ''D4d_v4'', 294000), (Standard ''D4d_v5'', 271000), (Standard ''D4ds_v4'', 294000),
      (Standard ''D4ds_v5'', 271000), (Standard ''D4lds_v5'', 230000), (Standard ''D4ls_v5'', 204000), (Standard ''D4pds_v5'', 217000),
      (Standard ''D4plds_v5'', 184000), (Standard ''D4pls_v5'', 163000), (Standard ''D4ps_v5'', 185000), (Standard ''D4s_v3'', 220000),
      (Standard ''D4s_v4'', 230000), (Standard ''D4s_v5'', 230000), (Standard ''D5_v2'', 1017000), (Standard ''D5_v2_Promo'', 1017000),
      (Standard ''D64-16s_v3'', 3520000), (Standard ''D64-32s_v3'', 3520000), (Standard ''D64_v3'', 3520000),
      (Standard ''D64_v4'', 3686000), (Standard ''D64_v5'', 3686000), (Standard ''D64a_v4'', 3686000), (Standard ''D64ads_v5'', 3955000),
      (Standard ''D64as_v4'', 3686000), (Standard ''D64as_v5'', 3302000), (Standard ''D64d_v4'', 4701000), (Standard ''D64d_v5'', 4339000),
      (Standard ''D64ds_v4'', 4701000), (Standard ''D64ds_v5'', 4339000), (Standard ''D64lds_v5'', 3686000),
      (Standard ''D64ls_v5'', 3264000), (Standard ''D64pds_v5'', 3469000), (Standard ''D64plds_v5'', 2949000),
      (Standard ''D64pls_v5'', 2611000), (Standard ''D64ps_v5'', 2957000)]"

definition southcentralus_3 :: priceTable where
  "southcentralus_3 =
     [(Standard ''D64s_v3'', 3520000), (Standard ''D64s_v4'', 3686000), (Standard ''D64s_v5'', 3686000), (Standard ''D8_v3'', 440000),
      (Standard ''D8_v4'', 461000), (Standard ''D8_v5'', 461000), (Standard ''D8a_v4'', 461000), (Standard ''D8ads_v5'', 494000),
      (Standard ''D8as_v4'', 461000), (Standard ''D8as_v5'', 413000), (Standard ''D8d_v4'', 588000), (Standard ''D8d_v5'', 542000),
      (Standard ''D8ds_v4'', 588000), (Standard ''D8ds_v5'', 542000), (Standard ''D8lds_v5'', 461000), (Standard ''D8ls_v5'', 408000),
      (Standard ''D8pds_v5'', 434000), (Standard ''D8plds_v5'', 369000), (Standard ''D8pls_v5'', 326000), (Standard ''D8ps_v5'', 370000),
      (Standard ''D8s_v3'', 440000), (Standard ''D8s_v4'', 461000), (Standard ''D8s_v5'', 461000), (Standard ''D96_v5'', 5530000),
      (Standard ''D96a_v4'', 5530000), (Standard ''D96ads_v5'', 5933000), (Standard ''D96as_v4'', 5530000),
      (Standard ''D96as_v5'', 4954000), (Standard ''D96d_v5'', 6509000), (Standard ''D96ds_v5'', 6509000),
      (Standard ''D96lds_v5'', 5530000), (Standard ''D96ls_v5'', 4896000), (Standard ''D96s_v5'', 5530000),
      (Standard ''DC16ds_v3'', 2170000), (Standard ''DC16s_v3'', 1843000), (Standard ''DC1ds_v3'', 136000), (Standard ''DC1s_v2'', 115000),
      (Standard ''DC1s_v3'', 115000), (Standard ''DC24ds_v3'', 3254000), (Standard ''DC24s_v3'', 2765000), (Standard ''DC2ds_v3'', 271000),
      (Standard ''DC2s_v2'', 230000), (Standard ''DC2s_v3'', 230000), (Standard ''DC32ds_v3'', 4339000), (Standard ''DC32s_v3'', 3686000),
      (Standard ''DC48ds_v3'', 6509000), (Standard ''DC48s_v3'', 5530000), (Standard ''DC4ds_v3'', 542000), (Standard ''DC4s_v2'', 461000),
      (Standard ''DC4s_v3'', 461000), (Standard ''DC8_v2'', 922000), (Standard ''DC8ds_v3'', 1085000), (Standard ''DC8s_v3'', 922000),
      (Standard ''DS1'', 67000), (Standard ''DS11'', 173000), (Standard ''DS11-1_v2'', 166000), (Standard ''DS11_v2'', 166000),
      (Standard ''DS11_v2_Promo'', 166000), (Standard ''DS12'', 347000), (Standard ''DS12-1_v2'', 332000),
      (Standard ''DS12-2_v2'', 332000), (Standard ''DS12_v2'', 332000), (Standard ''DS12_v2_Promo'', 332000), (Standard ''DS13'', 694000),
      (Standard ''DS13-2_v2'', 665000), (Standard ''DS13-4_v2'', 665000), (Standard ''DS13_v2'', 665000),
      (Standard ''DS13_v2_Promo'', 665000), (Standard ''DS14'', 1387000), (Standard ''DS14-4_v2'', 1330000),
      (Standard ''DS14-8_v2'', 1330000), (Standard ''DS14_v2'', 1330000), (Standard ''DS14_v2_Promo'', 1330000),
      (Standard ''DS15_v2'', 1662000), (Standard ''DS15i_v2'', 1662000), (Standard ''DS1_v2'', 63600), (Standard ''DS2'', 134000),
      (Standard ''DS2_v2'', 127000), (Standard ''DS2_v2_Promo'', 127000), (Standard ''DS3'', 268000), (Standard ''DS3_v2'', 254000),
      (Standard ''DS3_v2_Promo'', 254000), (Standard ''DS4'', 536000), (Standard ''DS4_v2'', 509000), (Standard ''DS4_v2_Promo'', 509000),
      (Standard ''DS5_v2'', 1017000), (Standard ''DS5_v2_Promo'', 1017000), (Standard ''E104i_v5'', 8649000),
      (Standard ''E104id_v5'', 9884000), (Standard ''E104ids_v5'', 9884000), (Standard ''E104is_v5'', 8649000),
      (Standard ''E112iads_v5'', 9684000), (Standard ''E112ias_v5'', 8353000), (Standard ''E112ibds_v5'', 12345000),
      (Standard ''E112ibs_v5'', 11014000), (Standard ''E16-4ads_v5'', 1258000), (Standard ''E16-4as_v4'', 1210000),
      (Standard ''E16-4as_v5'', 1085000), (Standard ''E16-4ds_v4'', 1498000), (Standard ''E16-4ds_v5'', 1382000),
      (Standard ''E16-4s_v3'', 1166000), (Standard ''E16-4s_v4'', 1210000), (Standard ''E16-4s_v5'', 1210000),
      (Standard ''E16-8ads_v5'', 1258000), (Standard ''E16-8as_v4'', 1210000), (Standard ''E16-8as_v5'', 1085000),
      (Standard ''E16-8ds_v4'', 1498000), (Standard ''E16-8ds_v5'', 1382000), (Standard ''E16-8s_v3'', 1166000),
      (Standard ''E16-8s_v4'', 1210000), (Standard ''E16-8s_v5'', 1210000), (Standard ''E16_v3'', 1166000), (Standard ''E16_v4'', 1210000),
      (Standard ''E16_v5'', 1210000), (Standard ''E16a_v4'', 1210000), (Standard ''E16ads_v5'', 1258000), (Standard ''E16as_v4'', 1210000),
      (Standard ''E16as_v5'', 1085000), (Standard ''E16bds_v5'', 1603000), (Standard ''E16bs_v5'', 1430000),
      (Standard ''E16d_v4'', 1498000), (Standard ''E16d_v5'', 1382000), (Standard ''E16ds_v4'', 1498000), (Standard ''E16ds_v5'', 1382000),
      (Standard ''E16pds_v5'', 1106000), (Standard ''E16ps_v5'', 968000), (Standard ''E16s_v3'', 1166000),
      (Standard ''E16s_v4'', 1210000)]"

definition southcentralus_4 :: priceTable where
  "southcentralus_4 =
     [(Standard ''E16s_v5'', 1210000), (Standard ''E20_v3'', 1460000), (Standard ''E20_v4'', 1512000), (Standard ''E20_v5'', 1512000),
      (Standard ''E20a_v4'', 1512000), (Standard ''E20ads_v5'', 1572000), (Standard ''E20as_v4'', 1512000),
      (Standard ''E20as_v5'', 1356000), (Standard ''E20d_v4'', 1872000), (Standard ''E20d_v5'', 1728000), (Standard ''E20ds_v4'', 1872000),
      (Standard ''E20ds_v5'', 1728000), (Standard ''E20pds_v5'', 1382000), (Standard ''E20ps_v5'', 1210000),
      (Standard ''E20s_v3'', 1460000), (Standard ''E20s_v4'', 1512000), (Standard ''E20s_v5'', 1512000), (Standard ''E2_v3'', 146000),
      (Standard ''E2_v4'', 151000), (Standard ''E2_v5'', 151000), (Standard ''E2a_v4'', 151000), (Standard ''E2ads_v5'', 157000),
      (Standard ''E2as_v4'', 151000), (Standard ''E2as_v5'', 136000), (Standard ''E2bds_v5'', 200000), (Standard ''E2bs_v5'', 179000),
      (Standard ''E2d_v4'', 187000), (Standard ''E2d_v5'', 173000), (Standard ''E2ds_v4'', 187000), (Standard ''E2ds_v5'', 173000),
      (Standard ''E2pds_v5'', 138000), (Standard ''E2ps_v5'', 121000), (Standard ''E2s_v3'', 146000), (Standard ''E2s_v4'', 151000),
      (Standard ''E2s_v5'', 151000), (Standard ''E32-16ads_v5'', 2515000), (Standard ''E32-16as_v4'', 2419000),
      (Standard ''E32-16as_v5'', 2170000), (Standard ''E32-16ds_v4'', 2995000), (Standard ''E32-16ds_v5'', 2765000),
      (Standard ''E32-16s_v3'', 2333000), (Standard ''E32-16s_v4'', 2419000), (Standard ''E32-16s_v5'', 2419000),
      (Standard ''E32-8ads_v5'', 2515000), (Standard ''E32-8as_v4'', 2419000), (Standard ''E32-8as_v5'', 2170000),
      (Standard ''E32-8ds_v4'', 2995000), (Standard ''E32-8ds_v5'', 2765000), (Standard ''E32-8s_v3'', 2333000),
      (Standard ''E32-8s_v4'', 2419000), (Standard ''E32-8s_v5'', 2419000), (Standard ''E32_v3'', 2333000), (Standard ''E32_v4'', 2419000),
      (Standard ''E32_v5'', 2419000), (Standard ''E32a_v4'', 2419000), (Standard ''E32ads_v5'', 2515000), (Standard ''E32as_v4'', 2419000),
      (Standard ''E32as_v5'', 2170000), (Standard ''E32bds_v5'', 3206000), (Standard ''E32bs_v5'', 2861000),
      (Standard ''E32d_v4'', 2995000), (Standard ''E32d_v5'', 2765000), (Standard ''E32ds_v4'', 2995000), (Standard ''E32ds_v5'', 2765000),
      (Standard ''E32pds_v5'', 2212000), (Standard ''E32ps_v5'', 1935000), (Standard ''E32s_v3'', 2333000),
      (Standard ''E32s_v4'', 2419000), (Standard ''E32s_v5'', 2419000), (Standard ''E4-2ads_v5'', 314000),
      (Standard ''E4-2as_v4'', 302000), (Standard ''E4-2as_v5'', 271000), (Standard ''E4-2ds_v4'', 374000),
      (Standard ''E4-2ds_v5'', 346000), (Standard ''E4-2s_v3'', 292000), (Standard ''E4-2s_v4'', 302000), (Standard ''E4-2s_v5'', 302000),
      (Standard ''E48_v3'', 3499000), (Standard ''E48_v4'', 3629000), (Standard ''E48_v5'', 3629000), (Standard ''E48a_v4'', 3629000),
      (Standard ''E48ads_v5'', 3773000), (Standard ''E48as_v4'', 3629000), (Standard ''E48as_v5'', 3254000),
      (Standard ''E48bds_v5'', 4810000), (Standard ''E48bs_v5'', 4291000), (Standard ''E48d_v4'', 4493000),
      (Standard ''E48d_v5'', 4147000), (Standard ''E48ds_v4'', 4493000), (Standard ''E48ds_v5'', 4147000), (Standard ''E48s_v3'', 3499000),
      (Standard ''E48s_v4'', 3629000), (Standard ''E48s_v5'', 3629000), (Standard ''E4_v3'', 292000), (Standard ''E4_v4'', 302000),
      (Standard ''E4_v5'', 302000), (Standard ''E4a_v4'', 302000), (Standard ''E4ads_v5'', 314000), (Standard ''E4as_v4'', 302000),
      (Standard ''E4as_v5'', 271000), (Standard ''E4bds_v5'', 401000), (Standard ''E4bs_v5'', 358000), (Standard ''E4d_v4'', 374000),
      (Standard ''E4d_v5'', 346000), (Standard ''E4ds_v4'', 374000), (Standard ''E4ds_v5'', 346000), (Standard ''E4pds_v5'', 276000),
      (Standard ''E4ps_v5'', 242000), (Standard ''E4s_v3'', 292000), (Standard ''E4s_v4'', 302000), (Standard ''E4s_v5'', 302000),
      (Standard ''E64-16ads_v5'', 5030000), (Standard ''E64-16as_v4'', 4838000), (Standard ''E64-16as_v5'', 4339000),
      (Standard ''E64-16ds_v4'', 5990000), (Standard ''E64-16ds_v5'', 5530000), (Standard ''E64-16s_v3'', 4199000),
      (Standard ''E64-16s_v4'', 4838000), (Standard ''E64-16s_v5'', 4838000), (Standard ''E64-32ads_v5'', 5030000),
      (Standard ''E64-32as_v4'', 4838000), (Standard ''E64-32as_v5'', 4339000), (Standard ''E64-32ds_v4'', 5990000),
      (Standard ''E64-32ds_v5'', 5530000), (Standard ''E64-32s_v3'', 4199000), (Standard ''E64-32s_v4'', 4838000),
      (Standard ''E64-32s_v5'', 4838000), (Standard ''E64_v3'', 4199000)]"

definition southcentralus_5 :: priceTable where
  "southcentralus_5 =
     [(Standard ''E64_v4'', 4838000), (Standard ''E64_v5'', 4838000), (Standard ''E64a_v4'', 4838000), (Standard ''E64ads_v5'', 5030000),
      (Standard ''E64as_v4'', 4838000), (Standard ''E64as_v5'', 4339000), (Standard ''E64bds_v5'', 6413000),
      (Standard ''E64bs_v5'', 5722000), (Standard ''E64d_v4'', 5990000), (Standard ''E64d_v5'', 5530000), (Standard ''E64ds_v4'', 5990000),
      (Standard ''E64ds_v5'', 5530000), (Standard ''E64i_v3'', 4199000), (Standard ''E64is_v3'', 4199000), (Standard ''E64s_v3'', 4199000),
      (Standard ''E64s_v4'', 4838000), (Standard ''E64s_v5'', 4838000), (Standard ''E8-2ads_v5'', 629000),
      (Standard ''E8-2as_v4'', 605000), (Standard ''E8-2as_v5'', 542000), (Standard ''E8-2ds_v4'', 749000),
      (Standard ''E8-2ds_v5'', 691000), (Standard ''E8-2s_v3'', 583000), (Standard ''E8-2s_v4'', 605000), (Standard ''E8-2s_v5'', 605000),
      (Standard ''E8-4ads_v5'', 629000), (Standard ''E8-4as_v4'', 605000), (Standard ''E8-4as_v5'', 542000),
      (Standard ''E8-4ds_v4'', 749000), (Standard ''E8-4ds_v5'', 691000), (Standard ''E8-4s_v3'', 583000), (Standard ''E8-4s_v4'', 605000),
      (Standard ''E8-4s_v5'', 605000), (Standard ''E80ids_v4'', 7488000), (Standard ''E80is_v4'', 6048000), (Standard ''E8_v3'', 583000),
      (Standard ''E8_v4'', 605000), (Standard ''E8_v5'', 605000), (Standard ''E8a_v4'', 605000), (Standard ''E8ads_v5'', 629000),
      (Standard ''E8as_v4'', 605000), (Standard ''E8as_v5'', 542000), (Standard ''E8bds_v5'', 802000), (Standard ''E8bs_v5'', 715000),
      (Standard ''E8d_v4'', 749000), (Standard ''E8d_v5'', 691000), (Standard ''E8ds_v4'', 749000), (Standard ''E8ds_v5'', 691000),
      (Standard ''E8pds_v5'', 553000), (Standard ''E8ps_v5'', 484000), (Standard ''E8s_v3'', 583000), (Standard ''E8s_v4'', 605000),
      (Standard ''E8s_v5'', 605000), (Standard ''E96-24ads_v5'', 7546000), (Standard ''E96-24as_v4'', 7258000),
      (Standard ''E96-24as_v5'', 6509000), (Standard ''E96-24ds_v5'', 8294000), (Standard ''E96-24s_v5'', 7258000),
      (Standard ''E96-48ads_v5'', 7546000), (Standard ''E96-48as_v4'', 7258000), (Standard ''E96-48as_v5'', 6509000),
      (Standard ''E96-48ds_v5'', 8294000), (Standard ''E96-48s_v5'', 7258000), (Standard ''E96_v5'', 7258000),
      (Standard ''E96a_v4'', 7258000), (Standard ''E96ads_v5'', 7546000), (Standard ''E96as_v4'', 7258000),
      (Standard ''E96as_v5'', 6509000), (Standard ''E96bds_v5'', 9619000), (Standard ''E96bs_v5'', 8582000),
      (Standard ''E96d_v5'', 8294000), (Standard ''E96ds_v5'', 8294000), (Standard ''E96iads_v5'', 8300000),
      (Standard ''E96ias_v5'', 7160000), (Standard ''E96s_v5'', 7258000), (Standard ''F1'', 54700), (Standard ''F16'', 875000),
      (Standard ''F16s'', 875000), (Standard ''F16s_v2'', 816000), (Standard ''F1s'', 54700), (Standard ''F2'', 109000),
      (Standard ''F2s'', 109000), (Standard ''F2s_v2'', 102000), (Standard ''F32s_v2'', 1632000), (Standard ''F4'', 219000),
      (Standard ''F48s_v2'', 2448000), (Standard ''F4s'', 219000), (Standard ''F4s_v2'', 204000), (Standard ''F64s_v2'', 3264000),
      (Standard ''F72s_v2'', 3672000), (Standard ''F8'', 438000), (Standard ''F8s'', 438000), (Standard ''F8s_v2'', 408000),
      (Standard ''FX12mds'', 1339000), (Standard ''FX24mds'', 2678000), (Standard ''FX36mds'', 4018000), (Standard ''FX48mds'', 5357000),
      (Standard ''FX4mds'', 446000), (Standard ''H16'', 1749000), (Standard ''H16m'', 2343000), (Standard ''H16mr'', 2577000),
      (Standard ''H16r'', 1924000), (Standard ''H8'', 875000), (Standard ''H8m'', 1172000), (Standard ''HB120-16rs_v2'', 3960000),
      (Standard ''HB120-16rs_v3'', 3960000), (Standard ''HB120-32rs_v2'', 3960000), (Standard ''HB120-32rs_v3'', 3960000),
      (Standard ''HB120-64rs_v2'', 3960000), (Standard ''HB120-64rs_v3'', 3960000), (Standard ''HB120-96rs_v2'', 3960000),
      (Standard ''HB120-96rs_v3'', 3960000), (Standard ''HB120rs_v2'', 3960000), (Standard ''HB120rs_v3'', 3960000),
      (Standard ''HB176-144rs_v4'', 8640000), (Standard ''HB176-24rs_v4'', 8640000), (Standard ''HB176-48rs_v4'', 8640000),
      (Standard ''HB176-96rs_v4'', 8640000), (Standard ''HB176rs_v4'', 8640000), (Standard ''HB60-15rs'', 2508000),
      (Standard ''HB60-30rs'', 2508000), (Standard ''HB60-45rs'', 2508000), (Standard ''HB60rs'', 2508000),
      (Standard ''HC44-16rs'', 3484000), (Standard ''HC44-32rs'', 3484000), (Standard ''HC44rs'', 3484000),
      (Standard ''HX176-144rs'', 10368000), (Standard ''HX176-24rs'', 10368000)]"

definition southcentralus_6 :: priceTable where
  "southcentralus_6 =
     [(Standard ''HX176-48rs'', 10368000), (Standard ''HX176-96rs'', 10368000), (Standard ''HX176rs'', 10368000),
      (Standard ''L16s_v2'', 1498000), (Standard ''L16s_v3'', 1670000), (Standard ''L32s_v2'', 2995000), (Standard ''L32s_v3'', 3341000),
      (Standard ''L48s_v2'', 4493000), (Standard ''L48s_v3'', 5011000), (Standard ''L64s_v2'', 5990000), (Standard ''L64s_v3'', 6682000),
      (Standard ''L80s_v2'', 7488000), (Standard ''L80s_v3'', 8352000), (Standard ''L88is_v2'', 8237000), (Standard ''L8s_v2'', 749000),
      (Standard ''L8s_v3'', 835000), (Standard ''L96s_v2'', 8986000), (Standard ''M128'', 16006000), (Standard ''M128-32ms'', 32026000),
      (Standard ''M128-64ms'', 32026000), (Standard ''M128dms_v2'', 32028000), (Standard ''M128ds_v2'', 16008000),
      (Standard ''M128m'', 32026000), (Standard ''M128ms'', 32026000), (Standard ''M128ms_v2'', 31523000), (Standard ''M128s'', 16006000),
      (Standard ''M128s_v2'', 15503000), (Standard ''M16-4ms'', 3688000), (Standard ''M16-8ms'', 3688000), (Standard ''M16ms'', 3688000),
      (Standard ''M16s'', 2864000), (Standard ''M192idms_v2'', 38477000), (Standard ''M192ids_v2'', 19238000),
      (Standard ''M192ims_v2'', 37972000), (Standard ''M192is_v2'', 18733000), (Standard ''M208-104ms_v2'', 53544000),
      (Standard ''M208-104s_v2'', 26772000), (Standard ''M208-52ms_v2'', 53544000), (Standard ''M208-52s_v2'', 26772000),
      (Standard ''M208ms_v2'', 53544000), (Standard ''M208s_v2'', 26772000), (Standard ''M32-16ms'', 7375000),
      (Standard ''M32-8ms'', 7375000), (Standard ''M32dms_v2'', 7375000), (Standard ''M32ls'', 3448000), (Standard ''M32ms'', 7375000),
      (Standard ''M32ms_v2'', 7249000), (Standard ''M32s'', 4002000), (Standard ''M32ts'', 3248000),
      (Standard ''M416-104ms_v2'', 118980000), (Standard ''M416-104s_v2'', 59496000), (Standard ''M416-208ms_v2'', 118980000),
      (Standard ''M416-208s_v2'', 59496000), (Standard ''M416is_v2'', 59496000), (Standard ''M416ms_v2'', 118980000),
      (Standard ''M416s_8_v2'', 79330000), (Standard ''M416s_v2'', 59496000), (Standard ''M64'', 8003000),
      (Standard ''M64-16ms'', 12405000), (Standard ''M64-32ms'', 12405000), (Standard ''M64dms_v2'', 12408000),
      (Standard ''M64ds_v2'', 8003000), (Standard ''M64ls'', 6498000), (Standard ''M64m'', 12405000), (Standard ''M64ms'', 12405000),
      (Standard ''M64ms_v2'', 12156000), (Standard ''M64s'', 8003000), (Standard ''M64s_v2'', 7750000), (Standard ''M8-2ms'', 1844000),
      (Standard ''M8-4ms'', 1844000), (Standard ''M8ms'', 1844000), (Standard ''NC12'', 2160000), (Standard ''NC12s_v2'', 4968000),
      (Standard ''NC12s_v3'', 6732000), (Standard ''NC16ads_A10_v4'', 2640000), (Standard ''NC16as_T4_v3'', 1445000),
      (Standard ''NC24'', 4320000), (Standard ''NC24ads_A100_v4'', 4408000), (Standard ''NC24r'', 4752000),
      (Standard ''NC24rs_v2'', 10930000), (Standard ''NC24rs_v3'', 14810400), (Standard ''NC24s_v2'', 9936000),
      (Standard ''NC24s_v3'', 13464000), (Standard ''NC32ads_A10_v4'', 5280000), (Standard ''NC48ads_A100_v4'', 8815000),
      (Standard ''NC4as_T4_v3'', 631000), (Standard ''NC6'', 1080000), (Standard ''NC64as_T4_v3'', 5222000),
      (Standard ''NC6s_v2'', 2484000), (Standard ''NC6s_v3'', 3366000), (Standard ''NC8ads_A10_v4'', 1320000),
      (Standard ''NC8as_T4_v3'', 902000), (Standard ''NC96ads_A100_v4'', 17630000), (Standard ''ND12s'', 4968000),
      (Standard ''ND24rs'', 10930000), (Standard ''ND24s'', 9936000), (Standard ''ND40rs_v2'', 26438000),
      (Standard ''ND40s_v2'', 14688000), (Standard ''ND6s'', 2484000), (Standard ''ND96ams_A100_v4'', 39324000),
      (Standard ''ND96amsr_A100_v4'', 39324000), (Standard ''ND96asr_A100_v4'', 32630000), (Standard ''ND96asr_v4'', 32630000),
      (Standard ''NP10s'', 1980000), (Standard ''NP20s'', 3960000), (Standard ''NP40s'', 7920000), (Standard ''NV12'', 2300000),
      (Standard ''NV12ads_A10_v5'', 1090000), (Standard ''NV12s_v2'', 1368000), (Standard ''NV12s_v3'', 1368000),
      (Standard ''NV16as_v4'', 1118000), (Standard ''NV18ads_A10_v5'', 1920000), (Standard ''NV24'', 4599000),
      (Standard ''NV24s_v2'', 2736000), (Standard ''NV24s_v3'', 2736000), (Standard ''NV32as_v4'', 2237000),
      (Standard ''NV36adms_A10_v5'', 5424000), (Standard ''NV36ads_A10_v5'', 3840000), (Standard ''NV48s_v3'', 5472000),
      (Standard ''NV4as_v4'', 280000), (Standard ''NV6'', 1150000), (Standard ''NV6ads_A10_v5'', 545000), (Standard ''NV6s_v2'', 684000),
      (Standard ''NV72ads_A10_v5'', 7824000), (Standard ''NV8as_v4'', 559000), (Standard ''PB12s'', 1826000),
      (Standard ''PB24s'', 3652000), (Standard ''PB6s'', 913000)]"

definition southcentralus :: priceTable where
  "southcentralus = southcentralus_1 @ southcentralus_2 @ southcentralus_3 @ southcentralus_4 @ southcentralus_5 @ southcentralus_6"

subsection \<open>southeastasia\<close>

definition southeastasia_1 :: priceTable where
  "southeastasia_1 =
     [(''Basic_A1'', 30000), (''Basic_A2'', 95000), (''DCdsv3 Type1'', 7445000), (''DCsv2 Type 1'', 1056000), (''Dasv4_Type2'', 6600000),
      (''Dasv5_Type1'', 6653000), (''Dsv3_Type4'', 6590000), (''Dsv4_Type2'', 6336000), (''Eadsv5_Type1'', 8395000),
      (''Easv4_Type1'', 8026000), (''Easv4_Type2'', 8026000), (''Easv5_Type1'', 7181000), (''Edsv4_Type 1'', 6125000),
      (''Edsv4_Type2'', 7273000), (''Edsv5_Type1'', 9187000), (''Esv3_Type3'', 5192000), (''Esv4_Type2'', 7022000),
      (''Esv5_Type1'', 8026000), (''Fsv2 Type3'', 4528000), (''Fsv2_Type2'', 3881000), (''Lsv3_Type1'', 9196000),
      (''Mdsv2MedMem_Type1'', 21277000), (''Ms_Type1'', 21270000), (''Msmv2MedMem Type1'', 41899000), (''Msmv2_Type1'', 141780000),
      (''Msv2MedMem Type1'', 20606000), (''NVsv3_Type1'', 6972000), (Standard ''A2'', 120000), (Standard ''A5'', 270000),
      (Standard ''A7'', 1080000), (Standard ''A8_v2'', 417000), (Standard ''A8m_v2'', 589000), (Standard ''B12ms'', 634000),
      (Standard ''B16als_v2'', 742000), (Standard ''B16as_v2'', 829000), (Standard ''B16ls_v2'', 822000), (Standard ''B16pls_v2'', 674000),
      (Standard ''B16ps_v2'', 678000), (Standard ''B16s_v2'', 845000), (Standard ''B1ls'', 6600), (Standard ''B20ms'', 1056000),
      (Standard ''B2pts_v2'', 19800), (Standard ''B2s'', 52800), (Standard ''B2ts_v2'', 13200), (Standard ''B32als_v2'', 1485000),
      (Standard ''B32as_v2'', 1510000), (Standard ''B32ls_v2'', 1643000), (Standard ''B32s_v2'', 1690000), (Standard ''B4als_v2'', 167000),
      (Standard ''B4as_v2'', 207000), (Standard ''B4ls_v2'', 206000), (Standard ''B4ms'', 211000), (Standard ''B4s_v2'', 211000),
      (Standard ''B8as_v2'', 414000), (Standard ''B8ls_v2'', 411000), (Standard ''B8ms'', 422000), (Standard ''B8pls_v2'', 300000),
      (Standard ''B8ps_v2'', 376000), (Standard ''B8s_v2'', 459000), (Standard ''D12'', 420000), (Standard ''D12_v2_Promo'', 382000),
      (Standard ''D13_v2'', 765000), (Standard ''D13_v2_Promo'', 765000), (Standard ''D14_v2'', 1530000),
      (Standard ''D14_v2_Promo'', 1530000), (Standard ''D15i_v2'', 1912000), (Standard ''D16_v5'', 960000), (Standard ''D16a_v4'', 960000),
      (Standard ''D16ads_v5'', 1032000), (Standard ''D16as_v4'', 960000), (Standard ''D16as_v5'', 864000), (Standard ''D16d_v5'', 1128000),
      (Standard ''D16ds_v4'', 1128000), (Standard ''D16ds_v5'', 1128000), (Standard ''D16ls_v5'', 784000),
      (Standard ''D16pds_v5'', 904000), (Standard ''D16plds_v5'', 720000), (Standard ''D16s_v4'', 960000), (Standard ''D1_v2'', 78900),
      (Standard ''D2_v2_Promo'', 158000), (Standard ''D2_v3'', 125000), (Standard ''D2as_v4'', 120000), (Standard ''D2as_v5'', 108000),
      (Standard ''D2d_v4'', 141000), (Standard ''D2d_v5'', 141000), (Standard ''D2ds_v4'', 141000), (Standard ''D2plds_v5'', 90000),
      (Standard ''D2s_v5'', 120000), (Standard ''D32-16s_v3'', 2000000), (Standard ''D32-8s_v3'', 2000000), (Standard ''D32_v4'', 1920000),
      (Standard ''D32_v5'', 1920000), (Standard ''D32ads_v5'', 2064000), (Standard ''D32lds_v5'', 1792000),
      (Standard ''D32ls_v5'', 1568000), (Standard ''D32pds_v5'', 1808000), (Standard ''D32s_v3'', 2000000),
      (Standard ''D32s_v5'', 1920000), (Standard ''D48_v3'', 3000000), (Standard ''D48_v4'', 2880000), (Standard ''D48ads_v5'', 3096000),
      (Standard ''D48d_v4'', 3384000), (Standard ''D48ds_v4'', 3384000), (Standard ''D48ls_v5'', 2352000),
      (Standard ''D48plds_v5'', 2160000), (Standard ''D48s_v3'', 3000000), (Standard ''D48s_v4'', 2880000), (Standard ''D4_v3'', 250000),
      (Standard ''D4_v4'', 240000), (Standard ''D4a_v4'', 240000), (Standard ''D4ads_v5'', 258000), (Standard ''D4ds_v4'', 282000),
      (Standard ''D4ls_v5'', 196000), (Standard ''D4pds_v5'', 226000), (Standard ''D4plds_v5'', 180000), (Standard ''D4ps_v5'', 192000),
      (Standard ''D4s_v3'', 250000), (Standard ''D64_v5'', 3840000), (Standard ''D64d_v5'', 4512000), (Standard ''D64ds_v4'', 4512000),
      (Standard ''D64ls_v5'', 3136000)]"

definition southeastasia_2 :: priceTable where
  "southeastasia_2 =
     [(Standard ''D64pls_v5'', 2509000), (Standard ''D64s_v3'', 4000000), (Standard ''D8_v4'', 480000), (Standard ''D8_v5'', 480000),
      (Standard ''D8ads_v5'', 516000), (Standard ''D8as_v5'', 432000), (Standard ''D8d_v5'', 564000), (Standard ''D8lds_v5'', 448000),
      (Standard ''D8ls_v5'', 392000), (Standard ''D8plds_v5'', 360000), (Standard ''D8pls_v5'', 314000), (Standard ''D8ps_v5'', 384000),
      (Standard ''D8s_v3'', 500000), (Standard ''D96_v5'', 5760000), (Standard ''D96a_v4'', 5760000), (Standard ''D96d_v5'', 6768000),
      (Standard ''D96s_v5'', 5760000), (Standard ''DC16ads_v5'', 1032000), (Standard ''DC16as_cc_v5'', 864000),
      (Standard ''DC16as_v5'', 864000), (Standard ''DC16ds_v3'', 2256000), (Standard ''DC1s_v2'', 120000),
      (Standard ''DC24ds_v3'', 3384000), (Standard ''DC32ads_cc_v5'', 2064000), (Standard ''DC32ads_v5'', 2064000),
      (Standard ''DC32as_cc_v5'', 1728000), (Standard ''DC32ds_v3'', 4512000), (Standard ''DC48ads_cc_v5'', 3096000),
      (Standard ''DC48ads_v5'', 3096000), (Standard ''DC48as_cc_v5'', 2592000), (Standard ''DC48as_v5'', 2592000),
      (Standard ''DC48ds_v3'', 6768000), (Standard ''DC4as_v5'', 216000), (Standard ''DC4ds_v3'', 564000),
      (Standard ''DC64ads_cc_v5'', 4128000), (Standard ''DC64as_cc_v5'', 3456000), (Standard ''DC8ads_v5'', 516000),
      (Standard ''DC96ads_v5'', 6192000), (Standard ''DC96as_v5'', 5184000), (Standard ''DS1'', 98000), (Standard ''DS11_v2'', 191000),
      (Standard ''DS12'', 420000), (Standard ''DS12-2_v2'', 382000), (Standard ''DS12_v2'', 382000), (Standard ''DS13-2_v2'', 765000),
      (Standard ''DS14-8_v2'', 1530000), (Standard ''DS2'', 196000), (Standard ''DS3'', 392000), (Standard ''DS4_v2'', 631000),
      (Standard ''DS4_v2_Promo'', 631000), (Standard ''DS5_v2'', 1263000), (Standard ''DS5_v2_Promo'', 1263000),
      (Standard ''E16-4ads_v5'', 1272000), (Standard ''E16-4as_v5'', 1088000), (Standard ''E16-4ds_v4'', 1392000),
      (Standard ''E16-4s_v3'', 1280000), (Standard ''E16-4s_v5'', 1216000), (Standard ''E16-8ads_v5'', 1272000),
      (Standard ''E16-8ds_v4'', 1392000), (Standard ''E16-8s_v3'', 1280000), (Standard ''E16-8s_v5'', 1216000),
      (Standard ''E16_v3'', 1280000), (Standard ''E16a_v4'', 1216000), (Standard ''E16ads_v5'', 1272000), (Standard ''E16as_v4'', 1216000),
      (Standard ''E16as_v5'', 1088000), (Standard ''E16s_v3'', 1280000), (Standard ''E16s_v4'', 1216000), (Standard ''E16s_v5'', 1216000),
      (Standard ''E20_v3'', 1600000), (Standard ''E20as_v5'', 1360000), (Standard ''E20ds_v4'', 1740000), (Standard ''E20ds_v5'', 1740000),
      (Standard ''E20s_v4'', 1520000), (Standard ''E20s_v5'', 1520000), (Standard ''E2_v4'', 152000), (Standard ''E2a_v4'', 152000),
      (Standard ''E2bs_v5'', 178000), (Standard ''E2ds_v4'', 174000), (Standard ''E2ds_v5'', 174000), (Standard ''E32-16ads_v5'', 2544000),
      (Standard ''E32-16as_v5'', 2176000), (Standard ''E32-16ds_v5'', 2784000), (Standard ''E32-8ads_v5'', 2544000),
      (Standard ''E32-8as_v5'', 2176000), (Standard ''E32-8ds_v4'', 2784000), (Standard ''E32-8s_v4'', 2432000),
      (Standard ''E32_v3'', 2560000), (Standard ''E32_v4'', 2432000), (Standard ''E32_v5'', 2432000), (Standard ''E32ads_v5'', 2544000),
      (Standard ''E32as_v4'', 2432000), (Standard ''E32as_v5'', 2176000), (Standard ''E32bs_v5'', 2848000),
      (Standard ''E32ds_v5'', 2784000), (Standard ''E32pds_v5'', 2224000), (Standard ''E32s_v4'', 2432000),
      (Standard ''E32s_v5'', 2432000), (Standard ''E4-2as_v4'', 304000), (Standard ''E4-2as_v5'', 272000),
      (Standard ''E4-2ds_v4'', 348000), (Standard ''E4-2ds_v5'', 348000), (Standard ''E48_v5'', 3648000), (Standard ''E48a_v4'', 3648000),
      (Standard ''E48as_v4'', 3648000), (Standard ''E48bs_v5'', 4272000), (Standard ''E48d_v5'', 4176000),
      (Standard ''E48ds_v4'', 4176000), (Standard ''E4_v4'', 304000), (Standard ''E4_v5'', 304000), (Standard ''E4ds_v5'', 348000),
      (Standard ''E64-16as_v5'', 4352000), (Standard ''E64-16ds_v4'', 5568000), (Standard ''E64-16ds_v5'', 5568000),
      (Standard ''E64-16s_v3'', 4609000), (Standard ''E64-32ads_v5'', 5088000), (Standard ''E64-32as_v5'', 4352000),
      (Standard ''E64-32s_v4'', 4864000), (Standard ''E64_v3'', 4609000), (Standard ''E64as_v5'', 4352000),
      (Standard ''E64bds_v5'', 6432000)]"

definition southeastasia_3 :: priceTable where
  "southeastasia_3 =
     [(Standard ''E64d_v4'', 5568000), (Standard ''E64d_v5'', 5568000), (Standard ''E64s_v4'', 4864000), (Standard ''E8-2as_v5'', 544000),
      (Standard ''E8-2s_v4'', 608000), (Standard ''E8-2s_v5'', 608000), (Standard ''E8-4ads_v5'', 636000),
      (Standard ''E8-4as_v4'', 608000), (Standard ''E8-4as_v5'', 544000), (Standard ''E8-4s_v3'', 640000), (Standard ''E8_v4'', 608000),
      (Standard ''E8_v5'', 608000), (Standard ''E8as_v4'', 608000), (Standard ''E8bds_v5'', 804000), (Standard ''E8d_v4'', 696000),
      (Standard ''E8ds_v5'', 696000), (Standard ''E96-24as_v5'', 6528000), (Standard ''E96-24s_v5'', 7296000),
      (Standard ''E96-48as_v4'', 7296000), (Standard ''E96-48as_v5'', 6528000), (Standard ''E96-48ds_v5'', 8352000),
      (Standard ''E96-48s_v5'', 7296000), (Standard ''E96_v5'', 7296000), (Standard ''E96a_v4'', 7296000),
      (Standard ''E96as_v5'', 6528000), (Standard ''E96iads_v5'', 8395000), (Standard ''E96s_v5'', 7296000),
      (Standard ''EC16ads_cc_v5'', 1272000), (Standard ''EC16as_v5'', 1088000), (Standard ''EC20ads_cc_v5'', 1590000),
      (Standard ''EC20ads_v5'', 1590000), (Standard ''EC20as_cc_v5'', 1360000), (Standard ''EC2ads_v5'', 159000),
      (Standard ''EC32ads_v5'', 2544000), (Standard ''EC32as_cc_v5'', 2176000), (Standard ''EC48ads_cc_v5'', 3816000),
      (Standard ''EC48as_v5'', 3264000), (Standard ''EC4ads_cc_v5'', 318000), (Standard ''EC4as_v5'', 272000),
      (Standard ''EC64ads_cc_v5'', 5088000), (Standard ''EC64ads_v5'', 5088000), (Standard ''EC8ads_v5'', 636000),
      (Standard ''EC8as_cc_v5'', 544000), (Standard ''EC8as_v5'', 544000), (Standard ''EC96as_cc_v5'', 6528000),
      (Standard ''EC96ias_v5'', 7181000), (Standard ''F16'', 924000), (Standard ''F16s'', 924000), (Standard ''F1s'', 57700),
      (Standard ''F2s'', 115000), (Standard ''F4'', 231000), (Standard ''F48s_v2'', 2352000), (Standard ''F4s'', 231000),
      (Standard ''F64s_v2'', 3136000), (Standard ''F72s_v2'', 3528000), (Standard ''F8'', 462000), (Standard ''FX12mds'', 1356000),
      (Standard ''FX24mds'', 2712000), (Standard ''FX48mds'', 5424000), (Standard ''G4'', 5280000), (Standard ''GS1'', 660000),
      (Standard ''GS2'', 1320000), (Standard ''GS4'', 5280000), (Standard ''GS5'', 9390000), (Standard ''GS5-8'', 9390000),
      (Standard ''H16'', 1848000), (Standard ''H16m'', 2476000), (Standard ''H16mr'', 2724000), (Standard ''H8m'', 1238000),
      (Standard ''HC44-32rs'', 4118000), (Standard ''HC44rs'', 4118000), (Standard ''L16s'', 1496000), (Standard ''L16s_v2'', 1496000),
      (Standard ''L32as_v3'', 2992000), (Standard ''L32s'', 2992000), (Standard ''L32s_v2'', 2992000), (Standard ''L48s_v2'', 4488000),
      (Standard ''L48s_v3'', 5016000), (Standard ''L4s'', 374000), (Standard ''L64s_v2'', 5984000), (Standard ''L80s_v3'', 8360000),
      (Standard ''L88is_v2'', 8228000), (Standard ''L8s_v2'', 748000), (Standard ''L8s_v3'', 836000), (Standard ''M128-64ms'', 38698000),
      (Standard ''M128dms_v2'', 38701000), (Standard ''M128m'', 38698000), (Standard ''M128ms'', 38698000),
      (Standard ''M16-4ms'', 4455900), (Standard ''M16ms'', 4455900), (Standard ''M192ids_v2'', 23246000),
      (Standard ''M192ims_v2'', 45882000), (Standard ''M192is_v2'', 22636000), (Standard ''M208-104ms_v2'', 58006000),
      (Standard ''M208-52s_v2'', 29003000), (Standard ''M32-8ms'', 8911700), (Standard ''M32dms_v2'', 8912000),
      (Standard ''M32ls'', 3447600), (Standard ''M32ms_v2'', 8759000), (Standard ''M32s'', 4835800),
      (Standard ''M416-104ms_v2'', 128900000), (Standard ''M416is_v2'', 64454000), (Standard ''M416ms_v2'', 128900000),
      (Standard ''M64ds_v2'', 9670000), (Standard ''M64ms'', 14989000), (Standard ''M8-2ms'', 2227900), (Standard ''M8-4ms'', 2227900),
      (Standard ''NC12s_v2'', 6077000), (Standard ''NC12s_v3'', 8468000), (Standard ''NC24'', 5283000), (Standard ''NC24rs_v2'', 13369000),
      (Standard ''NC24rs_v3'', 18630000), (Standard ''NC6'', 1321000), (Standard ''NC64as_T4_v3'', 6089000),
      (Standard ''NC6s_v3'', 4234000), (Standard ''NP10s'', 2145000), (Standard ''NV12ads_A10_v5'', 1180000),
      (Standard ''NV36adms_A10_v5'', 5876000), (Standard ''NV48s_v3'', 6360000), (Standard ''NV6ads_A10_v5'', 590000)]"

definition southeastasia :: priceTable where
  "southeastasia = southeastasia_1 @ southeastasia_2 @ southeastasia_3"

subsection \<open>southindia\<close>

definition southindia_1 :: priceTable where
  "southindia_1 =
     [(''Basic_A4'', 418000), (''Dasv4_Type1'', 7445000), (''Easv4_Type1'', 9380000), (''Easv4_Type2'', 9380000),
      (''Fsv2_Type2'', 3703000), (''Lasv3_Type1'', 9678000), (''Mdsv2MedMem_Type1'', 22158000), (''Msmv2MedMem Type1'', 43633000),
      (''Msv2_Type1'', 82352000), (Standard ''A1_v2'', 47000), (Standard ''A2_v2'', 98000), (Standard ''A5'', 234000),
      (Standard ''A7'', 936000), (Standard ''A8m_v2'', 633000), (Standard ''B12ms'', 706000), (Standard ''B16als_v2'', 825000),
      (Standard ''B16ms'', 941000), (Standard ''B1s'', 14500), (Standard ''B2als_v2'', 62200), (Standard ''B2ls_v2'', 67900),
      (Standard ''B2ms'', 118000), (Standard ''B2s_v2'', 117000), (Standard ''B32als_v2'', 1649000), (Standard ''B32as_v2'', 1697000),
      (Standard ''B32ls_v2'', 1809000), (Standard ''B4als_v2'', 188000), (Standard ''B4ls_v2'', 208000), (Standard ''B8ls_v2'', 416000),
      (Standard ''D1'', 94400), (Standard ''D12'', 489000), (Standard ''D12_v2_Promo'', 379000), (Standard ''D13'', 977000),
      (Standard ''D13_v2'', 758000), (Standard ''D15_v2'', 1895000), (Standard ''D15i_v2'', 1895000), (Standard ''D16ads_v5'', 1162000),
      (Standard ''D16as_v5'', 970000), (Standard ''D16as_v5_Promo'', 869000), (Standard ''D16d_v4'', 1274000),
      (Standard ''D16d_v5'', 1275000), (Standard ''D2_v4'', 135000), (Standard ''D2ads_v5'', 145000), (Standard ''D2as_v5'', 121000),
      (Standard ''D2as_v5_Promo'', 109000), (Standard ''D2d_v5'', 159000), (Standard ''D2lds_v5'', 135000), (Standard ''D3'', 378000),
      (Standard ''D32_v4'', 2164000), (Standard ''D32a_v4'', 2166000), (Standard ''D32ads_v5'', 2324000),
      (Standard ''D32as_v5_Promo'', 1737000), (Standard ''D32lds_v5'', 2166000), (Standard ''D32ls_v5'', 1918000),
      (Standard ''D32s_v4'', 2164000), (Standard ''D32s_v5'', 2166000), (Standard ''D3_v2'', 337000), (Standard ''D48_v3'', 3246000),
      (Standard ''D48a_v4'', 3249000), (Standard ''D4_v4'', 271000), (Standard ''D4ads_v5'', 290000), (Standard ''D4d_v4'', 318000),
      (Standard ''D4ds_v4'', 318000), (Standard ''D4lds_v5'', 271000), (Standard ''D4s_v3'', 271000), (Standard ''D4s_v4'', 271000),
      (Standard ''D5_v2_Promo'', 1350000), (Standard ''D64-32s_v3'', 4328000), (Standard ''D64_v3'', 4328000),
      (Standard ''D64a_v4'', 4332000), (Standard ''D64d_v4'', 5095000), (Standard ''D64ds_v4'', 5095000), (Standard ''D8as_v4'', 541000),
      (Standard ''D8as_v5'', 485000), (Standard ''D8d_v5'', 637000), (Standard ''D8ls_v5'', 479000), (Standard ''D8s_v3'', 541000),
      (Standard ''D96_v5'', 6497000), (Standard ''D96ls_v5'', 5753000), (Standard ''DC1s_v3'', 135000), (Standard ''DC2s_v3'', 271000),
      (Standard ''DC4ds_v3'', 637000), (Standard ''DC8s_v3'', 1083000), (Standard ''DS12-2_v2'', 379000),
      (Standard ''DS14_v2_Promo'', 1516000), (Standard ''DS15i_v2'', 1895000), (Standard ''DS1_v2'', 84000), (Standard ''DS3'', 378000),
      (Standard ''DS4'', 755000)]"

definition southindia_2 :: priceTable where
  "southindia_2 =
     [(Standard ''DS5_v2'', 1350000), (Standard ''E112ias_v5'', 9815000), (Standard ''E112ibds_v5'', 14505000),
      (Standard ''E16-4as_v5'', 1275000), (Standard ''E16-8ds_v4'', 1524000), (Standard ''E16_v3'', 1334000),
      (Standard ''E16as_v5'', 1275000), (Standard ''E16d_v4'', 1524000), (Standard ''E16s_v4'', 1334000), (Standard ''E20as_v5'', 1593000),
      (Standard ''E2bs_v5'', 210000), (Standard ''E2d_v4'', 191000), (Standard ''E2ds_v5'', 203000), (Standard ''E32-16as_v4'', 2843000),
      (Standard ''E32-16as_v5'', 2549000), (Standard ''E32-16s_v3'', 2667000), (Standard ''E32-8as_v4'', 2843000),
      (Standard ''E32-8ds_v4'', 3048000), (Standard ''E32_v5'', 2843000), (Standard ''E32as_v4'', 2843000),
      (Standard ''E32as_v5'', 2549000), (Standard ''E32bds_v5'', 3768000), (Standard ''E32s_v3'', 2667000),
      (Standard ''E32s_v5'', 2843000), (Standard ''E4-2ads_v5'', 369000), (Standard ''E4-2s_v5'', 355000), (Standard ''E48_v5'', 4264000),
      (Standard ''E48a_v4'', 4264000), (Standard ''E48ads_v5'', 4433000), (Standard ''E48d_v4'', 4572000), (Standard ''E48d_v5'', 4873000),
      (Standard ''E4_v3'', 334000), (Standard ''E4ads_v5'', 369000), (Standard ''E4as_v4'', 355000), (Standard ''E4bds_v5'', 471000),
      (Standard ''E4s_v4'', 333000), (Standard ''E4s_v5'', 355000), (Standard ''E64-16ds_v4'', 6096000),
      (Standard ''E64-32ds_v5'', 6497000), (Standard ''E64_v3'', 4801000), (Standard ''E64_v5'', 5685000), (Standard ''E64i_v3'', 4801000),
      (Standard ''E64s_v3'', 4801000), (Standard ''E8-2as_v4'', 711000), (Standard ''E8-2ds_v4'', 762000), (Standard ''E8-2s_v4'', 667000),
      (Standard ''E8-4as_v4'', 711000), (Standard ''E80ids_v4'', 9155160), (Standard ''E8_v4'', 667000), (Standard ''E8ads_v5'', 739000),
      (Standard ''E8bs_v5'', 840000), (Standard ''E8s_v5'', 711000), (Standard ''E96-24ads_v5'', 8866000),
      (Standard ''E96-24as_v5'', 7648000), (Standard ''E96-48as_v4'', 8528000), (Standard ''E96-48as_v5'', 7648000),
      (Standard ''E96a_v4'', 8528000), (Standard ''E96bds_v5'', 11303000), (Standard ''E96d_v5'', 9746000),
      (Standard ''E96s_v5'', 8528000), (Standard ''F1'', 60000), (Standard ''F16s'', 966000), (Standard ''F2s'', 121000),
      (Standard ''F4'', 242000), (Standard ''F4s_v2'', 187000), (Standard ''F64s_v2'', 2992000), (Standard ''F72s_v2'', 3366000),
      (Standard ''L32as_v3'', 3519000), (Standard ''L64s_v3'', 7873000), (Standard ''L8s_v3'', 984000), (Standard ''M128ms'', 40440000),
      (Standard ''M128ms_v2'', 39666000), (Standard ''M16-4ms'', 4610000), (Standard ''M192ids_v2'', 24208000),
      (Standard ''M208ms_v2'', 67376000), (Standard ''M32dms_v2'', 9280000), (Standard ''M32s'', 5052500),
      (Standard ''M416is_v2'', 74866000), (Standard ''M416s_v2'', 74866000), (Standard ''M64-32ms'', 15664000),
      (Standard ''M64ls'', 6822900), (Standard ''M64m'', 15664000), (Standard ''M8ms'', 2305000), (Standard ''NC16as_T4_v3'', 1697000),
      (Standard ''NC4as_T4_v3'', 742000), (Standard ''NC8as_T4_v3'', 1059000), (Standard ''SQLG7_AMD_IaaS'', 11370000)]"

definition southindia :: priceTable where
  "southindia = southindia_1 @ southindia_2"

subsection \<open>The lists are well formed\<close>

lemma norwayeast_1_ok: "part_ok (''Dadsv5_Type1'') norwayeast_1 (Standard ''D48as_v4'')"
  unfolding norwayeast_1_def by (simp only: eval_part)

lemma norwayeast_2_ok: "part_ok (Standard ''D48as_v4'') norwayeast_2 (Standard ''E20_v5'')"
  unfolding norwayeast_2_def by (simp only: eval_part)

lemma norwayeast_3_ok: "part_ok (Standard ''E20_v5'') norwayeast_3 (Standard ''E64s_v5'')"
  unfolding norwayeast_3_def by (simp only: eval_part)

lemma norwayeast_4_ok: "last_ok (Standard ''E64s_v5'') norwayeast_4"
  unfolding norwayeast_4_def by (simp only: eval_part)

lemma norwayeast_ok: "table_ok norwayeast"
  unfolding norwayeast_def by (rule last_ok_table [OF part_join [OF norwayeast_1_ok part_join [OF norwayeast_2_ok part_join [OF norwayeast_3_ok norwayeast_4_ok]]]])

lemma norwaywest_1_ok: "part_ok (''Dasv4_Type2'') norwaywest_1 (Standard ''D64d_v5'')"
  unfolding norwaywest_1_def by (simp only: eval_part)

lemma norwaywest_2_ok: "part_ok (Standard ''D64d_v5'') norwaywest_2 (Standard ''E4as_v4'')"
  unfolding norwaywest_2_def by (simp only: eval_part)

lemma norwaywest_3_ok: "last_ok (Standard ''E4as_v4'') norwaywest_3"
  unfolding norwaywest_3_def by (simp only: eval_part)

lemma norwaywest_ok: "table_ok norwaywest"
  unfolding norwaywest_def by (rule last_ok_table [OF part_join [OF norwaywest_1_ok part_join [OF norwaywest_2_ok norwaywest_3_ok]]])

lemma polandcentral_1_ok: "part_ok (''Basic_A0'') polandcentral_1 (Standard ''D32s_v5'')"
  unfolding polandcentral_1_def by (simp only: eval_part)

lemma polandcentral_2_ok: "part_ok (Standard ''D32s_v5'') polandcentral_2 (Standard ''E16-8s_v5'')"
  unfolding polandcentral_2_def by (simp only: eval_part)

lemma polandcentral_3_ok: "part_ok (Standard ''E16-8s_v5'') polandcentral_3 (Standard ''E64-16as_v5'')"
  unfolding polandcentral_3_def by (simp only: eval_part)

lemma polandcentral_4_ok: "last_ok (Standard ''E64-16as_v5'') polandcentral_4"
  unfolding polandcentral_4_def by (simp only: eval_part)

lemma polandcentral_ok: "table_ok polandcentral"
  unfolding polandcentral_def by (rule last_ok_table [OF part_join [OF polandcentral_1_ok part_join [OF polandcentral_2_ok part_join [OF polandcentral_3_ok polandcentral_4_ok]]]])

lemma qatarcentral_1_ok: "part_ok (''Basic_A0'') qatarcentral_1 (Standard ''D3_v2'')"
  unfolding qatarcentral_1_def by (simp only: eval_part)

lemma qatarcentral_2_ok: "part_ok (Standard ''D3_v2'') qatarcentral_2 (Standard ''E16as_v5'')"
  unfolding qatarcentral_2_def by (simp only: eval_part)

lemma qatarcentral_3_ok: "part_ok (Standard ''E16as_v5'') qatarcentral_3 (Standard ''E64s_v5'')"
  unfolding qatarcentral_3_def by (simp only: eval_part)

lemma qatarcentral_4_ok: "last_ok (Standard ''E64s_v5'') qatarcentral_4"
  unfolding qatarcentral_4_def by (simp only: eval_part)

lemma qatarcentral_ok: "table_ok qatarcentral"
  unfolding qatarcentral_def by (rule last_ok_table [OF part_join [OF qatarcentral_1_ok part_join [OF qatarcentral_2_ok part_join [OF qatarcentral_3_ok qatarcentral_4_ok]]]])

lemma southafricanorth_1_ok: "part_ok (''Dadsv5_Type1'') southafricanorth_1 (Standard ''D48_v3'')"
  unfolding southafricanorth_1_def by (simp only: eval_part)

lemma southafricanorth_2_ok: "part_ok (Standard ''D48_v3'') southafricanorth_2 (Standard ''E16bs_v5'')"
  unfolding southafricanorth_2_def by (simp only: eval_part)

lemma southafricanorth_3_ok: "part_ok (Standard ''E16bs_v5'') southafricanorth_3 (Standard ''E8-2s_v3'')"
  unfolding southafricanorth_3_def by (simp only: eval_part)

lemma southafricanorth_4_ok: "last_ok (Standard ''E8-2s_v3'') southafricanorth_4"
  unfolding southafricanorth_4_def by (simp only: eval_part)

lemma southafricanorth_ok: "table_ok southafricanorth"
  unfolding southafricanorth_def by (rule last_ok_table [OF part_join [OF southafricanorth_1_ok part_join [OF southafricanorth_2_ok part_join [OF southafricanorth_3_ok southafricanorth_4_ok]]]])

lemma southafricawest_1_ok: "part_ok (''Dadsv5_Type1'') southafricawest_1 (Standard ''D8ads_v5'')"
  unfolding southafricawest_1_def by (simp only: eval_part)

lemma southafricawest_2_ok: "part_ok (Standard ''D8ads_v5'') southafricawest_2 (Standard ''E48_v5'')"
  unfolding southafricawest_2_def by (simp only: eval_part)

lemma southafricawest_3_ok: "last_ok (Standard ''E48_v5'') southafricawest_3"
  unfolding southafricawest_3_def by (simp only: eval_part)

lemma southafricawest_ok: "table_ok southafricawest"
  unfolding southafricawest_def by (rule last_ok_table [OF part_join [OF southafricawest_1_ok part_join [OF southafricawest_2_ok southafricawest_3_ok]]])

lemma southcentralus_1_ok: "part_ok (''Basic_A0'') southcentralus_1 (Standard ''D16as_v4'')"
  unfolding southcentralus_1_def by (simp only: eval_part)

lemma southcentralus_2_ok: "part_ok (Standard ''D16as_v4'') southcentralus_2 (Standard ''D64s_v3'')"
  unfolding southcentralus_2_def by (simp only: eval_part)

lemma southcentralus_3_ok: "part_ok (Standard ''D64s_v3'') southcentralus_3 (Standard ''E16s_v5'')"
  unfolding southcentralus_3_def by (simp only: eval_part)

lemma southcentralus_4_ok: "part_ok (Standard ''E16s_v5'') southcentralus_4 (Standard ''E64_v4'')"
  unfolding southcentralus_4_def by (simp only: eval_part)

lemma southcentralus_5_ok: "part_ok (Standard ''E64_v4'') southcentralus_5 (Standard ''HX176-48rs'')"
  unfolding southcentralus_5_def by (simp only: eval_part)

lemma southcentralus_6_ok: "last_ok (Standard ''HX176-48rs'') southcentralus_6"
  unfolding southcentralus_6_def by (simp only: eval_part)

lemma southcentralus_ok: "table_ok southcentralus"
  unfolding southcentralus_def by (rule last_ok_table [OF part_join [OF southcentralus_1_ok part_join [OF southcentralus_2_ok part_join [OF southcentralus_3_ok part_join [OF southcentralus_4_ok part_join [OF southcentralus_5_ok southcentralus_6_ok]]]]]])

lemma southeastasia_1_ok: "part_ok (''Basic_A1'') southeastasia_1 (Standard ''D64pls_v5'')"
  unfolding southeastasia_1_def by (simp only: eval_part)

lemma southeastasia_2_ok: "part_ok (Standard ''D64pls_v5'') southeastasia_2 (Standard ''E64d_v4'')"
  unfolding southeastasia_2_def by (simp only: eval_part)

lemma southeastasia_3_ok: "last_ok (Standard ''E64d_v4'') southeastasia_3"
  unfolding southeastasia_3_def by (simp only: eval_part)

lemma southeastasia_ok: "table_ok southeastasia"
  unfolding southeastasia_def by (rule last_ok_table [OF part_join [OF southeastasia_1_ok part_join [OF southeastasia_2_ok southeastasia_3_ok]]])

lemma southindia_1_ok: "part_ok (''Basic_A4'') southindia_1 (Standard ''DS5_v2'')"
  unfolding southindia_1_def by (simp only: eval_part)

lemma southindia_2_ok: "last_ok (Standard ''DS5_v2'') southindia_2"
  unfolding southindia_2_def by (simp only: eval_part)

lemma southindia_ok: "table_ok southindia"
  unfolding southindia_def by (rule last_ok_table [OF part_join [OF southindia_1_ok southindia_2_ok]])

end
