(* ===== verification/PriceLists5.thy ===== *)
theory PriceLists5
  imports PriceTables
begin

text \<open>
  The fifth part of the shipped price lists, \<open>pkg/providers/pricing/zz_generated.pricing.go\<close>: the regions
  swedencentral to ukwest, in the order of the file, each in parts of at most 150 lines.
\<close>

subsection \<open>swedencentral\<close>

definition swedencentral_1 :: priceTable where
  "swedencentral_1 =
     [(''Dasv4_Type1'', 5610000), (''Dasv5_Type1'', 5667000), (''Ddsv4_Type 1'', 4224000), (''Ddsv4_Type2'', 5016000),
      (''Ddsv5_Type1'', 6336000), (''Dsv3_Type3'', 4488000), (''Dsv3_Type4'', 5386000), (''Dsv4_Type1'', 4488000),
      (''Dsv4_Type2'', 5386000), (''Eadsv5_Type1'', 7339000), (''Easv4_Type1'', 7075000), (''Easv4_Type2'', 7075000),
      (''Ebdsv5-Type1'', 6248000), (''Edsv4_Type 1'', 5350000), (''Edsv4_Type2'', 6354000), (''Edsv5_Type1'', 8026000),
      (''Esv3_Type3'', 4717000), (''Esv3_Type4'', 6191000), (''Esv4_Type2'', 6191000), (''Esv5_Type1'', 7075000),
      (''Lsv2_Type1'', 7172000), (''Mdsmv2MedMem _Type1'', 41103000), (''Mdsv2MedMem_Type1'', 20544000), (''Msmv2MedMem Type1'', 40455000),
      (''Msmv2_Type1'', 130880000), (''Msv2_Type1'', 65446000), (Standard ''A1_v2'', 41000), (Standard ''A2_v2'', 86100),
      (Standard ''A2m_v2'', 113000), (Standard ''A4_v2'', 182000), (Standard ''A4m_v2'', 226000), (Standard ''A8_v2'', 380000),
      (Standard ''A8m_v2'', 453000), (Standard ''B12ms'', 518000), (Standard ''B16als_v2'', 624000), (Standard ''B16as_v2'', 622000),
      (Standard ''B16ls_v2'', 686000), (Standard ''B16ms'', 691000), (Standard ''B16pls_v2'', 561000), (Standard ''B16ps_v2'', 624000),
      (Standard ''B16s_v2'', 765000), (Standard ''B1ms'', 21600), (Standard ''B1s'', 10800), (Standard ''B2als_v2'', 48100),
      (Standard ''B2as_v2'', 77800), (Standard ''B2ats_v2'', 9720), (Standard ''B2ls_v2'', 52400), (Standard ''B2ms'', 86400),
      (Standard ''B2pls_v2'', 43600), (Standard ''B2ps_v2'', 78000), (Standard ''B2pts_v2'', 17800), (Standard ''B2s_v2'', 95600),
      (Standard ''B2ts_v2'', 20000), (Standard ''B32als_v2'', 1249000), (Standard ''B32as_v2'', 1244000), (Standard ''B32ls_v2'', 1224000),
      (Standard ''B32s_v2'', 1382000), (Standard ''B4als_v2'', 138000), (Standard ''B4as_v2'', 156000), (Standard ''B4ls_v2'', 171000),
      (Standard ''B4ms'', 173000), (Standard ''B4pls_v2'', 140000), (Standard ''B4ps_v2'', 156000), (Standard ''B4s_v2'', 191000),
      (Standard ''B8als_v2'', 275000), (Standard ''B8as_v2'', 311000), (Standard ''B8ls_v2'', 343000), (Standard ''B8ms'', 346000),
      (Standard ''B8pls_v2'', 280000), (Standard ''B8ps_v2'', 312000), (Standard ''B8s_v2'', 346000), (Standard ''D11_v2'', 171000),
      (Standard ''D12_v2'', 345000), (Standard ''D12_v2_Promo'', 345000), (Standard ''D13_v2'', 691000),
      (Standard ''D14_v2_Promo'', 1381000), (Standard ''D15_v2'', 1726000), (Standard ''D16_v3'', 816000), (Standard ''D16_v4'', 816000),
      (Standard ''D16_v5'', 816000), (Standard ''D16ads_v5'', 880000), (Standard ''D16as_v4'', 816000), (Standard ''D16d_v5'', 960000),
      (Standard ''D16ds_v5'', 960000), (Standard ''D16lds_v5'', 832000), (Standard ''D16ls_v5'', 728000), (Standard ''D16pds_v5'', 768000),
      (Standard ''D16plds_v5'', 666000), (Standard ''D16ps_v5'', 656000), (Standard ''D16s_v3'', 816000), (Standard ''D16s_v4'', 816000),
      (Standard ''D16s_v5'', 816000), (Standard ''D1_v2'', 68000), (Standard ''D2_v2'', 136000), (Standard ''D2_v4'', 102000),
      (Standard ''D2_v5'', 102000), (Standard ''D2a_v4'', 102000), (Standard ''D2ads_v5'', 110000), (Standard ''D2as_v4'', 102000),
      (Standard ''D2as_v5'', 92000), (Standard ''D2d_v4'', 120000), (Standard ''D2d_v5'', 120000), (Standard ''D2ds_v5'', 120000),
      (Standard ''D2lds_v5'', 104000), (Standard ''D2ls_v5'', 91000), (Standard ''D2pds_v5'', 96000), (Standard ''D2plds_v5'', 83200),
      (Standard ''D2ps_v5'', 82000), (Standard ''D2s_v3'', 102000), (Standard ''D2s_v4'', 102000), (Standard ''D2s_v5'', 102000),
      (Standard ''D32-8s_v3'', 1632000), (Standard ''D32_v3'', 1632000), (Standard ''D32_v4'', 1632000), (Standard ''D32_v5'', 1632000),
      (Standard ''D32as_v4'', 1632000), (Standard ''D32d_v4'', 1920000), (Standard ''D32d_v5'', 1920000), (Standard ''D32ds_v4'', 1920000),
      (Standard ''D32ds_v5'', 1920000), (Standard ''D32lds_v5'', 1664000), (Standard ''D32ls_v5'', 1456000),
      (Standard ''D32pds_v5'', 1536000), (Standard ''D32plds_v5'', 1331000), (Standard ''D32pls_v5'', 1168000),
      (Standard ''D32ps_v5'', 1312000), (Standard ''D32s_v3'', 1632000), (Standard ''D32s_v4'', 1632000), (Standard ''D3_v2'', 272000),
      (Standard ''D48_v3'', 2448000), (Standard ''D48_v4'', 2448000), (Standard ''D48_v5'', 2448000), (Standard ''D48a_v4'', 2448000),
      (Standard ''D48ads_v5'', 2640000), (Standard ''D48as_v4'', 2448000), (Standard ''D48as_v5'', 2208000)]"

definition swedencentral_2 :: priceTable where
  "swedencentral_2 =
     [(Standard ''D48d_v4'', 2880000), (Standard ''D48d_v5'', 2880000), (Standard ''D48ds_v4'', 2880000),
      (Standard ''D48lds_v5'', 2496000), (Standard ''D48ls_v5'', 2184000), (Standard ''D48pds_v5'', 2304000),
      (Standard ''D48plds_v5'', 1997000), (Standard ''D48pls_v5'', 1752000), (Standard ''D48ps_v5'', 1968000),
      (Standard ''D48s_v3'', 2448000), (Standard ''D48s_v4'', 2448000), (Standard ''D48s_v5'', 2448000), (Standard ''D4_v2'', 544000),
      (Standard ''D4_v2_Promo'', 544000), (Standard ''D4_v3'', 204000), (Standard ''D4_v4'', 204000), (Standard ''D4_v5'', 204000),
      (Standard ''D4a_v4'', 204000), (Standard ''D4ads_v5'', 220000), (Standard ''D4as_v4'', 204000), (Standard ''D4as_v5'', 184000),
      (Standard ''D4d_v4'', 240000), (Standard ''D4d_v5'', 240000), (Standard ''D4ds_v4'', 240000), (Standard ''D4ds_v5'', 240000),
      (Standard ''D4lds_v5'', 208000), (Standard ''D4pds_v5'', 192000), (Standard ''D4plds_v5'', 166000), (Standard ''D4pls_v5'', 146000),
      (Standard ''D4s_v3'', 204000), (Standard ''D4s_v4'', 204000), (Standard ''D5_v2'', 1088000), (Standard ''D5_v2_Promo'', 1088000),
      (Standard ''D64-16s_v3'', 3264000), (Standard ''D64-32s_v3'', 3264000), (Standard ''D64_v3'', 3264000),
      (Standard ''D64_v5'', 3264000), (Standard ''D64a_v4'', 3264000), (Standard ''D64ads_v5'', 3520000), (Standard ''D64as_v4'', 3264000),
      (Standard ''D64as_v5'', 2944000), (Standard ''D64d_v4'', 3840000), (Standard ''D64d_v5'', 3840000), (Standard ''D64ds_v4'', 3840000),
      (Standard ''D64ds_v5'', 3840000), (Standard ''D64lds_v5'', 3328000), (Standard ''D64ls_v5'', 2912000),
      (Standard ''D64pds_v5'', 3072000), (Standard ''D64plds_v5'', 2662000), (Standard ''D64pls_v5'', 2336000),
      (Standard ''D64ps_v5'', 2624000), (Standard ''D64s_v3'', 3264000), (Standard ''D64s_v4'', 3264000), (Standard ''D8_v3'', 408000),
      (Standard ''D8_v4'', 408000), (Standard ''D8_v5'', 408000), (Standard ''D8a_v4'', 408000), (Standard ''D8ads_v5'', 440000),
      (Standard ''D8as_v4'', 408000), (Standard ''D8as_v5'', 368000), (Standard ''D8d_v4'', 480000), (Standard ''D8d_v5'', 480000),
      (Standard ''D8ds_v5'', 480000), (Standard ''D8lds_v5'', 416000), (Standard ''D8ls_v5'', 364000), (Standard ''D8plds_v5'', 333000),
      (Standard ''D8s_v5'', 408000), (Standard ''D96_v5'', 4896000), (Standard ''D96a_v4'', 4896000), (Standard ''D96ads_v5'', 5280000),
      (Standard ''D96as_v4'', 4896000), (Standard ''D96as_v5'', 4416000), (Standard ''D96d_v5'', 5760000),
      (Standard ''D96lds_v5'', 4992000), (Standard ''D96ls_v5'', 4368000), (Standard ''D96s_v5'', 4896000), (Standard ''DC4s'', 395000),
      (Standard ''DS11-1_v2'', 171000), (Standard ''DS11_v2'', 171000), (Standard ''DS11_v2_Promo'', 171000),
      (Standard ''DS12-1_v2'', 345000), (Standard ''DS12-2_v2'', 345000), (Standard ''DS12_v2'', 345000),
      (Standard ''DS12_v2_Promo'', 345000), (Standard ''DS13-2_v2'', 691000), (Standard ''DS13-4_v2'', 691000),
      (Standard ''DS13_v2'', 691000), (Standard ''DS13_v2_Promo'', 691000), (Standard ''DS14-8_v2'', 1381000),
      (Standard ''DS14_v2'', 1381000), (Standard ''DS14_v2_Promo'', 1381000), (Standard ''DS15_v2'', 1726000),
      (Standard ''DS15i_v2'', 1726000), (Standard ''DS2_v2'', 136000), (Standard ''DS2_v2_Promo'', 136000), (Standard ''DS3_v2'', 272000),
      (Standard ''DS3_v2_Promo'', 272000), (Standard ''DS4_v2'', 544000), (Standard ''DS4_v2_Promo'', 544000),
      (Standard ''DS5_v2'', 1088000), (Standard ''E104i_v5'', 7665000), (Standard ''E104id_v5'', 8694000),
      (Standard ''E104is_v5'', 7665000), (Standard ''E112iads_v5'', 8562000), (Standard ''E112ias_v5'', 7454000),
      (Standard ''E112ibs_v5'', 9825000), (Standard ''E16-4ads_v5'', 1112000), (Standard ''E16-4as_v4'', 1072000),
      (Standard ''E16-4as_v5'', 968000), (Standard ''E16-4ds_v4'', 1216000), (Standard ''E16-4s_v3'', 1072000),
      (Standard ''E16-4s_v4'', 1072000), (Standard ''E16-4s_v5'', 1072000), (Standard ''E16-8ads_v5'', 1112000),
      (Standard ''E16-8as_v5'', 968000), (Standard ''E16-8ds_v4'', 1216000), (Standard ''E16-8ds_v5'', 1216000),
      (Standard ''E16-8s_v3'', 1072000), (Standard ''E16-8s_v4'', 1072000), (Standard ''E16-8s_v5'', 1072000),
      (Standard ''E16_v3'', 1072000), (Standard ''E16_v4'', 1072000), (Standard ''E16_v5'', 1072000), (Standard ''E16a_v4'', 1072000),
      (Standard ''E16ads_v5'', 1112000), (Standard ''E16as_v4'', 1072000), (Standard ''E16as_v5'', 968000),
      (Standard ''E16bs_v5'', 1276000), (Standard ''E16d_v4'', 1216000), (Standard ''E16d_v5'', 1216000), (Standard ''E16ds_v4'', 1216000),
      (Standard ''E16ds_v5'', 1216000), (Standard ''E16pds_v5'', 973000), (Standard ''E16ps_v5'', 856000), (Standard ''E16s_v3'', 1072000),
      (Standard ''E16s_v4'', 1072000)]"

definition swedencentral_3 :: priceTable where
  "swedencentral_3 =
     [(Standard ''E20_v3'', 1340000), (Standard ''E20_v4'', 1340000), (Standard ''E20_v5'', 1340000), (Standard ''E20a_v4'', 1340000),
      (Standard ''E20ads_v5'', 1390000), (Standard ''E20as_v4'', 1340000), (Standard ''E20as_v5'', 1210000),
      (Standard ''E20d_v4'', 1520000), (Standard ''E20d_v5'', 1520000), (Standard ''E20ds_v4'', 1520000), (Standard ''E20ds_v5'', 1520000),
      (Standard ''E20ps_v5'', 1070000), (Standard ''E20s_v3'', 1340000), (Standard ''E20s_v4'', 1340000), (Standard ''E20s_v5'', 1340000),
      (Standard ''E2_v3'', 134000), (Standard ''E2_v4'', 134000), (Standard ''E2_v5'', 134000), (Standard ''E2a_v4'', 134000),
      (Standard ''E2ads_v5'', 139000), (Standard ''E2as_v4'', 134000), (Standard ''E2as_v5'', 121000), (Standard ''E2bds_v5'', 178000),
      (Standard ''E2bs_v5'', 160000), (Standard ''E2d_v4'', 152000), (Standard ''E2d_v5'', 152000), (Standard ''E2ds_v4'', 152000),
      (Standard ''E2ds_v5'', 152000), (Standard ''E2pds_v5'', 122000), (Standard ''E2ps_v5'', 107000), (Standard ''E2s_v3'', 134000),
      (Standard ''E2s_v4'', 134000), (Standard ''E32-16ads_v5'', 2224000), (Standard ''E32-16as_v4'', 2144000),
      (Standard ''E32-16as_v5'', 1936000), (Standard ''E32-16ds_v4'', 2432000), (Standard ''E32-16ds_v5'', 2432000),
      (Standard ''E32-16s_v3'', 2144000), (Standard ''E32-16s_v4'', 2144000), (Standard ''E32-16s_v5'', 2144000),
      (Standard ''E32-8ads_v5'', 2224000), (Standard ''E32-8as_v4'', 2144000), (Standard ''E32-8as_v5'', 1936000),
      (Standard ''E32-8ds_v4'', 2432000), (Standard ''E32-8s_v3'', 2144000), (Standard ''E32-8s_v4'', 2144000),
      (Standard ''E32-8s_v5'', 2144000), (Standard ''E32_v3'', 2144000), (Standard ''E32_v4'', 2144000), (Standard ''E32_v5'', 2144000),
      (Standard ''E32a_v4'', 2144000), (Standard ''E32as_v4'', 2144000), (Standard ''E32as_v5'', 1936000),
      (Standard ''E32bs_v5'', 2552000), (Standard ''E32d_v4'', 2432000), (Standard ''E32ds_v4'', 2432000),
      (Standard ''E32ds_v5'', 2432000), (Standard ''E32pds_v5'', 1946000), (Standard ''E32ps_v5'', 1712000),
      (Standard ''E32s_v3'', 2144000), (Standard ''E32s_v4'', 2144000), (Standard ''E32s_v5'', 2144000), (Standard ''E4-2ads_v5'', 278000),
      (Standard ''E4-2as_v4'', 268000), (Standard ''E4-2as_v5'', 242000), (Standard ''E4-2ds_v4'', 304000),
      (Standard ''E4-2ds_v5'', 304000), (Standard ''E4-2s_v5'', 268000), (Standard ''E48_v3'', 3216000), (Standard ''E48_v4'', 3216000),
      (Standard ''E48_v5'', 3216000), (Standard ''E48ads_v5'', 3336000), (Standard ''E48as_v4'', 3216000),
      (Standard ''E48as_v5'', 2904000), (Standard ''E48bds_v5'', 4260000), (Standard ''E48bs_v5'', 3828000),
      (Standard ''E48d_v4'', 3648000), (Standard ''E48d_v5'', 3648000), (Standard ''E48ds_v4'', 3648000), (Standard ''E48ds_v5'', 3648000),
      (Standard ''E48s_v3'', 3216000), (Standard ''E48s_v4'', 3216000), (Standard ''E48s_v5'', 3216000), (Standard ''E4_v3'', 268000),
      (Standard ''E4_v5'', 268000), (Standard ''E4a_v4'', 268000), (Standard ''E4ads_v5'', 278000), (Standard ''E4as_v4'', 268000),
      (Standard ''E4as_v5'', 242000), (Standard ''E4bds_v5'', 355000), (Standard ''E4bs_v5'', 319000), (Standard ''E4d_v4'', 304000),
      (Standard ''E4d_v5'', 304000), (Standard ''E4ds_v4'', 304000), (Standard ''E4ds_v5'', 304000), (Standard ''E4pds_v5'', 243000),
      (Standard ''E4ps_v5'', 214000), (Standard ''E4s_v3'', 268000), (Standard ''E4s_v5'', 268000), (Standard ''E64-16ads_v5'', 4448000),
      (Standard ''E64-16as_v4'', 4288000), (Standard ''E64-16as_v5'', 3872000), (Standard ''E64-16ds_v4'', 4864000),
      (Standard ''E64-16ds_v5'', 4864000), (Standard ''E64-16s_v3'', 4288000), (Standard ''E64-16s_v4'', 4288000),
      (Standard ''E64-16s_v5'', 4288000), (Standard ''E64-32ads_v5'', 4448000), (Standard ''E64-32as_v4'', 4288000),
      (Standard ''E64-32as_v5'', 3872000), (Standard ''E64-32ds_v5'', 4864000), (Standard ''E64-32s_v3'', 4288000),
      (Standard ''E64_v3'', 4288000), (Standard ''E64_v4'', 4288000), (Standard ''E64a_v4'', 4288000), (Standard ''E64ads_v5'', 4448000),
      (Standard ''E64as_v5'', 3872000), (Standard ''E64bds_v5'', 5680000), (Standard ''E64bs_v5'', 5104000),
      (Standard ''E64d_v4'', 4864000), (Standard ''E64d_v5'', 4864000), (Standard ''E64ds_v4'', 4864000), (Standard ''E64ds_v5'', 4864000),
      (Standard ''E64i_v4_SPECIAL'', 4288000), (Standard ''E64ids_v4_SPECIAL'', 4864000), (Standard ''E64is_v3'', 4288000),
      (Standard ''E64is_v4_SPECIAL'', 4288000), (Standard ''E64s_v3'', 4288000), (Standard ''E64s_v4'', 4288000),
      (Standard ''E64s_v5'', 4288000), (Standard ''E8-2as_v4'', 536000), (Standard ''E8-2as_v5'', 484000), (Standard ''E8-2s_v5'', 536000),
      (Standard ''E8-4ads_v5'', 556000), (Standard ''E8-4as_v5'', 484000), (Standard ''E8-4ds_v5'', 608000)]"

definition swedencentral_4 :: priceTable where
  "swedencentral_4 =
     [(Standard ''E8-4s_v3'', 536000), (Standard ''E8-4s_v4'', 536000), (Standard ''E80ids_v4'', 6080000),
      (Standard ''E80is_v4'', 5360000), (Standard ''E8_v3'', 536000), (Standard ''E8_v4'', 536000), (Standard ''E8_v5'', 536000),
      (Standard ''E8a_v4'', 536000), (Standard ''E8ads_v5'', 556000), (Standard ''E8as_v4'', 536000), (Standard ''E8bds_v5'', 710000),
      (Standard ''E8bs_v5'', 638000), (Standard ''E8d_v4'', 608000), (Standard ''E8d_v5'', 608000), (Standard ''E8ds_v4'', 608000),
      (Standard ''E8ds_v5'', 608000), (Standard ''E8ps_v5'', 428000), (Standard ''E8s_v3'', 536000), (Standard ''E8s_v4'', 536000),
      (Standard ''E96-24ads_v5'', 6672000), (Standard ''E96-24as_v5'', 5808000), (Standard ''E96-24ds_v5'', 7296000),
      (Standard ''E96-24s_v5'', 6432000), (Standard ''E96-48as_v4'', 6432000), (Standard ''E96-48as_v5'', 5808000),
      (Standard ''E96-48ds_v5'', 7296000), (Standard ''E96-48s_v5'', 6432000), (Standard ''E96_v5'', 6432000),
      (Standard ''E96a_v4'', 6432000), (Standard ''E96ads_v5'', 6672000), (Standard ''E96as_v4'', 6432000),
      (Standard ''E96as_v5'', 5808000), (Standard ''E96bds_v5'', 8520000), (Standard ''E96bs_v5'', 7656000),
      (Standard ''E96d_v5'', 7296000), (Standard ''E96iads_v5'', 7339000), (Standard ''E96ias_v5'', 6389000), (Standard ''F1'', 56800),
      (Standard ''F16'', 909000), (Standard ''F16s'', 909000), (Standard ''F16s_v2'', 776000), (Standard ''F2'', 114000),
      (Standard ''F4'', 227000), (Standard ''F48s_v2'', 2328000), (Standard ''F4s'', 227000), (Standard ''F4s_v2'', 194000),
      (Standard ''F64s_v2'', 3104000), (Standard ''F72s_v2'', 3492000), (Standard ''F8s'', 455000), (Standard ''F8s_v2'', 388000),
      (Standard ''HB176-144rs_v4'', 9360000), (Standard ''HB176-24rs_v4'', 9360000), (Standard ''HB176-48rs_v4'', 9360000),
      (Standard ''HB176rs_v4'', 9360000), (Standard ''HX176-144rs'', 11232000), (Standard ''HX176-24rs'', 11232000),
      (Standard ''HX176-48rs'', 11232000), (Standard ''HX176-96rs'', 11232000), (Standard ''HX176rs'', 11232000),
      (Standard ''L112ias_v3'', 10041000), (Standard ''L16as_v3'', 1304000), (Standard ''L16s_v2'', 1304000),
      (Standard ''L32as_v3'', 2608000), (Standard ''L32s_v2'', 2608000), (Standard ''L48as_v3'', 3912000), (Standard ''L48s_v2'', 3912000),
      (Standard ''L48s_v3'', 4368000), (Standard ''L64as_v3'', 5216000), (Standard ''L64s_v2'', 5216000), (Standard ''L64s_v3'', 5824000),
      (Standard ''L80as_v3'', 6520000), (Standard ''L80s_v3'', 7280000), (Standard ''L88is_v2'', 7172000), (Standard ''L8as_v3'', 652000),
      (Standard ''L8s_v2'', 652000), (Standard ''L8s_v3'', 728000), (Standard ''M128'', 18673000), (Standard ''M128-64ms'', 37363000),
      (Standard ''M128dms_v2'', 37366000), (Standard ''M128ds_v2'', 18676000), (Standard ''M128m'', 37363000),
      (Standard ''M128ms'', 37363000), (Standard ''M128ms_v2'', 36777000), (Standard ''M128s'', 18673000),
      (Standard ''M128s_v2'', 18087000), (Standard ''M16-4ms'', 4302000), (Standard ''M16-8ms'', 4302000), (Standard ''M16ms'', 4302000),
      (Standard ''M16s'', 3342000), (Standard ''M192idms_v2'', 44889000), (Standard ''M192ids_v2'', 22445000),
      (Standard ''M192ims_v2'', 44300000), (Standard ''M192is_v2'', 21856000), (Standard ''M208-104ms_v2'', 53544000),
      (Standard ''M208-104s_v2'', 26772000), (Standard ''M208-52ms_v2'', 53544000), (Standard ''M208-52s_v2'', 26772000),
      (Standard ''M208ms_v2'', 53544000), (Standard ''M208s_v2'', 26772000), (Standard ''M32-16ms'', 8604000),
      (Standard ''M32-8ms'', 8604000), (Standard ''M32dms_v2'', 8604000), (Standard ''M32ls'', 4022000), (Standard ''M32ms'', 8604000),
      (Standard ''M32s'', 4669000), (Standard ''M32ts'', 3790000), (Standard ''M416-104ms_v2'', 118980000),
      (Standard ''M416-208ms_v2'', 118980000), (Standard ''M416-208s_v2'', 59496000), (Standard ''M416is_v2'', 59496000),
      (Standard ''M416ms_v2'', 118980000), (Standard ''M416s_8_v2'', 79750000), (Standard ''M416s_v2'', 59496000),
      (Standard ''M64'', 9337000), (Standard ''M64-16ms'', 14471800), (Standard ''M64-32ms'', 14471800),
      (Standard ''M64dms_v2'', 14476000), (Standard ''M64ds_v2'', 9337000), (Standard ''M64ls'', 7581000), (Standard ''M64m'', 14471800),
      (Standard ''M64ms'', 14471800), (Standard ''M64ms_v2'', 14181000), (Standard ''M64s_v2'', 9042000), (Standard ''M8-4ms'', 2151100),
      (Standard ''M8ms'', 2151100), (Standard ''ND40s_v2'', 12240000), (Standard ''ND96ams_A100_v4'', 42601000),
      (Standard ''ND96amsr_A100_v4'', 42601000), (Standard ''NV18ads_A10_v5'', 2080000), (Standard ''NV36adms_A10_v5'', 5876000),
      (Standard ''NV36ads_A10_v5'', 4160000), (Standard ''NV6ads_A10_v5'', 590000), (Standard ''NV72ads_A10_v5'', 8476000),
      (Standard ''SQLG7_NVME'', 7904000)]"

definition swedencentral :: priceTable where
  "swedencentral = swedencentral_1 @ swedencentral_2 @ swedencentral_3 @ swedencentral_4"

subsection \<open>swedensouth\<close>

definition swedensouth_1 :: priceTable where
  "swedensouth_1 =
     [(''Dadsv5_Type1'', 8809000), (''Dasv4_Type1'', 7293000), (''Dasv4_Type2'', 7293000), (''Dasv5_Type1'', 7367000),
      (''Ddsv5_Type1'', 8237000), (''Dsv3_Type3'', 5834000), (''Dsv3_Type4'', 7001000), (''Dsv4_Type1'', 5834000),
      (''Dsv5_Type1'', 7293000), (''Eadsv5_Type1'', 9541000), (''Easv4_Type1'', 9198000), (''Easv4_Type2'', 9198000),
      (''Easv5_Type1'', 8305000), (''Ebdsv5-Type1'', 8122000), (''Ebsv5-Type1'', 7299000), (''Edsv4_Type 1'', 6956000),
      (''Esv3_Type3'', 6132000), (''Esv3_Type4'', 8048000), (''Lasv3_Type1'', 9324000), (''Lsv3_Type1'', 10410000),
      (Standard ''A1_v2'', 53300), (Standard ''A2_v2'', 112000), (Standard ''A2m_v2'', 147000), (Standard ''A4_v2'', 237000),
      (Standard ''A4m_v2'', 294000), (Standard ''A8_v2'', 495000), (Standard ''A8m_v2'', 588000), (Standard ''B12ms'', 673000),
      (Standard ''B16als_v2'', 716000), (Standard ''B16as_v2'', 809000), (Standard ''B16ls_v2'', 869000), (Standard ''B16ms'', 898000),
      (Standard ''B16s_v2'', 899000), (Standard ''B1ls'', 7020), (Standard ''B1ms'', 28100), (Standard ''B1s'', 14000),
      (Standard ''B20ms'', 1123000), (Standard ''B2als_v2'', 50500), (Standard ''B2as_v2'', 101000), (Standard ''B2ats_v2'', 12600),
      (Standard ''B2ls_v2'', 56200), (Standard ''B2ms'', 112000), (Standard ''B2s'', 56200), (Standard ''B2s_v2'', 122000),
      (Standard ''B2ts_v2'', 14000), (Standard ''B32als_v2'', 1432000), (Standard ''B32as_v2'', 1617000), (Standard ''B32ls_v2'', 1739000),
      (Standard ''B32s_v2'', 1944000), (Standard ''B4als_v2'', 179000), (Standard ''B4as_v2'', 221000), (Standard ''B4ls_v2'', 199000),
      (Standard ''B4ms'', 225000), (Standard ''B4s_v2'', 243000), (Standard ''B8als_v2'', 358000), (Standard ''B8as_v2'', 404000),
      (Standard ''B8ls_v2'', 435000), (Standard ''B8ms'', 449000), (Standard ''B8s_v2'', 486000), (Standard ''D11_v2'', 223000),
      (Standard ''D11_v2_Promo'', 223000), (Standard ''D12_v2'', 449000), (Standard ''D12_v2_Promo'', 449000),
      (Standard ''D13_v2'', 898000), (Standard ''D13_v2_Promo'', 898000), (Standard ''D14_v2'', 1795000),
      (Standard ''D14_v2_Promo'', 1795000), (Standard ''D15_v2'', 2244000), (Standard ''D15i_v2'', 2244000),
      (Standard ''D16_v3'', 1061000), (Standard ''D16_v4'', 1061000), (Standard ''D16_v5'', 1061000), (Standard ''D16a_v4'', 1061000),
      (Standard ''D16ads_v5'', 1144000), (Standard ''D16as_v4'', 1061000), (Standard ''D16as_v5'', 957000),
      (Standard ''D16as_v5_Promo'', 853000), (Standard ''D16d_v4'', 1248000), (Standard ''D16d_v5'', 1248000),
      (Standard ''D16ds_v5'', 1248000), (Standard ''D16lds_v5'', 1082000), (Standard ''D16ls_v5'', 946000),
      (Standard ''D16s_v3'', 1061000), (Standard ''D16s_v4'', 1061000), (Standard ''D16s_v5'', 1061000), (Standard ''D1_v2'', 88400),
      (Standard ''D2_v2'', 177000), (Standard ''D2_v2_Promo'', 177000), (Standard ''D2_v3'', 133000), (Standard ''D2_v4'', 133000),
      (Standard ''D2_v5'', 133000), (Standard ''D2a_v4'', 133000), (Standard ''D2ads_v5'', 143000), (Standard ''D2as_v4'', 133000),
      (Standard ''D2as_v5'', 120000), (Standard ''D2as_v5_Promo'', 107000), (Standard ''D2d_v4'', 156000), (Standard ''D2d_v5'', 156000),
      (Standard ''D2ds_v5'', 156000), (Standard ''D2lds_v5'', 135000), (Standard ''D2ls_v5'', 118000), (Standard ''D2s_v3'', 133000),
      (Standard ''D2s_v4'', 133000), (Standard ''D2s_v5'', 133000), (Standard ''D32-16s_v3'', 2122000), (Standard ''D32-8s_v3'', 2122000),
      (Standard ''D32_v3'', 2122000), (Standard ''D32_v4'', 2122000), (Standard ''D32_v5'', 2122000), (Standard ''D32a_v4'', 2122000),
      (Standard ''D32ads_v5'', 2288000), (Standard ''D32as_v4'', 2122000), (Standard ''D32as_v5'', 1914000),
      (Standard ''D32as_v5_Promo'', 1706000), (Standard ''D32d_v4'', 2496000), (Standard ''D32d_v5'', 2496000),
      (Standard ''D32ds_v5'', 2496000)]"

definition swedensouth_2 :: priceTable where
  "swedensouth_2 =
     [(Standard ''D32lds_v5'', 2163000), (Standard ''D32ls_v5'', 1893000), (Standard ''D32s_v3'', 2122000),
      (Standard ''D32s_v4'', 2122000), (Standard ''D32s_v5'', 2122000), (Standard ''D3_v2'', 353000), (Standard ''D3_v2_Promo'', 353000),
      (Standard ''D48_v3'', 3182000), (Standard ''D48_v4'', 3182000), (Standard ''D48_v5'', 3182000), (Standard ''D48a_v4'', 3182000),
      (Standard ''D48ads_v5'', 3432000), (Standard ''D48as_v4'', 3182000), (Standard ''D48as_v5'', 2870000),
      (Standard ''D48as_v5_Promo'', 2558000), (Standard ''D48d_v4'', 3744000), (Standard ''D48d_v5'', 3744000),
      (Standard ''D48ds_v5'', 3744000), (Standard ''D48lds_v5'', 3245000), (Standard ''D48ls_v5'', 2839000),
      (Standard ''D48s_v3'', 3182000), (Standard ''D48s_v4'', 3182000), (Standard ''D48s_v5'', 3182000), (Standard ''D4_v2'', 707000),
      (Standard ''D4_v2_Promo'', 707000), (Standard ''D4_v3'', 265000), (Standard ''D4_v4'', 265000), (Standard ''D4_v5'', 265000),
      (Standard ''D4a_v4'', 265000), (Standard ''D4ads_v5'', 286000), (Standard ''D4as_v4'', 265000), (Standard ''D4as_v5'', 239000),
      (Standard ''D4as_v5_Promo'', 213000), (Standard ''D4d_v4'', 312000), (Standard ''D4d_v5'', 312000), (Standard ''D4ds_v5'', 312000),
      (Standard ''D4lds_v5'', 270000), (Standard ''D4ls_v5'', 237000), (Standard ''D4s_v3'', 265000), (Standard ''D4s_v4'', 265000),
      (Standard ''D4s_v5'', 265000), (Standard ''D5_v2'', 1414000), (Standard ''D5_v2_Promo'', 1414000),
      (Standard ''D64-16s_v3'', 4243000), (Standard ''D64-32s_v3'', 4243000), (Standard ''D64_v3'', 4243000),
      (Standard ''D64_v4'', 4243000), (Standard ''D64_v5'', 4243000), (Standard ''D64a_v4'', 4243000), (Standard ''D64ads_v5'', 4576000),
      (Standard ''D64as_v4'', 4243000), (Standard ''D64as_v5'', 3827000), (Standard ''D64as_v5_Promo'', 3411000),
      (Standard ''D64d_v4'', 4992000), (Standard ''D64d_v5'', 4992000), (Standard ''D64ds_v5'', 4992000),
      (Standard ''D64lds_v5'', 4326000), (Standard ''D64ls_v5'', 3786000), (Standard ''D64s_v3'', 4243000),
      (Standard ''D64s_v4'', 4243000), (Standard ''D64s_v5'', 4243000), (Standard ''D8_v3'', 530000), (Standard ''D8_v4'', 530000),
      (Standard ''D8_v5'', 530000), (Standard ''D8a_v4'', 530000), (Standard ''D8ads_v5'', 572000), (Standard ''D8as_v4'', 530000),
      (Standard ''D8as_v5'', 478000), (Standard ''D8as_v5_Promo'', 426000), (Standard ''D8d_v4'', 624000), (Standard ''D8d_v5'', 624000),
      (Standard ''D8ds_v5'', 624000), (Standard ''D8lds_v5'', 541000), (Standard ''D8ls_v5'', 473000), (Standard ''D8s_v3'', 530000),
      (Standard ''D8s_v4'', 530000), (Standard ''D8s_v5'', 530000), (Standard ''D96_v5'', 6365000), (Standard ''D96a_v4'', 6365000),
      (Standard ''D96ads_v5'', 6864000), (Standard ''D96as_v4'', 6365000), (Standard ''D96as_v5'', 5741000),
      (Standard ''D96as_v5_Promo'', 5117000), (Standard ''D96d_v5'', 7488000), (Standard ''D96ds_v5'', 7488000),
      (Standard ''D96lds_v5'', 6490000), (Standard ''D96ls_v5'', 5678000), (Standard ''D96s_v5'', 6365000),
      (Standard ''DS11-1_v2'', 223000), (Standard ''DS11_v2'', 223000), (Standard ''DS11_v2_Promo'', 223000),
      (Standard ''DS12-1_v2'', 449000), (Standard ''DS12-2_v2'', 449000), (Standard ''DS12_v2'', 449000),
      (Standard ''DS12_v2_Promo'', 449000), (Standard ''DS13-2_v2'', 898000), (Standard ''DS13-4_v2'', 898000),
      (Standard ''DS13_v2'', 898000), (Standard ''DS13_v2_Promo'', 898000), (Standard ''DS14-4_v2'', 1795000),
      (Standard ''DS14-8_v2'', 1795000), (Standard ''DS14_v2'', 1795000), (Standard ''DS14_v2_Promo'', 1795000),
      (Standard ''DS15_v2'', 2244000), (Standard ''DS15i_v2'', 2244000), (Standard ''DS1_v2'', 88400), (Standard ''DS2_v2'', 177000),
      (Standard ''DS2_v2_Promo'', 177000), (Standard ''DS3_v2'', 353000), (Standard ''DS3_v2_Promo'', 353000),
      (Standard ''DS4_v2'', 707000), (Standard ''DS4_v2_Promo'', 707000), (Standard ''DS5_v2'', 1414000),
      (Standard ''DS5_v2_Promo'', 1414000), (Standard ''E104i_v5'', 9964000), (Standard ''E104id_v5'', 11303000),
      (Standard ''E104ids_v5'', 11303000)]"

definition swedensouth_3 :: priceTable where
  "swedensouth_3 =
     [(Standard ''E104is_v5'', 9964000), (Standard ''E112iads_v5'', 11131000), (Standard ''E112ias_v5'', 9690000),
      (Standard ''E112ibds_v5'', 14214000), (Standard ''E112ibs_v5'', 12773000), (Standard ''E16-4ads_v5'', 1446000),
      (Standard ''E16-4as_v4'', 1394000), (Standard ''E16-4as_v5'', 1258000), (Standard ''E16-4ds_v4'', 1581000),
      (Standard ''E16-4ds_v5'', 1581000), (Standard ''E16-4s_v3'', 1394000), (Standard ''E16-4s_v5'', 1394000),
      (Standard ''E16-8ads_v5'', 1446000), (Standard ''E16-8as_v4'', 1394000), (Standard ''E16-8as_v5'', 1258000),
      (Standard ''E16-8ds_v4'', 1581000), (Standard ''E16-8ds_v5'', 1581000), (Standard ''E16-8s_v3'', 1394000),
      (Standard ''E16-8s_v5'', 1394000), (Standard ''E16_v3'', 1394000), (Standard ''E16_v5'', 1394000), (Standard ''E16a_v4'', 1394000),
      (Standard ''E16ads_v5'', 1446000), (Standard ''E16as_v4'', 1394000), (Standard ''E16as_v5'', 1258000),
      (Standard ''E16bds_v5'', 1846000), (Standard ''E16bs_v5'', 1659000), (Standard ''E16d_v4'', 1581000),
      (Standard ''E16d_v5'', 1581000), (Standard ''E16ds_v4'', 1581000), (Standard ''E16ds_v5'', 1581000), (Standard ''E16s_v3'', 1394000),
      (Standard ''E16s_v5'', 1394000), (Standard ''E20_v3'', 1742000), (Standard ''E20_v5'', 1742000), (Standard ''E20a_v4'', 1742000),
      (Standard ''E20ads_v5'', 1807000), (Standard ''E20as_v4'', 1742000), (Standard ''E20as_v5'', 1573000),
      (Standard ''E20d_v4'', 1976000), (Standard ''E20d_v5'', 1976000), (Standard ''E20ds_v4'', 1976000), (Standard ''E20ds_v5'', 1976000),
      (Standard ''E20s_v3'', 1742000), (Standard ''E20s_v5'', 1742000), (Standard ''E2_v3'', 174000), (Standard ''E2_v5'', 174000),
      (Standard ''E2a_v4'', 174000), (Standard ''E2ads_v5'', 181000), (Standard ''E2as_v4'', 174000), (Standard ''E2as_v5'', 157000),
      (Standard ''E2bds_v5'', 231000), (Standard ''E2bs_v5'', 207000), (Standard ''E2d_v4'', 198000), (Standard ''E2d_v5'', 198000),
      (Standard ''E2ds_v4'', 198000), (Standard ''E2ds_v5'', 198000), (Standard ''E2s_v3'', 174000), (Standard ''E2s_v5'', 174000),
      (Standard ''E32-16ads_v5'', 2891000), (Standard ''E32-16as_v4'', 2787000), (Standard ''E32-16as_v5'', 2517000),
      (Standard ''E32-16ds_v4'', 3162000), (Standard ''E32-16ds_v5'', 3162000), (Standard ''E32-16s_v3'', 2787000),
      (Standard ''E32-16s_v5'', 2787000), (Standard ''E32-8ads_v5'', 2891000), (Standard ''E32-8as_v4'', 2787000),
      (Standard ''E32-8as_v5'', 2517000), (Standard ''E32-8ds_v4'', 3162000), (Standard ''E32-8ds_v5'', 3162000),
      (Standard ''E32-8s_v3'', 2787000), (Standard ''E32-8s_v5'', 2787000), (Standard ''E32_v3'', 2787000), (Standard ''E32_v5'', 2787000),
      (Standard ''E32a_v4'', 2787000), (Standard ''E32ads_v5'', 2891000), (Standard ''E32as_v4'', 2787000),
      (Standard ''E32as_v5'', 2517000), (Standard ''E32bds_v5'', 3692000), (Standard ''E32bs_v5'', 3318000),
      (Standard ''E32d_v4'', 3162000), (Standard ''E32d_v5'', 3162000), (Standard ''E32ds_v4'', 3162000), (Standard ''E32ds_v5'', 3162000),
      (Standard ''E32s_v3'', 2787000), (Standard ''E32s_v5'', 2787000), (Standard ''E4-2ads_v5'', 361000),
      (Standard ''E4-2as_v4'', 348000), (Standard ''E4-2as_v5'', 315000), (Standard ''E4-2ds_v4'', 395000),
      (Standard ''E4-2ds_v5'', 395000), (Standard ''E4-2s_v3'', 348000), (Standard ''E4-2s_v5'', 348000), (Standard ''E48_v3'', 4181000),
      (Standard ''E48_v5'', 4181000), (Standard ''E48a_v4'', 4181000), (Standard ''E48ads_v5'', 4337000), (Standard ''E48as_v4'', 4181000),
      (Standard ''E48as_v5'', 3775000), (Standard ''E48bds_v5'', 5538000), (Standard ''E48bs_v5'', 4976000),
      (Standard ''E48d_v4'', 4742000), (Standard ''E48d_v5'', 4742000), (Standard ''E48ds_v4'', 4742000), (Standard ''E48ds_v5'', 4742000),
      (Standard ''E48s_v3'', 4181000), (Standard ''E48s_v5'', 4181000), (Standard ''E4_v3'', 348000), (Standard ''E4_v5'', 348000),
      (Standard ''E4a_v4'', 348000), (Standard ''E4ads_v5'', 361000), (Standard ''E4as_v4'', 348000), (Standard ''E4as_v5'', 315000),
      (Standard ''E4bds_v5'', 462000), (Standard ''E4bs_v5'', 415000), (Standard ''E4d_v4'', 395000)]"

definition swedensouth_4 :: priceTable where
  "swedensouth_4 =
     [(Standard ''E4d_v5'', 395000), (Standard ''E4ds_v4'', 395000), (Standard ''E4ds_v5'', 395000), (Standard ''E4s_v3'', 348000),
      (Standard ''E4s_v5'', 348000), (Standard ''E64-16ads_v5'', 5782000), (Standard ''E64-16as_v4'', 5574000),
      (Standard ''E64-16as_v5'', 5034000), (Standard ''E64-16ds_v4'', 6323000), (Standard ''E64-16ds_v5'', 6323000),
      (Standard ''E64-16s_v3'', 5574000), (Standard ''E64-16s_v5'', 5574000), (Standard ''E64-32ads_v5'', 5782000),
      (Standard ''E64-32as_v4'', 5574000), (Standard ''E64-32as_v5'', 5034000), (Standard ''E64-32ds_v4'', 6323000),
      (Standard ''E64-32ds_v5'', 6323000), (Standard ''E64-32s_v3'', 5574000), (Standard ''E64-32s_v5'', 5574000),
      (Standard ''E64_v3'', 5574000), (Standard ''E64_v5'', 5574000), (Standard ''E64a_v4'', 5574000), (Standard ''E64ads_v5'', 5782000),
      (Standard ''E64as_v4'', 5574000), (Standard ''E64as_v5'', 5034000), (Standard ''E64bds_v5'', 7384000),
      (Standard ''E64bs_v5'', 6635000), (Standard ''E64d_v4'', 6323000), (Standard ''E64d_v5'', 6323000), (Standard ''E64ds_v4'', 6323000),
      (Standard ''E64ds_v5'', 6323000), (Standard ''E64i_v3'', 5574000), (Standard ''E64is_v3'', 5574000), (Standard ''E64s_v3'', 5574000),
      (Standard ''E64s_v5'', 5574000), (Standard ''E8-2ads_v5'', 723000), (Standard ''E8-2as_v4'', 697000),
      (Standard ''E8-2as_v5'', 629000), (Standard ''E8-2ds_v4'', 790000), (Standard ''E8-2ds_v5'', 790000),
      (Standard ''E8-2s_v3'', 697000), (Standard ''E8-2s_v5'', 697000), (Standard ''E8-4ads_v5'', 723000),
      (Standard ''E8-4as_v4'', 697000), (Standard ''E8-4as_v5'', 629000), (Standard ''E8-4ds_v4'', 790000),
      (Standard ''E8-4ds_v5'', 790000), (Standard ''E8-4s_v3'', 697000), (Standard ''E8-4s_v5'', 697000),
      (Standard ''E80ids_v4'', 7904000), (Standard ''E8_v3'', 697000), (Standard ''E8_v5'', 697000), (Standard ''E8a_v4'', 697000),
      (Standard ''E8ads_v5'', 723000), (Standard ''E8as_v4'', 697000), (Standard ''E8as_v5'', 629000), (Standard ''E8bds_v5'', 923000),
      (Standard ''E8bs_v5'', 829000), (Standard ''E8d_v4'', 790000), (Standard ''E8d_v5'', 790000), (Standard ''E8ds_v4'', 790000),
      (Standard ''E8ds_v5'', 790000), (Standard ''E8s_v3'', 697000), (Standard ''E8s_v5'', 697000), (Standard ''E96-24ads_v5'', 8674000),
      (Standard ''E96-24as_v4'', 8362000), (Standard ''E96-24as_v5'', 7550000), (Standard ''E96-24ds_v5'', 9485000),
      (Standard ''E96-24s_v5'', 8362000), (Standard ''E96-48ads_v5'', 8674000), (Standard ''E96-48as_v4'', 8362000),
      (Standard ''E96-48as_v5'', 7550000), (Standard ''E96-48ds_v5'', 9485000), (Standard ''E96-48s_v5'', 8362000),
      (Standard ''E96_v5'', 8362000), (Standard ''E96a_v4'', 8362000), (Standard ''E96ads_v5'', 8674000), (Standard ''E96as_v4'', 8362000),
      (Standard ''E96as_v5'', 7550000), (Standard ''E96bds_v5'', 11076000), (Standard ''E96bs_v5'', 9953000),
      (Standard ''E96d_v5'', 9485000), (Standard ''E96ds_v5'', 9485000), (Standard ''E96iads_v5'', 9541000),
      (Standard ''E96ias_v4'', 8362000), (Standard ''E96ias_v5'', 8305000), (Standard ''E96s_v5'', 8362000), (Standard ''F1'', 73900),
      (Standard ''F16'', 1182000), (Standard ''F16s'', 1182000), (Standard ''F16s_v2'', 952000), (Standard ''F1s'', 73900),
      (Standard ''F2'', 148000), (Standard ''F2s'', 148000), (Standard ''F2s_v2'', 119000), (Standard ''F32s_v2'', 1904000),
      (Standard ''F4'', 295000), (Standard ''F48s_v2'', 2856000), (Standard ''F4s'', 295000), (Standard ''F4s_v2'', 238000),
      (Standard ''F64s_v2'', 3808000), (Standard ''F72s_v2'', 4284000), (Standard ''F8'', 591000), (Standard ''F8s'', 591000),
      (Standard ''F8s_v2'', 476000), (Standard ''L16as_v3'', 1695000), (Standard ''L16s_v3'', 1893000), (Standard ''L32as_v3'', 3390000),
      (Standard ''L32s_v3'', 3786000), (Standard ''L48as_v3'', 5086000), (Standard ''L48s_v3'', 5678000), (Standard ''L64as_v3'', 6781000),
      (Standard ''L64s_v3'', 7571000), (Standard ''L80as_v3'', 8476000), (Standard ''L80s_v3'', 9464000), (Standard ''L8as_v3'', 848000),
      (Standard ''L8s_v3'', 946000)]"

definition swedensouth :: priceTable where
  "swedensouth = swedensouth_1 @ swedensouth_2 @ swedensouth_3 @ swedensouth_4"

subsection \<open>switzerlandnorth\<close>

definition switzerlandnorth_1 :: priceTable where
  "switzerlandnorth_1 =
     [(''DCdsv3 Type1'', 8950000), (''DCsv3 Type1'', 7603000), (''Dadsv5_Type1'', 9073000), (''Dasv4_Type1'', 7550000),
      (''Dasv4_Type2'', 7550000), (''Ddsv4_Type2'', 7085000), (''Ddsv5_Type1'', 7899000), (''Dsv3_Type3'', 5566000),
      (''Dsv3_Type4'', 6866000), (''Dsv4_Type2'', 7920000), (''Dsv5_Type1'', 6958000), (''Easv4_Type1'', 9514000),
      (''Easv4_Type2'', 9514000), (''Easv5_Type1'', 8532000), (''Ebdsv5-Type1'', 8406000), (''Ebsv5-Type1'', 7500000),
      (''Edsv4_Type 1'', 6699000), (''Edsv4_Type2'', 9029000), (''Edsv5_Type1'', 10032000), (''Esv3_Type3'', 5586000),
      (''Esv3_Type4'', 7568000), (''Esv4_Type1'', 5886100), (''Esv5_Type1'', 8818000), (''Fsv2 Type3'', 4929100),
      (''Fsv2_Type2'', 4225100), (''Fsv2_Type4'', 6078000), (''Lsv3_Type1'', 10980000), (''Mdsmv2MedMem _Type1'', 45213300),
      (''Mdsv2MedMem_Type1'', 22598400), (''Msmv2MedMem Type1'', 44500500), (''Msv2MedMem Type1'', 21885600), (''Msv2_Type1'', 85079000),
      (''NDamsrA100v4_Type1'', 51547000), (Standard ''A1_v2'', 45100), (Standard ''A2_v2'', 95700), (Standard ''A2m_v2'', 136400),
      (Standard ''A4_v2'', 197000), (Standard ''A4m_v2'', 286000), (Standard ''A8_v2'', 394000), (Standard ''A8m_v2'', 595000),
      (Standard ''B12ms'', 633600), (Standard ''B16als_v2'', 747000), (Standard ''B16as_v2'', 834000), (Standard ''B16ls_v2'', 748000),
      (Standard ''B16ms'', 844800), (Standard ''B16s_v2'', 845000), (Standard ''B1ls'', 6600), (Standard ''B1ms'', 26400),
      (Standard ''B1s'', 13200), (Standard ''B2als_v2'', 47500), (Standard ''B2as_v2'', 104000), (Standard ''B2ats_v2'', 11900),
      (Standard ''B2ms'', 105600), (Standard ''B2s'', 52800), (Standard ''B2s_v2'', 106000), (Standard ''B2ts_v2'', 22400),
      (Standard ''B32als_v2'', 1494000), (Standard ''B32as_v2'', 1668000), (Standard ''B32ls_v2'', 1643000),
      (Standard ''B32s_v2'', 1837000), (Standard ''B4als_v2'', 168000), (Standard ''B4as_v2'', 208000), (Standard ''B4ls_v2'', 187000),
      (Standard ''B4ms'', 211200), (Standard ''B4s_v2'', 230000), (Standard ''B8als_v2'', 374000), (Standard ''B8as_v2'', 417000),
      (Standard ''B8s_v2'', 422000), (Standard ''D11_v2'', 209000), (Standard ''D12_v2'', 416900), (Standard ''D13_v2'', 834900),
      (Standard ''D14_v2'', 1669800), (Standard ''D15_v2'', 2086700), (Standard ''D15i_v2'', 2086700), (Standard ''D16_v3'', 1056000),
      (Standard ''D16_v4'', 1012000), (Standard ''D16a_v4'', 1098000), (Standard ''D16ads_v5'', 1178000), (Standard ''D16as_v4'', 1098000),
      (Standard ''D16as_v5'', 984000), (Standard ''D16d_v4'', 1196800), (Standard ''D16d_v5'', 1197000), (Standard ''D16ds_v4'', 1196800),
      (Standard ''D16ds_v5'', 1197000), (Standard ''D16lds_v5'', 1098000), (Standard ''D16ls_v5'', 972000),
      (Standard ''D16s_v3'', 1056000), (Standard ''D16s_v4'', 1012000), (Standard ''D16s_v5'', 1012000), (Standard ''D1_v2'', 74690),
      (Standard ''D2_v2'', 149600), (Standard ''D2_v3'', 132000), (Standard ''D2_v4'', 126500), (Standard ''D2_v5'', 127000),
      (Standard ''D2ads_v5'', 147000), (Standard ''D2as_v4'', 137000), (Standard ''D2d_v4'', 149600), (Standard ''D2ds_v4'', 149600),
      (Standard ''D2ds_v5'', 150000), (Standard ''D2lds_v5'', 137000), (Standard ''D2ls_v5'', 122000), (Standard ''D2s_v3'', 132000),
      (Standard ''D2s_v4'', 126500), (Standard ''D2s_v5'', 127000), (Standard ''D32-16s_v3'', 2112000), (Standard ''D32-8s_v3'', 2112000),
      (Standard ''D32_v3'', 2112000), (Standard ''D32_v4'', 2024000), (Standard ''D32_v5'', 2024000), (Standard ''D32ads_v5'', 2357000),
      (Standard ''D32as_v4'', 2196000), (Standard ''D32as_v5'', 1968000), (Standard ''D32ds_v4'', 2393600),
      (Standard ''D32ds_v5'', 2394000), (Standard ''D32lds_v5'', 2196000), (Standard ''D32s_v3'', 2112000),
      (Standard ''D32s_v4'', 2024000), (Standard ''D32s_v5'', 2024000), (Standard ''D48_v3'', 3168000), (Standard ''D48_v4'', 3036000),
      (Standard ''D48_v5'', 3036000), (Standard ''D48a_v4'', 3295000), (Standard ''D48ads_v5'', 3535000), (Standard ''D48as_v4'', 3295000),
      (Standard ''D48as_v5'', 2952000), (Standard ''D48d_v4'', 3590400), (Standard ''D48d_v5'', 3590000), (Standard ''D48ds_v4'', 3590400),
      (Standard ''D48ds_v5'', 3590000), (Standard ''D48ls_v5'', 2917000), (Standard ''D48s_v3'', 3168000), (Standard ''D48s_v4'', 3036000),
      (Standard ''D48s_v5'', 3036000), (Standard ''D4_v2'', 598400)]"

definition switzerlandnorth_2 :: priceTable where
  "switzerlandnorth_2 =
     [(Standard ''D4_v3'', 264000), (Standard ''D4_v4'', 253000), (Standard ''D4_v5'', 253000), (Standard ''D4ads_v5'', 295000),
      (Standard ''D4as_v5'', 246000), (Standard ''D4d_v4'', 299200), (Standard ''D4d_v5'', 299000), (Standard ''D4ds_v4'', 299200),
      (Standard ''D4ds_v5'', 299000), (Standard ''D4lds_v5'', 275000), (Standard ''D4ls_v5'', 243000), (Standard ''D4s_v3'', 264000),
      (Standard ''D4s_v4'', 253000), (Standard ''D4s_v5'', 253000), (Standard ''D5_v2'', 1195700), (Standard ''D64-16s_v3'', 4224000),
      (Standard ''D64-32s_v3'', 4224000), (Standard ''D64_v3'', 4224000), (Standard ''D64_v4'', 4048000), (Standard ''D64_v5'', 4048000),
      (Standard ''D64a_v4'', 4393000), (Standard ''D64ads_v5'', 4713000), (Standard ''D64as_v4'', 4393000),
      (Standard ''D64as_v5'', 3935000), (Standard ''D64d_v5'', 4787000), (Standard ''D64ds_v4'', 4787200),
      (Standard ''D64ds_v5'', 4787000), (Standard ''D64lds_v5'', 4393000), (Standard ''D64ls_v5'', 3890000),
      (Standard ''D64s_v3'', 4224000), (Standard ''D64s_v5'', 4048000), (Standard ''D8_v3'', 528000), (Standard ''D8_v5'', 506000),
      (Standard ''D8a_v4'', 549000), (Standard ''D8ads_v5'', 589000), (Standard ''D8as_v4'', 549000), (Standard ''D8d_v4'', 598400),
      (Standard ''D8d_v5'', 598000), (Standard ''D8ds_v4'', 598400), (Standard ''D8ds_v5'', 598000), (Standard ''D8ls_v5'', 486000),
      (Standard ''D8s_v3'', 528000), (Standard ''D8s_v4'', 506000), (Standard ''D8s_v5'', 506000), (Standard ''D96_v5'', 6072000),
      (Standard ''D96a_v4'', 6589000), (Standard ''D96ads_v5'', 7070000), (Standard ''D96as_v5'', 5903000),
      (Standard ''D96d_v5'', 7181000), (Standard ''D96ds_v5'', 7181000), (Standard ''D96lds_v5'', 6589000),
      (Standard ''D96s_v5'', 6072000), (Standard ''DC16ads_v5'', 1178000), (Standard ''DC16as_v5'', 984000),
      (Standard ''DC16ds_v3'', 2712000), (Standard ''DC16s_v3'', 2304000), (Standard ''DC1ds_v3'', 170000),
      (Standard ''DC24ds_v3'', 4068000), (Standard ''DC2ads_v5'', 147000), (Standard ''DC2ds_v3'', 339000), (Standard ''DC2s_v3'', 288000),
      (Standard ''DC32as_v5'', 1968000), (Standard ''DC32ds_v3'', 5424000), (Standard ''DC32s_v3'', 4608000),
      (Standard ''DC48as_v5'', 2952000), (Standard ''DC48ds_v3'', 8136000), (Standard ''DC48s_v3'', 6912000),
      (Standard ''DC4ads_v5'', 295000), (Standard ''DC4as_v5'', 246000), (Standard ''DC4ds_v3'', 678000), (Standard ''DC4s_v3'', 576000),
      (Standard ''DC64ads_v5'', 4713000), (Standard ''DC64as_v5'', 3935000), (Standard ''DC8ads_v5'', 589000),
      (Standard ''DC8as_v5'', 492000), (Standard ''DC8s_v3'', 1152000), (Standard ''DC96ads_v5'', 7070000),
      (Standard ''DC96as_v5'', 5903000), (Standard ''DS11-1_v2'', 209000), (Standard ''DS11_v2'', 209000),
      (Standard ''DS11_v2_Promo'', 282125), (Standard ''DS12-1_v2'', 416900), (Standard ''DS12-2_v2'', 416900),
      (Standard ''DS12_v2'', 416900), (Standard ''DS12_v2_Promo'', 565775), (Standard ''DS13-2_v2'', 834900),
      (Standard ''DS13-4_v2'', 834900), (Standard ''DS13_v2_Promo'', 1130025), (Standard ''DS14-4_v2'', 1669800),
      (Standard ''DS14-8_v2'', 1669800), (Standard ''DS15_v2'', 2086700), (Standard ''DS15i_v2'', 2086700), (Standard ''DS1_v2'', 74690),
      (Standard ''DS2_v2'', 149600), (Standard ''DS2_v2_Promo'', 208050), (Standard ''DS3_v2'', 299200),
      (Standard ''DS3_v2_Promo'', 343000), (Standard ''DS4_v2'', 598400), (Standard ''DS5_v2'', 1195700),
      (Standard ''E104i_v5'', 11243000), (Standard ''E104ids_v5'', 10868000), (Standard ''E104is_v5'', 9552000),
      (Standard ''E112iads_v5'', 11540000), (Standard ''E112ias_v5'', 9954000), (Standard ''E112ibds_v5'', 14711000),
      (Standard ''E112ibs_v5'', 13125000), (Standard ''E16-4ads_v5'', 1499000), (Standard ''E16-4as_v4'', 1441000),
      (Standard ''E16-4as_v5'', 1293000), (Standard ''E16-4ds_v4'', 1522400), (Standard ''E16-4ds_v5'', 1520000),
      (Standard ''E16-4s_v3'', 1408000), (Standard ''E16-4s_v4'', 1337600), (Standard ''E16-8ads_v5'', 1499000),
      (Standard ''E16-8as_v5'', 1293000), (Standard ''E16-8ds_v4'', 1522400), (Standard ''E16-8ds_v5'', 1520000),
      (Standard ''E16-8s_v3'', 1408000), (Standard ''E16-8s_v4'', 1337600), (Standard ''E16-8s_v5'', 1336000),
      (Standard ''E16_v3'', 1408000), (Standard ''E16_v4'', 1337600), (Standard ''E16_v5'', 1338000), (Standard ''E16a_v4'', 1441000),
      (Standard ''E16ads_v5'', 1499000), (Standard ''E16as_v4'', 1441000), (Standard ''E16as_v5'', 1293000),
      (Standard ''E16bds_v5'', 1910000), (Standard ''E16bs_v5'', 1705000), (Standard ''E16d_v4'', 1522400),
      (Standard ''E16d_v5'', 1522000), (Standard ''E16ds_v4'', 1522400), (Standard ''E16ds_v5'', 1520000),
      (Standard ''E16s_v3'', 1408000)]"

definition switzerlandnorth_3 :: priceTable where
  "switzerlandnorth_3 =
     [(Standard ''E16s_v4'', 1337600), (Standard ''E16s_v5'', 1336000), (Standard ''E20_v3'', 1760000), (Standard ''E20_v4'', 1672000),
      (Standard ''E20_v5'', 1672000), (Standard ''E20ads_v5'', 1873000), (Standard ''E20as_v4'', 1802000),
      (Standard ''E20as_v5'', 1616000), (Standard ''E20d_v4'', 1903000), (Standard ''E20d_v5'', 1903000), (Standard ''E20ds_v5'', 1900000),
      (Standard ''E20s_v3'', 1760000), (Standard ''E20s_v4'', 1672000), (Standard ''E20s_v5'', 1670000), (Standard ''E2_v4'', 167200),
      (Standard ''E2_v5'', 167000), (Standard ''E2a_v4'', 180000), (Standard ''E2ads_v5'', 187000), (Standard ''E2as_v4'', 180000),
      (Standard ''E2as_v5'', 162000), (Standard ''E2bs_v5'', 213000), (Standard ''E2ds_v4'', 190300), (Standard ''E2ds_v5'', 190000),
      (Standard ''E2s_v4'', 167200), (Standard ''E2s_v5'', 167000), (Standard ''E32-16ads_v5'', 2997000),
      (Standard ''E32-16as_v4'', 2883000), (Standard ''E32-16ds_v4'', 3044800), (Standard ''E32-16ds_v5'', 3040000),
      (Standard ''E32-16s_v3'', 2816000), (Standard ''E32-16s_v4'', 2675200), (Standard ''E32-8ads_v5'', 2997000),
      (Standard ''E32-8as_v4'', 2883000), (Standard ''E32-8ds_v4'', 3044800), (Standard ''E32-8s_v3'', 2816000),
      (Standard ''E32-8s_v4'', 2675200), (Standard ''E32-8s_v5'', 2672000), (Standard ''E32_v3'', 2816000), (Standard ''E32_v4'', 2675200),
      (Standard ''E32_v5'', 2675000), (Standard ''E32a_v4'', 2883000), (Standard ''E32ads_v5'', 2997000), (Standard ''E32as_v4'', 2883000),
      (Standard ''E32as_v5'', 2585000), (Standard ''E32bds_v5'', 3821000), (Standard ''E32bs_v5'', 3409000),
      (Standard ''E32d_v5'', 3045000), (Standard ''E32ds_v5'', 3040000), (Standard ''E32s_v3'', 2816000), (Standard ''E32s_v4'', 2675200),
      (Standard ''E32s_v5'', 2672000), (Standard ''E4-2ads_v5'', 375000), (Standard ''E4-2as_v4'', 360000),
      (Standard ''E4-2as_v5'', 323000), (Standard ''E4-2ds_v5'', 380000), (Standard ''E4-2s_v3'', 352000), (Standard ''E4-2s_v4'', 334400),
      (Standard ''E4-2s_v5'', 334000), (Standard ''E48_v3'', 4011700), (Standard ''E48_v4'', 4012800), (Standard ''E48_v5'', 4013000),
      (Standard ''E48a_v4'', 4324000), (Standard ''E48ads_v5'', 4496000), (Standard ''E48as_v4'', 4324000),
      (Standard ''E48as_v5'', 3878000), (Standard ''E48bds_v5'', 5731000), (Standard ''E48bs_v5'', 5114000),
      (Standard ''E48d_v4'', 4567200), (Standard ''E48d_v5'', 4567000), (Standard ''E48ds_v4'', 4567200), (Standard ''E48ds_v5'', 4560000),
      (Standard ''E48s_v3'', 4011700), (Standard ''E48s_v4'', 4012800), (Standard ''E48s_v5'', 4008000), (Standard ''E4_v3'', 352000),
      (Standard ''E4_v4'', 334400), (Standard ''E4_v5'', 334000), (Standard ''E4a_v4'', 360000), (Standard ''E4ads_v5'', 375000),
      (Standard ''E4as_v5'', 323000), (Standard ''E4bds_v5'', 478000), (Standard ''E4bs_v5'', 426000), (Standard ''E4d_v4'', 380600),
      (Standard ''E4d_v5'', 381000), (Standard ''E4ds_v4'', 380600), (Standard ''E4ds_v5'', 380000), (Standard ''E4s_v4'', 334400),
      (Standard ''E4s_v5'', 334000), (Standard ''E64-16ads_v5'', 5995000), (Standard ''E64-16as_v4'', 5766000),
      (Standard ''E64-16as_v5'', 5171000), (Standard ''E64-16ds_v4'', 6089600), (Standard ''E64-16ds_v5'', 6080000),
      (Standard ''E64-16s_v3'', 4813600), (Standard ''E64-32ads_v5'', 5995000), (Standard ''E64-32as_v4'', 5766000),
      (Standard ''E64-32as_v5'', 5171000), (Standard ''E64-32ds_v4'', 6089600), (Standard ''E64-32ds_v5'', 6080000),
      (Standard ''E64-32s_v3'', 4813600), (Standard ''E64-32s_v4'', 5350400), (Standard ''E64-32s_v5'', 5344000),
      (Standard ''E64_v5'', 5350000), (Standard ''E64a_v4'', 5766000), (Standard ''E64ads_v5'', 5995000), (Standard ''E64as_v4'', 5766000),
      (Standard ''E64as_v5'', 5171000), (Standard ''E64bds_v5'', 7642000), (Standard ''E64bs_v5'', 6818000),
      (Standard ''E64d_v5'', 6090000), (Standard ''E64ds_v4'', 6089600), (Standard ''E64ds_v5'', 6080000),
      (Standard ''E64is_v3'', 4813600), (Standard ''E64s_v3'', 4813600), (Standard ''E64s_v4'', 5350400), (Standard ''E64s_v5'', 5344000),
      (Standard ''E8-2ads_v5'', 749000), (Standard ''E8-2as_v5'', 646000), (Standard ''E8-2ds_v4'', 761200),
      (Standard ''E8-2ds_v5'', 760000), (Standard ''E8-2s_v3'', 704000), (Standard ''E8-2s_v4'', 668800), (Standard ''E8-2s_v5'', 668000),
      (Standard ''E8-4ads_v5'', 749000), (Standard ''E8-4as_v5'', 646000), (Standard ''E8-4ds_v4'', 761200),
      (Standard ''E8-4s_v3'', 704000), (Standard ''E8-4s_v4'', 668800), (Standard ''E8-4s_v5'', 668000), (Standard ''E80ids_v4'', 7612000),
      (Standard ''E80is_v4'', 6688000), (Standard ''E8_v3'', 704000), (Standard ''E8_v4'', 668800), (Standard ''E8_v5'', 669000)]"

definition switzerlandnorth_4 :: priceTable where
  "switzerlandnorth_4 =
     [(Standard ''E8a_v4'', 721000), (Standard ''E8ads_v5'', 749000), (Standard ''E8as_v4'', 721000), (Standard ''E8as_v5'', 646000),
      (Standard ''E8bds_v5'', 955000), (Standard ''E8bs_v5'', 852000), (Standard ''E8d_v4'', 761200), (Standard ''E8d_v5'', 761000),
      (Standard ''E8ds_v4'', 761200), (Standard ''E8ds_v5'', 760000), (Standard ''E8s_v3'', 704000), (Standard ''E8s_v4'', 668800),
      (Standard ''E8s_v5'', 668000), (Standard ''E96-24ads_v5'', 8992000), (Standard ''E96-24as_v4'', 8649000),
      (Standard ''E96-24as_v5'', 7756000), (Standard ''E96-24ds_v5'', 9120000), (Standard ''E96-48as_v4'', 8649000),
      (Standard ''E96-48ds_v5'', 9120000), (Standard ''E96-48s_v5'', 8016000), (Standard ''E96_v5'', 8026000),
      (Standard ''E96a_v4'', 8649000), (Standard ''E96ads_v5'', 8992000), (Standard ''E96as_v4'', 8649000),
      (Standard ''E96as_v5'', 7756000), (Standard ''E96bds_v5'', 11463000), (Standard ''E96bs_v5'', 10227000),
      (Standard ''E96d_v5'', 9134000), (Standard ''E96ds_v5'', 9120000), (Standard ''E96iads_v5'', 9891000),
      (Standard ''E96ias_v4'', 8649000), (Standard ''E96ias_v5'', 8532000), (Standard ''E96s_v5'', 8016000),
      (Standard ''EC16ads_v5'', 1499000), (Standard ''EC16as_v5'', 1293000), (Standard ''EC20ads_v5'', 1873000),
      (Standard ''EC20as_v5'', 1616000), (Standard ''EC2ads_v5'', 187000), (Standard ''EC2as_v5'', 162000),
      (Standard ''EC32ads_v5'', 2997000), (Standard ''EC32as_v5'', 2585000), (Standard ''EC48ads_v5'', 4496000),
      (Standard ''EC48as_v5'', 3878000), (Standard ''EC4ads_v5'', 375000), (Standard ''EC4as_v5'', 323000),
      (Standard ''EC64ads_v5'', 5995000), (Standard ''EC64as_v5'', 5171000), (Standard ''EC8ads_v5'', 749000),
      (Standard ''EC8as_v5'', 646000), (Standard ''EC96ads_v5'', 8992000), (Standard ''EC96as_v5'', 7756000),
      (Standard ''EC96iads_v5'', 9891000), (Standard ''EC96ias_v5'', 8532000), (Standard ''F1'', 62480), (Standard ''F16'', 999900),
      (Standard ''F16s_v2'', 853600), (Standard ''F1s'', 62480), (Standard ''F2'', 125400), (Standard ''F2s_v2'', 106700),
      (Standard ''F32s_v2'', 1707200), (Standard ''F4'', 249700), (Standard ''F48s_v2'', 2560800), (Standard ''F4s'', 249700),
      (Standard ''F4s_v2'', 213400), (Standard ''F72s_v2'', 3841200), (Standard ''F8'', 499400), (Standard ''L16as_v3'', 1785000),
      (Standard ''L16s_v3'', 1996000), (Standard ''L32as_v3'', 3569000), (Standard ''L32s_v3'', 3993000), (Standard ''L48as_v3'', 5354000),
      (Standard ''L48s_v3'', 5989000), (Standard ''L64as_v3'', 7139000), (Standard ''L64s_v3'', 7985000), (Standard ''L80s_v3'', 9981000),
      (Standard ''L8as_v3'', 892000), (Standard ''L8s_v3'', 998000), (Standard ''M128'', 20540300), (Standard ''M128-32ms'', 41099520),
      (Standard ''M128-64ms'', 41099520), (Standard ''M128dms_v2'', 41102600), (Standard ''M128ds_v2'', 20543600),
      (Standard ''M128ms'', 41099520), (Standard ''M128s_v2'', 19895700), (Standard ''M16-4ms'', 4732420), (Standard ''M16-8ms'', 4732420),
      (Standard ''M16ms'', 4732420), (Standard ''M16s'', 3675980), (Standard ''M192idms_v2'', 49377900),
      (Standard ''M192ids_v2'', 24689500), (Standard ''M192ims_v2'', 48730000), (Standard ''M192is_v2'', 24041600),
      (Standard ''M208-104ms_v2'', 69607000), (Standard ''M208-104s_v2'', 34804000), (Standard ''M208-52s_v2'', 34804000),
      (Standard ''M208ms_v2'', 69607000), (Standard ''M208s_v2'', 34804000), (Standard ''M32-16ms'', 9464840),
      (Standard ''M32-8ms'', 9464840), (Standard ''M32dms_v2'', 9464400), (Standard ''M32ls'', 3792360), (Standard ''M32ms'', 9464840),
      (Standard ''M32ms_v2'', 9302700), (Standard ''M32s'', 5135900), (Standard ''M416-104ms_v2'', 154670000),
      (Standard ''M416-104s_v2'', 77345000), (Standard ''M416-208s_v2'', 77345000), (Standard ''M416is_v2'', 77345000),
      (Standard ''M416s_8_v2'', 94540000), (Standard ''M416s_v2'', 77345000), (Standard ''M64'', 10270700),
      (Standard ''M64-16ms'', 15919200), (Standard ''M64-32ms'', 15919200), (Standard ''M64dms_v2'', 15923600),
      (Standard ''M64ds_v2'', 10270700), (Standard ''M64ls'', 7147800), (Standard ''M64m'', 15919200), (Standard ''M64ms'', 15919200),
      (Standard ''M64ms_v2'', 15599100), (Standard ''M64s'', 10270700), (Standard ''M64s_v2'', 9946200), (Standard ''M8-4ms'', 2366210),
      (Standard ''M8ms'', 2366210), (Standard ''NC12s_v3'', 8411000), (Standard ''NC24rs_v3'', 18503000),
      (Standard ''NC24s_v3'', 16821000), (Standard ''NC6s_v3'', 4205000), (Standard ''ND96ams_A100_v4'', 46861000),
      (Standard ''ND96amsr_A100_v4'', 46861000), (Standard ''NV12s_v3'', 1569000), (Standard ''NV48s_v3'', 6270000)]"

definition switzerlandnorth :: priceTable where
  "switzerlandnorth = switzerlandnorth_1 @ switzerlandnorth_2 @ switzerlandnorth_3 @ switzerlandnorth_4"

subsection \<open>switzerlandwest\<close>

definition switzerlandwest_1 :: priceTable where
  "switzerlandwest_1 =
     [(''Dadsv5_Type1'', 11795000), (''Dasv4_Type1'', 9816000), (''Dasv4_Type2'', 9816000), (''Dasv5_Type1'', 9848000),
      (''Ddsv5_Type1'', 10276000), (''Dsv3_Type3'', 5915000), (''Dsv3_Type4'', 7394000), (''Dsv5_Type1'', 9035000),
      (''Eadsv5_Type1'', 12858000), (''Easv4_Type1'', 12368000), (''Easv4_Type2'', 12368000), (''Easv5_Type1'', 11092000),
      (''Ebdsv5-Type1'', 10928000), (''Ebsv5-Type1'', 9750000), (''Edsv5_Type1'', 13306000), (''Esv3_Type3'', 6016000),
      (''Esv3_Type4'', 8150000), (''Esv5_Type1'', 11669000), (''Fsv2_Type2'', 4549510), (''Lasv3_Type1'', 12760000),
      (''Lsv3_Type1'', 14273000), (''Ms_Type1'', 32037000), (''Msm_Type1'', 64129000), (''Msmv2_Type1'', 221400000),
      (''Msv2_Type1'', 110710000), (Standard ''A1_v2'', 58670), (Standard ''A2_v2'', 124490), (Standard ''A2m_v2'', 176680),
      (Standard ''A4_v2'', 256000), (Standard ''A4m_v2'', 371420), (Standard ''A8_v2'', 512000), (Standard ''A8m_v2'', 774000),
      (Standard ''B12ms'', 823130), (Standard ''B16als_v2'', 875000), (Standard ''B16as_v2'', 988000), (Standard ''B16ls_v2'', 973000),
      (Standard ''B16ms'', 1097690), (Standard ''B16s_v2'', 1172000), (Standard ''B1ls'', 8580), (Standard ''B1ms'', 34280),
      (Standard ''B1s'', 17140), (Standard ''B20ms'', 1371980), (Standard ''B2als_v2'', 61800), (Standard ''B2as_v2'', 133000),
      (Standard ''B2ats_v2'', 24600), (Standard ''B2ls_v2'', 68600), (Standard ''B2ms'', 137740), (Standard ''B2s'', 68660),
      (Standard ''B2s_v2'', 146000), (Standard ''B2ts_v2'', 26400), (Standard ''B32als_v2'', 1750000), (Standard ''B32as_v2'', 2124000),
      (Standard ''B32ls_v2'', 2092000), (Standard ''B32s_v2'', 2196000), (Standard ''B4als_v2'', 237000), (Standard ''B4as_v2'', 266000),
      (Standard ''B4ls_v2'', 243000), (Standard ''B4ms'', 275480), (Standard ''B4s_v2'', 275000), (Standard ''B8als_v2'', 475000),
      (Standard ''B8as_v2'', 531000), (Standard ''B8ls_v2'', 523000), (Standard ''B8ms'', 548850), (Standard ''B8s_v2'', 549000),
      (Standard ''D11_v2'', 271330), (Standard ''D12_v2'', 542150), (Standard ''D13_v2'', 1085740), (Standard ''D14_v2'', 2170560),
      (Standard ''D15_v2'', 2712710), (Standard ''D15i_v2'', 2712710), (Standard ''D16_v3'', 1373170), (Standard ''D16_v4'', 1315950),
      (Standard ''D16_v5'', 1314000), (Standard ''D16a_v4'', 1428000), (Standard ''D16ads_v5'', 1532000), (Standard ''D16as_v4'', 1428000),
      (Standard ''D16as_v5'', 1279000), (Standard ''D16as_v5_Promo'', 1145000), (Standard ''D16d_v4'', 1556020),
      (Standard ''D16d_v5'', 1557000), (Standard ''D16ds_v4'', 1556020), (Standard ''D16ds_v5'', 1557000),
      (Standard ''D16lds_v5'', 1428000), (Standard ''D16ls_v5'', 1264000), (Standard ''D16s_v3'', 1373170),
      (Standard ''D16s_v4'', 1315950), (Standard ''D16s_v5'', 1314000), (Standard ''D1_v2'', 97020), (Standard ''D2_v2'', 194570),
      (Standard ''D2_v3'', 171420), (Standard ''D2_v4'', 164270), (Standard ''D2_v5'', 164000), (Standard ''D2a_v4'', 178000),
      (Standard ''D2ads_v5'', 191000), (Standard ''D2as_v4'', 178000), (Standard ''D2as_v5'', 160000),
      (Standard ''D2as_v5_Promo'', 143000), (Standard ''D2d_v4'', 193600), (Standard ''D2d_v5'', 194000), (Standard ''D2ds_v4'', 193600),
      (Standard ''D2ds_v5'', 194000), (Standard ''D2lds_v5'', 178000), (Standard ''D2ls_v5'', 158000), (Standard ''D2s_v3'', 171420),
      (Standard ''D2s_v4'', 164270), (Standard ''D2s_v5'', 164000), (Standard ''D32-16s_v3'', 2745420), (Standard ''D32-8s_v3'', 2745420),
      (Standard ''D32_v3'', 2745420), (Standard ''D32_v4'', 2631020), (Standard ''D32_v5'', 2628000), (Standard ''D32a_v4'', 2855000),
      (Standard ''D32ads_v5'', 3064000), (Standard ''D32as_v4'', 2855000), (Standard ''D32as_v5'', 2558000),
      (Standard ''D32as_v5_Promo'', 2290000), (Standard ''D32d_v4'', 3112030), (Standard ''D32d_v5'', 3114000),
      (Standard ''D32ds_v4'', 3112030), (Standard ''D32ds_v5'', 3114000), (Standard ''D32lds_v5'', 2855000),
      (Standard ''D32ls_v5'', 2528000), (Standard ''D32s_v3'', 2745420), (Standard ''D32s_v4'', 2631020), (Standard ''D32s_v5'', 2628000),
      (Standard ''D3_v2'', 389140), (Standard ''D48_v3'', 4118580), (Standard ''D48_v4'', 3946980), (Standard ''D48_v5'', 3943000),
      (Standard ''D48a_v4'', 4283000), (Standard ''D48ads_v5'', 4595000), (Standard ''D48as_v4'', 4283000),
      (Standard ''D48as_v5'', 3837000)]"

definition switzerlandwest_2 :: priceTable where
  "switzerlandwest_2 =
     [(Standard ''D48as_v5_Promo'', 3435000), (Standard ''D48d_v4'', 4667170), (Standard ''D48d_v5'', 4671000),
      (Standard ''D48ds_v4'', 4667170), (Standard ''D48ds_v5'', 4671000), (Standard ''D48lds_v5'', 4283000),
      (Standard ''D48ls_v5'', 3792000), (Standard ''D48s_v3'', 4118580), (Standard ''D48s_v4'', 3946980), (Standard ''D48s_v5'', 3943000),
      (Standard ''D4_v2'', 778010), (Standard ''D4_v3'', 342830), (Standard ''D4_v4'', 328550), (Standard ''D4_v5'', 329000),
      (Standard ''D4a_v4'', 357000), (Standard ''D4ads_v5'', 383000), (Standard ''D4as_v4'', 357000), (Standard ''D4as_v5'', 320000),
      (Standard ''D4as_v5_Promo'', 286000), (Standard ''D4d_v4'', 389220), (Standard ''D4d_v5'', 389000), (Standard ''D4ds_v4'', 389220),
      (Standard ''D4ds_v5'', 389000), (Standard ''D4lds_v5'', 357000), (Standard ''D4ls_v5'', 316000), (Standard ''D4s_v3'', 342830),
      (Standard ''D4s_v4'', 328550), (Standard ''D4s_v5'', 329000), (Standard ''D5_v2'', 1553680), (Standard ''D64-16s_v3'', 5490830),
      (Standard ''D64-32s_v3'', 5490830), (Standard ''D64_v3'', 5490830), (Standard ''D64_v4'', 5262050), (Standard ''D64_v5'', 5257000),
      (Standard ''D64a_v4'', 5711000), (Standard ''D64ads_v5'', 6127000), (Standard ''D64as_v4'', 5711000),
      (Standard ''D64as_v5'', 5116000), (Standard ''D64as_v5_Promo'', 4581000), (Standard ''D64d_v4'', 6223180),
      (Standard ''D64d_v5'', 6228000), (Standard ''D64ds_v4'', 6223180), (Standard ''D64ds_v5'', 6228000),
      (Standard ''D64lds_v5'', 5711000), (Standard ''D64ls_v5'', 5057000), (Standard ''D64s_v3'', 5490830),
      (Standard ''D64s_v4'', 5262050), (Standard ''D64s_v5'', 5257000), (Standard ''D8_v3'', 686580), (Standard ''D8_v4'', 657980),
      (Standard ''D8_v5'', 657000), (Standard ''D8a_v4'', 714000), (Standard ''D8ads_v5'', 766000), (Standard ''D8as_v4'', 714000),
      (Standard ''D8as_v5'', 639000), (Standard ''D8as_v5_Promo'', 573000), (Standard ''D8d_v4'', 777570), (Standard ''D8d_v5'', 778000),
      (Standard ''D8ds_v4'', 777570), (Standard ''D8ds_v5'', 778000), (Standard ''D8lds_v5'', 714000), (Standard ''D8ls_v5'', 632000),
      (Standard ''D8s_v3'', 686580), (Standard ''D8s_v4'', 657980), (Standard ''D8s_v5'', 657000), (Standard ''D96_v5'', 7885000),
      (Standard ''D96a_v4'', 8566000), (Standard ''D96ads_v5'', 9191000), (Standard ''D96as_v4'', 8566000),
      (Standard ''D96as_v5'', 7674000), (Standard ''D96as_v5_Promo'', 6871000), (Standard ''D96d_v5'', 9341000),
      (Standard ''D96ds_v5'', 9341000), (Standard ''D96lds_v5'', 8566000), (Standard ''D96ls_v5'', 7585000),
      (Standard ''D96s_v5'', 7885000), (Standard ''DS11-1_v2'', 271330), (Standard ''DS11_v2'', 271330), (Standard ''DS12-1_v2'', 542150),
      (Standard ''DS12-2_v2'', 542150), (Standard ''DS12_v2'', 542150), (Standard ''DS13-2_v2'', 1085740),
      (Standard ''DS13-4_v2'', 1085740), (Standard ''DS13_v2'', 1085740), (Standard ''DS14-4_v2'', 2170560),
      (Standard ''DS14-8_v2'', 2170560), (Standard ''DS14_v2'', 2170560), (Standard ''DS15_v2'', 2712710),
      (Standard ''DS15i_v2'', 2712710), (Standard ''DS1_v2'', 97020), (Standard ''DS2_v2'', 194570), (Standard ''DS3_v2'', 389140),
      (Standard ''DS4_v2'', 778010), (Standard ''DS5_v2'', 1553680), (Standard ''E104i_v5'', 14616000), (Standard ''E104id_v5'', 16704000),
      (Standard ''E104ids_v5'', 14414000), (Standard ''E104is_v5'', 12641000), (Standard ''E112iads_v5'', 15001000),
      (Standard ''E112ias_v5'', 12940000), (Standard ''E112ibds_v5'', 19124000), (Standard ''E112ibs_v5'', 17063000),
      (Standard ''E16-4ads_v5'', 1948000), (Standard ''E16-4as_v4'', 1874000), (Standard ''E16-4as_v5'', 1681000),
      (Standard ''E16-4ds_v4'', 2010480), (Standard ''E16-4ds_v5'', 2016000), (Standard ''E16-4s_v3'', 1830580),
      (Standard ''E16-4s_v4'', 1766660), (Standard ''E16-4s_v5'', 1768000), (Standard ''E16-8ads_v5'', 1948000),
      (Standard ''E16-8as_v4'', 1874000), (Standard ''E16-8as_v5'', 1681000), (Standard ''E16-8ds_v4'', 2010480),
      (Standard ''E16-8ds_v5'', 2016000), (Standard ''E16-8s_v3'', 1830580), (Standard ''E16-8s_v4'', 1766660),
      (Standard ''E16-8s_v5'', 1768000), (Standard ''E16_v3'', 1830580), (Standard ''E16_v4'', 1766660), (Standard ''E16_v5'', 1769000),
      (Standard ''E16a_v4'', 1874000), (Standard ''E16ads_v5'', 1948000), (Standard ''E16as_v4'', 1874000),
      (Standard ''E16as_v5'', 1681000), (Standard ''E16bds_v5'', 2484000), (Standard ''E16bs_v5'', 2216000),
      (Standard ''E16d_v4'', 2010480), (Standard ''E16d_v5'', 2016000), (Standard ''E16ds_v4'', 2010480), (Standard ''E16ds_v5'', 2016000),
      (Standard ''E16s_v3'', 1830580), (Standard ''E16s_v4'', 1766660)]"

definition switzerlandwest_3 :: priceTable where
  "switzerlandwest_3 =
     [(Standard ''E16s_v5'', 1768000), (Standard ''E20_v3'', 2288000), (Standard ''E20_v4'', 2208100), (Standard ''E20_v5'', 2212000),
      (Standard ''E20a_v4'', 2342000), (Standard ''E20ads_v5'', 2435000), (Standard ''E20as_v4'', 2342000),
      (Standard ''E20as_v5'', 2101000), (Standard ''E20d_v4'', 2513550), (Standard ''E20d_v5'', 2520000), (Standard ''E20ds_v4'', 2513550),
      (Standard ''E20ds_v5'', 2520000), (Standard ''E20s_v3'', 2288000), (Standard ''E20s_v4'', 2208100), (Standard ''E20s_v5'', 2210000),
      (Standard ''E2_v3'', 229170), (Standard ''E2_v4'', 221160), (Standard ''E2_v5'', 221000), (Standard ''E2a_v4'', 234000),
      (Standard ''E2ads_v5'', 244000), (Standard ''E2as_v4'', 234000), (Standard ''E2as_v5'', 210000), (Standard ''E2bds_v5'', 310000),
      (Standard ''E2bs_v5'', 277000), (Standard ''E2d_v4'', 251090), (Standard ''E2d_v5'', 252000), (Standard ''E2ds_v4'', 251090),
      (Standard ''E2ds_v5'', 252000), (Standard ''E2s_v3'', 229170), (Standard ''E2s_v4'', 221160), (Standard ''E2s_v5'', 221000),
      (Standard ''E32-16ads_v5'', 3896000), (Standard ''E32-16as_v4'', 3748000), (Standard ''E32-16as_v5'', 3361000),
      (Standard ''E32-16ds_v4'', 4020970), (Standard ''E32-16ds_v5'', 4032000), (Standard ''E32-16s_v3'', 3661170),
      (Standard ''E32-16s_v4'', 3533320), (Standard ''E32-16s_v5'', 3536000), (Standard ''E32-8ads_v5'', 3896000),
      (Standard ''E32-8as_v4'', 3748000), (Standard ''E32-8as_v5'', 3361000), (Standard ''E32-8ds_v4'', 4020970),
      (Standard ''E32-8ds_v5'', 4032000), (Standard ''E32-8s_v3'', 3661170), (Standard ''E32-8s_v4'', 3533320),
      (Standard ''E32-8s_v5'', 3536000), (Standard ''E32_v3'', 3661170), (Standard ''E32_v4'', 3533320), (Standard ''E32_v5'', 3539000),
      (Standard ''E32a_v4'', 3748000), (Standard ''E32ads_v5'', 3896000), (Standard ''E32as_v4'', 3748000),
      (Standard ''E32as_v5'', 3361000), (Standard ''E32bds_v5'', 4967000), (Standard ''E32bs_v5'', 4432000),
      (Standard ''E32d_v4'', 4020970), (Standard ''E32d_v5'', 4032000), (Standard ''E32ds_v4'', 4020970), (Standard ''E32ds_v5'', 4032000),
      (Standard ''E32s_v3'', 3661170), (Standard ''E32s_v4'', 3533320), (Standard ''E32s_v5'', 3536000), (Standard ''E4-2ads_v5'', 487000),
      (Standard ''E4-2as_v4'', 468000), (Standard ''E4-2as_v5'', 420000), (Standard ''E4-2ds_v4'', 503060),
      (Standard ''E4-2ds_v5'', 504000), (Standard ''E4-2s_v3'', 457420), (Standard ''E4-2s_v4'', 441440), (Standard ''E4-2s_v5'', 442000),
      (Standard ''E48_v3'', 5215730), (Standard ''E48_v4'', 5299970), (Standard ''E48_v5'', 5308000), (Standard ''E48a_v4'', 5622000),
      (Standard ''E48ads_v5'', 5845000), (Standard ''E48as_v4'', 5622000), (Standard ''E48as_v5'', 5042000),
      (Standard ''E48bds_v5'', 7451000), (Standard ''E48bs_v5'', 6648000), (Standard ''E48d_v4'', 6031450),
      (Standard ''E48d_v5'', 6047000), (Standard ''E48ds_v4'', 6031450), (Standard ''E48ds_v5'', 6048000), (Standard ''E48s_v3'', 5215730),
      (Standard ''E48s_v4'', 5299970), (Standard ''E48s_v5'', 5304000), (Standard ''E4_v3'', 457420), (Standard ''E4_v4'', 441440),
      (Standard ''E4_v5'', 442000), (Standard ''E4a_v4'', 468000), (Standard ''E4ads_v5'', 487000), (Standard ''E4as_v4'', 468000),
      (Standard ''E4as_v5'', 420000), (Standard ''E4bds_v5'', 621000), (Standard ''E4bs_v5'', 554000), (Standard ''E4d_v4'', 503060),
      (Standard ''E4d_v5'', 504000), (Standard ''E4ds_v4'', 503060), (Standard ''E4ds_v5'', 504000), (Standard ''E4s_v3'', 457420),
      (Standard ''E4s_v4'', 441440), (Standard ''E4s_v5'', 442000), (Standard ''E64-16ads_v5'', 7793000),
      (Standard ''E64-16as_v4'', 7495000), (Standard ''E64-16as_v5'', 6722000), (Standard ''E64-16ds_v4'', 8041940),
      (Standard ''E64-16ds_v5'', 8064000), (Standard ''E64-16s_v3'', 6256810), (Standard ''E64-16s_v4'', 7065750),
      (Standard ''E64-16s_v5'', 7072000), (Standard ''E64-32ads_v5'', 7793000), (Standard ''E64-32as_v4'', 7495000),
      (Standard ''E64-32as_v5'', 6722000), (Standard ''E64-32ds_v4'', 8041940), (Standard ''E64-32ds_v5'', 8064000),
      (Standard ''E64-32s_v3'', 6256810), (Standard ''E64-32s_v4'', 7065750), (Standard ''E64-32s_v5'', 7072000),
      (Standard ''E64_v3'', 6256810), (Standard ''E64_v4'', 7065750), (Standard ''E64_v5'', 7077000), (Standard ''E64a_v4'', 7495000),
      (Standard ''E64ads_v5'', 7793000), (Standard ''E64as_v4'', 7495000), (Standard ''E64as_v5'', 6722000),
      (Standard ''E64bds_v5'', 9935000), (Standard ''E64bs_v5'', 8864000), (Standard ''E64d_v4'', 8041940),
      (Standard ''E64d_v5'', 8063000), (Standard ''E64ds_v4'', 8041940), (Standard ''E64ds_v5'', 8064000),
      (Standard ''E64i_v3'', 6256810)]"

definition switzerlandwest_4 :: priceTable where
  "switzerlandwest_4 =
     [(Standard ''E64is_v3'', 6256810), (Standard ''E64s_v3'', 6256810), (Standard ''E64s_v4'', 7065750), (Standard ''E64s_v5'', 7072000),
      (Standard ''E8-2ads_v5'', 974000), (Standard ''E8-2as_v4'', 937000), (Standard ''E8-2as_v5'', 840000),
      (Standard ''E8-2ds_v4'', 1005240), (Standard ''E8-2ds_v5'', 1008000), (Standard ''E8-2s_v3'', 914830),
      (Standard ''E8-2s_v4'', 882890), (Standard ''E8-2s_v5'', 884000), (Standard ''E8-4ads_v5'', 974000),
      (Standard ''E8-4as_v4'', 937000), (Standard ''E8-4as_v5'', 840000), (Standard ''E8-4ds_v4'', 1005240),
      (Standard ''E8-4ds_v5'', 1008000), (Standard ''E8-4s_v3'', 914830), (Standard ''E8-4s_v4'', 882890), (Standard ''E8-4s_v5'', 884000),
      (Standard ''E80ids_v4'', 10053300), (Standard ''E80is_v4'', 8832410), (Standard ''E8_v3'', 914830), (Standard ''E8_v4'', 882890),
      (Standard ''E8_v5'', 885000), (Standard ''E8a_v4'', 937000), (Standard ''E8ads_v5'', 974000), (Standard ''E8as_v4'', 937000),
      (Standard ''E8as_v5'', 840000), (Standard ''E8bds_v5'', 1242000), (Standard ''E8bs_v5'', 1108000), (Standard ''E8d_v4'', 1005240),
      (Standard ''E8d_v5'', 1008000), (Standard ''E8ds_v4'', 1005240), (Standard ''E8ds_v5'', 1008000), (Standard ''E8s_v3'', 914830),
      (Standard ''E8s_v4'', 882890), (Standard ''E8s_v5'', 884000), (Standard ''E96-24ads_v5'', 11689000),
      (Standard ''E96-24as_v4'', 11243000), (Standard ''E96-24as_v5'', 10083000), (Standard ''E96-24ds_v5'', 12096000),
      (Standard ''E96-24s_v5'', 10608000), (Standard ''E96-48ads_v5'', 11689000), (Standard ''E96-48as_v4'', 11243000),
      (Standard ''E96-48as_v5'', 10083000), (Standard ''E96-48ds_v5'', 12096000), (Standard ''E96-48s_v5'', 10608000),
      (Standard ''E96_v5'', 10616000), (Standard ''E96a_v4'', 11243000), (Standard ''E96ads_v5'', 11689000),
      (Standard ''E96as_v4'', 11243000), (Standard ''E96as_v5'', 10083000), (Standard ''E96bds_v5'', 14902000),
      (Standard ''E96bs_v5'', 13296000), (Standard ''E96d_v5'', 12095000), (Standard ''E96ds_v5'', 12096000),
      (Standard ''E96iads_v5'', 12858000), (Standard ''E96ias_v4'', 11243000), (Standard ''E96ias_v5'', 11092000),
      (Standard ''E96s_v5'', 10608000), (Standard ''F1'', 81170), (Standard ''F16'', 1300600), (Standard ''F16s'', 1300600),
      (Standard ''F16s_v2'', 1110320), (Standard ''F1s'', 81170), (Standard ''F2'', 162930), (Standard ''F2s'', 162930),
      (Standard ''F2s_v2'', 138890), (Standard ''F32s_v2'', 2219730), (Standard ''F4'', 324430), (Standard ''F48s_v2'', 3330050),
      (Standard ''F4s'', 324430), (Standard ''F4s_v2'', 277510), (Standard ''F64s_v2'', 4438260), (Standard ''F72s_v2'', 4994480),
      (Standard ''F8'', 649130), (Standard ''F8s'', 649130), (Standard ''F8s_v2'', 554110), (Standard ''L16as_v3'', 2320000),
      (Standard ''L16s_v3'', 2595000), (Standard ''L32as_v3'', 4640000), (Standard ''L32s_v3'', 5190000), (Standard ''L48as_v3'', 6960000),
      (Standard ''L48s_v3'', 7786000), (Standard ''L64as_v3'', 9280000), (Standard ''L64s_v3'', 10381000),
      (Standard ''L80as_v3'', 11600000), (Standard ''L80s_v3'', 12976000), (Standard ''L8as_v3'', 1160000), (Standard ''L8s_v3'', 1298000),
      (Standard ''M128'', 26702020), (Standard ''M128-32ms'', 53429560), (Standard ''M128-64ms'', 53429560),
      (Standard ''M128m'', 53429560), (Standard ''M128ms'', 53429560), (Standard ''M128s'', 26702020), (Standard ''M16-4ms'', 6152240),
      (Standard ''M16-8ms'', 6152240), (Standard ''M16ms'', 6152240), (Standard ''M16s'', 4778770), (Standard ''M208-104ms_v2'', 90579000),
      (Standard ''M208-104s_v2'', 45289000), (Standard ''M208-52ms_v2'', 90579000), (Standard ''M208-52s_v2'', 45289000),
      (Standard ''M208ms_v2'', 90579000), (Standard ''M208s_v2'', 45289000), (Standard ''M32-16ms'', 12304750),
      (Standard ''M32-8ms'', 12304750), (Standard ''M32ls'', 4929980), (Standard ''M32ms'', 12304750), (Standard ''M32s'', 6676760),
      (Standard ''M32ts'', 4644270), (Standard ''M416-104ms_v2'', 201270000), (Standard ''M416-104s_v2'', 100650000),
      (Standard ''M416-208ms_v2'', 201270000), (Standard ''M416-208s_v2'', 100650000), (Standard ''M416is_v2'', 100650000),
      (Standard ''M416ms_v2'', 201270000), (Standard ''M416s_8_v2'', 122900000), (Standard ''M416s_v2'', 100650000),
      (Standard ''M64'', 13351730), (Standard ''M64-16ms'', 20695140), (Standard ''M64-32ms'', 20695140), (Standard ''M64ls'', 9291770),
      (Standard ''M64m'', 20695140), (Standard ''M64ms'', 20695140), (Standard ''M64s'', 13351730), (Standard ''M8-2ms'', 3075800),
      (Standard ''M8-4ms'', 3075800), (Standard ''M8ms'', 3075800), (Standard ''ND96ams_A100_v4'', 60919000),
      (Standard ''ND96amsr_A100_v4'', 60919000)]"

definition switzerlandwest :: priceTable where
  "switzerlandwest = switzerlandwest_1 @ switzerlandwest_2 @ switzerlandwest_3 @ switzerlandwest_4"

subsection \<open>uaecentral\<close>

definition uaecentral_1 :: priceTable where
  "uaecentral_1 =
     [(''Ddsv4_Type 1'', 6464000), (''Ddsv4_Type2'', 7676000), (''Ddsv5_Type1'', 9514000), (''Dsv3_Type3'', 6590000),
      (''Dsv3_Type4'', 8238000), (''Dsv4_Type1'', 6864000), (''Dsv4_Type2'', 8580000), (''Dsv5_Type1'', 8416000),
      (''Ebdsv5-Type1'', 9427000), (''Ebsv5-Type1'', 8466000), (''Edsv4_Type 1'', 7907000), (''Edsv4_Type2'', 9390000),
      (''Edsv5_Type1'', 12081000), (''Esv3_Type3'', 6703000), (''Esv3_Type4'', 9082000), (''Esv4_Type1'', 6919000),
      (''Esv4_Type2'', 9081000), (''Esv5_Type1'', 10646000), (''Fsv2_Type2'', 5251000), (''Lasv3_Type1'', 10811000),
      (''Lsv3_Type1'', 12069000), (''Mdsmv2MedMem _Type1'', 45800000), (''Mdsv2MedMem_Type1'', 22892000), (''Ms_Type1'', 22883000),
      (''Msm_Type1'', 45807000), (''Msmv2MedMem Type1'', 45078000), (''Msmv2_Type1'', 170140000), (''Msv2MedMem Type1'', 22169000),
      (''Msv2_Type1'', 85079000), (Standard ''A1_v2'', 53300), (Standard ''A2_v2'', 113000), (Standard ''A2m_v2'', 154000),
      (Standard ''A4_v2'', 238000), (Standard ''A4m_v2'', 324000), (Standard ''A8_v2'', 498000), (Standard ''A8m_v2'', 682000),
      (Standard ''B12ms'', 749000), (Standard ''B16als_v2'', 905000), (Standard ''B16as_v2'', 1012000), (Standard ''B16ls_v2'', 997000),
      (Standard ''B16ms'', 998000), (Standard ''B16s_v2'', 1043000), (Standard ''B1ls'', 7800), (Standard ''B1ms'', 31200),
      (Standard ''B1s'', 15600), (Standard ''B20ms'', 1248000), (Standard ''B2als_v2'', 67900), (Standard ''B2as_v2'', 127000),
      (Standard ''B2ats_v2'', 23900), (Standard ''B2ls_v2'', 65200), (Standard ''B2ms'', 125000), (Standard ''B2s'', 62400),
      (Standard ''B2s_v2'', 130000), (Standard ''B2ts_v2'', 25500), (Standard ''B32als_v2'', 1663000), (Standard ''B32as_v2'', 2025000),
      (Standard ''B32ls_v2'', 1995000), (Standard ''B32s_v2'', 2233000), (Standard ''B4als_v2'', 226000), (Standard ''B4as_v2'', 235000),
      (Standard ''B4ls_v2'', 249000), (Standard ''B4ms'', 250000), (Standard ''B4s_v2'', 279000), (Standard ''B8als_v2'', 453000),
      (Standard ''B8as_v2'', 469000), (Standard ''B8ls_v2'', 462000), (Standard ''B8ms'', 499000), (Standard ''B8s_v2'', 558000),
      (Standard ''D1'', 105000), (Standard ''D11'', 271000), (Standard ''D11_v2'', 233000), (Standard ''D12'', 541000),
      (Standard ''D12_v2'', 466000), (Standard ''D13'', 1082000), (Standard ''D13_v2'', 933000), (Standard ''D14'', 2164000),
      (Standard ''D14_v2'', 1866000), (Standard ''D15_v2'', 2332000), (Standard ''D15i_v2'', 2332000), (Standard ''D16_v3'', 1248000),
      (Standard ''D16_v4'', 1248000), (Standard ''D16_v5'', 1224000), (Standard ''D16d_v4'', 1469000), (Standard ''D16d_v5'', 1441000),
      (Standard ''D16ds_v4'', 1469000), (Standard ''D16ds_v5'', 1441000), (Standard ''D16lds_v5'', 1248000),
      (Standard ''D16ls_v5'', 1098000), (Standard ''D16s_v3'', 1248000), (Standard ''D16s_v4'', 1248000), (Standard ''D16s_v5'', 1224000),
      (Standard ''D1_v2'', 89300), (Standard ''D2'', 209000), (Standard ''D2_v2'', 178000), (Standard ''D2_v3'', 156000),
      (Standard ''D2_v4'', 156000), (Standard ''D2_v5'', 153000), (Standard ''D2d_v4'', 184000), (Standard ''D2d_v5'', 180000),
      (Standard ''D2ds_v4'', 184000), (Standard ''D2ds_v5'', 180000), (Standard ''D2lds_v5'', 156000), (Standard ''D2ls_v5'', 137000),
      (Standard ''D2s_v3'', 156000), (Standard ''D2s_v4'', 156000), (Standard ''D2s_v5'', 153000), (Standard ''D3'', 418000),
      (Standard ''D32-16s_v3'', 2496000), (Standard ''D32-8s_v3'', 2496000), (Standard ''D32_v3'', 2496000),
      (Standard ''D32_v4'', 2496000), (Standard ''D32_v5'', 2448000), (Standard ''D32d_v4'', 2938000)]"

definition uaecentral_2 :: priceTable where
  "uaecentral_2 =
     [(Standard ''D32d_v5'', 2883000), (Standard ''D32ds_v4'', 2938000), (Standard ''D32ds_v5'', 2883000),
      (Standard ''D32lds_v5'', 2496000), (Standard ''D32ls_v5'', 2196000), (Standard ''D32s_v3'', 2496000),
      (Standard ''D32s_v4'', 2496000), (Standard ''D32s_v5'', 2448000), (Standard ''D3_v2'', 357000), (Standard ''D4'', 836000),
      (Standard ''D48_v3'', 3744000), (Standard ''D48_v4'', 3744000), (Standard ''D48_v5'', 3672000), (Standard ''D48d_v4'', 4407000),
      (Standard ''D48d_v5'', 4324000), (Standard ''D48ds_v4'', 4407000), (Standard ''D48ds_v5'', 4324000),
      (Standard ''D48lds_v5'', 3744000), (Standard ''D48ls_v5'', 3295000), (Standard ''D48s_v3'', 3744000),
      (Standard ''D48s_v4'', 3744000), (Standard ''D48s_v5'', 3672000), (Standard ''D4_v2'', 714000), (Standard ''D4_v3'', 312000),
      (Standard ''D4_v4'', 312000), (Standard ''D4_v5'', 306000), (Standard ''D4d_v4'', 367000), (Standard ''D4d_v5'', 360000),
      (Standard ''D4ds_v4'', 367000), (Standard ''D4ds_v5'', 360000), (Standard ''D4lds_v5'', 312000), (Standard ''D4ls_v5'', 275000),
      (Standard ''D4s_v3'', 312000), (Standard ''D4s_v4'', 312000), (Standard ''D4s_v5'', 306000), (Standard ''D5_v2'', 1429000),
      (Standard ''D64-16s_v3'', 4992000), (Standard ''D64-32s_v3'', 4992000), (Standard ''D64_v3'', 4992000),
      (Standard ''D64_v4'', 4992000), (Standard ''D64_v5'', 4896000), (Standard ''D64d_v4'', 5876000), (Standard ''D64d_v5'', 5766000),
      (Standard ''D64ds_v4'', 5876000), (Standard ''D64ds_v5'', 5766000), (Standard ''D64lds_v5'', 4992000),
      (Standard ''D64ls_v5'', 4393000), (Standard ''D64s_v3'', 4992000), (Standard ''D64s_v4'', 4992000), (Standard ''D64s_v5'', 4896000),
      (Standard ''D8_v3'', 624000), (Standard ''D8_v4'', 624000), (Standard ''D8_v5'', 612000), (Standard ''D8d_v4'', 734000),
      (Standard ''D8d_v5'', 721000), (Standard ''D8ds_v4'', 734000), (Standard ''D8ds_v5'', 721000), (Standard ''D8lds_v5'', 624000),
      (Standard ''D8ls_v5'', 549000), (Standard ''D8s_v3'', 624000), (Standard ''D8s_v4'', 624000), (Standard ''D8s_v5'', 612000),
      (Standard ''D96_v5'', 7344000), (Standard ''D96d_v5'', 8649000), (Standard ''D96ds_v5'', 8649000), (Standard ''D96lds_v5'', 7488000),
      (Standard ''D96ls_v5'', 6589000), (Standard ''D96s_v5'', 7344000), (Standard ''DS1'', 105000), (Standard ''DS11'', 271000),
      (Standard ''DS11-1_v2'', 233000), (Standard ''DS11_v2'', 233000), (Standard ''DS12'', 541000), (Standard ''DS12-1_v2'', 466000),
      (Standard ''DS12-2_v2'', 466000), (Standard ''DS12_v2'', 466000), (Standard ''DS13'', 1082000), (Standard ''DS13-2_v2'', 933000),
      (Standard ''DS13-4_v2'', 933000), (Standard ''DS13_v2'', 933000), (Standard ''DS14'', 2164000), (Standard ''DS14-4_v2'', 1866000),
      (Standard ''DS14-8_v2'', 1866000), (Standard ''DS14_v2'', 1866000), (Standard ''DS15_v2'', 2332000),
      (Standard ''DS15i_v2'', 2332000), (Standard ''DS1_v2'', 89300), (Standard ''DS2'', 209000), (Standard ''DS2_v2'', 178000),
      (Standard ''DS3'', 418000), (Standard ''DS3_v2'', 357000), (Standard ''DS4'', 836000), (Standard ''DS4_v2'', 714000),
      (Standard ''DS5_v2'', 1429000), (Standard ''E104i_v5'', 11533000), (Standard ''E104id_v5'', 13087000),
      (Standard ''E104ids_v5'', 13087000), (Standard ''E104is_v5'', 11533000), (Standard ''E112ibds_v5'', 16496000),
      (Standard ''E112ibs_v5'', 14815000), (Standard ''E16-4ds_v4'', 1797000), (Standard ''E16-4ds_v5'', 1830000),
      (Standard ''E16-4s_v3'', 1572000), (Standard ''E16-4s_v4'', 1572000), (Standard ''E16-4s_v5'', 1613000),
      (Standard ''E16-8ds_v4'', 1797000), (Standard ''E16-8ds_v5'', 1830000), (Standard ''E16-8s_v3'', 1572000),
      (Standard ''E16-8s_v4'', 1572000), (Standard ''E16-8s_v5'', 1613000), (Standard ''E16_v3'', 1572000), (Standard ''E16_v4'', 1572000),
      (Standard ''E16_v5'', 1613000)]"

definition uaecentral_3 :: priceTable where
  "uaecentral_3 =
     [(Standard ''E16bds_v5'', 2142000), (Standard ''E16bs_v5'', 1924000), (Standard ''E16d_v4'', 1797000),
      (Standard ''E16d_v5'', 1830000), (Standard ''E16ds_v4'', 1797000), (Standard ''E16ds_v5'', 1830000), (Standard ''E16s_v3'', 1572000),
      (Standard ''E16s_v4'', 1572000), (Standard ''E16s_v5'', 1613000), (Standard ''E20_v3'', 2080000), (Standard ''E20_v4'', 1966000),
      (Standard ''E20_v5'', 2016000), (Standard ''E20d_v4'', 2246000), (Standard ''E20d_v5'', 2288000), (Standard ''E20ds_v4'', 2246000),
      (Standard ''E20ds_v5'', 2288000), (Standard ''E20s_v3'', 2080000), (Standard ''E20s_v4'', 1966000), (Standard ''E20s_v5'', 2016000),
      (Standard ''E2_v3'', 196000), (Standard ''E2_v4'', 197000), (Standard ''E2_v5'', 202000), (Standard ''E2bds_v5'', 268000),
      (Standard ''E2bs_v5'', 241000), (Standard ''E2d_v4'', 225000), (Standard ''E2d_v5'', 229000), (Standard ''E2ds_v4'', 225000),
      (Standard ''E2ds_v5'', 229000), (Standard ''E2s_v3'', 196000), (Standard ''E2s_v4'', 197000), (Standard ''E2s_v5'', 202000),
      (Standard ''E32-16ds_v4'', 3594000), (Standard ''E32-16ds_v5'', 3661000), (Standard ''E32-16s_v3'', 3145000),
      (Standard ''E32-16s_v4'', 3145000), (Standard ''E32-16s_v5'', 3226000), (Standard ''E32-8ds_v4'', 3594000),
      (Standard ''E32-8ds_v5'', 3661000), (Standard ''E32-8s_v3'', 3145000), (Standard ''E32-8s_v4'', 3145000),
      (Standard ''E32-8s_v5'', 3226000), (Standard ''E32_v3'', 3145000), (Standard ''E32_v4'', 3145000), (Standard ''E32_v5'', 3226000),
      (Standard ''E32bds_v5'', 4285000), (Standard ''E32bs_v5'', 3848000), (Standard ''E32d_v4'', 3594000),
      (Standard ''E32d_v5'', 3661000), (Standard ''E32ds_v4'', 3594000), (Standard ''E32ds_v5'', 3661000), (Standard ''E32s_v3'', 3145000),
      (Standard ''E32s_v4'', 3145000), (Standard ''E32s_v5'', 3226000), (Standard ''E4-2ds_v4'', 449000), (Standard ''E4-2ds_v5'', 458000),
      (Standard ''E4-2s_v3'', 393000), (Standard ''E4-2s_v4'', 393000), (Standard ''E4-2s_v5'', 403000), (Standard ''E48_v3'', 4717000),
      (Standard ''E48_v4'', 4717000), (Standard ''E48_v5'', 4839000), (Standard ''E48bds_v5'', 6427000), (Standard ''E48bs_v5'', 5772000),
      (Standard ''E48d_v4'', 5391000), (Standard ''E48d_v5'', 5491000), (Standard ''E48ds_v4'', 5391000), (Standard ''E48ds_v5'', 5491000),
      (Standard ''E48s_v3'', 4717000), (Standard ''E48s_v4'', 4717000), (Standard ''E48s_v5'', 4839000), (Standard ''E4_v3'', 393000),
      (Standard ''E4_v4'', 393000), (Standard ''E4_v5'', 403000), (Standard ''E4bds_v5'', 536000), (Standard ''E4bs_v5'', 481000),
      (Standard ''E4d_v4'', 449000), (Standard ''E4d_v5'', 458000), (Standard ''E4ds_v4'', 449000), (Standard ''E4ds_v5'', 458000),
      (Standard ''E4s_v3'', 393000), (Standard ''E4s_v4'', 393000), (Standard ''E4s_v5'', 403000), (Standard ''E64-16ds_v4'', 7188000),
      (Standard ''E64-16ds_v5'', 7322000), (Standard ''E64-16s_v3'', 5661000), (Standard ''E64-16s_v4'', 6290000),
      (Standard ''E64-16s_v5'', 6452000), (Standard ''E64-32ds_v4'', 7188000), (Standard ''E64-32ds_v5'', 7322000),
      (Standard ''E64-32s_v3'', 5661000), (Standard ''E64-32s_v4'', 6290000), (Standard ''E64-32s_v5'', 6452000),
      (Standard ''E64_v3'', 5661000), (Standard ''E64_v4'', 6290000), (Standard ''E64_v5'', 6452000), (Standard ''E64bds_v5'', 8570000),
      (Standard ''E64bs_v5'', 7696000), (Standard ''E64d_v4'', 7188000), (Standard ''E64d_v5'', 7322000), (Standard ''E64ds_v4'', 7188000),
      (Standard ''E64ds_v5'', 7322000), (Standard ''E64i_v3'', 5689000), (Standard ''E64is_v3'', 5689000), (Standard ''E64s_v3'', 5661000),
      (Standard ''E64s_v4'', 6290000), (Standard ''E64s_v5'', 6452000), (Standard ''E8-2ds_v4'', 899000), (Standard ''E8-2ds_v5'', 915000),
      (Standard ''E8-2s_v3'', 786000), (Standard ''E8-2s_v4'', 786000), (Standard ''E8-2s_v5'', 807000), (Standard ''E8-4ds_v4'', 899000),
      (Standard ''E8-4ds_v5'', 915000)]"

definition uaecentral_4 :: priceTable where
  "uaecentral_4 =
     [(Standard ''E8-4s_v3'', 786000), (Standard ''E8-4s_v4'', 786000), (Standard ''E8-4s_v5'', 807000), (Standard ''E80ids_v4'', 8986000),
      (Standard ''E80is_v4'', 7862000), (Standard ''E8_v3'', 786000), (Standard ''E8_v4'', 786000), (Standard ''E8_v5'', 807000),
      (Standard ''E8bds_v5'', 1071000), (Standard ''E8bs_v5'', 962000), (Standard ''E8d_v4'', 899000), (Standard ''E8d_v5'', 915000),
      (Standard ''E8ds_v4'', 899000), (Standard ''E8ds_v5'', 915000), (Standard ''E8s_v3'', 786000), (Standard ''E8s_v4'', 786000),
      (Standard ''E8s_v5'', 807000), (Standard ''E96-24ds_v5'', 10982000), (Standard ''E96-24s_v5'', 9678000),
      (Standard ''E96-48ds_v5'', 10982000), (Standard ''E96-48s_v5'', 9678000), (Standard ''E96_v5'', 9678000),
      (Standard ''E96bds_v5'', 12854000), (Standard ''E96bs_v5'', 11544000), (Standard ''E96d_v5'', 10982000),
      (Standard ''E96ds_v5'', 10982000), (Standard ''E96s_v5'', 9678000), (Standard ''F1'', 73800), (Standard ''F16'', 1182000),
      (Standard ''F16s'', 1182000), (Standard ''F16s_v2'', 1009000), (Standard ''F1s'', 73800), (Standard ''F2'', 148000),
      (Standard ''F2s'', 148000), (Standard ''F2s_v2'', 126000), (Standard ''F32s_v2'', 2018000), (Standard ''F4'', 295000),
      (Standard ''F48s_v2'', 3026000), (Standard ''F4s'', 295000), (Standard ''F4s_v2'', 252000), (Standard ''F64s_v2'', 4035000),
      (Standard ''F72s_v2'', 4540000), (Standard ''F8'', 590000), (Standard ''F8s'', 590000), (Standard ''F8s_v2'', 504000),
      (Standard ''L16as_v3'', 1966000), (Standard ''L16s_v3'', 2194000), (Standard ''L32as_v3'', 3931000), (Standard ''L32s_v3'', 4389000),
      (Standard ''L48as_v3'', 5897000), (Standard ''L48s_v3'', 6583000), (Standard ''L64as_v3'', 7862000), (Standard ''L64s_v3'', 8778000),
      (Standard ''L80as_v3'', 9828000), (Standard ''L80s_v3'', 10972000), (Standard ''L8as_v3'', 983000), (Standard ''L8s_v3'', 1097000),
      (Standard ''M128'', 20807000), (Standard ''M128-32ms'', 41633000), (Standard ''M128-64ms'', 41633000),
      (Standard ''M128dms_v2'', 41636000), (Standard ''M128ds_v2'', 20810000), (Standard ''M128m'', 41633000),
      (Standard ''M128ms'', 41633000), (Standard ''M128ms_v2'', 40980000), (Standard ''M128s'', 20807000),
      (Standard ''M128s_v2'', 20154000), (Standard ''M16-4ms'', 4794000), (Standard ''M16-8ms'', 4794000), (Standard ''M16ms'', 4794000),
      (Standard ''M16s'', 3724000), (Standard ''M192idms_v2'', 50020000), (Standard ''M192ids_v2'', 25010000),
      (Standard ''M192ims_v2'', 49363000), (Standard ''M192is_v2'', 24353000), (Standard ''M208-104ms_v2'', 69607000),
      (Standard ''M208-104s_v2'', 34804000), (Standard ''M208-52ms_v2'', 69607000), (Standard ''M208-52s_v2'', 34804000),
      (Standard ''M208ms_v2'', 69607000), (Standard ''M208s_v2'', 34804000), (Standard ''M32-16ms'', 9588000),
      (Standard ''M32-8ms'', 9588000), (Standard ''M32dms_v2'', 9588000), (Standard ''M32ls'', 4481880), (Standard ''M32ms'', 9588000),
      (Standard ''M32ms_v2'', 9424000), (Standard ''M32s'', 5202565), (Standard ''M32ts'', 4222920),
      (Standard ''M416-104ms_v2'', 154670000), (Standard ''M416-104s_v2'', 77345000), (Standard ''M416-208ms_v2'', 154670000),
      (Standard ''M416-208s_v2'', 77345000), (Standard ''M416is_v2'', 77345000), (Standard ''M416ms_v2'', 154670000),
      (Standard ''M416s_8_v2'', 122900000), (Standard ''M416s_v2'', 77345000), (Standard ''M64'', 10404000),
      (Standard ''M64-16ms'', 16125612), (Standard ''M64-32ms'', 16125612), (Standard ''M64dms_v2'', 16130000),
      (Standard ''M64ds_v2'', 10404000), (Standard ''M64ls'', 8447400), (Standard ''M64m'', 16125612), (Standard ''M64ms'', 16125612),
      (Standard ''M64ms_v2'', 15802000), (Standard ''M64s'', 10404000), (Standard ''M64s_v2'', 10075000), (Standard ''M8-2ms'', 2397000),
      (Standard ''M8-4ms'', 2397000), (Standard ''M8ms'', 2397000), (Standard ''ND96ams_A100_v4'', 60919000),
      (Standard ''ND96amsr_A100_v4'', 60919000)]"

definition uaecentral :: priceTable where
  "uaecentral = uaecentral_1 @ uaecentral_2 @ uaecentral_3 @ uaecentral_4"

subsection \<open>uaenorth\<close>

definition uaenorth_1 :: priceTable where
  "uaenorth_1 =
     [(''Dadsv5_Type1'', 7817000), (''Dasv4_Type1'', 6474000), (''Dasv4_Type2'', 6474000), (''Dasv5_Type1'', 6530000),
      (''Ddsv4_Type 1'', 4875000), (''Ddsv4_Type2'', 5789000), (''Ddsv5_Type1'', 7318000), (''Dsv3_Type3'', 5069000),
      (''Dsv3_Type4'', 6336000), (''Dsv4_Type1'', 5170000), (''Dsv4_Type2'', 6217000), (''Dsv5_Type1'', 6474000),
      (''Eadsv5_Type1'', 8496000), (''Easv4_Type1'', 8189000), (''Easv4_Type2'', 8189000), (''Easv5_Type1'', 7392000),
      (''Ebdsv5-Type1'', 7251000), (''Ebsv5-Type1'', 6512000), (''Edsv4_Type 1'', 6195000), (''Edsv4_Type2'', 7942000),
      (''Edsv5_Type1'', 9293000), (''Esv3_Type3'', 5156000), (''Esv3_Type4'', 6986000), (''Esv4_Type1'', 5456000),
      (''Esv4_Type2'', 7161000), (''Esv5_Type1'', 8189000), (''Fsv2 Type3'', 4874000), (''Fsv2_Type2'', 4039000),
      (''Fsv2_Type4'', 5386000), (''Lasv3_Type1'', 8316000), (''Lsv3_Type1'', 9284000), (''Mdsmv2MedMem _Type1'', 38754000),
      (''Mdsv2MedMem_Type1'', 19370000), (''Ms_Type1'', 19363000), (''Msm_Type1'', 38759000), (''Msmv2MedMem Type1'', 38143000),
      (''Msmv2_Type1'', 143970000), (''Msv2MedMem Type1'', 18759000), (''Msv2_Type1'', 71990000), (''NVsv3_Type1'', 6120000),
      (Standard ''A1_v2'', 43200), (Standard ''A2_v2'', 91200), (Standard ''A2m_v2'', 119000), (Standard ''A4_v2'', 191000),
      (Standard ''A4m_v2'', 250000), (Standard ''A8_v2'', 400000), (Standard ''A8m_v2'', 524000), (Standard ''B12ms'', 599000),
      (Standard ''B16als_v2'', 713000), (Standard ''B16as_v2'', 796000), (Standard ''B16ls_v2'', 784000), (Standard ''B16ms'', 799000),
      (Standard ''B16s_v2'', 802000), (Standard ''B1ls'', 6240), (Standard ''B1ms'', 25000), (Standard ''B1s'', 12500),
      (Standard ''B20ms'', 998000), (Standard ''B2als_v2'', 54300), (Standard ''B2as_v2'', 99500), (Standard ''B2ats_v2'', 11300),
      (Standard ''B2ls_v2'', 50200), (Standard ''B2ms'', 99800), (Standard ''B2s'', 49900), (Standard ''B2s_v2'', 110000),
      (Standard ''B2ts_v2'', 12500), (Standard ''B32als_v2'', 1279000), (Standard ''B32as_v2'', 1444000), (Standard ''B32ls_v2'', 1421000),
      (Standard ''B32s_v2'', 1752000), (Standard ''B4als_v2'', 160000), (Standard ''B4as_v2'', 199000), (Standard ''B4ls_v2'', 196000),
      (Standard ''B4ms'', 200000), (Standard ''B4s_v2'', 219000), (Standard ''B8als_v2'', 320000), (Standard ''B8as_v2'', 398000),
      (Standard ''B8ls_v2'', 355000), (Standard ''B8ms'', 399000), (Standard ''B8s_v2'', 401000), (Standard ''D1'', 80400),
      (Standard ''D11'', 208000), (Standard ''D11_v2'', 179000), (Standard ''D12'', 416000), (Standard ''D12_v2'', 359000),
      (Standard ''D13'', 832000), (Standard ''D13_v2'', 718000), (Standard ''D14'', 1665000), (Standard ''D14_v2'', 1435000),
      (Standard ''D15_v2'', 1794000), (Standard ''D15i_v2'', 1794000), (Standard ''D16_v3'', 960000), (Standard ''D16_v4'', 942000),
      (Standard ''D16_v5'', 942000), (Standard ''D16a_v4'', 942000), (Standard ''D16ads_v5'', 1015000), (Standard ''D16as_v4'', 942000),
      (Standard ''D16as_v5'', 848000), (Standard ''D16d_v4'', 1109000), (Standard ''D16d_v5'', 1109000), (Standard ''D16ds_v4'', 1109000),
      (Standard ''D16ds_v5'', 1109000), (Standard ''D16lds_v5'', 960000), (Standard ''D16ls_v5'', 845000), (Standard ''D16s_v3'', 960000),
      (Standard ''D16s_v4'', 942000), (Standard ''D16s_v5'', 942000), (Standard ''D1_v2'', 68700), (Standard ''D2'', 161000),
      (Standard ''D2_v2'', 137000), (Standard ''D2_v3'', 120000), (Standard ''D2_v4'', 118000), (Standard ''D2_v5'', 118000),
      (Standard ''D2a_v4'', 118000), (Standard ''D2ads_v5'', 127000), (Standard ''D2as_v4'', 118000), (Standard ''D2as_v5'', 106000),
      (Standard ''D2d_v4'', 139000), (Standard ''D2d_v5'', 139000), (Standard ''D2ds_v4'', 139000), (Standard ''D2ds_v5'', 139000),
      (Standard ''D2lds_v5'', 120000), (Standard ''D2ls_v5'', 106000), (Standard ''D2s_v3'', 120000), (Standard ''D2s_v4'', 118000)]"

definition uaenorth_2 :: priceTable where
  "uaenorth_2 =
     [(Standard ''D2s_v5'', 118000), (Standard ''D3'', 322000), (Standard ''D32-16s_v3'', 1920000), (Standard ''D32-8s_v3'', 1920000),
      (Standard ''D32_v3'', 1920000), (Standard ''D32_v4'', 1883000), (Standard ''D32_v5'', 1883000), (Standard ''D32a_v4'', 1883000),
      (Standard ''D32ads_v5'', 2030000), (Standard ''D32as_v4'', 1883000), (Standard ''D32as_v5'', 1696000),
      (Standard ''D32d_v4'', 2218000), (Standard ''D32d_v5'', 2218000), (Standard ''D32ds_v4'', 2218000), (Standard ''D32ds_v5'', 2218000),
      (Standard ''D32lds_v5'', 1920000), (Standard ''D32ls_v5'', 1690000), (Standard ''D32s_v3'', 1920000),
      (Standard ''D32s_v4'', 1883000), (Standard ''D32s_v5'', 1883000), (Standard ''D3_v2'', 275000), (Standard ''D4'', 643000),
      (Standard ''D48_v3'', 2880000), (Standard ''D48_v4'', 2825000), (Standard ''D48_v5'', 2825000), (Standard ''D48a_v4'', 2825000),
      (Standard ''D48ads_v5'', 3046000), (Standard ''D48as_v4'', 2825000), (Standard ''D48as_v5'', 2544000),
      (Standard ''D48d_v4'', 3326000), (Standard ''D48d_v5'', 3326000), (Standard ''D48ds_v4'', 3326000), (Standard ''D48ds_v5'', 3326000),
      (Standard ''D48lds_v5'', 2880000), (Standard ''D48ls_v5'', 2534000), (Standard ''D48s_v3'', 2880000),
      (Standard ''D48s_v4'', 2825000), (Standard ''D48s_v5'', 2825000), (Standard ''D4_v2'', 550000), (Standard ''D4_v3'', 240000),
      (Standard ''D4_v4'', 235000), (Standard ''D4_v5'', 235000), (Standard ''D4a_v4'', 235000), (Standard ''D4ads_v5'', 254000),
      (Standard ''D4as_v4'', 235000), (Standard ''D4as_v5'', 212000), (Standard ''D4d_v4'', 277000), (Standard ''D4d_v5'', 277000),
      (Standard ''D4ds_v4'', 277000), (Standard ''D4ds_v5'', 277000), (Standard ''D4lds_v5'', 240000), (Standard ''D4ls_v5'', 211000),
      (Standard ''D4s_v3'', 240000), (Standard ''D4s_v4'', 235000), (Standard ''D4s_v5'', 235000), (Standard ''D5_v2'', 1099000),
      (Standard ''D64-16s_v3'', 3840000), (Standard ''D64-32s_v3'', 3840000), (Standard ''D64_v3'', 3840000),
      (Standard ''D64_v4'', 3766000), (Standard ''D64_v5'', 3766000), (Standard ''D64a_v4'', 3766000), (Standard ''D64ads_v5'', 4061000),
      (Standard ''D64as_v4'', 3766000), (Standard ''D64as_v5'', 3392000), (Standard ''D64d_v4'', 4435000), (Standard ''D64d_v5'', 4435000),
      (Standard ''D64ds_v4'', 4435000), (Standard ''D64ds_v5'', 4435000), (Standard ''D64lds_v5'', 3840000),
      (Standard ''D64ls_v5'', 3379000), (Standard ''D64s_v3'', 3840000), (Standard ''D64s_v4'', 3766000), (Standard ''D64s_v5'', 3766000),
      (Standard ''D8_v3'', 480000), (Standard ''D8_v4'', 471000), (Standard ''D8_v5'', 471000), (Standard ''D8a_v4'', 471000),
      (Standard ''D8ads_v5'', 508000), (Standard ''D8as_v4'', 471000), (Standard ''D8as_v5'', 424000), (Standard ''D8d_v4'', 554000),
      (Standard ''D8d_v5'', 554000), (Standard ''D8ds_v4'', 554000), (Standard ''D8ds_v5'', 554000), (Standard ''D8lds_v5'', 480000),
      (Standard ''D8ls_v5'', 422000), (Standard ''D8s_v3'', 480000), (Standard ''D8s_v4'', 471000), (Standard ''D8s_v5'', 471000),
      (Standard ''D96_v5'', 5650000), (Standard ''D96a_v4'', 5650000), (Standard ''D96ads_v5'', 6091000), (Standard ''D96as_v4'', 5650000),
      (Standard ''D96as_v5'', 5088000), (Standard ''D96d_v5'', 6653000), (Standard ''D96ds_v5'', 6653000),
      (Standard ''D96lds_v5'', 5760000), (Standard ''D96ls_v5'', 5069000), (Standard ''D96s_v5'', 5650000),
      (Standard ''DC16ads_v5'', 1015000), (Standard ''DC16as_v5'', 848000), (Standard ''DC2ads_v5'', 127000),
      (Standard ''DC2as_v5'', 106000), (Standard ''DC32ads_v5'', 2030000), (Standard ''DC32as_v5'', 1696000),
      (Standard ''DC48ads_v5'', 3046000), (Standard ''DC48as_v5'', 2544000), (Standard ''DC4ads_v5'', 254000),
      (Standard ''DC4as_v5'', 212000), (Standard ''DC64ads_v5'', 4061000), (Standard ''DC64as_v5'', 3392000),
      (Standard ''DC8ads_v5'', 508000), (Standard ''DC8as_v5'', 424000), (Standard ''DC96ads_v5'', 6091000),
      (Standard ''DC96as_v5'', 5088000), (Standard ''DS1'', 80400), (Standard ''DS11'', 208000), (Standard ''DS11-1_v2'', 179000),
      (Standard ''DS11_v2'', 179000), (Standard ''DS12'', 416000), (Standard ''DS12-1_v2'', 359000), (Standard ''DS12-2_v2'', 359000),
      (Standard ''DS12_v2'', 359000)]"

definition uaenorth_3 :: priceTable where
  "uaenorth_3 =
     [(Standard ''DS13'', 832000), (Standard ''DS13-2_v2'', 718000), (Standard ''DS13-4_v2'', 718000), (Standard ''DS13_v2'', 718000),
      (Standard ''DS14'', 1665000), (Standard ''DS14-4_v2'', 1435000), (Standard ''DS14-8_v2'', 1435000), (Standard ''DS14_v2'', 1435000),
      (Standard ''DS15_v2'', 1794000), (Standard ''DS15i_v2'', 1794000), (Standard ''DS1_v2'', 68700), (Standard ''DS2'', 161000),
      (Standard ''DS2_v2'', 137000), (Standard ''DS3'', 322000), (Standard ''DS3_v2'', 275000), (Standard ''DS4'', 643000),
      (Standard ''DS4_v2'', 550000), (Standard ''DS5_v2'', 1099000), (Standard ''E104i_v5'', 8872000), (Standard ''E104id_v5'', 10067000),
      (Standard ''E104ids_v5'', 10067000), (Standard ''E104is_v5'', 8872000), (Standard ''E112iads_v5'', 9911000),
      (Standard ''E112ias_v5'', 8624000), (Standard ''E112ibds_v5'', 12690000), (Standard ''E112ibs_v5'', 11396000),
      (Standard ''E16-4ads_v5'', 1287000), (Standard ''E16-4as_v4'', 1241000), (Standard ''E16-4as_v5'', 1120000),
      (Standard ''E16-4ds_v4'', 1408000), (Standard ''E16-4ds_v5'', 1408000), (Standard ''E16-4s_v3'', 1210000),
      (Standard ''E16-4s_v4'', 1241000), (Standard ''E16-4s_v5'', 1241000), (Standard ''E16-8ads_v5'', 1287000),
      (Standard ''E16-8as_v4'', 1241000), (Standard ''E16-8as_v5'', 1120000), (Standard ''E16-8ds_v4'', 1408000),
      (Standard ''E16-8ds_v5'', 1408000), (Standard ''E16-8s_v3'', 1210000), (Standard ''E16-8s_v4'', 1241000),
      (Standard ''E16-8s_v5'', 1241000), (Standard ''E16_v3'', 1210000), (Standard ''E16_v4'', 1241000), (Standard ''E16_v5'', 1241000),
      (Standard ''E16a_v4'', 1241000), (Standard ''E16ads_v5'', 1287000), (Standard ''E16as_v4'', 1241000),
      (Standard ''E16as_v5'', 1120000), (Standard ''E16bds_v5'', 1648000), (Standard ''E16bs_v5'', 1480000),
      (Standard ''E16d_v4'', 1408000), (Standard ''E16d_v5'', 1408000), (Standard ''E16ds_v4'', 1408000), (Standard ''E16ds_v5'', 1408000),
      (Standard ''E16s_v3'', 1210000), (Standard ''E16s_v4'', 1241000), (Standard ''E16s_v5'', 1241000), (Standard ''E20_v3'', 1600000),
      (Standard ''E20_v4'', 1550000), (Standard ''E20_v5'', 1551000), (Standard ''E20a_v4'', 1551000), (Standard ''E20ads_v5'', 1609000),
      (Standard ''E20as_v4'', 1551000), (Standard ''E20as_v5'', 1400000), (Standard ''E20d_v4'', 1760000), (Standard ''E20d_v5'', 1760000),
      (Standard ''E20ds_v4'', 1760000), (Standard ''E20ds_v5'', 1760000), (Standard ''E20s_v3'', 1600000), (Standard ''E20s_v4'', 1550000),
      (Standard ''E20s_v5'', 1551000), (Standard ''E2_v3'', 151000), (Standard ''E2_v4'', 155000), (Standard ''E2_v5'', 155000),
      (Standard ''E2a_v4'', 155000), (Standard ''E2ads_v5'', 161000), (Standard ''E2as_v4'', 155000), (Standard ''E2as_v5'', 140000),
      (Standard ''E2bds_v5'', 206000), (Standard ''E2bs_v5'', 185000), (Standard ''E2d_v4'', 176000), (Standard ''E2d_v5'', 176000),
      (Standard ''E2ds_v4'', 176000), (Standard ''E2ds_v5'', 176000), (Standard ''E2s_v3'', 151000), (Standard ''E2s_v4'', 155000),
      (Standard ''E2s_v5'', 155000), (Standard ''E32-16ads_v5'', 2574000), (Standard ''E32-16as_v4'', 2482000),
      (Standard ''E32-16as_v5'', 2240000), (Standard ''E32-16ds_v4'', 2816000), (Standard ''E32-16ds_v5'', 2816000),
      (Standard ''E32-16s_v3'', 2419000), (Standard ''E32-16s_v4'', 2482000), (Standard ''E32-16s_v5'', 2482000),
      (Standard ''E32-8ads_v5'', 2574000), (Standard ''E32-8as_v4'', 2482000), (Standard ''E32-8as_v5'', 2240000),
      (Standard ''E32-8ds_v4'', 2816000), (Standard ''E32-8ds_v5'', 2816000), (Standard ''E32-8s_v3'', 2419000),
      (Standard ''E32-8s_v4'', 2482000), (Standard ''E32-8s_v5'', 2482000), (Standard ''E32_v3'', 2419000), (Standard ''E32_v4'', 2482000),
      (Standard ''E32_v5'', 2482000), (Standard ''E32a_v4'', 2482000), (Standard ''E32ads_v5'', 2574000), (Standard ''E32as_v4'', 2482000),
      (Standard ''E32as_v5'', 2240000), (Standard ''E32bds_v5'', 3296000), (Standard ''E32bs_v5'', 2960000),
      (Standard ''E32d_v4'', 2816000), (Standard ''E32d_v5'', 2816000), (Standard ''E32ds_v4'', 2816000), (Standard ''E32ds_v5'', 2816000),
      (Standard ''E32s_v3'', 2419000), (Standard ''E32s_v4'', 2482000), (Standard ''E32s_v5'', 2482000), (Standard ''E4-2ads_v5'', 322000),
      (Standard ''E4-2as_v4'', 310000), (Standard ''E4-2as_v5'', 280000), (Standard ''E4-2ds_v4'', 352000)]"

definition uaenorth_4 :: priceTable where
  "uaenorth_4 =
     [(Standard ''E4-2ds_v5'', 352000), (Standard ''E4-2s_v3'', 302000), (Standard ''E4-2s_v4'', 310000), (Standard ''E4-2s_v5'', 310000),
      (Standard ''E48_v3'', 3629000), (Standard ''E48_v4'', 3722000), (Standard ''E48_v5'', 3722000), (Standard ''E48a_v4'', 3722000),
      (Standard ''E48ads_v5'', 3862000), (Standard ''E48as_v4'', 3722000), (Standard ''E48as_v5'', 3360000),
      (Standard ''E48bds_v5'', 4944000), (Standard ''E48bs_v5'', 4440000), (Standard ''E48d_v4'', 4224000),
      (Standard ''E48d_v5'', 4224000), (Standard ''E48ds_v4'', 4224000), (Standard ''E48ds_v5'', 4224000), (Standard ''E48s_v3'', 3629000),
      (Standard ''E48s_v4'', 3722000), (Standard ''E48s_v5'', 3722000), (Standard ''E4_v3'', 302000), (Standard ''E4_v4'', 310000),
      (Standard ''E4_v5'', 310000), (Standard ''E4a_v4'', 310000), (Standard ''E4ads_v5'', 322000), (Standard ''E4as_v4'', 310000),
      (Standard ''E4as_v5'', 280000), (Standard ''E4bds_v5'', 412000), (Standard ''E4bs_v5'', 370000), (Standard ''E4d_v4'', 352000),
      (Standard ''E4d_v5'', 352000), (Standard ''E4ds_v4'', 352000), (Standard ''E4ds_v5'', 352000), (Standard ''E4s_v3'', 302000),
      (Standard ''E4s_v4'', 310000), (Standard ''E4s_v5'', 310000), (Standard ''E64-16ads_v5'', 5149000),
      (Standard ''E64-16as_v4'', 4963000), (Standard ''E64-16as_v5'', 4480000), (Standard ''E64-16ds_v4'', 5632000),
      (Standard ''E64-16ds_v5'', 5632000), (Standard ''E64-16s_v3'', 4355000), (Standard ''E64-16s_v4'', 4963000),
      (Standard ''E64-16s_v5'', 4963000), (Standard ''E64-32ads_v5'', 5149000), (Standard ''E64-32as_v4'', 4963000),
      (Standard ''E64-32as_v5'', 4480000), (Standard ''E64-32ds_v4'', 5632000), (Standard ''E64-32ds_v5'', 5632000),
      (Standard ''E64-32s_v3'', 4355000), (Standard ''E64-32s_v4'', 4963000), (Standard ''E64-32s_v5'', 4963000),
      (Standard ''E64_v3'', 4355000), (Standard ''E64_v4'', 4963000), (Standard ''E64_v5'', 4963000), (Standard ''E64a_v4'', 4963000),
      (Standard ''E64ads_v5'', 5149000), (Standard ''E64as_v4'', 4963000), (Standard ''E64as_v5'', 4480000),
      (Standard ''E64bds_v5'', 6592000), (Standard ''E64bs_v5'', 5920000), (Standard ''E64d_v4'', 5632000),
      (Standard ''E64d_v5'', 5632000), (Standard ''E64ds_v4'', 5632000), (Standard ''E64ds_v5'', 5632000), (Standard ''E64i_v3'', 4376000),
      (Standard ''E64is_v3'', 4376000), (Standard ''E64s_v3'', 4355000), (Standard ''E64s_v4'', 4963000), (Standard ''E64s_v5'', 4963000),
      (Standard ''E8-2ads_v5'', 644000), (Standard ''E8-2as_v4'', 620000), (Standard ''E8-2as_v5'', 560000),
      (Standard ''E8-2ds_v4'', 704000), (Standard ''E8-2ds_v5'', 704000), (Standard ''E8-2s_v3'', 605000), (Standard ''E8-2s_v4'', 620000),
      (Standard ''E8-2s_v5'', 620000), (Standard ''E8-4ads_v5'', 644000), (Standard ''E8-4as_v4'', 620000),
      (Standard ''E8-4as_v5'', 560000), (Standard ''E8-4ds_v4'', 704000), (Standard ''E8-4ds_v5'', 704000),
      (Standard ''E8-4s_v3'', 605000), (Standard ''E8-4s_v4'', 620000), (Standard ''E8-4s_v5'', 620000), (Standard ''E80ids_v4'', 7040000),
      (Standard ''E80is_v4'', 6200000), (Standard ''E8_v3'', 605000), (Standard ''E8_v4'', 620000), (Standard ''E8_v5'', 620000),
      (Standard ''E8a_v4'', 620000), (Standard ''E8ads_v5'', 644000), (Standard ''E8as_v4'', 620000), (Standard ''E8as_v5'', 560000),
      (Standard ''E8bds_v5'', 824000), (Standard ''E8bs_v5'', 740000), (Standard ''E8d_v4'', 704000), (Standard ''E8d_v5'', 704000),
      (Standard ''E8ds_v4'', 704000), (Standard ''E8ds_v5'', 704000), (Standard ''E8s_v3'', 605000), (Standard ''E8s_v4'', 620000),
      (Standard ''E8s_v5'', 620000), (Standard ''E96-24ads_v5'', 7723000), (Standard ''E96-24as_v4'', 7445000),
      (Standard ''E96-24as_v5'', 6720000), (Standard ''E96-24ds_v5'', 8448000), (Standard ''E96-24s_v5'', 7445000),
      (Standard ''E96-48ads_v5'', 7723000), (Standard ''E96-48as_v4'', 7445000), (Standard ''E96-48as_v5'', 6720000),
      (Standard ''E96-48ds_v5'', 8448000), (Standard ''E96-48s_v5'', 7445000), (Standard ''E96_v5'', 7445000),
      (Standard ''E96a_v4'', 7445000), (Standard ''E96ads_v5'', 7723000), (Standard ''E96as_v4'', 7445000),
      (Standard ''E96as_v5'', 6720000), (Standard ''E96bds_v5'', 9888000), (Standard ''E96bs_v5'', 8880000),
      (Standard ''E96d_v5'', 8448000), (Standard ''E96ds_v5'', 8448000), (Standard ''E96iads_v5'', 8496000)]"

definition uaenorth_5 :: priceTable where
  "uaenorth_5 =
     [(Standard ''E96ias_v4'', 7445000), (Standard ''E96ias_v5'', 7392000), (Standard ''E96s_v5'', 7445000),
      (Standard ''EC16ads_v5'', 1287000), (Standard ''EC16as_v5'', 1120000), (Standard ''EC20ads_v5'', 1609000),
      (Standard ''EC20as_v5'', 1400000), (Standard ''EC2ads_v5'', 161000), (Standard ''EC2as_v5'', 140000),
      (Standard ''EC32ads_v5'', 2574000), (Standard ''EC32as_v5'', 2240000), (Standard ''EC48ads_v5'', 3862000),
      (Standard ''EC48as_v5'', 3360000), (Standard ''EC4ads_v5'', 322000), (Standard ''EC4as_v5'', 280000),
      (Standard ''EC64ads_v5'', 5149000), (Standard ''EC64as_v5'', 4480000), (Standard ''EC8ads_v5'', 644000),
      (Standard ''EC8as_v5'', 560000), (Standard ''EC96ads_v5'', 7723000), (Standard ''EC96as_v5'', 6720000),
      (Standard ''EC96iads_v5'', 8496000), (Standard ''EC96ias_v5'', 7392000), (Standard ''F1'', 59700), (Standard ''F16'', 955000),
      (Standard ''F16s'', 955000), (Standard ''F16s_v2'', 816000), (Standard ''F1s'', 59700), (Standard ''F2'', 119000),
      (Standard ''F2s'', 119000), (Standard ''F2s_v2'', 102000), (Standard ''F32s_v2'', 1632000), (Standard ''F4'', 239000),
      (Standard ''F48s_v2'', 2448000), (Standard ''F4s'', 239000), (Standard ''F4s_v2'', 204000), (Standard ''F64s_v2'', 3264000),
      (Standard ''F72s_v2'', 3672000), (Standard ''F8'', 478000), (Standard ''F8s'', 478000), (Standard ''F8s_v2'', 408000),
      (Standard ''HB120-16rs_v2'', 4752000), (Standard ''HB120-32rs_v2'', 4752000), (Standard ''HB120-64rs_v2'', 4752000),
      (Standard ''HB120-96rs_v2'', 4752000), (Standard ''HB120rs_v2'', 4752000), (Standard ''L16as_v3'', 1512000),
      (Standard ''L16s_v3'', 1688000), (Standard ''L32as_v3'', 3024000), (Standard ''L32s_v3'', 3376000), (Standard ''L48as_v3'', 4536000),
      (Standard ''L48s_v3'', 5064000), (Standard ''L64as_v3'', 6048000), (Standard ''L64s_v3'', 6752000), (Standard ''L80as_v3'', 7560000),
      (Standard ''L80s_v3'', 8440000), (Standard ''L8as_v3'', 756000), (Standard ''L8s_v3'', 844000), (Standard ''M128'', 17606000),
      (Standard ''M128-32ms'', 35228000), (Standard ''M128-64ms'', 35228000), (Standard ''M128dms_v2'', 35231000),
      (Standard ''M128ds_v2'', 17609000), (Standard ''M128m'', 35228000), (Standard ''M128ms'', 35228000),
      (Standard ''M128ms_v2'', 34675000), (Standard ''M128s'', 17606000), (Standard ''M128s_v2'', 17053000),
      (Standard ''M16-4ms'', 4056000), (Standard ''M16-8ms'', 4056000), (Standard ''M16ms'', 4056000), (Standard ''M16s'', 3151000),
      (Standard ''M192idms_v2'', 42324000), (Standard ''M192ids_v2'', 21162000), (Standard ''M192ims_v2'', 41769000),
      (Standard ''M192is_v2'', 20607000), (Standard ''M208-104ms_v2'', 58898000), (Standard ''M208-104s_v2'', 29449000),
      (Standard ''M208-52ms_v2'', 58898000), (Standard ''M208-52s_v2'', 29449000), (Standard ''M208ms_v2'', 58898000),
      (Standard ''M208s_v2'', 29449000), (Standard ''M32-16ms'', 8113000), (Standard ''M32-8ms'', 8113000),
      (Standard ''M32dms_v2'', 8113000), (Standard ''M32ls'', 3535000), (Standard ''M32ms'', 8113000), (Standard ''M32ms_v2'', 7974000),
      (Standard ''M32s'', 4402200), (Standard ''M32ts'', 3331000), (Standard ''M416-104ms_v2'', 130880000),
      (Standard ''M416-104s_v2'', 65446000), (Standard ''M416-208ms_v2'', 130880000), (Standard ''M416-208s_v2'', 65446000),
      (Standard ''M416is_v2'', 65446000), (Standard ''M416ms_v2'', 130880000), (Standard ''M416s_8_v2'', 94540000),
      (Standard ''M416s_v2'', 65446000), (Standard ''M64'', 8803000), (Standard ''M64-16ms'', 13645000), (Standard ''M64-32ms'', 13645000),
      (Standard ''M64dms_v2'', 13649000), (Standard ''M64ds_v2'', 8803000), (Standard ''M64ls'', 6664000), (Standard ''M64m'', 13645000),
      (Standard ''M64ms'', 13645000), (Standard ''M64ms_v2'', 13371000), (Standard ''M64s'', 8803000), (Standard ''M64s_v2'', 8525000),
      (Standard ''M8-2ms'', 2028000), (Standard ''M8-4ms'', 2028000), (Standard ''M8ms'', 2028000),
      (Standard ''ND96ams_A100_v4'', 46861000), (Standard ''ND96amsr_A100_v4'', 46861000), (Standard ''NV12ads_A10_v5'', 1298000),
      (Standard ''NV12s_v3'', 1391000), (Standard ''NV18ads_A10_v5'', 2288000), (Standard ''NV24s_v3'', 2782000),
      (Standard ''NV36adms_A10_v5'', 6464000), (Standard ''NV36ads_A10_v5'', 4576000), (Standard ''NV48s_v3'', 5563000),
      (Standard ''NV6ads_A10_v5'', 649000), (Standard ''NV72ads_A10_v5'', 9324000)]"

definition uaenorth :: priceTable where
  "uaenorth = uaenorth_1 @ uaenorth_2 @ uaenorth_3 @ uaenorth_4 @ uaenorth_5"

subsection \<open>uksouth\<close>

definition uksouth_1 :: priceTable where
  "uksouth_1 =
     [(''Basic_A0'', 20000), (''Basic_A1'', 26000), (''Basic_A2'', 101000), (''Basic_A3'', 224000), (''Basic_A4'', 449000),
      (''DCdsv3 Type1'', 6917000), (''DCsv2 Type 1'', 977000), (''DCsv3 Type1'', 5861000), (''Dadsv5_Type1'', 7392000),
      (''Dasv4_Type1'', 5861000), (''Dasv4_Type2'', 6105000), (''Dasv5_Type1'', 6160000), (''Ddsv4_Type 1'', 4611000),
      (''Ddsv4_Type2'', 5476000), (''Ddsv5_Type1'', 6917000), (''Dsv3_Type3'', 4885000), (''Dsv3_Type4'', 6106000),
      (''Dsv4_Type1'', 4884000), (''Dsv4_Type2'', 5861000), (''Dsv5_Type1'', 6105000), (''Eadsv5_Type1'', 8131000),
      (''Easv4_Type1'', 7814000), (''Easv4_Type2'', 7814000), (''Easv5_Type1'', 7022000), (''Ebdsv5-Type1'', 6952000),
      (''Ebsv5-Type1'', 6213000), (''Edsv4_Type 1'', 5949000), (''Edsv4_Type2'', 7064000), (''Edsv5_Type1'', 8923000),
      (''Esv3_Type3'', 5043000), (''Esv3_Type4'', 6832000), (''Esv4_Type1'', 5209000), (''Esv4_Type2'', 6838000),
      (''Esv5_Type1'', 7814000), (''Fsv2 Type3'', 4666000), (''Fsv2_Type2'', 4000000), (''Fsv2_Type4'', 5333000),
      (''Lsv2_Type1'', 7962000), (''Lsv3_Type1'', 8888000), (''Mdsmv2MedMem _Type1'', 36992000), (''Mdsv2MedMem_Type1'', 18489000),
      (''Ms_Type1'', 18483000), (''Msm_Type1'', 36998000), (''Msmv2MedMem Type1'', 36409000), (''Msmv2_Type1'', 136330000),
      (''Msv2MedMem Type1'', 17906000), (''Msv2_Type1'', 68173000), (''NVasv4_Type1'', 8970000), (''NVsv3_Type1'', 6270000),
      (Standard ''A0'', 22000), (Standard ''A1'', 66000), (Standard ''A1_v2'', 50000), (Standard ''A2'', 132000),
      (Standard ''A2_v2'', 106000), (Standard ''A2m_v2'', 178000), (Standard ''A3'', 264000), (Standard ''A4'', 528000),
      (Standard ''A4_v2'', 222000), (Standard ''A4m_v2'', 374000), (Standard ''A5'', 297000), (Standard ''A6'', 594000),
      (Standard ''A7'', 1188000), (Standard ''A8_v2'', 467000), (Standard ''A8m_v2'', 786000), (Standard ''B12ms'', 566000),
      (Standard ''B16als_v2'', 676000), (Standard ''B16as_v2'', 754000), (Standard ''B16ls_v2'', 742000), (Standard ''B16ms'', 755000),
      (Standard ''B16pls_v2'', 533000), (Standard ''B16ps_v2'', 675000), (Standard ''B16s_v2'', 755000), (Standard ''B1ls'', 5900),
      (Standard ''B1ms'', 23600), (Standard ''B1s'', 11800), (Standard ''B20ms'', 944000), (Standard ''B2als_v2'', 51700),
      (Standard ''B2as_v2'', 94200), (Standard ''B2ats_v2'', 19800), (Standard ''B2ls_v2'', 56400), (Standard ''B2ms'', 94400),
      (Standard ''B2pls_v2'', 37600), (Standard ''B2ps_v2'', 75200), (Standard ''B2pts_v2'', 18600), (Standard ''B2s'', 47200),
      (Standard ''B2s_v2'', 94400), (Standard ''B2ts_v2'', 11800), (Standard ''B32als_v2'', 1351000), (Standard ''B32as_v2'', 1507000),
      (Standard ''B32ls_v2'', 1337000), (Standard ''B32s_v2'', 1510000), (Standard ''B4als_v2'', 151000), (Standard ''B4as_v2'', 170000),
      (Standard ''B4ls_v2'', 186000), (Standard ''B4ms'', 189000), (Standard ''B4pls_v2'', 133000), (Standard ''B4ps_v2'', 150000),
      (Standard ''B4s_v2'', 207000), (Standard ''B8als_v2'', 301000), (Standard ''B8as_v2'', 377000), (Standard ''B8ls_v2'', 371000),
      (Standard ''B8ms'', 378000), (Standard ''B8pls_v2'', 303000), (Standard ''B8ps_v2'', 301000), (Standard ''B8s_v2'', 378000),
      (Standard ''D11_v2'', 234000), (Standard ''D11_v2_Promo'', 234000), (Standard ''D12_v2'', 469000),
      (Standard ''D12_v2_Promo'', 469000), (Standard ''D13_v2'', 937000), (Standard ''D13_v2_Promo'', 937000),
      (Standard ''D14_v2'', 1874000), (Standard ''D14_v2_Promo'', 1874000), (Standard ''D15_v2'', 2343000),
      (Standard ''D15i_v2'', 2343000), (Standard ''D16_v3'', 928000), (Standard ''D16_v4'', 888000), (Standard ''D16_v5'', 888000),
      (Standard ''D16a_v4'', 888000), (Standard ''D16ads_v5'', 960000), (Standard ''D16as_v4'', 888000), (Standard ''D16as_v5'', 800000),
      (Standard ''D16d_v4'', 1048000), (Standard ''D16d_v5'', 1048000), (Standard ''D16ds_v4'', 1048000), (Standard ''D16ds_v5'', 1048000),
      (Standard ''D16lds_v5'', 920000), (Standard ''D16ls_v5'', 808000)]"

definition uksouth_2 :: priceTable where
  "uksouth_2 =
     [(Standard ''D16pds_v5'', 834000), (Standard ''D16plds_v5'', 736000), (Standard ''D16pls_v5'', 646000),
      (Standard ''D16ps_v5'', 710000), (Standard ''D16s_v3'', 928000), (Standard ''D16s_v4'', 888000), (Standard ''D16s_v5'', 888000),
      (Standard ''D1_v2'', 87800), (Standard ''D2_v2'', 176000), (Standard ''D2_v2_Promo'', 176000), (Standard ''D2_v3'', 116000),
      (Standard ''D2_v4'', 111000), (Standard ''D2_v5'', 111000), (Standard ''D2a_v4'', 111000), (Standard ''D2ads_v5'', 120000),
      (Standard ''D2as_v4'', 111000), (Standard ''D2as_v5'', 100000), (Standard ''D2d_v4'', 131000), (Standard ''D2d_v5'', 131000),
      (Standard ''D2ds_v4'', 131000), (Standard ''D2ds_v5'', 131000), (Standard ''D2lds_v5'', 115000), (Standard ''D2ls_v5'', 101000),
      (Standard ''D2pds_v5'', 104000), (Standard ''D2plds_v5'', 92000), (Standard ''D2pls_v5'', 80800), (Standard ''D2ps_v5'', 88800),
      (Standard ''D2s_v3'', 116000), (Standard ''D2s_v4'', 111000), (Standard ''D2s_v5'', 111000), (Standard ''D32-16s_v3'', 1856000),
      (Standard ''D32-8s_v3'', 1856000), (Standard ''D32_v3'', 1856000), (Standard ''D32_v4'', 1776000), (Standard ''D32_v5'', 1776000),
      (Standard ''D32a_v4'', 1776000), (Standard ''D32ads_v5'', 1920000), (Standard ''D32as_v4'', 1776000),
      (Standard ''D32as_v5'', 1600000), (Standard ''D32d_v4'', 2096000), (Standard ''D32d_v5'', 2096000), (Standard ''D32ds_v4'', 2096000),
      (Standard ''D32ds_v5'', 2096000), (Standard ''D32lds_v5'', 1840000), (Standard ''D32ls_v5'', 1616000),
      (Standard ''D32pds_v5'', 1667000), (Standard ''D32plds_v5'', 1472000), (Standard ''D32pls_v5'', 1293000),
      (Standard ''D32ps_v5'', 1421000), (Standard ''D32s_v3'', 1856000), (Standard ''D32s_v4'', 1776000), (Standard ''D32s_v5'', 1776000),
      (Standard ''D3_v2'', 351000), (Standard ''D3_v2_Promo'', 351000), (Standard ''D48_v3'', 2784000), (Standard ''D48_v4'', 2664000),
      (Standard ''D48_v5'', 2664000), (Standard ''D48a_v4'', 2664000), (Standard ''D48ads_v5'', 2880000), (Standard ''D48as_v4'', 2664000),
      (Standard ''D48as_v5'', 2400000), (Standard ''D48d_v4'', 3144000), (Standard ''D48d_v5'', 3144000), (Standard ''D48ds_v4'', 3144000),
      (Standard ''D48ds_v5'', 3144000), (Standard ''D48lds_v5'', 2760000), (Standard ''D48ls_v5'', 2424000),
      (Standard ''D48pds_v5'', 2501000), (Standard ''D48plds_v5'', 2208000), (Standard ''D48pls_v5'', 1939000),
      (Standard ''D48ps_v5'', 2131000), (Standard ''D48s_v3'', 2784000), (Standard ''D48s_v4'', 2664000), (Standard ''D48s_v5'', 2664000),
      (Standard ''D4_v2'', 702000), (Standard ''D4_v2_Promo'', 702000), (Standard ''D4_v3'', 232000), (Standard ''D4_v4'', 222000),
      (Standard ''D4_v5'', 222000), (Standard ''D4a_v4'', 222000), (Standard ''D4ads_v5'', 240000), (Standard ''D4as_v4'', 222000),
      (Standard ''D4as_v5'', 200000), (Standard ''D4d_v4'', 262000), (Standard ''D4d_v5'', 262000), (Standard ''D4ds_v4'', 262000),
      (Standard ''D4ds_v5'', 262000), (Standard ''D4lds_v5'', 230000), (Standard ''D4ls_v5'', 202000), (Standard ''D4pds_v5'', 208000),
      (Standard ''D4plds_v5'', 184000), (Standard ''D4pls_v5'', 162000), (Standard ''D4ps_v5'', 178000), (Standard ''D4s_v3'', 232000),
      (Standard ''D4s_v4'', 222000), (Standard ''D4s_v5'', 222000), (Standard ''D5_v2'', 1405000), (Standard ''D5_v2_Promo'', 1405000),
      (Standard ''D64-16s_v3'', 3712000), (Standard ''D64-32s_v3'', 3712000), (Standard ''D64_v3'', 3712000),
      (Standard ''D64_v4'', 3552000), (Standard ''D64_v5'', 3552000), (Standard ''D64a_v4'', 3552000), (Standard ''D64ads_v5'', 3840000),
      (Standard ''D64as_v4'', 3552000), (Standard ''D64as_v5'', 3200000), (Standard ''D64d_v4'', 4192000), (Standard ''D64d_v5'', 4192000),
      (Standard ''D64ds_v4'', 4192000), (Standard ''D64ds_v5'', 4192000), (Standard ''D64lds_v5'', 3680000),
      (Standard ''D64ls_v5'', 3232000), (Standard ''D64pds_v5'', 3334000), (Standard ''D64plds_v5'', 2944000),
      (Standard ''D64pls_v5'', 2586000), (Standard ''D64ps_v5'', 2842000), (Standard ''D64s_v3'', 3712000),
      (Standard ''D64s_v4'', 3552000), (Standard ''D64s_v5'', 3552000), (Standard ''D8_v3'', 464000), (Standard ''D8_v4'', 444000),
      (Standard ''D8_v5'', 444000), (Standard ''D8a_v4'', 444000), (Standard ''D8ads_v5'', 480000), (Standard ''D8as_v4'', 444000),
      (Standard ''D8as_v5'', 400000), (Standard ''D8d_v4'', 524000)]"

definition uksouth_3 :: priceTable where
  "uksouth_3 =
     [(Standard ''D8d_v5'', 524000), (Standard ''D8ds_v4'', 524000), (Standard ''D8ds_v5'', 524000), (Standard ''D8lds_v5'', 460000),
      (Standard ''D8ls_v5'', 404000), (Standard ''D8pds_v5'', 417000), (Standard ''D8plds_v5'', 368000), (Standard ''D8pls_v5'', 323000),
      (Standard ''D8ps_v5'', 355000), (Standard ''D8s_v3'', 464000), (Standard ''D8s_v4'', 444000), (Standard ''D8s_v5'', 444000),
      (Standard ''D96_v5'', 5328000), (Standard ''D96a_v4'', 5328000), (Standard ''D96ads_v5'', 5760000), (Standard ''D96as_v4'', 5328000),
      (Standard ''D96as_v5'', 4800000), (Standard ''D96d_v5'', 6288000), (Standard ''D96ds_v5'', 6288000),
      (Standard ''D96lds_v5'', 5520000), (Standard ''D96ls_v5'', 4848000), (Standard ''D96s_v5'', 5328000),
      (Standard ''DC16ads_v5'', 960000), (Standard ''DC16as_v5'', 800000), (Standard ''DC16ds_v3'', 2096000),
      (Standard ''DC16s_v3'', 1776000), (Standard ''DC1ds_v3'', 131000), (Standard ''DC1s_v2'', 111000), (Standard ''DC1s_v3'', 111000),
      (Standard ''DC24ds_v3'', 3144000), (Standard ''DC24s_v3'', 2664000), (Standard ''DC2ads_v5'', 120000),
      (Standard ''DC2as_v5'', 100000), (Standard ''DC2ds_v3'', 262000), (Standard ''DC2s_v2'', 222000), (Standard ''DC2s_v3'', 222000),
      (Standard ''DC32ads_v5'', 1920000), (Standard ''DC32as_v5'', 1600000), (Standard ''DC32ds_v3'', 4192000),
      (Standard ''DC32s_v3'', 3552000), (Standard ''DC48ads_v5'', 2880000), (Standard ''DC48as_v5'', 2400000),
      (Standard ''DC48ds_v3'', 6288000), (Standard ''DC48s_v3'', 5328000), (Standard ''DC4ads_v5'', 240000),
      (Standard ''DC4as_v5'', 200000), (Standard ''DC4ds_v3'', 524000), (Standard ''DC4s_v2'', 444000), (Standard ''DC4s_v3'', 444000),
      (Standard ''DC64ads_v5'', 3840000), (Standard ''DC64as_v5'', 3200000), (Standard ''DC8_v2'', 888000),
      (Standard ''DC8ads_v5'', 480000), (Standard ''DC8as_v5'', 400000), (Standard ''DC8ds_v3'', 1048000), (Standard ''DC8s_v3'', 888000),
      (Standard ''DC96ads_v5'', 5760000), (Standard ''DC96as_v5'', 4800000), (Standard ''DS11-1_v2'', 234000),
      (Standard ''DS11_v2'', 234000), (Standard ''DS11_v2_Promo'', 234000), (Standard ''DS12-1_v2'', 469000),
      (Standard ''DS12-2_v2'', 469000), (Standard ''DS12_v2'', 469000), (Standard ''DS12_v2_Promo'', 469000),
      (Standard ''DS13-2_v2'', 937000), (Standard ''DS13-4_v2'', 937000), (Standard ''DS13_v2'', 937000),
      (Standard ''DS13_v2_Promo'', 937000), (Standard ''DS14-4_v2'', 1874000), (Standard ''DS14-8_v2'', 1874000),
      (Standard ''DS14_v2'', 1874000), (Standard ''DS14_v2_Promo'', 1874000), (Standard ''DS15_v2'', 2343000),
      (Standard ''DS15i_v2'', 2343000), (Standard ''DS1_v2'', 87800), (Standard ''DS2_v2'', 176000), (Standard ''DS2_v2_Promo'', 176000),
      (Standard ''DS3_v2'', 351000), (Standard ''DS3_v2_Promo'', 351000), (Standard ''DS4_v2'', 702000),
      (Standard ''DS4_v2_Promo'', 702000), (Standard ''DS5_v2'', 1405000), (Standard ''DS5_v2_Promo'', 1405000),
      (Standard ''E104i_v5'', 8466000), (Standard ''E104id_v5'', 9667000), (Standard ''E104ids_v5'', 9667000),
      (Standard ''E104is_v5'', 8466000), (Standard ''E112iads_v5'', 9486000), (Standard ''E112ias_v5'', 8193000),
      (Standard ''E112ibds_v5'', 12166000), (Standard ''E112ibs_v5'', 10872000), (Standard ''E16-4ads_v5'', 1232000),
      (Standard ''E16-4as_v4'', 1184000), (Standard ''E16-4as_v5'', 1064000), (Standard ''E16-4ds_v4'', 1352000),
      (Standard ''E16-4ds_v5'', 1352000), (Standard ''E16-4s_v3'', 1248000), (Standard ''E16-4s_v4'', 1184000),
      (Standard ''E16-4s_v5'', 1184000), (Standard ''E16-8ads_v5'', 1232000), (Standard ''E16-8as_v4'', 1184000),
      (Standard ''E16-8as_v5'', 1064000), (Standard ''E16-8ds_v4'', 1352000), (Standard ''E16-8ds_v5'', 1352000),
      (Standard ''E16-8s_v3'', 1248000), (Standard ''E16-8s_v4'', 1184000), (Standard ''E16-8s_v5'', 1184000),
      (Standard ''E16_v3'', 1248000), (Standard ''E16_v4'', 1184000), (Standard ''E16_v5'', 1184000), (Standard ''E16a_v4'', 1184000),
      (Standard ''E16ads_v5'', 1232000), (Standard ''E16as_v4'', 1184000), (Standard ''E16as_v5'', 1064000),
      (Standard ''E16bds_v5'', 1580000), (Standard ''E16bs_v5'', 1412000), (Standard ''E16d_v4'', 1352000),
      (Standard ''E16d_v5'', 1352000), (Standard ''E16ds_v4'', 1352000), (Standard ''E16ds_v5'', 1352000),
      (Standard ''E16pds_v5'', 1083000), (Standard ''E16ps_v5'', 947000), (Standard ''E16s_v3'', 1248000), (Standard ''E16s_v4'', 1184000),
      (Standard ''E16s_v5'', 1184000), (Standard ''E20_v3'', 1560000), (Standard ''E20_v4'', 1480000)]"

definition uksouth_4 :: priceTable where
  "uksouth_4 =
     [(Standard ''E20_v5'', 1480000), (Standard ''E20a_v4'', 1480000), (Standard ''E20ads_v5'', 1540000), (Standard ''E20as_v4'', 1480000),
      (Standard ''E20as_v5'', 1330000), (Standard ''E20d_v4'', 1690000), (Standard ''E20d_v5'', 1690000), (Standard ''E20ds_v4'', 1690000),
      (Standard ''E20ds_v5'', 1690000), (Standard ''E20pds_v5'', 1354000), (Standard ''E20ps_v5'', 1184000),
      (Standard ''E20s_v3'', 1560000), (Standard ''E20s_v4'', 1480000), (Standard ''E20s_v5'', 1480000), (Standard ''E2_v3'', 156000),
      (Standard ''E2_v4'', 148000), (Standard ''E2_v5'', 148000), (Standard ''E2a_v4'', 148000), (Standard ''E2ads_v5'', 154000),
      (Standard ''E2as_v4'', 148000), (Standard ''E2as_v5'', 133000), (Standard ''E2bds_v5'', 198000), (Standard ''E2bs_v5'', 177000),
      (Standard ''E2d_v4'', 169000), (Standard ''E2d_v5'', 169000), (Standard ''E2ds_v4'', 169000), (Standard ''E2ds_v5'', 169000),
      (Standard ''E2pds_v5'', 135000), (Standard ''E2ps_v5'', 118000), (Standard ''E2s_v3'', 156000), (Standard ''E2s_v4'', 148000),
      (Standard ''E2s_v5'', 148000), (Standard ''E32-16ads_v5'', 2464000), (Standard ''E32-16as_v4'', 2368000),
      (Standard ''E32-16as_v5'', 2128000), (Standard ''E32-16ds_v4'', 2704000), (Standard ''E32-16ds_v5'', 2704000),
      (Standard ''E32-16s_v3'', 2496000), (Standard ''E32-16s_v4'', 2368000), (Standard ''E32-16s_v5'', 2368000),
      (Standard ''E32-8ads_v5'', 2464000), (Standard ''E32-8as_v4'', 2368000), (Standard ''E32-8as_v5'', 2128000),
      (Standard ''E32-8ds_v4'', 2704000), (Standard ''E32-8ds_v5'', 2704000), (Standard ''E32-8s_v3'', 2496000),
      (Standard ''E32-8s_v4'', 2368000), (Standard ''E32-8s_v5'', 2368000), (Standard ''E32_v3'', 2496000), (Standard ''E32_v4'', 2368000),
      (Standard ''E32_v5'', 2368000), (Standard ''E32a_v4'', 2368000), (Standard ''E32ads_v5'', 2464000), (Standard ''E32as_v4'', 2368000),
      (Standard ''E32as_v5'', 2128000), (Standard ''E32bds_v5'', 3160000), (Standard ''E32bs_v5'', 2824000),
      (Standard ''E32d_v4'', 2704000), (Standard ''E32d_v5'', 2704000), (Standard ''E32ds_v4'', 2704000), (Standard ''E32ds_v5'', 2704000),
      (Standard ''E32pds_v5'', 2166000), (Standard ''E32ps_v5'', 1894000), (Standard ''E32s_v3'', 2496000),
      (Standard ''E32s_v4'', 2368000), (Standard ''E32s_v5'', 2368000), (Standard ''E4-2ads_v5'', 308000),
      (Standard ''E4-2as_v4'', 296000), (Standard ''E4-2as_v5'', 266000), (Standard ''E4-2ds_v4'', 338000),
      (Standard ''E4-2ds_v5'', 338000), (Standard ''E4-2s_v3'', 312000), (Standard ''E4-2s_v4'', 296000), (Standard ''E4-2s_v5'', 296000),
      (Standard ''E48_v3'', 3553000), (Standard ''E48_v4'', 3552000), (Standard ''E48_v5'', 3552000), (Standard ''E48a_v4'', 3552000),
      (Standard ''E48ads_v5'', 3696000), (Standard ''E48as_v4'', 3552000), (Standard ''E48as_v5'', 3192000),
      (Standard ''E48bds_v5'', 4740000), (Standard ''E48bs_v5'', 4236000), (Standard ''E48d_v4'', 4056000),
      (Standard ''E48d_v5'', 4056000), (Standard ''E48ds_v4'', 4056000), (Standard ''E48ds_v5'', 4056000), (Standard ''E48s_v3'', 3553000),
      (Standard ''E48s_v4'', 3552000), (Standard ''E48s_v5'', 3552000), (Standard ''E4_v3'', 312000), (Standard ''E4_v4'', 296000),
      (Standard ''E4_v5'', 296000), (Standard ''E4a_v4'', 296000), (Standard ''E4ads_v5'', 308000), (Standard ''E4as_v4'', 296000),
      (Standard ''E4as_v5'', 266000), (Standard ''E4bds_v5'', 395000), (Standard ''E4bs_v5'', 353000), (Standard ''E4d_v4'', 338000),
      (Standard ''E4d_v5'', 338000), (Standard ''E4ds_v4'', 338000), (Standard ''E4ds_v5'', 338000), (Standard ''E4pds_v5'', 271000),
      (Standard ''E4ps_v5'', 237000), (Standard ''E4s_v3'', 312000), (Standard ''E4s_v4'', 296000), (Standard ''E4s_v5'', 296000),
      (Standard ''E64-16ads_v5'', 4928000), (Standard ''E64-16as_v4'', 4736000), (Standard ''E64-16as_v5'', 4256000),
      (Standard ''E64-16ds_v4'', 5408000), (Standard ''E64-16ds_v5'', 5408000), (Standard ''E64-16s_v3'', 4264000),
      (Standard ''E64-16s_v4'', 4736000), (Standard ''E64-16s_v5'', 4736000), (Standard ''E64-32ads_v5'', 4928000),
      (Standard ''E64-32as_v4'', 4736000), (Standard ''E64-32as_v5'', 4256000), (Standard ''E64-32ds_v4'', 5408000),
      (Standard ''E64-32ds_v5'', 5408000), (Standard ''E64-32s_v3'', 4264000), (Standard ''E64-32s_v4'', 4736000),
      (Standard ''E64-32s_v5'', 4736000), (Standard ''E64_v3'', 4264000), (Standard ''E64_v4'', 4736000), (Standard ''E64_v5'', 4736000),
      (Standard ''E64a_v4'', 4736000)]"

definition uksouth_5 :: priceTable where
  "uksouth_5 =
     [(Standard ''E64ads_v5'', 4928000), (Standard ''E64as_v4'', 4736000), (Standard ''E64as_v5'', 4256000),
      (Standard ''E64bds_v5'', 6320000), (Standard ''E64bs_v5'', 5648000), (Standard ''E64d_v4'', 5408000),
      (Standard ''E64d_v5'', 5408000), (Standard ''E64ds_v4'', 5408000), (Standard ''E64ds_v5'', 5408000), (Standard ''E64i_v3'', 4264000),
      (Standard ''E64is_v3'', 4264000), (Standard ''E64s_v3'', 4264000), (Standard ''E64s_v4'', 4736000), (Standard ''E64s_v5'', 4736000),
      (Standard ''E8-2ads_v5'', 616000), (Standard ''E8-2as_v4'', 592000), (Standard ''E8-2as_v5'', 532000),
      (Standard ''E8-2ds_v4'', 676000), (Standard ''E8-2ds_v5'', 676000), (Standard ''E8-2s_v3'', 624000), (Standard ''E8-2s_v4'', 592000),
      (Standard ''E8-2s_v5'', 592000), (Standard ''E8-4ads_v5'', 616000), (Standard ''E8-4as_v4'', 592000),
      (Standard ''E8-4as_v5'', 532000), (Standard ''E8-4ds_v4'', 676000), (Standard ''E8-4ds_v5'', 676000),
      (Standard ''E8-4s_v3'', 624000), (Standard ''E8-4s_v4'', 592000), (Standard ''E8-4s_v5'', 592000), (Standard ''E80ids_v4'', 6760000),
      (Standard ''E80is_v4'', 5920000), (Standard ''E8_v3'', 624000), (Standard ''E8_v4'', 592000), (Standard ''E8_v5'', 592000),
      (Standard ''E8a_v4'', 592000), (Standard ''E8ads_v5'', 616000), (Standard ''E8as_v4'', 592000), (Standard ''E8as_v5'', 532000),
      (Standard ''E8bds_v5'', 790000), (Standard ''E8bs_v5'', 706000), (Standard ''E8d_v4'', 676000), (Standard ''E8d_v5'', 676000),
      (Standard ''E8ds_v4'', 676000), (Standard ''E8ds_v5'', 676000), (Standard ''E8pds_v5'', 542000), (Standard ''E8ps_v5'', 474000),
      (Standard ''E8s_v3'', 624000), (Standard ''E8s_v4'', 592000), (Standard ''E8s_v5'', 592000), (Standard ''E96-24ads_v5'', 7392000),
      (Standard ''E96-24as_v4'', 7104000), (Standard ''E96-24as_v5'', 6384000), (Standard ''E96-24ds_v5'', 8112000),
      (Standard ''E96-24s_v5'', 7104000), (Standard ''E96-48ads_v5'', 7392000), (Standard ''E96-48as_v4'', 7104000),
      (Standard ''E96-48as_v5'', 6384000), (Standard ''E96-48ds_v5'', 8112000), (Standard ''E96-48s_v5'', 7104000),
      (Standard ''E96_v5'', 7104000), (Standard ''E96a_v4'', 7104000), (Standard ''E96ads_v5'', 7392000), (Standard ''E96as_v4'', 7104000),
      (Standard ''E96as_v5'', 6384000), (Standard ''E96bds_v5'', 9480000), (Standard ''E96bs_v5'', 8472000),
      (Standard ''E96d_v5'', 8112000), (Standard ''E96ds_v5'', 8112000), (Standard ''E96iads_v5'', 8131000),
      (Standard ''E96ias_v5'', 7022000), (Standard ''E96s_v5'', 7104000), (Standard ''EC16ads_v5'', 1232000),
      (Standard ''EC16as_v5'', 1064000), (Standard ''EC20ads_v5'', 1540000), (Standard ''EC20as_v5'', 1330000),
      (Standard ''EC2ads_v5'', 154000), (Standard ''EC2as_v5'', 133000), (Standard ''EC32ads_v5'', 2464000),
      (Standard ''EC32as_v5'', 2128000), (Standard ''EC48ads_v5'', 3696000), (Standard ''EC48as_v5'', 3192000),
      (Standard ''EC4ads_v5'', 308000), (Standard ''EC4as_v5'', 266000), (Standard ''EC64ads_v5'', 4928000),
      (Standard ''EC64as_v5'', 4256000), (Standard ''EC8ads_v5'', 616000), (Standard ''EC8as_v5'', 532000),
      (Standard ''EC96ads_v5'', 7392000), (Standard ''EC96as_v5'', 6384000), (Standard ''EC96iads_v5'', 8131000),
      (Standard ''EC96ias_v5'', 7022000), (Standard ''F1'', 59000), (Standard ''F16'', 950000), (Standard ''F16s'', 950000),
      (Standard ''F16s_v2'', 808000), (Standard ''F1s'', 59000), (Standard ''F2'', 119000), (Standard ''F2s'', 119000),
      (Standard ''F2s_v2'', 101000), (Standard ''F32s_v2'', 1616000), (Standard ''F4'', 237000), (Standard ''F48s_v2'', 2424000),
      (Standard ''F4s'', 237000), (Standard ''F4s_v2'', 202000), (Standard ''F64s_v2'', 3232000), (Standard ''F72s_v2'', 3636000),
      (Standard ''F8'', 475000), (Standard ''F8s'', 475000), (Standard ''F8s_v2'', 404000), (Standard ''FX12mds'', 1320000),
      (Standard ''FX24mds'', 2640000), (Standard ''FX36mds'', 3960000), (Standard ''FX48mds'', 5280000), (Standard ''FX4mds'', 440000),
      (Standard ''G1'', 439000), (Standard ''G2'', 878000), (Standard ''G3'', 1757000), (Standard ''G4'', 3514000),
      (Standard ''G5'', 7027000), (Standard ''GS1'', 439000), (Standard ''GS2'', 878000), (Standard ''GS3'', 1757000),
      (Standard ''GS4'', 3514000), (Standard ''GS4-4'', 3514000), (Standard ''GS4-8'', 3514000), (Standard ''GS5'', 7027000),
      (Standard ''GS5-16'', 7027000)]"

definition uksouth_6 :: priceTable where
  "uksouth_6 =
     [(Standard ''GS5-8'', 7027000), (Standard ''H16'', 1902000), (Standard ''H16m'', 2549000), (Standard ''H16mr'', 2803000),
      (Standard ''H16r'', 2092000), (Standard ''H8'', 951000), (Standard ''H8m'', 1274000), (Standard ''HB120-16rs_v3'', 4500000),
      (Standard ''HB120-32rs_v3'', 4500000), (Standard ''HB120-64rs_v3'', 4500000), (Standard ''HB120-96rs_v3'', 4500000),
      (Standard ''HB120rs_v3'', 4500000), (Standard ''HC44-16rs'', 3960000), (Standard ''HC44-32rs'', 3960000),
      (Standard ''HC44rs'', 3960000), (Standard ''L112ias_v3'', 11150000), (Standard ''L16as_v3'', 1448000), (Standard ''L16s'', 1448000),
      (Standard ''L16s_v2'', 1448000), (Standard ''L16s_v3'', 1616000), (Standard ''L32as_v3'', 2896000), (Standard ''L32s'', 2895000),
      (Standard ''L32s_v2'', 2895000), (Standard ''L32s_v3'', 3232000), (Standard ''L48as_v3'', 4344000), (Standard ''L48s_v2'', 4343000),
      (Standard ''L48s_v3'', 4848000), (Standard ''L4s'', 362000), (Standard ''L64as_v3'', 5792000), (Standard ''L64s_v2'', 5791000),
      (Standard ''L64s_v3'', 6464000), (Standard ''L80as_v3'', 7240000), (Standard ''L80s_v2'', 7238000), (Standard ''L80s_v3'', 8080000),
      (Standard ''L8as_v3'', 724000), (Standard ''L8s'', 724000), (Standard ''L8s_v2'', 724000), (Standard ''L8s_v3'', 808000),
      (Standard ''L96ias_v3'', 9557000), (Standard ''M128'', 16806000), (Standard ''M128-32ms'', 33624000),
      (Standard ''M128-64ms'', 33624000), (Standard ''M128dms_v2'', 33629000), (Standard ''M128ds_v2'', 16808000),
      (Standard ''M128m'', 33624000), (Standard ''M128ms'', 33624000), (Standard ''M128ms_v2'', 33099000), (Standard ''M128s'', 16806000),
      (Standard ''M128s_v2'', 16278000), (Standard ''M16-4ms'', 3872000), (Standard ''M16-8ms'', 3872000), (Standard ''M16ms'', 3872000),
      (Standard ''M16s'', 3007600), (Standard ''M192idms_v2'', 40400000), (Standard ''M192ids_v2'', 20200000),
      (Standard ''M192ims_v2'', 39870000), (Standard ''M192is_v2'', 19670000), (Standard ''M208-104ms_v2'', 55775000),
      (Standard ''M208-104s_v2'', 27888000), (Standard ''M208-52ms_v2'', 55775000), (Standard ''M208-52s_v2'', 27888000),
      (Standard ''M208ms_v2'', 55775000), (Standard ''M208s_v2'', 27888000), (Standard ''M32-16ms'', 7744000),
      (Standard ''M32-8ms'', 7744000), (Standard ''M32dms_v2'', 7744000), (Standard ''M32ls'', 3361000), (Standard ''M32ms'', 7744000),
      (Standard ''M32ms_v2'', 7611000), (Standard ''M32s'', 4202000), (Standard ''M32ts'', 3167000),
      (Standard ''M416-104ms_v2'', 123940000), (Standard ''M416-104s_v2'', 61975000), (Standard ''M416-208ms_v2'', 123940000),
      (Standard ''M416-208s_v2'', 61975000), (Standard ''M416is_v2'', 61975000), (Standard ''M416ms_v2'', 123940000),
      (Standard ''M416s_8_v2'', 82640000), (Standard ''M416s_v2'', 61975000), (Standard ''M64'', 8403000),
      (Standard ''M64-16ms'', 13024000), (Standard ''M64-32ms'', 13024000), (Standard ''M64dms_v2'', 13028000),
      (Standard ''M64ds_v2'', 8403000), (Standard ''M64ls'', 6335550), (Standard ''M64m'', 13024000), (Standard ''M64ms'', 13024000),
      (Standard ''M64ms_v2'', 12763000), (Standard ''M64s'', 8403000), (Standard ''M64s_v2'', 8138000), (Standard ''M8-2ms'', 1936000),
      (Standard ''M8-4ms'', 1936000), (Standard ''M8ms'', 1936000), (Standard ''NC12'', 2566000), (Standard ''NC12s_v3'', 7178000),
      (Standard ''NC16as_T4_v3'', 1409000), (Standard ''NC24'', 5132000), (Standard ''NC24ads_A100_v4'', 4591000),
      (Standard ''NC24r'', 5645000), (Standard ''NC24rs_v3'', 15792000), (Standard ''NC24s_v3'', 14356000),
      (Standard ''NC48ads_A100_v4'', 9183000), (Standard ''NC4as_T4_v3'', 615000), (Standard ''NC6'', 1283000),
      (Standard ''NC64as_T4_v3'', 5092000), (Standard ''NC6s_v3'', 3589000), (Standard ''NC8as_T4_v3'', 880000),
      (Standard ''NC96ads_A100_v4'', 18365000), (Standard ''ND96ams_A100_v4'', 40962000), (Standard ''ND96amsr_A100_v4'', 40962000),
      (Standard ''NV12'', 3003000), (Standard ''NV12ads_A10_v5'', 1135000), (Standard ''NV12s_v3'', 1425000),
      (Standard ''NV16as_v4'', 1165000), (Standard ''NV18ads_A10_v5'', 2000000), (Standard ''NV24'', 6006000),
      (Standard ''NV24s_v3'', 2850000), (Standard ''NV32as_v4'', 2330000), (Standard ''NV36adms_A10_v5'', 5650000),
      (Standard ''NV36ads_A10_v5'', 4000000), (Standard ''NV48s_v3'', 5700000), (Standard ''NV4as_v4'', 291000),
      (Standard ''NV6'', 1502000), (Standard ''NV6ads_A10_v5'', 567000), (Standard ''NV72ads_A10_v5'', 8150000),
      (Standard ''NV8as_v4'', 582000)]"

definition uksouth :: priceTable where
  "uksouth = uksouth_1 @ uksouth_2 @ uksouth_3 @ uksouth_4 @ uksouth_5 @ uksouth_6"

subsection \<open>ukwest\<close>

definition ukwest_1 :: priceTable where
  "ukwest_1 =
     [(''Basic_A0'', 20000), (''Basic_A1'', 26000), (''Basic_A2'', 101000), (''Basic_A3'', 224000), (''Basic_A4'', 449000),
      (''DCsv2 Type 1'', 1022000), (''Dadsv5_Type1'', 7677000), (''Dasv5_Type1'', 6410000), (''Ddsv4_Type 1'', 4813000),
      (''Ddsv4_Type2'', 5715000), (''Ddsv5_Type1'', 7219000), (''Dsv3_Type3'', 4885000), (''Dsv3_Type4'', 6106000),
      (''Dsv4_Type1'', 5111000), (''Dsv4_Type2'', 6389000), (''Dsv5_Type1'', 6389000), (''Eadsv5_Type1'', 8369000),
      (''Easv5_Type1'', 7219000), (''Ebdsv5-Type1'', 7113000), (''Ebsv5-Type1'', 6346000), (''Edsv4_Type 1'', 6133000),
      (''Edsv4_Type2'', 7283000), (''Edsv5_Type1'', 9200000), (''Esv3_Type3'', 5049000), (''Esv3_Type4'', 6841000),
      (''Esv4_Type1'', 5367000), (''Esv4_Type2'', 7044000), (''Esv5_Type1'', 8050000), (''Fsv2 Type3'', 5111000),
      (''Fsv2_Type2'', 4000000), (''Fsv2_Type4'', 5556000), (''Lasv3_Type1'', 8305000), (''Lsv3_Type1'', 9290000),
      (''Mdsmv2MedMem _Type1'', 35524000), (''Mdsv2MedMem_Type1'', 17756000), (''Msmv2MedMem Type1'', 34964000),
      (''Msmv2_Type1'', 131970000), (''Msv2MedMem Type1'', 17195000), (''Msv2_Type1'', 65991000), (Standard ''A0'', 22000),
      (Standard ''A1'', 66000), (Standard ''A1_v2'', 50000), (Standard ''A2'', 132000), (Standard ''A2_v2'', 106000),
      (Standard ''A2m_v2'', 158000), (Standard ''A3'', 264000), (Standard ''A4'', 528000), (Standard ''A4_v2'', 222000),
      (Standard ''A4m_v2'', 333000), (Standard ''A5'', 297000), (Standard ''A6'', 594000), (Standard ''A7'', 1188000),
      (Standard ''A8_v2'', 467000), (Standard ''A8m_v2'', 699000), (Standard ''B12ms'', 564000), (Standard ''B16als_v2'', 645000),
      (Standard ''B16as_v2'', 802000), (Standard ''B16ls_v2'', 713000), (Standard ''B16ms'', 752000), (Standard ''B16s_v2'', 805000),
      (Standard ''B1ls'', 5880), (Standard ''B1ms'', 23500), (Standard ''B1s'', 11800), (Standard ''B20ms'', 940000),
      (Standard ''B2als_v2'', 54700), (Standard ''B2as_v2'', 100000), (Standard ''B2ats_v2'', 20600), (Standard ''B2ls_v2'', 59500),
      (Standard ''B2ms'', 94000), (Standard ''B2s'', 47000), (Standard ''B2s_v2'', 110000), (Standard ''B2ts_v2'', 21800),
      (Standard ''B32als_v2'', 1289000), (Standard ''B32as_v2'', 1603000), (Standard ''B32ls_v2'', 1426000),
      (Standard ''B32s_v2'', 1611000), (Standard ''B4als_v2'', 161000), (Standard ''B4as_v2'', 182000), (Standard ''B4ls_v2'', 197000),
      (Standard ''B4ms'', 188000), (Standard ''B4s_v2'', 220000), (Standard ''B8als_v2'', 322000), (Standard ''B8as_v2'', 401000),
      (Standard ''B8ls_v2'', 357000), (Standard ''B8ms'', 376000), (Standard ''B8s_v2'', 439000), (Standard ''D11_v2'', 234000),
      (Standard ''D11_v2_Promo'', 234000), (Standard ''D12_v2'', 469000), (Standard ''D12_v2_Promo'', 469000),
      (Standard ''D13_v2'', 937000), (Standard ''D13_v2_Promo'', 937000), (Standard ''D14_v2'', 1874000),
      (Standard ''D14_v2_Promo'', 1874000), (Standard ''D15_v2'', 2343000), (Standard ''D15i_v2'', 2343000), (Standard ''D16_v3'', 928000),
      (Standard ''D16_v4'', 929000), (Standard ''D16_v5'', 929000), (Standard ''D16a_v4'', 929000), (Standard ''D16ads_v5'', 997000),
      (Standard ''D16as_v4'', 929000), (Standard ''D16as_v5'', 832000), (Standard ''D16d_v4'', 1094000), (Standard ''D16d_v5'', 1094000),
      (Standard ''D16ds_v4'', 1094000), (Standard ''D16ds_v5'', 1094000), (Standard ''D16lds_v5'', 929000),
      (Standard ''D16ls_v5'', 823000), (Standard ''D16s_v3'', 928000), (Standard ''D16s_v4'', 929000), (Standard ''D16s_v5'', 929000),
      (Standard ''D1_v2'', 87700), (Standard ''D2_v2'', 175000), (Standard ''D2_v2_Promo'', 175000), (Standard ''D2_v3'', 116000),
      (Standard ''D2_v4'', 116000), (Standard ''D2_v5'', 116000), (Standard ''D2a_v4'', 116000), (Standard ''D2ads_v5'', 125000),
      (Standard ''D2as_v4'', 116000), (Standard ''D2as_v5'', 104000), (Standard ''D2d_v4'', 137000), (Standard ''D2d_v5'', 137000),
      (Standard ''D2ds_v4'', 137000), (Standard ''D2ds_v5'', 137000), (Standard ''D2lds_v5'', 116000), (Standard ''D2ls_v5'', 103000),
      (Standard ''D2s_v3'', 116000), (Standard ''D2s_v4'', 116000), (Standard ''D2s_v5'', 116000), (Standard ''D32-16s_v3'', 1856000),
      (Standard ''D32-8s_v3'', 1856000), (Standard ''D32_v3'', 1856000), (Standard ''D32_v4'', 1859000), (Standard ''D32_v5'', 1859000),
      (Standard ''D32a_v4'', 1859000), (Standard ''D32ads_v5'', 1994000), (Standard ''D32as_v4'', 1859000),
      (Standard ''D32as_v5'', 1665000), (Standard ''D32d_v4'', 2188000), (Standard ''D32d_v5'', 2188000), (Standard ''D32ds_v4'', 2188000),
      (Standard ''D32ds_v5'', 2188000), (Standard ''D32lds_v5'', 1859000)]"

definition ukwest_2 :: priceTable where
  "ukwest_2 =
     [(Standard ''D32ls_v5'', 1646000), (Standard ''D32s_v3'', 1856000), (Standard ''D32s_v4'', 1859000), (Standard ''D32s_v5'', 1859000),
      (Standard ''D3_v2'', 351000), (Standard ''D3_v2_Promo'', 351000), (Standard ''D48_v3'', 2784000), (Standard ''D48_v4'', 2788000),
      (Standard ''D48_v5'', 2788000), (Standard ''D48a_v4'', 2788000), (Standard ''D48ads_v5'', 2991000), (Standard ''D48as_v4'', 2788000),
      (Standard ''D48as_v5'', 2497000), (Standard ''D48d_v4'', 3282000), (Standard ''D48d_v5'', 3282000), (Standard ''D48ds_v4'', 3282000),
      (Standard ''D48ds_v5'', 3282000), (Standard ''D48lds_v5'', 2788000), (Standard ''D48ls_v5'', 2468000),
      (Standard ''D48s_v3'', 2784000), (Standard ''D48s_v4'', 2788000), (Standard ''D48s_v5'', 2788000), (Standard ''D4_v2'', 702000),
      (Standard ''D4_v2_Promo'', 702000), (Standard ''D4_v3'', 232000), (Standard ''D4_v4'', 232000), (Standard ''D4_v5'', 232000),
      (Standard ''D4a_v4'', 232000), (Standard ''D4ads_v5'', 249000), (Standard ''D4as_v4'', 232000), (Standard ''D4as_v5'', 208000),
      (Standard ''D4d_v4'', 273000), (Standard ''D4d_v5'', 273000), (Standard ''D4ds_v4'', 273000), (Standard ''D4ds_v5'', 273000),
      (Standard ''D4lds_v5'', 232000), (Standard ''D4ls_v5'', 206000), (Standard ''D4s_v3'', 232000), (Standard ''D4s_v4'', 232000),
      (Standard ''D4s_v5'', 232000), (Standard ''D5_v2'', 1404000), (Standard ''D5_v2_Promo'', 1404000),
      (Standard ''D64-16s_v3'', 3712000), (Standard ''D64-32s_v3'', 3712000), (Standard ''D64_v3'', 3712000),
      (Standard ''D64_v4'', 3717000), (Standard ''D64_v5'', 3717000), (Standard ''D64a_v4'', 3717000), (Standard ''D64ads_v5'', 3988000),
      (Standard ''D64as_v4'', 3717000), (Standard ''D64as_v5'', 3330000), (Standard ''D64d_v4'', 4375000), (Standard ''D64d_v5'', 4375000),
      (Standard ''D64ds_v4'', 4375000), (Standard ''D64ds_v5'', 4375000), (Standard ''D64lds_v5'', 3717000),
      (Standard ''D64ls_v5'', 3291000), (Standard ''D64s_v3'', 3712000), (Standard ''D64s_v4'', 3717000), (Standard ''D64s_v5'', 3717000),
      (Standard ''D8_v3'', 464000), (Standard ''D8_v4'', 465000), (Standard ''D8_v5'', 465000), (Standard ''D8a_v4'', 465000),
      (Standard ''D8ads_v5'', 499000), (Standard ''D8as_v4'', 465000), (Standard ''D8as_v5'', 416000), (Standard ''D8d_v4'', 547000),
      (Standard ''D8d_v5'', 547000), (Standard ''D8ds_v4'', 547000), (Standard ''D8ds_v5'', 547000), (Standard ''D8lds_v5'', 465000),
      (Standard ''D8ls_v5'', 411000), (Standard ''D8s_v3'', 464000), (Standard ''D8s_v4'', 465000), (Standard ''D8s_v5'', 465000),
      (Standard ''D96_v5'', 5576000), (Standard ''D96a_v4'', 5576000), (Standard ''D96ads_v5'', 5982000), (Standard ''D96as_v4'', 5576000),
      (Standard ''D96as_v5'', 4995000), (Standard ''D96d_v5'', 6563000), (Standard ''D96ds_v5'', 6563000),
      (Standard ''D96lds_v5'', 5576000), (Standard ''D96ls_v5'', 4937000), (Standard ''D96s_v5'', 5576000), (Standard ''DC1s_v2'', 116000),
      (Standard ''DC2s_v2'', 232000), (Standard ''DC4s_v2'', 465000), (Standard ''DC8_v2'', 929000), (Standard ''DS11-1_v2'', 234000),
      (Standard ''DS11_v2'', 234000), (Standard ''DS11_v2_Promo'', 234000), (Standard ''DS12-1_v2'', 469000),
      (Standard ''DS12-2_v2'', 469000), (Standard ''DS12_v2'', 469000), (Standard ''DS12_v2_Promo'', 469000),
      (Standard ''DS13-2_v2'', 937000), (Standard ''DS13-4_v2'', 937000), (Standard ''DS13_v2'', 937000),
      (Standard ''DS13_v2_Promo'', 937000), (Standard ''DS14-4_v2'', 1874000), (Standard ''DS14-8_v2'', 1874000),
      (Standard ''DS14_v2'', 1874000), (Standard ''DS14_v2_Promo'', 1874000), (Standard ''DS15_v2'', 2343000),
      (Standard ''DS15i_v2'', 2343000), (Standard ''DS1_v2'', 87700), (Standard ''DS2_v2'', 175000), (Standard ''DS2_v2_Promo'', 175000),
      (Standard ''DS3_v2'', 351000), (Standard ''DS3_v2_Promo'', 351000), (Standard ''DS4_v2'', 702000),
      (Standard ''DS4_v2_Promo'', 702000), (Standard ''DS5_v2'', 1404000), (Standard ''DS5_v2_Promo'', 1404000),
      (Standard ''E104i_v5'', 8721000), (Standard ''E104id_v5'', 9967000), (Standard ''E104ids_v5'', 9967000),
      (Standard ''E104is_v5'', 8721000), (Standard ''E112iads_v5'', 9764000), (Standard ''E112ias_v5'', 8423000),
      (Standard ''E112ibds_v5'', 12448000), (Standard ''E112ibs_v5'', 11106000), (Standard ''E16-4ads_v5'', 1268000),
      (Standard ''E16-4as_v4'', 1220000), (Standard ''E16-4as_v5'', 1094000), (Standard ''E16-4ds_v4'', 1394000),
      (Standard ''E16-4ds_v5'', 1394000), (Standard ''E16-4s_v3'', 1248000), (Standard ''E16-4s_v4'', 1220000),
      (Standard ''E16-4s_v5'', 1220000), (Standard ''E16-8ads_v5'', 1268000), (Standard ''E16-8as_v4'', 1220000),
      (Standard ''E16-8as_v5'', 1094000), (Standard ''E16-8ds_v4'', 1394000), (Standard ''E16-8ds_v5'', 1394000),
      (Standard ''E16-8s_v3'', 1248000), (Standard ''E16-8s_v4'', 1220000), (Standard ''E16-8s_v5'', 1220000),
      (Standard ''E16_v3'', 1248000), (Standard ''E16_v4'', 1220000), (Standard ''E16_v5'', 1220000), (Standard ''E16a_v4'', 1220000),
      (Standard ''E16ads_v5'', 1268000)]"

definition ukwest_3 :: priceTable where
  "ukwest_3 =
     [(Standard ''E16as_v4'', 1220000), (Standard ''E16as_v5'', 1094000), (Standard ''E16bds_v5'', 1617000),
      (Standard ''E16bs_v5'', 1442000), (Standard ''E16d_v4'', 1394000), (Standard ''E16d_v5'', 1394000), (Standard ''E16ds_v4'', 1394000),
      (Standard ''E16ds_v5'', 1394000), (Standard ''E16s_v3'', 1248000), (Standard ''E16s_v4'', 1220000), (Standard ''E16s_v5'', 1220000),
      (Standard ''E20_v3'', 1560000), (Standard ''E20_v4'', 1525000), (Standard ''E20_v5'', 1525000), (Standard ''E20a_v4'', 1525000),
      (Standard ''E20ads_v5'', 1585000), (Standard ''E20as_v4'', 1525000), (Standard ''E20as_v5'', 1367000),
      (Standard ''E20d_v4'', 1742000), (Standard ''E20d_v5'', 1742000), (Standard ''E20ds_v4'', 1742000), (Standard ''E20ds_v5'', 1742000),
      (Standard ''E20s_v3'', 1560000), (Standard ''E20s_v4'', 1525000), (Standard ''E20s_v5'', 1525000), (Standard ''E2_v3'', 156000),
      (Standard ''E2_v4'', 152000), (Standard ''E2_v5'', 152000), (Standard ''E2a_v4'', 152000), (Standard ''E2ads_v5'', 159000),
      (Standard ''E2as_v4'', 152000), (Standard ''E2as_v5'', 137000), (Standard ''E2bds_v5'', 202000), (Standard ''E2bs_v5'', 180000),
      (Standard ''E2d_v4'', 174000), (Standard ''E2d_v5'', 174000), (Standard ''E2ds_v4'', 174000), (Standard ''E2ds_v5'', 174000),
      (Standard ''E2s_v3'', 156000), (Standard ''E2s_v4'', 152000), (Standard ''E2s_v5'', 152000), (Standard ''E32-16ads_v5'', 2536000),
      (Standard ''E32-16as_v4'', 2439000), (Standard ''E32-16as_v5'', 2188000), (Standard ''E32-16ds_v4'', 2788000),
      (Standard ''E32-16ds_v5'', 2788000), (Standard ''E32-16s_v3'', 2496000), (Standard ''E32-16s_v4'', 2439000),
      (Standard ''E32-16s_v5'', 2439000), (Standard ''E32-8ads_v5'', 2536000), (Standard ''E32-8as_v4'', 2439000),
      (Standard ''E32-8as_v5'', 2188000), (Standard ''E32-8ds_v4'', 2788000), (Standard ''E32-8ds_v5'', 2788000),
      (Standard ''E32-8s_v3'', 2496000), (Standard ''E32-8s_v4'', 2439000), (Standard ''E32-8s_v5'', 2439000),
      (Standard ''E32_v3'', 2496000), (Standard ''E32_v4'', 2439000), (Standard ''E32_v5'', 2439000), (Standard ''E32a_v4'', 2439000),
      (Standard ''E32ads_v5'', 2536000), (Standard ''E32as_v4'', 2439000), (Standard ''E32as_v5'', 2188000),
      (Standard ''E32bds_v5'', 3233000), (Standard ''E32bs_v5'', 2885000), (Standard ''E32d_v4'', 2788000),
      (Standard ''E32d_v5'', 2788000), (Standard ''E32ds_v4'', 2788000), (Standard ''E32ds_v5'', 2788000), (Standard ''E32s_v3'', 2496000),
      (Standard ''E32s_v4'', 2439000), (Standard ''E32s_v5'', 2439000), (Standard ''E4-2ads_v5'', 317000),
      (Standard ''E4-2as_v4'', 305000), (Standard ''E4-2as_v5'', 273000), (Standard ''E4-2ds_v4'', 348000),
      (Standard ''E4-2ds_v5'', 348000), (Standard ''E4-2s_v3'', 312000), (Standard ''E4-2s_v4'', 305000), (Standard ''E4-2s_v5'', 305000),
      (Standard ''E48_v3'', 3553000), (Standard ''E48_v4'', 3659000), (Standard ''E48_v5'', 3659000), (Standard ''E48a_v4'', 3659000),
      (Standard ''E48ads_v5'', 3804000), (Standard ''E48as_v4'', 3659000), (Standard ''E48as_v5'', 3282000),
      (Standard ''E48bds_v5'', 4850000), (Standard ''E48bs_v5'', 4327000), (Standard ''E48d_v4'', 4182000),
      (Standard ''E48d_v5'', 4182000), (Standard ''E48ds_v4'', 4182000), (Standard ''E48ds_v5'', 4182000), (Standard ''E48s_v3'', 3553000),
      (Standard ''E48s_v4'', 3659000), (Standard ''E48s_v5'', 3659000), (Standard ''E4_v3'', 312000), (Standard ''E4_v4'', 305000),
      (Standard ''E4_v5'', 305000), (Standard ''E4a_v4'', 305000), (Standard ''E4ads_v5'', 317000), (Standard ''E4as_v4'', 305000),
      (Standard ''E4as_v5'', 273000), (Standard ''E4bds_v5'', 404000), (Standard ''E4bs_v5'', 361000), (Standard ''E4d_v4'', 348000),
      (Standard ''E4d_v5'', 348000), (Standard ''E4ds_v4'', 348000), (Standard ''E4ds_v5'', 348000), (Standard ''E4s_v3'', 312000),
      (Standard ''E4s_v4'', 305000), (Standard ''E4s_v5'', 305000), (Standard ''E64-16ads_v5'', 5072000),
      (Standard ''E64-16as_v4'', 4879000), (Standard ''E64-16as_v5'', 4375000), (Standard ''E64-16ds_v4'', 5576000),
      (Standard ''E64-16ds_v5'', 5576000), (Standard ''E64-16s_v3'', 4264000), (Standard ''E64-16s_v4'', 4879000),
      (Standard ''E64-16s_v5'', 4879000), (Standard ''E64-32ads_v5'', 5072000), (Standard ''E64-32as_v4'', 4879000),
      (Standard ''E64-32as_v5'', 4375000), (Standard ''E64-32ds_v4'', 5576000), (Standard ''E64-32ds_v5'', 5576000),
      (Standard ''E64-32s_v3'', 4264000), (Standard ''E64-32s_v4'', 4879000), (Standard ''E64-32s_v5'', 4879000),
      (Standard ''E64_v3'', 4264000), (Standard ''E64_v4'', 4879000), (Standard ''E64_v5'', 4879000), (Standard ''E64a_v4'', 4879000),
      (Standard ''E64ads_v5'', 5072000), (Standard ''E64as_v4'', 4879000), (Standard ''E64as_v5'', 4375000),
      (Standard ''E64bds_v5'', 6466000), (Standard ''E64bs_v5'', 5769000), (Standard ''E64d_v4'', 5576000),
      (Standard ''E64d_v5'', 5576000), (Standard ''E64ds_v4'', 5576000), (Standard ''E64ds_v5'', 5576000), (Standard ''E64i_v3'', 4264000),
      (Standard ''E64is_v3'', 4264000), (Standard ''E64s_v3'', 4264000)]"

definition ukwest_4 :: priceTable where
  "ukwest_4 =
     [(Standard ''E64s_v4'', 4879000), (Standard ''E64s_v5'', 4879000), (Standard ''E8-2ads_v5'', 634000),
      (Standard ''E8-2as_v4'', 610000), (Standard ''E8-2as_v5'', 547000), (Standard ''E8-2ds_v4'', 697000),
      (Standard ''E8-2ds_v5'', 697000), (Standard ''E8-2s_v3'', 624000), (Standard ''E8-2s_v4'', 610000), (Standard ''E8-2s_v5'', 610000),
      (Standard ''E8-4ads_v5'', 634000), (Standard ''E8-4as_v4'', 610000), (Standard ''E8-4as_v5'', 547000),
      (Standard ''E8-4ds_v4'', 697000), (Standard ''E8-4ds_v5'', 697000), (Standard ''E8-4s_v3'', 624000), (Standard ''E8-4s_v4'', 610000),
      (Standard ''E8-4s_v5'', 610000), (Standard ''E80ids_v4'', 6970000), (Standard ''E80is_v4'', 6098000), (Standard ''E8_v3'', 624000),
      (Standard ''E8_v4'', 610000), (Standard ''E8_v5'', 610000), (Standard ''E8a_v4'', 610000), (Standard ''E8ads_v5'', 634000),
      (Standard ''E8as_v4'', 610000), (Standard ''E8as_v5'', 547000), (Standard ''E8bds_v5'', 808000), (Standard ''E8bs_v5'', 721000),
      (Standard ''E8d_v4'', 697000), (Standard ''E8d_v5'', 697000), (Standard ''E8ds_v4'', 697000), (Standard ''E8ds_v5'', 697000),
      (Standard ''E8s_v3'', 624000), (Standard ''E8s_v4'', 610000), (Standard ''E8s_v5'', 610000), (Standard ''E96-24ads_v5'', 7608000),
      (Standard ''E96-24as_v4'', 7318000), (Standard ''E96-24as_v5'', 6563000), (Standard ''E96-24ds_v5'', 8364000),
      (Standard ''E96-24s_v5'', 7318000), (Standard ''E96-48ads_v5'', 7608000), (Standard ''E96-48as_v4'', 7318000),
      (Standard ''E96-48as_v5'', 6563000), (Standard ''E96-48ds_v5'', 8364000), (Standard ''E96-48s_v5'', 7318000),
      (Standard ''E96_v5'', 7318000), (Standard ''E96a_v4'', 7318000), (Standard ''E96ads_v5'', 7608000), (Standard ''E96as_v4'', 7318000),
      (Standard ''E96as_v5'', 6563000), (Standard ''E96bds_v5'', 9699000), (Standard ''E96bs_v5'', 8654000),
      (Standard ''E96d_v5'', 8364000), (Standard ''E96ds_v5'', 8364000), (Standard ''E96iads_v5'', 8369000),
      (Standard ''E96ias_v4'', 7318000), (Standard ''E96ias_v5'', 7219000), (Standard ''E96s_v5'', 7318000), (Standard ''F1'', 59000),
      (Standard ''F16'', 950000), (Standard ''F16s'', 950000), (Standard ''F16s_v2'', 809000), (Standard ''F1s'', 59000),
      (Standard ''F2'', 119000), (Standard ''F2s'', 119000), (Standard ''F2s_v2'', 101000), (Standard ''F32s_v2'', 1618000),
      (Standard ''F4'', 237000), (Standard ''F48s_v2'', 2428000), (Standard ''F4s'', 237000), (Standard ''F4s_v2'', 202000),
      (Standard ''F64s_v2'', 3237000), (Standard ''F72s_v2'', 3641000), (Standard ''F8'', 475000), (Standard ''F8s'', 475000),
      (Standard ''F8s_v2'', 405000), (Standard ''L16as_v3'', 1510000), (Standard ''L16s_v3'', 1689000), (Standard ''L32as_v3'', 3020000),
      (Standard ''L32s_v3'', 3378000), (Standard ''L48as_v3'', 4530000), (Standard ''L48s_v3'', 5068000), (Standard ''L64as_v3'', 6040000),
      (Standard ''L64s_v3'', 6757000), (Standard ''L80as_v3'', 7550000), (Standard ''L80s_v3'', 8446000), (Standard ''L8as_v3'', 755000),
      (Standard ''L8s_v3'', 845000), (Standard ''M128'', 16806000), (Standard ''M128-32ms'', 33624000), (Standard ''M128-64ms'', 33624000),
      (Standard ''M128dms_v2'', 32295000), (Standard ''M128ds_v2'', 16141000), (Standard ''M128m'', 33624000),
      (Standard ''M128ms'', 33624000), (Standard ''M128ms_v2'', 31785000), (Standard ''M128s'', 16806000),
      (Standard ''M128s_v2'', 15632000), (Standard ''M16-4ms'', 3872000), (Standard ''M16-8ms'', 3872000), (Standard ''M16ms'', 3872000),
      (Standard ''M16s'', 3007600), (Standard ''M192idms_v2'', 38797000), (Standard ''M192ids_v2'', 19398000),
      (Standard ''M192ims_v2'', 38287000), (Standard ''M192is_v2'', 18888000), (Standard ''M208-104ms_v2'', 53990000),
      (Standard ''M208-104s_v2'', 26995000), (Standard ''M208-52ms_v2'', 53990000), (Standard ''M208-52s_v2'', 26995000),
      (Standard ''M208ms_v2'', 53990000), (Standard ''M208s_v2'', 26995000), (Standard ''M32-16ms'', 7744000),
      (Standard ''M32-8ms'', 7744000), (Standard ''M32dms_v2'', 7436000), (Standard ''M32ls'', 3361000), (Standard ''M32ms'', 7744000),
      (Standard ''M32ms_v2'', 7310000), (Standard ''M32s'', 4202000), (Standard ''M32ts'', 3167000),
      (Standard ''M416-104ms_v2'', 119970000), (Standard ''M416-104s_v2'', 59992000), (Standard ''M416-208ms_v2'', 119970000),
      (Standard ''M416-208s_v2'', 59992000), (Standard ''M416is_v2'', 59992000), (Standard ''M416ms_v2'', 119970000),
      (Standard ''M416s_8_v2'', 86600000), (Standard ''M416s_v2'', 59992000), (Standard ''M64'', 8403000),
      (Standard ''M64-16ms'', 13024000), (Standard ''M64-32ms'', 13024000), (Standard ''M64dms_v2'', 12511000),
      (Standard ''M64ds_v2'', 8069000), (Standard ''M64ls'', 6335550), (Standard ''M64m'', 13024000), (Standard ''M64ms'', 13024000),
      (Standard ''M64ms_v2'', 12257000), (Standard ''M64s'', 8403000), (Standard ''M64s_v2'', 7815000), (Standard ''M8-2ms'', 1936000),
      (Standard ''M8-4ms'', 1936000), (Standard ''M8ms'', 1936000), (Standard ''ND96ams_A100_v4'', 42929000),
      (Standard ''ND96amsr_A100_v4'', 42929000)]"

definition ukwest :: priceTable where
  "ukwest = ukwest_1 @ ukwest_2 @ ukwest_3 @ ukwest_4"

subsection \<open>The lists are well formed\<close>

lemma swedencentral_1_ok: "part_ok (''Dasv4_Type1'') swedencentral_1 (Standard ''D48d_v4'')"
  unfolding swedencentral_1_def by (simp only: eval_part)

lemma swedencentral_2_ok: "part_ok (Standard ''D48d_v4'') swedencentral_2 (Standard ''E20_v3'')"
  unfolding swedencentral_2_def by (simp only: eval_part)

lemma swedencentral_3_ok: "part_ok (Standard ''E20_v3'') swedencentral_3 (Standard ''E8-4s_v3'')"
  unfolding swedencentral_3_def by (simp only: eval_part)

lemma swedencentral_4_ok: "last_ok (Standard ''E8-4s_v3'') swedencentral_4"
  unfolding swedencentral_4_def by (simp only: eval_part)

lemma swedencentral_ok: "table_ok swedencentral"
  unfolding swedencentral_def by (rule last_ok_table [OF part_join [OF swedencentral_1_ok part_join [OF swedencentral_2_ok part_join [OF swedencentral_3_ok swedencentral_4_ok]]]])

lemma swedensouth_1_ok: "part_ok (''Dadsv5_Type1'') swedensouth_1 (Standard ''D32lds_v5'')"
  unfolding swedensouth_1_def by (simp only: eval_part)

lemma swedensouth_2_ok: "part_ok (Standard ''D32lds_v5'') swedensouth_2 (Standard ''E104is_v5'')"
  unfolding swedensouth_2_def by (simp only: eval_part)

lemma swedensouth_3_ok: "part_ok (Standard ''E104is_v5'') swedensouth_3 (Standard ''E4d_v5'')"
  unfolding swedensouth_3_def by (simp only: eval_part)

lemma swedensouth_4_ok: "last_ok (Standard ''E4d_v5'') swedensouth_4"
  unfolding swedensouth_4_def by (simp only: eval_part)

lemma swedensouth_ok: "table_ok swedensouth"
  unfolding swedensouth_def by (rule last_ok_table [OF part_join [OF swedensouth_1_ok part_join [OF swedensouth_2_ok part_join [OF swedensouth_3_ok swedensouth_4_ok]]]])

lemma switzerlandnorth_1_ok: "part_ok (''DCdsv3 Type1'') switzerlandnorth_1 (Standard ''D4_v3'')"
  unfolding switzerlandnorth_1_def by (simp only: eval_part)

lemma switzerlandnorth_2_ok: "part_ok (Standard ''D4_v3'') switzerlandnorth_2 (Standard ''E16s_v4'')"
  unfolding switzerlandnorth_2_def by (simp only: eval_part)

lemma switzerlandnorth_3_ok: "part_ok (Standard ''E16s_v4'') switzerlandnorth_3 (Standard ''E8a_v4'')"
  unfolding switzerlandnorth_3_def by (simp only: eval_part)

lemma switzerlandnorth_4_ok: "last_ok (Standard ''E8a_v4'') switzerlandnorth_4"
  unfolding switzerlandnorth_4_def by (simp only: eval_part)

lemma switzerlandnorth_ok: "table_ok switzerlandnorth"
  unfolding switzerlandnorth_def by (rule last_ok_table [OF part_join [OF switzerlandnorth_1_ok part_join [OF switzerlandnorth_2_ok part_join [OF switzerlandnorth_3_ok switzerlandnorth_4_ok]]]])

lemma switzerlandwest_1_ok: "part_ok (''Dadsv5_Type1'') switzerlandwest_1 (Standard ''D48as_v5_Promo'')"
  unfolding switzerlandwest_1_def by (simp only: eval_part)

lemma switzerlandwest_2_ok: "part_ok (Standard ''D48as_v5_Promo'') switzerlandwest_2 (Standard ''E16s_v5'')"
  unfolding switzerlandwest_2_def by (simp only: eval_part)

lemma switzerlandwest_3_ok: "part_ok (Standard ''E16s_v5'') switzerlandwest_3 (Standard ''E64is_v3'')"
  unfolding switzerlandwest_3_def by (simp only: eval_part)

lemma switzerlandwest_4_ok: "last_ok (Standard ''E64is_v3'') switzerlandwest_4"
  unfolding switzerlandwest_4_def by (simp only: eval_part)

lemma switzerlandwest_ok: "table_ok switzerlandwest"
  unfolding switzerlandwest_def by (rule last_ok_table [OF part_join [OF switzerlandwest_1_ok part_join [OF switzerlandwest_2_ok part_join [OF switzerlandwest_3_ok switzerlandwest_4_ok]]]])

lemma uaecentral_1_ok: "part_ok (''Ddsv4_Type 1'') uaecentral_1 (Standard ''D32d_v5'')"
  unfolding uaecentral_1_def by (simp only: eval_part)

lemma uaecentral_2_ok: "part_ok (Standard ''D32d_v5'') uaecentral_2 (Standard ''E16bds_v5'')"
  unfolding uaecentral_2_def by (simp only: eval_part)

lemma uaecentral_3_ok: "part_ok (Standard ''E16bds_v5'') uaecentral_3 (Standard ''E8-4s_v3'')"
  unfolding uaecentral_3_def by (simp only: eval_part)

lemma uaecentral_4_ok: "last_ok (Standard ''E8-4s_v3'') uaecentral_4"
  unfolding uaecentral_4_def by (simp only: eval_part)

lemma uaecentral_ok: "table_ok uaecentral"
  unfolding uaecentral_def by (rule last_ok_table [OF part_join [OF uaecentral_1_ok part_join [OF uaecentral_2_ok part_join [OF uaecentral_3_ok uaecentral_4_ok]]]])

lemma uaenorth_1_ok: "part_ok (''Dadsv5_Type1'') uaenorth_1 (Standard ''D2s_v5'')"
  unfolding uaenorth_1_def by (simp only: eval_part)

lemma uaenorth_2_ok: "part_ok (Standard ''D2s_v5'') uaenorth_2 (Standard ''DS13'')"
  unfolding uaenorth_2_def by (simp only: eval_part)

lemma uaenorth_3_ok: "part_ok (Standard ''DS13'') uaenorth_3 (Standard ''E4-2ds_v5'')"
  unfolding uaenorth_3_def by (simp only: eval_part)

lemma uaenorth_4_ok: "part_ok (Standard ''E4-2ds_v5'') uaenorth_4 (Standard ''E96ias_v4'')"
  unfolding uaenorth_4_def by (simp only: eval_part)

lemma uaenorth_5_ok: "last_ok (Standard ''E96ias_v4'') uaenorth_5"
  unfolding uaenorth_5_def by (simp only: eval_part)

lemma uaenorth_ok: "table_ok uaenorth"
  unfolding uaenorth_def by (rule last_ok_table [OF part_join [OF uaenorth_1_ok part_join [OF uaenorth_2_ok part_join [OF uaenorth_3_ok part_join [OF uaenorth_4_ok uaenorth_5_ok]]]]])

lemma uksouth_1_ok: "part_ok (''Basic_A0'') uksouth_1 (Standard ''D16pds_v5'')"
  unfolding uksouth_1_def by (simp only: eval_part)

lemma uksouth_2_ok: "part_ok (Standard ''D16pds_v5'') uksouth_2 (Standard ''D8d_v5'')"
  unfolding uksouth_2_def by (simp only: eval_part)

lemma uksouth_3_ok: "part_ok (Standard ''D8d_v5'') uksouth_3 (Standard ''E20_v5'')"
  unfolding uksouth_3_def by (simp only: eval_part)

lemma uksouth_4_ok: "part_ok (Standard ''E20_v5'') uksouth_4 (Standard ''E64ads_v5'')"
  unfolding uksouth_4_def by (simp only: eval_part)

lemma uksouth_5_ok: "part_ok (Standard ''E64ads_v5'') uksouth_5 (Standard ''GS5-8'')"
  unfolding uksouth_5_def by (simp only: eval_part)

lemma uksouth_6_ok: "last_ok (Standard ''GS5-8'') uksouth_6"
  unfolding uksouth_6_def by (simp only: eval_part)

lemma uksouth_ok: "table_ok uksouth"
  unfolding uksouth_def by (rule last_ok_table [OF part_join [OF uksouth_1_ok part_join [OF uksouth_2_ok part_join [OF uksouth_3_ok part_join [OF uksouth_4_ok part_join [OF uksouth_5_ok uksouth_6_ok]]]]]])

lemma ukwest_1_ok: "part_ok (''Basic_A0'') ukwest_1 (Standard ''D32ls_v5'')"
  unfolding ukwest_1_def by (simp only: eval_part)

lemma ukwest_2_ok: "part_ok (Standard ''D32ls_v5'') ukwest_2 (Standard ''E16as_v4'')"
  unfolding ukwest_2_def by (simp only: eval_part)

lemma ukwest_3_ok: "part_ok (Standard ''E16as_v4'') ukwest_3 (Standard ''E64s_v4'')"
  unfolding ukwest_3_def by (simp only: eval_part)

lemma ukwest_4_ok: "last_ok (Standard ''E64s_v4'') ukwest_4"
  unfolding ukwest_4_def by (simp only: eval_part)

lemma ukwest_ok: "table_ok ukwest"
  unfolding ukwest_def by (rule last_ok_table [OF part_join [OF ukwest_1_ok part_join [OF ukwest_2_ok part_join [OF ukwest_3_ok ukwest_4_ok]]]])

end
