(* ===== verification/PriceLists6.thy ===== *)
theory PriceLists6
  imports PriceTables
begin

text \<open>
  The sixth part of the shipped price lists, \<open>pkg/providers/pricing/zz_generated.pricing.go\<close>: the regions
  westcentralus to westus3, in the order of the file, each in parts of at most 150 lines.
\<close>

subsection \<open>westcentralus\<close>

definition westcentralus_1 :: priceTable where
  "westcentralus_1 =
     [(''Basic_A0'', 18000), (''Basic_A1'', 25000), (''Basic_A2'', 79000), (''Basic_A3'', 176000), (''Basic_A4'', 352000),
      (''Dadsv5_Type1'', 7614000), (''Dasv4_Type1'', 6083000), (''Dasv4_Type2'', 6083000), (''Dasv5_Type1'', 6357000),
      (''Ddsv4_Type 1'', 4773000), (''Ddsv4_Type2'', 5668000), (''Ddsv5_Type1'', 7160000), (''Dsv3_Type3'', 5069000),
      (''Dsv3_Type4'', 6336000), (''Dsv4_Type1'', 5069000), (''Dsv4_Type2'', 6336000), (''Dsv5_Type1'', 6336000),
      (''Eadsv5_Type1'', 8300000), (''Easv4_Type1'', 7983000), (''Easv4_Type2'', 7983000), (''Easv5_Type1'', 7160000),
      (''Ebdsv5-Type1'', 7054000), (''Ebsv5-Type1'', 6294000), (''Edsv4_Type 1'', 6083000), (''Edsv4_Type2'', 7223000),
      (''Edsv5_Type1'', 9124000), (''Esv3_Type3'', 4972000), (''Esv3_Type4'', 6736000), (''Esv4_Type1'', 5322000),
      (''Esv4_Type2'', 6985000), (''Esv5_Type1'', 7983000), (''Fsv2 Type3'', 5161000), (''Fsv2_Type2'', 4039000),
      (''Fsv2_Type4'', 5610000), (''Lsv3_Type1'', 9214000), (Standard ''A0'', 20000), (Standard ''A1'', 51000),
      (Standard ''A1_v2'', 40000), (Standard ''A2'', 101000), (Standard ''A2_v2'', 83000), (Standard ''A2m_v2'', 119000),
      (Standard ''A3'', 202000), (Standard ''A4'', 405000), (Standard ''A4_v2'', 175000), (Standard ''A4m_v2'', 249000),
      (Standard ''A5'', 220000), (Standard ''A6'', 440000), (Standard ''A7'', 880000), (Standard ''A8_v2'', 367000),
      (Standard ''A8m_v2'', 524000), (Standard ''B12ms'', 599000), (Standard ''B16als_v2'', 713000), (Standard ''B16as_v2'', 796000),
      (Standard ''B16ls_v2'', 707000), (Standard ''B16ms'', 799000), (Standard ''B16pls_v2'', 645000), (Standard ''B16ps_v2'', 719000),
      (Standard ''B16s_v2'', 872000), (Standard ''B1ls'', 6240), (Standard ''B1ms'', 25000), (Standard ''B1s'', 12500),
      (Standard ''B20ms'', 998000), (Standard ''B2als_v2'', 45100), (Standard ''B2as_v2'', 90200), (Standard ''B2ats_v2'', 20500),
      (Standard ''B2ls_v2'', 49900), (Standard ''B2ms'', 99800), (Standard ''B2pls_v2'', 49500), (Standard ''B2ps_v2'', 89800),
      (Standard ''B2pts_v2'', 10100), (Standard ''B2s'', 49900), (Standard ''B2s_v2'', 99800), (Standard ''B2ts_v2'', 21700),
      (Standard ''B32als_v2'', 1426000), (Standard ''B32as_v2'', 1444000), (Standard ''B32ls_v2'', 1415000),
      (Standard ''B32s_v2'', 1745000), (Standard ''B4als_v2'', 160000), (Standard ''B4as_v2'', 180000), (Standard ''B4ls_v2'', 195000),
      (Standard ''B4ms'', 200000), (Standard ''B4pls_v2'', 161000), (Standard ''B4ps_v2'', 161000), (Standard ''B4s_v2'', 218000),
      (Standard ''B8als_v2'', 357000), (Standard ''B8as_v2'', 361000), (Standard ''B8ls_v2'', 390000), (Standard ''B8ms'', 399000),
      (Standard ''B8pls_v2'', 286000), (Standard ''B8ps_v2'', 323000), (Standard ''B8s_v2'', 399000), (Standard ''D11_v2'', 166000),
      (Standard ''D11_v2_Promo'', 166000), (Standard ''D12_v2'', 332000), (Standard ''D12_v2_Promo'', 332000),
      (Standard ''D13_v2'', 665000), (Standard ''D13_v2_Promo'', 665000), (Standard ''D14_v2'', 1330000),
      (Standard ''D14_v2_Promo'', 1330000), (Standard ''D15_v2'', 1662000), (Standard ''D15i_v2'', 1662000), (Standard ''D16_v3'', 880000),
      (Standard ''D16_v4'', 922000), (Standard ''D16_v5'', 922000), (Standard ''D16a_v4'', 922000), (Standard ''D16ads_v5'', 989000),
      (Standard ''D16as_v4'', 922000), (Standard ''D16as_v5'', 826000), (Standard ''D16as_v5_Promo'', 739000),
      (Standard ''D16d_v4'', 1085000), (Standard ''D16d_v5'', 1085000), (Standard ''D16ds_v4'', 1085000), (Standard ''D16ds_v5'', 1085000),
      (Standard ''D16lds_v5'', 922000), (Standard ''D16ls_v5'', 816000), (Standard ''D16pds_v5'', 868000),
      (Standard ''D16plds_v5'', 737000), (Standard ''D16pls_v5'', 653000), (Standard ''D16ps_v5'', 739000), (Standard ''D16s_v3'', 880000),
      (Standard ''D16s_v4'', 922000), (Standard ''D16s_v5'', 922000), (Standard ''D1_v2'', 63600), (Standard ''D2_v2'', 127000),
      (Standard ''D2_v2_Promo'', 127000), (Standard ''D2_v3'', 110000), (Standard ''D2_v4'', 115000), (Standard ''D2_v5'', 115000),
      (Standard ''D2a_v4'', 115000), (Standard ''D2ads_v5'', 124000), (Standard ''D2as_v4'', 115000), (Standard ''D2as_v5'', 103000),
      (Standard ''D2as_v5_Promo'', 92400), (Standard ''D2d_v4'', 136000), (Standard ''D2d_v5'', 136000), (Standard ''D2ds_v4'', 136000),
      (Standard ''D2ds_v5'', 136000), (Standard ''D2lds_v5'', 115000), (Standard ''D2ls_v5'', 102000), (Standard ''D2pds_v5'', 108000),
      (Standard ''D2plds_v5'', 92200), (Standard ''D2pls_v5'', 81600)]"

definition westcentralus_2 :: priceTable where
  "westcentralus_2 =
     [(Standard ''D2ps_v5'', 92400), (Standard ''D2s_v3'', 110000), (Standard ''D2s_v4'', 115000), (Standard ''D2s_v5'', 115000),
      (Standard ''D32-16s_v3'', 1760000), (Standard ''D32-8s_v3'', 1760000), (Standard ''D32_v3'', 1760000),
      (Standard ''D32_v4'', 1843000), (Standard ''D32_v5'', 1843000), (Standard ''D32a_v4'', 1843000), (Standard ''D32ads_v5'', 1978000),
      (Standard ''D32as_v4'', 1843000), (Standard ''D32as_v5'', 1651000), (Standard ''D32as_v5_Promo'', 1478000),
      (Standard ''D32d_v4'', 2170000), (Standard ''D32d_v5'', 2170000), (Standard ''D32ds_v4'', 2170000), (Standard ''D32ds_v5'', 2170000),
      (Standard ''D32lds_v5'', 1843000), (Standard ''D32ls_v5'', 1632000), (Standard ''D32pds_v5'', 1736000),
      (Standard ''D32plds_v5'', 1475000), (Standard ''D32pls_v5'', 1306000), (Standard ''D32ps_v5'', 1478000),
      (Standard ''D32s_v3'', 1760000), (Standard ''D32s_v4'', 1843000), (Standard ''D32s_v5'', 1843000), (Standard ''D3_v2'', 254000),
      (Standard ''D3_v2_Promo'', 254000), (Standard ''D48_v3'', 2640000), (Standard ''D48_v4'', 2765000), (Standard ''D48_v5'', 2765000),
      (Standard ''D48a_v4'', 2765000), (Standard ''D48ads_v5'', 2966000), (Standard ''D48as_v4'', 2765000),
      (Standard ''D48as_v5'', 2477000), (Standard ''D48as_v5_Promo'', 2218000), (Standard ''D48d_v4'', 3254000),
      (Standard ''D48d_v5'', 3254000), (Standard ''D48ds_v4'', 3254000), (Standard ''D48ds_v5'', 3254000),
      (Standard ''D48lds_v5'', 2765000), (Standard ''D48ls_v5'', 2448000), (Standard ''D48pds_v5'', 2604000),
      (Standard ''D48plds_v5'', 2212000), (Standard ''D48pls_v5'', 1958000), (Standard ''D48ps_v5'', 2218000),
      (Standard ''D48s_v3'', 2640000), (Standard ''D48s_v4'', 2765000), (Standard ''D48s_v5'', 2765000), (Standard ''D4_v2'', 509000),
      (Standard ''D4_v2_Promo'', 509000), (Standard ''D4_v3'', 220000), (Standard ''D4_v4'', 230000), (Standard ''D4_v5'', 230000),
      (Standard ''D4a_v4'', 230000), (Standard ''D4ads_v5'', 247000), (Standard ''D4as_v4'', 230000), (Standard ''D4as_v5'', 206000),
      (Standard ''D4as_v5_Promo'', 185000), (Standard ''D4d_v4'', 271000), (Standard ''D4d_v5'', 271000), (Standard ''D4ds_v4'', 271000),
      (Standard ''D4ds_v5'', 271000), (Standard ''D4lds_v5'', 230000), (Standard ''D4ls_v5'', 204000), (Standard ''D4pds_v5'', 217000),
      (Standard ''D4plds_v5'', 184000), (Standard ''D4pls_v5'', 163000), (Standard ''D4ps_v5'', 185000), (Standard ''D4s_v3'', 220000),
      (Standard ''D4s_v4'', 230000), (Standard ''D4s_v5'', 230000), (Standard ''D5_v2'', 1017000), (Standard ''D5_v2_Promo'', 1017000),
      (Standard ''D64-16s_v3'', 3520000), (Standard ''D64-32s_v3'', 3520000), (Standard ''D64_v3'', 3520000),
      (Standard ''D64_v4'', 3686000), (Standard ''D64_v5'', 3686000), (Standard ''D64a_v4'', 3686000), (Standard ''D64ads_v5'', 3955000),
      (Standard ''D64as_v4'', 3686000), (Standard ''D64as_v5'', 3302000), (Standard ''D64as_v5_Promo'', 2957000),
      (Standard ''D64d_v4'', 4339000), (Standard ''D64d_v5'', 4339000), (Standard ''D64ds_v4'', 4339000), (Standard ''D64ds_v5'', 4339000),
      (Standard ''D64lds_v5'', 3686000), (Standard ''D64ls_v5'', 3264000), (Standard ''D64pds_v5'', 3471000),
      (Standard ''D64plds_v5'', 2949000), (Standard ''D64pls_v5'', 2611000), (Standard ''D64ps_v5'', 2957000),
      (Standard ''D64s_v3'', 3520000), (Standard ''D64s_v4'', 3686000), (Standard ''D64s_v5'', 3686000), (Standard ''D8_v3'', 440000),
      (Standard ''D8_v4'', 461000), (Standard ''D8_v5'', 461000), (Standard ''D8a_v4'', 461000), (Standard ''D8ads_v5'', 494000),
      (Standard ''D8as_v4'', 461000), (Standard ''D8as_v5'', 413000), (Standard ''D8as_v5_Promo'', 370000), (Standard ''D8d_v4'', 542000),
      (Standard ''D8d_v5'', 542000), (Standard ''D8ds_v4'', 542000), (Standard ''D8ds_v5'', 542000), (Standard ''D8lds_v5'', 461000),
      (Standard ''D8ls_v5'', 408000), (Standard ''D8pds_v5'', 434000), (Standard ''D8plds_v5'', 369000), (Standard ''D8pls_v5'', 326000),
      (Standard ''D8ps_v5'', 370000), (Standard ''D8s_v3'', 440000), (Standard ''D8s_v4'', 461000), (Standard ''D8s_v5'', 461000),
      (Standard ''D96_v5'', 5530000), (Standard ''D96a_v4'', 5530000), (Standard ''D96ads_v5'', 5933000), (Standard ''D96as_v4'', 5530000),
      (Standard ''D96as_v5'', 4954000), (Standard ''D96as_v5_Promo'', 4435000), (Standard ''D96d_v5'', 6509000),
      (Standard ''D96ds_v5'', 6509000), (Standard ''D96lds_v5'', 5530000), (Standard ''D96ls_v5'', 4896000),
      (Standard ''D96s_v5'', 5530000), (Standard ''DS11-1_v2'', 166000), (Standard ''DS11_v2'', 166000),
      (Standard ''DS11_v2_Promo'', 166000), (Standard ''DS12-1_v2'', 332000), (Standard ''DS12-2_v2'', 332000),
      (Standard ''DS12_v2'', 332000), (Standard ''DS12_v2_Promo'', 332000), (Standard ''DS13-2_v2'', 665000),
      (Standard ''DS13-4_v2'', 665000), (Standard ''DS13_v2'', 665000), (Standard ''DS13_v2_Promo'', 665000),
      (Standard ''DS14-4_v2'', 1330000)]"

definition westcentralus_3 :: priceTable where
  "westcentralus_3 =
     [(Standard ''DS14-8_v2'', 1330000), (Standard ''DS14_v2'', 1330000), (Standard ''DS14_v2_Promo'', 1330000),
      (Standard ''DS15_v2'', 1662000), (Standard ''DS15i_v2'', 1662000), (Standard ''DS1_v2'', 63600), (Standard ''DS2_v2'', 127000),
      (Standard ''DS2_v2_Promo'', 127000), (Standard ''DS3_v2'', 254000), (Standard ''DS3_v2_Promo'', 254000),
      (Standard ''DS4_v2'', 509000), (Standard ''DS4_v2_Promo'', 509000), (Standard ''DS5_v2'', 1017000),
      (Standard ''DS5_v2_Promo'', 1017000), (Standard ''E104i_v5'', 8649000), (Standard ''E104id_v5'', 9884000),
      (Standard ''E104ids_v5'', 9884000), (Standard ''E104is_v5'', 8649000), (Standard ''E112iads_v5'', 9684000),
      (Standard ''E112ias_v5'', 8353000), (Standard ''E112ibds_v5'', 12345000), (Standard ''E112ibs_v5'', 11014000),
      (Standard ''E16-4ads_v5'', 1258000), (Standard ''E16-4as_v4'', 1210000), (Standard ''E16-4as_v5'', 1085000),
      (Standard ''E16-4ds_v4'', 1382000), (Standard ''E16-4ds_v5'', 1382000), (Standard ''E16-4s_v3'', 1166000),
      (Standard ''E16-4s_v4'', 1210000), (Standard ''E16-4s_v5'', 1210000), (Standard ''E16-8ads_v5'', 1258000),
      (Standard ''E16-8as_v4'', 1210000), (Standard ''E16-8as_v5'', 1085000), (Standard ''E16-8ds_v4'', 1382000),
      (Standard ''E16-8ds_v5'', 1382000), (Standard ''E16-8s_v3'', 1166000), (Standard ''E16-8s_v4'', 1210000),
      (Standard ''E16-8s_v5'', 1210000), (Standard ''E16_v3'', 1166000), (Standard ''E16_v4'', 1210000), (Standard ''E16_v5'', 1210000),
      (Standard ''E16a_v4'', 1210000), (Standard ''E16ads_v5'', 1258000), (Standard ''E16as_v4'', 1210000),
      (Standard ''E16as_v5'', 1085000), (Standard ''E16bds_v5'', 1603000), (Standard ''E16bs_v5'', 1430000),
      (Standard ''E16d_v4'', 1382000), (Standard ''E16d_v5'', 1382000), (Standard ''E16ds_v4'', 1382000), (Standard ''E16ds_v5'', 1382000),
      (Standard ''E16pds_v5'', 1106000), (Standard ''E16ps_v5'', 968000), (Standard ''E16s_v3'', 1166000), (Standard ''E16s_v4'', 1210000),
      (Standard ''E16s_v5'', 1210000), (Standard ''E20_v3'', 1460000), (Standard ''E20_v4'', 1512000), (Standard ''E20_v5'', 1512000),
      (Standard ''E20a_v4'', 1512000), (Standard ''E20ads_v5'', 1572000), (Standard ''E20as_v4'', 1512000),
      (Standard ''E20as_v5'', 1356000), (Standard ''E20d_v4'', 1728000), (Standard ''E20d_v5'', 1728000), (Standard ''E20ds_v4'', 1728000),
      (Standard ''E20ds_v5'', 1728000), (Standard ''E20pds_v5'', 1382000), (Standard ''E20ps_v5'', 1210000),
      (Standard ''E20s_v3'', 1460000), (Standard ''E20s_v4'', 1512000), (Standard ''E20s_v5'', 1512000), (Standard ''E2_v3'', 146000),
      (Standard ''E2_v4'', 151000), (Standard ''E2_v5'', 151000), (Standard ''E2a_v4'', 151000), (Standard ''E2ads_v5'', 157000),
      (Standard ''E2as_v4'', 151000), (Standard ''E2as_v5'', 136000), (Standard ''E2bds_v5'', 200000), (Standard ''E2bs_v5'', 179000),
      (Standard ''E2d_v4'', 173000), (Standard ''E2d_v5'', 173000), (Standard ''E2ds_v4'', 173000), (Standard ''E2ds_v5'', 173000),
      (Standard ''E2pds_v5'', 138000), (Standard ''E2ps_v5'', 121000), (Standard ''E2s_v3'', 146000), (Standard ''E2s_v4'', 151000),
      (Standard ''E2s_v5'', 151000), (Standard ''E32-16ads_v5'', 2515000), (Standard ''E32-16as_v4'', 2419000),
      (Standard ''E32-16as_v5'', 2170000), (Standard ''E32-16ds_v4'', 2765000), (Standard ''E32-16ds_v5'', 2765000),
      (Standard ''E32-16s_v3'', 2333000), (Standard ''E32-16s_v4'', 2419000), (Standard ''E32-16s_v5'', 2419000),
      (Standard ''E32-8ads_v5'', 2515000), (Standard ''E32-8as_v4'', 2419000), (Standard ''E32-8as_v5'', 2170000),
      (Standard ''E32-8ds_v4'', 2765000), (Standard ''E32-8ds_v5'', 2765000), (Standard ''E32-8s_v3'', 2333000),
      (Standard ''E32-8s_v4'', 2419000), (Standard ''E32-8s_v5'', 2419000), (Standard ''E32_v3'', 2333000), (Standard ''E32_v4'', 2419000),
      (Standard ''E32_v5'', 2419000), (Standard ''E32a_v4'', 2419000), (Standard ''E32ads_v5'', 2515000), (Standard ''E32as_v4'', 2419000),
      (Standard ''E32as_v5'', 2170000), (Standard ''E32bds_v5'', 3206000), (Standard ''E32bs_v5'', 2861000),
      (Standard ''E32d_v4'', 2765000), (Standard ''E32d_v5'', 2765000), (Standard ''E32ds_v4'', 2765000), (Standard ''E32ds_v5'', 2765000),
      (Standard ''E32pds_v5'', 2212000), (Standard ''E32ps_v5'', 1935000), (Standard ''E32s_v3'', 2333000),
      (Standard ''E32s_v4'', 2419000), (Standard ''E32s_v5'', 2419000), (Standard ''E4-2ads_v5'', 314000),
      (Standard ''E4-2as_v4'', 302000), (Standard ''E4-2as_v5'', 271000), (Standard ''E4-2ds_v4'', 346000),
      (Standard ''E4-2ds_v5'', 346000), (Standard ''E4-2s_v3'', 292000), (Standard ''E4-2s_v4'', 302000), (Standard ''E4-2s_v5'', 302000),
      (Standard ''E48_v3'', 3499000), (Standard ''E48_v4'', 3629000), (Standard ''E48_v5'', 3629000), (Standard ''E48a_v4'', 3629000),
      (Standard ''E48ads_v5'', 3773000), (Standard ''E48as_v4'', 3629000), (Standard ''E48as_v5'', 3254000),
      (Standard ''E48bds_v5'', 4810000), (Standard ''E48bs_v5'', 4291000), (Standard ''E48d_v4'', 4147000)]"

definition westcentralus_4 :: priceTable where
  "westcentralus_4 =
     [(Standard ''E48d_v5'', 4147000), (Standard ''E48ds_v4'', 4147000), (Standard ''E48ds_v5'', 4147000), (Standard ''E48s_v4'', 3629000),
      (Standard ''E48s_v5'', 3629000), (Standard ''E4_v3'', 292000), (Standard ''E4_v4'', 302000), (Standard ''E4_v5'', 302000),
      (Standard ''E4a_v4'', 302000), (Standard ''E4ads_v5'', 314000), (Standard ''E4as_v4'', 302000), (Standard ''E4as_v5'', 271000),
      (Standard ''E4bds_v5'', 401000), (Standard ''E4bs_v5'', 358000), (Standard ''E4d_v4'', 346000), (Standard ''E4d_v5'', 346000),
      (Standard ''E4ds_v4'', 346000), (Standard ''E4ds_v5'', 346000), (Standard ''E4pds_v5'', 276000), (Standard ''E4ps_v5'', 242000),
      (Standard ''E4s_v3'', 292000), (Standard ''E4s_v4'', 302000), (Standard ''E4s_v5'', 302000), (Standard ''E64-16ads_v5'', 5030000),
      (Standard ''E64-16as_v4'', 4838000), (Standard ''E64-16as_v5'', 4339000), (Standard ''E64-16ds_v4'', 5530000),
      (Standard ''E64-16ds_v5'', 5530000), (Standard ''E64-16s_v3'', 4199000), (Standard ''E64-16s_v4'', 4838000),
      (Standard ''E64-16s_v5'', 4838000), (Standard ''E64-32ads_v5'', 5030000), (Standard ''E64-32as_v4'', 4838000),
      (Standard ''E64-32as_v5'', 4339000), (Standard ''E64-32ds_v4'', 5530000), (Standard ''E64-32ds_v5'', 5530000),
      (Standard ''E64-32s_v3'', 4199000), (Standard ''E64-32s_v4'', 4838000), (Standard ''E64-32s_v5'', 4838000),
      (Standard ''E64_v3'', 4199000), (Standard ''E64_v4'', 4838000), (Standard ''E64_v5'', 4838000), (Standard ''E64a_v4'', 4838000),
      (Standard ''E64ads_v5'', 5030000), (Standard ''E64as_v4'', 4838000), (Standard ''E64as_v5'', 4339000),
      (Standard ''E64bds_v5'', 6413000), (Standard ''E64bs_v5'', 5722000), (Standard ''E64d_v4'', 5530000),
      (Standard ''E64d_v5'', 5530000), (Standard ''E64ds_v4'', 5530000), (Standard ''E64ds_v5'', 5530000), (Standard ''E64i_v3'', 4199000),
      (Standard ''E64is_v3'', 4199000), (Standard ''E64s_v3'', 4199000), (Standard ''E64s_v4'', 4838000), (Standard ''E64s_v5'', 4838000),
      (Standard ''E8-2ads_v5'', 629000), (Standard ''E8-2as_v4'', 605000), (Standard ''E8-2as_v5'', 542000),
      (Standard ''E8-2ds_v4'', 691000), (Standard ''E8-2ds_v5'', 691000), (Standard ''E8-2s_v3'', 583000), (Standard ''E8-2s_v4'', 605000),
      (Standard ''E8-2s_v5'', 605000), (Standard ''E8-4ads_v5'', 629000), (Standard ''E8-4as_v4'', 605000),
      (Standard ''E8-4as_v5'', 542000), (Standard ''E8-4ds_v4'', 691000), (Standard ''E8-4ds_v5'', 691000),
      (Standard ''E8-4s_v3'', 583000), (Standard ''E8-4s_v4'', 605000), (Standard ''E8-4s_v5'', 605000), (Standard ''E80ids_v4'', 6912000),
      (Standard ''E80is_v4'', 6048000), (Standard ''E8_v3'', 583000), (Standard ''E8_v4'', 605000), (Standard ''E8_v5'', 605000),
      (Standard ''E8a_v4'', 605000), (Standard ''E8ads_v5'', 629000), (Standard ''E8as_v4'', 605000), (Standard ''E8as_v5'', 542000),
      (Standard ''E8bds_v5'', 802000), (Standard ''E8bs_v5'', 715000), (Standard ''E8d_v4'', 691000), (Standard ''E8d_v5'', 691000),
      (Standard ''E8ds_v4'', 691000), (Standard ''E8ds_v5'', 691000), (Standard ''E8pds_v5'', 553000), (Standard ''E8ps_v5'', 484000),
      (Standard ''E8s_v3'', 583000), (Standard ''E8s_v4'', 605000), (Standard ''E8s_v5'', 605000), (Standard ''E96-24ads_v5'', 7546000),
      (Standard ''E96-24as_v4'', 7258000), (Standard ''E96-24as_v5'', 6509000), (Standard ''E96-24ds_v5'', 8294000),
      (Standard ''E96-24s_v5'', 7258000), (Standard ''E96-48ads_v5'', 7546000), (Standard ''E96-48as_v4'', 7258000),
      (Standard ''E96-48as_v5'', 6509000), (Standard ''E96-48ds_v5'', 8294000), (Standard ''E96-48s_v5'', 7258000),
      (Standard ''E96_v5'', 7258000), (Standard ''E96a_v4'', 7258000), (Standard ''E96ads_v5'', 7546000), (Standard ''E96as_v4'', 7258000),
      (Standard ''E96as_v5'', 6509000), (Standard ''E96bds_v5'', 9619000), (Standard ''E96bs_v5'', 8582000),
      (Standard ''E96d_v5'', 8294000), (Standard ''E96ds_v5'', 8294000), (Standard ''E96iads_v5'', 8300000),
      (Standard ''E96ias_v5'', 7160000), (Standard ''E96s_v5'', 7258000), (Standard ''F1'', 54700), (Standard ''F16'', 875000),
      (Standard ''F16s'', 875000), (Standard ''F16s_v2'', 816000), (Standard ''F1s'', 54700), (Standard ''F2'', 109000),
      (Standard ''F2s'', 109000), (Standard ''F2s_v2'', 102000), (Standard ''F32s_v2'', 1632000), (Standard ''F4'', 219000),
      (Standard ''F48s_v2'', 2448000), (Standard ''F4s'', 219000), (Standard ''F4s_v2'', 204000), (Standard ''F64s_v2'', 3264000),
      (Standard ''F72s_v2'', 3672000), (Standard ''F8'', 438000), (Standard ''F8s'', 438000), (Standard ''F8s_v2'', 408000),
      (Standard ''L16s_v3'', 1675000), (Standard ''L32s_v3'', 3350000), (Standard ''L48s_v3'', 5026000), (Standard ''L64s_v3'', 6701000),
      (Standard ''L80s_v3'', 8376000), (Standard ''L8s_v3'', 838000)]"

definition westcentralus :: priceTable where
  "westcentralus = westcentralus_1 @ westcentralus_2 @ westcentralus_3 @ westcentralus_4"

subsection \<open>westeurope\<close>

definition westeurope_1 :: priceTable where
  "westeurope_1 =
     [(''Basic_A0'', 18000), (''Basic_A1'', 27000), (''Basic_A2'', 78000), (''Basic_A3'', 204000), (''Basic_A4'', 408000),
      (''DCadsv5 Type 1'', 7700000), (''DCasv5 Type 1'', 6406000), (''DCdsv3 Type1'', 7181000), (''DCsv2 Type 1'', 1012000),
      (''DCsv3 Type1'', 6072000), (''Dadsv5_Type1'', 7700000), (''Dasv4_Type1'', 6101000), (''Dasv4_Type2'', 6101000),
      (''Dasv5_Type1'', 6406000), (''Ddsv4_Type 1'', 4787000), (''Ddsv4_Type2'', 5685000), (''Ddsv5_Type1'', 7181000),
      (''Dsv3_Type3'', 5060000), (''Dsv3_Type4'', 6325000), (''Dsv4_Type1'', 5060000), (''Dsv4_Type2'', 6325000),
      (''Dsv5_Type1'', 6325000), (''ECadsv5 Type 1'', 8596000), (''ECasv5 Type 1'', 7957000), (''Eadsv5_Type1'', 8342000),
      (''Easv4_Type1'', 7993000), (''Easv4_Type2'', 7993000), (''Easv5_Type1'', 7234000), (''Ebdsv5-Type1'', 7005000),
      (''Ebsv5-Type1'', 6266000), (''Edsv4_Type 1'', 6090000), (''Edsv4_Type2'', 7231000), (''Edsv5_Type1'', 9134000),
      (''Esv3_Type3'', 5162000), (''Esv3_Type4'', 6994000), (''Esv4_Type1'', 5351000), (''Esv4_Type2'', 7023000),
      (''Esv5_Type1'', 8026000), (''FXmds Type1'', 5940000), (''Fsv2 Type3'', 4908000), (''Fsv2_Type2'', 3841000),
      (''Fsv2_Type4'', 5334000), (''Lasv3_Type1'', 8184000), (''Lsv2_Type1'', 8184000), (''Lsv3_Type1'', 9152000),
      (''Mdsmv2MedMem _Type1'', 41103000), (''Mdsv2MedMem_Type1'', 20544000), (''Ms_Type1'', 20536000), (''Msm_Type1'', 41108000),
      (''Msmv2MedMem Type1'', 40455000), (''Msmv2_Type1'', 141780000), (''Msv2MedMem Type1'', 19896000), (''Msv2_Type1'', 70899000),
      (''NDamsrA100v4_Type1'', 45059000), (''NDasrA100v4_Type1'', 38893000), (''NVasv4_Type1'', 8970000), (''NVsv3_Type1'', 6270000),
      (Standard ''A0'', 20000), (Standard ''A1'', 60000), (Standard ''A1_v2'', 41000), (Standard ''A2'', 120000),
      (Standard ''A2_v2'', 87000), (Standard ''A2m_v2'', 124000), (Standard ''A3'', 240000), (Standard ''A4'', 480000),
      (Standard ''A4_v2'', 183000), (Standard ''A4m_v2'', 260000), (Standard ''A5'', 270000), (Standard ''A6'', 540000),
      (Standard ''A7'', 1080000), (Standard ''A8_v2'', 383000), (Standard ''A8m_v2'', 546000), (Standard ''B12ms'', 576000),
      (Standard ''B16als_v2'', 612000), (Standard ''B16as_v2'', 691000), (Standard ''B16ls_v2'', 754000), (Standard ''B16ms'', 768000),
      (Standard ''B16pls_v2'', 618000), (Standard ''B16ps_v2'', 614000), (Standard ''B16s_v2'', 768000), (Standard ''B1ls'', 6000),
      (Standard ''B1ms'', 24000), (Standard ''B1s'', 12000), (Standard ''B20ms'', 960000), (Standard ''B2als_v2'', 43200),
      (Standard ''B2as_v2'', 86400), (Standard ''B2ats_v2'', 10800), (Standard ''B2ls_v2'', 57200), (Standard ''B2ms'', 96000),
      (Standard ''B2pls_v2'', 47600), (Standard ''B2ps_v2'', 86000), (Standard ''B2pts_v2'', 18800), (Standard ''B2s'', 48000),
      (Standard ''B2s_v2'', 96000), (Standard ''B2ts_v2'', 12000), (Standard ''B32als_v2'', 1371000), (Standard ''B32as_v2'', 1530000),
      (Standard ''B32ls_v2'', 1507000), (Standard ''B32s_v2'', 1683000), (Standard ''B4als_v2'', 153000), (Standard ''B4as_v2'', 173000),
      (Standard ''B4ls_v2'', 170000), (Standard ''B4ms'', 192000), (Standard ''B4pls_v2'', 154000), (Standard ''B4ps_v2'', 154000),
      (Standard ''B4s_v2'', 192000), (Standard ''B8als_v2'', 343000), (Standard ''B8as_v2'', 382000), (Standard ''B8ls_v2'', 340000),
      (Standard ''B8ms'', 384000), (Standard ''B8pls_v2'', 272000), (Standard ''B8ps_v2'', 344000), (Standard ''B8s_v2'', 421000),
      (Standard ''D1'', 84000), (Standard ''D11'', 221000), (Standard ''D11_v2'', 190000), (Standard ''D11_v2_Promo'', 190000),
      (Standard ''D12'', 442000), (Standard ''D12_v2'', 379000), (Standard ''D12_v2_Promo'', 379000), (Standard ''D13'', 885000),
      (Standard ''D13_v2'', 759000), (Standard ''D13_v2_Promo'', 759000), (Standard ''D14'', 1769000), (Standard ''D14_v2'', 1518000),
      (Standard ''D14_v2_Promo'', 1518000), (Standard ''D15_v2'', 1897000), (Standard ''D15i_v2'', 1897000), (Standard ''D16_v3'', 960000),
      (Standard ''D16_v4'', 920000)]"

definition westeurope_2 :: priceTable where
  "westeurope_2 =
     [(Standard ''D16_v5'', 920000), (Standard ''D16a_v4'', 920000), (Standard ''D16ads_v5'', 1000000), (Standard ''D16as_v4'', 920000),
      (Standard ''D16as_v5'', 832000), (Standard ''D16d_v4'', 1088000), (Standard ''D16d_v5'', 1088000), (Standard ''D16ds_v4'', 1088000),
      (Standard ''D16ds_v5'', 1088000), (Standard ''D16lds_v5'', 888000), (Standard ''D16ls_v5'', 776000),
      (Standard ''D16pds_v5'', 872000), (Standard ''D16plds_v5'', 712000), (Standard ''D16pls_v5'', 621000),
      (Standard ''D16ps_v5'', 736000), (Standard ''D16s_v3'', 960000), (Standard ''D16s_v4'', 920000), (Standard ''D16s_v5'', 920000),
      (Standard ''D1_v2'', 67900), (Standard ''D2'', 168000), (Standard ''D2_v2'', 136000), (Standard ''D2_v2_Promo'', 136000),
      (Standard ''D2_v3'', 120000), (Standard ''D2_v4'', 115000), (Standard ''D2_v5'', 115000), (Standard ''D2a_v4'', 115000),
      (Standard ''D2ads_v5'', 125000), (Standard ''D2as_v4'', 115000), (Standard ''D2as_v5'', 104000), (Standard ''D2d_v4'', 136000),
      (Standard ''D2d_v5'', 136000), (Standard ''D2ds_v4'', 136000), (Standard ''D2ds_v5'', 136000), (Standard ''D2lds_v5'', 111000),
      (Standard ''D2ls_v5'', 97000), (Standard ''D2pds_v5'', 109000), (Standard ''D2plds_v5'', 89000), (Standard ''D2pls_v5'', 77600),
      (Standard ''D2ps_v5'', 92000), (Standard ''D2s_v3'', 120000), (Standard ''D2s_v4'', 115000), (Standard ''D2s_v5'', 115000),
      (Standard ''D3'', 336000), (Standard ''D32-16s_v3'', 1920000), (Standard ''D32-8s_v3'', 1920000), (Standard ''D32_v3'', 1920000),
      (Standard ''D32_v4'', 1840000), (Standard ''D32_v5'', 1840000), (Standard ''D32a_v4'', 1840000), (Standard ''D32ads_v5'', 2000000),
      (Standard ''D32as_v4'', 1840000), (Standard ''D32as_v5'', 1664000), (Standard ''D32d_v4'', 2176000), (Standard ''D32d_v5'', 2176000),
      (Standard ''D32ds_v4'', 2176000), (Standard ''D32ds_v5'', 2176000), (Standard ''D32lds_v5'', 1776000),
      (Standard ''D32ls_v5'', 1552000), (Standard ''D32pds_v5'', 1744000), (Standard ''D32plds_v5'', 1424000),
      (Standard ''D32pls_v5'', 1242000), (Standard ''D32ps_v5'', 1472000), (Standard ''D32s_v3'', 1920000),
      (Standard ''D32s_v4'', 1840000), (Standard ''D32s_v5'', 1840000), (Standard ''D3_v2'', 272000), (Standard ''D3_v2_Promo'', 272000),
      (Standard ''D4'', 672000), (Standard ''D48_v3'', 2880000), (Standard ''D48_v4'', 2760000), (Standard ''D48_v5'', 2760000),
      (Standard ''D48a_v4'', 2760000), (Standard ''D48ads_v5'', 3000000), (Standard ''D48as_v4'', 2760000),
      (Standard ''D48as_v5'', 2496000), (Standard ''D48d_v4'', 3264000), (Standard ''D48d_v5'', 3264000), (Standard ''D48ds_v4'', 3264000),
      (Standard ''D48ds_v5'', 3264000), (Standard ''D48lds_v5'', 2664000), (Standard ''D48ls_v5'', 2328000),
      (Standard ''D48pds_v5'', 2616000), (Standard ''D48plds_v5'', 2136000), (Standard ''D48pls_v5'', 1862000),
      (Standard ''D48ps_v5'', 2208000), (Standard ''D48s_v3'', 2880000), (Standard ''D48s_v4'', 2760000), (Standard ''D48s_v5'', 2760000),
      (Standard ''D4_v2'', 544000), (Standard ''D4_v2_Promo'', 544000), (Standard ''D4_v3'', 240000), (Standard ''D4_v4'', 230000),
      (Standard ''D4_v5'', 230000), (Standard ''D4a_v4'', 230000), (Standard ''D4ads_v5'', 250000), (Standard ''D4as_v4'', 230000),
      (Standard ''D4as_v5'', 208000), (Standard ''D4d_v4'', 272000), (Standard ''D4d_v5'', 272000), (Standard ''D4ds_v4'', 272000),
      (Standard ''D4ds_v5'', 272000), (Standard ''D4lds_v5'', 222000), (Standard ''D4ls_v5'', 194000), (Standard ''D4pds_v5'', 218000),
      (Standard ''D4plds_v5'', 178000), (Standard ''D4pls_v5'', 155000), (Standard ''D4ps_v5'', 184000), (Standard ''D4s_v3'', 240000),
      (Standard ''D4s_v4'', 230000), (Standard ''D4s_v5'', 230000), (Standard ''D5_v2'', 1087000), (Standard ''D5_v2_Promo'', 1087000),
      (Standard ''D64-16s_v3'', 3840000), (Standard ''D64-32s_v3'', 3840000), (Standard ''D64_v3'', 3840000),
      (Standard ''D64_v4'', 3680000), (Standard ''D64_v5'', 3680000), (Standard ''D64a_v4'', 3680000), (Standard ''D64ads_v5'', 4000000),
      (Standard ''D64as_v4'', 3680000), (Standard ''D64as_v5'', 3328000), (Standard ''D64d_v4'', 4352000), (Standard ''D64d_v5'', 4352000),
      (Standard ''D64ds_v4'', 4352000), (Standard ''D64ds_v5'', 4352000), (Standard ''D64lds_v5'', 3552000),
      (Standard ''D64ls_v5'', 3104000), (Standard ''D64pds_v5'', 3488000), (Standard ''D64plds_v5'', 2848000),
      (Standard ''D64pls_v5'', 2483000)]"

definition westeurope_3 :: priceTable where
  "westeurope_3 =
     [(Standard ''D64ps_v5'', 2944000), (Standard ''D64s_v3'', 3840000), (Standard ''D64s_v4'', 3680000), (Standard ''D64s_v5'', 3680000),
      (Standard ''D8_v3'', 480000), (Standard ''D8_v4'', 460000), (Standard ''D8_v5'', 460000), (Standard ''D8a_v4'', 460000),
      (Standard ''D8ads_v5'', 500000), (Standard ''D8as_v4'', 460000), (Standard ''D8as_v5'', 416000), (Standard ''D8d_v4'', 544000),
      (Standard ''D8d_v5'', 544000), (Standard ''D8ds_v4'', 544000), (Standard ''D8ds_v5'', 544000), (Standard ''D8lds_v5'', 444000),
      (Standard ''D8ls_v5'', 388000), (Standard ''D8pds_v5'', 436000), (Standard ''D8plds_v5'', 356000), (Standard ''D8pls_v5'', 310000),
      (Standard ''D8ps_v5'', 368000), (Standard ''D8s_v3'', 480000), (Standard ''D8s_v4'', 460000), (Standard ''D8s_v5'', 460000),
      (Standard ''D96_v5'', 5520000), (Standard ''D96a_v4'', 5520000), (Standard ''D96ads_v5'', 6000000), (Standard ''D96as_v4'', 5520000),
      (Standard ''D96as_v5'', 4992000), (Standard ''D96d_v5'', 6528000), (Standard ''D96ds_v5'', 6528000),
      (Standard ''D96lds_v5'', 5328000), (Standard ''D96ls_v5'', 4656000), (Standard ''D96s_v5'', 5520000),
      (Standard ''DC16ads_cc_v5'', 1000000), (Standard ''DC16ads_v5'', 1000000), (Standard ''DC16as_cc_v5'', 832000),
      (Standard ''DC16as_v5'', 832000), (Standard ''DC16ds_v3'', 2176000), (Standard ''DC16eds_v5'', 1088000),
      (Standard ''DC16es_v5'', 920000), (Standard ''DC16s_v3'', 1840000), (Standard ''DC1ds_v3'', 136000), (Standard ''DC1s_v2'', 115000),
      (Standard ''DC1s_v3'', 115000), (Standard ''DC24ds_v3'', 3264000), (Standard ''DC24s_v3'', 2760000),
      (Standard ''DC2ads_v5'', 125000), (Standard ''DC2as_v5'', 104000), (Standard ''DC2ds_v3'', 272000), (Standard ''DC2eds_v5'', 136000),
      (Standard ''DC2es_v5'', 115000), (Standard ''DC2s'', 257000), (Standard ''DC2s_v2'', 230000), (Standard ''DC2s_v3'', 230000),
      (Standard ''DC32ads_cc_v5'', 2000000), (Standard ''DC32ads_v5'', 2000000), (Standard ''DC32as_cc_v5'', 1664000),
      (Standard ''DC32as_v5'', 1664000), (Standard ''DC32ds_v3'', 4352000), (Standard ''DC32eds_v5'', 2176000),
      (Standard ''DC32es_v5'', 1840000), (Standard ''DC32s_v3'', 3680000), (Standard ''DC48ads_cc_v5'', 3000000),
      (Standard ''DC48ads_v5'', 3000000), (Standard ''DC48as_cc_v5'', 2496000), (Standard ''DC48as_v5'', 2496000),
      (Standard ''DC48ds_v3'', 6528000), (Standard ''DC48eds_v5'', 3264000), (Standard ''DC48es_v5'', 2760000),
      (Standard ''DC48s_v3'', 5520000), (Standard ''DC4ads_cc_v5'', 250000), (Standard ''DC4ads_v5'', 250000),
      (Standard ''DC4as_cc_v5'', 208000), (Standard ''DC4as_v5'', 208000), (Standard ''DC4ds_v3'', 544000),
      (Standard ''DC4eds_v5'', 272000), (Standard ''DC4es_v5'', 230000), (Standard ''DC4s'', 514000), (Standard ''DC4s_v2'', 460000),
      (Standard ''DC4s_v3'', 460000), (Standard ''DC64ads_cc_v5'', 4000000), (Standard ''DC64ads_v5'', 4000000),
      (Standard ''DC64as_cc_v5'', 3328000), (Standard ''DC64as_v5'', 3328000), (Standard ''DC64eds_v5'', 4352000),
      (Standard ''DC64es_v5'', 3680000), (Standard ''DC8_v2'', 920000), (Standard ''DC8ads_cc_v5'', 500000),
      (Standard ''DC8ads_v5'', 500000), (Standard ''DC8as_cc_v5'', 416000), (Standard ''DC8as_v5'', 416000),
      (Standard ''DC8ds_v3'', 1088000), (Standard ''DC8eds_v5'', 544000), (Standard ''DC8es_v5'', 460000), (Standard ''DC8s_v3'', 920000),
      (Standard ''DC96ads_cc_v5'', 6000000), (Standard ''DC96ads_v5'', 6000000), (Standard ''DC96as_cc_v5'', 4992000),
      (Standard ''DC96as_v5'', 4992000), (Standard ''DC96eds_v5'', 6528000), (Standard ''DC96es_v5'', 5520000), (Standard ''DS1'', 84000),
      (Standard ''DS11'', 221000), (Standard ''DS11-1_v2'', 190000), (Standard ''DS11_v2'', 190000), (Standard ''DS11_v2_Promo'', 190000),
      (Standard ''DS12'', 442000), (Standard ''DS12-1_v2'', 379000), (Standard ''DS12-2_v2'', 379000), (Standard ''DS12_v2'', 379000),
      (Standard ''DS12_v2_Promo'', 379000), (Standard ''DS13'', 885000), (Standard ''DS13-2_v2'', 759000),
      (Standard ''DS13-4_v2'', 759000), (Standard ''DS13_v2'', 759000), (Standard ''DS13_v2_Promo'', 759000), (Standard ''DS14'', 1769000),
      (Standard ''DS14-4_v2'', 1518000), (Standard ''DS14-8_v2'', 1518000), (Standard ''DS14_v2'', 1518000),
      (Standard ''DS14_v2_Promo'', 1518000), (Standard ''DS15_v2'', 1897000), (Standard ''DS15i_v2'', 1897000),
      (Standard ''DS1_v2'', 67900), (Standard ''DS2'', 168000), (Standard ''DS2_v2'', 136000), (Standard ''DS2_v2_Promo'', 136000),
      (Standard ''DS3'', 336000), (Standard ''DS3_v2'', 272000)]"

definition westeurope_4 :: priceTable where
  "westeurope_4 =
     [(Standard ''DS3_v2_Promo'', 272000), (Standard ''DS4'', 672000), (Standard ''DS4_v2'', 544000), (Standard ''DS4_v2_Promo'', 544000),
      (Standard ''DS5_v2'', 1087000), (Standard ''DS5_v2_Promo'', 1087000), (Standard ''E104i_v5'', 8694000),
      (Standard ''E104id_v5'', 9896000), (Standard ''E104ids_v5'', 9896000), (Standard ''E104is_v5'', 8694000),
      (Standard ''E112iads_v5'', 9733000), (Standard ''E112ias_v5'', 8439000), (Standard ''E112ibds_v5'', 12258000),
      (Standard ''E112ibs_v5'', 10965000), (Standard ''E16-4ads_v5'', 1264000), (Standard ''E16-4as_v4'', 1216000),
      (Standard ''E16-4as_v5'', 1096000), (Standard ''E16-4ds_v4'', 1384000), (Standard ''E16-4ds_v5'', 1384000),
      (Standard ''E16-4s_v3'', 1280000), (Standard ''E16-4s_v4'', 1216000), (Standard ''E16-4s_v5'', 1216000),
      (Standard ''E16-8ads_v5'', 1264000), (Standard ''E16-8as_v4'', 1216000), (Standard ''E16-8as_v5'', 1096000),
      (Standard ''E16-8ds_v4'', 1384000), (Standard ''E16-8ds_v5'', 1384000), (Standard ''E16-8s_v3'', 1280000),
      (Standard ''E16-8s_v4'', 1216000), (Standard ''E16-8s_v5'', 1216000), (Standard ''E16_v3'', 1280000), (Standard ''E16_v4'', 1216000),
      (Standard ''E16_v5'', 1216000), (Standard ''E16a_v4'', 1216000), (Standard ''E16ads_v5'', 1264000), (Standard ''E16as_v4'', 1216000),
      (Standard ''E16as_v5'', 1096000), (Standard ''E16bds_v5'', 1592000), (Standard ''E16bs_v5'', 1424000),
      (Standard ''E16d_v4'', 1384000), (Standard ''E16d_v5'', 1384000), (Standard ''E16ds_v4'', 1384000), (Standard ''E16ds_v5'', 1384000),
      (Standard ''E16pds_v5'', 1104000), (Standard ''E16ps_v5'', 973000), (Standard ''E16s_v3'', 1280000), (Standard ''E16s_v4'', 1216000),
      (Standard ''E16s_v5'', 1216000), (Standard ''E20_v3'', 1600000), (Standard ''E20_v4'', 1520000), (Standard ''E20_v5'', 1520000),
      (Standard ''E20a_v4'', 1520000), (Standard ''E20ads_v5'', 1580000), (Standard ''E20as_v4'', 1520000),
      (Standard ''E20as_v5'', 1370000), (Standard ''E20d_v4'', 1730000), (Standard ''E20d_v5'', 1730000), (Standard ''E20ds_v4'', 1730000),
      (Standard ''E20ds_v5'', 1730000), (Standard ''E20pds_v5'', 1380000), (Standard ''E20ps_v5'', 1216000),
      (Standard ''E20s_v3'', 1600000), (Standard ''E20s_v4'', 1520000), (Standard ''E20s_v5'', 1520000), (Standard ''E2_v3'', 160000),
      (Standard ''E2_v4'', 152000), (Standard ''E2_v5'', 152000), (Standard ''E2a_v4'', 152000), (Standard ''E2ads_v5'', 158000),
      (Standard ''E2as_v4'', 152000), (Standard ''E2as_v5'', 137000), (Standard ''E2bds_v5'', 199000), (Standard ''E2bs_v5'', 178000),
      (Standard ''E2d_v4'', 173000), (Standard ''E2d_v5'', 173000), (Standard ''E2ds_v4'', 173000), (Standard ''E2ds_v5'', 173000),
      (Standard ''E2pds_v5'', 138000), (Standard ''E2ps_v5'', 122000), (Standard ''E2s_v3'', 160000), (Standard ''E2s_v4'', 152000),
      (Standard ''E2s_v5'', 152000), (Standard ''E32-16ads_v5'', 2528000), (Standard ''E32-16as_v4'', 2432000),
      (Standard ''E32-16as_v5'', 2192000), (Standard ''E32-16ds_v4'', 2768000), (Standard ''E32-16ds_v5'', 2768000),
      (Standard ''E32-16s_v3'', 2560000), (Standard ''E32-16s_v4'', 2432000), (Standard ''E32-16s_v5'', 2432000),
      (Standard ''E32-8ads_v5'', 2528000), (Standard ''E32-8as_v4'', 2432000), (Standard ''E32-8as_v5'', 2192000),
      (Standard ''E32-8ds_v4'', 2768000), (Standard ''E32-8ds_v5'', 2768000), (Standard ''E32-8s_v3'', 2560000),
      (Standard ''E32-8s_v4'', 2432000), (Standard ''E32-8s_v5'', 2432000), (Standard ''E32_v3'', 2560000), (Standard ''E32_v4'', 2432000),
      (Standard ''E32_v5'', 2432000), (Standard ''E32a_v4'', 2432000), (Standard ''E32ads_v5'', 2528000), (Standard ''E32as_v4'', 2432000),
      (Standard ''E32as_v5'', 2192000), (Standard ''E32bds_v5'', 3184000), (Standard ''E32bs_v5'', 2848000),
      (Standard ''E32d_v4'', 2768000), (Standard ''E32d_v5'', 2768000), (Standard ''E32ds_v4'', 2768000), (Standard ''E32ds_v5'', 2768000),
      (Standard ''E32pds_v5'', 2208000), (Standard ''E32ps_v5'', 1946000), (Standard ''E32s_v3'', 2560000),
      (Standard ''E32s_v4'', 2432000), (Standard ''E32s_v5'', 2432000), (Standard ''E4-2ads_v5'', 316000),
      (Standard ''E4-2as_v4'', 304000), (Standard ''E4-2as_v5'', 274000), (Standard ''E4-2ds_v4'', 346000),
      (Standard ''E4-2ds_v5'', 346000), (Standard ''E4-2s_v3'', 320000), (Standard ''E4-2s_v4'', 304000), (Standard ''E4-2s_v5'', 304000),
      (Standard ''E48_v3'', 3647000), (Standard ''E48_v4'', 3648000), (Standard ''E48_v5'', 3648000), (Standard ''E48a_v4'', 3648000),
      (Standard ''E48ads_v5'', 3792000), (Standard ''E48as_v4'', 3648000)]"

definition westeurope_5 :: priceTable where
  "westeurope_5 =
     [(Standard ''E48as_v5'', 3288000), (Standard ''E48bds_v5'', 4776000), (Standard ''E48bs_v5'', 4272000),
      (Standard ''E48d_v4'', 4152000), (Standard ''E48d_v5'', 4152000), (Standard ''E48ds_v4'', 4152000), (Standard ''E48ds_v5'', 4152000),
      (Standard ''E48s_v3'', 3647000), (Standard ''E48s_v4'', 3648000), (Standard ''E48s_v5'', 3648000), (Standard ''E4_v3'', 320000),
      (Standard ''E4_v4'', 304000), (Standard ''E4_v5'', 304000), (Standard ''E4a_v4'', 304000), (Standard ''E4ads_v5'', 316000),
      (Standard ''E4as_v4'', 304000), (Standard ''E4as_v5'', 274000), (Standard ''E4bds_v5'', 398000), (Standard ''E4bs_v5'', 356000),
      (Standard ''E4d_v4'', 346000), (Standard ''E4d_v5'', 346000), (Standard ''E4ds_v4'', 346000), (Standard ''E4ds_v5'', 346000),
      (Standard ''E4pds_v5'', 276000), (Standard ''E4ps_v5'', 243000), (Standard ''E4s_v3'', 320000), (Standard ''E4s_v4'', 304000),
      (Standard ''E4s_v5'', 304000), (Standard ''E64-16ads_v5'', 5056000), (Standard ''E64-16as_v4'', 4864000),
      (Standard ''E64-16as_v5'', 4384000), (Standard ''E64-16ds_v4'', 5536000), (Standard ''E64-16ds_v5'', 5536000),
      (Standard ''E64-16s_v3'', 4376000), (Standard ''E64-16s_v4'', 4864000), (Standard ''E64-16s_v5'', 4864000),
      (Standard ''E64-32ads_v5'', 5056000), (Standard ''E64-32as_v4'', 4864000), (Standard ''E64-32as_v5'', 4384000),
      (Standard ''E64-32ds_v4'', 5536000), (Standard ''E64-32ds_v5'', 5536000), (Standard ''E64-32s_v3'', 4376000),
      (Standard ''E64-32s_v4'', 4864000), (Standard ''E64-32s_v5'', 4864000), (Standard ''E64_v3'', 4376000),
      (Standard ''E64_v4'', 4864000), (Standard ''E64_v5'', 4864000), (Standard ''E64a_v4'', 4864000), (Standard ''E64ads_v5'', 5056000),
      (Standard ''E64as_v4'', 4864000), (Standard ''E64as_v5'', 4384000), (Standard ''E64bds_v5'', 6368000),
      (Standard ''E64bs_v5'', 5696000), (Standard ''E64d_v4'', 5536000), (Standard ''E64d_v5'', 5536000), (Standard ''E64ds_v4'', 5536000),
      (Standard ''E64ds_v5'', 5536000), (Standard ''E64i_v3'', 4376000), (Standard ''E64is_v3'', 4376000), (Standard ''E64s_v3'', 4376000),
      (Standard ''E64s_v4'', 4864000), (Standard ''E64s_v5'', 4864000), (Standard ''E8-2ads_v5'', 632000),
      (Standard ''E8-2as_v4'', 608000), (Standard ''E8-2as_v5'', 548000), (Standard ''E8-2ds_v4'', 692000),
      (Standard ''E8-2ds_v5'', 692000), (Standard ''E8-2s_v3'', 640000), (Standard ''E8-2s_v4'', 608000), (Standard ''E8-2s_v5'', 608000),
      (Standard ''E8-4ads_v5'', 632000), (Standard ''E8-4as_v4'', 608000), (Standard ''E8-4as_v5'', 548000),
      (Standard ''E8-4ds_v4'', 692000), (Standard ''E8-4ds_v5'', 692000), (Standard ''E8-4s_v3'', 640000), (Standard ''E8-4s_v4'', 608000),
      (Standard ''E8-4s_v5'', 608000), (Standard ''E80ids_v4'', 6920000), (Standard ''E80is_v4'', 6080000), (Standard ''E8_v3'', 640000),
      (Standard ''E8_v4'', 608000), (Standard ''E8_v5'', 608000), (Standard ''E8a_v4'', 608000), (Standard ''E8ads_v5'', 632000),
      (Standard ''E8as_v4'', 608000), (Standard ''E8as_v5'', 548000), (Standard ''E8bds_v5'', 796000), (Standard ''E8bs_v5'', 712000),
      (Standard ''E8d_v4'', 692000), (Standard ''E8d_v5'', 692000), (Standard ''E8ds_v4'', 692000), (Standard ''E8ds_v5'', 692000),
      (Standard ''E8pds_v5'', 552000), (Standard ''E8ps_v5'', 486000), (Standard ''E8s_v3'', 640000), (Standard ''E8s_v4'', 608000),
      (Standard ''E8s_v5'', 608000), (Standard ''E96-24ads_v5'', 7584000), (Standard ''E96-24as_v4'', 7296000),
      (Standard ''E96-24as_v5'', 6576000), (Standard ''E96-24ds_v5'', 8304000), (Standard ''E96-24s_v5'', 7296000),
      (Standard ''E96-48ads_v5'', 7584000), (Standard ''E96-48as_v4'', 7296000), (Standard ''E96-48as_v5'', 6576000),
      (Standard ''E96-48ds_v5'', 8304000), (Standard ''E96-48s_v5'', 7296000), (Standard ''E96_v5'', 7296000),
      (Standard ''E96a_v4'', 7296000), (Standard ''E96ads_v5'', 7584000), (Standard ''E96as_v4'', 7296000),
      (Standard ''E96as_v5'', 6576000), (Standard ''E96bds_v5'', 9552000), (Standard ''E96bs_v5'', 8544000),
      (Standard ''E96d_v5'', 8304000), (Standard ''E96ds_v5'', 8304000), (Standard ''E96iads_v5'', 8342000),
      (Standard ''E96ias_v5'', 7234000), (Standard ''E96s_v5'', 7296000), (Standard ''EC16ads_cc_v5'', 1264000),
      (Standard ''EC16ads_v5'', 1184000), (Standard ''EC16as_cc_v5'', 1096000), (Standard ''EC16as_v5'', 1096000),
      (Standard ''EC16eds_v5'', 1384000), (Standard ''EC16es_v5'', 1216000), (Standard ''EC20ads_cc_v5'', 1580000),
      (Standard ''EC20ads_v5'', 1480000), (Standard ''EC20as_cc_v5'', 1370000), (Standard ''EC20as_v5'', 1370000)]"

definition westeurope_6 :: priceTable where
  "westeurope_6 =
     [(Standard ''EC2ads_v5'', 148000), (Standard ''EC2as_v5'', 137000), (Standard ''EC2eds_v5'', 173000), (Standard ''EC2es_v5'', 152000),
      (Standard ''EC32ads_cc_v5'', 2528000), (Standard ''EC32ads_v5'', 2368000), (Standard ''EC32as_cc_v5'', 2192000),
      (Standard ''EC32as_v5'', 2192000), (Standard ''EC32eds_v5'', 2768000), (Standard ''EC32es_v5'', 2432000),
      (Standard ''EC48ads_cc_v5'', 3792000), (Standard ''EC48ads_v5'', 3552000), (Standard ''EC48as_cc_v5'', 3288000),
      (Standard ''EC48as_v5'', 3288000), (Standard ''EC48eds_v5'', 4152000), (Standard ''EC48es_v5'', 3648000),
      (Standard ''EC4ads_cc_v5'', 316000), (Standard ''EC4ads_v5'', 296000), (Standard ''EC4as_cc_v5'', 274000),
      (Standard ''EC4as_v5'', 274000), (Standard ''EC4eds_v5'', 346000), (Standard ''EC4es_v5'', 304000),
      (Standard ''EC64ads_cc_v5'', 5056000), (Standard ''EC64ads_v5'', 4736000), (Standard ''EC64as_cc_v5'', 4384000),
      (Standard ''EC64as_v5'', 4384000), (Standard ''EC64eds_v5'', 5536000), (Standard ''EC64es_v5'', 4864000),
      (Standard ''EC8ads_cc_v5'', 632000), (Standard ''EC8ads_v5'', 592000), (Standard ''EC8as_cc_v5'', 548000),
      (Standard ''EC8as_v5'', 548000), (Standard ''EC8eds_v5'', 692000), (Standard ''EC8es_v5'', 608000),
      (Standard ''EC96ads_cc_v5'', 7584000), (Standard ''EC96ads_v5'', 7104000), (Standard ''EC96as_cc_v5'', 6576000),
      (Standard ''EC96as_v5'', 6576000), (Standard ''EC96eds_v5'', 8304000), (Standard ''EC96es_v5'', 7296000),
      (Standard ''EC96iads_v5'', 7814000), (Standard ''EC96ias_v5'', 7234000), (Standard ''F1'', 56800), (Standard ''F16'', 909000),
      (Standard ''F16s'', 909000), (Standard ''F16s_v2'', 776000), (Standard ''F1s'', 56800), (Standard ''F2'', 114000),
      (Standard ''F2s'', 114000), (Standard ''F2s_v2'', 97000), (Standard ''F32s_v2'', 1552000), (Standard ''F4'', 227000),
      (Standard ''F48s_v2'', 2328000), (Standard ''F4s'', 227000), (Standard ''F4s_v2'', 194000), (Standard ''F64s_v2'', 3104000),
      (Standard ''F72s_v2'', 3492000), (Standard ''F8'', 454000), (Standard ''F8s'', 454000), (Standard ''F8s_v2'', 388000),
      (Standard ''FX12mds'', 1350000), (Standard ''FX24mds'', 2700000), (Standard ''FX36mds'', 4050000), (Standard ''FX48mds'', 5400000),
      (Standard ''FX4mds'', 450000), (Standard ''G1'', 700000), (Standard ''G2'', 1400000), (Standard ''G3'', 2800000),
      (Standard ''G4'', 5600000), (Standard ''G5'', 9990000), (Standard ''GS1'', 700000), (Standard ''GS2'', 1400000),
      (Standard ''GS3'', 2800000), (Standard ''GS4'', 5600000), (Standard ''GS4-4'', 5600000), (Standard ''GS4-8'', 5600000),
      (Standard ''GS5'', 9990000), (Standard ''GS5-16'', 9990000), (Standard ''GS5-8'', 9990000), (Standard ''H16'', 2065000),
      (Standard ''H16m'', 2767000), (Standard ''H16mr'', 3043000), (Standard ''H16r'', 2271000), (Standard ''H8'', 1032000),
      (Standard ''H8m'', 1383000), (Standard ''HB120-16rs_v2'', 4680000), (Standard ''HB120-16rs_v3'', 4680000),
      (Standard ''HB120-32rs_v2'', 4680000), (Standard ''HB120-32rs_v3'', 4680000), (Standard ''HB120-64rs_v2'', 4680000),
      (Standard ''HB120-64rs_v3'', 4680000), (Standard ''HB120-96rs_v2'', 4680000), (Standard ''HB120-96rs_v3'', 4680000),
      (Standard ''HB120rs_v2'', 4680000), (Standard ''HB120rs_v3'', 4680000), (Standard ''HB176-144rs_v4'', 9360000),
      (Standard ''HB176-24rs_v4'', 9360000), (Standard ''HB176-48rs_v4'', 9360000), (Standard ''HB176-96rs_v4'', 9360000),
      (Standard ''HB176rs_v4'', 9360000), (Standard ''HB60-15rs'', 2964000), (Standard ''HB60-30rs'', 2964000),
      (Standard ''HB60-45rs'', 2964000), (Standard ''HB60rs'', 2964000), (Standard ''HC44-16rs'', 4118000),
      (Standard ''HC44-32rs'', 4118000), (Standard ''HC44rs'', 4118000), (Standard ''HX176-144rs'', 11232000),
      (Standard ''HX176-24rs'', 11232000), (Standard ''HX176-48rs'', 11232000), (Standard ''HX176-96rs'', 11232000),
      (Standard ''HX176rs'', 11232000), (Standard ''L16as_v3'', 1488000), (Standard ''L16s'', 1488000), (Standard ''L16s_v2'', 1488000),
      (Standard ''L16s_v3'', 1664000), (Standard ''L32as_v3'', 2976000), (Standard ''L32s'', 2976000), (Standard ''L32s_v2'', 2976000),
      (Standard ''L32s_v3'', 3328000), (Standard ''L48as_v3'', 4464000), (Standard ''L48s_v2'', 4464000), (Standard ''L48s_v3'', 4992000),
      (Standard ''L4s'', 372000), (Standard ''L64as_v3'', 5952000), (Standard ''L64s_v2'', 5952000), (Standard ''L64s_v3'', 6656000),
      (Standard ''L80as_v3'', 7440000), (Standard ''L80s_v2'', 7440000), (Standard ''L80s_v3'', 8320000)]"

definition westeurope_7 :: priceTable where
  "westeurope_7 =
     [(Standard ''L88is_v2'', 8184000), (Standard ''L8as_v3'', 744000), (Standard ''L8s'', 744000), (Standard ''L8s_v2'', 744000),
      (Standard ''L8s_v3'', 832000), (Standard ''M128'', 18673000), (Standard ''M128-32ms'', 37363200), (Standard ''M128-64ms'', 37363200),
      (Standard ''M128dms_v2'', 37366000), (Standard ''M128ds_v2'', 18676000), (Standard ''M128m'', 37363200),
      (Standard ''M128ms'', 37363200), (Standard ''M128ms_v2'', 36777000), (Standard ''M128s'', 18673000),
      (Standard ''M128s_v2'', 18087000), (Standard ''M12ds_v3'', 0), (Standard ''M12s_v3'', 0), (Standard ''M16-4ms'', 4302200),
      (Standard ''M16-8ms'', 4302200), (Standard ''M16ms'', 4302200), (Standard ''M16s'', 3341800), (Standard ''M176ds_3_v3'', 0),
      (Standard ''M176s_3_v3'', 0), (Standard ''M192idms_v2'', 44889000), (Standard ''M192ids_v2'', 22445000),
      (Standard ''M192ims_v2'', 44300000), (Standard ''M192is_v2'', 21856000), (Standard ''M208-104ms_v2'', 53544000),
      (Standard ''M208-104s_v2'', 26772000), (Standard ''M208-52ms_v2'', 53544000), (Standard ''M208-52s_v2'', 26772000),
      (Standard ''M208ms_v2'', 53544000), (Standard ''M208s_v2'', 26772000), (Standard ''M24ds_v3'', 0), (Standard ''M24s_v3'', 0),
      (Standard ''M32-16ms'', 8604400), (Standard ''M32-8ms'', 8604400), (Standard ''M32dms_v2'', 8604000), (Standard ''M32ls'', 3447600),
      (Standard ''M32ms'', 8604400), (Standard ''M32ms_v2'', 8457000), (Standard ''M32s'', 4669000), (Standard ''M32ts'', 3248000),
      (Standard ''M416-104ms_v2'', 118980000), (Standard ''M416-104s_v2'', 59496000), (Standard ''M416-208ms_v2'', 118980000),
      (Standard ''M416-208s_v2'', 59496000), (Standard ''M416is_v2'', 59496000), (Standard ''M416ms_v2'', 118980000),
      (Standard ''M416s_8_v2'', 79750000), (Standard ''M416s_v2'', 59496000), (Standard ''M48ds_1_v3'', 0), (Standard ''M48s_1_v3'', 0),
      (Standard ''M64'', 9337000), (Standard ''M64-16ms'', 14472000), (Standard ''M64-32ms'', 14472000),
      (Standard ''M64dms_v2'', 14476000), (Standard ''M64ds_v2'', 9337000), (Standard ''M64ls'', 6498000), (Standard ''M64m'', 14472000),
      (Standard ''M64ms'', 14472000), (Standard ''M64ms_v2'', 14181000), (Standard ''M64s'', 9337000), (Standard ''M64s_v2'', 9042000),
      (Standard ''M8-2ms'', 2151100), (Standard ''M8-4ms'', 2151100), (Standard ''M8ms'', 2151100), (Standard ''M96ds_1_v3'', 0),
      (Standard ''M96ds_2_v3'', 0), (Standard ''M96s_1_v3'', 0), (Standard ''M96s_2_v3'', 0), (Standard ''NC12'', 2333000),
      (Standard ''NC12s_v2'', 5364000), (Standard ''NC12s_v3'', 7646000), (Standard ''NC16ads_A10_v4'', 2860000),
      (Standard ''NC16as_T4_v3'', 1505000), (Standard ''NC24'', 4666000), (Standard ''NC24ads_A100_v4'', 4775000),
      (Standard ''NC24r'', 5132000), (Standard ''NC24rs_v2'', 11804000), (Standard ''NC24rs_v3'', 16821000),
      (Standard ''NC24s_v2'', 10728000), (Standard ''NC24s_v3'', 15292000), (Standard ''NC32ads_A10_v4'', 5720000),
      (Standard ''NC48ads_A100_v4'', 9550000), (Standard ''NC4as_T4_v3'', 658000), (Standard ''NC6'', 1166000),
      (Standard ''NC64as_T4_v3'', 5440000), (Standard ''NC6s_v2'', 2682000), (Standard ''NC6s_v3'', 3823000),
      (Standard ''NC8ads_A10_v4'', 1430000), (Standard ''NC8as_T4_v3'', 940000), (Standard ''NC96ads_A100_v4'', 19100000),
      (Standard ''ND12s'', 5363000), (Standard ''ND24rs'', 11804000), (Standard ''ND24s'', 10727000), (Standard ''ND40rs_v2'', 27526000),
      (Standard ''ND40s_v2'', 18030000), (Standard ''ND6s'', 2682000), (Standard ''ND96ams_A100_v4'', 40962000),
      (Standard ''ND96amsr_A100_v4'', 40962000), (Standard ''ND96asr_A100_v4'', 35357000), (Standard ''ND96asr_v4'', 35357000),
      (Standard ''NG16ads_V620_v1'', 2847000), (Standard ''NG32adms_V620'', 7402000), (Standard ''NG32ads_V620_v1'', 5694000),
      (Standard ''NG8ads_V620_v1'', 1424000), (Standard ''NP10s'', 2145000), (Standard ''NP20s'', 4290000), (Standard ''NP40s'', 8580000),
      (Standard ''NV12'', 2730000), (Standard ''NV12ads_A10_v5'', 1180000), (Standard ''NV12s_v3'', 1426000),
      (Standard ''NV16as_v4'', 1165000), (Standard ''NV18ads_A10_v5'', 2080000), (Standard ''NV24'', 5460000),
      (Standard ''NV24s_v3'', 2850000), (Standard ''NV32as_v4'', 2330000), (Standard ''NV36adms_A10_v5'', 5876000),
      (Standard ''NV36ads_A10_v5'', 4160000), (Standard ''NV48s_v3'', 5700000), (Standard ''NV4as_v4'', 291000),
      (Standard ''NV6'', 1365000), (Standard ''NV6ads_A10_v5'', 590000), (Standard ''NV72ads_A10_v5'', 8476000),
      (Standard ''NV8as_v4'', 582000), (Standard ''PB12s'', 2158000), (Standard ''PB24s'', 4316000), (Standard ''PB6s'', 1079000)]"

definition westeurope :: priceTable where
  "westeurope = westeurope_1 @ westeurope_2 @ westeurope_3 @ westeurope_4 @ westeurope_5 @ westeurope_6 @ westeurope_7"

subsection \<open>westindia\<close>

definition westindia_1 :: priceTable where
  "westindia_1 =
     [(''Basic_A0'', 18000), (''Basic_A1'', 30000), (''Basic_A2'', 96000), (''Basic_A3'', 232000), (''Basic_A4'', 464000),
      (''Dadsv5_Type1'', 8121000), (''Dasv4_Type1'', 6758000), (''Dasv4_Type2'', 6758000), (''Dasv5_Type1'', 6781000),
      (''Ddsv5_Type1'', 7637000), (''Dsv3_Type3'', 4445000), (''Dsv3_Type4'', 5556000), (''Dsv5_Type1'', 6758000),
      (''Eadsv5_Type1'', 8854000), (''Easv4_Type1'', 8516000), (''Easv4_Type2'', 8516000), (''Easv5_Type1'', 7637000),
      (''Ebdsv5-Type1'', 7524000), (''Ebsv5-Type1'', 6713000), (''Edsv5_Type1'', 9732000), (''Esv3_Type3'', 5172000),
      (''Esv3_Type4'', 7007000), (''Esv5_Type1'', 8516000), (''Fsv2_Type2'', 3366000), (''Lasv3_Type1'', 8786000),
      (''Lsv3_Type1'', 9828000), (Standard ''A0'', 20000), (Standard ''A1'', 66000), (Standard ''A1_v2'', 47000),
      (Standard ''A2'', 131000), (Standard ''A2_v2'', 98000), (Standard ''A2m_v2'', 158000), (Standard ''A3'', 262000),
      (Standard ''A4'', 524000), (Standard ''A4_v2'', 206000), (Standard ''A4m_v2'', 333000), (Standard ''A5'', 260000),
      (Standard ''A6'', 520000), (Standard ''A7'', 1040000), (Standard ''A8_v2'', 433000), (Standard ''A8m_v2'', 699000),
      (Standard ''B12ms'', 714000), (Standard ''B16als_v2'', 755000), (Standard ''B16as_v2'', 770000), (Standard ''B16ls_v2'', 755000),
      (Standard ''B16ms'', 951000), (Standard ''B16s_v2'', 926000), (Standard ''B1ls'', 7800), (Standard ''B1ms'', 30000),
      (Standard ''B1s'', 14700), (Standard ''B20ms'', 1189000), (Standard ''B2als_v2'', 48100), (Standard ''B2as_v2'', 96300),
      (Standard ''B2ats_v2'', 21200), (Standard ''B2ls_v2'', 53200), (Standard ''B2ms'', 119000), (Standard ''B2s'', 59000),
      (Standard ''B2s_v2'', 116000), (Standard ''B2ts_v2'', 13300), (Standard ''B32als_v2'', 1511000), (Standard ''B32as_v2'', 1687000),
      (Standard ''B32ls_v2'', 1509000), (Standard ''B32s_v2'', 1851000), (Standard ''B4als_v2'', 189000), (Standard ''B4as_v2'', 211000),
      (Standard ''B4ls_v2'', 189000), (Standard ''B4ms'', 238000), (Standard ''B4s_v2'', 213000), (Standard ''B8als_v2'', 341000),
      (Standard ''B8as_v2'', 422000), (Standard ''B8ls_v2'', 414000), (Standard ''B8ms'', 476000), (Standard ''B8s_v2'', 426000),
      (Standard ''D1'', 67900), (Standard ''D11'', 176000), (Standard ''D11_v2'', 189000), (Standard ''D11_v2_Promo'', 189000),
      (Standard ''D12'', 352000), (Standard ''D12_v2'', 379000), (Standard ''D12_v2_Promo'', 379000), (Standard ''D13'', 704000),
      (Standard ''D13_v2'', 758000), (Standard ''D13_v2_Promo'', 758000), (Standard ''D14'', 1407000), (Standard ''D14_v2'', 1516000),
      (Standard ''D14_v2_Promo'', 1516000), (Standard ''D15_v2'', 1895000), (Standard ''D15i_v2'', 1895000), (Standard ''D16_v3'', 984000),
      (Standard ''D16_v4'', 944000), (Standard ''D16_v5'', 983000), (Standard ''D16a_v4'', 983000), (Standard ''D16ads_v5'', 1055000),
      (Standard ''D16as_v4'', 983000), (Standard ''D16as_v5'', 881000), (Standard ''D16d_v4'', 1112000), (Standard ''D16d_v5'', 1157000),
      (Standard ''D16ds_v4'', 1112000), (Standard ''D16ds_v5'', 1157000), (Standard ''D16lds_v5'', 983000),
      (Standard ''D16ls_v5'', 870000), (Standard ''D16s_v3'', 984000), (Standard ''D16s_v4'', 944000), (Standard ''D16s_v5'', 983000),
      (Standard ''D1_v2'', 84000), (Standard ''D2'', 136000), (Standard ''D2_v2'', 169000), (Standard ''D2_v2_Promo'', 169000),
      (Standard ''D2_v3'', 123000), (Standard ''D2_v4'', 118000), (Standard ''D2_v5'', 123000), (Standard ''D2a_v4'', 123000),
      (Standard ''D2ads_v5'', 132000), (Standard ''D2as_v4'', 123000), (Standard ''D2as_v5'', 110000), (Standard ''D2d_v4'', 139000),
      (Standard ''D2d_v5'', 145000), (Standard ''D2ds_v4'', 139000), (Standard ''D2ds_v5'', 145000), (Standard ''D2lds_v5'', 123000),
      (Standard ''D2ls_v5'', 109000), (Standard ''D2s_v3'', 123000), (Standard ''D2s_v4'', 118000), (Standard ''D2s_v5'', 123000),
      (Standard ''D3'', 272000), (Standard ''D32-16s_v3'', 1968000), (Standard ''D32-8s_v3'', 1968000), (Standard ''D32_v3'', 1968000),
      (Standard ''D32_v4'', 1888000), (Standard ''D32_v5'', 1966000), (Standard ''D32a_v4'', 1966000)]"

definition westindia_2 :: priceTable where
  "westindia_2 =
     [(Standard ''D32ads_v5'', 2109000), (Standard ''D32as_v4'', 1966000), (Standard ''D32as_v5'', 1761000),
      (Standard ''D32d_v4'', 2224000), (Standard ''D32d_v5'', 2314000), (Standard ''D32ds_v4'', 2224000), (Standard ''D32ds_v5'', 2314000),
      (Standard ''D32lds_v5'', 1966000), (Standard ''D32ls_v5'', 1741000), (Standard ''D32s_v3'', 1968000),
      (Standard ''D32s_v4'', 1888000), (Standard ''D32s_v5'', 1966000), (Standard ''D3_v2'', 337000), (Standard ''D3_v2_Promo'', 337000),
      (Standard ''D4'', 544000), (Standard ''D48_v3'', 2952000), (Standard ''D48_v4'', 2832000), (Standard ''D48_v5'', 2949000),
      (Standard ''D48a_v4'', 2949000), (Standard ''D48ads_v5'', 3164000), (Standard ''D48as_v4'', 2949000),
      (Standard ''D48as_v5'', 2642000), (Standard ''D48d_v4'', 3336000), (Standard ''D48d_v5'', 3471000), (Standard ''D48ds_v4'', 3336000),
      (Standard ''D48ds_v5'', 3471000), (Standard ''D48lds_v5'', 2949000), (Standard ''D48ls_v5'', 2611000),
      (Standard ''D48s_v3'', 2952000), (Standard ''D48s_v4'', 2832000), (Standard ''D48s_v5'', 2949000), (Standard ''D4_v2'', 675000),
      (Standard ''D4_v2_Promo'', 675000), (Standard ''D4_v3'', 246000), (Standard ''D4_v4'', 236000), (Standard ''D4_v5'', 246000),
      (Standard ''D4a_v4'', 246000), (Standard ''D4ads_v5'', 264000), (Standard ''D4as_v4'', 246000), (Standard ''D4as_v5'', 220000),
      (Standard ''D4d_v4'', 278000), (Standard ''D4d_v5'', 289000), (Standard ''D4ds_v4'', 278000), (Standard ''D4ds_v5'', 289000),
      (Standard ''D4lds_v5'', 246000), (Standard ''D4ls_v5'', 218000), (Standard ''D4s_v3'', 246000), (Standard ''D4s_v4'', 236000),
      (Standard ''D4s_v5'', 246000), (Standard ''D5_v2'', 1350000), (Standard ''D5_v2_Promo'', 1350000),
      (Standard ''D64-16s_v3'', 3936000), (Standard ''D64-32s_v3'', 3936000), (Standard ''D64_v3'', 3936000),
      (Standard ''D64_v4'', 3776000), (Standard ''D64_v5'', 3932000), (Standard ''D64a_v4'', 3932000), (Standard ''D64ads_v5'', 4219000),
      (Standard ''D64as_v4'', 3932000), (Standard ''D64as_v5'', 3523000), (Standard ''D64d_v4'', 4448000), (Standard ''D64d_v5'', 4628000),
      (Standard ''D64ds_v4'', 4448000), (Standard ''D64ds_v5'', 4628000), (Standard ''D64lds_v5'', 3932000),
      (Standard ''D64ls_v5'', 3482000), (Standard ''D64s_v3'', 3936000), (Standard ''D64s_v4'', 3776000), (Standard ''D64s_v5'', 3932000),
      (Standard ''D8_v3'', 492000), (Standard ''D8_v4'', 472000), (Standard ''D8_v5'', 492000), (Standard ''D8a_v4'', 492000),
      (Standard ''D8ads_v5'', 527000), (Standard ''D8as_v4'', 492000), (Standard ''D8as_v5'', 440000), (Standard ''D8d_v4'', 556000),
      (Standard ''D8d_v5'', 579000), (Standard ''D8ds_v4'', 556000), (Standard ''D8ds_v5'', 579000), (Standard ''D8lds_v5'', 492000),
      (Standard ''D8ls_v5'', 435000), (Standard ''D8s_v3'', 492000), (Standard ''D8s_v4'', 472000), (Standard ''D8s_v5'', 492000),
      (Standard ''D96_v5'', 5898000), (Standard ''D96a_v4'', 5898000), (Standard ''D96ads_v5'', 6328000), (Standard ''D96as_v4'', 5898000),
      (Standard ''D96as_v5'', 5284000), (Standard ''D96d_v5'', 6943000), (Standard ''D96ds_v5'', 6943000),
      (Standard ''D96lds_v5'', 5898000), (Standard ''D96ls_v5'', 5222000), (Standard ''D96s_v5'', 5898000), (Standard ''DS1'', 67900),
      (Standard ''DS11'', 176000), (Standard ''DS11-1_v2'', 189000), (Standard ''DS11_v2'', 189000), (Standard ''DS11_v2_Promo'', 189000),
      (Standard ''DS12'', 352000), (Standard ''DS12-1_v2'', 379000), (Standard ''DS12-2_v2'', 379000), (Standard ''DS12_v2'', 379000),
      (Standard ''DS12_v2_Promo'', 379000), (Standard ''DS13'', 704000), (Standard ''DS13-2_v2'', 758000),
      (Standard ''DS13-4_v2'', 758000), (Standard ''DS13_v2'', 758000), (Standard ''DS13_v2_Promo'', 758000), (Standard ''DS14'', 1407000),
      (Standard ''DS14-4_v2'', 1516000), (Standard ''DS14-8_v2'', 1516000), (Standard ''DS14_v2'', 1516000),
      (Standard ''DS14_v2_Promo'', 1516000), (Standard ''DS15_v2'', 1895000), (Standard ''DS15i_v2'', 1895000),
      (Standard ''DS1_v2'', 84000), (Standard ''DS2'', 136000), (Standard ''DS2_v2'', 169000), (Standard ''DS2_v2_Promo'', 169000),
      (Standard ''DS3'', 272000), (Standard ''DS3_v2'', 337000), (Standard ''DS3_v2_Promo'', 337000), (Standard ''DS4'', 544000),
      (Standard ''DS4_v2'', 675000), (Standard ''DS4_v2_Promo'', 675000), (Standard ''DS5_v2'', 1350000),
      (Standard ''DS5_v2_Promo'', 1350000), (Standard ''E104i_v5'', 9225000), (Standard ''E104id_v5'', 10543000)]"

definition westindia_3 :: priceTable where
  "westindia_3 =
     [(Standard ''E104ids_v5'', 10543000), (Standard ''E104is_v5'', 9225000), (Standard ''E112iads_v5'', 10329000),
      (Standard ''E112ias_v5'', 8910000), (Standard ''E112ibds_v5'', 13168000), (Standard ''E112ibs_v5'', 11748000),
      (Standard ''E16-4ads_v5'', 1341000), (Standard ''E16-4as_v4'', 1290000), (Standard ''E16-4as_v5'', 1157000),
      (Standard ''E16-4ds_v4'', 1390000), (Standard ''E16-4ds_v5'', 1475000), (Standard ''E16-4s_v3'', 1216000),
      (Standard ''E16-4s_v4'', 1216000), (Standard ''E16-4s_v5'', 1290000), (Standard ''E16-8ads_v5'', 1341000),
      (Standard ''E16-8as_v4'', 1290000), (Standard ''E16-8as_v5'', 1157000), (Standard ''E16-8ds_v4'', 1390000),
      (Standard ''E16-8ds_v5'', 1475000), (Standard ''E16-8s_v3'', 1216000), (Standard ''E16-8s_v4'', 1216000),
      (Standard ''E16-8s_v5'', 1290000), (Standard ''E16_v3'', 1216000), (Standard ''E16_v4'', 1216000), (Standard ''E16_v5'', 1290000),
      (Standard ''E16a_v4'', 1290000), (Standard ''E16ads_v5'', 1341000), (Standard ''E16as_v4'', 1290000),
      (Standard ''E16as_v5'', 1157000), (Standard ''E16bds_v5'', 1710000), (Standard ''E16bs_v5'', 1526000),
      (Standard ''E16d_v4'', 1390000), (Standard ''E16d_v5'', 1475000), (Standard ''E16ds_v4'', 1390000), (Standard ''E16ds_v5'', 1475000),
      (Standard ''E16s_v3'', 1216000), (Standard ''E16s_v4'', 1216000), (Standard ''E16s_v5'', 1290000), (Standard ''E20_v3'', 1520000),
      (Standard ''E20_v4'', 1520000), (Standard ''E20_v5'', 1613000), (Standard ''E20a_v4'', 1613000), (Standard ''E20ads_v5'', 1677000),
      (Standard ''E20as_v4'', 1613000), (Standard ''E20as_v5'', 1446000), (Standard ''E20d_v4'', 1737000), (Standard ''E20d_v5'', 1843000),
      (Standard ''E20ds_v4'', 1737000), (Standard ''E20ds_v5'', 1843000), (Standard ''E20s_v3'', 1520000), (Standard ''E20s_v4'', 1520000),
      (Standard ''E20s_v5'', 1613000), (Standard ''E2_v3'', 152000), (Standard ''E2_v4'', 152000), (Standard ''E2_v5'', 161000),
      (Standard ''E2a_v4'', 161000), (Standard ''E2ads_v5'', 168000), (Standard ''E2as_v4'', 161000), (Standard ''E2as_v5'', 145000),
      (Standard ''E2bds_v5'', 214000), (Standard ''E2bs_v5'', 191000), (Standard ''E2d_v4'', 174000), (Standard ''E2d_v5'', 184000),
      (Standard ''E2ds_v4'', 174000), (Standard ''E2ds_v5'', 184000), (Standard ''E2s_v3'', 152000), (Standard ''E2s_v4'', 152000),
      (Standard ''E2s_v5'', 161000), (Standard ''E32-16ads_v5'', 2683000), (Standard ''E32-16as_v4'', 2580000),
      (Standard ''E32-16as_v5'', 2314000), (Standard ''E32-16ds_v4'', 2779000), (Standard ''E32-16ds_v5'', 2949000),
      (Standard ''E32-16s_v3'', 2432000), (Standard ''E32-16s_v4'', 2432000), (Standard ''E32-16s_v5'', 2580000),
      (Standard ''E32-8ads_v5'', 2683000), (Standard ''E32-8as_v4'', 2580000), (Standard ''E32-8as_v5'', 2314000),
      (Standard ''E32-8ds_v4'', 2779000), (Standard ''E32-8ds_v5'', 2949000), (Standard ''E32-8s_v3'', 2432000),
      (Standard ''E32-8s_v4'', 2432000), (Standard ''E32-8s_v5'', 2580000), (Standard ''E32_v3'', 2432000), (Standard ''E32_v4'', 2432000),
      (Standard ''E32_v5'', 2580000), (Standard ''E32a_v4'', 2580000), (Standard ''E32ads_v5'', 2683000), (Standard ''E32as_v4'', 2580000),
      (Standard ''E32as_v5'', 2314000), (Standard ''E32bds_v5'', 3420000), (Standard ''E32bs_v5'', 3052000),
      (Standard ''E32d_v4'', 2779000), (Standard ''E32d_v5'', 2949000), (Standard ''E32ds_v4'', 2779000), (Standard ''E32ds_v5'', 2949000),
      (Standard ''E32s_v3'', 2432000), (Standard ''E32s_v4'', 2432000), (Standard ''E32s_v5'', 2580000), (Standard ''E4-2ads_v5'', 335000),
      (Standard ''E4-2as_v4'', 323000), (Standard ''E4-2as_v5'', 289000), (Standard ''E4-2ds_v4'', 347000),
      (Standard ''E4-2ds_v5'', 369000), (Standard ''E4-2s_v3'', 304000), (Standard ''E4-2s_v4'', 304000), (Standard ''E4-2s_v5'', 323000),
      (Standard ''E48_v3'', 3640000), (Standard ''E48_v4'', 3648000), (Standard ''E48_v5'', 3871000), (Standard ''E48a_v4'', 3871000),
      (Standard ''E48ads_v5'', 4024000), (Standard ''E48as_v4'', 3871000), (Standard ''E48as_v5'', 3471000),
      (Standard ''E48bds_v5'', 5130000), (Standard ''E48bs_v5'', 4577000), (Standard ''E48d_v4'', 4169000),
      (Standard ''E48d_v5'', 4424000), (Standard ''E48ds_v4'', 4169000), (Standard ''E48ds_v5'', 4424000), (Standard ''E48s_v3'', 3640000),
      (Standard ''E48s_v4'', 3648000), (Standard ''E48s_v5'', 3871000), (Standard ''E4_v3'', 304000), (Standard ''E4_v4'', 304000),
      (Standard ''E4_v5'', 323000), (Standard ''E4a_v4'', 323000), (Standard ''E4ads_v5'', 335000), (Standard ''E4as_v4'', 323000),
      (Standard ''E4as_v5'', 289000)]"

definition westindia_4 :: priceTable where
  "westindia_4 =
     [(Standard ''E4bds_v5'', 428000), (Standard ''E4bs_v5'', 381000), (Standard ''E4d_v4'', 347000), (Standard ''E4d_v5'', 369000),
      (Standard ''E4ds_v4'', 347000), (Standard ''E4ds_v5'', 369000), (Standard ''E4s_v3'', 304000), (Standard ''E4s_v4'', 304000),
      (Standard ''E4s_v5'', 323000), (Standard ''E64-16ads_v5'', 5366000), (Standard ''E64-16as_v4'', 5161000),
      (Standard ''E64-16as_v5'', 4628000), (Standard ''E64-16ds_v4'', 5559000), (Standard ''E64-16ds_v5'', 5898000),
      (Standard ''E64-16s_v3'', 4368000), (Standard ''E64-16s_v4'', 4864000), (Standard ''E64-16s_v5'', 5161000),
      (Standard ''E64-32ads_v5'', 5366000), (Standard ''E64-32as_v4'', 5161000), (Standard ''E64-32as_v5'', 4628000),
      (Standard ''E64-32ds_v4'', 5559000), (Standard ''E64-32ds_v5'', 5898000), (Standard ''E64-32s_v3'', 4368000),
      (Standard ''E64-32s_v4'', 4864000), (Standard ''E64-32s_v5'', 5161000), (Standard ''E64_v3'', 4368000),
      (Standard ''E64_v4'', 4864000), (Standard ''E64_v5'', 5161000), (Standard ''E64a_v4'', 5161000), (Standard ''E64ads_v5'', 5366000),
      (Standard ''E64as_v4'', 5161000), (Standard ''E64as_v5'', 4628000), (Standard ''E64bds_v5'', 6840000),
      (Standard ''E64bs_v5'', 6103000), (Standard ''E64d_v4'', 5559000), (Standard ''E64d_v5'', 5898000), (Standard ''E64ds_v4'', 5559000),
      (Standard ''E64ds_v5'', 5898000), (Standard ''E64i_v3'', 4368000), (Standard ''E64is_v3'', 4368000), (Standard ''E64s_v3'', 4368000),
      (Standard ''E64s_v4'', 4864000), (Standard ''E64s_v5'', 5161000), (Standard ''E8-2ads_v5'', 671000),
      (Standard ''E8-2as_v4'', 645000), (Standard ''E8-2as_v5'', 579000), (Standard ''E8-2ds_v4'', 695000),
      (Standard ''E8-2ds_v5'', 737000), (Standard ''E8-2s_v3'', 608000), (Standard ''E8-2s_v4'', 608000), (Standard ''E8-2s_v5'', 645000),
      (Standard ''E8-4ads_v5'', 671000), (Standard ''E8-4as_v4'', 645000), (Standard ''E8-4as_v5'', 579000),
      (Standard ''E8-4ds_v4'', 695000), (Standard ''E8-4ds_v5'', 737000), (Standard ''E8-4s_v3'', 608000), (Standard ''E8-4s_v4'', 608000),
      (Standard ''E8-4s_v5'', 645000), (Standard ''E80ids_v4'', 6948000), (Standard ''E80is_v4'', 6080000), (Standard ''E8_v3'', 608000),
      (Standard ''E8_v4'', 608000), (Standard ''E8_v5'', 645000), (Standard ''E8a_v4'', 645000), (Standard ''E8ads_v5'', 671000),
      (Standard ''E8as_v4'', 645000), (Standard ''E8as_v5'', 579000), (Standard ''E8bds_v5'', 855000), (Standard ''E8bs_v5'', 763000),
      (Standard ''E8d_v4'', 695000), (Standard ''E8d_v5'', 737000), (Standard ''E8ds_v4'', 695000), (Standard ''E8ds_v5'', 737000),
      (Standard ''E8s_v3'', 608000), (Standard ''E8s_v4'', 608000), (Standard ''E8s_v5'', 645000), (Standard ''E96-24ads_v5'', 8049000),
      (Standard ''E96-24as_v4'', 7741000), (Standard ''E96-24as_v5'', 6943000), (Standard ''E96-24ds_v5'', 8847000),
      (Standard ''E96-24s_v5'', 7741000), (Standard ''E96-48ads_v5'', 8049000), (Standard ''E96-48as_v4'', 7741000),
      (Standard ''E96-48as_v5'', 6943000), (Standard ''E96-48ds_v5'', 8847000), (Standard ''E96-48s_v5'', 7741000),
      (Standard ''E96_v5'', 7741000), (Standard ''E96a_v4'', 7741000), (Standard ''E96ads_v5'', 8049000), (Standard ''E96as_v4'', 7741000),
      (Standard ''E96as_v5'', 6943000), (Standard ''E96bds_v5'', 10260000), (Standard ''E96bs_v5'', 9155000),
      (Standard ''E96d_v5'', 8847000), (Standard ''E96ds_v5'', 8847000), (Standard ''E96iads_v5'', 8854000),
      (Standard ''E96ias_v4'', 7741000), (Standard ''E96ias_v5'', 7637000), (Standard ''E96s_v5'', 7741000), (Standard ''F1'', 54900),
      (Standard ''F16'', 878000), (Standard ''F16s'', 878000), (Standard ''F16s_v2'', 680000), (Standard ''F1s'', 54900),
      (Standard ''F2'', 110000), (Standard ''F2s'', 110000), (Standard ''F2s_v2'', 85000), (Standard ''F32s_v2'', 1360000),
      (Standard ''F4'', 219000), (Standard ''F48s_v2'', 2040000), (Standard ''F4s'', 219000), (Standard ''F4s_v2'', 170000),
      (Standard ''F64s_v2'', 2720000), (Standard ''F72s_v2'', 3060000), (Standard ''F8'', 439000), (Standard ''F8s'', 439000),
      (Standard ''F8s_v2'', 340000), (Standard ''L16as_v3'', 1597000), (Standard ''L16s_v3'', 1787000), (Standard ''L32as_v3'', 3195000),
      (Standard ''L32s_v3'', 3574000), (Standard ''L48as_v3'', 4792000), (Standard ''L48s_v3'', 5361000), (Standard ''L64as_v3'', 6390000),
      (Standard ''L64s_v3'', 7148000), (Standard ''L80as_v3'', 7987000), (Standard ''L80s_v3'', 8934000), (Standard ''L8as_v3'', 799000),
      (Standard ''L8s_v3'', 893000)]"

definition westindia :: priceTable where
  "westindia = westindia_1 @ westindia_2 @ westindia_3 @ westindia_4"

subsection \<open>westus\<close>

definition westus_1 :: priceTable where
  "westus_1 =
     [(''Basic_A0'', 18000), (''Basic_A1'', 31000), (''Basic_A2'', 81000), (''Basic_A3'', 188000), (''Basic_A4'', 376000),
      (''DCadsv5 Type 1'', 7515000), (''DCasv5 Type 1'', 6222000), (''DCdsv3 Type1'', 7022000), (''DCsv2 Type 1'', 986000),
      (''DCsv3 Type1'', 5914000), (''Dadsv5_Type1'', 7515000), (''Dasv4_Type1'', 5914000), (''Dasv4_Type2'', 6160000),
      (''Dasv5_Type1'', 6222000), (''Ddsv4_Type 1'', 4682000), (''Ddsv4_Type2'', 5559000), (''Ddsv5_Type1'', 7022000),
      (''Dsv3_Type3'', 4929000), (''Dsv3_Type4'', 6161000), (''Dsv4_Type1'', 4928000), (''Dsv4_Type2'', 5914000),
      (''Dsv5_Type1'', 6160000), (''ECadsv5 Type 1'', 8596000), (''ECasv5 Type 1'', 7318000), (''Eadsv5_Type1'', 7814000),
      (''Easv4_Type1'', 7392000), (''Easv4_Type2'', 7392000), (''Easv5_Type1'', 6653000), (''Ebdsv5-Type1'', 6653000),
      (''Ebsv5-Type1'', 5878000), (''Edsv4_Type 1'', 5702000), (''Edsv4_Type2'', 6772000), (''Edsv5_Type1'', 8554000),
      (''Esv3_Type3'', 4774000), (''Esv3_Type4'', 6468000), (''Esv4_Type1'', 4928000), (''Esv4_Type2'', 6468000),
      (''Esv5_Type1'', 7392000), (''Fsv2 Type3'', 4897000), (''Fsv2_Type2'', 4198000), (''Fsv2_Type4'', 5597000),
      (''Lasv3_Type1'', 7568000), (''Lsv2_Type1'', 7568000), (''Lsv3_Type1'', 8448000), (''Mdsmv2MedMem _Type1'', 38167000),
      (''Mdsv2MedMem_Type1'', 19076000), (''Ms_Type1'', 19069000), (''Msm_Type1'', 38172000), (''Msmv2MedMem Type1'', 37565000),
      (''Msmv2_Type1'', 141780000), (''Msv2MedMem Type1'', 18474000), (''Msv2_Type1'', 70899000), (''NVsv3_Type1'', 5016000),
      (Standard ''A0'', 20000), (Standard ''A1'', 60000), (Standard ''A1_v2'', 43000), (Standard ''A2'', 120000),
      (Standard ''A2_v2'', 91000), (Standard ''A2m_v2'', 149000), (Standard ''A3'', 240000), (Standard ''A4'', 480000),
      (Standard ''A4_v2'', 191000), (Standard ''A4m_v2'', 297000), (Standard ''A5'', 250000), (Standard ''A6'', 500000),
      (Standard ''A7'', 1000000), (Standard ''A8_v2'', 400000), (Standard ''A8m_v2'', 594000), (Standard ''B12ms'', 595000),
      (Standard ''B16als_v2'', 632000), (Standard ''B16as_v2'', 787000), (Standard ''B16ls_v2'', 776000), (Standard ''B16ms'', 794000),
      (Standard ''B16pls_v2'', 640000), (Standard ''B16ps_v2'', 714000), (Standard ''B16s_v2'', 794000), (Standard ''B1ls'', 6200),
      (Standard ''B1ms'', 24800), (Standard ''B1s'', 12400), (Standard ''B20ms'', 992000), (Standard ''B2als_v2'', 53800),
      (Standard ''B2as_v2'', 89200), (Standard ''B2ats_v2'', 11200), (Standard ''B2ls_v2'', 49600), (Standard ''B2ms'', 99200),
      (Standard ''B2pls_v2'', 49200), (Standard ''B2ps_v2'', 89200), (Standard ''B2pts_v2'', 10000), (Standard ''B2s'', 49600),
      (Standard ''B2s_v2'', 99200), (Standard ''B2ts_v2'', 21600), (Standard ''B32als_v2'', 1411000), (Standard ''B32as_v2'', 1574000),
      (Standard ''B32ls_v2'', 1405000), (Standard ''B32s_v2'', 1587000), (Standard ''B4als_v2'', 158000), (Standard ''B4as_v2'', 197000),
      (Standard ''B4ls_v2'', 176000), (Standard ''B4ms'', 198000), (Standard ''B4pls_v2'', 142000), (Standard ''B4ps_v2'', 178000),
      (Standard ''B4s_v2'', 198000), (Standard ''B8als_v2'', 316000), (Standard ''B8as_v2'', 394000), (Standard ''B8ls_v2'', 388000),
      (Standard ''B8ms'', 397000), (Standard ''B8pls_v2'', 283000), (Standard ''B8ps_v2'', 320000), (Standard ''B8s_v2'', 434000),
      (Standard ''D1'', 77000), (Standard ''D11'', 193000), (Standard ''D11_v2'', 185000), (Standard ''D11_v2_Promo'', 185000),
      (Standard ''D12'', 386000), (Standard ''D12_v2'', 370000), (Standard ''D12_v2_Promo'', 370000), (Standard ''D13'', 771000),
      (Standard ''D13_v2'', 741000), (Standard ''D13_v2_Promo'', 741000), (Standard ''D14'', 1542000), (Standard ''D14_v2'', 1482000),
      (Standard ''D14_v2_Promo'', 1482000), (Standard ''D15_v2'', 1852000), (Standard ''D15i_v2'', 1852000), (Standard ''D16_v3'', 936000),
      (Standard ''D16_v4'', 896000), (Standard ''D16_v5'', 896000), (Standard ''D16a_v4'', 896000), (Standard ''D16ads_v5'', 976000),
      (Standard ''D16as_v4'', 896000), (Standard ''D16as_v5'', 808000), (Standard ''D16d_v4'', 1064000), (Standard ''D16d_v5'', 1064000)]"

definition westus_2 :: priceTable where
  "westus_2 =
     [(Standard ''D16ds_v4'', 1064000), (Standard ''D16ds_v5'', 1064000), (Standard ''D16lds_v5'', 960000),
      (Standard ''D16ls_v5'', 848000), (Standard ''D16pds_v5'', 848000), (Standard ''D16plds_v5'', 768000),
      (Standard ''D16pls_v5'', 678000), (Standard ''D16ps_v5'', 717000), (Standard ''D16s_v3'', 936000), (Standard ''D16s_v4'', 896000),
      (Standard ''D16s_v5'', 896000), (Standard ''D1_v2'', 70000), (Standard ''D2'', 154000), (Standard ''D2_v2'', 140000),
      (Standard ''D2_v2_Promo'', 140000), (Standard ''D2_v3'', 117000), (Standard ''D2_v4'', 112000), (Standard ''D2_v5'', 112000),
      (Standard ''D2a_v4'', 112000), (Standard ''D2ads_v5'', 122000), (Standard ''D2as_v4'', 112000), (Standard ''D2as_v5'', 101000),
      (Standard ''D2d_v4'', 133000), (Standard ''D2d_v5'', 133000), (Standard ''D2ds_v4'', 133000), (Standard ''D2ds_v5'', 133000),
      (Standard ''D2lds_v5'', 120000), (Standard ''D2ls_v5'', 106000), (Standard ''D2pds_v5'', 106000), (Standard ''D2plds_v5'', 96000),
      (Standard ''D2pls_v5'', 84800), (Standard ''D2ps_v5'', 89600), (Standard ''D2s_v3'', 117000), (Standard ''D2s_v4'', 112000),
      (Standard ''D2s_v5'', 112000), (Standard ''D3'', 308000), (Standard ''D32-16s_v3'', 1872000), (Standard ''D32-8s_v3'', 1872000),
      (Standard ''D32_v3'', 1872000), (Standard ''D32_v4'', 1792000), (Standard ''D32_v5'', 1792000), (Standard ''D32a_v4'', 1792000),
      (Standard ''D32ads_v5'', 1952000), (Standard ''D32as_v4'', 1792000), (Standard ''D32as_v5'', 1616000),
      (Standard ''D32d_v4'', 2128000), (Standard ''D32d_v5'', 2128000), (Standard ''D32ds_v4'', 2128000), (Standard ''D32ds_v5'', 2128000),
      (Standard ''D32lds_v5'', 1920000), (Standard ''D32ls_v5'', 1696000), (Standard ''D32pds_v5'', 1696000),
      (Standard ''D32plds_v5'', 1536000), (Standard ''D32pls_v5'', 1357000), (Standard ''D32ps_v5'', 1434000),
      (Standard ''D32s_v3'', 1872000), (Standard ''D32s_v4'', 1792000), (Standard ''D32s_v5'', 1792000), (Standard ''D3_v2'', 279000),
      (Standard ''D3_v2_Promo'', 279000), (Standard ''D4'', 616000), (Standard ''D48_v3'', 2808000), (Standard ''D48_v4'', 2688000),
      (Standard ''D48_v5'', 2688000), (Standard ''D48a_v4'', 2688000), (Standard ''D48ads_v5'', 2928000), (Standard ''D48as_v4'', 2688000),
      (Standard ''D48as_v5'', 2424000), (Standard ''D48d_v4'', 3192000), (Standard ''D48d_v5'', 3192000), (Standard ''D48ds_v4'', 3192000),
      (Standard ''D48ds_v5'', 3192000), (Standard ''D48lds_v5'', 2880000), (Standard ''D48ls_v5'', 2544000),
      (Standard ''D48pds_v5'', 2544000), (Standard ''D48plds_v5'', 2304000), (Standard ''D48pls_v5'', 2035000),
      (Standard ''D48ps_v5'', 2150000), (Standard ''D48s_v3'', 2808000), (Standard ''D48s_v4'', 2688000), (Standard ''D48s_v5'', 2688000),
      (Standard ''D4_v2'', 559000), (Standard ''D4_v2_Promo'', 559000), (Standard ''D4_v3'', 234000), (Standard ''D4_v4'', 224000),
      (Standard ''D4_v5'', 224000), (Standard ''D4a_v4'', 224000), (Standard ''D4ads_v5'', 244000), (Standard ''D4as_v4'', 224000),
      (Standard ''D4as_v5'', 202000), (Standard ''D4d_v4'', 266000), (Standard ''D4d_v5'', 266000), (Standard ''D4ds_v4'', 266000),
      (Standard ''D4ds_v5'', 266000), (Standard ''D4lds_v5'', 240000), (Standard ''D4ls_v5'', 212000), (Standard ''D4pds_v5'', 212000),
      (Standard ''D4plds_v5'', 192000), (Standard ''D4pls_v5'', 170000), (Standard ''D4ps_v5'', 179000), (Standard ''D4s_v3'', 234000),
      (Standard ''D4s_v4'', 224000), (Standard ''D4s_v5'', 224000), (Standard ''D5_v2'', 1117000), (Standard ''D5_v2_Promo'', 1117000),
      (Standard ''D64-16s_v3'', 3744000), (Standard ''D64-32s_v3'', 3744000), (Standard ''D64_v3'', 3744000),
      (Standard ''D64_v4'', 3584000), (Standard ''D64_v5'', 3584000), (Standard ''D64a_v4'', 3584000), (Standard ''D64ads_v5'', 3904000),
      (Standard ''D64as_v4'', 3584000), (Standard ''D64as_v5'', 3232000), (Standard ''D64d_v4'', 4256000), (Standard ''D64d_v5'', 4256000),
      (Standard ''D64ds_v4'', 4256000), (Standard ''D64ds_v5'', 4256000), (Standard ''D64lds_v5'', 3840000),
      (Standard ''D64ls_v5'', 3392000), (Standard ''D64pds_v5'', 3392000), (Standard ''D64plds_v5'', 3072000),
      (Standard ''D64pls_v5'', 2714000), (Standard ''D64ps_v5'', 2867000), (Standard ''D64s_v3'', 3744000),
      (Standard ''D64s_v4'', 3584000), (Standard ''D64s_v5'', 3584000), (Standard ''D8_v3'', 468000), (Standard ''D8_v4'', 448000),
      (Standard ''D8_v5'', 448000), (Standard ''D8a_v4'', 448000), (Standard ''D8ads_v5'', 488000), (Standard ''D8as_v4'', 448000)]"

definition westus_3 :: priceTable where
  "westus_3 =
     [(Standard ''D8as_v5'', 404000), (Standard ''D8d_v4'', 532000), (Standard ''D8d_v5'', 532000), (Standard ''D8ds_v4'', 532000),
      (Standard ''D8ds_v5'', 532000), (Standard ''D8lds_v5'', 480000), (Standard ''D8ls_v5'', 424000), (Standard ''D8pds_v5'', 424000),
      (Standard ''D8plds_v5'', 384000), (Standard ''D8pls_v5'', 339000), (Standard ''D8ps_v5'', 358000), (Standard ''D8s_v3'', 468000),
      (Standard ''D8s_v4'', 448000), (Standard ''D8s_v5'', 448000), (Standard ''D96_v5'', 5376000), (Standard ''D96a_v4'', 5376000),
      (Standard ''D96ads_v5'', 5856000), (Standard ''D96as_v4'', 5376000), (Standard ''D96as_v5'', 4848000),
      (Standard ''D96d_v5'', 6384000), (Standard ''D96ds_v5'', 6384000), (Standard ''D96lds_v5'', 5760000),
      (Standard ''D96ls_v5'', 5088000), (Standard ''D96s_v5'', 5376000), (Standard ''DC16ads_cc_v5'', 976000),
      (Standard ''DC16ads_v5'', 976000), (Standard ''DC16as_cc_v5'', 808000), (Standard ''DC16as_v5'', 808000),
      (Standard ''DC16ds_v3'', 2128000), (Standard ''DC16s_v3'', 1792000), (Standard ''DC1ds_v3'', 133000), (Standard ''DC1s_v2'', 112000),
      (Standard ''DC1s_v3'', 112000), (Standard ''DC24ds_v3'', 3192000), (Standard ''DC24s_v3'', 2688000),
      (Standard ''DC2ads_v5'', 122000), (Standard ''DC2as_v5'', 101000), (Standard ''DC2ds_v3'', 266000), (Standard ''DC2s_v2'', 224000),
      (Standard ''DC2s_v3'', 224000), (Standard ''DC32ads_cc_v5'', 1952000), (Standard ''DC32ads_v5'', 1952000),
      (Standard ''DC32as_cc_v5'', 1616000), (Standard ''DC32as_v5'', 1616000), (Standard ''DC32ds_v3'', 4256000),
      (Standard ''DC32s_v3'', 3584000), (Standard ''DC48ads_cc_v5'', 2928000), (Standard ''DC48ads_v5'', 2928000),
      (Standard ''DC48as_cc_v5'', 2424000), (Standard ''DC48as_v5'', 2424000), (Standard ''DC48ds_v3'', 6384000),
      (Standard ''DC48s_v3'', 5376000), (Standard ''DC4ads_cc_v5'', 244000), (Standard ''DC4ads_v5'', 244000),
      (Standard ''DC4as_cc_v5'', 202000), (Standard ''DC4as_v5'', 202000), (Standard ''DC4ds_v3'', 532000), (Standard ''DC4s_v2'', 448000),
      (Standard ''DC4s_v3'', 448000), (Standard ''DC64ads_cc_v5'', 3904000), (Standard ''DC64ads_v5'', 3904000),
      (Standard ''DC64as_cc_v5'', 3232000), (Standard ''DC64as_v5'', 3232000), (Standard ''DC8_v2'', 896000),
      (Standard ''DC8ads_cc_v5'', 488000), (Standard ''DC8ads_v5'', 488000), (Standard ''DC8as_cc_v5'', 404000),
      (Standard ''DC8as_v5'', 404000), (Standard ''DC8ds_v3'', 1064000), (Standard ''DC8s_v3'', 896000),
      (Standard ''DC96ads_cc_v5'', 5856000), (Standard ''DC96ads_v5'', 5856000), (Standard ''DC96as_cc_v5'', 4848000),
      (Standard ''DC96as_v5'', 4848000), (Standard ''DS1'', 77000), (Standard ''DS11'', 193000), (Standard ''DS11-1_v2'', 185000),
      (Standard ''DS11_v2'', 185000), (Standard ''DS11_v2_Promo'', 185000), (Standard ''DS12'', 386000), (Standard ''DS12-1_v2'', 370000),
      (Standard ''DS12-2_v2'', 370000), (Standard ''DS12_v2'', 370000), (Standard ''DS12_v2_Promo'', 370000), (Standard ''DS13'', 771000),
      (Standard ''DS13-2_v2'', 741000), (Standard ''DS13-4_v2'', 741000), (Standard ''DS13_v2'', 741000),
      (Standard ''DS13_v2_Promo'', 741000), (Standard ''DS14'', 1542000), (Standard ''DS14-4_v2'', 1482000),
      (Standard ''DS14-8_v2'', 1482000), (Standard ''DS14_v2'', 1482000), (Standard ''DS14_v2_Promo'', 1482000),
      (Standard ''DS15_v2'', 1852000), (Standard ''DS15i_v2'', 1852000), (Standard ''DS1_v2'', 70000), (Standard ''DS2'', 154000),
      (Standard ''DS2_v2'', 140000), (Standard ''DS2_v2_Promo'', 140000), (Standard ''DS3'', 308000), (Standard ''DS3_v2'', 279000),
      (Standard ''DS3_v2_Promo'', 279000), (Standard ''DS4'', 616000), (Standard ''DS4_v2'', 559000), (Standard ''DS4_v2_Promo'', 559000),
      (Standard ''DS5_v2'', 1117000), (Standard ''DS5_v2_Promo'', 1117000), (Standard ''E104i_v5'', 8008000),
      (Standard ''E104id_v5'', 9266000), (Standard ''E104ids_v5'', 9266000), (Standard ''E104is_v5'', 8008000),
      (Standard ''E112iads_v5'', 9117000), (Standard ''E112ias_v5'', 7762000), (Standard ''E112ibds_v5'', 11642000),
      (Standard ''E112ibs_v5'', 10287000), (Standard ''E16-4ads_v5'', 1184000), (Standard ''E16-4as_v4'', 1120000),
      (Standard ''E16-4as_v5'', 1008000), (Standard ''E16-4ds_v4'', 1296000), (Standard ''E16-4ds_v5'', 1296000),
      (Standard ''E16-4s_v3'', 1120000), (Standard ''E16-4s_v4'', 1120000), (Standard ''E16-4s_v5'', 1120000),
      (Standard ''E16-8ads_v5'', 1184000), (Standard ''E16-8as_v4'', 1120000), (Standard ''E16-8as_v5'', 1008000),
      (Standard ''E16-8ds_v4'', 1296000), (Standard ''E16-8ds_v5'', 1296000), (Standard ''E16-8s_v3'', 1120000),
      (Standard ''E16-8s_v4'', 1120000), (Standard ''E16-8s_v5'', 1120000), (Standard ''E16_v3'', 1120000)]"

definition westus_4 :: priceTable where
  "westus_4 =
     [(Standard ''E16_v4'', 1120000), (Standard ''E16_v5'', 1120000), (Standard ''E16a_v4'', 1120000), (Standard ''E16ads_v5'', 1184000),
      (Standard ''E16as_v4'', 1120000), (Standard ''E16as_v5'', 1008000), (Standard ''E16bds_v5'', 1512000),
      (Standard ''E16bs_v5'', 1336000), (Standard ''E16d_v4'', 1296000), (Standard ''E16d_v5'', 1296000), (Standard ''E16ds_v4'', 1296000),
      (Standard ''E16ds_v5'', 1296000), (Standard ''E16pds_v5'', 1040000), (Standard ''E16ps_v5'', 896000),
      (Standard ''E16s_v3'', 1120000), (Standard ''E16s_v4'', 1120000), (Standard ''E16s_v5'', 1120000), (Standard ''E20_v3'', 1480000),
      (Standard ''E20_v4'', 1400000), (Standard ''E20_v5'', 1400000), (Standard ''E20a_v4'', 1400000), (Standard ''E20ads_v5'', 1480000),
      (Standard ''E20as_v4'', 1400000), (Standard ''E20as_v5'', 1260000), (Standard ''E20d_v4'', 1620000), (Standard ''E20d_v5'', 1620000),
      (Standard ''E20ds_v4'', 1620000), (Standard ''E20ds_v5'', 1620000), (Standard ''E20pds_v5'', 1300000),
      (Standard ''E20ps_v5'', 1120000), (Standard ''E20s_v3'', 1480000), (Standard ''E20s_v4'', 1400000), (Standard ''E20s_v5'', 1400000),
      (Standard ''E2_v3'', 148000), (Standard ''E2_v4'', 140000), (Standard ''E2_v5'', 140000), (Standard ''E2a_v4'', 140000),
      (Standard ''E2ads_v5'', 148000), (Standard ''E2as_v4'', 140000), (Standard ''E2as_v5'', 126000), (Standard ''E2bds_v5'', 189000),
      (Standard ''E2bs_v5'', 167000), (Standard ''E2d_v4'', 162000), (Standard ''E2d_v5'', 162000), (Standard ''E2ds_v4'', 162000),
      (Standard ''E2ds_v5'', 162000), (Standard ''E2pds_v5'', 130000), (Standard ''E2ps_v5'', 112000), (Standard ''E2s_v3'', 148000),
      (Standard ''E2s_v4'', 140000), (Standard ''E2s_v5'', 140000), (Standard ''E32-16ads_v5'', 2368000),
      (Standard ''E32-16as_v4'', 2240000), (Standard ''E32-16as_v5'', 2016000), (Standard ''E32-16ds_v4'', 2592000),
      (Standard ''E32-16ds_v5'', 2592000), (Standard ''E32-16s_v3'', 2240000), (Standard ''E32-16s_v4'', 2240000),
      (Standard ''E32-16s_v5'', 2240000), (Standard ''E32-8ads_v5'', 2368000), (Standard ''E32-8as_v4'', 2240000),
      (Standard ''E32-8as_v5'', 2016000), (Standard ''E32-8ds_v4'', 2592000), (Standard ''E32-8ds_v5'', 2592000),
      (Standard ''E32-8s_v3'', 2240000), (Standard ''E32-8s_v4'', 2240000), (Standard ''E32-8s_v5'', 2240000),
      (Standard ''E32_v3'', 2240000), (Standard ''E32_v4'', 2240000), (Standard ''E32_v5'', 2240000), (Standard ''E32a_v4'', 2240000),
      (Standard ''E32ads_v5'', 2368000), (Standard ''E32as_v4'', 2240000), (Standard ''E32as_v5'', 2016000),
      (Standard ''E32bds_v5'', 3024000), (Standard ''E32bs_v5'', 2672000), (Standard ''E32d_v4'', 2592000),
      (Standard ''E32d_v5'', 2592000), (Standard ''E32ds_v4'', 2592000), (Standard ''E32ds_v5'', 2592000),
      (Standard ''E32pds_v5'', 2080000), (Standard ''E32ps_v5'', 1792000), (Standard ''E32s_v3'', 2240000),
      (Standard ''E32s_v4'', 2240000), (Standard ''E32s_v5'', 2240000), (Standard ''E4-2ads_v5'', 296000),
      (Standard ''E4-2as_v4'', 280000), (Standard ''E4-2as_v5'', 252000), (Standard ''E4-2ds_v4'', 324000),
      (Standard ''E4-2ds_v5'', 324000), (Standard ''E4-2s_v3'', 296000), (Standard ''E4-2s_v4'', 280000), (Standard ''E4-2s_v5'', 280000),
      (Standard ''E48_v3'', 3360000), (Standard ''E48_v4'', 3360000), (Standard ''E48_v5'', 3360000), (Standard ''E48a_v4'', 3360000),
      (Standard ''E48ads_v5'', 3552000), (Standard ''E48as_v4'', 3360000), (Standard ''E48as_v5'', 3024000),
      (Standard ''E48bds_v5'', 4536000), (Standard ''E48bs_v5'', 4008000), (Standard ''E48d_v4'', 3888000),
      (Standard ''E48d_v5'', 3888000), (Standard ''E48ds_v4'', 3888000), (Standard ''E48ds_v5'', 3888000), (Standard ''E48s_v3'', 3360000),
      (Standard ''E48s_v4'', 3360000), (Standard ''E48s_v5'', 3360000), (Standard ''E4_v3'', 296000), (Standard ''E4_v4'', 280000),
      (Standard ''E4_v5'', 280000), (Standard ''E4a_v4'', 280000), (Standard ''E4ads_v5'', 296000), (Standard ''E4as_v4'', 280000),
      (Standard ''E4as_v5'', 252000), (Standard ''E4bds_v5'', 378000), (Standard ''E4bs_v5'', 334000), (Standard ''E4d_v4'', 324000),
      (Standard ''E4d_v5'', 324000), (Standard ''E4ds_v4'', 324000), (Standard ''E4ds_v5'', 324000), (Standard ''E4pds_v5'', 260000),
      (Standard ''E4ps_v5'', 224000), (Standard ''E4s_v3'', 296000), (Standard ''E4s_v4'', 280000), (Standard ''E4s_v5'', 280000),
      (Standard ''E64-16ads_v5'', 4736000), (Standard ''E64-16as_v4'', 4480000), (Standard ''E64-16as_v5'', 4032000),
      (Standard ''E64-16ds_v4'', 5184000), (Standard ''E64-16ds_v5'', 5184000), (Standard ''E64-16s_v3'', 4032000)]"

definition westus_5 :: priceTable where
  "westus_5 =
     [(Standard ''E64-16s_v4'', 4480000), (Standard ''E64-16s_v5'', 4480000), (Standard ''E64-32ads_v5'', 4736000),
      (Standard ''E64-32as_v4'', 4480000), (Standard ''E64-32as_v5'', 4032000), (Standard ''E64-32ds_v4'', 5184000),
      (Standard ''E64-32ds_v5'', 5184000), (Standard ''E64-32s_v3'', 4032000), (Standard ''E64-32s_v4'', 4480000),
      (Standard ''E64-32s_v5'', 4480000), (Standard ''E64_v3'', 4032000), (Standard ''E64_v4'', 4480000), (Standard ''E64_v5'', 4480000),
      (Standard ''E64a_v4'', 4480000), (Standard ''E64ads_v5'', 4736000), (Standard ''E64as_v4'', 4480000),
      (Standard ''E64as_v5'', 4032000), (Standard ''E64bds_v5'', 6048000), (Standard ''E64bs_v5'', 5344000),
      (Standard ''E64d_v4'', 5184000), (Standard ''E64d_v5'', 5184000), (Standard ''E64ds_v4'', 5184000), (Standard ''E64ds_v5'', 5184000),
      (Standard ''E64i_v3'', 4032000), (Standard ''E64is_v3'', 4032000), (Standard ''E64s_v3'', 4032000), (Standard ''E64s_v4'', 4480000),
      (Standard ''E64s_v5'', 4480000), (Standard ''E8-2ads_v5'', 592000), (Standard ''E8-2as_v4'', 560000),
      (Standard ''E8-2as_v5'', 504000), (Standard ''E8-2ds_v4'', 648000), (Standard ''E8-2ds_v5'', 648000),
      (Standard ''E8-2s_v3'', 560000), (Standard ''E8-2s_v4'', 560000), (Standard ''E8-2s_v5'', 560000), (Standard ''E8-4ads_v5'', 592000),
      (Standard ''E8-4as_v4'', 560000), (Standard ''E8-4as_v5'', 504000), (Standard ''E8-4ds_v4'', 648000),
      (Standard ''E8-4ds_v5'', 648000), (Standard ''E8-4s_v3'', 560000), (Standard ''E8-4s_v4'', 560000), (Standard ''E8-4s_v5'', 560000),
      (Standard ''E80ids_v4'', 6480000), (Standard ''E80is_v4'', 5599000), (Standard ''E8_v3'', 560000), (Standard ''E8_v4'', 560000),
      (Standard ''E8_v5'', 560000), (Standard ''E8a_v4'', 560000), (Standard ''E8ads_v5'', 592000), (Standard ''E8as_v4'', 560000),
      (Standard ''E8as_v5'', 504000), (Standard ''E8bds_v5'', 756000), (Standard ''E8bs_v5'', 668000), (Standard ''E8d_v4'', 648000),
      (Standard ''E8d_v5'', 648000), (Standard ''E8ds_v4'', 648000), (Standard ''E8ds_v5'', 648000), (Standard ''E8pds_v5'', 520000),
      (Standard ''E8ps_v5'', 448000), (Standard ''E8s_v3'', 560000), (Standard ''E8s_v4'', 560000), (Standard ''E8s_v5'', 560000),
      (Standard ''E96-24ads_v5'', 7104000), (Standard ''E96-24as_v4'', 6720000), (Standard ''E96-24as_v5'', 6048000),
      (Standard ''E96-24ds_v5'', 7776000), (Standard ''E96-24s_v5'', 6720000), (Standard ''E96-48ads_v5'', 7104000),
      (Standard ''E96-48as_v4'', 6720000), (Standard ''E96-48as_v5'', 6048000), (Standard ''E96-48ds_v5'', 7776000),
      (Standard ''E96-48s_v5'', 6720000), (Standard ''E96_v5'', 6720000), (Standard ''E96a_v4'', 6720000),
      (Standard ''E96ads_v5'', 7104000), (Standard ''E96as_v4'', 6720000), (Standard ''E96as_v5'', 6048000),
      (Standard ''E96bds_v5'', 9072000), (Standard ''E96bs_v5'', 8016000), (Standard ''E96d_v5'', 7776000),
      (Standard ''E96ds_v5'', 7776000), (Standard ''E96iads_v5'', 7814000), (Standard ''E96ias_v5'', 6653000),
      (Standard ''E96s_v5'', 6720000), (Standard ''EC16ads_cc_v5'', 1184000), (Standard ''EC16ads_v5'', 1184000),
      (Standard ''EC16as_cc_v5'', 1008000), (Standard ''EC16as_v5'', 1008000), (Standard ''EC20ads_cc_v5'', 1480000),
      (Standard ''EC20ads_v5'', 1480000), (Standard ''EC20as_cc_v5'', 1260000), (Standard ''EC20as_v5'', 1260000),
      (Standard ''EC2ads_v5'', 148000), (Standard ''EC2as_v5'', 126000), (Standard ''EC32ads_cc_v5'', 2368000),
      (Standard ''EC32ads_v5'', 2368000), (Standard ''EC32as_cc_v5'', 2016000), (Standard ''EC32as_v5'', 2016000),
      (Standard ''EC48ads_cc_v5'', 3552000), (Standard ''EC48ads_v5'', 3552000), (Standard ''EC48as_cc_v5'', 3024000),
      (Standard ''EC48as_v5'', 3024000), (Standard ''EC4ads_cc_v5'', 296000), (Standard ''EC4ads_v5'', 296000),
      (Standard ''EC4as_cc_v5'', 252000), (Standard ''EC4as_v5'', 252000), (Standard ''EC64ads_cc_v5'', 4736000),
      (Standard ''EC64ads_v5'', 4736000), (Standard ''EC64as_cc_v5'', 4032000), (Standard ''EC64as_v5'', 4032000),
      (Standard ''EC8ads_cc_v5'', 592000), (Standard ''EC8ads_v5'', 592000), (Standard ''EC8as_cc_v5'', 504000),
      (Standard ''EC8as_v5'', 504000), (Standard ''EC96ads_cc_v5'', 7104000), (Standard ''EC96ads_v5'', 7104000),
      (Standard ''EC96as_cc_v5'', 6048000), (Standard ''EC96as_v5'', 6048000), (Standard ''EC96iads_v5'', 7814000),
      (Standard ''EC96ias_v5'', 6653000), (Standard ''F1'', 62000), (Standard ''F16'', 996000), (Standard ''F16s'', 996000),
      (Standard ''F16s_v2'', 848000), (Standard ''F1s'', 62000), (Standard ''F2'', 124000), (Standard ''F2s'', 124000),
      (Standard ''F2s_v2'', 106000), (Standard ''F32s_v2'', 1696000), (Standard ''F4'', 249000), (Standard ''F48s_v2'', 2544000)]"

definition westus_6 :: priceTable where
  "westus_6 =
     [(Standard ''F4s'', 249000), (Standard ''F4s_v2'', 212000), (Standard ''F64s_v2'', 3392000), (Standard ''F72s_v2'', 3816000),
      (Standard ''F8'', 498000), (Standard ''F8s'', 498000), (Standard ''F8s_v2'', 424000), (Standard ''G1'', 610000),
      (Standard ''G2'', 1220000), (Standard ''G3'', 2440000), (Standard ''G4'', 4880000), (Standard ''G5'', 8690000),
      (Standard ''GS1'', 610000), (Standard ''GS2'', 1220000), (Standard ''GS3'', 2440000), (Standard ''GS4'', 4880000),
      (Standard ''GS4-4'', 4880000), (Standard ''GS4-8'', 4880000), (Standard ''GS5'', 8690000), (Standard ''GS5-16'', 8690000),
      (Standard ''GS5-8'', 8690000), (Standard ''H16'', 1941000), (Standard ''H16m'', 2601000), (Standard ''H16mr'', 2861000),
      (Standard ''H16r'', 2136000), (Standard ''H8'', 971000), (Standard ''H8m'', 1301000), (Standard ''L16as_v3'', 1376000),
      (Standard ''L16s'', 1376000), (Standard ''L16s_v2'', 1376000), (Standard ''L16s_v3'', 1536000), (Standard ''L32as_v3'', 2752000),
      (Standard ''L32s'', 2752000), (Standard ''L32s_v2'', 2752000), (Standard ''L32s_v3'', 3072000), (Standard ''L48as_v3'', 4128000),
      (Standard ''L48s_v2'', 4128000), (Standard ''L48s_v3'', 4608000), (Standard ''L4s'', 344000), (Standard ''L64as_v3'', 5504000),
      (Standard ''L64s_v2'', 5504000), (Standard ''L64s_v3'', 6144000), (Standard ''L80as_v3'', 6880000), (Standard ''L80s_v2'', 6880000),
      (Standard ''L80s_v3'', 7680000), (Standard ''L88is_v2'', 7568000), (Standard ''L8as_v3'', 688000), (Standard ''L8s'', 688000),
      (Standard ''L8s_v2'', 688000), (Standard ''L8s_v3'', 768000), (Standard ''L96s_v2'', 8256000), (Standard ''M128'', 17339000),
      (Standard ''M128-32ms'', 34694000), (Standard ''M128-64ms'', 34694000), (Standard ''M128dms_v2'', 34697000),
      (Standard ''M128ds_v2'', 17342000), (Standard ''M128m'', 34694000), (Standard ''M128ms'', 34694000),
      (Standard ''M128ms_v2'', 34150000), (Standard ''M128s'', 17339000), (Standard ''M128s_v2'', 16795000),
      (Standard ''M16-4ms'', 3995000), (Standard ''M16-8ms'', 3995000), (Standard ''M16ms'', 3995000), (Standard ''M16s'', 3103000),
      (Standard ''M192idms_v2'', 41683000), (Standard ''M192ids_v2'', 20841000), (Standard ''M192ims_v2'', 41136000),
      (Standard ''M192is_v2'', 20294000), (Standard ''M208-104ms_v2'', 58006000), (Standard ''M208-104s_v2'', 29003000),
      (Standard ''M208-52ms_v2'', 58006000), (Standard ''M208-52s_v2'', 29003000), (Standard ''M208ms_v2'', 58006000),
      (Standard ''M208s_v2'', 29003000), (Standard ''M32-16ms'', 7990000), (Standard ''M32-8ms'', 7990000),
      (Standard ''M32dms_v2'', 7990000), (Standard ''M32ls'', 3201000), (Standard ''M32ms'', 7990000), (Standard ''M32ms_v2'', 7853000),
      (Standard ''M32s'', 6206000), (Standard ''M32ts'', 3016000), (Standard ''M416-104ms_v2'', 128900000),
      (Standard ''M416-104s_v2'', 64454000), (Standard ''M416-208ms_v2'', 128900000), (Standard ''M416-208s_v2'', 64454000),
      (Standard ''M416is_v2'', 64454000), (Standard ''M416ms_v2'', 128900000), (Standard ''M416s_8_v2'', 66110000),
      (Standard ''M416s_v2'', 64454000), (Standard ''M64'', 8670000), (Standard ''M64-16ms'', 17347000), (Standard ''M64-32ms'', 17347000),
      (Standard ''M64dms_v2'', 13442000), (Standard ''M64ds_v2'', 8670000), (Standard ''M64ls'', 6403000), (Standard ''M64m'', 17347000),
      (Standard ''M64ms'', 17347000), (Standard ''M64ms_v2'', 13168000), (Standard ''M64s'', 8670000), (Standard ''M64s_v2'', 8396000),
      (Standard ''M8-2ms'', 1997000), (Standard ''M8-4ms'', 1997000), (Standard ''M8ms'', 1997000), (Standard ''NC12s_v3'', 7956000),
      (Standard ''NC16as_T4_v3'', 1445000), (Standard ''NC24ads_A100_v4'', 4775000), (Standard ''NC24rs_v3'', 17503000),
      (Standard ''NC24s_v3'', 15912000), (Standard ''NC48ads_A100_v4'', 9550000), (Standard ''NC4as_T4_v3'', 631000),
      (Standard ''NC64as_T4_v3'', 5222000), (Standard ''NC6s_v3'', 3978000), (Standard ''NC8as_T4_v3'', 902000),
      (Standard ''NC96ads_A100_v4'', 19100000), (Standard ''ND96ams_A100_v4'', 42601000), (Standard ''ND96amsr_A100_v4'', 42601000),
      (Standard ''NV12ads_A10_v5'', 1180000), (Standard ''NV12s_v2'', 1534000), (Standard ''NV12s_v3'', 1140000),
      (Standard ''NV18ads_A10_v5'', 2080000), (Standard ''NV24s_v2'', 3069000), (Standard ''NV24s_v3'', 2280000),
      (Standard ''NV36adms_A10_v5'', 5876000), (Standard ''NV36ads_A10_v5'', 4160000), (Standard ''NV48s_v3'', 4560000),
      (Standard ''NV6ads_A10_v5'', 590000), (Standard ''NV6s_v2'', 767000), (Standard ''NV72ads_A10_v5'', 8476000)]"

definition westus :: priceTable where
  "westus = westus_1 @ westus_2 @ westus_3 @ westus_4 @ westus_5 @ westus_6"

subsection \<open>westus2\<close>

definition westus2_1 :: priceTable where
  "westus2_1 =
     [(''Basic_A0'', 18000), (''Basic_A1'', 23000), (''Basic_A2'', 68000), (''Basic_A3'', 176000), (''Basic_A4'', 352000),
      (''DCdsv3 Type1'', 5966000), (''DCsv2 Type 1'', 845000), (''DCsv3 Type1'', 5069000), (''Dadsv5_Type1'', 6345000),
      (''Dasv4_Type1'', 5069000), (''Dasv4_Type2'', 5280000), (''Dasv5_Type1'', 5298000), (''Ddsv4_Type 1'', 3978000),
      (''Ddsv4_Type2'', 4723000), (''Ddsv5_Type1'', 5966000), (''Dsv3_Type3'', 4225000), (''Dsv3_Type4'', 5281000),
      (''Dsv4_Type1'', 4224000), (''Dsv4_Type2'', 5069000), (''Dsv5_Type1'', 5280000), (''Eadsv5_Type1'', 6917000),
      (''Easv4_Type1'', 6653000), (''Easv4_Type2'', 6653000), (''Easv5_Type1'', 5966000), (''Ebdsv5-Type1'', 5878000),
      (''Ebsv5-Type1'', 5245000), (''Edsv4_Type 1'', 5069000), (''Edsv4_Type2'', 6019000), (''Edsv5_Type1'', 7603000),
      (''Esv3_Type3'', 4297000), (''Esv3_Type4'', 5822000), (''Esv4_Type1'', 4435000), (''Esv4_Type2'', 5821000),
      (''Esv5_Type1'', 6653000), (''FXmds Type1'', 4910000), (''Fsv2 Type3'', 3927000), (''Fsv2_Type2'', 3366000),
      (''Fsv2_Type4'', 4468000), (''Lasv3_Type1'', 6864000), (''Lsv2_Type1'', 6864000), (''Lsv3_Type1'', 7678000),
      (''Mdsmv2MedMem _Type1'', 29359000), (''Mdsv2MedMem_Type1'', 14674000), (''Ms_Type1'', 14669000), (''Msm_Type1'', 29363000),
      (''Msmv2MedMem Type1'', 28896000), (''Msmv2_Type1'', 109060000), (''Msv2MedMem Type1'', 14211000), (''Msv2_Type1'', 54538000),
      (''NDasrA100v4_Type1'', 29917000), (''NVasv4_Type1'', 7176000), (''NVsv3_Type1'', 5016000), (Standard ''A0'', 20000),
      (Standard ''A1'', 51000), (Standard ''A1_v2'', 36000), (Standard ''A2'', 101000), (Standard ''A2_v2'', 76000),
      (Standard ''A2m_v2'', 99000), (Standard ''A3'', 202000), (Standard ''A4'', 405000), (Standard ''A4_v2'', 159000),
      (Standard ''A4m_v2'', 208000), (Standard ''A5'', 220000), (Standard ''A6'', 440000), (Standard ''A7'', 880000),
      (Standard ''A8_v2'', 333000), (Standard ''A8m_v2'', 437000), (Standard ''B12ms'', 499000), (Standard ''B16als_v2'', 533000),
      (Standard ''B16as_v2'', 675000), (Standard ''B16ls_v2'', 663000), (Standard ''B16ms'', 666000), (Standard ''B16pls_v2'', 476000),
      (Standard ''B16ps_v2'', 538000), (Standard ''B16s_v2'', 739000), (Standard ''B1ls'', 5200), (Standard ''B1ms'', 20700),
      (Standard ''B1s'', 10400), (Standard ''B20ms'', 832000), (Standard ''B2als_v2'', 46800), (Standard ''B2as_v2'', 75200),
      (Standard ''B2ats_v2'', 9400), (Standard ''B2ls_v2'', 50800), (Standard ''B2ms'', 83200), (Standard ''B2pls_v2'', 33600),
      (Standard ''B2ps_v2'', 67200), (Standard ''B2pts_v2'', 8400), (Standard ''B2s'', 41600), (Standard ''B2s_v2'', 92400),
      (Standard ''B2ts_v2'', 19600), (Standard ''B32als_v2'', 1213000), (Standard ''B32as_v2'', 1203000), (Standard ''B32ls_v2'', 1179000),
      (Standard ''B32s_v2'', 1478000), (Standard ''B4als_v2'', 152000), (Standard ''B4as_v2'', 169000), (Standard ''B4ls_v2'', 147000),
      (Standard ''B4ms'', 166000), (Standard ''B4pls_v2'', 137000), (Standard ''B4ps_v2'', 134000), (Standard ''B4s_v2'', 185000),
      (Standard ''B8als_v2'', 266000), (Standard ''B8as_v2'', 301000), (Standard ''B8ls_v2'', 332000), (Standard ''B8ms'', 333000),
      (Standard ''B8pls_v2'', 238000), (Standard ''B8ps_v2'', 269000), (Standard ''B8s_v2'', 370000), (Standard ''D11_v2'', 149000),
      (Standard ''D11_v2_Promo'', 149000), (Standard ''D12_v2'', 299000), (Standard ''D12_v2_Promo'', 299000),
      (Standard ''D13_v2'', 598000), (Standard ''D13_v2_Promo'', 598000), (Standard ''D14_v2'', 1196000),
      (Standard ''D14_v2_Promo'', 1196000), (Standard ''D15_v2'', 1495000), (Standard ''D15i_v2'', 1495000), (Standard ''D16_v3'', 768000),
      (Standard ''D16_v4'', 768000), (Standard ''D16_v5'', 768000), (Standard ''D16a_v4'', 768000), (Standard ''D16ads_v5'', 824000),
      (Standard ''D16as_v4'', 768000), (Standard ''D16as_v5'', 688000)]"

definition westus2_2 :: priceTable where
  "westus2_2 =
     [(Standard ''D16d_v4'', 904000), (Standard ''D16d_v5'', 904000), (Standard ''D16ds_v4'', 904000), (Standard ''D16ds_v5'', 904000),
      (Standard ''D16lds_v5'', 768000), (Standard ''D16ls_v5'', 680000), (Standard ''D16pds_v5'', 723000),
      (Standard ''D16plds_v5'', 614000), (Standard ''D16pls_v5'', 544000), (Standard ''D16ps_v5'', 616000), (Standard ''D16s_v3'', 768000),
      (Standard ''D16s_v4'', 768000), (Standard ''D16s_v5'', 768000), (Standard ''D1_v2'', 57000), (Standard ''D2_v2'', 114000),
      (Standard ''D2_v2_Promo'', 114000), (Standard ''D2_v3'', 96000), (Standard ''D2_v4'', 96000), (Standard ''D2_v5'', 96000),
      (Standard ''D2a_v4'', 96000), (Standard ''D2ads_v5'', 103000), (Standard ''D2as_v4'', 96000), (Standard ''D2as_v5'', 86000),
      (Standard ''D2d_v4'', 113000), (Standard ''D2d_v5'', 113000), (Standard ''D2ds_v4'', 113000), (Standard ''D2ds_v5'', 113000),
      (Standard ''D2lds_v5'', 96000), (Standard ''D2ls_v5'', 85000), (Standard ''D2pds_v5'', 90400), (Standard ''D2plds_v5'', 76800),
      (Standard ''D2pls_v5'', 68000), (Standard ''D2ps_v5'', 77000), (Standard ''D2s_v3'', 96000), (Standard ''D2s_v4'', 96000),
      (Standard ''D2s_v5'', 96000), (Standard ''D32-16s_v3'', 1536000), (Standard ''D32-8s_v3'', 1536000), (Standard ''D32_v3'', 1536000),
      (Standard ''D32_v4'', 1536000), (Standard ''D32_v5'', 1536000), (Standard ''D32a_v4'', 1536000), (Standard ''D32ads_v5'', 1648000),
      (Standard ''D32as_v4'', 1536000), (Standard ''D32as_v5'', 1376000), (Standard ''D32d_v4'', 1808000), (Standard ''D32d_v5'', 1808000),
      (Standard ''D32ds_v4'', 1808000), (Standard ''D32ds_v5'', 1808000), (Standard ''D32lds_v5'', 1536000),
      (Standard ''D32ls_v5'', 1360000), (Standard ''D32pds_v5'', 1446000), (Standard ''D32plds_v5'', 1229000),
      (Standard ''D32pls_v5'', 1088000), (Standard ''D32ps_v5'', 1232000), (Standard ''D32s_v3'', 1536000),
      (Standard ''D32s_v4'', 1536000), (Standard ''D32s_v5'', 1536000), (Standard ''D3_v2'', 229000), (Standard ''D3_v2_Promo'', 229000),
      (Standard ''D48_v3'', 2304000), (Standard ''D48_v4'', 2304000), (Standard ''D48_v5'', 2304000), (Standard ''D48a_v4'', 2304000),
      (Standard ''D48ads_v5'', 2472000), (Standard ''D48as_v4'', 2304000), (Standard ''D48as_v5'', 2064000),
      (Standard ''D48d_v4'', 2712000), (Standard ''D48d_v5'', 2712000), (Standard ''D48ds_v4'', 2712000), (Standard ''D48ds_v5'', 2712000),
      (Standard ''D48lds_v5'', 2304000), (Standard ''D48ls_v5'', 2040000), (Standard ''D48pds_v5'', 2170000),
      (Standard ''D48plds_v5'', 1843000), (Standard ''D48pls_v5'', 1632000), (Standard ''D48ps_v5'', 1848000),
      (Standard ''D48s_v3'', 2304000), (Standard ''D48s_v4'', 2304000), (Standard ''D48s_v5'', 2304000), (Standard ''D4_v2'', 458000),
      (Standard ''D4_v2_Promo'', 458000), (Standard ''D4_v3'', 192000), (Standard ''D4_v4'', 192000), (Standard ''D4_v5'', 192000),
      (Standard ''D4a_v4'', 192000), (Standard ''D4ads_v5'', 206000), (Standard ''D4as_v4'', 192000), (Standard ''D4as_v5'', 172000),
      (Standard ''D4d_v4'', 226000), (Standard ''D4d_v5'', 226000), (Standard ''D4ds_v4'', 226000), (Standard ''D4ds_v5'', 226000),
      (Standard ''D4lds_v5'', 192000), (Standard ''D4ls_v5'', 170000), (Standard ''D4pds_v5'', 181000), (Standard ''D4plds_v5'', 154000),
      (Standard ''D4pls_v5'', 136000), (Standard ''D4ps_v5'', 154000), (Standard ''D4s_v3'', 192000), (Standard ''D4s_v4'', 192000),
      (Standard ''D4s_v5'', 192000), (Standard ''D5_v2'', 916000), (Standard ''D5_v2_Promo'', 916000), (Standard ''D64-16s_v3'', 3072000),
      (Standard ''D64-32s_v3'', 3072000), (Standard ''D64_v3'', 3072000), (Standard ''D64_v4'', 3072000), (Standard ''D64_v5'', 3072000),
      (Standard ''D64a_v4'', 3072000), (Standard ''D64ads_v5'', 3296000), (Standard ''D64as_v4'', 3072000),
      (Standard ''D64as_v5'', 2752000), (Standard ''D64d_v4'', 3616000), (Standard ''D64d_v5'', 3616000), (Standard ''D64ds_v4'', 3616000),
      (Standard ''D64ds_v5'', 3616000), (Standard ''D64lds_v5'', 3072000), (Standard ''D64ls_v5'', 2720000),
      (Standard ''D64pds_v5'', 2893000), (Standard ''D64plds_v5'', 2458000), (Standard ''D64pls_v5'', 2176000),
      (Standard ''D64ps_v5'', 2464000), (Standard ''D64s_v3'', 3072000), (Standard ''D64s_v4'', 3072000)]"

definition westus2_3 :: priceTable where
  "westus2_3 =
     [(Standard ''D64s_v5'', 3072000), (Standard ''D8_v3'', 384000), (Standard ''D8_v4'', 384000), (Standard ''D8_v5'', 384000),
      (Standard ''D8a_v4'', 384000), (Standard ''D8ads_v5'', 412000), (Standard ''D8as_v4'', 384000), (Standard ''D8as_v5'', 344000),
      (Standard ''D8d_v4'', 452000), (Standard ''D8d_v5'', 452000), (Standard ''D8ds_v4'', 452000), (Standard ''D8ds_v5'', 452000),
      (Standard ''D8lds_v5'', 384000), (Standard ''D8ls_v5'', 340000), (Standard ''D8pds_v5'', 362000), (Standard ''D8plds_v5'', 307000),
      (Standard ''D8pls_v5'', 272000), (Standard ''D8ps_v5'', 308000), (Standard ''D8s_v3'', 384000), (Standard ''D8s_v4'', 384000),
      (Standard ''D8s_v5'', 384000), (Standard ''D96_v5'', 4608000), (Standard ''D96a_v4'', 4608000), (Standard ''D96ads_v5'', 4944000),
      (Standard ''D96as_v4'', 4608000), (Standard ''D96as_v5'', 4128000), (Standard ''D96d_v5'', 5424000),
      (Standard ''D96ds_v5'', 5424000), (Standard ''D96lds_v5'', 4608000), (Standard ''D96ls_v5'', 4080000),
      (Standard ''D96s_v5'', 4608000), (Standard ''DC16ds_v3'', 1808000), (Standard ''DC16s_v3'', 1536000),
      (Standard ''DC1ds_v3'', 113000), (Standard ''DC1s_v2'', 96000), (Standard ''DC1s_v3'', 96000), (Standard ''DC24ds_v3'', 2712000),
      (Standard ''DC24s_v3'', 2304000), (Standard ''DC2ds_v3'', 226000), (Standard ''DC2s_v2'', 192000), (Standard ''DC2s_v3'', 192000),
      (Standard ''DC32ds_v3'', 3616000), (Standard ''DC32s_v3'', 3072000), (Standard ''DC48ds_v3'', 5424000),
      (Standard ''DC48s_v3'', 4608000), (Standard ''DC4ds_v3'', 452000), (Standard ''DC4s_v2'', 384000), (Standard ''DC4s_v3'', 384000),
      (Standard ''DC8_v2'', 768000), (Standard ''DC8ds_v3'', 904000), (Standard ''DC8s_v3'', 768000), (Standard ''DS11-1_v2'', 149000),
      (Standard ''DS11_v2'', 149000), (Standard ''DS11_v2_Promo'', 149000), (Standard ''DS12-1_v2'', 299000),
      (Standard ''DS12-2_v2'', 299000), (Standard ''DS12_v2'', 299000), (Standard ''DS12_v2_Promo'', 299000),
      (Standard ''DS13-2_v2'', 598000), (Standard ''DS13-4_v2'', 598000), (Standard ''DS13_v2'', 598000),
      (Standard ''DS13_v2_Promo'', 598000), (Standard ''DS14-4_v2'', 1196000), (Standard ''DS14-8_v2'', 1196000),
      (Standard ''DS14_v2'', 1196000), (Standard ''DS14_v2_Promo'', 1196000), (Standard ''DS15_v2'', 1495000),
      (Standard ''DS15i_v2'', 1495000), (Standard ''DS1_v2'', 57000), (Standard ''DS2_v2'', 114000), (Standard ''DS2_v2_Promo'', 114000),
      (Standard ''DS3_v2'', 229000), (Standard ''DS3_v2_Promo'', 229000), (Standard ''DS4_v2'', 458000),
      (Standard ''DS4_v2_Promo'', 458000), (Standard ''DS5_v2'', 916000), (Standard ''DS5_v2_Promo'', 916000),
      (Standard ''E104i_v5'', 7207000), (Standard ''E104id_v5'', 8237000), (Standard ''E104ids_v5'', 8237000),
      (Standard ''E104is_v5'', 7207000), (Standard ''E112iads_v5'', 8070000), (Standard ''E112ias_v5'', 6961000),
      (Standard ''E112ibds_v5'', 10287000), (Standard ''E112ibs_v5'', 9178000), (Standard ''E16-4ads_v5'', 1048000),
      (Standard ''E16-4as_v4'', 1008000), (Standard ''E16-4as_v5'', 904000), (Standard ''E16-4ds_v4'', 1152000),
      (Standard ''E16-4ds_v5'', 1152000), (Standard ''E16-4s_v3'', 1008000), (Standard ''E16-4s_v4'', 1008000),
      (Standard ''E16-4s_v5'', 1008000), (Standard ''E16-8ads_v5'', 1048000), (Standard ''E16-8as_v4'', 1008000),
      (Standard ''E16-8as_v5'', 904000), (Standard ''E16-8ds_v4'', 1152000), (Standard ''E16-8ds_v5'', 1152000),
      (Standard ''E16-8s_v3'', 1008000), (Standard ''E16-8s_v4'', 1008000), (Standard ''E16-8s_v5'', 1008000),
      (Standard ''E16_v3'', 1008000), (Standard ''E16_v4'', 1008000), (Standard ''E16_v5'', 1008000), (Standard ''E16a_v4'', 1008000),
      (Standard ''E16ads_v5'', 1048000), (Standard ''E16as_v4'', 1008000), (Standard ''E16as_v5'', 904000),
      (Standard ''E16bds_v5'', 1336000), (Standard ''E16bs_v5'', 1192000), (Standard ''E16d_v4'', 1152000),
      (Standard ''E16d_v5'', 1152000), (Standard ''E16ds_v4'', 1152000), (Standard ''E16ds_v5'', 1152000),
      (Standard ''E16pds_v5'', 922000), (Standard ''E16ps_v5'', 806000), (Standard ''E16s_v3'', 1008000), (Standard ''E16s_v4'', 1008000),
      (Standard ''E16s_v5'', 1008000), (Standard ''E20_v3'', 1260000), (Standard ''E20_v4'', 1260000), (Standard ''E20_v5'', 1260000),
      (Standard ''E20a_v4'', 1260000), (Standard ''E20ads_v5'', 1310000), (Standard ''E20as_v4'', 1260000)]"

definition westus2_4 :: priceTable where
  "westus2_4 =
     [(Standard ''E20as_v5'', 1130000), (Standard ''E20d_v4'', 1440000), (Standard ''E20d_v5'', 1440000), (Standard ''E20ds_v4'', 1440000),
      (Standard ''E20ds_v5'', 1440000), (Standard ''E20pds_v5'', 1152000), (Standard ''E20ps_v5'', 1008000),
      (Standard ''E20s_v3'', 1260000), (Standard ''E20s_v4'', 1260000), (Standard ''E20s_v5'', 1260000), (Standard ''E2_v3'', 126000),
      (Standard ''E2_v4'', 126000), (Standard ''E2_v5'', 126000), (Standard ''E2a_v4'', 126000), (Standard ''E2ads_v5'', 131000),
      (Standard ''E2as_v4'', 126000), (Standard ''E2as_v5'', 113000), (Standard ''E2bds_v5'', 167000), (Standard ''E2bs_v5'', 149000),
      (Standard ''E2d_v4'', 144000), (Standard ''E2d_v5'', 144000), (Standard ''E2ds_v4'', 144000), (Standard ''E2ds_v5'', 144000),
      (Standard ''E2pds_v5'', 115000), (Standard ''E2ps_v5'', 101000), (Standard ''E2s_v3'', 126000), (Standard ''E2s_v4'', 126000),
      (Standard ''E2s_v5'', 126000), (Standard ''E32-16ads_v5'', 2096000), (Standard ''E32-16as_v4'', 2016000),
      (Standard ''E32-16as_v5'', 1808000), (Standard ''E32-16ds_v4'', 2304000), (Standard ''E32-16ds_v5'', 2304000),
      (Standard ''E32-16s_v3'', 2016000), (Standard ''E32-16s_v4'', 2016000), (Standard ''E32-16s_v5'', 2016000),
      (Standard ''E32-8ads_v5'', 2096000), (Standard ''E32-8as_v4'', 2016000), (Standard ''E32-8as_v5'', 1808000),
      (Standard ''E32-8ds_v4'', 2304000), (Standard ''E32-8ds_v5'', 2304000), (Standard ''E32-8s_v3'', 2016000),
      (Standard ''E32-8s_v4'', 2016000), (Standard ''E32-8s_v5'', 2016000), (Standard ''E32_v3'', 2016000), (Standard ''E32_v4'', 2016000),
      (Standard ''E32_v5'', 2016000), (Standard ''E32a_v4'', 2016000), (Standard ''E32ads_v5'', 2096000), (Standard ''E32as_v4'', 2016000),
      (Standard ''E32as_v5'', 1808000), (Standard ''E32bds_v5'', 2672000), (Standard ''E32bs_v5'', 2384000),
      (Standard ''E32d_v4'', 2304000), (Standard ''E32d_v5'', 2304000), (Standard ''E32ds_v4'', 2304000), (Standard ''E32ds_v5'', 2304000),
      (Standard ''E32pds_v5'', 1843000), (Standard ''E32ps_v5'', 1613000), (Standard ''E32s_v3'', 2016000),
      (Standard ''E32s_v4'', 2016000), (Standard ''E32s_v5'', 2016000), (Standard ''E4-2ads_v5'', 262000),
      (Standard ''E4-2as_v4'', 252000), (Standard ''E4-2as_v5'', 226000), (Standard ''E4-2ds_v4'', 288000),
      (Standard ''E4-2ds_v5'', 288000), (Standard ''E4-2s_v3'', 252000), (Standard ''E4-2s_v4'', 252000), (Standard ''E4-2s_v5'', 252000),
      (Standard ''E48_v3'', 3024000), (Standard ''E48_v4'', 3024000), (Standard ''E48_v5'', 3024000), (Standard ''E48a_v4'', 3024000),
      (Standard ''E48ads_v5'', 3144000), (Standard ''E48as_v4'', 3024000), (Standard ''E48as_v5'', 2712000),
      (Standard ''E48bds_v5'', 4008000), (Standard ''E48bs_v5'', 3576000), (Standard ''E48d_v4'', 3456000),
      (Standard ''E48d_v5'', 3456000), (Standard ''E48ds_v4'', 3456000), (Standard ''E48ds_v5'', 3456000), (Standard ''E48s_v3'', 3024000),
      (Standard ''E48s_v4'', 3024000), (Standard ''E48s_v5'', 3024000), (Standard ''E4_v3'', 252000), (Standard ''E4_v4'', 252000),
      (Standard ''E4_v5'', 252000), (Standard ''E4a_v4'', 252000), (Standard ''E4ads_v5'', 262000), (Standard ''E4as_v4'', 252000),
      (Standard ''E4as_v5'', 226000), (Standard ''E4bds_v5'', 334000), (Standard ''E4bs_v5'', 298000), (Standard ''E4d_v4'', 288000),
      (Standard ''E4d_v5'', 288000), (Standard ''E4ds_v4'', 288000), (Standard ''E4ds_v5'', 288000), (Standard ''E4pds_v5'', 230000),
      (Standard ''E4ps_v5'', 202000), (Standard ''E4s_v3'', 252000), (Standard ''E4s_v4'', 252000), (Standard ''E4s_v5'', 252000),
      (Standard ''E64-16ads_v5'', 4192000), (Standard ''E64-16as_v4'', 4032000), (Standard ''E64-16as_v5'', 3616000),
      (Standard ''E64-16ds_v4'', 4608000), (Standard ''E64-16ds_v5'', 4608000), (Standard ''E64-16s_v3'', 3629000),
      (Standard ''E64-16s_v4'', 4032000), (Standard ''E64-16s_v5'', 4032000), (Standard ''E64-32ads_v5'', 4192000),
      (Standard ''E64-32as_v4'', 4032000), (Standard ''E64-32as_v5'', 3616000), (Standard ''E64-32ds_v4'', 4608000),
      (Standard ''E64-32ds_v5'', 4608000), (Standard ''E64-32s_v3'', 3629000), (Standard ''E64-32s_v4'', 4032000),
      (Standard ''E64-32s_v5'', 4032000), (Standard ''E64_v3'', 3629000), (Standard ''E64_v4'', 4032000), (Standard ''E64_v5'', 4032000),
      (Standard ''E64a_v4'', 4032000), (Standard ''E64ads_v5'', 4192000)]"

definition westus2_5 :: priceTable where
  "westus2_5 =
     [(Standard ''E64as_v4'', 4032000), (Standard ''E64as_v5'', 3616000), (Standard ''E64bds_v5'', 5344000),
      (Standard ''E64bs_v5'', 4768000), (Standard ''E64d_v4'', 4608000), (Standard ''E64d_v5'', 4608000), (Standard ''E64ds_v4'', 4608000),
      (Standard ''E64ds_v5'', 4608000), (Standard ''E64i_v3'', 3629000), (Standard ''E64is_v3'', 3629000), (Standard ''E64s_v3'', 3629000),
      (Standard ''E64s_v4'', 4032000), (Standard ''E64s_v5'', 4032000), (Standard ''E8-2ads_v5'', 524000),
      (Standard ''E8-2as_v4'', 504000), (Standard ''E8-2as_v5'', 452000), (Standard ''E8-2ds_v4'', 576000),
      (Standard ''E8-2ds_v5'', 576000), (Standard ''E8-2s_v3'', 504000), (Standard ''E8-2s_v4'', 504000), (Standard ''E8-2s_v5'', 504000),
      (Standard ''E8-4ads_v5'', 524000), (Standard ''E8-4as_v4'', 504000), (Standard ''E8-4as_v5'', 452000),
      (Standard ''E8-4ds_v4'', 576000), (Standard ''E8-4ds_v5'', 576000), (Standard ''E8-4s_v3'', 504000), (Standard ''E8-4s_v4'', 504000),
      (Standard ''E8-4s_v5'', 504000), (Standard ''E80ids_v4'', 5760000), (Standard ''E80is_v4'', 5040000), (Standard ''E8_v3'', 504000),
      (Standard ''E8_v4'', 504000), (Standard ''E8_v5'', 504000), (Standard ''E8a_v4'', 504000), (Standard ''E8ads_v5'', 524000),
      (Standard ''E8as_v4'', 504000), (Standard ''E8as_v5'', 452000), (Standard ''E8bds_v5'', 668000), (Standard ''E8bs_v5'', 596000),
      (Standard ''E8d_v4'', 576000), (Standard ''E8d_v5'', 576000), (Standard ''E8ds_v4'', 576000), (Standard ''E8ds_v5'', 576000),
      (Standard ''E8pds_v5'', 461000), (Standard ''E8ps_v5'', 403000), (Standard ''E8s_v3'', 504000), (Standard ''E8s_v4'', 504000),
      (Standard ''E8s_v5'', 504000), (Standard ''E96-24ads_v5'', 6288000), (Standard ''E96-24as_v4'', 6048000),
      (Standard ''E96-24as_v5'', 5424000), (Standard ''E96-24ds_v5'', 6912000), (Standard ''E96-24s_v5'', 6048000),
      (Standard ''E96-48ads_v5'', 6288000), (Standard ''E96-48as_v4'', 6048000), (Standard ''E96-48as_v5'', 5424000),
      (Standard ''E96-48ds_v5'', 6912000), (Standard ''E96-48s_v5'', 6048000), (Standard ''E96_v5'', 6048000),
      (Standard ''E96a_v4'', 6048000), (Standard ''E96ads_v5'', 6288000), (Standard ''E96as_v4'', 6048000),
      (Standard ''E96as_v5'', 5424000), (Standard ''E96bds_v5'', 8016000), (Standard ''E96bs_v5'', 7152000),
      (Standard ''E96d_v5'', 6912000), (Standard ''E96ds_v5'', 6912000), (Standard ''E96iads_v5'', 6917000),
      (Standard ''E96ias_v5'', 5966000), (Standard ''E96s_v5'', 6048000), (Standard ''F1'', 49700), (Standard ''F16'', 796000),
      (Standard ''F16s'', 796000), (Standard ''F16s_v2'', 677000), (Standard ''F1s'', 49700), (Standard ''F2'', 99000),
      (Standard ''F2s'', 99000), (Standard ''F2s_v2'', 84600), (Standard ''F32s_v2'', 1353000), (Standard ''F4'', 199000),
      (Standard ''F48s_v2'', 2030000), (Standard ''F4s'', 199000), (Standard ''F4s_v2'', 169000), (Standard ''F64s_v2'', 2706000),
      (Standard ''F72s_v2'', 3045000), (Standard ''F8'', 398000), (Standard ''F8s'', 398000), (Standard ''F8s_v2'', 338000),
      (Standard ''FX12mds'', 1116000), (Standard ''FX24mds'', 2232000), (Standard ''FX36mds'', 3348000), (Standard ''FX48mds'', 4464000),
      (Standard ''FX4mds'', 372000), (Standard ''G1'', 490000), (Standard ''G2'', 981000), (Standard ''G3'', 1961000),
      (Standard ''G4'', 3922000), (Standard ''G5'', 7820000), (Standard ''GS1'', 490000), (Standard ''GS2'', 981000),
      (Standard ''GS3'', 1961000), (Standard ''GS4'', 3922000), (Standard ''GS4-4'', 3922000), (Standard ''GS4-8'', 3922000),
      (Standard ''GS5'', 7820000), (Standard ''GS5-16'', 7820000), (Standard ''GS5-8'', 7820000), (Standard ''H16'', 1591000),
      (Standard ''H16m'', 2132000), (Standard ''H16mr'', 2345000), (Standard ''H16r'', 1750000), (Standard ''H8'', 796000),
      (Standard ''H8m'', 1066000), (Standard ''HB120-16rs_v2'', 3600000), (Standard ''HB120-32rs_v2'', 3600000),
      (Standard ''HB120-64rs_v2'', 3600000), (Standard ''HB120-96rs_v2'', 3600000), (Standard ''HB120rs_v2'', 3600000),
      (Standard ''HC44-16rs'', 3168000), (Standard ''HC44-32rs'', 3168000), (Standard ''HC44rs'', 3168000),
      (Standard ''L16as_v3'', 1248000), (Standard ''L16s'', 1248000), (Standard ''L16s_v2'', 1248000)]"

definition westus2_6 :: priceTable where
  "westus2_6 =
     [(Standard ''L16s_v3'', 1396000), (Standard ''L32as_v3'', 2496000), (Standard ''L32s'', 2496000), (Standard ''L32s_v2'', 2496000),
      (Standard ''L32s_v3'', 2792000), (Standard ''L48as_v3'', 3744000), (Standard ''L48s_v2'', 3744000), (Standard ''L48s_v3'', 4188000),
      (Standard ''L4s'', 312000), (Standard ''L64as_v3'', 4992000), (Standard ''L64s_v2'', 4992000), (Standard ''L64s_v3'', 5584000),
      (Standard ''L80as_v3'', 6240000), (Standard ''L80s_v2'', 6240000), (Standard ''L80s_v3'', 6980000), (Standard ''L88is_v2'', 6864000),
      (Standard ''L8as_v3'', 624000), (Standard ''L8s'', 624000), (Standard ''L8s_v2'', 624000), (Standard ''L8s_v3'', 698000),
      (Standard ''M128'', 13338000), (Standard ''M128-32ms'', 26688000), (Standard ''M128-64ms'', 26688000),
      (Standard ''M128dms_v2'', 26690000), (Standard ''M128ds_v2'', 13340000), (Standard ''M128m'', 26688000),
      (Standard ''M128ms'', 26688000), (Standard ''M128ms_v2'', 26269000), (Standard ''M128s'', 13338000),
      (Standard ''M128s_v2'', 12919000), (Standard ''M16-4ms'', 3073000), (Standard ''M16-8ms'', 3073000), (Standard ''M16ms'', 3073000),
      (Standard ''M16s'', 2387000), (Standard ''M192idms_v2'', 32064000), (Standard ''M192ids_v2'', 16032000),
      (Standard ''M192ims_v2'', 31643000), (Standard ''M192is_v2'', 15611000), (Standard ''M208-104ms_v2'', 44620000),
      (Standard ''M208-104s_v2'', 22310000), (Standard ''M208-52ms_v2'', 44620000), (Standard ''M208-52s_v2'', 22310000),
      (Standard ''M208ms_v2'', 44620000), (Standard ''M208s_v2'', 22310000), (Standard ''M32-16ms'', 6146000),
      (Standard ''M32-8ms'', 6146000), (Standard ''M32dms_v2'', 6146000), (Standard ''M32ls'', 2873000), (Standard ''M32ms'', 6146000),
      (Standard ''M32ms_v2'', 6041000), (Standard ''M32s'', 3335000), (Standard ''M32ts'', 2707000),
      (Standard ''M416-104ms_v2'', 99150000), (Standard ''M416-104s_v2'', 49580000), (Standard ''M416-208ms_v2'', 99150000),
      (Standard ''M416-208s_v2'', 49580000), (Standard ''M416is_v2'', 49580000), (Standard ''M416ms_v2'', 99150000),
      (Standard ''M416s_8_v2'', 66110000), (Standard ''M416s_v2'', 49580000), (Standard ''M64'', 6669000),
      (Standard ''M64-16ms'', 10337000), (Standard ''M64-32ms'', 10337000), (Standard ''M64dms_v2'', 10340000),
      (Standard ''M64ds_v2'', 6669000), (Standard ''M64ls'', 5415000), (Standard ''M64m'', 10337000), (Standard ''M64ms'', 10337000),
      (Standard ''M64ms_v2'', 10130000), (Standard ''M64s'', 6669000), (Standard ''M64s_v2'', 6459000), (Standard ''M8-2ms'', 1536500),
      (Standard ''M8-4ms'', 1536500), (Standard ''M8ms'', 1536500), (Standard ''NC12'', 1800000), (Standard ''NC12s_v2'', 4140000),
      (Standard ''NC12s_v3'', 6120000), (Standard ''NC16as_T4_v3'', 1204000), (Standard ''NC24'', 3600000),
      (Standard ''NC24ads_A100_v4'', 3673000), (Standard ''NC24r'', 3960000), (Standard ''NC24rs_v2'', 9108000),
      (Standard ''NC24rs_v3'', 13460000), (Standard ''NC24s_v2'', 8280000), (Standard ''NC24s_v3'', 12240000),
      (Standard ''NC48ads_A100_v4'', 7346000), (Standard ''NC4as_T4_v3'', 526000), (Standard ''NC6'', 900000),
      (Standard ''NC64as_T4_v3'', 4352000), (Standard ''NC6s_v2'', 2070000), (Standard ''NC6s_v3'', 3060000),
      (Standard ''NC8as_T4_v3'', 752000), (Standard ''NC96ads_A100_v4'', 14692000), (Standard ''ND12s'', 4140000),
      (Standard ''ND24rs'', 9108000), (Standard ''ND24s'', 8280000), (Standard ''ND40rs_v2'', 22032000), (Standard ''ND6s'', 2070000),
      (Standard ''ND96amsr_A100_v4'', 32770000), (Standard ''ND96asr_A100_v4'', 27197000), (Standard ''ND96asr_v4'', 27197000),
      (Standard ''NP10s'', 1650000), (Standard ''NP20s'', 3300000), (Standard ''NP40s'', 6600000), (Standard ''NV12'', 2185000),
      (Standard ''NV12ads_A10_v5'', 908000), (Standard ''NV12s_v3'', 1140000), (Standard ''NV16as_v4'', 932000),
      (Standard ''NV18ads_A10_v5'', 1600000), (Standard ''NV24'', 4370000), (Standard ''NV24s_v3'', 2280000),
      (Standard ''NV32as_v4'', 1864000), (Standard ''NV36adms_A10_v5'', 4520000), (Standard ''NV36ads_A10_v5'', 3200000),
      (Standard ''NV48s_v3'', 4560000), (Standard ''NV4as_v4'', 233000), (Standard ''NV6'', 1092000), (Standard ''NV6ads_A10_v5'', 454000),
      (Standard ''NV72ads_A10_v5'', 6520000), (Standard ''NV8as_v4'', 466000), (Standard ''PB12s'', 1660000),
      (Standard ''PB24s'', 3320000), (Standard ''PB6s'', 830000)]"

definition westus2 :: priceTable where
  "westus2 = westus2_1 @ westus2_2 @ westus2_3 @ westus2_4 @ westus2_5 @ westus2_6"

subsection \<open>westus3\<close>

definition westus3_1 :: priceTable where
  "westus3_1 =
     [(''Dadsv5_Type1'', 6345000), (''Dasv4_Type1'', 5280000), (''Dasv4_Type2'', 5280000), (''Dasv5_Type1'', 5298000),
      (''Ddsv4_Type 1'', 3978000), (''Ddsv4_Type2'', 4723000), (''Ddsv5_Type1'', 5966000), (''Dsv3_Type3'', 4225000),
      (''Dsv3_Type4'', 5281000), (''Dsv4_Type1'', 4224000), (''Dsv4_Type2'', 5069000), (''Dsv5_Type1'', 5280000),
      (''Eadsv5_Type1'', 6917000), (''Easv4_Type1'', 6653000), (''Easv4_Type2'', 6653000), (''Easv5_Type1'', 5966000),
      (''Ebdsv5-Type1'', 5878000), (''Ebsv5-Type1'', 5245000), (''Edsv4_Type 1'', 5069000), (''Edsv4_Type2'', 6019000),
      (''Edsv5_Type1'', 7603000), (''Esv3_Type3'', 5545000), (''Esv3_Type4'', 5822000), (''Esv4_Type1'', 4435000),
      (''Esv4_Type2'', 5821000), (''Esv5_Type1'', 6653000), (''FXmds Type1'', 5570000), (''Fsv2 Type3'', 3927000),
      (''Fsv2_Type2'', 3366000), (''Fsv2_Type4'', 4468000), (''Lasv3_Type1'', 6864000), (''Lsv2_Type1'', 6864000),
      (''Lsv3_Type1'', 7678000), (''Mdsmv2MedMem _Type1'', 29359000), (''Mdsv2MedMem_Type1'', 14674000), (''Msmv2MedMem Type1'', 28896000),
      (''Msmv2_Type1'', 109060000), (''Msv2MedMem Type1'', 14211000), (''Msv2_Type1'', 54538000), (''NDamsrA100v4_Type1'', 36047000),
      (''NDasrA100v4_Type1'', 29917000), (''NVasv4_Type1'', 7176000), (Standard ''A1_v2'', 36000), (Standard ''A2_v2'', 76000),
      (Standard ''A2m_v2'', 99000), (Standard ''A4_v2'', 159000), (Standard ''A4m_v2'', 208000), (Standard ''A8_v2'', 333000),
      (Standard ''A8m_v2'', 437000), (Standard ''B12ms'', 499000), (Standard ''B16als_v2'', 533000), (Standard ''B16as_v2'', 602000),
      (Standard ''B16ls_v2'', 663000), (Standard ''B16ms'', 666000), (Standard ''B16pls_v2'', 425000), (Standard ''B16ps_v2'', 554000),
      (Standard ''B16s_v2'', 666000), (Standard ''B1ls'', 5200), (Standard ''B1ms'', 20700), (Standard ''B1s'', 10400),
      (Standard ''B20ms'', 832000), (Standard ''B2als_v2'', 46800), (Standard ''B2as_v2'', 75200), (Standard ''B2ats_v2'', 18600),
      (Standard ''B2ls_v2'', 50800), (Standard ''B2ms'', 83200), (Standard ''B2pls_v2'', 39200), (Standard ''B2ps_v2'', 69200),
      (Standard ''B2pts_v2'', 16700), (Standard ''B2s'', 41600), (Standard ''B2s_v2'', 92400), (Standard ''B2ts_v2'', 10400),
      (Standard ''B32als_v2'', 1065000), (Standard ''B32as_v2'', 1203000), (Standard ''B32ls_v2'', 1326000),
      (Standard ''B32s_v2'', 1331000), (Standard ''B4als_v2'', 133000), (Standard ''B4as_v2'', 169000), (Standard ''B4ls_v2'', 147000),
      (Standard ''B4ms'', 166000), (Standard ''B4pls_v2'', 106000), (Standard ''B4ps_v2'', 138000), (Standard ''B4s_v2'', 166000),
      (Standard ''B8als_v2'', 266000), (Standard ''B8as_v2'', 338000), (Standard ''B8ls_v2'', 295000), (Standard ''B8ms'', 333000),
      (Standard ''B8pls_v2'', 213000), (Standard ''B8ps_v2'', 277000), (Standard ''B8s_v2'', 370000), (Standard ''D1'', 77000),
      (Standard ''D11'', 192000), (Standard ''D11_v2'', 149000), (Standard ''D12'', 385000), (Standard ''D12_v2'', 299000),
      (Standard ''D13'', 770000), (Standard ''D13_v2'', 598000), (Standard ''D14'', 1540000), (Standard ''D14_v2'', 1196000),
      (Standard ''D15_v2'', 1495000), (Standard ''D15i_v2'', 1495000), (Standard ''D16_v3'', 768000), (Standard ''D16_v4'', 768000),
      (Standard ''D16_v5'', 768000), (Standard ''D16a_v4'', 768000), (Standard ''D16ads_v5'', 824000), (Standard ''D16as_v4'', 768000),
      (Standard ''D16as_v5'', 688000), (Standard ''D16as_v5_Promo'', 717000), (Standard ''D16d_v4'', 904000),
      (Standard ''D16d_v5'', 904000), (Standard ''D16ds_v4'', 904000), (Standard ''D16ds_v5'', 904000), (Standard ''D16lds_v5'', 768000),
      (Standard ''D16ls_v5'', 680000), (Standard ''D16pds_v5'', 723000), (Standard ''D16plds_v5'', 614000),
      (Standard ''D16pls_v5'', 544000), (Standard ''D16ps_v5'', 616000), (Standard ''D16s_v3'', 768000), (Standard ''D16s_v4'', 768000),
      (Standard ''D16s_v5'', 768000), (Standard ''D1_v2'', 57000), (Standard ''D2'', 154000), (Standard ''D2_v2'', 114000),
      (Standard ''D2_v3'', 96000), (Standard ''D2_v4'', 96000), (Standard ''D2_v5'', 96000), (Standard ''D2a_v4'', 96000),
      (Standard ''D2ads_v5'', 103000), (Standard ''D2as_v4'', 96000), (Standard ''D2as_v5'', 86000), (Standard ''D2as_v5_Promo'', 89600),
      (Standard ''D2d_v4'', 113000), (Standard ''D2d_v5'', 113000), (Standard ''D2ds_v4'', 113000), (Standard ''D2ds_v5'', 113000),
      (Standard ''D2lds_v5'', 96000), (Standard ''D2ls_v5'', 85000)]"

definition westus3_2 :: priceTable where
  "westus3_2 =
     [(Standard ''D2pds_v5'', 90400), (Standard ''D2plds_v5'', 76800), (Standard ''D2pls_v5'', 68000), (Standard ''D2ps_v5'', 77000),
      (Standard ''D2s_v3'', 96000), (Standard ''D2s_v4'', 96000), (Standard ''D2s_v5'', 96000), (Standard ''D3'', 308000),
      (Standard ''D32-16s_v3'', 1536000), (Standard ''D32-8s_v3'', 1536000), (Standard ''D32_v3'', 1536000),
      (Standard ''D32_v4'', 1536000), (Standard ''D32_v5'', 1536000), (Standard ''D32a_v4'', 1536000), (Standard ''D32ads_v5'', 1648000),
      (Standard ''D32as_v4'', 1536000), (Standard ''D32as_v5'', 1376000), (Standard ''D32as_v5_Promo'', 1434000),
      (Standard ''D32d_v4'', 1808000), (Standard ''D32d_v5'', 1808000), (Standard ''D32ds_v4'', 1808000), (Standard ''D32ds_v5'', 1808000),
      (Standard ''D32lds_v5'', 1536000), (Standard ''D32ls_v5'', 1360000), (Standard ''D32pds_v5'', 1446000),
      (Standard ''D32plds_v5'', 1229000), (Standard ''D32pls_v5'', 1088000), (Standard ''D32ps_v5'', 1232000),
      (Standard ''D32s_v3'', 1536000), (Standard ''D32s_v4'', 1536000), (Standard ''D32s_v5'', 1536000), (Standard ''D3_v2'', 229000),
      (Standard ''D4'', 616000), (Standard ''D48_v3'', 2304000), (Standard ''D48_v4'', 2304000), (Standard ''D48_v5'', 2304000),
      (Standard ''D48a_v4'', 2304000), (Standard ''D48ads_v5'', 2472000), (Standard ''D48as_v4'', 2304000),
      (Standard ''D48as_v5'', 2064000), (Standard ''D48as_v5_Promo'', 2150000), (Standard ''D48d_v4'', 2712000),
      (Standard ''D48d_v5'', 2712000), (Standard ''D48ds_v4'', 2712000), (Standard ''D48ds_v5'', 2712000),
      (Standard ''D48lds_v5'', 2304000), (Standard ''D48ls_v5'', 2040000), (Standard ''D48pds_v5'', 2170000),
      (Standard ''D48plds_v5'', 1843000), (Standard ''D48pls_v5'', 1632000), (Standard ''D48ps_v5'', 1848000),
      (Standard ''D48s_v3'', 2304000), (Standard ''D48s_v4'', 2304000), (Standard ''D48s_v5'', 2304000), (Standard ''D4_v2'', 458000),
      (Standard ''D4_v3'', 192000), (Standard ''D4_v4'', 192000), (Standard ''D4_v5'', 192000), (Standard ''D4a_v4'', 192000),
      (Standard ''D4ads_v5'', 206000), (Standard ''D4as_v4'', 192000), (Standard ''D4as_v5'', 172000),
      (Standard ''D4as_v5_Promo'', 179000), (Standard ''D4d_v4'', 226000), (Standard ''D4d_v5'', 226000), (Standard ''D4ds_v4'', 226000),
      (Standard ''D4ds_v5'', 226000), (Standard ''D4lds_v5'', 192000), (Standard ''D4ls_v5'', 170000), (Standard ''D4pds_v5'', 181000),
      (Standard ''D4plds_v5'', 154000), (Standard ''D4pls_v5'', 136000), (Standard ''D4ps_v5'', 154000), (Standard ''D4s_v3'', 192000),
      (Standard ''D4s_v4'', 192000), (Standard ''D4s_v5'', 192000), (Standard ''D5_v2'', 916000), (Standard ''D64-16s_v3'', 3072000),
      (Standard ''D64-32s_v3'', 3072000), (Standard ''D64_v3'', 3072000), (Standard ''D64_v4'', 3072000), (Standard ''D64_v5'', 3072000),
      (Standard ''D64a_v4'', 3072000), (Standard ''D64ads_v5'', 3296000), (Standard ''D64as_v4'', 3072000),
      (Standard ''D64as_v5'', 2752000), (Standard ''D64as_v5_Promo'', 2867000), (Standard ''D64d_v4'', 3616000),
      (Standard ''D64d_v5'', 3616000), (Standard ''D64ds_v4'', 3616000), (Standard ''D64ds_v5'', 3616000),
      (Standard ''D64lds_v5'', 3072000), (Standard ''D64ls_v5'', 2720000), (Standard ''D64pds_v5'', 2893000),
      (Standard ''D64plds_v5'', 2458000), (Standard ''D64pls_v5'', 2176000), (Standard ''D64ps_v5'', 2464000),
      (Standard ''D64s_v3'', 3072000), (Standard ''D64s_v4'', 3072000), (Standard ''D64s_v5'', 3072000), (Standard ''D8_v3'', 384000),
      (Standard ''D8_v4'', 384000), (Standard ''D8_v5'', 384000), (Standard ''D8a_v4'', 384000), (Standard ''D8ads_v5'', 412000),
      (Standard ''D8as_v4'', 384000), (Standard ''D8as_v5'', 344000), (Standard ''D8as_v5_Promo'', 358000), (Standard ''D8d_v4'', 452000),
      (Standard ''D8d_v5'', 452000), (Standard ''D8ds_v4'', 452000), (Standard ''D8ds_v5'', 452000), (Standard ''D8lds_v5'', 384000),
      (Standard ''D8ls_v5'', 340000), (Standard ''D8pds_v5'', 362000), (Standard ''D8plds_v5'', 307000), (Standard ''D8pls_v5'', 272000),
      (Standard ''D8ps_v5'', 308000), (Standard ''D8s_v3'', 384000), (Standard ''D8s_v4'', 384000), (Standard ''D8s_v5'', 384000),
      (Standard ''D96_v5'', 4608000), (Standard ''D96a_v4'', 4608000), (Standard ''D96ads_v5'', 4944000), (Standard ''D96as_v4'', 4608000),
      (Standard ''D96as_v5'', 4128000), (Standard ''D96as_v5_Promo'', 4301000), (Standard ''D96d_v5'', 5424000),
      (Standard ''D96ds_v5'', 5424000), (Standard ''D96lds_v5'', 4608000), (Standard ''D96ls_v5'', 4080000),
      (Standard ''D96s_v5'', 4608000), (Standard ''DS1'', 77000), (Standard ''DS11'', 192000), (Standard ''DS11-1_v2'', 149000),
      (Standard ''DS11_v2'', 149000), (Standard ''DS11_v2_Promo'', 149000), (Standard ''DS12'', 385000), (Standard ''DS12-1_v2'', 299000)]"

definition westus3_3 :: priceTable where
  "westus3_3 =
     [(Standard ''DS12-2_v2'', 299000), (Standard ''DS12_v2'', 299000), (Standard ''DS12_v2_Promo'', 299000), (Standard ''DS13'', 770000),
      (Standard ''DS13-2_v2'', 598000), (Standard ''DS13-4_v2'', 598000), (Standard ''DS13_v2'', 598000),
      (Standard ''DS13_v2_Promo'', 598000), (Standard ''DS14'', 1540000), (Standard ''DS14-4_v2'', 1196000),
      (Standard ''DS14-8_v2'', 1196000), (Standard ''DS14_v2'', 1196000), (Standard ''DS14_v2_Promo'', 1196000),
      (Standard ''DS15_v2'', 1495000), (Standard ''DS15i_v2'', 1495000), (Standard ''DS1_v2'', 57000), (Standard ''DS2'', 154000),
      (Standard ''DS2_v2'', 114000), (Standard ''DS2_v2_Promo'', 114000), (Standard ''DS3'', 308000), (Standard ''DS3_v2'', 229000),
      (Standard ''DS3_v2_Promo'', 229000), (Standard ''DS4'', 616000), (Standard ''DS4_v2'', 458000), (Standard ''DS4_v2_Promo'', 458000),
      (Standard ''DS5_v2'', 916000), (Standard ''DS5_v2_Promo'', 916000), (Standard ''E104i_v5'', 7207000),
      (Standard ''E104id_v5'', 8237000), (Standard ''E104ids_v5'', 8237000), (Standard ''E104is_v5'', 7207000),
      (Standard ''E112iads_v5'', 8070000), (Standard ''E112ias_v5'', 6961000), (Standard ''E112ibds_v5'', 10287000),
      (Standard ''E112ibs_v5'', 9178000), (Standard ''E16-4ads_v5'', 1048000), (Standard ''E16-4as_v4'', 1008000),
      (Standard ''E16-4as_v5'', 904000), (Standard ''E16-4ds_v4'', 1152000), (Standard ''E16-4ds_v5'', 1152000),
      (Standard ''E16-4s_v3'', 1008000), (Standard ''E16-4s_v4'', 1008000), (Standard ''E16-4s_v5'', 1008000),
      (Standard ''E16-8ads_v5'', 1048000), (Standard ''E16-8as_v4'', 1008000), (Standard ''E16-8as_v5'', 904000),
      (Standard ''E16-8ds_v4'', 1152000), (Standard ''E16-8ds_v5'', 1152000), (Standard ''E16-8s_v3'', 1008000),
      (Standard ''E16-8s_v4'', 1008000), (Standard ''E16-8s_v5'', 1008000), (Standard ''E16_v3'', 1008000), (Standard ''E16_v4'', 1008000),
      (Standard ''E16_v5'', 1008000), (Standard ''E16a_v4'', 1008000), (Standard ''E16ads_v5'', 1048000), (Standard ''E16as_v4'', 1008000),
      (Standard ''E16as_v5'', 904000), (Standard ''E16bds_v5'', 1336000), (Standard ''E16bs_v5'', 1192000),
      (Standard ''E16d_v4'', 1152000), (Standard ''E16d_v5'', 1152000), (Standard ''E16ds_v4'', 1152000), (Standard ''E16ds_v5'', 1152000),
      (Standard ''E16pds_v5'', 922000), (Standard ''E16ps_v5'', 806000), (Standard ''E16s_v3'', 1008000), (Standard ''E16s_v4'', 1008000),
      (Standard ''E16s_v5'', 1008000), (Standard ''E20_v3'', 1260000), (Standard ''E20_v4'', 1260000), (Standard ''E20_v5'', 1260000),
      (Standard ''E20a_v4'', 1260000), (Standard ''E20ads_v5'', 1310000), (Standard ''E20as_v4'', 1260000),
      (Standard ''E20as_v5'', 1130000), (Standard ''E20d_v4'', 1440000), (Standard ''E20d_v5'', 1440000), (Standard ''E20ds_v4'', 1440000),
      (Standard ''E20ds_v5'', 1440000), (Standard ''E20pds_v5'', 1152000), (Standard ''E20ps_v5'', 1008000),
      (Standard ''E20s_v3'', 1260000), (Standard ''E20s_v4'', 1260000), (Standard ''E20s_v5'', 1260000), (Standard ''E2_v3'', 126000),
      (Standard ''E2_v4'', 126000), (Standard ''E2_v5'', 126000), (Standard ''E2a_v4'', 126000), (Standard ''E2ads_v5'', 131000),
      (Standard ''E2as_v4'', 126000), (Standard ''E2as_v5'', 113000), (Standard ''E2bds_v5'', 167000), (Standard ''E2bs_v5'', 149000),
      (Standard ''E2d_v4'', 144000), (Standard ''E2d_v5'', 144000), (Standard ''E2ds_v4'', 144000), (Standard ''E2ds_v5'', 144000),
      (Standard ''E2pds_v5'', 115000), (Standard ''E2ps_v5'', 101000), (Standard ''E2s_v3'', 126000), (Standard ''E2s_v4'', 126000),
      (Standard ''E2s_v5'', 126000), (Standard ''E32-16ads_v5'', 2096000), (Standard ''E32-16as_v4'', 2016000),
      (Standard ''E32-16as_v5'', 1808000), (Standard ''E32-16ds_v4'', 2304000), (Standard ''E32-16ds_v5'', 2304000),
      (Standard ''E32-16s_v3'', 2016000), (Standard ''E32-16s_v4'', 2016000), (Standard ''E32-16s_v5'', 2016000),
      (Standard ''E32-8ads_v5'', 2096000), (Standard ''E32-8as_v4'', 2016000), (Standard ''E32-8as_v5'', 1808000),
      (Standard ''E32-8ds_v4'', 2304000), (Standard ''E32-8ds_v5'', 2304000), (Standard ''E32-8s_v3'', 2016000),
      (Standard ''E32-8s_v4'', 2016000), (Standard ''E32-8s_v5'', 2016000), (Standard ''E32_v3'', 2016000), (Standard ''E32_v4'', 2016000),
      (Standard ''E32_v5'', 2016000), (Standard ''E32a_v4'', 2016000), (Standard ''E32ads_v5'', 2096000), (Standard ''E32as_v4'', 2016000),
      (Standard ''E32as_v5'', 1808000), (Standard ''E32bds_v5'', 2672000), (Standard ''E32bs_v5'', 2384000),
      (Standard ''E32d_v4'', 2304000), (Standard ''E32d_v5'', 2304000), (Standard ''E32ds_v4'', 2304000), (Standard ''E32ds_v5'', 2304000),
      (Standard ''E32pds_v5'', 1843000), (Standard ''E32ps_v5'', 1613000), (Standard ''E32s_v3'', 2016000),
      (Standard ''E32s_v4'', 2016000), (Standard ''E32s_v5'', 2016000), (Standard ''E4-2ads_v5'', 262000),
      (Standard ''E4-2as_v4'', 252000)]"

definition westus3_4 :: priceTable where
  "westus3_4 =
     [(Standard ''E4-2as_v5'', 226000), (Standard ''E4-2ds_v4'', 288000), (Standard ''E4-2ds_v5'', 288000),
      (Standard ''E4-2s_v3'', 252000), (Standard ''E4-2s_v4'', 252000), (Standard ''E4-2s_v5'', 252000), (Standard ''E48_v3'', 3024000),
      (Standard ''E48_v4'', 3024000), (Standard ''E48_v5'', 3024000), (Standard ''E48a_v4'', 3024000), (Standard ''E48ads_v5'', 3144000),
      (Standard ''E48as_v4'', 3024000), (Standard ''E48as_v5'', 2712000), (Standard ''E48bds_v5'', 4008000),
      (Standard ''E48bs_v5'', 3576000), (Standard ''E48d_v4'', 3456000), (Standard ''E48d_v5'', 3456000), (Standard ''E48ds_v4'', 3456000),
      (Standard ''E48ds_v5'', 3456000), (Standard ''E48s_v3'', 3024000), (Standard ''E48s_v4'', 3024000), (Standard ''E48s_v5'', 3024000),
      (Standard ''E4_v3'', 252000), (Standard ''E4_v4'', 252000), (Standard ''E4_v5'', 252000), (Standard ''E4a_v4'', 252000),
      (Standard ''E4ads_v5'', 262000), (Standard ''E4as_v4'', 252000), (Standard ''E4as_v5'', 226000), (Standard ''E4bds_v5'', 334000),
      (Standard ''E4bs_v5'', 298000), (Standard ''E4d_v4'', 288000), (Standard ''E4d_v5'', 288000), (Standard ''E4ds_v4'', 288000),
      (Standard ''E4ds_v5'', 288000), (Standard ''E4pds_v5'', 230000), (Standard ''E4ps_v5'', 202000), (Standard ''E4s_v3'', 252000),
      (Standard ''E4s_v4'', 252000), (Standard ''E4s_v5'', 252000), (Standard ''E64-16ads_v5'', 4192000),
      (Standard ''E64-16as_v4'', 4032000), (Standard ''E64-16as_v5'', 3616000), (Standard ''E64-16ds_v4'', 4608000),
      (Standard ''E64-16ds_v5'', 4608000), (Standard ''E64-16s_v3'', 3629000), (Standard ''E64-16s_v4'', 4032000),
      (Standard ''E64-16s_v5'', 4032000), (Standard ''E64-32ads_v5'', 4192000), (Standard ''E64-32as_v4'', 4032000),
      (Standard ''E64-32as_v5'', 3616000), (Standard ''E64-32ds_v4'', 4608000), (Standard ''E64-32ds_v5'', 4608000),
      (Standard ''E64-32s_v3'', 3629000), (Standard ''E64-32s_v4'', 4032000), (Standard ''E64-32s_v5'', 4032000),
      (Standard ''E64_v3'', 3629000), (Standard ''E64_v4'', 4032000), (Standard ''E64_v5'', 4032000), (Standard ''E64a_v4'', 4032000),
      (Standard ''E64ads_v5'', 4192000), (Standard ''E64as_v4'', 4032000), (Standard ''E64as_v5'', 3616000),
      (Standard ''E64bds_v5'', 5344000), (Standard ''E64bs_v5'', 4768000), (Standard ''E64d_v4'', 4608000),
      (Standard ''E64d_v5'', 4608000), (Standard ''E64ds_v4'', 4608000), (Standard ''E64ds_v5'', 4608000), (Standard ''E64i_v3'', 3629000),
      (Standard ''E64is_v3'', 3629000), (Standard ''E64s_v3'', 3629000), (Standard ''E64s_v4'', 4032000), (Standard ''E64s_v5'', 4032000),
      (Standard ''E8-2ads_v5'', 524000), (Standard ''E8-2as_v4'', 504000), (Standard ''E8-2as_v5'', 452000),
      (Standard ''E8-2ds_v4'', 576000), (Standard ''E8-2ds_v5'', 576000), (Standard ''E8-2s_v3'', 504000), (Standard ''E8-2s_v4'', 504000),
      (Standard ''E8-2s_v5'', 504000), (Standard ''E8-4ads_v5'', 524000), (Standard ''E8-4as_v4'', 504000),
      (Standard ''E8-4as_v5'', 452000), (Standard ''E8-4ds_v4'', 576000), (Standard ''E8-4ds_v5'', 576000),
      (Standard ''E8-4s_v3'', 504000), (Standard ''E8-4s_v4'', 504000), (Standard ''E8-4s_v5'', 504000), (Standard ''E80ids_v4'', 5760000),
      (Standard ''E80is_v4'', 5040000), (Standard ''E8_v3'', 504000), (Standard ''E8_v4'', 504000), (Standard ''E8_v5'', 504000),
      (Standard ''E8a_v4'', 504000), (Standard ''E8ads_v5'', 524000), (Standard ''E8as_v4'', 504000), (Standard ''E8as_v5'', 452000),
      (Standard ''E8bds_v5'', 668000), (Standard ''E8bs_v5'', 596000), (Standard ''E8d_v4'', 576000), (Standard ''E8d_v5'', 576000),
      (Standard ''E8ds_v4'', 576000), (Standard ''E8ds_v5'', 576000), (Standard ''E8pds_v5'', 461000), (Standard ''E8ps_v5'', 403000),
      (Standard ''E8s_v3'', 504000), (Standard ''E8s_v4'', 504000), (Standard ''E8s_v5'', 504000), (Standard ''E96-24ads_v5'', 6288000),
      (Standard ''E96-24as_v4'', 6048000), (Standard ''E96-24as_v5'', 5424000), (Standard ''E96-24ds_v5'', 6912000),
      (Standard ''E96-24s_v5'', 6048000), (Standard ''E96-48ads_v5'', 6288000), (Standard ''E96-48as_v4'', 6048000),
      (Standard ''E96-48as_v5'', 5424000), (Standard ''E96-48ds_v5'', 6912000), (Standard ''E96-48s_v5'', 6048000),
      (Standard ''E96_v5'', 6048000), (Standard ''E96a_v4'', 6048000), (Standard ''E96ads_v5'', 6288000), (Standard ''E96as_v4'', 6048000),
      (Standard ''E96as_v5'', 5424000), (Standard ''E96bds_v5'', 8016000), (Standard ''E96bs_v5'', 7152000),
      (Standard ''E96d_v5'', 6912000), (Standard ''E96ds_v5'', 6912000), (Standard ''E96iads_v5'', 6917000),
      (Standard ''E96ias_v4'', 6048000), (Standard ''E96ias_v5'', 5966000), (Standard ''E96s_v5'', 6048000), (Standard ''F1'', 49700),
      (Standard ''F16'', 796000), (Standard ''F16s'', 796000), (Standard ''F16s_v2'', 677000), (Standard ''F1s'', 49700),
      (Standard ''F2'', 99000)]"

definition westus3_5 :: priceTable where
  "westus3_5 =
     [(Standard ''F2s'', 99000), (Standard ''F2s_v2'', 84600), (Standard ''F32s_v2'', 1353000), (Standard ''F4'', 199000),
      (Standard ''F48s_v2'', 2030000), (Standard ''F4s'', 199000), (Standard ''F4s_v2'', 169000), (Standard ''F64s_v2'', 2706000),
      (Standard ''F72s_v2'', 3045000), (Standard ''F8'', 398000), (Standard ''F8s'', 398000), (Standard ''F8s_v2'', 338000),
      (Standard ''FX12mds'', 1266000), (Standard ''FX24mds'', 2532000), (Standard ''FX36mds'', 3798000), (Standard ''FX48mds'', 5064000),
      (Standard ''FX4mds'', 422000), (Standard ''HB120-16rs_v3'', 3600000), (Standard ''HB120-32rs_v3'', 3600000),
      (Standard ''HB120-64rs_v3'', 3600000), (Standard ''HB120-96rs_v3'', 3600000), (Standard ''HB120rs_v3'', 3600000),
      (Standard ''HB176-144rs_v4'', 7200000), (Standard ''HB176-24rs_v4'', 7200000), (Standard ''HB176-48rs_v4'', 7200000),
      (Standard ''HB176-96rs_v4'', 7200000), (Standard ''HB176rs_v4'', 7200000), (Standard ''HX176-144rs'', 8640000),
      (Standard ''HX176-24rs'', 8640000), (Standard ''HX176-48rs'', 8640000), (Standard ''HX176-96rs'', 8640000),
      (Standard ''HX176rs'', 8640000), (Standard ''L16as_v3'', 1248000), (Standard ''L16s_v2'', 1248000), (Standard ''L16s_v3'', 1396000),
      (Standard ''L32as_v3'', 2496000), (Standard ''L32s_v2'', 2496000), (Standard ''L32s_v3'', 2792000), (Standard ''L48as_v3'', 3744000),
      (Standard ''L48s_v2'', 3744000), (Standard ''L48s_v3'', 4188000), (Standard ''L64as_v3'', 4992000), (Standard ''L64s_v2'', 4992000),
      (Standard ''L64s_v3'', 5584000), (Standard ''L80as_v3'', 6240000), (Standard ''L80s_v2'', 6240000), (Standard ''L80s_v3'', 6980000),
      (Standard ''L88is_v2'', 6864000), (Standard ''L8as_v3'', 624000), (Standard ''L8s_v2'', 624000), (Standard ''L8s_v3'', 698000),
      (Standard ''M128'', 13338000), (Standard ''M128-32ms'', 26688000), (Standard ''M128-64ms'', 26688000),
      (Standard ''M128dms_v2'', 26690000), (Standard ''M128ds_v2'', 13340000), (Standard ''M128m'', 26688000),
      (Standard ''M128ms'', 26688000), (Standard ''M128ms_v2'', 26269000), (Standard ''M128s'', 13338000),
      (Standard ''M128s_v2'', 12919000), (Standard ''M16-4ms'', 3073000), (Standard ''M16-8ms'', 3073000), (Standard ''M16ms'', 3073000),
      (Standard ''M16s'', 2387000), (Standard ''M192idms_v2'', 32064000), (Standard ''M192ids_v2'', 16032000),
      (Standard ''M192ims_v2'', 31643000), (Standard ''M192is_v2'', 15611000), (Standard ''M208-104ms_v2'', 44620000),
      (Standard ''M208-104s_v2'', 22310000), (Standard ''M208-52ms_v2'', 44620000), (Standard ''M208-52s_v2'', 22310000),
      (Standard ''M208ms_v2'', 44620000), (Standard ''M208s_v2'', 22310000), (Standard ''M32-16ms'', 6146000),
      (Standard ''M32-8ms'', 6146000), (Standard ''M32dms_v2'', 6146000), (Standard ''M32ls'', 2873000), (Standard ''M32ms'', 6146000),
      (Standard ''M32ms_v2'', 6041000), (Standard ''M32s'', 3335000), (Standard ''M32ts'', 2707000),
      (Standard ''M416-104ms_v2'', 99150000), (Standard ''M416-104s_v2'', 49580000), (Standard ''M416-208ms_v2'', 99150000),
      (Standard ''M416-208s_v2'', 49580000), (Standard ''M416is_v2'', 49580000), (Standard ''M416ms_v2'', 99150000),
      (Standard ''M416s_8_v2'', 66110000), (Standard ''M416s_v2'', 49580000), (Standard ''M64'', 6669000),
      (Standard ''M64-16ms'', 10337000), (Standard ''M64-32ms'', 10337000), (Standard ''M64dms_v2'', 10340000),
      (Standard ''M64ds_v2'', 6669000), (Standard ''M64ls'', 5415000), (Standard ''M64m'', 10337000), (Standard ''M64ms'', 10337000),
      (Standard ''M64ms_v2'', 10130000), (Standard ''M64s'', 6669000), (Standard ''M64s_v2'', 6459000), (Standard ''M8-2ms'', 1536000),
      (Standard ''M8-4ms'', 1536000), (Standard ''M8ms'', 1536000), (Standard ''NC12s_v3'', 6120000),
      (Standard ''NC16ads_A10_v4'', 2200000), (Standard ''NC16as_T4_v3'', 1204000), (Standard ''NC24ads_A100_v4'', 3673000),
      (Standard ''NC24rs_v3'', 13460000), (Standard ''NC24s_v3'', 12240000), (Standard ''NC32ads_A10_v4'', 4400000),
      (Standard ''NC48ads_A100_v4'', 7346000), (Standard ''NC4as_T4_v3'', 526000), (Standard ''NC64as_T4_v3'', 4352000),
      (Standard ''NC6s_v3'', 3060000), (Standard ''NC8ads_A10_v4'', 1100000), (Standard ''NC8as_T4_v3'', 752000),
      (Standard ''NC96ads_A100_v4'', 14692000), (Standard ''ND96ams_A100_v4'', 32770000), (Standard ''ND96amsr_A100_v4'', 32770000),
      (Standard ''ND96asr_A100_v4'', 27197000), (Standard ''NG16ads_V620_v1'', 2190000), (Standard ''NG32adms_V620'', 5694000),
      (Standard ''NG32ads_V620_v1'', 4380000), (Standard ''NG8ads_V620_v1'', 1095000), (Standard ''NV12ads_A10_v5'', 908000),
      (Standard ''NV16as_v4'', 932000), (Standard ''NV18ads_A10_v5'', 1600000), (Standard ''NV32as_v4'', 1864000),
      (Standard ''NV36adms_A10_v5'', 4520000), (Standard ''NV36ads_A10_v5'', 3200000), (Standard ''NV4as_v4'', 233000),
      (Standard ''NV6ads_A10_v5'', 454000), (Standard ''NV72ads_A10_v5'', 6520000), (Standard ''NV8as_v4'', 466000)]"

definition westus3 :: priceTable where
  "westus3 = westus3_1 @ westus3_2 @ westus3_3 @ westus3_4 @ westus3_5"

subsection \<open>The lists are well formed\<close>

lemma westcentralus_1_ok: "part_ok (''Basic_A0'') westcentralus_1 (Standard ''D2ps_v5'')"
  unfolding westcentralus_1_def by (simp only: eval_part)

lemma westcentralus_2_ok: "part_ok (Standard ''D2ps_v5'') westcentralus_2 (Standard ''DS14-8_v2'')"
  unfolding westcentralus_2_def by (simp only: eval_part)

lemma westcentralus_3_ok: "part_ok (Standard ''DS14-8_v2'') westcentralus_3 (Standard ''E48d_v5'')"
  unfolding westcentralus_3_def by (simp only: eval_part)

lemma westcentralus_4_ok: "last_ok (Standard ''E48d_v5'') westcentralus_4"
  unfolding westcentralus_4_def by (simp only: eval_part)

lemma westcentralus_ok: "table_ok westcentralus"
  unfolding westcentralus_def by (rule last_ok_table [OF part_join [OF westcentralus_1_ok part_join [OF westcentralus_2_ok part_join [OF westcentralus_3_ok westcentralus_4_ok]]]])

lemma westeurope_1_ok: "part_ok (''Basic_A0'') westeurope_1 (Standard ''D16_v5'')"
  unfolding westeurope_1_def by (simp only: eval_part)

lemma westeurope_2_ok: "part_ok (Standard ''D16_v5'') westeurope_2 (Standard ''D64ps_v5'')"
  unfolding westeurope_2_def by (simp only: eval_part)

lemma westeurope_3_ok: "part_ok (Standard ''D64ps_v5'') westeurope_3 (Standard ''DS3_v2_Promo'')"
  unfolding westeurope_3_def by (simp only: eval_part)

lemma westeurope_4_ok: "part_ok (Standard ''DS3_v2_Promo'') westeurope_4 (Standard ''E48as_v5'')"
  unfolding westeurope_4_def by (simp only: eval_part)

lemma westeurope_5_ok: "part_ok (Standard ''E48as_v5'') westeurope_5 (Standard ''EC2ads_v5'')"
  unfolding westeurope_5_def by (simp only: eval_part)

lemma westeurope_6_ok: "part_ok (Standard ''EC2ads_v5'') westeurope_6 (Standard ''L88is_v2'')"
  unfolding westeurope_6_def by (simp only: eval_part)

lemma westeurope_7_ok: "last_ok (Standard ''L88is_v2'') westeurope_7"
  unfolding westeurope_7_def by (simp only: eval_part)

lemma westeurope_ok: "table_ok westeurope"
  unfolding westeurope_def by (rule last_ok_table [OF part_join [OF westeurope_1_ok part_join [OF westeurope_2_ok part_join [OF westeurope_3_ok part_join [OF westeurope_4_ok part_join [OF westeurope_5_ok part_join [OF westeurope_6_ok westeurope_7_ok]]]]]]])

lemma westindia_1_ok: "part_ok (''Basic_A0'') westindia_1 (Standard ''D32ads_v5'')"
  unfolding westindia_1_def by (simp only: eval_part)

lemma westindia_2_ok: "part_ok (Standard ''D32ads_v5'') westindia_2 (Standard ''E104ids_v5'')"
  unfolding westindia_2_def by (simp only: eval_part)

lemma westindia_3_ok: "part_ok (Standard ''E104ids_v5'') westindia_3 (Standard ''E4bds_v5'')"
  unfolding westindia_3_def by (simp only: eval_part)

lemma westindia_4_ok: "last_ok (Standard ''E4bds_v5'') westindia_4"
  unfolding westindia_4_def by (simp only: eval_part)

lemma westindia_ok: "table_ok westindia"
  unfolding westindia_def by (rule last_ok_table [OF part_join [OF westindia_1_ok part_join [OF westindia_2_ok part_join [OF westindia_3_ok westindia_4_ok]]]])

lemma westus_1_ok: "part_ok (''Basic_A0'') westus_1 (Standard ''D16ds_v4'')"
  unfolding westus_1_def by (simp only: eval_part)

lemma westus_2_ok: "part_ok (Standard ''D16ds_v4'') westus_2 (Standard ''D8as_v5'')"
  unfolding westus_2_def by (simp only: eval_part)

lemma westus_3_ok: "part_ok (Standard ''D8as_v5'') westus_3 (Standard ''E16_v4'')"
  unfolding westus_3_def by (simp only: eval_part)

lemma westus_4_ok: "part_ok (Standard ''E16_v4'') westus_4 (Standard ''E64-16s_v4'')"
  unfolding westus_4_def by (simp only: eval_part)

lemma westus_5_ok: "part_ok (Standard ''E64-16s_v4'') westus_5 (Standard ''F4s'')"
  unfolding westus_5_def by (simp only: eval_part)

lemma westus_6_ok: "last_ok (Standard ''F4s'') westus_6"
  unfolding westus_6_def by (simp only: eval_part)

lemma westus_ok: "table_ok westus"
  unfolding westus_def by (rule last_ok_table [OF part_join [OF westus_1_ok part_join [OF westus_2_ok part_join [OF westus_3_ok part_join [OF westus_4_ok part_join [OF westus_5_ok westus_6_ok]]]]]])

lemma westus2_1_ok: "part_ok (''Basic_A0'') westus2_1 (Standard ''D16d_v4'')"
  unfolding westus2_1_def by (simp only: eval_part)

lemma westus2_2_ok: "part_ok (Standard ''D16d_v4'') westus2_2 (Standard ''D64s_v5'')"
  unfolding westus2_2_def by (simp only: eval_part)

lemma westus2_3_ok: "part_ok (Standard ''D64s_v5'') westus2_3 (Standard ''E20as_v5'')"
  unfolding westus2_3_def by (simp only: eval_part)

lemma westus2_4_ok: "part_ok (Standard ''E20as_v5'') westus2_4 (Standard ''E64as_v4'')"
  unfolding westus2_4_def by (simp only: eval_part)

lemma westus2_5_ok: "part_ok (Standard ''E64as_v4'') westus2_5 (Standard ''L16s_v3'')"
  unfolding westus2_5_def by (simp only: eval_part)

lemma westus2_6_ok: "last_ok (Standard ''L16s_v3'') westus2_6"
  unfolding westus2_6_def by (simp only: eval_part)

lemma westus2_ok: "table_ok westus2"
  unfolding westus2_def by (rule last_ok_table [OF part_join [OF westus2_1_ok part_join [OF westus2_2_ok part_join [OF westus2_3_ok part_join [OF westus2_4_ok part_join [OF westus2_5_ok westus2_6_ok]]]]]])

lemma westus3_1_ok: "part_ok (''Dadsv5_Type1'') westus3_1 (Standard ''D2pds_v5'')"
  unfolding westus3_1_def by (simp only: eval_part)

lemma westus3_2_ok: "part_ok (Standard ''D2pds_v5'') westus3_2 (Standard ''DS12-2_v2'')"
  unfolding westus3_2_def by (simp only: eval_part)

lemma westus3_3_ok: "part_ok (Standard ''DS12-2_v2'') westus3_3 (Standard ''E4-2as_v5'')"
  unfolding westus3_3_def by (simp only: eval_part)

lemma westus3_4_ok: "part_ok (Standard ''E4-2as_v5'') westus3_4 (Standard ''F2s'')"
  unfolding westus3_4_def by (simp only: eval_part)

lemma westus3_5_ok: "last_ok (Standard ''F2s'') westus3_5"
  unfolding westus3_5_def by (simp only: eval_part)

lemma westus3_ok: "table_ok westus3"
  unfolding westus3_def by (rule last_ok_table [OF part_join [OF westus3_1_ok part_join [OF westus3_2_ok part_join [OF westus3_3_ok part_join [OF westus3_4_ok westus3_5_ok]]]]])

end
