(* ===== verification/PricingData.thy ===== *)
theory PricingData
  imports Pricing PriceLists1 PriceLists2 PriceLists3 PriceLists4 PriceLists5 PriceLists6
begin

text \<open>
  The shipped price lists of all 48 regions (\<open>zz_generated.pricing.go\<close>) and what they guarantee to
  the pricing provider.
\<close>

subsection \<open>The shipped lists in the provider\<close>

text \<open>The assignments of \<open>init\<close>, in the order of the file.\<close>

definition shippedTables :: "(string \<times> priceTable) list" where
  "shippedTables =
     [(''australiacentral'', australiacentral), (''australiacentral2'', australiacentral2), (''australiaeast'', australiaeast),
      (''australiasoutheast'', australiasoutheast), (''brazilsouth'', brazilsouth), (''brazilsoutheast'', brazilsoutheast),
      (''canadacentral'', canadacentral), (''canadaeast'', canadaeast), (''centralindia'', centralindia),
      (''centralus'', centralus), (''eastasia'', eastasia), (''eastus'', eastus), (''eastus2'', eastus2),
      (''francecentral'', francecentral), (''francesouth'', francesouth), (''germanynorth'', germanynorth),
      (''germanywestcentral'', germanywestcentral), (''japaneast'', japaneast), (''japanwest'', japanwest),
      (''jioindiacentral'', jioindiacentral), (''jioindiawest'', jioindiawest), (''koreacentral'', koreacentral),
      (''koreasouth'', koreasouth), (''northcentralus'', northcentralus), (''northeurope'', northeurope),
      (''norwayeast'', norwayeast), (''norwaywest'', norwaywest), (''polandcentral'', polandcentral),
      (''qatarcentral'', qatarcentral), (''southafricanorth'', southafricanorth), (''southafricawest'', southafricawest),
      (''southcentralus'', southcentralus), (''southeastasia'', southeastasia), (''southindia'', southindia),
      (''swedencentral'', swedencentral), (''swedensouth'', swedensouth), (''switzerlandnorth'', switzerlandnorth),
      (''switzerlandwest'', switzerlandwest), (''uaecentral'', uaecentral), (''uaenorth'', uaenorth), (''uksouth'', uksouth),
      (''ukwest'', ukwest), (''westcentralus'', westcentralus), (''westeurope'', westeurope), (''westindia'', westindia),
      (''westus'', westus), (''westus2'', westus2), (''westus3'', westus3)]"

text \<open>
  The tables hold the decimal literals of the file in millionths of a dollar; the map literal
  \<open>map[string]float64\<close> holds the nearest \<open>float64\<close> of each.
\<close>

definition dollars :: "priceTable \<Rightarrow> prices" where
  "dollars t = map (\<lambda>(n, micros). (n, float64 (of_int micros / 10 ^ 6))) t"

text \<open>2023-09-28T21:13:32Z, in nanoseconds.\<close>

definition initialPriceUpdate :: int where
  "initialPriceUpdate = 1695935612 * 10 ^ 9"

definition initialOnDemandPrices :: "string \<rightharpoonup> prices" where
  "initialOnDemandPrices = foldl (\<lambda>m (reg, t). m(reg \<mapsto> dollars t)) Map.empty shippedTables"

abbreviation shipped :: staticPrices where
  "shipped \<equiv> (initialOnDemandPrices, initialPriceUpdate)"

lemma tables_ok: "list_all (\<lambda>(reg, t). table_ok t) shippedTables"
  unfolding shippedTables_def list.pred_inject case_prod_conv
  by (intro conjI list.pred_inject(1)
    australiacentral_ok australiacentral2_ok australiaeast_ok australiasoutheast_ok brazilsouth_ok brazilsoutheast_ok
    canadacentral_ok canadaeast_ok centralindia_ok centralus_ok eastasia_ok eastus_ok eastus2_ok francecentral_ok
    francesouth_ok germanynorth_ok germanywestcentral_ok japaneast_ok japanwest_ok jioindiacentral_ok jioindiawest_ok
    koreacentral_ok koreasouth_ok northcentralus_ok northeurope_ok norwayeast_ok norwaywest_ok polandcentral_ok
    qatarcentral_ok southafricanorth_ok southafricawest_ok southcentralus_ok southeastasia_ok southindia_ok swedencentral_ok
    swedensouth_ok switzerlandnorth_ok switzerlandwest_ok uaecentral_ok uaenorth_ok uksouth_ok ukwest_ok westcentralus_ok
    westeurope_ok westindia_ok westus_ok westus2_ok westus3_ok)

lemma regions_distinct: "distinct (map fst shippedTables)"
  by (simp add: shippedTables_def)

lemma foldl_assign:
  "distinct (map fst xs) \<Longrightarrow> foldl (\<lambda>m (k, v). m(k \<mapsto> f v)) m xs k = (case map_of xs k of None \<Rightarrow> m k | Some v \<Rightarrow> Some (f v))"
proof (induction xs arbitrary: m)
  case (Cons x xs)
  then show ?case by (cases x) (auto split: option.splits dest: map_of_SomeD simp: rev_image_eqI)
qed simp

lemma initialOnDemandPrices_of: "initialOnDemandPrices reg = map_option dollars (map_of shippedTables reg)"
  unfolding initialOnDemandPrices_def foldl_assign [OF regions_distinct] by (simp split: option.splits)

lemma dollars_ok:
  assumes "table_ok t"
  shows "dollars t \<noteq> []" "distinct (map fst (dollars t))" "list_all (\<lambda>(n, p). 0 \<le> p) (dollars t)"
proof -
  have "map fst (dollars t) = map fst t" by (simp add: dollars_def case_prod_unfold comp_def)
  then show "distinct (map fst (dollars t))" using assms ascending_distinct by (simp add: table_ok_def)
  show "dollars t \<noteq> []" using assms by (simp add: table_ok_def dollars_def)
  show "list_all (\<lambda>(n, p). 0 \<le> p) (dollars t)"
    using assms by (auto simp: table_ok_def dollars_def list_all_iff intro!: float64_nonneg)
qed

text \<open>A listed region gets its own list, every other region that of eastus.\<close>

lemma shipped_static_of:
  "staticPricing shipped reg = dollars (case map_of shippedTables reg of Some t \<Rightarrow> t | None \<Rightarrow> eastus)"
proof -
  have "map_of shippedTables ''eastus'' = Some eastus" by (simp add: shippedTables_def)
  then show ?thesis by (auto simp: staticPricing_def initialOnDemandPrices_of split: option.splits)
qed

lemma shipped_static: "\<exists>t. staticPricing shipped reg = dollars t \<and> table_ok t"
  unfolding shipped_static_of using tables_ok eastus_ok
  by (auto simp: list_all_iff split: option.splits dest!: map_of_SomeD)

text \<open>
  C29. The shipped price lists carry the provider from its first moment: in every region, listed or
  not, the static list has one non-negative price per SKU and at least one SKU, so whatever the
  price service answers, in every reachable state of the running provider its prices are that
  list or what all the pages served to one fetch held, never empty, one per SKU.
\<close>

theorem shipped_prices_usable:
  assumes "(pricing_step (GetProductsPricePages httpGet unmarshal) clk hash shipped)\<^sup>*\<^sup>* (pricing_start shipped reg w) s"
  shows "list_all (\<lambda>(n, p). 0 \<le> p) (staticPricing shipped reg) \<and> pricing_ok reg (ps_provider s) \<and>
    price_source (GetProductsPricePages httpGet unmarshal) (\<lambda>filters. http_serves httpGet unmarshal (firstURL filters))
      clk hash shipped reg (pricing_start shipped reg w) s"
proof -
  obtain t where t: "staticPricing shipped reg = dollars t" "table_ok t" using shipped_static [of reg] by blast
  have static: "staticPricing shipped reg \<noteq> []" "distinct (map fst (staticPricing shipped reg))"
    unfolding t(1) by (rule dollars_ok [OF t(2)])+
  from http_client.pricing_ok_reachable [OF assms static] http_client.price_source_reachable [OF assms] show ?thesis
    using dollars_ok(3) [OF t(2)] unfolding t(1) by blast
qed

theorem shipped_prices_usable_witness:
  "\<exists>s. pricing_ok ''eastus2'' (ps_provider (s :: unit pricingSystem))"
  using shipped_prices_usable [of "\<lambda>_ w. (Ok \<lparr>StatusCode = 500, Body = Ok ''''\<rparr>, w)" "\<lambda>_. Err (ErrorString '''')"
      "\<lambda>_. 0" "\<lambda>_. 0" "''eastus2''" "()" "pricing_start shipped ''eastus2'' ()"]
  by blast

subsection \<open>What eastus2 lacks\<close>

definition unlistedInEastus2 :: "string list" where
  "unlistedInEastus2 = map Standard [''NC16as_T4_v3'', ''NC24ads_A100_v4'', ''NC6s_v3'', ''NC96ads_A100_v4'']"

lemma Standard_eq [simp]: "(Standard a = Standard b) = (a = b)"
  by (simp add: Standard_def)

lemma Standard_eq_Cons [simp]: "(x # xs = Standard a) = (x # xs = ''Standard_'' @ a)"
  by (simp add: Standard_def)

lemma eastus2_names: "list_all (\<lambda>n. list_all (\<lambda>(m, _). m \<noteq> n) (eastus2_1 @ eastus2_2)) unlistedInEastus2"
  unfolding unlistedInEastus2_def eastus2_1_def eastus2_2_def by simp

lemma eastus_names: "list_all (\<lambda>n. list_ex (\<lambda>(m, _). m = n) eastus_6) unlistedInEastus2"
  unfolding unlistedInEastus2_def eastus_6_def by simp

lemma priced_iff:
  "snd (OnDemandPrice (NewPricingProvider shipped reg) n) \<longleftrightarrow> n \<in> fst ` set (staticPricing shipped reg)"
  by (auto simp: OnDemandPrice_def NewPricingProvider_def map_of_eq_None_iff split: option.splits dest: map_of_SomeD intro: rev_image_eqI)

lemma fst_dollars: "fst ` set (dollars t) = fst ` set t"
  by (simp add: dollars_def image_image case_prod_unfold)

text \<open>
  No fallback per SKU. The list shipped for eastus2 has 183 entries against the 840 of eastus
  and lacks the V100, T4 and A100 sizes below, all of which eastus has: until a price update
  succeeds, the provider in eastus2 has no price for them, while a region without any list gets
  them from eastus.
\<close>

theorem eastus2_lacks_gpu_prices:
  assumes "reg \<notin> fst ` set shippedTables" "n \<in> set unlistedInEastus2"
  shows "OnDemandPrice (NewPricingProvider shipped ''eastus2'') n = (0, False) \<and>
    snd (OnDemandPrice (NewPricingProvider shipped reg) n)"
proof -
  have "map_of shippedTables ''eastus2'' = Some eastus2" by (simp add: shippedTables_def)
  then have e2: "staticPricing shipped ''eastus2'' = dollars eastus2" by (simp add: shipped_static_of)
  have e: "staticPricing shipped reg = dollars eastus"
    using assms(1) map_of_eq_None_iff [of shippedTables reg] by (simp add: shipped_static_of)
  have "n \<notin> fst ` set eastus2"
    using eastus2_names assms(2) unfolding list_all_iff eastus2_def by fastforce
  then have no: "\<not> snd (OnDemandPrice (NewPricingProvider shipped ''eastus2'') n)"
    unfolding priced_iff e2 fst_dollars .
  then have "OnDemandPrice (NewPricingProvider shipped ''eastus2'') n = (0, False)"
    by (auto simp: OnDemandPrice_def split: option.splits)
  moreover have "n \<in> fst ` set eastus_6"
    using eastus_names assms(2) unfolding list_all_iff list_ex_iff by force
  then have "n \<in> fst ` set eastus" unfolding eastus_def set_append image_Un by blast
  then have "snd (OnDemandPrice (NewPricingProvider shipped reg) n)"
    unfolding priced_iff e fst_dollars .
  ultimately show ?thesis by blast
qed

theorem eastus2_lacks_gpu_prices_witness:
  "OnDemandPrice (NewPricingProvider shipped ''eastus2'') ''Standard_NC24ads_A100_v4'' = (0, False) \<and>
   snd (OnDemandPrice (NewPricingProvider shipped ''westus4'') ''Standard_NC24ads_A100_v4'')"
  by (rule eastus2_lacks_gpu_prices) (simp_all add: unlistedInEastus2_def shippedTables_def Standard_def)

text \<open>
  Some shipped prices are zero: in westeurope the provider answers that a \<open>Standard_M12s_v3\<close>, which it
  does list, costs nothing.
\<close>

lemma shipped_zero_price: "OnDemandPrice (NewPricingProvider shipped ''westeurope'') ''Standard_M12s_v3'' = (0, True)"
proof -
  have "map_of shippedTables ''westeurope'' = Some westeurope" by (simp add: shippedTables_def)
  then have static: "staticPricing shipped ''westeurope'' = dollars westeurope" by (simp add: shipped_static_of)
  have "list_ex (\<lambda>x. x = (Standard ''M12s_v3'', 0)) westeurope_7" unfolding westeurope_7_def by simp
  then have "(Standard ''M12s_v3'', 0) \<in> set westeurope" unfolding westeurope_def set_append list_ex_iff by blast
  then have "(''Standard_M12s_v3'', 0) \<in> set (dollars westeurope)"
    using float64_of_int [of 0] by (force simp: dollars_def Standard_def)
  then have "map_of (dollars westeurope) ''Standard_M12s_v3'' = Some 0" using dollars_ok(2) [OF westeurope_ok] by simp
  then show ?thesis by (simp add: OnDemandPrice_def NewPricingProvider_def static)
qed

end
