(* ===== verification/Startup.thy ===== *)
theory Startup
  imports Auth Instance TypeListing PricingData
begin

text \<open>
  Putting the program together: the ARM client options (\<open>pkg/utils/opts/\<close>), the Azure clients
  (\<open>pkg/providers/instance/azure_client.go\<close>), the settings (\<open>pkg/apis/settings/\<close>) and the operator
  (\<open>pkg/operator/operator.go\<close>). The constructors of the SDK's clients are parameters.
\<close>

subsection \<open>Client options\<close>

abbreviation second :: int where
  "second \<equiv> 1000000000"

record HTTPClient =
  PoolSize :: int
  DialTimeout :: int
  KeepAlive :: int
  ForceAttemptHTTP2 :: bool
  MaxIdleConns :: int
  IdleConnTimeout :: int
  TLSHandshakeTimeout :: int
  ExpectContinueTimeout :: int
  TLSMinVersion :: int

definition defaultHTTPClient :: HTTPClient where
  "defaultHTTPClient =
     \<lparr>PoolSize = 100, DialTimeout = 30 * second, KeepAlive = 30 * second, ForceAttemptHTTP2 = True,
      MaxIdleConns = 100, IdleConnTimeout = 90 * second, TLSHandshakeTimeout = 10 * second,
      ExpectContinueTimeout = 1 * second, TLSMinVersion = 0x0303\<rparr>"

type_synonym header = "string \<rightharpoonup> string list"

record RetryOptions =
  MaxRetries :: int
  RetryDelay :: int

record ServiceConfiguration =
  Audience :: string
  Endpoint :: string

text \<open>A nil map of services is \<open>None\<close>.\<close>

record ClientOptions =
  ApplicationID :: string
  RetryOpts :: RetryOptions
  Transport :: "HTTPClient option"
  PerCallPolicies :: "header list"
  Services :: "(string \<rightharpoonup> ServiceConfiguration) option"

definition zeroOptions :: ClientOptions where
  "zeroOptions =
     \<lparr>ApplicationID = '''', RetryOpts = \<lparr>MaxRetries = 0, RetryDelay = 0\<rparr>, Transport = None, PerCallPolicies = [],
      Services = None\<rparr>"

definition DefaultRetryOpts :: RetryOptions where
  "DefaultRetryOpts = \<lparr>MaxRetries = 20, RetryDelay = second * 5\<rparr>"

definition DefaultTelemetryOpts :: string where
  "DefaultTelemetryOpts = GetUserAgentExtension"

definition DefaultArmOpts :: ClientOptions where
  "DefaultArmOpts = zeroOptions\<lparr>ApplicationID := DefaultTelemetryOpts, RetryOpts := DefaultRetryOpts, Transport := Some defaultHTTPClient\<rparr>"

text \<open>\<open>PolicySetHeaders.Do\<close>: sets its headers on the request and passes it on.\<close>

definition PolicySetHeaders_Do :: "header \<Rightarrow> (header \<Rightarrow> ('w, 'r) act) \<Rightarrow> header \<Rightarrow> ('w, 'r) act" where
  "PolicySetHeaders_Do p nextPolicy hdr = nextPolicy (hdr ++ p)"

text \<open>A write \<open>m[k] = v\<close>, which panics on a nil map, and \<open>maps.Clone\<close>, which keeps nil.\<close>

definition map_write :: "('k \<rightharpoonup> 'v) option \<Rightarrow> 'k \<Rightarrow> 'v \<Rightarrow> ('k \<rightharpoonup> 'v) option res" where
  "map_write m k v = (case m of None \<Rightarrow> Panic ''assignment to entry in nil map'' | Some f \<Rightarrow> Ok (Some (f(k \<mapsto> v))))"

definition maps_Clone :: "('k \<rightharpoonup> 'v) option \<Rightarrow> ('k \<rightharpoonup> 'v) option" where
  "maps_Clone m = m"

definition RPReferer :: string where
  "RPReferer = ''rp.e2e.ig.e2e-aks.azure.com''"

definition setArmClientOptions :: "string \<Rightarrow> string \<Rightarrow> ClientOptions res" where
  "setArmClientOptions uuid publicAudience =
     (let opt = zeroOptions\<lparr>PerCallPolicies :=
                  [[''Referer'' \<mapsto> [RPReferer]], [''x-ms-correlation-request-id'' \<mapsto> [uuid]]]\<rparr>;
          opt = opt\<lparr>Services := maps_Clone (Services opt)\<rparr>
      in res_bind (map_write (Services opt) ''resourceManager''
                     \<lparr>Audience = publicAudience, Endpoint = ''https://'' @ RPReferer\<rparr>)
           (\<lambda>services. Ok (opt\<lparr>Services := services\<rparr>)))"

subsection \<open>Azure clients\<close>

record 'w AZClient =
  az_agentPoolsClient :: "'w AgentPoolsAPI"
  SKUClient :: "'w ResourceClient"

definition NewAZClientFromAPI :: "'w AgentPoolsAPI \<Rightarrow> 'w ResourceClient \<Rightarrow> 'w AZClient" where
  "NewAZClientFromAPI pools sku = \<lparr>az_agentPoolsClient = pools, SKUClient = sku\<rparr>"

record ('w, 'app) azureSDK =
  sdk_msal :: "('w, 'app) msal"
  NewAgentPoolsClient :: "string \<Rightarrow> ClientAssertionCredential \<times> 'app \<Rightarrow> ClientOptions \<Rightarrow> 'w AgentPoolsAPI res"
  NewInterfacesClient :: "string \<Rightarrow> ClientAssertionCredential \<times> 'app \<Rightarrow> ClientOptions \<Rightarrow> unit res"
  NewResourceSkusClient :: "string \<Rightarrow> authResult \<Rightarrow> 'w ResourceClient"
  sdk_uuid :: string
  sdk_publicAudience :: string

definition newClients ::
  "('w, 'app) azureSDK \<Rightarrow> Auth.Config \<Rightarrow> authResult \<Rightarrow> ClientAssertionCredential \<times> 'app \<Rightarrow> ClientOptions \<Rightarrow> 'w AZClient res" where
  "newClients sdk cfg authorizer cred opts =
     res_bind (NewAgentPoolsClient sdk (SubscriptionID cfg) cred opts) (\<lambda>pools.
     res_bind (NewInterfacesClient sdk (SubscriptionID cfg) cred opts) (\<lambda>_.
       Ok \<lparr>az_agentPoolsClient = pools, SKUClient = NewResourceSkusClient sdk (SubscriptionID cfg) authorizer\<rparr>))"

definition NewAZClient ::
  "('w, 'app) azureSDK \<Rightarrow> environ \<Rightarrow> Config option \<Rightarrow> ResourceManagerEndpoint \<Rightarrow> 'w \<Rightarrow> ('w AZClient res \<times> 'w) option" where
  "NewAZClient sdk env config endpoint w =
     (case NewAuthorizer (sdk_msal sdk) env config endpoint w of
        (Err e, w') \<Rightarrow> Some (Err e, w')
      | (Panic m, w') \<Rightarrow> Some (Panic m, w')
      | (Ok authorizer, w') \<Rightarrow>
          (case config of
             None \<Rightarrow> Some (Panic ''nil pointer dereference'', w')
           | Some cfg \<Rightarrow>
               (let azClientConfig = (GetAzureClientConfig cfg authorizer endpoint)\<lparr>cc_UserAgent := GetUserAgentExtension\<rparr>
                in map_option (\<lambda>(r, w'').
                     (res_bind r (\<lambda>cred.
                        res_bind (if WithDefaultBool env ''E2E_TEST_MODE'' False
                                  then setArmClientOptions (sdk_uuid sdk) (sdk_publicAudience sdk)
                                  else Ok DefaultArmOpts)
                          (newClients sdk cfg (cc_Authorizer azClientConfig) cred)), w''))
                   (NewCredential (sdk_msal sdk) env (Some cfg) (cc_Authorizer azClientConfig) w'))))"

definition publicEndpoint :: ResourceManagerEndpoint where
  "publicEndpoint = ''https://management.azure.com/''"

definition CreateAzClient ::
  "('w, 'app) azureSDK \<Rightarrow> environ \<Rightarrow> Config option \<Rightarrow> 'w \<Rightarrow> ('w AZClient res \<times> 'w) option" where
  "CreateAzClient sdk env config w = NewAZClient sdk env config publicEndpoint w"

subsection \<open>The operator\<close>

record 'w OperatorState =
  op_UnavailableOfferings :: UnavailableOfferings
  op_PricingProvider :: PricingProvider
  op_InstanceTypesProvider :: ITProvider
  op_InstanceProvider :: "'w Provider"

definition GetAzConfig :: "environ \<Rightarrow> Config res" where
  "GetAzConfig env = BuildAzureConfig env"

text \<open>A failed configuration is logged and the nil configuration passed on; a failed client panics.\<close>

definition NewOperator ::
  "('w, 'app) azureSDK \<Rightarrow> ((string \<times> string) list \<Rightarrow> ('w, Node list) act) \<Rightarrow> staticPrices \<Rightarrow> environ \<Rightarrow> 'w
     \<Rightarrow> ('w OperatorState res \<times> 'w) option" where
  "NewOperator sdk kube st env w =
     (let azConfig = (case GetAzConfig env of Ok cfg \<Rightarrow> Some cfg | _ \<Rightarrow> None)
      in map_option (\<lambda>(r, w').
           (case r of
              Panic m \<Rightarrow> (Panic m, w')
            | Err e \<Rightarrow>
                (Panic (''Configure azure client fails. Please ensure federatedcredential has been created for identity '' @
                        Getenv env ''AZURE_CLIENT_ID'' @ ''.''), w')
            | Ok azClient \<Rightarrow>
                (case azConfig of
                   None \<Rightarrow> (Panic ''nil pointer dereference'', w')
                 | Some cfg \<Rightarrow>
                     (let uo = NewUnavailableOfferings;
                          pricing = NewPricingProvider st (Location cfg);
                          types = NewITProvider (Location cfg) (New InstanceTypesCacheTTL) pricing uo;
                          insts = NewProvider (az_agentPoolsClient azClient) kube (ResourceGroup cfg) (NodeResourceGroup cfg) (ClusterName cfg)
                      in (Ok \<lparr>op_UnavailableOfferings = uo, op_PricingProvider = pricing,
                              op_InstanceTypesProvider = types, op_InstanceProvider = insts\<rparr>, w')))))
         (CreateAzClient sdk env azConfig w))"

text \<open>
  The cloud provider over the operator's parts (\<open>pkg/cloudprovider/cloudprovider.go\<close>). Its other
  operations only use the instance provider (\<open>CloudProvider\<close>).
\<close>

record 'w CloudProviderState =
  cp_instanceTypeProvider :: ITProvider
  cp_instanceProvider :: "'w Provider"

definition CloudProvider_New :: "ITProvider \<Rightarrow> 'w Provider \<Rightarrow> 'w CloudProviderState" where
  "CloudProvider_New itp ip = \<lparr>cp_instanceTypeProvider = itp, cp_instanceProvider = ip\<rparr>"

definition CloudProvider_LivenessProbe :: "'w CloudProviderState \<Rightarrow> unit res" where
  "CloudProvider_LivenessProbe c = ITProvider_LivenessProbe (cp_instanceTypeProvider c)"

text \<open>
  \<open>main\<close> (\<open>cmd/controller/main.go\<close>), up to the start of karpenter's controllers: the cloud provider
  they are given, which \<open>metrics.Decorate\<close> only wraps. \<open>addHealthzCheck\<close> registers the probe
  with karpenter's operator; an error panics.
\<close>

definition controllerMain ::
  "('w, 'app) azureSDK \<Rightarrow> ((string \<times> string) list \<Rightarrow> ('w, Node list) act) \<Rightarrow>
   (string \<Rightarrow> unit res \<Rightarrow> ('w, unit) act) \<Rightarrow> staticPrices \<Rightarrow> environ \<Rightarrow> 'w
     \<Rightarrow> ('w CloudProviderState res \<times> 'w) option" where
  "controllerMain sdk kube addHealthzCheck st env w =
     map_option (\<lambda>(r, w1).
       (case r of
          Ok op \<Rightarrow>
            (let azureCloudProvider = CloudProvider_New (op_InstanceTypesProvider op) (op_InstanceProvider op)
             in case addHealthzCheck ''cloud-provider'' (CloudProvider_LivenessProbe azureCloudProvider) w1 of
                  (Ok _, w2) \<Rightarrow> (Ok azureCloudProvider, w2)
                | (Err e, w2) \<Rightarrow> (Panic ''cannot add the health check'', w2)
                | (Panic m, w2) \<Rightarrow> (Panic m, w2))
        | Err e \<Rightarrow> (Err e, w1)
        | Panic m \<Rightarrow> (Panic m, w1)))
       (NewOperator sdk kube st env w)"

subsection \<open>Settings\<close>

record Settings =
  set_ClusterName :: string

definition defaultSettings :: Settings where
  "defaultSettings = \<lparr>set_ClusterName = ''''\<rparr>"

text \<open>The part of a context this package reads: the value under its own key.\<close>

type_synonym 'c ctx = "Settings option \<times> 'c"

definition Settings_ConfigMap :: string where
  "Settings_ConfigMap = ''gpu-provisioner-global-settings''"

definition ToContext :: "'c ctx \<Rightarrow> Settings \<Rightarrow> 'c ctx" where
  "ToContext ctx s = (Some s, snd ctx)"

definition FromContext :: "'c ctx \<Rightarrow> Settings res" where
  "FromContext ctx =
     (case fst ctx of None \<Rightarrow> Panic (''settings doesn'' @ [CHR 0x27] @ ''t exist in context'') | Some s \<Rightarrow> Ok s)"

definition Settings_Validate :: "Settings \<Rightarrow> unit res" where
  "Settings_Validate s =
     (if set_ClusterName s = '''' then Err (ErrorString ''Field validation for ClusterName failed on the required tag'') else Ok ())"

text \<open>\<open>configmap.AsString\<close> overwrites its target if the key is present.\<close>

definition AsString :: "(string \<rightharpoonup> string) \<Rightarrow> string \<Rightarrow> string \<Rightarrow> string" where
  "AsString cmData k target = (case cmData k of Some raw \<Rightarrow> raw | None \<Rightarrow> target)"

definition Settings_Inject :: "'c ctx \<Rightarrow> (string \<rightharpoonup> string) \<Rightarrow> 'c ctx \<times> unit res" where
  "Settings_Inject ctx cmData =
     (let s = defaultSettings\<lparr>set_ClusterName := AsString cmData ''azure.clusterName'' (set_ClusterName defaultSettings)\<rparr>
      in case Settings_Validate s of
           Ok _ \<Rightarrow> (ToContext ctx s, Ok ())
         | Err e \<Rightarrow> (ctx, Err (Wrapped ''validating settings, '' e))
         | Panic m \<Rightarrow> (ctx, Panic m))"

definition Settings_Data :: "Settings \<Rightarrow> (string \<rightharpoonup> string) res" where
  "Settings_Data s = Ok [''ClusterName'' \<mapsto> set_ClusterName s]"

subsection \<open>Starting up\<close>

lemma setArmClientOptions_panics: "setArmClientOptions u a = Panic ''assignment to entry in nil map''"
  by (simp add: setArmClientOptions_def zeroOptions_def maps_Clone_def map_write_def)

lemma res_bind_Panic: "\<not> is_Ok (res_bind y (\<lambda>_. Panic m))"
  by (cases y) simp_all

text \<open>
  C34. With \<open>E2E_TEST_MODE\<close> set, no Azure client is ever created: once authorizer and credential
  are there, writing the test endpoint into the nil map of services panics.
\<close>

theorem e2e_mode_creates_no_client:
  assumes "WithDefaultBool env ''E2E_TEST_MODE'' False" "CreateAzClient sdk env config w = Some (r, w')"
  shows "\<not> is_Ok r \<and>
    (\<forall>a w1 cfg cred. NewAuthorizer (sdk_msal sdk) env config publicEndpoint w = (Ok a, w1) \<longrightarrow> config = Some cfg \<longrightarrow>
       NewCredential (sdk_msal sdk) env config a w1 = Some (Ok cred, w') \<longrightarrow>
       r = Panic ''assignment to entry in nil map'')"
proof -
  note defs = CreateAzClient_def NewAZClient_def setArmClientOptions_panics GetAzureClientConfig_def Let_def
  have "\<not> is_Ok r"
  proof (cases "NewAuthorizer (sdk_msal sdk) env config publicEndpoint w")
    case (Pair x w1)
    show ?thesis
    proof (cases x)
      case (Ok a)
      show ?thesis
      proof (cases config)
        case (Some cfg)
        with assms Pair Ok show ?thesis by (auto simp: defs res_bind_Panic)
      qed (use assms Pair Ok in \<open>auto simp: defs\<close>)
    qed (use assms Pair in \<open>auto simp: defs\<close>)
  qed
  then show ?thesis using assms by (auto simp: defs)
qed

definition sampleToken :: authResult where
  "sampleToken = \<lparr>accessToken = ''t'', expiresOn = 0, grantedScopes = [], declinedScopes = []\<rparr>"

definition sampleMsal :: "(unit, unit) msal" where
  "sampleMsal =
     \<lparr>confidential_New = (\<lambda>_ _ _ w. (Ok (), w)),
      AcquireTokenByCredential = (\<lambda>_ _ w. (Ok sampleToken, w)),
      GetSecret = (\<lambda>_ _ _ w. (Ok (Some ''pem''), w)), X509KeyPair = (\<lambda>c k. Ok c), NewCredFromCert = (\<lambda>c k. Ok (FromCert c k)),
      pem_Decode = (\<lambda>s. if s = ''pem'' then Some ((''CERTIFICATE'', ''pem''), '''') else None)\<rparr>"

definition emptyPools :: "unit AgentPoolsAPI" where
  "emptyPools =
     \<lparr>BeginCreateOrUpdate = (\<lambda>_ _ _ _ w. (Err (ErrorString ''none''), w)), GetPool = (\<lambda>_ _ _ w. (Err (ResponseError ''NotFound''), w)),
      BeginDelete = (\<lambda>_ _ _ w. (Err (ResponseError ''NotFound''), w)), Fetcher = (\<lambda>_ _ _ w. (Ok \<lparr>pg_Value = [], pg_NextLink = None\<rparr>, w))\<rparr>"

definition sampleSDK :: "(unit, unit) azureSDK" where
  "sampleSDK =
     \<lparr>sdk_msal = sampleMsal, NewAgentPoolsClient = (\<lambda>_ _ _. Ok emptyPools), NewInterfacesClient = (\<lambda>_ _ _. Ok ()),
      NewResourceSkusClient = (\<lambda>_ _. onePageClient), sdk_uuid = ''id'', sdk_publicAudience = ''aud''\<rparr>"

definition podEnv :: environ where
  "podEnv = sampleEnv(''AZURE_FEDERATED_TOKEN_FILE'' \<mapsto> ''/token'', ''AZURE_AUTHORITY_HOST'' \<mapsto> ''https://login/'')"


lemma sample_sdk: "sdk_msal sampleSDK = sampleMsal"
  by (simp add: sampleSDK_def)

lemma sample_confidential: "confidential_New sampleMsal u i c () = (Ok (), ())"
  by (simp add: sampleMsal_def)

lemma sample_authorizer:
  "requiredEnv env = Ok (f, h) \<Longrightarrow>
   NewAuthorizer sampleMsal env (Some cfg) ep () =
     (Ok sampleToken, ())"
  by (simp add: NewAuthorizer_def act_bind_def sampleMsal_def)

definition e2eEnv :: environ where
  "e2eEnv = podEnv(''E2E_TEST_MODE'' \<mapsto> ''true'', ''AKS_E2E_OVERLAY_RESOURCE_VERSION'' \<mapsto> ''v1'')"

theorem e2e_mode_creates_no_client_witness:
  "\<exists>r. CreateAzClient sampleSDK e2eEnv (Some zeroConfig) () = Some (r, ()) \<and> \<not> is_Ok r"
proof -
  have e: "WithDefaultBool e2eEnv ''E2E_TEST_MODE'' False" by (simp add: WithDefaultBool_def e2eEnv_def ParseBool_def)
  have p: "splitPEMBlock (pem_Decode sampleMsal) ''pem'' [] [] = Some (''pem'', [])"
    by (subst splitPEMBlock.simps, subst splitPEMBlock.simps) (simp add: sampleMsal_def)
  have req: "requiredEnv e2eEnv = Ok (''/token'', ''https://login/'')"
    by (simp add: requiredEnv_def e2eEnv_def podEnv_def Getenv_def)
  have cert: "getE2ETestingCert sampleMsal e2eEnv tok () = (Ok (Some ''pem''), ())" for tok
    by (simp add: getE2ETestingCert_def Getenv_def e2eEnv_def sampleMsal_def)
  have "certCredential sampleMsal (''pem'', []) = Ok (FromCert ''pem'' [])" by (simp add: certCredential_def sampleMsal_def)
  then have "e2eCredential sampleMsal e2eEnv tok () = Some (Ok (FromCert ''pem'' []), ())" for tok
    by (simp add: e2eCredential_def cert p)
  then have "\<exists>cred. NewCredential sampleMsal e2eEnv (Some zeroConfig) sampleToken () = Some (Ok cred, ())"
    using e req by (simp add: NewCredential_def sample_confidential Let_def)
  then obtain cred where "NewCredential sampleMsal e2eEnv (Some zeroConfig) sampleToken () = Some (Ok cred, ())" by blast
  then have "\<exists>r. CreateAzClient sampleSDK e2eEnv (Some zeroConfig) () = Some (r, ())"
    using sample_authorizer [OF req, of zeroConfig publicEndpoint]
    by (simp add: CreateAzClient_def NewAZClient_def sample_sdk GetAzureClientConfig_def Let_def)
  then obtain r where r: "CreateAzClient sampleSDK e2eEnv (Some zeroConfig) () = Some (r, ())" by blast
  then show ?thesis using e2e_mode_creates_no_client [OF e r] by blast
qed


lemma NewOperator_invalid_config:
  assumes "\<not> is_Ok (GetAzConfig env)" "NewOperator sdk kube st env w = Some (r, w')"
  shows "is_Panic r"
proof -
  have "(case GetAzConfig env of Ok cfg \<Rightarrow> Some cfg | _ \<Rightarrow> None) = None" using assms(1) by (cases "GetAzConfig env") auto
  then obtain x where "CreateAzClient sdk env None w = Some (x, w')"
    and r: "r = (case x of Panic m \<Rightarrow> Panic m
      | Err e \<Rightarrow> Panic (''Configure azure client fails. Please ensure federatedcredential has been created for identity '' @
                        Getenv env ''AZURE_CLIENT_ID'' @ ''.'')
      | Ok azClient \<Rightarrow> Panic ''nil pointer dereference'')"
    using assms(2) unfolding NewOperator_def Let_def by (auto split: res.splits)
  then show ?thesis by (cases x) simp_all
qed

text \<open>C33.
  An invalid configuration stops the program. \<open>NewOperator\<close> logs the error and goes on with a nil
  configuration; whatever Azure and karpenter's operator answer, \<open>main\<close> then panics before the
  health check is registered or a controller is started.
\<close>

theorem invalid_config_panics:
  assumes "\<not> is_Ok (GetAzConfig env)" "controllerMain sdk kube addHealthzCheck st env w = Some (r, w')"
  shows "is_Panic r \<and> (\<exists>m. NewOperator sdk kube st env w = Some (Panic m, w'))"
proof -
  obtain x w1 where x: "NewOperator sdk kube st env w = Some (x, w1)"
    using assms(2) by (auto simp: controllerMain_def)
  then have "is_Panic x" by (rule NewOperator_invalid_config [OF assms(1)])
  then show ?thesis using assms(2) x by (cases x) (auto simp: controllerMain_def)
qed

theorem invalid_config_panics_witness:
  "\<exists>r. controllerMain sampleSDK (\<lambda>_ w. (Ok [], w)) (\<lambda>_ _ w. (Ok (), w)) (Map.empty, 0) Map.empty () = Some (r, ()) \<and> is_Panic r"
proof -
  have c: "\<not> is_Ok (GetAzConfig Map.empty)"
    by (simp add: GetAzConfig_def BuildAzureConfig_def BaseVars_def Getenv_def zeroConfig_def Config_TrimSpace_def validate_def
        TrimSpace_def TrimFunc_def)
  have "\<exists>r. NewOperator sampleSDK (\<lambda>_ w. (Ok [], w)) (Map.empty, 0) Map.empty () = Some (r, ())"
    by (simp add: NewOperator_def CreateAzClient_def NewAZClient_def NewAuthorizer_def requiredEnv_def Getenv_def act_bind_def Let_def)
  then obtain r0 where "NewOperator sampleSDK (\<lambda>_ w. (Ok [], w)) (Map.empty, 0) Map.empty () = Some (r0, ())" by blast
  then have "\<exists>r. controllerMain sampleSDK (\<lambda>_ w. (Ok [], w)) (\<lambda>_ _ w. (Ok (), w)) (Map.empty, 0) Map.empty () = Some (r, ())"
    by (cases r0) (simp_all add: controllerMain_def Let_def)
  then obtain r where "controllerMain sampleSDK (\<lambda>_ w. (Ok [], w)) (\<lambda>_ _ w. (Ok (), w)) (Map.empty, 0) Map.empty () = Some (r, ())" by blast
  then show ?thesis
    using invalid_config_panics [OF c, of sampleSDK "\<lambda>_ w. (Ok [], w)" "\<lambda>_ _ w. (Ok (), w)" "(Map.empty, 0)" "()" r "()"] by blast
qed






text \<open>
  Settings. A configuration map with a non-empty \<open>azure.clusterName\<close> is injected into the
  context and read back from it; any other map is refused and leaves the context as it was.
\<close>

theorem settings_inject_round_trip:
  "case cmData ''azure.clusterName'' of
     Some (c # name) \<Rightarrow> snd (Settings_Inject ctx cmData) = Ok () \<and>
       FromContext (fst (Settings_Inject ctx cmData)) = Ok \<lparr>set_ClusterName = c # name\<rparr> \<and>
       snd (fst (Settings_Inject ctx cmData)) = snd ctx
   | _ \<Rightarrow> fst (Settings_Inject ctx cmData) = ctx \<and> \<not> is_Ok (snd (Settings_Inject ctx cmData))"
  by (cases "cmData ''azure.clusterName''")
    (auto simp: Settings_Inject_def AsString_def Settings_Validate_def defaultSettings_def FromContext_def ToContext_def Let_def
      split: list.splits)

subsection \<open>The static provisioner\<close>

text \<open>\<open>pkg/staticprovisioner\<close>: the provisioner under which machines are made, as far as its fields are set.\<close>

record Provisioner =
  sp_ConsolidationEnabled :: "bool option"
  sp_Taints :: "Taint list"
  sp_ProviderRef :: string

definition Sp :: Provisioner where
  "Sp = \<lparr>sp_ConsolidationEnabled = Some False,
         sp_Taints = [\<lparr>taint_Key = ''sku'', taint_Value = ''gpu'', taint_Effect = ''NoSchedule''\<rparr>], sp_ProviderRef = ''default''\<rparr>"

lemma Sp_pool_taints:
  "m_Taints machine = sp_Taints Sp \<Longrightarrow>
    map_option NodeTaints (ap_Properties (newAgentPoolObject v machine)) = Some [Some ''sku=gpu:NoSchedule'']"
  by (simp add: newAgentPoolObject_def Let_def Sp_def taintString_def)

end
