(* ===== verification/Fakes.thy ===== *)
theory Fakes
  imports TypeListing
begin

text \<open>
  The test doubles of \<open>pkg/fake/\<close> that the suites script: values behind a mutex (\<open>atomic.go\<close>),
  mocked functions and long-running operations (\<open>types.go\<close>), and the fake price and SKU services
  (\<open>pricingapi.go\<close>, \<open>resourceskuapi.go\<close>). Every operation holds its mutex from entry to return, so
  operations are atomic steps on the state. JSON encoding and decoding of a value are a
  parameter.
\<close>

subsection \<open>Values behind a mutex\<close>

record 'a json =
  Encode :: "'a option \<Rightarrow> string res"
  Decode :: "string \<Rightarrow> 'a res"

text \<open>\<open>log.Fatalf\<close> ends the process.\<close>

definition clone :: "'a json \<Rightarrow> 'a option \<Rightarrow> 'a res" where
  "clone j v =
     (case Encode j v of
        Ok buf \<Rightarrow> (case Decode j buf of Ok cp \<Rightarrow> Ok cp | Err e \<Rightarrow> Panic ''encoding'' | Panic m \<Rightarrow> Panic m)
      | Err e \<Rightarrow> Panic ''encoding''
      | Panic m \<Rightarrow> Panic m)"

record 'a AtomicPtr =
  ptr_value :: "'a option"

definition AtomicPtr_Set :: "'a AtomicPtr \<Rightarrow> 'a option \<Rightarrow> 'a AtomicPtr" where
  "AtomicPtr_Set a v = a\<lparr>ptr_value := v\<rparr>"

definition AtomicPtr_IsNil :: "'a AtomicPtr \<Rightarrow> bool" where
  "AtomicPtr_IsNil a \<longleftrightarrow> ptr_value a = None"

definition AtomicPtr_Clone :: "'a json \<Rightarrow> 'a AtomicPtr \<Rightarrow> 'a res" where
  "AtomicPtr_Clone j a = clone j (ptr_value a)"

definition AtomicPtr_Reset :: "'a AtomicPtr \<Rightarrow> 'a AtomicPtr" where
  "AtomicPtr_Reset a = a\<lparr>ptr_value := None\<rparr>"

record AtomicError =
  ae_err :: "goerr option"
  ae_calls :: int
  ae_maxCalls :: int

definition AtomicError_Reset :: "AtomicError \<Rightarrow> AtomicError" where
  "AtomicError_Reset e = e\<lparr>ae_err := None, ae_calls := 0, ae_maxCalls := 0\<rparr>"

definition AtomicError_IsNil :: "AtomicError \<Rightarrow> bool" where
  "AtomicError_IsNil e \<longleftrightarrow> ae_err e = None"

definition AtomicError_Get :: "AtomicError \<Rightarrow> goerr option \<times> AtomicError" where
  "AtomicError_Get e =
     (if ae_maxCalls e \<le> ae_calls e then (None, e)
      else (ae_err e, e\<lparr>ae_calls := int64_of (ae_calls e + 1)\<rparr>))"

type_synonym AtomicErrorOption = "AtomicError \<Rightarrow> AtomicError"

definition AtomicError_Set :: "AtomicError \<Rightarrow> goerr option \<Rightarrow> AtomicErrorOption list \<Rightarrow> AtomicError" where
  "AtomicError_Set e err opts =
     (let e = fold (\<lambda>opt e. opt e) opts (e\<lparr>ae_err := err\<rparr>)
      in if ae_maxCalls e = 0 then e\<lparr>ae_maxCalls := 1\<rparr> else e)"

definition MaxInt :: int where
  "MaxInt = 2 ^ 63 - 1"

definition MaxCalls :: "int \<Rightarrow> AtomicErrorOption" where
  "MaxCalls maxCalls = (let maxCalls = (if maxCalls \<le> 0 then MaxInt else maxCalls) in (\<lambda>e. e\<lparr>ae_maxCalls := maxCalls\<rparr>))"

record 'a AtomicPtrStack =
  stack_values :: "'a list"

definition Stack_Reset :: "'a AtomicPtrStack \<Rightarrow> 'a AtomicPtrStack" where
  "Stack_Reset a = a\<lparr>stack_values := []\<rparr>"

definition Stack_Add :: "'a json \<Rightarrow> 'a AtomicPtrStack \<Rightarrow> 'a option \<Rightarrow> 'a AtomicPtrStack res" where
  "Stack_Add j a input = map_res (\<lambda>cp. a\<lparr>stack_values := stack_values a @ [cp]\<rparr>) (clone j input)"

definition Stack_Len :: "'a AtomicPtrStack \<Rightarrow> nat" where
  "Stack_Len a = length (stack_values a)"

definition Stack_Pop :: "'a AtomicPtrStack \<Rightarrow> ('a \<times> 'a AtomicPtrStack) res" where
  "Stack_Pop a =
     (if stack_values a = [] then Panic ''index out of range [-1]''
      else Ok (last (stack_values a), a\<lparr>stack_values := butlast (stack_values a)\<rparr>))"

subsection \<open>Mocked functions\<close>

text \<open>
  The counters are \<open>atomic.Int32\<close>. A mocked function returns a value together with an error, as
  the source does; \<open>zero\<close> is the zero value \<open>*new(O)\<close>.
\<close>

record ('i, 'o) MockedFunction =
  mf_Output :: "'o AtomicPtr"
  mf_CalledWithInput :: "'i AtomicPtrStack"
  mf_Error :: AtomicError
  mf_successfulCalls :: int
  mf_failedCalls :: int

definition MockedFunction_Reset :: "('i, 'o, 'z) MockedFunction_scheme \<Rightarrow> ('i, 'o, 'z) MockedFunction_scheme" where
  "MockedFunction_Reset m =
     m\<lparr>mf_Output := AtomicPtr_Reset (mf_Output m), mf_CalledWithInput := Stack_Reset (mf_CalledWithInput m),
       mf_Error := AtomicError_Reset (mf_Error m), mf_successfulCalls := 0, mf_failedCalls := 0\<rparr>"

definition count_failed :: "('i, 'o, 'z) MockedFunction_scheme \<Rightarrow> ('i, 'o, 'z) MockedFunction_scheme" where
  "count_failed m = m\<lparr>mf_failedCalls := int32_of (mf_failedCalls m + 1)\<rparr>"

definition count_successful :: "('i, 'o, 'z) MockedFunction_scheme \<Rightarrow> ('i, 'o, 'z) MockedFunction_scheme" where
  "count_successful m = m\<lparr>mf_successfulCalls := int32_of (mf_successfulCalls m + 1)\<rparr>"

definition MockedFunction_Invoke ::
  "'i json \<Rightarrow> 'o json \<Rightarrow> 'o \<Rightarrow> 'i option \<Rightarrow> ('i option \<Rightarrow> 'o \<times> goerr option) \<Rightarrow> ('i, 'o) MockedFunction
     \<Rightarrow> (('o \<times> goerr option) \<times> ('i, 'o) MockedFunction) res" where
  "MockedFunction_Invoke ji jo zero input defaultTransformer m =
     (case AtomicError_Get (mf_Error m) of
        (Some err, ae) \<Rightarrow> Ok ((zero, Some err), count_failed (m\<lparr>mf_Error := ae\<rparr>))
      | (None, ae) \<Rightarrow>
          res_bind (Stack_Add ji (mf_CalledWithInput m) input) (\<lambda>calls.
          let m = m\<lparr>mf_Error := ae, mf_CalledWithInput := calls\<rparr>
          in if \<not> AtomicPtr_IsNil (mf_Output m)
             then map_res (\<lambda>out. ((out, None), count_successful m)) (AtomicPtr_Clone jo (mf_Output m))
             else (let (out, err) = defaultTransformer input
                   in Ok ((out, err), if err \<noteq> None then count_failed m else count_successful m))))"

definition SuccessfulCalls :: "('i, 'o, 'z) MockedFunction_scheme \<Rightarrow> int" where
  "SuccessfulCalls m = mf_successfulCalls m"

definition FailedCalls :: "('i, 'o, 'z) MockedFunction_scheme \<Rightarrow> int" where
  "FailedCalls m = mf_failedCalls m"

definition Calls :: "('i, 'o, 'z) MockedFunction_scheme \<Rightarrow> int" where
  "Calls m = int64_of (SuccessfulCalls m + FailedCalls m)"

subsection \<open>Mocked long-running operations\<close>

record ('i, 'o) MockedLRO = "('i, 'o) MockedFunction" +
  lro_BeginError :: AtomicError

definition MockedLRO_Reset :: "('i, 'o) MockedLRO \<Rightarrow> ('i, 'o) MockedLRO" where
  "MockedLRO_Reset m = (MockedFunction_Reset m)\<lparr>lro_BeginError := AtomicError_Reset (lro_BeginError m)\<rparr>"

record 'o MockHandler =
  h_result :: "'o option"
  h_err :: "goerr option"

definition Handler_Done :: "'o MockHandler \<Rightarrow> bool" where
  "Handler_Done h = True"

definition Handler_Poll :: "'o MockHandler \<Rightarrow> goerr option" where
  "Handler_Poll h = h_err h"

definition Handler_Result :: "'o MockHandler \<Rightarrow> 'o res" where
  "Handler_Result h =
     (case h_err h of
        Some e \<Rightarrow> Err e
      | None \<Rightarrow> (case h_result h of None \<Rightarrow> Panic ''nil pointer dereference'' | Some r \<Rightarrow> Ok r))"

text \<open>\<open>runtime.NewPoller\<close> with a handler keeps the handler and cannot fail.\<close>

definition newMockPoller :: "'o option \<Rightarrow> goerr option \<Rightarrow> 'o MockHandler \<times> goerr option" where
  "newMockPoller result err = (\<lparr>h_result = result, h_err = err\<rparr>, None)"

text \<open>
  The first round of \<open>Poller.PollUntilDone\<close>: \<open>Poll\<close> asks the handler unless it is done, and a
  handler that is done gives its result.
\<close>

definition PollUntilDone :: "'o MockHandler \<Rightarrow> 'o res option" where
  "PollUntilDone h =
     (case (if Handler_Done h then None else Handler_Poll h) of
        Some e \<Rightarrow> Some (Err e)
      | None \<Rightarrow> if Handler_Done h then Some (Handler_Result h) else None)"

definition MockedLRO_Invoke ::
  "'i json \<Rightarrow> 'o json \<Rightarrow> 'i option \<Rightarrow> ('i option \<Rightarrow> 'o option \<times> goerr option) \<Rightarrow> ('i, 'o) MockedLRO
     \<Rightarrow> (('o MockHandler option \<times> goerr option) \<times> ('i, 'o) MockedLRO) res" where
  "MockedLRO_Invoke ji jo input defaultTransformer m =
     (case AtomicError_Get (lro_BeginError m) of
        (Some err, be) \<Rightarrow> Ok ((None, Some err), count_failed (m\<lparr>lro_BeginError := be\<rparr>))
      | (None, be) \<Rightarrow>
          (let m = m\<lparr>lro_BeginError := be\<rparr>
           in case AtomicError_Get (mf_Error m) of
                (Some err, ae) \<Rightarrow> Ok (apfst Some (newMockPoller None (Some err)), count_failed (m\<lparr>mf_Error := ae\<rparr>))
              | (None, ae) \<Rightarrow>
                  res_bind (Stack_Add ji (mf_CalledWithInput m) input) (\<lambda>calls.
                  let m = m\<lparr>mf_Error := ae, mf_CalledWithInput := calls\<rparr>
                  in if \<not> AtomicPtr_IsNil (mf_Output m)
                     then map_res (\<lambda>out. (apfst Some (newMockPoller (Some out) None), count_successful m))
                            (AtomicPtr_Clone jo (mf_Output m))
                     else (let (out, err) = defaultTransformer input
                           in Ok (apfst Some (newMockPoller out err),
                                  if err \<noteq> None then count_failed m else count_successful m)))))"

subsection \<open>The fake price service\<close>

record FakePricing =
  NextError :: AtomicError
  PricePage :: "ProductsPricePage AtomicPtr"

definition FakePricing_Reset :: "FakePricing \<Rightarrow> FakePricing" where
  "FakePricing_Reset p = p\<lparr>NextError := AtomicError_Reset (NextError p), PricePage := AtomicPtr_Reset (PricePage p)\<rparr>"

definition Fake_GetProductsPricePages :: "ProductsPricePage json \<Rightarrow> FakePricing PricingAPI" where
  "Fake_GetProductsPricePages j filters fn ps p =
     (if \<not> AtomicError_IsNil (NextError p)
      then (let (err, ae) = AtomicError_Get (NextError p)
            in Some ((case err of None \<Rightarrow> Ok () | Some e \<Rightarrow> Err e, ps), p\<lparr>NextError := ae\<rparr>))
      else if \<not> AtomicPtr_IsNil (PricePage p)
      then (case AtomicPtr_Clone j (PricePage p) of
              Ok page \<Rightarrow> Some ((Ok (), fn page ps), p)
            | Err e \<Rightarrow> Some ((Err e, ps), p)
            | Panic m \<Rightarrow> Some ((Panic m, ps), p))
      else Some ((Err (ErrorString ''no pricing data provided''), ps), p))"

definition NewProductPrice :: "string \<Rightarrow> rat \<Rightarrow> PriceItem" where
  "NewProductPrice instanceType price =
     \<lparr>RetailPrice = price, MeterName = '''', ProductName = '''', SkuName = '''', ArmSkuName = instanceType\<rparr>"

interpretation fake_client: pricing_api "Fake_GetProductsPricePages j" for j
proof unfold_locales
  fix filters h ps w r ps' w'
  assume call: "Fake_GetProductsPricePages j filters h ps w = Some ((r, ps'), w')"
  have "ps' = ps \<or> (\<exists>page. ps' = h page ps)"
    using call by (auto simp: Fake_GetProductsPricePages_def Let_def split: if_splits prod.splits res.splits)
  then have "ps' = fold h [] ps \<or> (\<exists>page. ps' = fold h [page] ps)" by simp
  then show "\<exists>pages. ps' = fold h pages ps" by blast
qed

subsection \<open>Scripted errors\<close>

primrec gets :: "nat \<Rightarrow> AtomicError \<Rightarrow> goerr option list \<times> AtomicError" where
  "gets 0 e = ([], e)"
| "gets (Suc n) e = (let (x, e1) = AtomicError_Get e; (xs, e2) = gets n e1 in (x # xs, e2))"

text \<open>How often an error set with \<open>MaxCalls k\<close> is returned.\<close>

definition call_limit :: "int \<Rightarrow> nat" where
  "call_limit k = nat (if k \<le> 0 then MaxInt else k)"

lemma call_limit_pos: "0 < call_limit k"
  by (simp add: call_limit_def MaxInt_def)

lemma gets_spent: "ae_maxCalls e \<le> ae_calls e \<Longrightarrow> gets n e = (replicate n None, e)"
  by (induction n) (simp_all add: AtomicError_Get_def)

lemma gets_from:
  assumes "0 \<le> ae_calls e" "ae_maxCalls e \<le> MaxInt"
  shows "gets n e =
    (replicate (min n (nat (ae_maxCalls e - ae_calls e))) (ae_err e) @ replicate (n - nat (ae_maxCalls e - ae_calls e)) None,
     e\<lparr>ae_calls := ae_calls e + int (min n (nat (ae_maxCalls e - ae_calls e)))\<rparr>)"
  using assms
proof (induction n arbitrary: e)
  case 0
  show ?case by simp
next
  case (Suc n)
  show ?case
  proof (cases "ae_maxCalls e \<le> ae_calls e")
    case True
    then show ?thesis using gets_spent [OF True, of "Suc n"] by simp
  next
    case False
    define left where "left = nat (ae_maxCalls e - ae_calls e) - 1"
    have left: "nat (ae_maxCalls e - ae_calls e) = Suc left" "nat (ae_maxCalls e - (ae_calls e + 1)) = left"
      using False by (simp_all add: left_def)
    have id: "int64_of (ae_calls e + 1) = ae_calls e + 1"
      using False Suc.prems by (intro int64_of_id) (simp_all add: MaxInt_def)
    have "gets n (e\<lparr>ae_calls := ae_calls e + 1\<rparr>) =
        (replicate (min n left) (ae_err e) @ replicate (n - left) None, e\<lparr>ae_calls := ae_calls e + 1 + int (min n left)\<rparr>)"
      using Suc.IH [of "e\<lparr>ae_calls := ae_calls e + 1\<rparr>"] Suc.prems by (simp add: left)
    then show ?thesis using False by (simp add: AtomicError_Get_def id left)
  qed
qed

lemma Set_MaxCalls:
  assumes "k \<le> MaxInt"
  shows "AtomicError_Set e err [MaxCalls k] = e\<lparr>ae_err := err, ae_maxCalls := int (call_limit k)\<rparr>"
  using assms by (simp add: AtomicError_Set_def MaxCalls_def call_limit_def Let_def MaxInt_def)

text \<open>
  A scripted error. After \<open>Reset\<close>, an error set with \<open>MaxCalls k\<close> is returned by the first \<open>k\<close>
  calls (by every call, up to the largest integer, when \<open>k\<close> is not positive) and no later one.
  A second \<open>Set\<close> without \<open>Reset\<close> in between does not start the count again: once the first
  error is used up, an error set in the default way is never returned.
\<close>

theorem scripted_error_fires_k_times:
  assumes "k \<le> MaxInt"
  shows "fst (gets n (AtomicError_Set (AtomicError_Reset e) (Some x) [MaxCalls k])) =
      replicate (min n (call_limit k)) (Some x) @ replicate (n - call_limit k) None \<and>
    fst (gets m (AtomicError_Set
      (snd (gets (call_limit k) (AtomicError_Set (AtomicError_Reset e) (Some x) [MaxCalls k]))) (Some y) [])) =
      replicate m None"
proof -
  let ?s = "AtomicError_Set (AtomicError_Reset e) (Some x) [MaxCalls k]"
  have s: "ae_calls ?s = 0" "ae_maxCalls ?s = int (call_limit k)" "ae_err ?s = Some x"
    by (simp_all add: Set_MaxCalls [OF assms] AtomicError_Reset_def)
  have bound: "int (call_limit k) \<le> MaxInt" using assms by (simp add: call_limit_def MaxInt_def)
  have g: "gets n ?s = (replicate (min n (call_limit k)) (Some x) @ replicate (n - call_limit k) None,
      ?s\<lparr>ae_calls := int (min n (call_limit k))\<rparr>)" for n
    using gets_from [of ?s n] s bound by simp
  let ?t = "snd (gets (call_limit k) ?s)"
  have "ae_maxCalls (AtomicError_Set ?t (Some y) []) \<le> ae_calls (AtomicError_Set ?t (Some y) [])"
    using g [of "call_limit k"] s(2) call_limit_pos [of k] by (simp add: AtomicError_Set_def Let_def)
  from gets_spent [OF this] g [of n] show ?thesis by simp
qed

theorem scripted_error_fires_k_times_witness:
  "fst (gets 3 (AtomicError_Set (AtomicError_Reset \<lparr>ae_err = None, ae_calls = 7, ae_maxCalls = 1\<rparr>) (Some (ErrorString ''no'')) [MaxCalls 2])) =
     [Some (ErrorString ''no''), Some (ErrorString ''no''), None]"
  using scripted_error_fires_k_times
    [of 2 3 "\<lparr>ae_err = None, ae_calls = 7, ae_maxCalls = 1\<rparr>" "ErrorString ''no''" 0 "ErrorString ''no''"]
  by (simp add: MaxInt_def call_limit_def numeral_3_eq_3 numeral_2_eq_2)

subsection \<open>Counting calls\<close>

text \<open>A sequence of calls, each with its input and default transformer.\<close>

fun invokes ::
  "'i json \<Rightarrow> 'o json \<Rightarrow> 'o \<Rightarrow> ('i option \<times> ('i option \<Rightarrow> 'o \<times> goerr option)) list \<Rightarrow> ('i, 'o) MockedFunction
     \<Rightarrow> (('o \<times> goerr option) list \<times> ('i, 'o) MockedFunction) res" where
  "invokes ji jo zero [] m = Ok ([], m)"
| "invokes ji jo zero ((input, dflt) # calls) m =
     res_bind (MockedFunction_Invoke ji jo zero input dflt m) (\<lambda>(r, m1).
     res_bind (invokes ji jo zero calls m1) (\<lambda>(rs, m2). Ok (r # rs, m2)))"

definition failed :: "'o \<times> goerr option \<Rightarrow> bool" where
  "failed r \<longleftrightarrow> snd r \<noteq> None"

lemma Invoke_counts:
  assumes "MockedFunction_Invoke ji jo zero input dflt m = Ok (r, m')"
  shows "mf_failedCalls m' = (if failed r then int32_of (mf_failedCalls m + 1) else mf_failedCalls m)"
    "mf_successfulCalls m' = (if failed r then mf_successfulCalls m else int32_of (mf_successfulCalls m + 1))"
  using assms
  by (auto simp: MockedFunction_Invoke_def failed_def count_failed_def count_successful_def Let_def res_bind_eq_Ok_iff
      split: prod.splits option.splits if_splits)

lemma invokes_counts:
  assumes "invokes ji jo zero calls m = Ok (rs, m')"
    and "0 \<le> mf_failedCalls m" "0 \<le> mf_successfulCalls m"
    and "mf_failedCalls m + mf_successfulCalls m + int (length calls) < 2 ^ 31"
  shows "mf_failedCalls m' = mf_failedCalls m + int (length (filter failed rs)) \<and>
    mf_successfulCalls m' = mf_successfulCalls m + int (length (filter (\<lambda>r. \<not> failed r) rs)) \<and> length rs = length calls"
  using assms
proof (induction calls arbitrary: m rs)
  case Nil
  then show ?case by simp
next
  case (Cons c calls)
  obtain input dflt where c: "c = (input, dflt)" by (cases c)
  from Cons.prems(1) obtain r m1 rs' where call: "MockedFunction_Invoke ji jo zero input dflt m = Ok (r, m1)"
    and rest: "invokes ji jo zero calls m1 = Ok (rs', m')" and rs: "rs = r # rs'"
    by (auto simp: c res_bind_eq_Ok_iff)
  have id: "int32_of (mf_failedCalls m + 1) = mf_failedCalls m + 1" "int32_of (mf_successfulCalls m + 1) = mf_successfulCalls m + 1"
    using Cons.prems(2-4) by (auto intro!: int32_of_id)
  note counts = Invoke_counts [OF call, unfolded id]
  have "0 \<le> mf_failedCalls m1" "0 \<le> mf_successfulCalls m1" "mf_failedCalls m1 + mf_successfulCalls m1 + int (length calls) < 2 ^ 31"
    using counts Cons.prems(2-4) by auto
  from Cons.IH [OF rest this] show ?case using counts by (auto simp: rs)
qed

text \<open>
  The counters of a mocked function. After \<open>Reset\<close> and any sequence of calls shorter than
  the range of its 32-bit counters, \<open>Calls\<close> is their number, \<open>FailedCalls\<close> the number that returned
  an error and \<open>SuccessfulCalls\<close> the number that did not.
\<close>

theorem mocked_function_counts_calls:
  assumes "invokes ji jo zero calls (MockedFunction_Reset m) = Ok (rs, m')" "length calls < 2 ^ 31"
  shows "Calls m' = int (length calls) \<and> FailedCalls m' = int (length (filter failed rs)) \<and>
    SuccessfulCalls m' = int (length (filter (\<lambda>r. \<not> failed r) rs))"
proof -
  have "int (length calls) < 2 ^ 31" using assms(2) by simp
  then have n: "FailedCalls m' = int (length (filter failed rs))" "SuccessfulCalls m' = int (length (filter (\<lambda>r. \<not> failed r) rs))"
      "length rs = length calls"
    using invokes_counts [OF assms(1)] by (simp_all add: MockedFunction_Reset_def FailedCalls_def SuccessfulCalls_def)
  have "SuccessfulCalls m' + FailedCalls m' = int (length calls)"
    using n sum_length_filter_compl [of failed rs] by simp
  then have "Calls m' = int (length calls)" using \<open>int (length calls) < 2 ^ 31\<close> by (simp add: Calls_def int64_of_id)
  then show ?thesis using n by simp
qed

text \<open>JSON of strings, and a function that fails on the empty string.\<close>

definition stringJSON :: "string json" where
  "stringJSON = \<lparr>Encode = (\<lambda>v. Ok (case v of None \<Rightarrow> '''' | Some s \<Rightarrow> s)), Decode = Ok\<rparr>"

definition echo :: "string option \<Rightarrow> string \<times> goerr option" where
  "echo v = (case v of Some (c # cs) \<Rightarrow> (c # cs, None) | _ \<Rightarrow> ('''', Some (ErrorString ''empty'')))"

definition freshMock :: "(string, string) MockedFunction" where
  "freshMock = \<lparr>mf_Output = \<lparr>ptr_value = None\<rparr>, mf_CalledWithInput = \<lparr>stack_values = []\<rparr>,
     mf_Error = \<lparr>ae_err = None, ae_calls = 0, ae_maxCalls = 0\<rparr>, mf_successfulCalls = 5, mf_failedCalls = 0\<rparr>"

theorem mocked_function_counts_calls_witness:
  "\<exists>rs m'. invokes stringJSON stringJSON '''' [(Some ''a'', echo), (None, echo), (Some ''b'', echo)] (MockedFunction_Reset freshMock) = Ok (rs, m')
     \<and> Calls m' = 3 \<and> FailedCalls m' = 1"
proof -
  let ?calls = "[(Some ''a'', echo), (None, echo), (Some ''b'', echo)]"
  have "\<exists>m'. invokes stringJSON stringJSON '''' ?calls (MockedFunction_Reset freshMock) =
      Ok ([(''a'', None), ('''', Some (ErrorString ''empty'')), (''b'', None)], m')"
    by (simp add: MockedFunction_Invoke_def MockedFunction_Reset_def freshMock_def AtomicError_Reset_def AtomicPtr_Reset_def Stack_Reset_def
        AtomicError_Get_def Stack_Add_def clone_def stringJSON_def AtomicPtr_IsNil_def echo_def count_failed_def count_successful_def Let_def)
  then obtain m' where m': "invokes stringJSON stringJSON '''' ?calls (MockedFunction_Reset freshMock) =
      Ok ([(''a'', None), ('''', Some (ErrorString ''empty'')), (''b'', None)], m')" by blast
  from mocked_function_counts_calls [OF m'] have "Calls m' = 3" "FailedCalls m' = 1" by (simp_all add: failed_def)
  then show ?thesis using m' by blast
qed

subsection \<open>Long-running operations\<close>

text \<open>What the caller of a begin function gets by waiting for the poller it returns.\<close>

definition await :: "'o MockHandler option \<times> goerr option \<Rightarrow> 'o res option" where
  "await x =
     (case x of
        (_, Some e) \<Rightarrow> Some (Err e)
      | (None, None) \<Rightarrow> Some (Panic ''nil pointer dereference'')
      | (Some h, None) \<Rightarrow> PollUntilDone h)"

definition value_or_error :: "'o \<times> goerr option \<Rightarrow> 'o res" where
  "value_or_error x = (case x of (_, Some e) \<Rightarrow> Err e | (r, None) \<Rightarrow> Ok r)"

text \<open>
  A mocked long-running operation is a mocked function with a poller around it. Unless its
  begin error fires, beginning it and waiting for the poller gives what the function gives on
  the same input, leaves the same recorded inputs, scripted error and counters, and the wait
  ends at once.
\<close>

theorem mocked_lro_equals_function:
  assumes "fst (AtomicError_Get (lro_BeginError m)) = None"
    and "dflt input = (case lro input of (out, err) \<Rightarrow> (case out of None \<Rightarrow> zero | Some r \<Rightarrow> r, err))"
    and "lro input \<noteq> (None, None)"
  shows "map_res (\<lambda>(x, m'). (await x, MockedFunction.truncate m')) (MockedLRO_Invoke ji jo input lro m) =
    map_res (\<lambda>(x, m'). (Some (value_or_error x), m'))
      (MockedFunction_Invoke ji jo zero input dflt (MockedFunction.truncate m))"
proof -
  obtain be where be: "AtomicError_Get (lro_BeginError m) = (None, be)" using assms(1) by (cases "AtomicError_Get (lro_BeginError m)") simp
  obtain e ae where ae: "AtomicError_Get (mf_Error m) = (e, ae)" by (cases "AtomicError_Get (mf_Error m)")
  obtain out err where lro: "lro input = (out, err)" by (cases "lro input")
  note defs = MockedLRO_Invoke_def MockedFunction_Invoke_def await_def value_or_error_def PollUntilDone_def Handler_Done_def
    Handler_Result_def newMockPoller_def MockedFunction.truncate_def count_failed_def count_successful_def Let_def
  show ?thesis
  proof (cases e)
    case (Some x)
    then show ?thesis by (simp add: be ae defs)
  next
    case None
    show ?thesis
    proof (cases "Stack_Add ji (mf_CalledWithInput m) input")
      case (Ok calls)
      show ?thesis
      proof (cases "AtomicPtr_IsNil (mf_Output m)")
        case True
        then show ?thesis using None Ok lro assms(2,3) by (cases out; cases err) (simp_all add: be ae defs)
      next
        case False
        then show ?thesis using None Ok by (cases "AtomicPtr_Clone jo (mf_Output m)") (simp_all add: be ae defs)
      qed
    qed (simp_all add: None be ae defs)
  qed
qed

theorem mocked_lro_equals_function_witness:
  "\<exists>m. map_res (\<lambda>(x, m'). (await x, MockedFunction.truncate m')) (MockedLRO_Invoke stringJSON stringJSON (Some ''a'') (\<lambda>i. apfst Some (echo i)) m) =
     map_res (\<lambda>(x, m'). (Some (value_or_error x), m')) (MockedFunction_Invoke stringJSON stringJSON '''' (Some ''a'') echo freshMock)"
proof -
  let ?m = "MockedFunction.extend freshMock (MockedLRO.fields \<lparr>ae_err = None, ae_calls = 0, ae_maxCalls = 0\<rparr>)"
  have t: "MockedFunction.truncate ?m = freshMock"
    by (simp add: MockedFunction.truncate_def MockedFunction.extend_def MockedLRO.fields_def freshMock_def)
  have b: "fst (AtomicError_Get (lro_BeginError ?m)) = None"
    by (simp add: MockedFunction.extend_def MockedLRO.fields_def AtomicError_Get_def)
  show ?thesis
    using mocked_lro_equals_function
      [OF b, where dflt = echo and input = "Some ''a''" and lro = "\<lambda>i. apfst Some (echo i)" and zero = "''''"
        and ji = stringJSON and jo = stringJSON, unfolded t]
    by (intro exI [of _ ?m]) (simp add: echo_def)
qed

end
