(* ===== verification/FakeSkus.thy ===== *)
theory FakeSkus
  imports Fakes
begin

text \<open>
  The fake SKU service (\<open>pkg/fake/resourceskuapi.go\<close>) and its table, the seven SKUs recorded from
  Azure in \<open>pkg/fake/zz_generated.sku.go\<close>.
\<close>

subsection \<open>The table\<close>

text \<open>
  A listed SKU has more fields than the provisioner reads. Costs and restrictions are empty for
  every SKU of the table; \<open>sku_LocationInfo\<close> pairs a location with its zones.
\<close>

record ListedSKU = SKU +
  sku_Tier :: "string option"
  sku_Kind :: "string option"
  sku_Family :: "string option"
  sku_APIVersions :: "string list"
  sku_Costs :: "unit list"
  sku_Restrictions :: "unit list"
  sku_LocationInfo :: "(string \<times> string list) list"

definition caps :: "(string \<times> string) list \<Rightarrow> ResourceSkuCapabilities list" where
  "caps = map (\<lambda>(n, v). \<lparr>cap_Name = Some n, cap_Value = Some v\<rparr>)"

definition sku_D2s_v3 :: ListedSKU where
  "sku_D2s_v3 =
     \<lparr>sku_ResourceType = Some ''virtualMachines'', sku_Name = Some ''Standard_D2s_v3'', sku_Size = Some ''D2s_v3'', sku_Locations = Some [''''],
      sku_Capabilities = Some (caps
        [(''MaxResourceVolumeMB'', ''16384''),
         (''OSVhdSizeMB'', ''1047552''),
         (''vCPUs'', ''2''),
         (''MemoryPreservingMaintenanceSupported'', ''True''),
         (''HyperVGenerations'', ''V1,V2''),
         (''MemoryGB'', ''8''),
         (''MaxDataDiskCount'', ''4''),
         (''CpuArchitectureType'', ''x64''),
         (''LowPriorityCapable'', ''True''),
         (''PremiumIO'', ''True''),
         (''VMDeploymentTypes'', ''IaaS''),
         (''vCPUsAvailable'', ''2''),
         (''ACUs'', ''160''),
         (''vCPUsPerCore'', ''2''),
         (''CombinedTempDiskAndCachedIOPS'', ''4000''),
         (''CombinedTempDiskAndCachedReadBytesPerSecond'', ''33554432''),
         (''CombinedTempDiskAndCachedWriteBytesPerSecond'', ''33554432''),
         (''CachedDiskBytes'', ''53687091200''),
         (''UncachedDiskIOPS'', ''3200''),
         (''UncachedDiskBytesPerSecond'', ''50331648''),
         (''EphemeralOSDiskSupported'', ''True''),
         (''EncryptionAtHostSupported'', ''True''),
         (''CapacityReservationSupported'', ''False''),
         (''AcceleratedNetworkingEnabled'', ''True''),
         (''RdmaEnabled'', ''False''),
         (''MaxNetworkInterfaces'', ''2'')]),
      sku_Tier = Some ''Standard'', sku_Kind = Some '''', sku_Family = Some ''standardDSv3Family'',
      sku_APIVersions = [], sku_Costs = [], sku_Restrictions = [], sku_LocationInfo = [('''', [''3'', ''2'', ''1''])]\<rparr>"

definition sku_D2_v2 :: ListedSKU where
  "sku_D2_v2 =
     \<lparr>sku_ResourceType = Some ''virtualMachines'', sku_Name = Some ''Standard_D2_v2'', sku_Size = Some ''D2_v2'', sku_Locations = Some [''''],
      sku_Capabilities = Some (caps
        [(''MaxResourceVolumeMB'', ''102400''),
         (''OSVhdSizeMB'', ''1047552''),
         (''vCPUs'', ''2''),
         (''MemoryPreservingMaintenanceSupported'', ''True''),
         (''HyperVGenerations'', ''V1''),
         (''MemoryGB'', ''7''),
         (''MaxDataDiskCount'', ''8''),
         (''CpuArchitectureType'', ''x64''),
         (''LowPriorityCapable'', ''True''),
         (''PremiumIO'', ''False''),
         (''VMDeploymentTypes'', ''IaaS,PaaS''),
         (''vCPUsAvailable'', ''2''),
         (''ACUs'', ''210''),
         (''vCPUsPerCore'', ''1''),
         (''CombinedTempDiskAndCachedIOPS'', ''6000''),
         (''CombinedTempDiskAndCachedReadBytesPerSecond'', ''97517568''),
         (''CombinedTempDiskAndCachedWriteBytesPerSecond'', ''48234496''),
         (''EphemeralOSDiskSupported'', ''False''),
         (''EncryptionAtHostSupported'', ''False''),
         (''CapacityReservationSupported'', ''False''),
         (''AcceleratedNetworkingEnabled'', ''True''),
         (''RdmaEnabled'', ''False''),
         (''MaxNetworkInterfaces'', ''2'')]),
      sku_Tier = Some ''Standard'', sku_Kind = Some '''', sku_Family = Some ''standardDv2Family'',
      sku_APIVersions = [], sku_Costs = [], sku_Restrictions = [], sku_LocationInfo = [('''', [''3'', ''2'', ''1''])]\<rparr>"

definition sku_D2_v3 :: ListedSKU where
  "sku_D2_v3 =
     \<lparr>sku_ResourceType = Some ''virtualMachines'', sku_Name = Some ''Standard_D2_v3'', sku_Size = Some ''D2_v3'', sku_Locations = Some [''''],
      sku_Capabilities = Some (caps
        [(''MaxResourceVolumeMB'', ''51200''),
         (''OSVhdSizeMB'', ''1047552''),
         (''vCPUs'', ''2''),
         (''MemoryPreservingMaintenanceSupported'', ''True''),
         (''HyperVGenerations'', ''V1''),
         (''MemoryGB'', ''8''),
         (''MaxDataDiskCount'', ''4''),
         (''CpuArchitectureType'', ''x64''),
         (''LowPriorityCapable'', ''True''),
         (''PremiumIO'', ''False''),
         (''VMDeploymentTypes'', ''IaaS,PaaS''),
         (''vCPUsAvailable'', ''2''),
         (''ACUs'', ''160''),
         (''vCPUsPerCore'', ''2''),
         (''CombinedTempDiskAndCachedIOPS'', ''3000''),
         (''CombinedTempDiskAndCachedReadBytesPerSecond'', ''48234496''),
         (''CombinedTempDiskAndCachedWriteBytesPerSecond'', ''24117248''),
         (''EphemeralOSDiskSupported'', ''False''),
         (''EncryptionAtHostSupported'', ''False''),
         (''CapacityReservationSupported'', ''False''),
         (''AcceleratedNetworkingEnabled'', ''True''),
         (''RdmaEnabled'', ''False''),
         (''MaxNetworkInterfaces'', ''2'')]),
      sku_Tier = Some ''Standard'', sku_Kind = Some '''', sku_Family = Some ''standardDv3Family'',
      sku_APIVersions = [], sku_Costs = [], sku_Restrictions = [], sku_LocationInfo = [('''', [''3'', ''2'', ''1''])]\<rparr>"

definition sku_D2_v5 :: ListedSKU where
  "sku_D2_v5 =
     \<lparr>sku_ResourceType = Some ''virtualMachines'', sku_Name = Some ''Standard_D2_v5'', sku_Size = Some ''D2_v5'', sku_Locations = Some [''''],
      sku_Capabilities = Some (caps
        [(''MaxResourceVolumeMB'', ''0''),
         (''OSVhdSizeMB'', ''1047552''),
         (''vCPUs'', ''2''),
         (''MemoryPreservingMaintenanceSupported'', ''True''),
         (''HyperVGenerations'', ''V1,V2''),
         (''MemoryGB'', ''8''),
         (''MaxDataDiskCount'', ''4''),
         (''CpuArchitectureType'', ''x64''),
         (''LowPriorityCapable'', ''True''),
         (''PremiumIO'', ''False''),
         (''VMDeploymentTypes'', ''IaaS''),
         (''vCPUsAvailable'', ''2''),
         (''vCPUsPerCore'', ''2''),
         (''CombinedTempDiskAndCachedIOPS'', ''19000''),
         (''CombinedTempDiskAndCachedReadBytesPerSecond'', ''131072000''),
         (''CombinedTempDiskAndCachedWriteBytesPerSecond'', ''131072000''),
         (''UncachedDiskIOPS'', ''3750''),
         (''UncachedDiskBytesPerSecond'', ''89128960''),
         (''EphemeralOSDiskSupported'', ''False''),
         (''EncryptionAtHostSupported'', ''True''),
         (''CapacityReservationSupported'', ''False''),
         (''AcceleratedNetworkingEnabled'', ''True''),
         (''RdmaEnabled'', ''False''),
         (''MaxNetworkInterfaces'', ''2'')]),
      sku_Tier = Some ''Standard'', sku_Kind = Some '''', sku_Family = Some ''standardDv5Family'',
      sku_APIVersions = [], sku_Costs = [], sku_Restrictions = [], sku_LocationInfo = [('''', [''3'', ''1'', ''2''])]\<rparr>"

definition sku_DS2_v2 :: ListedSKU where
  "sku_DS2_v2 =
     \<lparr>sku_ResourceType = Some ''virtualMachines'', sku_Name = Some ''Standard_DS2_v2'', sku_Size = Some ''DS2_v2'', sku_Locations = Some [''''],
      sku_Capabilities = Some (caps
        [(''MaxResourceVolumeMB'', ''14336''),
         (''OSVhdSizeMB'', ''1047552''),
         (''vCPUs'', ''2''),
         (''MemoryPreservingMaintenanceSupported'', ''True''),
         (''HyperVGenerations'', ''V1,V2''),
         (''MemoryGB'', ''7''),
         (''MaxDataDiskCount'', ''8''),
         (''CpuArchitectureType'', ''x64''),
         (''LowPriorityCapable'', ''True''),
         (''PremiumIO'', ''True''),
         (''VMDeploymentTypes'', ''IaaS''),
         (''vCPUsAvailable'', ''2''),
         (''ACUs'', ''210''),
         (''vCPUsPerCore'', ''1''),
         (''CombinedTempDiskAndCachedIOPS'', ''8000''),
         (''CombinedTempDiskAndCachedReadBytesPerSecond'', ''65536000''),
         (''CombinedTempDiskAndCachedWriteBytesPerSecond'', ''65536000''),
         (''CachedDiskBytes'', ''92341796864''),
         (''UncachedDiskIOPS'', ''6400''),
         (''UncachedDiskBytesPerSecond'', ''96000000''),
         (''EphemeralOSDiskSupported'', ''True''),
         (''EncryptionAtHostSupported'', ''True''),
         (''CapacityReservationSupported'', ''False''),
         (''AcceleratedNetworkingEnabled'', ''True''),
         (''RdmaEnabled'', ''False''),
         (''MaxNetworkInterfaces'', ''2'')]),
      sku_Tier = Some ''Standard'', sku_Kind = Some '''', sku_Family = Some ''standardDSv2Family'',
      sku_APIVersions = [], sku_Costs = [], sku_Restrictions = [], sku_LocationInfo = [('''', [''3'', ''2'', ''1''])]\<rparr>"

definition sku_F16s_v2 :: ListedSKU where
  "sku_F16s_v2 =
     \<lparr>sku_ResourceType = Some ''virtualMachines'', sku_Name = Some ''Standard_F16s_v2'', sku_Size = Some ''F16s_v2'', sku_Locations = Some [''''],
      sku_Capabilities = Some (caps
        [(''MaxResourceVolumeMB'', ''131072''),
         (''OSVhdSizeMB'', ''1047552''),
         (''vCPUs'', ''16''),
         (''MemoryPreservingMaintenanceSupported'', ''True''),
         (''HyperVGenerations'', ''V1,V2''),
         (''MemoryGB'', ''32''),
         (''MaxDataDiskCount'', ''32''),
         (''CpuArchitectureType'', ''x64''),
         (''LowPriorityCapable'', ''True''),
         (''PremiumIO'', ''True''),
         (''VMDeploymentTypes'', ''IaaS''),
         (''vCPUsAvailable'', ''16''),
         (''ACUs'', ''195''),
         (''vCPUsPerCore'', ''2''),
         (''CombinedTempDiskAndCachedIOPS'', ''32000''),
         (''CombinedTempDiskAndCachedReadBytesPerSecond'', ''262144000''),
         (''CombinedTempDiskAndCachedWriteBytesPerSecond'', ''262144000''),
         (''CachedDiskBytes'', ''274877906944''),
         (''UncachedDiskIOPS'', ''25600''),
         (''UncachedDiskBytesPerSecond'', ''384000000''),
         (''EphemeralOSDiskSupported'', ''True''),
         (''EncryptionAtHostSupported'', ''True''),
         (''CapacityReservationSupported'', ''False''),
         (''AcceleratedNetworkingEnabled'', ''True''),
         (''RdmaEnabled'', ''False''),
         (''MaxNetworkInterfaces'', ''4'')]),
      sku_Tier = Some ''Standard'', sku_Kind = Some '''', sku_Family = Some ''standardFSv2Family'',
      sku_APIVersions = [], sku_Costs = [], sku_Restrictions = [], sku_LocationInfo = [('''', [''3'', ''1'', ''2''])]\<rparr>"

definition sku_NC24ads_A100_v4 :: ListedSKU where
  "sku_NC24ads_A100_v4 =
     \<lparr>sku_ResourceType = Some ''virtualMachines'', sku_Name = Some ''Standard_NC24ads_A100_v4'', sku_Size = Some ''NC24ads_A100_v4'', sku_Locations = Some [''''],
      sku_Capabilities = Some (caps
        [(''MaxResourceVolumeMB'', ''65536''),
         (''OSVhdSizeMB'', ''1047552''),
         (''vCPUs'', ''24''),
         (''MemoryPreservingMaintenanceSupported'', ''False''),
         (''HyperVGenerations'', ''V2''),
         (''MemoryGB'', ''220''),
         (''MaxDataDiskCount'', ''8''),
         (''CpuArchitectureType'', ''x64''),
         (''LowPriorityCapable'', ''True''),
         (''PremiumIO'', ''True''),
         (''VMDeploymentTypes'', ''IaaS''),
         (''vCPUsAvailable'', ''24''),
         (''GPUs'', ''1''),
         (''vCPUsPerCore'', ''1''),
         (''CombinedTempDiskAndCachedIOPS'', ''75000''),
         (''CombinedTempDiskAndCachedReadBytesPerSecond'', ''1000000000''),
         (''CombinedTempDiskAndCachedWriteBytesPerSecond'', ''1000000000''),
         (''CachedDiskBytes'', ''274877906944''),
         (''UncachedDiskIOPS'', ''25600''),
         (''UncachedDiskBytesPerSecond'', ''384000000''),
         (''NvmeDiskSizeInMiB'', ''915456''),
         (''EphemeralOSDiskSupported'', ''True''),
         (''EncryptionAtHostSupported'', ''True''),
         (''CapacityReservationSupported'', ''False''),
         (''AcceleratedNetworkingEnabled'', ''True''),
         (''RdmaEnabled'', ''False''),
         (''MaxNetworkInterfaces'', ''2'')]),
      sku_Tier = Some ''Standard'', sku_Kind = Some '''', sku_Family = Some ''StandardNCADSA100v4Family'',
      sku_APIVersions = [], sku_Costs = [], sku_Restrictions = [], sku_LocationInfo = [('''', [''3''])]\<rparr>"

definition listedSkus :: "ListedSKU list" where
  "listedSkus = [sku_D2s_v3, sku_D2_v2, sku_D2_v3, sku_D2_v5, sku_DS2_v2, sku_F16s_v2, sku_NC24ads_A100_v4]"

text \<open>The fields the provisioner reads.\<close>

definition ResourceSkus :: "SKU list" where
  "ResourceSkus = map SKU.truncate listedSkus"

subsection \<open>The service\<close>

definition ResourceSKUsAPI :: "'w ResourceClient" where
  "ResourceSKUsAPI =
     ((\<lambda>_ _ w. (Ok \<lparr>it_i = 0, it_page = \<lparr>rsr_Value = Some ResourceSkus, rsr_NextLink = None\<rparr>\<rparr>, w)),
      (\<lambda>_ w. (Ok \<lparr>rsr_Value = None, rsr_NextLink = None\<rparr>, w)))"

lemma fake_service_lists: "NewCache [WithLocation r, WithResourceClient ResourceSKUsAPI] w = Some (Ok ResourceSkus, w)"
proof -
  let ?page = "\<lparr>rsr_Value = Some ResourceSkus, rsr_NextLink = None\<rparr>"
  have page: "\<not> IsEmpty ?page" "page_Values ?page = ResourceSkus"
    by (simp_all add: IsEmpty_def page_Values_def ResourceSkus_def listedSkus_def)
  have "page_chain (snd ResourceSKUsAPI) ?page w [] w"
    by (rule chain_end [where q = "\<lparr>rsr_Value = None, rsr_NextLink = None\<rparr>"])
      (simp_all add: ResourceSKUsAPI_def IsEmpty_def hasNextLink_def)
  from iterate_chain [OF _ page(1) this] show ?thesis
    unfolding NewCache_location by (simp add: page(2) ResourceSKUsAPI_def)
qed

subsection \<open>Names and capabilities agree\<close>

text \<open>A size without constrained vCPUs, accelerator or promotion.\<close>

definition plainSize :: "char \<Rightarrow> string option \<Rightarrow> string \<Rightarrow> string \<Rightarrow> char \<Rightarrow> VMSizeType" where
  "plainSize f sub c fs d =
     \<lparr>Family = [f], Subfamily = sub, Cpus = c, CpusConstrained = None, AdditiveFeatures = fs, AcceleratorType = None,
      ConfidentialChildCapability = False, Version = [CHR ''v'', d], PromoVersion = False,
      Series = series [f] sub fs [CHR ''v'', d]\<rparr>"

lemma getVMSize_plain:
  assumes "upper f" "case sub of None \<Rightarrow> True | Some s \<Rightarrow> \<exists>c. s = [c] \<and> upper c" "digits c" "list_all feature_char fs" "version_digit d"
  shows "getVMSize ([f] @ FromPtr '''' sub @ c @ fs @ ''_v'' @ [d]) = Ok (plainSize f sub c fs d)"
proof -
  have "size_ok (plainSize f sub c fs d)" using assms by (simp add: size_ok_def plainSize_def list_all_iff)
  from getVMSize_size_name [OF this] show ?thesis
    by (simp add: size_name_def constrained_part_def plainSize_def suffix_part_def version_part_def)
qed

text \<open>A SKU whose size name says what its capabilities say.\<close>

definition named_after_capabilities :: "SKU \<Rightarrow> bool" where
  "named_after_capabilities s \<longleftrightarrow>
     (\<exists>v. GetVMSize s = Ok v \<and> VCPU s = (the (ParseInt64 (Cpus v)), None) \<and>
        (GPU s = (1, None) \<longleftrightarrow> Family v = ''N'') \<and> GetName s = ''Standard_'' @ GetSize s)"

lemmas size_simps = digits_def upper_def is_digit_def digit_value_def feature_char_def version_digit_def

lemmas capability_simps = VCPU_def GPU_def GetCapabilityIntegerQuantity_def caps_def ParseInt64_def parse_nat_def digit_value_def

lemma sizes:
  "getVMSize ''D2s_v3'' = Ok (plainSize CHR ''D'' None ''2'' ''s'' CHR ''3'')"
  "getVMSize ''D2_v2'' = Ok (plainSize CHR ''D'' None ''2'' '''' CHR ''2'')"
  "getVMSize ''D2_v3'' = Ok (plainSize CHR ''D'' None ''2'' '''' CHR ''3'')"
  "getVMSize ''D2_v5'' = Ok (plainSize CHR ''D'' None ''2'' '''' CHR ''5'')"
  "getVMSize ''DS2_v2'' = Ok (plainSize CHR ''D'' (Some ''S'') ''2'' '''' CHR ''2'')"
  "getVMSize ''F16s_v2'' = Ok (plainSize CHR ''F'' None ''16'' ''s'' CHR ''2'')"
  "getVMSize ''NC24ads_A100_v4'' = Ok a100_size"
  using getVMSize_plain [of "CHR ''D''" None "''2''" "''s''" "CHR ''3''"]
    getVMSize_plain [of "CHR ''D''" None "''2''" "''''" "CHR ''2''"]
    getVMSize_plain [of "CHR ''D''" None "''2''" "''''" "CHR ''3''"]
    getVMSize_plain [of "CHR ''D''" None "''2''" "''''" "CHR ''5''"]
    getVMSize_plain [of "CHR ''D''" "Some ''S''" "''2''" "''''" "CHR ''2''"]
    getVMSize_plain [of "CHR ''F''" None "''16''" "''s''" "CHR ''2''"]
    getVMSize_size_name [OF a100_size_ok]
  by (simp_all add: size_simps a100_size_name)

lemmas named_simps = named_after_capabilities_def GetVMSize_def GetSize_def GetName_def SKU.truncate_def sizes plainSize_def a100_size_def
  capability_simps

lemma skus_named:
  "named_after_capabilities (SKU.truncate sku_D2s_v3)"
  "named_after_capabilities (SKU.truncate sku_D2_v2)"
  "named_after_capabilities (SKU.truncate sku_D2_v3)"
  "named_after_capabilities (SKU.truncate sku_D2_v5)"
  "named_after_capabilities (SKU.truncate sku_DS2_v2)"
  "named_after_capabilities (SKU.truncate sku_F16s_v2)"
  "named_after_capabilities (SKU.truncate sku_NC24ads_A100_v4)"
  by (simp_all add: sku_D2s_v3_def sku_D2_v2_def sku_D2_v3_def sku_D2_v5_def sku_DS2_v2_def sku_F16s_v2_def sku_NC24ads_A100_v4_def named_simps)

text \<open>
  The fake SKU service, whatever the location, lists its seven SKUs in one page, and each is
  named after its capabilities: the size parses, its vCPUs are the \<open>vCPUs\<close> capability, it has a GPU
  exactly if its family is N, and the name is the size with \<open>Standard_\<close> in front.
\<close>

theorem fake_skus_named_after_capabilities:
  "NewCache [WithLocation r, WithResourceClient ResourceSKUsAPI] w = Some (Ok ResourceSkus, w) \<and>
   length ResourceSkus = 7 \<and> list_all named_after_capabilities ResourceSkus"
  using skus_named by (simp add: fake_service_lists ResourceSkus_def listedSkus_def)

end
