(* ===== verification/Generator.thy ===== *)
theory Generator
  imports PricingData Quantities "HOL-Library.List_Lexorder" "HOL-Library.Char_ord" "HOL-Library.Multiset"
begin

text \<open>
  The generator of the static price lists (\<open>hack/code/prices/prices_gen.go\<close>): which source text it
  writes for the prices the providers of the regions hold, and how long it waits for them.
  Formatting with \<open>go/format\<close> and the file system are not modelled.
\<close>

subsection \<open>Writing a table\<close>

abbreviation nl :: char where
  "nl \<equiv> CHR 0x0A"

definition regions :: "string list" where
  "regions =
     [''australiacentral'', ''australiacentral2'', ''australiaeast'', ''australiasoutheast'', ''brazilsouth'',
      ''brazilsoutheast'', ''canadacentral'', ''canadaeast'', ''centralindia'', ''centralus'', ''eastasia'', ''eastus'',
      ''eastus2'', ''francecentral'', ''francesouth'', ''germanynorth'', ''germanywestcentral'', ''japaneast'',
      ''japanwest'', ''jioindiacentral'', ''jioindiawest'', ''koreacentral'', ''koreasouth'', ''northcentralus'',
      ''northeurope'', ''norwayeast'', ''norwaywest'', ''polandcentral'', ''qatarcentral'', ''southafricanorth'',
      ''southafricawest'', ''southcentralus'', ''southeastasia'', ''southindia'', ''swedencentral'', ''swedensouth'',
      ''switzerlandnorth'', ''switzerlandwest'', ''uaecentral'', ''uaenorth'', ''uksouth'', ''ukwest'', ''westcentralus'',
      ''westeurope'', ''westindia'', ''westus'', ''westus2'', ''westus3'']"

text \<open>The shipped file holds one list per region the generator knows, in its order.\<close>

lemma regions_shipped: "map fst shippedTables = regions"
  by (simp add: shippedTables_def regions_def)

definition priceLine :: "string \<Rightarrow> rat \<Rightarrow> string" where
  "priceLine name price = [CHR 0x22] @ name @ [CHR 0x22, CHR '':''] @ format_f6 price @ '', '' @ [nl]"

definition writePricing :: "string list \<Rightarrow> string \<Rightarrow> (string \<Rightarrow> rat \<times> bool) \<Rightarrow> string" where
  "writePricing instanceNames reg getPrice =
     ''// '' @ reg @ [nl] @
     ''initialOnDemandPrices['' @ quote reg @ ''] = map[string]float64{'' @ [nl] @
     concat (map (\<lambda>n. case getPrice n of (price, ok) \<Rightarrow> if \<not> ok then [] else priceLine n price) (sort instanceNames)) @
     [nl] @ ''}'' @ [nl]"

definition sourceHeader :: "string \<Rightarrow> string \<Rightarrow> string" where
  "sourceHeader license now =
     ''//go:build !ignore_autogenerated'' @ [nl] @ license @ [nl] @ ''package pricing'' @ [nl] @
     ''import '' @ quote ''time'' @ [nl] @ ''// generated at '' @ now @ [nl, nl, nl] @
     ''var initialPriceUpdate, _ = time.Parse(time.RFC3339, '' @ [CHR 0x22] @ now @ [CHR 0x22] @ '')'' @ [nl] @
     ''var initialOnDemandPrices = map[string]map[string]float64{}'' @ [nl] @ ''func init() {'' @ [nl]"

definition generatedSource :: "string \<Rightarrow> string \<Rightarrow> (string \<Rightarrow> PricingProvider) \<Rightarrow> string" where
  "generatedSource license now pricingProvider =
     sourceHeader license now @
     concat (map (\<lambda>r. writePricing (sort (Pricing.InstanceTypes (pricingProvider r))) r (OnDemandPrice (pricingProvider r))) regions) @
     ''}'' @ [nl]"

text \<open>
  The wait of a region's goroutine for the first update of its provider: \<open>updated\<close> and \<open>since\<close> read
  the provider's update time and the time since the start, \<open>sleep\<close> lets a second pass.
  \<open>log.Fatalf\<close> ends the process. The time is only looked at in rounds that are not a multiple
  of ten.
\<close>

partial_function (option) waitUpdated ::
  "('w \<Rightarrow> bool) \<Rightarrow> ('w \<Rightarrow> int) \<Rightarrow> ('w \<Rightarrow> 'w) \<Rightarrow> string \<Rightarrow> nat \<Rightarrow> 'w \<Rightarrow> (unit res \<times> 'w) option" where
  "waitUpdated updated since sleep reg attempts w =
     (if updated w then Some (Ok (), w)
      else if attempts mod 10 \<noteq> 0 \<and> 5 * minute \<le> since w
      then Some (Panic (''failed to update region '' @ reg @ '' within 2 minutes''), w)
      else waitUpdated updated since sleep reg (attempts + 1) (sleep w))"

lemma waitUpdated_late:
  assumes "5 * minute \<le> since w" "\<And>w. since w \<le> since (sleep w)"
  shows "\<exists>y. waitUpdated updated since sleep reg attempts w = Some y"
proof (cases "updated w \<or> attempts mod 10 \<noteq> 0")
  case True
  then show ?thesis using assms(1) by (subst waitUpdated.simps) auto
next
  case False
  then have "attempts mod 10 = 0" by simp
  then have "(attempts + 1) mod 10 \<noteq> 0" by (simp add: mod_Suc)
  then have "\<exists>y. waitUpdated updated since sleep reg (attempts + 1) (sleep w) = Some y"
    using assms(1) assms(2) [of w] by (subst waitUpdated.simps) auto
  then show ?thesis using False by (subst waitUpdated.simps) simp
qed

text \<open>As long as a second passes in every round, the wait ends.\<close>

lemma waitUpdated_ends:
  assumes "\<And>w. since w + 10 ^ 9 \<le> since (sleep w)"
  shows "\<exists>y. waitUpdated updated since sleep reg attempts w = Some y"
proof (induction "nat (5 * minute - since w)" arbitrary: attempts w rule: less_induct)
  case less
  have mono: "since w \<le> since (sleep w)" for w using assms [of w] by simp
  show ?case
  proof (cases "5 * minute \<le> since w")
    case True
    then show ?thesis using waitUpdated_late mono by metis
  next
    case False
    then have "nat (5 * minute - since (sleep w)) < nat (5 * minute - since w)" using assms [of w] by simp
    from less [OF this] obtain y where "waitUpdated updated since sleep reg (attempts + 1) (sleep w) = Some y" by blast
    then show ?thesis using False by (subst waitUpdated.simps) auto
  qed
qed

subsection \<open>Reading it back\<close>

text \<open>
  The entries of a map literal with one entry per line, each ended by a comma. The compiler reads a decimal literal as the
  nearest \<open>float64\<close>, like \<open>ParseFloat\<close>.
\<close>

definition readEntry :: "string \<Rightarrow> (string \<times> rat) option" where
  "readEntry line =
     (case line of
        c # rest \<Rightarrow>
          if c \<noteq> CHR 0x22 then None
          else (let name = takeWhile (\<lambda>x. x \<noteq> CHR 0x22) rest;
                    val = drop (length name + 2) rest
                in if HasSuffix val '', '' then map_option (Pair name) (ParseFloat (TrimSuffix val '', '')) else None)
      | [] \<Rightarrow> None)"

definition readTable :: "string \<Rightarrow> prices" where
  "readTable text = List.map_filter readEntry (Split text [nl])"

text \<open>Text that needs no escape in a Go string literal.\<close>

definition plain :: "string \<Rightarrow> bool" where
  "plain s \<longleftrightarrow> list_all (\<lambda>c. let n = (of_char c :: nat) in 32 \<le> n \<and> n < 127 \<and> n \<noteq> 34 \<and> n \<noteq> 92) s"

text \<open>
  The \<open>float64\<close> of a price of \<open>N\<close> millionths of a dollar, like every price of the shipped file and of the
  retail price service.
\<close>

definition micro :: "nat \<Rightarrow> rat" where
  "micro N = float64 (of_nat N / 10 ^ 6)"

lemma quote_plain: "plain s \<Longrightarrow> quote s = CHR 0x22 # s @ [CHR 0x22]"
proof -
  assume "plain s"
  then have "concat (map quote_char s) = s"
    by (induction s) (auto simp: plain_def quote_char_def Let_def)
  then show ?thesis by (simp add: quote_def)
qed

lemma ParseFloat_format_f6:
  assumes "N < 2 ^ 52"
  shows "ParseFloat (format_f6 (micro N)) = Some (micro N)"
proof -
  let ?a = "show_nat (N div 10 ^ 6)" and ?b = "pad6 (N mod 10 ^ 6)"
  obtain c cs where s: "?a = c # cs" using show_nat_not_empty [of "N div 10 ^ 6"] by (cases ?a) auto
  then have sign: "c \<noteq> CHR ''-''" "c \<noteq> CHR ''+''"
    using show_nat_digits [of c "N div 10 ^ 6"] digit_char_neq by fastforce+
  have scan: "scan_number (?a @ CHR ''.'' # ?b @ []) = (?a, ?b, [])"
    by (rule scan_decimal) (auto simp: pad6_is_digit show_nat_is_digit)
  have val: "decimal_value ?a ?b = of_nat N / 10 ^ 6"
  proof -
    have "digits_value 0 (?a @ ?b) = Some N"
      using digits_value_pad6 [of "N mod 10 ^ 6" "N div 10 ^ 6"] by (simp add: digits_value_append digits_value_show_nat)
    then show ?thesis by (simp add: decimal_value_def pad6_def)
  qed
  have "parse_decimal (?a @ ''.'' @ ?b) = Some (of_nat N / 10 ^ 6)"
    using scan val sign s unfolding parse_decimal_def Let_def by simp
  then show ?thesis unfolding micro_def format_f6_micro [OF assms] ParseFloat_def by simp
qed

lemma format_f6_no_nl:
  assumes "N < 2 ^ 52"
  shows "nl \<notin> set (format_f6 (micro N))"
proof -
  have "\<not> is_digit nl" by (simp add: is_digit_def digit_value_def)
  then show ?thesis
    using pad6_is_digit [of nl] show_nat_is_digit [of nl] unfolding micro_def format_f6_micro [OF assms] by auto
qed

lemma plain_chars: "plain s \<Longrightarrow> nl \<notin> set s \<and> CHR 0x22 \<notin> set s"
proof -
  assume "plain s"
  then have "of_char c \<noteq> (10 :: nat) \<and> of_char c \<noteq> (34 :: nat)" if "c \<in> set s" for c
    using that by (auto simp: plain_def list_all_iff Let_def)
  from this [of nl] this [of "CHR 0x22"] show ?thesis by auto
qed

lemma readEntry_line:
  assumes "plain n" "N < 2 ^ 52"
  shows "readEntry ([CHR 0x22] @ n @ [CHR 0x22, CHR '':''] @ format_f6 (micro N) @ '', '') = Some (n, micro N)"
proof -
  have "takeWhile (\<lambda>x. x \<noteq> CHR 0x22) (n @ CHR 0x22 # r) = n" for r
    using plain_chars [OF assms(1)] by (subst takeWhile_append2) auto
  moreover have "HasSuffix (s @ '', '') '', ''" "TrimSuffix (s @ '', '') '', '' = s" for s by (simp_all add: TrimSuffix_def HasSuffix_def)
  ultimately show ?thesis by (simp add: readEntry_def ParseFloat_format_f6 [OF assms(2)])
qed

lemma readTable_line:
  assumes "nl \<notin> set l"
  shows "readTable (l @ nl # r) = (case readEntry l of None \<Rightarrow> [] | Some e \<Rightarrow> [e]) @ readTable r"
  by (simp add: readTable_def Split_Cons [OF assms] map_filter_simps split: option.splits)

lemma readTable_skip: "nl \<notin> set l \<Longrightarrow> readEntry l = None \<Longrightarrow> readTable (l @ nl # r) = readTable r"
  by (simp add: readTable_line)

lemma readEntry_other: "c \<noteq> CHR 0x22 \<Longrightarrow> readEntry (c # l) = None"
  by (simp add: readEntry_def)

lemma readTable_priceLine:
  assumes "plain n" "N < 2 ^ 52"
  shows "readTable (priceLine n (micro N) @ r) = (n, micro N) # readTable r"
proof -
  let ?l = "[CHR 0x22] @ n @ [CHR 0x22, CHR '':''] @ format_f6 (micro N) @ '', ''"
  have "nl \<notin> set ?l" using plain_chars [OF assms(1)] format_f6_no_nl [OF assms(2)] by simp
  from readTable_line [OF this, of r] show ?thesis
    unfolding readEntry_line [OF assms] by (simp add: priceLine_def)
qed

lemma readTable_lines:
  assumes "list_all plain ns" "list_all (\<lambda>n. snd (getPrice n) \<longrightarrow> (\<exists>N < 2 ^ 52. fst (getPrice n) = micro N)) ns"
  shows "readTable (concat (map (\<lambda>n. case getPrice n of (price, ok) \<Rightarrow> if \<not> ok then [] else priceLine n price) ns) @ r) =
    map (\<lambda>n. (n, fst (getPrice n))) (filter (\<lambda>n. snd (getPrice n)) ns) @ readTable r"
  using assms
proof (induction ns)
  case (Cons n ns)
  show ?case
  proof (cases "snd (getPrice n)")
    case True
    then obtain N where "N < 2 ^ 52" "getPrice n = (micro N, True)" using Cons.prems by (cases "getPrice n") auto
    then show ?thesis using Cons by (simp add: readTable_priceLine)
  next
    case False
    then show ?thesis using Cons by (cases "getPrice n") simp
  qed
qed simp

lemma readTable_writePricing:
  assumes "plain reg" "list_all plain ns" "list_all (\<lambda>n. snd (getPrice n) \<longrightarrow> (\<exists>N < 2 ^ 52. fst (getPrice n) = micro N)) ns"
  shows "readTable (writePricing ns reg getPrice) = map (\<lambda>n. (n, fst (getPrice n))) (filter (\<lambda>n. snd (getPrice n)) (sort ns))"
proof -
  let ?h1 = "''// '' @ reg" and ?h2 = "''initialOnDemandPrices['' @ quote reg @ ''] = map[string]float64{''"
  let ?ls = "concat (map (\<lambda>n. case getPrice n of (price, ok) \<Rightarrow> if \<not> ok then [] else priceLine n price) (sort ns))"
  have "nl \<notin> set ?h1" "nl \<notin> set ?h2" using plain_chars [OF assms(1)] by (simp_all add: quote_plain [OF assms(1)])
  moreover have "readEntry ?h1 = None" "readEntry ?h2 = None" by (simp_all add: readEntry_other)
  ultimately have "readTable (writePricing ns reg getPrice) = readTable (?ls @ [nl] @ ''}'' @ [nl])"
    using readTable_skip [of ?h1 "?h2 @ nl # ?ls @ [nl] @ ''}'' @ [nl]"] readTable_skip [of ?h2 "?ls @ [nl] @ ''}'' @ [nl]"]
    by (simp add: writePricing_def)
  also have "\<dots> = map (\<lambda>n. (n, fst (getPrice n))) (filter (\<lambda>n. snd (getPrice n)) (sort ns)) @ readTable ([nl] @ ''}'' @ [nl])"
    using assms(2,3) by (intro readTable_lines) (simp_all add: list_all_iff)
  also have "readTable ([nl] @ ''}'' @ [nl]) = []"
    using readTable_line [of "[]" "''}'' @ [nl]"] readTable_line [of "''}''" "[]"] Split_no_sep [of nl "[]"]
    by (simp add: readEntry_def readTable_def map_filter_simps)
  finally show ?thesis by simp
qed

lemma str_less_iff: "str_less x y \<longleftrightarrow> x < y"
  by (induction x y rule: str_less.induct) (auto simp: less_char_def)

lemma ascending_sorted: "sorted xs \<Longrightarrow> distinct xs \<Longrightarrow> ascending xs"
  by (induction xs rule: ascending.induct) (auto simp: str_less_iff)

lemma OnDemandPrice_entry:
  "distinct (map fst (onDemandPrices p)) \<Longrightarrow> (n, price) \<in> set (onDemandPrices p) \<Longrightarrow> OnDemandPrice p n = (price, True)"
  by (simp add: OnDemandPrice_def)

text \<open>
  C36. The generator writes what it was given. For a provider with one price per SKU, names that need
  no escape in a string literal, and prices that are the \<open>float64\<close> values of amounts with at most six decimals below \<open>2^52\<close> millionths
  (4.5 billion dollars), the map literal written for a region, with each price printed by \<open>%f\<close> and read back to the
  nearest \<open>float64\<close> as the compiler does, holds exactly the provider's prices, in ascending order of names.
\<close>

theorem generated_table_reads_back:
  assumes "plain reg" "list_all plain (Pricing.InstanceTypes p)" "distinct (map fst (onDemandPrices p))"
    and "list_all (\<lambda>(n, price). \<exists>N < 2 ^ 52. price = micro N) (onDemandPrices p)"
  shows "let t = readTable (writePricing (sort (Pricing.InstanceTypes p)) reg (OnDemandPrice p))
    in mset t = mset (onDemandPrices p) \<and> ascending (map fst t)"
proof -
  define t where "t = readTable (writePricing (sort (Pricing.InstanceTypes p)) reg (OnDemandPrice p))"
  let ?ps = "onDemandPrices p" and ?entry = "\<lambda>n. (n, fst (OnDemandPrice p n))"
  have entry: "OnDemandPrice p n = (price, True)" if "(n, price) \<in> set ?ps" for n price
    using assms(3) that by (rule OnDemandPrice_entry)
  have known: "snd (OnDemandPrice p n)" if "n \<in> set (sort (map fst ?ps))" for n using that entry by fastforce
  have prices: "list_all (\<lambda>n. snd (OnDemandPrice p n) \<longrightarrow> (\<exists>N < 2 ^ 52. fst (OnDemandPrice p n) = micro N)) (sort (Pricing.InstanceTypes p))"
    using assms(4) entry by (fastforce simp: list_all_iff Pricing.InstanceTypes_def)
  have "t = map ?entry (filter (\<lambda>n. snd (OnDemandPrice p n)) (sort (map fst ?ps)))"
    using readTable_writePricing [OF assms(1) _ prices] assms(2) by (simp add: t_def list_all_iff Pricing.InstanceTypes_def sorted_sort_id)
  also have "\<dots> = map ?entry (sort (map fst ?ps))" using known by (simp add: filter_True)
  finally have t: "t = map ?entry (sort (map fst ?ps))" .
  have "map ?entry (map fst ?ps) = ?ps" using entry by (intro map_idI [THEN trans [OF map_map]]) auto
  moreover have "mset t = mset (map ?entry (map fst ?ps))" unfolding t by (simp only: mset_map mset_sort)
  ultimately have "mset t = mset ?ps" by simp
  moreover have "ascending (map fst t)" using assms(3) by (simp add: t comp_def ascending_sorted)
  ultimately show ?thesis by (simp add: t_def Let_def)
qed

theorem generated_table_reads_back_witness:
  "\<exists>p. onDemandPrices p = [(''Standard_NC6'', float64 (9 / 10)), (''Basic_A0'', float64 (18 / 1000))] \<and>
     mset (readTable (writePricing (sort (Pricing.InstanceTypes p)) ''eastus'' (OnDemandPrice p))) =
       {#(''Standard_NC6'', float64 (9 / 10)), (''Basic_A0'', float64 (18 / 1000))#} \<and>
     ascending (map fst (readTable (writePricing (sort (Pricing.InstanceTypes p)) ''eastus'' (OnDemandPrice p))))"
proof -
  let ?p = "\<lparr>region = ''eastus'', cm = NewChangeMonitor, onDemandUpdateTime = 0,
    onDemandPrices = [(''Standard_NC6'', float64 (9 / 10)), (''Basic_A0'', float64 (18 / 1000))]\<rparr>"
  have "float64 (9 / 10) = micro 900000" "float64 (18 / 1000) = micro 18000" by (simp_all add: micro_def)
  then have "\<exists>N < 2 ^ 52. float64 (9 / 10) = micro N" "\<exists>N < 2 ^ 52. float64 (18 / 1000) = micro N"
    by (intro exI [of _ 900000] exI [of _ 18000]; simp)+
  then show ?thesis
    using generated_table_reads_back [of "''eastus''" ?p]
    by (intro exI [of _ ?p]) (auto simp: plain_def Pricing.InstanceTypes_def Let_def)
qed

subsection \<open>The whole generator\<close>

text \<open>
  \<open>main\<close> and \<open>generatePricing\<close>. What the process gets from outside is a parameter: whether the profile
  file can be created and written, the licence text (\<open>lo.Must\<close> panics without it), what \<open>waitUpdated\<close> gave
  for each region (\<open>None\<close> when it failed; main needs all regions, so one that fails ends the process before anything is
  written), \<open>format.Source\<close>, and whether a file can be written. The result lists the files written.
  \<open>log.Fatal\<close> ends the process like a panic.
\<close>

record priceGenEnv =
  profileCreated :: bool
  profileWritten :: bool
  licenseText :: "string option"
  startedAt :: string
  waitedProvider :: "string \<Rightarrow> PricingProvider option"
  formatSource :: "string \<Rightarrow> string res"
  canWrite :: "string \<Rightarrow> bool"

definition generatePricing :: "priceGenEnv \<Rightarrow> string \<Rightarrow> unit res \<times> (string \<times> string) list" where
  "generatePricing env filePath =
     (if \<not> profileCreated env then (Panic ''could not create memory profile: '', [])
      else case licenseText env of
        None \<Rightarrow> (Panic ''open hack/boilerplate.go.txt'', [])
      | Some license \<Rightarrow>
          if \<not> list_all (\<lambda>r. waitedProvider env r \<noteq> None) regions then (Panic ''failed to update region within 2 minutes'', [])
          else (let src = generatedSource license (startedAt env) (\<lambda>r. the (waitedProvider env r))
            in case formatSource env src of
                 Ok formatted \<Rightarrow>
                   if \<not> canWrite env filePath then (Panic ''writing output'', [])
                   else (if profileWritten env then Ok () else Panic ''could not write memory profile: '', [(filePath, formatted)])
               | _ \<Rightarrow>
                   if \<not> canWrite env filePath then (Panic ''writing output'', [])
                   else (Panic ''formatting generated source'', [(filePath, src)])))"

definition priceGenMain :: "priceGenEnv \<Rightarrow> string list \<Rightarrow> unit res \<times> (string \<times> string) list" where
  "priceGenMain env args = (case args of [filePath] \<Rightarrow> generatePricing env filePath | _ \<Rightarrow> (Panic ''Usage'', []))"

text \<open>
  The generator writes at most its one output file, and only the complete source, formatted unless
  formatting failed; when it succeeds it wrote it formatted, from the providers of all regions.
\<close>

lemma generatePricing_writes_source:
  assumes "priceGenMain env args = (r, files)" "(path, content) \<in> set files"
  shows "args = [path] \<and> files = [(path, content)] \<and>
    (\<exists>license. licenseText env = Some license \<and> (\<forall>reg \<in> set regions. waitedProvider env reg \<noteq> None) \<and>
      (let src = generatedSource license (startedAt env) (\<lambda>reg. the (waitedProvider env reg))
       in formatSource env src = Ok content \<or> content = src \<and> \<not> is_Ok (formatSource env src) \<and> \<not> is_Ok r))"
  using assms
  by (auto simp: priceGenMain_def generatePricing_def Let_def list_all_iff
      split: list.splits if_splits option.splits res.splits)

end
