(* ===== verification/SkuGenerator.thy ===== *)
theory SkuGenerator
  imports Generator
begin

text \<open>
  The generator of the fake SKU table (\<open>hack/code/instancetype_testdata_gen.go\<close>): the loop that
  fetches the pages of the SKU service and keeps the selected SKUs, and the Go source it writes
  for them. The SDK's pager is a parameter that acts on the world; the file system and messages
  are not modelled.
\<close>

subsection \<open>Definitions\<close>

text \<open>\<open>armcompute.ResourceSKU\<close>, the fields the generator reads; pointers are options.\<close>

record GenSKU =
  g_Name :: "string option"
  g_Tier :: "string option"
  g_Kind :: "string option"
  g_Size :: "string option"
  g_Family :: "string option"
  g_ResourceType :: "string option"
  g_APIVersions :: "string option list"
  g_Capacity :: "(int option \<times> int option \<times> int option) option"
  g_Costs :: "(string option \<times> int option \<times> string option) list"
  g_Restrictions :: "string option list list"
  g_Capabilities :: "(string option \<times> string option) list"
  g_LocationInfo :: "string option list list"

text \<open>
  Fetching: the error of a page is printed and the loop goes on with the zero page. \<open>hasMore\<close> and
  \<open>nextPage\<close> are the pager's.
\<close>

fun keepTargets :: "string set \<Rightarrow> GenSKU list \<Rightarrow> GenSKU list \<Rightarrow> GenSKU list res" where
  "keepTargets targets [] skuData = Ok skuData"
| "keepTargets targets (sku # skus) skuData =
     res_bind (Deref (g_Name sku)) (\<lambda>n. keepTargets targets skus (if n \<in> targets then skuData @ [sku] else skuData))"

partial_function (option) fetchSkus ::
  "('w \<Rightarrow> bool) \<Rightarrow> ('w \<Rightarrow> GenSKU list res \<times> 'w) \<Rightarrow> string set \<Rightarrow> GenSKU list \<Rightarrow> 'w \<Rightarrow> (GenSKU list res \<times> 'w) option" where
  "fetchSkus hasMore nextPage targets skuData w =
     (if hasMore w
      then (case nextPage w of
              (Ok page, w') \<Rightarrow>
                (case keepTargets targets page skuData of
                   Ok skuData' \<Rightarrow> fetchSkus hasMore nextPage targets skuData' w'
                 | Err e \<Rightarrow> Some (Err e, w')
                 | Panic m \<Rightarrow> Some (Panic m, w'))
            | (Err e, w') \<Rightarrow> fetchSkus hasMore nextPage targets skuData w'
            | (Panic m, w') \<Rightarrow> Some (Panic m, w'))
      else Some (Ok skuData, w))"

text \<open>
  Writing. \<open>qrune\<close> is \<open>%q\<close> of an integer, a character literal, which the costs use for their
  quantity. The type of a restriction goes to the standard output instead of the source.
\<close>

abbreviation tab :: char where
  "tab \<equiv> CHR 0x09"

definition Fprintln :: "string \<Rightarrow> string" where
  "Fprintln s = s @ [nl]"

definition FromPtrOr :: "'a option \<Rightarrow> 'a \<Rightarrow> 'a" where
  "FromPtrOr p fallback = (case p of None \<Rightarrow> fallback | Some x \<Rightarrow> x)"

definition stringField :: "string \<Rightarrow> string option \<Rightarrow> string" where
  "stringField label v = [tab, tab] @ label @ ''lo.ToPtr('' @ quote (FromPtrOr v '''') @ ''),'' @ [nl]"

definition capacityText :: "(int option \<times> int option \<times> int option) option \<Rightarrow> string" where
  "capacityText c =
     (case c of
        None \<Rightarrow> []
      | Some (minimum, maximum, dflt) \<Rightarrow>
          Fprintln ([tab, tab] @ ''Capacity: compute.ResourceSkuCapacity{'') @
          [tab, tab, tab] @ ''Minimum: lo.ToPtr('' @ show_int (FromPtrOr minimum 0) @ ''),'' @ [nl] @
          [tab, tab, tab] @ ''Maximum: lo.ToPtr('' @ show_int (FromPtrOr maximum 0) @ ''),'' @ [nl] @
          [tab, tab, tab] @ ''Default: lo.ToPtr('' @ show_int (FromPtrOr dflt 0) @ ''),'' @ [nl] @
          [tab, tab] @ ''},'')"

definition costText :: "(int \<Rightarrow> string) \<Rightarrow> string option \<times> int option \<times> string option \<Rightarrow> string" where
  "costText qrune cost =
     (case cost of (meterID, quantity, extendedUnit) \<Rightarrow>
        [tab, tab, tab] @ ''{MeterID: lo.ToPtr('' @ FromPtrOr meterID '''' @ ''), Quantity: lo.ToPtr('' @ qrune (FromPtrOr quantity 0) @
        ''), ExtendedUnit: lo.ToPtr('' @ quote (FromPtrOr extendedUnit '''') @ '')},'')"

definition restrictionText :: "string option list \<Rightarrow> string" where
  "restrictionText vals =
     Fprintln ([tab, tab, tab] @ ''{'') @
     concat (map (\<lambda>v. [tab, tab, tab, tab] @ ''Values: &[]string{'' @ quote (FromPtrOr v '''') @ ''},'') vals) @
     Fprintln ([tab, tab, tab] @ ''},'')"

definition capabilityLine :: "string \<Rightarrow> string \<Rightarrow> string" where
  "capabilityLine n v = [tab, tab, tab] @ ''{Name: lo.ToPtr('' @ quote n @ ''), Value: lo.ToPtr('' @ quote v @ '')},'' @ [nl]"

fun capabilitiesText :: "(string option \<times> string option) list \<Rightarrow> string res" where
  "capabilitiesText [] = Ok []"
| "capabilitiesText ((n, v) # cs) =
     res_bind (Deref n) (\<lambda>n. res_bind (Deref v) (\<lambda>v. res_bind (capabilitiesText cs) (\<lambda>r. Ok (capabilityLine n v @ r))))"

definition locationInfoText :: "string \<Rightarrow> string option list \<Rightarrow> string" where
  "locationInfoText location zones =
     [tab, tab, tab] @ ''{Location: lo.ToPtr('' @ quote location @ ''),'' @
     Fprintln ([tab, tab, tab] @ ''Zones: &[]string{'') @
     concat (map (\<lambda>z. [tab, tab, tab, tab] @ quote (FromPtrOr z '''') @ '','' @ [nl]) zones) @
     Fprintln ([tab, tab, tab] @ ''},'')"

definition skuText :: "(int \<Rightarrow> string) \<Rightarrow> string \<Rightarrow> GenSKU \<Rightarrow> string res" where
  "skuText qrune location sku =
     res_bind (capabilitiesText (g_Capabilities sku)) (\<lambda>capabilities. Ok (
       Fprintln ([tab] @ ''{'') @
       stringField ''Name:         '' (g_Name sku) @ stringField ''Tier:         '' (g_Tier sku) @
       stringField ''Kind:         '' (g_Kind sku) @ stringField ''Size:         '' (g_Size sku) @
       stringField ''Family:       '' (g_Family sku) @ stringField ''ResourceType: '' (g_ResourceType sku) @
       Fprintln ([tab, tab] @ ''APIVersions: &[]string{'') @
       concat (map (\<lambda>a. [tab, tab, tab] @ ''lo.ToPtr('' @ quote (FromPtrOr a '''') @ ''),'' @ [nl]) (g_APIVersions sku)) @
       Fprintln ([tab, tab] @ ''},'') @
       capacityText (g_Capacity sku) @
       [tab, tab] @ ''Costs: &[]compute.ResourceSkuCosts{'' @ concat (map (costText qrune) (g_Costs sku)) @
       Fprintln ([tab, tab] @ ''},'') @
       Fprintln ([tab, tab] @ ''Restrictions: &[]compute.ResourceSkuRestrictions{'') @
       concat (map restrictionText (g_Restrictions sku)) @
       Fprintln ([tab, tab] @ ''},'') @
       Fprintln ([tab, tab] @ ''Capabilities: &[]compute.ResourceSkuCapabilities{'') @ capabilities @
       Fprintln ([tab, tab] @ ''},'') @
       [tab, tab] @ ''Locations: &[]string{'' @ quote location @ ''},'' @ [nl] @
       [tab, tab] @ ''LocationInfo: &[]compute.ResourceSkuLocationInfo{'' @
       concat (map (locationInfoText location) (g_LocationInfo sku)) @
       Fprintln ([tab, tab, tab] @ ''},'') @ Fprintln ([tab] @ ''},'') @ Fprintln ''},''))"

fun skuTexts :: "(int \<Rightarrow> string) \<Rightarrow> string \<Rightarrow> GenSKU list \<Rightarrow> string res" where
  "skuTexts qrune location [] = Ok []"
| "skuTexts qrune location (sku # skus) =
     res_bind (skuText qrune location sku) (\<lambda>t. res_bind (skuTexts qrune location skus) (\<lambda>r. Ok (t @ r)))"

definition skuHeader :: "string \<Rightarrow> string \<Rightarrow> string" where
  "skuHeader license now =
     Fprintln ''//go:build !ignore_autogenerated'' @ Fprintln license @ Fprintln ''package fake'' @ Fprintln ''import ('' @
     Fprintln ([tab] @ quote ''github.com/samber/lo'') @
     Fprintln ([tab, tab] @ ''// nolint SA1019 - deprecated package'') @
     Fprintln ([tab, tab] @ quote ''github.com/Azure/azure-sdk-for-go/services/compute/mgmt/2022-08-01/compute'') @
     Fprintln '')'' @ ''// generated at '' @ now @ [nl, nl, nl] @
     Fprintln ''// ResourceSkus is a list of all available skus from azure''"

definition writeSkuData :: "(int \<Rightarrow> string) \<Rightarrow> string \<Rightarrow> string \<Rightarrow> GenSKU list \<Rightarrow> string \<Rightarrow> string res" where
  "writeSkuData qrune license now skus location =
     res_bind (skuTexts qrune location skus) (\<lambda>t.
       Ok (skuHeader license now @ Fprintln ''var ResourceSkus = []compute.ResourceSku{'' @ t @ Fprintln ''}''))"

text \<open>
  \<open>main\<close>: the text it writes to the file, or \<open>Err\<close> when it exits. An error of the credential is
  only printed; the client is created with the filter for eastus whatever the region. \<open>license\<close>
  and \<open>now\<close> are what the boilerplate file holds and the time.
\<close>

definition targetSkus :: "string \<Rightarrow> string set" where
  "targetSkus selectedSkus = set (Split selectedSkus '','')"

definition skuGenMain ::
  "(string \<Rightarrow> string) \<Rightarrow> string list \<Rightarrow> (string \<Rightarrow> ('w, unit) act) \<Rightarrow> ('w \<Rightarrow> bool) \<Rightarrow> ('w \<Rightarrow> GenSKU list res \<times> 'w) \<Rightarrow>
   (int \<Rightarrow> string) \<Rightarrow> string \<Rightarrow> string \<Rightarrow> 'w \<Rightarrow> (string res \<times> 'w) option" where
  "skuGenMain getenv args newClient hasMore nextPage qrune license now w =
     (if length args \<le> 4 then Some (Panic ''index out of range'', w)
      else let path = args ! 2; region = args ! 3; selectedSkus = args ! 4
      in if getenv ''TENANT_ID'' = [] \<or> getenv ''SUBSCRIPTION_ID'' = [] \<or> getenv ''AAD_CLIENT_ID'' = [] \<or>
            getenv ''AAD_CLIENT_SECRET'' = [] \<or> path = []
         then Some (Err (ErrorString ''missing env vars''), w)
         else (case newClient (''location eq '' @ [CHR 0x27] @ ''eastus'' @ [CHR 0x27]) w of
                 (Ok _, w') \<Rightarrow>
                   map_option (\<lambda>(r, w''). (res_bind r (\<lambda>skuData. writeSkuData qrune license now skuData region), w''))
                     (fetchSkus hasMore nextPage (targetSkus selectedSkus) [] w')
               | (Err e, w') \<Rightarrow> Some (Panic ''failed to create client'', w')
               | (Panic m, w') \<Rightarrow> Some (Panic m, w')))"

subsection \<open>The braces of the source\<close>

text \<open>A lexer that follows string literals and counts braces outside them.\<close>

datatype lexState = Code | Literal | Escape

fun lexStep :: "lexState \<times> int \<Rightarrow> char \<Rightarrow> lexState \<times> int" where
  "lexStep (Code, d) c = (if c = CHR 0x22 then (Literal, d) else if c = CHR ''{'' then (Code, d + 1)
     else if c = CHR ''}'' then (Code, d - 1) else (Code, d))"
| "lexStep (Literal, d) c = (if c = CHR 0x22 then (Code, d) else if c = CHR 0x5C then (Escape, d) else (Literal, d))"
| "lexStep (Escape, d) c = (Literal, d)"

fun lexText :: "lexState \<times> int \<Rightarrow> string \<Rightarrow> lexState \<times> int" where
  "lexText s [] = s"
| "lexText s (c # cs) = lexText (lexStep s c) cs"

lemma lex_append [simp]: "lexText s (a @ b) = lexText (lexText s a) b"
  by (induction s a rule: lexText.induct) simp_all

lemma lex_quote_char: "lexText (Literal, d) (quote_char c) = (Literal, d)"
proof -
  have "hex_digit n \<noteq> CHR 0x22 \<and> hex_digit n \<noteq> CHR 0x5C" if "n < 16" for n
  proof -
    have "of_char (hex_digit n) = (if n < 10 then 48 + n else 87 + n)" using that by (simp add: hex_digit_def)
    then have "of_char (hex_digit n) \<noteq> (34 :: nat)" "of_char (hex_digit n) \<noteq> (92 :: nat)" using that by (auto split: if_splits)
    then show ?thesis by auto
  qed
  moreover have "(of_char c :: nat) < 256" by (metis mod_less_divisor of_char_mod_256 zero_less_numeral)
  then have "of_char c div 16 < (16 :: nat)" by (simp add: less_mult_imp_div_less)
  moreover have "of_char c = (34 :: nat)" if "c = CHR 0x22" using that by simp
  moreover have "of_char c = (92 :: nat)" if "c = CHR 0x5C" using that by simp
  ultimately show ?thesis by (auto simp: quote_char_def Let_def)
qed

lemma lex_quote [simp]: "lexText (Code, d) (quote s) = (Code, d)"
proof -
  have "lexText (Literal, d) (concat (map quote_char s)) = (Literal, d)"
    by (induction s) (simp_all add: lex_quote_char)
  then show ?thesis by (simp add: quote_def)
qed

lemma lex_show_int [simp]: "lexText (Code, d) (show_int i) = (Code, d)"
proof -
  have "lexStep (Code, d) c = (Code, d)" if "is_digit c \<or> c = CHR ''-''" for c
    using that by (auto simp: is_digit_def digit_value_def)
  then have "lexText (Code, d) s = (Code, d)" if "\<forall>c \<in> set s. is_digit c \<or> c = CHR ''-''" for s
    using that by (induction s) simp_all
  moreover have "\<forall>c \<in> set (show_int i). is_digit c \<or> c = CHR ''-''"
    by (auto simp: show_int_def dest: show_nat_is_digit)
  ultimately show ?thesis by blast
qed

lemma lex_concat:
  assumes "\<And>x d. lexText (Code, d) (f x) = (Code, d + k)"
  shows "lexText (Code, d) (concat (map f xs)) = (Code, d + k * int (length xs))"
  by (induction xs arbitrary: d) (simp_all add: assms algebra_simps)

lemma lex_concat_0 [simp]:
  "(\<And>x d. lexText (Code, d) (f x) = (Code, d)) \<Longrightarrow> lexText (Code, d) (concat (map f xs)) = (Code, d)"
  using lex_concat [of f 0 d xs] by simp

text \<open>How many braces each part leaves open.\<close>

lemma lex_capacityText [simp]: "lexText (Code, d) (capacityText c) = (Code, d)"
  by (simp add: capacityText_def Fprintln_def split: option.splits)

lemma lex_restrictionText [simp]: "lexText (Code, d) (restrictionText vals) = (Code, d)"
  by (simp add: restrictionText_def Fprintln_def)

lemma lex_capabilities [simp]: "capabilitiesText cs = Ok t \<Longrightarrow> lexText (Code, d) t = (Code, d)"
  by (induction cs arbitrary: t rule: capabilitiesText.induct) (auto simp: res_bind_eq_Ok_iff capabilityLine_def)

lemma lex_locationInfoText: "lexText (Code, d) (locationInfoText location zones) = (Code, d + 1)"
  by (simp add: locationInfoText_def Fprintln_def)

lemma lex_skuText:
  assumes "skuText qrune location sku = Ok t" "g_Costs sku = []"
  shows "lexText (Code, d) t = (Code, d + int (length (g_LocationInfo sku)) - 1)"
proof -
  obtain cs where cs: "capabilitiesText (g_Capabilities sku) = Ok cs" using assms(1) by (auto simp: skuText_def res_bind_eq_Ok_iff)
  then show ?thesis
    using assms(1) unfolding skuText_def cs res_bind_simps res.inject
    by (auto simp: Fprintln_def stringField_def assms(2) lex_capabilities [OF cs] lex_concat [OF lex_locationInfoText])
qed

lemma skuTexts_Ok:
  assumes "\<forall>sku \<in> set skus. \<forall>(n, v) \<in> set (g_Capabilities sku). n \<noteq> None \<and> v \<noteq> None"
  shows "\<exists>t. skuTexts qrune location skus = Ok t"
proof -
  have "\<exists>t. capabilitiesText cs = Ok t" if "\<forall>(n, v) \<in> set cs. n \<noteq> None \<and> v \<noteq> None" for cs
    using that by (induction cs rule: capabilitiesText.induct) auto
  then have "\<exists>t. skuText qrune location sku = Ok t" if "sku \<in> set skus" for sku
    using assms that by (fastforce simp: skuText_def)
  then show ?thesis by (induction skus) fastforce+
qed

text \<open>Every SKU needs exactly one location info: the generated declaration leaves open as many braces
  as the SKUs have location infos more than one each. It is balanced when every SKU has one, and
  a SKU without any, or with two, makes it source that does not compile.
\<close>

theorem generated_skus_braces:
  assumes "\<forall>sku \<in> set skus. \<forall>(n, v) \<in> set (g_Capabilities sku). n \<noteq> None \<and> v \<noteq> None"
    and "\<forall>sku \<in> set skus. g_Costs sku = []"
  shows "\<exists>t. writeSkuData qrune license now skus location = Ok (skuHeader license now @ t) \<and>
    lexText (Code, 0) t = (Code, (\<Sum>sku \<leftarrow> skus. int (length (g_LocationInfo sku)) - 1))"
proof -
  obtain t where t: "skuTexts qrune location skus = Ok t" using skuTexts_Ok [OF assms(1)] by blast
  have "lexText (Code, d) t = (Code, d + (\<Sum>sku \<leftarrow> skus. int (length (g_LocationInfo sku)) - 1))" for d
    using t assms(2)
  proof (induction skus arbitrary: t d)
    case (Cons sku skus)
    then obtain t1 t2 where "skuText qrune location sku = Ok t1" "skuTexts qrune location skus = Ok t2" "t = t1 @ t2"
      by (auto simp: res_bind_eq_Ok_iff)
    then show ?case using Cons.IH [of t2] Cons.prems(2) lex_skuText [of qrune location sku t1 d] by (simp add: algebra_simps)
  qed simp
  then show ?thesis by (simp add: writeSkuData_def t Fprintln_def)
qed

definition bareSKU :: "string \<Rightarrow> string option list list \<Rightarrow> GenSKU" where
  "bareSKU n info = \<lparr>g_Name = Some n, g_Tier = None, g_Kind = None, g_Size = None, g_Family = None, g_ResourceType = None,
     g_APIVersions = [], g_Capacity = None, g_Costs = [], g_Restrictions = [], g_Capabilities = [(Some ''vCPUs'', Some ''2'')], g_LocationInfo = info\<rparr>"

theorem generated_skus_braces_witness:
  "\<exists>t. writeSkuData (\<lambda>_. []) [] [] [bareSKU ''a'' [[Some ''1'']], bareSKU ''b'' []] ''eastus'' = Ok (skuHeader [] [] @ t) \<and>
     lexText (Code, 0) t = (Code, - 1)"
  using generated_skus_braces [of "[bareSKU ''a'' [[Some ''1'']], bareSKU ''b'' []]" "\<lambda>_. []" "[]" "[]" "''eastus''"]
  by (simp add: bareSKU_def)

subsection \<open>Fetching the SKUs\<close>

text \<open>A pager that delivers \<open>pages\<close>, possibly failing in between, and then has no more.\<close>

inductive delivers :: "('w \<Rightarrow> bool) \<Rightarrow> ('w \<Rightarrow> GenSKU list res \<times> 'w) \<Rightarrow> 'w \<Rightarrow> GenSKU list list \<Rightarrow> 'w \<Rightarrow> bool"
  for hasMore nextPage where
  finished: "\<not> hasMore w \<Longrightarrow> delivers hasMore nextPage w [] w"
| page: "hasMore w \<Longrightarrow> nextPage w = (Ok page, w1) \<Longrightarrow> delivers hasMore nextPage w1 pages w2 \<Longrightarrow>
    delivers hasMore nextPage w (page # pages) w2"
| failed: "hasMore w \<Longrightarrow> nextPage w = (Err e, w1) \<Longrightarrow> delivers hasMore nextPage w1 pages w2 \<Longrightarrow>
    delivers hasMore nextPage w pages w2"

lemma keepTargets_eq:
  assumes "\<forall>sku \<in> set page. g_Name sku \<noteq> None"
  shows "keepTargets targets page acc = Ok (acc @ filter (\<lambda>sku. the (g_Name sku) \<in> targets) page)"
  using assms by (induction page arbitrary: acc) auto

lemma fetchSkus_delivers:
  assumes "delivers hasMore nextPage w pages w'" "\<forall>sku \<in> set (concat pages). g_Name sku \<noteq> None"
  shows "fetchSkus hasMore nextPage targets acc w = Some (Ok (acc @ filter (\<lambda>sku. the (g_Name sku) \<in> targets) (concat pages)), w')"
  using assms
proof (induction arbitrary: acc rule: delivers.induct)
  case (finished w)
  then show ?case by (subst fetchSkus.simps) simp
next
  case (page w p w1 pages w2)
  then show ?case by (subst fetchSkus.simps) (simp add: keepTargets_eq)
next
  case (failed w e w1 pages w2)
  then show ?case by (subst fetchSkus.simps) simp
qed

text \<open>C40.
  The generator keeps exactly the selected SKUs of all pages, in order, when the service delivers
  its pages, however often a page fails before it is delivered. It has no other end: while the
  service keeps failing, the error is printed and the loop goes on for ever.
\<close>

theorem sku_fetch_keeps_selected_or_hangs:
  assumes "\<forall>sku \<in> set (concat pages). g_Name sku \<noteq> None"
  shows "(delivers hasMore nextPage w pages w' \<longrightarrow>
      fetchSkus hasMore nextPage targets [] w = Some (Ok (filter (\<lambda>sku. the (g_Name sku) \<in> targets) (concat pages)), w')) \<and>
    (w \<in> S \<and> (\<forall>x \<in> S. hasMore x \<and> (\<exists>e x'. nextPage x = (Err e, x') \<and> x' \<in> S)) \<longrightarrow>
      fetchSkus hasMore nextPage targets [] w = None)"
proof (intro conjI impI)
  assume "delivers hasMore nextPage w pages w'"
  from fetchSkus_delivers [OF this assms, of targets "[]"]
  show "fetchSkus hasMore nextPage targets [] w = Some (Ok (filter (\<lambda>sku. the (g_Name sku) \<in> targets) (concat pages)), w')" by simp
next
  assume S: "w \<in> S \<and> (\<forall>x \<in> S. hasMore x \<and> (\<exists>e x'. nextPage x = (Err e, x') \<and> x' \<in> S))"
  have "w \<notin> S" if "fetchSkus hasMore nextPage targets [] w = Some y" for y
    using that
  proof (rule fetchSkus.raw_induct [where P = "\<lambda>m n t a x y. m = hasMore \<and> n = nextPage \<longrightarrow> x \<notin> S", rule_format, rotated])
    fix f m n t a x y
    assume IH: "\<And>m n t a x y. f m n t a x = Some y \<Longrightarrow> m = hasMore \<and> n = nextPage \<Longrightarrow> x \<notin> S"
      and run: "(if m x then case n x of (Ok page, w') \<Rightarrow> (case keepTargets t page a of Ok skuData' \<Rightarrow> f m n t skuData' w'
           | Err e \<Rightarrow> Some (Err e, w') | Panic ma \<Rightarrow> Some (Panic ma, w')) | (Err e, w') \<Rightarrow> f m n t a w' | (Panic ma, w') \<Rightarrow> Some (Panic ma, w')
         else Some (Ok a, x)) = Some y" and mn: "m = hasMore \<and> n = nextPage"
    show "x \<notin> S"
    proof
      assume x: "x \<in> S"
      then obtain e x' where "hasMore x" "nextPage x = (Err e, x')" "x' \<in> S" using S by blast
      then show False using run mn IH [of m n t a x' y] by simp
    qed
  qed simp
  then show "fetchSkus hasMore nextPage targets [] w = None" using S by (cases "fetchSkus hasMore nextPage targets [] w") auto
qed

theorem sku_fetch_keeps_selected_or_hangs_witness:
  "fetchSkus (\<lambda>w. w < 2) (\<lambda>w :: nat. if w = 0 then (Err (ErrorString ''timeout''), 1) else (Ok [bareSKU ''a'' [], bareSKU ''b'' []], 2)) {''b''} [] 0 =
     Some (Ok [bareSKU ''b'' []], 2) \<and>
   fetchSkus (\<lambda>_ :: unit. True) (\<lambda>w. (Err (ErrorString ''timeout''), w)) {''b''} [] () = None"
proof
  let ?next = "\<lambda>w :: nat. if w = 0 then (Err (ErrorString ''timeout''), 1) else (Ok [bareSKU ''a'' [], bareSKU ''b'' []], 2)"
  have "delivers (\<lambda>w. w < 2) ?next 2 [] 2" by (rule delivers.finished) simp
  then have "delivers (\<lambda>w. w < 2) ?next 1 [[bareSKU ''a'' [], bareSKU ''b'' []]] 2" by (rule delivers.page [rotated 2]) simp_all
  then have "delivers (\<lambda>w. w < 2) ?next 0 [[bareSKU ''a'' [], bareSKU ''b'' []]] 2" by (rule delivers.failed [rotated 2]) simp_all
  then show "fetchSkus (\<lambda>w. w < 2) ?next {''b''} [] 0 = Some (Ok [bareSKU ''b'' []], 2)"
    using sku_fetch_keeps_selected_or_hangs [of "[[bareSKU ''a'' [], bareSKU ''b'' []]]" "\<lambda>w. w < 2" ?next 0 2 "{''b''}" "{}"]
    by (simp add: bareSKU_def)
  show "fetchSkus (\<lambda>_ :: unit. True) (\<lambda>w. (Err (ErrorString ''timeout''), w)) {''b''} [] () = None"
    using sku_fetch_keeps_selected_or_hangs [of "[]" "\<lambda>_ :: unit. True" "\<lambda>w. (Err (ErrorString ''timeout''), w)" "()" "()" "{''b''}" UNIV]
    by simp
qed

subsection \<open>Reading the capabilities back\<close>

text \<open>The capability lines of a source text.\<close>

definition capPrefix :: string where
  "capPrefix = [tab, tab, tab] @ ''{Name: lo.ToPtr('' @ [CHR 0x22]"

definition capMiddle :: string where
  "capMiddle = [CHR 0x22] @ ''), Value: lo.ToPtr('' @ [CHR 0x22]"

definition readCapability :: "string \<Rightarrow> (string \<times> string) option" where
  "readCapability line =
     (if take (length capPrefix) line = capPrefix
      then (let r = drop (length capPrefix) line;
                n = takeWhile (\<lambda>c. c \<noteq> CHR 0x22) r;
                v = takeWhile (\<lambda>c. c \<noteq> CHR 0x22) (drop (length n + length capMiddle) r)
            in Some (n, v))
      else None)"

definition readCapabilities :: "string \<Rightarrow> (string \<times> string) list" where
  "readCapabilities t = List.map_filter readCapability (Split t [nl])"

lemma readCapabilities_line:
  "nl \<notin> set l \<Longrightarrow> readCapabilities (l @ nl # r) = (case readCapability l of None \<Rightarrow> [] | Some e \<Rightarrow> [e]) @ readCapabilities r"
  by (simp add: readCapabilities_def Split_Cons map_filter_simps split: option.splits)

lemma readCapability_line:
  assumes "plain n" "plain v"
  shows "readCapabilities (capabilityLine n v @ r) = (n, v) # readCapabilities r"
proof -
  let ?l = "capPrefix @ n @ capMiddle @ v @ [CHR 0x22] @ '')},''"
  have tw: "takeWhile (\<lambda>c. c \<noteq> CHR 0x22) (s @ CHR 0x22 # x) = s" if "plain s" for s x
    using plain_chars [OF that] by (subst takeWhile_append2) auto
  have "takeWhile (\<lambda>c. c \<noteq> CHR 0x22) (n @ capMiddle @ x) = n" for x using tw [OF assms(1)] by (simp add: capMiddle_def)
  moreover have "takeWhile (\<lambda>c. c \<noteq> CHR 0x22) (v @ [CHR 0x22] @ x) = v" for x using tw [OF assms(2)] by simp
  ultimately have cap: "readCapability ?l = Some (n, v)" by (simp add: readCapability_def Let_def)
  have no_nl: "nl \<notin> set ?l" using plain_chars [OF assms(1)] plain_chars [OF assms(2)] by (simp add: capPrefix_def capMiddle_def)
  have "capabilityLine n v @ r = ?l @ nl # r"
    by (simp add: capabilityLine_def quote_plain assms capPrefix_def capMiddle_def)
  with readCapabilities_line [OF no_nl, of r] show ?thesis by (simp only: cap option.case) simp
qed

text \<open>Lines that are not those of a capability.\<close>

definition silent :: "string \<Rightarrow> bool" where
  "silent t \<longleftrightarrow> (\<forall>r. readCapabilities (t @ r) = readCapabilities r)"

lemma silent_append: "silent a \<Longrightarrow> silent b \<Longrightarrow> silent (a @ b)"
  by (simp add: silent_def)

lemma silent_concat: "(\<And>x. silent (f x)) \<Longrightarrow> silent (concat (map f xs))"
  by (induction xs) (simp_all add: silent_def)

lemma silent_line: "nl \<notin> set l \<Longrightarrow> take 5 l \<noteq> take 5 capPrefix \<Longrightarrow> silent (l @ [nl])"
proof -
  assume l: "nl \<notin> set l" "take 5 l \<noteq> take 5 capPrefix"
  have "take 5 (take (length capPrefix) l) = take 5 l" by (simp add: capPrefix_def eval_nat_numeral)
  then have "take (length capPrefix) l \<noteq> capPrefix" using l(2) by metis
  then show ?thesis using l(1) by (simp add: silent_def readCapabilities_line readCapability_def)
qed

lemma nl_quote [simp]: "nl \<notin> set (quote s)"
proof -
  have "nl \<notin> set (quote_char c)" for c
  proof -
    have hex: "hex_digit n \<noteq> nl" if "n < 16" for n
    proof -
      have "of_char (hex_digit n) \<noteq> (10 :: nat)" using that by (simp add: hex_digit_def)
      then show ?thesis by auto
    qed
    have "(of_char c :: nat) < 256" by (metis mod_less_divisor of_char_mod_256 zero_less_numeral)
    then have "of_char c div 16 < (16 :: nat)" by (simp add: less_mult_imp_div_less)
    note hex [OF this]
    moreover have "hex_digit (of_char c mod 16) \<noteq> nl" by (rule hex) simp
    moreover have "of_char c = (10 :: nat)" if "c = nl" using that by simp
    ultimately show ?thesis by (auto simp: quote_char_def Let_def)
  qed
  then show ?thesis by (simp add: quote_def)
qed

text \<open>All parts of a SKU but its capabilities are silent.\<close>

lemma nl_show_int [simp]: "nl \<notin> set (show_int i)"
proof -
  have "\<not> is_digit nl" by (simp add: is_digit_def digit_value_def)
  then show ?thesis using show_nat_is_digit [of nl] by (auto simp: show_int_def)
qed

lemma silent_Fprintln: "nl \<notin> set l \<Longrightarrow> take 5 l \<noteq> take 5 capPrefix \<Longrightarrow> silent (Fprintln l)"
  unfolding Fprintln_def by (rule silent_line)

lemma silent_stringField:
  "nl \<notin> set label \<Longrightarrow> label \<noteq> [] \<Longrightarrow> hd label \<noteq> tab \<Longrightarrow> silent (stringField label v)"
  using silent_line [of "[tab, tab] @ label @ ''lo.ToPtr('' @ quote (FromPtrOr v []) @ ''),''"]
  by (cases label) (simp_all add: stringField_def capPrefix_def)

lemma silent_capacityText_line: "silent (capacityText c @ [tab, tab] @ ''Costs: &[]compute.ResourceSkuCosts{'' @ Fprintln ([tab, tab] @ ''},''))"
proof (cases c)
  case None
  then show ?thesis
    using silent_line [of "[tab, tab] @ ''Costs: &[]compute.ResourceSkuCosts{'' @ [tab, tab] @ ''},''"]
    by (simp add: capacityText_def Fprintln_def capPrefix_def)
next
  case (Some x)
  obtain a b e where x: "x = (a, b, e)" by (cases x)
  have field: "silent ([tab, tab, tab] @ l @ show_int i @ ''),'' @ [nl])" if "l \<in> {''Minimum: lo.ToPtr('', ''Maximum: lo.ToPtr('', ''Default: lo.ToPtr(''}" for l i
    using that silent_line [of "[tab, tab, tab] @ l @ show_int i @ ''),''"] by (auto simp: capPrefix_def)
  have "silent (Fprintln ([tab, tab] @ ''Capacity: compute.ResourceSkuCapacity{''))" by (rule silent_Fprintln) (simp_all add: capPrefix_def)
  moreover have "silent (([tab, tab] @ ''},'' @ [tab, tab] @ ''Costs: &[]compute.ResourceSkuCosts{'' @ [tab, tab] @ ''},'') @ [nl])"
    by (rule silent_line) (simp_all add: capPrefix_def)
  ultimately show ?thesis
    using field [of "''Minimum: lo.ToPtr(''" "FromPtrOr a 0"] field [of "''Maximum: lo.ToPtr(''" "FromPtrOr b 0"] field [of "''Default: lo.ToPtr(''" "FromPtrOr e 0"]
    by (simp add: Some x capacityText_def silent_def Fprintln_def)
qed

lemma silent_restrictionText: "silent (restrictionText vals)"
proof -
  let ?vs = "concat (map (\<lambda>v. [tab, tab, tab, tab] @ ''Values: &[]string{'' @ quote (FromPtrOr v []) @ ''},'') vals)"
  have "silent ((?vs @ [tab, tab, tab] @ ''},'') @ [nl])"
  proof (rule silent_line)
    show "nl \<notin> set (?vs @ [tab, tab, tab] @ ''},'')" by simp
    show "take 5 (?vs @ [tab, tab, tab] @ ''},'') \<noteq> take 5 capPrefix" by (cases vals) (simp_all add: capPrefix_def)
  qed
  moreover have "silent (Fprintln ([tab, tab, tab] @ ''{''))" by (rule silent_Fprintln) (simp_all add: capPrefix_def)
  ultimately show ?thesis by (simp add: restrictionText_def silent_def Fprintln_def)
qed

lemma silent_locationInfo:
  "silent ([tab, tab] @ ''LocationInfo: &[]compute.ResourceSkuLocationInfo{'' @ concat (map (locationInfoText location) infos) @
     Fprintln ([tab, tab, tab] @ ''},''))"
proof -
  have zone: "silent ([tab, tab, tab, tab] @ quote (FromPtrOr z []) @ '','' @ [nl])" for z
    using silent_line [of "[tab, tab, tab, tab] @ quote (FromPtrOr z []) @ '',''"] by (simp add: capPrefix_def)
  have zs: "silent (concat (map (\<lambda>z. [tab, tab, tab, tab] @ quote (FromPtrOr z []) @ '','' @ [nl]) zones))" for zones
    by (rule silent_concat) (rule zone)
  have close: "silent (Fprintln ([tab, tab, tab] @ ''},''))" by (rule silent_Fprintln) (simp_all add: capPrefix_def)
  have open1: "silent ((pre @ [tab, tab, tab] @ ''{Location: lo.ToPtr('' @ quote location @ ''),'' @ [tab, tab, tab] @ ''Zones: &[]string{'') @ [nl])"
    if "pre \<in> {[], [tab, tab] @ ''LocationInfo: &[]compute.ResourceSkuLocationInfo{''}" for pre
    by (rule silent_line) (use that in \<open>auto simp: capPrefix_def\<close>)
  have info: "silent (pre @ locationInfoText location zones)"
    if "pre \<in> {[], [tab, tab] @ ''LocationInfo: &[]compute.ResourceSkuLocationInfo{''}" for pre zones
    using open1 [OF that] zs [of zones] close by (simp add: locationInfoText_def silent_def Fprintln_def)
  have rest: "silent (concat (map (locationInfoText location) is))" for "is"
    by (rule silent_concat) (use info [of "[]"] in simp)
  show ?thesis
  proof (cases infos)
    case Nil
    then show ?thesis
      using silent_line [of "[tab, tab] @ ''LocationInfo: &[]compute.ResourceSkuLocationInfo{'' @ [tab, tab, tab] @ ''},''"]
      by (simp add: Fprintln_def capPrefix_def)
  next
    case (Cons z zs)
    then show ?thesis
      using info [of "[tab, tab] @ ''LocationInfo: &[]compute.ResourceSkuLocationInfo{''" z] rest [of zs] close by (simp add: silent_def)
  qed
qed

lemma readCapabilities_text:
  assumes "capabilitiesText cs = Ok t" "list_all (\<lambda>(n, v). plain (the n) \<and> plain (the v)) cs"
  shows "readCapabilities (t @ r) = map (\<lambda>(n, v). (the n, the v)) cs @ readCapabilities r"
  using assms
  by (induction cs arbitrary: t rule: capabilitiesText.induct)
    (auto simp: res_bind_eq_Ok_iff readCapability_line Deref_def split: option.splits)

definition beforeCapabilities :: "GenSKU \<Rightarrow> string" where
  "beforeCapabilities sku =
     Fprintln ([tab] @ ''{'') @
     stringField ''Name:         '' (g_Name sku) @ stringField ''Tier:         '' (g_Tier sku) @
     stringField ''Kind:         '' (g_Kind sku) @ stringField ''Size:         '' (g_Size sku) @
     stringField ''Family:       '' (g_Family sku) @ stringField ''ResourceType: '' (g_ResourceType sku) @
     Fprintln ([tab, tab] @ ''APIVersions: &[]string{'') @
     concat (map (\<lambda>a. [tab, tab, tab] @ ''lo.ToPtr('' @ quote (FromPtrOr a '''') @ ''),'' @ [nl]) (g_APIVersions sku)) @
     Fprintln ([tab, tab] @ ''},'') @
     (capacityText (g_Capacity sku) @ [tab, tab] @ ''Costs: &[]compute.ResourceSkuCosts{'' @ Fprintln ([tab, tab] @ ''},'')) @
     Fprintln ([tab, tab] @ ''Restrictions: &[]compute.ResourceSkuRestrictions{'') @
     concat (map restrictionText (g_Restrictions sku)) @
     Fprintln ([tab, tab] @ ''},'') @
     Fprintln ([tab, tab] @ ''Capabilities: &[]compute.ResourceSkuCapabilities{'')"

definition afterCapabilities :: "string \<Rightarrow> GenSKU \<Rightarrow> string" where
  "afterCapabilities location sku =
     Fprintln ([tab, tab] @ ''},'') @
     ([tab, tab] @ ''Locations: &[]string{'' @ quote location @ ''},'' @ [nl]) @
     ([tab, tab] @ ''LocationInfo: &[]compute.ResourceSkuLocationInfo{'' @ concat (map (locationInfoText location) (g_LocationInfo sku)) @
      Fprintln ([tab, tab, tab] @ ''},'')) @
     Fprintln ([tab] @ ''},'') @ Fprintln ''},''"

lemma silent_before: "silent (beforeCapabilities sku)"
proof -
  have api: "silent ([tab, tab, tab] @ ''lo.ToPtr('' @ quote (FromPtrOr a []) @ ''),'' @ [nl])" for a
    using silent_line [of "[tab, tab, tab] @ ''lo.ToPtr('' @ quote (FromPtrOr a []) @ ''),''"] by (simp add: capPrefix_def)
  show ?thesis
    unfolding beforeCapabilities_def
    by (intro silent_append silent_Fprintln silent_stringField silent_concat silent_restrictionText silent_capacityText_line api)
      (simp_all add: capPrefix_def)
qed

lemma silent_after: "silent (afterCapabilities location sku)"
proof -
  have loc: "silent ([tab, tab] @ ''Locations: &[]string{'' @ quote location @ ''},'' @ [nl])"
    using silent_line [of "[tab, tab] @ ''Locations: &[]string{'' @ quote location @ ''},''"] by (simp add: capPrefix_def)
  have parts: "silent (Fprintln ([tab, tab] @ ''},''))" "silent (Fprintln ([tab] @ ''},''))" "silent (Fprintln ''},'')"
    by (rule silent_Fprintln; simp add: capPrefix_def)+
  show ?thesis
    unfolding afterCapabilities_def
    using parts loc silent_locationInfo [of location "g_LocationInfo sku"] by (simp only: silent_append)
qed

lemma skuText_split:
  assumes "g_Costs sku = []"
  shows "skuText qrune location sku = res_bind (capabilitiesText (g_Capabilities sku)) (\<lambda>cs. Ok (beforeCapabilities sku @ cs @ afterCapabilities location sku))"
  unfolding skuText_def beforeCapabilities_def afterCapabilities_def assms by (simp only: append_assoc list.map concat.simps append_Nil)

text \<open>The capabilities written are those of the SKUs: reading the capability lines of the generated
  declaration back gives the names and values of the capabilities of all SKUs, in order.
\<close>

theorem generated_capabilities_read_back:
  assumes "\<forall>sku \<in> set skus. g_Costs sku = []"
    and "\<forall>sku \<in> set skus. \<forall>(n, v) \<in> set (g_Capabilities sku). n \<noteq> None \<and> v \<noteq> None \<and> plain (the n) \<and> plain (the v)"
  shows "\<exists>t. writeSkuData qrune license now skus location = Ok (skuHeader license now @ t) \<and>
    readCapabilities t = map (\<lambda>(n, v). (the n, the v)) (concat (map g_Capabilities skus))"
proof -
  obtain t where t: "skuTexts qrune location skus = Ok t" using skuTexts_Ok [of skus qrune location] assms(2) by fastforce
  have "readCapabilities (t @ r) = map (\<lambda>(n, v). (the n, the v)) (concat (map g_Capabilities skus)) @ readCapabilities r" for r
    using t assms
  proof (induction skus arbitrary: t)
    case (Cons sku skus)
    then obtain cs t2 where cs: "capabilitiesText (g_Capabilities sku) = Ok cs" and t2: "skuTexts qrune location skus = Ok t2"
      and t: "t = (beforeCapabilities sku @ cs @ afterCapabilities location sku) @ t2"
      by (auto simp: res_bind_eq_Ok_iff skuText_split)
    have "list_all (\<lambda>(n, v). plain (the n) \<and> plain (the v)) (g_Capabilities sku)" using Cons.prems(3) by (auto simp: list_all_iff)
    from readCapabilities_text [OF cs this] show ?case
      using Cons.IH [OF t2] Cons.prems(2,3) silent_before [of sku] silent_after [of location sku] by (simp add: t silent_def)
  qed simp
  moreover have "silent (Fprintln ''var ResourceSkus = []compute.ResourceSku{'')" by (rule silent_Fprintln) (simp_all add: capPrefix_def)
  moreover have "readCapabilities (Fprintln ''}'') = []"
    using readCapabilities_line [of "''}''" "[]"] Split_no_sep [of nl "[]"]
    by (simp add: Fprintln_def readCapabilities_def readCapability_def capPrefix_def map_filter_simps)
  ultimately show ?thesis
    by (intro exI [of _ "Fprintln ''var ResourceSkus = []compute.ResourceSku{'' @ t @ Fprintln ''}''"])
      (simp add: writeSkuData_def t silent_def)
qed

theorem generated_capabilities_read_back_witness:
  "\<exists>t. writeSkuData (\<lambda>_. []) [] [] [bareSKU ''a'' [[Some ''1'']], bareSKU ''b'' []] ''eastus'' = Ok (skuHeader [] [] @ t) \<and>
     readCapabilities t = [(''vCPUs'', ''2''), (''vCPUs'', ''2'')]"
  using generated_capabilities_read_back [of "[bareSKU ''a'' [[Some ''1'']], bareSKU ''b'' []]" "\<lambda>_. []" "[]" "[]" "''eastus''"]
  by (simp add: bareSKU_def plain_def)

end
