(* ===== verification/MockClient.thy ===== *)
theory MockClient
  imports Instance "HOL-Library.AList" "HOL-Library.Multiset"
begin

text \<open>
  The mocked Kubernetes client (\<open>pkg/fake/k8sClient.go\<close>) that stands behind the instance provider
  in its tests, with the fixtures of \<open>pkg/tests/utils.go\<close>. Objects are kept per Go type in maps
  from names to objects; a map is an association list, visited in an order the runtime chooses.
  What a call answers is scripted with testify, a parameter: \<open>called\<close> gives the answer to a
  method's call.
\<close>

subsection \<open>Objects\<close>

record NamespacedName =
  nn_Namespace :: string
  nn_Name :: string

text \<open>An object is a node, or some other object with its type and key.\<close>

datatype 'o Object =
    NodeObject Node
  | OtherObject string NamespacedName 'o

fun TypeOf :: "'o Object \<Rightarrow> string" where
  "TypeOf (NodeObject n) = ''*v1.Node''"
| "TypeOf (OtherObject ty k x) = ty"

fun ObjectKeyFromObject :: "'o Object \<Rightarrow> NamespacedName" where
  "ObjectKeyFromObject (NodeObject n) = \<lparr>nn_Namespace = '''', nn_Name = n_Name n\<rparr>"
| "ObjectKeyFromObject (OtherObject ty k x) = k"

datatype ObjectList =
    NodeList "Node list"
  | OtherList string

fun ListTypeOf :: "ObjectList \<Rightarrow> string" where
  "ListTypeOf (NodeList ns) = ''*v1.NodeList''"
| "ListTypeOf (OtherList ty) = ty"

type_synonym 'o objects = "(NamespacedName \<times> 'o Object) list"

record 'o MockClient =
  ObjectMap :: "string \<rightharpoonup> 'o objects"
  UpdateCb :: "(NamespacedName \<Rightarrow> (string \<rightharpoonup> 'o objects) \<Rightarrow> (string \<rightharpoonup> 'o objects)) option"

definition NewClient :: "'o MockClient" where
  "NewClient = \<lparr>ObjectMap = Map.empty, UpdateCb = None\<rparr>"

subsection \<open>Operations\<close>

text \<open>The map of a type is shared with the caller, who may write to it; a write is an update of \<open>ObjectMap\<close>.\<close>

definition ensureMapForType :: "'o MockClient \<Rightarrow> string \<Rightarrow> 'o objects \<times> 'o MockClient" where
  "ensureMapForType m ty =
     (case ObjectMap m ty of
        None \<Rightarrow> ([], m\<lparr>ObjectMap := (ObjectMap m)(ty \<mapsto> [])\<rparr>)
      | Some objs \<Rightarrow> (objs, m))"

definition CreateMapWithType :: "'o MockClient \<Rightarrow> string \<Rightarrow> 'o objects \<times> 'o MockClient" where
  "CreateMapWithType m ty = ensureMapForType m ty"

definition CreateOrUpdateObjectInMap :: "'o Object \<Rightarrow> 'o MockClient \<Rightarrow> 'o MockClient" where
  "CreateOrUpdateObjectInMap obj m =
     (let ty = TypeOf obj; (relevantMap, m) = ensureMapForType m ty
      in m\<lparr>ObjectMap := (ObjectMap m)(ty \<mapsto> AList.update (ObjectKeyFromObject obj) obj relevantMap)\<rparr>)"

text \<open>\<open>reflect.Value.Set\<close> panics on a value of another type.\<close>

definition GetObjectFromMap :: "'o MockClient \<Rightarrow> 'o Object \<Rightarrow> NamespacedName \<Rightarrow> 'o Object res \<times> 'o MockClient" where
  "GetObjectFromMap m obj k =
     (let (relevantMap, m) = ensureMapForType m (TypeOf obj)
      in case map_of relevantMap k of
           None \<Rightarrow> (Ok obj, m)
         | Some val \<Rightarrow> (if TypeOf val = TypeOf obj then Ok val else Panic ''reflect.Set: value is not assignable'', m))"

text \<open>The object the caller passed in is filled and returned beside the scripted error.\<close>

definition Mock_Get ::
  "(string \<Rightarrow> goerr option) \<Rightarrow> 'o MockClient \<Rightarrow> NamespacedName \<Rightarrow> 'o Object \<Rightarrow> ('o Object \<times> goerr option) res \<times> 'o MockClient" where
  "Mock_Get called m k obj =
     (let m = (case UpdateCb m of None \<Rightarrow> m | Some cb \<Rightarrow> m\<lparr>ObjectMap := cb k (ObjectMap m)\<rparr>);
          (r, m) = GetObjectFromMap m obj k
      in (map_res (\<lambda>obj. (obj, called ''Get'')) r, m))"

fun nodesOf :: "'o objects \<Rightarrow> Node list" where
  "nodesOf [] = []"
| "nodesOf ((k, NodeObject n) # objs) = n # nodesOf objs"
| "nodesOf ((k, OtherObject ty k' x) # objs) = nodesOf objs"

definition getObjectListFromMap ::
  "('o objects \<Rightarrow> 'o objects) \<Rightarrow> 'o MockClient \<Rightarrow> ObjectList \<Rightarrow> ObjectList option \<times> 'o MockClient" where
  "getObjectListFromMap visit m lst =
     (let (relevantMap, m) = ensureMapForType m (ListTypeOf lst)
      in ((case lst of NodeList _ \<Rightarrow> Some (NodeList (nodesOf (visit relevantMap))) | OtherList ty \<Rightarrow> None), m))"

text \<open>\<open>reflect.ValueOf(nil).Elem()\<close> panics. The list options are only passed to testify.\<close>

definition Mock_List ::
  "(string \<Rightarrow> goerr option) \<Rightarrow> ('o objects \<Rightarrow> 'o objects) \<Rightarrow> 'o MockClient \<Rightarrow> ObjectList \<Rightarrow> 'opt
     \<Rightarrow> (ObjectList \<times> goerr option) res \<times> 'o MockClient" where
  "Mock_List called visit m lst opts =
     (let (newList, m) = getObjectListFromMap visit m lst
      in (case newList of
            None \<Rightarrow> Panic ''reflect: call of reflect.Value.Elem on zero Value''
          | Some l \<Rightarrow> Ok (l, called ''List''), m))"

definition Mock_Create :: "(string \<Rightarrow> goerr option) \<Rightarrow> 'o MockClient \<Rightarrow> 'o Object \<Rightarrow> goerr option \<times> 'o MockClient" where
  "Mock_Create called m obj = (called ''Create'', CreateOrUpdateObjectInMap obj m)"

definition Mock_Delete :: "(string \<Rightarrow> goerr option) \<Rightarrow> 'o MockClient \<Rightarrow> 'o Object \<Rightarrow> goerr option \<times> 'o MockClient" where
  "Mock_Delete called m obj = (called ''Delete'', m)"

definition Mock_Update :: "(string \<Rightarrow> goerr option) \<Rightarrow> 'o MockClient \<Rightarrow> 'o Object \<Rightarrow> goerr option \<times> 'o MockClient" where
  "Mock_Update called m obj = (called ''Update'', m)"

definition Mock_Patch :: "(string \<Rightarrow> goerr option) \<Rightarrow> 'o MockClient \<Rightarrow> 'o Object \<Rightarrow> 'patch \<Rightarrow> goerr option \<times> 'o MockClient" where
  "Mock_Patch called m obj patch = (called ''Patch'', m)"

definition Mock_DeleteAllOf :: "(string \<Rightarrow> goerr option) \<Rightarrow> 'o MockClient \<Rightarrow> 'o Object \<Rightarrow> goerr option \<times> 'o MockClient" where
  "Mock_DeleteAllOf called m obj = (called ''DeleteAllOf'', m)"

definition Mock_GroupVersionKindFor :: "'o MockClient \<Rightarrow> 'o Object \<Rightarrow> 'gvk res" where
  "Mock_GroupVersionKindFor m obj = Panic ''unimplemented''"

definition Mock_IsObjectNamespaced :: "'o MockClient \<Rightarrow> 'o Object \<Rightarrow> bool res" where
  "Mock_IsObjectNamespaced m obj = Panic ''unimplemented''"

text \<open>
  \<open>Scheme\<close> and \<open>RESTMapper\<close> assert the type of the value that testify was scripted with; \<open>None\<close> is
  a value of another type.
\<close>

definition Mock_Scheme :: "'scheme option \<Rightarrow> 'o MockClient \<Rightarrow> 'scheme res" where
  "Mock_Scheme scripted m = (case scripted of Some s \<Rightarrow> Ok s | None \<Rightarrow> Panic ''interface conversion: not *runtime.Scheme'')"

definition Mock_RESTMapper :: "'mapper option \<Rightarrow> 'o MockClient \<Rightarrow> 'mapper res" where
  "Mock_RESTMapper scripted m = (case scripted of Some r \<Rightarrow> Ok r | None \<Rightarrow> Panic ''interface conversion: not meta.RESTMapper'')"

text \<open>The status writer has no state of its own; both of its methods panic.\<close>

definition StatusMock_Patch :: "'o Object \<Rightarrow> 'patch \<Rightarrow> goerr option res" where
  "StatusMock_Patch obj patch = Panic ''unimplemented''"

definition StatusMock_Update :: "'o Object \<Rightarrow> goerr option res" where
  "StatusMock_Update obj = Panic ''unimplemented''"

text \<open>The client as the instance provider calls it.\<close>

definition mockKubeList ::
  "(string \<Rightarrow> goerr option) \<Rightarrow> ('o objects \<Rightarrow> 'o objects) \<Rightarrow> (string \<times> string) list \<Rightarrow> ('o MockClient, Node list) act" where
  "mockKubeList called visit labelSelector m =
     (case Mock_List called visit m (NodeList []) labelSelector of
        (Ok (NodeList ns, None), m') \<Rightarrow> (Ok ns, m')
      | (Ok (NodeList ns, Some e), m') \<Rightarrow> (Err e, m')
      | (Ok (OtherList ty, err), m') \<Rightarrow> (case err of None \<Rightarrow> Ok [] | Some e \<Rightarrow> Err e, m')
      | (Err e, m') \<Rightarrow> (Err e, m')
      | (Panic s, m') \<Rightarrow> (Panic s, m'))"

subsection \<open>Fixtures\<close>

definition GetMachineObj ::
  "string \<Rightarrow> (string \<rightharpoonup> string) \<Rightarrow> Taint list \<Rightarrow> ResourceList option \<Rightarrow> NodeSelectorRequirement list \<Rightarrow> Machine" where
  "GetMachineObj name labels taints resource req =
     empty_Machine\<lparr>m_Name := name, m_Labels := labels, m_Requests := resource, m_Requirements := req, m_Taints := taints\<rparr>"

definition zeroProperties :: AgentPoolProperties where
  "zeroProperties =
     \<lparr>NodeLabels = Map.empty, NodeTaints = [], PoolType = None, VMSize = None, OSType = None, Count = None, ScaleSetPriority = None, OSDiskSizeGB = None,
      VnetSubnetID = None, Tags = Map.empty, ProvisioningState = None\<rparr>"

definition GetAgentPoolObj ::
  "string \<Rightarrow> string \<Rightarrow> (string \<rightharpoonup> string option) \<Rightarrow> string option list \<Rightarrow> int \<Rightarrow> string \<Rightarrow> AgentPool" where
  "GetAgentPoolObj apType capacityType labels taints storage vmSize =
     \<lparr>ap_ID = None, ap_Name = None,
      ap_Properties = Some (zeroProperties\<lparr>NodeLabels := labels, NodeTaints := taints, PoolType := Some apType, VMSize := Some vmSize,
        OSType := Some ''Linux'', Count := Some 1, ScaleSetPriority := Some capacityType, OSDiskSizeGB := Some storage\<rparr>)\<rparr>"

definition GetAgentPoolObjWithName :: "string \<Rightarrow> string \<Rightarrow> string \<Rightarrow> AgentPool" where
  "GetAgentPoolObjWithName apName apId vmSize =
     \<lparr>ap_ID = Some apId, ap_Name = Some apName,
      ap_Properties = Some (zeroProperties\<lparr>VMSize := Some vmSize, NodeLabels := [''test'' \<mapsto> Some ''test'']\<rparr>)\<rparr>"

definition GetNodeList :: "Node list \<Rightarrow> ObjectList" where
  "GetNodeList nodes = NodeList nodes"

definition ReadyNode :: Node where
  "ReadyNode =
     \<lparr>n_Name = ''aks-agentpool0-20562481-vmss_0'',
      n_Labels = [''agentpool'' \<mapsto> ''agentpool0'', ''kubernetes.azure.com/agentpool'' \<mapsto> ''agentpool0''],
      n_Conditions = [\<lparr>cond_Type = ''Ready'', cond_Status = ''True''\<rparr>]\<rparr>"

definition NotFoundAzError :: goerr where
  "NotFoundAzError = ResponseError ''NotFound''"

text \<open>How the tests put nodes into the client: into the map of the list type.\<close>

definition registerNodes :: "Node list \<Rightarrow> 'o MockClient \<Rightarrow> 'o MockClient" where
  "registerNodes ns m =
     (let (relevantMap, m) = CreateMapWithType m (ListTypeOf (GetNodeList ns))
      in m\<lparr>ObjectMap := (ObjectMap m)(ListTypeOf (GetNodeList ns) \<mapsto>
           fold (\<lambda>n. let obj = NodeObject n in AList.update (ObjectKeyFromObject obj) obj) ns relevantMap)\<rparr>)"

text \<open>
  The pool asked for is the fixture of the tests with the labels added, the disk size cut to 32 bits
  and no priority: the request leaves it to the service.
\<close>

lemma newAgentPoolObject_fixture:
  "newAgentPoolObject vmSize (GetMachineObj name labels taints (Some rl) reqs) =
    (let labels' = [ProvisionerNameLabelKey \<mapsto> Some ''default''] ++ MapValues labels Some;
         pool = GetAgentPoolObj ''VirtualMachineScaleSets'' ''Regular''
           (Assign2 labels' [LabelMachineType \<mapsto> Some (if Contains vmSize ''Standard_N'' then ''gpu'' else ''cpu'')])
           (map (Some \<circ> taintString) taints) (int32_of (Quantity_Value (Storage rl))) vmSize
     in pool\<lparr>ap_Properties := map_option (\<lambda>p. p\<lparr>ScaleSetPriority := None\<rparr>) (ap_Properties pool)\<rparr>)"
  by (simp add: newAgentPoolObject_def GetMachineObj_def GetAgentPoolObj_def zeroProperties_def Let_def comp_def)

subsection \<open>What a listing shows\<close>

lemma update_nonmember: "k \<notin> fst ` set al \<Longrightarrow> AList.update k v al = al @ [(k, v)]"
  by (induction al) auto

lemma set_update_subset: "set (AList.update k v al) \<subseteq> insert (k, v) (set al)"
  by (induction al) auto

lemma nodesOf_filter:
  "nodesOf objs = map (\<lambda>(k, obj). case obj of NodeObject n \<Rightarrow> n)
     (filter (\<lambda>(k, obj). case obj of NodeObject n \<Rightarrow> True | OtherObject _ _ _ \<Rightarrow> False) objs)"
  by (induction objs rule: nodesOf.induct) simp_all

lemma mset_nodesOf_visit:
  assumes "mset (visit objs) = mset objs"
  shows "mset (nodesOf (visit objs)) = mset (nodesOf objs)"
  unfolding nodesOf_filter using assms by simp

lemma registered:
  assumes "distinct (map n_Name ns)" "list_all (\<lambda>n. n_Name n \<notin> nn_Name ` fst ` set objs) ns"
  shows "fold (\<lambda>n. let obj = NodeObject n in AList.update (ObjectKeyFromObject obj) obj) ns objs =
    objs @ map (\<lambda>n. (\<lparr>nn_Namespace = '''', nn_Name = n_Name n\<rparr>, NodeObject n)) ns"
  using assms
proof (induction ns arbitrary: objs)
  case (Cons n ns)
  have new: "\<lparr>nn_Namespace = '''', nn_Name = n_Name n\<rparr> \<notin> fst ` set objs" using Cons.prems(2) by force
  have step: "AList.update \<lparr>nn_Namespace = '''', nn_Name = n_Name n\<rparr> (NodeObject n) objs =
      objs @ [(\<lparr>nn_Namespace = '''', nn_Name = n_Name n\<rparr>, NodeObject n)]"
    using new by (simp add: update_nonmember)
  have "\<forall>n' \<in> set ns. n_Name n' \<noteq> n_Name n" using Cons.prems(1) by (auto simp: image_iff)
  then show ?case
    using Cons.IH [of "objs @ [(\<lparr>nn_Namespace = '''', nn_Name = n_Name n\<rparr>, NodeObject n)]"] Cons.prems
    by (auto simp: step list_all_iff Let_def)
qed simp

lemma create_other_type:
  "TypeOf obj \<noteq> ty \<Longrightarrow> ObjectMap (CreateOrUpdateObjectInMap obj m) ty = ObjectMap m ty"
  by (simp add: CreateOrUpdateObjectInMap_def ensureMapForType_def Let_def split: option.splits)

lemma creates_other_type:
  "list_all (\<lambda>obj. TypeOf obj \<noteq> ty) objs \<Longrightarrow> ObjectMap (fold CreateOrUpdateObjectInMap objs m) ty = ObjectMap m ty"
  by (induction objs arbitrary: m) (simp_all add: create_other_type)

text \<open>
  What the mocked client lists. Whatever objects were created through it, and whatever
  labels are asked for, listing nodes gives exactly the nodes the test registered in the map of
  the list type: the selector is ignored, and a node created with \<open>Create\<close> is never listed.
\<close>

theorem mock_list_shows_registered_nodes:
  fixes visit :: "'o objects \<Rightarrow> 'o objects"
  assumes "distinct (map n_Name ns)" "list_all (\<lambda>obj. TypeOf obj \<noteq> ''*v1.NodeList'') objs"
    and "called ''List'' = None" "\<And>m. mset (visit m) = mset m"
  shows "\<exists>items m'. mockKubeList called visit labelSelector
      (fold CreateOrUpdateObjectInMap objs (registerNodes ns NewClient)) = (Ok items, m') \<and> mset items = mset ns"
proof -
  let ?m = "fold CreateOrUpdateObjectInMap objs (registerNodes ns NewClient)"
  let ?objs = "map (\<lambda>n. (\<lparr>nn_Namespace = '''', nn_Name = n_Name n\<rparr>, NodeObject n)) ns :: 'o objects"
  have "ObjectMap (registerNodes ns NewClient) ''*v1.NodeList'' = Some ?objs"
    using registered [OF assms(1), of "[]"]
    by (simp add: registerNodes_def CreateMapWithType_def ensureMapForType_def NewClient_def GetNodeList_def list_all_iff)
  then have map: "ObjectMap ?m ''*v1.NodeList'' = Some ?objs"
    using creates_other_type [OF assms(2)] by simp
  have "nodesOf ?objs = ns" by (induction ns) simp_all
  then have "mset (nodesOf (visit ?objs)) = mset ns" using mset_nodesOf_visit [of visit ?objs, OF assms(4)] by simp
  moreover have "mockKubeList called visit labelSelector ?m = (Ok (nodesOf (visit ?objs)), ?m)"
    using map assms(3) by (simp add: mockKubeList_def Mock_List_def getObjectListFromMap_def ensureMapForType_def)
  ultimately show ?thesis by blast
qed

definition otherPoolNode :: Node where
  "otherPoolNode = \<lparr>n_Name = ''aks-other-1-vmss_0'', n_Labels = [''agentpool'' \<mapsto> ''other''], n_Conditions = []\<rparr>"

theorem mock_list_shows_registered_nodes_witness:
  "\<exists>m'. mockKubeList (\<lambda>_. None) (\<lambda>m. m) [(''agentpool'', ''other'')]
     (fold CreateOrUpdateObjectInMap [NodeObject otherPoolNode] (registerNodes [ReadyNode] (NewClient :: unit MockClient))) = (Ok [ReadyNode], m')"
  using mock_list_shows_registered_nodes
    [of "[ReadyNode]" "[NodeObject otherPoolNode]" "\<lambda>_. None" "\<lambda>m. m" "[(''agentpool'', ''other'')]"]
  by (auto simp: mset_single_iff)

subsection \<open>What a lookup gives\<close>

text \<open>Every object is kept under its own type and key.\<close>

definition objects_typed :: "'o MockClient \<Rightarrow> bool" where
  "objects_typed m \<longleftrightarrow> (\<forall>ty objs. ObjectMap m ty = Some objs \<longrightarrow> ty \<noteq> ''*v1.NodeList'' \<longrightarrow> (\<forall>(k, obj) \<in> set objs. TypeOf obj = ty))"

lemma objects_typed_create:
  assumes "objects_typed m"
  shows "objects_typed (CreateOrUpdateObjectInMap obj m)"
proof -
  let ?old = "fst (ensureMapForType m (TypeOf obj))"
  have at: "ObjectMap (CreateOrUpdateObjectInMap obj m) (TypeOf obj) = Some (AList.update (ObjectKeyFromObject obj) obj ?old)"
    by (simp add: CreateOrUpdateObjectInMap_def Let_def split: prod.splits)
  have old: "TypeOf o' = TypeOf obj" if "(k, o') \<in> set ?old" "TypeOf obj \<noteq> ''*v1.NodeList''" for k o'
    using assms that by (fastforce simp: objects_typed_def ensureMapForType_def split: option.splits)
  show ?thesis
    unfolding objects_typed_def
  proof (intro allI impI)
    fix ty objs assume objs: "ObjectMap (CreateOrUpdateObjectInMap obj m) ty = Some objs" "ty \<noteq> ''*v1.NodeList''"
    show "\<forall>(k, obj) \<in> set objs. TypeOf obj = ty"
    proof (cases "ty = TypeOf obj")
      case True
      then have "set objs \<subseteq> insert (ObjectKeyFromObject obj, obj) (set ?old)"
        using objs(1) at set_update_subset [of "ObjectKeyFromObject obj" obj ?old] by simp
      then show ?thesis using old objs(2) True by blast
    next
      case False
      then have "ObjectMap m ty = Some objs" using objs(1) create_other_type [of obj ty m] by simp
      then show ?thesis using assms objs(2) by (simp add: objects_typed_def)
    qed
  qed
qed

text \<open>
  An object that was created is found again under its key by a lookup of the same type, until an
  object with the same type and key is created.
\<close>

lemma mock_get_returns_created:
  assumes "UpdateCb m = None" "TypeOf dst = TypeOf obj"
  shows "fst (Mock_Get called (CreateOrUpdateObjectInMap obj m) (ObjectKeyFromObject obj) dst) = Ok (obj, called ''Get'')"
proof -
  let ?m = "CreateOrUpdateObjectInMap obj m"
  have "UpdateCb ?m = None"
    using assms(1) by (simp add: CreateOrUpdateObjectInMap_def ensureMapForType_def Let_def split: option.splits)
  moreover have "\<exists>objs. ObjectMap ?m (TypeOf obj) = Some objs \<and> map_of objs (ObjectKeyFromObject obj) = Some obj"
    by (simp add: CreateOrUpdateObjectInMap_def Let_def update_conv' split: prod.splits)
  ultimately show ?thesis
    using assms(2) by (auto simp: Mock_Get_def GetObjectFromMap_def ensureMapForType_def Let_def)
qed

end
