(* ===== verification/GoMock.thy ===== *)
theory GoMock
  imports AgentPools
begin

text \<open>
  The generated mocks of the agent pool client (\<open>pkg/fake/azure_client.go\<close>) and of the SDK's
  polling handler (\<open>pkg/fake/pollingHandler.go\<close>), with the part of gomock (vendored) they rest
  on: expected calls with matchers, counts and return values. Prerequisites (\<open>After\<close>, \<open>InOrder\<close>),
  and variadic methods are left out, the mocks use none of them.
\<close>

subsection \<open>gomock\<close>

text \<open>The dynamic values that cross the mocks: \<open>VNil\<close> is the nil interface, \<open>None\<close> under a constructor
  the zero value of that type (the nil pointer, the zero response); pollers, pagers and responses are
  opaque.\<close>

datatype goval =
    VNil
  | VString string
  | VBool bool
  | VError goerr
  | VPoller "nat option"
  | VPager "nat option"
  | VResponse "nat option"
  | VPool AgentPool
  | VGetResponse "AgentPool option"
  | VOther string

record Expectation =
  receiver :: nat
  meth :: string
  matchers :: "(goval \<Rightarrow> bool) list"
  minCalls :: int
  maxCalls :: int
  numCalls :: int
  outs :: "goval list"
  returns :: "goval list"

record Controller =
  expectedCalls :: "Expectation list"
  exhaustedCalls :: "Expectation list"

definition newCall :: "nat \<Rightarrow> string \<Rightarrow> goval list \<Rightarrow> (goval \<Rightarrow> bool) list \<Rightarrow> Expectation" where
  "newCall recv m zeros args =
     \<lparr>receiver = recv, meth = m, matchers = args, minCalls = 1, maxCalls = 1, numCalls = 0, outs = zeros, returns = zeros\<rparr>"

definition Times :: "int \<Rightarrow> Expectation \<Rightarrow> Expectation" where
  "Times n c = c\<lparr>minCalls := n, maxCalls := n\<rparr>"

definition AnyTimes :: "Expectation \<Rightarrow> Expectation" where
  "AnyTimes c = c\<lparr>minCalls := 0, maxCalls := 10 ^ 8\<rparr>"

definition MinTimes :: "int \<Rightarrow> Expectation \<Rightarrow> Expectation" where
  "MinTimes n c = c\<lparr>minCalls := n, maxCalls := (if maxCalls c = 1 then 10 ^ 8 else maxCalls c)\<rparr>"

definition MaxTimes :: "int \<Rightarrow> Expectation \<Rightarrow> Expectation" where
  "MaxTimes n c = c\<lparr>maxCalls := n, minCalls := (if minCalls c = 1 then 0 else minCalls c)\<rparr>"

text \<open>
  \<open>Return\<close>: a wrong number of values fails the test at once, and so does a value that is not
  assignable to the result type. The type is that of the zero value in \<open>outs\<close>; \<open>VNil\<close> there is the
  zero value of \<open>error\<close>. Only a pointer and an interface can be nil.
\<close>

fun assignable :: "goval \<Rightarrow> goval \<Rightarrow> bool" where
  "assignable VNil v = (case v of VNil \<Rightarrow> True | VError _ \<Rightarrow> True | _ \<Rightarrow> False)"
| "assignable (VPoller _) v = (case v of VNil \<Rightarrow> True | VPoller _ \<Rightarrow> True | _ \<Rightarrow> False)"
| "assignable (VPager _) v = (case v of VNil \<Rightarrow> True | VPager _ \<Rightarrow> True | _ \<Rightarrow> False)"
| "assignable (VResponse _) v = (case v of VNil \<Rightarrow> True | VResponse _ \<Rightarrow> True | _ \<Rightarrow> False)"
| "assignable (VGetResponse _) v = (case v of VGetResponse _ \<Rightarrow> True | _ \<Rightarrow> False)"
| "assignable (VBool _) v = (case v of VBool _ \<Rightarrow> True | _ \<Rightarrow> False)"
| "assignable (VError _) v = False"
| "assignable (VString _) v = (case v of VString _ \<Rightarrow> True | _ \<Rightarrow> False)"
| "assignable (VPool _) v = (case v of VPool _ \<Rightarrow> True | _ \<Rightarrow> False)"
| "assignable (VOther _) v = (case v of VOther _ \<Rightarrow> True | _ \<Rightarrow> False)"

definition Return :: "goval list \<Rightarrow> Expectation \<Rightarrow> Expectation res" where
  "Return rets c =
     (if length rets \<noteq> length (outs c) then Panic ''wrong number of arguments to Return''
      else if \<not> list_all2 assignable (outs c) rets then Panic ''wrong type of argument to Return''
      else Ok (c\<lparr>returns := rets\<rparr>))"

definition satisfied :: "Expectation \<Rightarrow> bool" where
  "satisfied c \<longleftrightarrow> minCalls c \<le> numCalls c"

definition isExhausted :: "Expectation \<Rightarrow> bool" where
  "isExhausted c \<longleftrightarrow> maxCalls c \<le> numCalls c"

definition matches :: "Expectation \<Rightarrow> goval list \<Rightarrow> bool" where
  "matches c args \<longleftrightarrow> list_all2 (\<lambda>m a. m a) (matchers c) args \<and> \<not> isExhausted c"

text \<open>
  \<open>RecordCallWithMethodType\<close>: a call is added when it still allows one call; what \<open>Return\<close> and
  \<open>Times\<close> change later is in \<open>call\<close> already.
\<close>

definition RecordCall :: "Expectation \<Rightarrow> Controller \<Rightarrow> Controller" where
  "RecordCall call ctrl = ctrl\<lparr>expectedCalls := expectedCalls ctrl @ [call]\<rparr>"

text \<open>\<open>Call\<close>: the first expected call that matches; none fails the test (\<open>T.Fatalf\<close>).\<close>

definition Call :: "nat \<Rightarrow> string \<Rightarrow> goval list \<Rightarrow> (Controller, goval list) act" where
  "Call recv m args ctrl =
     (case List.extract (\<lambda>c. receiver c = recv \<and> meth c = m \<and> matches c args) (expectedCalls ctrl) of
        None \<Rightarrow> (Panic (''Unexpected call to '' @ m), ctrl)
      | Some (before, c, after) \<Rightarrow>
          (let c' = c\<lparr>numCalls := numCalls c + 1\<rparr>
           in (Ok (returns c'),
               if isExhausted c'
               then ctrl\<lparr>expectedCalls := before @ after, exhaustedCalls := exhaustedCalls ctrl @ [c']\<rparr>
               else ctrl\<lparr>expectedCalls := before @ c' # after\<rparr>)))"

definition Failures :: "Controller \<Rightarrow> Expectation list" where
  "Failures ctrl = filter (\<lambda>c. \<not> satisfied c) (expectedCalls ctrl)"

definition Finish :: "Controller \<Rightarrow> unit res" where
  "Finish ctrl = (if Failures ctrl = [] then Ok () else Panic ''aborting test due to missing call(s)'')"

text \<open>Type assertions: \<open>v, _ := x.(T)\<close> gives the zero value, \<open>x.(T)\<close> panics.\<close>

definition asError :: "goval \<Rightarrow> goerr option" where
  "asError v = (case v of VError e \<Rightarrow> Some e | _ \<Rightarrow> None)"

definition asPoller :: "goval \<Rightarrow> nat option" where
  "asPoller v = (case v of VPoller p \<Rightarrow> p | _ \<Rightarrow> None)"

definition asPager :: "goval \<Rightarrow> nat option" where
  "asPager v = (case v of VPager p \<Rightarrow> p | _ \<Rightarrow> None)"

definition asGetResponse :: "goval \<Rightarrow> AgentPool option" where
  "asGetResponse v = (case v of VGetResponse p \<Rightarrow> p | _ \<Rightarrow> None)"

definition mustBool :: "goval \<Rightarrow> bool res" where
  "mustBool v = (case v of VBool b \<Rightarrow> Ok b | _ \<Rightarrow> Panic ''interface conversion: not bool'')"

definition mustError :: "goval \<Rightarrow> goerr res" where
  "mustError v = (case v of VError e \<Rightarrow> Ok e | _ \<Rightarrow> Panic ''interface conversion: not error'')"

definition mustResponse :: "goval \<Rightarrow> nat option res" where
  "mustResponse v = (case v of VResponse r \<Rightarrow> Ok r | _ \<Rightarrow> Panic ''interface conversion: not *http.Response'')"

subsection \<open>The mock of the agent pool client\<close>

text \<open>
  A mock is its identity; \<open>EXPECT\<close> returns the recorder, whose methods record a call with the
  zero values of the method's results. A nil poller, pager or error is \<open>None\<close>; the zero response
  of \<open>Get\<close> too.
\<close>

definition MockAgentPools_BeginCreateOrUpdate ::
  "nat \<Rightarrow> goval \<Rightarrow> string \<Rightarrow> string \<Rightarrow> string \<Rightarrow> AgentPool \<Rightarrow> goval \<Rightarrow> (Controller, nat option \<times> goerr option) act" where
  "MockAgentPools_BeginCreateOrUpdate m ctx rg name pool parameters options =
     act_bind (Call m ''BeginCreateOrUpdate'' [ctx, VString rg, VString name, VString pool, VPool parameters, options])
       (\<lambda>ret w. (Ok (asPoller (ret ! 0), asError (ret ! 1)), w))"

definition MockAgentPools_BeginDelete ::
  "nat \<Rightarrow> goval \<Rightarrow> string \<Rightarrow> string \<Rightarrow> string \<Rightarrow> goval \<Rightarrow> (Controller, nat option \<times> goerr option) act" where
  "MockAgentPools_BeginDelete m ctx rg name pool options =
     act_bind (Call m ''BeginDelete'' [ctx, VString rg, VString name, VString pool, options])
       (\<lambda>ret w. (Ok (asPoller (ret ! 0), asError (ret ! 1)), w))"

definition MockAgentPools_Get ::
  "nat \<Rightarrow> goval \<Rightarrow> string \<Rightarrow> string \<Rightarrow> string \<Rightarrow> goval \<Rightarrow> (Controller, AgentPool option \<times> goerr option) act" where
  "MockAgentPools_Get m ctx rg name pool options =
     act_bind (Call m ''Get'' [ctx, VString rg, VString name, VString pool, options])
       (\<lambda>ret w. (Ok (asGetResponse (ret ! 0), asError (ret ! 1)), w))"

definition MockAgentPools_NewListPager :: "nat \<Rightarrow> string \<Rightarrow> string \<Rightarrow> goval \<Rightarrow> (Controller, nat option) act" where
  "MockAgentPools_NewListPager m rg name options =
     act_bind (Call m ''NewListPager'' [VString rg, VString name, options]) (\<lambda>ret w. (Ok (asPager (ret ! 0)), w))"

definition Recorder_BeginCreateOrUpdate :: "nat \<Rightarrow> (goval \<Rightarrow> bool) list \<Rightarrow> Expectation" where
  "Recorder_BeginCreateOrUpdate m args = newCall m ''BeginCreateOrUpdate'' [VPoller None, VNil] args"

definition Recorder_BeginDelete :: "nat \<Rightarrow> (goval \<Rightarrow> bool) list \<Rightarrow> Expectation" where
  "Recorder_BeginDelete m args = newCall m ''BeginDelete'' [VPoller None, VNil] args"

definition Recorder_Get :: "nat \<Rightarrow> (goval \<Rightarrow> bool) list \<Rightarrow> Expectation" where
  "Recorder_Get m args = newCall m ''Get'' [VGetResponse None, VNil] args"

definition Recorder_NewListPager :: "nat \<Rightarrow> (goval \<Rightarrow> bool) list \<Rightarrow> Expectation" where
  "Recorder_NewListPager m args = newCall m ''NewListPager'' [VPager None] args"

subsection \<open>The mock of the polling handler\<close>

definition MockPoll_Done :: "nat \<Rightarrow> (Controller, bool) act" where
  "MockPoll_Done m = act_bind (Call m ''Done'' []) (\<lambda>ret w. (mustBool (ret ! 0), w))"

text \<open>\<open>Poll\<close> asserts both results without a check: it returns a response and an error, or panics.\<close>

definition MockPoll_Poll :: "nat \<Rightarrow> goval \<Rightarrow> (Controller, nat option \<times> goerr) act" where
  "MockPoll_Poll m ctx =
     act_bind (Call m ''Poll'' [ctx])
       (\<lambda>ret w. (res_bind (mustResponse (ret ! 0)) (\<lambda>r. res_bind (mustError (ret ! 1)) (\<lambda>e. Ok (r, e))), w))"

definition MockPoll_Result :: "nat \<Rightarrow> goval \<Rightarrow> goval \<Rightarrow> (Controller, goerr option) act" where
  "MockPoll_Result m ctx out = act_bind (Call m ''Result'' [ctx, out]) (\<lambda>ret w. (Ok (asError (ret ! 0)), w))"

definition Recorder_Done :: "nat \<Rightarrow> Expectation" where
  "Recorder_Done m = newCall m ''Done'' [VBool False] []"

definition Recorder_Poll :: "nat \<Rightarrow> (goval \<Rightarrow> bool) \<Rightarrow> Expectation" where
  "Recorder_Poll m ctx = newCall m ''Poll'' [VResponse None, VNil] [ctx]"

definition Recorder_Result :: "nat \<Rightarrow> (goval \<Rightarrow> bool) \<Rightarrow> (goval \<Rightarrow> bool) \<Rightarrow> Expectation" where
  "Recorder_Result m ctx out = newCall m ''Result'' [VNil] [ctx, out]"

text \<open>
  The SDK's \<open>Poller\<close> (vendored) over a mocked handler: \<open>PollUntilDone\<close> without its delays. \<open>Poll\<close>
  asks the handler unless it is done, the loop ends when the handler is done, and \<open>Result\<close> checks
  that once more.
\<close>

definition Poller_Poll :: "nat \<Rightarrow> goval \<Rightarrow> (Controller, goerr option) act" where
  "Poller_Poll h ctx =
     act_bind (MockPoll_Done h) (\<lambda>done w. if done then (Ok None, w) else act_bind (MockPoll_Poll h ctx) (\<lambda>(r, e) w. (Ok (Some e), w)) w)"

definition Poller_Result :: "nat \<Rightarrow> goval \<Rightarrow> goval \<Rightarrow> (Controller, unit) act" where
  "Poller_Result h ctx out =
     act_bind (MockPoll_Done h) (\<lambda>done w.
       if \<not> done then (Err (ErrorString ''poller is in a non-terminal state''), w)
       else (case MockPoll_Result h ctx out w of
               (Ok None, w') \<Rightarrow> (Ok (), w')
             | (Ok (Some e), w') \<Rightarrow> (Err e, w')
             | (Err e, w') \<Rightarrow> (Err e, w')
             | (Panic msg, w') \<Rightarrow> (Panic msg, w')))"

partial_function (option) pollUntilDone :: "nat \<Rightarrow> goval \<Rightarrow> goval \<Rightarrow> Controller \<Rightarrow> (unit res \<times> Controller) option" where
  "pollUntilDone h ctx out w =
     (case Poller_Poll h ctx w of
        (Ok (Some e), w1) \<Rightarrow> Some (Err e, w1)
      | (Err e, w1) \<Rightarrow> Some (Err e, w1)
      | (Panic msg, w1) \<Rightarrow> Some (Panic msg, w1)
      | (Ok None, w1) \<Rightarrow>
          (case MockPoll_Done h w1 of
             (Err e, w2) \<Rightarrow> Some (Err e, w2)
           | (Panic msg, w2) \<Rightarrow> Some (Panic msg, w2)
           | (Ok done, w2) \<Rightarrow> if done then Some (Poller_Result h ctx out w2) else pollUntilDone h ctx out w2))"

subsection \<open>Polling a mock ends\<close>

text \<open>The calls a controller still allows.\<close>

definition allowed :: "Controller \<Rightarrow> nat" where
  "allowed ctrl = (\<Sum>c \<leftarrow> expectedCalls ctrl. nat (maxCalls c - numCalls c))"

lemma Call_Ok_cases:
  assumes "Call recv m args w = (Ok rets, w')"
  obtains before c after c' where "expectedCalls w = before @ c # after" "receiver c = recv" "meth c = m" "matches c args"
    "rets = returns c" "c' = c\<lparr>numCalls := numCalls c + 1\<rparr>"
    "expectedCalls w' = (if isExhausted c' then before @ after else before @ c' # after)"
proof -
  obtain before c after where e: "List.extract (\<lambda>c. receiver c = recv \<and> meth c = m \<and> matches c args) (expectedCalls w) = Some (before, c, after)"
    using assms by (auto simp: Call_def split: option.splits)
  from extract_SomeE [OF e] have "expectedCalls w = before @ c # after" "receiver c = recv" "meth c = m" "matches c args" by auto
  moreover have "rets = returns c" "expectedCalls w' = (if isExhausted (c\<lparr>numCalls := numCalls c + 1\<rparr>) then before @ after else before @ c\<lparr>numCalls := numCalls c + 1\<rparr> # after)"
    using assms e by (auto simp: Call_def Let_def)
  ultimately show ?thesis using that by blast
qed

lemma Call_uses_up: "Call recv m args w = (Ok rets, w') \<Longrightarrow> allowed w' < allowed w"
  by (erule Call_Ok_cases) (auto simp: allowed_def matches_def isExhausted_def)

lemma Call_Ok_or_Panic: "Call recv m args w = (r, w') \<Longrightarrow> (\<exists>x. r = Ok x) \<or> (\<exists>x. r = Panic x \<and> w' = w)"
  by (auto simp: Call_def Let_def split: option.splits)

lemma MockPoll_Done_uses_up: "MockPoll_Done h w = (Ok d, w') \<Longrightarrow> allowed w' < allowed w"
  using Call_uses_up by (fastforce simp: MockPoll_Done_def act_bind_def split: prod.splits res.splits)

lemma Poller_Poll_None: "Poller_Poll h ctx w = (Ok None, w') \<Longrightarrow> allowed w' < allowed w"
proof -
  assume p: "Poller_Poll h ctx w = (Ok None, w')"
  then obtain d w1 where d: "MockPoll_Done h w = (Ok d, w1)" by (auto simp: Poller_Poll_def act_bind_def split: prod.splits res.splits)
  then have "w' = w1" using p by (auto simp: Poller_Poll_def act_bind_def split: prod.splits res.splits if_splits)
  then show ?thesis using MockPoll_Done_uses_up [OF d] by simp
qed

lemma pollUntilDone_ends: "\<exists>y. pollUntilDone h ctx out w = Some y"
proof (induction "allowed w" arbitrary: w rule: less_induct)
  case less
  have "\<exists>y. pollUntilDone h ctx out w2 = Some y"
    if "Poller_Poll h ctx w = (Ok None, w1)" "MockPoll_Done h w1 = (Ok d, w2)" for w1 w2 d
    using less [of w2] Poller_Poll_None [OF that(1)] MockPoll_Done_uses_up [OF that(2)] by simp
  then show ?case by (subst pollUntilDone.simps) (auto split: prod.splits res.splits option.splits)
qed

subsection \<open>Scripted calls\<close>

fun repeatCall :: "nat \<Rightarrow> ('w, 'a) act \<Rightarrow> ('w, 'a list) act" where
  "repeatCall 0 f w = (Ok [], w)"
| "repeatCall (Suc n) f w = act_bind f (\<lambda>x. act_bind (repeatCall n f) (\<lambda>xs w. (Ok (x # xs), w))) w"

lemma extract_last:
  assumes "list_all (\<lambda>c. \<not> P c) xs"
  shows "List.extract P (xs @ [x]) = (if P x then Some (xs, x, []) else None)"
  using assms by (simp add: extract_def list_all_iff dropWhile_append takeWhile_append)

lemma Call_scripted:
  assumes "list_all (\<lambda>c. \<not> (receiver c = recv \<and> meth c = m \<and> matches c args)) (expectedCalls w)"
    and "receiver c = recv" "meth c = m" "list_all2 (\<lambda>p a. p a) (matchers c) args"
  shows "Call recv m args (w\<lparr>expectedCalls := expectedCalls w @ [c]\<rparr>) =
    (if isExhausted c then (Panic (''Unexpected call to '' @ m), w\<lparr>expectedCalls := expectedCalls w @ [c]\<rparr>)
     else (let c' = c\<lparr>numCalls := numCalls c + 1\<rparr> in
       (Ok (returns c), if isExhausted c' then w\<lparr>exhaustedCalls := exhaustedCalls w @ [c']\<rparr>
          else w\<lparr>expectedCalls := expectedCalls w @ [c']\<rparr>)))"
  using assms by (simp add: Call_def extract_last matches_def Let_def)

text \<open>A call expected with \<open>Times(k)\<close> and \<open>Return(rets)\<close>, that no earlier expectation answers, returns
  \<open>rets\<close> exactly \<open>k\<close> times; the next call fails the test, and \<open>Finish\<close> misses nothing more than
  it did without the expectation.
\<close>

theorem scripted_call_returns_k_times:
  assumes "list_all (\<lambda>c. \<not> (receiver c = recv \<and> meth c = m \<and> matches c args)) (expectedCalls ctrl)"
    and "list_all2 (\<lambda>p a. p a) ps args" "list_all2 assignable zeros rets" "0 < k"
  shows "\<exists>c w. Return rets (newCall recv m zeros ps) = Ok c \<and>
    repeatCall (nat k) (Call recv m args) (RecordCall (Times k c) ctrl) = (Ok (replicate (nat k) rets), w) \<and>
    fst (Call recv m args w) = Panic (''Unexpected call to '' @ m) \<and> Failures w = Failures ctrl"
proof -
  define c where "c = (\<lambda>n. \<lparr>receiver = recv, meth = m, matchers = ps, minCalls = k, maxCalls = k, numCalls = k - int n, outs = zeros, returns = rets\<rparr>)"
  have run: "\<exists>w. repeatCall (Suc n) (Call recv m args) (ctrl\<lparr>expectedCalls := expectedCalls ctrl @ [c (Suc n)]\<rparr>) = (Ok (replicate (Suc n) rets), w) \<and>
      expectedCalls w = expectedCalls ctrl" for n
  proof (induction n)
    case 0
    show ?case using Call_scripted [OF assms(1), of "c 1"] assms(2) by (simp add: c_def isExhausted_def act_bind_def)
  next
    case (Suc n)
    then obtain w where w: "repeatCall (Suc n) (Call recv m args) (ctrl\<lparr>expectedCalls := expectedCalls ctrl @ [c (Suc n)]\<rparr>) = (Ok (replicate (Suc n) rets), w)"
      "expectedCalls w = expectedCalls ctrl" by blast
    have "Call recv m args (ctrl\<lparr>expectedCalls := expectedCalls ctrl @ [c (Suc (Suc n))]\<rparr>) =
        (Ok rets, ctrl\<lparr>expectedCalls := expectedCalls ctrl @ [c (Suc n)]\<rparr>)"
      using Call_scripted [OF assms(1), of "c (Suc (Suc n))"] assms(2) by (simp add: c_def isExhausted_def)
    then show ?case using w by (subst repeatCall.simps) (simp add: act_bind_def del: repeatCall.simps)
  qed
  have k: "nat k = Suc (nat k - 1)" using assms(4) by simp
  have start: "RecordCall (Times k (newCall recv m zeros ps\<lparr>returns := rets\<rparr>)) ctrl = ctrl\<lparr>expectedCalls := expectedCalls ctrl @ [c (nat k)]\<rparr>"
    using assms(4) by (simp add: RecordCall_def Times_def newCall_def c_def)
  obtain w where w: "repeatCall (nat k) (Call recv m args) (ctrl\<lparr>expectedCalls := expectedCalls ctrl @ [c (nat k)]\<rparr>) = (Ok (replicate (nat k) rets), w)"
    "expectedCalls w = expectedCalls ctrl" using run [of "nat k - 1"] k by metis
  have "List.extract (\<lambda>c. receiver c = recv \<and> meth c = m \<and> matches c args) (expectedCalls ctrl) = None"
    using assms(1) by (auto simp: extract_None_iff list_all_iff)
  then have "fst (Call recv m args w) = Panic (''Unexpected call to '' @ m)" by (simp add: Call_def w(2))
  moreover have "Return rets (newCall recv m zeros ps) = Ok (newCall recv m zeros ps\<lparr>returns := rets\<rparr>)"
    using assms(3) list_all2_lengthD [OF assms(3)] by (simp add: Return_def newCall_def)
  ultimately show ?thesis using w start by (auto simp: Failures_def)
qed

theorem scripted_call_returns_k_times_witness:
  "\<exists>c w. Return [VBool True] (Recorder_Done 7) = Ok c \<and>
    repeatCall 3 (Call 7 ''Done'' []) (RecordCall (Times 3 c) \<lparr>expectedCalls = [], exhaustedCalls = []\<rparr>) = (Ok [[VBool True], [VBool True], [VBool True]], w) \<and>
    fst (Call 7 ''Done'' [] w) = Panic ''Unexpected call to Done''"
  using scripted_call_returns_k_times [of 7 "''Done''" "[]" "\<lparr>expectedCalls = [], exhaustedCalls = []\<rparr>" "[]" "[VBool False]" "[VBool True]" 3]
  by (auto simp add: Recorder_Done_def numeral_3_eq_3)

subsection \<open>What a scripted handler answers\<close>

definition fresh :: Controller where
  "fresh = \<lparr>expectedCalls = [], exhaustedCalls = []\<rparr>"

text \<open>The script of the tests: \<open>Done\<close> is true \<open>k\<close> times, \<open>Result\<close> returns nil once.\<close>

definition doneScript :: "nat \<Rightarrow> int \<Rightarrow> Controller" where
  "doneScript h k =
     RecordCall ((Recorder_Result h (\<lambda>_. True) (\<lambda>_. True))\<lparr>returns := [VNil]\<rparr>)
       (RecordCall (Times k ((Recorder_Done h)\<lparr>returns := [VBool True]\<rparr>)) fresh)"

definition scriptAt :: "nat \<Rightarrow> int \<Rightarrow> int \<Rightarrow> Expectation list \<Rightarrow> Controller" where
  "scriptAt h k n ex =
     \<lparr>expectedCalls =
        [\<lparr>receiver = h, meth = ''Done'', matchers = [], minCalls = k, maxCalls = k, numCalls = n, outs = [VBool False], returns = [VBool True]\<rparr>,
         \<lparr>receiver = h, meth = ''Result'', matchers = [\<lambda>_. True, \<lambda>_. True], minCalls = 1, maxCalls = 1, numCalls = 0, outs = [VNil], returns = [VNil]\<rparr>],
      exhaustedCalls = ex\<rparr>"

lemma doneScript_scriptAt: "doneScript h k = scriptAt h k 0 []"
  by (simp add: doneScript_def RecordCall_def Times_def Recorder_Done_def Recorder_Result_def newCall_def fresh_def scriptAt_def)

lemma scriptAt_Done: "n + 1 < k \<Longrightarrow> MockPoll_Done h (scriptAt h k n ex) = (Ok True, scriptAt h k (n + 1) ex)"
  by (simp add: MockPoll_Done_def Call_def scriptAt_def extract_Cons_code matches_def isExhausted_def act_bind_def mustBool_def)

lemma scriptAt_Done_last:
  "\<exists>w. MockPoll_Done h (scriptAt h k (k - 1) ex) = (Ok True, w) \<and>
     expectedCalls w = [\<lparr>receiver = h, meth = ''Result'', matchers = [\<lambda>_. True, \<lambda>_. True], minCalls = 1, maxCalls = 1, numCalls = 0, outs = [VNil], returns = [VNil]\<rparr>]"
  by (simp add: MockPoll_Done_def Call_def scriptAt_def extract_Cons_code matches_def isExhausted_def act_bind_def mustBool_def)

lemma no_Done_panics:
  "list_all (\<lambda>c. meth c \<noteq> ''Done'') (expectedCalls w) \<Longrightarrow> MockPoll_Done h w = (Panic ''Unexpected call to Done'', w)"
proof -
  assume "list_all (\<lambda>c. meth c \<noteq> ''Done'') (expectedCalls w)"
  then have "List.extract (\<lambda>c. receiver c = h \<and> meth c = ''Done'' \<and> matches c []) (expectedCalls w) = None"
    by (auto simp: extract_None_iff list_all_iff)
  then show ?thesis by (simp add: MockPoll_Done_def Call_def act_bind_def)
qed

text \<open>
  Awaiting a mocked operation asks the handler for \<open>Done\<close> three times: scripted with \<open>Done\<close> true
  \<open>k\<close> times and \<open>Result\<close> nil once, polling succeeds if and only if \<open>k\<close> is at least three, and then
  \<open>Finish\<close> is satisfied only for three.
\<close>

lemma polling_takes_three_done_calls:
  assumes "0 < k"
  shows "\<exists>r w. pollUntilDone h ctx out (scriptAt h k 0 ex) = Some (r, w) \<and>
    r = (if 3 \<le> k then Ok () else Panic ''Unexpected call to Done'') \<and> (3 \<le> k \<longrightarrow> (Finish w = Ok ()) = (k = 3))"
proof -
  consider "k = 1" | "k = 2" | "k = 3" | "3 < k" using assms by linarith
  then show ?thesis
  proof cases
    case 1
    obtain w where w: "MockPoll_Done h (scriptAt h k 0 ex) = (Ok True, w)" "MockPoll_Done h w = (Panic ''Unexpected call to Done'', w)"
      using scriptAt_Done_last [of h k ex] no_Done_panics [of _ h] 1 by force
    then show ?thesis using 1 by (subst pollUntilDone.simps) (simp add: Poller_Poll_def)
  next
    case 2
    obtain w where w: "MockPoll_Done h (scriptAt h k 1 ex) = (Ok True, w)" "MockPoll_Done h w = (Panic ''Unexpected call to Done'', w)"
      using scriptAt_Done_last [of h k ex] no_Done_panics [of _ h] 2 by force
    then show ?thesis
      using 2 scriptAt_Done [of 0 k h ex] by (subst pollUntilDone.simps) (simp add: Poller_Poll_def Poller_Result_def act_bind_def)
  next
    case 3
    obtain w where w: "MockPoll_Done h (scriptAt h k 2 ex) = (Ok True, w)"
      "expectedCalls w = [\<lparr>receiver = h, meth = ''Result'', matchers = [\<lambda>_. True, \<lambda>_. True], minCalls = 1, maxCalls = 1, numCalls = 0, outs = [VNil], returns = [VNil]\<rparr>]"
      using scriptAt_Done_last [of h k ex] 3 by auto
    have "\<exists>w'. MockPoll_Result h ctx out w = (Ok None, w') \<and> expectedCalls w' = []"
      by (simp add: MockPoll_Result_def Call_def w(2) extract_Cons_code matches_def isExhausted_def act_bind_def asError_def)
    then show ?thesis
      using 3 w(1) scriptAt_Done [of 0 k h ex] scriptAt_Done [of 1 k h ex]
      by (subst pollUntilDone.simps) (auto simp: Poller_Poll_def Poller_Result_def act_bind_def Finish_def Failures_def)
  next
    case 4
    obtain w' where w': "MockPoll_Result h ctx out (scriptAt h k 3 ex) = (Ok None, w')" "Failures w' \<noteq> []"
      using 4 by (simp add: MockPoll_Result_def Call_def scriptAt_def extract_Cons_code matches_def isExhausted_def act_bind_def asError_def
          extract_Nil_code Failures_def satisfied_def)
    have ds: "MockPoll_Done h (scriptAt h k 0 ex) = (Ok True, scriptAt h k 1 ex)" "MockPoll_Done h (scriptAt h k 1 ex) = (Ok True, scriptAt h k 2 ex)"
      "MockPoll_Done h (scriptAt h k 2 ex) = (Ok True, scriptAt h k 3 ex)"
      using 4 scriptAt_Done [of 0 k h ex] scriptAt_Done [of 1 k h ex] scriptAt_Done [of 2 k h ex] by simp_all
    have "pollUntilDone h ctx out (scriptAt h k 0 ex) = Some (Ok (), w')"
      by (subst pollUntilDone.simps) (simp add: Poller_Poll_def Poller_Result_def act_bind_def ds w'(1))
    then show ?thesis using 4 w'(2) by (simp add: Finish_def)
  qed
qed

subsection \<open>Deleting an agent pool over the mocks\<close>

text \<open>
  The mocks as the client of the agent pool helpers: a poller is the mocked handler \<open>h\<close> it was built
  over, awaiting a nil poller dereferences it. What listing and reading do is left as in \<open>api\<close>.
\<close>

definition awaitMocked :: "nat option \<Rightarrow> 'r \<Rightarrow> (Controller, 'r) act" where
  "awaitMocked poller resp w =
     (case poller of
        None \<Rightarrow> (Panic ''nil pointer dereference'', w)
      | Some h \<Rightarrow> (case pollUntilDone h (VOther ''ctx'') (VOther ''result'') w of
                    None \<Rightarrow> (Panic ''deadlock'', w)
                  | Some (r, w') \<Rightarrow> (res_bind r (\<lambda>_. Ok resp), w')))"

definition mockedClient :: "nat \<Rightarrow> AgentPool \<Rightarrow> Controller AgentPoolsAPI \<Rightarrow> Controller AgentPoolsAPI" where
  "mockedClient m resp api = api\<lparr>
     BeginCreateOrUpdate := \<lambda>rg name pool ap.
       act_bind (MockAgentPools_BeginCreateOrUpdate m (VOther ''ctx'') rg name pool ap VNil)
         (\<lambda>(p, e) w. (case e of Some err \<Rightarrow> Err err | None \<Rightarrow> Ok (awaitMocked p resp), w)),
     BeginDelete := \<lambda>rg name pool.
       act_bind (MockAgentPools_BeginDelete m (VOther ''ctx'') rg name pool VNil)
         (\<lambda>(p, e) w. (case e of Some err \<Rightarrow> Err err | None \<Rightarrow> Ok (awaitMocked p ()), w))\<rparr>"

text \<open>The expectation of the tests: one \<open>BeginDelete\<close> of the pool, answered by the poller over \<open>h\<close>.\<close>

definition expectDelete :: "nat \<Rightarrow> nat \<Rightarrow> string \<Rightarrow> Expectation" where
  "expectDelete m h pool =
     (Recorder_BeginDelete m [\<lambda>_. True, \<lambda>_. True, \<lambda>_. True, \<lambda>v. v = VString pool, \<lambda>_. True])\<lparr>returns := [VPoller (Some h), VNil]\<rparr>"

text \<open>The handler of the failing tests: not done, and \<open>Poll\<close> answers with the error.\<close>

definition errorScript :: "nat \<Rightarrow> goerr \<Rightarrow> Controller" where
  "errorScript h e =
     RecordCall ((Recorder_Poll h (\<lambda>_. True))\<lparr>returns := [VResponse (Some 0), VError e]\<rparr>) (RecordCall (Recorder_Done h) fresh)"

lemma expectDelete_called:
  assumes "list_all (\<lambda>c. meth c \<noteq> ''BeginDelete'') (expectedCalls w)"
  shows "\<exists>ex. BeginDelete (mockedClient m resp api) rg cluster pool (RecordCall (expectDelete m h pool) w) =
    (Ok (awaitMocked (Some h) ()), w\<lparr>exhaustedCalls := ex\<rparr>)"
proof -
  have "list_all (\<lambda>c. \<not> (receiver c = m \<and> meth c = ''BeginDelete'' \<and> matches c args)) (expectedCalls w)" for args
    using assms by (auto simp: list_all_iff)
  note this [of "[VOther ''ctx'', VString rg, VString cluster, VString pool, VNil]"]
  from Call_scripted [OF this, of "expectDelete m h pool"]
  obtain c where "Call m ''BeginDelete'' [VOther ''ctx'', VString rg, VString cluster, VString pool, VNil] (RecordCall (expectDelete m h pool) w) =
      (Ok [VPoller (Some h), VNil], w\<lparr>exhaustedCalls := exhaustedCalls w @ [c]\<rparr>)"
    by (simp add: RecordCall_def expectDelete_def Recorder_BeginDelete_def newCall_def isExhausted_def)
  then have "BeginDelete (mockedClient m resp api) rg cluster pool (RecordCall (expectDelete m h pool) w) =
      (Ok (awaitMocked (Some h) ()), w\<lparr>exhaustedCalls := exhaustedCalls w @ [c]\<rparr>)"
    by (simp add: mockedClient_def MockAgentPools_BeginDelete_def act_bind_def asPoller_def asError_def)
  then show ?thesis by blast
qed

lemma errorScript_polled:
  "\<exists>w. pollUntilDone h ctx out ((errorScript h e)\<lparr>exhaustedCalls := ex\<rparr>) = Some (Err e, w) \<and> expectedCalls w = []"
  by (subst pollUntilDone.simps)
    (simp add: errorScript_def RecordCall_def Recorder_Poll_def Recorder_Done_def newCall_def fresh_def Poller_Poll_def MockPoll_Done_def
      MockPoll_Poll_def Call_def extract_Cons_code matches_def isExhausted_def act_bind_def mustBool_def mustResponse_def mustError_def)

text \<open>C37.
  \<open>deleteAgentPool\<close> over the generated mocks, as the tests script it. With \<open>Done\<close> true \<open>k\<close> times and a nil
  \<open>Result\<close> the deletion succeeds if and only if \<open>k\<close> is at least three, and \<open>Finish\<close> then finds every
  expectation met only for three. When \<open>Poll\<close> answers with an error, NotFound counts as success,
  every other error is returned, and no expectation is left.
\<close>

theorem mocked_deletion_outcome:
  assumes "0 < k"
  shows "(\<exists>w. deleteAgentPool (mockedClient m resp api) rg pool cluster (RecordCall (expectDelete m h pool) (doneScript h k)) =
      (if 3 \<le> k then Ok () else Panic ''Unexpected call to Done'', w) \<and> (3 \<le> k \<longrightarrow> (Finish w = Ok ()) = (k = 3))) \<and>
    (\<exists>w. deleteAgentPool (mockedClient m resp api) rg pool cluster (RecordCall (expectDelete m h pool) (errorScript h e)) =
      (if IsResponseError e = Some ''NotFound'' then Ok () else Err e, w) \<and> Finish w = Ok ())"
proof -
  have "list_all (\<lambda>c. meth c \<noteq> ''BeginDelete'') (expectedCalls (doneScript h k))" by (simp add: doneScript_scriptAt scriptAt_def)
  from expectDelete_called [OF this, of m resp api rg cluster pool h]
  obtain ex where "BeginDelete (mockedClient m resp api) rg cluster pool (RecordCall (expectDelete m h pool) (doneScript h k)) =
      (Ok (awaitMocked (Some h) ()), scriptAt h k 0 ex)" by (auto simp: doneScript_scriptAt scriptAt_def)
  then have "\<exists>w. deleteAgentPool (mockedClient m resp api) rg pool cluster (RecordCall (expectDelete m h pool) (doneScript h k)) =
      (if 3 \<le> k then Ok () else Panic ''Unexpected call to Done'', w) \<and> (3 \<le> k \<longrightarrow> (Finish w = Ok ()) = (k = 3))"
    using polling_takes_three_done_calls [OF assms, of h "VOther ''ctx''" "VOther ''result''" ex]
    by (auto simp: deleteAgentPool_def awaitMocked_def)
  moreover have "list_all (\<lambda>c. meth c \<noteq> ''BeginDelete'') (expectedCalls (errorScript h e))"
    by (simp add: errorScript_def RecordCall_def Recorder_Poll_def Recorder_Done_def newCall_def fresh_def)
  from expectDelete_called [OF this, of m resp api rg cluster pool h]
  obtain ex where "BeginDelete (mockedClient m resp api) rg cluster pool (RecordCall (expectDelete m h pool) (errorScript h e)) =
      (Ok (awaitMocked (Some h) ()), (errorScript h e)\<lparr>exhaustedCalls := ex\<rparr>)" by blast
  then have "\<exists>w. deleteAgentPool (mockedClient m resp api) rg pool cluster (RecordCall (expectDelete m h pool) (errorScript h e)) =
      (if IsResponseError e = Some ''NotFound'' then Ok () else Err e, w) \<and> Finish w = Ok ()"
    using errorScript_polled [of h "VOther ''ctx''" "VOther ''result''" ex e]
    by (auto simp: deleteAgentPool_def awaitMocked_def Finish_def Failures_def)
  ultimately show ?thesis by blast
qed

theorem mocked_deletion_outcome_witness:
  "\<forall>resp api.
    (\<exists>w. deleteAgentPool (mockedClient 1 resp api) ''rg'' ''agentpool0'' ''cluster''
       (RecordCall (expectDelete 1 2 ''agentpool0'') (doneScript 2 3)) = (Ok (), w) \<and> Finish w = Ok ()) \<and>
    (\<exists>w. deleteAgentPool (mockedClient 1 resp api) ''rg'' ''agentpool0'' ''cluster''
       (RecordCall (expectDelete 1 2 ''agentpool0'') (errorScript 2 (ResponseError ''NotFound''))) = (Ok (), w))"
proof (intro allI)
  fix resp api
  show "(\<exists>w. deleteAgentPool (mockedClient 1 resp api) ''rg'' ''agentpool0'' ''cluster''
       (RecordCall (expectDelete 1 2 ''agentpool0'') (doneScript 2 3)) = (Ok (), w) \<and> Finish w = Ok ()) \<and>
    (\<exists>w. deleteAgentPool (mockedClient 1 resp api) ''rg'' ''agentpool0'' ''cluster''
       (RecordCall (expectDelete 1 2 ''agentpool0'') (errorScript 2 (ResponseError ''NotFound''))) = (Ok (), w))"
    using mocked_deletion_outcome [of 3 1 resp api "''rg''" "''agentpool0''" "''cluster''" 2 "ResponseError ''NotFound''"] by auto
qed

text \<open>The mocked handler cannot report progress. \<open>Poll\<close> asserts that its second result is an error,
  so a handler that is not done and is scripted to poll without an error makes the poller panic.
\<close>

theorem mocked_poll_without_error_panics:
  assumes "MockPoll_Done h w = (Ok False, w1)" "Call h ''Poll'' [ctx] w1 = (Ok [VResponse r, VNil], w2)"
  shows "pollUntilDone h ctx out w = Some (Panic ''interface conversion: not error'', w2)"
  using assms
  by (subst pollUntilDone.simps) (simp add: Poller_Poll_def MockPoll_Poll_def act_bind_def mustResponse_def mustError_def)

theorem mocked_poll_without_error_panics_witness:
  "\<exists>w. pollUntilDone 1 VNil VNil
     (RecordCall ((Recorder_Poll 1 (\<lambda>_. True))\<lparr>returns := [VResponse (Some 0), VNil]\<rparr>) (RecordCall (Recorder_Done 1) fresh)) =
       Some (Panic ''interface conversion: not error'', w)"
proof -
  let ?w = "RecordCall ((Recorder_Poll 1 (\<lambda>_. True))\<lparr>returns := [VResponse (Some 0), VNil]\<rparr>) (RecordCall (Recorder_Done 1) fresh)"
  note defs = MockPoll_Done_def Call_def RecordCall_def Recorder_Poll_def Recorder_Done_def newCall_def fresh_def extract_Cons_code
    matches_def isExhausted_def act_bind_def mustBool_def
  obtain w1 where w1: "MockPoll_Done 1 ?w = (Ok False, w1)"
    "expectedCalls w1 = [(Recorder_Poll 1 (\<lambda>_. True))\<lparr>returns := [VResponse (Some 0), VNil]\<rparr>]" by (simp add: defs)
  then obtain w2 where "Call 1 ''Poll'' [VNil] w1 = (Ok [VResponse (Some 0), VNil], w2)" by (simp add: defs)
  from mocked_poll_without_error_panics [OF w1(1) this, of VNil] show ?thesis by blast
qed

end
