(* ===== verification/Spec2Isabelle.thy ===== *)
theory Spec2Isabelle
  imports Monitor Startup FakeSkus SkuGenerator MockClient GoMock
begin

text \<open>
  The GPU provisioner turns karpenter machines into AKS agent pools: one machine, one agent pool
  with one GPU node. This library models its Go code under \<open>src/pkg/\<close> (and, where a result rests
  on it, the vendored code it calls) and proves what makes it correct.

  \<^bold>\<open>The program.\<close> \<open>cmd/controller\<close> builds the operator (\<open>pkg/operator\<close>) from environment variables
  (\<open>pkg/auth\<close>) and the Azure clients (\<open>pkg/providers/instance/azure_client.go\<close>). The cloud provider
  (\<open>pkg/cloudprovider\<close>) translates between karpenter's machines and the instances of the
  instance provider (\<open>pkg/providers/instance\<close>), which creates, lists, reads and deletes agent pools
  and waits for their nodes in Kubernetes. Beside it the instance type provider
  (\<open>pkg/providers/instancetype\<close>) describes what each VM size offers, from the SKUs Azure lists,
  the prices of the pricing provider (\<open>pkg/providers/pricing\<close>) and the cache of offerings that
  recently failed (\<open>pkg/cache\<close>). \<open>pkg/fake\<close> holds the doubles its tests run against.

  \<^bold>\<open>How it is modelled.\<close> Fallible code returns \<open>'a res\<close>: \<open>Ok\<close>, \<open>Err\<close> with an error that keeps its
  wrapping, or \<open>Panic\<close>. Code with effects is an action \<open>('w, 'a) act\<close> on a world \<open>'w\<close>; the Azure and
  Kubernetes clients, HTTP, MSAL and the key vault are parameters that act on the world. Clocks
  are arguments, times are nanoseconds. Pointers are options, maps are partial functions or,
  where the order or the finiteness matters, association lists; the order in which Go visits a
  map is a parameter. Integers keep their width where they can overflow (\<open>int32_of\<close>, \<open>int64_of\<close>),
  \<open>float64\<close> is rational arithmetic rounded to 53 bits. A loop that a service can keep running for
  ever is a \<open>partial_function\<close> into \<open>option\<close>; theorems about such loops prove that the result is
  \<open>Some\<close>. No fuel is used.

  \<^bold>\<open>Foundations.\<close>
  \<^item> \<open>GoPrelude\<close>: results, actions, pointers and maps, machine integers, the simplification rules
    the components share.
  \<^item> \<open>GoStrings\<close>: \<open>strings\<close>, \<open>strconv\<close>, \<open>%q\<close>; \<open>GoRegexp\<close>: leftmost-first matching of the regular
    expressions used, with the rules that compute the first match; \<open>GoFloat\<close>: \<open>float64\<close>,
    \<open>ParseFloat\<close>, \<open>%f\<close>, with error bounds of rounding.
  \<^item> \<open>KubeTypes\<close>, \<open>Quantities\<close>: machines, nodes, agent pools, resource quantities and lists.
  \<^item> \<open>Scheduling\<close> (vendored karpenter requirements) with the locale \<open>meet_denotation\<close>, \<open>Retry\<close>
    (vendored \<open>retry.OnError\<close>), \<open>Cache\<close> (vendored expiring cache and \<open>pkg/cache\<close>) with the locale
    \<open>ttl_store\<close>, \<open>Skewer\<close> (vendored SKU library).

  \<^bold>\<open>Creating and deleting nodes.\<close>
  \<^item> \<open>ProviderIDs\<close> (\<open>pkg/utils/utils.go\<close>), \<open>Gpu\<close> (\<open>pkg/utils/gpu.go\<close>): identifiers and tables; reading
    back a provider identifier, panics on malformed ones, the GPU tables up to case and suffix.
  \<^item> \<open>AgentPools\<close> (\<open>armutils.go\<close>), \<open>Instance\<close> (\<open>instance.go\<close>), \<open>CloudProvider\<close>: one definition per
    operation, with the variables that retried closures capture as state.
  \<^item> \<open>Lifecycle\<close>: creation refines the specification "refuse long names, create once, wait for
    the node"; it ends, returns the node that became ready and never a nil instance; deletion
    treats a missing pool as deleted; listing walks every page; what is created can be deleted
    through its identifier; and the defects (excluded sizes, disk sizes, pools named vmss).
  \<^item> \<open>Cluster\<close>: the specification above all of this, a map from names to agent pools with the
    transitions each call of karpenter's interface promises. What the Azure service promises is the
    hypothesis \<open>aksService\<close>; under it every run of the cloud provider refines a run of the abstract
    cluster, pools are traceable to calls, and what is listed can be deleted.
  \<^item> \<open>Controllers\<close> (vendored \<open>karpenter-core/pkg/controllers\<close>): the launch of machines and the termination
    of machines and nodes, over any cloud provider. The locale \<open>reports_gone\<close> is what they rely on
    to notice a vanished machine, interpreted by the fake provider. Over the Azure provider a node or
    a machine is let go only when its pool is gone; but a node that cannot be drained is never let
    go, and the termination of a machine whose launch failed does not succeed.

  \<^bold>\<open>What a VM size offers.\<close>
  \<^item> \<open>Labels\<close> (\<open>pkg/apis/v1alpha1\<close>), \<open>InstanceTypes\<close> (\<open>pkg/providers/instancetype\<close>): requirements,
    capacity, overhead, offerings, the provider.
  \<^item> \<open>Overhead\<close>: capacity and reservations are the integer formulas although computed in floating
    point; eviction thresholds, hard or soft, absolute or percentage, and how exact they are.
    \<open>TypeLabels\<close>: the labels of a type. \<open>TypeListing\<close>: what is listed and how often Azure is
    asked.
  \<^item> \<open>Pricing\<close> (\<open>pricing.go\<close> and \<open>client/\<close>) with the locale \<open>pricing_api\<close>, interpreted by
    the fake in \<open>Fakes\<close>, and its extension \<open>pricing_pages\<close>, interpreted by the HTTP client here: the goroutine as a
    step relation; prices are \<open>float64\<close> values, are never lost, and are always the static list or all the pages of one
    fetch of the run. \<open>PriceTables\<close>: the form of the shipped lists and the rules that evaluate a part of one;
    \<open>PriceLists1\<close> to \<open>PriceLists6\<close>: the lists of all 48 regions, in parts of at most 150 lines, each
    proved ascending. \<open>PricingData\<close>: hence every region, listed or not, starts with one price per
    SKU, which carries the provider; what the list of eastus2 lacks and which prices are zero.
  \<^item> \<open>Generator\<close> (\<open>hack/code/prices\<close>): what the generator writes reads back, its wait ends, its regions
    are those shipped, and it writes nothing but the complete source. \<open>SkuGenerator\<close>
    (\<open>hack/code/instancetype_testdata_gen.go\<close>): the SKUs kept and written, when the generated source
    has balanced braces, and when the generator never ends.

  \<^bold>\<open>Starting up and testing.\<close>
  \<^item> \<open>Auth\<close> (\<open>pkg/auth\<close>): what a configuration guarantees, how old a federated token can be.
  \<^item> \<open>Startup\<close> (\<open>azure_client.go\<close>, \<open>pkg/utils/opts\<close>, \<open>pkg/operator\<close>, \<open>pkg/apis/settings\<close>,
    \<open>pkg/staticprovisioner\<close>, \<open>cmd/controller\<close>): when \<open>main\<close> reaches the controllers, the cloud provider
    works on the location, resource groups and cluster name of the environment, with the shipped prices and empty
    caches; an invalid configuration panics before.
  \<^item> \<open>Fakes\<close>, \<open>FakeSkus\<close>, \<open>MockClient\<close> (\<open>pkg/fake\<close>, \<open>pkg/tests\<close>): scripted errors, mocked functions and
    operations, the fake services and the mocked Kubernetes client.
  \<^item> \<open>GoMock\<close>: the generated mocks of the agent pool client and the polling handler, over the part of
    gomock and of the SDK's poller (both vendored) they use. Awaiting a mock always ends; deleting an
    agent pool over the mocks, as the tests script it.
  \<^item> \<open>Compatibility\<close> (vendored karpenter): compatibility of requirements and the selection of offerings,
    with the locale \<open>slice_sort\<close> for what \<open>sort.Slice\<close> promises, interpreted by insertion sort.
    \<open>FakeTypes\<close> (\<open>pkg/fake/instanceType.go\<close>): the fake instance types cover every combination once.
    \<open>FakeCloud\<close> (\<open>pkg/fake/cloudprovider.go\<close>): creation chooses the cheapest compatible type, what is
    created can be read and deleted, and under every interleaving of calls the number of machines
    stays within the allowance, but for creations under way at a reset; a type that cannot be had is preferred to all others.
  \<^item> \<open>Monitor\<close> (\<open>test/e2e/pkg/environment/common/monitor.go\<close>): the monitor of the end-to-end tests; what it
    counts as created nodes is the net change.

  \<^bold>\<open>Not modelled.\<close> The registration of types with the Kubernetes scheme (\<open>pkg/apis/apis.go\<close>), a library;
  of karpenter's controllers, those that do not call the cloud provider's operations on one machine
  (registration, initialization, liveness, consistency, disruption, garbage collection) and the
  eviction of pods, which is a parameter; of gomock, prerequisites between calls, variadic methods, \<open>Do\<close> and
  \<open>SetArg\<close>, which the mocks do not use; gofmt, the file system and the profiler, which are parameters of
  the generators; the end-to-end suites under \<open>test/\<close> and their assertions, which drive a live cluster;
  logging, metrics and events everywhere. Of a price item and of an agent pool only the fields the
  program reads or writes are modelled.
\<close>

end
